(* ===== verification/Prelude.thy ===== *)
theory Prelude
  imports Main
begin

text \<open>
  The part of Go's standard library that the modelled packages use, on byte strings: a Go
  \<^verbatim>\<open>string\<close> is an Isabelle \<^typ>\<open>string\<close>, one character per byte.  Here are the
  \<^verbatim>\<open>strings\<close> functions, the decimal conversions of \<^verbatim>\<open>strconv\<close> and \<^verbatim>\<open>fmt\<close>,
  a \<^verbatim>\<open>fmt.Sprintf\<close> for the verbs \<^verbatim>\<open>%s\<close>, \<^verbatim>\<open>%d\<close> and \<^verbatim>\<open>%%\<close>, and Go's
  error values.  The lemma collections \<open>go_defs\<close> and \<open>go_simps\<close> carry the component proofs.
\<close>

named_theorems go_defs "definitions that are unfolded to evaluate a concrete term"
named_theorems go_simps "rewrite rules for Go's library functions"

section \<open>Bytes\<close>

abbreviation quote_ch :: char where "quote_ch \<equiv> CHR 0x27"
abbreviation dquote_ch :: char where "dquote_ch \<equiv> CHR 0x22"
abbreviation bslash_ch :: char where "bslash_ch \<equiv> CHR 0x5C"
abbreviation nl_ch :: char where "nl_ch \<equiv> CHR 0x0A"
abbreviation cr_ch :: char where "cr_ch \<equiv> CHR 0x0D"
abbreviation tab_ch :: char where "tab_ch \<equiv> CHR 0x09"
abbreviation space_ch :: char where "space_ch \<equiv> CHR 0x20"

definition code_of :: "char \<Rightarrow> nat" where
  "code_of c = (of_char c :: nat)"

definition is_digit :: "char \<Rightarrow> bool" where
  "is_digit c \<longleftrightarrow> c \<in> set ''0123456789''"

definition is_ascii :: "char \<Rightarrow> bool" where
  "is_ascii c \<longleftrightarrow> code_of c < 128"

section \<open>Package strings\<close>

fun HasPrefix :: "string \<Rightarrow> string \<Rightarrow> bool" where
  "HasPrefix s [] = True"
| "HasPrefix [] (p # ps) = False"
| "HasPrefix (c # s) (p # ps) = (c = p \<and> HasPrefix s ps)"

definition TrimPrefix :: "string \<Rightarrow> string \<Rightarrow> string" where
  "TrimPrefix s p = (if HasPrefix s p then drop (length p) s else s)"

text \<open>\<^verbatim>\<open>strings.Index\<close>: the first position of the substring, \<open>None\<close> for Go's \<open>-1\<close>.\<close>

fun Index :: "string \<Rightarrow> string \<Rightarrow> nat option" where
  "Index [] p = (if p = [] then Some 0 else None)"
| "Index (c # s) p =
     (if HasPrefix (c # s) p then Some 0 else map_option Suc (Index s p))"

definition Contains :: "string \<Rightarrow> string \<Rightarrow> bool" where
  "Contains s p \<longleftrightarrow> Index s p \<noteq> None"

text \<open>
  \<^verbatim>\<open>strings.ReplaceAll\<close> for a non-empty old string (the only use the sources make of
  it): left to right, without overlaps.
\<close>

function ReplaceAll :: "string \<Rightarrow> string \<Rightarrow> string \<Rightarrow> string" where
  "ReplaceAll s old new =
     (case s of
        [] \<Rightarrow> []
      | c # cs \<Rightarrow>
          if old \<noteq> [] \<and> HasPrefix s old
          then new @ ReplaceAll (drop (length old) s) old new
          else c # ReplaceAll cs old new)"
  by pat_completeness auto
termination
  by (relation "measure (\<lambda>(s, old, new). length s)") (auto simp: neq_Nil_conv)

declare ReplaceAll.simps [simp del]

fun Join :: "string list \<Rightarrow> string \<Rightarrow> string" where
  "Join [] sep = []"
| "Join [x] sep = x"
| "Join (x # y # ys) sep = x @ sep @ Join (y # ys) sep"

text \<open>\<^verbatim>\<open>strings.Split\<close> with a one-byte separator: always at least one piece.\<close>

fun Split :: "string \<Rightarrow> char \<Rightarrow> string list" where
  "Split [] sep = [[]]"
| "Split (c # s) sep =
     (if c = sep then [] # Split s sep
      else (case Split s sep of [] \<Rightarrow> [[c]] | w # ws \<Rightarrow> (c # w) # ws))"

text \<open>\<^verbatim>\<open>strings.SplitN\<close> with a one-byte separator and a positive limit.\<close>

fun SplitN :: "string \<Rightarrow> char \<Rightarrow> nat \<Rightarrow> string list" where
  "SplitN s sep 0 = []"
| "SplitN s sep (Suc 0) = [s]"
| "SplitN s sep (Suc (Suc n)) =
     (if sep \<in> set s
      then takeWhile (\<lambda>c. c \<noteq> sep) s # SplitN (tl (dropWhile (\<lambda>c. c \<noteq> sep) s)) sep (Suc n)
      else [s])"

text \<open>
  The UTF-8 encodings of the runes for which \<^verbatim>\<open>unicode.IsSpace\<close> holds.
  \<^verbatim>\<open>strings.TrimSpace\<close> removes them at both ends.
\<close>

definition space_runes :: "string list" where
  "space_runes =
     [[CHR 0x09], [CHR 0x0A], [CHR 0x0B], [CHR 0x0C], [CHR 0x0D], [CHR 0x20],
      [CHR 0xC2, CHR 0x85], [CHR 0xC2, CHR 0xA0], [CHR 0xE1, CHR 0x9A, CHR 0x80],
      [CHR 0xE2, CHR 0x80, CHR 0x80], [CHR 0xE2, CHR 0x80, CHR 0x81],
      [CHR 0xE2, CHR 0x80, CHR 0x82], [CHR 0xE2, CHR 0x80, CHR 0x83],
      [CHR 0xE2, CHR 0x80, CHR 0x84], [CHR 0xE2, CHR 0x80, CHR 0x85],
      [CHR 0xE2, CHR 0x80, CHR 0x86], [CHR 0xE2, CHR 0x80, CHR 0x87],
      [CHR 0xE2, CHR 0x80, CHR 0x88], [CHR 0xE2, CHR 0x80, CHR 0x89],
      [CHR 0xE2, CHR 0x80, CHR 0x8A], [CHR 0xE2, CHR 0x80, CHR 0xA8],
      [CHR 0xE2, CHR 0x80, CHR 0xA9], [CHR 0xE2, CHR 0x80, CHR 0xAF],
      [CHR 0xE2, CHR 0x81, CHR 0x9F], [CHR 0xE3, CHR 0x80, CHR 0x80]]"

definition leading_space :: "string list \<Rightarrow> string \<Rightarrow> nat" where
  "leading_space rs s = (case find (HasPrefix s) rs of None \<Rightarrow> 0 | Some r \<Rightarrow> length r)"

function trim_front :: "string list \<Rightarrow> string \<Rightarrow> string" where
  "trim_front rs s =
     (if s = [] \<or> leading_space rs s = 0 then s
      else trim_front rs (drop (leading_space rs s) s))"
  by pat_completeness auto
termination
  by (relation "measure (\<lambda>(rs, s). length s)") auto

declare trim_front.simps [simp del]

definition TrimSpace :: "string \<Rightarrow> string" where
  "TrimSpace s = rev (trim_front (map rev space_runes) (rev (trim_front space_runes s)))"

definition TrimRight :: "string \<Rightarrow> string \<Rightarrow> string" where
  "TrimRight s cutset = rev (dropWhile (\<lambda>c. c \<in> set cutset) (rev s))"

definition TrimLeft :: "string \<Rightarrow> string \<Rightarrow> string" where
  "TrimLeft s cutset = dropWhile (\<lambda>c. c \<in> set cutset) s"

text \<open>
  \<^verbatim>\<open>strings.ToLower\<close> maps an ASCII string byte by byte.  A string with a byte outside
  ASCII goes through Go's Unicode case tables, which are the parameter \<open>uni\<close>; likewise
  \<^verbatim>\<open>strings.ToUpper\<close>.
\<close>

definition lower_byte :: "char \<Rightarrow> char" where
  "lower_byte c = (if 65 \<le> code_of c \<and> code_of c \<le> 90 then char_of (code_of c + 32) else c)"

definition upper_byte :: "char \<Rightarrow> char" where
  "upper_byte c = (if 97 \<le> code_of c \<and> code_of c \<le> 122 then char_of (code_of c - 32) else c)"

definition ToLower :: "(string \<Rightarrow> string) \<Rightarrow> string \<Rightarrow> string" where
  "ToLower uni s = (if list_all is_ascii s then map lower_byte s else uni s)"

definition ToUpper :: "(string \<Rightarrow> string) \<Rightarrow> string \<Rightarrow> string" where
  "ToUpper uni s = (if list_all is_ascii s then map upper_byte s else uni s)"

section \<open>Decimal numbers\<close>

definition digit_ch :: "nat \<Rightarrow> char" where
  "digit_ch d = ''0123456789'' ! d"

fun nat_digits :: "nat \<Rightarrow> string" where
  "nat_digits n = (if n < 10 then [digit_ch n] else nat_digits (n div 10) @ [digit_ch (n mod 10)])"

declare nat_digits.simps [simp del]

text \<open>\<^verbatim>\<open>%d\<close> and \<^verbatim>\<open>strconv.Itoa\<close>.\<close>

definition Itoa :: "int \<Rightarrow> string" where
  "Itoa n = (if n < 0 then CHR ''-'' # nat_digits (nat (- n)) else nat_digits (nat n))"

definition max_int64 :: int where "max_int64 = 9223372036854775807"
definition min_int64 :: int where "min_int64 = - 9223372036854775808"

definition digits_val :: "string \<Rightarrow> int" where
  "digits_val s = foldl (\<lambda>n c. 10 * n + (int (code_of c) - 48)) 0 s"

text \<open>
  \<^verbatim>\<open>strconv.Atoi\<close>: the value and whether an error is returned.  A syntax error comes
  with 0, an out-of-range value with the nearest 64-bit integer.
\<close>

definition Atoi :: "string \<Rightarrow> int \<times> bool" where
  "Atoi s =
     (let neg = (s \<noteq> [] \<and> hd s = CHR ''-'');
          ds = (if s \<noteq> [] \<and> (hd s = CHR ''-'' \<or> hd s = CHR ''+'') then tl s else s);
          v = (if neg then - digits_val ds else digits_val ds)
      in if ds = [] \<or> \<not> list_all is_digit ds then (0, True)
         else if max_int64 < v then (max_int64, True)
         else if v < min_int64 then (min_int64, True)
         else (v, False))"

text \<open>
  \<^verbatim>\<open>fmt.Sscanf(v, "%d", &x)\<close>: after leading space (a newline stops it), an optional sign and
  the longest run of digits; \<open>None\<close> when nothing is assigned.
\<close>

definition Sscanf_d :: "string \<Rightarrow> int option" where
  "Sscanf_d s0 =
     (let s = trim_front (filter (\<lambda>r. r \<noteq> [nl_ch]) space_runes) s0;
          neg = (s \<noteq> [] \<and> hd s = CHR ''-'');
          rest = (if s \<noteq> [] \<and> (hd s = CHR ''-'' \<or> hd s = CHR ''+'') then tl s else s);
          ds = takeWhile is_digit rest;
          v = (if neg then - digits_val ds else digits_val ds)
      in if ds = [] \<or> max_int64 < v \<or> v < min_int64 then None else Some v)"

section \<open>fmt.Sprintf\<close>

datatype fmt_arg = FS string | FD int

fun show_arg :: "fmt_arg \<Rightarrow> string" where
  "show_arg (FS s) = s"
| "show_arg (FD n) = Itoa n"

text \<open>
  The verbs \<^verbatim>\<open>%s\<close> and \<^verbatim>\<open>%d\<close> take the next argument, \<^verbatim>\<open>%%\<close> is a percent
  sign.  \<^verbatim>\<open>Errorf\<close>'s \<^verbatim>\<open>%w\<close> prints like \<^verbatim>\<open>%s\<close> and is written so.
\<close>

fun Sprintf :: "string \<Rightarrow> fmt_arg list \<Rightarrow> string" where
  "Sprintf [] as = []"
| "Sprintf [c] as = [c]"
| "Sprintf (c # d # f) as =
     (if c = CHR ''%'' then
        (if d = CHR ''%'' then CHR ''%'' # Sprintf f as
         else (case as of
                 a # as' \<Rightarrow> show_arg a @ Sprintf f as'
               | [] \<Rightarrow> ''%!'' @ [d] @ ''(MISSING)'' @ Sprintf f []))
      else c # Sprintf (d # f) as)"

text \<open>
  Texts with single quotes are written with backquotes in their place (no modelled text has a
  backquote of its own); \<open>sq\<close> puts the quotes in.
\<close>

definition sq :: "string \<Rightarrow> string" where
  "sq s = map (\<lambda>c. if c = CHR ''`'' then quote_ch else c) s"

section \<open>Errors\<close>

text \<open>
  A Go \<^verbatim>\<open>error\<close>: a plain message, the \<^verbatim>\<open>ConflictError\<close> of package commons, an error
  wrapped with \<^verbatim>\<open>%w\<close> behind a message prefix, or one of the two context errors.
\<close>

datatype go_error =
    Err string
  | ConflictError string
  | Wrap string go_error
  | ContextCanceled
  | DeadlineExceeded

primrec Error :: "go_error \<Rightarrow> string" where
  "Error (Err m) = m"
| "Error (ConflictError m) = m"
| "Error (Wrap m e) = m @ Error e"
| "Error ContextCanceled = ''context canceled''"
| "Error DeadlineExceeded = ''context deadline exceeded''"

text \<open>\<^verbatim>\<open>errors.Is(err, context.Canceled) || errors.Is(err, context.DeadlineExceeded)\<close>.\<close>

primrec is_context_err :: "go_error \<Rightarrow> bool" where
  "is_context_err (Err m) = False"
| "is_context_err (ConflictError m) = False"
| "is_context_err (Wrap m e) = is_context_err e"
| "is_context_err ContextCanceled = True"
| "is_context_err DeadlineExceeded = True"

text \<open>
  \<^verbatim>\<open>%q\<close>, which the sources use in error messages only: quotes, backslashes and the ASCII
  control characters are escaped, other bytes are printed as they are (Go escapes
  unprintable non-ASCII runes too).
\<close>

definition hex_ch :: "nat \<Rightarrow> char" where
  "hex_ch d = (if d < 10 then char_of (48 + d) else char_of (87 + d))"

definition quote_byte :: "char \<Rightarrow> string" where
  "quote_byte c =
     (if c = dquote_ch \<or> c = bslash_ch then [bslash_ch, c]
      else if c = nl_ch then [bslash_ch, CHR ''n'']
      else if c = cr_ch then [bslash_ch, CHR ''r'']
      else if c = tab_ch then [bslash_ch, CHR ''t'']
      else if code_of c = 7 then [bslash_ch, CHR ''a'']
      else if code_of c = 8 then [bslash_ch, CHR ''b'']
      else if code_of c = 11 then [bslash_ch, CHR ''v'']
      else if code_of c = 12 then [bslash_ch, CHR ''f'']
      else if code_of c < 32 \<or> code_of c = 127
      then [bslash_ch, CHR ''x'', hex_ch (code_of c div 16), hex_ch (code_of c mod 16)]
      else [c])"

definition Quote :: "string \<Rightarrow> string" where
  "Quote s = dquote_ch # concat (map quote_byte s) @ [dquote_ch]"

section \<open>Machine integers\<close>

text \<open>
  Go's \<^verbatim>\<open>int\<close> and \<^verbatim>\<open>time.Duration\<close> have 64 bits and wrap around; the difference of two times
  saturates instead.
\<close>

definition wrap64 :: "int \<Rightarrow> int" where
  "wrap64 x = (x + 9223372036854775808) mod 18446744073709551616 - 9223372036854775808"

definition sat64 :: "int \<Rightarrow> int" where
  "sat64 x = max (-9223372036854775808) (min 9223372036854775807 x)"

lemma wrap64_id: "-9223372036854775808 \<le> x \<Longrightarrow> x < 9223372036854775808 \<Longrightarrow> wrap64 x = x"
  by (simp add: wrap64_def)

lemma sat64_id: "-9223372036854775808 \<le> x \<Longrightarrow> x < 9223372036854775808 \<Longrightarrow> sat64 x = x"
  by (simp add: sat64_def)

section \<open>Facts about the string functions\<close>

lemma HasPrefix_iff: "HasPrefix s p \<longleftrightarrow> (\<exists>r. s = p @ r)"
  by (induction s p rule: HasPrefix.induct) auto

lemma leading_space_none: "list_all (\<lambda>r. r \<noteq> [] \<and> hd r \<noteq> c) rs \<Longrightarrow> leading_space rs (c # s) = 0"
proof -
  assume "list_all (\<lambda>r. r \<noteq> [] \<and> hd r \<noteq> c) rs"
  then have "find (HasPrefix (c # s)) rs = None"
    by (induction rs) (auto simp: HasPrefix_iff neq_Nil_conv)
  then show ?thesis by (simp add: leading_space_def)
qed

lemma trim_front_none: "list_all (\<lambda>r. r \<noteq> [] \<and> hd r \<noteq> hd s) rs \<Longrightarrow> trim_front rs s = s"
proof (cases s)
  case (Cons c t)
  assume "list_all (\<lambda>r. r \<noteq> [] \<and> hd r \<noteq> hd s) rs"
  then show ?thesis using leading_space_none [of c rs t] Cons by (simp add: trim_front.simps [of rs])
qed (simp add: trim_front.simps)

text \<open>A text between two characters that are no space, or part of one, is not trimmed.\<close>

lemma TrimSpace_ends:
  assumes "s \<noteq> []" and "list_all (\<lambda>r. r \<noteq> [] \<and> hd r \<noteq> hd s) space_runes"
    and "list_all (\<lambda>r. r \<noteq> [] \<and> hd r \<noteq> last s) (map rev space_runes)"
  shows "TrimSpace s = s"
  using trim_front_none [OF assms(2)] trim_front_none [of "rev s" "map rev space_runes"] assms(1,3)
  by (simp add: TrimSpace_def hd_rev)

lemma HasPrefix_append [simp]: "HasPrefix (p @ r) p"
  by (auto simp: HasPrefix_iff)

lemma HasPrefix_refl [simp]: "HasPrefix p p"
  by (auto simp: HasPrefix_iff)

lemma HasPrefix_Nil_left [simp]: "HasPrefix [] p \<longleftrightarrow> p = []"
  by (cases p) auto

lemma TrimPrefix_append [simp]: "TrimPrefix (p @ r) p = r"
  by (simp add: TrimPrefix_def)

lemma TrimPrefix_prefix: "HasPrefix s p \<Longrightarrow> p @ TrimPrefix s p = s"
  by (auto simp: TrimPrefix_def HasPrefix_iff)

lemma ReplaceAll_Nil [go_simps, simp]: "ReplaceAll [] old new = []"
  by (simp add: ReplaceAll.simps)

lemma ReplaceAll_single [go_simps]:
  "ReplaceAll s [c] new = concat (map (\<lambda>d. if d = c then new else [d]) s)"
proof (induction s)
  case Nil
  then show ?case by simp
next
  case (Cons d s)
  then show ?case by (subst ReplaceAll.simps) auto
qed

lemma Index_Some: "Index s p = Some i \<Longrightarrow> \<exists>a r. s = a @ p @ r \<and> length a = i"
proof (induction s p arbitrary: i rule: Index.induct)
  case (1 p)
  then show ?case by (auto split: if_splits)
next
  case (2 c s p)
  show ?case
  proof (cases "HasPrefix (c # s) p")
    case True
    then show ?thesis using 2 by (auto simp: HasPrefix_iff)
  next
    case False
    with 2 obtain j where j: "Index s p = Some j" "i = Suc j" by auto
    from 2(1)[OF False j(1)] obtain a r where "s = a @ p @ r" "length a = j" by auto
    then have "c # s = (c # a) @ p @ r \<and> length (c # a) = i" using j by simp
    then show ?thesis by blast
  qed
qed

lemma Index_append: "Index (a @ p @ r) p \<noteq> None"
proof (induction a)
  case Nil
  show ?case
  proof (cases "p @ r")
    case Nil
    then show ?thesis by simp
  next
    case (Cons d l)
    then have "HasPrefix (d # l) p" by (metis HasPrefix_append)
    then show ?thesis using Cons by simp
  qed
next
  case (Cons x a)
  then show ?case by auto
qed

lemma Contains_iff: "Contains s p \<longleftrightarrow> (\<exists>a r. s = a @ p @ r)"
  unfolding Contains_def using Index_Some Index_append by (metis not_Some_eq)

lemma Split_not_Nil [simp]: "Split s c \<noteq> []"
  by (induction s) (auto split: list.splits)

lemma Join_Cons: "Join (w # ws) sep = w @ (if ws = [] then [] else sep @ Join ws sep)"
  by (cases ws) auto

lemma Join_Split: "Join (Split s c) [c] = s"
proof (induction s)
  case Nil
  then show ?case by simp
next
  case (Cons d s)
  then show ?case
    by (cases "Split s c") (auto simp: Join_Cons split: if_splits)
qed

lemma Split_no_sep: "w \<in> set (Split s c) \<Longrightarrow> c \<notin> set w"
  by (induction s arbitrary: w) (auto split: list.splits if_splits)

lemma Split_single: "c \<notin> set s \<Longrightarrow> Split s c = [s]"
  by (induction s) auto

lemma Split_append: "c \<notin> set a \<Longrightarrow> Split (a @ c # s) c = a # Split s c"
  by (induction a) auto


section \<open>Step machines that can refuse a step\<close>

fun run_steps :: "('s \<Rightarrow> 'e \<Rightarrow> 'x + 's) \<Rightarrow> 's \<Rightarrow> 'e list \<Rightarrow> 'x + 's" where
  "run_steps step s [] = Inr s"
| "run_steps step s (e # es) =
     (case step s e of Inl x \<Rightarrow> Inl x | Inr s' \<Rightarrow> run_steps step s' es)"

lemma run_steps_append:
  "run_steps step s (es @ fs) =
     (case run_steps step s es of Inl x \<Rightarrow> Inl x | Inr s' \<Rightarrow> run_steps step s' fs)"
  by (induction es arbitrary: s) (auto split: sum.splits)

text \<open>An invariant of a step machine, and what a whole run keeps of it.\<close>

locale step_invariant =
  fixes step :: "'s \<Rightarrow> 'e \<Rightarrow> 'x + 's" and inv :: "'s \<Rightarrow> bool"
  assumes step_keeps: "inv s \<Longrightarrow> step s e = Inr s' \<Longrightarrow> inv s'"
begin

lemma run_keeps: "inv s \<Longrightarrow> run_steps step s es = Inr s' \<Longrightarrow> inv s'"
proof (induction es arbitrary: s)
  case Nil
  then show ?case by simp
next
  case (Cons e es)
  then show ?case by (auto split: sum.splits intro: step_keeps)
qed

end

text \<open>
  A region that can be entered only by a marked step: whoever ends inside it started inside or
  took a marked step.
\<close>

locale step_gate =
  fixes step :: "'s \<Rightarrow> 'e \<Rightarrow> 'x + 's" and inside :: "'s \<Rightarrow> bool" and gate :: 'e
  assumes enter: "step s e = Inr s' \<Longrightarrow> inside s' \<Longrightarrow> inside s \<or> e = gate"
begin

lemma run_enter:
  "run_steps step s es = Inr s' \<Longrightarrow> inside s' \<Longrightarrow> inside s \<or> gate \<in> set es"
proof (induction es arbitrary: s)
  case Nil
  then show ?case by simp
next
  case (Cons e es)
  then obtain s1 where s1: "step s e = Inr s1" "run_steps step s1 es = Inr s'"
    by (auto split: sum.splits)
  from Cons.IH [OF s1(2) Cons.prems(2)] enter [OF s1(1)] show ?case by auto
qed

end

end
