(* ===== verification/SqlSpec.thy ===== *)
theory SqlSpec
  imports Prelude
begin

text \<open>
  The reading that a MySQL-compatible engine (Dolt) gives to the SQL texts the program sends:
  a lexer, a parser and the effect on tables, for the statement forms the sources build.
  This is the specification side: the program itself only builds texts.  How the engine
  reads a backslash escape inside a literal is the parameter \<open>esc\<close>.
\<close>

section \<open>Lexer\<close>

datatype token = Word string | Lit string | Sym char

text \<open>The lexer's mode, with the reversed text collected so far.\<close>

datatype lex_mode = Plain string | InStr string | Esc string | Qt string

definition word_ch :: "char \<Rightarrow> bool" where
  "word_ch c \<longleftrightarrow>
     c \<in> set ''ABCDEFGHIJKLMNOPQRSTUVWXYZabcdefghijklmnopqrstuvwxyz0123456789_.-''"

definition sym_ch :: "char \<Rightarrow> bool" where
  "sym_ch c \<longleftrightarrow> c \<in> set ''(),=''"

definition blank_ch :: "char \<Rightarrow> bool" where
  "blank_ch c \<longleftrightarrow> c \<in> {space_ch, nl_ch, tab_ch}"

definition flush :: "string \<Rightarrow> token list \<Rightarrow> token list" where
  "flush w ts = (if w = [] then ts else Word (rev w) # ts)"

text \<open>
  Outside a literal only word characters, blanks and the symbols of the statement forms are
  read; inside, a doubled quote is a quote and a backslash takes the next character.
\<close>

function lex :: "(char \<Rightarrow> string) \<Rightarrow> lex_mode \<Rightarrow> string \<Rightarrow> token list option" where
  "lex esc (Plain w) [] = Some (flush w [])"
| "lex esc (Plain w) (c # cs) =
     (if c = quote_ch then map_option (flush w) (lex esc (InStr []) cs)
      else if blank_ch c then map_option (flush w) (lex esc (Plain []) cs)
      else if sym_ch c then map_option (\<lambda>ts. flush w (Sym c # ts)) (lex esc (Plain []) cs)
      else if word_ch c then lex esc (Plain (c # w)) cs
      else None)"
| "lex esc (InStr a) [] = None"
| "lex esc (InStr a) (c # cs) =
     (if c = quote_ch then lex esc (Qt a) cs
      else if c = bslash_ch then lex esc (Esc a) cs
      else lex esc (InStr (c # a)) cs)"
| "lex esc (Esc a) [] = None"
| "lex esc (Esc a) (c # cs) = lex esc (InStr (rev (esc c) @ a)) cs"
| "lex esc (Qt a) [] = Some [Lit (rev a)]"
| "lex esc (Qt a) (c # cs) =
     (if c = quote_ch then lex esc (InStr (c # a)) cs
      else map_option (\<lambda>ts. Lit (rev a) # ts) (lex esc (Plain []) (c # cs)))"
  by pat_completeness auto
termination
  by (relation "measure (\<lambda>(esc, m, s). 2 * length s + (case m of Qt _ \<Rightarrow> 1 | _ \<Rightarrow> 0))")
     (auto split: lex_mode.splits)

section \<open>Statements and their parser\<close>

datatype sql_expr = ELit string | ENull | ENow | ENum string

text \<open>\<open>Eq c v\<close> is the condition \<^verbatim>\<open>c = 'v'\<close>.\<close>

datatype cond = Eq string string

datatype stmt =
    Update string "(string \<times> sql_expr) list" "cond list"
  | Delete string "cond list"
  | Insert bool string "string list" "sql_expr list"
  | InsertSelect bool string "string list" "sql_expr list" string "cond list" string "cond list"

definition expect :: "token list \<Rightarrow> token list \<Rightarrow> token list option" where
  "expect ps ts =
     (if take (length ps) ts = ps then Some (drop (length ps) ts) else None)"

fun parse_expr :: "token list \<Rightarrow> (sql_expr \<times> token list) option" where
  "parse_expr (Lit v # ts) = Some (ELit v, ts)"
| "parse_expr (Word w # ts) =
     (if w = ''NULL'' then Some (ENull, ts)
      else if w = ''NOW'' then map_option (\<lambda>ts'. (ENow, ts')) (expect [Sym CHR ''('', Sym CHR '')''] ts)
      else if w \<noteq> [] \<and> list_all (\<lambda>c. is_digit c \<or> c = CHR ''.'' \<or> c = CHR ''-'') w then Some (ENum w, ts)
      else None)"
| "parse_expr _ = None"

text \<open>A list of items separated by commas, up to a given closing token.\<close>

fun parse_exprs :: "nat \<Rightarrow> token list \<Rightarrow> (sql_expr list \<times> token list) option" where
  "parse_exprs 0 ts = None"
| "parse_exprs (Suc n) ts =
     (case parse_expr ts of
        None \<Rightarrow> None
      | Some (e, ts') \<Rightarrow>
          (case ts' of
             Sym c # ts'' \<Rightarrow>
               if c = CHR '','' then map_option (\<lambda>(es, r). (e # es, r)) (parse_exprs n ts'')
               else Some ([e], ts')
           | _ \<Rightarrow> Some ([e], ts')))"

fun parse_cols :: "token list \<Rightarrow> (string list \<times> token list) option" where
  "parse_cols (Word c # Sym s # ts) =
     (if s = CHR '','' then map_option (\<lambda>(cs, r). (c # cs, r)) (parse_cols ts)
      else if s = CHR '')'' then Some ([c], ts) else None)"
| "parse_cols _ = None"

fun parse_sets :: "nat \<Rightarrow> token list \<Rightarrow> ((string \<times> sql_expr) list \<times> token list) option" where
  "parse_sets (Suc n) (Word c # Sym s # ts) =
     (if s \<noteq> CHR ''='' then None
      else (case parse_expr ts of
              None \<Rightarrow> None
            | Some (e, ts') \<Rightarrow>
                (case ts' of
                   Sym d # ts'' \<Rightarrow>
                     if d = CHR '','' then map_option (\<lambda>(es, r). ((c, e) # es, r)) (parse_sets n ts'')
                     else None
                 | _ \<Rightarrow> Some ([(c, e)], ts'))))"
| "parse_sets _ _ = None"

text \<open>Conjoined conditions; stops before \<^verbatim>\<open>AND NOT\<close>.\<close>

fun parse_conds :: "token list \<Rightarrow> (cond list \<times> token list) option" where
  "parse_conds (Word c # Sym s # Lit v # ts) =
     (if s \<noteq> CHR ''='' then None
      else (case ts of
              Word a # Word b # ts' \<Rightarrow>
                if a = ''AND'' \<and> b \<noteq> ''NOT''
                then map_option (\<lambda>(cs, r). (Eq c v # cs, r)) (parse_conds (Word b # ts'))
                else Some ([Eq c v], ts)
            | _ \<Rightarrow> Some ([Eq c v], ts)))"
| "parse_conds _ = None"

definition parse_where :: "token list \<Rightarrow> cond list option" where
  "parse_where ts =
     (case expect [Word ''WHERE''] ts of
        None \<Rightarrow> None
      | Some ts1 \<Rightarrow>
          (case parse_conds ts1 of Some (cs, []) \<Rightarrow> Some cs | _ \<Rightarrow> None))"

definition parse_update :: "token list \<Rightarrow> stmt option" where
  "parse_update ts =
     (case ts of
        Word t # Word s # ts1 \<Rightarrow>
          if s \<noteq> ''SET'' then None
          else (case parse_sets (length ts1) ts1 of
                  None \<Rightarrow> None
                | Some (es, ts2) \<Rightarrow> map_option (Update t es) (parse_where ts2))
      | _ \<Rightarrow> None)"

definition parse_delete :: "token list \<Rightarrow> stmt option" where
  "parse_delete ts =
     (case ts of
        Word f # Word t # ts1 \<Rightarrow>
          if f \<noteq> ''FROM'' then None else map_option (Delete t) (parse_where ts1)
      | _ \<Rightarrow> None)"

definition parse_not_exists :: "token list \<Rightarrow> (string \<times> cond list) option" where
  "parse_not_exists ts =
     (case expect [Word ''AND'', Word ''NOT'', Word ''EXISTS'', Sym CHR ''('', Word ''SELECT'',
                   Word ''1'', Word ''FROM''] ts of
        Some (Word t # Word w # ts1) \<Rightarrow>
          if w \<noteq> ''WHERE'' then None
          else (case parse_conds ts1 of
                  Some (cs, r) \<Rightarrow> if r = [Sym CHR '')''] then Some (t, cs) else None
                | None \<Rightarrow> None)
      | _ \<Rightarrow> None)"

definition parse_select :: "bool \<Rightarrow> string \<Rightarrow> string list \<Rightarrow> token list \<Rightarrow> stmt option" where
  "parse_select ign t cs ts =
     (case parse_exprs (length ts) ts of
        Some (es, Word f # Word t2 # Word w # ts1) \<Rightarrow>
          if f \<noteq> ''FROM'' \<or> w \<noteq> ''WHERE'' then None
          else (case parse_conds ts1 of
                  Some (conds, ts2) \<Rightarrow>
                    map_option (\<lambda>(t3, cs3). InsertSelect ign t cs es t2 conds t3 cs3)
                      (parse_not_exists ts2)
                | None \<Rightarrow> None)
      | _ \<Rightarrow> None)"

definition parse_values :: "bool \<Rightarrow> string \<Rightarrow> string list \<Rightarrow> token list \<Rightarrow> stmt option" where
  "parse_values ign t cs ts =
     (case ts of
        Sym p # ts1 \<Rightarrow>
          (case parse_exprs (length ts1) ts1 of
             Some (es, r) \<Rightarrow>
               if p = CHR ''('' \<and> r = [Sym CHR '')''] then Some (Insert ign t cs es) else None
           | None \<Rightarrow> None)
      | _ \<Rightarrow> None)"

definition parse_into :: "bool \<Rightarrow> token list \<Rightarrow> stmt option" where
  "parse_into ign ts =
     (case ts of
        Word i # Word t # Sym p # ts1 \<Rightarrow>
          if i \<noteq> ''INTO'' \<or> p \<noteq> CHR ''('' then None
          else (case parse_cols ts1 of
                  Some (cs, Word k # ts2) \<Rightarrow>
                    if k = ''VALUES'' then parse_values ign t cs ts2
                    else if k = ''SELECT'' then parse_select ign t cs ts2
                    else None
                | _ \<Rightarrow> None)
      | _ \<Rightarrow> None)"

definition parse_stmt :: "token list \<Rightarrow> stmt option" where
  "parse_stmt ts =
     (case ts of
        Word k # ts1 \<Rightarrow>
          if k = ''UPDATE'' then parse_update ts1
          else if k = ''DELETE'' then parse_delete ts1
          else if k = ''INSERT''
          then (case ts1 of
                  Word i # ts2 \<Rightarrow> if i = ''IGNORE'' then parse_into True ts2 else parse_into False ts1
                | _ \<Rightarrow> None)
          else None
      | _ \<Rightarrow> None)"

definition parse_sql :: "(char \<Rightarrow> string) \<Rightarrow> string \<Rightarrow> stmt option" where
  "parse_sql esc s = Option.bind (lex esc (Plain []) s) parse_stmt"

lemmas parse_defs =
  parse_sql_def parse_stmt_def parse_into_def parse_values_def parse_select_def
  parse_not_exists_def parse_delete_def parse_update_def parse_where_def expect_def
  flush_def word_ch_def sym_ch_def blank_ch_def is_digit_def

section \<open>The effect of a statement on the tables\<close>

datatype val = VNull | VStr string | VNum string | VTime nat

type_synonym row = "string \<Rightarrow> val"
type_synonym tables = "string \<Rightarrow> row list"

primrec eval_expr :: "nat \<Rightarrow> sql_expr \<Rightarrow> val" where
  "eval_expr now (ELit s) = VStr s"
| "eval_expr now ENull = VNull"
| "eval_expr now ENow = VTime now"
| "eval_expr now (ENum n) = VNum n"

primrec holds :: "row \<Rightarrow> cond \<Rightarrow> bool" where
  "holds r (Eq c v) = (r c = VStr v)"

definition matches :: "cond list \<Rightarrow> row \<Rightarrow> bool" where
  "matches cs r = list_all (holds r) cs"

definition set_cols :: "nat \<Rightarrow> (string \<times> sql_expr) list \<Rightarrow> row \<Rightarrow> row" where
  "set_cols now es r = foldl (\<lambda>r (c, e). r(c := eval_expr now e)) r es"

text \<open>Defaults of the columns a statement leaves out, from \<^verbatim>\<open>schema/commons.sql\<close>.\<close>

definition default_row :: "string \<Rightarrow> row" where
  "default_row t =
     (if t = ''wanted'' then
        (\<lambda>_. VNull)(''priority'' := VNum ''2'', ''status'' := VStr ''open'',
           ''effort_level'' := VStr ''medium'', ''sandbox_required'' := VNum ''0'')
      else if t = ''stamps'' then
        (\<lambda>_. VNull)(''confidence'' := VNum ''1'', ''severity'' := VStr ''leaf'')
      else (\<lambda>_. VNull))"

text \<open>The \<^verbatim>\<open>CHECK\<close> of the stamps table: an author cannot stamp themselves.\<close>

definition row_check :: "string \<Rightarrow> row \<Rightarrow> bool" where
  "row_check t r \<longleftrightarrow> (t = ''stamps'' \<longrightarrow> r ''author'' \<noteq> r ''subject'')"

text \<open>Every table has the primary key \<^verbatim>\<open>id\<close>.  \<open>None\<close> is a failed statement.\<close>

definition insert_row :: "bool \<Rightarrow> string \<Rightarrow> row \<Rightarrow> tables \<Rightarrow> tables option" where
  "insert_row ign t r db =
     (if list_ex (\<lambda>r'. r' ''id'' = r ''id'') (db t)
      then (if ign then Some db else None)
      else if \<not> row_check t r then (if ign then Some db else None)
      else Some (db(t := db t @ [r])))"

primrec exec_stmt :: "nat \<Rightarrow> stmt \<Rightarrow> tables \<Rightarrow> tables option" where
  "exec_stmt now (Update t es cs) db =
     Some (db(t := map (\<lambda>r. if matches cs r then set_cols now es r else r) (db t)))"
| "exec_stmt now (Delete t cs) db =
     Some (db(t := filter (\<lambda>r. \<not> matches cs r) (db t)))"
| "exec_stmt now (Insert ign t cols es) db =
     insert_row ign t (set_cols now (zip cols es) (default_row t)) db"
| "exec_stmt now (InsertSelect ign t cols es t2 cs t3 cs3) db =
     (if list_ex (matches cs) (db t2) \<and> \<not> list_ex (matches cs3) (db t3)
      then insert_row ign t (set_cols now (zip cols es) (default_row t)) db
      else Some db)"

fun exec_stmts :: "nat \<Rightarrow> stmt list \<Rightarrow> tables \<Rightarrow> tables option" where
  "exec_stmts now [] db = Some db"
| "exec_stmts now (s # ss) db = Option.bind (exec_stmt now s db) (exec_stmts now ss)"

text \<open>Running a script of texts: each is parsed, then they run in order.\<close>

definition run_sql :: "(char \<Rightarrow> string) \<Rightarrow> nat \<Rightarrow> string list \<Rightarrow> tables \<Rightarrow> tables option" where
  "run_sql esc now texts db =
     Option.bind (those (map (parse_sql esc) texts)) (\<lambda>ss. exec_stmts now ss db)"

end
