(* ===== verification/SqlText.thy ===== *)
theory SqlText
  imports SqlSpec
begin

text \<open>
  SQL literals (\<^verbatim>\<open>internal/commons/commons.go\<close>): the escaping functions and the tag
  literal.  The main fact, \<open>lex_EscapeSQL\<close>, says that an escaped value put between quotes is
  read back as one literal with that value, whatever bytes it has.
\<close>

section \<open>Escaping\<close>

definition EscapeSQL :: "string \<Rightarrow> string" where
  "EscapeSQL s = ReplaceAll (ReplaceAll s [bslash_ch] [bslash_ch, bslash_ch]) [quote_ch] [quote_ch, quote_ch]"

definition EscapeLIKE :: "string \<Rightarrow> string" where
  "EscapeLIKE s =
     (let s1 = EscapeSQL s;
          s2 = ReplaceAll s1 ''%'' [bslash_ch, CHR ''%'']
      in ReplaceAll s2 ''_'' [bslash_ch, CHR ''_''])"

definition CommitSQL :: "string \<Rightarrow> bool \<Rightarrow> string" where
  "CommitSQL msg signed =
     (if signed
      then Sprintf (sq ''CALL DOLT_COMMIT(`-S`, `-m`, `%s`);'' @ [nl_ch]) [FS (EscapeSQL msg)]
      else Sprintf (sq ''CALL DOLT_COMMIT(`-m`, `%s`);'' @ [nl_ch]) [FS (EscapeSQL msg)])"

text \<open>\<^verbatim>\<open>formatTagsJSON\<close>: a JSON array of the tags as an SQL literal.\<close>

definition escape_tag :: "string \<Rightarrow> string" where
  "escape_tag t =
     ReplaceAll (ReplaceAll t [bslash_ch] [bslash_ch, bslash_ch]) [dquote_ch] [bslash_ch, dquote_ch]"

definition formatTagsJSON :: "string list \<Rightarrow> string" where
  "formatTagsJSON tags =
     (if tags = [] then ''NULL''
      else (let escaped = map escape_tag tags;
                jsonStr = Sprintf ''[\"%s\"]'' [FS (Join escaped ''\",\"'')]
            in Sprintf (sq ''`%s`'') [FS (ReplaceAll jsonStr [quote_ch] [quote_ch, quote_ch])]))"

section \<open>Reading an escaped literal back\<close>

definition sql_byte :: "char \<Rightarrow> string" where
  "sql_byte c = (if c = bslash_ch then [bslash_ch, bslash_ch]
                 else if c = quote_ch then [quote_ch, quote_ch] else [c])"

lemma EscapeSQL_bytes: "EscapeSQL s = concat (map sql_byte s)"
  by (induction s) (auto simp: EscapeSQL_def ReplaceAll_single sql_byte_def)

lemma EscapeSQL_Nil [simp]: "EscapeSQL [] = []"
  by (simp add: EscapeSQL_bytes)

lemma EscapeSQL_append: "EscapeSQL (s @ t) = EscapeSQL s @ EscapeSQL t"
  by (simp add: EscapeSQL_bytes)

lemma EscapeSQL_Cons: "EscapeSQL (c # s) = sql_byte c @ EscapeSQL s"
  by (simp add: EscapeSQL_bytes)

text \<open>
  The documented rule for escapes the sources rely on: a backslash before a backslash
  stands for one backslash.
\<close>

locale sql_reader =
  fixes esc :: "char \<Rightarrow> string"
  assumes esc_bslash: "esc bslash_ch = [bslash_ch]"
begin

lemma lex_EscapeSQL:
  "lex esc (InStr a) (EscapeSQL s @ rest) = lex esc (InStr (rev s @ a)) rest"
proof (induction s arbitrary: a)
  case Nil
  show ?case by simp
next
  case (Cons c s)
  then show ?case
    by (auto simp: EscapeSQL_Cons sql_byte_def esc_bslash)
qed

text \<open>A quoted literal that is not followed by another quote is one token with its value.\<close>

lemma lex_literal:
  assumes "c \<noteq> quote_ch"
  shows "lex esc (InStr []) (EscapeSQL s @ quote_ch # c # rest) =
         map_option (\<lambda>ts. Lit s # ts) (lex esc (Plain []) (c # rest))"
  using assms by (simp only: lex_EscapeSQL) simp

lemma lex_literal_end: "lex esc (InStr []) (EscapeSQL s @ [quote_ch]) = Some [Lit s]"
  by (simp only: lex_EscapeSQL) simp

end

text \<open>The escapes of MySQL string literals.\<close>

definition mysql_esc :: "char \<Rightarrow> string" where
  "mysql_esc c =
     (if c = CHR ''0'' then [CHR 0x00]
      else if c = CHR ''b'' then [CHR 0x08]
      else if c = CHR ''n'' then [nl_ch]
      else if c = CHR ''r'' then [cr_ch]
      else if c = CHR ''t'' then [tab_ch]
      else if c = CHR ''Z'' then [CHR 0x1A]
      else if c = CHR ''%'' \<or> c = CHR ''_'' then [bslash_ch, c]
      else [c])"

interpretation mysql: sql_reader mysql_esc
  by unfold_locales (simp add: mysql_esc_def)

end
