(* ===== verification/CommonsTypes.thy ===== *)
theory CommonsTypes
  imports SqlText
begin

text \<open>
  The data of package commons (\<^verbatim>\<open>commons.go\<close>, \<^verbatim>\<open>queries.go\<close>) and its database
  interface \<^verbatim>\<open>DB\<close>.  Struct fields keep their Go names behind a two-letter prefix of the
  struct; a nil pointer is \<open>None\<close>.
\<close>

section \<open>Rows\<close>

record WantedItem =
  wi_ID :: string
  wi_Title :: string
  wi_Description :: string
  wi_Project :: string
  wi_Type :: string
  wi_Priority :: int
  wi_Tags :: "string list"
  wi_PostedBy :: string
  wi_ClaimedBy :: string
  wi_Status :: string
  wi_EffortLevel :: string
  wi_SandboxRequired :: bool
  wi_CreatedAt :: string
  wi_UpdatedAt :: string

record CompletionRecord =
  cr_ID :: string
  cr_WantedID :: string
  cr_CompletedBy :: string
  cr_Evidence :: string
  cr_StampID :: string
  cr_ValidatedBy :: string

record Stamp =
  st_ID :: string
  st_Author :: string
  st_Subject :: string
  st_Quality :: int
  st_Reliability :: int
  st_Severity :: string
  st_ContextID :: string
  st_ContextType :: string
  st_SkillTags :: "string list"
  st_Message :: string

record WantedUpdate =
  wu_Title :: string
  wu_Description :: string
  wu_Project :: string
  wu_Type :: string
  wu_Priority :: int
  wu_EffortLevel :: string
  wu_Tags :: "string list"
  wu_TagsSet :: bool

text \<open>The zero value of the struct, from which the code builds its literals.\<close>

definition zero_WantedItem :: WantedItem where
  "zero_WantedItem =
     \<lparr>wi_ID = [], wi_Title = [], wi_Description = [], wi_Project = [], wi_Type = [],
      wi_Priority = 0, wi_Tags = [], wi_PostedBy = [], wi_ClaimedBy = [], wi_Status = [],
      wi_EffortLevel = [], wi_SandboxRequired = False, wi_CreatedAt = [], wi_UpdatedAt = []\<rparr>"

section \<open>The database interface\<close>

text \<open>
  \<^verbatim>\<open>commons.DB\<close>: the operations as functions on the database's state \<open>'s\<close>.  A
  query reads the state; the others return the new one.  \<open>None\<close> as an error is Go's nil.
  \<open>db_PushBranch\<close> also returns what it wrote to the given writer.
\<close>

record 's DB =
  db_Query :: "string \<Rightarrow> string \<Rightarrow> 's \<Rightarrow> go_error + string"
  db_Exec :: "string \<Rightarrow> string \<Rightarrow> bool \<Rightarrow> string list \<Rightarrow> 's \<Rightarrow> go_error option \<times> 's"
  db_Branches :: "string \<Rightarrow> 's \<Rightarrow> go_error + string list"
  db_DeleteBranch :: "string \<Rightarrow> 's \<Rightarrow> go_error option \<times> 's"
  db_PushBranch :: "string \<Rightarrow> 's \<Rightarrow> go_error option \<times> string \<times> 's"
  db_PushMain :: "'s \<Rightarrow> go_error option \<times> 's"
  db_Sync :: "'s \<Rightarrow> go_error option \<times> 's"
  db_MergeBranch :: "string \<Rightarrow> 's \<Rightarrow> go_error option \<times> 's"
  db_DeleteRemoteBranch :: "string \<Rightarrow> 's \<Rightarrow> go_error option \<times> 's"
  db_PushWithSync :: "'s \<Rightarrow> go_error option \<times> 's"
  db_CanWildWest :: "'s \<Rightarrow> go_error option"

section \<open>Conflicts\<close>

text \<open>\<^verbatim>\<open>isNothingToCommit\<close>; \<open>None\<close> is the nil error.\<close>

definition isNothingToCommit :: "(string \<Rightarrow> string) \<Rightarrow> go_error option \<Rightarrow> bool" where
  "isNothingToCommit uni err =
     (case err of
        None \<Rightarrow> False
      | Some e \<Rightarrow>
          (let lower = ToLower uni (Error e)
           in Contains lower ''nothing to commit'' \<or> Contains lower ''sqlwrite.tocommitid''))"

section \<open>Reading query output line by line (dolt.go)\<close>

definition BranchName :: "string \<Rightarrow> string \<Rightarrow> string" where
  "BranchName rigHandle wantedID = Sprintf ''wl/%s/%s'' [FS rigHandle, FS wantedID]"

definition QueryItemStatus :: "'s DB \<Rightarrow> string \<Rightarrow> string \<Rightarrow> 's \<Rightarrow> go_error + (string \<times> bool)" where
  "QueryItemStatus db wantedID ref s =
     (let query = Sprintf (sq ''SELECT status FROM wanted WHERE id = `%s`'') [FS (EscapeSQL wantedID)]
      in case db_Query db query ref s of
           Inl err \<Rightarrow> Inl err
         | Inr out \<Rightarrow>
             (let lines = Split (TrimSpace out) nl_ch
              in if length lines < 2 then Inr ([], False)
                 else Inr (TrimSpace (lines ! 1), True)))"

text \<open>\<^verbatim>\<open>status, _, _ := QueryItemStatus(...)\<close>: the empty string when not found or failed.\<close>

definition QueryItemStatusAsOf :: "'s DB \<Rightarrow> string \<Rightarrow> string \<Rightarrow> 's \<Rightarrow> string" where
  "QueryItemStatusAsOf db wantedID ref s =
     (case QueryItemStatus db wantedID ref s of Inl _ \<Rightarrow> [] | Inr (status, _) \<Rightarrow> status)"

definition nonblank_lines :: "string list \<Rightarrow> string list" where
  "nonblank_lines ls = filter (\<lambda>l. l \<noteq> []) (map TrimSpace ls)"

definition ListWantedIDs :: "'s DB \<Rightarrow> string \<Rightarrow> 's \<Rightarrow> go_error + string list" where
  "ListWantedIDs db statusFilter s =
     (let q0 = ''SELECT id FROM wanted'';
          q1 = (if statusFilter \<noteq> []
                then q0 @ Sprintf (sq '' WHERE status = `%s`'') [FS (EscapeSQL statusFilter)] else q0);
          query = q1 @ '' ORDER BY created_at DESC LIMIT 50''
      in case db_Query db query [] s of
           Inl err \<Rightarrow> Inl err
         | Inr out \<Rightarrow>
             (let lines = Split (TrimSpace out) nl_ch
              in if length lines < 2 then Inr [] else Inr (nonblank_lines (tl lines))))"

definition ResolveWantedID :: "'s DB \<Rightarrow> string \<Rightarrow> 's \<Rightarrow> go_error + string" where
  "ResolveWantedID db idOrPrefix s =
     (let query = Sprintf (sq ''SELECT id FROM wanted WHERE id LIKE `%s%%` LIMIT 3'')
                    [FS (EscapeLIKE idOrPrefix)]
      in case db_Query db query [] s of
           Inl err \<Rightarrow> Inl err
         | Inr out \<Rightarrow>
             (let lines = Split (TrimSpace out) nl_ch
              in if length lines < 2
                 then Inl (Err (Sprintf ''no wanted item matching %s'' [FS (Quote idOrPrefix)]))
                 else (let matches = nonblank_lines (tl lines)
                       in if matches = []
                          then Inl (Err (Sprintf ''no wanted item matching %s'' [FS (Quote idOrPrefix)]))
                          else if 1 < length matches
                          then Inl (Err (Sprintf ''ambiguous prefix %s matches: %s''
                                          [FS (Quote idOrPrefix), FS (Join matches '', '')]))
                          else Inr (matches ! 0))))"

end
