(* ===== verification/Lifecycle.thy ===== *)
theory Lifecycle
  imports CommonsTypes
begin

text \<open>
  \<^verbatim>\<open>internal/commons/lifecycle.go\<close>: the lifecycle of a wanted item, who may move it, where
  its state lives and what has to be pushed.
\<close>

section \<open>Transitions\<close>

text \<open>
  The Go type is an integer with eight named constants; \<open>OtherTransition\<close> stands for every
  other integer.
\<close>

datatype Transition =
    TransitionClaim | TransitionUnclaim | TransitionDone | TransitionAccept
  | TransitionReject | TransitionClose | TransitionDelete | TransitionUpdate
  | OtherTransition int

record transitionRule =
  tr_from :: string
  tr_to :: string
  tr_name :: string

fun transitionRules :: "Transition \<Rightarrow> transitionRule option" where
  "transitionRules TransitionClaim = Some \<lparr>tr_from = ''open'', tr_to = ''claimed'', tr_name = ''claim''\<rparr>"
| "transitionRules TransitionUnclaim = Some \<lparr>tr_from = ''claimed'', tr_to = ''open'', tr_name = ''unclaim''\<rparr>"
| "transitionRules TransitionDone = Some \<lparr>tr_from = ''claimed'', tr_to = ''in_review'', tr_name = ''done''\<rparr>"
| "transitionRules TransitionAccept = Some \<lparr>tr_from = ''in_review'', tr_to = ''completed'', tr_name = ''accept''\<rparr>"
| "transitionRules TransitionReject = Some \<lparr>tr_from = ''in_review'', tr_to = ''claimed'', tr_name = ''reject''\<rparr>"
| "transitionRules TransitionClose = Some \<lparr>tr_from = ''in_review'', tr_to = ''completed'', tr_name = ''close''\<rparr>"
| "transitionRules TransitionDelete = Some \<lparr>tr_from = ''open'', tr_to = ''withdrawn'', tr_name = ''delete''\<rparr>"
| "transitionRules TransitionUpdate = Some \<lparr>tr_from = ''open'', tr_to = ''open'', tr_name = ''update''\<rparr>"
| "transitionRules (OtherTransition n) = None"

fun transition_code :: "Transition \<Rightarrow> int" where
  "transition_code TransitionClaim = 0"
| "transition_code TransitionUnclaim = 1"
| "transition_code TransitionDone = 2"
| "transition_code TransitionAccept = 3"
| "transition_code TransitionReject = 4"
| "transition_code TransitionClose = 5"
| "transition_code TransitionDelete = 6"
| "transition_code TransitionUpdate = 7"
| "transition_code (OtherTransition n) = n"

definition ValidateTransition :: "string \<Rightarrow> Transition \<Rightarrow> go_error + string" where
  "ValidateTransition currentStatus t =
     (case transitionRules t of
        None \<Rightarrow> Inl (Err (Sprintf ''unknown transition %d'' [FD (transition_code t)]))
      | Some rule \<Rightarrow>
          if currentStatus \<noteq> tr_from rule
          then Inl (Err (Sprintf ''cannot %s: item is %s, not %s''
                          [FS (tr_name rule), FS currentStatus, FS (tr_from rule)]))
          else Inr (tr_to rule))"

section \<open>Where an item's state lives\<close>

record ItemLocation =
  il_LocalStatus :: string
  il_OriginStatus :: string
  il_UpstreamStatus :: string
  il_FetchedOrigin :: bool
  il_FetchedUpstream :: bool

text \<open>
  \<open>fetch\<close> is \<^verbatim>\<open>FetchRemote\<close>, the dolt command line on a remote, which changes the local
  repository's state.  \<^verbatim>\<open>if status, found, err := ...; err == nil && found\<close>:
\<close>

definition status_at :: "'s DB \<Rightarrow> string \<Rightarrow> string \<Rightarrow> 's \<Rightarrow> string" where
  "status_at db wantedID ref s =
     (case QueryItemStatus db wantedID ref s of
        Inr (status, found) \<Rightarrow> if found then status else []
      | Inl _ \<Rightarrow> [])"

definition DetectItemLocation ::
  "(string \<Rightarrow> 's \<Rightarrow> go_error option \<times> 's) \<Rightarrow> 's DB \<Rightarrow> string \<Rightarrow> 's \<Rightarrow> ItemLocation \<times> 's" where
  "DetectItemLocation fetch db wantedID s =
     (let (e1, s1) = fetch ''origin'' s;
          (e2, s2) = fetch ''upstream'' s1;
          fetchedOrigin = (e1 = None);
          fetchedUpstream = (e2 = None)
      in (\<lparr>il_LocalStatus = status_at db wantedID [] s2,
           il_OriginStatus = (if fetchedOrigin then status_at db wantedID ''origin/main'' s2 else []),
           il_UpstreamStatus = (if fetchedUpstream then status_at db wantedID ''upstream/main'' s2 else []),
           il_FetchedOrigin = fetchedOrigin,
           il_FetchedUpstream = fetchedUpstream\<rparr>, s2))"

record PushTarget =
  pt_PushOrigin :: bool
  pt_PushUpstream :: bool
  pt_Hint :: string

definition ResolvePushTarget :: "string \<Rightarrow> ItemLocation \<Rightarrow> PushTarget" where
  "ResolvePushTarget mode loc =
     (if mode \<noteq> ''pr'' then \<lparr>pt_PushOrigin = True, pt_PushUpstream = True, pt_Hint = []\<rparr>
      else
        (let localStatus = il_LocalStatus loc
         in if localStatus = il_OriginStatus loc
            then \<lparr>pt_PushOrigin = False, pt_PushUpstream = False,
                  pt_Hint = (if localStatus \<noteq> il_UpstreamStatus loc
                             then ''Origin is up to date. Create a PR to push changes upstream.''
                             else [])\<rparr>
            else \<lparr>pt_PushOrigin = True, pt_PushUpstream = False,
                  pt_Hint = (if il_OriginStatus loc = il_UpstreamStatus loc
                                \<and> localStatus \<noteq> il_UpstreamStatus loc
                             then ''Pushed to origin. Create a PR when ready to push upstream.''
                             else [])\<rparr>))"

section \<open>Permissions\<close>

definition Admins :: "string \<Rightarrow> bool" where
  "Admins h \<longleftrightarrow> h \<in> set [''julianknutsen'', ''steveyegge'', ''csells'']"

definition CanPerformTransition :: "WantedItem option \<Rightarrow> Transition \<Rightarrow> string \<Rightarrow> bool" where
  "CanPerformTransition itemp t actor =
     (case itemp of
        None \<Rightarrow> False
      | Some item \<Rightarrow>
          (let isPoster = (wi_PostedBy item = actor);
               isAdmin = Admins actor
           in case t of
                TransitionClaim \<Rightarrow> True
              | TransitionUnclaim \<Rightarrow> wi_ClaimedBy item = actor \<or> isPoster
              | TransitionDone \<Rightarrow> wi_ClaimedBy item = actor
              | TransitionAccept \<Rightarrow> (isPoster \<or> isAdmin) \<and> wi_ClaimedBy item \<noteq> actor
              | TransitionReject \<Rightarrow> isPoster \<or> isAdmin
              | TransitionClose \<Rightarrow> isPoster \<or> isAdmin
              | TransitionDelete \<Rightarrow> isPoster
              | _ \<Rightarrow> False))"

definition TransitionLabel :: "Transition \<Rightarrow> string" where
  "TransitionLabel t =
     (case t of
        TransitionClaim \<Rightarrow> ''Claiming...''
      | TransitionUnclaim \<Rightarrow> ''Unclaiming...''
      | TransitionReject \<Rightarrow> ''Rejecting...''
      | TransitionClose \<Rightarrow> ''Closing...''
      | TransitionDelete \<Rightarrow> ''Deleting...''
      | _ \<Rightarrow> ''Working...'')"

definition TransitionName :: "Transition \<Rightarrow> string" where
  "TransitionName t = (case transitionRules t of Some rule \<Rightarrow> tr_name rule | None \<Rightarrow> ''unknown'')"

definition TransitionRequiresInput :: "Transition \<Rightarrow> string" where
  "TransitionRequiresInput t =
     (case t of
        TransitionDone \<Rightarrow> ''requires evidence URL''
      | TransitionAccept \<Rightarrow> ''requires quality rating''
      | _ \<Rightarrow> [])"

section \<open>Deltas\<close>

definition delta_order :: "Transition list" where
  "delta_order =
     [TransitionClaim, TransitionUnclaim, TransitionDone, TransitionAccept, TransitionReject,
      TransitionClose, TransitionDelete, TransitionUpdate]"

fun first_delta :: "Transition list \<Rightarrow> string \<Rightarrow> string \<Rightarrow> string" where
  "first_delta [] mainStatus branchStatus = ''changes''"
| "first_delta (t # ts) mainStatus branchStatus =
     (case transitionRules t of
        Some rule \<Rightarrow>
          if tr_from rule = mainStatus \<and> tr_to rule = branchStatus then tr_name rule
          else first_delta ts mainStatus branchStatus
      | None \<Rightarrow> first_delta ts mainStatus branchStatus)"

definition DeltaLabel :: "string \<Rightarrow> string \<Rightarrow> string" where
  "DeltaLabel mainStatus branchStatus = first_delta delta_order mainStatus branchStatus"

definition ComputeDelta :: "string \<Rightarrow> string \<Rightarrow> bool \<Rightarrow> string" where
  "ComputeDelta mainStatus branchStatus branchExists =
     (if \<not> branchExists then []
      else if mainStatus = [] then ''new''
      else if mainStatus \<noteq> branchStatus then DeltaLabel mainStatus branchStatus
      else ''changes'')"

definition AvailableTransitions :: "WantedItem option \<Rightarrow> string \<Rightarrow> Transition list" where
  "AvailableTransitions itemp actor =
     (case itemp of
        None \<Rightarrow> []
      | Some item \<Rightarrow>
          filter (\<lambda>t. (case ValidateTransition (wi_Status item) t of Inr _ \<Rightarrow> True | Inl _ \<Rightarrow> False)
                      \<and> CanPerformTransition itemp t actor)
            [TransitionClaim, TransitionUnclaim, TransitionDone, TransitionAccept,
             TransitionReject, TransitionClose, TransitionDelete])"


section \<open>The status machine\<close>

lemma ValidateTransition_Inr:
  "ValidateTransition st t = Inr st' \<longleftrightarrow>
     (\<exists>rule. transitionRules t = Some rule \<and> st = tr_from rule \<and> st' = tr_to rule)"
  by (auto simp: ValidateTransition_def split: option.splits)

lemma ValidateTransition_cases:
  assumes "ValidateTransition st t = Inr st'"
  obtains (Claim) "t = TransitionClaim" "st = ''open''" "st' = ''claimed''"
  | (Unclaim) "t = TransitionUnclaim" "st = ''claimed''" "st' = ''open''"
  | (Done) "t = TransitionDone" "st = ''claimed''" "st' = ''in_review''"
  | (Accept) "t = TransitionAccept" "st = ''in_review''" "st' = ''completed''"
  | (Reject) "t = TransitionReject" "st = ''in_review''" "st' = ''claimed''"
  | (Close) "t = TransitionClose" "st = ''in_review''" "st' = ''completed''"
  | (Delete) "t = TransitionDelete" "st = ''open''" "st' = ''withdrawn''"
  | (Update) "t = TransitionUpdate" "st = ''open''" "st' = ''open''"
  using assms by (cases t) (auto simp: ValidateTransition_Inr)

interpretation review_gate:
  step_gate ValidateTransition "\<lambda>st. st \<in> {''in_review'', ''completed''}" TransitionDone
  by unfold_locales (erule ValidateTransition_cases; simp)

interpretation claim_gate:
  step_gate ValidateTransition "\<lambda>st. st \<in> {''claimed'', ''in_review'', ''completed''}" TransitionClaim
  by unfold_locales (erule ValidateTransition_cases; simp)

definition lifecycle_statuses :: "string list" where
  "lifecycle_statuses = [''open'', ''claimed'', ''in_review'', ''completed'', ''withdrawn'']"

interpretation lifecycle:
  step_invariant ValidateTransition "\<lambda>st. st \<in> set lifecycle_statuses"
  by unfold_locales (erule ValidateTransition_cases; simp add: lifecycle_statuses_def)

lemma run_from_terminal:
  assumes "st \<in> {''completed'', ''withdrawn''}"
    and "run_steps ValidateTransition st ts = Inr st'"
  shows "ts = [] \<and> st' = st"
  using assms by (cases ts) (auto split: sum.splits elim: ValidateTransition_cases)

text \<open>
  C22: Starting from an open item, no sequence of lifecycle transitions reaches review or
  completion without a claim and a submission (\<^verbatim>\<open>done\<close>), and whatever it reaches is one of
  the five statuses of the lifecycle.
\<close>

theorem completion_needs_claim_and_done:
  assumes run: "run_steps ValidateTransition ''open'' ts = Inr st"
  shows "st \<in> set lifecycle_statuses \<and>
         (st \<in> {''in_review'', ''completed''} \<longrightarrow>
            TransitionClaim \<in> set ts \<and> TransitionDone \<in> set ts)"
  using lifecycle.run_keeps [OF _ run] review_gate.run_enter [OF run] claim_gate.run_enter [OF run]
  by (auto simp: lifecycle_statuses_def)

theorem completion_needs_claim_and_done_witness:
  "run_steps ValidateTransition ''open''
     [TransitionClaim, TransitionDone, TransitionReject, TransitionDone, TransitionAccept]
     = Inr ''completed'' \<and> ''completed'' \<in> set lifecycle_statuses"
proof -
  have r: "run_steps ValidateTransition ''open''
     [TransitionClaim, TransitionDone, TransitionReject, TransitionDone, TransitionAccept]
     = Inr ''completed''"
    by (simp add: ValidateTransition_def)
  from r completion_needs_claim_and_done [OF r] show ?thesis by simp
qed

text \<open>
  Completed and withdrawn items are final: every transition is refused there, with an
  error that names the transition, the item's status and the status it needs.
\<close>

theorem terminal_statuses_refuse:
  assumes "st \<in> {''completed'', ''withdrawn''}"
  shows "ValidateTransition st t =
           (case transitionRules t of
              None \<Rightarrow> Inl (Err (''unknown transition '' @ Itoa (transition_code t)))
            | Some rule \<Rightarrow>
                Inl (Err (''cannot '' @ tr_name rule @ '': item is '' @ st @ '', not '' @ tr_from rule)))
         \<and> (run_steps ValidateTransition st ts = Inr st' \<longrightarrow> ts = [] \<and> st' = st)"
proof (intro conjI impI)
  show "ValidateTransition st t =
           (case transitionRules t of
              None \<Rightarrow> Inl (Err (''unknown transition '' @ Itoa (transition_code t)))
            | Some rule \<Rightarrow>
                Inl (Err (''cannot '' @ tr_name rule @ '': item is '' @ st @ '', not '' @ tr_from rule)))"
    using assms by (cases t) (auto simp: ValidateTransition_def)
qed (use run_from_terminal [OF assms] in blast)+

theorem terminal_statuses_refuse_witness:
  "ValidateTransition ''completed'' TransitionClaim
     = Inl (Err ''cannot claim: item is completed, not open'')"
  using terminal_statuses_refuse [of "''completed''" TransitionClaim] by simp

section \<open>Permissions\<close>

text \<open>
  The actions offered for an item are exactly the transitions the lifecycle allows from
  its status and the actor may perform.  In particular no one, admin or poster, is offered to
  accept work they claimed themselves, and a stranger is offered nothing but a claim.
\<close>

theorem AvailableTransitions_exact:
  "t \<in> set (AvailableTransitions (Some item) actor) \<longleftrightarrow>
     (let st = wi_Status item; poster = (wi_PostedBy item = actor);
          claimer = (wi_ClaimedBy item = actor); admin = Admins actor
      in (t = TransitionClaim \<and> st = ''open'')
       \<or> (t = TransitionUnclaim \<and> st = ''claimed'' \<and> (claimer \<or> poster))
       \<or> (t = TransitionDone \<and> st = ''claimed'' \<and> claimer)
       \<or> (t = TransitionAccept \<and> st = ''in_review'' \<and> (poster \<or> admin) \<and> \<not> claimer)
       \<or> (t \<in> {TransitionReject, TransitionClose} \<and> st = ''in_review'' \<and> (poster \<or> admin))
       \<or> (t = TransitionDelete \<and> st = ''open'' \<and> poster))"
  by (cases t) (auto simp: AvailableTransitions_def ValidateTransition_def CanPerformTransition_def Let_def)

section \<open>Delta labels\<close>

lemma first_delta_sound:
  "first_delta ts m b \<noteq> ''changes'' \<Longrightarrow>
     \<exists>t rule. t \<in> set ts \<and> transitionRules t = Some rule \<and> tr_from rule = m \<and> tr_to rule = b
            \<and> tr_name rule = first_delta ts m b"
  by (induction ts) (auto split: option.splits if_splits)

text \<open>
  A delta label names a single transition that really leads from the status on main to the
  status on the branch; every transition is labelled by its own name, except that a close is
  labelled as an accept (both go from review to completed) and an update is not a delta.
\<close>

theorem DeltaLabel_names_transition:
  "(DeltaLabel m b \<noteq> ''changes'' \<longrightarrow>
      (\<exists>t. ValidateTransition m t = Inr b \<and> TransitionName t = DeltaLabel m b))
   \<and> (transitionRules t = Some rule \<longrightarrow>
        DeltaLabel (tr_from rule) (tr_to rule) =
          (if t = TransitionClose then ''accept'' else TransitionName t))"
proof (intro conjI impI)
  assume "DeltaLabel m b \<noteq> ''changes''"
  then obtain u r where u: "transitionRules u = Some r" "tr_from r = m" "tr_to r = b"
    and n: "tr_name r = DeltaLabel m b"
    unfolding DeltaLabel_def using first_delta_sound by blast
  from u have "ValidateTransition m u = Inr b" by (simp add: ValidateTransition_Inr)
  moreover from u n have "TransitionName u = DeltaLabel m b" by (simp add: TransitionName_def)
  ultimately show "\<exists>t. ValidateTransition m t = Inr b \<and> TransitionName t = DeltaLabel m b"
    by blast
next
  assume "transitionRules t = Some rule"
  then have "rule = the (transitionRules t)" and "transitionRules t \<noteq> None" by simp_all
  then show "DeltaLabel (tr_from rule) (tr_to rule) =
               (if t = TransitionClose then ''accept'' else TransitionName t)"
    by (simp only:) (cases t; simp add: DeltaLabel_def delta_order_def TransitionName_def)
qed

theorem DeltaLabel_names_transition_witness:
  "\<exists>t. ValidateTransition ''open'' t = Inr ''claimed'' \<and> TransitionName t = ''claim''"
proof -
  have d: "DeltaLabel ''open'' ''claimed'' = ''claim''"
    by (simp add: DeltaLabel_def delta_order_def)
  have "DeltaLabel ''open'' ''claimed'' \<noteq> ''changes''" by (simp add: d)
  with DeltaLabel_names_transition [of "''open''" "''claimed''"]
  have "\<exists>t. ValidateTransition ''open'' t = Inr ''claimed''
          \<and> TransitionName t = DeltaLabel ''open'' ''claimed''" by blast
  then show ?thesis by (simp only: d)
qed

section \<open>Push targets\<close>

text \<open>
  In PR mode nothing is ever pushed upstream, and origin is pushed exactly when the local
  status differs from origin's; in any other mode both are pushed.  A hint is given only in PR
  mode and only when the local status differs from upstream's.
\<close>

theorem ResolvePushTarget_minimal:
  "pt_PushUpstream (ResolvePushTarget mode loc) = (mode \<noteq> ''pr'') \<and>
   pt_PushOrigin (ResolvePushTarget mode loc) =
     (mode \<noteq> ''pr'' \<or> il_LocalStatus loc \<noteq> il_OriginStatus loc) \<and>
   (pt_Hint (ResolvePushTarget mode loc) = []) =
     (mode \<noteq> ''pr'' \<or> il_LocalStatus loc = il_UpstreamStatus loc
       \<or> il_LocalStatus loc \<noteq> il_OriginStatus loc \<and> il_OriginStatus loc \<noteq> il_UpstreamStatus loc)"
  by (auto simp: ResolvePushTarget_def Let_def)

theorem ResolvePushTarget_minimal_witness:
  "pt_PushOrigin (ResolvePushTarget ''pr''
     \<lparr>il_LocalStatus = ''claimed'', il_OriginStatus = ''open'', il_UpstreamStatus = ''open'',
      il_FetchedOrigin = True, il_FetchedUpstream = True\<rparr>)"
  using ResolvePushTarget_minimal [of "''pr''"
     "\<lparr>il_LocalStatus = ''claimed'', il_OriginStatus = ''open'', il_UpstreamStatus = ''open'',
      il_FetchedOrigin = True, il_FetchedUpstream = True\<rparr>"] by simp

end
