(* ===== verification/GoCsv.thy ===== *)
theory GoCsv
  imports Prelude
begin

text \<open>
  Go's \<^verbatim>\<open>encoding/csv\<close> reader with its default options, as \<^verbatim>\<open>parseSimpleCSV\<close> and
  \<^verbatim>\<open>parseDiffTables\<close> use it, and \<^verbatim>\<open>parseSimpleCSV\<close> itself
  (\<^verbatim>\<open>internal/commons/commons.go\<close>).
\<close>

section \<open>The csv reader\<close>

text \<open>Line ends are normalised first; a carriage return before the end of input is dropped.\<close>

fun normalize_newlines :: "string \<Rightarrow> string" where
  "normalize_newlines [] = []"
| "normalize_newlines (c # s) =
     (if c = cr_ch \<and> (s = [] \<or> hd s = nl_ch) then normalize_newlines s
      else c # normalize_newlines s)"

text \<open>
  Where the reader is: before a record, before a field, inside an unquoted or a quoted field, or
  after a quote inside a quoted field.  Fields read so far and the current field are reversed.
\<close>

datatype csv_mode =
    RecStart
  | FieldStart "string list"
  | Unquoted "string list" string
  | Quoted "string list" string
  | QuoteSeen "string list" string

text \<open>The next mode and the record finished by this byte, if any; \<open>None\<close> is a parse error.\<close>

definition csv_step :: "csv_mode \<Rightarrow> char \<Rightarrow> (csv_mode \<times> string list option) option" where
  "csv_step m c =
     (let field_start = (\<lambda>fs.
            if c = dquote_ch then Some (Quoted fs [], None)
            else if c = CHR '','' then Some (FieldStart ([] # fs), None)
            else if c = nl_ch then Some (RecStart, Some (rev ([] # fs)))
            else Some (Unquoted fs [c], None))
      in case m of
           RecStart \<Rightarrow> if c = nl_ch then Some (RecStart, None) else field_start []
         | FieldStart fs \<Rightarrow> field_start fs
         | Unquoted fs f \<Rightarrow>
             if c = dquote_ch then None
             else if c = CHR '','' then Some (FieldStart (rev f # fs), None)
             else if c = nl_ch then Some (RecStart, Some (rev (rev f # fs)))
             else Some (Unquoted fs (c # f), None)
         | Quoted fs f \<Rightarrow>
             if c = dquote_ch then Some (QuoteSeen fs f, None) else Some (Quoted fs (c # f), None)
         | QuoteSeen fs f \<Rightarrow>
             if c = dquote_ch then Some (Quoted fs (c # f), None)
             else if c = CHR '','' then Some (FieldStart (rev f # fs), None)
             else if c = nl_ch then Some (RecStart, Some (rev (rev f # fs)))
             else None)"

definition csv_end :: "csv_mode \<Rightarrow> string list list option" where
  "csv_end m =
     (case m of
        RecStart \<Rightarrow> Some []
      | FieldStart fs \<Rightarrow> Some [rev ([] # fs)]
      | Unquoted fs f \<Rightarrow> Some [rev (rev f # fs)]
      | Quoted fs f \<Rightarrow> None
      | QuoteSeen fs f \<Rightarrow> Some [rev (rev f # fs)])"

primrec csv_emit :: "string list option \<Rightarrow> string list list option \<Rightarrow> string list list option" where
  "csv_emit None rest = rest"
| "csv_emit (Some r) rest = map_option (\<lambda>rs. r # rs) rest"

fun csv_run :: "csv_mode \<Rightarrow> string \<Rightarrow> string list list option" where
  "csv_run m [] = csv_end m"
| "csv_run m (c # s) =
     (case csv_step m c of
        None \<Rightarrow> None
      | Some st \<Rightarrow> csv_emit (snd st) (csv_run (fst st) s))"

text \<open>\<^verbatim>\<open>ReadAll\<close> with any number of fields per record.\<close>

definition csv_ReadAll :: "string \<Rightarrow> string list list option" where
  "csv_ReadAll s = csv_run RecStart (normalize_newlines s)"

text \<open>\<^verbatim>\<open>ReadAll\<close> with the default check that all records have as many fields as the first.\<close>

definition csv_ReadAll_strict :: "string \<Rightarrow> string list list option" where
  "csv_ReadAll_strict s =
     (case csv_ReadAll s of
        None \<Rightarrow> None
      | Some [] \<Rightarrow> Some []
      | Some (r # rs) \<Rightarrow> if list_all (\<lambda>r'. length r' = length r) rs then Some (r # rs) else None)"

section \<open>parseSimpleCSV\<close>

type_synonym csv_row = "string \<rightharpoonup> string"

text \<open>\<^verbatim>\<open>row[key]\<close>: the empty string for a missing key.\<close>

definition row_get :: "csv_row \<Rightarrow> string \<Rightarrow> string" where
  "row_get row k = (case row k of None \<Rightarrow> [] | Some v \<Rightarrow> v)"

fun fill_row :: "csv_row \<Rightarrow> string list \<Rightarrow> string list \<Rightarrow> csv_row" where
  "fill_row row (h # hs) (f # fs) = fill_row (row(TrimSpace h \<mapsto> TrimSpace f)) hs fs"
| "fill_row row _ _ = row"

definition blank_record :: "string list \<Rightarrow> bool" where
  "blank_record fields \<longleftrightarrow> list_all (\<lambda>f. TrimSpace f = []) fields"

definition parseSimpleCSV :: "string \<Rightarrow> csv_row list" where
  "parseSimpleCSV data0 =
     (let data = TrimSpace data0
      in if data = [] then []
         else (case csv_ReadAll data of
                 None \<Rightarrow> []
               | Some records \<Rightarrow>
                   if length records < 2 then []
                   else map (fill_row Map.empty (hd records))
                          (filter (\<lambda>fields. fields \<noteq> [] \<and> \<not> blank_record fields) (tl records))))"

section \<open>Writing a field and reading it back\<close>

text \<open>\<^verbatim>\<open>formatCSVField\<close>'s quoting (\<^verbatim>\<open>internal/backend/csv.go\<close>), on the field's text.\<close>

definition quote_csv :: "string \<Rightarrow> string" where
  "quote_csv s =
     (if list_ex (\<lambda>c. c = CHR '','' \<or> c = nl_ch \<or> c = dquote_ch) s
      then dquote_ch # ReplaceAll s [dquote_ch] [dquote_ch, dquote_ch] @ [dquote_ch]
      else s)"

lemma csv_run_quoted:
  "csv_run (Quoted fs f) (ReplaceAll s [dquote_ch] [dquote_ch, dquote_ch] @ rest) =
   csv_run (Quoted fs (rev s @ f)) rest"
  by (induction s arbitrary: f) (auto simp: ReplaceAll_single csv_step_def)

lemma csv_run_unquoted:
  "\<not> list_ex (\<lambda>c. c = CHR '','' \<or> c = nl_ch \<or> c = dquote_ch) s \<Longrightarrow>
   csv_run (Unquoted fs f) (s @ rest) = csv_run (Unquoted fs (rev s @ f)) rest"
  by (induction s arbitrary: f) (auto simp: csv_step_def)

lemma csv_run_field_comma:
  "csv_run (FieldStart fs) (quote_csv s @ CHR '','' # rest) = csv_run (FieldStart (s # fs)) rest"
proof (cases "list_ex (\<lambda>c. c = CHR '','' \<or> c = nl_ch \<or> c = dquote_ch) s")
  case True
  then show ?thesis by (simp add: quote_csv_def csv_step_def csv_run_quoted)
next
  case False
  then show ?thesis
    by (cases s) (auto simp: quote_csv_def csv_step_def csv_run_unquoted)
qed

lemma csv_run_field_nl:
  "csv_run (FieldStart fs) (quote_csv s @ nl_ch # rest) =
   map_option (\<lambda>rs. rev (s # fs) # rs) (csv_run RecStart rest)"
proof (cases "list_ex (\<lambda>c. c = CHR '','' \<or> c = nl_ch \<or> c = dquote_ch) s")
  case True
  then show ?thesis by (simp add: quote_csv_def csv_step_def csv_run_quoted)
next
  case False
  then show ?thesis
    by (cases s) (auto simp: quote_csv_def csv_step_def csv_run_unquoted)
qed

text \<open>A record of the writer: fields joined by commas, ended by a newline.\<close>

definition csv_line :: "string list \<Rightarrow> string" where
  "csv_line fields = Join (map quote_csv fields) '','' @ [nl_ch]"

lemma csv_run_fields:
  "fields \<noteq> [] \<Longrightarrow>
   csv_run (FieldStart fs) (csv_line fields @ rest) =
   map_option (\<lambda>rs. (rev fs @ fields) # rs) (csv_run RecStart rest)"
proof (induction fields arbitrary: fs)
  case Nil
  then show ?case by simp
next
  case (Cons x xs)
  show ?case
  proof (cases xs)
    case Nil
    then show ?thesis by (simp add: csv_line_def csv_run_field_nl)
  next
    case (Cons y ys)
    then have "csv_run (FieldStart (x # fs)) (csv_line xs @ rest) =
        map_option (\<lambda>rs. (rev (x # fs) @ xs) # rs) (csv_run RecStart rest)"
      using Cons.IH by blast
    then show ?thesis using \<open>xs = y # ys\<close>
      by (simp add: csv_line_def csv_run_field_comma)
  qed
qed

text \<open>A record that starts with an empty field and has no other would be skipped as a blank line.\<close>

lemma csv_run_record:
  assumes "fields \<noteq> []" and "fields \<noteq> [[]]"
  shows "csv_run RecStart (csv_line fields @ rest) =
         map_option (\<lambda>rs. fields # rs) (csv_run RecStart rest)"
proof -
  have "hd (csv_line fields) \<noteq> nl_ch"
    using assms by (cases fields; cases "tl fields"; cases "hd fields")
      (auto simp: csv_line_def quote_csv_def Join_Cons)
  moreover obtain c s where cs: "csv_line fields = c # s"
    by (cases "csv_line fields") (auto simp: csv_line_def)
  ultimately have "csv_run RecStart (csv_line fields @ rest) =
      csv_run (FieldStart []) (csv_line fields @ rest)"
    by (simp add: csv_step_def)
  then show ?thesis using csv_run_fields [OF assms(1), of "[]" rest] by simp
qed

lemma csv_run_records:
  "list_all (\<lambda>r. r \<noteq> [] \<and> r \<noteq> [[]]) rs \<Longrightarrow>
   csv_run RecStart (concat (map csv_line rs)) = Some rs"
  by (induction rs) (auto simp: csv_end_def csv_run_record)

end
