(* ===== verification/GoJson.thy ===== *)
theory GoJson
  imports Prelude
begin

text \<open>
  Go's \<^verbatim>\<open>encoding/json\<close> decoder, as far as the sources use it: the syntax of JSON texts,
  Go's reading of string escapes and of invalid UTF-8, and decoding into
  \<^verbatim>\<open>[]string\<close>, into \<^verbatim>\<open>int\<close> struct fields and into strings.
\<close>

datatype json =
    JNull | JBool bool | JNum string | JStr string | JArr "json list" | JObj "(string \<times> json) list"

section \<open>UTF-8\<close>

definition in_range :: "nat \<Rightarrow> nat \<Rightarrow> char \<Rightarrow> bool" where
  "in_range lo hi c \<longleftrightarrow> lo \<le> code_of c \<and> code_of c \<le> hi"

text \<open>The width of the valid multi-byte rune at the front of a text, 0 if there is none.\<close>

definition rune_width :: "string \<Rightarrow> nat" where
  "rune_width s =
     (case s of
        a # b # r \<Rightarrow>
          if in_range 0xC2 0xDF a \<and> in_range 0x80 0xBF b then 2
          else (case r of
                  c # r' \<Rightarrow>
                    if in_range 0x80 0xBF c \<and>
                       (code_of a = 0xE0 \<and> in_range 0xA0 0xBF b
                        \<or> in_range 0xE1 0xEC a \<and> in_range 0x80 0xBF b
                        \<or> code_of a = 0xED \<and> in_range 0x80 0x9F b
                        \<or> in_range 0xEE 0xEF a \<and> in_range 0x80 0xBF b) then 3
                    else (case r' of
                            d # _ \<Rightarrow>
                              if in_range 0x80 0xBF c \<and> in_range 0x80 0xBF d \<and>
                                 (code_of a = 0xF0 \<and> in_range 0x90 0xBF b
                                  \<or> in_range 0xF1 0xF3 a \<and> in_range 0x80 0xBF b
                                  \<or> code_of a = 0xF4 \<and> in_range 0x80 0x8F b) then 4
                              else 0
                          | [] \<Rightarrow> 0)
                | [] \<Rightarrow> 0)
      | _ \<Rightarrow> 0)"

definition replacement_rune :: string where
  "replacement_rune = [CHR 0xEF, CHR 0xBF, CHR 0xBD]"

definition encode_rune :: "nat \<Rightarrow> string" where
  "encode_rune n =
     (if n < 0x80 then [char_of n]
      else if n < 0x800 then [char_of (0xC0 + n div 64), char_of (0x80 + n mod 64)]
      else if 0xD800 \<le> n \<and> n < 0xE000 \<or> 0x10FFFF < n then replacement_rune
      else if n < 0x10000
      then [char_of (0xE0 + n div 4096), char_of (0x80 + n div 64 mod 64), char_of (0x80 + n mod 64)]
      else [char_of (0xF0 + n div 262144), char_of (0x80 + n div 4096 mod 64),
            char_of (0x80 + n div 64 mod 64), char_of (0x80 + n mod 64)])"

section \<open>Scanning\<close>

definition json_space :: "char \<Rightarrow> bool" where
  "json_space c \<longleftrightarrow> c \<in> {space_ch, tab_ch, nl_ch, cr_ch}"

abbreviation skip :: "string \<Rightarrow> string" where
  "skip s \<equiv> dropWhile json_space s"

definition hex_val :: "char \<Rightarrow> nat option" where
  "hex_val c =
     (if in_range 48 57 c then Some (code_of c - 48)
      else if in_range 97 102 c then Some (code_of c - 87)
      else if in_range 65 70 c then Some (code_of c - 55)
      else None)"

definition hex4 :: "string \<Rightarrow> (nat \<times> string) option" where
  "hex4 s =
     (case s of
        a # b # c # d # r \<Rightarrow>
          (case (hex_val a, hex_val b, hex_val c, hex_val d) of
             (Some w, Some x, Some y, Some z) \<Rightarrow> Some (4096 * w + 256 * x + 16 * y + z, r)
           | _ \<Rightarrow> None)
      | _ \<Rightarrow> None)"

definition simple_escape :: "char \<Rightarrow> string option" where
  "simple_escape c =
     (if c = dquote_ch \<or> c = bslash_ch \<or> c = CHR ''/'' then Some [c]
      else if c = CHR ''b'' then Some [CHR 0x08]
      else if c = CHR ''f'' then Some [CHR 0x0C]
      else if c = CHR ''n'' then Some [nl_ch]
      else if c = CHR ''r'' then Some [cr_ch]
      else if c = CHR ''t'' then Some [tab_ch]
      else None)"

text \<open>
  An escape after \<^verbatim>\<open>\u\<close>: a surrogate pair makes one rune, a lone surrogate the
  replacement rune.
\<close>

definition unicode_escape :: "string \<Rightarrow> (string \<times> string) option" where
  "unicode_escape s =
     (case hex4 s of
        None \<Rightarrow> None
      | Some (n, r) \<Rightarrow>
          if 0xD800 \<le> n \<and> n < 0xDC00 then
            (case r of
               b # u # r1 \<Rightarrow>
                 if b = bslash_ch \<and> u = CHR ''u'' then
                   (case hex4 r1 of
                      None \<Rightarrow> Some (replacement_rune, r)
                    | Some (m, r2) \<Rightarrow>
                        if 0xDC00 \<le> m \<and> m < 0xE000
                        then Some (encode_rune ((n - 0xD800) * 1024 + (m - 0xDC00) + 0x10000), r2)
                        else Some (replacement_rune, r))
                 else Some (replacement_rune, r)
             | _ \<Rightarrow> Some (replacement_rune, r))
          else Some (encode_rune n, r))"

lemma hex4_length: "hex4 s = Some (n, r) \<Longrightarrow> length r < length s"
  by (auto simp: hex4_def split: list.splits option.splits)

lemma unicode_escape_length: "unicode_escape s = Some (u, r) \<Longrightarrow> length r < length s"
  by (auto simp: unicode_escape_def split: option.splits list.splits if_splits
      dest!: hex4_length)

text \<open>The body of a string literal, after its opening quote.\<close>

function json_str :: "string \<Rightarrow> (string \<times> string) option" where
  "json_str s =
     (case s of
        [] \<Rightarrow> None
      | c # r \<Rightarrow>
          if c = dquote_ch then Some ([], r)
          else if c = bslash_ch then
            (case r of
               [] \<Rightarrow> None
             | e # r1 \<Rightarrow>
                 if e = CHR ''u'' then
                   (case unicode_escape r1 of
                      None \<Rightarrow> None
                    | Some (u, r2) \<Rightarrow> map_option (apfst ((@) u)) (json_str r2))
                 else (case simple_escape e of
                         None \<Rightarrow> None
                       | Some u \<Rightarrow> map_option (apfst ((@) u)) (json_str r1)))
          else if code_of c < 32 then None
          else if code_of c < 128 then map_option (apfst ((#) c)) (json_str r)
          else if rune_width s = 0 then map_option (apfst ((@) replacement_rune)) (json_str r)
          else map_option (apfst ((@) (take (rune_width s) s))) (json_str (drop (rune_width s) s)))"
  by pat_completeness auto
termination
  by (relation "measure length") (auto dest: unicode_escape_length)

declare json_str.simps [simp del]

text \<open>A number literal: its text and the rest.\<close>

definition json_num :: "string \<Rightarrow> (string \<times> string) option" where
  "json_num s =
     (let (sg, s1) = (case s of c # r \<Rightarrow> if c = CHR ''-'' then ([c], r) else ([], s) | [] \<Rightarrow> ([], s));
          ds = takeWhile is_digit s1;
          (ip, s2) = (if ds \<noteq> [] \<and> hd ds = CHR ''0'' then ([hd ds], drop 1 s1)
                      else (ds, drop (length ds) s1));
          (fp, s3, ok1) =
            (case s2 of
               c # r \<Rightarrow> if c = CHR ''.''
                         then (c # takeWhile is_digit r, dropWhile is_digit r, takeWhile is_digit r \<noteq> [])
                         else ([], s2, True)
             | [] \<Rightarrow> ([], s2, True));
          (ep, s4, ok2) =
            (case s3 of
               c # r \<Rightarrow>
                 if c = CHR ''e'' \<or> c = CHR ''E'' then
                   (let (es, r1) = (case r of d # r' \<Rightarrow> if d = CHR ''+'' \<or> d = CHR ''-'' then ([d], r') else ([], r)
                                    | [] \<Rightarrow> ([], r))
                    in (c # es @ takeWhile is_digit r1, dropWhile is_digit r1, takeWhile is_digit r1 \<noteq> []))
                 else ([], s3, True)
             | [] \<Rightarrow> ([], s3, True))
      in if ip = [] \<or> \<not> ok1 \<or> \<not> ok2 then None else Some (sg @ ip @ fp @ ep, s4))"

text \<open>
  Values, elements and members, with fuel: each call spends one unit, and every value takes at
  least one byte, so the length of the text is enough.
\<close>

fun json_val :: "nat \<Rightarrow> string \<Rightarrow> (json \<times> string) option"
  and json_elems :: "nat \<Rightarrow> string \<Rightarrow> (json list \<times> string) option"
  and json_members :: "nat \<Rightarrow> string \<Rightarrow> ((string \<times> json) list \<times> string) option" where
  "json_val 0 s = None"
| "json_val (Suc n) s =
     (case skip s of
        [] \<Rightarrow> None
      | c # r \<Rightarrow>
          if c = dquote_ch then map_option (apfst JStr) (json_str r)
          else if c = CHR ''['' then
            (case skip r of
               d # r' \<Rightarrow> if d = CHR '']'' then Some (JArr [], r')
                         else map_option (apfst JArr) (json_elems n r)
             | [] \<Rightarrow> None)
          else if c = CHR ''{'' then
            (case skip r of
               d # r' \<Rightarrow> if d = CHR ''}'' then Some (JObj [], r')
                         else map_option (apfst JObj) (json_members n r)
             | [] \<Rightarrow> None)
          else if HasPrefix (c # r) ''null'' then Some (JNull, drop 4 (c # r))
          else if HasPrefix (c # r) ''true'' then Some (JBool True, drop 4 (c # r))
          else if HasPrefix (c # r) ''false'' then Some (JBool False, drop 5 (c # r))
          else map_option (apfst JNum) (json_num (c # r)))"
| "json_elems 0 s = None"
| "json_elems (Suc n) s =
     (case json_val n s of
        None \<Rightarrow> None
      | Some (v, r) \<Rightarrow>
          (case skip r of
             c # r' \<Rightarrow>
               if c = CHR '','' then map_option (apfst ((#) v)) (json_elems n r')
               else if c = CHR '']'' then Some ([v], r') else None
           | [] \<Rightarrow> None))"
| "json_members 0 s = None"
| "json_members (Suc n) s =
     (case skip s of
        c # r \<Rightarrow>
          if c \<noteq> dquote_ch then None
          else (case json_str r of
                  None \<Rightarrow> None
                | Some (k, r1) \<Rightarrow>
                    (case skip r1 of
                       d # r2 \<Rightarrow>
                         if d \<noteq> CHR '':'' then None
                         else (case json_val n r2 of
                                 None \<Rightarrow> None
                               | Some (v, r3) \<Rightarrow>
                                   (case skip r3 of
                                      e # r4 \<Rightarrow>
                                        if e = CHR '','' then map_option (apfst ((#) (k, v))) (json_members n r4)
                                        else if e = CHR ''}'' then Some ([(k, v)], r4) else None
                                    | [] \<Rightarrow> None))
                     | [] \<Rightarrow> None))
      | [] \<Rightarrow> None)"

text \<open>A whole text: one value, nothing but space after it.\<close>

definition json_parse :: "string \<Rightarrow> json option" where
  "json_parse s =
     (case json_val (2 * length s + 2) s of
        Some (v, r) \<Rightarrow> if skip r = [] then Some v else None
      | None \<Rightarrow> None)"

section \<open>Decoding\<close>

text \<open>
  Into \<^verbatim>\<open>[]string\<close>: a \<^verbatim>\<open>null\<close> element leaves the empty string, any other element that is
  not a string is an error; a top-level \<^verbatim>\<open>null\<close> leaves the nil slice.
\<close>

definition string_elem :: "json \<Rightarrow> string option" where
  "string_elem j = (case j of JStr s \<Rightarrow> Some s | JNull \<Rightarrow> Some [] | _ \<Rightarrow> None)"

definition decode_strings :: "json \<Rightarrow> string list option" where
  "decode_strings j =
     (case j of
        JNull \<Rightarrow> Some []
      | JArr vs \<Rightarrow> those (map string_elem vs)
      | _ \<Rightarrow> None)"

text \<open>Struct fields are matched without regard to the case of ASCII letters.\<close>

definition fold_eq :: "string \<Rightarrow> string \<Rightarrow> bool" where
  "fold_eq a b \<longleftrightarrow> map lower_byte a = map lower_byte b"

text \<open>
  Into an \<^verbatim>\<open>int\<close> field: the last member of that name which is an integer in range decides;
  others leave the field as it was.
\<close>

definition json_int :: "json \<Rightarrow> int option" where
  "json_int j =
     (case j of
        JNum t \<Rightarrow> (case Atoi t of (v, err) \<Rightarrow> if err then None else Some v)
      | _ \<Rightarrow> None)"

definition int_field :: "string \<Rightarrow> json \<Rightarrow> int" where
  "int_field name j =
     (case j of
        JObj ms \<Rightarrow>
          foldl (\<lambda>acc (k, v). if fold_eq k name then (case json_int v of Some n \<Rightarrow> n | None \<Rightarrow> acc) else acc)
            0 ms
      | _ \<Rightarrow> 0)"

section \<open>Reading back a plain array of strings\<close>

text \<open>Printable ASCII other than the quote and the backslash: bytes JSON strings carry as they are.\<close>

definition plain_json_ch :: "char \<Rightarrow> bool" where
  "plain_json_ch c \<longleftrightarrow> 32 \<le> code_of c \<and> code_of c < 128 \<and> c \<noteq> dquote_ch \<and> c \<noteq> bslash_ch"

lemma json_str_plain:
  "list_all plain_json_ch s \<Longrightarrow> json_str (s @ dquote_ch # r) = Some (s, r)"
proof (induction s)
  case Nil
  show ?case by (simp add: json_str.simps)
next
  case (Cons c s)
  then have "json_str (s @ dquote_ch # r) = Some (s, r)" by simp
  with Cons.prems show ?case
    by (subst json_str.simps) (simp add: plain_json_ch_def)
qed

lemma json_elems_plain:
  assumes "list_all (list_all plain_json_ch) (t # ts)"
  shows "json_elems (length ts + 2 + k)
           (dquote_ch # Join (t # ts) ''\",\"'' @ [dquote_ch, CHR '']'']) = Some (map JStr (t # ts), [])"
  using assms
proof (induction ts arbitrary: t)
  case Nil
  then have "json_str (t @ dquote_ch # [CHR '']'']) = Some (t, [CHR '']''])"
    by (intro json_str_plain) simp
  then show ?case by (simp add: json_space_def)
next
  case (Cons u us)
  let ?rest = "CHR '','' # dquote_ch # Join (u # us) ''\",\"'' @ [dquote_ch, CHR '']'']"
  have "json_str (t @ dquote_ch # ?rest) = Some (t, ?rest)"
    using Cons.prems by (intro json_str_plain) simp
  moreover have "json_elems (length us + 2 + k)
      (dquote_ch # Join (u # us) ''\",\"'' @ [dquote_ch, CHR '']'']) = Some (map JStr (u # us), [])"
    using Cons.prems by (intro Cons.IH) simp
  ultimately show ?case by (simp add: json_space_def)
qed

end
