(* ===== verification/Commons.thy ===== *)
theory Commons
  imports Lifecycle GoCsv GoJson
begin

text \<open>
  \<^verbatim>\<open>internal/commons/commons.go\<close>: the SQL texts of every board mutation, the operations
  that run them, and the record queries.  The clock is a parameter: \<open>now\<close> is the formatted
  time the code puts into a text.
\<close>

section \<open>Identifiers\<close>

text \<open>
  \<open>sha256hex\<close> is the hexadecimal SHA-256 of a text; \<open>nano\<close> the clock in nanoseconds,
  \<open>rnd\<close> the random bytes in hexadecimal.
\<close>

definition GenerateWantedID :: "(string \<Rightarrow> string) \<Rightarrow> int \<Rightarrow> string \<Rightarrow> string \<Rightarrow> string" where
  "GenerateWantedID sha256hex nano rnd title =
     (let input = Sprintf ''%s:%d:%s'' [FS title, FD nano, FS rnd];
          hashStr = take 10 (sha256hex input)
      in Sprintf ''w-%s'' [FS hashStr])"

definition GeneratePrefixedID :: "(string \<Rightarrow> string) \<Rightarrow> string \<Rightarrow> string \<Rightarrow> string list \<Rightarrow> string" where
  "GeneratePrefixedID sha256hex now prefix inputs =
     (let data = Join inputs ''|'' @ ''|'' @ now
      in Sprintf ''%s-%s'' [FS prefix, FS (take 16 (sha256hex data))])"

section \<open>SQL texts\<close>

text \<open>\<^verbatim>\<open>'%s'\<close> of a value, or \<^verbatim>\<open>NULL\<close>: the pattern of all optional fields.\<close>

definition opt_field :: "string \<Rightarrow> string \<Rightarrow> string" where
  "opt_field dflt v = (if v \<noteq> [] then Sprintf (sq ''`%s`'') [FS (EscapeSQL v)] else dflt)"

definition InsertWantedDML :: "string \<Rightarrow> WantedItem \<Rightarrow> go_error + string" where
  "InsertWantedDML now item =
     (if wi_ID item = [] then Inl (Err ''wanted item ID cannot be empty'')
      else if wi_Title item = [] then Inl (Err ''wanted item title cannot be empty'')
      else
        (let tagsJSON = formatTagsJSON (wi_Tags item);
             descField = opt_field ''NULL'' (wi_Description item);
             projectField = opt_field ''NULL'' (wi_Project item);
             typeField = opt_field ''NULL'' (wi_Type item);
             postedByField = opt_field ''NULL'' (wi_PostedBy item);
             effortField = opt_field (sq ''`medium`'') (wi_EffortLevel item);
             status = opt_field (sq ''`open`'') (wi_Status item)
         in Inr (Sprintf
              (''INSERT INTO wanted (id, title, description, project, type, priority, tags, posted_by, status, effort_level, created_at, updated_at)''
               @ [nl_ch] @ sq ''VALUES (`%s`, `%s`, %s, %s, %s, %d, %s, %s, %s, %s, `%s`, `%s`)'')
              [FS (EscapeSQL (wi_ID item)), FS (EscapeSQL (wi_Title item)), FS descField, FS projectField,
               FS typeField, FD (wi_Priority item), FS tagsJSON, FS postedByField, FS status,
               FS effortField, FS now, FS now])))"

definition ClaimWantedDML :: "string \<Rightarrow> string \<Rightarrow> string" where
  "ClaimWantedDML wantedID rigHandle =
     Sprintf (sq ''UPDATE wanted SET claimed_by=`%s`, status=`claimed`, updated_at=NOW() WHERE id=`%s` AND status=`open`'')
       [FS (EscapeSQL rigHandle), FS (EscapeSQL wantedID)]"

definition UnclaimWantedDML :: "string \<Rightarrow> string" where
  "UnclaimWantedDML wantedID =
     Sprintf (sq ''UPDATE wanted SET claimed_by=NULL, status=`open`, updated_at=NOW() WHERE id=`%s` AND status=`claimed`'')
       [FS (EscapeSQL wantedID)]"

definition SubmitCompletionDML :: "string \<Rightarrow> string \<Rightarrow> string \<Rightarrow> string \<Rightarrow> string \<Rightarrow> string list" where
  "SubmitCompletionDML completionID wantedID rigHandle evidence hopURI =
     (let hopField = opt_field ''NULL'' hopURI;
          update = Sprintf (sq ''UPDATE wanted SET status=`in_review`, evidence_url=`%s`, updated_at=NOW() WHERE id=`%s` AND status=`claimed` AND claimed_by=`%s`'')
            [FS (EscapeSQL evidence), FS (EscapeSQL wantedID), FS (EscapeSQL rigHandle)];
          insert = Sprintf (sq ''INSERT IGNORE INTO completions (id, wanted_id, completed_by, evidence, hop_uri, completed_at) SELECT `%s`, `%s`, `%s`, `%s`, %s, NOW() FROM wanted WHERE id=`%s` AND status=`in_review` AND claimed_by=`%s` AND NOT EXISTS (SELECT 1 FROM completions WHERE wanted_id=`%s`)'')
            [FS (EscapeSQL completionID), FS (EscapeSQL wantedID), FS (EscapeSQL rigHandle), FS (EscapeSQL evidence),
             FS hopField,
             FS (EscapeSQL wantedID), FS (EscapeSQL rigHandle), FS (EscapeSQL wantedID)]
      in [update, insert])"

definition stamp_valence :: "Stamp \<Rightarrow> string" where
  "stamp_valence stamp =
     Sprintf ''{\"quality\": %d, \"reliability\": %d}'' [FD (st_Quality stamp), FD (st_Reliability stamp)]"

definition insert_stamp_text :: "string \<Rightarrow> string \<Rightarrow> string \<Rightarrow> Stamp \<Rightarrow> string" where
  "insert_stamp_text completionID rigHandle hopURI stamp =
     (let tagsField = formatTagsJSON (st_SkillTags stamp);
          msgField = opt_field ''NULL'' (st_Message stamp);
          hopField = opt_field ''NULL'' hopURI
      in Sprintf (sq ''INSERT INTO stamps (id, author, subject, valence, confidence, severity, context_id, context_type, skill_tags, message, hop_uri, created_at) VALUES (`%s`, `%s`, `%s`, `%s`, 1.0, `%s`, `%s`, `completion`, %s, %s, %s, NOW())'')
           [FS (EscapeSQL (st_ID stamp)), FS (EscapeSQL rigHandle), FS (EscapeSQL (st_Subject stamp)),
            FS (EscapeSQL (stamp_valence stamp)), FS (EscapeSQL (st_Severity stamp)),
            FS (EscapeSQL completionID), FS tagsField, FS msgField, FS hopField])"

definition update_completion_text :: "string \<Rightarrow> string \<Rightarrow> Stamp \<Rightarrow> string" where
  "update_completion_text completionID rigHandle stamp =
     Sprintf (sq ''UPDATE completions SET validated_by=`%s`, stamp_id=`%s`, validated_at=NOW() WHERE id=`%s`'')
       [FS (EscapeSQL rigHandle), FS (EscapeSQL (st_ID stamp)), FS (EscapeSQL completionID)]"

definition AcceptCompletionDML :: "string \<Rightarrow> string \<Rightarrow> string \<Rightarrow> string \<Rightarrow> Stamp \<Rightarrow> string list" where
  "AcceptCompletionDML wantedID completionID rigHandle hopURI stamp =
     (let updateWanted = Sprintf (sq ''UPDATE wanted SET status=`completed`, updated_at=NOW() WHERE id=`%s` AND status=`in_review`'')
            [FS (EscapeSQL wantedID)]
      in [insert_stamp_text completionID rigHandle hopURI stamp,
          update_completion_text completionID rigHandle stamp, updateWanted])"

definition adopt_texts :: "string \<Rightarrow> string \<Rightarrow> string \<Rightarrow> string \<Rightarrow> string \<Rightarrow> string list" where
  "adopt_texts wantedID completionID completedBy evidence hopURI =
     (let hopField = opt_field ''NULL'' hopURI
      in [Sprintf (sq ''DELETE FROM completions WHERE wanted_id=`%s`'') [FS (EscapeSQL wantedID)],
          Sprintf (sq ''INSERT IGNORE INTO completions (id, wanted_id, completed_by, evidence, hop_uri, completed_at) VALUES (`%s`, `%s`, `%s`, `%s`, %s, NOW())'')
            [FS (EscapeSQL completionID), FS (EscapeSQL wantedID), FS (EscapeSQL completedBy),
             FS (EscapeSQL evidence), FS hopField],
          Sprintf (sq ''UPDATE wanted SET status=`completed`, claimed_by=`%s`, evidence_url=`%s`, updated_at=NOW() WHERE id=`%s`'')
            [FS (EscapeSQL completedBy), FS (EscapeSQL evidence), FS (EscapeSQL wantedID)]])"

definition AcceptUpstreamDML ::
  "string \<Rightarrow> string \<Rightarrow> string \<Rightarrow> string \<Rightarrow> string \<Rightarrow> string \<Rightarrow> Stamp \<Rightarrow> string list" where
  "AcceptUpstreamDML wantedID completionID completedBy evidence rigHandle hopURI stamp =
     adopt_texts wantedID completionID completedBy evidence hopURI
     @ [insert_stamp_text completionID rigHandle hopURI stamp,
        update_completion_text completionID rigHandle stamp]"

definition CloseUpstreamDML :: "string \<Rightarrow> string \<Rightarrow> string \<Rightarrow> string \<Rightarrow> string \<Rightarrow> string list" where
  "CloseUpstreamDML wantedID completionID completedBy evidence hopURI =
     adopt_texts wantedID completionID completedBy evidence hopURI"

definition update_clauses :: "WantedUpdate \<Rightarrow> string list" where
  "update_clauses upd =
     (if wu_Title upd \<noteq> [] then [Sprintf (sq ''title=`%s`'') [FS (EscapeSQL (wu_Title upd))]] else [])
     @ (if wu_Description upd \<noteq> []
        then [Sprintf (sq ''description=`%s`'') [FS (EscapeSQL (wu_Description upd))]] else [])
     @ (if wu_Project upd \<noteq> [] then [Sprintf (sq ''project=`%s`'') [FS (EscapeSQL (wu_Project upd))]] else [])
     @ (if wu_Type upd \<noteq> [] then [Sprintf (sq ''type=`%s`'') [FS (EscapeSQL (wu_Type upd))]] else [])
     @ (if 0 \<le> wu_Priority upd then [Sprintf ''priority=%d'' [FD (wu_Priority upd)]] else [])
     @ (if wu_EffortLevel upd \<noteq> []
        then [Sprintf (sq ''effort_level=`%s`'') [FS (EscapeSQL (wu_EffortLevel upd))]] else [])
     @ (if wu_TagsSet upd then [Sprintf ''tags=%s'' [FS (formatTagsJSON (wu_Tags upd))]] else [])"

definition UpdateWantedDML :: "string \<Rightarrow> WantedUpdate \<Rightarrow> go_error + string" where
  "UpdateWantedDML wantedID upd =
     (let setClauses = update_clauses upd
      in if setClauses = [] then Inl (Err ''no fields to update'')
         else Inr (Sprintf (sq ''UPDATE wanted SET %s WHERE id=`%s` AND status=`open`'')
                     [FS (Join (setClauses @ [''updated_at=NOW()'']) '', ''), FS (EscapeSQL wantedID)]))"

definition CloseWantedDML :: "string \<Rightarrow> string" where
  "CloseWantedDML wantedID =
     Sprintf (sq ''UPDATE wanted SET status=`completed`, updated_at=NOW() WHERE id=`%s` AND status=`in_review`'')
       [FS (EscapeSQL wantedID)]"

definition DeleteWantedDML :: "string \<Rightarrow> string" where
  "DeleteWantedDML wantedID =
     Sprintf (sq ''UPDATE wanted SET status=`withdrawn`, updated_at=NOW() WHERE id=`%s` AND status=`open`'')
       [FS (EscapeSQL wantedID)]"

definition RejectCompletionDML :: "string \<Rightarrow> string list" where
  "RejectCompletionDML wantedID =
     [Sprintf (sq ''DELETE FROM completions WHERE wanted_id=`%s`'') [FS (EscapeSQL wantedID)],
      Sprintf (sq ''UPDATE wanted SET status=`claimed`, updated_at=NOW() WHERE id=`%s` AND status=`in_review`'')
        [FS (EscapeSQL wantedID)]]"

end
