(* ===== verification/DmlRead.thy ===== *)
theory DmlRead
  imports Commons
begin

text \<open>
  What the engine reads when it is sent the texts of \<open>Commons\<close>: each text is parsed to one
  fixed statement whose literals are exactly the program's values, whatever bytes those have.
\<close>

declare lex.simps [simp del]

lemma flush_Nil [simp]: "flush [] = (\<lambda>ts. ts)"
  by (simp add: flush_def fun_eq_iff)

lemma append_singleton: "(@) [x] = (#) x"
  by (simp add: fun_eq_iff)

section \<open>Texts that are read as given tokens\<close>

definition lexes_to :: "(char \<Rightarrow> string) \<Rightarrow> string \<Rightarrow> token list \<Rightarrow> bool" where
  "lexes_to esc dml toks \<longleftrightarrow>
     (\<forall>c rest. sym_ch c \<or> blank_ch c \<longrightarrow>
        lex esc (Plain []) (dml @ c # rest) = map_option (\<lambda>ts. toks @ ts) (lex esc (Plain []) (c # rest)))"

lemma lexes_toD:
  "lexes_to esc dml toks \<Longrightarrow> sym_ch c \<or> blank_ch c \<Longrightarrow>
   lex esc (Plain []) (dml @ c # rest) = map_option (\<lambda>ts. toks @ ts) (lex esc (Plain []) (c # rest))"
  unfolding lexes_to_def by blast

lemma sym_blank_ch: "sym_ch c \<Longrightarrow> \<not> blank_ch c"
  by (auto simp: sym_ch_def blank_ch_def)

lemma word_ch_plain: "word_ch c \<Longrightarrow> c \<noteq> quote_ch \<and> \<not> blank_ch c \<and> \<not> sym_ch c"
  by (auto simp: word_ch_def blank_ch_def sym_ch_def)

lemma lex_word_prefix:
  "list_all word_ch w \<Longrightarrow> lex esc (Plain a) (w @ rest) = lex esc (Plain (rev w @ a)) rest"
  by (induction w arbitrary: a) (auto simp: lex.simps dest: word_ch_plain)

lemma sep_not_quote: "sym_ch c \<or> blank_ch c \<Longrightarrow> c \<noteq> quote_ch"
  by (auto simp: sym_ch_def blank_ch_def)

lemma lex_sep:
  "sym_ch c \<or> blank_ch c \<Longrightarrow>
   lex esc (Plain w) (c # rest) =
     map_option (\<lambda>ts. flush w (if blank_ch c then ts else Sym c # ts)) (lex esc (Plain []) rest)"
  using sep_not_quote [of c] sym_blank_ch [of c] by (auto simp: lex.simps)

lemma lex_flush_sep:
  "sym_ch c \<or> blank_ch c \<Longrightarrow> w \<noteq> [] \<Longrightarrow>
   lex esc (Plain w) (c # rest) = map_option ((#) (Word (rev w))) (lex esc (Plain []) (c # rest))"
  by (simp add: lex_sep flush_def option.map_comp comp_def)

lemma lexes_to_word: "list_all word_ch w \<Longrightarrow> w \<noteq> [] \<Longrightarrow> lexes_to esc w [Word w]"
  unfolding lexes_to_def
  by (simp add: lex_word_prefix lex_flush_sep append_singleton)

lemma lexes_to_assign:
  assumes w: "list_all word_ch w" "w \<noteq> []" and s: "sym_ch s" and b: "lexes_to esc b tb"
  shows "lexes_to esc (w @ s # b) (Word w # Sym s # tb)"
  unfolding lexes_to_def
proof (intro allI impI)
  fix c rest
  assume c: "sym_ch c \<or> blank_ch c"
  have "lex esc (Plain []) ((w @ s # b) @ c # rest) = lex esc (Plain (rev w)) (s # (b @ c # rest))"
    using w(1) by (simp add: lex_word_prefix)
  also have "\<dots> = map_option (\<lambda>ts. Word w # Sym s # ts) (lex esc (Plain []) (b @ c # rest))"
    using s w(2) sym_blank_ch [OF s] by (simp add: lex_sep flush_def)
  finally show "lex esc (Plain []) ((w @ s # b) @ c # rest) =
      map_option (\<lambda>ts. (Word w # Sym s # tb) @ ts) (lex esc (Plain []) (c # rest))"
    using lexes_toD [OF b c] by (simp add: option.map_comp comp_def)
qed

lemma digit_ch_word: "d < 10 \<Longrightarrow> word_ch (digit_ch d)"
proof -
  assume "d < 10"
  then have "digit_ch d \<in> set ''0123456789''" unfolding digit_ch_def by (intro nth_mem) simp
  then show ?thesis by (auto simp: word_ch_def)
qed

lemma nat_digits_word: "list_all word_ch (nat_digits m) \<and> nat_digits m \<noteq> []"
proof (induction m rule: nat_digits.induct)
  case (1 m)
  then show ?case by (cases "m < 10") (simp_all add: nat_digits.simps [of m] digit_ch_word)
qed

lemma Itoa_word: "list_all word_ch (Itoa n) \<and> Itoa n \<noteq> []"
  using nat_digits_word by (simp add: Itoa_def) (simp add: word_ch_def)

context sql_reader
begin

lemma lexes_to_literal: "lexes_to esc (quote_ch # EscapeSQL s @ [quote_ch]) [Lit s]"
  unfolding lexes_to_def
proof (intro allI impI)
  fix c rest
  assume "sym_ch c \<or> blank_ch c"
  then have "c \<noteq> quote_ch" by (rule sep_not_quote)
  from lex_literal [OF this, of s rest]
  have "lex esc (InStr []) (EscapeSQL s @ quote_ch # c # rest) =
      map_option (\<lambda>ts. [Lit s] @ ts) (lex esc (Plain []) (c # rest))" by simp
  then show "lex esc (Plain []) ((quote_ch # EscapeSQL s @ [quote_ch]) @ c # rest) =
      map_option (\<lambda>ts. [Lit s] @ ts) (lex esc (Plain []) (c # rest))"
    by (simp add: lex.simps(2) [of esc "[]" quote_ch] option.map_ident append_singleton)
qed

lemma lexes_to_opt:
  assumes "lexes_to esc d td"
  shows "lexes_to esc (opt_field d v) (if v = [] then td else [Lit v])"
  using assms lexes_to_literal [of v] by (simp add: opt_field_def sq_def)

end

section \<open>Optional fields and tags as tokens\<close>

definition opt_tok :: "string \<Rightarrow> token" where
  "opt_tok v = (if v = [] then Word ''NULL'' else Lit v)"

definition opt_expr :: "string \<Rightarrow> sql_expr" where
  "opt_expr v = (if v = [] then ENull else ELit v)"

lemma parse_expr_opt [simp]: "parse_expr (opt_tok v # ts) = Some (opt_expr v, ts)"
  by (simp add: opt_tok_def opt_expr_def)

text \<open>The JSON text of a tag list as the engine stores it: the tags between quotes, unescaped.\<close>

definition stored_tags :: "string list \<Rightarrow> string" where
  "stored_tags tags = ''[\"'' @ Join tags ''\",\"'' @ ''\"]''"

definition tags_tok :: "string list \<Rightarrow> token" where
  "tags_tok tags = (if tags = [] then Word ''NULL'' else Lit (stored_tags tags))"

definition tags_expr :: "string list \<Rightarrow> sql_expr" where
  "tags_expr tags = (if tags = [] then ENull else ELit (stored_tags tags))"

lemma parse_expr_tags [simp]: "parse_expr (tags_tok tags # ts) = Some (tags_expr tags, ts)"
  by (simp add: tags_tok_def tags_expr_def)

lemma Itoa_number: "list_all (\<lambda>c. is_digit c \<or> c = CHR ''.'' \<or> c = CHR ''-'') (Itoa n)"
proof -
  have d: "is_digit (digit_ch d)" if "d < 10" for d
    unfolding is_digit_def digit_ch_def using that by (intro nth_mem) simp
  have nd: "list_all is_digit (nat_digits m)" for m
    by (induction m rule: nat_digits.induct) (subst nat_digits.simps; simp add: d)
  have "list_all (\<lambda>c. is_digit c \<or> c = CHR ''.'' \<or> c = CHR ''-'') (nat_digits m)" for m
    using nd [of m] by (rule list.pred_mono_strong) simp
  then show ?thesis by (simp add: Itoa_def)
qed

lemma Itoa_not_keyword: "Itoa n \<noteq> ''NULL''" "Itoa n \<noteq> ''NOW''" "Itoa n \<noteq> []"
  using Itoa_number [of n] Itoa_word [of n] by (auto simp: is_digit_def)

lemmas Itoa_number_chars = Itoa_number [unfolded is_digit_def, simplified]

text \<open>Two escapes a JSON text inside a literal meets.\<close>

locale sql_json_reader = sql_reader +
  assumes esc_dquote: "esc dquote_ch = [dquote_ch]"
begin

lemma lex_escape_tag:
  "lex esc (InStr a) (ReplaceAll (escape_tag t) [quote_ch] [quote_ch, quote_ch] @ rest) =
   lex esc (InStr (rev t @ a)) rest"
  by (induction t arbitrary: a)
     (auto simp: escape_tag_def ReplaceAll_single lex.simps esc_bslash esc_dquote)

lemma ReplaceAll_single_append:
  "ReplaceAll (s @ t) [c] new = ReplaceAll s [c] new @ ReplaceAll t [c] new"
  by (simp add: ReplaceAll_single)

lemma lex_escape_tags:
  "lex esc (InStr a)
     (ReplaceAll (Join (map escape_tag ts) ''\",\"'') [quote_ch] [quote_ch, quote_ch] @ rest) =
   lex esc (InStr (rev (Join ts ''\",\"'') @ a)) rest"
proof (induction ts arbitrary: a)
  case Nil
  then show ?case by simp
next
  case (Cons t ts)
  then show ?case
    by (cases ts) (simp_all add: ReplaceAll_single_append lex_escape_tag,
        simp add: ReplaceAll_single lex.simps)
qed

text \<open>
  However the tags look, the literal is closed where the program closes it; its value is the
  tags joined without any escaping.
\<close>

lemma lexes_to_tags: "lexes_to esc (formatTagsJSON tags) [tags_tok tags]"
proof (cases "tags = []")
  case True
  then show ?thesis
    by (simp add: formatTagsJSON_def tags_tok_def) (rule lexes_to_word; simp add: word_ch_def)
next
  case False
  let ?j = "ReplaceAll (Join (map escape_tag tags) ''\",\"'') [quote_ch] [quote_ch, quote_ch]"
  have t: "formatTagsJSON tags = quote_ch # ''[\"'' @ ?j @ ''\"]'' @ [quote_ch]"
    using False by (simp add: formatTagsJSON_def sq_def ReplaceAll_single)
  have "lex esc (Plain []) (formatTagsJSON tags @ c # rest) =
      map_option (\<lambda>ts. tags_tok tags # ts) (lex esc (Plain []) (c # rest))"
    if c: "sym_ch c \<or> blank_ch c" for c rest
  proof -
    have "lex esc (Plain []) (formatTagsJSON tags @ c # rest) =
        lex esc (InStr (rev ''[\"'')) (?j @ ''\"]'' @ quote_ch # c # rest)"
      by (simp add: t lex.simps option.map_ident)
    also have "\<dots> = lex esc (Qt (rev (stored_tags tags))) (c # rest)"
      by (simp add: lex_escape_tags lex.simps stored_tags_def)
    also have "\<dots> = map_option (\<lambda>ts. tags_tok tags # ts) (lex esc (Plain []) (c # rest))"
      using sep_not_quote [OF c] False by (simp add: lex.simps(8) tags_tok_def)
    finally show ?thesis .
  qed
  then show ?thesis by (simp add: lexes_to_def append_singleton)
qed

lemma lex_tags:
  "sym_ch c \<or> blank_ch c \<Longrightarrow>
   lex esc (Plain []) (formatTagsJSON tags @ c # rest) =
     map_option (\<lambda>ts. tags_tok tags # ts) (lex esc (Plain []) (c # rest))"
  using lexes_toD [OF lexes_to_tags] by simp

end

interpretation mysql: sql_json_reader mysql_esc
  by unfold_locales (simp add: mysql_esc_def)

context sql_reader
begin

lemma lexes_to_opt_null: "lexes_to esc (opt_field ''NULL'' v) [opt_tok v]"
proof -
  have "lexes_to esc ''NULL'' [Word ''NULL'']"
    by (rule lexes_to_word) (simp_all add: word_ch_def)
  from lexes_to_opt [OF this, of v] show ?thesis by (simp add: opt_tok_def split: if_splits)
qed

lemma lex_opt_null:
  "sym_ch c \<or> blank_ch c \<Longrightarrow>
   lex esc (Plain []) (opt_field ''NULL'' v @ c # rest) =
     map_option (\<lambda>ts. opt_tok v # ts) (lex esc (Plain []) (c # rest))"
  by (drule lexes_toD [OF lexes_to_opt_null]) (simp add: append_singleton)

lemma lex_num:
  "sym_ch c \<or> blank_ch c \<Longrightarrow>
   lex esc (Plain []) (Itoa n @ c # rest) =
     map_option (\<lambda>ts. Word (Itoa n) # ts) (lex esc (Plain []) (c # rest))"
proof -
  assume "sym_ch c \<or> blank_ch c"
  from lexes_toD [OF lexes_to_word this, of "Itoa n"] show ?thesis
    using Itoa_word [of n] by (simp add: append_singleton)
qed

lemmas lex_fields = lex_literal lex_literal_end lex_opt_null lex_num

end

end
