(* ===== verification/DmlParse.thy ===== *)
theory DmlParse
  imports DmlRead
begin

text \<open>
  The statement each mutation text is read as.  \<open>board_texts\<close> collects the readings; the
  statements themselves are named so that their effect on the tables can be stated.
\<close>

named_theorems board_texts "readings of the mutation texts"

section \<open>The intended statements\<close>

definition claim_stmt :: "string \<Rightarrow> string \<Rightarrow> stmt" where
  "claim_stmt i r =
     Update ''wanted'' [(''claimed_by'', ELit r), (''status'', ELit ''claimed''), (''updated_at'', ENow)]
       [Eq ''id'' i, Eq ''status'' ''open'']"

definition unclaim_stmt :: "string \<Rightarrow> stmt" where
  "unclaim_stmt i =
     Update ''wanted'' [(''claimed_by'', ENull), (''status'', ELit ''open''), (''updated_at'', ENow)]
       [Eq ''id'' i, Eq ''status'' ''claimed'']"

definition review_stmt :: "string \<Rightarrow> string \<Rightarrow> string \<Rightarrow> stmt" where
  "review_stmt i r ev =
     Update ''wanted'' [(''status'', ELit ''in_review''), (''evidence_url'', ELit ev), (''updated_at'', ENow)]
       [Eq ''id'' i, Eq ''status'' ''claimed'', Eq ''claimed_by'' r]"

definition completion_cols :: "string list" where
  "completion_cols = [''id'', ''wanted_id'', ''completed_by'', ''evidence'', ''hop_uri'', ''completed_at'']"

definition completion_exprs :: "string \<Rightarrow> string \<Rightarrow> string \<Rightarrow> string \<Rightarrow> string \<Rightarrow> sql_expr list" where
  "completion_exprs c i r ev hop = [ELit c, ELit i, ELit r, ELit ev, opt_expr hop, ENow]"

definition submit_stmt :: "string \<Rightarrow> string \<Rightarrow> string \<Rightarrow> string \<Rightarrow> string \<Rightarrow> stmt" where
  "submit_stmt c i r ev hop =
     InsertSelect True ''completions'' completion_cols (completion_exprs c i r ev hop)
       ''wanted'' [Eq ''id'' i, Eq ''status'' ''in_review'', Eq ''claimed_by'' r]
       ''completions'' [Eq ''wanted_id'' i]"

definition adopt_completion_stmt :: "string \<Rightarrow> string \<Rightarrow> string \<Rightarrow> string \<Rightarrow> string \<Rightarrow> stmt" where
  "adopt_completion_stmt c i r ev hop =
     Insert True ''completions'' completion_cols (completion_exprs c i r ev hop)"

definition adopt_wanted_stmt :: "string \<Rightarrow> string \<Rightarrow> string \<Rightarrow> stmt" where
  "adopt_wanted_stmt i r ev =
     Update ''wanted'' [(''status'', ELit ''completed''), (''claimed_by'', ELit r),
                        (''evidence_url'', ELit ev), (''updated_at'', ENow)] [Eq ''id'' i]"

definition drop_completions_stmt :: "string \<Rightarrow> stmt" where
  "drop_completions_stmt i = Delete ''completions'' [Eq ''wanted_id'' i]"

definition stamp_stmt :: "string \<Rightarrow> string \<Rightarrow> string \<Rightarrow> Stamp \<Rightarrow> stmt" where
  "stamp_stmt c r hop st =
     Insert False ''stamps''
       [''id'', ''author'', ''subject'', ''valence'', ''confidence'', ''severity'', ''context_id'',
        ''context_type'', ''skill_tags'', ''message'', ''hop_uri'', ''created_at'']
       [ELit (st_ID st), ELit r, ELit (st_Subject st), ELit (stamp_valence st), ENum ''1.0'',
        ELit (st_Severity st), ELit c, ELit ''completion'', tags_expr (st_SkillTags st),
        opt_expr (st_Message st), opt_expr hop, ENow]"

definition validate_stmt :: "string \<Rightarrow> string \<Rightarrow> Stamp \<Rightarrow> stmt" where
  "validate_stmt c r st =
     Update ''completions'' [(''validated_by'', ELit r), (''stamp_id'', ELit (st_ID st)), (''validated_at'', ENow)]
       [Eq ''id'' c]"

definition status_stmt :: "string \<Rightarrow> string \<Rightarrow> string \<Rightarrow> stmt" where
  "status_stmt i from to =
     Update ''wanted'' [(''status'', ELit to), (''updated_at'', ENow)] [Eq ''id'' i, Eq ''status'' from]"

definition insert_wanted_stmt :: "string \<Rightarrow> WantedItem \<Rightarrow> stmt" where
  "insert_wanted_stmt now it =
     Insert False ''wanted''
       [''id'', ''title'', ''description'', ''project'', ''type'', ''priority'', ''tags'', ''posted_by'',
        ''status'', ''effort_level'', ''created_at'', ''updated_at'']
       [ELit (wi_ID it), ELit (wi_Title it), opt_expr (wi_Description it), opt_expr (wi_Project it),
        opt_expr (wi_Type it), ENum (Itoa (wi_Priority it)), tags_expr (wi_Tags it),
        opt_expr (wi_PostedBy it), ELit (if wi_Status it = [] then ''open'' else wi_Status it),
        ELit (if wi_EffortLevel it = [] then ''medium'' else wi_EffortLevel it), ELit now, ELit now]"

lemmas stmt_defs =
  claim_stmt_def unclaim_stmt_def review_stmt_def completion_cols_def completion_exprs_def
  submit_stmt_def adopt_completion_stmt_def adopt_wanted_stmt_def drop_completions_stmt_def
  stamp_stmt_def validate_stmt_def status_stmt_def insert_wanted_stmt_def

section \<open>Readings\<close>

context sql_reader
begin

lemma parse_claim: "parse_sql esc (ClaimWantedDML i r) = Some (claim_stmt i r)"
  by (simp add: ClaimWantedDML_def sq_def claim_stmt_def)
     (simp add: parse_defs lex.simps lex_fields)

lemma parse_unclaim: "parse_sql esc (UnclaimWantedDML i) = Some (unclaim_stmt i)"
  by (simp add: UnclaimWantedDML_def sq_def unclaim_stmt_def)
     (simp add: parse_defs lex.simps lex_fields)

lemma parse_close: "parse_sql esc (CloseWantedDML i) = Some (status_stmt i ''in_review'' ''completed'')"
  by (simp add: CloseWantedDML_def sq_def status_stmt_def)
     (simp add: parse_defs lex.simps lex_fields)

lemma parse_delete: "parse_sql esc (DeleteWantedDML i) = Some (status_stmt i ''open'' ''withdrawn'')"
  by (simp add: DeleteWantedDML_def sq_def status_stmt_def)
     (simp add: parse_defs lex.simps lex_fields)

lemma parse_reject:
  "map (parse_sql esc) (RejectCompletionDML i) =
     [Some (drop_completions_stmt i), Some (status_stmt i ''in_review'' ''claimed'')]"
  by (simp add: RejectCompletionDML_def sq_def status_stmt_def drop_completions_stmt_def)
     (simp add: parse_defs lex.simps lex_fields)

lemma parse_submit:
  "map (parse_sql esc) (SubmitCompletionDML c i r ev hop) =
     [Some (review_stmt i r ev), Some (submit_stmt c i r ev hop)]"
  by (simp add: SubmitCompletionDML_def sq_def review_stmt_def submit_stmt_def completion_cols_def
        completion_exprs_def)
     (simp add: parse_defs lex.simps lex_fields)

lemma parse_adopt:
  "map (parse_sql esc) (adopt_texts i c r ev hop) =
     [Some (drop_completions_stmt i), Some (adopt_completion_stmt c i r ev hop),
      Some (adopt_wanted_stmt i r ev)]"
  by (simp add: adopt_texts_def sq_def adopt_completion_stmt_def adopt_wanted_stmt_def
        drop_completions_stmt_def completion_cols_def completion_exprs_def)
     (simp add: parse_defs lex.simps lex_fields)

lemma parse_validate:
  "parse_sql esc (update_completion_text c r st) = Some (validate_stmt c r st)"
  by (simp add: update_completion_text_def sq_def validate_stmt_def)
     (simp add: parse_defs lex.simps lex_fields)

end

context sql_json_reader
begin

lemma parse_stamp:
  "parse_sql esc (insert_stamp_text c r hop st) = Some (stamp_stmt c r hop st)"
  by (simp add: insert_stamp_text_def sq_def stamp_stmt_def)
     (simp add: parse_defs lex.simps lex_fields lex_tags)

lemma parse_accept:
  "map (parse_sql esc) (AcceptCompletionDML i c r hop st) =
     [Some (stamp_stmt c r hop st), Some (validate_stmt c r st),
      Some (status_stmt i ''in_review'' ''completed'')]"
  using parse_close [of i]
  by (simp add: AcceptCompletionDML_def CloseWantedDML_def parse_stamp parse_validate)

lemma lex_opt_lit:
  assumes d: "EscapeSQL d = d" and c: "sym_ch c \<or> blank_ch c"
  shows "lex esc (Plain []) (opt_field (quote_ch # d @ [quote_ch]) v @ c # rest) =
         map_option (\<lambda>ts. Lit (if v = [] then d else v) # ts) (lex esc (Plain []) (c # rest))"
proof -
  have "lexes_to esc (quote_ch # d @ [quote_ch]) [Lit d]"
    using lexes_to_literal [of d] by (simp add: d)
  from lexes_toD [OF lexes_to_opt [OF this] c, of v rest] show ?thesis
    by (auto simp: append_singleton)
qed

lemmas lex_opt_medium = lex_opt_lit [of "''medium''", simplified]
lemmas lex_opt_open = lex_opt_lit [of "''open''", simplified]

lemma parse_insert:
  assumes "wi_ID it \<noteq> []" "wi_Title it \<noteq> []" and now: "EscapeSQL now = now"
  shows "\<exists>dml. InsertWantedDML now it = Inr dml \<and> parse_sql esc dml = Some (insert_wanted_stmt now it)"
proof -
  have e: "EscapeSQL ''medium'' = ''medium''" "EscapeSQL ''open'' = ''open''"
    by (simp_all add: EscapeSQL_bytes sql_byte_def)
  have "parse_sql esc (projr (InsertWantedDML (EscapeSQL now) it)) = Some (insert_wanted_stmt now it)"
    using assms(1,2)
    by (simp add: InsertWantedDML_def sq_def insert_wanted_stmt_def)
       (simp add: parse_defs lex.simps lex_fields lex_tags lex_opt_medium [OF e(1)] lex_opt_open [OF e(2)]
         Itoa_not_keyword Itoa_number_chars)
  moreover have "\<exists>dml. InsertWantedDML (EscapeSQL now) it = Inr dml"
    using assms(1,2) by (simp add: InsertWantedDML_def Let_def)
  ultimately show ?thesis by (auto simp: now)
qed

end

end
