(* ===== verification/DmlUpdate.thy ===== *)
theory DmlUpdate
  imports DmlParse
begin

text \<open>
  The reading of \<^verbatim>\<open>UpdateWantedDML\<close>, whose assignment list depends on which fields are set.
\<close>

section \<open>Assignments as items\<close>

text \<open>A column with the tokens and the value of its expression.\<close>

type_synonym set_item = "string \<times> token list \<times> sql_expr"

fun item_toks :: "set_item \<Rightarrow> token list" where
  "item_toks (c, et, e) = Word c # Sym CHR ''='' # et"

fun item_ok :: "(char \<Rightarrow> string) \<Rightarrow> string \<Rightarrow> set_item \<Rightarrow> bool" where
  "item_ok esc dml (c, et, e) \<longleftrightarrow>
     lexes_to esc dml (item_toks (c, et, e)) \<and> (\<forall>ts. parse_expr (et @ ts) = Some (e, ts))"

fun items_toks :: "set_item list \<Rightarrow> token list" where
  "items_toks [] = []"
| "items_toks [x] = item_toks x"
| "items_toks (x # y # ys) = item_toks x @ Sym CHR '','' # items_toks (y # ys)"

definition item_set :: "set_item \<Rightarrow> string \<times> sql_expr" where
  "item_set x = (fst x, snd (snd x))"

definition update_items :: "WantedUpdate \<Rightarrow> set_item list" where
  "update_items upd =
     (let lit = (\<lambda>c v. if v \<noteq> [] then [(c, [Lit v], ELit v)] else [])
      in lit ''title'' (wu_Title upd) @ lit ''description'' (wu_Description upd)
         @ lit ''project'' (wu_Project upd) @ lit ''type'' (wu_Type upd)
         @ (if 0 \<le> wu_Priority upd
            then [(''priority'', [Word (Itoa (wu_Priority upd))], ENum (Itoa (wu_Priority upd)))] else [])
         @ lit ''effort_level'' (wu_EffortLevel upd)
         @ (if wu_TagsSet upd then [(''tags'', [tags_tok (wu_Tags upd)], tags_expr (wu_Tags upd))] else []))"

definition now_item :: set_item where
  "now_item = (''updated_at'', [Word ''NOW'', Sym CHR ''('', Sym CHR '')''], ENow)"

definition update_stmt :: "string \<Rightarrow> WantedUpdate \<Rightarrow> stmt" where
  "update_stmt i upd =
     Update ''wanted'' (map item_set (update_items upd) @ [(''updated_at'', ENow)])
       [Eq ''id'' i, Eq ''status'' ''open'']"

lemma update_items_Nil: "update_items upd = [] \<longleftrightarrow> update_clauses upd = []"
  by (simp add: update_items_def update_clauses_def)

section \<open>Lexing and parsing item lists\<close>

lemma items_toks_Cons:
  "items_toks (x # xs) = item_toks x @ (if xs = [] then [] else Sym CHR '','' # items_toks xs)"
  by (cases xs) auto

lemma lex_items:
  assumes "list_all2 (item_ok esc) dmls items" and "dmls \<noteq> []" and c: "sym_ch c \<or> blank_ch c"
  shows "lex esc (Plain []) (Join dmls '', '' @ c # rest) =
         map_option (\<lambda>ts. items_toks items @ ts) (lex esc (Plain []) (c # rest))"
  using assms(1,2)
proof (induction rule: list_all2_induct)
  case Nil
  then show ?case by simp
next
  case (Cons d ds x xs)
  obtain a et e where x: "x = (a, et, e)" by (cases x) auto
  have l: "lexes_to esc d (item_toks x)" using Cons.hyps(1) by (simp add: x)
  show ?case
  proof (cases "ds = []")
    case True
    with Cons.hyps(2) lexes_toD [OF l c] show ?thesis by simp
  next
    case False
    have comma: "sym_ch CHR '',''" by (simp add: sym_ch_def)
    have "lex esc (Plain []) (Join (d # ds) '', '' @ c # rest) =
        map_option (\<lambda>ts. item_toks x @ ts)
          (lex esc (Plain []) (CHR '','' # space_ch # Join ds '', '' @ c # rest))"
      using False lexes_toD [OF l, of "CHR '',''"] comma by (simp add: Join_Cons)
    also have "lex esc (Plain []) (CHR '','' # space_ch # Join ds '', '' @ c # rest) =
        map_option (\<lambda>ts. Sym CHR '','' # items_toks xs @ ts) (lex esc (Plain []) (c # rest))"
      using Cons.IH [OF False]
      by (simp add: lex_sep comma blank_ch_def option.map_comp comp_def sym_ch_def)
    finally show ?thesis
      using False Cons.hyps(2) by (auto simp: items_toks_Cons option.map_comp comp_def)
  qed
qed

lemma parse_sets_items:
  assumes "list_all2 (item_ok esc) dmls items" and "dmls \<noteq> []" and "length items \<le> n"
  shows "parse_sets n (items_toks items @ Word w # rest) = Some (map item_set items, Word w # rest)"
  using assms
proof (induction arbitrary: n rule: list_all2_induct)
  case Nil
  then show ?case by simp
next
  case (Cons d ds x xs)
  obtain a et e where x: "x = (a, et, e)" by (cases x) auto
  have p: "parse_expr (et @ ts) = Some (e, ts)" for ts using Cons.hyps(1) by (simp add: x)
  obtain m where n: "n = Suc m" using Cons.prems(2) by (cases n) auto
  show ?case
  proof (cases "ds = []")
    case True
    with Cons.hyps(2) p show ?thesis by (simp add: n x item_set_def)
  next
    case False
    with Cons.hyps(2) have "xs \<noteq> []" by auto
    moreover have "parse_sets m (items_toks xs @ Word w # rest) = Some (map item_set xs, Word w # rest)"
      using Cons.prems n False by (intro Cons.IH) auto
    ultimately show ?thesis using p by (simp add: n x items_toks_Cons item_set_def)
  qed
qed

lemma length_items_toks: "length items \<le> length (items_toks items)"
proof (induction items)
  case Nil
  then show ?case by simp
next
  case (Cons x xs)
  obtain a et e where "x = (a, et, e)" by (cases x) auto
  with Cons show ?case by (simp add: items_toks_Cons)
qed

context sql_json_reader
begin

lemma item_ok_lit:
  assumes "list_all word_ch w" "w \<noteq> []"
  shows "item_ok esc (w @ CHR ''='' # quote_ch # EscapeSQL v @ [quote_ch]) (w, [Lit v], ELit v)"
  using lexes_to_assign [OF assms, of "CHR ''=''", OF _ lexes_to_literal [of v]]
  by (simp add: sym_ch_def)

lemma update_clauses_ok: "list_all2 (item_ok esc) (update_clauses upd) (update_items upd)"
proof -
  have lit: "item_ok esc (Sprintf (w @ CHR ''='' # quote_ch # CHR ''%'' # CHR ''s'' # [quote_ch]) [FS (EscapeSQL v)])
      (w, [Lit v], ELit v)"
    if "w \<in> {''title'', ''description'', ''project'', ''type'', ''effort_level''}" for w v
    using that item_ok_lit [of w v] by (auto simp: word_ch_def)
  have pri: "item_ok esc (Sprintf ''priority=%d'' [FD n]) (''priority'', [Word (Itoa n)], ENum (Itoa n))" for n
    using lexes_to_assign [of "''priority''" "CHR ''=''" esc "Itoa n" "[Word (Itoa n)]"]
      lexes_to_word [of "Itoa n" esc] Itoa_word [of n] Itoa_number [of n] Itoa_not_keyword [of n]
    by (simp add: word_ch_def sym_ch_def)
  have tags: "item_ok esc (Sprintf ''tags=%s'' [FS (formatTagsJSON ts)]) (''tags'', [tags_tok ts], tags_expr ts)" for ts
    using lexes_to_assign [of "''tags''" "CHR ''=''" esc "formatTagsJSON ts" "[tags_tok ts]"] lexes_to_tags [of ts]
    by (simp add: word_ch_def sym_ch_def)
  show ?thesis
    unfolding update_clauses_def update_items_def Let_def
    by (intro list_all2_appendI)
       (use lit [of "''title''"] lit [of "''description''"] lit [of "''project''"] lit [of "''type''"]
          lit [of "''effort_level''"] pri tags in \<open>simp_all add: sq_def del: item_ok.simps\<close>)
qed

lemma now_item_ok: "item_ok esc ''updated_at=NOW()'' now_item"
  by (simp add: now_item_def lexes_to_def lex.simps sym_ch_def blank_ch_def word_ch_def flush_def
        expect_def option.map_comp comp_def)

lemma parse_update:
  assumes "update_clauses upd \<noteq> []"
  shows "\<exists>dml. UpdateWantedDML i upd = Inr dml \<and> parse_sql esc dml = Some (update_stmt i upd)"
proof -
  let ?ds = "update_clauses upd @ [''updated_at=NOW()'']" and ?is = "update_items upd @ [now_item]"
  let ?tail = "[Word ''WHERE'', Word ''id'', Sym CHR ''='', Lit i, Word ''AND'', Word ''status'',
                Sym CHR ''='', Lit ''open'']"
  have ok: "list_all2 (item_ok esc) ?ds ?is"
    using update_clauses_ok now_item_ok by (intro list_all2_appendI) auto
  have items: "lex esc (Plain []) (Join ?ds '', '' @ c # rest) =
      map_option (\<lambda>ts. items_toks ?is @ ts) (lex esc (Plain []) (c # rest))"
    if "sym_ch c \<or> blank_ch c" for c rest
    using lex_items [OF ok _ that] by simp
  have "lex esc (Plain []) (Sprintf (sq ''UPDATE wanted SET %s WHERE id=`%s` AND status=`open`'')
          [FS (Join ?ds '', ''), FS (EscapeSQL i)]) =
        Some (Word ''UPDATE'' # Word ''wanted'' # Word ''SET'' # items_toks ?is @ ?tail)"
    by (simp add: sq_def)
       (simp add: lex.simps(2) [of esc _ "CHR ''U''"] lex.simps items lex_fields sym_ch_def blank_ch_def word_ch_def
          flush_def)
  moreover have "parse_stmt (Word ''UPDATE'' # Word ''wanted'' # Word ''SET'' # items_toks ?is @ ?tail) =
      Some (update_stmt i upd)"
  proof -
    have "parse_sets (length (items_toks ?is @ ?tail)) (items_toks ?is @ ?tail) =
        Some (map item_set ?is, ?tail)"
      using length_items_toks [of ?is] by (intro parse_sets_items [OF ok]) auto
    then show ?thesis
      by (simp add: parse_defs update_stmt_def item_set_def now_item_def)
  qed
  ultimately show ?thesis
    using assms by (simp add: UpdateWantedDML_def parse_sql_def)
qed

end

end
