(* ===== verification/Board.thy ===== *)
theory Board
  imports DmlUpdate
begin

text \<open>
  What the mutation texts do to the tables: each lifecycle text moves exactly the rows that
  \<^verbatim>\<open>ValidateTransition\<close> allows, and all of them together keep the board consistent.
\<close>

lemma those_map_Some [simp]: "those (map Some xs) = Some xs"
  by (induction xs) auto

lemma run_sql_parsed:
  "map (parse_sql esc) texts = map Some ss \<Longrightarrow> run_sql esc now texts db = exec_stmts now ss db"
  by (simp add: run_sql_def)

section \<open>Lifecycle moves of rows\<close>

definition set_vals :: "(string \<times> val) list \<Rightarrow> row \<Rightarrow> row" where
  "set_vals cvs r = foldl (\<lambda>r (c, v). r(c := v)) r cvs"

text \<open>
  The row after transition \<open>t\<close> of item \<open>i\<close>, with the columns the transition sets besides
  status and time; a row the transition is not valid for stays as it is.
\<close>

definition move_row :: "nat \<Rightarrow> Transition \<Rightarrow> string \<Rightarrow> (string \<times> val) list \<Rightarrow> row \<Rightarrow> row" where
  "move_row now t i cvs r =
     (case r ''status'' of
        VStr st \<Rightarrow>
          (case ValidateTransition st t of
             Inr st' \<Rightarrow>
               if r ''id'' = VStr i
               then (set_vals cvs r)(''status'' := VStr st', ''updated_at'' := VTime now) else r
           | Inl _ \<Rightarrow> r)
      | _ \<Rightarrow> r)"

definition move_wanted :: "nat \<Rightarrow> Transition \<Rightarrow> string \<Rightarrow> (string \<times> val) list \<Rightarrow> tables \<Rightarrow> tables" where
  "move_wanted now t i cvs db = db(''wanted'' := map (move_row now t i cvs) (db ''wanted''))"

definition drop_completions :: "string \<Rightarrow> tables \<Rightarrow> tables" where
  "drop_completions i db = db(''completions'' := filter (\<lambda>r. r ''wanted_id'' \<noteq> VStr i) (db ''completions''))"

lemma set_cols_vals: "set_cols now es r = set_vals (map (\<lambda>(c, e). (c, eval_expr now e)) es) r"
  by (induction es arbitrary: r) (auto simp: set_cols_def set_vals_def)

lemma set_vals_append: "set_vals (xs @ ys) r = set_vals ys (set_vals xs r)"
  by (simp add: set_vals_def)

lemma set_vals_other: "c \<notin> fst ` set cvs \<Longrightarrow> set_vals cvs r c = r c"
  by (induction cvs arbitrary: r) (auto simp: set_vals_def)

lemma val_str_cases: obtains (Str) st where "v = VStr st" | (Other) "\<And>st. v \<noteq> VStr st"
  by (cases v) auto

text \<open>An update guarded by the transition's source status is the transition's move.\<close>

lemma exec_move:
  assumes rule: "transitionRules t = Some rule" and s: "''status'' \<notin> fst ` set cvs"
    and es: "map (\<lambda>(c, e). (c, eval_expr now e)) es =
               cvs @ [(''status'', VStr (tr_to rule)), (''updated_at'', VTime now)]"
  shows "exec_stmt now (Update ''wanted'' es [Eq ''id'' i, Eq ''status'' (tr_from rule)]) db =
         Some (move_wanted now t i cvs db)"
proof -
  have "(if matches [Eq ''id'' i, Eq ''status'' (tr_from rule)] r then set_cols now es r else r) =
      move_row now t i cvs r" for r
    by (rule val_str_cases [of "r ''status''"])
       (auto simp: matches_def move_row_def ValidateTransition_def rule set_cols_vals es set_vals_append
          set_vals_def [of "[_, _]"] split: val.splits)
  then show ?thesis by (simp add: move_wanted_def)
qed

lemma exec_claim: "exec_stmt now (claim_stmt i r) db = Some (move_wanted now TransitionClaim i [(''claimed_by'', VStr r)] db)"
  using exec_move [OF transitionRules.simps(1), of "[(''claimed_by'', VStr r)]"] by (simp add: claim_stmt_def)

lemma exec_unclaim: "exec_stmt now (unclaim_stmt i) db = Some (move_wanted now TransitionUnclaim i [(''claimed_by'', VNull)] db)"
  using exec_move [OF transitionRules.simps(2), of "[(''claimed_by'', VNull)]"] by (simp add: unclaim_stmt_def)

lemma exec_status_close:
  "exec_stmt now (status_stmt i ''in_review'' ''completed'') db = Some (move_wanted now TransitionClose i [] db)"
  using exec_move [OF transitionRules.simps(6), of "[]"] by (simp add: status_stmt_def)

lemma exec_status_accept:
  "exec_stmt now (status_stmt i ''in_review'' ''completed'') db = Some (move_wanted now TransitionAccept i [] db)"
  using exec_move [OF transitionRules.simps(4), of "[]"] by (simp add: status_stmt_def del: exec_stmt.simps)

lemma exec_status_reject:
  "exec_stmt now (status_stmt i ''in_review'' ''claimed'') db = Some (move_wanted now TransitionReject i [] db)"
  using exec_move [OF transitionRules.simps(5), of "[]"] by (simp add: status_stmt_def)

lemma exec_status_delete:
  "exec_stmt now (status_stmt i ''open'' ''withdrawn'') db = Some (move_wanted now TransitionDelete i [] db)"
  using exec_move [OF transitionRules.simps(7), of "[]"] by (simp add: status_stmt_def)

lemma exec_drop: "exec_stmt now (drop_completions_stmt i) db = Some (drop_completions i db)"
  by (simp add: drop_completions_stmt_def drop_completions_def matches_def)

section \<open>The update text\<close>

definition update_vals :: "nat \<Rightarrow> WantedUpdate \<Rightarrow> (string \<times> val) list" where
  "update_vals now upd = map (\<lambda>(c, e). (c, eval_expr now e)) (map item_set (update_items upd))"

lemma update_vals_cols:
  "fst ` set (update_vals now upd) \<subseteq>
     {''title'', ''description'', ''project'', ''type'', ''priority'', ''effort_level'', ''tags''}"
  by (auto simp: update_vals_def update_items_def item_set_def Let_def split: if_splits)

lemma exec_update:
  "exec_stmt now (update_stmt i upd) db = Some (move_wanted now TransitionUpdate i (update_vals now upd) db)"
proof -
  have n: "''status'' \<notin> fst ` set (update_vals now upd)" using update_vals_cols [of now upd] by auto
  have "(if matches [Eq ''id'' i, Eq ''status'' ''open''] r
         then set_cols now (map item_set (update_items upd) @ [(''updated_at'', ENow)]) r else r) =
      move_row now TransitionUpdate i (update_vals now upd) r" for r
  proof (rule val_str_cases [of "r ''status''"])
    fix st assume st: "r ''status'' = VStr st"
    have "(set_vals (update_vals now upd) r)(''status'' := VStr ''open'') = set_vals (update_vals now upd) r"
      if "st = ''open''"
      using set_vals_other [OF n, of r] st that by (metis fun_upd_triv)
    then show ?thesis
      by (auto simp: matches_def move_row_def ValidateTransition_def st set_cols_vals set_vals_append
          update_vals_def [symmetric] set_vals_def [of "[_]"] simp del: map_map)
  qed (auto simp: matches_def move_row_def split: val.splits)
  then show ?thesis by (simp add: update_stmt_def move_wanted_def)
qed

section \<open>The texts implement the lifecycle\<close>

text \<open>
  C2: Running the claim, unclaim, close, delete or update text, with any item id, rig or field
  values whatever their bytes, moves exactly the wanted rows with that id for which
  \<^verbatim>\<open>ValidateTransition\<close> allows the transition to the status it returns, setting the claimer
  or the given fields; every other row and table stays as it was.
\<close>

theorem mutation_texts_refine_lifecycle:
  "run_sql mysql_esc now [ClaimWantedDML i r] db
     = Some (move_wanted now TransitionClaim i [(''claimed_by'', VStr r)] db) \<and>
   run_sql mysql_esc now [UnclaimWantedDML i] db
     = Some (move_wanted now TransitionUnclaim i [(''claimed_by'', VNull)] db) \<and>
   run_sql mysql_esc now [CloseWantedDML i] db = Some (move_wanted now TransitionClose i [] db) \<and>
   run_sql mysql_esc now [DeleteWantedDML i] db = Some (move_wanted now TransitionDelete i [] db) \<and>
   (case UpdateWantedDML i upd of
      Inl e \<Rightarrow> update_vals now upd = []
    | Inr dml \<Rightarrow> run_sql mysql_esc now [dml] db
                  = Some (move_wanted now TransitionUpdate i (update_vals now upd) db))"
proof (intro conjI)
  show "case UpdateWantedDML i upd of
      Inl e \<Rightarrow> update_vals now upd = []
    | Inr dml \<Rightarrow> run_sql mysql_esc now [dml] db
                  = Some (move_wanted now TransitionUpdate i (update_vals now upd) db)"
  proof (cases "update_clauses upd = []")
    case True
    then show ?thesis by (simp add: UpdateWantedDML_def update_vals_def update_items_Nil)
  next
    case False
    from mysql.parse_update [OF False, of i] obtain dml where
      "UpdateWantedDML i upd = Inr dml" "parse_sql mysql_esc dml = Some (update_stmt i upd)" by blast
    then show ?thesis by (simp add: run_sql_parsed [where ss = "[update_stmt i upd]"] exec_update)
  qed
qed (simp_all add: run_sql_parsed [where ss = "[_]"] mysql.parse_claim mysql.parse_unclaim mysql.parse_close
       mysql.parse_delete exec_claim exec_unclaim exec_status_close exec_status_delete)

end
