(* ===== verification/BoardInv.thy ===== *)
theory BoardInv
  imports Board
begin

text \<open>
  The mutations of the board as one type, their texts and statements, and the consistency of
  the board that every one of them keeps.
\<close>

section \<open>All mutations\<close>

datatype mutation =
    MPost string WantedItem
  | MClaim string string
  | MUnclaim string
  | MDone string string string string string
  | MAccept string string string string Stamp
  | MReject string
  | MClose string
  | MDelete string
  | MUpdate string WantedUpdate
  | MAcceptUpstream string string string string string string Stamp
  | MCloseUpstream string string string string string

fun mutation_texts :: "mutation \<Rightarrow> go_error + string list" where
  "mutation_texts (MPost now it) = (case InsertWantedDML now it of Inl e \<Rightarrow> Inl e | Inr d \<Rightarrow> Inr [d])"
| "mutation_texts (MClaim i r) = Inr [ClaimWantedDML i r]"
| "mutation_texts (MUnclaim i) = Inr [UnclaimWantedDML i]"
| "mutation_texts (MDone c i r ev hop) = Inr (SubmitCompletionDML c i r ev hop)"
| "mutation_texts (MAccept i c r hop st) = Inr (AcceptCompletionDML i c r hop st)"
| "mutation_texts (MReject i) = Inr (RejectCompletionDML i)"
| "mutation_texts (MClose i) = Inr [CloseWantedDML i]"
| "mutation_texts (MDelete i) = Inr [DeleteWantedDML i]"
| "mutation_texts (MUpdate i upd) = (case UpdateWantedDML i upd of Inl e \<Rightarrow> Inl e | Inr d \<Rightarrow> Inr [d])"
| "mutation_texts (MAcceptUpstream i c by ev r hop st) = Inr (AcceptUpstreamDML i c by ev r hop st)"
| "mutation_texts (MCloseUpstream i c by ev hop) = Inr (CloseUpstreamDML i c by ev hop)"

definition adopt_stmts :: "string \<Rightarrow> string \<Rightarrow> string \<Rightarrow> string \<Rightarrow> string \<Rightarrow> stmt list" where
  "adopt_stmts i c r ev hop =
     [drop_completions_stmt i, adopt_completion_stmt c i r ev hop, adopt_wanted_stmt i r ev]"

fun mutation_stmts :: "mutation \<Rightarrow> stmt list" where
  "mutation_stmts (MPost now it) = [insert_wanted_stmt now it]"
| "mutation_stmts (MClaim i r) = [claim_stmt i r]"
| "mutation_stmts (MUnclaim i) = [unclaim_stmt i]"
| "mutation_stmts (MDone c i r ev hop) = [review_stmt i r ev, submit_stmt c i r ev hop]"
| "mutation_stmts (MAccept i c r hop st) =
     [stamp_stmt c r hop st, validate_stmt c r st, status_stmt i ''in_review'' ''completed'']"
| "mutation_stmts (MReject i) = [drop_completions_stmt i, status_stmt i ''in_review'' ''claimed'']"
| "mutation_stmts (MClose i) = [status_stmt i ''in_review'' ''completed'']"
| "mutation_stmts (MDelete i) = [status_stmt i ''open'' ''withdrawn'']"
| "mutation_stmts (MUpdate i upd) = [update_stmt i upd]"
| "mutation_stmts (MAcceptUpstream i c by ev r hop st) =
     adopt_stmts i c by ev hop @ [stamp_stmt c r hop st, validate_stmt c r st]"
| "mutation_stmts (MCloseUpstream i c by ev hop) = adopt_stmts i c by ev hop"

text \<open>
  The items the program posts have no status or an open one, and a clock text without quote or
  backslash.
\<close>

fun posted_ok :: "mutation \<Rightarrow> bool" where
  "posted_ok (MPost now it) \<longleftrightarrow> EscapeSQL now = now \<and> wi_Status it \<in> {[], ''open''}"
| "posted_ok _ \<longleftrightarrow> True"

lemma mysql_texts_parsed:
  assumes "mutation_texts m = Inr texts" and "posted_ok m"
  shows "map (parse_sql mysql_esc) texts = map Some (mutation_stmts m)"
proof (cases m)
  case (MPost now it)
  with assms have ne: "wi_ID it \<noteq> []" "wi_Title it \<noteq> []"
    by (auto simp: InsertWantedDML_def split: if_splits)
  moreover from assms(2) MPost have "EscapeSQL now = now" by simp
  ultimately obtain dml where
    "InsertWantedDML now it = Inr dml" "parse_sql mysql_esc dml = Some (insert_wanted_stmt now it)"
    using mysql.parse_insert by blast
  with MPost assms(1) show ?thesis by auto
next
  case (MUpdate i upd)
  show ?thesis
  proof (cases "update_clauses upd = []")
    case True
    with assms(1) MUpdate show ?thesis by (simp add: UpdateWantedDML_def)
  next
    case False
    from mysql.parse_update [OF this, of i] MUpdate assms(1) show ?thesis by auto
  qed
qed (use assms(1) in \<open>auto simp: mysql.parse_claim mysql.parse_unclaim mysql.parse_close
       mysql.parse_delete mysql.parse_reject mysql.parse_submit mysql.parse_accept
       mysql.parse_adopt mysql.parse_stamp mysql.parse_validate adopt_stmts_def
       AcceptUpstreamDML_def CloseUpstreamDML_def\<close>)

text \<open>
  C1: No byte of any argument of any mutation can change what is executed: the texts the program
  builds are read as the fixed statements of that mutation, with the arguments as literal values.
\<close>

theorem mutation_texts_injection_free:
  assumes "mutation_texts m = Inr texts" and "posted_ok m"
  shows "map (parse_sql mysql_esc) texts = map Some (mutation_stmts m)"
  using assms by (rule mysql_texts_parsed)

theorem mutation_texts_injection_free_witness:
  "map (parse_sql mysql_esc) [ClaimWantedDML ''w-1'' [quote_ch, bslash_ch, CHR '';'']]
     = [Some (claim_stmt ''w-1'' [quote_ch, bslash_ch, CHR '';''])]"
  using mutation_texts_injection_free [of "MClaim ''w-1'' [quote_ch, bslash_ch, CHR '';'']"] by simp

section \<open>The board's consistency\<close>

definition status_ok :: "row \<Rightarrow> bool" where
  "status_ok r \<longleftrightarrow> r ''status'' \<in> VStr ` set lifecycle_statuses"

definition claim_ok :: "row \<Rightarrow> bool" where
  "claim_ok r \<longleftrightarrow>
     (r ''status'' \<in> {VStr ''claimed'', VStr ''in_review''} \<longrightarrow> r ''claimed_by'' \<noteq> VNull)"

definition col_distinct :: "string \<Rightarrow> row list \<Rightarrow> bool" where
  "col_distinct c rs \<longleftrightarrow> distinct (map (\<lambda>r. r c) rs)"

text \<open>
  Statuses are the lifecycle's, claimed and in-review items have a claimer, ids are unique, an
  item has at most one completion, and no one has stamped themselves.
\<close>

definition board_ok :: "tables \<Rightarrow> bool" where
  "board_ok db \<longleftrightarrow>
     list_all (\<lambda>r. status_ok r \<and> claim_ok r) (db ''wanted'') \<and>
     col_distinct ''id'' (db ''wanted'') \<and>
     col_distinct ''id'' (db ''completions'') \<and> col_distinct ''wanted_id'' (db ''completions'') \<and>
     col_distinct ''id'' (db ''stamps'') \<and>
     list_all (\<lambda>r. r ''author'' \<noteq> r ''subject'') (db ''stamps'')"

lemma col_distinct_map: "(\<And>r. r \<in> set rs \<Longrightarrow> f r c = r c) \<Longrightarrow> col_distinct c (map f rs) = col_distinct c rs"
  by (simp add: col_distinct_def comp_def cong: map_cong)

lemma col_distinct_filter: "col_distinct c rs \<Longrightarrow> col_distinct c (filter P rs)"
  by (simp add: col_distinct_def distinct_map_filter)

lemma col_distinct_snoc: "col_distinct c (rs @ [r]) \<longleftrightarrow> col_distinct c rs \<and> (\<forall>r'\<in>set rs. r' c \<noteq> r c)"
  by (auto simp: col_distinct_def image_iff)

lemma board_ok_wanted:
  assumes "board_ok db"
    and "\<And>r. r \<in> set (db ''wanted'') \<Longrightarrow> status_ok r \<Longrightarrow> claim_ok r \<Longrightarrow>
           status_ok (f r) \<and> claim_ok (f r) \<and> f r ''id'' = r ''id''"
  shows "board_ok (db(''wanted'' := map f (db ''wanted'')))"
  using assms by (auto simp: board_ok_def col_distinct_map list_all_iff)

lemma status_okE:
  assumes "status_ok r" obtains st where "r ''status'' = VStr st" "st \<in> set lifecycle_statuses"
  using assms by (auto simp: status_ok_def)

lemma move_row_id: "''id'' \<notin> fst ` set cvs \<Longrightarrow> move_row now t i cvs r ''id'' = r ''id''"
  by (auto simp: move_row_def set_vals_other split: val.splits sum.splits)

lemma move_row_status:
  assumes "status_ok r"
  shows "status_ok (move_row now t i cvs r)"
proof -
  from assms obtain st where st: "r ''status'' = VStr st" "st \<in> set lifecycle_statuses"
    by (rule status_okE)
  show ?thesis
  proof (cases "ValidateTransition st t")
    case (Inr st')
    with lifecycle.step_keeps [OF st(2)] have "st' \<in> set lifecycle_statuses" by blast
    with Inr assms show ?thesis by (simp add: move_row_def st(1) status_ok_def)
  qed (use assms in \<open>simp add: move_row_def st(1)\<close>)
qed

text \<open>A move keeps the claimer where the target needs one.\<close>

definition keeps_claim :: "Transition \<Rightarrow> (string \<times> val) list \<Rightarrow> bool" where
  "keeps_claim t cvs \<longleftrightarrow>
     (\<forall>st st'. ValidateTransition st t = Inr st' \<longrightarrow> st' \<in> {''claimed'', ''in_review''} \<longrightarrow>
        (\<exists>x. cvs = [(''claimed_by'', VStr x)]) \<or>
        st \<in> {''claimed'', ''in_review''} \<and> ''claimed_by'' \<notin> fst ` set cvs)"

lemma move_row_claim:
  assumes "claim_ok r" and k: "keeps_claim t cvs"
  shows "claim_ok (move_row now t i cvs r)"
proof (rule val_str_cases [of "r ''status''"])
  fix st assume st: "r ''status'' = VStr st"
  show ?thesis
  proof (cases "ValidateTransition st t")
    case (Inr st')
    show ?thesis
    proof (cases "st' \<in> {''claimed'', ''in_review''}")
      case True
      with k Inr have "(\<exists>x. cvs = [(''claimed_by'', VStr x)]) \<or>
        st \<in> {''claimed'', ''in_review''} \<and> ''claimed_by'' \<notin> fst ` set cvs"
        unfolding keeps_claim_def by blast
      then show ?thesis using assms(1) Inr
        by (auto simp: move_row_def st claim_ok_def set_vals_other set_vals_def [of "[_]"])
    next
      case False
      then show ?thesis using assms(1) Inr by (simp add: move_row_def st claim_ok_def)
    qed
  qed (use assms(1) in \<open>simp add: move_row_def st\<close>)
qed (use assms(1) in \<open>simp add: move_row_def split: val.splits\<close>)

lemma board_ok_move:
  assumes "board_ok db" and "''id'' \<notin> fst ` set cvs" and "keeps_claim t cvs"
  shows "board_ok (move_wanted now t i cvs db)"
  unfolding move_wanted_def using assms
  by (intro board_ok_wanted) (simp_all add: move_row_id move_row_status move_row_claim)

lemma keeps_claim_moves:
  "keeps_claim TransitionClaim [(''claimed_by'', VStr r)]"
  "keeps_claim TransitionUnclaim [(''claimed_by'', VNull)]"
  "keeps_claim TransitionDone [(''evidence_url'', VStr ev)]"
  "t \<in> {TransitionAccept, TransitionReject, TransitionClose, TransitionDelete} \<Longrightarrow> keeps_claim t []"
  "keeps_claim TransitionUpdate cvs"
  by (auto simp: keeps_claim_def ValidateTransition_Inr)

lemma board_ok_drop: "board_ok db \<Longrightarrow> board_ok (drop_completions i db)"
  by (auto simp: board_ok_def drop_completions_def intro: col_distinct_filter)

lemma insert_row_cases:
  assumes "insert_row ign t r db = Some db'"
  shows "db' = db \<or> db' = db(t := db t @ [r]) \<and> (\<forall>r'\<in>set (db t). r' ''id'' \<noteq> r ''id'') \<and> row_check t r"
  using assms by (auto simp: insert_row_def list_ex_iff split: if_splits)

lemma board_ok_stamp:
  assumes "board_ok db" and "exec_stmt now (stamp_stmt c r hop st) db = Some db'"
  shows "board_ok db'"
  using assms insert_row_cases [of False "''stamps''"]
  by (fastforce simp: stamp_stmt_def board_ok_def col_distinct_snoc row_check_def)

lemma board_ok_validate:
  assumes "board_ok db" and "exec_stmt now (validate_stmt c r st) db = Some db'"
  shows "board_ok db'"
  using assms by (auto simp: validate_stmt_def board_ok_def set_cols_def col_distinct_map)

text \<open>The row a completion insert writes.\<close>

definition completion_row :: "nat \<Rightarrow> string \<Rightarrow> string \<Rightarrow> string \<Rightarrow> string \<Rightarrow> string \<Rightarrow> row" where
  "completion_row now c i r ev hop =
     set_cols now (zip completion_cols (completion_exprs c i r ev hop)) (default_row ''completions'')"

lemma completion_row_cols [simp]:
  "completion_row now c i r ev hop ''id'' = VStr c"
  "completion_row now c i r ev hop ''wanted_id'' = VStr i"
  by (simp_all add: completion_row_def completion_cols_def completion_exprs_def set_cols_def)

lemma board_ok_completion:
  assumes "board_ok db" and "\<forall>r'\<in>set (db ''completions''). r' ''wanted_id'' \<noteq> VStr i"
    and "insert_row True ''completions'' (completion_row now c i r ev hop) db = Some db'"
  shows "board_ok db'"
  using assms(1,2) insert_row_cases [OF assms(3)] by (auto simp: board_ok_def col_distinct_snoc)

lemma board_ok_review:
  assumes "board_ok db" and "exec_stmt now (review_stmt i r ev) db = Some db'"
  shows "board_ok db'"
proof -
  let ?f = "\<lambda>w. if matches [Eq ''id'' i, Eq ''status'' ''claimed'', Eq ''claimed_by'' r] w
    then set_cols now [(''status'', ELit ''in_review''), (''evidence_url'', ELit ev), (''updated_at'', ENow)] w
    else w"
  have "board_ok (db(''wanted'' := map ?f (db ''wanted'')))"
    by (rule board_ok_wanted [OF assms(1)])
       (simp add: matches_def set_cols_def status_ok_def claim_ok_def lifecycle_statuses_def)
  with assms(2) show ?thesis by (simp add: review_stmt_def)
qed

lemma board_ok_submit:
  assumes "board_ok db" and "exec_stmt now (submit_stmt c i r ev hop) db = Some db'"
  shows "board_ok db'"
proof (cases "list_ex (matches [Eq ''wanted_id'' i]) (db ''completions'')")
  case True
  with assms show ?thesis by (simp add: submit_stmt_def)
next
  case False
  then have "\<forall>r'\<in>set (db ''completions''). r' ''wanted_id'' \<noteq> VStr i"
    by (simp add: list_ex_iff matches_def)
  with assms False show ?thesis
    by (auto simp: submit_stmt_def completion_row_def [symmetric] split: if_splits
        intro: board_ok_completion)
qed

lemma board_ok_adopt_wanted:
  assumes "board_ok db" and "exec_stmt now (adopt_wanted_stmt i r ev) db = Some db'"
  shows "board_ok db'"
proof -
  let ?f = "\<lambda>w. if matches [Eq ''id'' i] w
    then set_cols now [(''status'', ELit ''completed''), (''claimed_by'', ELit r), (''evidence_url'', ELit ev),
           (''updated_at'', ENow)] w
    else w"
  have "board_ok (db(''wanted'' := map ?f (db ''wanted'')))"
    by (rule board_ok_wanted [OF assms(1)])
       (simp add: matches_def set_cols_def status_ok_def claim_ok_def lifecycle_statuses_def)
  with assms(2) show ?thesis by (simp add: adopt_wanted_stmt_def)
qed

lemma board_ok_adopt:
  assumes "board_ok db" and "exec_stmts now (adopt_stmts i c r ev hop) db = Some db'"
  shows "board_ok db'"
proof -
  from assms(2) obtain db2 where
    ins: "insert_row True ''completions'' (completion_row now c i r ev hop) (drop_completions i db) = Some db2"
    and upd: "exec_stmt now (adopt_wanted_stmt i r ev) db2 = Some db'"
    by (auto simp: adopt_stmts_def exec_drop adopt_completion_stmt_def completion_row_def [symmetric]
        bind_eq_Some_conv)
  have "board_ok (drop_completions i db)" using assms(1) by (rule board_ok_drop)
  moreover have "\<forall>r'\<in>set (drop_completions i db ''completions''). r' ''wanted_id'' \<noteq> VStr i"
    by (simp add: drop_completions_def)
  ultimately have "board_ok db2" using ins by (rule board_ok_completion)
  then show ?thesis using upd by (rule board_ok_adopt_wanted)
qed

lemma board_ok_post:
  assumes "board_ok db" and "wi_Status it \<in> {[], ''open''}"
    and "exec_stmt now (insert_wanted_stmt t it) db = Some db'"
  shows "board_ok db'"
proof -
  obtain row where ins: "insert_row False ''wanted'' row db = Some db'" and st: "row ''status'' = VStr ''open''"
    using assms(2,3) by (auto simp: insert_wanted_stmt_def set_cols_def)
  from st have "status_ok row" "claim_ok row"
    by (simp_all add: status_ok_def claim_ok_def lifecycle_statuses_def)
  with assms(1) insert_row_cases [OF ins] show ?thesis
    by (auto simp: board_ok_def col_distinct_snoc)
qed

lemma exec_stmts_Cons_Some:
  "exec_stmts now (s # ss) db = Some db' \<longleftrightarrow>
     (\<exists>db1. exec_stmt now s db = Some db1 \<and> exec_stmts now ss db1 = Some db')"
  by (auto simp: bind_eq_Some_conv)

lemma exec_stmts_append_Some:
  "exec_stmts now (ss @ ts) db = Some db' \<longleftrightarrow>
     (\<exists>db1. exec_stmts now ss db = Some db1 \<and> exec_stmts now ts db1 = Some db')"
  by (induction ss arbitrary: db) (auto simp: bind_eq_Some_conv)

lemmas board_ok_stmts =
  board_ok_stamp board_ok_validate board_ok_review board_ok_submit board_ok_move board_ok_drop

lemma board_ok_stmts_exec:
  assumes "board_ok db" and "posted_ok m" and "exec_stmts now (mutation_stmts m) db = Some db'"
  shows "board_ok db'"
proof (cases m)
  case (MUpdate i upd)
  have "''id'' \<notin> fst ` set (update_vals now upd)" using update_vals_cols [of now upd] by auto
  with MUpdate assms show ?thesis by (auto simp: exec_update intro: board_ok_move keeps_claim_moves)
next
  case (MPost t it)
  with assms show ?thesis by (auto simp: bind_eq_Some_conv intro: board_ok_post)
next
  case (MAcceptUpstream i c u ev r hop st)
  with assms(3) obtain db1 db2 where
    "exec_stmts now (adopt_stmts i c u ev hop) db = Some db1"
    "exec_stmt now (stamp_stmt c r hop st) db1 = Some db2"
    "exec_stmt now (validate_stmt c r st) db2 = Some db'"
    by (auto simp: exec_stmts_append_Some bind_eq_Some_conv)
  with assms(1) show ?thesis by (metis board_ok_adopt board_ok_stamp board_ok_validate)
next
  case (MCloseUpstream i c u ev hop)
  with assms show ?thesis by (auto intro: board_ok_adopt)
next
  case (MDone c i r ev hop)
  with assms(3) obtain db1 where
    "exec_stmt now (review_stmt i r ev) db = Some db1"
    "exec_stmt now (submit_stmt c i r ev hop) db1 = Some db'"
    by (auto simp: bind_eq_Some_conv)
  with assms(1) show ?thesis by (metis board_ok_review board_ok_submit)
next
  case (MAccept i c r hop st)
  with assms(3) obtain db1 db2 where
    "exec_stmt now (stamp_stmt c r hop st) db = Some db1"
    "exec_stmt now (validate_stmt c r st) db1 = Some db2"
    and m: "db' = move_wanted now TransitionAccept i [] db2"
    by (auto simp: bind_eq_Some_conv exec_status_accept simp del: exec_stmt.simps)
  with assms(1) have "board_ok db2" by (metis board_ok_stamp board_ok_validate)
  then show ?thesis unfolding m by (rule board_ok_move) (simp_all add: keeps_claim_moves)
qed (use assms in \<open>auto simp: exec_claim exec_unclaim exec_status_reject exec_status_delete exec_drop
       exec_status_close simp del: exec_stmt.simps
       intro!: board_ok_move keeps_claim_moves board_ok_drop\<close>)

text \<open>
  C3: The board stays consistent: running the texts of a mutation on a consistent board gives a
  consistent board whenever the engine runs them to the end.  The arguments are any texts, but for a
  post: its status has to be empty or \<^verbatim>\<open>open\<close>, as in every post of the program, and its clock text
  free of quotes and backslashes (\<open>posted_ok\<close>).
\<close>

theorem mutations_keep_board_ok:
  assumes "board_ok db" and "mutation_texts m = Inr texts" and "posted_ok m"
    and "run_sql mysql_esc now texts db = Some db'"
  shows "board_ok db'"
  using assms(4) board_ok_stmts_exec [OF assms(1,3)]
    run_sql_parsed [OF mysql_texts_parsed [OF assms(2,3)]] by simp

definition example_wanted :: "string \<Rightarrow> string \<Rightarrow> row" where
  "example_wanted i st =
     (default_row ''wanted'')(''id'' := VStr i, ''title'' := VStr ''t'', ''posted_by'' := VStr ''poster'',
        ''claimed_by'' := VStr ''worker'', ''status'' := VStr st)"

definition example_board :: "string \<Rightarrow> tables" where
  "example_board st = (\<lambda>_. [])
     (''wanted'' := [example_wanted ''w-1'' st],
      ''completions'' := [(\<lambda>_. VNull)(''id'' := VStr ''c-1'', ''wanted_id'' := VStr ''w-1'')])"

lemma example_board_ok: "st \<in> set lifecycle_statuses \<Longrightarrow> board_ok (example_board st)"
  by (simp add: board_ok_def example_board_def example_wanted_def col_distinct_def status_ok_def claim_ok_def)

theorem mutations_keep_board_ok_witness:
  "board_ok (move_wanted 7 TransitionUnclaim ''w-1'' [(''claimed_by'', VNull)] (example_board ''claimed''))"
proof -
  have ok: "board_ok (example_board ''claimed'')"
    by (rule example_board_ok) (simp add: lifecycle_statuses_def)
  have t: "mutation_texts (MUnclaim ''w-1'') = Inr [UnclaimWantedDML ''w-1'']" by simp
  have r: "run_sql mysql_esc 7 [UnclaimWantedDML ''w-1''] (example_board ''claimed'') =
      Some (move_wanted 7 TransitionUnclaim ''w-1'' [(''claimed_by'', VNull)] (example_board ''claimed''))"
    by (simp add: run_sql_parsed [where ss = "[_]"] mysql.parse_unclaim exec_unclaim)
  show ?thesis by (rule mutations_keep_board_ok [OF ok t _ r]) simp
qed

section \<open>Mutations whose first statements are not guarded\<close>

lemma move_wanted_none:
  assumes "transitionRules t = Some rule"
    and "\<forall>w\<in>set (db ''wanted''). w ''id'' = VStr i \<longrightarrow> w ''status'' \<noteq> VStr (tr_from rule)"
  shows "move_wanted now t i cvs db = db"
proof -
  have "move_row now t i cvs w = w" if "w \<in> set (db ''wanted'')" for w
    using that assms by (auto simp: move_row_def ValidateTransition_def split: val.splits)
  then have "map (move_row now t i cvs) (db ''wanted'') = db ''wanted''" by (simp add: map_idI)
  then show ?thesis by (simp add: move_wanted_def)
qed

text \<open>
  The reject text deletes an item's completion even when the item is not in review: its
  first statement has no status guard, so on, say, a completed item the completion is lost while
  the item stays completed, and the engine has a change to commit, so no conflict is reported.
\<close>

theorem reject_deletes_unguarded:
  assumes "\<forall>w\<in>set (db ''wanted''). w ''id'' = VStr i \<longrightarrow> w ''status'' \<noteq> VStr ''in_review''"
  shows "run_sql mysql_esc now (RejectCompletionDML i) db = Some (drop_completions i db)
         \<and> drop_completions i db ''wanted'' = db ''wanted''
         \<and> (\<forall>c\<in>set (drop_completions i db ''completions''). c ''wanted_id'' \<noteq> VStr i)"
proof -
  have "move_wanted now TransitionReject i [] (drop_completions i db) = drop_completions i db"
    by (rule move_wanted_none [OF transitionRules.simps(5)]) (use assms in \<open>simp add: drop_completions_def\<close>)
  then have "run_sql mysql_esc now (RejectCompletionDML i) db = Some (drop_completions i db)"
    by (simp add: run_sql_parsed [where ss = "[_, _]"] mysql.parse_reject exec_drop exec_status_reject
        del: exec_stmt.simps)
  then show ?thesis by (simp add: drop_completions_def)
qed

theorem reject_deletes_unguarded_witness:
  "run_sql mysql_esc 7 (RejectCompletionDML ''w-1'') (example_board ''completed'')
     = Some (drop_completions ''w-1'' (example_board ''completed''))
   \<and> drop_completions ''w-1'' (example_board ''completed'') ''completions'' = []
   \<and> example_board ''completed'' ''completions'' \<noteq> []"
  using reject_deletes_unguarded [of "example_board ''completed''" "''w-1''" 7]
  by (simp add: example_board_def example_wanted_def drop_completions_def)

text \<open>
  The accept text issues its stamp whatever the item's status: on an item that is not in
  review the stamp row is added (unless its id is taken or it would be a stamp on oneself) and
  the wanted row keeps its status.
\<close>

theorem accept_stamps_unguarded:
  assumes "\<forall>w\<in>set (db ''wanted''). w ''id'' = VStr i \<longrightarrow> w ''status'' \<noteq> VStr ''in_review''"
    and "\<forall>s\<in>set (db ''stamps''). s ''id'' \<noteq> VStr (st_ID st)" and "r \<noteq> st_Subject st"
  shows "\<exists>db' row. run_sql mysql_esc now (AcceptCompletionDML i c r hop st) db = Some db'
         \<and> db' ''wanted'' = db ''wanted'' \<and> db' ''stamps'' = db ''stamps'' @ [row]
         \<and> row ''author'' = VStr r \<and> row ''subject'' = VStr (st_Subject st)"
proof -
  obtain db1 row where s: "exec_stmt now (stamp_stmt c r hop st) db = Some db1"
    and db1: "db1 = db(''stamps'' := db ''stamps'' @ [row])"
    and row: "row ''author'' = VStr r" "row ''subject'' = VStr (st_Subject st)"
    using assms(2,3)
    by (simp add: stamp_stmt_def insert_row_def list_ex_iff row_check_def set_cols_def)
  obtain f where v: "exec_stmt now (validate_stmt c r st) db1 = Some (db1(''completions'' := f))"
    by (simp add: validate_stmt_def)
  have "move_wanted now TransitionAccept i [] (db1(''completions'' := f)) = db1(''completions'' := f)"
    by (rule move_wanted_none [OF transitionRules.simps(4)]) (use assms(1) in \<open>simp add: db1\<close>)
  with s v have "run_sql mysql_esc now (AcceptCompletionDML i c r hop st) db = Some (db1(''completions'' := f))"
    by (simp add: run_sql_parsed [where ss = "[_, _, _]"] mysql.parse_accept exec_status_accept
        del: exec_stmt.simps)
  with db1 row show ?thesis by auto
qed

definition example_stamp :: Stamp where
  "example_stamp =
     \<lparr>st_ID = ''s-1'', st_Author = ''poster'', st_Subject = ''worker'', st_Quality = 4, st_Reliability = 4,
      st_Severity = ''leaf'', st_ContextID = ''c-1'', st_ContextType = ''completion'', st_SkillTags = [],
      st_Message = []\<rparr>"

theorem accept_stamps_unguarded_witness:
  "\<exists>db'. run_sql mysql_esc 7 (AcceptCompletionDML ''w-1'' ''c-1'' ''poster'' [] example_stamp)
            (example_board ''claimed'') = Some db'
     \<and> db' ''wanted'' = example_board ''claimed'' ''wanted'' \<and> db' ''stamps'' \<noteq> []"
proof -
  have "\<exists>db' row. run_sql mysql_esc 7 (AcceptCompletionDML ''w-1'' ''c-1'' ''poster'' [] example_stamp)
            (example_board ''claimed'') = Some db'
     \<and> db' ''wanted'' = example_board ''claimed'' ''wanted''
     \<and> db' ''stamps'' = example_board ''claimed'' ''stamps'' @ [row]
     \<and> row ''author'' = VStr ''poster'' \<and> row ''subject'' = VStr (st_Subject example_stamp)"
    by (rule accept_stamps_unguarded) (simp_all add: example_board_def example_wanted_def example_stamp_def)
  then show ?thesis by auto
qed

end
