(* ===== verification/CommonsOps.thy ===== *)
theory CommonsOps
  imports Commons
begin

text \<open>
  The operations of \<^verbatim>\<open>internal/commons/commons.go\<close> on a database: the mutations with their
  conflict errors, the record queries with the parsing of their output, and the store
  \<^verbatim>\<open>WLCommons\<close> that bundles them.  \<open>uni\<close> is Go's Unicode lower-casing of non-ASCII text.
\<close>

section \<open>Mutations\<close>

text \<open>
  What every mutation makes of the error of \<^verbatim>\<open>Exec\<close>: nil, a conflict when nothing was there
  to commit, or the error wrapped.
\<close>

definition exec_outcome ::
  "(string \<Rightarrow> string) \<Rightarrow> string \<Rightarrow> string \<Rightarrow> go_error option \<times> 's \<Rightarrow> go_error option \<times> 's" where
  "exec_outcome uni conflict prefix r =
     (case r of
        (None, s) \<Rightarrow> (None, s)
      | (Some e, s) \<Rightarrow>
          if isNothingToCommit uni (Some e) then (Some (ConflictError conflict), s)
          else (Some (Wrap prefix e), s))"

definition InsertWanted :: "'s DB \<Rightarrow> string \<Rightarrow> WantedItem \<Rightarrow> bool \<Rightarrow> 's \<Rightarrow> go_error option \<times> 's" where
  "InsertWanted db now item signed s =
     (case InsertWantedDML now item of
        Inl err \<Rightarrow> (Some err, s)
      | Inr dml \<Rightarrow> db_Exec db [] (''wl post: '' @ wi_Title item) signed [dml] s)"

definition ClaimWanted ::
  "(string \<Rightarrow> string) \<Rightarrow> 's DB \<Rightarrow> string \<Rightarrow> string \<Rightarrow> bool \<Rightarrow> 's \<Rightarrow> go_error option \<times> 's" where
  "ClaimWanted uni db wantedID rigHandle signed s =
     exec_outcome uni (Sprintf ''wanted item %s is not open or does not exist'' [FS (Quote wantedID)])
       ''claim failed: ''
       (db_Exec db [] (''wl claim: '' @ wantedID) signed [ClaimWantedDML wantedID rigHandle] s)"

definition UnclaimWanted ::
  "(string \<Rightarrow> string) \<Rightarrow> 's DB \<Rightarrow> string \<Rightarrow> bool \<Rightarrow> 's \<Rightarrow> go_error option \<times> 's" where
  "UnclaimWanted uni db wantedID signed s =
     exec_outcome uni (Sprintf ''wanted item %s is not claimed or does not exist'' [FS (Quote wantedID)])
       ''unclaim failed: ''
       (db_Exec db [] (''wl unclaim: '' @ wantedID) signed [UnclaimWantedDML wantedID] s)"

definition SubmitCompletion ::
  "(string \<Rightarrow> string) \<Rightarrow> 's DB \<Rightarrow> string \<Rightarrow> string \<Rightarrow> string \<Rightarrow> string \<Rightarrow> string \<Rightarrow> bool \<Rightarrow> 's
     \<Rightarrow> go_error option \<times> 's" where
  "SubmitCompletion uni db completionID wantedID rigHandle evidence hopURI signed s =
     exec_outcome uni
       (Sprintf ''wanted item %s is not claimed by %s or does not exist'' [FS (Quote wantedID), FS (Quote rigHandle)])
       ''completion failed: ''
       (db_Exec db [] (''wl done: '' @ wantedID) signed
          (SubmitCompletionDML completionID wantedID rigHandle evidence hopURI) s)"

definition AcceptCompletion ::
  "(string \<Rightarrow> string) \<Rightarrow> 's DB \<Rightarrow> string \<Rightarrow> string \<Rightarrow> string \<Rightarrow> string \<Rightarrow> Stamp \<Rightarrow> bool \<Rightarrow> 's
     \<Rightarrow> go_error option \<times> 's" where
  "AcceptCompletion uni db wantedID completionID rigHandle hopURI stamp signed s =
     exec_outcome uni (Sprintf ''wanted item %s is not in_review or does not exist'' [FS (Quote wantedID)])
       ''accept failed: ''
       (db_Exec db [] (''wl accept: '' @ wantedID) signed
          (AcceptCompletionDML wantedID completionID rigHandle hopURI stamp) s)"

definition UpdateWanted ::
  "(string \<Rightarrow> string) \<Rightarrow> 's DB \<Rightarrow> string \<Rightarrow> WantedUpdate \<Rightarrow> bool \<Rightarrow> 's \<Rightarrow> go_error option \<times> 's" where
  "UpdateWanted uni db wantedID upd signed s =
     (case UpdateWantedDML wantedID upd of
        Inl err \<Rightarrow> (Some err, s)
      | Inr dml \<Rightarrow>
          exec_outcome uni (Sprintf ''wanted item %s is not open or does not exist'' [FS (Quote wantedID)])
            ''update failed: ''
            (db_Exec db [] (''wl update: '' @ wantedID) signed [dml] s))"

definition CloseWanted ::
  "(string \<Rightarrow> string) \<Rightarrow> 's DB \<Rightarrow> string \<Rightarrow> bool \<Rightarrow> 's \<Rightarrow> go_error option \<times> 's" where
  "CloseWanted uni db wantedID signed s =
     exec_outcome uni (Sprintf ''wanted item %s is not in_review or does not exist'' [FS (Quote wantedID)])
       ''close failed: ''
       (db_Exec db [] (''wl close: '' @ wantedID) signed [CloseWantedDML wantedID] s)"

definition DeleteWanted ::
  "(string \<Rightarrow> string) \<Rightarrow> 's DB \<Rightarrow> string \<Rightarrow> bool \<Rightarrow> 's \<Rightarrow> go_error option \<times> 's" where
  "DeleteWanted uni db wantedID signed s =
     exec_outcome uni (Sprintf ''wanted item %s is not open or does not exist'' [FS (Quote wantedID)])
       ''delete failed: ''
       (db_Exec db [] (''wl delete: '' @ wantedID) signed [DeleteWantedDML wantedID] s)"

text \<open>The dash before a reason, in UTF-8, and the cut at 500 bytes.\<close>

definition em_dash :: string where
  "em_dash = [space_ch, CHR 0xE2, CHR 0x80, CHR 0x94, space_ch]"

definition with_reason :: "string \<Rightarrow> string \<Rightarrow> string" where
  "with_reason msg reason =
     (if reason \<noteq> []
      then msg @ em_dash @ (if 500 < length reason then take 500 reason @ ''...'' else reason)
      else msg)"

definition RejectCompletion ::
  "(string \<Rightarrow> string) \<Rightarrow> 's DB \<Rightarrow> string \<Rightarrow> string \<Rightarrow> string \<Rightarrow> bool \<Rightarrow> 's \<Rightarrow> go_error option \<times> 's" where
  "RejectCompletion uni db wantedID rigHandle reason signed s =
     (let commitMsg = with_reason (Sprintf ''wl reject by %s: %s'' [FS rigHandle, FS wantedID]) reason
      in exec_outcome uni (Sprintf ''wanted item %s is not in_review or does not exist'' [FS (Quote wantedID)])
           ''reject failed: ''
           (db_Exec db [] commitMsg signed (RejectCompletionDML wantedID) s))"

section \<open>Reading records\<close>

definition parseTagsJSON :: "string \<Rightarrow> string list" where
  "parseTagsJSON s0 =
     (let s = TrimSpace s0
      in if s = [] \<or> s = ''NULL'' then []
         else (case Option.bind (json_parse s) decode_strings of None \<Rightarrow> [] | Some tags \<Rightarrow> tags))"

definition QueryWanted :: "'s DB \<Rightarrow> string \<Rightarrow> 's \<Rightarrow> go_error + WantedItem" where
  "QueryWanted db wantedID s =
     (let query = Sprintf (sq ''SELECT id, title, status, COALESCE(claimed_by, ``) as claimed_by, COALESCE(posted_by, ``) as posted_by FROM wanted WHERE id=`%s`'')
            [FS (EscapeSQL wantedID)]
      in case db_Query db query [] s of
           Inl err \<Rightarrow> Inl err
         | Inr output \<Rightarrow>
             (case parseSimpleCSV output of
                [] \<Rightarrow> Inl (Err (Sprintf ''wanted item %s not found'' [FS (Quote wantedID)]))
              | row # _ \<Rightarrow>
                  Inr (zero_WantedItem\<lparr>wi_ID := row_get row ''id'', wi_Title := row_get row ''title'',
                    wi_Status := row_get row ''status'', wi_ClaimedBy := row_get row ''claimed_by'',
                    wi_PostedBy := row_get row ''posted_by''\<rparr>)))"

text \<open>The \<^verbatim>\<open>not found\<close> error, which names the ref when one was given.\<close>

definition not_found :: "string \<Rightarrow> string \<Rightarrow> string \<Rightarrow> string \<Rightarrow> go_error" where
  "not_found pre key post ref =
     (if ref \<noteq> [] then Err (pre @ Quote key @ post @ '' on ref '' @ ref) else Err (pre @ Quote key @ post))"

definition queryCompletionRef :: "'s DB \<Rightarrow> string \<Rightarrow> string \<Rightarrow> 's \<Rightarrow> go_error + CompletionRecord" where
  "queryCompletionRef db wantedID ref s =
     (let query = Sprintf (sq ''SELECT id, wanted_id, completed_by, COALESCE(evidence, ``) as evidence, COALESCE(stamp_id, ``) as stamp_id, COALESCE(validated_by, ``) as validated_by FROM completions WHERE wanted_id=`%s`'')
            [FS (EscapeSQL wantedID)]
      in case db_Query db query ref s of
           Inl err \<Rightarrow> Inl err
         | Inr output \<Rightarrow>
             (case parseSimpleCSV output of
                [] \<Rightarrow> Inl (not_found ''no completion found for wanted item '' wantedID [] ref)
              | row # _ \<Rightarrow>
                  Inr \<lparr>cr_ID = row_get row ''id'', cr_WantedID = row_get row ''wanted_id'',
                    cr_CompletedBy = row_get row ''completed_by'', cr_Evidence = row_get row ''evidence'',
                    cr_StampID = row_get row ''stamp_id'', cr_ValidatedBy = row_get row ''validated_by''\<rparr>))"

definition QueryCompletion :: "'s DB \<Rightarrow> string \<Rightarrow> 's \<Rightarrow> go_error + CompletionRecord" where
  "QueryCompletion db wantedID s = queryCompletionRef db wantedID [] s"

definition QueryCompletionAsOf :: "'s DB \<Rightarrow> string \<Rightarrow> string \<Rightarrow> 's \<Rightarrow> go_error + CompletionRecord" where
  "QueryCompletionAsOf db wantedID ref s = queryCompletionRef db wantedID ref s"

text \<open>\<^verbatim>\<open>strconv.Atoi\<close>'s value is kept even when it returns an error.\<close>

definition parseWantedDetailRow :: "csv_row \<Rightarrow> WantedItem" where
  "parseWantedDetailRow row =
     \<lparr>wi_ID = row_get row ''id'', wi_Title = row_get row ''title'',
      wi_Description = row_get row ''description'', wi_Project = row_get row ''project'',
      wi_Type = row_get row ''type'', wi_Priority = fst (Atoi (row_get row ''priority'')),
      wi_Tags = parseTagsJSON (row_get row ''tags''), wi_PostedBy = row_get row ''posted_by'',
      wi_ClaimedBy = row_get row ''claimed_by'', wi_Status = row_get row ''status'',
      wi_EffortLevel = row_get row ''effort_level'', wi_SandboxRequired = False,
      wi_CreatedAt = row_get row ''created_at'', wi_UpdatedAt = row_get row ''updated_at''\<rparr>"

definition queryWantedDetailRef :: "'s DB \<Rightarrow> string \<Rightarrow> string \<Rightarrow> 's \<Rightarrow> go_error + WantedItem" where
  "queryWantedDetailRef db wantedID ref s =
     (let query = Sprintf (sq ''SELECT id, title, COALESCE(description,``) as description, COALESCE(project,``) as project, COALESCE(type,``) as type, priority, COALESCE(tags,``) as tags, COALESCE(posted_by,``) as posted_by, COALESCE(claimed_by,``) as claimed_by, status, COALESCE(effort_level,`medium`) as effort_level, COALESCE(created_at,``) as created_at, COALESCE(updated_at,``) as updated_at FROM wanted WHERE id=`%s`'')
            [FS (EscapeSQL wantedID)]
      in case db_Query db query ref s of
           Inl err \<Rightarrow> Inl err
         | Inr output \<Rightarrow>
             (case parseSimpleCSV output of
                [] \<Rightarrow> Inl (not_found ''wanted item '' wantedID '' not found'' ref)
              | row # _ \<Rightarrow> Inr (parseWantedDetailRow row)))"

definition QueryWantedDetail :: "'s DB \<Rightarrow> string \<Rightarrow> 's \<Rightarrow> go_error + WantedItem" where
  "QueryWantedDetail db wantedID s = queryWantedDetailRef db wantedID [] s"

definition QueryWantedDetailAsOf :: "'s DB \<Rightarrow> string \<Rightarrow> string \<Rightarrow> 's \<Rightarrow> go_error + WantedItem" where
  "QueryWantedDetailAsOf db wantedID ref s = queryWantedDetailRef db wantedID ref s"

text \<open>
  The stamp of a row whose column names are given; quality and reliability come from the
  valence, and are 0 where it is missing or not as expected.
\<close>

definition valence_field :: "string \<Rightarrow> string \<Rightarrow> int" where
  "valence_field name v = (if v = [] then 0 else (case json_parse v of None \<Rightarrow> 0 | Some j \<Rightarrow> int_field name j))"

definition full_detail_query :: "string \<Rightarrow> string" where
  "full_detail_query wantedID =
     Sprintf (sq ''SELECT w.id, w.title, COALESCE(w.description,``) as description, COALESCE(w.project,``) as project, COALESCE(w.type,``) as type, w.priority, COALESCE(w.tags,``) as tags, COALESCE(w.posted_by,``) as posted_by, COALESCE(w.claimed_by,``) as claimed_by, w.status, COALESCE(w.effort_level,`medium`) as effort_level, COALESCE(w.created_at,``) as created_at, COALESCE(w.updated_at,``) as updated_at, COALESCE(c.id,``) as completion_id, COALESCE(c.wanted_id,``) as completion_wanted_id, COALESCE(c.completed_by,``) as completed_by, COALESCE(c.evidence,``) as evidence, COALESCE(c.stamp_id,``) as completion_stamp_id, COALESCE(c.validated_by,``) as validated_by, COALESCE(s.id,``) as stamp_record_id, COALESCE(s.author,``) as stamp_author, COALESCE(s.subject,``) as stamp_subject, COALESCE(s.valence,``) as stamp_valence, COALESCE(s.severity,``) as stamp_severity, COALESCE(s.context_id,``) as stamp_context_id, COALESCE(s.context_type,``) as stamp_context_type, COALESCE(s.skill_tags,``) as stamp_skill_tags, COALESCE(s.message,``) as stamp_message FROM wanted w LEFT JOIN completions c ON c.wanted_id = w.id LEFT JOIN stamps s ON s.id = c.stamp_id WHERE w.id=`%s`'')
       [FS (EscapeSQL wantedID)]"

definition detail_completion :: "csv_row \<Rightarrow> CompletionRecord option" where
  "detail_completion row =
     (if row_get row ''completion_id'' \<noteq> []
      then Some \<lparr>cr_ID = row_get row ''completion_id'', cr_WantedID = row_get row ''completion_wanted_id'',
             cr_CompletedBy = row_get row ''completed_by'', cr_Evidence = row_get row ''evidence'',
             cr_StampID = row_get row ''completion_stamp_id'', cr_ValidatedBy = row_get row ''validated_by''\<rparr>
      else None)"

definition detail_stamp :: "csv_row \<Rightarrow> Stamp option" where
  "detail_stamp row =
     (if row_get row ''stamp_record_id'' \<noteq> []
      then Some \<lparr>st_ID = row_get row ''stamp_record_id'', st_Author = row_get row ''stamp_author'',
             st_Subject = row_get row ''stamp_subject'',
             st_Quality = valence_field ''quality'' (row_get row ''stamp_valence''),
             st_Reliability = valence_field ''reliability'' (row_get row ''stamp_valence''),
             st_Severity = row_get row ''stamp_severity'', st_ContextID = row_get row ''stamp_context_id'',
             st_ContextType = row_get row ''stamp_context_type'',
             st_SkillTags = parseTagsJSON (row_get row ''stamp_skill_tags''),
             st_Message = row_get row ''stamp_message''\<rparr>
      else None)"

type_synonym full_detail = "WantedItem \<times> CompletionRecord option \<times> Stamp option"

definition queryFullDetailJoinedRef :: "'s DB \<Rightarrow> string \<Rightarrow> string \<Rightarrow> 's \<Rightarrow> go_error + full_detail" where
  "queryFullDetailJoinedRef db wantedID ref s =
     (case db_Query db (full_detail_query wantedID) ref s of
        Inl err \<Rightarrow> Inl err
      | Inr output \<Rightarrow>
          (case parseSimpleCSV output of
             [] \<Rightarrow> Inl (not_found ''wanted item '' wantedID '' not found'' ref)
           | row # _ \<Rightarrow>
               (let item = parseWantedDetailRow row
                in if wi_Status item \<noteq> ''in_review'' \<and> wi_Status item \<noteq> ''completed''
                   then Inr (item, None, None)
                   else Inr (item, detail_completion row, detail_stamp row))))"

definition queryStampRef :: "'s DB \<Rightarrow> string \<Rightarrow> string \<Rightarrow> 's \<Rightarrow> go_error + Stamp" where
  "queryStampRef db stampID ref s =
     (let query = Sprintf (sq ''SELECT id, author, subject, valence, severity, COALESCE(context_id,``) as context_id, COALESCE(context_type,``) as context_type, COALESCE(skill_tags,``) as skill_tags, COALESCE(message,``) as message FROM stamps WHERE id=`%s`'')
            [FS (EscapeSQL stampID)]
      in case db_Query db query ref s of
           Inl err \<Rightarrow> Inl err
         | Inr output \<Rightarrow>
             (case parseSimpleCSV output of
                [] \<Rightarrow> Inl (not_found ''stamp '' stampID '' not found'' ref)
              | row # _ \<Rightarrow>
                  Inr \<lparr>st_ID = row_get row ''id'', st_Author = row_get row ''author'',
                    st_Subject = row_get row ''subject'',
                    st_Quality = valence_field ''quality'' (row_get row ''valence''),
                    st_Reliability = valence_field ''reliability'' (row_get row ''valence''),
                    st_Severity = row_get row ''severity'', st_ContextID = row_get row ''context_id'',
                    st_ContextType = row_get row ''context_type'',
                    st_SkillTags = parseTagsJSON (row_get row ''skill_tags''),
                    st_Message = row_get row ''message''\<rparr>))"

definition QueryStamp :: "'s DB \<Rightarrow> string \<Rightarrow> 's \<Rightarrow> go_error + Stamp" where
  "QueryStamp db stampID s = queryStampRef db stampID [] s"

definition QueryStampAsOf :: "'s DB \<Rightarrow> string \<Rightarrow> string \<Rightarrow> 's \<Rightarrow> go_error + Stamp" where
  "QueryStampAsOf db stampID ref s = queryStampRef db stampID ref s"

section \<open>The store\<close>

record 's WLCommons =
  wl_db :: "'s DB"
  wl_signed :: bool
  wl_hopURI :: string

definition NewWLCommons :: "'s DB \<Rightarrow> 's WLCommons" where
  "NewWLCommons db = \<lparr>wl_db = db, wl_signed = False, wl_hopURI = []\<rparr>"

definition SetSigning :: "bool \<Rightarrow> 's WLCommons \<Rightarrow> 's WLCommons" where
  "SetSigning enabled w = w\<lparr>wl_signed := enabled\<rparr>"

definition SetHopURI :: "string \<Rightarrow> 's WLCommons \<Rightarrow> 's WLCommons" where
  "SetHopURI uri w = w\<lparr>wl_hopURI := uri\<rparr>"

text \<open>A call of one of the store's mutating methods, with its arguments.\<close>

datatype store_call =
    CallInsertWanted WantedItem
  | CallClaimWanted string string
  | CallUnclaimWanted string
  | CallSubmitCompletion string string string string
  | CallAcceptCompletion string string string Stamp
  | CallUpdateWanted string WantedUpdate
  | CallRejectCompletion string string string
  | CallCloseWanted string
  | CallDeleteWanted string

definition wl_call ::
  "(string \<Rightarrow> string) \<Rightarrow> string \<Rightarrow> 's WLCommons \<Rightarrow> store_call \<Rightarrow> 's \<Rightarrow> go_error option \<times> 's" where
  "wl_call uni now w call s =
     (let db = wl_db w; sgn = wl_signed w; hop = wl_hopURI w
      in case call of
           CallInsertWanted item \<Rightarrow> InsertWanted db now item sgn s
         | CallClaimWanted wantedID rigHandle \<Rightarrow> ClaimWanted uni db wantedID rigHandle sgn s
         | CallUnclaimWanted wantedID \<Rightarrow> UnclaimWanted uni db wantedID sgn s
         | CallSubmitCompletion completionID wantedID rigHandle evidence \<Rightarrow>
             SubmitCompletion uni db completionID wantedID rigHandle evidence hop sgn s
         | CallAcceptCompletion wantedID completionID rigHandle stamp \<Rightarrow>
             AcceptCompletion uni db wantedID completionID rigHandle hop stamp sgn s
         | CallUpdateWanted wantedID upd \<Rightarrow> UpdateWanted uni db wantedID upd sgn s
         | CallRejectCompletion wantedID rigHandle reason \<Rightarrow>
             RejectCompletion uni db wantedID rigHandle reason sgn s
         | CallCloseWanted wantedID \<Rightarrow> CloseWanted uni db wantedID sgn s
         | CallDeleteWanted wantedID \<Rightarrow> DeleteWanted uni db wantedID sgn s)"

end
