(* ===== verification/Queries.thy ===== *)
theory Queries
  imports Lifecycle CommonsOps
begin

text \<open>
  \<^verbatim>\<open>internal/commons/queries.go\<close>: browsing the wanted board, and the overlay of the
  states that items have on mutation branches.  The database is the record \<open>DB\<close>; none of
  these functions changes its state \<open>s\<close>.
\<close>

section \<open>Filters and summaries\<close>

datatype SortOrder = SortPriority | SortNewest | SortAlpha | OtherSort int

definition ValidSortOrders :: "SortOrder list" where
  "ValidSortOrders = [SortPriority, SortNewest, SortAlpha]"

definition SortLabel :: "SortOrder \<Rightarrow> string" where
  "SortLabel s =
     (case s of SortPriority \<Rightarrow> ''priority'' | SortNewest \<Rightarrow> ''newest'' | SortAlpha \<Rightarrow> ''alpha''
      | OtherSort _ \<Rightarrow> ''priority'')"

record BrowseFilter =
  bf_Status :: string
  bf_Project :: string
  bf_Type :: string
  bf_Priority :: int
  bf_Limit :: int
  bf_PostedBy :: string
  bf_ClaimedBy :: string
  bf_Search :: string
  bf_MyItems :: string
  bf_Sort :: SortOrder
  bf_View :: string
  bf_Long :: bool

record WantedSummary =
  ws_ID :: string
  ws_Title :: string
  ws_Description :: string
  ws_Project :: string
  ws_Type :: string
  ws_Priority :: int
  ws_PostedBy :: string
  ws_ClaimedBy :: string
  ws_Status :: string
  ws_EffortLevel :: string

text \<open>A missing or unreadable priority is 2.\<close>

definition parseWantedSummary :: "csv_row \<Rightarrow> WantedSummary" where
  "parseWantedSummary row =
     \<lparr>ws_ID = row_get row ''id'', ws_Title = row_get row ''title'',
      ws_Description = row_get row ''description'', ws_Project = row_get row ''project'',
      ws_Type = row_get row ''type'',
      ws_Priority = (case row ''priority'' of
                       None \<Rightarrow> 2
                     | Some v \<Rightarrow> (case Sscanf_d v of None \<Rightarrow> 2 | Some n \<Rightarrow> n)),
      ws_PostedBy = row_get row ''posted_by'', ws_ClaimedBy = row_get row ''claimed_by'',
      ws_Status = row_get row ''status'', ws_EffortLevel = row_get row ''effort_level''\<rparr>"

definition parseWantedSummaries :: "string \<Rightarrow> WantedSummary list" where
  "parseWantedSummaries csvData = map parseWantedSummary (parseSimpleCSV csvData)"

text \<open>The condition that a search text adds to the query.\<close>

definition search_condition :: "string \<Rightarrow> string" where
  "search_condition search =
     (let escaped = EscapeLIKE search
      in Sprintf (sq ''(title LIKE `%%%s%%` OR COALESCE(description,``) LIKE `%%%s%%` OR COALESCE(tags,``) LIKE `%%%s%%`)'')
           [FS escaped, FS escaped, FS escaped])"

definition browse_conditions :: "BrowseFilter \<Rightarrow> string list" where
  "browse_conditions f =
     (if bf_Status f \<noteq> [] then [Sprintf (sq ''status = `%s`'') [FS (EscapeSQL (bf_Status f))]] else [])
   @ (if bf_Project f \<noteq> [] then [Sprintf (sq ''project = `%s`'') [FS (EscapeSQL (bf_Project f))]] else [])
   @ (if bf_Type f \<noteq> [] then [Sprintf (sq ''type = `%s`'') [FS (EscapeSQL (bf_Type f))]] else [])
   @ (if 0 \<le> bf_Priority f then [Sprintf ''priority = %d'' [FD (bf_Priority f)]] else [])
   @ (if bf_MyItems f \<noteq> []
      then (let escaped = EscapeSQL (bf_MyItems f)
            in [Sprintf (sq ''(posted_by = `%s` OR claimed_by = `%s`)'') [FS escaped, FS escaped]])
      else
        (if bf_PostedBy f \<noteq> [] then [Sprintf (sq ''posted_by = `%s`'') [FS (EscapeSQL (bf_PostedBy f))]] else [])
      @ (if bf_ClaimedBy f \<noteq> [] then [Sprintf (sq ''claimed_by = `%s`'') [FS (EscapeSQL (bf_ClaimedBy f))]] else []))
   @ (if bf_Search f \<noteq> [] then [search_condition (bf_Search f)] else [])"

definition BuildBrowseQuery :: "BrowseFilter \<Rightarrow> string" where
  "BuildBrowseQuery f =
     (let conditions = browse_conditions f;
          cols = (if bf_Long f
            then sq ''id, title, COALESCE(description,``) as description, COALESCE(project,``) as project, COALESCE(type,``) as type, priority, COALESCE(posted_by,``) as posted_by, COALESCE(claimed_by,``) as claimed_by, status, COALESCE(effort_level,`medium`) as effort_level''
            else sq ''id, title, COALESCE(project,``) as project, COALESCE(type,``) as type, priority, COALESCE(posted_by,``) as posted_by, COALESCE(claimed_by,``) as claimed_by, status, COALESCE(effort_level,`medium`) as effort_level'');
          q1 = ''SELECT '' @ cols @ '' FROM wanted'';
          q2 = (if conditions \<noteq> [] then q1 @ '' WHERE '' @ Join conditions '' AND '' else q1);
          q3 = q2 @ (case bf_Sort f of
                       SortNewest \<Rightarrow> '' ORDER BY created_at DESC''
                     | SortAlpha \<Rightarrow> '' ORDER BY title ASC''
                     | _ \<Rightarrow> '' ORDER BY priority ASC, created_at DESC'');
          limit = (if bf_Limit f \<le> 0 then 50 else bf_Limit f)
      in q3 @ Sprintf '' LIMIT %d'' [FD limit])"

definition BrowseWanted :: "'s DB \<Rightarrow> BrowseFilter \<Rightarrow> 's \<Rightarrow> go_error + WantedSummary list" where
  "BrowseWanted db f s =
     (case db_Query db (BuildBrowseQuery f) [] s of
        Inl err \<Rightarrow> Inl (Wrap ''querying wanted board: '' err)
      | Inr csvData \<Rightarrow> Inr (parseWantedSummaries csvData))"

section \<open>Branch overrides\<close>

record BranchOverride =
  bo_WantedID :: string
  bo_Branch :: string
  bo_Status :: string
  bo_ClaimedBy :: string

definition queryItemBranchState :: "'s DB \<Rightarrow> string \<Rightarrow> string \<Rightarrow> 's \<Rightarrow> string \<times> string" where
  "queryItemBranchState db wantedID branch s =
     (let query = Sprintf (sq ''SELECT status, COALESCE(claimed_by,``) AS claimed_by FROM wanted WHERE id = `%s`'')
            [FS (EscapeSQL wantedID)]
      in case db_Query db query branch s of
           Inl _ \<Rightarrow> ([], [])
         | Inr out \<Rightarrow>
             (case parseSimpleCSV out of
                [] \<Rightarrow> ([], [])
              | row # _ \<Rightarrow> (row_get row ''status'', row_get row ''claimed_by'')))"

text \<open>One round of both detection loops: the override a branch gives for an item, if any.\<close>

definition branch_override :: "'s DB \<Rightarrow> string \<Rightarrow> string \<Rightarrow> 's \<Rightarrow> BranchOverride option" where
  "branch_override db wantedID branch s =
     (let (branchStatus, branchClaimedBy) = queryItemBranchState db wantedID branch s
      in if branchStatus = [] then None
         else (let mainStatus = QueryItemStatusAsOf db wantedID [] s
               in if branchStatus \<noteq> mainStatus
                  then Some \<lparr>bo_WantedID = wantedID, bo_Branch = branch, bo_Status = branchStatus,
                             bo_ClaimedBy = branchClaimedBy\<rparr>
                  else None))"

definition DetectBranchOverrides :: "'s DB \<Rightarrow> string \<Rightarrow> 's \<Rightarrow> BranchOverride list" where
  "DetectBranchOverrides db rigHandle s =
     (let prefix = Sprintf ''wl/%s/'' [FS rigHandle]
      in case db_Branches db prefix s of
           Inl _ \<Rightarrow> []
         | Inr branches \<Rightarrow>
             List.map_filter (\<lambda>branch. branch_override db (TrimPrefix branch prefix) branch s) branches)"

text \<open>The item of a branch \<^verbatim>\<open>wl/{rigHandle}/{wantedID}\<close>; \<open>None\<close> when the loop skips it.\<close>

definition branch_item :: "string \<Rightarrow> string option" where
  "branch_item branch =
     (let rest = TrimPrefix branch ''wl/''
      in case Index rest ''/'' of
           None \<Rightarrow> None
         | Some slashIdx \<Rightarrow>
             (let wantedID = drop (slashIdx + 1) rest
              in if wantedID = [] then None else Some wantedID))"

text \<open>
  The loop over all rigs' branches: the overrides found, how many branches each item has, and
  the items that already have an override.
\<close>

fun detect_all ::
  "'s DB \<Rightarrow> 's \<Rightarrow> string list \<Rightarrow> BranchOverride list \<Rightarrow> (string \<Rightarrow> nat) \<Rightarrow> string list
     \<Rightarrow> BranchOverride list \<times> (string \<Rightarrow> nat)" where
  "detect_all db s [] overrides counts seen = (overrides, counts)"
| "detect_all db s (branch # branches) overrides counts seen =
     (case branch_item branch of
        None \<Rightarrow> detect_all db s branches overrides counts seen
      | Some wantedID \<Rightarrow>
          (let counts' = counts(wantedID := counts wantedID + 1)
           in if wantedID \<in> set seen then detect_all db s branches overrides counts' seen
              else (case branch_override db wantedID branch s of
                      None \<Rightarrow> detect_all db s branches overrides counts' seen
                    | Some ov \<Rightarrow>
                        detect_all db s branches (overrides @ [ov]) counts' (wantedID # seen))))"

text \<open>A missing key of the counts is 0, as a Go map reads it.\<close>

definition DetectAllBranchOverrides :: "'s DB \<Rightarrow> 's \<Rightarrow> BranchOverride list \<times> (string \<Rightarrow> nat)" where
  "DetectAllBranchOverrides db s =
     (case db_Branches db ''wl/'' s of
        Inl _ \<Rightarrow> ([], \<lambda>_. 0)
      | Inr branches \<Rightarrow> detect_all db s branches [] (\<lambda>_. 0) [])"

definition matchesBrowseFilter :: "(string \<Rightarrow> string) \<Rightarrow> WantedItem \<Rightarrow> BrowseFilter \<Rightarrow> bool" where
  "matchesBrowseFilter uni item f \<longleftrightarrow>
     (if bf_Type f \<noteq> [] \<and> wi_Type item \<noteq> bf_Type f then False
      else if bf_Project f \<noteq> [] \<and> wi_Project item \<noteq> bf_Project f then False
      else if 0 \<le> bf_Priority f \<and> wi_Priority item \<noteq> bf_Priority f then False
      else if bf_PostedBy f \<noteq> [] \<and> wi_PostedBy item \<noteq> bf_PostedBy f then False
      else if bf_ClaimedBy f \<noteq> [] \<and> wi_ClaimedBy item \<noteq> bf_ClaimedBy f then False
      else if bf_Search f \<noteq> []
      then (let t = ToLower uni (bf_Search f)
            in Contains (ToLower uni (wi_Title item)) t
             \<or> Contains (ToLower uni (wi_Description item)) t
             \<or> list_ex (\<lambda>tag. Contains (ToLower uni tag) t) (wi_Tags item))
      else True)"

text \<open>\<^verbatim>\<open>byID\<close>: a later override of an item replaces an earlier one.\<close>

definition by_id :: "BranchOverride list \<Rightarrow> string \<rightharpoonup> BranchOverride" where
  "by_id overrides = foldl (\<lambda>m ov. m(bo_WantedID ov \<mapsto> ov)) Map.empty overrides"

definition overlay_summary :: "BranchOverride \<Rightarrow> WantedSummary \<Rightarrow> WantedSummary" where
  "overlay_summary ov item =
     (let item1 = item\<lparr>ws_Status := bo_Status ov\<rparr>
      in if bo_ClaimedBy ov \<noteq> [] then item1\<lparr>ws_ClaimedBy := bo_ClaimedBy ov\<rparr> else item1)"

text \<open>The first loop: \<open>keep\<close> is the test of the overlaid status.\<close>

definition overlay_items ::
  "(string \<rightharpoonup> BranchOverride) \<Rightarrow> (string \<Rightarrow> bool) \<Rightarrow> WantedSummary list \<Rightarrow> WantedSummary list" where
  "overlay_items byID keep items =
     List.map_filter (\<lambda>item.
        case byID (ws_ID item) of
          None \<Rightarrow> Some item
        | Some ov \<Rightarrow>
            (let item' = overlay_summary ov item
             in if keep (ws_Status item') then Some item' else None)) items"

text \<open>The branch's record of an item, or main's, with the override's status and claimer.\<close>

definition effective_item :: "'s DB \<Rightarrow> BranchOverride \<Rightarrow> 's \<Rightarrow> WantedItem option" where
  "effective_item db ov s =
     (let found = (case QueryWantedDetailAsOf db (bo_WantedID ov) (bo_Branch ov) s of
                     Inr item \<Rightarrow> Some item
                   | Inl _ \<Rightarrow>
                       (case QueryWantedDetail db (bo_WantedID ov) s of
                          Inr item \<Rightarrow> Some item | Inl _ \<Rightarrow> None))
      in map_option (\<lambda>item.
           (let eff = item\<lparr>wi_Status := bo_Status ov\<rparr>
            in if bo_ClaimedBy ov \<noteq> [] then eff\<lparr>wi_ClaimedBy := bo_ClaimedBy ov\<rparr> else eff)) found)"

definition summary_of :: "WantedItem \<Rightarrow> string \<Rightarrow> WantedSummary" where
  "summary_of item status =
     \<lparr>ws_ID = wi_ID item, ws_Title = wi_Title item, ws_Description = wi_Description item,
      ws_Project = wi_Project item, ws_Type = wi_Type item, ws_Priority = wi_Priority item,
      ws_PostedBy = wi_PostedBy item, ws_ClaimedBy = wi_ClaimedBy item, ws_Status = status,
      ws_EffortLevel = wi_EffortLevel item\<rparr>"

text \<open>
  The second loop: overrides of items that were not among the rows, when the override's status
  passes \<open>keep\<close> and the effective record passes \<open>accept\<close>.
\<close>

definition added_items ::
  "'s DB \<Rightarrow> string list \<Rightarrow> (string \<Rightarrow> bool) \<Rightarrow> (WantedItem \<Rightarrow> bool) \<Rightarrow> BranchOverride list \<Rightarrow> 's
     \<Rightarrow> WantedSummary list" where
  "added_items db applied keep accept overrides s =
     List.map_filter (\<lambda>ov.
       if bo_WantedID ov \<in> set applied then None
       else if \<not> keep (bo_Status ov) then None
       else (case effective_item db ov s of
               None \<Rightarrow> None
             | Some eff \<Rightarrow> if \<not> accept eff then None else Some (summary_of eff (bo_Status ov)))) overrides"

definition applied_ids :: "(string \<rightharpoonup> BranchOverride) \<Rightarrow> WantedSummary list \<Rightarrow> string list" where
  "applied_ids byID items = map ws_ID (filter (\<lambda>item. byID (ws_ID item) \<noteq> None) items)"

definition ApplyBranchOverrides ::
  "(string \<Rightarrow> string) \<Rightarrow> 's DB \<Rightarrow> WantedSummary list \<Rightarrow> BranchOverride list \<Rightarrow> BrowseFilter \<Rightarrow> 's
     \<Rightarrow> WantedSummary list" where
  "ApplyBranchOverrides uni db items overrides f s =
     (if overrides = [] then items
      else
        (let byID = by_id overrides;
             keep = (\<lambda>status. bf_Status f = [] \<or> status = bf_Status f)
         in overlay_items byID keep items
          @ added_items db (applied_ids byID items) keep (\<lambda>eff. matchesBrowseFilter uni eff f) overrides s))"

definition FindBranchForItem :: "'s DB \<Rightarrow> string \<Rightarrow> string \<Rightarrow> 's \<Rightarrow> string" where
  "FindBranchForItem db rigHandle wantedID s =
     (let branch = BranchName rigHandle wantedID
      in if (case db_Branches db branch s of Inr branches \<Rightarrow> branch \<in> set branches | Inl _ \<Rightarrow> False)
         then branch
         else if fst (queryItemBranchState db wantedID branch s) \<noteq> [] then branch
         else [])"

section \<open>Filter cycles and labels\<close>

definition ValidStatuses :: "string list" where
  "ValidStatuses = [''open'', ''claimed'', ''in_review'', ''completed'', ''validated'', []]"

definition ValidTypes :: "string list" where
  "ValidTypes = [[], ''feature'', ''bug'', ''design'', ''rfc'', ''docs'', ''inference'']"

definition StatusLabel :: "string \<Rightarrow> string" where
  "StatusLabel status = (if status = [] then ''all'' else status)"

definition TypeLabel :: "string \<Rightarrow> string" where
  "TypeLabel typ = (if typ = [] then ''all'' else typ)"

definition ValidPriorities :: "int list" where
  "ValidPriorities = [-1, 0, 1, 2, 3, 4]"

definition PriorityLabel :: "int \<Rightarrow> string" where
  "PriorityLabel pri = (if pri < 0 then ''all'' else Sprintf ''P%d'' [FD pri])"

section \<open>The dashboard\<close>

record DashboardData =
  dd_Claimed :: "WantedSummary list"
  dd_InReview :: "WantedSummary list"
  dd_Completed :: "WantedSummary list"

definition QueryMyDashboard :: "'s DB \<Rightarrow> string \<Rightarrow> 's \<Rightarrow> go_error + DashboardData" where
  "QueryMyDashboard db handle s =
     (let escaped = EscapeSQL handle;
          claimedQ = Sprintf (sq ''SELECT id, title, COALESCE(project,``) as project, COALESCE(type,``) as type, priority, COALESCE(posted_by,``) as posted_by, COALESCE(claimed_by,``) as claimed_by, status, COALESCE(effort_level,`medium`) as effort_level FROM wanted WHERE status = `claimed` AND claimed_by = `%s` ORDER BY priority ASC, created_at DESC LIMIT 50'')
            [FS escaped];
          reviewQ = Sprintf (sq ''SELECT id, title, COALESCE(project,``) as project, COALESCE(type,``) as type, priority, COALESCE(posted_by,``) as posted_by, COALESCE(claimed_by,``) as claimed_by, status, COALESCE(effort_level,`medium`) as effort_level FROM wanted WHERE status = `in_review` AND (posted_by = `%s` OR claimed_by = `%s`) ORDER BY priority ASC, created_at DESC LIMIT 50'')
            [FS escaped, FS escaped];
          completedQ = Sprintf (sq ''SELECT id, title, COALESCE(project,``) as project, COALESCE(type,``) as type, priority, COALESCE(posted_by,``) as posted_by, COALESCE(claimed_by,``) as claimed_by, status, COALESCE(effort_level,`medium`) as effort_level FROM wanted WHERE status = `completed` AND claimed_by = `%s` ORDER BY updated_at DESC LIMIT 5'')
            [FS escaped]
      in case db_Query db claimedQ [] s of
           Inl err \<Rightarrow> Inl (Wrap ''dashboard claimed: '' err)
         | Inr csv1 \<Rightarrow>
             (case db_Query db reviewQ [] s of
                Inl err \<Rightarrow> Inl (Wrap ''dashboard in_review: '' err)
              | Inr csv2 \<Rightarrow>
                  (case db_Query db completedQ [] s of
                     Inl err \<Rightarrow> Inl (Wrap ''dashboard completed: '' err)
                   | Inr csv3 \<Rightarrow>
                       Inr \<lparr>dd_Claimed = parseWantedSummaries csv1,
                            dd_InReview = parseWantedSummaries csv2,
                            dd_Completed = parseWantedSummaries csv3\<rparr>)))"

definition person_match :: "string \<Rightarrow> string \<Rightarrow> WantedItem \<Rightarrow> bool" where
  "person_match personField personValue eff \<longleftrightarrow>
     (if personField = ''claimed_by'' then wi_ClaimedBy eff = personValue
      else if personField = ''posted_by'' then wi_PostedBy eff = personValue
      else if personField = ''either'' then wi_PostedBy eff = personValue \<or> wi_ClaimedBy eff = personValue
      else False)"

definition applyDashboardOverrides ::
  "'s DB \<Rightarrow> WantedSummary list \<Rightarrow> BranchOverride list \<Rightarrow> string \<Rightarrow> string \<Rightarrow> string \<Rightarrow> 's
     \<Rightarrow> WantedSummary list" where
  "applyDashboardOverrides db items overrides statusFilter personField personValue s =
     (if overrides = [] then items
      else
        (let byID = by_id overrides;
             keep = (\<lambda>status. status = statusFilter)
         in overlay_items byID keep items
          @ added_items db (applied_ids byID items) keep (person_match personField personValue) overrides s))"

definition QueryMyDashboardBranchAware ::
  "'s DB \<Rightarrow> string \<Rightarrow> string \<Rightarrow> 's \<Rightarrow> go_error + DashboardData" where
  "QueryMyDashboardBranchAware db mode rigHandle s =
     (case QueryMyDashboard db rigHandle s of
        Inl err \<Rightarrow> Inl err
      | Inr data \<Rightarrow>
          if mode \<noteq> ''pr'' then Inr data
          else
            (let overrides = DetectBranchOverrides db rigHandle s
             in if overrides = [] then Inr data
                else Inr \<lparr>dd_Claimed = applyDashboardOverrides db (dd_Claimed data) overrides ''claimed'' ''claimed_by'' rigHandle s,
                          dd_InReview = applyDashboardOverrides db (dd_InReview data) overrides ''in_review'' ''either'' rigHandle s,
                          dd_Completed = applyDashboardOverrides db (dd_Completed data) overrides ''completed'' ''claimed_by'' rigHandle s\<rparr>))"

section \<open>Browsing with the overlay\<close>

definition BrowseWantedBranchAware ::
  "(string \<Rightarrow> string) \<Rightarrow> 's DB \<Rightarrow> string \<Rightarrow> string \<Rightarrow> BrowseFilter \<Rightarrow> 's
     \<Rightarrow> go_error + (WantedSummary list \<times> (string \<Rightarrow> nat))" where
  "BrowseWantedBranchAware uni db mode rigHandle f s =
     (case BrowseWanted db f s of
        Inl err \<Rightarrow> Inl err
      | Inr items \<Rightarrow>
          if mode \<noteq> ''pr'' \<or> bf_View f = ''upstream'' then Inr (items, \<lambda>_. 0)
          else
            (let view = (if bf_View f = [] then ''mine'' else bf_View f)
             in if view = ''all''
                then (let (overrides, counts) = DetectAllBranchOverrides db s
                      in Inr (ApplyBranchOverrides uni db items overrides f s, counts))
                else (let overrides = DetectBranchOverrides db rigHandle s
                      in Inr (ApplyBranchOverrides uni db items overrides f s,
                              \<lambda>i. if i \<in> set (map bo_WantedID overrides) then 1 else 0))))"

section \<open>The state of one item\<close>

definition queryFullDetailRef :: "'s DB \<Rightarrow> string \<Rightarrow> string \<Rightarrow> 's \<Rightarrow> go_error + full_detail" where
  "queryFullDetailRef db wantedID ref s = queryFullDetailJoinedRef db wantedID ref s"

definition QueryFullDetail :: "'s DB \<Rightarrow> string \<Rightarrow> 's \<Rightarrow> go_error + full_detail" where
  "QueryFullDetail db wantedID s = queryFullDetailRef db wantedID [] s"

definition QueryFullDetailAsOf :: "'s DB \<Rightarrow> string \<Rightarrow> string \<Rightarrow> 's \<Rightarrow> go_error + full_detail" where
  "QueryFullDetailAsOf db wantedID ref s = queryFullDetailRef db wantedID ref s"

record ItemState =
  is_WantedID :: string
  is_Main :: "WantedItem option"
  is_Branch :: "WantedItem option"
  is_BranchName :: string
  is_Completion :: "CompletionRecord option"
  is_Stamp :: "Stamp option"

definition Effective :: "ItemState \<Rightarrow> WantedItem option" where
  "Effective st = (if is_Branch st \<noteq> None then is_Branch st else is_Main st)"

definition EffectiveStatus :: "ItemState \<Rightarrow> string" where
  "EffectiveStatus st = (case Effective st of Some e \<Rightarrow> wi_Status e | None \<Rightarrow> [])"

definition Delta :: "ItemState \<Rightarrow> string" where
  "Delta st =
     (case is_Branch st of
        None \<Rightarrow> []
      | Some branch \<Rightarrow>
          (let mainStatus = (case is_Main st of Some m \<Rightarrow> wi_Status m | None \<Rightarrow> [])
           in ComputeDelta mainStatus (wi_Status branch) True))"

text \<open>\<^verbatim>\<open>ResolveItemState\<close>: the error it returns is always nil.\<close>

definition ResolveItemState :: "'s DB \<Rightarrow> string \<Rightarrow> string \<Rightarrow> 's \<Rightarrow> ItemState" where
  "ResolveItemState db rigHandle wantedID s =
     (let state0 = \<lparr>is_WantedID = wantedID, is_Main = None, is_Branch = None, is_BranchName = [],
                    is_Completion = None, is_Stamp = None\<rparr>;
          main = QueryFullDetail db wantedID s;
          state1 = (case main of Inr (item, _, _) \<Rightarrow> state0\<lparr>is_Main := Some item\<rparr> | Inl _ \<Rightarrow> state0);
          branch = FindBranchForItem db rigHandle wantedID s;
          state2 = (if branch \<noteq> [] then state1\<lparr>is_BranchName := branch\<rparr> else state1);
          from_main =
            (case main of
               Inr (item, completion, stamp) \<Rightarrow>
                 if wi_Status item = ''in_review'' \<or> wi_Status item = ''completed''
                 then state2\<lparr>is_Completion := completion, is_Stamp := stamp\<rparr>
                 else state2
             | Inl _ \<Rightarrow> state2)
      in if branch \<noteq> []
         then (case QueryFullDetailAsOf db wantedID branch s of
                 Inr (item, completion, stamp) \<Rightarrow>
                   state2\<lparr>is_Branch := Some item, is_Completion := completion, is_Stamp := stamp\<rparr>
               | Inl _ \<Rightarrow> from_main)
         else from_main)"

end
