(* ===== verification/Search.thy ===== *)
theory Search
  imports Queries DmlRead
begin

text \<open>
  The search condition of \<^verbatim>\<open>BuildBrowseQuery\<close> and the prefix lookup of
  \<^verbatim>\<open>ResolveWantedID\<close>: what their \<^verbatim>\<open>LIKE\<close> patterns match, under MySQL's
  rules for literals and patterns.
\<close>

section \<open>LIKE\<close>

text \<open>
  MySQL's \<^verbatim>\<open>LIKE\<close> with the default escape character; \<open>eq\<close> is the collation's
  comparison of two characters.  A backslash at the end of a pattern stands for itself.
\<close>

fun like :: "(char \<Rightarrow> char \<Rightarrow> bool) \<Rightarrow> string \<Rightarrow> string \<Rightarrow> bool" where
  "like eq [] t \<longleftrightarrow> t = []"
| "like eq [c] t \<longleftrightarrow>
     (if c = CHR ''%'' then True
      else (case t of [] \<Rightarrow> False | d # t' \<Rightarrow> (c = CHR ''_'' \<or> eq c d) \<and> t' = []))"
| "like eq (c # c' # p) t \<longleftrightarrow>
     (if c = CHR ''%'' then list_ex (\<lambda>k. like eq (c' # p) (drop k t)) [0..<Suc (length t)]
      else (case t of
              [] \<Rightarrow> False
            | d # t' \<Rightarrow>
                if c = bslash_ch then eq c' d \<and> like eq p t'
                else (c = CHR ''_'' \<or> eq c d) \<and> like eq (c' # p) t'))"

section \<open>What the escaped text is read as\<close>

definition like_byte :: "char \<Rightarrow> string" where
  "like_byte c = (if c = CHR ''%'' \<or> c = CHR ''_'' then [bslash_ch, c] else [c])"

definition like_pattern :: "string \<Rightarrow> string" where
  "like_pattern s = concat (map like_byte s)"

lemma EscapeLIKE_Cons:
  "EscapeLIKE (c # s) =
     (if c = CHR ''%'' \<or> c = CHR ''_'' then [bslash_ch, c] else sql_byte c) @ EscapeLIKE s"
  by (simp add: EscapeLIKE_def Let_def EscapeSQL_bytes ReplaceAll_single sql_byte_def)

lemma EscapeLIKE_Nil: "EscapeLIKE [] = []"
  by (simp add: EscapeLIKE_def)

lemma lex_EscapeLIKE:
  "lex mysql_esc (InStr a) (EscapeLIKE s @ rest) = lex mysql_esc (InStr (rev (like_pattern s) @ a)) rest"
proof (induction s arbitrary: a)
  case Nil
  then show ?case by (simp add: EscapeLIKE_Nil like_pattern_def)
next
  case (Cons c s)
  then show ?case
    by (auto simp: EscapeLIKE_Cons sql_byte_def like_pattern_def like_byte_def mysql_esc_def)
qed

lemma lex_like_literal:
  assumes "c \<noteq> quote_ch"
  shows "lex mysql_esc (InStr a) (EscapeLIKE s @ CHR ''%'' # quote_ch # c # rest) =
         map_option (\<lambda>ts. Lit (rev a @ like_pattern s @ ''%'') # ts) (lex mysql_esc (Plain []) (c # rest))"
  using assms by (simp only: lex_EscapeLIKE) simp

section \<open>What the pattern matches\<close>

lemma like_percent: "like eq (CHR ''%'' # p) t \<longleftrightarrow> (\<exists>u v. t = u @ v \<and> like eq p v)"
proof (cases p)
  case Nil
  then show ?thesis by auto
next
  case (Cons c' p')
  have "(\<exists>k \<in> set [0..<Suc (length t)]. like eq p (drop k t)) \<longleftrightarrow> (\<exists>u v. t = u @ v \<and> like eq p v)"
  proof
    assume "\<exists>k \<in> set [0..<Suc (length t)]. like eq p (drop k t)"
    then show "\<exists>u v. t = u @ v \<and> like eq p v" by (metis append_take_drop_id)
  next
    assume "\<exists>u v. t = u @ v \<and> like eq p v"
    then obtain u v where "t = u @ v" "like eq p v" by blast
    then show "\<exists>k \<in> set [0..<Suc (length t)]. like eq p (drop k t)"
      by (intro bexI [where x = "length u"]) auto
  qed
  then show ?thesis using Cons by (simp add: list_ex_iff)
qed

lemma like_plain_char:
  "c \<noteq> bslash_ch \<Longrightarrow>
   like eq (like_byte c @ p) t \<longleftrightarrow> (\<exists>d t'. t = d # t' \<and> eq c d \<and> like eq p t')"
  by (cases p; cases t) (auto simp: like_byte_def)

lemma like_pattern_append:
  "bslash_ch \<notin> set s \<Longrightarrow>
   like eq (like_pattern s @ p) t \<longleftrightarrow> (\<exists>u v. t = u @ v \<and> list_all2 eq s u \<and> like eq p v)"
proof (induction s arbitrary: t)
  case Nil
  then show ?case by (simp add: like_pattern_def)
next
  case (Cons c s)
  have "like eq (like_pattern (c # s) @ p) t \<longleftrightarrow>
      (\<exists>d t'. t = d # t' \<and> eq c d \<and> like eq (like_pattern s @ p) t')"
    using Cons.prems like_plain_char [of c eq "like_pattern s @ p" t] by (auto simp: like_pattern_def)
  also have "\<dots> \<longleftrightarrow> (\<exists>d u v. t = d # u @ v \<and> eq c d \<and> list_all2 eq s u \<and> like eq p v)"
    using Cons.IH Cons.prems by auto
  also have "\<dots> \<longleftrightarrow> (\<exists>u v. t = u @ v \<and> list_all2 eq (c # s) u \<and> like eq p v)"
    unfolding list_all2_Cons1 by (metis append_Cons)
  finally show ?case .
qed

section \<open>The search condition\<close>

definition search_tokens :: "string \<Rightarrow> token list" where
  "search_tokens pat =
     [Sym CHR ''('', Word ''title'', Word ''LIKE'', Lit pat, Word ''OR'',
      Word ''COALESCE'', Sym CHR ''('', Word ''description'', Sym CHR '','', Lit [], Sym CHR '')'',
      Word ''LIKE'', Lit pat, Word ''OR'',
      Word ''COALESCE'', Sym CHR ''('', Word ''tags'', Sym CHR '','', Lit [], Sym CHR '')'',
      Word ''LIKE'', Lit pat, Sym CHR '')'']"

lemma lex_search_condition:
  "lex mysql_esc (Plain []) (search_condition s) = Some (search_tokens (''%'' @ like_pattern s @ ''%''))"
  by (simp add: search_condition_def sq_def search_tokens_def lex_like_literal flush_def lex.simps(2)
      blank_ch_def sym_ch_def word_ch_def Let_def)

text \<open>
  C35: A search text without a backslash is looked for literally, wildcards and quotes included:
  each of the three columns is compared with a pattern that matches exactly the texts in which
  the search text occurs, up to the collation's equality of characters.
\<close>

theorem search_matches_substring:
  assumes "bslash_ch \<notin> set s"
  shows "\<exists>pat. lex mysql_esc (Plain []) (search_condition s) = Some (search_tokens pat)
           \<and> (\<forall>eq t. like eq pat t \<longleftrightarrow> (\<exists>a u b. t = a @ u @ b \<and> list_all2 eq s u))"
proof (intro exI conjI allI)
  show "lex mysql_esc (Plain []) (search_condition s) = Some (search_tokens (''%'' @ like_pattern s @ ''%''))"
    by (rule lex_search_condition)
  fix eq t
  have "like eq (like_pattern s @ ''%'') v \<longleftrightarrow> (\<exists>u b. v = u @ b \<and> list_all2 eq s u)" for v
    using like_pattern_append [OF assms, of eq "''%''" v] by simp
  then show "like eq (''%'' @ like_pattern s @ ''%'') t \<longleftrightarrow> (\<exists>a u b. t = a @ u @ b \<and> list_all2 eq s u)"
    using like_percent [of eq "like_pattern s @ ''%''" t] by auto
qed

theorem search_matches_substring_witness:
  "\<exists>pat. lex mysql_esc (Plain []) (search_condition ''50%_'') = Some (search_tokens pat)
     \<and> (\<forall>eq t. like eq pat t \<longleftrightarrow> (\<exists>a u b. t = a @ u @ b \<and> list_all2 eq ''50%_'' u))"
  by (rule search_matches_substring) simp

text \<open>
  A search text that ends in a backslash is not looked for: the backslash escapes the closing
  wildcard, so that only texts which end in the search text without its backslash and a percent sign
  are found.
\<close>

theorem search_trailing_backslash:
  assumes "bslash_ch \<notin> set s"
  shows "\<exists>pat. lex mysql_esc (Plain []) (search_condition (s @ [bslash_ch])) = Some (search_tokens pat)
           \<and> (\<forall>t. like (=) pat t \<longleftrightarrow> (\<exists>a. t = a @ s @ ''%''))"
proof (intro exI conjI allI)
  show "lex mysql_esc (Plain []) (search_condition (s @ [bslash_ch])) =
      Some (search_tokens (''%'' @ like_pattern (s @ [bslash_ch]) @ ''%''))"
    by (rule lex_search_condition)
  fix t
  have pat: "like_pattern (s @ [bslash_ch]) @ ''%'' = like_pattern s @ [bslash_ch, CHR ''%'']"
    by (simp add: like_pattern_def like_byte_def)
  have esc: "like (=) [bslash_ch, CHR ''%''] v \<longleftrightarrow> v = ''%''" for v
    by (cases v) auto
  have "like (=) (like_pattern s @ [bslash_ch, CHR ''%'']) v \<longleftrightarrow> v = s @ ''%''" for v
    using like_pattern_append [OF assms, of "(=)" "[bslash_ch, CHR ''%'']" v]
    by (auto simp: esc list_all2_eq [symmetric] simp del: like.simps)
  then show "like (=) (''%'' @ like_pattern (s @ [bslash_ch]) @ ''%'') t \<longleftrightarrow> (\<exists>a. t = a @ s @ ''%'')"
    unfolding pat using like_percent [of "(=)" "like_pattern s @ [bslash_ch, CHR ''%'']" t] by auto
qed

theorem search_trailing_backslash_witness:
  "\<exists>pat. lex mysql_esc (Plain []) (search_condition (''C:'' @ [bslash_ch])) = Some (search_tokens pat)
     \<and> (\<forall>t. like (=) pat t \<longleftrightarrow> (\<exists>a. t = a @ ''C:'' @ ''%''))"
  by (rule search_trailing_backslash) simp

end
