(* ===== verification/Tags.thy ===== *)
theory Tags
  imports CommonsOps DmlRead
begin

text \<open>
  The way of a tag list through the database: \<^verbatim>\<open>formatTagsJSON\<close> writes an SQL literal,
  the engine reads it, \<^verbatim>\<open>parseTagsJSON\<close> decodes what was stored.
\<close>

lemma lex_formatTagsJSON:
  assumes "tags \<noteq> []"
  shows "lex mysql_esc (Plain []) (formatTagsJSON tags) = Some [Lit (stored_tags tags)]"
proof -
  let ?j = "ReplaceAll (Join (map escape_tag tags) ''\",\"'') [quote_ch] [quote_ch, quote_ch]"
  have t: "formatTagsJSON tags = quote_ch # ''[\"'' @ ?j @ ''\"]'' @ [quote_ch]"
    using assms by (simp add: formatTagsJSON_def sq_def ReplaceAll_single)
  show ?thesis
    by (simp add: t lex.simps mysql.lex_escape_tags stored_tags_def)
qed

lemma TrimSpace_bracketed: "TrimSpace (CHR ''['' # s @ [CHR '']'']) = CHR ''['' # s @ [CHR '']'']"
  by (rule TrimSpace_ends) (simp, simp add: space_runes_def, simp add: space_runes_def)

lemma decode_strings_JStr: "decode_strings (JArr (map JStr ts)) = Some ts"
proof -
  have "those (map string_elem (map JStr ts)) = Some ts"
    by (induction ts) (auto simp: string_elem_def)
  then show ?thesis by (simp add: decode_strings_def)
qed

lemma length_Join_le: "sep \<noteq> [] \<Longrightarrow> length ts \<le> length (Join (t # ts) sep)"
proof (induction ts arbitrary: t)
  case Nil
  then show ?case by simp
next
  case (Cons u us)
  then have "length us \<le> length (Join (u # us) sep)" by blast
  with Cons.prems show ?case by (cases sep) (simp_all del: Join.simps(3) add: Join.simps(3) [of t])
qed

lemma parseTagsJSON_stored:
  assumes "list_all (list_all plain_json_ch) tags" and "tags \<noteq> []"
  shows "parseTagsJSON (stored_tags tags) = tags"
proof -
  obtain t ts where tags: "tags = t # ts" using assms(2) by (cases tags) auto
  let ?body = "dquote_ch # Join (t # ts) ''\",\"'' @ [dquote_ch, CHR '']'']"
  have whole: "stored_tags tags = CHR ''['' # ?body" by (simp add: stored_tags_def tags)
  have trim: "TrimSpace (stored_tags tags) = stored_tags tags"
    using TrimSpace_bracketed [of "dquote_ch # Join (t # ts) ''\",\"'' @ [dquote_ch]"] by (simp add: whole)
  have len: "length ts + 1 \<le> length ?body"
    using length_Join_le [of "''\",\"''" ts t] by simp
  obtain k where k: "2 * length (stored_tags tags) + 1 = length ts + 2 + k"
    using len by (intro that [of "2 * length (stored_tags tags) + 1 - (length ts + 2)"]) (simp add: whole)
  have "json_parse (stored_tags tags) = Some (JArr (map JStr tags))"
  proof -
    have "json_val (Suc (length ts + 2 + k)) (CHR ''['' # ?body) =
        map_option (apfst JArr) (json_elems (length ts + 2 + k) ?body)"
      by (simp add: json_space_def del: json_elems.simps)
    moreover have "2 * length (stored_tags tags) + 2 = Suc (length ts + 2 + k)" using k by simp
    ultimately show ?thesis
      using json_elems_plain [of t ts k] assms(1)
      by (simp add: json_parse_def whole [unfolded tags] tags del: json_elems.simps json_val.simps)
  qed
  then show ?thesis
    by (simp add: parseTagsJSON_def trim decode_strings_JStr) (simp add: whole decode_strings_JStr)
qed

text \<open>
  For tags of printable ASCII without double quotes and backslashes, the literal that is sent
  is read by the engine as a JSON text from which exactly these tags are decoded, single quotes
  included.
\<close>

theorem tags_round_trip:
  assumes "list_all (list_all plain_json_ch) tags" and "tags \<noteq> []"
  shows "\<exists>stored. lex mysql_esc (Plain []) (formatTagsJSON tags) = Some [Lit stored]
           \<and> parseTagsJSON stored = tags"
  using lex_formatTagsJSON [OF assms(2)] parseTagsJSON_stored [OF assms] by blast

theorem tags_round_trip_witness:
  "\<exists>stored. lex mysql_esc (Plain []) (formatTagsJSON [''go'', ''it'' @ [quote_ch] @ ''s'']) = Some [Lit stored]
     \<and> parseTagsJSON stored = [''go'', ''it'' @ [quote_ch] @ ''s'']"
  by (rule tags_round_trip) (simp_all add: plain_json_ch_def code_of_def)

text \<open>
  A double quote in a tag is not kept apart from the quotes around it: the SQL literal
  undoes the backslash that the JSON text needs, so the text the engine gets for one tag that
  contains \<^verbatim>\<open>","\<close> is the JSON array of two tags.
\<close>

theorem tags_quote_splits:
  assumes "list_all plain_json_ch a" and "list_all plain_json_ch b"
  shows "\<exists>stored. lex mysql_esc (Plain []) (formatTagsJSON [a @ ''\",\"'' @ b]) = Some [Lit stored]
           \<and> parseTagsJSON stored = [a, b]"
proof -
  have "stored_tags [a @ ''\",\"'' @ b] = stored_tags [a, b]" by (simp add: stored_tags_def)
  then show ?thesis
    using lex_formatTagsJSON [of "[a @ ''\",\"'' @ b]"] parseTagsJSON_stored [of "[a, b]"] assms by simp
qed

theorem tags_quote_splits_witness:
  "\<exists>stored. lex mysql_esc (Plain []) (formatTagsJSON [''a'' @ ''\",\"'' @ ''b'']) = Some [Lit stored]
     \<and> parseTagsJSON stored = [''a'', ''b'']"
  by (rule tags_quote_splits) (simp_all add: plain_json_ch_def code_of_def)

end
