(* ===== verification/SdkTypes.thy ===== *)
theory SdkTypes
  imports Queries "HOL-Library.AList" "HOL-Library.List_Lexorder" "HOL-Library.Char_ord"
begin

text \<open>
  Package sdk (\<^verbatim>\<open>internal/sdk\<close>): the client's state, its results and the pure helpers
  of \<^verbatim>\<open>reads.go\<close> and \<^verbatim>\<open>branches.go\<close>.  The callbacks of a client act on the
  same world \<open>'s\<close> as its database; a nil callback is \<open>None\<close>.  Request contexts carry
  tracing, cancellation (an error value here) and the strict-read flag, which is the argument
  \<open>strict\<close> of the functions that look at it.
\<close>

section \<open>Data\<close>

record PendingItem =
  pi_RigHandle :: string
  pi_Status :: string
  pi_ClaimedBy :: string
  pi_Branch :: string
  pi_BranchURL :: string
  pi_PRURL :: string
  pi_ForkOwner :: string
  pi_CompletedBy :: string
  pi_Evidence :: string

text \<open>
  A Go map from wanted ids to their pending items, as the list of its entries in the order in
  which one iteration visits them (any order is possible).
\<close>

type_synonym pending_map = "(string \<times> PendingItem list) list"

text \<open>\<^verbatim>\<open>pending[wantedID]\<close>: the nil slice for a missing key.\<close>

definition pending_of :: "pending_map \<Rightarrow> string \<Rightarrow> PendingItem list" where
  "pending_of m i = (case map_of m i of None \<Rightarrow> [] | Some ps \<Rightarrow> ps)"

record DetailResult =
  dr_Item :: "WantedItem option"
  dr_Completion :: "CompletionRecord option"
  dr_Stamp :: "Stamp option"
  dr_Branch :: string
  dr_BranchURL :: string
  dr_MainStatus :: string
  dr_PRURL :: string
  dr_Delta :: string
  dr_Actions :: "Transition list"
  dr_BranchActions :: "string list"
  dr_UpstreamPRs :: "PendingItem list"
  dr_PendingReadIncomplete :: bool

definition zero_DetailResult :: DetailResult where
  "zero_DetailResult =
     \<lparr>dr_Item = None, dr_Completion = None, dr_Stamp = None, dr_Branch = [], dr_BranchURL = [],
      dr_MainStatus = [], dr_PRURL = [], dr_Delta = [], dr_Actions = [], dr_BranchActions = [],
      dr_UpstreamPRs = [], dr_PendingReadIncomplete = False\<rparr>"

record MutationResult =
  mr_Detail :: "DetailResult option"
  mr_Branch :: string
  mr_Hint :: string

record AcceptInput =
  ai_Quality :: int
  ai_Reliability :: int
  ai_Severity :: string
  ai_SkillTags :: "string list"
  ai_Message :: string

record UpstreamSubmissionSelector =
  us_RigHandle :: string
  us_PRURL :: string

record PostInput =
  po_Title :: string
  po_Description :: string
  po_Project :: string
  po_Type :: string
  po_Priority :: int
  po_EffortLevel :: string
  po_Tags :: "string list"

text \<open>An entry of the GitHub-handle cache, and what the post-accept hook uses.\<close>

record cache_entry =
  ce_GitHub :: string
  ce_SourcePR :: string
  ce_ResolvedAt :: string

record 's github_hook =
  gh_Get :: "string \<Rightarrow> 's \<Rightarrow> cache_entry option"
  gh_Put :: "string \<Rightarrow> cache_entry \<Rightarrow> 's \<Rightarrow> go_error option \<times> 's"
  gh_Resolve :: "string \<Rightarrow> 's \<Rightarrow> go_error + string"
  gh_QueryRows :: "string \<Rightarrow> 's \<Rightarrow> go_error + (string \<rightharpoonup> string) list"

record 's Client =
  c_db :: "'s DB"
  c_rigHandle :: string
  c_upstream :: string
  c_mode :: string
  c_signing :: bool
  c_hopURI :: string
  c_noPush :: bool
  c_bestEffortPendingReads :: bool
  c_CreatePR :: "(string \<Rightarrow> 's \<Rightarrow> (go_error + string) \<times> 's) option"
  c_CheckPR :: "(string \<Rightarrow> 's \<Rightarrow> string) option"
  c_CheckPRContext :: "(string \<Rightarrow> 's \<Rightarrow> string) option"
  c_ClosePR :: "(string \<Rightarrow> 's \<Rightarrow> go_error option \<times> 's) option"
  c_LoadDiff :: "(string \<Rightarrow> 's \<Rightarrow> go_error + string) option"
  c_LoadPendingItem :: "(string \<Rightarrow> PendingItem \<Rightarrow> 's \<Rightarrow> go_error + WantedItem) option"
  c_LoadPendingItemContext :: "(string \<Rightarrow> PendingItem \<Rightarrow> 's \<Rightarrow> go_error + WantedItem) option"
  c_LoadPendingDetail :: "(string \<Rightarrow> PendingItem \<Rightarrow> 's \<Rightarrow> go_error + full_detail) option"
  c_LoadPendingDetailContext :: "(string \<Rightarrow> PendingItem \<Rightarrow> 's \<Rightarrow> go_error + full_detail) option"
  c_SaveConfig :: "(string \<Rightarrow> bool \<Rightarrow> 's \<Rightarrow> go_error option \<times> 's) option"
  c_ListPendingItems :: "('s \<Rightarrow> go_error + pending_map) option"
  c_ListPendingItemsContext :: "('s \<Rightarrow> go_error + pending_map) option"
  c_BranchURL :: "(string \<Rightarrow> string) option"
  c_CloseUpstreamPR :: "(string \<Rightarrow> 's \<Rightarrow> go_error option \<times> 's) option"
  c_gh :: "'s github_hook option"

text \<open>\<^verbatim>\<open>WithRigHandle\<close>: a copy with another handle.\<close>

definition WithRigHandle :: "string \<Rightarrow> 's Client \<Rightarrow> 's Client" where
  "WithRigHandle handle c = c\<lparr>c_rigHandle := handle\<rparr>"

section \<open>Pending submissions\<close>

fun stateRank :: "string \<Rightarrow> nat" where
  "stateRank st =
     (if st = ''open'' then 0 else if st = ''claimed'' then 1
      else if st = ''in_review'' then 2 else if st = ''completed'' then 3 else 0)"

definition allowsUpstreamPending :: "string \<Rightarrow> bool" where
  "allowsUpstreamPending status \<longleftrightarrow> status \<in> set [''open'', ''claimed'', ''in_review'']"

definition pending_for_rig :: "string \<Rightarrow> PendingItem \<Rightarrow> bool" where
  "pending_for_rig rigHandle p \<longleftrightarrow>
     HasPrefix (pi_Branch p) (''wl/'' @ rigHandle @ ''/'')
   \<or> (pi_Branch p = [] \<and> (pi_RigHandle p = rigHandle \<or> pi_ClaimedBy p = rigHandle))"

definition filterPendingItemsForRig :: "pending_map \<Rightarrow> string \<Rightarrow> pending_map" where
  "filterPendingItemsForRig items rigHandle =
     filter (\<lambda>e. snd e \<noteq> []) (map (\<lambda>(i, ps). (i, filter (pending_for_rig rigHandle) ps)) items)"

text \<open>\<^verbatim>\<open>bestPendingState\<close> of a non-empty slice.\<close>

definition bestPendingState :: "PendingItem list \<Rightarrow> PendingItem" where
  "bestPendingState pending =
     foldl (\<lambda>best p. if stateRank (pi_Status best) < stateRank (pi_Status p) then p else best)
       (hd pending) (tl pending)"

definition overlayPendingClaimedBy :: "WantedSummary \<Rightarrow> PendingItem list \<Rightarrow> WantedSummary" where
  "overlayPendingClaimedBy item pending =
     (let best = bestPendingState pending
      in if pi_Status best = ''open'' then item
         else
           (let totalCandidates = length pending + (if ws_ClaimedBy item \<noteq> [] then 1 else 0)
            in if 1 < totalCandidates then item\<lparr>ws_ClaimedBy := ''Multiple (pending)''\<rparr>
               else if pi_ClaimedBy best \<noteq> [] then item\<lparr>ws_ClaimedBy := pi_ClaimedBy best @ '' (pending)''\<rparr>
               else if pi_RigHandle best \<noteq> [] then item\<lparr>ws_ClaimedBy := pi_RigHandle best @ '' (pending)''\<rparr>
               else item))"

definition matchesPendingBrowseFilter ::
  "(string \<Rightarrow> string) \<Rightarrow> WantedItem \<Rightarrow> string \<Rightarrow> string \<Rightarrow> BrowseFilter \<Rightarrow> bool" where
  "matchesPendingBrowseFilter uni item status claimedBy f \<longleftrightarrow>
     (if bf_Status f \<noteq> [] \<and> status \<noteq> bf_Status f then False
      else if bf_Type f \<noteq> [] \<and> wi_Type item \<noteq> bf_Type f then False
      else if bf_Project f \<noteq> [] \<and> wi_Project item \<noteq> bf_Project f then False
      else if 0 \<le> bf_Priority f \<and> wi_Priority item \<noteq> bf_Priority f then False
      else if bf_PostedBy f \<noteq> [] \<and> wi_PostedBy item \<noteq> bf_PostedBy f then False
      else if bf_ClaimedBy f \<noteq> [] \<and> claimedBy \<noteq> bf_ClaimedBy f then False
      else if bf_Search f \<noteq> []
      then (let t = ToLower uni (bf_Search f)
            in Contains (ToLower uni (wi_Title item)) t
             \<or> Contains (ToLower uni (wi_Description item)) t
             \<or> list_ex (\<lambda>tag. Contains (ToLower uni tag) t) (wi_Tags item))
      else True)"

definition matchUpstreamSubmission ::
  "PendingItem list \<Rightarrow> UpstreamSubmissionSelector \<Rightarrow> go_error + PendingItem" where
  "matchUpstreamSubmission items selector =
     (if us_PRURL selector \<noteq> [] then
        (case find (\<lambda>p. pi_PRURL p = us_PRURL selector) items of
           Some p \<Rightarrow>
             if us_RigHandle selector \<noteq> [] \<and> pi_RigHandle p \<noteq> us_RigHandle selector
             then Inl (Err (Sprintf ''pending submission selector mismatch for %s'' [FS (us_PRURL selector)]))
             else Inr p
         | None \<Rightarrow>
             if us_RigHandle selector \<noteq> []
             then Inl (Err (Sprintf ''no pending submission from %s at %s''
                             [FS (us_RigHandle selector), FS (us_PRURL selector)]))
             else Inl (Err (Sprintf ''no pending submission at %s'' [FS (us_PRURL selector)])))
      else if us_RigHandle selector = [] then Inl (Err ''no pending submission selector provided'')
      else (case filter (\<lambda>p. pi_RigHandle p = us_RigHandle selector) items of
              [] \<Rightarrow> Inl (Err (Sprintf ''no pending submission from %s'' [FS (us_RigHandle selector)]))
            | [m] \<Rightarrow> Inr m
            | _ \<Rightarrow> Inl (Err (Sprintf ''multiple pending submissions from %s; select by pr_url''
                              [FS (us_RigHandle selector)]))))"

section \<open>Actions\<close>

definition ComputeBranchActions :: "string \<Rightarrow> string \<Rightarrow> string \<Rightarrow> string \<Rightarrow> bool \<Rightarrow> string list" where
  "ComputeBranchActions mode branch delta prURL hasDelete =
     (if branch = [] \<or> delta = [] then []
      else if mode = ''pr''
      then (if prURL = [] then [''submit_pr''] else []) @ (if hasDelete then [] else [''discard''])
      else if mode = ''wild-west'' then [''apply''] @ (if hasDelete then [] else [''discard''])
      else [])"

definition computeBranchActions :: "'s Client \<Rightarrow> DetailResult \<Rightarrow> string list" where
  "computeBranchActions c r =
     ComputeBranchActions (c_mode c) (dr_Branch r) (dr_Delta r) (dr_PRURL r)
       (list_ex (\<lambda>a. TransitionName a = ''delete'') (dr_Actions r))"

definition appendTransitionIfMissing :: "Transition list \<Rightarrow> Transition \<Rightarrow> Transition list" where
  "appendTransitionIfMissing actions target =
     (if target \<in> set actions then actions else actions @ [target])"

definition withUpstreamSubmissionActions ::
  "'s Client \<Rightarrow> WantedItem option \<Rightarrow> PendingItem list \<Rightarrow> Transition list \<Rightarrow> Transition list" where
  "withUpstreamSubmissionActions c itemp upstreamPRs actions =
     (case itemp of
        None \<Rightarrow> actions
      | Some item \<Rightarrow>
          if upstreamPRs = [] then actions
          else if wi_PostedBy item \<noteq> c_rigHandle c \<and> \<not> Admins (c_rigHandle c) then actions
          else
            (let a1 = (if list_ex (\<lambda>p. pi_Status p = ''in_review'') upstreamPRs
                       then appendTransitionIfMissing
                              (appendTransitionIfMissing actions TransitionAccept) TransitionClose
                       else actions)
             in appendTransitionIfMissing a1 TransitionReject))"

section \<open>Callbacks that may be nil\<close>

definition listPendingItemsContext :: "'s Client \<Rightarrow> 's \<Rightarrow> go_error + pending_map" where
  "listPendingItemsContext c s =
     (case c_ListPendingItemsContext c of
        Some f \<Rightarrow> f s
      | None \<Rightarrow> (case c_ListPendingItems c of Some f \<Rightarrow> f s | None \<Rightarrow> Inr []))"

definition can_list_pending :: "'s Client \<Rightarrow> bool" where
  "can_list_pending c \<longleftrightarrow> \<not> (c_ListPendingItems c = None \<and> c_ListPendingItemsContext c = None)"

definition checkPRContext :: "'s Client \<Rightarrow> string \<Rightarrow> 's \<Rightarrow> string" where
  "checkPRContext c branch s =
     (case c_CheckPRContext c of
        Some f \<Rightarrow> f branch s
      | None \<Rightarrow> (case c_CheckPR c of Some f \<Rightarrow> f branch s | None \<Rightarrow> []))"

definition allowBestEffortPendingRead :: "'s Client \<Rightarrow> bool \<Rightarrow> bool" where
  "allowBestEffortPendingRead c strict \<longleftrightarrow> c_bestEffortPendingReads c \<and> \<not> strict"

definition extractWantedID :: "string \<Rightarrow> string" where
  "extractWantedID branch =
     (let parts = SplitN branch (CHR ''/'') 3
      in if length parts = 3 \<and> parts ! 0 = ''wl'' then parts ! 2 else [])"

text \<open>
  \<^verbatim>\<open>internal/sdk/workspace.go\<close>: the clients of the upstreams that a rig has joined.  A client is a
  shared object, given by its address.
\<close>

record UpstreamInfo =
  ui_Upstream :: string
  ui_ForkOrg :: string
  ui_ForkDB :: string
  ui_Mode :: string

record Workspace =
  wk_clients :: "(string \<times> nat) list"
  wk_info :: "(string \<times> UpstreamInfo) list"
  wk_rigHandle :: string

definition NewWorkspace :: "string \<Rightarrow> Workspace" where
  "NewWorkspace rigHandle = \<lparr>wk_clients = [], wk_info = [], wk_rigHandle = rigHandle\<rparr>"

definition workspace_Add :: "UpstreamInfo \<Rightarrow> nat \<Rightarrow> Workspace \<Rightarrow> Workspace" where
  "workspace_Add info client w =
     w\<lparr>wk_clients := AList.update (ui_Upstream info) client (wk_clients w),
       wk_info := AList.update (ui_Upstream info) info (wk_info w)\<rparr>"

definition workspace_Remove :: "string \<Rightarrow> Workspace \<Rightarrow> Workspace" where
  "workspace_Remove upstream w =
     w\<lparr>wk_clients := AList.delete upstream (wk_clients w), wk_info := AList.delete upstream (wk_info w)\<rparr>"

definition workspace_Client :: "string \<Rightarrow> Workspace \<Rightarrow> go_error + nat" where
  "workspace_Client upstream w =
     (case map_of (wk_clients w) upstream of
        Some c \<Rightarrow> Inr c
      | None \<Rightarrow> Inl (Err (''no client for upstream '' @ Quote upstream)))"

text \<open>The upstreams are distinct, so that the order of their names, byte by byte, determines the list.\<close>

definition Upstreams :: "Workspace \<Rightarrow> UpstreamInfo list" where
  "Upstreams w = sort_key ui_Upstream (map snd (wk_info w))"

text \<open>What every sequence of operations keeps: the two maps have the same keys, which name their values.\<close>

definition workspace_ok :: "Workspace \<Rightarrow> bool" where
  "workspace_ok w \<longleftrightarrow>
     distinct (map fst (wk_clients w)) \<and> distinct (map fst (wk_info w))
   \<and> set (map fst (wk_clients w)) = set (map fst (wk_info w)) \<and> (\<forall>(u, i) \<in> set (wk_info w). ui_Upstream i = u)"

lemma NewWorkspace_ok: "workspace_ok (NewWorkspace rigHandle)"
  by (simp add: workspace_ok_def NewWorkspace_def)

lemma update_names: "(u, i) \<in> set (AList.update k v xs) \<Longrightarrow> (u, i) = (k, v) \<or> (u, i) \<in> set xs"
  by (induction xs) (auto split: if_splits)

lemma workspace_Add_ok: "workspace_ok w \<Longrightarrow> workspace_ok (workspace_Add info client w)"
  by (auto simp: workspace_ok_def workspace_Add_def dom_update distinct_update dest!: update_names)

lemma keys_delete: "fst ` set (AList.delete k xs) = fst ` set xs - {k}"
  by (force simp: AList.delete_eq)

lemma workspace_Remove_ok:
  assumes "workspace_ok w"
  shows "workspace_ok (workspace_Remove upstream w)"
proof -
  have "set (AList.delete upstream (wk_info w)) \<subseteq> set (wk_info w)" by (auto simp: AList.delete_eq)
  then have "\<forall>(u, i) \<in> set (AList.delete upstream (wk_info w)). ui_Upstream i = u"
    using assms by (auto simp: workspace_ok_def)
  then show ?thesis
    using assms by (simp add: workspace_ok_def workspace_Remove_def keys_delete distinct_delete)
qed

text \<open>The listed upstreams are the ones a client is found for.\<close>

lemma Upstreams_clients:
  assumes "workspace_ok w"
  shows "(\<exists>c. workspace_Client u w = Inr c) \<longleftrightarrow> u \<in> ui_Upstream ` set (Upstreams w)"
proof -
  have "\<forall>e \<in> set (wk_info w). ui_Upstream (snd e) = fst e"
    using assms by (auto simp: workspace_ok_def)
  then have "ui_Upstream ` set (Upstreams w) = fst ` set (wk_info w)"
    by (simp add: Upstreams_def image_image)
  moreover have "fst ` set (wk_info w) = fst ` set (wk_clients w)"
    using assms by (simp add: workspace_ok_def)
  moreover have "(\<exists>c. workspace_Client u w = Inr c) \<longleftrightarrow> map_of (wk_clients w) u \<noteq> None"
    by (auto simp: workspace_Client_def split: option.splits)
  ultimately show ?thesis by (simp add: map_of_eq_None_iff)
qed

lemma Upstreams_sorted: "sorted (map ui_Upstream (Upstreams w))"
  by (simp add: Upstreams_def)

end
