(* ===== verification/SdkReads.thy ===== *)
theory SdkReads
  imports SdkTypes
begin

text \<open>
  \<^verbatim>\<open>internal/sdk/reads.go\<close>: browsing the board with branch overlays and pending
  upstream submissions, and the detail of one item.  Reads leave the world \<open>s\<close> as it is.
\<close>

section \<open>Details\<close>

definition fetchUpstreamPRsContext :: "'s Client \<Rightarrow> string \<Rightarrow> 's \<Rightarrow> go_error + PendingItem list" where
  "fetchUpstreamPRsContext c wantedID s =
     (if \<not> can_list_pending c then Inr []
      else (case listPendingItemsContext c s of
              Inl err \<Rightarrow> Inl err
            | Inr upstream \<Rightarrow> Inr (pending_of upstream wantedID)))"

definition detailWildWestContext :: "'s Client \<Rightarrow> string \<Rightarrow> 's \<Rightarrow> go_error + DetailResult" where
  "detailWildWestContext c wantedID s =
     (case QueryFullDetail (c_db c) wantedID s of
        Inl err \<Rightarrow> Inl err
      | Inr (item, completion, stamp) \<Rightarrow>
          (let result = zero_DetailResult\<lparr>dr_Item := Some item, dr_Completion := completion,
                 dr_Stamp := stamp, dr_Actions := AvailableTransitions (Some item) (c_rigHandle c)\<rparr>
           in if \<not> allowsUpstreamPending (wi_Status item) then Inr result
              else (case fetchUpstreamPRsContext c wantedID s of
                      Inl _ \<Rightarrow> Inr (result\<lparr>dr_PendingReadIncomplete := True\<rparr>)
                    | Inr prs \<Rightarrow>
                        Inr (result\<lparr>dr_UpstreamPRs := prs,
                               dr_Actions := withUpstreamSubmissionActions c (Some item) prs (dr_Actions result)\<rparr>))))"

definition detailWildWest :: "'s Client \<Rightarrow> string \<Rightarrow> 's \<Rightarrow> go_error + DetailResult" where
  "detailWildWest c wantedID s = detailWildWestContext c wantedID s"

definition shouldFetchUpstreamPRs :: "ItemState \<Rightarrow> bool" where
  "shouldFetchUpstreamPRs state \<longleftrightarrow>
     (case is_Main state of
        Some m \<Rightarrow> allowsUpstreamPending (wi_Status m)
      | None \<Rightarrow> (case Effective state of Some e \<Rightarrow> allowsUpstreamPending (wi_Status e) | None \<Rightarrow> True))"

text \<open>
  The loaders of a pending item: the context-aware callback is preferred, and only its
  cancellation errors are final; otherwise the branch is read from the client's database.
\<close>

definition loadPendingBrowseItemContext ::
  "'s Client \<Rightarrow> string \<Rightarrow> PendingItem \<Rightarrow> 's \<Rightarrow> go_error + WantedItem" where
  "loadPendingBrowseItemContext c wantedID pending s =
     (let fallback = QueryWantedDetailAsOf (c_db c) wantedID (pi_Branch pending) s
      in case c_LoadPendingItemContext c of
           Some f \<Rightarrow>
             (case f wantedID pending s of
                Inr item \<Rightarrow> Inr item
              | Inl err \<Rightarrow> if is_context_err err then Inl err else fallback)
         | None \<Rightarrow>
             (case c_LoadPendingItem c of
                Some f \<Rightarrow> (case f wantedID pending s of Inr item \<Rightarrow> Inr item | Inl _ \<Rightarrow> fallback)
              | None \<Rightarrow> fallback))"

definition loadPendingDetailContext ::
  "'s Client \<Rightarrow> string \<Rightarrow> PendingItem \<Rightarrow> 's \<Rightarrow> go_error + full_detail" where
  "loadPendingDetailContext c wantedID pending s =
     (let fallback = QueryFullDetailAsOf (c_db c) wantedID (pi_Branch pending) s
      in case c_LoadPendingDetailContext c of
           Some f \<Rightarrow>
             (case f wantedID pending s of
                Inr d \<Rightarrow> Inr d
              | Inl err \<Rightarrow> if is_context_err err then Inl err else fallback)
         | None \<Rightarrow>
             (case c_LoadPendingDetail c of
                Some f \<Rightarrow> (case f wantedID pending s of Inr d \<Rightarrow> Inr d | Inl _ \<Rightarrow> fallback)
              | None \<Rightarrow> fallback))"

definition detailFromPendingContext ::
  "'s Client \<Rightarrow> string \<Rightarrow> PendingItem list \<Rightarrow> 's \<Rightarrow> go_error + DetailResult" where
  "detailFromPendingContext c wantedID pending s =
     (let best = bestPendingState pending
      in if pi_Branch best = [] then detailWildWestContext c wantedID s
         else (case loadPendingDetailContext c wantedID best s of
                 Inl err \<Rightarrow> Inl err
               | Inr (item, completion, stamp) \<Rightarrow>
                   Inr (zero_DetailResult\<lparr>dr_Item := Some item, dr_Completion := completion,
                          dr_Stamp := stamp, dr_Branch := pi_Branch best, dr_BranchURL := pi_BranchURL best,
                          dr_PRURL := pi_PRURL best, dr_Delta := ComputeDelta [] (wi_Status item) True,
                          dr_UpstreamPRs := pending\<rparr>)))"

text \<open>The result once an effective item is known; \<open>prs\<close> are the upstream submissions.\<close>

definition detail_effective ::
  "'s Client \<Rightarrow> ItemState \<Rightarrow> WantedItem \<Rightarrow> PendingItem list \<Rightarrow> bool \<Rightarrow> 's \<Rightarrow> DetailResult" where
  "detail_effective c state effective prs incomplete s =
     (let branch = is_BranchName state;
          r1 = zero_DetailResult\<lparr>dr_Item := Some effective, dr_Completion := is_Completion state,
                 dr_Stamp := is_Stamp state, dr_Branch := branch, dr_Delta := Delta state,
                 dr_Actions := AvailableTransitions (Some effective) (c_rigHandle c),
                 dr_PendingReadIncomplete := incomplete,
                 dr_MainStatus := (case is_Main state of Some m \<Rightarrow> wi_Status m | None \<Rightarrow> []),
                 dr_PRURL := (if branch \<noteq> [] then checkPRContext c branch s else []),
                 dr_BranchURL := (case c_BranchURL c of
                                    Some f \<Rightarrow> if branch \<noteq> [] then f branch else []
                                  | None \<Rightarrow> [])\<rparr>
      in r1\<lparr>dr_BranchActions := computeBranchActions c r1, dr_UpstreamPRs := prs,
            dr_Actions := withUpstreamSubmissionActions c (Some effective) prs (dr_Actions r1)\<rparr>)"

definition detailPRContext :: "'s Client \<Rightarrow> bool \<Rightarrow> string \<Rightarrow> 's \<Rightarrow> go_error + DetailResult" where
  "detailPRContext c strict wantedID s =
     (let state = ResolveItemState (c_db c) (c_rigHandle c) wantedID s;
          fetched = (if shouldFetchUpstreamPRs state then fetchUpstreamPRsContext c wantedID s else Inr [])
      in case Effective state of
           None \<Rightarrow>
             (case fetched of
                Inl err \<Rightarrow> Inl err
              | Inr prs \<Rightarrow>
                  if prs \<noteq> [] then detailFromPendingContext c wantedID prs s
                  else detailWildWestContext c wantedID s)
         | Some effective \<Rightarrow>
             (case fetched of
                Inl err \<Rightarrow>
                  if \<not> allowBestEffortPendingRead c strict then Inl err
                  else Inr (detail_effective c state effective [] True s)
              | Inr prs \<Rightarrow> Inr (detail_effective c state effective prs False s)))"

definition DetailContext :: "'s Client \<Rightarrow> bool \<Rightarrow> string \<Rightarrow> 's \<Rightarrow> go_error + DetailResult" where
  "DetailContext c strict wantedID s =
     (if c_mode c = ''pr'' then detailPRContext c strict wantedID s else detailWildWestContext c wantedID s)"

text \<open>\<^verbatim>\<open>Detail\<close>: with a background context, which is not strict.\<close>

definition Detail :: "'s Client \<Rightarrow> string \<Rightarrow> 's \<Rightarrow> go_error + DetailResult" where
  "Detail c wantedID s = DetailContext c False wantedID s"

section \<open>Browsing\<close>

record BrowseResult =
  br_Items :: "WantedSummary list"
  br_PendingIDs :: "string \<Rightarrow> nat"
  br_UpstreamPending :: pending_map

text \<open>The state of the two overlay loops; the cached visibility only saves repeated queries.\<close>

record overlay_state =
  os_items :: "WantedSummary list"
  os_pendingIDs :: "string \<Rightarrow> nat"
  os_filtered :: pending_map
  os_visible :: "(string \<times> bool) list"

definition pendingAllowed ::
  "'s Client \<Rightarrow> string \<Rightarrow> string \<Rightarrow> overlay_state \<Rightarrow> 's \<Rightarrow> go_error + (bool \<times> overlay_state)" where
  "pendingAllowed c i fallbackStatus st s =
     (case map_of (os_visible st) i of
        Some allowed \<Rightarrow> Inr (allowed, st)
      | None \<Rightarrow>
          (case QueryItemStatus (c_db c) i [] s of
             Inl err \<Rightarrow> Inl err
           | Inr (status, found) \<Rightarrow>
               (let allowed = allowsUpstreamPending (if found then status else fallbackStatus)
                in Inr (allowed, st\<lparr>os_visible := (i, allowed) # os_visible st\<rparr>))))"

definition add_pending :: "string \<Rightarrow> nat \<Rightarrow> (string \<Rightarrow> nat) \<Rightarrow> string \<Rightarrow> nat" where
  "add_pending i n counts = counts(i := counts i + n)"

text \<open>The loop over the board's rows; \<open>upstream\<close> are all pending submissions.\<close>

fun overlay_rows ::
  "'s Client \<Rightarrow> pending_map \<Rightarrow> 's \<Rightarrow> WantedSummary list \<Rightarrow> overlay_state \<Rightarrow> go_error + overlay_state" where
  "overlay_rows c upstream s [] st = Inr st"
| "overlay_rows c upstream s (item # items) st =
     (let pending = pending_of upstream (ws_ID item)
      in if pending = [] then overlay_rows c upstream s items (st\<lparr>os_items := os_items st @ [item]\<rparr>)
         else (case pendingAllowed c (ws_ID item) (ws_Status item) st s of
                 Inl err \<Rightarrow> Inl err
               | Inr (allowed, st1) \<Rightarrow>
                   if \<not> allowed then overlay_rows c upstream s items (st1\<lparr>os_items := os_items st1 @ [item]\<rparr>)
                   else overlay_rows c upstream s items
                          (st1\<lparr>os_items := os_items st1 @ [overlayPendingClaimedBy item pending],
                               os_filtered := os_filtered st1 @ [(ws_ID item, pending)],
                               os_pendingIDs := add_pending (ws_ID item) (length pending) (os_pendingIDs st1)\<rparr>)))"

text \<open>The loop over the visible pending submissions of items that have no row.\<close>

fun overlay_branch_only ::
  "(string \<Rightarrow> string) \<Rightarrow> 's Client \<Rightarrow> bool \<Rightarrow> BrowseFilter \<Rightarrow> string list \<Rightarrow> pending_map \<Rightarrow> 's
     \<Rightarrow> pending_map \<Rightarrow> overlay_state \<Rightarrow> go_error + overlay_state" where
  "overlay_branch_only uni c strict f seen upstream s [] st = Inr st"
| "overlay_branch_only uni c strict f seen upstream s ((i, pending) # rest) st =
     (let next = overlay_branch_only uni c strict f seen upstream s rest
      in if i \<in> set seen \<or> pending = [] then next st
         else
           (let best = bestPendingState pending
            in if pi_Branch best = [] then next st
               else (case pendingAllowed c i (pi_Status best) st s of
                       Inl err \<Rightarrow> Inl err
                     | Inr (allowed, st1) \<Rightarrow>
                         if \<not> allowed then next st1
                         else (case loadPendingBrowseItemContext c i best s of
                                 Inl err \<Rightarrow>
                                   if allowBestEffortPendingRead c strict then next st1 else Inl err
                               | Inr item \<Rightarrow>
                                   if \<not> matchesPendingBrowseFilter uni item (pi_Status best) (pi_ClaimedBy best) f
                                   then next st1
                                   else next
                                     (st1\<lparr>os_items := os_items st1 @
                                            [overlayPendingClaimedBy (summary_of item (pi_Status best)) pending],
                                          os_filtered := os_filtered st1 @ [(i, pending_of upstream i)],
                                          os_pendingIDs := add_pending i (length pending) (os_pendingIDs st1)\<rparr>)))))"

text \<open>
  The pending submissions a browse works with: all of them, and those its view shows.  Without
  them, or when they cannot be listed and the read may be incomplete, both are empty.
\<close>

definition listed_pending ::
  "'s Client \<Rightarrow> bool \<Rightarrow> string \<Rightarrow> 's \<Rightarrow> go_error + (pending_map \<times> pending_map)" where
  "listed_pending c strict view s =
     (if view \<noteq> ''upstream'' \<and> can_list_pending c
      then (case listPendingItemsContext c s of
              Inl err \<Rightarrow> if allowBestEffortPendingRead c strict then Inr ([], []) else Inl err
            | Inr upstream \<Rightarrow>
                Inr (upstream, if view = ''mine'' then filterPendingItemsForRig upstream (c_rigHandle c)
                               else upstream))
      else Inr ([], []))"

text \<open>The view a browse works with.\<close>

definition browse_view :: "'s Client \<Rightarrow> BrowseFilter \<Rightarrow> string" where
  "browse_view c f = (if bf_View f = [] then (if c_mode c = ''pr'' then ''mine'' else ''all'') else bf_View f)"

definition BrowseContext ::
  "(string \<Rightarrow> string) \<Rightarrow> 's Client \<Rightarrow> bool \<Rightarrow> BrowseFilter \<Rightarrow> 's \<Rightarrow> go_error + BrowseResult" where
  "BrowseContext uni c strict f s =
     (let view = browse_view c f
      in case BrowseWantedBranchAware uni (c_db c) (c_mode c) (c_rigHandle c) f s of
           Inl err \<Rightarrow> Inl err
         | Inr (items, pendingIDs) \<Rightarrow>
             (case listed_pending c strict view s of
                Inl err \<Rightarrow> Inl err
              | Inr (upstream, visible) \<Rightarrow>
                  (case overlay_rows c upstream s items
                          \<lparr>os_items = [], os_pendingIDs = pendingIDs, os_filtered = [], os_visible = []\<rparr> of
                     Inl err \<Rightarrow> Inl err
                   | Inr st1 \<Rightarrow>
                       (case overlay_branch_only uni c strict f (map ws_ID items) upstream s visible st1 of
                          Inl err \<Rightarrow> Inl err
                        | Inr st2 \<Rightarrow>
                            Inr \<lparr>br_Items = os_items st2, br_PendingIDs = os_pendingIDs st2,
                                 br_UpstreamPending = os_filtered st2\<rparr>))))"

definition Browse ::
  "(string \<Rightarrow> string) \<Rightarrow> 's Client \<Rightarrow> BrowseFilter \<Rightarrow> 's \<Rightarrow> go_error + BrowseResult" where
  "Browse uni c f s = BrowseContext uni c False f s"

definition DashboardContext :: "'s Client \<Rightarrow> 's \<Rightarrow> go_error + DashboardData" where
  "DashboardContext c s = QueryMyDashboardBranchAware (c_db c) (c_mode c) (c_rigHandle c) s"

end
