(* ===== verification/Sdk.thy ===== *)
theory Sdk
  imports SdkReads
begin

text \<open>
  Package sdk's mutations (\<^verbatim>\<open>mutate.go\<close>, \<^verbatim>\<open>mutations.go\<close>), the branch operations
  (\<^verbatim>\<open>branches.go\<close>) and the hook after an accept (\<^verbatim>\<open>client.go\<close>).  Every
  operation maps the world \<open>s\<close> to its result and the new world.  The mutex makes each of them
  one step; the clock, the random bytes and SHA-256 are the argument \<open>k\<close>.
\<close>

record clock =
  ck_sha :: "string \<Rightarrow> string"
  ck_now :: string
  ck_nano :: int
  ck_rnd :: string

type_synonym 's outcome = "(go_error + MutationResult) \<times> 's"

section \<open>Branches\<close>

definition clearBranchData :: "'s DB \<Rightarrow> string \<Rightarrow> 's \<Rightarrow> go_error option \<times> 's" where
  "clearBranchData db branch s =
     (let wantedID = extractWantedID branch
      in if wantedID = [] then (None, s)
         else
           (let esc = EscapeSQL wantedID;
                (e1, s1) = db_Exec db branch (''wl discard: '' @ wantedID) False
                  [Sprintf (sq ''DELETE FROM completions WHERE wanted_id=`%s`'') [FS esc]] s
            in case e1 of
                 Some err \<Rightarrow> (Some (Wrap ''delete completions: '' err), s1)
               | None \<Rightarrow> db_Exec db branch (''wl discard: '' @ wantedID) False
                           [Sprintf (sq ''DELETE FROM wanted WHERE id=`%s`'') [FS esc]] s1))"

text \<open>\<^verbatim>\<open>if c.ClosePR != nil { _ = c.ClosePR(branch) }\<close>\<close>

definition close_pr :: "'s Client \<Rightarrow> string \<Rightarrow> 's \<Rightarrow> 's" where
  "close_pr c branch s = (case c_ClosePR c of Some f \<Rightarrow> snd (f branch s) | None \<Rightarrow> s)"

definition DiscardBranch :: "'s Client \<Rightarrow> string \<Rightarrow> 's \<Rightarrow> go_error option \<times> 's" where
  "DiscardBranch c branch s =
     (let s1 = close_pr c branch s;
          (err, s2) = db_DeleteBranch (c_db c) branch s1
      in if err = None then (None, snd (db_DeleteRemoteBranch (c_db c) branch s2))
         else clearBranchData (c_db c) branch s2)"

definition cleanupBranch :: "'s Client \<Rightarrow> string \<Rightarrow> 's \<Rightarrow> 's" where
  "cleanupBranch c branch s =
     (let s1 = close_pr c branch s;
          (err, s2) = db_DeleteBranch (c_db c) branch s1
      in if err = None then snd (db_DeleteRemoteBranch (c_db c) branch s2)
         else snd (clearBranchData (c_db c) branch s2))"

definition ApplyBranch :: "'s Client \<Rightarrow> string \<Rightarrow> 's \<Rightarrow> go_error option \<times> 's" where
  "ApplyBranch c branch s =
     (let (e1, s1) = db_MergeBranch (c_db c) branch s
      in case e1 of
           Some err \<Rightarrow> (Some err, s1)
         | None \<Rightarrow>
             (let (e2, s2) = db_DeleteBranch (c_db c) branch s1
              in case e2 of
                   Some err \<Rightarrow> (Some (Wrap ''delete local branch: '' err), s2)
                 | None \<Rightarrow>
                     (let (e3, s3) = db_PushMain (c_db c) s2
                      in case e3 of
                           Some err \<Rightarrow> (Some (Wrap ''push origin main: '' err), s3)
                         | None \<Rightarrow> (None, s3))))"

definition SubmitPR :: "'s Client \<Rightarrow> string \<Rightarrow> 's \<Rightarrow> (go_error + string) \<times> 's" where
  "SubmitPR c branch s =
     (case c_CreatePR c of
        None \<Rightarrow> (Inl (Err ''PR creation not available''), s)
      | Some f \<Rightarrow> f branch s)"

definition BranchDiff :: "'s Client \<Rightarrow> string \<Rightarrow> 's \<Rightarrow> go_error + string" where
  "BranchDiff c branch s =
     (case c_LoadDiff c of None \<Rightarrow> Inl (Err ''diff loading not available'') | Some f \<Rightarrow> f branch s)"

definition SaveSettings :: "'s Client \<Rightarrow> string \<Rightarrow> bool \<Rightarrow> 's \<Rightarrow> go_error option \<times> 's Client \<times> 's" where
  "SaveSettings c mode signing s =
     (case c_SaveConfig c of
        None \<Rightarrow> (Some (Err ''settings persistence not available''), c, s)
      | Some f \<Rightarrow>
          (let (err, s1) = f mode signing s
           in if err \<noteq> None then (err, c, s1)
              else (None, c\<lparr>c_mode := mode, c_signing := signing\<rparr>, s1)))"

definition Sync :: "'s Client \<Rightarrow> 's \<Rightarrow> go_error option \<times> 's" where
  "Sync c s = db_Sync (c_db c) s"

section \<open>The mode-aware helper\<close>

definition mutateWildWest :: "'s Client \<Rightarrow> string \<Rightarrow> string \<Rightarrow> string list \<Rightarrow> 's \<Rightarrow> 's outcome" where
  "mutateWildWest c wantedID commitMsg stmts s =
     (case db_CanWildWest (c_db c) s of
        Some err \<Rightarrow> (Inl err, s)
      | None \<Rightarrow>
          (let (e1, s1) = db_Exec (c_db c) [] commitMsg (c_signing c) stmts s
           in case e1 of
                Some err \<Rightarrow> (Inl err, s1)
              | None \<Rightarrow>
                  (let (e2, s2) = (if c_noPush c then (None, s1) else db_PushWithSync (c_db c) s1)
                   in case e2 of
                        Some err \<Rightarrow> (Inl err, s2)
                      | None \<Rightarrow>
                          (case detailWildWest c wantedID s2 of
                             Inl err \<Rightarrow> (Inl err, s2)
                           | Inr detail \<Rightarrow>
                               (Inr \<lparr>mr_Detail = Some detail, mr_Branch = [],
                                     mr_Hint = (if c_noPush c then ''changes saved locally (--no-push)'' else [])\<rparr>,
                                s2)))))"

definition mutatePRResult :: "'s Client \<Rightarrow> string \<Rightarrow> string \<Rightarrow> string \<Rightarrow> 's \<Rightarrow> DetailResult" where
  "mutatePRResult c wantedID branch mainStatus s =
     (let (itemp, completion, stamp) =
            (case QueryFullDetailAsOf (c_db c) wantedID branch s of
               Inr (i, cp, st) \<Rightarrow> (Some i, cp, st)
             | Inl _ \<Rightarrow>
                 (case QueryFullDetailAsOf (c_db c) wantedID [] s of
                    Inr (i, cp, st) \<Rightarrow> (Some i, cp, st)
                  | Inl _ \<Rightarrow> (None, None, None)));
          d1 = zero_DetailResult\<lparr>dr_Item := itemp, dr_Completion := completion, dr_Stamp := stamp,
                 dr_Branch := branch, dr_MainStatus := mainStatus\<rparr>;
          d2 = (case itemp of
                  None \<Rightarrow> d1
                | Some item \<Rightarrow> d1\<lparr>dr_Actions := AvailableTransitions itemp (c_rigHandle c),
                                  dr_Delta := ComputeDelta mainStatus (wi_Status item) True\<rparr>);
          d3 = (case c_BranchURL c of
                  Some f \<Rightarrow> if branch \<noteq> [] then d2\<lparr>dr_BranchURL := f branch\<rparr> else d2
                | None \<Rightarrow> d2)
      in d3\<lparr>dr_BranchActions := computeBranchActions c d3\<rparr>)"

text \<open>The last step of \<^verbatim>\<open>mutatePR\<close>: a pull request for a branch that survived and has none.\<close>

definition auto_submit :: "'s Client \<Rightarrow> DetailResult \<Rightarrow> string \<Rightarrow> string \<Rightarrow> 's \<Rightarrow> MutationResult \<times> 's" where
  "auto_submit c detail branch hint s =
     (case c_CreatePR c of
        Some f \<Rightarrow>
          if branch \<noteq> [] \<and> dr_PRURL detail = [] then
            (case f branch s of
               (Inr url, s') \<Rightarrow>
                 (let d = detail\<lparr>dr_PRURL := url\<rparr>
                  in (\<lparr>mr_Detail = Some (d\<lparr>dr_BranchActions := computeBranchActions c d\<rparr>),
                       mr_Branch = branch, mr_Hint = hint\<rparr>, s'))
             | (Inl err, s') \<Rightarrow>
                 (\<lparr>mr_Detail = Some detail, mr_Branch = branch,
                   mr_Hint = Sprintf ''PR creation failed: %s'' [FS (Error err)]\<rparr>, s'))
          else (\<lparr>mr_Detail = Some detail, mr_Branch = branch, mr_Hint = hint\<rparr>, s)
      | None \<Rightarrow> (\<lparr>mr_Detail = Some detail, mr_Branch = branch, mr_Hint = hint\<rparr>, s))"

definition reverted :: "string \<Rightarrow> DetailResult \<Rightarrow> bool" where
  "reverted mainStatus detail \<longleftrightarrow>
     mainStatus \<noteq> [] \<and> (case dr_Item detail of Some item \<Rightarrow> wi_Status item = mainStatus | None \<Rightarrow> False)"

definition mutatePR :: "'s Client \<Rightarrow> string \<Rightarrow> string \<Rightarrow> string list \<Rightarrow> 's \<Rightarrow> 's outcome" where
  "mutatePR c wantedID commitMsg stmts s =
     (let branch = BranchName (c_rigHandle c) wantedID;
          mainStatus = QueryItemStatusAsOf (c_db c) wantedID ''main'' s;
          (e1, s1) = db_Exec (c_db c) branch commitMsg (c_signing c) stmts s
      in case e1 of
           Some err \<Rightarrow> (Inl err, s1)
         | None \<Rightarrow>
             (let detail = mutatePRResult c wantedID branch mainStatus s1
              in if c_noPush c
                 then (Inr \<lparr>mr_Detail = Some detail, mr_Branch = branch,
                            mr_Hint = ''changes saved locally (--no-push)''\<rparr>, s1)
                 else
                   (let (e2, pushLog, s2) = db_PushBranch (c_db c) branch s1
                    in case e2 of
                         Some err \<Rightarrow>
                           (let msg = TrimSpace pushLog
                            in (Inl (if msg \<noteq> [] then Err msg else Wrap ''push branch: '' err), s2))
                       | None \<Rightarrow>
                           if reverted mainStatus detail
                           then
                             (let s3 = cleanupBranch c branch s2;
                                  d = detail\<lparr>dr_Branch := [], dr_BranchURL := [], dr_MainStatus := [],
                                       dr_Delta := [], dr_PRURL := [], dr_BranchActions := []\<rparr>;
                                  (r, s4) = auto_submit c d [] (''reverted'' @ em_dash @ ''branch cleaned up'') s3
                              in (Inr r, s4))
                           else (let (r, s3) = auto_submit c detail branch [] s2 in (Inr r, s3)))))"

definition mutate :: "'s Client \<Rightarrow> string \<Rightarrow> string \<Rightarrow> string list \<Rightarrow> 's \<Rightarrow> 's outcome" where
  "mutate c wantedID commitMsg stmts s =
     (if c_mode c = ''pr'' then mutatePR c wantedID commitMsg stmts s
      else mutateWildWest c wantedID commitMsg stmts s)"

definition prIdempotent :: "'s Client \<Rightarrow> string \<Rightarrow> string \<Rightarrow> 's \<Rightarrow> MutationResult option" where
  "prIdempotent c wantedID targetStatus s =
     (if c_mode c \<noteq> ''pr'' then None
      else
        (let branch = BranchName (c_rigHandle c) wantedID;
             branchStatus = QueryItemStatusAsOf (c_db c) wantedID branch s
         in if branchStatus \<noteq> targetStatus then None
            else
              (let mainStatus = QueryItemStatusAsOf (c_db c) wantedID ''main'' s
               in if branchStatus = mainStatus then None
                  else Some \<lparr>mr_Detail = Some (mutatePRResult c wantedID branch mainStatus s),
                             mr_Branch = branch, mr_Hint = []\<rparr>)))"

text \<open>The shape shared by most mutations: the early return, or the texts.\<close>

definition unless_done ::
  "'s Client \<Rightarrow> string \<Rightarrow> string \<Rightarrow> string \<Rightarrow> string list \<Rightarrow> 's \<Rightarrow> 's outcome" where
  "unless_done c wantedID target commitMsg stmts s =
     (case prIdempotent c wantedID target s of
        Some result \<Rightarrow> (Inr result, s)
      | None \<Rightarrow> mutate c wantedID commitMsg stmts s)"

section \<open>The mutations\<close>

definition Claim :: "'s Client \<Rightarrow> string \<Rightarrow> 's \<Rightarrow> 's outcome" where
  "Claim c wantedID s =
     unless_done c wantedID ''claimed'' (''wl claim: '' @ wantedID)
       [ClaimWantedDML wantedID (c_rigHandle c)] s"

definition Unclaim :: "'s Client \<Rightarrow> string \<Rightarrow> 's \<Rightarrow> 's outcome" where
  "Unclaim c wantedID s =
     unless_done c wantedID ''open'' (''wl unclaim: '' @ wantedID) [UnclaimWantedDML wantedID] s"

definition Done :: "clock \<Rightarrow> 's Client \<Rightarrow> string \<Rightarrow> string \<Rightarrow> 's \<Rightarrow> 's outcome" where
  "Done k c wantedID evidence s =
     unless_done c wantedID ''in_review'' (''wl done: '' @ wantedID)
       (SubmitCompletionDML (GeneratePrefixedID (ck_sha k) (ck_now k) ''c'' [wantedID, c_rigHandle c])
          wantedID (c_rigHandle c) evidence (c_hopURI c)) s"

text \<open>The stamp both accepts issue, and their outcome with the subject of the stamp.\<close>

definition input_stamp :: "string \<Rightarrow> string \<Rightarrow> string \<Rightarrow> string \<Rightarrow> AcceptInput \<Rightarrow> Stamp" where
  "input_stamp stampID author subject contextID input =
     \<lparr>st_ID = stampID, st_Author = author, st_Subject = subject, st_Quality = ai_Quality input,
      st_Reliability = ai_Reliability input, st_Severity = ai_Severity input, st_ContextID = contextID,
      st_ContextType = ''completion'', st_SkillTags = ai_SkillTags input, st_Message = ai_Message input\<rparr>"

definition with_subject :: "string \<Rightarrow> 's outcome \<Rightarrow> (go_error + (MutationResult \<times> string)) \<times> 's" where
  "with_subject subject out =
     (case out of (Inl err, s) \<Rightarrow> (Inl err, s) | (Inr r, s) \<Rightarrow> (Inr (r, subject), s))"

definition acceptLocked ::
  "clock \<Rightarrow> 's Client \<Rightarrow> string \<Rightarrow> AcceptInput \<Rightarrow> 's \<Rightarrow> (go_error + (MutationResult \<times> string)) \<times> 's" where
  "acceptLocked k c wantedID input s =
     (case prIdempotent c wantedID ''completed'' s of
        Some result \<Rightarrow> (Inr (result, []), s)
      | None \<Rightarrow>
          (case QueryCompletion (c_db c) wantedID s of
             Inl err \<Rightarrow> (Inl (Wrap ''querying completion: '' err), s)
           | Inr completion \<Rightarrow>
               if cr_CompletedBy completion = c_rigHandle c
               then (Inl (ConflictError (Sprintf ''cannot issue a stamp to yourself; use \"wl close %s\"'' [FS wantedID])), s)
               else
                 (let stamp = input_stamp
                        (GeneratePrefixedID (ck_sha k) (ck_now k) ''s'' [wantedID, c_rigHandle c])
                        (c_rigHandle c) (cr_CompletedBy completion) (cr_ID completion) input
                  in with_subject (st_Subject stamp)
                       (mutate c wantedID (''wl accept: '' @ wantedID)
                          (AcceptCompletionDML wantedID (cr_ID completion) (c_rigHandle c) (c_hopURI c) stamp) s))))"

definition acceptUpstreamLocked ::
  "clock \<Rightarrow> 's Client \<Rightarrow> string \<Rightarrow> UpstreamSubmissionSelector \<Rightarrow> AcceptInput \<Rightarrow> 's
     \<Rightarrow> (go_error + (MutationResult \<times> string)) \<times> 's" where
  "acceptUpstreamLocked k c wantedID selector input s =
     (case prIdempotent c wantedID ''completed'' s of
        Some result \<Rightarrow> (Inr (result, []), s)
      | None \<Rightarrow>
          if \<not> can_list_pending c then (Inl (Err ''upstream PR listing not available''), s)
          else
            (case listPendingItemsContext c s of
               Inl err \<Rightarrow> (Inl (Wrap ''listing pending items: '' err), s)
             | Inr pending \<Rightarrow>
                 (case matchUpstreamSubmission (pending_of pending wantedID) selector of
                    Inl err \<Rightarrow> (Inl err, s)
                  | Inr m \<Rightarrow>
                      if pi_Status m \<noteq> ''in_review'' then (Inl (Err ''submission is not in review''), s)
                      else if pi_CompletedBy m = [] then (Inl (Err ''submission has no completion data''), s)
                      else if pi_CompletedBy m = c_rigHandle c then
                        (let h = (if us_RigHandle selector = [] then pi_RigHandle m else us_RigHandle selector)
                         in (Inl (ConflictError (Sprintf ''cannot issue a stamp to yourself; use \"wl close-upstream %s %s\"''
                                    [FS wantedID, FS h])), s))
                      else
                        (let completionID = GeneratePrefixedID (ck_sha k) (ck_now k) ''c'' [wantedID, pi_CompletedBy m];
                             stamp = input_stamp
                               (GeneratePrefixedID (ck_sha k) (ck_now k) ''s'' [wantedID, c_rigHandle c])
                               (c_rigHandle c) (pi_CompletedBy m) completionID input
                         in with_subject (st_Subject stamp)
                              (mutate c wantedID (''wl accept-upstream: '' @ wantedID)
                                 (AcceptUpstreamDML wantedID completionID (pi_CompletedBy m) (pi_Evidence m)
                                    (c_rigHandle c) (c_hopURI c) stamp) s)))))"

definition findUpstreamSubmissionSelected ::
  "'s Client \<Rightarrow> string \<Rightarrow> UpstreamSubmissionSelector \<Rightarrow> 's \<Rightarrow> go_error + PendingItem" where
  "findUpstreamSubmissionSelected c wantedID selector s =
     (if \<not> can_list_pending c then Inl (Err ''upstream PR listing not available'')
      else
        (case listPendingItemsContext c s of
           Inl err \<Rightarrow> Inl (Wrap ''listing pending items: '' err)
         | Inr pending \<Rightarrow> matchUpstreamSubmission (pending_of pending wantedID) selector))"

definition RejectUpstreamSelected ::
  "'s Client \<Rightarrow> string \<Rightarrow> UpstreamSubmissionSelector \<Rightarrow> 's \<Rightarrow> go_error option \<times> 's" where
  "RejectUpstreamSelected c wantedID selector s =
     (case findUpstreamSubmissionSelected c wantedID selector s of
        Inl err \<Rightarrow> (Some err, s)
      | Inr m \<Rightarrow>
          if pi_PRURL m = [] then (Some (Err ''submission has no upstream PR to close''), s)
          else (case c_CloseUpstreamPR c of
                  None \<Rightarrow> (Some (Err ''upstream PR closing not available''), s)
                | Some f \<Rightarrow> f (pi_PRURL m) s))"

definition RejectUpstream :: "'s Client \<Rightarrow> string \<Rightarrow> string \<Rightarrow> 's \<Rightarrow> go_error option \<times> 's" where
  "RejectUpstream c wantedID submitterHandle s =
     RejectUpstreamSelected c wantedID \<lparr>us_RigHandle = submitterHandle, us_PRURL = []\<rparr> s"

definition CloseUpstreamSelected ::
  "clock \<Rightarrow> 's Client \<Rightarrow> string \<Rightarrow> UpstreamSubmissionSelector \<Rightarrow> 's \<Rightarrow> 's outcome" where
  "CloseUpstreamSelected k c wantedID selector s =
     (case prIdempotent c wantedID ''completed'' s of
        Some result \<Rightarrow> (Inr result, s)
      | None \<Rightarrow>
          (case findUpstreamSubmissionSelected c wantedID selector s of
             Inl err \<Rightarrow> (Inl err, s)
           | Inr m \<Rightarrow>
               if pi_Status m \<noteq> ''in_review'' then (Inl (Err ''submission is not in review''), s)
               else if pi_CompletedBy m = [] then (Inl (Err ''submission has no completion data''), s)
               else
                 (let completionID = GeneratePrefixedID (ck_sha k) (ck_now k) ''c'' [wantedID, pi_CompletedBy m]
                  in case mutate c wantedID (''wl close-upstream: '' @ wantedID)
                            (CloseUpstreamDML wantedID completionID (pi_CompletedBy m) (pi_Evidence m) (c_hopURI c)) s of
                       (Inl err, s1) \<Rightarrow> (Inl err, s1)
                     | (Inr result, s1) \<Rightarrow>
                         (Inr result,
                          case c_CloseUpstreamPR c of
                            Some f \<Rightarrow> if pi_PRURL m \<noteq> [] then snd (f (pi_PRURL m) s1) else s1
                          | None \<Rightarrow> s1))))"

definition CloseUpstream :: "clock \<Rightarrow> 's Client \<Rightarrow> string \<Rightarrow> string \<Rightarrow> 's \<Rightarrow> 's outcome" where
  "CloseUpstream k c wantedID submitterHandle s =
     CloseUpstreamSelected k c wantedID \<lparr>us_RigHandle = submitterHandle, us_PRURL = []\<rparr> s"

definition Reject :: "'s Client \<Rightarrow> string \<Rightarrow> string \<Rightarrow> 's \<Rightarrow> 's outcome" where
  "Reject c wantedID reason s =
     unless_done c wantedID ''claimed'' (with_reason (''wl reject: '' @ wantedID) reason)
       (RejectCompletionDML wantedID) s"

definition Close :: "'s Client \<Rightarrow> string \<Rightarrow> 's \<Rightarrow> 's outcome" where
  "Close c wantedID s =
     unless_done c wantedID ''completed'' (''wl close: '' @ wantedID) [CloseWantedDML wantedID] s"

definition Delete :: "'s Client \<Rightarrow> string \<Rightarrow> 's \<Rightarrow> 's outcome" where
  "Delete c wantedID s =
     (let delete = mutate c wantedID (''wl delete: '' @ wantedID) [DeleteWantedDML wantedID] s
      in if c_mode c = ''pr'' then
           (case prIdempotent c wantedID ''withdrawn'' s of
              Some result \<Rightarrow> (Inr result, s)
            | None \<Rightarrow>
                (let branch = BranchName (c_rigHandle c) wantedID
                 in if QueryItemStatusAsOf (c_db c) wantedID ''main'' s = []
                    then (Inr \<lparr>mr_Detail = None, mr_Branch = branch,
                               mr_Hint = ''branch-only item'' @ em_dash @ ''branch deleted''\<rparr>,
                          cleanupBranch c branch s)
                    else delete))
         else delete)"

definition post_item :: "clock \<Rightarrow> 's Client \<Rightarrow> PostInput \<Rightarrow> WantedItem" where
  "post_item k c input =
     zero_WantedItem\<lparr>wi_ID := GenerateWantedID (ck_sha k) (ck_nano k) (ck_rnd k) (po_Title input),
       wi_Title := po_Title input, wi_Description := po_Description input, wi_Project := po_Project input,
       wi_Type := po_Type input, wi_Priority := po_Priority input, wi_EffortLevel := po_EffortLevel input,
       wi_Tags := po_Tags input, wi_PostedBy := c_rigHandle c\<rparr>"

definition Post :: "clock \<Rightarrow> 's Client \<Rightarrow> PostInput \<Rightarrow> 's \<Rightarrow> 's outcome" where
  "Post k c input s =
     (let item = post_item k c input
      in case InsertWantedDML (ck_now k) item of
           Inl err \<Rightarrow> (Inl err, s)
         | Inr dml \<Rightarrow> mutate c (wi_ID item) (''wl post: '' @ wi_ID item) [dml] s)"

definition Update :: "'s Client \<Rightarrow> string \<Rightarrow> WantedUpdate \<Rightarrow> 's \<Rightarrow> 's outcome" where
  "Update c wantedID upd s =
     (case UpdateWantedDML wantedID upd of
        Inl err \<Rightarrow> (Inl err, s)
      | Inr dml \<Rightarrow> mutate c wantedID (''wl update: '' @ wantedID) [dml] s)"

section \<open>The hook after an accept\<close>

text \<open>
  \<^verbatim>\<open>githubPREvidenceRegex\<close>: scheme, host, two segments and a number, then the end or one of
  \<^verbatim>\<open>/?#\<close>.
\<close>

definition url_seg :: "string \<Rightarrow> string \<times> string" where
  "url_seg s =
     (let stop = (\<lambda>c. c \<in> set ''/?#'' \<or> c \<in> {tab_ch, nl_ch, CHR 0x0C, cr_ch, space_ch})
      in (takeWhile (\<lambda>c. \<not> stop c) s, dropWhile (\<lambda>c. \<not> stop c) s))"

definition is_pr_url :: "string \<Rightarrow> bool" where
  "is_pr_url s \<longleftrightarrow>
     (let after = (if HasPrefix s ''https://github.com/'' then Some (TrimPrefix s ''https://github.com/'')
                   else if HasPrefix s ''http://github.com/'' then Some (TrimPrefix s ''http://github.com/'')
                   else None)
      in case after of
           None \<Rightarrow> False
         | Some r \<Rightarrow>
             (let (owner, r1) = url_seg r
              in owner \<noteq> [] \<and> HasPrefix r1 ''/'' \<and>
                 (let (repo, r2) = url_seg (tl r1)
                  in repo \<noteq> [] \<and> HasPrefix r2 ''/pull/'' \<and>
                     (let r3 = TrimPrefix r2 ''/pull/'';
                          rest = dropWhile is_digit r3
                      in takeWhile is_digit r3 \<noteq> [] \<and> (rest = [] \<or> hd rest \<in> set ''/?#'')))))"

definition findSubjectPRURL :: "'s github_hook \<Rightarrow> string \<Rightarrow> 's \<Rightarrow> go_error + string" where
  "findSubjectPRURL gh subject s =
     (let sql = Sprintf (sq ''SELECT c.evidence FROM stamps s LEFT JOIN completions c ON s.context_id = c.id WHERE s.subject = `%s` AND (c.evidence LIKE `https://github.com/%%/pull/%%` OR c.evidence LIKE `http://github.com/%%/pull/%%`) ORDER BY s.created_at DESC, s.id DESC LIMIT 10'')
            [FS (EscapeSQL subject)]
      in case gh_QueryRows gh sql s of
           Inl err \<Rightarrow> Inl err
         | Inr rows \<Rightarrow>
             (case find (\<lambda>row. case row ''evidence'' of Some raw \<Rightarrow> raw \<noteq> [] \<and> is_pr_url raw | None \<Rightarrow> False) rows of
                None \<Rightarrow> Inr []
              | Some row \<Rightarrow> Inr (the (row ''evidence''))))"

definition populateGitHubCache :: "clock \<Rightarrow> 's Client \<Rightarrow> string \<Rightarrow> 's \<Rightarrow> 's" where
  "populateGitHubCache k c subject s =
     (case c_gh c of
        None \<Rightarrow> s
      | Some gh \<Rightarrow>
          if subject = [] then s
          else if (case gh_Get gh subject s of Some e \<Rightarrow> ce_GitHub e \<noteq> [] | None \<Rightarrow> False) then s
          else
            (case findSubjectPRURL gh subject s of
               Inl _ \<Rightarrow> s
             | Inr prURL \<Rightarrow>
                 if prURL = []
                 then snd (gh_Put gh subject \<lparr>ce_GitHub = [], ce_SourcePR = [], ce_ResolvedAt = ck_now k\<rparr> s)
                 else
                   (case gh_Resolve gh prURL s of
                      Inl _ \<Rightarrow> s
                    | Inr login \<Rightarrow>
                        snd (gh_Put gh subject
                              \<lparr>ce_GitHub = login, ce_SourcePR = prURL, ce_ResolvedAt = ck_now k\<rparr> s))))"

definition after_accept ::
  "clock \<Rightarrow> 's Client \<Rightarrow> (go_error + (MutationResult \<times> string)) \<times> 's \<Rightarrow> 's outcome" where
  "after_accept k c out =
     (case out of
        (Inl err, s) \<Rightarrow> (Inl err, s)
      | (Inr (result, subject), s) \<Rightarrow> (Inr result, populateGitHubCache k c subject s))"

definition Accept :: "clock \<Rightarrow> 's Client \<Rightarrow> string \<Rightarrow> AcceptInput \<Rightarrow> 's \<Rightarrow> 's outcome" where
  "Accept k c wantedID input s = after_accept k c (acceptLocked k c wantedID input s)"

definition AcceptUpstreamSelected ::
  "clock \<Rightarrow> 's Client \<Rightarrow> string \<Rightarrow> UpstreamSubmissionSelector \<Rightarrow> AcceptInput \<Rightarrow> 's \<Rightarrow> 's outcome" where
  "AcceptUpstreamSelected k c wantedID selector input s =
     after_accept k c (acceptUpstreamLocked k c wantedID selector input s)"

definition AcceptUpstream ::
  "clock \<Rightarrow> 's Client \<Rightarrow> string \<Rightarrow> string \<Rightarrow> AcceptInput \<Rightarrow> 's \<Rightarrow> 's outcome" where
  "AcceptUpstream k c wantedID submitterHandle input s =
     AcceptUpstreamSelected k c wantedID \<lparr>us_RigHandle = submitterHandle, us_PRURL = []\<rparr> input s"

end
