(* ===== verification/Overlay.thy ===== *)
theory Overlay
  imports Queries
begin

text \<open>
  What the branch overlay of \<^verbatim>\<open>queries.go\<close> shows: soundness and completeness of the
  overlaid board for one rig's branches, and the counts over all rigs' branches.
\<close>

lemma set_map_filter: "set (List.map_filter f xs) = {y. \<exists>x \<in> set xs. f x = Some y}"
  by (induction xs) (auto simp: map_filter_simps split: option.splits)

section \<open>The last override of an item\<close>

lemma by_id_snoc: "by_id (ovs @ [ov]) = (by_id ovs)(bo_WantedID ov \<mapsto> ov)"
  by (simp add: by_id_def)

lemma by_id_Nil [simp]: "by_id [] = Map.empty"
  by (simp add: by_id_def)

lemma by_id_Some: "by_id ovs i = Some ov \<Longrightarrow> ov \<in> set ovs \<and> bo_WantedID ov = i"
  by (induction ovs rule: rev_induct) (auto simp: by_id_snoc split: if_splits)

lemma by_id_None: "by_id ovs i = None \<longleftrightarrow> i \<notin> bo_WantedID ` set ovs"
  by (induction ovs rule: rev_induct) (auto simp: by_id_snoc)

lemma by_id_distinct:
  "distinct (map bo_WantedID ovs) \<Longrightarrow> ov \<in> set ovs \<Longrightarrow> by_id ovs (bo_WantedID ov) = Some ov"
  by (induction ovs rule: rev_induct) (auto simp: by_id_snoc rev_image_eqI)

section \<open>The two loops\<close>

lemma overlay_summary_sel [simp]:
  "ws_ID (overlay_summary ov item) = ws_ID item"
  "ws_Status (overlay_summary ov item) = bo_Status ov"
  "ws_ClaimedBy (overlay_summary ov item) =
     (if bo_ClaimedBy ov \<noteq> [] then bo_ClaimedBy ov else ws_ClaimedBy item)"
  by (simp_all add: overlay_summary_def Let_def)

lemma summary_of_sel [simp]:
  "ws_ID (summary_of item st) = wi_ID item" "ws_Status (summary_of item st) = st"
  "ws_ClaimedBy (summary_of item st) = wi_ClaimedBy item"
  by (simp_all add: summary_of_def)

lemma effective_item_claimed:
  "effective_item db ov s = Some eff \<Longrightarrow> bo_ClaimedBy ov \<noteq> [] \<Longrightarrow> wi_ClaimedBy eff = bo_ClaimedBy ov"
  by (auto simp: effective_item_def Let_def split: if_splits)

lemma overlay_items_member:
  "x \<in> set (overlay_items byID keep items) \<longleftrightarrow>
     (x \<in> set items \<and> byID (ws_ID x) = None)
   \<or> (\<exists>item \<in> set items. \<exists>ov. byID (ws_ID item) = Some ov \<and> keep (bo_Status ov)
         \<and> x = overlay_summary ov item)"
  (is "_ \<longleftrightarrow> ?main \<or> ?over")
proof -
  let ?g = "\<lambda>item. case byID (ws_ID item) of None \<Rightarrow> Some item
      | Some ov \<Rightarrow> (let item' = overlay_summary ov item in if keep (ws_Status item') then Some item' else None)"
  have g: "?g item = Some x \<longleftrightarrow>
      item = x \<and> byID (ws_ID x) = None
    \<or> (\<exists>ov. byID (ws_ID item) = Some ov \<and> keep (bo_Status ov) \<and> x = overlay_summary ov item)" for item
    by (auto simp: Let_def split: option.splits if_splits)
  show ?thesis
    unfolding overlay_items_def set_map_filter using g by fast
qed

lemma overlay_items_shown:
  "item \<in> set items \<Longrightarrow> byID (ws_ID item) = Some ov \<Longrightarrow> keep (bo_Status ov) \<Longrightarrow>
   overlay_summary ov item \<in> set (overlay_items byID keep items)"
  unfolding overlay_items_member by blast

lemma added_items_member:
  "x \<in> set (added_items db applied keep accept ovs s) \<longleftrightarrow>
     (\<exists>ov \<in> set ovs. \<exists>eff. bo_WantedID ov \<notin> set applied \<and> keep (bo_Status ov)
        \<and> effective_item db ov s = Some eff \<and> accept eff \<and> x = summary_of eff (bo_Status ov))"
  unfolding added_items_def set_map_filter
  by (auto split: option.splits if_splits)

lemma applied_ids_member:
  "ov \<in> set ovs \<Longrightarrow> bo_WantedID ov \<in> set (applied_ids (by_id ovs) items) \<longleftrightarrow> bo_WantedID ov \<in> ws_ID ` set items"
  by (auto simp: applied_ids_def) (metis (mono_tags, lifting) by_id_None imageI mem_Collect_eq not_Some_eq)

lemma ApplyBranchOverrides_member:
  assumes "ovs \<noteq> []"
  shows "x \<in> set (ApplyBranchOverrides uni db items ovs f s) \<longleftrightarrow>
     x \<in> set (overlay_items (by_id ovs) (\<lambda>st. bf_Status f = [] \<or> st = bf_Status f) items)
   \<or> (\<exists>ov \<in> set ovs. \<exists>eff. bo_WantedID ov \<notin> ws_ID ` set items
         \<and> (bf_Status f = [] \<or> bo_Status ov = bf_Status f)
         \<and> effective_item db ov s = Some eff \<and> matchesBrowseFilter uni eff f
         \<and> x = summary_of eff (bo_Status ov))"
  using assms
  by (simp add: ApplyBranchOverrides_def Let_def added_items_member)
    (metis applied_ids_member)

lemma branch_override_Some:
  "branch_override db i branch s = Some ov \<longleftrightarrow>
     (\<exists>st cb. queryItemBranchState db i branch s = (st, cb) \<and> st \<noteq> []
        \<and> st \<noteq> QueryItemStatusAsOf db i [] s
        \<and> ov = \<lparr>bo_WantedID = i, bo_Branch = branch, bo_Status = st, bo_ClaimedBy = cb\<rparr>)"
  by (auto simp: branch_override_def Let_def split: prod.splits if_splits)

lemma DetectBranchOverrides_member:
  "ov \<in> set (DetectBranchOverrides db rig s) \<longleftrightarrow>
     (\<exists>branches branch. db_Branches db (Sprintf ''wl/%s/'' [FS rig]) s = Inr branches
        \<and> branch \<in> set branches
        \<and> branch_override db (TrimPrefix branch (Sprintf ''wl/%s/'' [FS rig])) branch s = Some ov)"
  by (cases "db_Branches db (Sprintf ''wl/%s/'' [FS rig]) s")
    (auto simp: DetectBranchOverrides_def Let_def set_map_filter simp del: Sprintf.simps)

lemma rig_prefix: "Sprintf ''wl/%s/'' [FS rig] = ''wl/'' @ rig @ ''/''"
  by simp

section \<open>Soundness\<close>

text \<open>A branch of the rig that holds an item under a status of its own, which is not main's.\<close>

definition changes :: "'s DB \<Rightarrow> 's \<Rightarrow> string \<Rightarrow> string \<Rightarrow> string \<Rightarrow> string \<Rightarrow> string \<Rightarrow> bool" where
  "changes db s rig i branch st cb \<longleftrightarrow>
     (\<exists>branches. db_Branches db (''wl/'' @ rig @ ''/'') s = Inr branches \<and> branch \<in> set branches
        \<and> TrimPrefix branch (''wl/'' @ rig @ ''/'') = i \<and> queryItemBranchState db i branch s = (st, cb)
        \<and> st \<noteq> [] \<and> st \<noteq> QueryItemStatusAsOf db i [] s)"

text \<open>
  The three ways to be shown: as main has it, when no branch of the rig changes the item; as main has it
  but for the status and the claimer of a branch that changes this very item; and, for an item that main's
  rows do not have, as the record read for it at the branch that changes it, or else at main.
\<close>

definition shown_from_main :: "'s DB \<Rightarrow> 's \<Rightarrow> string \<Rightarrow> WantedSummary list \<Rightarrow> WantedSummary \<Rightarrow> bool" where
  "shown_from_main db s rig items x \<longleftrightarrow> x \<in> set items \<and> (\<forall>branch st cb. \<not> changes db s rig (ws_ID x) branch st cb)"

definition shown_overlaid :: "'s DB \<Rightarrow> 's \<Rightarrow> string \<Rightarrow> WantedSummary list \<Rightarrow> WantedSummary \<Rightarrow> bool" where
  "shown_overlaid db s rig items x \<longleftrightarrow>
     (\<exists>item branch st cb. item \<in> set items \<and> changes db s rig (ws_ID x) branch st cb
        \<and> x = item\<lparr>ws_Status := st, ws_ClaimedBy := (if cb = [] then ws_ClaimedBy item else cb)\<rparr>)"

definition shown_added :: "'s DB \<Rightarrow> 's \<Rightarrow> string \<Rightarrow> WantedSummary list \<Rightarrow> string \<Rightarrow> WantedSummary \<Rightarrow> bool" where
  "shown_added db s rig items i x \<longleftrightarrow>
     (\<exists>branch st cb found. i \<notin> ws_ID ` set items \<and> changes db s rig i branch st cb
        \<and> (case QueryWantedDetailAsOf db i branch s of Inr item \<Rightarrow> item = found | Inl err \<Rightarrow> QueryWantedDetail db i s = Inr found)
        \<and> x = \<lparr>ws_ID = wi_ID found, ws_Title = wi_Title found, ws_Description = wi_Description found,
               ws_Project = wi_Project found, ws_Type = wi_Type found, ws_Priority = wi_Priority found,
               ws_PostedBy = wi_PostedBy found, ws_ClaimedBy = (if cb = [] then wi_ClaimedBy found else cb),
               ws_Status = st, ws_EffortLevel = wi_EffortLevel found\<rparr>)"

lemma DetectBranchOverrides_changes:
  "ov \<in> set (DetectBranchOverrides db rig s)
     \<longleftrightarrow> changes db s rig (bo_WantedID ov) (bo_Branch ov) (bo_Status ov) (bo_ClaimedBy ov)"
  by (cases ov) (auto simp: DetectBranchOverrides_member branch_override_Some rig_prefix changes_def)

lemma no_override_unchanged:
  assumes "by_id (DetectBranchOverrides db rig s) i = None"
  shows "\<not> changes db s rig i branch st cb"
proof
  assume "changes db s rig i branch st cb"
  then have "\<lparr>bo_WantedID = i, bo_Branch = branch, bo_Status = st, bo_ClaimedBy = cb\<rparr> \<in> set (DetectBranchOverrides db rig s)"
    by (simp add: DetectBranchOverrides_changes)
  then show False using assms by (force simp: by_id_None)
qed

text \<open>The rows of the two loops.\<close>

lemma row_unchanged:
  "x \<in> set items \<Longrightarrow> by_id (DetectBranchOverrides db rig s) (ws_ID x) = None \<Longrightarrow> shown_from_main db s rig items x"
  by (simp add: shown_from_main_def no_override_unchanged)

lemma row_overlaid:
  assumes "item \<in> set items" and "by_id (DetectBranchOverrides db rig s) (ws_ID item) = Some ov"
  shows "shown_overlaid db s rig items (overlay_summary ov item)"
proof -
  have "ov \<in> set (DetectBranchOverrides db rig s)" "bo_WantedID ov = ws_ID item" using by_id_Some [OF assms(2)] by simp_all
  then have "changes db s rig (ws_ID item) (bo_Branch ov) (bo_Status ov) (bo_ClaimedBy ov)"
    by (simp add: DetectBranchOverrides_changes)
  moreover have "overlay_summary ov item = item\<lparr>ws_Status := bo_Status ov,
      ws_ClaimedBy := (if bo_ClaimedBy ov = [] then ws_ClaimedBy item else bo_ClaimedBy ov)\<rparr>"
    by (simp add: overlay_summary_def Let_def)
  ultimately show ?thesis unfolding shown_overlaid_def using assms(1) by fastforce
qed

lemma row_added:
  assumes "ov \<in> set (DetectBranchOverrides db rig s)" and "bo_WantedID ov \<notin> ws_ID ` set items"
    and "effective_item db ov s = Some eff"
  shows "shown_added db s rig items (bo_WantedID ov) (summary_of eff (bo_Status ov))"
proof -
  have ch: "changes db s rig (bo_WantedID ov) (bo_Branch ov) (bo_Status ov) (bo_ClaimedBy ov)"
    using assms(1) by (simp add: DetectBranchOverrides_changes)
  obtain found where found: "case QueryWantedDetailAsOf db (bo_WantedID ov) (bo_Branch ov) s of
        Inr item \<Rightarrow> item = found | Inl err \<Rightarrow> QueryWantedDetail db (bo_WantedID ov) s = Inr found"
    "eff = (let e = found\<lparr>wi_Status := bo_Status ov\<rparr>
       in if bo_ClaimedBy ov \<noteq> [] then e\<lparr>wi_ClaimedBy := bo_ClaimedBy ov\<rparr> else e)"
    using assms(3) by (auto simp: effective_item_def split: sum.splits)
  show ?thesis
    unfolding shown_added_def
    by (rule exI [of _ "bo_Branch ov"], rule exI [of _ "bo_Status ov"], rule exI [of _ "bo_ClaimedBy ov"],
        rule exI [of _ found]) (use assms(2) ch found in \<open>simp add: summary_of_def Let_def\<close>)
qed

text \<open>
  C33: In PR mode the rig's own view never shows an item under the status it has on main when a
  mutation branch of the rig says otherwise.  A shown row is one of main's rows whose item no branch of
  the rig changes, and is not marked; or the row that main has of an item, with the status and the claimer
  (if there is one) that a branch of the rig holds of that same item; or, for an item that main's rows do
  not have, what the record read for that item at the branch of the rig says, with the branch's status and
  claimer.  Both kinds of changed rows are marked pending and pass the status filter.
\<close>

theorem browse_overlay_sound:
  assumes "BrowseWantedBranchAware uni db ''pr'' rig f s = Inr (shown, pend)"
    and "bf_View f = ''mine''" and "x \<in> set shown"
  shows "\<exists>items. BrowseWanted db f s = Inr items
     \<and> (shown_from_main db s rig items x \<and> pend (ws_ID x) = 0
       \<or> shown_overlaid db s rig items x \<and> bf_Status f \<in> {[], ws_Status x} \<and> pend (ws_ID x) = 1
       \<or> (\<exists>i. shown_added db s rig items i x \<and> bf_Status f \<in> {[], ws_Status x} \<and> pend i = 1))"
proof -
  let ?ovs = "DetectBranchOverrides db rig s"
  from assms obtain items where items: "BrowseWanted db f s = Inr items"
    and shown: "shown = ApplyBranchOverrides uni db items ?ovs f s"
    and pend: "pend = (\<lambda>i. if i \<in> set (map bo_WantedID ?ovs) then 1 else 0)"
    by (auto simp: BrowseWantedBranchAware_def Let_def split: sum.splits)
  show ?thesis
  proof (cases "?ovs = []")
    case True
    then have "x \<in> set items" "by_id ?ovs (ws_ID x) = None"
      using shown assms(3) by (simp_all add: ApplyBranchOverrides_def)
    from row_unchanged [OF this] show ?thesis using items pend True by simp
  next
    case False
    note member = assms(3) [unfolded shown ApplyBranchOverrides_member [OF False] overlay_items_member]
    then consider (main) "x \<in> set items" "by_id ?ovs (ws_ID x) = None"
      | (over) item ov where "item \<in> set items" "by_id ?ovs (ws_ID item) = Some ov"
          "bf_Status f = [] \<or> bo_Status ov = bf_Status f" "x = overlay_summary ov item"
      | (added) ov eff where "ov \<in> set ?ovs" "bo_WantedID ov \<notin> ws_ID ` set items"
          "bf_Status f = [] \<or> bo_Status ov = bf_Status f" "effective_item db ov s = Some eff"
          "x = summary_of eff (bo_Status ov)"
      by metis
    then show ?thesis
    proof cases
      case main
      then show ?thesis using row_unchanged [OF main] items pend by (simp add: by_id_None)
    next
      case over
      have "pend (ws_ID x) = 1" using by_id_Some [OF over(2)] over(4) pend by (auto intro: rev_image_eqI)
      then show ?thesis using row_overlaid [OF over(1,2)] over(3,4) items by auto
    next
      case added
      have "pend (bo_WantedID ov) = 1" using added(1) pend by simp
      then show ?thesis using row_added [OF added(1,2,4)] added(3,5) items by auto
    qed
  qed
qed

text \<open>A board with one item that the branch of \<^verbatim>\<open>ada\<close> has claimed.\<close>

definition example_csv :: "string \<Rightarrow> string \<Rightarrow> string" where
  "example_csv st cb =
     Join [''id,title,type,status,claimed_by'', ''w-1,Fix,bug,'' @ st @ '','' @ cb] [nl_ch] @ [nl_ch]"

definition example_db :: "unit DB" where
  "example_db =
     \<lparr>db_Query = (\<lambda>q ref s. Inr (if HasPrefix q ''SELECT status FROM''
                     then Join [''status'', if ref = [] \<or> ref = ''main'' then ''open'' else ''claimed''] [nl_ch]
                     else if ref = [] \<or> ref = ''main'' then example_csv ''open'' [] else example_csv ''claimed'' ''ada'')),
      db_Exec = (\<lambda>b m g t s. (None, s)),
      db_Branches = (\<lambda>p s. Inr (filter (\<lambda>b. HasPrefix b p) [''wl/ada/w-1''])),
      db_DeleteBranch = (\<lambda>b s. (None, s)), db_PushBranch = (\<lambda>b s. (None, [], s)),
      db_PushMain = (\<lambda>s. (None, s)), db_Sync = (\<lambda>s. (None, s)),
      db_MergeBranch = (\<lambda>b s. (None, s)), db_DeleteRemoteBranch = (\<lambda>b s. (None, s)),
      db_PushWithSync = (\<lambda>s. (None, s)), db_CanWildWest = (\<lambda>s. None)\<rparr>"

definition example_filter :: BrowseFilter where
  "example_filter =
     \<lparr>bf_Status = [], bf_Project = [], bf_Type = ''bug'', bf_Priority = -1, bf_Limit = 0,
      bf_PostedBy = [], bf_ClaimedBy = [], bf_Search = [], bf_MyItems = [], bf_Sort = SortPriority,
      bf_View = ''mine'', bf_Long = False\<rparr>"

definition example_pr :: "WantedSummary list \<times> (string \<Rightarrow> nat)" where
  "example_pr = (case BrowseWantedBranchAware id example_db ''pr'' ''ada'' example_filter () of
     Inr r \<Rightarrow> r | Inl _ \<Rightarrow> ([], \<lambda>_. 0))"

definition example_row :: WantedSummary where
  "example_row = summary_of (zero_WantedItem\<lparr>wi_ID := ''w-1'', wi_Title := ''Fix'', wi_Type := ''bug'',
     wi_Priority := 2, wi_ClaimedBy := ''ada''\<rparr>) ''claimed''"

lemma example_browse:
  "BrowseWantedBranchAware id example_db ''pr'' ''ada'' example_filter () = Inr (fst example_pr, snd example_pr)"
  "fst example_pr = [example_row]" "snd example_pr ''w-1'' = 1"
proof -
  show "BrowseWantedBranchAware id example_db ''pr'' ''ada'' example_filter () = Inr (fst example_pr, snd example_pr)"
    by (simp add: example_pr_def BrowseWantedBranchAware_def BrowseWanted_def example_db_def example_filter_def Let_def)
  show "fst example_pr = [example_row]" by code_simp
  show "snd example_pr ''w-1'' = 1" by code_simp
qed

lemma example_items: "map_sum (\<lambda>e. ()) (map ws_Status) (BrowseWanted example_db example_filter ()) = Inr [''open'']"
  by code_simp

text \<open>The row of the example is not main's.\<close>

theorem browse_overlay_sound_witness:
  "\<exists>items. BrowseWanted example_db example_filter () = Inr items
     \<and> (shown_overlaid example_db () ''ada'' items example_row \<or> (\<exists>i. shown_added example_db () ''ada'' items i example_row))"
proof -
  obtain items where i: "BrowseWanted example_db example_filter () = Inr items"
    "shown_from_main example_db () ''ada'' items example_row \<or> shown_overlaid example_db () ''ada'' items example_row
      \<or> (\<exists>i. shown_added example_db () ''ada'' items i example_row)"
    using browse_overlay_sound [OF example_browse(1), of example_row] example_browse(2)
    by (auto simp: example_filter_def)
  have "map ws_Status items = [''open'']" using example_items i(1) by simp
  then have "example_row \<notin> set items" by (auto simp: example_row_def summary_of_def)
  then show ?thesis using i by (auto simp: shown_from_main_def)
qed

section \<open>Completeness\<close>

lemma map_filter_distinct:
  "distinct xs \<Longrightarrow> (\<And>x y b c. x \<in> set xs \<Longrightarrow> y \<in> set xs \<Longrightarrow> f x = Some b \<Longrightarrow> f y = Some c \<Longrightarrow> g b = g c \<Longrightarrow> x = y)
   \<Longrightarrow> distinct (map g (List.map_filter f xs))"
proof (induction xs)
  case Nil
  then show ?case by (simp add: map_filter_simps)
next
  case (Cons x xs)
  have "distinct (map g (List.map_filter f xs))"
  proof (rule Cons.IH)
    show "distinct xs" using Cons.prems(1) by simp
  next
    fix u v b c
    assume "u \<in> set xs" "v \<in> set xs" "f u = Some b" "f v = Some c" "g b = g c"
    then show "u = v" using Cons.prems(2) [of u v b c] by simp
  qed
  moreover have "g b \<noteq> g c" if b: "f x = Some b" and c: "c \<in> set (List.map_filter f xs)" for b c
  proof
    assume eq: "g b = g c"
    from c obtain y where y: "y \<in> set xs" "f y = Some c" by (auto simp: set_map_filter)
    from Cons.prems(2) [of x y b c] b y eq have "x = y" by simp
    then show False using y Cons.prems(1) by simp
  qed
  ultimately show ?case by (fastforce simp: map_filter_simps split: option.splits)
qed

lemma DetectBranchOverrides_distinct:
  assumes "db_Branches db (''wl/'' @ rig @ ''/'') s = Inr branches" and "distinct branches"
    and "\<forall>b \<in> set branches. HasPrefix b (''wl/'' @ rig @ ''/'')"
  shows "distinct (map bo_WantedID (DetectBranchOverrides db rig s))"
  unfolding DetectBranchOverrides_def rig_prefix Let_def assms(1) sum.case
proof (rule map_filter_distinct [OF assms(2)])
  fix x y b c
  let ?p = "''wl/'' @ rig @ ''/''"
  assume "x \<in> set branches" "y \<in> set branches"
    "branch_override db (TrimPrefix x ?p) x s = Some b" "branch_override db (TrimPrefix y ?p) y s = Some c"
    "bo_WantedID b = bo_WantedID c"
  then have "TrimPrefix x ?p = TrimPrefix y ?p" by (auto simp: branch_override_Some)
  then show "x = y" using assms(3) \<open>x \<in> set branches\<close> \<open>y \<in> set branches\<close> by (metis TrimPrefix_prefix)
qed

text \<open>
  C34: Nothing a branch of the rig says about an item is lost in PR mode: when the branch's status
  differs from main's and passes the status filter, and the item is on the board or its record on
  the branch matches the filter, the item is shown with that status and its claimer.
\<close>

theorem browse_overlay_complete:
  assumes "BrowseWantedBranchAware uni db ''pr'' rig f s = Inr (shown, pend)"
    and "bf_View f = ''mine''"
    and "db_Branches db (''wl/'' @ rig @ ''/'') s = Inr branches" and "distinct branches"
    and "\<forall>b \<in> set branches. HasPrefix b (''wl/'' @ rig @ ''/'')"
    and "''wl/'' @ rig @ ''/'' @ i \<in> set branches"
    and "queryItemBranchState db i (''wl/'' @ rig @ ''/'' @ i) s = (st, cb)"
    and "st \<noteq> [] \<and> st \<noteq> QueryItemStatusAsOf db i [] s \<and> (bf_Status f = [] \<or> st = bf_Status f)"
    and "(\<exists>items. BrowseWanted db f s = Inr items \<and> i \<in> ws_ID ` set items)
       \<or> (\<exists>item. QueryWantedDetailAsOf db i (''wl/'' @ rig @ ''/'' @ i) s = Inr item \<and> wi_ID item = i
            \<and> matchesBrowseFilter uni
                (item\<lparr>wi_Status := st, wi_ClaimedBy := (if cb \<noteq> [] then cb else wi_ClaimedBy item)\<rparr>) f)"
  shows "\<exists>x \<in> set shown. ws_ID x = i \<and> ws_Status x = st \<and> (cb \<noteq> [] \<longrightarrow> ws_ClaimedBy x = cb) \<and> pend i = 1"
proof -
  let ?ovs = "DetectBranchOverrides db rig s"
  let ?b = "''wl/'' @ rig @ ''/'' @ i"
  let ?ov = "\<lparr>bo_WantedID = i, bo_Branch = ?b, bo_Status = st, bo_ClaimedBy = cb\<rparr>"
  have "TrimPrefix ?b (''wl/'' @ rig @ ''/'') = i" using TrimPrefix_append [of "''wl/'' @ rig @ ''/''" i] by simp
  then have ov: "?ov \<in> set ?ovs"
    using assms(3,6,7,8)
    by (fastforce simp: DetectBranchOverrides_member branch_override_Some rig_prefix)
  then have byid: "by_id ?ovs i = Some ?ov"
    using by_id_distinct [OF DetectBranchOverrides_distinct [OF assms(3-5)] ov] by simp
  from assms obtain items where items: "BrowseWanted db f s = Inr items"
    and shown: "shown = ApplyBranchOverrides uni db items ?ovs f s"
    and pend: "pend = (\<lambda>i. if i \<in> set (map bo_WantedID ?ovs) then 1 else 0)"
    by (auto simp: BrowseWantedBranchAware_def Let_def split: sum.splits)
  have "pend i = 1" using pend ov by (auto intro: rev_image_eqI)
  have ne: "?ovs \<noteq> []" using ov by auto
  show ?thesis
  proof (cases "i \<in> ws_ID ` set items")
    case True
    then obtain item where "item \<in> set items" "ws_ID item = i" by auto
    then have "overlay_summary ?ov item \<in>
        set (overlay_items (by_id ?ovs) (\<lambda>st. bf_Status f = [] \<or> st = bf_Status f) items)"
      using byid assms(8) by (intro overlay_items_shown) auto
    then have "overlay_summary ?ov item \<in> set shown"
      unfolding shown ApplyBranchOverrides_member [OF ne] by simp
    then show ?thesis using \<open>pend i = 1\<close> \<open>ws_ID item = i\<close> by (intro bexI) auto
  next
    case False
    with assms(9) items obtain item where item: "QueryWantedDetailAsOf db i ?b s = Inr item" "wi_ID item = i"
      "matchesBrowseFilter uni (item\<lparr>wi_Status := st, wi_ClaimedBy := (if cb \<noteq> [] then cb else wi_ClaimedBy item)\<rparr>) f"
      by auto
    let ?eff = "item\<lparr>wi_Status := st, wi_ClaimedBy := (if cb \<noteq> [] then cb else wi_ClaimedBy item)\<rparr>"
    have "effective_item db ?ov s = Some ?eff" using item(1) by (simp add: effective_item_def)
    then have "\<exists>ov \<in> set ?ovs. \<exists>eff. bo_WantedID ov \<notin> ws_ID ` set items
         \<and> (bf_Status f = [] \<or> bo_Status ov = bf_Status f)
         \<and> effective_item db ov s = Some eff \<and> matchesBrowseFilter uni eff f
         \<and> summary_of ?eff st = summary_of eff (bo_Status ov)"
      using ov False assms(8) item(3) by (intro bexI [where x = ?ov] exI [where x = ?eff]) auto
    then have "summary_of ?eff st \<in> set shown"
      unfolding shown ApplyBranchOverrides_member [OF ne] by blast
    then show ?thesis using \<open>pend i = 1\<close> item(2) by (intro bexI) auto
  qed
qed

theorem browse_overlay_complete_witness:
  "\<exists>x \<in> set (fst example_pr). ws_ID x = ''w-1'' \<and> ws_Status x = ''claimed''
     \<and> (''ada'' \<noteq> [] \<longrightarrow> ws_ClaimedBy x = ''ada'') \<and> snd example_pr ''w-1'' = 1"
proof (rule browse_overlay_complete [OF example_browse(1), where branches = "[''wl/ada/w-1'']"])
  show "bf_View example_filter = ''mine''" by (simp add: example_filter_def)
  show "db_Branches example_db (''wl/'' @ ''ada'' @ ''/'') () = Inr [''wl/ada/w-1'']" by (simp add: example_db_def)
  show "distinct [''wl/ada/w-1'']" by simp
  show "\<forall>b \<in> set [''wl/ada/w-1'']. HasPrefix b (''wl/'' @ ''ada'' @ ''/'')" by simp
  show "''wl/'' @ ''ada'' @ ''/'' @ ''w-1'' \<in> set [''wl/ada/w-1'']" by simp
  show "queryItemBranchState example_db ''w-1'' (''wl/'' @ ''ada'' @ ''/'' @ ''w-1'') () = (''claimed'', ''ada'')"
    by code_simp
  show "''claimed'' \<noteq> [] \<and> ''claimed'' \<noteq> QueryItemStatusAsOf example_db ''w-1'' [] () \<and>
      (bf_Status example_filter = [] \<or> ''claimed'' = bf_Status example_filter)" by code_simp
  have "case BrowseWanted example_db example_filter () of Inl _ \<Rightarrow> False | Inr items \<Rightarrow> ''w-1'' \<in> set (map ws_ID items)"
    by code_simp
  then show "(\<exists>items. BrowseWanted example_db example_filter () = Inr items \<and> ''w-1'' \<in> ws_ID ` set items)
     \<or> (\<exists>item. QueryWantedDetailAsOf example_db ''w-1'' (''wl/'' @ ''ada'' @ ''/'' @ ''w-1'') () = Inr item
          \<and> wi_ID item = ''w-1'' \<and> matchesBrowseFilter id
              (item\<lparr>wi_Status := ''claimed'', wi_ClaimedBy := (if ''ada'' \<noteq> [] then ''ada'' else wi_ClaimedBy item)\<rparr>)
              example_filter)"
    by (auto split: sum.splits)
qed

section \<open>All rigs' branches\<close>

text \<open>The branch whose override of item \<open>i\<close> counts: the first that changes it.\<close>

definition first_change :: "'s DB \<Rightarrow> 's \<Rightarrow> string list \<Rightarrow> string \<Rightarrow> BranchOverride option" where
  "first_change db s branches i =
     (case find (\<lambda>b. branch_item b = Some i \<and> branch_override db i b s \<noteq> None) branches of
        None \<Rightarrow> None
      | Some b \<Rightarrow> branch_override db i b s)"

lemma first_change_Cons:
  "first_change db s (b # bs) i =
     (if branch_item b = Some i \<and> branch_override db i b s \<noteq> None then branch_override db i b s
      else first_change db s bs i)"
  by (auto simp: first_change_def)

lemma branch_override_id: "branch_override db i b s = Some ov \<Longrightarrow> bo_WantedID ov = i"
  by (auto simp: branch_override_Some)

text \<open>What the loop keeps: \<open>seen\<close> are the items with an override, each with one override only.\<close>

lemma detect_all_result:
  assumes "detect_all db s bs ovs counts seen = (ovs', counts')"
    and "distinct (map bo_WantedID ovs)" and "set seen = bo_WantedID ` set ovs"
  shows "distinct (map bo_WantedID ovs')
       \<and> counts' = (\<lambda>i. counts i + length (filter (\<lambda>b. branch_item b = Some i) bs))
       \<and> by_id ovs' = (\<lambda>i. if i \<in> set seen then by_id ovs i else first_change db s bs i)"
  using assms
proof (induction bs arbitrary: ovs counts seen)
  case Nil
  then show ?case by (auto simp: first_change_def fun_eq_iff by_id_None)
next
  case (Cons b bs)
  show ?case
  proof (cases "branch_item b")
    case None
    then show ?thesis using Cons by (auto simp: first_change_Cons)
  next
    case (Some j)
    let ?counts = "counts(j := counts j + 1)"
    have count: "(\<lambda>i. ?counts i + length (filter (\<lambda>b. branch_item b = Some i) bs)) =
        (\<lambda>i. counts i + length (filter (\<lambda>b. branch_item b = Some i) (b # bs)))"
      using Some by (auto simp: fun_eq_iff)
    consider (seen) "j \<in> set seen" | (none) "j \<notin> set seen" "branch_override db j b s = None"
      | (new) ov where "j \<notin> set seen" "branch_override db j b s = Some ov" by fastforce
    then show ?thesis
    proof cases
      case seen
      then have "detect_all db s bs ovs ?counts seen = (ovs', counts')"
        using Cons.prems(1) Some by (simp add: Let_def)
      from Cons.IH [OF this Cons.prems(2,3)] show ?thesis
        unfolding count using Some seen by (auto simp: first_change_Cons fun_eq_iff)
    next
      case none
      then have "detect_all db s bs ovs ?counts seen = (ovs', counts')"
        using Cons.prems(1) Some by (simp add: Let_def)
      from Cons.IH [OF this Cons.prems(2,3)] show ?thesis
        unfolding count using Some none by (auto simp: first_change_Cons fun_eq_iff)
    next
      case new
      have id: "bo_WantedID ov = j" using new(2) by (rule branch_override_id)
      from new have "detect_all db s bs (ovs @ [ov]) ?counts (j # seen) = (ovs', counts')"
        using Cons.prems(1) Some by (simp add: Let_def)
      moreover have "distinct (map bo_WantedID (ovs @ [ov]))" "set (j # seen) = bo_WantedID ` set (ovs @ [ov])"
        using Cons.prems(2,3) new(1) id by auto
      ultimately have "distinct (map bo_WantedID ovs')
          \<and> counts' = (\<lambda>i. counts i + length (filter (\<lambda>b. branch_item b = Some i) (b # bs)))
          \<and> by_id ovs' = (\<lambda>i. if i \<in> set (j # seen) then by_id (ovs @ [ov]) i else first_change db s bs i)"
        unfolding count [symmetric] by (rule Cons.IH)
      moreover have "(\<lambda>i. if i \<in> set (j # seen) then by_id (ovs @ [ov]) i else first_change db s bs i) =
          (\<lambda>i. if i \<in> set seen then by_id ovs i else first_change db s (b # bs) i)"
        using Some new id by (auto simp: first_change_Cons fun_eq_iff by_id_snoc)
      ultimately show ?thesis by simp
    qed
  qed
qed

text \<open>
  Over all rigs' branches an item gets at most one override, the one of the first listed branch
  that changes its status, and its count is the number of branches named for it, changing or not.
\<close>

theorem DetectAllBranchOverrides_first:
  assumes "db_Branches db ''wl/'' s = Inr branches"
    and "DetectAllBranchOverrides db s = (overrides, counts)"
  shows "distinct (map bo_WantedID overrides)
       \<and> (\<forall>i. by_id overrides i = first_change db s branches i)
       \<and> (\<forall>i. counts i = length (filter (\<lambda>b. branch_item b = Some i) branches))"
  using detect_all_result [of db s branches "[]" "\<lambda>_. 0" "[]" overrides counts] assms
  by (auto simp: DetectAllBranchOverrides_def)

theorem DetectAllBranchOverrides_first_witness:
  "distinct (map bo_WantedID (fst (DetectAllBranchOverrides example_db ())))
 \<and> (\<forall>i. by_id (fst (DetectAllBranchOverrides example_db ())) i = first_change example_db () [''wl/ada/w-1''] i)
 \<and> (\<forall>i. snd (DetectAllBranchOverrides example_db ()) i =
        length (filter (\<lambda>b. branch_item b = Some i) [''wl/ada/w-1'']))"
  by (rule DetectAllBranchOverrides_first) (simp_all add: example_db_def)

end
