(* ===== verification/SdkOps.thy ===== *)
theory SdkOps
  imports Sdk Overlay
begin

text \<open>
  What holds of every mutation of the client: \<open>run_op\<close> runs one, given as a value.  In PR
  mode an operation works on its item's own branch and nothing else, does nothing at all when the
  branch already has the status it wants, and reports the branch consistently; outside PR mode a
  backend that cannot push upstream is never written.
\<close>

datatype sdk_op =
    OpClaim string
  | OpUnclaim string
  | OpDone string string
  | OpAccept string AcceptInput
  | OpAcceptUpstream string UpstreamSubmissionSelector AcceptInput
  | OpCloseUpstream string UpstreamSubmissionSelector
  | OpReject string string
  | OpClose string
  | OpDelete string
  | OpPost PostInput
  | OpUpdate string WantedUpdate

fun run_op :: "clock \<Rightarrow> 's Client \<Rightarrow> sdk_op \<Rightarrow> 's \<Rightarrow> 's outcome" where
  "run_op k c (OpClaim w) s = Claim c w s"
| "run_op k c (OpUnclaim w) s = Unclaim c w s"
| "run_op k c (OpDone w evidence) s = Done k c w evidence s"
| "run_op k c (OpAccept w input) s = Accept k c w input s"
| "run_op k c (OpAcceptUpstream w selector input) s = AcceptUpstreamSelected k c w selector input s"
| "run_op k c (OpCloseUpstream w selector) s = CloseUpstreamSelected k c w selector s"
| "run_op k c (OpReject w reason) s = Reject c w reason s"
| "run_op k c (OpClose w) s = Close c w s"
| "run_op k c (OpDelete w) s = Delete c w s"
| "run_op k c (OpPost input) s = Post k c input s"
| "run_op k c (OpUpdate w upd) s = Update c w upd s"

fun op_item :: "clock \<Rightarrow> 's Client \<Rightarrow> sdk_op \<Rightarrow> string" where
  "op_item k c (OpClaim w) = w"
| "op_item k c (OpUnclaim w) = w"
| "op_item k c (OpDone w evidence) = w"
| "op_item k c (OpAccept w input) = w"
| "op_item k c (OpAcceptUpstream w selector input) = w"
| "op_item k c (OpCloseUpstream w selector) = w"
| "op_item k c (OpReject w reason) = w"
| "op_item k c (OpClose w) = w"
| "op_item k c (OpDelete w) = w"
| "op_item k c (OpPost input) = wi_ID (post_item k c input)"
| "op_item k c (OpUpdate w upd) = w"

text \<open>The status an operation brings about; posting and updating have no early return.\<close>

fun op_target :: "sdk_op \<Rightarrow> string option" where
  "op_target (OpClaim w) = Some ''claimed''"
| "op_target (OpUnclaim w) = Some ''open''"
| "op_target (OpDone w evidence) = Some ''in_review''"
| "op_target (OpAccept w input) = Some ''completed''"
| "op_target (OpAcceptUpstream w selector input) = Some ''completed''"
| "op_target (OpCloseUpstream w selector) = Some ''completed''"
| "op_target (OpReject w reason) = Some ''claimed''"
| "op_target (OpClose w) = Some ''completed''"
| "op_target (OpDelete w) = Some ''withdrawn''"
| "op_target (OpPost input) = None"
| "op_target (OpUpdate w upd) = None"

lemmas op_defs =
  Claim_def Unclaim_def Done_def Reject_def Close_def Delete_def Post_def Update_def
  Accept_def acceptLocked_def AcceptUpstreamSelected_def acceptUpstreamLocked_def
  CloseUpstreamSelected_def unless_done_def

section \<open>Frame of a branch\<close>

text \<open>
  \<open>P\<close> is kept by everything a client can do to one branch: run statements on it, push it,
  delete it, open or close its pull request; and by the two effects outside the repository, closing an
  upstream pull request and writing the handle cache.
\<close>

locale branch_frame =
  fixes c :: "'s Client" and branch :: string and P :: "'s \<Rightarrow> bool"
  assumes exec: "P s \<Longrightarrow> P (snd (db_Exec (c_db c) branch msg sg stmts s))"
    and push: "P s \<Longrightarrow> P (snd (snd (db_PushBranch (c_db c) branch s)))"
    and delete: "P s \<Longrightarrow> P (snd (db_DeleteBranch (c_db c) branch s))"
    and delete_remote: "P s \<Longrightarrow> P (snd (db_DeleteRemoteBranch (c_db c) branch s))"
    and close_pr: "c_ClosePR c = Some f \<Longrightarrow> P s \<Longrightarrow> P (snd (f branch s))"
    and create_pr: "c_CreatePR c = Some g \<Longrightarrow> P s \<Longrightarrow> P (snd (g branch s))"
    and close_upstream: "c_CloseUpstreamPR c = Some f \<Longrightarrow> P s \<Longrightarrow> P (snd (f url s))"
    and cache: "c_gh c = Some gh \<Longrightarrow> P s \<Longrightarrow> P (snd (gh_Put gh subject entry s))"
begin

lemma frame_clear: "P s \<Longrightarrow> P (snd (clearBranchData (c_db c) branch s))"
  by (auto simp: clearBranchData_def Let_def split: prod.splits option.splits)
     (metis exec snd_conv)+

lemma frame_close_pr: "P s \<Longrightarrow> P (Sdk.close_pr c branch s)"
  by (auto simp: close_pr_def intro: close_pr split: option.splits)

lemma frame_cleanup: "P s \<Longrightarrow> P (cleanupBranch c branch s)"
proof -
  assume "P s"
  then have "P (snd (db_DeleteBranch (c_db c) branch (Sdk.close_pr c branch s)))"
    by (intro delete frame_close_pr)
  then show ?thesis
    by (auto simp: cleanupBranch_def Let_def intro: delete_remote frame_clear split: prod.splits)
qed

lemma frame_submit: "b = [] \<or> b = branch \<Longrightarrow> P s \<Longrightarrow> P (snd (auto_submit c d b h s))"
  by (auto simp: auto_submit_def Let_def dest: create_pr split: option.splits prod.splits sum.splits)

lemma frame_hook: "P s \<Longrightarrow> P (populateGitHubCache k c subject s)"
  by (auto simp: populateGitHubCache_def intro: cache split: option.splits sum.splits)

lemma frame_mutatePR:
  assumes "branch = BranchName (c_rigHandle c) w" and "P s"
  shows "P (snd (mutatePR c w msg stmts s))"
proof -
  obtain e1 s1 where e1: "db_Exec (c_db c) branch msg (c_signing c) stmts s = (e1, s1)" by fastforce
  obtain e2 plog s2 where e2: "db_PushBranch (c_db c) branch s1 = (e2, plog, s2)" by (metis prod_cases3)
  have s1: "P s1" using exec [OF assms(2), of msg "c_signing c" stmts] e1 by simp
  have s2: "P s2" using push [OF s1] e2 by simp
  have submit: "P (snd (auto_submit c d b h s'))" if "b = [] \<or> b = branch" "P s'" for d b h s'
    using that by (rule frame_submit)
  show ?thesis
    using s1 s2 submit frame_cleanup [OF s2]
    by (auto simp: mutatePR_def Let_def assms(1) [symmetric] e1 e2 split: option.splits prod.splits)
       (metis snd_conv)+
qed

lemma frame_mutate:
  "branch = BranchName (c_rigHandle c) w \<Longrightarrow> c_mode c = ''pr'' \<Longrightarrow> P s \<Longrightarrow> P (snd (mutate c w msg stmts s))"
  by (simp add: mutate_def frame_mutatePR)

lemma frame_with_subject: "P (snd out) \<Longrightarrow> P (snd (with_subject subj out))"
  by (auto simp: with_subject_def split: prod.splits sum.splits)

lemma frame_after: "P (snd out) \<Longrightarrow> P (snd (after_accept k c out))"
  by (auto simp: after_accept_def intro: frame_hook split: prod.splits sum.splits)

lemma frame_upstream:
  "P (snd out) \<Longrightarrow> P (snd (case out of (Inl err, s1) \<Rightarrow> (Inl err, s1)
     | (Inr result, s1) \<Rightarrow> (Inr result, case c_CloseUpstreamPR c of
         Some f \<Rightarrow> if url \<noteq> [] then snd (f url s1) else s1 | None \<Rightarrow> s1)))"
  by (auto intro: close_upstream split: prod.splits sum.splits option.splits)

lemma frame_op:
  assumes "branch = BranchName (c_rigHandle c) (op_item k c x)" and "c_mode c = ''pr''" and "P s"
  shows "P (snd (run_op k c x s))"
  using assms
proof (cases x)
  case (OpAccept w input)
  then show ?thesis using assms
    by (auto simp: Accept_def acceptLocked_def Let_def
        intro!: frame_after frame_with_subject frame_mutate split: option.splits sum.splits)
next
  case (OpAcceptUpstream w selector input)
  then show ?thesis using assms
    by (auto simp: AcceptUpstreamSelected_def acceptUpstreamLocked_def Let_def
        intro!: frame_after frame_with_subject frame_mutate split: option.splits sum.splits)
next
  case (OpCloseUpstream w selector)
  then show ?thesis using assms
    by (auto simp: CloseUpstreamSelected_def Let_def
        intro!: frame_upstream frame_mutate split: option.splits sum.splits)
next
  case (OpDelete w)
  then show ?thesis using assms
    using frame_cleanup [OF assms(3)]
    by (auto simp: Delete_def Let_def intro!: frame_mutate split: option.splits)
qed (auto simp: op_defs Let_def intro!: frame_mutate split: option.splits sum.splits)

end

text \<open>
  What the callbacks of a client, called for a branch, do to a record of requests or processes: each only
  adds entries, for which \<open>q\<close> holds.
\<close>

definition adds :: "('s \<Rightarrow> 'e list) \<Rightarrow> ('e \<Rightarrow> bool) \<Rightarrow> ('s \<Rightarrow> 'a \<times> 's) \<Rightarrow> bool" where
  "adds log q f \<longleftrightarrow> (\<forall>s. \<exists>more. log (snd (f s)) = log s @ more \<and> list_all q more)"

definition callbacks_add :: "('s \<Rightarrow> 'e list) \<Rightarrow> ('e \<Rightarrow> bool) \<Rightarrow> 's Client \<Rightarrow> string \<Rightarrow> bool" where
  "callbacks_add log q c branch \<longleftrightarrow>
     (\<forall>f. c_CreatePR c = Some f \<longrightarrow> adds log q (f branch))
   \<and> (\<forall>f. c_ClosePR c = Some f \<longrightarrow> adds log q (f branch))
   \<and> (\<forall>f url. c_CloseUpstreamPR c = Some f \<longrightarrow> adds log q (f url))
   \<and> (\<forall>gh subject entry. c_gh c = Some gh \<longrightarrow> adds log q (gh_Put gh subject entry))"

lemma adds_keep: "adds log q f \<Longrightarrow> list_all (\<lambda>e. p e \<or> q e) (log s) \<Longrightarrow> list_all (\<lambda>e. p e \<or> q e) (log (snd (f s)))"
  unfolding adds_def by (drule spec [of _ s]) (auto simp: list_all_iff)

text \<open>
  A client whose database adds only entries of one kind for a branch, and whose callbacks add only entries
  of another kind.
\<close>

lemma log_frame:
  assumes "callbacks_add log q c branch"
    and "\<And>msg sg stmts s. list_all (\<lambda>e. p e \<or> q e) (log s)
           \<Longrightarrow> list_all (\<lambda>e. p e \<or> q e) (log (snd (db_Exec (c_db c) branch msg sg stmts s)))"
    and "\<And>s. list_all (\<lambda>e. p e \<or> q e) (log s)
           \<Longrightarrow> list_all (\<lambda>e. p e \<or> q e) (log (snd (snd (db_PushBranch (c_db c) branch s))))"
    and "\<And>s. list_all (\<lambda>e. p e \<or> q e) (log s)
           \<Longrightarrow> list_all (\<lambda>e. p e \<or> q e) (log (snd (db_DeleteBranch (c_db c) branch s)))"
    and "\<And>s. list_all (\<lambda>e. p e \<or> q e) (log s)
           \<Longrightarrow> list_all (\<lambda>e. p e \<or> q e) (log (snd (db_DeleteRemoteBranch (c_db c) branch s)))"
  shows "branch_frame c branch (\<lambda>s. list_all (\<lambda>e. p e \<or> q e) (log s))"
  using assms by unfold_locales (auto simp: callbacks_add_def intro: adds_keep)

section \<open>Nothing to do\<close>

lemma prIdempotent_Some:
  assumes "c_mode c = ''pr''" and "QueryItemStatusAsOf (c_db c) w (BranchName (c_rigHandle c) w) s = target"
    and "QueryItemStatusAsOf (c_db c) w ''main'' s \<noteq> target"
  shows "\<exists>d. prIdempotent c w target s =
           Some \<lparr>mr_Detail = Some d, mr_Branch = BranchName (c_rigHandle c) w, mr_Hint = []\<rparr>"
  using assms by (auto simp: prIdempotent_def Let_def)

lemma populateGitHubCache_none [simp]: "populateGitHubCache k c [] s = s"
  by (simp add: populateGitHubCache_def split: option.splits)

text \<open>
  C38: In PR mode an operation whose effect the item's branch already has, other than main, does
  nothing: no statement is run, nothing is pushed, no pull request is touched and no stamp is issued a
  second time; it reports the branch.
\<close>

theorem repeated_operation_does_nothing:
  assumes "c_mode c = ''pr''" and "op_target x = Some target"
    and "QueryItemStatusAsOf (c_db c) (op_item k c x) (BranchName (c_rigHandle c) (op_item k c x)) s = target"
    and "QueryItemStatusAsOf (c_db c) (op_item k c x) ''main'' s \<noteq> target"
  shows "\<exists>r. run_op k c x s = (Inr r, s) \<and> mr_Branch r = BranchName (c_rigHandle c) (op_item k c x)"
proof -
  obtain d where "prIdempotent c (op_item k c x) target s =
      Some \<lparr>mr_Detail = Some d, mr_Branch = BranchName (c_rigHandle c) (op_item k c x), mr_Hint = []\<rparr>"
    using prIdempotent_Some [OF assms(1,3,4)] by blast
  then show ?thesis using assms(1,2)
    by (cases x) (auto simp: op_defs after_accept_def Let_def)
qed

text \<open>A client without callbacks.\<close>

definition plain_client :: "'s DB \<Rightarrow> string \<Rightarrow> string \<Rightarrow> 's Client" where
  "plain_client db rig mode =
     \<lparr>c_db = db, c_rigHandle = rig, c_upstream = [], c_mode = mode, c_signing = False, c_hopURI = [],
      c_noPush = False, c_bestEffortPendingReads = False, c_CreatePR = None, c_CheckPR = None,
      c_CheckPRContext = None, c_ClosePR = None, c_LoadDiff = None, c_LoadPendingItem = None,
      c_LoadPendingItemContext = None, c_LoadPendingDetail = None, c_LoadPendingDetailContext = None,
      c_SaveConfig = None, c_ListPendingItems = None, c_ListPendingItemsContext = None,
      c_BranchURL = None, c_CloseUpstreamPR = None, c_gh = None\<rparr>"

definition example_clock :: clock where
  "example_clock = \<lparr>ck_sha = (\<lambda>s. s), ck_now = ''2026-01-01T00:00:00Z'', ck_nano = 0, ck_rnd = []\<rparr>"

theorem repeated_operation_does_nothing_witness:
  "\<exists>r. run_op example_clock (plain_client example_db ''ada'' ''pr'') (OpClaim ''w-1'') () = (Inr r, ())
     \<and> mr_Branch r = BranchName ''ada'' ''w-1''"
proof -
  have "QueryItemStatusAsOf example_db ''w-1'' (BranchName ''ada'' ''w-1'') () = ''claimed''"
    and "QueryItemStatusAsOf example_db ''w-1'' ''main'' () = ''open''" by code_simp+
  then show ?thesis
    using repeated_operation_does_nothing
      [of "plain_client example_db ''ada'' ''pr''" "OpClaim ''w-1''" "''claimed''" example_clock "()"]
    by (simp add: plain_client_def)
qed

section \<open>Wild-west mode\<close>

text \<open>
  Outside PR mode no operation does anything when the backend cannot push upstream: each
  one fails and leaves the world as it was.
\<close>

theorem wild_west_refused_unchanged:
  assumes "c_mode c \<noteq> ''pr''" and "db_CanWildWest (c_db c) s = Some err"
  shows "\<exists>e. run_op k c x s = (Inl e, s)"
proof -
  have m: "mutate c w msg stmts s = (Inl err, s)" for w msg stmts
    using assms by (simp add: mutate_def mutateWildWest_def)
  have i: "prIdempotent c w target s = None" for w target
    using assms(1) by (simp add: prIdempotent_def)
  show ?thesis
    using assms(1)
    by (cases x)
      (auto simp: op_defs after_accept_def with_subject_def Let_def m i split: option.splits sum.splits)
qed

theorem wild_west_refused_unchanged_witness:
  "\<exists>e. run_op example_clock
         (plain_client (example_db\<lparr>db_CanWildWest := (\<lambda>s. Some (Err ''no direct access''))\<rparr>) ''ada'' ''wild-west'')
         (OpClose ''w-1'') () = (Inl e, ())"
  by (rule wild_west_refused_unchanged) (simp_all add: plain_client_def)

section \<open>No stamps for oneself\<close>

text \<open>
  C36: A stamp is never issued to its author: an accept that gets as far as a mutation (and is not the
  early return) sends the texts of a stamp whose subject completed the work and is not the rig that
  accepts, both for a completion on the board and for an upstream submission.
\<close>

theorem accept_never_stamps_self:
  assumes "prIdempotent c w ''completed'' s = None"
    and "out = acceptLocked k c w input s \<or> out = acceptUpstreamLocked k c w selector input s"
    and "out = (Inr (r, subject), s')"
  shows "subject \<noteq> c_rigHandle c
       \<and> (\<exists>stamp msg stmts completionID. st_Author stamp = c_rigHandle c \<and> st_Subject stamp = subject
            \<and> st_ContextID stamp = completionID \<and> mutate c w msg stmts s = (Inr r, s')
            \<and> (stmts = AcceptCompletionDML w completionID (c_rigHandle c) (c_hopURI c) stamp
             \<or> (\<exists>evidence. stmts =
                  AcceptUpstreamDML w completionID subject evidence (c_rigHandle c) (c_hopURI c) stamp)))"
proof -
  have stamp: "st_Author (input_stamp i a sb x input) = a" "st_Subject (input_stamp i a sb x input) = sb"
      "st_ContextID (input_stamp i a sb x input) = x" for i a sb x
    by (simp_all add: input_stamp_def)
  have fin: "mutate c w m ts s = (Inr r, s') \<and> sb = subject"
    if "with_subject sb (mutate c w m ts s) = (Inr (r, subject), s')" for sb m ts
    using that by (auto simp: with_subject_def split: prod.splits sum.splits)
  from assms(2) show ?thesis
  proof
    assume l: "out = acceptLocked k c w input s"
    with assms(1,3) obtain cp where cp: "QueryCompletion (c_db c) w s = Inr cp"
      and ne: "cr_CompletedBy cp \<noteq> c_rigHandle c"
      by (auto simp: acceptLocked_def Let_def split: sum.splits if_splits)
    let ?st = "input_stamp (GeneratePrefixedID (ck_sha k) (ck_now k) ''s'' [w, c_rigHandle c])
        (c_rigHandle c) (cr_CompletedBy cp) (cr_ID cp) input"
    have "with_subject (cr_CompletedBy cp) (mutate c w (''wl accept: '' @ w)
        (AcceptCompletionDML w (cr_ID cp) (c_rigHandle c) (c_hopURI c) ?st) s) = (Inr (r, subject), s')"
      using assms(1,3) l cp ne by (simp add: acceptLocked_def stamp)
    from fin [OF this] show ?thesis using ne by (intro conjI exI [where x = ?st] exI disjI1) (auto simp: stamp)
  next
    assume l: "out = acceptUpstreamLocked k c w selector input s"
    with assms(1,3) obtain pending m where p: "can_list_pending c" "listPendingItemsContext c s = Inr pending"
      and m: "matchUpstreamSubmission (pending_of pending w) selector = Inr m"
      and st: "pi_Status m = ''in_review''" "pi_CompletedBy m \<noteq> []" "pi_CompletedBy m \<noteq> c_rigHandle c"
      by (auto simp: acceptUpstreamLocked_def Let_def split: sum.splits if_splits)
    let ?id = "GeneratePrefixedID (ck_sha k) (ck_now k) ''c'' [w, pi_CompletedBy m]"
    let ?st = "input_stamp (GeneratePrefixedID (ck_sha k) (ck_now k) ''s'' [w, c_rigHandle c])
        (c_rigHandle c) (pi_CompletedBy m) ?id input"
    have "with_subject (pi_CompletedBy m) (mutate c w (''wl accept-upstream: '' @ w)
        (AcceptUpstreamDML w ?id (pi_CompletedBy m) (pi_Evidence m) (c_rigHandle c) (c_hopURI c) ?st) s) =
        (Inr (r, subject), s')"
      using assms(1,3) l p m st by (simp add: acceptUpstreamLocked_def stamp Let_def)
    from fin [OF this] show ?thesis using st by (intro conjI exI [where x = ?st] exI disjI2) (auto simp: stamp)
  qed
qed

definition example_review_db :: "unit DB" where
  "example_review_db = example_db\<lparr>db_Query := (\<lambda>q ref s.
     Inr (Join [''id,status,completed_by'', ''w-1,in_review,bob''] [nl_ch]))\<rparr>"

definition example_input :: AcceptInput where
  "example_input = \<lparr>ai_Quality = 4, ai_Reliability = 5, ai_Severity = ''leaf'', ai_SkillTags = [], ai_Message = []\<rparr>"

theorem accept_never_stamps_self_witness:
  "\<exists>r. acceptLocked example_clock (plain_client example_review_db ''ada'' ''wild-west'') ''w-1'' example_input () =
         (Inr (r, ''bob''), ())
     \<and> ''bob'' \<noteq> ''ada''
     \<and> (\<exists>stamp msg stmts completionID. st_Author stamp = ''ada'' \<and> st_Subject stamp = ''bob''
          \<and> st_ContextID stamp = completionID
          \<and> mutate (plain_client example_review_db ''ada'' ''wild-west'') ''w-1'' msg stmts () = (Inr r, ())
          \<and> (stmts = AcceptCompletionDML ''w-1'' completionID ''ada'' [] stamp
           \<or> (\<exists>evidence. stmts = AcceptUpstreamDML ''w-1'' completionID ''bob'' evidence ''ada'' [] stamp)))"
proof -
  let ?c = "plain_client example_review_db ''ada'' ''wild-west''"
  have "case fst (acceptLocked example_clock ?c ''w-1'' example_input ()) of
          Inr (r, subject) \<Rightarrow> subject = ''bob'' | Inl e \<Rightarrow> False"
    by code_simp
  then obtain r where r: "acceptLocked example_clock ?c ''w-1'' example_input () = (Inr (r, ''bob''), ())"
    by (cases "acceptLocked example_clock ?c ''w-1'' example_input ()") (auto split: sum.splits)
  have "prIdempotent ?c ''w-1'' ''completed'' () = None" by (simp add: prIdempotent_def plain_client_def)
  from accept_never_stamps_self [OF this disjI1 [OF refl] r] r
  show ?thesis by (simp add: plain_client_def)
qed

end
