(* ===== verification/SdkProps.thy ===== *)
theory SdkProps
  imports SdkOps
begin

text \<open>
  Properties of the client's results and reads: what a PR mutation reports, which upstream submission
  is selected, the naming of branches, and the overlay of pending upstream submissions.
\<close>

section \<open>What a PR mutation reports\<close>

lemma mutatePRResult_Branch [simp]: "dr_Branch (mutatePRResult c w b ms s) = b"
  by (auto simp: mutatePRResult_def Let_def split: sum.splits prod.splits option.splits)

lemma mutatePRResult_BranchActions:
  "dr_BranchActions (mutatePRResult c w b ms s) = computeBranchActions c (mutatePRResult c w b ms s)"
  by (auto simp: mutatePRResult_def computeBranchActions_def Let_def split: sum.splits prod.splits option.splits)

lemma computeBranchActions_pr:
  "c_mode c = ''pr'' \<Longrightarrow> ''submit_pr'' \<in> set (computeBranchActions c d) \<Longrightarrow> dr_PRURL d = []"
  "c_mode c = ''pr'' \<Longrightarrow> ''apply'' \<notin> set (computeBranchActions c d)"
  by (auto simp: computeBranchActions_def ComputeBranchActions_def split: if_splits)

text \<open>A detail and the branch a result names fit together.\<close>

definition consistent :: "MutationResult \<Rightarrow> bool" where
  "consistent r \<longleftrightarrow>
     (\<exists>d. mr_Detail r = Some d \<and> dr_Branch d = mr_Branch r
        \<and> (''submit_pr'' \<in> set (dr_BranchActions d) \<longrightarrow> dr_PRURL d = [])
        \<and> ''apply'' \<notin> set (dr_BranchActions d)
        \<and> (mr_Branch r = [] \<longrightarrow> dr_BranchActions d = [] \<and> dr_Delta d = [] \<and> dr_MainStatus d = []))"

lemma computeBranchActions_own [simp]: "computeBranchActions c (d\<lparr>dr_BranchActions := x\<rparr>) = computeBranchActions c d"
  by (simp add: computeBranchActions_def)

lemma consistentI:
  assumes "c_mode c = ''pr''" and "mr_Detail r = Some d" and "dr_Branch d = mr_Branch r" and "mr_Branch r \<noteq> []"
    and "dr_BranchActions d = computeBranchActions c d"
  shows "consistent r"
  using assms computeBranchActions_pr [OF assms(1), of d] by (auto simp: consistent_def)

lemma consistent_submit:
  assumes "c_mode c = ''pr''" and "dr_Branch d = b" and "b \<noteq> []"
    and "dr_BranchActions d = computeBranchActions c d"
  shows "consistent (fst (auto_submit c d b h s)) \<and> mr_Branch (fst (auto_submit c d b h s)) = b"
proof -
  have "\<exists>d'. mr_Detail (fst (auto_submit c d b h s)) = Some d' \<and> dr_Branch d' = b
      \<and> dr_BranchActions d' = computeBranchActions c d'"
    using assms by (auto simp: auto_submit_def Let_def split: option.splits prod.splits sum.splits)
  moreover have "mr_Branch (fst (auto_submit c d b h s)) = b"
    by (auto simp: auto_submit_def Let_def split: option.splits prod.splits sum.splits)
  ultimately show ?thesis using consistentI [OF assms(1)] assms(3) by metis
qed

lemma auto_submit_none: "auto_submit c d [] h s = (\<lparr>mr_Detail = Some d, mr_Branch = [], mr_Hint = h\<rparr>, s)"
  by (simp add: auto_submit_def split: option.splits)

lemma BranchName_not_Nil [simp]: "BranchName rig w \<noteq> []"
  by (simp add: BranchName_def)

text \<open>
  A successful PR mutation names either the item's own branch or, exactly when the mutation took
  the item back to its status on main and the branch was pushed and cleaned up, none; the detail it
  returns fits: it never offers to submit a second pull request, never offers to apply directly, and
  offers nothing for a branch that is gone.
\<close>

theorem pr_mutation_result_consistent:
  assumes "c_mode c = ''pr''" and "mutate c w msg stmts s = (Inr r, s')"
  shows "consistent r
       \<and> (mr_Branch r = BranchName (c_rigHandle c) w
        \<or> mr_Branch r = [] \<and> \<not> c_noPush c
           \<and> (\<exists>item. Option.bind (mr_Detail r) dr_Item = Some item
                \<and> wi_Status item = QueryItemStatusAsOf (c_db c) w ''main'' s))"
proof -
  let ?b = "BranchName (c_rigHandle c) w"
  let ?ms = "QueryItemStatusAsOf (c_db c) w ''main'' s"
  obtain e1 s1 where e1: "db_Exec (c_db c) ?b msg (c_signing c) stmts s = (e1, s1)" by fastforce
  let ?d = "mutatePRResult c w ?b ?ms s1"
  note d = mutatePRResult_BranchActions [of c w ?b ?ms s1]
  from assms have pr: "mutatePR c w msg stmts s = (Inr r, s')" by (simp add: mutate_def)
  with e1 have "e1 = None" by (cases e1) (auto simp: mutatePR_def Let_def)
  show ?thesis
  proof (cases "c_noPush c")
    case True
    then have "mr_Detail r = Some ?d" "mr_Branch r = ?b"
      using pr e1 \<open>e1 = None\<close> by (auto simp: mutatePR_def Let_def)
    then show ?thesis using consistentI [OF assms(1) _ _ _ d] by simp
  next
    case False
    obtain e2 plog s2 where e2: "db_PushBranch (c_db c) ?b s1 = (e2, plog, s2)" by (metis prod_cases3)
    have "e2 = None" using pr e1 \<open>e1 = None\<close> e2 False
      by (cases e2) (auto simp: mutatePR_def Let_def split: if_splits)
    show ?thesis
    proof (cases "reverted ?ms ?d")
      case True
      let ?d0 = "?d\<lparr>dr_Branch := [], dr_BranchURL := [], dr_MainStatus := [], dr_Delta := [],
                 dr_PRURL := [], dr_BranchActions := []\<rparr>"
      have "r = \<lparr>mr_Detail = Some ?d0, mr_Branch = [], mr_Hint = ''reverted'' @ em_dash @ ''branch cleaned up''\<rparr>"
        using pr e1 \<open>e1 = None\<close> e2 \<open>e2 = None\<close> False True
        by (simp add: mutatePR_def Let_def auto_submit_none)
      then show ?thesis using True False
        by (auto simp: consistent_def reverted_def split: option.splits)
    next
      case norev: False
      have "r = fst (auto_submit c ?d ?b [] s2)"
        using pr e1 \<open>e1 = None\<close> e2 \<open>e2 = None\<close> False norev
        by (auto simp: mutatePR_def Let_def split: prod.splits)
      then show ?thesis using consistent_submit [OF assms(1) mutatePRResult_Branch BranchName_not_Nil d] by simp
    qed
  qed
qed

theorem pr_mutation_result_consistent_witness:
  "\<exists>r. mutate (plain_client example_db ''ada'' ''pr'') ''w-1'' ''m'' [] () = (Inr r, ())
     \<and> consistent r
     \<and> (mr_Branch r = BranchName ''ada'' ''w-1''
      \<or> mr_Branch r = [] \<and> \<not> c_noPush (plain_client example_db ''ada'' ''pr'')
         \<and> (\<exists>item. Option.bind (mr_Detail r) dr_Item = Some item
              \<and> wi_Status item = QueryItemStatusAsOf example_db ''w-1'' ''main'' ()))"
proof -
  let ?c = "plain_client example_db ''ada'' ''pr''"
  have "\<exists>r. mutate ?c ''w-1'' ''m'' [] () = (Inr r, ())"
    by (auto simp: mutate_def mutatePR_def plain_client_def example_db_def Let_def split: prod.splits)
  then obtain r where r: "mutate ?c ''w-1'' ''m'' [] () = (Inr r, ())" by blast
  have "c_mode ?c = ''pr''" by (simp add: plain_client_def)
  from pr_mutation_result_consistent [OF this r] r show ?thesis by (simp add: plain_client_def)
qed

section \<open>Deleting\<close>

text \<open>
  Deleting an item in PR mode takes a failing status query for an item that is not on main: when
  that query fails, the item's branch is thrown away, and the delete itself is not done but reported
  as a success.
\<close>

theorem delete_discards_branch_on_query_error:
  assumes "c_mode c = ''pr''"
    and "QueryItemStatus (c_db c) w ''main'' s = Inl err"
    and "QueryItemStatusAsOf (c_db c) w (BranchName (c_rigHandle c) w) s \<noteq> ''withdrawn''"
  shows "Delete c w s =
           (Inr \<lparr>mr_Detail = None, mr_Branch = BranchName (c_rigHandle c) w,
                 mr_Hint = ''branch-only item'' @ em_dash @ ''branch deleted''\<rparr>,
            cleanupBranch c (BranchName (c_rigHandle c) w) s)"
proof -
  have "prIdempotent c w ''withdrawn'' s = None"
    using assms(3) by (simp add: prIdempotent_def Let_def)
  moreover have "QueryItemStatusAsOf (c_db c) w ''main'' s = []"
    using assms(2) by (simp add: QueryItemStatusAsOf_def)
  ultimately show ?thesis using assms(1) by (simp add: Delete_def Let_def)
qed

text \<open>A database whose main cannot be read for a moment; its state are the deleted branches.\<close>

definition flaky_db :: "string list DB" where
  "flaky_db =
     \<lparr>db_Query = (\<lambda>q ref s. if ref = ''main'' then Inl (Err ''timeout'') else Inr (Join [''status'', ''claimed''] [nl_ch])),
      db_Exec = (\<lambda>b m g t s. (None, s)), db_Branches = (\<lambda>p s. Inr []),
      db_DeleteBranch = (\<lambda>b s. (None, b # s)), db_PushBranch = (\<lambda>b s. (None, [], s)),
      db_PushMain = (\<lambda>s. (None, s)), db_Sync = (\<lambda>s. (None, s)),
      db_MergeBranch = (\<lambda>b s. (None, s)), db_DeleteRemoteBranch = (\<lambda>b s. (None, s)),
      db_PushWithSync = (\<lambda>s. (None, s)), db_CanWildWest = (\<lambda>s. None)\<rparr>"

theorem delete_discards_branch_on_query_error_witness:
  "snd (Delete (plain_client flaky_db ''ada'' ''pr'') ''w-1'' []) = [''wl/ada/w-1'']"
proof -
  let ?c = "plain_client flaky_db ''ada'' ''pr''"
  have "c_mode ?c = ''pr''" "QueryItemStatus (c_db ?c) ''w-1'' ''main'' [] = Inl (Err ''timeout'')"
    by (simp_all add: plain_client_def flaky_db_def QueryItemStatus_def)
  moreover have "QueryItemStatusAsOf (c_db ?c) ''w-1'' (BranchName (c_rigHandle ?c) ''w-1'') [] \<noteq> ''withdrawn''"
    by code_simp
  ultimately have "Delete ?c ''w-1'' [] = (Inr \<lparr>mr_Detail = None, mr_Branch = BranchName (c_rigHandle ?c) ''w-1'',
                 mr_Hint = ''branch-only item'' @ em_dash @ ''branch deleted''\<rparr>,
            cleanupBranch ?c (BranchName (c_rigHandle ?c) ''w-1'') [])"
    by (rule delete_discards_branch_on_query_error)
  then show ?thesis
    by (simp add: cleanupBranch_def close_pr_def plain_client_def flaky_db_def BranchName_def)
qed

section \<open>Selecting a submission\<close>

text \<open>
  The submission that is selected is one of the pending ones and fits the selector, and without a
  pull request URL it is the only one of its rig.
\<close>

theorem matchUpstreamSubmission_sound:
  assumes "matchUpstreamSubmission items selector = Inr m"
  shows "m \<in> set items
       \<and> (us_RigHandle selector \<noteq> [] \<longrightarrow> pi_RigHandle m = us_RigHandle selector)
       \<and> (us_PRURL selector \<noteq> [] \<longrightarrow> pi_PRURL m = us_PRURL selector)
       \<and> (us_PRURL selector = [] \<longrightarrow>
            us_RigHandle selector \<noteq> []
          \<and> length (filter (\<lambda>p. pi_RigHandle p = us_RigHandle selector) items) = 1)"
proof (cases "us_PRURL selector = []")
  case True
  then have f: "filter (\<lambda>p. pi_RigHandle p = us_RigHandle selector) items = [m]" and "us_RigHandle selector \<noteq> []"
    using assms by (auto simp: matchUpstreamSubmission_def split: list.splits if_splits)
  then have "m \<in> set items" "pi_RigHandle m = us_RigHandle selector"
    by (metis (mono_tags, lifting) list.set_intros(1) mem_Collect_eq set_filter)+
  then show ?thesis using True f \<open>us_RigHandle selector \<noteq> []\<close> by simp
next
  case False
  then obtain p where "find (\<lambda>p. pi_PRURL p = us_PRURL selector) items = Some p" "p = m"
    "us_RigHandle selector \<noteq> [] \<longrightarrow> pi_RigHandle p = us_RigHandle selector"
    using assms by (auto simp: matchUpstreamSubmission_def split: option.splits if_splits)
  then show ?thesis using False by (auto simp: find_Some_iff in_set_conv_nth)
qed

definition example_pending :: "PendingItem list" where
  "example_pending =
     [\<lparr>pi_RigHandle = ''bob'', pi_Status = ''claimed'', pi_ClaimedBy = ''bob'', pi_Branch = ''wl/bob/w-1'',
       pi_BranchURL = [], pi_PRURL = ''pulls/1'', pi_ForkOwner = ''bob'', pi_CompletedBy = [], pi_Evidence = []\<rparr>,
      \<lparr>pi_RigHandle = ''eve'', pi_Status = ''in_review'', pi_ClaimedBy = ''eve'', pi_Branch = ''wl/eve/w-1'',
       pi_BranchURL = [], pi_PRURL = ''pulls/2'', pi_ForkOwner = ''eve'', pi_CompletedBy = ''eve'',
       pi_Evidence = ''pulls/9''\<rparr>]"

theorem matchUpstreamSubmission_sound_witness:
  "matchUpstreamSubmission example_pending \<lparr>us_RigHandle = ''eve'', us_PRURL = []\<rparr> = Inr (example_pending ! 1)
 \<and> example_pending ! 1 \<in> set example_pending"
  using matchUpstreamSubmission_sound [of example_pending "\<lparr>us_RigHandle = ''eve'', us_PRURL = []\<rparr>" "example_pending ! 1"]
  by (simp add: matchUpstreamSubmission_def example_pending_def)

section \<open>Branch names\<close>

text \<open>
  For a rig handle without a slash a branch name gives back its item, to the code that cleans
  up a branch and to the code that scans all branches, and it lies under the rig's own prefix; so different
  rigs and items have different branches.
\<close>

theorem branch_name_round_trip:
  assumes "CHR ''/'' \<notin> set rig" and "w \<noteq> []"
  shows "extractWantedID (BranchName rig w) = w
       \<and> branch_item (BranchName rig w) = Some w
       \<and> TrimPrefix (BranchName rig w) (Sprintf ''wl/%s/'' [FS rig]) = w
       \<and> (CHR ''/'' \<notin> set rig' \<longrightarrow> BranchName rig' w' = BranchName rig w \<longrightarrow> rig' = rig \<and> w' = w)"
proof -
  have b: "BranchName r x = ''wl/'' @ r @ CHR ''/'' # x" for r x by (simp add: BranchName_def)
  have split2: "takeWhile (\<lambda>c. c \<noteq> CHR ''/'') (r @ CHR ''/'' # x) = r"
    "dropWhile (\<lambda>c. c \<noteq> CHR ''/'') (r @ CHR ''/'' # x) = CHR ''/'' # x"
    if "CHR ''/'' \<notin> set r" for r x
    using that by (auto simp: takeWhile_append dropWhile_append)
  have idx: "Index (r @ CHR ''/'' # x) ''/'' = Some (length r)" if "CHR ''/'' \<notin> set r" for r x
    using that by (induction r) auto
  have "SplitN (BranchName rig w) (CHR ''/'') 3 = [''wl'', rig, w]"
    using assms(1) by (simp add: b numeral_3_eq_3 split2)
  moreover have "TrimPrefix (BranchName rig w) ''wl/'' = rig @ CHR ''/'' # w"
    unfolding b by (rule TrimPrefix_append)
  moreover have "TrimPrefix (BranchName rig w) (Sprintf ''wl/%s/'' [FS rig]) = w"
    using TrimPrefix_append [of "''wl/'' @ rig @ ''/''" w] by (simp add: b)
  moreover have "rig' = rig \<and> w' = w" if "CHR ''/'' \<notin> set rig'" "BranchName rig' w' = BranchName rig w"
  proof -
    from that(2) have "rig' @ CHR ''/'' # w' = rig @ CHR ''/'' # w" by (simp add: b)
    then show ?thesis using split2 [OF that(1), of w'] split2 [OF assms(1), of w] by auto
  qed
  ultimately show ?thesis
    using assms idx [OF assms(1)] by (simp add: extractWantedID_def branch_item_def)
qed

theorem branch_name_round_trip_witness:
  "extractWantedID (BranchName ''ada'' ''w-1'') = ''w-1''
 \<and> branch_item (BranchName ''ada'' ''w-1'') = Some ''w-1''
 \<and> TrimPrefix (BranchName ''ada'' ''w-1'') (Sprintf ''wl/%s/'' [FS ''ada'']) = ''w-1''"
  using branch_name_round_trip [of "''ada''" "''w-1''" "''bob''" "''w-2''"] by simp

section \<open>Pending submissions on the board\<close>

lemma best_foldl:
  "(foldl (\<lambda>best p. if stateRank (pi_Status best) < stateRank (pi_Status p) then p else best) b ps) \<in> set (b # ps)
 \<and> (\<forall>q \<in> set (b # ps). stateRank (pi_Status q) \<le> stateRank (pi_Status
      (foldl (\<lambda>best p. if stateRank (pi_Status best) < stateRank (pi_Status p) then p else best) b ps)))"
proof (induction ps arbitrary: b)
  case Nil
  then show ?case by simp
next
  case (Cons p ps)
  let ?b = "if stateRank (pi_Status b) < stateRank (pi_Status p) then p else b"
  from Cons.IH [of ?b] show ?case by (auto split: if_splits simp del: stateRank.simps)
qed

lemma bestPendingState_furthest:
  assumes "pending \<noteq> []"
  shows "bestPendingState pending \<in> set pending
       \<and> (\<forall>q \<in> set pending. stateRank (pi_Status q) \<le> stateRank (pi_Status (bestPendingState pending)))"
  using best_foldl [of "hd pending" "tl pending"] assms by (simp add: bestPendingState_def del: stateRank.simps)

text \<open>What both loops keep: the recorded submissions belong to items whose visibility was checked.\<close>

definition overlay_ok :: "'s Client \<Rightarrow> 's \<Rightarrow> overlay_state \<Rightarrow> bool" where
  "overlay_ok c s st \<longleftrightarrow>
     (\<forall>e \<in> set (os_visible st). \<forall>status.
        QueryItemStatus (c_db c) (fst e) [] s = Inr (status, True) \<longrightarrow> snd e = allowsUpstreamPending status)
   \<and> (\<forall>e \<in> set (os_filtered st). \<forall>status.
        QueryItemStatus (c_db c) (fst e) [] s = Inr (status, True) \<longrightarrow> allowsUpstreamPending status)"

lemma pendingAllowed_ok:
  assumes "pendingAllowed c i fb st s = Inr (allowed, st')" and "overlay_ok c s st"
  shows "overlay_ok c s st'
       \<and> (\<forall>status. QueryItemStatus (c_db c) i [] s = Inr (status, True) \<longrightarrow> allowed = allowsUpstreamPending status)"
proof (cases "map_of (os_visible st) i")
  case None
  then show ?thesis using assms
    by (auto simp: pendingAllowed_def overlay_ok_def Let_def split: sum.splits prod.splits)
next
  case (Some a)
  then have "(i, a) \<in> set (os_visible st)" by (rule map_of_SomeD)
  then show ?thesis using assms Some by (fastforce simp: pendingAllowed_def overlay_ok_def)
qed

lemma overlay_ok_items: "overlay_ok c s (st\<lparr>os_items := xs\<rparr>) = overlay_ok c s st"
  by (simp add: overlay_ok_def)

lemma overlay_ok_add:
  "overlay_ok c s st \<Longrightarrow>
   (\<forall>status. QueryItemStatus (c_db c) i [] s = Inr (status, True) \<longrightarrow> allowsUpstreamPending status) \<Longrightarrow>
   overlay_ok c s (st\<lparr>os_items := xs, os_filtered := os_filtered st @ [(i, ps)], os_pendingIDs := n\<rparr>)"
  by (auto simp: overlay_ok_def)

lemma overlay_rows_ok:
  "overlay_rows c upstream s items st = Inr st' \<Longrightarrow> overlay_ok c s st \<Longrightarrow> overlay_ok c s st'"
proof (induction items arbitrary: st)
  case Nil
  then show ?case by simp
next
  case (Cons item items)
  show ?case
  proof (cases "pending_of upstream (ws_ID item) = []")
    case True
    then show ?thesis using Cons.IH Cons.prems by (simp add: Let_def overlay_ok_items)
  next
    case False
    with Cons.prems(1) obtain allowed st1
      where p: "pendingAllowed c (ws_ID item) (ws_Status item) st s = Inr (allowed, st1)"
      by (auto simp: Let_def split: sum.splits)
    note ok = pendingAllowed_ok [OF p Cons.prems(2)]
    show ?thesis
    proof (cases allowed)
      case True
      then show ?thesis using False p Cons.prems(1) ok
        by (auto simp: Let_def intro!: Cons.IH overlay_ok_add)
    next
      case notallowed: False
      then show ?thesis using False p Cons.prems(1) ok Cons.IH by (auto simp: Let_def overlay_ok_items)
    qed
  qed
qed

lemma overlay_branch_only_ok:
  "overlay_branch_only uni c strict f seen upstream s visible st = Inr st' \<Longrightarrow> overlay_ok c s st \<Longrightarrow>
   overlay_ok c s st'"
proof (induction visible arbitrary: st)
  case Nil
  then show ?case by simp
next
  case (Cons e visible)
  obtain i pending where e: "e = (i, pending)" by (cases e)
  let ?best = "bestPendingState pending"
  show ?case
  proof (cases "i \<in> set seen \<or> pending = [] \<or> pi_Branch ?best = []")
    case True
    then show ?thesis using Cons e by (auto simp: Let_def split: if_splits)
  next
    case False
    with Cons.prems(1) e obtain allowed st1
      where p: "pendingAllowed c i (pi_Status ?best) st s = Inr (allowed, st1)"
      by (auto simp: Let_def split: sum.splits)
    note ok = pendingAllowed_ok [OF p Cons.prems(2)]
    show ?thesis using False p Cons.prems(1) ok e
      by (auto simp: Let_def intro!: Cons.IH intro: overlay_ok_add split: if_splits sum.splits)
  qed
qed

text \<open>
  The board never announces pending upstream submissions for an item that main has as completed
  or withdrawn: every item for which browsing reports them is open, claimed or in review on main, or
  is not on main at all.
\<close>

theorem browse_pending_only_for_live_items:
  assumes "BrowseContext uni c strict f s = Inr r"
    and "e \<in> set (br_UpstreamPending r)"
    and "QueryItemStatus (c_db c) (fst e) [] s = Inr (status, True)"
  shows "status = ''open'' \<or> status = ''claimed'' \<or> status = ''in_review''"
proof -
  obtain items pend where q: "BrowseWantedBranchAware uni (c_db c) (c_mode c) (c_rigHandle c) f s = Inr (items, pend)"
    using assms(1) by (auto simp: BrowseContext_def split: sum.splits)
  obtain upstream visible where l: "listed_pending c strict (browse_view c f) s = Inr (upstream, visible)"
    using assms(1) q by (auto simp: BrowseContext_def Let_def split: sum.splits)
  let ?st0 = "\<lparr>os_items = [], os_pendingIDs = pend, os_filtered = [], os_visible = []\<rparr>"
  obtain st1 where rows: "overlay_rows c upstream s items ?st0 = Inr st1"
    using assms(1) q l by (auto simp: BrowseContext_def Let_def split: sum.splits)
  obtain st2 where only: "overlay_branch_only uni c strict f (map ws_ID items) upstream s visible st1 = Inr st2"
    and r: "br_UpstreamPending r = os_filtered st2"
    using assms(1) q l rows by (auto simp: BrowseContext_def Let_def split: sum.splits)
  have "overlay_ok c s ?st0" by (simp add: overlay_ok_def)
  from overlay_branch_only_ok [OF only overlay_rows_ok [OF rows this]] assms(2,3) r
  show ?thesis by (auto simp: overlay_ok_def allowsUpstreamPending_def)
qed

text \<open>A client with pending submissions from the upstream repository.\<close>

definition pending_client :: "bool \<Rightarrow> (go_error + pending_map) \<Rightarrow> unit Client" where
  "pending_client best_effort listing =
     (plain_client example_db ''ada'' ''pr'')\<lparr>c_ListPendingItems := Some (\<lambda>s. listing),
        c_bestEffortPendingReads := best_effort\<rparr>"

definition example_pending_map :: pending_map where
  "example_pending_map = [(''w-1'', example_pending)]"

theorem browse_pending_only_for_live_items_witness:
  "\<exists>r. BrowseContext id (pending_client False (Inr example_pending_map)) True (example_filter\<lparr>bf_View := ''all''\<rparr>) () = Inr r
     \<and> (''w-1'', example_pending) \<in> set (br_UpstreamPending r)
     \<and> (''open'' = ''open'' \<or> ''open'' = ''claimed'' \<or> ''open'' = ''in_review'')"
proof -
  let ?c = "pending_client False (Inr example_pending_map)" and ?f = "example_filter\<lparr>bf_View := ''all''\<rparr>"
  have "case BrowseContext id ?c True ?f () of Inr r \<Rightarrow> br_UpstreamPending r = example_pending_map | Inl e \<Rightarrow> False"
    by code_simp
  then obtain r where r: "BrowseContext id ?c True ?f () = Inr r" "br_UpstreamPending r = example_pending_map"
    by (auto split: sum.splits)
  then have e: "(''w-1'', example_pending) \<in> set (br_UpstreamPending r)" by (simp add: example_pending_map_def)
  have "QueryItemStatus (c_db ?c) ''w-1'' [] () = Inr (''open'', True)" by code_simp
  with browse_pending_only_for_live_items [OF r(1) e, of "''open''"] r(1) e show ?thesis by simp
qed

section \<open>Reads that must be complete\<close>

lemma overlay_rows_none:
  "overlay_rows c [] s items st = Inr (st\<lparr>os_items := os_items st @ items\<rparr>)"
  by (induction items arbitrary: st) (auto simp: pending_of_def)

text \<open>
  A strict read fails when the pending submissions cannot be listed, whatever the client's
  setting; with best-effort reads a plain read then shows the board as it is without them.
\<close>

theorem strict_browse_fails_closed:
  assumes "bf_View f \<noteq> ''upstream''" and "can_list_pending c" and "listPendingItemsContext c s = Inl err"
  shows "(\<exists>e. BrowseContext uni c True f s = Inl e)
       \<and> (c_bestEffortPendingReads c \<longrightarrow>
            BrowseContext uni c False f s =
              (case BrowseWantedBranchAware uni (c_db c) (c_mode c) (c_rigHandle c) f s of
                 Inl e \<Rightarrow> Inl e
               | Inr (items, pend) \<Rightarrow>
                   Inr \<lparr>br_Items = items, br_PendingIDs = pend, br_UpstreamPending = []\<rparr>))"
proof -
  have view: "browse_view c f \<noteq> ''upstream''"
    using assms(1) by (simp add: browse_view_def)
  have closed: "listed_pending c True (browse_view c f) s = Inl err"
    using assms view by (simp add: listed_pending_def allowBestEffortPendingRead_def)
  have "\<exists>e. BrowseContext uni c True f s = Inl e"
    by (cases "BrowseWantedBranchAware uni (c_db c) (c_mode c) (c_rigHandle c) f s")
      (auto simp: BrowseContext_def Let_def closed)
  moreover have "BrowseContext uni c False f s =
      (case BrowseWantedBranchAware uni (c_db c) (c_mode c) (c_rigHandle c) f s of
         Inl e \<Rightarrow> Inl e
       | Inr (items, pend) \<Rightarrow> Inr \<lparr>br_Items = items, br_PendingIDs = pend, br_UpstreamPending = []\<rparr>)"
    if "c_bestEffortPendingReads c"
  proof -
    have "listed_pending c False (browse_view c f) s = Inr ([], [])"
      using assms view that by (simp add: listed_pending_def allowBestEffortPendingRead_def)
    then show ?thesis
      by (cases "BrowseWantedBranchAware uni (c_db c) (c_mode c) (c_rigHandle c) f s")
        (auto simp: BrowseContext_def Let_def overlay_rows_none)
  qed
  ultimately show ?thesis by blast
qed

theorem strict_browse_fails_closed_witness:
  "(\<exists>e. BrowseContext id (pending_client True (Inl (Err ''down''))) True example_filter () = Inl e)
 \<and> BrowseContext id (pending_client True (Inl (Err ''down''))) False example_filter () =
     (case BrowseWantedBranchAware id example_db ''pr'' ''ada'' example_filter () of
        Inl e \<Rightarrow> Inl e
      | Inr (items, pend) \<Rightarrow> Inr \<lparr>br_Items = items, br_PendingIDs = pend, br_UpstreamPending = []\<rparr>)"
  using strict_browse_fails_closed [of example_filter "pending_client True (Inl (Err ''down''))" "()" "Err ''down''" id]
  by (simp add: example_filter_def pending_client_def plain_client_def can_list_pending_def listPendingItemsContext_def)

end
