(* ===== verification/ApiCsv.thy ===== *)
theory ApiCsv
  imports GoJson GoCsv
begin

text \<open>
  \<^verbatim>\<open>internal/backend/csv.go\<close>: the DoltHub API's JSON answer as the CSV text that the
  parsers of package commons read.  Also here: decoding JSON objects into Go structs.
\<close>

section \<open>Struct fields\<close>

text \<open>
  The members of an object in their order, each matched by name; a \<^verbatim>\<open>null\<close> leaves the field,
  a value of another type is an error that does not stop the decoding.  The result is the
  field's value and whether all members had its type.
\<close>

definition str_member :: "string \<Rightarrow> (string \<times> json) \<Rightarrow> string \<times> bool \<Rightarrow> string \<times> bool" where
  "str_member name m acc =
     (if fold_eq (fst m) name
      then (case snd m of JStr s \<Rightarrow> (s, snd acc) | JNull \<Rightarrow> acc | _ \<Rightarrow> (fst acc, False))
      else acc)"

definition str_field :: "string \<Rightarrow> (string \<times> json) list \<Rightarrow> string \<times> bool" where
  "str_field name ms = fold (str_member name) ms ([], True)"

definition bool_member :: "string \<Rightarrow> (string \<times> json) \<Rightarrow> bool \<times> bool \<Rightarrow> bool \<times> bool" where
  "bool_member name m acc =
     (if fold_eq (fst m) name
      then (case snd m of JBool b \<Rightarrow> (b, snd acc) | JNull \<Rightarrow> acc | _ \<Rightarrow> (fst acc, False))
      else acc)"

definition bool_field :: "string \<Rightarrow> (string \<times> json) list \<Rightarrow> bool \<times> bool" where
  "bool_field name ms = fold (bool_member name) ms (False, True)"

text \<open>The members of a nested struct, which repeated members extend.\<close>

definition obj_member :: "string \<Rightarrow> (string \<times> json) \<Rightarrow> (string \<times> json) list \<times> bool \<Rightarrow> (string \<times> json) list \<times> bool" where
  "obj_member name m acc =
     (if fold_eq (fst m) name
      then (case snd m of JObj ms \<Rightarrow> (fst acc @ ms, snd acc) | JNull \<Rightarrow> acc | _ \<Rightarrow> (fst acc, False))
      else acc)"

definition obj_field :: "string \<Rightarrow> (string \<times> json) list \<Rightarrow> (string \<times> json) list \<times> bool" where
  "obj_field name ms = fold (obj_member name) ms ([], True)"

text \<open>The members of the top-level struct; \<^verbatim>\<open>null\<close> leaves it as it was.\<close>

definition struct_members :: "string \<Rightarrow> (string \<times> json) list option" where
  "struct_members body =
     (case json_parse body of Some (JObj ms) \<Rightarrow> Some ms | Some JNull \<Rightarrow> Some [] | _ \<Rightarrow> None)"

section \<open>Values\<close>

text \<open>
  What Go's library does to values the code does not look into: \<open>fmt_float\<close> prints a JSON
  number that is not an integer of at most 15 digits after its way through \<^verbatim>\<open>float64\<close>,
  \<open>fmt_json\<close> marshals an array or object, \<open>json_error\<close> is the decoder's message.
\<close>

record go_json =
  fmt_float :: "string \<Rightarrow> string"
  fmt_json :: "json \<Rightarrow> string"
  json_error :: "string \<Rightarrow> string"

definition fmt_number :: "go_json \<Rightarrow> string \<Rightarrow> string" where
  "fmt_number g t =
     (let ds = (if HasPrefix t ''-'' then tl t else t)
      in if list_all is_digit ds \<and> length ds \<le> 15 then Itoa (fst (Atoi t)) else fmt_float g t)"

definition formatCSVField :: "go_json \<Rightarrow> json \<Rightarrow> string" where
  "formatCSVField g v =
     (let s = (case v of
                 JStr s \<Rightarrow> s
               | JNum t \<Rightarrow> fmt_number g t
               | JBool b \<Rightarrow> if b then ''1'' else ''0''
               | _ \<Rightarrow> fmt_json g v)
      in quote_csv s)"

section \<open>Columns\<close>

definition column_name :: "json \<Rightarrow> string option" where
  "column_name j =
     (case j of
        JObj ms \<Rightarrow> (case str_field ''columnName'' ms of (n, ok) \<Rightarrow> if ok then Some n else None)
      | JNull \<Rightarrow> Some []
      | _ \<Rightarrow> None)"

text \<open>\<open>None\<close> is an error; the schema is absent, or any JSON value.\<close>

definition extractColumns :: "json option \<Rightarrow> string list option" where
  "extractColumns schema =
     (case schema of
        Some (JArr js) \<Rightarrow> (case those (map column_name js) of Some [] \<Rightarrow> None | r \<Rightarrow> r)
      | _ \<Rightarrow> None)"

definition extractColumnsFromRow :: "json \<Rightarrow> string list option" where
  "extractColumnsFromRow row = (case row of JObj ms \<Rightarrow> Some (map fst ms) | _ \<Rightarrow> None)"

section \<open>JSONToCSV\<close>

text \<open>The answer: status, message, the last schema member, and the rows.\<close>

record queryResponse =
  qr_Status :: string
  qr_Message :: string
  qr_Schema :: "json option"
  qr_Rows :: "json list"

definition raw_member :: "string \<Rightarrow> (string \<times> json) \<Rightarrow> json option \<Rightarrow> json option" where
  "raw_member name m acc = (if fold_eq (fst m) name then Some (snd m) else acc)"

definition rows_member :: "(string \<times> json) \<Rightarrow> json list \<times> bool \<Rightarrow> json list \<times> bool" where
  "rows_member m acc =
     (if fold_eq (fst m) ''rows''
      then (case snd m of JArr js \<Rightarrow> (js, snd acc) | JNull \<Rightarrow> ([], snd acc) | _ \<Rightarrow> (fst acc, False))
      else acc)"

definition parse_response :: "string \<Rightarrow> queryResponse option" where
  "parse_response body =
     Option.bind (struct_members body) (\<lambda>ms.
       (let (rows, ok) = fold rows_member ms ([], True);
            names = [''query_execution_status'', ''query_execution_message'', ''repository_owner'',
                     ''repository_name'', ''commit_ref'', ''sql_query'']
        in if ok \<and> list_all (\<lambda>n. snd (str_field n ms)) names
           then Some \<lparr>qr_Status = fst (str_field ''query_execution_status'' ms),
                      qr_Message = fst (str_field ''query_execution_message'' ms),
                      qr_Schema = fold (raw_member ''schema_fragment'') ms None, qr_Rows = rows\<rparr>
           else None))"

text \<open>A row's value for a column: the last member of that exact name; \<^verbatim>\<open>null\<close> prints as nothing.\<close>

definition csv_cell :: "go_json \<Rightarrow> (string \<times> json) list \<Rightarrow> string \<Rightarrow> string" where
  "csv_cell g ms col =
     (case map_of (rev ms) col of None \<Rightarrow> [] | Some JNull \<Rightarrow> [] | Some v \<Rightarrow> formatCSVField g v)"

definition csv_row_text :: "go_json \<Rightarrow> string list \<Rightarrow> json \<Rightarrow> string" where
  "csv_row_text g columns row =
     (case row of
        JObj ms \<Rightarrow> Join (map (csv_cell g ms) columns) '','' @ [nl_ch]
      | JNull \<Rightarrow> Join (map (csv_cell g []) columns) '','' @ [nl_ch]
      | _ \<Rightarrow> [])"

definition JSONToCSV :: "go_json \<Rightarrow> string \<Rightarrow> go_error + string" where
  "JSONToCSV g body =
     (case parse_response body of
        None \<Rightarrow> Inl (Err (''parsing API response: '' @ json_error g body))
      | Some resp \<Rightarrow>
          if qr_Status resp = ''Error'' then Inl (Err (''query error: '' @ qr_Message resp))
          else
            (let columns = (case extractColumns (qr_Schema resp) of
                              Some cols \<Rightarrow> Inr cols
                            | None \<Rightarrow>
                                (case qr_Rows resp of
                                   [] \<Rightarrow> Inr []
                                 | row # _ \<Rightarrow>
                                     (case extractColumnsFromRow row of
                                        Some cols \<Rightarrow> Inr cols
                                      | None \<Rightarrow> Inl (Err (''cannot determine column order: '' @ json_error g body)))))
             in case columns of
                  Inl err \<Rightarrow> Inl err
                | Inr cols \<Rightarrow>
                    if cols = [] then Inr []
                    else Inr (Join cols '','' @ [nl_ch] @ concat (map (csv_row_text g cols) (qr_Rows resp)))))"

section \<open>What the reader gets back\<close>

text \<open>The text of a cell before quoting.\<close>

definition cell_value :: "go_json \<Rightarrow> (string \<times> json) list \<Rightarrow> string \<Rightarrow> string" where
  "cell_value g ms col =
     (case map_of (rev ms) col of
        None \<Rightarrow> []
      | Some v \<Rightarrow> (case v of JNull \<Rightarrow> [] | JStr s \<Rightarrow> s | JNum t \<Rightarrow> fmt_number g t
                    | JBool b \<Rightarrow> if b then ''1'' else ''0'' | _ \<Rightarrow> fmt_json g v))"

lemma quote_csv_Nil [simp]: "quote_csv [] = []"
  by (simp add: quote_csv_def)

lemma csv_cell_quoted: "csv_cell g ms col = quote_csv (cell_value g ms col)"
  by (auto simp: csv_cell_def cell_value_def formatCSVField_def split: option.splits json.splits)

lemma csv_row_text_line: "csv_row_text g cols (JObj ms) = csv_line (map (cell_value g ms) cols)"
proof -
  have "map (csv_cell g ms) cols = map quote_csv (map (cell_value g ms) cols)" by (simp add: csv_cell_quoted)
  then show ?thesis unfolding csv_row_text_def csv_line_def by (simp only: json.case)
qed

lemma normalize_id: "cr_ch \<notin> set s \<Longrightarrow> normalize_newlines s = s"
  by (induction s) auto

lemma ReplaceAll_dquote_set:
  "c \<noteq> dquote_ch \<Longrightarrow> c \<in> set (ReplaceAll s [dquote_ch] [dquote_ch, dquote_ch]) \<longleftrightarrow> c \<in> set s"
  by (auto simp: ReplaceAll_single)

lemma quote_csv_cr: "cr_ch \<in> set (quote_csv s) \<Longrightarrow> cr_ch \<in> set s"
  by (auto simp: quote_csv_def ReplaceAll_dquote_set split: if_splits)

lemma set_Join: "c \<in> set (Join xs sep) \<Longrightarrow> c \<in> set sep \<or> (\<exists>x \<in> set xs. c \<in> set x)"
  by (induction xs) (auto simp: Join_Cons split: if_splits)

lemma csv_line_cr: "list_all (\<lambda>f. cr_ch \<notin> set f) xs \<Longrightarrow> cr_ch \<notin> set (csv_line xs)"
proof -
  assume a: "list_all (\<lambda>f. cr_ch \<notin> set f) xs"
  have "cr_ch \<notin> set x" if "x \<in> set (map quote_csv xs)" for x
    using that a quote_csv_cr by (auto simp: list_all_iff)
  then show ?thesis using set_Join [of cr_ch "map quote_csv xs" "'',''"] by (auto simp: csv_line_def)
qed

lemma csv_lines_cr:
  "list_all (list_all (\<lambda>f. cr_ch \<notin> set f)) rs \<Longrightarrow> cr_ch \<notin> set (concat (map csv_line rs))"
proof (induction rs)
  case Nil
  then show ?case by simp
next
  case (Cons r rs)
  then show ?case using csv_line_cr [of r] by simp
qed

definition plain_name :: "string \<Rightarrow> bool" where
  "plain_name n \<longleftrightarrow> n \<noteq> [] \<and> list_all (\<lambda>c. c \<notin> {CHR '','', nl_ch, dquote_ch, cr_ch}) n"

lemma plain_names_line: "list_all plain_name cols \<Longrightarrow> Join cols '','' @ [nl_ch] = csv_line cols"
proof -
  assume "list_all plain_name cols"
  then have "map quote_csv cols = cols"
    by (induction cols) (auto simp: plain_name_def quote_csv_def list_all_iff list_ex_iff)
  then show ?thesis by (simp add: csv_line_def)
qed

text \<open>
  C40: The CSV text made of a query answer is read back as exactly its columns and cells, row by row,
  when the answer names its columns, with plain names (not empty, without comma, quote, newline or
  carriage return: they are written unquoted), no cell has a carriage return, and no row is one single
  empty cell (the reader skips empty lines).  Commas, quotes and newlines in cells do no harm.
\<close>

theorem JSONToCSV_read_back:
  assumes "parse_response body = Some resp" and "qr_Status resp \<noteq> ''Error''"
    and "extractColumns (qr_Schema resp) = Some cols" and "list_all plain_name cols" and "cols \<noteq> []"
    and "qr_Rows resp = map JObj rows"
    and "\<forall>ms \<in> set rows. \<forall>col \<in> set cols. cr_ch \<notin> set (cell_value g ms col)"
    and "\<forall>ms \<in> set rows. map (cell_value g ms) cols \<noteq> [[]]"
  shows "\<exists>csv. JSONToCSV g body = Inr csv
           \<and> csv_ReadAll csv = Some (cols # map (\<lambda>ms. map (cell_value g ms) cols) rows)"
proof -
  let ?recs = "cols # map (\<lambda>ms. map (cell_value g ms) cols) rows"
  let ?csv = "concat (map csv_line ?recs)"
  have csv: "JSONToCSV g body = Inr ?csv"
    using assms(1-3,5,6) plain_names_line [OF assms(4)]
    by (simp add: JSONToCSV_def csv_row_text_line comp_def)
  have rec: "list_all (\<lambda>r. r \<noteq> [] \<and> r \<noteq> [[]]) ?recs"
  proof -
    have "cols \<noteq> [[]]" using assms(4) by (auto simp: plain_name_def)
    moreover have "map (cell_value g ms) cols \<noteq> []" for ms using assms(5) by simp
    ultimately show ?thesis using assms(5,8) by (simp add: list_all_iff)
  qed
  have "list_all (\<lambda>f. cr_ch \<notin> set f) cols"
    using assms(4) by (rule list.pred_mono_strong) (auto simp: plain_name_def list_all_iff)
  moreover have "list_all (list_all (\<lambda>f. cr_ch \<notin> set f)) (map (\<lambda>ms. map (cell_value g ms) cols) rows)"
    using assms(7) by (simp add: list_all_iff)
  ultimately have "list_all (list_all (\<lambda>f. cr_ch \<notin> set f)) ?recs" by simp
  then have "cr_ch \<notin> set ?csv" by (rule csv_lines_cr)
  then have "normalize_newlines ?csv = ?csv" by (rule normalize_id)
  then have "csv_ReadAll ?csv = Some ?recs"
    unfolding csv_ReadAll_def using csv_run_records [OF rec] by (simp only:)
  then show ?thesis using csv by blast
qed

definition example_body :: string where
  "example_body = ''{\"query_execution_status\":\"Success\",\"schema_fragment\":[{\"columnName\":\"id\"},{\"columnName\":\"title\"}],\"rows\":[{\"id\":\"w-1\",\"title\":\"a, b\"}]}''"

definition example_json :: go_json where
  "example_json = \<lparr>fmt_float = (\<lambda>t. t), fmt_json = (\<lambda>j. []), json_error = (\<lambda>s. ''syntax'')\<rparr>"

theorem JSONToCSV_read_back_witness:
  "\<exists>csv. JSONToCSV example_json example_body = Inr csv
     \<and> csv_ReadAll csv = Some [[''id'', ''title''], [''w-1'', ''a, b'']]"
proof -
  let ?r = "\<lparr>qr_Status = ''Success'', qr_Message = [],
      qr_Schema = Some (JArr [JObj [(''columnName'', JStr ''id'')], JObj [(''columnName'', JStr ''title'')]]),
      qr_Rows = [JObj [(''id'', JStr ''w-1''), (''title'', JStr ''a, b'')]]\<rparr>"
  have p: "parse_response example_body = Some ?r" by code_simp
  have c: "extractColumns (qr_Schema ?r) = Some [''id'', ''title'']" by code_simp
  have v: "cell_value example_json [(''id'', JStr ''w-1''), (''title'', JStr ''a, b'')] ''id'' = ''w-1''"
    "cell_value example_json [(''id'', JStr ''w-1''), (''title'', JStr ''a, b'')] ''title'' = ''a, b''"
    by (simp_all add: cell_value_def)
  show ?thesis
    using JSONToCSV_read_back [OF p _ c, of "[[(''id'', JStr ''w-1''), (''title'', JStr ''a, b'')]]" example_json]
    by (simp add: plain_name_def v)
qed

end
