(* ===== verification/Remote.thy ===== *)
theory Remote
  imports ApiCsv CommonsTypes
begin

text \<open>
  \<^verbatim>\<open>internal/backend/remote.go\<close>: the database behind the DoltHub REST API, on a
  world \<open>'s\<close> that answers HTTP requests.  A GET for a query reads the world, a POST changes it;
  while the client sleeps the world moves on.
\<close>

section \<open>HTTP\<close>

text \<open>
  \<open>ht_get\<close> and \<open>ht_post\<close> send a request: a transport error, or status code and body.
  \<open>ht_sleep\<close> is what happens to the world in so many milliseconds; \<open>ht_delay\<close> the further
  time the clock has advanced when the client looks at it again; \<open>ht_done\<close> the context's error
  when it ends during a sleep.
\<close>

record 's http =
  ht_get :: "string \<Rightarrow> 's \<Rightarrow> go_error + (int \<times> string)"
  ht_post :: "string \<Rightarrow> 's \<Rightarrow> (go_error + (int \<times> string)) \<times> 's"
  ht_sleep :: "nat \<Rightarrow> 's \<Rightarrow> 's"
  ht_delay :: "'s \<Rightarrow> nat"
  ht_done :: "'s \<Rightarrow> go_error option"
  ht_lower :: "string \<Rightarrow> string"

text \<open>\<^verbatim>\<open>truncate\<close> counts runes; \<open>rune_len\<close> is the length of the first one.\<close>

definition rune_len :: "string \<Rightarrow> nat" where
  "rune_len s = max 1 (rune_width s)"

fun take_runes :: "nat \<Rightarrow> string \<Rightarrow> string \<times> string" where
  "take_runes 0 s = ([], s)"
| "take_runes (Suc n) s =
     (if s = [] then ([], [])
      else (let (a, r) = take_runes n (drop (rune_len s) s)
            in ((if code_of (hd s) < 128 then [hd s]
                 else if rune_width s = 0 then replacement_rune else take (rune_width s) s) @ a, r)))"

definition truncate_text :: "string \<Rightarrow> nat \<Rightarrow> string" where
  "truncate_text s n = (let (a, r) = take_runes n s in if r = [] then s else a @ ''...'')"

definition check_status :: "go_error + (int \<times> string) \<Rightarrow> go_error + string" where
  "check_status resp =
     (case resp of
        Inl err \<Rightarrow> Inl err
      | Inr (code, body) \<Rightarrow>
          if code < 200 \<or> 300 \<le> code
          then Inl (Err (Sprintf ''HTTP %d: %s'' [FD code, FS (truncate_text body 200)]))
          else Inr body)"

definition doGet :: "'s http \<Rightarrow> string \<Rightarrow> 's \<Rightarrow> go_error + string" where
  "doGet h url s = check_status (ht_get h url s)"

definition doPost :: "'s http \<Rightarrow> string \<Rightarrow> 's \<Rightarrow> (go_error + string) \<times> 's" where
  "doPost h url s = (let (resp, s') = ht_post h url s in (check_status resp, s'))"

section \<open>URLs\<close>

text \<open>\<^verbatim>\<open>url.PathEscape\<close> and \<^verbatim>\<open>url.QueryEscape\<close>, byte by byte.\<close>

definition hex_upper :: "nat \<Rightarrow> char" where
  "hex_upper d = (if d < 10 then char_of (48 + d) else char_of (55 + d))"

definition percent :: "char \<Rightarrow> string" where
  "percent c = [CHR ''%'', hex_upper (code_of c div 16), hex_upper (code_of c mod 16)]"

definition url_plain :: "char \<Rightarrow> bool" where
  "url_plain c \<longleftrightarrow> c \<in> set ''ABCDEFGHIJKLMNOPQRSTUVWXYZabcdefghijklmnopqrstuvwxyz0123456789-_.~''"

definition PathEscape :: "string \<Rightarrow> string" where
  "PathEscape s = concat (map (\<lambda>c. if url_plain c \<or> c \<in> set ''$&+=:@'' then [c] else percent c) s)"

definition QueryEscape :: "string \<Rightarrow> string" where
  "QueryEscape s =
     concat (map (\<lambda>c. if url_plain c then [c] else if c = space_ch then ''+'' else percent c) s)"

definition DoltHubAPIBase :: string where
  "DoltHubAPIBase = ''https://www.dolthub.com/api/v1alpha1''"

section \<open>The database\<close>

record RemoteDB =
  rd_readOwner :: string
  rd_readDB :: string
  rd_writeOwner :: string
  rd_writeDB :: string
  rd_mode :: string

definition NewRemoteDB :: "string \<Rightarrow> string \<Rightarrow> string \<Rightarrow> string \<Rightarrow> string \<Rightarrow> RemoteDB" where
  "NewRemoteDB readOwner readDB writeOwner writeDB mode =
     \<lparr>rd_readOwner = readOwner, rd_readDB = readDB, rd_writeOwner = writeOwner, rd_writeDB = writeDB,
      rd_mode = mode\<rparr>"

definition read_url :: "string \<Rightarrow> string \<Rightarrow> string \<Rightarrow> string \<Rightarrow> string" where
  "read_url owner db branch sql =
     Sprintf ''%s/%s/%s/%s?q=%s'' [FS DoltHubAPIBase, FS owner, FS db, FS (PathEscape branch), FS (QueryEscape sql)]"

definition remote_Query :: "go_json \<Rightarrow> 's http \<Rightarrow> RemoteDB \<Rightarrow> string \<Rightarrow> string \<Rightarrow> 's \<Rightarrow> go_error + string" where
  "remote_Query g h r sql ref s =
     (let owner = (if ref \<noteq> [] then rd_writeOwner r else rd_readOwner r);
          db = (if ref \<noteq> [] then rd_writeDB r else rd_readDB r);
          branch = (if ref \<noteq> [] then ref else ''main'')
      in case doGet h (read_url owner db branch sql) s of
           Inl err \<Rightarrow> Inl (Wrap ''query failed: '' err)
         | Inr body \<Rightarrow> JSONToCSV g body)"

definition queryForkBranch :: "go_json \<Rightarrow> 's http \<Rightarrow> RemoteDB \<Rightarrow> string \<Rightarrow> string \<Rightarrow> 's \<Rightarrow> go_error + string" where
  "queryForkBranch g h r sql branch s =
     (case doGet h (read_url (rd_writeOwner r) (rd_writeDB r) branch sql) s of
        Inl err \<Rightarrow> Inl (Wrap ''queryForkBranch failed: '' err)
      | Inr body \<Rightarrow> JSONToCSV g body)"

text \<open>The count in the second line of an answer is there and not zero.\<close>

definition count_positive :: "go_error + string \<Rightarrow> bool" where
  "count_positive answer \<longleftrightarrow>
     (case answer of
        Inl _ \<Rightarrow> False
      | Inr csv \<Rightarrow>
          (let lines = Split (TrimSpace csv) nl_ch in 2 \<le> length lines \<and> TrimSpace (lines ! 1) \<noteq> ''0''))"

definition escape_quotes :: "string \<Rightarrow> string" where
  "escape_quotes s = ReplaceAll s [quote_ch] [quote_ch, quote_ch]"

definition branchExists :: "go_json \<Rightarrow> 's http \<Rightarrow> RemoteDB \<Rightarrow> string \<Rightarrow> 's \<Rightarrow> bool" where
  "branchExists g h r branch s =
     count_positive (queryForkBranch g h r
       (Sprintf (sq ''SELECT COUNT(*) AS cnt FROM dolt_branches WHERE name=`%s`'') [FS (escape_quotes branch)])
       ''main'' s)"

definition branchHasData :: "go_json \<Rightarrow> 's http \<Rightarrow> RemoteDB \<Rightarrow> string \<Rightarrow> 's \<Rightarrow> bool" where
  "branchHasData g h r branch s =
     (let parts = SplitN branch (CHR ''/'') 3
      in if length parts \<noteq> 3 \<or> parts ! 0 \<noteq> ''wl'' \<or> parts ! 2 = [] then branchExists g h r branch s
         else count_positive (queryForkBranch g h r
                (Sprintf (sq ''SELECT COUNT(*) AS cnt FROM wanted WHERE id=`%s`'') [FS (escape_quotes (parts ! 2))])
                branch s))"

section \<open>Polling a write\<close>

text \<open>
  What one poll answer says: the operation is finished with this error or none (\<open>Some\<close>), or
  goes on.  An answer that is no JSON of the expected shape goes on.
\<close>

definition poll_status :: "(string \<Rightarrow> string) \<Rightarrow> string \<Rightarrow> (bool \<times> string \<times> string) option" where
  "poll_status lower body =
     Option.bind (struct_members body) (\<lambda>ms.
       (let (dn, ok1) = bool_field ''done'' ms;
            (details, ok2) = obj_field ''res_details'' ms;
            (st1, ok3) = str_field ''query_execution_status'' details;
            (msg1, ok4) = str_field ''query_execution_message'' details;
            (st2, ok5) = str_field ''query_execution_status'' ms;
            (msg2, ok6) = str_field ''query_execution_message'' ms
        in if ok1 \<and> ok2 \<and> ok3 \<and> ok4 \<and> ok5 \<and> ok6
           then Some (dn, ToLower lower (if st1 = [] then st2 else st1), if st1 = [] then msg2 else msg1)
           else None))"

definition poll_verdict :: "(string \<Rightarrow> string) \<Rightarrow> string \<Rightarrow> string \<Rightarrow> go_error option option" where
  "poll_verdict lower operationName body =
     (case poll_status lower body of
        None \<Rightarrow> None
      | Some (dn, status, message) \<Rightarrow>
          if status = ''error'' then Some (Some (Err (Sprintf ''write operation failed: %s'' [FS message])))
          else if status = ''success'' \<or> status = ''successwithwarning'' then Some None
          else if dn then
            (if status = []
             then Some (Some (Err (Sprintf ''write operation %s finished with unknown status'' [FS (Quote operationName)])))
             else Some None)
          else None)"

definition poll_url :: "RemoteDB \<Rightarrow> string \<Rightarrow> string" where
  "poll_url r operationName =
     Sprintf ''%s/%s/%s/write?operationName=%s''
       [FS DoltHubAPIBase, FS (rd_writeOwner r), FS (rd_writeDB r), FS (QueryEscape operationName)]"

text \<open>Half a second, doubled on every round until it is eight seconds.\<close>

definition backoff_ms :: "nat \<Rightarrow> nat" where
  "backoff_ms k = 500 * 2 ^ min k 4"

definition poll_deadline :: nat where
  "poll_deadline = 120000"

lemma backoff_pos: "0 < backoff_ms k"
  by (simp add: backoff_ms_def)

lemma poll_measure:
  "0 < (b::nat) \<Longrightarrow> \<not> d < e + b + x \<Longrightarrow> Suc d - (e + b + x) < Suc d - e"
  by linarith

text \<open>
  The loop, with the milliseconds since it began, the rounds done, the last error and the number of
  errors in a row.  The clock only goes forward, by at least the time slept, so the loop ends.
\<close>

function pollLoop ::
  "'s http \<Rightarrow> RemoteDB \<Rightarrow> string \<Rightarrow> nat \<Rightarrow> nat \<Rightarrow> go_error option \<Rightarrow> nat \<Rightarrow> 's \<Rightarrow> go_error option \<times> 's" where
  "pollLoop h r operationName elapsed k lastErr errs s0 =
     (case ht_done h s0 of
        Some err \<Rightarrow> (Some err, s0)
      | None \<Rightarrow>
          (let s = ht_sleep h (backoff_ms k) s0;
               now = elapsed + backoff_ms k + ht_delay h s
           in if poll_deadline < now then
                (Some (case lastErr of
                         Some e \<Rightarrow> Err (Sprintf ''timed out waiting for write operation %s (last error: %s)''
                                          [FS (Quote operationName), FS (Error e)])
                       | None \<Rightarrow> Err (Sprintf ''timed out waiting for write operation %s'' [FS (Quote operationName)])), s)
              else
                (case doGet h (poll_url r operationName) s of
                   Inl err \<Rightarrow>
                     if Contains (ToLower (ht_lower h) (Error err)) ''sqlwrite.tocommitid'' then (None, s)
                     else if 5 \<le> errs + 1
                     then (Some (Wrap (Sprintf ''polling write operation %s: '' [FS (Quote operationName)]) err), s)
                     else pollLoop h r operationName now (k + 1) (Some err) (errs + 1) s
                 | Inr body \<Rightarrow>
                     (case poll_verdict (ht_lower h) operationName body of
                        Some outcome \<Rightarrow> (outcome, s)
                      | None \<Rightarrow> pollLoop h r operationName now (k + 1) lastErr 0 s))))"
  by pat_completeness auto
termination
  by (relation "measure (\<lambda>(h, r, n, elapsed, k, l, e, s). Suc poll_deadline - elapsed)")
     (simp_all add: poll_measure backoff_pos)

declare pollLoop.simps [simp del]

definition pollOperation :: "'s http \<Rightarrow> RemoteDB \<Rightarrow> string \<Rightarrow> 's \<Rightarrow> go_error option \<times> 's" where
  "pollOperation h r operationName s = pollLoop h r operationName 0 0 None 0 s"

section \<open>Writing\<close>

text \<open>What follows a successful POST: the answer's own error, or the polling of its operation.\<close>

definition finish_write ::
  "go_json \<Rightarrow> 's http \<Rightarrow> RemoteDB \<Rightarrow> string \<Rightarrow> string \<Rightarrow> 's \<Rightarrow> go_error option \<times> 's" where
  "finish_write g h r what body s =
     (case struct_members body of
        None \<Rightarrow> (Some (Err (''parsing write response: '' @ json_error g body)), s)
      | Some ms \<Rightarrow>
          (let (operation, ok1) = str_field ''operation_name'' ms;
               (status, ok2) = str_field ''query_execution_status'' ms;
               (message, ok3) = str_field ''query_execution_message'' ms
           in if \<not> (ok1 \<and> ok2 \<and> ok3) then (Some (Err (''parsing write response: '' @ json_error g body)), s)
              else if status = ''Error'' then (Some (Err (what @ message)), s)
              else if operation \<noteq> [] then pollOperation h r operation s
              else (None, s)))"

definition write_url :: "RemoteDB \<Rightarrow> string \<Rightarrow> string \<Rightarrow> string \<Rightarrow> string" where
  "write_url r fromBranch toBranch stmt =
     Sprintf ''%s/%s/%s/write/%s/%s?q=%s''
       [FS DoltHubAPIBase, FS (rd_writeOwner r), FS (rd_writeDB r), FS (PathEscape fromBranch),
        FS (PathEscape toBranch), FS (QueryEscape stmt)]"

definition execOne ::
  "go_json \<Rightarrow> 's http \<Rightarrow> RemoteDB \<Rightarrow> string \<Rightarrow> string \<Rightarrow> string \<Rightarrow> 's \<Rightarrow> go_error option \<times> 's" where
  "execOne g h r fromBranch toBranch stmt s =
     (case doPost h (write_url r fromBranch toBranch stmt) s of
        (Inl err, s1) \<Rightarrow> (Some (Wrap ''exec failed: '' err), s1)
      | (Inr body, s1) \<Rightarrow> finish_write g h r ''write operation failed: '' body s1)"

definition execOnMain :: "go_json \<Rightarrow> 's http \<Rightarrow> RemoteDB \<Rightarrow> string \<Rightarrow> 's \<Rightarrow> go_error option \<times> 's" where
  "execOnMain g h r sql s =
     (case doPost h (write_url r ''main'' ''main'' sql) s of
        (Inl err, s1) \<Rightarrow> (Some (Wrap ''execOnMain failed: '' err), s1)
      | (Inr body, s1) \<Rightarrow> finish_write g h r ''exec error: '' body s1)"

text \<open>The statements one by one; after the first, each starts from the branch itself.\<close>

fun execAll ::
  "go_json \<Rightarrow> 's http \<Rightarrow> RemoteDB \<Rightarrow> string \<Rightarrow> string \<Rightarrow> string list \<Rightarrow> 's \<Rightarrow> go_error option \<times> 's" where
  "execAll g h r fromBranch branch [] s = (None, s)"
| "execAll g h r fromBranch branch (stmt # stmts) s =
     (let (err, s1) = execOne g h r fromBranch branch stmt s
      in if err \<noteq> None then (err, s1) else execAll g h r branch branch stmts s1)"

definition remote_Exec ::
  "go_json \<Rightarrow> 's http \<Rightarrow> RemoteDB \<Rightarrow> string \<Rightarrow> string list \<Rightarrow> 's \<Rightarrow> go_error option \<times> 's" where
  "remote_Exec g h r branch0 stmts s =
     (let branch = (if branch0 = [] then ''main'' else branch0);
          fromBranch = (if branch \<noteq> ''main'' \<and> branchHasData g h r branch s then branch else ''main'')
      in execAll g h r fromBranch branch stmts s)"

section \<open>Branches\<close>

definition csv_names :: "string \<Rightarrow> string list" where
  "csv_names csv =
     (let lines = Split (TrimSpace csv) nl_ch
      in if length lines < 2 then [] else nonblank_lines (tl lines))"

definition remote_Branches :: "go_json \<Rightarrow> 's http \<Rightarrow> RemoteDB \<Rightarrow> string \<Rightarrow> 's \<Rightarrow> go_error + string list" where
  "remote_Branches g h r prefix s =
     (let sql = Sprintf (sq ''SELECT name FROM dolt_branches WHERE name LIKE `%s%%` ORDER BY name'') [FS (EscapeLIKE prefix)]
      in case doGet h (Sprintf ''%s/%s/%s/main?q=%s''
                  [FS DoltHubAPIBase, FS (rd_writeOwner r), FS (rd_writeDB r), FS (QueryEscape sql)]) s of
           Inl err \<Rightarrow> Inl (Wrap ''branches query failed: '' err)
         | Inr body \<Rightarrow>
             (case JSONToCSV g body of Inl err \<Rightarrow> Inl err | Inr csv \<Rightarrow> Inr (csv_names csv)))"

definition remote_DeleteBranch :: "go_json \<Rightarrow> 's http \<Rightarrow> RemoteDB \<Rightarrow> string \<Rightarrow> 's \<Rightarrow> go_error option \<times> 's" where
  "remote_DeleteBranch g h r branch s =
     (if branch = [] \<or> branch = ''main'' then (None, s)
      else execOnMain g h r (Sprintf (sq ''CALL DOLT_BRANCH(`-D`, `%s`)'') [FS (escape_quotes branch)]) s)"

definition remote_MergeBranch :: "go_json \<Rightarrow> 's http \<Rightarrow> RemoteDB \<Rightarrow> string \<Rightarrow> 's \<Rightarrow> go_error option \<times> 's" where
  "remote_MergeBranch g h r branch s =
     execOnMain g h r (Sprintf (sq ''CALL DOLT_MERGE(`%s`)'') [FS (escape_quotes branch)]) s"

definition remote_CanWildWest :: "go_error option" where
  "remote_CanWildWest = Some (Err ''wild-west mode requires direct upstream access; switch to PR mode in settings'')"

definition parseDiffTables :: "string \<Rightarrow> string list" where
  "parseDiffTables csvData =
     (case csv_ReadAll_strict csvData of
        None \<Rightarrow> []
      | Some records \<Rightarrow>
          if length records < 2 then []
          else filter (\<lambda>n. n \<noteq> []) (map (\<lambda>rec. TrimSpace (hd rec)) (filter (\<lambda>rec. rec \<noteq> []) (tl records))))"

text \<open>The methods of the database as the interface the other packages use.\<close>

definition remote_db :: "go_json \<Rightarrow> 's http \<Rightarrow> RemoteDB \<Rightarrow> 's DB" where
  "remote_db g h r =
     \<lparr>db_Query = remote_Query g h r,
      db_Exec = (\<lambda>branch msg sg stmts. remote_Exec g h r branch stmts),
      db_Branches = remote_Branches g h r,
      db_DeleteBranch = remote_DeleteBranch g h r,
      db_PushBranch = (\<lambda>branch s. (None, [], s)),
      db_PushMain = (\<lambda>s. (None, s)),
      db_Sync = (\<lambda>s. (None, s)),
      db_MergeBranch = remote_MergeBranch g h r,
      db_DeleteRemoteBranch = remote_DeleteBranch g h r,
      db_PushWithSync = (\<lambda>s. (None, s)),
      db_CanWildWest = (\<lambda>s. remote_CanWildWest)\<rparr>"

end
