(* ===== verification/GoJsonOut.thy ===== *)
theory GoJsonOut
  imports ApiCsv
begin

text \<open>
  Go's \<^verbatim>\<open>encoding/json\<close> encoder, as far as the sources use it: strings with the HTML escapes that
  \<^verbatim>\<open>json.Marshal\<close> makes, integers, booleans, slices and structs with \<^verbatim>\<open>omitempty\<close> fields.  And that
  the decoder reads its texts back.
\<close>

section \<open>Strings\<close>

text \<open>An ASCII byte: \<^verbatim>\<open><\<close>, \<^verbatim>\<open>>\<close> and \<^verbatim>\<open>&\<close> are escaped like control characters.\<close>

definition u00_escape :: "char \<Rightarrow> string" where
  "u00_escape c = bslash_ch # ''u00'' @ [hex_ch (code_of c div 16), hex_ch (code_of c mod 16)]"

definition ascii_out :: "char \<Rightarrow> string" where
  "ascii_out c =
     (if c = dquote_ch \<or> c = bslash_ch then [bslash_ch, c]
      else if code_of c = 8 then [bslash_ch, CHR ''b'']
      else if code_of c = 12 then [bslash_ch, CHR ''f'']
      else if c = nl_ch then [bslash_ch, CHR ''n'']
      else if c = cr_ch then [bslash_ch, CHR ''r'']
      else if c = tab_ch then [bslash_ch, CHR ''t'']
      else if code_of c < 32 \<or> c \<in> set ''<>&'' then u00_escape c
      else [c])"

text \<open>A multi-byte rune: the two line separators are escaped, an invalid byte is replaced.\<close>

definition rune_out :: "string \<Rightarrow> string" where
  "rune_out u =
     (if u = [CHR 0xE2, CHR 0x80, CHR 0xA8] then bslash_ch # ''u2028''
      else if u = [CHR 0xE2, CHR 0x80, CHR 0xA9] then bslash_ch # ''u2029''
      else u)"

function str_out :: "string \<Rightarrow> string" where
  "str_out s =
     (case s of
        [] \<Rightarrow> []
      | c # r \<Rightarrow>
          if code_of c < 128 then ascii_out c @ str_out r
          else if rune_width s = 0 then bslash_ch # ''ufffd'' @ str_out r
          else rune_out (take (rune_width s) s) @ str_out (drop (rune_width s) s))"
  by pat_completeness auto
termination
  by (relation "measure length") auto

declare str_out.simps [simp del]

definition json_quote :: "string \<Rightarrow> string" where
  "json_quote s = dquote_ch # str_out s @ [dquote_ch]"

section \<open>Values\<close>

fun json_text :: "json \<Rightarrow> string" where
  "json_text JNull = ''null''"
| "json_text (JBool b) = (if b then ''true'' else ''false'')"
| "json_text (JNum t) = t"
| "json_text (JStr s) = json_quote s"
| "json_text (JArr vs) = ''['' @ Join (map json_text vs) '','' @ '']''"
| "json_text (JObj ms) = ''{'' @ Join (map (\<lambda>(n, v). json_quote n @ '':'' @ json_text v) ms) '','' @ ''}''"

text \<open>Struct fields: with \<^verbatim>\<open>omitempty\<close> a zero value is left out.\<close>

definition JInt :: "int \<Rightarrow> json" where
  "JInt n = JNum (Itoa n)"

definition str_mem :: "string \<Rightarrow> string \<Rightarrow> (string \<times> json) list" where
  "str_mem n s = [(n, JStr s)]"

definition opt_str :: "string \<Rightarrow> string \<Rightarrow> (string \<times> json) list" where
  "opt_str n s = (if s = [] then [] else [(n, JStr s)])"

definition opt_int :: "string \<Rightarrow> int \<Rightarrow> (string \<times> json) list" where
  "opt_int n i = (if i = 0 then [] else [(n, JInt i)])"

definition opt_bool :: "string \<Rightarrow> bool \<Rightarrow> (string \<times> json) list" where
  "opt_bool n b = (if b then [(n, JBool True)] else [])"

definition opt_list :: "string \<Rightarrow> json list \<Rightarrow> (string \<times> json) list" where
  "opt_list n vs = (if vs = [] then [] else [(n, JArr vs)])"

definition opt_ptr :: "string \<Rightarrow> ('a \<Rightarrow> json) \<Rightarrow> 'a option \<Rightarrow> (string \<times> json) list" where
  "opt_ptr n f p = (case p of None \<Rightarrow> [] | Some x \<Rightarrow> [(n, f x)])"

section \<open>Reading back\<close>

text \<open>Texts of complete runes, which is what Go strings that come from JSON are.\<close>

function utf8_ok :: "string \<Rightarrow> bool" where
  "utf8_ok s =
     (case s of
        [] \<Rightarrow> True
      | c # r \<Rightarrow>
          if code_of c < 128 then utf8_ok r
          else if rune_width s = 0 then False
          else utf8_ok (drop (rune_width s) s))"
  by pat_completeness auto
termination
  by (relation "measure length") auto

declare utf8_ok.simps [simp del]

lemma utf8_ok_Nil [simp]: "utf8_ok []"
  by (simp add: utf8_ok.simps)

lemma utf8_ok_ascii_Cons: "code_of c < 128 \<Longrightarrow> utf8_ok (c # s) = utf8_ok s"
  by (subst utf8_ok.simps) simp

lemma utf8_ok_ascii: "list_all is_ascii s \<Longrightarrow> utf8_ok s"
  by (induction s) (auto simp: utf8_ok_ascii_Cons is_ascii_def)

lemma hex_val_ch: "d < 16 \<Longrightarrow> hex_val (hex_ch d) = Some d"
  by (auto simp: hex_val_def hex_ch_def in_range_def code_of_def)

lemma char_of_code [simp]: "char_of (code_of c) = c"
  by (simp add: code_of_def)

lemma prepend_one: "(@) [c] = (#) c"
  by auto

lemma json_str_u00:
  assumes "code_of c < 128"
  shows "json_str (u00_escape c @ r) = map_option (apfst ((#) c)) (json_str r)"
proof -
  have "code_of c div 16 < 16" "code_of c mod 16 < 16" using assms by auto
  moreover have "hex_val (CHR ''0'') = Some 0" by code_simp
  ultimately have "hex4 (''00'' @ [hex_ch (code_of c div 16), hex_ch (code_of c mod 16)] @ r) = Some (code_of c, r)"
    by (simp add: hex4_def hex_val_ch)
  with assms show ?thesis
    by (subst json_str.simps) (simp add: u00_escape_def unicode_escape_def encode_rune_def prepend_one)
qed

lemma json_str_escape:
  assumes "simple_escape e = Some u" and "e \<noteq> CHR ''u''"
  shows "json_str (bslash_ch # e # r) = map_option (apfst ((@) u)) (json_str r)"
  using assms by (subst json_str.simps) simp

lemma json_str_ascii:
  assumes "code_of c < 128"
  shows "json_str (ascii_out c @ r) = map_option (apfst ((#) c)) (json_str r)"
proof -
  have eight: "code_of c = 8 \<Longrightarrow> c = CHR 0x08" "code_of c = 12 \<Longrightarrow> c = CHR 0x0C"
    using char_of_code [of c] by (simp_all add: char_of_def bit_Suc bit_0)
  have codes: "code_of nl_ch = 10" "code_of cr_ch = 13" "code_of tab_ch = 9"
    by (simp_all add: code_of_def)
  consider "c = dquote_ch \<or> c = bslash_ch \<or> code_of c = 8 \<or> code_of c = 12 \<or> c = nl_ch \<or> c = cr_ch \<or> c = tab_ch"
    | "\<not> (c = dquote_ch \<or> c = bslash_ch \<or> code_of c = 8 \<or> code_of c = 12 \<or> c = nl_ch \<or> c = cr_ch \<or> c = tab_ch)"
      "code_of c < 32 \<or> c \<in> set ''<>&''"
    | "32 \<le> code_of c" "c \<noteq> dquote_ch" "c \<noteq> bslash_ch" "c \<notin> set ''<>&''"
    by fastforce
  then show ?thesis
  proof cases
    case 1
    then show ?thesis
      by (elim disjE) (auto simp: ascii_out_def json_str_escape simple_escape_def prepend_one codes dest: eight)
  next
    case 2
    then have "ascii_out c = u00_escape c" by (auto simp: ascii_out_def)
    then show ?thesis by (simp add: json_str_u00 assms)
  next
    case 3
    then have "code_of c \<noteq> 8" "code_of c \<noteq> 12" "\<not> code_of c < 32" by simp_all
    moreover have "c \<noteq> nl_ch" "c \<noteq> cr_ch" "c \<noteq> tab_ch" using 3(1) codes by force+
    ultimately have "ascii_out c = [c]" using 3 by (simp only: ascii_out_def if_False simp_thms)
    with 3 assms show ?thesis by (subst json_str.simps) simp
  qed
qed

text \<open>A complete multi-byte rune is found again in front of any text.\<close>

lemma rune_width_le: "rune_width s \<le> length s"
  by (auto simp: rune_width_def split: list.splits)

definition rune2 :: "char \<Rightarrow> char \<Rightarrow> bool" where
  "rune2 a b \<longleftrightarrow> in_range 0xC2 0xDF a \<and> in_range 0x80 0xBF b"

definition rune3 :: "char \<Rightarrow> char \<Rightarrow> char \<Rightarrow> bool" where
  "rune3 a b c \<longleftrightarrow>
     in_range 0x80 0xBF c \<and>
       (code_of a = 0xE0 \<and> in_range 0xA0 0xBF b \<or> in_range 0xE1 0xEC a \<and> in_range 0x80 0xBF b
        \<or> code_of a = 0xED \<and> in_range 0x80 0x9F b \<or> in_range 0xEE 0xEF a \<and> in_range 0x80 0xBF b)"

definition rune4 :: "char \<Rightarrow> char \<Rightarrow> char \<Rightarrow> char \<Rightarrow> bool" where
  "rune4 a b c d \<longleftrightarrow>
     in_range 0x80 0xBF c \<and> in_range 0x80 0xBF d \<and>
       (code_of a = 0xF0 \<and> in_range 0x90 0xBF b \<or> in_range 0xF1 0xF3 a \<and> in_range 0x80 0xBF b
        \<or> code_of a = 0xF4 \<and> in_range 0x80 0x8F b)"

lemma rune_width_eq:
  "rune_width (a # b # r) =
     (if rune2 a b then 2
      else case r of
             c # r' \<Rightarrow> if rune3 a b c then 3
                        else (case r' of d # _ \<Rightarrow> if rune4 a b c d then 4 else 0 | [] \<Rightarrow> 0)
           | [] \<Rightarrow> 0)"
  by (simp only: rune_width_def list.case rune2_def rune3_def rune4_def)

lemma rune_width_front:
  assumes "rune_width s \<noteq> 0"
  shows "rune_width (take (rune_width s) s @ t) = rune_width s"
proof -
  obtain a b r where "s = a # b # r"
    using assms by (auto simp: rune_width_def split: list.splits)
  then show ?thesis using assms by (auto simp: rune_width_eq split: list.splits if_splits)
qed

lemma rune_width_high: "rune_width (c # r) \<noteq> 0 \<Longrightarrow> 128 \<le> code_of c"
  by (auto simp: rune_width_def in_range_def split: list.splits if_splits)

lemma json_str_separators:
  "json_str (bslash_ch # ''u2028'' @ r) = map_option (apfst ((@) [CHR 0xE2, CHR 0x80, CHR 0xA8])) (json_str r)"
  "json_str (bslash_ch # ''u2029'' @ r) = map_option (apfst ((@) [CHR 0xE2, CHR 0x80, CHR 0xA9])) (json_str r)"
  by (subst json_str.simps, simp add: unicode_escape_def hex4_def hex_val_def in_range_def code_of_def encode_rune_def
      char_of_def bit_Suc bit_0)+

lemma json_str_rune:
  assumes w: "rune_width s \<noteq> 0"
  shows "json_str (rune_out (take (rune_width s) s) @ r) =
    map_option (apfst ((@) (take (rune_width s) s))) (json_str r)"
proof (cases "take (rune_width s) s \<in> {[CHR 0xE2, CHR 0x80, CHR 0xA8], [CHR 0xE2, CHR 0x80, CHR 0xA9]}")
  case True
  then show ?thesis using json_str_separators [of r] by (auto simp: rune_out_def)
next
  case False
  let ?u = "take (rune_width s) s"
  have front: "rune_width (?u @ r) = rune_width s" using w by (rule rune_width_front)
  have len: "length ?u = rune_width s" using rune_width_le [of s] by simp
  then obtain c t where u: "?u @ r = c # t" using w by (cases ?u) auto
  then have high: "128 \<le> code_of c" using rune_width_high [of c t] front w by simp
  then have plain: "c \<noteq> dquote_ch" "c \<noteq> bslash_ch" by (auto simp: code_of_def)
  have "json_str (c # t) = map_option (apfst ((@) (take (rune_width (c # t)) (c # t)))) (json_str (drop (rune_width (c # t)) (c # t)))"
  proof -
    have "rune_width (c # t) \<noteq> 0" using front w by (simp add: u)
    then show ?thesis using high plain by (subst json_str.simps) simp
  qed
  moreover have "take (rune_width (c # t)) (c # t) = ?u" "drop (rune_width (c # t)) (c # t) = r"
    using len by (simp_all add: u [symmetric] front)
  moreover have "rune_out ?u = ?u" using False by (auto simp: rune_out_def)
  ultimately show ?thesis by (simp add: u)
qed

lemma json_str_out: "utf8_ok s \<Longrightarrow> json_str (str_out s @ dquote_ch # r) = Some (s, r)"
proof (induction s rule: str_out.induct)
  case (1 s)
  show ?case
  proof (cases s)
    case Nil
    then show ?thesis by (simp add: str_out.simps json_str.simps)
  next
    case (Cons c t)
    show ?thesis
    proof (cases "code_of c < 128")
      case True
      then have "json_str (str_out t @ dquote_ch # r) = Some (t, r)"
        using 1 Cons by (simp add: utf8_ok_ascii_Cons)
      moreover have "str_out s = ascii_out c @ str_out t" using True Cons by (simp add: str_out.simps)
      ultimately show ?thesis using True Cons by (simp add: json_str_ascii)
    next
      case False
      have "utf8_ok s = (if rune_width s = 0 then False else utf8_ok (drop (rune_width s) s))"
        using False by (subst utf8_ok.simps) (simp add: Cons)
      then have w: "rune_width s \<noteq> 0" and rest: "utf8_ok (drop (rune_width s) s)"
        using "1.prems" by (simp_all split: if_splits)
      have "json_str (str_out (drop (rune_width s) s) @ dquote_ch # r) = Some (drop (rune_width s) s, r)"
        using "1.IH"(3) [OF Cons False w rest] .
      moreover have "str_out s = rune_out (take (rune_width s) s) @ str_out (drop (rune_width s) s)"
        using False w by (subst str_out.simps) (simp add: Cons)
      ultimately show ?thesis using w by (simp add: json_str_rune)
    qed
  qed
qed

end
