(* ===== verification/AuthTypes.thy ===== *)
theory AuthTypes
  imports ApiCsv
begin

text \<open>
  Package dolthubauth, the service that keeps the users' DoltHub API keys: its data
  (\<^verbatim>\<open>types.go\<close>), errors (\<^verbatim>\<open>errors.go\<close>), validation (\<^verbatim>\<open>validation.go\<close>) and the JSON
  decoding of its requests.  A \<^verbatim>\<open>time.Time\<close> is the integer number of nanoseconds.
\<close>

section \<open>Metadata\<close>

record WastelandConfig =
  wl_Upstream :: string
  wl_ForkOrg :: string
  wl_ForkDB :: string
  wl_Mode :: string
  wl_Signing :: bool

record UserMetadata =
  um_RigHandle :: string
  um_Wastelands :: "WastelandConfig list"

text \<open>The loops over the entries, by upstream: the first match is replaced, found or removed.\<close>

fun upsert_entry :: "WastelandConfig \<Rightarrow> WastelandConfig list \<Rightarrow> WastelandConfig list" where
  "upsert_entry wl [] = [wl]"
| "upsert_entry wl (w # ws) = (if wl_Upstream w = wl_Upstream wl then wl # ws else w # upsert_entry wl ws)"

fun remove_entry :: "string \<Rightarrow> WastelandConfig list \<Rightarrow> WastelandConfig list" where
  "remove_entry upstream [] = []"
| "remove_entry upstream (w # ws) = (if wl_Upstream w = upstream then ws else w # remove_entry upstream ws)"

definition FindWasteland :: "UserMetadata \<Rightarrow> string \<Rightarrow> WastelandConfig option" where
  "FindWasteland m upstream = find (\<lambda>w. wl_Upstream w = upstream) (um_Wastelands m)"

definition UpsertWasteland :: "UserMetadata \<Rightarrow> WastelandConfig \<Rightarrow> UserMetadata" where
  "UpsertWasteland m wl = m\<lparr>um_Wastelands := upsert_entry wl (um_Wastelands m)\<rparr>"

definition RemoveWasteland :: "UserMetadata \<Rightarrow> string \<Rightarrow> bool \<times> UserMetadata" where
  "RemoveWasteland m upstream =
     (case FindWasteland m upstream of
        None \<Rightarrow> (False, m)
      | Some _ \<Rightarrow> (True, m\<lparr>um_Wastelands := remove_entry upstream (um_Wastelands m)\<rparr>))"

definition MergedWith :: "UserMetadata \<Rightarrow> UserMetadata \<Rightarrow> UserMetadata" where
  "MergedWith m update =
     foldl UpsertWasteland
       \<lparr>um_RigHandle = (if um_RigHandle update = [] then um_RigHandle m else um_RigHandle update),
        um_Wastelands = um_Wastelands m\<rparr>
       (um_Wastelands update)"

section \<open>Connections\<close>

record Connection =
  cn_ConnectionID :: string
  cn_TenantID :: string
  cn_Environment :: string
  cn_SubjectID :: string
  cn_Metadata :: UserMetadata
  cn_Status :: string
  cn_CredentialVersion :: int
  cn_RecordVersion :: int
  cn_LastValidatedAt :: "int option"
  cn_LastValidationErrorCode :: string
  cn_LastProxyErrorAt :: "int option"
  cn_CreatedAt :: int
  cn_UpdatedAt :: int

record ConnectionResponse =
  cs_ConnectionID :: string
  cs_SubjectID :: string
  cs_RigHandle :: string
  cs_Wastelands :: "WastelandConfig list"
  cs_Status :: string
  cs_LastValidatedAt :: "int option"
  cs_LastValidationErrorCode :: string
  cs_CreatedAt :: int
  cs_UpdatedAt :: int
  cs_RecordVersion :: int

definition NewConnectionResponse :: "Connection \<Rightarrow> ConnectionResponse" where
  "NewConnectionResponse conn =
     \<lparr>cs_ConnectionID = cn_ConnectionID conn, cs_SubjectID = cn_SubjectID conn,
      cs_RigHandle = um_RigHandle (cn_Metadata conn), cs_Wastelands = um_Wastelands (cn_Metadata conn),
      cs_Status = cn_Status conn, cs_LastValidatedAt = cn_LastValidatedAt conn,
      cs_LastValidationErrorCode = cn_LastValidationErrorCode conn, cs_CreatedAt = cn_CreatedAt conn,
      cs_UpdatedAt = cn_UpdatedAt conn, cs_RecordVersion = cn_RecordVersion conn\<rparr>"

section \<open>Errors\<close>

text \<open>
  The sentinel errors the callers distinguish with \<^verbatim>\<open>errors.Is\<close>; \<open>ErrInvalidMetadata\<close> and
  \<open>ErrValidation\<close> (the \<^verbatim>\<open>ValidationError\<close>) carry what they wrap, \<open>StoreErr\<close> is any other.
\<close>

datatype auth_error =
    ErrNotFound
  | ErrConflict
  | ErrInvalidMetadata string
  | ErrInvalidConnectToken
  | ErrExpiredConnectToken
  | ErrMetadataMismatch
  | ErrServiceUnauthorized
  | ErrServiceReplay
  | ErrLastWasteland
  | ErrWastelandNotFound
  | ErrValidation string go_error
  | StoreErr go_error

section \<open>Validation\<close>

definition alnum_ch :: "char \<Rightarrow> bool" where
  "alnum_ch c \<longleftrightarrow> c \<in> set ''ABCDEFGHIJKLMNOPQRSTUVWXYZabcdefghijklmnopqrstuvwxyz0123456789''"

text \<open>\<^verbatim>\<open>metadataSlugRe\<close>: an alphanumeric, then at most 63 alphanumerics, underscores and hyphens.\<close>

definition is_slug :: "string \<Rightarrow> bool" where
  "is_slug s \<longleftrightarrow>
     (case s of
        [] \<Rightarrow> False
      | c # cs \<Rightarrow> alnum_ch c \<and> length cs \<le> 63 \<and> list_all (\<lambda>d. alnum_ch d \<or> d = CHR ''_'' \<or> d = CHR ''-'') cs)"

definition validateSlug :: "string \<Rightarrow> string \<Rightarrow> go_error option" where
  "validateSlug field value =
     (if \<not> is_slug (TrimSpace value)
      then Some (Err (Sprintf ''%s must be 1-64 alphanumeric characters, hyphens, or underscores'' [FS field]))
      else None)"

text \<open>\<^verbatim>\<open>strings.Cut\<close> with a one-byte separator.\<close>

definition Cut :: "string \<Rightarrow> char \<Rightarrow> string \<times> string \<times> bool" where
  "Cut s sep =
     (if sep \<in> set s then (takeWhile (\<lambda>c. c \<noteq> sep) s, tl (dropWhile (\<lambda>c. c \<noteq> sep) s), True)
      else (s, [], False))"

definition validateUpstream :: "string \<Rightarrow> go_error option" where
  "validateUpstream value =
     (let (org, db, ok) = Cut value (CHR ''/'')
      in if \<not> ok \<or> org = [] \<or> db = [] then Some (Err ''upstream must be in org/db format'')
         else (case validateSlug ''upstream org'' org of
                 Some err \<Rightarrow> Some err
               | None \<Rightarrow> validateSlug ''upstream db'' db))"

definition normalizeMode :: "string \<Rightarrow> string" where
  "normalizeMode mode = (let m = TrimSpace mode in if m = [] then ''pr'' else m)"

definition validateMode :: "string \<Rightarrow> go_error option" where
  "validateMode mode =
     (if normalizeMode mode = ''pr'' \<or> normalizeMode mode = ''wild-west'' then None
      else Some (Err ''mode must be \"pr\" or \"wild-west\"''))"

definition validateWastelandConfig :: "WastelandConfig \<Rightarrow> go_error option" where
  "validateWastelandConfig wl =
     (case validateSlug ''fork_org'' (wl_ForkOrg wl) of
        Some err \<Rightarrow> Some err
      | None \<Rightarrow>
          (case validateSlug ''fork_db'' (wl_ForkDB wl) of
             Some err \<Rightarrow> Some err
           | None \<Rightarrow>
               (case validateUpstream (wl_Upstream wl) of
                  Some err \<Rightarrow> Some err
                | None \<Rightarrow> validateMode (wl_Mode wl))))"

text \<open>The first error of a list of checks.\<close>

fun first_error :: "('a \<Rightarrow> go_error option) \<Rightarrow> 'a list \<Rightarrow> go_error option" where
  "first_error f [] = None"
| "first_error f (x # xs) = (case f x of Some err \<Rightarrow> Some err | None \<Rightarrow> first_error f xs)"

definition validateMetadata :: "UserMetadata \<Rightarrow> go_error option" where
  "validateMetadata meta =
     (case validateSlug ''rig_handle'' (um_RigHandle meta) of
        Some err \<Rightarrow> Some err
      | None \<Rightarrow>
          if um_Wastelands meta = [] then Some (Err ''at least one wasteland is required'')
          else first_error validateWastelandConfig (um_Wastelands meta))"

lemma first_error_None: "first_error f xs = None \<longleftrightarrow> (\<forall>x \<in> set xs. f x = None)"
  by (induction xs) (auto split: option.splits)

section \<open>Decoding requests\<close>

text \<open>
  An integer member: \<^verbatim>\<open>null\<close> leaves the field, a number that is no 64-bit integer is an error.
\<close>

definition int_member :: "string \<Rightarrow> (string \<times> json) \<Rightarrow> int \<times> bool \<Rightarrow> int \<times> bool" where
  "int_member name m acc =
     (if fold_eq (fst m) name
      then (case snd m of
              JNull \<Rightarrow> acc
            | v \<Rightarrow> (case json_int v of Some n \<Rightarrow> (n, snd acc) | None \<Rightarrow> (fst acc, False)))
      else acc)"

definition num_field :: "string \<Rightarrow> (string \<times> json) list \<Rightarrow> int \<times> bool" where
  "num_field name ms = fold (int_member name) ms (0, True)"

definition decode_wasteland :: "(string \<times> json) list \<Rightarrow> WastelandConfig \<times> bool" where
  "decode_wasteland ms =
     (let (u, ok1) = str_field ''upstream'' ms; (fo, ok2) = str_field ''fork_org'' ms;
          (fd, ok3) = str_field ''fork_db'' ms; (m, ok4) = str_field ''mode'' ms;
          (sg, ok5) = bool_field ''signing'' ms
      in (\<lparr>wl_Upstream = u, wl_ForkOrg = fo, wl_ForkDB = fd, wl_Mode = m, wl_Signing = sg\<rparr>,
          ok1 \<and> ok2 \<and> ok3 \<and> ok4 \<and> ok5))"

definition wasteland_elem :: "json \<Rightarrow> WastelandConfig \<times> bool" where
  "wasteland_elem j =
     (case j of
        JObj ms \<Rightarrow> decode_wasteland ms
      | JNull \<Rightarrow> decode_wasteland []
      | _ \<Rightarrow> (fst (decode_wasteland []), False))"

text \<open>The array of entries; a repeated member replaces the earlier one.\<close>

definition wastelands_member ::
  "(string \<times> json) \<Rightarrow> WastelandConfig list \<times> bool \<Rightarrow> WastelandConfig list \<times> bool" where
  "wastelands_member m acc =
     (if fold_eq (fst m) ''wastelands''
      then (case snd m of
              JArr js \<Rightarrow> (map (fst \<circ> wasteland_elem) js, snd acc \<and> list_all (snd \<circ> wasteland_elem) js)
            | JNull \<Rightarrow> ([], snd acc)
            | _ \<Rightarrow> (fst acc, False))
      else acc)"

definition decode_metadata :: "(string \<times> json) list \<Rightarrow> UserMetadata \<times> bool" where
  "decode_metadata ms =
     (let (rig, ok1) = str_field ''rig_handle'' ms; (ws, ok2) = fold wastelands_member ms ([], True)
      in (\<lparr>um_RigHandle = rig, um_Wastelands = ws\<rparr>, ok1 \<and> ok2))"

record CreateConnectTokenRequest =
  cc_SubjectID :: string
  cc_Metadata :: UserMetadata
  cc_TTLSeconds :: int

record RedeemConnectTokenRequest =
  rr_ConnectToken :: string
  rr_RedeemSecret :: string
  rr_APIKey :: string
  rr_Metadata :: UserMetadata

record WastelandUpsertRequest =
  wu_RecordVersion :: int
  wu_Wasteland :: WastelandConfig

record WastelandSettingsPatchRequest =
  ws_RecordVersion :: int
  ws_Mode :: string
  ws_Signing :: bool

record RigHandlePatchRequest =
  rp_RecordVersion :: int
  rp_RigHandle :: string

definition decode_create :: "string \<Rightarrow> CreateConnectTokenRequest option" where
  "decode_create body =
     Option.bind (struct_members body) (\<lambda>ms.
       (let (subj, ok1) = str_field ''subject_id'' ms; (mms, ok2) = obj_field ''metadata'' ms;
            (meta, ok3) = decode_metadata mms; (ttl, ok4) = num_field ''ttl_seconds'' ms
        in if ok1 \<and> ok2 \<and> ok3 \<and> ok4
           then Some \<lparr>cc_SubjectID = subj, cc_Metadata = meta, cc_TTLSeconds = ttl\<rparr> else None))"

text \<open>\<^verbatim>\<open>json.NewDecoder(r.Body).Decode\<close>: the first JSON value of the body, whatever follows it.\<close>

definition stream_members :: "string \<Rightarrow> (string \<times> json) list option" where
  "stream_members body =
     (case json_val (2 * length body + 2) body of
        Some (JObj ms, _) \<Rightarrow> Some ms
      | Some (JNull, _) \<Rightarrow> Some []
      | _ \<Rightarrow> None)"

definition decode_redeem :: "string \<Rightarrow> RedeemConnectTokenRequest option" where
  "decode_redeem body =
     Option.bind (stream_members body) (\<lambda>ms.
       (let (tok, ok1) = str_field ''connect_token'' ms; (secret, ok2) = str_field ''redeem_secret'' ms;
            (key, ok3) = str_field ''api_key'' ms; (mms, ok4) = obj_field ''metadata'' ms;
            (meta, ok5) = decode_metadata mms
        in if ok1 \<and> ok2 \<and> ok3 \<and> ok4 \<and> ok5
           then Some \<lparr>rr_ConnectToken = tok, rr_RedeemSecret = secret, rr_APIKey = key, rr_Metadata = meta\<rparr>
           else None))"

definition decode_upsert :: "string \<Rightarrow> WastelandUpsertRequest option" where
  "decode_upsert body =
     Option.bind (struct_members body) (\<lambda>ms.
       (let (v, ok1) = num_field ''record_version'' ms; (wms, ok2) = obj_field ''wasteland'' ms;
            (wl, ok3) = decode_wasteland wms
        in if ok1 \<and> ok2 \<and> ok3 then Some \<lparr>wu_RecordVersion = v, wu_Wasteland = wl\<rparr> else None))"

definition decode_settings :: "string \<Rightarrow> WastelandSettingsPatchRequest option" where
  "decode_settings body =
     Option.bind (struct_members body) (\<lambda>ms.
       (let (v, ok1) = num_field ''record_version'' ms; (m, ok2) = str_field ''mode'' ms;
            (sg, ok3) = bool_field ''signing'' ms
        in if ok1 \<and> ok2 \<and> ok3 then Some \<lparr>ws_RecordVersion = v, ws_Mode = m, ws_Signing = sg\<rparr> else None))"

definition decode_rig_handle :: "string \<Rightarrow> RigHandlePatchRequest option" where
  "decode_rig_handle body =
     Option.bind (struct_members body) (\<lambda>ms.
       (let (v, ok1) = num_field ''record_version'' ms; (rig, ok2) = str_field ''rig_handle'' ms
        in if ok1 \<and> ok2 then Some \<lparr>rp_RecordVersion = v, rp_RigHandle = rig\<rparr> else None))"

definition decode_version :: "string \<Rightarrow> int option" where
  "decode_version body =
     Option.bind (struct_members body) (\<lambda>ms.
       (let (v, ok) = num_field ''record_version'' ms in if ok then Some v else None))"

section \<open>Facts about the metadata\<close>

lemma upsert_entry_upstreams:
  "wl_Upstream ` set (upsert_entry wl ws) = insert (wl_Upstream wl) (wl_Upstream ` set ws)"
  by (induction ws) auto

lemma upsert_entry_distinct:
  "distinct (map wl_Upstream ws) \<Longrightarrow> distinct (map wl_Upstream (upsert_entry wl ws))"
  using upsert_entry_upstreams by (induction ws) auto

lemma upsert_entry_find:
  "find (\<lambda>w. wl_Upstream w = u) (upsert_entry wl ws) =
     (if u = wl_Upstream wl then Some wl else find (\<lambda>w. wl_Upstream w = u) ws)"
  by (induction ws) auto

lemma upsert_entry_ok: "\<forall>w \<in> set ws. P w \<Longrightarrow> P wl \<Longrightarrow> \<forall>w \<in> set (upsert_entry wl ws). P w"
  by (induction ws) auto

lemma upsert_entry_not_Nil [simp]: "upsert_entry wl ws \<noteq> []"
  by (cases ws) auto

end
