(* ===== verification/ApiTypes.thy ===== *)
theory ApiTypes
  imports GoJsonOut AuthTypes Sdk
begin

text \<open>
  \<^verbatim>\<open>internal/api/types.go\<close>: the answers of the HTTP API with the conversions into them and their JSON
  texts, and the bodies of its requests with their decoding.
\<close>

definition allowsPendingSubmissionState :: "string \<Rightarrow> bool" where
  "allowsPendingSubmissionState status \<longleftrightarrow> status \<in> set [''open'', ''claimed'', ''in_review'']"

section \<open>Answers\<close>

record PendingItemJSON =
  pj_RigHandle :: string
  pj_Status :: string
  pj_PRURL :: string
  pj_BranchURL :: string

record WantedSummaryJSON =
  wj_ID :: string
  wj_Title :: string
  wj_Description :: string
  wj_Project :: string
  wj_Type :: string
  wj_Priority :: int
  wj_PostedBy :: string
  wj_ClaimedBy :: string
  wj_Status :: string
  wj_EffortLevel :: string
  wj_PendingCount :: int
  wj_PendingItems :: "PendingItemJSON list"

record BrowseResponse =
  bj_Items :: "WantedSummaryJSON list"
  bj_Warning :: string

text \<open>The JSON structs of an item, a completion and a stamp hold the fields of the commons structs.\<close>

record WantedItemJSON =
  ij_ID :: string
  ij_Title :: string
  ij_Description :: string
  ij_Project :: string
  ij_Type :: string
  ij_Priority :: int
  ij_Tags :: "string list"
  ij_PostedBy :: string
  ij_ClaimedBy :: string
  ij_Status :: string
  ij_EffortLevel :: string
  ij_CreatedAt :: string
  ij_UpdatedAt :: string

record CompletionJSON =
  cj_ID :: string
  cj_WantedID :: string
  cj_CompletedBy :: string
  cj_Evidence :: string
  cj_StampID :: string
  cj_ValidatedBy :: string

record StampJSON =
  sj_ID :: string
  sj_Author :: string
  sj_Subject :: string
  sj_Quality :: int
  sj_Reliability :: int
  sj_Severity :: string
  sj_ContextID :: string
  sj_ContextType :: string
  sj_SkillTags :: "string list"
  sj_Message :: string

record UpstreamPRJSON =
  uj_IsUpstream :: bool
  uj_RigHandle :: string
  uj_Status :: string
  uj_ClaimedBy :: string
  uj_Branch :: string
  uj_BranchURL :: string
  uj_PRURL :: string
  uj_Delta :: string
  uj_CompletedBy :: string
  uj_Evidence :: string

record DetailResponse =
  dj_Item :: "WantedItemJSON option"
  dj_Completion :: "CompletionJSON option"
  dj_Stamp :: "StampJSON option"
  dj_Branch :: string
  dj_BranchURL :: string
  dj_MainStatus :: string
  dj_PRURL :: string
  dj_Delta :: string
  dj_Actions :: "string list"
  dj_BranchActions :: "string list"
  dj_Mode :: string
  dj_UpstreamPRs :: "UpstreamPRJSON list"

record MutationResponse =
  mj_Detail :: "DetailResponse option"
  mj_Branch :: string
  mj_Hint :: string

record DashboardResponse =
  hj_Claimed :: "WantedSummaryJSON list"
  hj_InReview :: "WantedSummaryJSON list"
  hj_Completed :: "WantedSummaryJSON list"

record UpstreamInfoJSON =
  nj_Upstream :: string
  nj_ForkOrg :: string
  nj_ForkDB :: string
  nj_Mode :: string

record ConfigResponse =
  gj_RigHandle :: string
  gj_Mode :: string
  gj_Hosted :: bool
  gj_Connected :: bool
  gj_Upstream :: string
  gj_Upstreams :: "UpstreamInfoJSON list"

text \<open>Of \<^verbatim>\<open>BootstrapResponse\<close> the handler leaves \<^verbatim>\<open>Authenticated\<close> false and \<^verbatim>\<open>Wastelands\<close> nil.\<close>

record BootstrapResponse =
  oj_Connected :: bool
  oj_Hosted :: bool
  oj_RigHandle :: string
  oj_Environment :: string
  oj_ActiveUpstream :: string
  oj_Mode :: string

section \<open>Conversions\<close>

definition toWantedItemJSON :: "WantedItem \<Rightarrow> WantedItemJSON" where
  "toWantedItemJSON item =
     \<lparr>ij_ID = wi_ID item, ij_Title = wi_Title item, ij_Description = wi_Description item,
      ij_Project = wi_Project item, ij_Type = wi_Type item, ij_Priority = wi_Priority item,
      ij_Tags = wi_Tags item, ij_PostedBy = wi_PostedBy item, ij_ClaimedBy = wi_ClaimedBy item,
      ij_Status = wi_Status item, ij_EffortLevel = wi_EffortLevel item, ij_CreatedAt = wi_CreatedAt item,
      ij_UpdatedAt = wi_UpdatedAt item\<rparr>"

definition toCompletionJSON :: "CompletionRecord \<Rightarrow> CompletionJSON" where
  "toCompletionJSON c =
     \<lparr>cj_ID = cr_ID c, cj_WantedID = cr_WantedID c, cj_CompletedBy = cr_CompletedBy c, cj_Evidence = cr_Evidence c,
      cj_StampID = cr_StampID c, cj_ValidatedBy = cr_ValidatedBy c\<rparr>"

definition toStampJSON :: "Stamp \<Rightarrow> StampJSON" where
  "toStampJSON s =
     \<lparr>sj_ID = st_ID s, sj_Author = st_Author s, sj_Subject = st_Subject s, sj_Quality = st_Quality s,
      sj_Reliability = st_Reliability s, sj_Severity = st_Severity s, sj_ContextID = st_ContextID s,
      sj_ContextType = st_ContextType s, sj_SkillTags = st_SkillTags s, sj_Message = st_Message s\<rparr>"

definition arrow_text :: string where
  "arrow_text = [space_ch, CHR 0xE2, CHR 0x86, CHR 0x92, space_ch]"

text \<open>A completion that main already has in review, and a pending submission, as entries.\<close>

definition main_submission :: "CompletionRecord \<Rightarrow> UpstreamPRJSON" where
  "main_submission c =
     \<lparr>uj_IsUpstream = False, uj_RigHandle = cr_CompletedBy c, uj_Status = ''in_review'', uj_ClaimedBy = [],
      uj_Branch = [], uj_BranchURL = [], uj_PRURL = [], uj_Delta = [], uj_CompletedBy = cr_CompletedBy c,
      uj_Evidence = cr_Evidence c\<rparr>"

definition pending_submission :: "WantedItem option \<Rightarrow> PendingItem \<Rightarrow> UpstreamPRJSON" where
  "pending_submission itemp p =
     \<lparr>uj_IsUpstream = True, uj_RigHandle = pi_RigHandle p, uj_Status = pi_Status p, uj_ClaimedBy = pi_ClaimedBy p,
      uj_Branch = pi_Branch p, uj_BranchURL = pi_BranchURL p, uj_PRURL = pi_PRURL p,
      uj_Delta = (case itemp of
                    Some item \<Rightarrow> if pi_Status p \<noteq> [] \<and> pi_Status p \<noteq> wi_Status item
                                 then wi_Status item @ arrow_text @ pi_Status p else []
                  | None \<Rightarrow> []),
      uj_CompletedBy = pi_CompletedBy p, uj_Evidence = pi_Evidence p\<rparr>"

text \<open>The claimer shown when there are submissions.\<close>

definition overlay_claimer :: "UpstreamPRJSON list \<Rightarrow> WantedItemJSON \<Rightarrow> WantedItemJSON" where
  "overlay_claimer prs item =
     (if prs = [] then item
      else if 1 < length prs + (if ij_ClaimedBy item \<noteq> [] then 1 else 0)
      then item\<lparr>ij_ClaimedBy := ''Multiple (pending)''\<rparr>
      else if uj_ClaimedBy (hd prs) \<noteq> [] then item\<lparr>ij_ClaimedBy := uj_ClaimedBy (hd prs) @ '' (pending)''\<rparr>
      else item)"

definition toDetailResponse :: "DetailResult \<Rightarrow> string \<Rightarrow> DetailResponse" where
  "toDetailResponse d mode =
     (let own = (case (dr_Item d, dr_Completion d) of
                   (Some item, Some c) \<Rightarrow> if wi_Status item = ''in_review'' then [main_submission c] else []
                 | _ \<Rightarrow> []);
          listed = own @ map (pending_submission (dr_Item d)) (dr_UpstreamPRs d);
          prs = (case dr_Item d of
                   Some item \<Rightarrow> if \<not> allowsPendingSubmissionState (wi_Status item) then [] else listed
                 | None \<Rightarrow> listed)
      in \<lparr>dj_Item = map_option (overlay_claimer prs \<circ> toWantedItemJSON) (dr_Item d),
          dj_Completion = map_option toCompletionJSON (dr_Completion d),
          dj_Stamp = map_option toStampJSON (dr_Stamp d), dj_Branch = dr_Branch d, dj_BranchURL = dr_BranchURL d,
          dj_MainStatus = dr_MainStatus d, dj_PRURL = dr_PRURL d, dj_Delta = dr_Delta d,
          dj_Actions = map TransitionName (dr_Actions d), dj_BranchActions = dr_BranchActions d, dj_Mode = mode,
          dj_UpstreamPRs = prs\<rparr>)"

definition toMutationResponse :: "MutationResult \<Rightarrow> string \<Rightarrow> MutationResponse" where
  "toMutationResponse r mode =
     \<lparr>mj_Detail = map_option (\<lambda>d. toDetailResponse d mode) (mr_Detail r), mj_Branch = mr_Branch r,
      mj_Hint = mr_Hint r\<rparr>"

definition toSummaryJSON :: "WantedSummary \<Rightarrow> nat \<Rightarrow> PendingItem list \<Rightarrow> WantedSummaryJSON" where
  "toSummaryJSON s pendingCount pending =
     \<lparr>wj_ID = ws_ID s, wj_Title = ws_Title s, wj_Description = ws_Description s, wj_Project = ws_Project s,
      wj_Type = ws_Type s, wj_Priority = ws_Priority s, wj_PostedBy = ws_PostedBy s, wj_ClaimedBy = ws_ClaimedBy s,
      wj_Status = ws_Status s, wj_EffortLevel = ws_EffortLevel s, wj_PendingCount = int pendingCount,
      wj_PendingItems = map (\<lambda>p. \<lparr>pj_RigHandle = pi_RigHandle p, pj_Status = pi_Status p, pj_PRURL = pi_PRURL p,
                                   pj_BranchURL = pi_BranchURL p\<rparr>) pending\<rparr>"

definition toBrowseResponse :: "BrowseResult \<Rightarrow> BrowseResponse" where
  "toBrowseResponse r =
     \<lparr>bj_Items = map (\<lambda>s. toSummaryJSON s (br_PendingIDs r (ws_ID s)) (pending_of (br_UpstreamPending r) (ws_ID s)))
                    (br_Items r),
      bj_Warning = []\<rparr>"

definition toDashboardResponse :: "DashboardData \<Rightarrow> DashboardResponse" where
  "toDashboardResponse d =
     (let convert = map (\<lambda>s. toSummaryJSON s 0 [])
      in \<lparr>hj_Claimed = convert (dd_Claimed d), hj_InReview = convert (dd_InReview d),
          hj_Completed = convert (dd_Completed d)\<rparr>)"

end
