(* ===== verification/AuthStore.thy ===== *)
theory AuthStore
  imports AuthTypes
begin

text \<open>
  \<^verbatim>\<open>internal/dolthubauth/store.go\<close> over the tables of \<^verbatim>\<open>schema.go\<close>: a table is the list of its
  rows, a transaction is one step and is undone by any error in it.  \<open>flt\<close> names the errors the
  database gives beyond the tables' constraints, by statement.  Postgres keeps a time to the
  microsecond, into which the driver cuts the nanoseconds.
\<close>

section \<open>Tables\<close>

record token_row =
  tk_MAC :: string
  tk_SecretMAC :: string
  tk_Tenant :: string
  tk_Env :: string
  tk_Subject :: string
  tk_Metadata :: UserMetadata
  tk_ExpiresAt :: int
  tk_UsedAt :: "int option"
  tk_CreatedAt :: int

text \<open>A row of \<^verbatim>\<open>connections\<close>: the columns of the non-secret view, then the credential's.\<close>

record conn_row =
  cw_View :: Connection
  cw_Ciphertext :: string
  cw_KeyVersion :: string
  cw_Backend :: string

record nonce_row =
  nc_Key :: string
  nc_Nonce :: string
  nc_ExpiresAt :: int

record audit_row =
  au_Tenant :: string
  au_Env :: string
  au_Subject :: string
  au_Connection :: string
  au_Action :: string

record pg =
  pg_tokens :: "token_row list"
  pg_conns :: "conn_row list"
  pg_nonces :: "nonce_row list"
  pg_audit :: "audit_row list"

type_synonym faults = "string \<Rightarrow> go_error option"

definition to_us :: "int \<Rightarrow> int" where
  "to_us t = t div 1000 * 1000"

text \<open>The store knows its tenant and environment.\<close>

record PostgresStore =
  ps_tenantID :: string
  ps_environment :: string

section \<open>Connect tokens\<close>

definition reapExpiredConnectTokens :: "int \<Rightarrow> pg \<Rightarrow> pg" where
  "reapExpiredConnectTokens now p = p\<lparr>pg_tokens := filter (\<lambda>t. to_us now < tk_ExpiresAt t) (pg_tokens p)\<rparr>"

definition CreateConnectToken ::
  "faults \<Rightarrow> PostgresStore \<Rightarrow> string \<Rightarrow> string \<Rightarrow> string \<Rightarrow> UserMetadata \<Rightarrow> int \<Rightarrow> int \<Rightarrow> pg
     \<Rightarrow> auth_error option \<times> pg" where
  "CreateConnectToken flt st connectTokenMAC redeemSecretMAC subjectID metadata expiresAt now p =
     (case flt ''reap tokens'' of
        Some err \<Rightarrow> (Some (StoreErr (Wrap ''reap expired connect tokens: '' err)), p)
      | None \<Rightarrow>
          (let p1 = reapExpiredConnectTokens now p
           in case flt ''insert token'' of
                Some err \<Rightarrow> (Some (StoreErr (Wrap ''insert connect token: '' err)), p1)
              | None \<Rightarrow>
                  if list_ex (\<lambda>t. tk_MAC t = connectTokenMAC) (pg_tokens p1)
                  then (Some (StoreErr (Err ''insert connect token: duplicate key'')), p1)
                  else (None, p1\<lparr>pg_tokens := pg_tokens p1 @
                          [\<lparr>tk_MAC = connectTokenMAC, tk_SecretMAC = redeemSecretMAC, tk_Tenant = ps_tenantID st,
                            tk_Env = ps_environment st, tk_Subject = subjectID, tk_Metadata = metadata,
                            tk_ExpiresAt = to_us expiresAt, tk_UsedAt = None, tk_CreatedAt = to_us now\<rparr>]\<rparr>)))"

definition connectTokenExpired :: "int \<Rightarrow> int \<Rightarrow> bool" where
  "connectTokenExpired now expiresAt \<longleftrightarrow> \<not> now < expiresAt"

text \<open>
  \<^verbatim>\<open>equalMetadata\<close> compares the JSON texts; both sides were decoded from JSON, and what
  is decoded, entries included, determines the text.
\<close>

definition equalMetadata :: "UserMetadata \<Rightarrow> UserMetadata \<Rightarrow> bool" where
  "equalMetadata a b \<longleftrightarrow> a = b"

text \<open>
  \<open>ri_Encrypt\<close> gives ciphertext, key version and backend; \<open>ri_Validate\<close> a code and an error.
\<close>

record RedeemInput =
  ri_TenantID :: string
  ri_Environment :: string
  ri_ConnectTokenMAC :: string
  ri_RedeemSecretMAC :: string
  ri_Metadata :: UserMetadata
  ri_APIKey :: string
  ri_Now :: int
  ri_Encrypt :: "string \<Rightarrow> go_error + (string \<times> string \<times> string)"
  ri_Validate :: "string \<Rightarrow> string \<times> go_error option"

text \<open>The guards of a redemption, in their order; what is left is the token and the credential.\<close>

definition redeem_token :: "RedeemInput \<Rightarrow> pg \<Rightarrow> auth_error + token_row" where
  "redeem_token input p =
     (case find (\<lambda>t. tk_MAC t = ri_ConnectTokenMAC input) (pg_tokens p) of
        None \<Rightarrow> Inl ErrInvalidConnectToken
      | Some t \<Rightarrow>
          if tk_UsedAt t \<noteq> None then Inl ErrInvalidConnectToken
          else if connectTokenExpired (ri_Now input) (tk_ExpiresAt t) then Inl ErrExpiredConnectToken
          else if tk_Tenant t \<noteq> ri_TenantID input \<or> tk_Env t \<noteq> ri_Environment input
          then Inl ErrInvalidConnectToken
          else if tk_SecretMAC t \<noteq> ri_RedeemSecretMAC input then Inl ErrInvalidConnectToken
          else if \<not> equalMetadata (tk_Metadata t) (ri_Metadata input) then Inl ErrMetadataMismatch
          else Inr t)"

definition redeem_credential :: "RedeemInput \<Rightarrow> auth_error + (string \<times> string \<times> string)" where
  "redeem_credential input =
     (case ri_Validate input (ri_APIKey input) of
        (code, Some err) \<Rightarrow> Inl (ErrValidation (if code = [] then ''upstream_unreachable'' else code) err)
      | (code, None) \<Rightarrow>
          (case ri_Encrypt input (ri_APIKey input) of
             Inl err \<Rightarrow> Inl (StoreErr (Wrap ''encrypt credential: '' err))
           | Inr c \<Rightarrow> Inr c))"

definition same_subject :: "string \<Rightarrow> string \<Rightarrow> string \<Rightarrow> Connection \<Rightarrow> bool" where
  "same_subject tenantID environment subjectID c \<longleftrightarrow>
     cn_TenantID c = tenantID \<and> cn_Environment c = environment \<and> cn_SubjectID c = subjectID"

definition same_connection :: "string \<Rightarrow> string \<Rightarrow> string \<Rightarrow> string \<Rightarrow> Connection \<Rightarrow> bool" where
  "same_connection tenantID environment subjectID connectionID c \<longleftrightarrow>
     same_subject tenantID environment subjectID c \<and> cn_ConnectionID c = connectionID"

definition new_connection :: "string \<Rightarrow> RedeemInput \<Rightarrow> string \<Rightarrow> Connection" where
  "new_connection connectionID input subjectID =
     \<lparr>cn_ConnectionID = connectionID, cn_TenantID = ri_TenantID input, cn_Environment = ri_Environment input,
      cn_SubjectID = subjectID, cn_Metadata = ri_Metadata input, cn_Status = ''active'',
      cn_CredentialVersion = 1, cn_RecordVersion = 1, cn_LastValidatedAt = Some (to_us (ri_Now input)),
      cn_LastValidationErrorCode = [], cn_LastProxyErrorAt = None, cn_CreatedAt = to_us (ri_Now input),
      cn_UpdatedAt = to_us (ri_Now input)\<rparr>"

definition renewed_connection :: "RedeemInput \<Rightarrow> Connection \<Rightarrow> Connection" where
  "renewed_connection input c =
     c\<lparr>cn_Metadata := MergedWith (cn_Metadata c) (ri_Metadata input), cn_Status := ''active'',
       cn_CredentialVersion := cn_CredentialVersion c + 1, cn_RecordVersion := cn_RecordVersion c + 1,
       cn_LastValidatedAt := Some (to_us (ri_Now input)), cn_LastValidationErrorCode := [],
       cn_UpdatedAt := to_us (ri_Now input)\<rparr>"

text \<open>
  The insert or update of the subject's connection: the view that is read back, and the table.  An
  id that is taken is refused by the primary key.
\<close>

definition store_connection ::
  "faults \<Rightarrow> string \<Rightarrow> RedeemInput \<Rightarrow> string \<Rightarrow> string \<times> string \<times> string \<Rightarrow> conn_row list
     \<Rightarrow> auth_error + (Connection \<times> conn_row list)" where
  "store_connection flt newID input subjectID cred conns =
     (let row = (\<lambda>view. \<lparr>cw_View = view, cw_Ciphertext = fst cred, cw_KeyVersion = fst (snd cred),
                         cw_Backend = snd (snd cred)\<rparr>);
          mine = (\<lambda>r. same_subject (ri_TenantID input) (ri_Environment input) subjectID (cw_View r))
      in case find mine conns of
           None \<Rightarrow>
             (case flt ''insert connection'' of
                Some err \<Rightarrow> Inl (StoreErr (Wrap ''insert connection: '' err))
              | None \<Rightarrow>
                  if list_ex (\<lambda>r. cn_ConnectionID (cw_View r) = newID) conns
                  then Inl (StoreErr (Err ''insert connection: duplicate key''))
                  else (let view = new_connection newID input subjectID in Inr (view, conns @ [row view])))
         | Some old \<Rightarrow>
             (case flt ''update connection'' of
                Some err \<Rightarrow> Inl (StoreErr (Wrap ''update connection: '' err))
              | None \<Rightarrow>
                  (let view = renewed_connection input (cw_View old);
                       target = same_connection (ri_TenantID input) (ri_Environment input) subjectID
                                  (cn_ConnectionID (cw_View old))
                   in Inr (view, map (\<lambda>r. if target (cw_View r) then row view else r) conns))))"

definition RedeemConnectToken ::
  "faults \<Rightarrow> string \<Rightarrow> RedeemInput \<Rightarrow> pg \<Rightarrow> (auth_error + Connection) \<times> pg" where
  "RedeemConnectToken flt newID input p =
     (case flt ''redeem'' of
        Some err \<Rightarrow> (Inl (StoreErr err), p)
      | None \<Rightarrow>
          (case redeem_token input p of
             Inl err \<Rightarrow> (Inl err, p)
           | Inr t \<Rightarrow>
               (case redeem_credential input of
                  Inl err \<Rightarrow> (Inl err, p)
                | Inr cred \<Rightarrow>
                    (case store_connection flt newID input (tk_Subject t) cred (pg_conns p) of
                       Inl err \<Rightarrow> (Inl err, p)
                     | Inr (conn, conns) \<Rightarrow>
                         (case flt ''finish redeem'' of
                            Some err \<Rightarrow> (Inl (StoreErr err), p)
                          | None \<Rightarrow>
                              (Inr conn,
                               p\<lparr>pg_conns := conns,
                                 pg_tokens := map (\<lambda>u. if tk_MAC u = ri_ConnectTokenMAC input
                                                      then u\<lparr>tk_UsedAt := Some (to_us (ri_Now input))\<rparr> else u)
                                                (pg_tokens p),
                                 pg_audit := pg_audit p @
                                   [\<lparr>au_Tenant = ri_TenantID input, au_Env = ri_Environment input,
                                     au_Subject = tk_Subject t, au_Connection = cn_ConnectionID conn,
                                     au_Action = ''connection_redeemed''\<rparr>]\<rparr>))))))"

section \<open>Reading\<close>

definition GetConnection ::
  "faults \<Rightarrow> string \<Rightarrow> string \<Rightarrow> string \<Rightarrow> string \<Rightarrow> pg \<Rightarrow> auth_error + Connection" where
  "GetConnection flt tenantID environment subjectID connectionID p =
     (case flt ''get connection'' of
        Some err \<Rightarrow> Inl (StoreErr (Wrap ''get connection: '' err))
      | None \<Rightarrow>
          (case find (\<lambda>r. same_connection tenantID environment subjectID connectionID (cw_View r)) (pg_conns p) of
             None \<Rightarrow> Inl ErrNotFound
           | Some r \<Rightarrow> Inr (cw_View r)))"

definition GetConnectionCredential ::
  "faults \<Rightarrow> (string \<Rightarrow> string \<Rightarrow> string \<Rightarrow> go_error + string) \<Rightarrow> string \<Rightarrow> string \<Rightarrow> string \<Rightarrow> string \<Rightarrow> pg
     \<Rightarrow> auth_error + (Connection \<times> string)" where
  "GetConnectionCredential flt decrypt tenantID environment subjectID connectionID p =
     (case flt ''get credential'' of
        Some err \<Rightarrow> Inl (StoreErr (Wrap ''get credential: '' err))
      | None \<Rightarrow>
          (case find (\<lambda>r. same_connection tenantID environment subjectID connectionID (cw_View r)) (pg_conns p) of
             None \<Rightarrow> Inl ErrNotFound
           | Some r \<Rightarrow>
               (case decrypt (cw_Ciphertext r) (cw_KeyVersion r) (cw_Backend r) of
                  Inl err \<Rightarrow> Inl (StoreErr (Wrap ''decrypt credential: '' err))
                | Inr plaintext \<Rightarrow> Inr (cw_View r, plaintext))))"

section \<open>Changing the metadata\<close>

definition patched :: "UserMetadata \<Rightarrow> int \<Rightarrow> Connection \<Rightarrow> Connection" where
  "patched meta now c =
     c\<lparr>cn_Metadata := meta, cn_RecordVersion := cn_RecordVersion c + 1, cn_UpdatedAt := to_us now\<rparr>"

definition patchMetadataTx ::
  "faults \<Rightarrow> string \<Rightarrow> string \<Rightarrow> string \<Rightarrow> string \<Rightarrow> int \<Rightarrow> int \<Rightarrow> (UserMetadata \<Rightarrow> auth_error + UserMetadata) \<Rightarrow> pg
     \<Rightarrow> (auth_error + Connection) \<times> pg" where
  "patchMetadataTx flt tenantID environment subjectID connectionID expectedRecordVersion now change p =
     (let target = (\<lambda>r. same_connection tenantID environment subjectID connectionID (cw_View r))
      in case flt ''lock connection'' of
           Some err \<Rightarrow> (Inl (StoreErr err), p)
         | None \<Rightarrow>
             (case find target (pg_conns p) of
                None \<Rightarrow> (Inl ErrNotFound, p)
              | Some r \<Rightarrow>
                  if cn_RecordVersion (cw_View r) \<noteq> expectedRecordVersion then (Inl ErrConflict, p)
                  else
                    (case change (cn_Metadata (cw_View r)) of
                       Inl err \<Rightarrow> (Inl err, p)
                     | Inr meta \<Rightarrow>
                         (case validateMetadata meta of
                            Some err \<Rightarrow> (Inl (ErrInvalidMetadata (Error err)), p)
                          | None \<Rightarrow>
                              (case flt ''update metadata'' of
                                 Some err \<Rightarrow> (Inl (StoreErr err), p)
                               | None \<Rightarrow>
                                   (Inr (patched meta now (cw_View r)),
                                    p\<lparr>pg_conns := map (\<lambda>q. if target q then q\<lparr>cw_View := patched meta now (cw_View q)\<rparr> else q)
                                                    (pg_conns p)\<rparr>))))))"

definition PatchRigHandle ::
  "faults \<Rightarrow> string \<Rightarrow> string \<Rightarrow> string \<Rightarrow> string \<Rightarrow> string \<Rightarrow> int \<Rightarrow> int \<Rightarrow> pg \<Rightarrow> (auth_error + Connection) \<times> pg" where
  "PatchRigHandle flt tenantID environment subjectID connectionID rigHandle expectedRecordVersion now p =
     patchMetadataTx flt tenantID environment subjectID connectionID expectedRecordVersion now
       (\<lambda>meta. Inr (meta\<lparr>um_RigHandle := rigHandle\<rparr>)) p"

definition store_UpsertWasteland ::
  "faults \<Rightarrow> string \<Rightarrow> string \<Rightarrow> string \<Rightarrow> string \<Rightarrow> WastelandConfig \<Rightarrow> int \<Rightarrow> int \<Rightarrow> pg
     \<Rightarrow> (auth_error + Connection) \<times> pg" where
  "store_UpsertWasteland flt tenantID environment subjectID connectionID wasteland expectedRecordVersion now p =
     patchMetadataTx flt tenantID environment subjectID connectionID expectedRecordVersion now
       (\<lambda>meta. Inr (UpsertWasteland meta wasteland)) p"

definition DeleteWasteland ::
  "faults \<Rightarrow> string \<Rightarrow> string \<Rightarrow> string \<Rightarrow> string \<Rightarrow> string \<Rightarrow> int \<Rightarrow> int \<Rightarrow> pg \<Rightarrow> (auth_error + Connection) \<times> pg" where
  "DeleteWasteland flt tenantID environment subjectID connectionID upstream expectedRecordVersion now p =
     patchMetadataTx flt tenantID environment subjectID connectionID expectedRecordVersion now
       (\<lambda>meta. if length (um_Wastelands meta) \<le> 1 then Inl ErrLastWasteland
               else (case RemoveWasteland meta upstream of
                       (False, _) \<Rightarrow> Inl ErrWastelandNotFound
                     | (True, meta') \<Rightarrow> Inr meta')) p"

text \<open>The first entry of the upstream is changed in place.\<close>

fun set_entry :: "string \<Rightarrow> string \<Rightarrow> bool \<Rightarrow> WastelandConfig list \<Rightarrow> WastelandConfig list" where
  "set_entry upstream mode signing [] = []"
| "set_entry upstream mode signing (w # ws) =
     (if wl_Upstream w = upstream then w\<lparr>wl_Mode := mode, wl_Signing := signing\<rparr> # ws
      else w # set_entry upstream mode signing ws)"

definition PatchWastelandSettings ::
  "faults \<Rightarrow> string \<Rightarrow> string \<Rightarrow> string \<Rightarrow> string \<Rightarrow> string \<Rightarrow> string \<Rightarrow> bool \<Rightarrow> int \<Rightarrow> int \<Rightarrow> pg
     \<Rightarrow> (auth_error + Connection) \<times> pg" where
  "PatchWastelandSettings flt tenantID environment subjectID connectionID upstream mode signing expectedRecordVersion now p =
     patchMetadataTx flt tenantID environment subjectID connectionID expectedRecordVersion now
       (\<lambda>meta. case FindWasteland meta upstream of
                 None \<Rightarrow> Inl ErrWastelandNotFound
               | Some _ \<Rightarrow> Inr (meta\<lparr>um_Wastelands := set_entry upstream mode signing (um_Wastelands meta)\<rparr>)) p"

section \<open>Nonces\<close>

definition reapExpiredServiceNonces :: "int \<Rightarrow> pg \<Rightarrow> pg" where
  "reapExpiredServiceNonces now p = p\<lparr>pg_nonces := filter (\<lambda>n. to_us now < nc_ExpiresAt n) (pg_nonces p)\<rparr>"

definition UseServiceNonce ::
  "faults \<Rightarrow> string \<Rightarrow> string \<Rightarrow> int \<Rightarrow> int \<Rightarrow> pg \<Rightarrow> auth_error option \<times> pg" where
  "UseServiceNonce flt keyID nonce now expiresAt p =
     (case flt ''reap nonces'' of
        Some err \<Rightarrow> (Some (StoreErr (Wrap ''reap expired nonces: '' err)), p)
      | None \<Rightarrow>
          (let p1 = reapExpiredServiceNonces now p
           in case flt ''insert nonce'' of
                Some err \<Rightarrow> (Some (StoreErr (Wrap ''insert nonce: '' err)), p1)
              | None \<Rightarrow>
                  if list_ex (\<lambda>n. nc_Key n = keyID \<and> nc_Nonce n = nonce) (pg_nonces p1) then (Some ErrConflict, p1)
                  else (None, p1\<lparr>pg_nonces := pg_nonces p1 @
                          [\<lparr>nc_Key = keyID, nc_Nonce = nonce, nc_ExpiresAt = to_us expiresAt\<rparr>]\<rparr>)))"

end
