(* ===== verification/ServiceAuth.thy ===== *)
theory ServiceAuth
  imports AuthStore Remote
begin

text \<open>
  \<^verbatim>\<open>internal/dolthubauth/service_auth.go\<close>: the signature of a request between the hosted service
  and the auth service.  SHA-256, HMAC-SHA-256 and the parsing and printing of RFC 3339 times are the
  argument \<open>k\<close>.
\<close>

record auth_crypto =
  ac_sha :: "string \<Rightarrow> string"
  ac_hmac :: "string \<Rightarrow> string \<Rightarrow> string"
  ac_parse_time :: "string \<Rightarrow> int option"
  ac_format_time :: "int \<Rightarrow> string"

text \<open>A byte string in hexadecimal digits.\<close>

definition hex_text :: "string \<Rightarrow> string" where
  "hex_text s = concat (map (\<lambda>c. [hex_ch (code_of c div 16), hex_ch (code_of c mod 16)]) s)"

definition bodySHA256 :: "auth_crypto \<Rightarrow> string \<Rightarrow> string" where
  "bodySHA256 k body = hex_text (ac_sha k body)"

definition macSHA256 :: "auth_crypto \<Rightarrow> string \<Rightarrow> string \<Rightarrow> string" where
  "macSHA256 k secret part = ac_hmac k secret part"

text \<open>Nanoseconds in five minutes.\<close>

definition maxClockSkew :: int where
  "maxClockSkew = 300000000000"

record ServiceScope =
  sc_KeyID :: string
  sc_TenantID :: string
  sc_Environment :: string
  sc_SubjectID :: string
  sc_ConnectionID :: string
  sc_RequestID :: string

definition serviceAuthBaseString ::
  "string \<Rightarrow> string \<Rightarrow> string \<Rightarrow> string \<Rightarrow> string \<Rightarrow> string \<Rightarrow> string \<Rightarrow> string \<Rightarrow> string \<Rightarrow> string \<Rightarrow> string" where
  "serviceAuthBaseString keyID timestamp nonce meth requestURI bodyHash tenantID environment subjectID connectionID =
     Join [keyID, timestamp, nonce, meth, requestURI, bodyHash, tenantID, environment, subjectID, connectionID] [nl_ch]"

section \<open>The target\<close>

text \<open>
  \<^verbatim>\<open>url.QueryUnescape\<close>; \<open>None\<close> for a percent sign without two hexadecimal digits.
\<close>

fun QueryUnescape :: "string \<Rightarrow> string option" where
  "QueryUnescape [] = Some []"
| "QueryUnescape (c # s) =
     (if c = CHR ''%'' then
        (case s of
           a # b # r \<Rightarrow>
             (case (hex_val a, hex_val b) of
                (Some x, Some y) \<Rightarrow> map_option ((#) (char_of (16 * x + y))) (QueryUnescape r)
              | _ \<Rightarrow> None)
         | _ \<Rightarrow> None)
      else map_option ((#) (if c = CHR ''+'' then space_ch else c)) (QueryUnescape s))"

text \<open>
  \<^verbatim>\<open>url.ParseQuery\<close>: the pairs in their order, or an error for any pair with a semicolon or a bad
  escape; then \<^verbatim>\<open>Values.Encode\<close>: by key, and the values of a key in their order.
\<close>

definition parse_pair :: "string \<Rightarrow> (string \<times> string) option" where
  "parse_pair piece =
     (if CHR '';'' \<in> set piece then None
      else (let (a, b, _) = Cut piece (CHR ''='')
            in case (QueryUnescape a, QueryUnescape b) of
                 (Some x, Some y) \<Rightarrow> Some (x, y)
               | _ \<Rightarrow> None))"

definition ParseQuery :: "string \<Rightarrow> (string \<times> string) list option" where
  "ParseQuery q = those (map parse_pair (filter (\<lambda>piece. piece \<noteq> []) (Split q (CHR ''&''))))"

fun byte_le :: "string \<Rightarrow> string \<Rightarrow> bool" where
  "byte_le [] t = True"
| "byte_le (c # s) [] = False"
| "byte_le (c # s) (d # t) = (code_of c < code_of d \<or> c = d \<and> byte_le s t)"

fun insert_key :: "string \<times> string \<Rightarrow> (string \<times> string) list \<Rightarrow> (string \<times> string) list" where
  "insert_key p [] = [p]"
| "insert_key p (q # qs) = (if byte_le (fst p) (fst q) then p # q # qs else q # insert_key p qs)"

definition encode_values :: "(string \<times> string) list \<Rightarrow> string" where
  "encode_values ps =
     Join (map (\<lambda>p. QueryEscape (fst p) @ ''='' @ QueryEscape (snd p)) (foldr insert_key ps [])) ''&''"

definition serviceAuthRequestTarget :: "string \<Rightarrow> string \<Rightarrow> string" where
  "serviceAuthRequestTarget escapedPath rawQuery =
     (let path = (if escapedPath = [] then ''/'' else escapedPath)
      in if rawQuery = [] then path
         else (case ParseQuery rawQuery of
                 None \<Rightarrow> path @ ''?'' @ rawQuery
               | Some ps \<Rightarrow> path @ ''?'' @ encode_values ps))"

section \<open>Signing and verifying\<close>

definition signServiceRequest ::
  "auth_crypto \<Rightarrow> string \<Rightarrow> string \<Rightarrow> int \<Rightarrow> string \<Rightarrow> string \<Rightarrow> string \<Rightarrow> string \<Rightarrow> string \<Rightarrow> string \<Rightarrow> string \<Rightarrow> string
     \<Rightarrow> string \<times> string" where
  "signServiceRequest k secret keyID at nonce meth requestURI body tenantID environment subjectID connectionID =
     (let timestamp = ac_format_time k at;
          base = serviceAuthBaseString keyID timestamp nonce meth requestURI (bodySHA256 k body)
                   tenantID environment subjectID connectionID
      in (timestamp, hex_text (ac_hmac k secret base)))"

definition serviceAuthPrefix :: string where
  "serviceAuthPrefix = ''Wasteland-HMAC ''"

definition parseServiceAuthorization :: "string \<Rightarrow> string \<times> string \<times> bool" where
  "parseServiceAuthorization raw =
     (if \<not> HasPrefix raw serviceAuthPrefix then ([], [], False)
      else (let (keyID, signature, ok) = Cut (TrimPrefix raw serviceAuthPrefix) (CHR '':'')
            in if \<not> ok \<or> keyID = [] \<or> signature = [] then ([], [], False) else (keyID, signature, True)))"

text \<open>\<^verbatim>\<open>http.CanonicalHeaderKey\<close>: a letter at the start or after a hyphen in upper case.\<close>

definition token_ch :: "char \<Rightarrow> bool" where
  "token_ch c \<longleftrightarrow> alnum_ch c \<or> c \<in> set ''!#$%&*+-.^_|~'' \<or> c = quote_ch \<or> code_of c = 96"

fun canon_key :: "bool \<Rightarrow> string \<Rightarrow> string" where
  "canon_key up [] = []"
| "canon_key up (c # cs) = (if up then upper_byte c else lower_byte c) # canon_key (c = CHR ''-'') cs"

definition CanonicalHeaderKey :: "string \<Rightarrow> string" where
  "CanonicalHeaderKey s = (if list_all token_ch s then canon_key True s else s)"

type_synonym headers = "(string \<times> string list) list"

text \<open>\<^verbatim>\<open>Header.Get\<close>, \<^verbatim>\<open>Set\<close> and \<^verbatim>\<open>Add\<close>; the keys of the list are canonical and distinct.\<close>

definition Get :: "headers \<Rightarrow> string \<Rightarrow> string" where
  "Get hs name = (case map_of hs (CanonicalHeaderKey name) of Some (v # _) \<Rightarrow> v | _ \<Rightarrow> [])"

fun Set :: "headers \<Rightarrow> string \<Rightarrow> string \<Rightarrow> headers" where
  "Set [] name v = [(CanonicalHeaderKey name, [v])]"
| "Set ((n, vs) # hs) name v =
     (if n = CanonicalHeaderKey name then (n, [v]) # hs else (n, vs) # Set hs name v)"

fun Add :: "headers \<Rightarrow> string \<Rightarrow> string \<Rightarrow> headers" where
  "Add [] name v = [(CanonicalHeaderKey name, [v])]"
| "Add ((n, vs) # hs) name v =
     (if n = CanonicalHeaderKey name then (n, vs @ [v]) # hs else (n, vs) # Add hs name v)"

lemma map_of_Set:
  "map_of (Set hs name v) n = (if n = CanonicalHeaderKey name then Some [v] else map_of hs n)"
  by (induction hs name v rule: Set.induct) auto

lemma Get_Set: "Get (Set hs name v) n = (if CanonicalHeaderKey n = CanonicalHeaderKey name then v else Get hs n)"
  by (simp add: Get_def map_of_Set)

definition copyProxyHeaders :: "headers \<Rightarrow> headers \<Rightarrow> headers" where
  "copyProxyHeaders dst src =
     foldl (\<lambda>hs (key, values). if CanonicalHeaderKey key \<in> set
              ([''Authorization'', ''Connection'', ''Proxy-Connection'', ''Keep-Alive'', ''Te'', ''Trailer'',
                ''Transfer-Encoding'', ''Upgrade'', ''Host''] @
               map CanonicalHeaderKey [''X-Service-Timestamp'', ''X-Service-Nonce'', ''X-Service-Body-SHA256'',
                ''X-Auth-Tenant-Id'', ''X-Auth-Environment'', ''X-Auth-Subject-Id'', ''X-Auth-Connection-Id''])
            then hs else foldl (\<lambda>acc v. Add acc key v) hs values) dst src"

text \<open>
  A request as the handlers see it: \<open>rq_path\<close> is the escaped path, \<open>rq_query\<close> the raw query,
  \<open>rq_value\<close> the router's \<^verbatim>\<open>PathValue\<close>, \<open>rq_body\<close> the body or the error of reading it.
\<close>

record http_request =
  rq_method :: string
  rq_path :: string
  rq_query :: string
  rq_headers :: headers
  rq_value :: "string \<Rightarrow> string"
  rq_body :: "go_error + string"

definition header :: "http_request \<Rightarrow> string \<Rightarrow> string" where
  "header r name = TrimSpace (Get (rq_headers r) name)"

definition request_scope :: "string \<Rightarrow> http_request \<Rightarrow> ServiceScope" where
  "request_scope keyID r =
     \<lparr>sc_KeyID = keyID, sc_TenantID = header r ''X-Auth-Tenant-Id'', sc_Environment = header r ''X-Auth-Environment'',
      sc_SubjectID = header r ''X-Auth-Subject-Id'', sc_ConnectionID = header r ''X-Auth-Connection-Id'',
      sc_RequestID = header r ''X-Request-Id''\<rparr>"

text \<open>The text a request's signature is over.\<close>

definition request_base :: "auth_crypto \<Rightarrow> string \<Rightarrow> http_request \<Rightarrow> string \<Rightarrow> string" where
  "request_base k keyID r body =
     (let scope = request_scope keyID r
      in serviceAuthBaseString keyID (header r ''X-Service-Timestamp'') (header r ''X-Service-Nonce'') (rq_method r)
           (serviceAuthRequestTarget (rq_path r) (rq_query r)) (bodySHA256 k body)
           (sc_TenantID scope) (sc_Environment scope) (sc_SubjectID scope) (sc_ConnectionID scope))"

text \<open>
  The checks of \<^verbatim>\<open>verifyServiceRequest\<close> that need no state, in their order: the scope, the nonce and
  the time of a request that is signed.  \<open>keys\<close> is \<^verbatim>\<open>lookupServiceSecret\<close>.
\<close>

definition signed_request ::
  "auth_crypto \<Rightarrow> (string \<Rightarrow> string option) \<Rightarrow> int \<Rightarrow> http_request \<Rightarrow> string \<Rightarrow> string \<Rightarrow> string
     \<Rightarrow> (ServiceScope \<times> string \<times> int) option" where
  "signed_request k keys now r body expectedTenantID expectedEnvironment =
     (case parseServiceAuthorization (Get (rq_headers r) ''Authorization'') of
        (keyID, signature, ok) \<Rightarrow>
          if \<not> ok then None
          else (case keys keyID of
                  None \<Rightarrow> None
                | Some secret \<Rightarrow>
                    (case ac_parse_time k (header r ''X-Service-Timestamp'') of
                       None \<Rightarrow> None
                     | Some timestamp \<Rightarrow>
                         (let nonce = header r ''X-Service-Nonce''; scope = request_scope keyID r
                          in if maxClockSkew < now - timestamp \<or> now - timestamp < - maxClockSkew then None
                             else if nonce = [] then None
                             else if bodySHA256 k body \<noteq> header r ''X-Service-Body-SHA256'' then None
                             else if sc_TenantID scope \<noteq> expectedTenantID \<or> sc_Environment scope \<noteq> expectedEnvironment
                             then None
                             else if signature \<noteq> hex_text (ac_hmac k secret (request_base k keyID r body)) then None
                             else Some (scope, nonce, timestamp)))))"

definition verifyServiceRequest ::
  "auth_crypto \<Rightarrow> faults \<Rightarrow> (string \<Rightarrow> string option) \<Rightarrow> int \<Rightarrow> http_request \<Rightarrow> string \<Rightarrow> string \<Rightarrow> string \<Rightarrow> pg
     \<Rightarrow> (auth_error + ServiceScope) \<times> pg" where
  "verifyServiceRequest k flt keys now r body expectedTenantID expectedEnvironment p =
     (case signed_request k keys now r body expectedTenantID expectedEnvironment of
        None \<Rightarrow> (Inl ErrServiceUnauthorized, p)
      | Some (scope, nonce, timestamp) \<Rightarrow>
          (case UseServiceNonce flt (sc_KeyID scope) nonce now (timestamp + maxClockSkew) p of
             (None, p1) \<Rightarrow> (Inr scope, p1)
           | (Some err, p1) \<Rightarrow> (Inl (if err = ErrConflict then ErrServiceReplay else err), p1)))"

section \<open>The signing client\<close>

text \<open>
  The headers that \<^verbatim>\<open>doServiceJSON\<close> and the proxy transport's \<^verbatim>\<open>sign\<close> set (\<^verbatim>\<open>client.go\<close>);
  \<open>always\<close> is the transport, which sets the connection's header even when it is empty.
\<close>

record AuthClient =
  cl_baseURL :: string
  cl_tenantID :: string
  cl_environment :: string
  cl_keyID :: string
  cl_sharedSecret :: string

definition sign_headers ::
  "auth_crypto \<Rightarrow> AuthClient \<Rightarrow> bool \<Rightarrow> int \<Rightarrow> string \<Rightarrow> string \<Rightarrow> string \<Rightarrow> string \<Rightarrow> string \<Rightarrow> string \<Rightarrow> headers
     \<Rightarrow> headers" where
  "sign_headers k c always at nonce meth target body subjectID connectionID hs =
     (let (timestamp, signature) = signServiceRequest k (cl_sharedSecret c) (cl_keyID c) at nonce meth target body
            (cl_tenantID c) (cl_environment c) subjectID connectionID;
          h1 = Set hs ''Authorization'' (serviceAuthPrefix @ cl_keyID c @ '':'' @ signature);
          h2 = Set h1 ''X-Service-Timestamp'' timestamp;
          h3 = Set h2 ''X-Service-Nonce'' nonce;
          h4 = Set h3 ''X-Service-Body-SHA256'' (bodySHA256 k body);
          h5 = Set h4 ''X-Auth-Tenant-Id'' (cl_tenantID c);
          h6 = Set h5 ''X-Auth-Environment'' (cl_environment c);
          h7 = Set h6 ''X-Auth-Subject-Id'' subjectID
      in if always \<or> connectionID \<noteq> [] then Set h7 ''X-Auth-Connection-Id'' connectionID else h7)"

definition proxyTargetURL :: "string \<Rightarrow> string \<Rightarrow> string option" where
  "proxyTargetURL baseURL rawURL =
     (if HasPrefix rawURL ''https://www.dolthub.com/api/v1alpha1/''
      then Some (baseURL @ ''/v1/proxy/api'' @ TrimPrefix rawURL ''https://www.dolthub.com/api/v1alpha1'')
      else if rawURL = ''https://www.dolthub.com/graphql'' then Some (baseURL @ ''/v1/proxy/graphql'')
      else None)"

end
