(* ===== verification/ApiJson.thy ===== *)
theory ApiJson
  imports ApiTypes ServiceAuth
begin

text \<open>
  The JSON side of \<^verbatim>\<open>internal/api/types.go\<close>: what its field tags make of an answer, and the decoding of
  the request bodies.
\<close>

section \<open>Texts of answers\<close>

definition json_strings :: "string list \<Rightarrow> json list" where
  "json_strings = map JStr"

definition PendingItem_json :: "PendingItemJSON \<Rightarrow> json" where
  "PendingItem_json p =
     JObj (str_mem ''rig_handle'' (pj_RigHandle p) @ opt_str ''status'' (pj_Status p) @
           opt_str ''pr_url'' (pj_PRURL p) @ opt_str ''branch_url'' (pj_BranchURL p))"

definition WantedSummary_json :: "WantedSummaryJSON \<Rightarrow> json" where
  "WantedSummary_json s =
     JObj (str_mem ''id'' (wj_ID s) @ str_mem ''title'' (wj_Title s) @ opt_str ''description'' (wj_Description s) @
           opt_str ''project'' (wj_Project s) @ opt_str ''type'' (wj_Type s) @ [(''priority'', JInt (wj_Priority s))] @
           opt_str ''posted_by'' (wj_PostedBy s) @ opt_str ''claimed_by'' (wj_ClaimedBy s) @
           str_mem ''status'' (wj_Status s) @ str_mem ''effort_level'' (wj_EffortLevel s) @
           opt_int ''pending_count'' (wj_PendingCount s) @
           opt_list ''pending_items'' (map PendingItem_json (wj_PendingItems s)))"

definition BrowseResponse_json :: "BrowseResponse \<Rightarrow> json" where
  "BrowseResponse_json r =
     JObj ((''items'', JArr (map WantedSummary_json (bj_Items r))) # opt_str ''warning'' (bj_Warning r))"

definition WantedItem_json :: "WantedItemJSON \<Rightarrow> json" where
  "WantedItem_json i =
     JObj (str_mem ''id'' (ij_ID i) @ str_mem ''title'' (ij_Title i) @ opt_str ''description'' (ij_Description i) @
           opt_str ''project'' (ij_Project i) @ opt_str ''type'' (ij_Type i) @ [(''priority'', JInt (ij_Priority i))] @
           opt_list ''tags'' (json_strings (ij_Tags i)) @ opt_str ''posted_by'' (ij_PostedBy i) @
           opt_str ''claimed_by'' (ij_ClaimedBy i) @ str_mem ''status'' (ij_Status i) @
           str_mem ''effort_level'' (ij_EffortLevel i) @ opt_str ''created_at'' (ij_CreatedAt i) @
           opt_str ''updated_at'' (ij_UpdatedAt i))"

definition Completion_json :: "CompletionJSON \<Rightarrow> json" where
  "Completion_json c =
     JObj (str_mem ''id'' (cj_ID c) @ str_mem ''wanted_id'' (cj_WantedID c) @ str_mem ''completed_by'' (cj_CompletedBy c) @
           opt_str ''evidence'' (cj_Evidence c) @ opt_str ''stamp_id'' (cj_StampID c) @
           opt_str ''validated_by'' (cj_ValidatedBy c))"

definition Stamp_json :: "StampJSON \<Rightarrow> json" where
  "Stamp_json s =
     JObj (str_mem ''id'' (sj_ID s) @ str_mem ''author'' (sj_Author s) @ str_mem ''subject'' (sj_Subject s) @
           [(''quality'', JInt (sj_Quality s)), (''reliability'', JInt (sj_Reliability s))] @
           str_mem ''severity'' (sj_Severity s) @ opt_str ''context_id'' (sj_ContextID s) @
           opt_str ''context_type'' (sj_ContextType s) @ opt_list ''skill_tags'' (json_strings (sj_SkillTags s)) @
           opt_str ''message'' (sj_Message s))"

definition UpstreamPR_json :: "UpstreamPRJSON \<Rightarrow> json" where
  "UpstreamPR_json u =
     JObj ((''is_upstream'', JBool (uj_IsUpstream u)) # str_mem ''rig_handle'' (uj_RigHandle u) @
           str_mem ''status'' (uj_Status u) @ opt_str ''claimed_by'' (uj_ClaimedBy u) @ opt_str ''branch'' (uj_Branch u) @
           opt_str ''branch_url'' (uj_BranchURL u) @ opt_str ''pr_url'' (uj_PRURL u) @ opt_str ''delta'' (uj_Delta u) @
           opt_str ''completed_by'' (uj_CompletedBy u) @ opt_str ''evidence'' (uj_Evidence u))"

text \<open>A nil item is \<^verbatim>\<open>null\<close>; so are the branch actions, which are never an empty slice but nil.\<close>

definition DetailResponse_json :: "DetailResponse \<Rightarrow> json" where
  "DetailResponse_json d =
     JObj ((''item'', case dj_Item d of None \<Rightarrow> JNull | Some i \<Rightarrow> WantedItem_json i) #
           opt_ptr ''completion'' Completion_json (dj_Completion d) @ opt_ptr ''stamp'' Stamp_json (dj_Stamp d) @
           opt_str ''branch'' (dj_Branch d) @ opt_str ''branch_url'' (dj_BranchURL d) @
           opt_str ''main_status'' (dj_MainStatus d) @ opt_str ''pr_url'' (dj_PRURL d) @ opt_str ''delta'' (dj_Delta d) @
           [(''actions'', JArr (json_strings (dj_Actions d))),
            (''branch_actions'', if dj_BranchActions d = [] then JNull else JArr (json_strings (dj_BranchActions d)))] @
           str_mem ''mode'' (dj_Mode d) @ opt_list ''upstream_prs'' (map UpstreamPR_json (dj_UpstreamPRs d)))"

definition MutationResponse_json :: "MutationResponse \<Rightarrow> json" where
  "MutationResponse_json m =
     JObj (opt_ptr ''detail'' DetailResponse_json (mj_Detail m) @ opt_str ''branch'' (mj_Branch m) @
           opt_str ''hint'' (mj_Hint m))"

definition DashboardResponse_json :: "DashboardResponse \<Rightarrow> json" where
  "DashboardResponse_json d =
     JObj [(''claimed'', JArr (map WantedSummary_json (hj_Claimed d))),
           (''in_review'', JArr (map WantedSummary_json (hj_InReview d))),
           (''completed'', JArr (map WantedSummary_json (hj_Completed d)))]"

definition UpstreamInfo_json :: "UpstreamInfoJSON \<Rightarrow> json" where
  "UpstreamInfo_json u =
     JObj (str_mem ''upstream'' (nj_Upstream u) @ str_mem ''fork_org'' (nj_ForkOrg u) @
           str_mem ''fork_db'' (nj_ForkDB u) @ str_mem ''mode'' (nj_Mode u))"

definition ConfigResponse_json :: "ConfigResponse \<Rightarrow> json" where
  "ConfigResponse_json c =
     JObj (str_mem ''rig_handle'' (gj_RigHandle c) @ str_mem ''mode'' (gj_Mode c) @ opt_bool ''hosted'' (gj_Hosted c) @
           opt_bool ''connected'' (gj_Connected c) @ opt_str ''upstream'' (gj_Upstream c) @
           opt_list ''upstreams'' (map UpstreamInfo_json (gj_Upstreams c)))"

definition BootstrapResponse_json :: "BootstrapResponse \<Rightarrow> json" where
  "BootstrapResponse_json b =
     JObj ([(''authenticated'', JBool False), (''connected'', JBool (oj_Connected b))] @
           opt_bool ''hosted'' (oj_Hosted b) @ opt_str ''rig_handle'' (oj_RigHandle b) @
           opt_str ''environment'' (oj_Environment b) @ opt_str ''active_upstream'' (oj_ActiveUpstream b) @
           opt_str ''mode'' (oj_Mode b))"

definition error_json :: "string \<Rightarrow> json" where
  "error_json msg = JObj (str_mem ''error'' msg)"

section \<open>Request bodies\<close>

text \<open>
  Into \<^verbatim>\<open>[]string\<close>: a null element keeps what an earlier member put at its place.  Into \<^verbatim>\<open>*int\<close>: null
  is the nil pointer.
\<close>

fun elems_into :: "string list \<Rightarrow> json list \<Rightarrow> string list \<times> bool" where
  "elems_into old [] = ([], True)"
| "elems_into old (j # js) =
     (let (rest, ok) = elems_into (tl old) js; kept = (case old of [] \<Rightarrow> [] | o1 # _ \<Rightarrow> o1)
      in case j of JStr s \<Rightarrow> (s # rest, ok) | JNull \<Rightarrow> (kept # rest, ok) | _ \<Rightarrow> (kept # rest, False))"

definition strs_member :: "string \<Rightarrow> (string \<times> json) \<Rightarrow> string list \<times> bool \<Rightarrow> string list \<times> bool" where
  "strs_member name m acc =
     (if fold_eq (fst m) name
      then (case snd m of
              JNull \<Rightarrow> ([], snd acc)
            | JArr js \<Rightarrow> (let (xs, ok) = elems_into (fst acc) js in (xs, snd acc \<and> ok))
            | _ \<Rightarrow> (fst acc, False))
      else acc)"

definition strs_field :: "string \<Rightarrow> (string \<times> json) list \<Rightarrow> string list \<times> bool" where
  "strs_field name ms = fold (strs_member name) ms ([], True)"

definition intp_member :: "string \<Rightarrow> (string \<times> json) \<Rightarrow> int option \<times> bool \<Rightarrow> int option \<times> bool" where
  "intp_member name m acc =
     (if fold_eq (fst m) name
      then (case snd m of
              JNull \<Rightarrow> (None, snd acc)
            | v \<Rightarrow> (case json_int v of
                      Some n \<Rightarrow> (Some n, snd acc)
                    | None \<Rightarrow> (Some (case fst acc of Some n \<Rightarrow> n | None \<Rightarrow> 0), False)))
      else acc)"

definition intp_field :: "string \<Rightarrow> (string \<times> json) list \<Rightarrow> int option \<times> bool" where
  "intp_field name ms = fold (intp_member name) ms (None, True)"

record PostRequest =
  pq_Title :: string
  pq_Description :: string
  pq_Project :: string
  pq_Type :: string
  pq_Priority :: int
  pq_EffortLevel :: string
  pq_Tags :: "string list"

record UpdateRequest =
  uq_Title :: string
  uq_Description :: string
  uq_Project :: string
  uq_Type :: string
  uq_Priority :: "int option"
  uq_EffortLevel :: string
  uq_Tags :: "string list"
  uq_TagsSet :: bool

record AcceptRequest =
  aq_Quality :: int
  aq_Reliability :: int
  aq_Severity :: string
  aq_SkillTags :: "string list"
  aq_Message :: string

text \<open>\<^verbatim>\<open>RejectUpstreamRequest\<close> and \<^verbatim>\<open>CloseUpstreamRequest\<close> have the same fields.\<close>

record UpstreamRequest =
  xq_RigHandle :: string
  xq_PRURL :: string

record SettingsRequest =
  sq_Mode :: string
  sq_Signing :: bool

definition decode_post :: "string \<Rightarrow> PostRequest option" where
  "decode_post body =
     Option.bind (stream_members body) (\<lambda>ms.
       (let (t, ok1) = str_field ''title'' ms; (d, ok2) = str_field ''description'' ms;
            (p, ok3) = str_field ''project'' ms; (ty, ok4) = str_field ''type'' ms;
            (pr, ok5) = num_field ''priority'' ms; (e, ok6) = str_field ''effort_level'' ms;
            (tags, ok7) = strs_field ''tags'' ms
        in if ok1 \<and> ok2 \<and> ok3 \<and> ok4 \<and> ok5 \<and> ok6 \<and> ok7
           then Some \<lparr>pq_Title = t, pq_Description = d, pq_Project = p, pq_Type = ty, pq_Priority = pr,
                      pq_EffortLevel = e, pq_Tags = tags\<rparr>
           else None))"

definition decode_update :: "string \<Rightarrow> UpdateRequest option" where
  "decode_update body =
     Option.bind (stream_members body) (\<lambda>ms.
       (let (t, ok1) = str_field ''title'' ms; (d, ok2) = str_field ''description'' ms;
            (p, ok3) = str_field ''project'' ms; (ty, ok4) = str_field ''type'' ms;
            (pr, ok5) = intp_field ''priority'' ms; (e, ok6) = str_field ''effort_level'' ms;
            (tags, ok7) = strs_field ''tags'' ms; (ts, ok8) = bool_field ''tags_set'' ms
        in if ok1 \<and> ok2 \<and> ok3 \<and> ok4 \<and> ok5 \<and> ok6 \<and> ok7 \<and> ok8
           then Some \<lparr>uq_Title = t, uq_Description = d, uq_Project = p, uq_Type = ty, uq_Priority = pr,
                      uq_EffortLevel = e, uq_Tags = tags, uq_TagsSet = ts\<rparr>
           else None))"

text \<open>One string member, the shape of \<^verbatim>\<open>DoneRequest\<close> and \<^verbatim>\<open>RejectRequest\<close>.\<close>

definition decode_one :: "string \<Rightarrow> string \<Rightarrow> string option" where
  "decode_one name body =
     Option.bind (stream_members body) (\<lambda>ms. (let (s, ok) = str_field name ms in if ok then Some s else None))"

definition accept_members :: "(string \<times> json) list \<Rightarrow> AcceptRequest option" where
  "accept_members ms =
     (let (q, ok1) = num_field ''quality'' ms; (r, ok2) = num_field ''reliability'' ms;
          (sev, ok3) = str_field ''severity'' ms; (tags, ok4) = strs_field ''skill_tags'' ms;
          (m, ok5) = str_field ''message'' ms
      in if ok1 \<and> ok2 \<and> ok3 \<and> ok4 \<and> ok5
         then Some \<lparr>aq_Quality = q, aq_Reliability = r, aq_Severity = sev, aq_SkillTags = tags, aq_Message = m\<rparr>
         else None)"

definition upstream_members :: "(string \<times> json) list \<Rightarrow> UpstreamRequest option" where
  "upstream_members ms =
     (let (h, ok1) = str_field ''rig_handle'' ms; (u, ok2) = str_field ''pr_url'' ms
      in if ok1 \<and> ok2 then Some \<lparr>xq_RigHandle = h, xq_PRURL = u\<rparr> else None)"

definition decode_accept :: "string \<Rightarrow> AcceptRequest option" where
  "decode_accept body = Option.bind (stream_members body) accept_members"

definition decode_upstream :: "string \<Rightarrow> UpstreamRequest option" where
  "decode_upstream body = Option.bind (stream_members body) upstream_members"

text \<open>\<^verbatim>\<open>AcceptUpstreamRequest\<close>: the members of both.\<close>

definition decode_accept_upstream :: "string \<Rightarrow> (UpstreamRequest \<times> AcceptRequest) option" where
  "decode_accept_upstream body =
     Option.bind (stream_members body) (\<lambda>ms.
       (case (upstream_members ms, accept_members ms) of
          (Some u, Some a) \<Rightarrow> Some (u, a)
        | _ \<Rightarrow> None))"

definition decode_api_settings :: "string \<Rightarrow> SettingsRequest option" where
  "decode_api_settings body =
     Option.bind (stream_members body) (\<lambda>ms.
       (let (m, ok1) = str_field ''mode'' ms; (sg, ok2) = bool_field ''signing'' ms
        in if ok1 \<and> ok2 then Some \<lparr>sq_Mode = m, sq_Signing = sg\<rparr> else None))"

section \<open>Reading an answer back\<close>

text \<open>
  The browse handler decodes its own stale answer to add a warning to it: structs, and arrays of them.
\<close>

definition struct_of :: "json \<Rightarrow> (string \<times> json) list option" where
  "struct_of j = (case j of JObj ms \<Rightarrow> Some ms | JNull \<Rightarrow> Some [] | _ \<Rightarrow> None)"

definition PendingItem_of :: "json \<Rightarrow> PendingItemJSON option" where
  "PendingItem_of j =
     Option.bind (struct_of j) (\<lambda>ms.
       (let (h, ok1) = str_field ''rig_handle'' ms; (st, ok2) = str_field ''status'' ms;
            (u, ok3) = str_field ''pr_url'' ms; (b, ok4) = str_field ''branch_url'' ms
        in if ok1 \<and> ok2 \<and> ok3 \<and> ok4
           then Some \<lparr>pj_RigHandle = h, pj_Status = st, pj_PRURL = u, pj_BranchURL = b\<rparr> else None))"

definition structs_member ::
  "(json \<Rightarrow> 'a option) \<Rightarrow> string \<Rightarrow> (string \<times> json) \<Rightarrow> 'a list option \<Rightarrow> 'a list option" where
  "structs_member f name m acc =
     (if fold_eq (fst m) name
      then (case snd m of
              JNull \<Rightarrow> map_option (\<lambda>_. []) acc
            | JArr js \<Rightarrow> Option.bind acc (\<lambda>_. those (map f js))
            | _ \<Rightarrow> None)
      else acc)"

definition structs_field :: "(json \<Rightarrow> 'a option) \<Rightarrow> string \<Rightarrow> (string \<times> json) list \<Rightarrow> 'a list option" where
  "structs_field f name ms = fold (structs_member f name) ms (Some [])"

definition WantedSummary_of :: "json \<Rightarrow> WantedSummaryJSON option" where
  "WantedSummary_of j =
     Option.bind (struct_of j) (\<lambda>ms.
       (let (i, ok1) = str_field ''id'' ms; (t, ok2) = str_field ''title'' ms;
            (d, ok3) = str_field ''description'' ms; (p, ok4) = str_field ''project'' ms;
            (ty, ok5) = str_field ''type'' ms; (pr, ok6) = num_field ''priority'' ms;
            (pb, ok7) = str_field ''posted_by'' ms; (cb, ok8) = str_field ''claimed_by'' ms;
            (st, ok9) = str_field ''status'' ms; (e, ok10) = str_field ''effort_level'' ms;
            (n, ok11) = num_field ''pending_count'' ms
        in case structs_field PendingItem_of ''pending_items'' ms of
             Some ps \<Rightarrow>
               if ok1 \<and> ok2 \<and> ok3 \<and> ok4 \<and> ok5 \<and> ok6 \<and> ok7 \<and> ok8 \<and> ok9 \<and> ok10 \<and> ok11
               then Some \<lparr>wj_ID = i, wj_Title = t, wj_Description = d, wj_Project = p, wj_Type = ty,
                          wj_Priority = pr, wj_PostedBy = pb, wj_ClaimedBy = cb, wj_Status = st,
                          wj_EffortLevel = e, wj_PendingCount = n, wj_PendingItems = ps\<rparr>
               else None
           | None \<Rightarrow> None))"

definition decode_browse :: "string \<Rightarrow> BrowseResponse option" where
  "decode_browse body =
     Option.bind (struct_members body) (\<lambda>ms.
       (let (w, ok) = str_field ''warning'' ms
        in case structs_field WantedSummary_of ''items'' ms of
             Some items \<Rightarrow> if ok then Some \<lparr>bj_Items = items, bj_Warning = w\<rparr> else None
           | None \<Rightarrow> None))"

text \<open>
  HTTP as the DoltHub provider, the client of the auth service and the hosted service use it: requests
  with headers and a body, on a world \<open>'s\<close> that answers them and has the time.
\<close>

record http_out =
  ho_method :: string
  ho_url :: string
  ho_headers :: headers
  ho_body :: string

text \<open>
  \<open>nt_url\<close> parses a URL into its escaped path and its raw query; its error is that of making a request.
  \<open>nt_random\<close> draws so many random bytes.  \<open>nt_do\<close> sends a request: a
  transport error, or the status and the body, whose reading may fail.  \<open>nt_sleep\<close> lets so many milliseconds pass, \<open>nt_now\<close> is the time in
  nanoseconds, \<open>nt_done\<close> the context's error when it has ended, \<open>nt_lower\<close> lowers the case of texts that
  are not ASCII, \<open>nt_json_error\<close> is the decoder's message, \<open>nt_env\<close> the environment of the process.
\<close>

record 's net =
  nt_url :: "string \<Rightarrow> go_error + (string \<times> string)"
  nt_random :: "nat \<Rightarrow> 's \<Rightarrow> (go_error + string) \<times> 's"
  nt_do :: "http_out \<Rightarrow> 's \<Rightarrow> (go_error + (int \<times> (go_error + string))) \<times> 's"
  nt_sleep :: "nat \<Rightarrow> 's \<Rightarrow> 's"
  nt_now :: "'s \<Rightarrow> int"
  nt_done :: "'s \<Rightarrow> go_error option"
  nt_lower :: "string \<Rightarrow> string"
  nt_json_error :: "string \<Rightarrow> string"
  nt_env :: "string \<Rightarrow> string"

definition nt_url_error :: "'s net \<Rightarrow> string \<Rightarrow> go_error option" where
  "nt_url_error n url = (case nt_url n url of Inl err \<Rightarrow> Some err | Inr _ \<Rightarrow> None)"

text \<open>Steps on the world one after the other.\<close>

fun traverse :: "('a \<Rightarrow> 's \<Rightarrow> 'b \<times> 's) \<Rightarrow> 'a list \<Rightarrow> 's \<Rightarrow> 'b list \<times> 's" where
  "traverse f [] s = ([], s)"
| "traverse f (x # xs) s = (let (y, s1) = f x s; (ys, s2) = traverse f xs s1 in (y # ys, s2))"

text \<open>\<^verbatim>\<open>%q\<close>-free error texts with a status.\<close>

definition http_error :: "string \<Rightarrow> int \<Rightarrow> string \<Rightarrow> go_error" where
  "http_error what code body = Err (Sprintf ''%s (HTTP %d): %s'' [FS what, FD code, FS body])"

text \<open>A JSON object of strings, as \<^verbatim>\<open>json.Marshal\<close> prints a map: the keys are given in order.\<close>

definition text_object :: "(string \<times> string) list \<Rightarrow> string" where
  "text_object kvs = json_text (JObj (map (\<lambda>(k, v). (k, JStr v)) kvs))"

text \<open>
  Into \<^verbatim>\<open>map[string]string\<close>: keys are exact, the last of equal ones counts, \<^verbatim>\<open>null\<close> is the empty
  string, and a null map is empty.
\<close>

definition text_map :: "json \<Rightarrow> (string \<times> string) list option" where
  "text_map j =
     (case j of
        JNull \<Rightarrow> Some []
      | JObj ms \<Rightarrow> map_option rev (those (map (\<lambda>(k, v). map_option (Pair k) (string_elem v)) ms))
      | _ \<Rightarrow> None)"

definition cell :: "(string \<times> string) list \<Rightarrow> string \<Rightarrow> string" where
  "cell row k = (case map_of row k of Some v \<Rightarrow> v | None \<Rightarrow> [])"

end
