(* ===== verification/Dolthub.thy ===== *)
theory Dolthub
  imports ApiJson "HOL-Library.AList"
begin

text \<open>
  \<^verbatim>\<open>internal/remote/dolthub.go\<close>: pull requests on DoltHub and the provider's cache of them.  The
  requests that Go sends at the same time are sent in the order of their list.
\<close>

section \<open>State\<close>

definition dolthubAPIBase :: string where
  "dolthubAPIBase = ''https://www.dolthub.com/api/v1alpha1''"

definition dolthubGraphQLURL :: string where
  "dolthubGraphQLURL = ''https://www.dolthub.com/graphql''"

definition dolthubRepoBase :: string where
  "dolthubRepoBase = ''https://www.dolthub.com/repositories''"

text \<open>Two seconds, in nanoseconds.\<close>

definition prCacheTTL :: int where
  "prCacheTTL = 2000000000"

record prInfo =
  pi_pullID :: string
  pi_fromBranch :: string
  pi_fromBranchOwner :: string
  pi_author :: string

record cachedPRLookup =
  cp_url :: string
  cp_id :: string
  cp_expiresAt :: int

record cachedPRIndex =
  ci_prs :: "prInfo list"
  ci_expiresAt :: int

record doltHubProviderCache =
  pc_prByBranch :: "(string \<times> cachedPRLookup) list"
  pc_prIndexes :: "(string \<times> cachedPRIndex) list"

definition newDoltHubProviderCache :: doltHubProviderCache where
  "newDoltHubProviderCache = \<lparr>pc_prByBranch = [], pc_prIndexes = []\<rparr>"

definition prIndexCacheKey :: "string \<Rightarrow> string \<Rightarrow> string" where
  "prIndexCacheKey upstreamOrg db = upstreamOrg @ ''/'' @ db"

definition prBranchCacheKey :: "string \<Rightarrow> string \<Rightarrow> string \<Rightarrow> string \<Rightarrow> string" where
  "prBranchCacheKey upstreamOrg db forkOrg fromBranch =
     upstreamOrg @ ''/'' @ db @ '':'' @ forkOrg @ '':'' @ fromBranch"

definition pull_url :: "string \<Rightarrow> string \<Rightarrow> string \<Rightarrow> string" where
  "pull_url upstreamOrg db pullID = Sprintf ''%s/%s/%s/pulls/%s'' [FS dolthubRepoBase, FS upstreamOrg, FS db, FS pullID]"

section \<open>The cache\<close>

definition lookup_pr :: "int \<Rightarrow> string \<Rightarrow> string \<Rightarrow> string \<Rightarrow> string \<Rightarrow> doltHubProviderCache \<Rightarrow> cachedPRLookup option" where
  "lookup_pr now upstreamOrg db forkOrg fromBranch c =
     (case map_of (pc_prByBranch c) (prBranchCacheKey upstreamOrg db forkOrg fromBranch) of
        Some e \<Rightarrow> if cp_expiresAt e < now then None else Some e
      | None \<Rightarrow> None)"

definition rememberPRLookup ::
  "int \<Rightarrow> string \<Rightarrow> string \<Rightarrow> string \<Rightarrow> string \<Rightarrow> string \<Rightarrow> doltHubProviderCache \<Rightarrow> doltHubProviderCache" where
  "rememberPRLookup now upstreamOrg db forkOrg fromBranch pullID c =
     (if forkOrg = [] \<or> fromBranch = [] \<or> pullID = [] then c
      else c\<lparr>pc_prByBranch :=
               AList.update (prBranchCacheKey upstreamOrg db forkOrg fromBranch)
                 \<lparr>cp_url = pull_url upstreamOrg db pullID, cp_id = pullID, cp_expiresAt = now + prCacheTTL\<rparr>
                 (pc_prByBranch c)\<rparr>)"

definition lookup_index :: "int \<Rightarrow> string \<Rightarrow> string \<Rightarrow> doltHubProviderCache \<Rightarrow> prInfo list option" where
  "lookup_index now upstreamOrg db c =
     (case map_of (pc_prIndexes c) (prIndexCacheKey upstreamOrg db) of
        Some e \<Rightarrow> if ci_expiresAt e < now then None else Some (ci_prs e)
      | None \<Rightarrow> None)"

definition pr_named :: "prInfo \<Rightarrow> bool" where
  "pr_named pr \<longleftrightarrow> pi_fromBranchOwner pr \<noteq> [] \<and> pi_fromBranch pr \<noteq> [] \<and> pi_pullID pr \<noteq> []"

definition pr_key :: "string \<Rightarrow> string \<Rightarrow> prInfo \<Rightarrow> string" where
  "pr_key upstreamOrg db pr = prBranchCacheKey upstreamOrg db (pi_fromBranchOwner pr) (pi_fromBranch pr)"

text \<open>A branch with one open pull request is remembered, one with several forgotten.\<close>

fun remember_branches ::
  "int \<Rightarrow> string \<Rightarrow> string \<Rightarrow> (string \<Rightarrow> nat) \<Rightarrow> prInfo list \<Rightarrow> (string \<times> cachedPRLookup) list
     \<Rightarrow> (string \<times> cachedPRLookup) list" where
  "remember_branches expiresAt upstreamOrg db counts [] m = m"
| "remember_branches expiresAt upstreamOrg db counts (pr # prs) m =
     remember_branches expiresAt upstreamOrg db counts prs
       (if \<not> pr_named pr then m
        else (let key = pr_key upstreamOrg db pr
              in if counts key \<noteq> 1 then AList.delete key m
                 else AList.update key \<lparr>cp_url = pull_url upstreamOrg db (pi_pullID pr), cp_id = pi_pullID pr,
                                        cp_expiresAt = expiresAt\<rparr> m))"

definition rememberPRIndex :: "int \<Rightarrow> string \<Rightarrow> string \<Rightarrow> prInfo list \<Rightarrow> doltHubProviderCache \<Rightarrow> doltHubProviderCache" where
  "rememberPRIndex now upstreamOrg db prs c =
     (let expiresAt = now + prCacheTTL;
          counts = (\<lambda>key. length (filter (\<lambda>pr. pr_named pr \<and> pr_key upstreamOrg db pr = key) prs))
      in c\<lparr>pc_prIndexes := AList.update (prIndexCacheKey upstreamOrg db) \<lparr>ci_prs = prs, ci_expiresAt = expiresAt\<rparr>
                             (pc_prIndexes c),
           pc_prByBranch := remember_branches expiresAt upstreamOrg db counts prs (pc_prByBranch c)\<rparr>)"

definition invalidatePRRepoCaches :: "string \<Rightarrow> string \<Rightarrow> doltHubProviderCache \<Rightarrow> doltHubProviderCache" where
  "invalidatePRRepoCaches upstreamOrg db c =
     (let prefix = prIndexCacheKey upstreamOrg db @ '':''
      in c\<lparr>pc_prIndexes := AList.delete (prIndexCacheKey upstreamOrg db) (pc_prIndexes c),
           pc_prByBranch := filter (\<lambda>e. \<not> HasPrefix (fst e) prefix) (pc_prByBranch c)\<rparr>)"

section \<open>Requests\<close>

definition bearer :: "string \<Rightarrow> headers" where
  "bearer token = Set [] ''authorization'' (''token '' @ token)"

definition dolthubGetOnce :: "'s net \<Rightarrow> string \<Rightarrow> string \<Rightarrow> 's \<Rightarrow> (go_error + string) \<times> 's" where
  "dolthubGetOnce n token url s =
     (case nt_url_error n url of
        Some err \<Rightarrow> (Inl err, s)
      | None \<Rightarrow>
          (let (resp, s1) = nt_do n \<lparr>ho_method = ''GET'', ho_url = url,
                                     ho_headers = (if token \<noteq> [] then bearer token else []), ho_body = []\<rparr> s
           in (case resp of
                 Inl err \<Rightarrow> Inl err
               | Inr (code, Inl err) \<Rightarrow> Inl err
               | Inr (code, Inr body) \<Rightarrow>
                   if code \<noteq> 200 then Inl (Err (Sprintf ''HTTP %d: %s'' [FD code, FS body])) else Inr body, s1)))"

text \<open>Two attempts, half a second apart.\<close>

definition dolthubGet :: "'s net \<Rightarrow> string \<Rightarrow> string \<Rightarrow> 's \<Rightarrow> (go_error + string) \<times> 's" where
  "dolthubGet n token url s =
     (case dolthubGetOnce n token url s of
        (Inr body, s1) \<Rightarrow> (Inr body, s1)
      | (Inl err, s1) \<Rightarrow>
          if nt_done n s1 \<noteq> None \<or> is_context_err err then (Inl err, s1)
          else (let s2 = nt_sleep n 500 s1
                in case nt_done n s2 of
                     Some ctx \<Rightarrow> (Inl ctx, s2)
                   | None \<Rightarrow> dolthubGetOnce n token url s2))"

definition isNoSuchRepositoryError :: "'s net \<Rightarrow> go_error \<Rightarrow> bool" where
  "isNoSuchRepositoryError n err \<longleftrightarrow> Contains (ToLower (nt_lower n) (Error err)) ''no such repository''"

text \<open>A request that changes something, with the names its errors have.\<close>

definition dolthub_send ::
  "'s net \<Rightarrow> string \<Rightarrow> string \<Rightarrow> string \<Rightarrow> string \<Rightarrow> string \<Rightarrow> string \<Rightarrow> 's
     \<Rightarrow> (go_error + (int \<times> (go_error + string))) \<times> 's" where
  "dolthub_send n making what token meth url body s =
     (case nt_url_error n url of
        Some err \<Rightarrow> (Inl (Wrap (''creating '' @ making @ '' request: '') err), s)
      | None \<Rightarrow>
          (case nt_do n \<lparr>ho_method = meth, ho_url = url,
                         ho_headers = Set (Set [] ''Content-Type'' ''application/json'') ''authorization'' (''token '' @ token),
                         ho_body = body\<rparr> s of
             (Inl err, s1) \<Rightarrow> (Inl (Wrap (''DoltHub '' @ what @ '' request failed: '') err), s1)
           | (Inr resp, s1) \<Rightarrow> (Inr resp, s1)))"

section \<open>Listing pull requests\<close>

record pullSummary =
  ps_PullID :: string
  ps_State :: string

definition pull_of :: "json \<Rightarrow> pullSummary option" where
  "pull_of j =
     Option.bind (struct_of j) (\<lambda>ms.
       (let (i, ok1) = str_field ''pull_id'' ms; (st, ok2) = str_field ''state'' ms
        in if ok1 \<and> ok2 then Some \<lparr>ps_PullID = i, ps_State = st\<rparr> else None))"

definition page_of :: "string \<Rightarrow> (pullSummary list \<times> string) option" where
  "page_of body =
     Option.bind (struct_members body) (\<lambda>ms.
       (let (tok, ok) = str_field ''next_page_token'' ms
        in case structs_field pull_of ''pulls'' ms of
             Some pulls \<Rightarrow> if ok then Some (pulls, tok) else None
           | None \<Rightarrow> None))"

definition pulls_url :: "string \<Rightarrow> string \<Rightarrow> string" where
  "pulls_url upstreamOrg db = Sprintf ''%s/%s/%s/pulls'' [FS dolthubAPIBase, FS upstreamOrg, FS db]"

text \<open>Page after page; a server that always names a next page keeps the loop going, which is \<open>None\<close>.\<close>

partial_function (option) list_pages ::
  "'s net \<Rightarrow> string \<Rightarrow> string \<Rightarrow> string \<Rightarrow> string \<Rightarrow> pullSummary list \<Rightarrow> 's
     \<Rightarrow> ((go_error + pullSummary list) \<times> 's) option" where
  "list_pages n token upstreamOrg db url acc s =
     (case dolthubGet n token url s of
        (Inl err, s1) \<Rightarrow> Some (Inl err, s1)
      | (Inr body, s1) \<Rightarrow>
          (case page_of body of
             None \<Rightarrow> Some (Inl (Err (nt_json_error n body)), s1)
           | Some (pulls, tok) \<Rightarrow>
               if tok = [] then Some (Inr (acc @ pulls), s1)
               else list_pages n token upstreamOrg db (pulls_url upstreamOrg db @ ''?pageToken='' @ QueryEscape tok)
                      (acc @ pulls) s1))"

definition listPulls ::
  "'s net \<Rightarrow> string \<Rightarrow> string \<Rightarrow> string \<Rightarrow> 's \<Rightarrow> ((go_error + pullSummary list) \<times> 's) option" where
  "listPulls n token upstreamOrg db s = list_pages n token upstreamOrg db (pulls_url upstreamOrg db) [] s"

definition pr_detail ::
  "'s net \<Rightarrow> string \<Rightarrow> string \<Rightarrow> string \<Rightarrow> string \<Rightarrow> 's \<Rightarrow> (go_error + prInfo) \<times> 's" where
  "pr_detail n token upstreamOrg db pullID s =
     (case dolthubGet n token (pulls_url upstreamOrg db @ ''/'' @ pullID) s of
        (Inl err, s1) \<Rightarrow> (Inl (Wrap (Sprintf ''reading PR %s detail: '' [FS pullID]) err), s1)
      | (Inr body, s1) \<Rightarrow>
          (let bad = Inl (Err (Sprintf ''decoding PR %s detail: %s'' [FS pullID, FS (nt_json_error n body)]))
           in case struct_members body of
                None \<Rightarrow> (bad, s1)
              | Some ms \<Rightarrow>
                  (let (b, ok1) = str_field ''from_branch'' ms; (ow, ok2) = str_field ''from_branch_owner'' ms;
                       (a, ok3) = str_field ''author'' ms
                   in if ok1 \<and> ok2 \<and> ok3
                      then (Inr \<lparr>pi_pullID = pullID, pi_fromBranch = b, pi_fromBranchOwner = ow, pi_author = a\<rparr>, s1)
                      else (bad, s1))))"

text \<open>The first error of several results, and the results without one.\<close>

definition first_failure :: "('e + 'a) list \<Rightarrow> 'e option" where
  "first_failure rs = (case List.find (\<lambda>r. case r of Inl _ \<Rightarrow> True | Inr _ \<Rightarrow> False) rs of Some (Inl e) \<Rightarrow> Some e | _ \<Rightarrow> None)"

definition successes :: "('e + 'a) list \<Rightarrow> 'a list" where
  "successes rs = List.map_filter (\<lambda>r. case r of Inr x \<Rightarrow> Some x | Inl _ \<Rightarrow> None) rs"

definition open_pulls :: "pullSummary list \<Rightarrow> pullSummary list" where
  "open_pulls pulls = filter (\<lambda>p. fold_eq (ps_State p) ''open'') pulls"

definition listOpenPRDetails ::
  "'s net \<Rightarrow> string \<Rightarrow> string \<Rightarrow> string \<Rightarrow> bool \<Rightarrow> bool \<Rightarrow> doltHubProviderCache \<Rightarrow> 's
     \<Rightarrow> ((go_error + prInfo list) \<times> doltHubProviderCache \<times> 's) option" where
  "listOpenPRDetails n token upstreamOrg db allowCached failOnDetailError c s =
     (case (if allowCached then lookup_index (nt_now n s) upstreamOrg db c else None) of
        Some prs \<Rightarrow> Some (Inr prs, c, s)
      | None \<Rightarrow>
          (case listPulls n token upstreamOrg db s of
             None \<Rightarrow> None
           | Some (Inl err, s1) \<Rightarrow> Some (Inl err, c, s1)
           | Some (Inr pulls, s1) \<Rightarrow>
               (let (details, s2) = traverse (\<lambda>p. pr_detail n token upstreamOrg db (ps_PullID p)) (open_pulls pulls) s1
                in case (if failOnDetailError then first_failure details else None) of
                     Some err \<Rightarrow> Some (Inl err, c, s2)
                   | None \<Rightarrow>
                       (let found = map (\<lambda>info. (pi_pullID info, info)) (successes details);
                            prs = List.map_filter (\<lambda>p. map_of (rev found) (ps_PullID p)) (open_pulls pulls)
                        in Some (Inr prs, rememberPRIndex (nt_now n s2) upstreamOrg db prs c, s2)))))"

section \<open>Pull requests\<close>

text \<open>URL and id of the open pull request of a branch, or two empty texts.\<close>

definition FindPR ::
  "'s net \<Rightarrow> string \<Rightarrow> string \<Rightarrow> string \<Rightarrow> string \<Rightarrow> string \<Rightarrow> doltHubProviderCache \<Rightarrow> 's
     \<Rightarrow> ((string \<times> string) \<times> doltHubProviderCache \<times> 's) option" where
  "FindPR n token upstreamOrg db forkOrg fromBranch c s =
     (case lookup_pr (nt_now n s) upstreamOrg db forkOrg fromBranch c of
        Some e \<Rightarrow> Some ((cp_url e, cp_id e), c, s)
      | None \<Rightarrow>
          (case listOpenPRDetails n token upstreamOrg db True False c s of
             None \<Rightarrow> None
           | Some (Inl err, c1, s1) \<Rightarrow> Some (([], []), c1, s1)
           | Some (Inr prs, c1, s1) \<Rightarrow>
               (case List.find (\<lambda>pr. pi_fromBranch pr = fromBranch \<and> pi_fromBranchOwner pr = forkOrg) prs of
                  Some pr \<Rightarrow>
                    Some ((pull_url upstreamOrg db (pi_pullID pr), pi_pullID pr),
                          rememberPRLookup (nt_now n s1) upstreamOrg db forkOrg fromBranch (pi_pullID pr) c1, s1)
                | None \<Rightarrow> Some (([], []), c1, s1))))"

definition CreatePR ::
  "'s net \<Rightarrow> string \<Rightarrow> string \<Rightarrow> string \<Rightarrow> string \<Rightarrow> string \<Rightarrow> string \<Rightarrow> string \<Rightarrow> doltHubProviderCache \<Rightarrow> 's
     \<Rightarrow> (go_error + string) \<times> doltHubProviderCache \<times> 's" where
  "CreatePR n token forkOrg upstreamOrg db fromBranch title body c s =
     (case dolthub_send n ''PR'' ''create PR'' token ''POST'' (pulls_url upstreamOrg db)
             (text_object [(''description'', body), (''fromBranchName'', fromBranch), (''fromBranchOwnerName'', forkOrg),
                           (''fromBranchRepoName'', db), (''title'', title), (''toBranchName'', ''main''),
                           (''toBranchOwnerName'', upstreamOrg), (''toBranchRepoName'', db)]) s of
        (Inl err, s1) \<Rightarrow> (Inl err, c, s1)
      | (Inr (code, Inl err), s1) \<Rightarrow> (Inl (Wrap ''reading DoltHub PR response: '' err), c, s1)
      | (Inr (code, Inr resp), s1) \<Rightarrow>
          if code < 200 \<or> 300 \<le> code then (Inl (http_error ''DoltHub create PR error'' code resp), c, s1)
          else (let c1 = invalidatePRRepoCaches upstreamOrg db c;
                    (st, ok1, i, ok2) = (case struct_members resp of
                        None \<Rightarrow> ([], False, [], False)
                      | Some ms \<Rightarrow> (fst (str_field ''status'' ms), snd (str_field ''status'' ms),
                                    fst (str_field ''_id'' ms), snd (str_field ''_id'' ms)))
                in if ok1 \<and> ok2 \<and> i \<noteq> []
                   then (Inr (pull_url upstreamOrg db i),
                         rememberPRLookup (nt_now n s1) upstreamOrg db forkOrg fromBranch i c1, s1)
                   else (Inr (Sprintf ''%s/%s/%s/pulls'' [FS dolthubRepoBase, FS upstreamOrg, FS db]), c1, s1)))"

text \<open>A change of a pull request; the body of an error answer is read as far as it goes.\<close>

definition patch_pr ::
  "'s net \<Rightarrow> string \<Rightarrow> string \<Rightarrow> string \<Rightarrow> string \<Rightarrow> string \<Rightarrow> string \<Rightarrow> string \<Rightarrow> doltHubProviderCache \<Rightarrow> 's
     \<Rightarrow> go_error option \<times> doltHubProviderCache \<times> 's" where
  "patch_pr n making what token upstreamOrg db prID body c s =
     (case dolthub_send n making what token ''PATCH'' (pulls_url upstreamOrg db @ ''/'' @ prID) body s of
        (Inl err, s1) \<Rightarrow> (Some err, c, s1)
      | (Inr (code, resp), s1) \<Rightarrow>
          if code < 200 \<or> 300 \<le> code
          then (Some (http_error (''DoltHub '' @ what @ '' error'') code (case resp of Inr text \<Rightarrow> text | Inl _ \<Rightarrow> [])), c, s1)
          else (None, invalidatePRRepoCaches upstreamOrg db c, s1))"

definition UpdatePR ::
  "'s net \<Rightarrow> string \<Rightarrow> string \<Rightarrow> string \<Rightarrow> string \<Rightarrow> string \<Rightarrow> string \<Rightarrow> doltHubProviderCache \<Rightarrow> 's
     \<Rightarrow> go_error option \<times> doltHubProviderCache \<times> 's" where
  "UpdatePR n token upstreamOrg db prID title description c s =
     patch_pr n ''PR update'' ''update PR'' token upstreamOrg db prID
       (text_object [(''description'', description), (''title'', title)]) c s"

definition ClosePR ::
  "'s net \<Rightarrow> string \<Rightarrow> string \<Rightarrow> string \<Rightarrow> string \<Rightarrow> doltHubProviderCache \<Rightarrow> 's
     \<Rightarrow> go_error option \<times> doltHubProviderCache \<times> 's" where
  "ClosePR n token upstreamOrg db prID c s =
     patch_pr n ''PR close'' ''close PR'' token upstreamOrg db prID (text_object [(''state'', ''closed'')]) c s"

end
