(* ===== verification/RemoteProps.thy ===== *)
theory RemoteProps
  imports Remote SdkOps Dolthub
begin

text \<open>
  What the DoltHub database sends: writes are posted in order, a write that is reported as done was
  confirmed, and a client in PR mode, apart from its callbacks, posts to its item's own branch only.
\<close>

section \<open>Polling\<close>

text \<open>
  A write operation counts as done only when a poll said so: with a success status, with
  \<^verbatim>\<open>done\<close> and a status other than an error, or with the error by which the API reports a
  write without changes.
\<close>

theorem pollOperation_confirmed:
  assumes "pollOperation h r name s = (None, s')"
  shows "(\<exists>body. doGet h (poll_url r name) s' = Inr body \<and> poll_verdict (ht_lower h) name body = Some None)
       \<or> (\<exists>err. doGet h (poll_url r name) s' = Inl err
            \<and> Contains (ToLower (ht_lower h) (Error err)) ''sqlwrite.tocommitid'')"
proof -
  have "pollLoop h r name e k l errs s = (None, s') \<Longrightarrow> ?thesis" for e k l errs
  proof (induction h r name e k l errs s rule: pollLoop.induct)
    case (1 h r name e k l errs s0)
    from 1(3) show ?case
      by (subst (asm) pollLoop.simps)
        (auto simp: Let_def split: option.splits if_splits sum.splits dest: 1(1,2))
  qed
  then show ?thesis using assms by (simp add: pollOperation_def)
qed

text \<open>
  The world as the list of posted URLs: whatever the server answers may depend on all of them.
\<close>

definition history_http ::
  "(string \<Rightarrow> string list \<Rightarrow> go_error + (int \<times> string)) \<Rightarrow>
   (string \<Rightarrow> string list \<Rightarrow> go_error + (int \<times> string)) \<Rightarrow> (string list \<Rightarrow> nat) \<Rightarrow> string list http" where
  "history_http get post delay =
     \<lparr>ht_get = get, ht_post = (\<lambda>url posts. (post url posts, posts @ [url])),
      ht_sleep = (\<lambda>ms posts. posts), ht_delay = delay, ht_done = (\<lambda>posts. None), ht_lower = (\<lambda>t. t)\<rparr>"

definition ok_get :: "string \<Rightarrow> string list \<Rightarrow> go_error + (int \<times> string)" where
  "ok_get url posts = Inr (200, ''{\"done\":true,\"res_details\":{\"query_execution_status\":\"Success\"}}'')"

definition ok_post :: "string \<Rightarrow> string list \<Rightarrow> go_error + (int \<times> string)" where
  "ok_post url posts = Inr (200, ''{\"operation_name\":\"op1\"}'')"

definition ok_http :: "string list http" where
  "ok_http = history_http ok_get ok_post (\<lambda>posts. 0)"

definition example_remote :: RemoteDB where
  "example_remote = NewRemoteDB ''hop'' ''wl-commons'' ''ada'' ''wl-commons'' ''pr''"

lemma ok_verdict:
  "doGet ok_http u s = Inr ''{\"done\":true,\"res_details\":{\"query_execution_status\":\"Success\"}}''"
  "poll_verdict (\<lambda>t. t) n ''{\"done\":true,\"res_details\":{\"query_execution_status\":\"Success\"}}'' = Some None"
proof -
  show "doGet ok_http u s = Inr ''{\"done\":true,\"res_details\":{\"query_execution_status\":\"Success\"}}''"
    by (simp add: doGet_def ok_http_def ok_get_def history_http_def check_status_def)
  have "poll_status (\<lambda>t. t) ''{\"done\":true,\"res_details\":{\"query_execution_status\":\"Success\"}}'' =
      Some (True, ''success'', [])" by code_simp
  then show "poll_verdict (\<lambda>t. t) n ''{\"done\":true,\"res_details\":{\"query_execution_status\":\"Success\"}}'' = Some None"
    by (simp add: poll_verdict_def)
qed

lemma ok_poll: "pollOperation ok_http r n s = (None, s)"
proof -
  have "ht_done ok_http s = None" "ht_sleep ok_http ms s = s" "ht_delay ok_http s = 0" "ht_lower ok_http = (\<lambda>t. t)" for ms
    by (simp_all add: ok_http_def history_http_def)
  then show ?thesis
    unfolding pollOperation_def
    by (subst pollLoop.simps) (simp add: ok_verdict backoff_ms_def poll_deadline_def)
qed

theorem pollOperation_confirmed_witness:
  "pollOperation ok_http example_remote ''op1'' [] = (None, [])
 \<and> ((\<exists>body. doGet ok_http (poll_url example_remote ''op1'') [] = Inr body
       \<and> poll_verdict (ht_lower ok_http) ''op1'' body = Some None)
  \<or> (\<exists>err. doGet ok_http (poll_url example_remote ''op1'') [] = Inl err
       \<and> Contains (ToLower (ht_lower ok_http) (Error err)) ''sqlwrite.tocommitid''))"
  using pollOperation_confirmed [OF ok_poll [of example_remote "''op1''" "[]"]] ok_poll by blast

section \<open>What is posted\<close>

lemma pollLoop_keeps:
  "(\<And>ms s. f (ht_sleep h ms s) = f s) \<Longrightarrow> f (snd (pollLoop h r n e k l errs s)) = f s"
proof (induction h r n e k l errs s rule: pollLoop.induct)
  case (1 h r n e k l errs s0)
  then show ?case
    by (subst pollLoop.simps) (auto simp: Let_def split: option.splits sum.splits)
qed

text \<open>The posts a batch of statements is to make; after the first, each starts from the branch.\<close>

fun planned_posts :: "RemoteDB \<Rightarrow> string \<Rightarrow> string \<Rightarrow> string list \<Rightarrow> string list" where
  "planned_posts r from branch [] = []"
| "planned_posts r from branch (stmt # stmts) =
     write_url r from branch stmt # planned_posts r branch branch stmts"

definition delete_text :: "string \<Rightarrow> string" where
  "delete_text branch = Sprintf (sq ''CALL DOLT_BRANCH(`-D`, `%s`)'') [FS (escape_quotes branch)]"

text \<open>A post that is about this branch: a statement written to it, or its deletion.\<close>

definition own_post :: "RemoteDB \<Rightarrow> string \<Rightarrow> string \<Rightarrow> bool" where
  "own_post r branch u \<longleftrightarrow>
     (\<exists>from stmt. (from = branch \<or> from = ''main'') \<and> u = write_url r from branch stmt)
   \<or> u = write_url r ''main'' ''main'' (delete_text branch)"

lemma own_planned:
  "from = branch \<or> from = ''main'' \<Longrightarrow> list_all (own_post r branch) (planned_posts r from branch stmts)"
  by (induction stmts arbitrary: "from") (auto simp: own_post_def)

lemma list_all_take: "list_all P xs \<Longrightarrow> list_all P (take n xs)"
  by (auto simp: list_all_iff dest: in_set_takeD)

text \<open>A world that records the posted URLs.\<close>

locale http_log =
  fixes h :: "'s http" and posts :: "'s \<Rightarrow> string list"
  assumes post: "posts (snd (ht_post h url s)) = posts s @ [url]"
    and sleep: "posts (ht_sleep h ms s) = posts s"
begin

lemma posts_finish: "posts (snd (finish_write g h r what body s)) = posts s"
  by (auto simp: finish_write_def pollOperation_def Let_def intro: pollLoop_keeps [of posts h, OF sleep]
      split: option.splits prod.splits)

lemma posts_doPost: "posts (snd (doPost h url s)) = posts s @ [url]"
  using post [of url s] by (cases "ht_post h url s") (simp add: doPost_def)

lemma posts_execOne: "posts (snd (execOne g h r from to stmt s)) = posts s @ [write_url r from to stmt]"
proof -
  obtain resp s1 where p: "doPost h (write_url r from to stmt) s = (resp, s1)" by fastforce
  with posts_doPost [of "write_url r from to stmt" s] posts_finish show ?thesis
    by (auto simp: execOne_def split: sum.splits)
qed

lemma posts_execOnMain: "posts (snd (execOnMain g h r sql s)) = posts s @ [write_url r ''main'' ''main'' sql]"
proof -
  obtain resp s1 where p: "doPost h (write_url r ''main'' ''main'' sql) s = (resp, s1)" by fastforce
  with posts_doPost [of "write_url r ''main'' ''main'' sql" s] posts_finish show ?thesis
    by (auto simp: execOnMain_def split: sum.splits)
qed

lemma posts_execAll:
  "\<exists>n. posts (snd (execAll g h r from branch stmts s)) = posts s @ take n (planned_posts r from branch stmts)
     \<and> (fst (execAll g h r from branch stmts s) = None \<longrightarrow> length stmts \<le> n)"
proof (induction stmts arbitrary: "from" s)
  case (Cons stmt stmts)
  obtain err s1 where e: "execOne g h r from branch stmt s = (err, s1)" by fastforce
  have p: "posts s1 = posts s @ [write_url r from branch stmt]"
    using posts_execOne [of g r "from" branch stmt s] e by simp
  show ?case
  proof (cases "err = None")
    case True
    obtain n where "posts (snd (execAll g h r branch branch stmts s1)) =
        posts s1 @ take n (planned_posts r branch branch stmts)"
      "fst (execAll g h r branch branch stmts s1) = None \<longrightarrow> length stmts \<le> n"
      using Cons.IH by blast
    then show ?thesis using True p e by (intro exI [where x = "Suc n"]) simp
  next
    case False
    then show ?thesis using p e by (intro exI [where x = "Suc 0"]) auto
  qed
qed simp

lemma posts_Exec:
  assumes "branch \<noteq> []"
  shows "\<exists>from n. (from = branch \<or> from = ''main'')
     \<and> posts (snd (remote_Exec g h r branch stmts s)) = posts s @ take n (planned_posts r from branch stmts)
     \<and> (fst (remote_Exec g h r branch stmts s) = None \<longrightarrow> length stmts \<le> n)"
proof -
  let ?f = "if branch \<noteq> ''main'' \<and> branchHasData g h r branch s then branch else ''main''"
  have "remote_Exec g h r branch stmts s = execAll g h r ?f branch stmts s"
    using assms by (simp add: remote_Exec_def)
  then show ?thesis using posts_execAll [of g r ?f branch stmts s]
    by (intro exI [where x = ?f]) simp
qed

text \<open>Whatever else the record may have.\<close>

lemma own_Exec:
  assumes "branch \<noteq> []" and "list_all (\<lambda>u. own_post r branch u \<or> q u) (posts s)"
  shows "list_all (\<lambda>u. own_post r branch u \<or> q u) (posts (snd (remote_Exec g h r branch stmts s)))"
proof -
  obtain f n where f: "f = branch \<or> f = ''main''"
    "posts (snd (remote_Exec g h r branch stmts s)) = posts s @ take n (planned_posts r f branch stmts)"
    using posts_Exec [OF assms(1), of g r stmts s] by blast
  have "list_all (own_post r branch) (take n (planned_posts r f branch stmts))"
    by (rule list_all_take [OF own_planned [OF f(1)]])
  then have "list_all (\<lambda>u. own_post r branch u \<or> q u) (take n (planned_posts r f branch stmts))"
    by (rule list.pred_mono_strong) simp
  then show ?thesis using assms(2) f(2) by simp
qed

lemma own_Delete:
  "list_all (\<lambda>u. own_post r branch u \<or> q u) (posts s) \<Longrightarrow>
   list_all (\<lambda>u. own_post r branch u \<or> q u) (posts (snd (remote_DeleteBranch g h r branch s)))"
  by (simp add: remote_DeleteBranch_def posts_execOnMain) (simp add: own_post_def delete_text_def)

end

interpretation history: http_log "history_http get post delay" "\<lambda>posts. posts" for get post delay
  by unfold_locales (simp_all add: history_http_def)

lemma BranchName_nonempty: "BranchName rig w \<noteq> []"
  by (simp add: BranchName_def)

text \<open>A client over the DoltHub API, with whatever callbacks, keeps to the item's branch.\<close>

lemma remote_frame:
  assumes "c_db c = remote_db g (history_http get post delay) r" and "callbacks_add (\<lambda>log. log) q c branch" and "branch \<noteq> []"
  shows "branch_frame c branch (list_all (\<lambda>u. own_post r branch u \<or> q u))"
  by (rule log_frame [OF assms(2)])
    (simp_all add: assms(1) remote_db_def history.own_Exec [OF assms(3)] history.own_Delete)

lemma plain_adds: "callbacks_add log q (plain_client db rig mode) branch"
  by (simp add: callbacks_add_def plain_client_def)

interpretation remote: branch_frame
  "plain_client (remote_db g (history_http get post delay) r) rig ''pr''" "BranchName rig w"
  "list_all (\<lambda>u. own_post r (BranchName rig w) u \<or> q u)" for g get post delay r rig w q
  by (rule remote_frame [OF _ plain_adds BranchName_nonempty]) (simp add: plain_client_def)

text \<open>
  A batch of statements is posted in order and stops at the first failure: what a write to a
  branch posts is a prefix of its statements, each against the branch as the one before left it, and
  all of them when it reports no error; the first starts from the branch or, when the branch has no data,
  from main.
\<close>

theorem remote_Exec_posts_in_order:
  assumes "branch \<noteq> []"
  shows "\<exists>from n. (from = branch \<or> from = ''main'')
     \<and> snd (remote_Exec g (history_http get post delay) r branch stmts log)
         = log @ take n (planned_posts r from branch stmts)
     \<and> (fst (remote_Exec g (history_http get post delay) r branch stmts log) = None \<longrightarrow> length stmts \<le> n)"
  by (rule history.posts_Exec [OF assms])

theorem remote_Exec_posts_in_order_witness:
  "\<exists>from n. (from = ''wl/ada/w-1'' \<or> from = ''main'')
     \<and> snd (remote_Exec example_json ok_http example_remote ''wl/ada/w-1'' [''SELECT 1'', ''SELECT 2''] [])
         = take n (planned_posts example_remote from ''wl/ada/w-1'' [''SELECT 1'', ''SELECT 2''])"
proof -
  have "''wl/ada/w-1'' \<noteq> []" by simp
  from remote_Exec_posts_in_order [OF this, of example_json ok_get ok_post "\<lambda>posts. 0" example_remote
      "[''SELECT 1'', ''SELECT 2'']" "[]"]
  show ?thesis unfolding ok_http_def append_Nil by (elim exE conjE, intro exI conjI)
qed








section \<open>How long a write is waited for\<close>

text \<open>A world that counts the sleeps.\<close>

definition counting_http ::
  "(string \<Rightarrow> nat \<Rightarrow> go_error + (int \<times> string)) \<Rightarrow> (nat \<Rightarrow> nat) \<Rightarrow> (nat \<Rightarrow> go_error option) \<Rightarrow> nat http" where
  "counting_http get delay ended =
     \<lparr>ht_get = get, ht_post = (\<lambda>url n. (get url n, n)), ht_sleep = (\<lambda>ms n. n + 1), ht_delay = delay,
      ht_done = ended, ht_lower = (\<lambda>t. t)\<rparr>"

definition slept :: "nat \<Rightarrow> nat" where
  "slept k = sum_list (map backoff_ms [0..<k])"

lemma slept_Suc: "slept (Suc k) = slept k + backoff_ms k"
  by (simp add: slept_def)

lemma slept_linear: "slept (k + 4) = 7500 + 8000 * k"
proof (induction k)
  case 0
  show ?case by (simp add: slept_def backoff_ms_def upt_rec)
next
  case (Suc k)
  then show ?case using slept_Suc [of "k + 4"] by (simp add: backoff_ms_def)
qed

lemma slept_bound:
  assumes "slept k \<le> poll_deadline"
  shows "k \<le> 18"
proof (cases "k < 4")
  case False
  then have "slept k = 7500 + 8000 * (k - 4)" using slept_linear [of "k - 4"] by simp
  then show ?thesis using assms by (simp add: poll_deadline_def)
qed simp

lemma pollLoop_sleeps:
  assumes "h = counting_http get delay ended"
  shows "slept k \<le> e \<Longrightarrow> e \<le> poll_deadline \<Longrightarrow> snd (pollLoop h r n e k l errs k) \<le> 19"
proof (induction "19 - k" arbitrary: k e l errs rule: less_induct)
  case less
  let ?now = "e + backoff_ms k + ht_delay h (Suc k)"
  have k: "k \<le> 18" using slept_bound less.prems by (meson le_trans)
  have w: "slept (Suc k) \<le> ?now" using less.prems(1) by (simp add: slept_Suc)
  have s: "ht_sleep h ms k = Suc k" for ms using assms by (simp add: counting_http_def)
  have next_round: "snd (pollLoop h r n ?now (Suc k) l' errs' (Suc k)) \<le> 19"
    if "\<not> poll_deadline < ?now" for l' errs'
    using less.hyps [of "Suc k" ?now] k w that by simp
  show ?case
    by (subst pollLoop.simps) (use k in \<open>auto simp: Let_def s next_round split: sum.splits option.splits\<close>)
qed

text \<open>
  C39: Waiting for a write ends: however the server answers and however slow it is, the client
  sleeps at most nineteen times, so that it sends at most eighteen polls.
\<close>

theorem pollOperation_bounded:
  "snd (pollOperation (counting_http get delay ended) r operationName 0) \<le> 19"
  unfolding pollOperation_def by (rule pollLoop_sleeps [OF refl]) (simp_all add: slept_def poll_deadline_def)

section \<open>Branch names in statements\<close>

lemma escape_quotes_bytes:
  "escape_quotes s = concat (map (\<lambda>c. if c = quote_ch then [quote_ch, quote_ch] else [c]) s)"
  by (simp add: escape_quotes_def ReplaceAll_single)

lemma escape_quotes_append: "escape_quotes (s @ t) = escape_quotes s @ escape_quotes t"
  by (simp add: escape_quotes_bytes)

lemma escape_quotes_Cons:
  "escape_quotes (c # s) = (if c = quote_ch then [quote_ch, quote_ch] else [c]) @ escape_quotes s"
  by (simp add: escape_quotes_bytes)

lemma lex_plain_text:
  "list_all (\<lambda>c. c \<noteq> quote_ch \<and> c \<noteq> bslash_ch) s \<Longrightarrow>
   lex esc (InStr a) (escape_quotes s @ rest) = lex esc (InStr (rev s @ a)) rest"
  by (induction s arbitrary: a) (auto simp: escape_quotes_bytes)

lemma lex_delete_head:
  "lex mysql_esc (Plain []) (''CALL DOLT_BRANCH('' @ quote_ch # ''-D'' @ [quote_ch] @ '', '' @ quote_ch # rest) =
   map_option (\<lambda>ts. [Word ''CALL'', Word ''DOLT_BRANCH'', Sym (CHR ''(''), Lit ''-D'', Sym (CHR '','')] @ ts)
     (lex mysql_esc (InStr []) rest)"
  by (simp add: word_ch_def sym_ch_def blank_ch_def flush_def option.map_comp comp_def)

lemma lex_backslash_quote:
  "list_all (\<lambda>c. c \<noteq> quote_ch \<and> c \<noteq> bslash_ch) name \<Longrightarrow>
   lex mysql_esc (InStr []) (escape_quotes name @ bslash_ch # quote_ch # quote_ch # rest) =
   lex mysql_esc (Qt (quote_ch # rev name)) rest"
  by (simp add: lex_plain_text mysql_esc_def del: lex.simps(8))

text \<open>
  Branch names are quoted with the quotes doubled but the backslashes left alone, so a name that
  has a backslash before a quote ends its literal: the database reads the rest of the name as SQL text
  of the deletion.
\<close>

theorem delete_branch_backslash_quote:
  assumes "list_all (\<lambda>c. c \<noteq> quote_ch \<and> c \<noteq> bslash_ch) name" and "c \<noteq> quote_ch"
  shows "\<exists>text. snd (remote_DeleteBranch g (history_http get post delay) r (name @ [bslash_ch, quote_ch, c] @ tl_name) log)
            = log @ [write_url r ''main'' ''main'' text]
        \<and> lex mysql_esc (Plain []) text =
            map_option (\<lambda>ts. [Word ''CALL'', Word ''DOLT_BRANCH'', Sym (CHR ''(''), Lit ''-D'', Sym (CHR '','')]
                              @ Lit (name @ [quote_ch]) # ts)
              (lex mysql_esc (Plain []) (c # escape_quotes tl_name @ [quote_ch, CHR '')'']))"
proof -
  let ?b = "name @ [bslash_ch, quote_ch, c] @ tl_name"
  have ne: "?b \<noteq> []" "?b \<noteq> ''main''"
  proof -
    have "bslash_ch \<in> set ?b" by simp
    moreover have "bslash_ch \<notin> set ''main''" by simp
    ultimately show "?b \<noteq> ''main''" by metis
  qed simp
  have e: "escape_quotes ?b = escape_quotes name @ bslash_ch # quote_ch # quote_ch # c # escape_quotes tl_name"
    using assms(2) by (simp add: escape_quotes_append escape_quotes_Cons)
  have t: "delete_text ?b = ''CALL DOLT_BRANCH('' @ quote_ch # ''-D'' @ [quote_ch] @ '', '' @ quote_ch #
      escape_quotes name @ bslash_ch # quote_ch # quote_ch # c # escape_quotes tl_name @ [quote_ch, CHR '')'']"
    by (simp add: delete_text_def sq_def ReplaceAll_single e [simplified])
  have l: "lex mysql_esc (Plain []) (delete_text ?b) =
            map_option (\<lambda>ts. [Word ''CALL'', Word ''DOLT_BRANCH'', Sym (CHR ''(''), Lit ''-D'', Sym (CHR '','')]
                              @ Lit (name @ [quote_ch]) # ts)
              (lex mysql_esc (Plain []) (c # escape_quotes tl_name @ [quote_ch, CHR '')'']))"
    unfolding t lex_delete_head lex_backslash_quote [OF assms(1)] using assms(2)
    by (simp only: lex.simps(8) if_False option.map_comp comp_def) (simp only: rev.simps rev_rev_ident append_Cons append_Nil)
  have "snd (remote_DeleteBranch g (history_http get post delay) r ?b log) =
      log @ [write_url r ''main'' ''main'' (delete_text ?b)]"
    using ne by (simp add: remote_DeleteBranch_def history.posts_execOnMain delete_text_def)
  with l show ?thesis by blast
qed

theorem delete_branch_backslash_quote_witness:
  "\<exists>text. snd (remote_DeleteBranch example_json ok_http example_remote (''wl/ada'' @ [bslash_ch, quote_ch, CHR '',''] @ ''x'') [])
            = [write_url example_remote ''main'' ''main'' text]
        \<and> lex mysql_esc (Plain []) text =
            map_option (\<lambda>ts. [Word ''CALL'', Word ''DOLT_BRANCH'', Sym (CHR ''(''), Lit ''-D'', Sym (CHR '','')]
                              @ Lit (''wl/ada'' @ [quote_ch]) # ts)
              (lex mysql_esc (Plain []) (CHR '','' # escape_quotes ''x'' @ [quote_ch, CHR '')'']))"
  unfolding ok_http_def
  using delete_branch_backslash_quote [of "''wl/ada''" "CHR '',''" example_json ok_get ok_post "\<lambda>posts. 0" example_remote "''x''" "[]"]
  by (simp only: append_Nil) simp

end
