(* ===== verification/AuthServer.thy ===== *)
theory AuthServer
  imports ServiceAuth
begin

text \<open>
  \<^verbatim>\<open>internal/dolthubauth/server.go\<close>: the handlers of the auth service.  A handler maps a request and
  the tables to an answer, the requests it sends on to DoltHub, and the tables after it.
\<close>

section \<open>Configuration and dependencies\<close>

record auth_config =
  cg_TenantID :: string
  cg_Environment :: string
  cg_CurrentKeyID :: string
  cg_CurrentSharedSecret :: string
  cg_NextKeyID :: string
  cg_NextSharedSecret :: string
  cg_TokenPepper :: string
  cg_RedeemPepper :: string
  cg_AllowedOrigins :: "string list"

text \<open>A request to DoltHub with the user's key.\<close>

record proxy_request =
  px_method :: string
  px_target :: string
  px_headers :: headers
  px_body :: string

text \<open>
  What a handler gets from outside: the store's faults, the cryptography, the clock, two draws of
  random bytes, a fresh id, the probe of a key, the readiness checks, and DoltHub's answer to a
  forwarded request.
\<close>

record auth_deps =
  dp_flt :: faults
  dp_crypto :: auth_crypto
  dp_encrypt :: "string \<Rightarrow> go_error + (string \<times> string \<times> string)"
  dp_decrypt :: "string \<Rightarrow> string \<Rightarrow> string \<Rightarrow> go_error + string"
  dp_validate :: "string \<Rightarrow> string \<times> go_error option"
  dp_random1 :: "go_error + string"
  dp_random2 :: "go_error + string"
  dp_newID :: string
  dp_now :: int
  dp_Do :: "proxy_request \<Rightarrow> go_error + (int \<times> headers \<times> string)"
  dp_StoreCheck :: "go_error option"
  dp_KeyCheck :: "go_error option"
  dp_version :: string
  dp_new_request :: "string \<Rightarrow> string \<Rightarrow> go_error option"

section \<open>Answers\<close>

record ErrorResponse =
  er_ErrorCode :: string
  er_UserMessage :: string
  er_Retryable :: bool

record statusResponse =
  sr_Service :: string
  sr_Status :: string
  sr_Environment :: string
  sr_TenantID :: string
  sr_Version :: string
  sr_Time :: int
  sr_Checks :: "(string \<times> string) list"
  sr_Error :: string

datatype auth_body =
    BError ErrorResponse
  | BStatus statusResponse
  | BToken string string UserMetadata int
  | BRedeemed string string "int option"
  | BConnection ConnectionResponse
  | BProxied string
  | BEmpty

record http_response =
  rs_status :: int
  rs_headers :: headers
  rs_body :: auth_body

type_synonym handler_result = "http_response \<times> proxy_request list \<times> pg"

definition writeJSON :: "headers \<Rightarrow> int \<Rightarrow> auth_body \<Rightarrow> http_response" where
  "writeJSON hs status value =
     \<lparr>rs_status = status, rs_headers = Set hs ''Content-Type'' ''application/json'', rs_body = value\<rparr>"

definition writeError :: "headers \<Rightarrow> int \<Rightarrow> string \<Rightarrow> string \<Rightarrow> bool \<Rightarrow> http_response" where
  "writeError hs status code message retryable =
     writeJSON (Set hs ''X-Wasteland-Auth-Error-Code'' code) status
       (BError \<lparr>er_ErrorCode = code, er_UserMessage = message, er_Retryable = retryable\<rparr>)"

definition writeStoreError :: "headers \<Rightarrow> auth_error \<Rightarrow> http_response" where
  "writeStoreError hs err =
     (case err of
        ErrNotFound \<Rightarrow> writeError hs 404 ''not_found'' ''connection not found'' False
      | ErrConflict \<Rightarrow>
          writeError hs 409 ''version_conflict'' ''connection metadata changed; reload and retry the mutation'' False
      | ErrInvalidMetadata m \<Rightarrow> writeError hs 400 ''invalid_metadata'' m False
      | ErrLastWasteland \<Rightarrow>
          writeError hs 409 ''last_wasteland'' ''cannot remove the last wasteland from a connection'' False
      | ErrWastelandNotFound \<Rightarrow>
          writeError hs 404 ''wasteland_not_found'' ''wasteland not found on this connection'' False
      | _ \<Rightarrow> writeError hs 500 ''store_failed'' ''the auth service could not complete the request'' True)"

definition writeValidationError :: "headers \<Rightarrow> string \<Rightarrow> http_response" where
  "writeValidationError hs code =
     (if code \<in> set [''invalid_key'', ''expired_key'', ''revoked_key'', []]
      then writeError hs 400 ''invalid_key''
             ''DoltHub rejected the API key. Verify you created an API token with the required permissions.'' False
      else if code = ''rate_limited''
      then writeError hs 503 code ''DoltHub is rate limiting token validation. Try again in a moment.'' True
      else if code \<in> set [''upstream_unreachable'', ''kms_unavailable'', ''proxy_unauthorized'']
      then writeError hs 503 code ''DoltHub is temporarily unreachable. Try again in a moment.'' True
      else writeError hs 500 ''redeem_failed'' ''The auth service could not store the DoltHub credential.'' True)"

definition writeRedeemError :: "headers \<Rightarrow> auth_error \<Rightarrow> http_response" where
  "writeRedeemError hs err =
     (case err of
        ErrInvalidConnectToken \<Rightarrow>
          writeError hs 401 ''invalid_connect_token'' ''The connect token is invalid or has already been used.'' False
      | ErrExpiredConnectToken \<Rightarrow>
          writeError hs 401 ''expired_connect_token'' ''The connect token has expired. Start the connect flow again.'' False
      | ErrMetadataMismatch \<Rightarrow>
          writeError hs 401 ''metadata_mismatch''
            ''The submitted metadata did not match the approved connect-token payload.'' False
      | ErrValidation code e \<Rightarrow> writeValidationError hs code
      | _ \<Rightarrow> writeError hs 500 ''redeem_failed'' ''The auth service could not store the DoltHub credential.'' True)"

section \<open>Authentication\<close>

definition lookupServiceSecret :: "auth_config \<Rightarrow> string \<Rightarrow> string option" where
  "lookupServiceSecret cfg keyID =
     (if keyID = cg_CurrentKeyID cfg then Some (cg_CurrentSharedSecret cfg)
      else if keyID = cg_NextKeyID cfg \<and> cg_NextSharedSecret cfg \<noteq> [] then Some (cg_NextSharedSecret cfg)
      else None)"

text \<open>The answer of a refusal, or the scope and the body; and the tables with the nonce.\<close>

definition requireServiceAuth ::
  "auth_config \<Rightarrow> auth_deps \<Rightarrow> headers \<Rightarrow> http_request \<Rightarrow> bool \<Rightarrow> pg
     \<Rightarrow> (http_response + (ServiceScope \<times> string)) \<times> pg" where
  "requireServiceAuth cfg d hs r requireConnection p =
     (case rq_body r of
        Inl _ \<Rightarrow> (Inl (writeError hs 400 ''invalid_body'' ''could not read request body'' False), p)
      | Inr body \<Rightarrow>
          (case verifyServiceRequest (dp_crypto d) (dp_flt d) (lookupServiceSecret cfg) (dp_now d) r body
                  (cg_TenantID cfg) (cg_Environment cfg) p of
             (Inl err, p1) \<Rightarrow>
               (Inl (writeError hs 401 (if err = ErrServiceReplay then ''service_replay'' else ''service_unauthorized'')
                      ''service authentication failed'' False), p1)
           | (Inr scope, p1) \<Rightarrow>
               if sc_SubjectID scope = []
               then (Inl (writeError hs 401 ''missing_subject_id'' ''service-auth subject_id is required'' False), p1)
               else if requireConnection \<and> sc_ConnectionID scope = []
               then (Inl (writeError hs 401 ''missing_connection_id'' ''service-auth connection_id is required'' False), p1)
               else (Inr (scope, body), p1)))"

text \<open>What the handlers of one connection begin with: the path must name the scope's connection.\<close>

definition with_connection ::
  "auth_config \<Rightarrow> auth_deps \<Rightarrow> headers \<Rightarrow> http_request
     \<Rightarrow> (ServiceScope \<Rightarrow> string \<Rightarrow> pg \<Rightarrow> http_response \<times> pg) \<Rightarrow> pg \<Rightarrow> handler_result" where
  "with_connection cfg d hs r f p =
     (case requireServiceAuth cfg d hs r True p of
        (Inl answer, p1) \<Rightarrow> (answer, [], p1)
      | (Inr (scope, body), p1) \<Rightarrow>
          if rq_value r ''connection_id'' = [] \<or> rq_value r ''connection_id'' \<noteq> sc_ConnectionID scope
          then (writeError hs 401 ''connection_mismatch''
                  ''service-auth connection_id did not match the requested connection'' False, [], p1)
          else (let (answer, p2) = f scope body p1 in (answer, [], p2)))"

text \<open>How the handlers answer with the store's result.\<close>

definition connection_answer :: "headers \<Rightarrow> (auth_error + Connection) \<Rightarrow> http_response" where
  "connection_answer hs result =
     (case result of
        Inl err \<Rightarrow> writeStoreError hs err
      | Inr conn \<Rightarrow> writeJSON hs 200 (BConnection (NewConnectionResponse conn)))"

definition invalid_json :: "headers \<Rightarrow> http_response" where
  "invalid_json hs = writeError hs 400 ''invalid_json'' ''invalid JSON payload'' False"

definition invalid_metadata :: "headers \<Rightarrow> go_error \<Rightarrow> http_response" where
  "invalid_metadata hs err = writeError hs 400 ''invalid_metadata'' (Error err) False"

section \<open>Connect tokens\<close>

text \<open>The lifetime of a token in nanoseconds: what was asked for, at most five minutes.\<close>

definition token_ttl :: "int \<Rightarrow> int" where
  "token_ttl ttlSeconds =
     (if 0 < ttlSeconds then min (wrap64 (ttlSeconds * 1000000000)) 300000000000 else 300000000000)"

definition handleCreateConnectToken ::
  "auth_config \<Rightarrow> auth_deps \<Rightarrow> headers \<Rightarrow> http_request \<Rightarrow> pg \<Rightarrow> handler_result" where
  "handleCreateConnectToken cfg d hs r p =
     (case requireServiceAuth cfg d hs r False p of
        (Inl answer, p1) \<Rightarrow> (answer, [], p1)
      | (Inr (scope, body), p1) \<Rightarrow>
          (case decode_create body of
             None \<Rightarrow> (invalid_json hs, [], p1)
           | Some req \<Rightarrow>
               if sc_SubjectID scope = [] \<or> cc_SubjectID req = [] \<or> sc_SubjectID scope \<noteq> cc_SubjectID req
               then (writeError hs 401 ''subject_mismatch''
                       ''service-auth subject does not match the requested subject'' False, [], p1)
               else
                 (case validateMetadata (cc_Metadata req) of
                    Some err \<Rightarrow> (invalid_metadata hs err, [], p1)
                  | None \<Rightarrow>
                      (case (dp_random1 d, dp_random2 d) of
                         (Inl _, _) \<Rightarrow>
                           (writeError hs 500 ''random_generation_failed'' ''could not mint connect token'' True, [], p1)
                       | (Inr _, Inl _) \<Rightarrow>
                           (writeError hs 500 ''random_generation_failed'' ''could not mint redeem secret'' True, [], p1)
                       | (Inr b1, Inr b2) \<Rightarrow>
                           (let connectToken = hex_text b1; redeemSecret = hex_text b2;
                                expires = dp_now d + token_ttl (cc_TTLSeconds req);
                                (err, p2) = CreateConnectToken (dp_flt d)
                                  \<lparr>ps_tenantID = cg_TenantID cfg, ps_environment = cg_Environment cfg\<rparr>
                                  (macSHA256 (dp_crypto d) (cg_TokenPepper cfg) connectToken)
                                  (macSHA256 (dp_crypto d) (cg_RedeemPepper cfg) redeemSecret)
                                  (cc_SubjectID req) (cc_Metadata req) expires (dp_now d) p1
                            in if err \<noteq> None
                               then (writeError hs 500 ''store_write_failed'' ''could not persist connect token'' True, [], p2)
                               else (writeJSON hs 200 (BToken connectToken redeemSecret (cc_Metadata req) expires), [], p2))))))"

definition handleRedeemConnectToken ::
  "auth_config \<Rightarrow> auth_deps \<Rightarrow> headers \<Rightarrow> http_request \<Rightarrow> pg \<Rightarrow> handler_result" where
  "handleRedeemConnectToken cfg d hs r p =
     (case (case rq_body r of Inl _ \<Rightarrow> None | Inr body \<Rightarrow> decode_redeem body) of
        None \<Rightarrow> (invalid_json hs, [], p)
      | Some req \<Rightarrow>
          if rr_ConnectToken req = [] \<or> rr_RedeemSecret req = [] \<or> rr_APIKey req = []
          then (writeError hs 400 ''missing_fields'' ''connect_token, redeem_secret, and api_key are required'' False, [], p)
          else
            (case validateMetadata (rr_Metadata req) of
               Some err \<Rightarrow> (invalid_metadata hs err, [], p)
             | None \<Rightarrow>
                 (let (result, p1) = RedeemConnectToken (dp_flt d) (dp_newID d)
                        \<lparr>ri_TenantID = cg_TenantID cfg, ri_Environment = cg_Environment cfg,
                         ri_ConnectTokenMAC = macSHA256 (dp_crypto d) (cg_TokenPepper cfg) (rr_ConnectToken req),
                         ri_RedeemSecretMAC = macSHA256 (dp_crypto d) (cg_RedeemPepper cfg) (rr_RedeemSecret req),
                         ri_Metadata = rr_Metadata req, ri_APIKey = rr_APIKey req, ri_Now = dp_now d,
                         ri_Encrypt = dp_encrypt d, ri_Validate = dp_validate d\<rparr> p
                  in (case result of
                        Inl err \<Rightarrow> writeRedeemError hs err
                      | Inr conn \<Rightarrow>
                          writeJSON hs 200 (BRedeemed (cn_ConnectionID conn) (cn_Status conn) (cn_LastValidatedAt conn)),
                      [], p1))))"

section \<open>One connection\<close>

definition handleGetConnection ::
  "auth_config \<Rightarrow> auth_deps \<Rightarrow> headers \<Rightarrow> http_request \<Rightarrow> pg \<Rightarrow> handler_result" where
  "handleGetConnection cfg d hs r p =
     with_connection cfg d hs r
       (\<lambda>scope body p1.
          (connection_answer hs (GetConnection (dp_flt d) (sc_TenantID scope) (sc_Environment scope)
             (sc_SubjectID scope) (sc_ConnectionID scope) p1), p1)) p"

definition handlePatchRigHandle ::
  "auth_config \<Rightarrow> auth_deps \<Rightarrow> headers \<Rightarrow> http_request \<Rightarrow> pg \<Rightarrow> handler_result" where
  "handlePatchRigHandle cfg d hs r p =
     with_connection cfg d hs r
       (\<lambda>scope body p1.
          (case decode_rig_handle body of
             None \<Rightarrow> (invalid_json hs, p1)
           | Some req \<Rightarrow>
               (case validateSlug ''rig_handle'' (rp_RigHandle req) of
                  Some err \<Rightarrow> (invalid_metadata hs err, p1)
                | None \<Rightarrow>
                    apfst (connection_answer hs)
                      (PatchRigHandle (dp_flt d) (sc_TenantID scope) (sc_Environment scope) (sc_SubjectID scope)
                         (sc_ConnectionID scope) (rp_RigHandle req) (rp_RecordVersion req) (dp_now d) p1)))) p"

definition handleUpsertWasteland ::
  "auth_config \<Rightarrow> auth_deps \<Rightarrow> headers \<Rightarrow> http_request \<Rightarrow> pg \<Rightarrow> handler_result" where
  "handleUpsertWasteland cfg d hs r p =
     with_connection cfg d hs r
       (\<lambda>scope body p1.
          (case decode_upsert body of
             None \<Rightarrow> (invalid_json hs, p1)
           | Some req \<Rightarrow>
               if rq_value r ''upstream'' \<noteq> wl_Upstream (wu_Wasteland req)
               then (writeError hs 400 ''upstream_mismatch'' ''path upstream did not match the request payload'' False, p1)
               else
                 (let wl = (wu_Wasteland req)\<lparr>wl_Mode := normalizeMode (wl_Mode (wu_Wasteland req))\<rparr>
                  in case validateWastelandConfig wl of
                       Some err \<Rightarrow> (invalid_metadata hs err, p1)
                     | None \<Rightarrow>
                         apfst (connection_answer hs)
                           (store_UpsertWasteland (dp_flt d) (sc_TenantID scope) (sc_Environment scope)
                              (sc_SubjectID scope) (sc_ConnectionID scope) wl (wu_RecordVersion req) (dp_now d) p1)))) p"

definition handleDeleteWasteland ::
  "auth_config \<Rightarrow> auth_deps \<Rightarrow> headers \<Rightarrow> http_request \<Rightarrow> pg \<Rightarrow> handler_result" where
  "handleDeleteWasteland cfg d hs r p =
     with_connection cfg d hs r
       (\<lambda>scope body p1.
          (case decode_version body of
             None \<Rightarrow> (invalid_json hs, p1)
           | Some version \<Rightarrow>
               apfst (connection_answer hs)
                 (DeleteWasteland (dp_flt d) (sc_TenantID scope) (sc_Environment scope) (sc_SubjectID scope)
                    (sc_ConnectionID scope) (rq_value r ''upstream'') version (dp_now d) p1))) p"

definition handlePatchWastelandSettings ::
  "auth_config \<Rightarrow> auth_deps \<Rightarrow> headers \<Rightarrow> http_request \<Rightarrow> pg \<Rightarrow> handler_result" where
  "handlePatchWastelandSettings cfg d hs r p =
     with_connection cfg d hs r
       (\<lambda>scope body p1.
          (case decode_settings body of
             None \<Rightarrow> (invalid_json hs, p1)
           | Some req \<Rightarrow>
               (let m = normalizeMode (ws_Mode req)
                in case validateMode m of
                     Some err \<Rightarrow> (invalid_metadata hs err, p1)
                   | None \<Rightarrow>
                       apfst (connection_answer hs)
                         (PatchWastelandSettings (dp_flt d) (sc_TenantID scope) (sc_Environment scope)
                            (sc_SubjectID scope) (sc_ConnectionID scope) (rq_value r ''upstream'') m (ws_Signing req)
                            (ws_RecordVersion req) (dp_now d) p1)))) p"

section \<open>The proxy\<close>

definition copyResponseHeaders :: "headers \<Rightarrow> headers \<Rightarrow> headers" where
  "copyResponseHeaders dst src =
     foldl (\<lambda>hs (key, values). if CanonicalHeaderKey key \<in> set
              [''Connection'', ''Proxy-Connection'', ''Keep-Alive'', ''Te'', ''Trailer'', ''Transfer-Encoding'', ''Upgrade'']
            then hs else foldl (\<lambda>acc v. Add acc key v) hs values) dst src"

text \<open>\<open>dp_new_request\<close> is the error of \<^verbatim>\<open>http.NewRequest\<close> for a method or URL it does not take.\<close>

definition handleProxy ::
  "auth_config \<Rightarrow> auth_deps \<Rightarrow> headers \<Rightarrow> http_request \<Rightarrow> string \<Rightarrow> pg \<Rightarrow> handler_result" where
  "handleProxy cfg d hs r target p =
     (case requireServiceAuth cfg d hs r True p of
        (Inl answer, p1) \<Rightarrow> (answer, [], p1)
      | (Inr (scope, body), p1) \<Rightarrow>
          (case GetConnectionCredential (dp_flt d) (dp_decrypt d) (sc_TenantID scope) (sc_Environment scope)
                  (sc_SubjectID scope) (sc_ConnectionID scope) p1 of
             Inl err \<Rightarrow> (writeStoreError hs err, [], p1)
           | Inr (conn, apiKey) \<Rightarrow>
               if dp_new_request d (rq_method r) target \<noteq> None
               then (writeError hs 500 ''proxy_request_failed'' ''could not construct DoltHub proxy request'' True, [], p1)
               else
                 (let req = \<lparr>px_method = rq_method r, px_target = target,
                             px_headers = Set (copyProxyHeaders [] (rq_headers r)) ''Authorization'' (''token '' @ apiKey),
                             px_body = body\<rparr>
                  in case dp_Do d req of
                       Inl _ \<Rightarrow> (writeError hs 502 ''upstream_unreachable'' ''DoltHub is temporarily unreachable'' True, [req], p1)
                     | Inr (status, resp_headers, text) \<Rightarrow>
                         (\<lparr>rs_status = status, rs_headers = copyResponseHeaders hs resp_headers, rs_body = BProxied text\<rparr>,
                          [req], p1))))"

definition proxy_api_target :: "http_request \<Rightarrow> string" where
  "proxy_api_target r =
     (let path = TrimPrefix (TrimPrefix (rq_path r) ''/v1/proxy/api'') ''/'';
          t1 = ''https://www.dolthub.com/api/v1alpha1'';
          t2 = (if path \<noteq> [] then t1 @ ''/'' @ path else t1)
      in if rq_query r \<noteq> [] then t2 @ ''?'' @ rq_query r else t2)"

definition handleProxyAPI ::
  "auth_config \<Rightarrow> auth_deps \<Rightarrow> headers \<Rightarrow> http_request \<Rightarrow> pg \<Rightarrow> handler_result" where
  "handleProxyAPI cfg d hs r p = handleProxy cfg d hs r (proxy_api_target r) p"

definition handleProxyGraphQL ::
  "auth_config \<Rightarrow> auth_deps \<Rightarrow> headers \<Rightarrow> http_request \<Rightarrow> pg \<Rightarrow> handler_result" where
  "handleProxyGraphQL cfg d hs r p = handleProxy cfg d hs r ''https://www.dolthub.com/graphql'' p"

section \<open>Health and routing\<close>

definition handleRoot :: "auth_config \<Rightarrow> auth_deps \<Rightarrow> headers \<Rightarrow> http_response" where
  "handleRoot cfg d hs =
     writeJSON hs 200 (BStatus \<lparr>sr_Service = ''dolthub-auth'', sr_Status = ''ok'', sr_Environment = cg_Environment cfg,
       sr_TenantID = cg_TenantID cfg, sr_Version = dp_version d, sr_Time = dp_now d, sr_Checks = [], sr_Error = []\<rparr>)"

definition handleLiveness :: "auth_deps \<Rightarrow> headers \<Rightarrow> http_response" where
  "handleLiveness d hs =
     writeJSON hs 200 (BStatus \<lparr>sr_Service = ''dolthub-auth'', sr_Status = ''ok'', sr_Environment = [],
       sr_TenantID = [], sr_Version = [], sr_Time = dp_now d, sr_Checks = [], sr_Error = []\<rparr>)"

definition check_text :: "go_error option \<Rightarrow> string" where
  "check_text e = (case e of None \<Rightarrow> ''ok'' | Some err \<Rightarrow> Error err)"

definition handleReadiness :: "auth_deps \<Rightarrow> headers \<Rightarrow> http_response" where
  "handleReadiness d hs =
     (let failures = (case dp_StoreCheck d of Some err \<Rightarrow> [''postgres: '' @ Error err] | None \<Rightarrow> []) @
                     (case dp_KeyCheck d of Some err \<Rightarrow> [''key_manager: '' @ Error err] | None \<Rightarrow> []);
          checks = [(''postgres'', check_text (dp_StoreCheck d)), (''key_manager'', check_text (dp_KeyCheck d))];
          status = \<lparr>sr_Service = ''dolthub-auth'', sr_Status = (if failures \<noteq> [] then ''not_ready'' else ''ready''),
                    sr_Environment = [], sr_TenantID = [], sr_Version = [], sr_Time = dp_now d,
                    sr_Checks = checks, sr_Error = Join failures ''; ''\<rparr>
      in writeJSON hs (if failures \<noteq> [] then 503 else 200) (BStatus status))"

text \<open>The patterns of the router; which one a request matches is the router's choice.\<close>

datatype route =
    RRoot | RLive | RReady | RCreate | RRedeem | RGet | RNotImplemented string | RRig | RUpsert | RDelete
  | RSettings | RGraphQL | RAPI

fun handle :: "auth_config \<Rightarrow> auth_deps \<Rightarrow> headers \<Rightarrow> route \<Rightarrow> http_request \<Rightarrow> pg \<Rightarrow> handler_result" where
  "handle cfg d hs RRoot r p = (handleRoot cfg d hs, [], p)"
| "handle cfg d hs RLive r p = (handleLiveness d hs, [], p)"
| "handle cfg d hs RReady r p = (handleReadiness d hs, [], p)"
| "handle cfg d hs RCreate r p = handleCreateConnectToken cfg d hs r p"
| "handle cfg d hs RRedeem r p = handleRedeemConnectToken cfg d hs r p"
| "handle cfg d hs RGet r p = handleGetConnection cfg d hs r p"
| "handle cfg d hs (RNotImplemented name) r p =
     (writeError hs 501 ''not_implemented'' (name @ '' is not implemented yet.'') False, [], p)"
| "handle cfg d hs RRig r p = handlePatchRigHandle cfg d hs r p"
| "handle cfg d hs RUpsert r p = handleUpsertWasteland cfg d hs r p"
| "handle cfg d hs RDelete r p = handleDeleteWasteland cfg d hs r p"
| "handle cfg d hs RSettings r p = handlePatchWastelandSettings cfg d hs r p"
| "handle cfg d hs RGraphQL r p = handleProxyGraphQL cfg d hs r p"
| "handle cfg d hs RAPI r p = handleProxyAPI cfg d hs r p"

definition withCORS :: "auth_config \<Rightarrow> auth_deps \<Rightarrow> route \<Rightarrow> http_request \<Rightarrow> pg \<Rightarrow> handler_result" where
  "withCORS cfg d t r p =
     (let origin = Get (rq_headers r) ''Origin''
      in if origin = [] then handle cfg d [] t r p
         else if origin \<notin> set (cg_AllowedOrigins cfg)
         then (writeError [] 403 ''origin_not_allowed''
                 ''The request origin is not allowlisted for this auth-service deployment.'' False, [], p)
         else
           (let h1 = Set [] ''Access-Control-Allow-Origin'' origin;
                h2 = Set h1 ''Access-Control-Allow-Methods'' ''GET, POST, PATCH, PUT, DELETE, OPTIONS'';
                h3 = Set h2 ''Access-Control-Allow-Headers'' ''Content-Type, Authorization, X-Service-Timestamp, X-Service-Nonce, X-Service-Body-SHA256, X-Auth-Tenant-Id, X-Auth-Environment, X-Auth-Subject-Id, X-Auth-Connection-Id, X-Request-Id'';
                h4 = Add h3 ''Vary'' ''Origin''
            in if rq_method r = ''OPTIONS'' then (\<lparr>rs_status = 204, rs_headers = h4, rs_body = BEmpty\<rparr>, [], p)
               else handle cfg d h4 t r p))"

end
