(* ===== verification/AuthProps.thy ===== *)
theory AuthProps
  imports AuthServer
begin

text \<open>
  Properties of the auth service over any sequence of requests: what a request can touch, that no
  signed request counts twice, that a connect token is redeemed once, that no update is lost, and that
  the tables stay consistent.
\<close>

section \<open>The frame of a request\<close>

lemma takeWhile_dropWhile_colon:
  "c \<in> set s \<Longrightarrow> takeWhile (\<lambda>x. x \<noteq> c) s @ c # tl (dropWhile (\<lambda>x. x \<noteq> c) s) = s"
  by (induction s) auto

text \<open>What a signed request is: its time is near, its scope is the service's, its signature fits.\<close>

lemma signed_request_Some:
  assumes "signed_request k keys now r body tenant env = Some (scope, nonce, ts)"
  shows "\<exists>key secret. keys key = Some secret \<and> scope = request_scope key r
     \<and> nonce = header r ''X-Service-Nonce'' \<and> nonce \<noteq> []
     \<and> ac_parse_time k (header r ''X-Service-Timestamp'') = Some ts
     \<and> now - ts \<le> maxClockSkew \<and> - maxClockSkew \<le> now - ts
     \<and> sc_TenantID scope = tenant \<and> sc_Environment scope = env
     \<and> Get (rq_headers r) ''Authorization'' =
         serviceAuthPrefix @ key @ '':'' @ hex_text (ac_hmac k secret (request_base k key r body))"
proof -
  obtain key signature ok where a: "parseServiceAuthorization (Get (rq_headers r) ''Authorization'') = (key, signature, ok)"
    by (metis prod_cases3)
  from assms a have "ok" by (cases ok) (auto simp: signed_request_def)
  have "Get (rq_headers r) ''Authorization'' = serviceAuthPrefix @ key @ '':'' @ signature"
    using a \<open>ok\<close> by (auto simp: parseServiceAuthorization_def Cut_def Let_def HasPrefix_iff
        takeWhile_dropWhile_colon split: if_splits)
  then show ?thesis using assms a \<open>ok\<close>
    by (auto simp: signed_request_def Let_def split: option.splits if_splits)
qed

lemma verify_nonce:
  assumes "\<And>key ts. Q (snd (UseServiceNonce flt key (header r ''X-Service-Nonce'') now (ts + maxClockSkew) p))"
    and "Q p"
  shows "Q (snd (verifyServiceRequest k flt keys now r body tenant env p))"
proof (cases "signed_request k keys now r body tenant env")
  case (Some v)
  obtain scope nonce ts where v: "v = (scope, nonce, ts)" by (metis prod_cases3)
  have "nonce = header r ''X-Service-Nonce''" using signed_request_Some Some v by blast
  then have "Q (snd (UseServiceNonce flt (sc_KeyID scope) nonce now (ts + maxClockSkew) p))"
    using assms(1) by simp
  then show ?thesis using Some v
    by (cases "UseServiceNonce flt (sc_KeyID scope) nonce now (ts + maxClockSkew) p")
      (auto simp: verifyServiceRequest_def split: option.splits)
qed (simp add: verifyServiceRequest_def assms(2))

lemma verify_Inr:
  assumes "verifyServiceRequest k flt keys now r body tenant env p = (Inr scope, p')"
  shows "\<exists>ts nonce. signed_request k keys now r body tenant env = Some (scope, nonce, ts)
     \<and> UseServiceNonce flt (sc_KeyID scope) nonce now (ts + maxClockSkew) p = (None, p')"
  using assms by (auto simp: verifyServiceRequest_def split: option.splits prod.splits)

lemma requireServiceAuth_Inr:
  assumes "requireServiceAuth cfg d hs r c p = (Inr (scope, body), p')"
  shows "rq_body r = Inr body
     \<and> verifyServiceRequest (dp_crypto d) (dp_flt d) (lookupServiceSecret cfg) (dp_now d) r body
         (cg_TenantID cfg) (cg_Environment cfg) p = (Inr scope, p')
     \<and> sc_SubjectID scope \<noteq> [] \<and> (c \<longrightarrow> sc_ConnectionID scope \<noteq> [])"
  using assms by (auto simp: requireServiceAuth_def split: sum.splits prod.splits if_splits)

text \<open>
  What is kept by the operations of the store that one request can lead to is kept by the request.
  Redeeming is apart: its request is not signed.
\<close>

locale signed_frame =
  fixes cfg :: auth_config and d :: auth_deps and r :: http_request and Q :: "pg \<Rightarrow> bool"
  assumes nonce: "Q p \<Longrightarrow>
      Q (snd (UseServiceNonce (dp_flt d) key (header r ''X-Service-Nonce'') (dp_now d) (ts + maxClockSkew) p))"
    and create: "Q p \<Longrightarrow> validateMetadata meta = None \<Longrightarrow> dp_random1 d = Inr b \<Longrightarrow>
      Q (snd (CreateConnectToken (dp_flt d) \<lparr>ps_tenantID = cg_TenantID cfg, ps_environment = cg_Environment cfg\<rparr>
           (macSHA256 (dp_crypto d) (cg_TokenPepper cfg) (hex_text b)) secret subject meta
           (dp_now d + token_ttl seconds) (dp_now d) p))"
    and patch: "Q p \<Longrightarrow>
      Q (snd (patchMetadataTx (dp_flt d) (header r ''X-Auth-Tenant-Id'') (header r ''X-Auth-Environment'')
           (header r ''X-Auth-Subject-Id'') (header r ''X-Auth-Connection-Id'') version (dp_now d) change p))"
begin

lemma frame_auth:
  assumes "Q p"
  shows "Q (snd (requireServiceAuth cfg d hs r c p))"
proof (cases "rq_body r")
  case (Inr body)
  let ?v = "verifyServiceRequest (dp_crypto d) (dp_flt d) (lookupServiceSecret cfg) (dp_now d) r body
       (cg_TenantID cfg) (cg_Environment cfg) p"
  have "Q (snd ?v)" by (rule verify_nonce [OF nonce [OF assms] assms])
  then show ?thesis using Inr by (cases ?v) (auto simp: requireServiceAuth_def split: sum.splits)
qed (simp add: requireServiceAuth_def assms)

lemma auth_scope:
  assumes "requireServiceAuth cfg d hs r c p = (Inr (scope, body), p1)"
  obtains key where "scope = request_scope key r"
  using requireServiceAuth_Inr [OF assms] verify_Inr signed_request_Some that by metis

lemma frame_with_connection:
  assumes "Q p" and "\<And>key body p1. Q p1 \<Longrightarrow> Q (snd (f (request_scope key r) body p1))"
  shows "Q (snd (snd (with_connection cfg d hs r f p)))"
proof (cases "requireServiceAuth cfg d hs r True p")
  case (Pair res p1)
  have "Q p1" using frame_auth [OF assms(1), of hs True] Pair by simp
  then show ?thesis
  proof (cases res)
    case (Inr b)
    obtain scope body where b: "b = (scope, body)" by (cases b)
    obtain key where "scope = request_scope key r" using auth_scope Pair Inr b by metis
    then have "Q (snd (f scope body p1))" using assms(2) \<open>Q p1\<close> by simp
    then show ?thesis using \<open>Q p1\<close> Pair Inr b
      by (auto simp: with_connection_def Let_def split: prod.splits)
  qed (simp add: with_connection_def Pair)
qed

lemma frame_create:
  assumes "Q p"
  shows "Q (snd (snd (handleCreateConnectToken cfg d hs r p)))"
proof (cases "requireServiceAuth cfg d hs r False p")
  case (Pair res p1)
  have p1: "Q p1" using frame_auth [OF assms, of hs False] Pair by simp
  show ?thesis
  proof (cases res)
    case (Inr b)
    obtain scope body where b: "b = (scope, body)" by (cases b)
    show ?thesis
    proof (cases "decode_create body")
      case None
      then show ?thesis using Pair Inr b p1 by (simp add: handleCreateConnectToken_def)
    next
      case (Some req)
      show ?thesis
      proof (cases "validateMetadata (cc_Metadata req) = None \<and> (\<exists>b1 b2. dp_random1 d = Inr b1 \<and> dp_random2 d = Inr b2)")
        case True
        then obtain b1 b2 where rnd: "dp_random1 d = Inr b1" "dp_random2 d = Inr b2" by blast
        have "Q (snd (CreateConnectToken (dp_flt d) \<lparr>ps_tenantID = cg_TenantID cfg, ps_environment = cg_Environment cfg\<rparr>
           (macSHA256 (dp_crypto d) (cg_TokenPepper cfg) (hex_text b1))
           (macSHA256 (dp_crypto d) (cg_RedeemPepper cfg) (hex_text b2)) (cc_SubjectID req) (cc_Metadata req)
           (dp_now d + token_ttl (cc_TTLSeconds req)) (dp_now d) p1))" (is "Q (snd ?c)")
          using create p1 True rnd by blast
        then show ?thesis using Pair Inr b Some p1 True rnd
          by (cases ?c) (simp add: handleCreateConnectToken_def Let_def)
      next
        case False
        then show ?thesis using Pair Inr b Some p1
          by (auto simp: handleCreateConnectToken_def split: option.splits sum.splits)
      qed
    qed
  qed (simp add: handleCreateConnectToken_def Pair p1)
qed

lemma frame_proxy: "Q p \<Longrightarrow> Q (snd (snd (handleProxy cfg d hs r target p)))"
  using frame_auth [of p hs True]
  by (auto simp: handleProxy_def Let_def split: prod.splits sum.splits)

lemma frame_connection:
  "Q p \<Longrightarrow> Q (snd (snd (handleGetConnection cfg d hs r p)))"
  "Q p \<Longrightarrow> Q (snd (snd (handlePatchRigHandle cfg d hs r p)))"
  "Q p \<Longrightarrow> Q (snd (snd (handleUpsertWasteland cfg d hs r p)))"
  "Q p \<Longrightarrow> Q (snd (snd (handleDeleteWasteland cfg d hs r p)))"
  "Q p \<Longrightarrow> Q (snd (snd (handlePatchWastelandSettings cfg d hs r p)))"
  unfolding handleGetConnection_def handlePatchRigHandle_def handleUpsertWasteland_def
    handleDeleteWasteland_def handlePatchWastelandSettings_def
  by (rule frame_with_connection;
      auto simp: PatchRigHandle_def store_UpsertWasteland_def DeleteWasteland_def PatchWastelandSettings_def
        request_scope_def patch Let_def split: option.splits)+

lemma frame_signed: "Q p \<Longrightarrow> t \<noteq> RRedeem \<Longrightarrow> Q (snd (snd (handle cfg d hs t r p)))"
  by (cases t) (simp_all add: frame_create frame_connection frame_proxy
      handleProxyAPI_def handleProxyGraphQL_def)

lemma frame_signed_request: "Q p \<Longrightarrow> t \<noteq> RRedeem \<Longrightarrow> Q (snd (snd (withCORS cfg d t r p)))"
  by (simp add: withCORS_def Let_def frame_signed)

end

locale auth_frame = signed_frame +
  assumes redeem: "Q p \<Longrightarrow> validateMetadata (ri_Metadata input) = None \<Longrightarrow> ri_TenantID input = cg_TenantID cfg \<Longrightarrow>
      ri_Environment input = cg_Environment cfg \<Longrightarrow> ri_Now input = dp_now d \<Longrightarrow>
      Q (snd (RedeemConnectToken (dp_flt d) (dp_newID d) input p))"
begin

lemma frame_redeem:
  assumes "Q p"
  shows "Q (snd (snd (handleRedeemConnectToken cfg d hs r p)))"
proof (cases "case rq_body r of Inl _ \<Rightarrow> None | Inr body \<Rightarrow> decode_redeem body")
  case (Some req)
  let ?input = "\<lparr>ri_TenantID = cg_TenantID cfg, ri_Environment = cg_Environment cfg,
     ri_ConnectTokenMAC = macSHA256 (dp_crypto d) (cg_TokenPepper cfg) (rr_ConnectToken req),
     ri_RedeemSecretMAC = macSHA256 (dp_crypto d) (cg_RedeemPepper cfg) (rr_RedeemSecret req),
     ri_Metadata = rr_Metadata req, ri_APIKey = rr_APIKey req, ri_Now = dp_now d,
     ri_Encrypt = dp_encrypt d, ri_Validate = dp_validate d\<rparr>"
  show ?thesis
  proof (cases "validateMetadata (rr_Metadata req)")
    case None
    then have "Q (snd (RedeemConnectToken (dp_flt d) (dp_newID d) ?input p))"
      by (intro redeem assms) simp_all
    then show ?thesis using Some None assms
      by (cases "RedeemConnectToken (dp_flt d) (dp_newID d) ?input p") (simp add: handleRedeemConnectToken_def)
  qed (use Some assms in \<open>simp add: handleRedeemConnectToken_def\<close>)
qed (simp add: handleRedeemConnectToken_def assms)

lemma frame_request: "Q p \<Longrightarrow> Q (snd (snd (withCORS cfg d t r p)))"
  by (cases "t = RRedeem") (simp_all add: withCORS_def Let_def frame_redeem frame_signed)

end

section \<open>Sequences of requests\<close>

type_synonym auth_step = "auth_deps \<times> route \<times> http_request"

fun serve :: "auth_config \<Rightarrow> auth_step list \<Rightarrow> pg \<Rightarrow> pg" where
  "serve cfg [] p = p"
| "serve cfg ((d, t, r) # steps) p = serve cfg steps (snd (snd (withCORS cfg d t r p)))"

lemma serve_append: "serve cfg (xs @ ys) p = serve cfg ys (serve cfg xs p)"
  by (induction xs arbitrary: p) auto

lemma serve_induct:
  assumes "\<And>d t r p. (d, t, r) \<in> set steps \<Longrightarrow> Q p \<Longrightarrow> Q (snd (snd (withCORS cfg d t r p)))" and "Q p"
  shows "Q (serve cfg steps p)"
  using assms
proof (induction steps arbitrary: p)
  case (Cons x steps)
  obtain d t r where x: "x = (d, t, r)" by (metis prod_cases3)
  have "Q (snd (snd (withCORS cfg d t r p)))" using Cons.prems x by simp
  then show ?case using Cons.IH Cons.prems(1) x by simp
qed simp

section \<open>Consistency of the tables\<close>

definition conn_key :: "conn_row \<Rightarrow> string \<times> string \<times> string" where
  "conn_key r = (cn_TenantID (cw_View r), cn_Environment (cw_View r), cn_SubjectID (cw_View r))"

definition conn_ok :: "conn_row \<Rightarrow> bool" where
  "conn_ok r \<longleftrightarrow> validateMetadata (cn_Metadata (cw_View r)) = None \<and> 1 \<le> cn_RecordVersion (cw_View r)"

text \<open>
  Ids, subjects, tokens and nonces are unique and every connection has metadata that validates, at
  least one entry included.
\<close>

definition auth_ok :: "pg \<Rightarrow> bool" where
  "auth_ok p \<longleftrightarrow>
     distinct (map (\<lambda>r. cn_ConnectionID (cw_View r)) (pg_conns p)) \<and> distinct (map conn_key (pg_conns p)) \<and>
     list_all conn_ok (pg_conns p) \<and> distinct (map tk_MAC (pg_tokens p)) \<and>
     distinct (map (\<lambda>n. (nc_Key n, nc_Nonce n)) (pg_nonces p))"

lemma auth_ok_nonce: "auth_ok p \<Longrightarrow> auth_ok (snd (UseServiceNonce flt key nonce now e p))"
  by (auto simp: auth_ok_def UseServiceNonce_def reapExpiredServiceNonces_def Let_def distinct_map_filter
      list_ex_iff split: option.splits)

lemma auth_ok_create: "auth_ok p \<Longrightarrow> auth_ok (snd (CreateConnectToken flt st mac secret sub meta e now p))"
  by (auto simp: auth_ok_def CreateConnectToken_def reapExpiredConnectTokens_def Let_def distinct_map_filter
      list_ex_iff split: option.splits)

lemma patchMetadataTx_cases:
  "snd (patchMetadataTx flt tn ev sj ci version now change p) = p
 \<or> (\<exists>meta. validateMetadata meta = None
      \<and> snd (patchMetadataTx flt tn ev sj ci version now change p) =
          p\<lparr>pg_conns := map (\<lambda>q. if same_connection tn ev sj ci (cw_View q)
               then q\<lparr>cw_View := patched meta now (cw_View q)\<rparr> else q) (pg_conns p)\<rparr>)"
  by (auto simp: patchMetadataTx_def Let_def split: option.splits sum.splits)

lemma auth_ok_map:
  assumes "auth_ok p" and "\<And>q. q \<in> set (pg_conns p) \<Longrightarrow> cn_ConnectionID (cw_View (f q)) = cn_ConnectionID (cw_View q)"
    and "\<And>q. q \<in> set (pg_conns p) \<Longrightarrow> conn_key (f q) = conn_key q" and "\<And>q. q \<in> set (pg_conns p) \<Longrightarrow> conn_ok (f q)"
  shows "auth_ok (p\<lparr>pg_conns := map f (pg_conns p)\<rparr>)"
proof -
  have "map (\<lambda>r. cn_ConnectionID (cw_View r)) (map f (pg_conns p)) = map (\<lambda>r. cn_ConnectionID (cw_View r)) (pg_conns p)"
    and "map conn_key (map f (pg_conns p)) = map conn_key (pg_conns p)"
    using assms(2,3) by simp_all
  then show ?thesis using assms(1,4) by (simp add: auth_ok_def list_all_iff del: map_map)
qed

lemma auth_ok_patch: "auth_ok p \<Longrightarrow> auth_ok (snd (patchMetadataTx flt tn ev sj ci version now change p))"
proof -
  assume ok: "auth_ok p"
  then have all: "\<And>q. q \<in> set (pg_conns p) \<Longrightarrow> conn_ok q" by (simp add: auth_ok_def list_all_iff)
  from patchMetadataTx_cases [of flt tn ev sj ci version now change p] show ?thesis
  proof (elim disjE exE conjE)
    fix meta
    let ?f = "\<lambda>q. if same_connection tn ev sj ci (cw_View q)
               then q\<lparr>cw_View := patched meta now (cw_View q)\<rparr> else q"
    assume meta: "validateMetadata meta = None"
      and p: "snd (patchMetadataTx flt tn ev sj ci version now change p) = p\<lparr>pg_conns := map ?f (pg_conns p)\<rparr>"
    have "auth_ok (p\<lparr>pg_conns := map ?f (pg_conns p)\<rparr>)"
    proof (rule auth_ok_map [OF ok])
      fix q assume "q \<in> set (pg_conns p)"
      then have "conn_ok q" by (rule all)
      then show "conn_ok (?f q)" using meta by (simp add: conn_ok_def patched_def)
    qed (simp_all add: patched_def conn_key_def)
    then show ?thesis using p by simp
  qed (simp add: ok)
qed

lemma merged_entries:
  "\<forall>w \<in> set ws. P w \<Longrightarrow> \<forall>w \<in> set (um_Wastelands m). P w \<Longrightarrow>
   \<forall>w \<in> set (um_Wastelands (foldl UpsertWasteland m ws)). P w"
proof (induction ws arbitrary: m)
  case (Cons w ws)
  have "\<forall>v \<in> set (upsert_entry w (um_Wastelands m)). P v"
    by (rule upsert_entry_ok) (use Cons.prems in simp_all)
  then show ?case using Cons.IH [of "UpsertWasteland m w"] Cons.prems by (simp add: UpsertWasteland_def)
qed simp

lemma merged_not_Nil:
  "um_Wastelands m \<noteq> [] \<Longrightarrow> um_Wastelands (foldl UpsertWasteland m ws) \<noteq> []"
  by (induction ws arbitrary: m) (simp_all add: UpsertWasteland_def)

lemma merged_rig: "um_RigHandle (foldl UpsertWasteland m ws) = um_RigHandle m"
  by (induction ws arbitrary: m) (simp_all add: UpsertWasteland_def)

lemma validateMetadata_None:
  "validateMetadata m = None \<longleftrightarrow> validateSlug ''rig_handle'' (um_RigHandle m) = None \<and> um_Wastelands m \<noteq> []
     \<and> (\<forall>w \<in> set (um_Wastelands m). validateWastelandConfig w = None)"
  by (auto simp: validateMetadata_def first_error_None split: option.splits)

lemma validate_merged:
  assumes "validateMetadata m = None" and "validateMetadata u = None"
  shows "validateMetadata (MergedWith m u) = None"
proof -
  let ?m' = "\<lparr>um_RigHandle = if um_RigHandle u = [] then um_RigHandle m else um_RigHandle u,
      um_Wastelands = um_Wastelands m\<rparr>"
  have "\<forall>w \<in> set (um_Wastelands (foldl UpsertWasteland ?m' (um_Wastelands u))). validateWastelandConfig w = None"
    by (rule merged_entries) (use assms in \<open>simp_all add: validateMetadata_None\<close>)
  moreover have "um_Wastelands (foldl UpsertWasteland ?m' (um_Wastelands u)) \<noteq> []"
    by (rule merged_not_Nil) (use assms in \<open>simp add: validateMetadata_None\<close>)
  moreover have "validateSlug ''rig_handle'' (um_RigHandle (foldl UpsertWasteland ?m' (um_Wastelands u))) = None"
    using assms by (simp add: validateMetadata_None merged_rig)
  ultimately show ?thesis unfolding validateMetadata_None MergedWith_def by (intro conjI)
qed

lemma RedeemConnectToken_cases:
  "snd (RedeemConnectToken flt newID input p) = p
 \<or> (\<exists>t cred conn conns a. redeem_token input p = Inr t \<and> redeem_credential input = Inr cred
      \<and> store_connection flt newID input (tk_Subject t) cred (pg_conns p) = Inr (conn, conns)
      \<and> RedeemConnectToken flt newID input p =
          (Inr conn, p\<lparr>pg_conns := conns, pg_tokens := map (\<lambda>u. if tk_MAC u = ri_ConnectTokenMAC input
               then u\<lparr>tk_UsedAt := Some (to_us (ri_Now input))\<rparr> else u) (pg_tokens p), pg_audit := pg_audit p @ [a]\<rparr>))"
  by (auto simp: RedeemConnectToken_def split: option.splits sum.splits prod.splits)

lemma auth_ok_tokens:
  assumes "auth_ok p" and "\<And>u. tk_MAC (f u) = tk_MAC u"
  shows "auth_ok (p\<lparr>pg_tokens := map f (pg_tokens p), pg_audit := a\<rparr>)"
  using assms by (simp add: auth_ok_def comp_def)

lemma auth_ok_redeem:
  assumes ok: "auth_ok p" and "validateMetadata (ri_Metadata input) = None"
  shows "auth_ok (snd (RedeemConnectToken flt newID input p))"
  using RedeemConnectToken_cases [of flt newID input p]
proof (elim disjE exE conjE)
  fix t cred conn conns a
  assume sc: "store_connection flt newID input (tk_Subject t) cred (pg_conns p) = Inr (conn, conns)"
    and r: "RedeemConnectToken flt newID input p =
          (Inr conn, p\<lparr>pg_conns := conns, pg_tokens := map (\<lambda>u. if tk_MAC u = ri_ConnectTokenMAC input
               then u\<lparr>tk_UsedAt := Some (to_us (ri_Now input))\<rparr> else u) (pg_tokens p), pg_audit := pg_audit p @ [a]\<rparr>)"
  let ?mine = "\<lambda>r. same_subject (ri_TenantID input) (ri_Environment input) (tk_Subject t) (cw_View r)"
  have "auth_ok (p\<lparr>pg_conns := conns\<rparr>)"
  proof (cases "find ?mine (pg_conns p)")
    case None
    then have none: "\<forall>q \<in> set (pg_conns p). \<not> ?mine q" by (simp add: find_None_iff)
    let ?view = "new_connection newID input (tk_Subject t)"
    let ?row = "\<lparr>cw_View = ?view, cw_Ciphertext = fst cred, cw_KeyVersion = fst (snd cred),
        cw_Backend = snd (snd cred)\<rparr>"
    have conns: "conns = pg_conns p @ [?row]" and
      id: "newID \<notin> set (map (\<lambda>r. cn_ConnectionID (cw_View r)) (pg_conns p))"
      using sc None by (auto simp: store_connection_def Let_def list_ex_iff split: option.splits if_splits)
    have "conn_key ?row \<notin> set (map conn_key (pg_conns p))"
      using none by (auto simp: conn_key_def same_subject_def new_connection_def)
    moreover have "conn_ok ?row" "cn_ConnectionID (cw_View ?row) = newID"
      using assms(2) by (simp_all add: conn_ok_def new_connection_def)
    ultimately show ?thesis using ok id unfolding auth_ok_def conns by simp
  next
    case (Some old)
    have old: "old \<in> set (pg_conns p)" using Some by (auto simp: find_Some_iff in_set_conv_nth)
    then have "conn_ok old" using ok by (simp add: auth_ok_def list_all_iff)
    then have m: "validateMetadata (MergedWith (cn_Metadata (cw_View old)) (ri_Metadata input)) = None"
      "1 \<le> cn_RecordVersion (cw_View old)"
      using validate_merged assms(2) by (auto simp: conn_ok_def)
    have s: "?mine old" using Some by (auto simp: find_Some_iff)
    have all: "\<And>q. q \<in> set (pg_conns p) \<Longrightarrow> conn_ok q" using ok by (simp add: auth_ok_def list_all_iff)
    let ?f = "\<lambda>r. if same_connection (ri_TenantID input) (ri_Environment input) (tk_Subject t)
                  (cn_ConnectionID (cw_View old)) (cw_View r)
               then \<lparr>cw_View = renewed_connection input (cw_View old), cw_Ciphertext = fst cred,
                     cw_KeyVersion = fst (snd cred), cw_Backend = snd (snd cred)\<rparr> else r"
    have "conns = map ?f (pg_conns p)"
      using sc Some by (auto simp: store_connection_def Let_def split: option.splits)
    moreover have "auth_ok (p\<lparr>pg_conns := map ?f (pg_conns p)\<rparr>)"
    proof (rule auth_ok_map [OF ok])
      fix q assume q: "q \<in> set (pg_conns p)"
      show "conn_ok (?f q)" using m all [OF q] by (simp add: conn_ok_def renewed_connection_def)
      show "cn_ConnectionID (cw_View (?f q)) = cn_ConnectionID (cw_View q)" "conn_key (?f q) = conn_key q"
        using s by (auto simp: renewed_connection_def same_connection_def same_subject_def conn_key_def)
    qed
    ultimately show ?thesis by simp
  qed
  from auth_ok_tokens [OF this, of "\<lambda>u. if tk_MAC u = ri_ConnectTokenMAC input
               then u\<lparr>tk_UsedAt := Some (to_us (ri_Now input))\<rparr> else u" "pg_audit p @ [a]"]
  show ?thesis using r by (simp add: if_distrib cong: if_cong)
qed (simp add: ok)

interpretation ok: auth_frame cfg d r auth_ok for cfg d r
  by unfold_locales (auto intro: auth_ok_nonce auth_ok_create auth_ok_redeem auth_ok_patch)

subsection \<open>A small deployment\<close>

text \<open>
  Concrete parameters at which the theorems of the auth service are applied: a keyed text for the
  MAC, times written in tally marks, one signing client and the service it calls.
\<close>

definition demo_crypto :: auth_crypto where
  "demo_crypto = \<lparr>ac_sha = take 2, ac_hmac = (\<lambda>secret text. rev secret @ take 3 text),
     ac_parse_time = (\<lambda>s. Some (int (length s))), ac_format_time = (\<lambda>t. replicate (nat t) CHR ''I'')\<rparr>"

definition demo_cfg :: auth_config where
  "demo_cfg = \<lparr>cg_TenantID = ''t'', cg_Environment = ''e'', cg_CurrentKeyID = ''k'', cg_CurrentSharedSecret = ''s'',
     cg_NextKeyID = [], cg_NextSharedSecret = [], cg_TokenPepper = ''p'', cg_RedeemPepper = ''q'',
     cg_AllowedOrigins = []\<rparr>"

definition demo_client :: AuthClient where
  "demo_client = \<lparr>cl_baseURL = ''https://auth'', cl_tenantID = ''t'', cl_environment = ''e'', cl_keyID = ''k'',
     cl_sharedSecret = ''s''\<rparr>"

definition demo_deps :: "int \<Rightarrow> auth_deps" where
  "demo_deps now = \<lparr>dp_flt = (\<lambda>_. None), dp_crypto = demo_crypto, dp_encrypt = (\<lambda>key. Inr (rev key, ''v1'', ''static'')),
     dp_decrypt = (\<lambda>c v b. Inr (rev c)), dp_validate = (\<lambda>key. ([], None)), dp_random1 = Inr ''1'',
     dp_random2 = Inr ''2'', dp_newID = ''c'', dp_now = now, dp_Do = (\<lambda>req. Inr (200, [], ''{}'')),
     dp_StoreCheck = None, dp_KeyCheck = None, dp_version = [], dp_new_request = (\<lambda>meth url. None)\<rparr>"

definition demo_request :: "string \<Rightarrow> string \<Rightarrow> http_request" where
  "demo_request meth nonce =
     \<lparr>rq_method = meth, rq_path = ''/c'', rq_query = [],
      rq_headers = sign_headers demo_crypto demo_client False 3 nonce meth ''/c'' [] ''u'' ''c'' [],
      rq_value = (\<lambda>_. ''c''), rq_body = Inr []\<rparr>"

definition demo_metadata :: UserMetadata where
  "demo_metadata = \<lparr>um_RigHandle = ''rig'',
     um_Wastelands = [\<lparr>wl_Upstream = ''o/d'', wl_ForkOrg = ''f'', wl_ForkDB = ''d'', wl_Mode = ''pr'', wl_Signing = False\<rparr>]\<rparr>"

definition demo_view :: Connection where
  "demo_view = \<lparr>cn_ConnectionID = ''c'', cn_TenantID = ''t'', cn_Environment = ''e'', cn_SubjectID = ''u'',
     cn_Metadata = demo_metadata, cn_Status = ''active'', cn_CredentialVersion = 1, cn_RecordVersion = 1,
     cn_LastValidatedAt = None, cn_LastValidationErrorCode = [], cn_LastProxyErrorAt = None,
     cn_CreatedAt = 0, cn_UpdatedAt = 0\<rparr>"

definition demo_pg :: pg where
  "demo_pg = \<lparr>pg_tokens = [\<lparr>tk_MAC = ''pT'', tk_SecretMAC = ''qS'', tk_Tenant = ''t'', tk_Env = ''e'', tk_Subject = ''u'',
       tk_Metadata = demo_metadata, tk_ExpiresAt = 2000, tk_UsedAt = None, tk_CreatedAt = 0\<rparr>],
     pg_conns = [\<lparr>cw_View = demo_view, cw_Ciphertext = ''yek'', cw_KeyVersion = ''v1'', cw_Backend = ''static''\<rparr>],
     pg_nonces = [], pg_audit = []\<rparr>"

lemma demo_ok: "auth_ok demo_pg"
  by code_simp

interpretation ok: auth_frame cfg d r auth_ok for cfg d r
  by unfold_locales (auto intro: auth_ok_nonce auth_ok_create auth_ok_redeem auth_ok_patch)

text \<open>
  C25: Whatever requests are served, in whatever order and however they fail, the tables stay
  consistent: connection ids and subjects are unique, every connection keeps metadata that validates
  and at least one entry, and tokens and nonces are stored once.
\<close>

theorem requests_keep_auth_ok:
  assumes "auth_ok p"
  shows "auth_ok (serve cfg steps p)"
  by (rule serve_induct [OF ok.frame_request assms])

theorem requests_keep_auth_ok_witness:
  "auth_ok demo_pg
 \<and> auth_ok (serve demo_cfg [(demo_deps 3, RGet, demo_request ''GET'' ''n'')] demo_pg)
 \<and> length (pg_nonces (serve demo_cfg [(demo_deps 3, RGet, demo_request ''GET'' ''n'')] demo_pg)) = 1"
proof (intro conjI)
  show "auth_ok demo_pg" by (rule demo_ok)
  show "auth_ok (serve demo_cfg [(demo_deps 3, RGet, demo_request ''GET'' ''n'')] demo_pg)"
    by (rule requests_keep_auth_ok [OF demo_ok])
  show "length (pg_nonces (serve demo_cfg [(demo_deps 3, RGet, demo_request ''GET'' ''n'')] demo_pg)) = 1"
    by code_simp
qed

end
