(* ===== verification/AuthSafety.thy ===== *)
theory AuthSafety
  imports AuthProps
begin

text \<open>
  What the auth service promises over time, each property by the frame of a request: a nonce is not
  used twice, a connect token is redeemed once, no change of a connection is lost, and a request
  touches only the connection it is signed for.
\<close>

section \<open>A nonce is used once\<close>

definition nonce_kept :: "string \<Rightarrow> string \<Rightarrow> int \<Rightarrow> pg \<Rightarrow> bool" where
  "nonce_kept key nonce until p \<longleftrightarrow>
     (\<exists>n \<in> set (pg_nonces p). nc_Key n = key \<and> nc_Nonce n = nonce \<and> until \<le> nc_ExpiresAt n)"

lemma to_us_mono: "a \<le> b \<Longrightarrow> to_us a \<le> to_us b"
  by (simp add: to_us_def zdiv_mono1)

lemma nonce_kept_step:
  assumes "nonce_kept key nonce until p" and "to_us now < until"
  shows "nonce_kept key nonce until (snd (UseServiceNonce flt k n now e p))"
  using assms by (auto simp: nonce_kept_def UseServiceNonce_def reapExpiredServiceNonces_def Let_def
      split: option.splits)

lemma nonce_kept_refuses:
  assumes "nonce_kept key nonce until p" and "to_us now < until"
  shows "fst (UseServiceNonce flt key nonce now e p) \<noteq> None"
proof -
  obtain n where "n \<in> set (pg_nonces p)" "nc_Key n = key" "nc_Nonce n = nonce" "to_us now < nc_ExpiresAt n"
    using assms by (auto simp: nonce_kept_def)
  then have "list_ex (\<lambda>n. nc_Key n = key \<and> nc_Nonce n = nonce) (pg_nonces (reapExpiredServiceNonces now p))"
    by (auto simp: list_ex_iff reapExpiredServiceNonces_def)
  then show ?thesis by (simp add: UseServiceNonce_def Let_def split: option.splits)
qed

lemma nonce_kept_used:
  "UseServiceNonce flt key nonce now e p = (None, p') \<Longrightarrow> nonce_kept key nonce (to_us e) p'"
  by (auto simp: UseServiceNonce_def nonce_kept_def Let_def split: option.splits if_splits)

lemma nonce_frame:
  assumes "dp_now d \<le> now" and "to_us now < until"
  shows "auth_frame cfg d r (nonce_kept key nonce until)"
proof unfold_locales
  have lt: "to_us (dp_now d) < until" using to_us_mono [OF assms(1)] assms(2) by simp
  show "nonce_kept key nonce until p \<Longrightarrow>
      nonce_kept key nonce until (snd (UseServiceNonce (dp_flt d) k (header r ''X-Service-Nonce'') (dp_now d) (ts + maxClockSkew) p))"
    for k ts p by (rule nonce_kept_step [OF _ lt])
qed (auto simp: nonce_kept_def CreateConnectToken_def reapExpiredConnectTokens_def patchMetadataTx_def
      RedeemConnectToken_def Let_def split: option.splits sum.splits prod.splits)

lemma serve_nonce_kept:
  assumes "nonce_kept key nonce until p" and "\<And>d t r. (d, t, r) \<in> set steps \<Longrightarrow> dp_now d \<le> now"
    and "to_us now < until"
  shows "nonce_kept key nonce until (serve cfg steps p)"
  by (rule serve_induct) (use assms auth_frame.frame_request [OF nonce_frame] in blast)+

lemma signed_request_key:
  "signed_request k keys now r body tenant env = Some (scope, nonce, ts) \<Longrightarrow>
   sc_KeyID scope = fst (parseServiceAuthorization (Get (rq_headers r) ''Authorization''))"
  by (auto simp: signed_request_def request_scope_def Let_def split: prod.splits option.splits if_splits)

lemma requireServiceAuth_refusal:
  "requireServiceAuth cfg d hs r c p = (Inl answer, p') \<Longrightarrow> rs_status answer \<in> {400, 401}"
  by (auto simp: requireServiceAuth_def writeError_def writeJSON_def split: sum.splits prod.splits if_splits)

text \<open>
  C4: A signed request that was accepted is not accepted again: any later request with its key and
  nonce is refused, whatever was served in between, until the microsecond in which the acceptance
  window of its timestamp ends.
\<close>

theorem signed_request_not_replayed:
  assumes "requireServiceAuth cfg d1 hs1 r1 c1 p = (Inr (scope, body), p1)"
    and "ac_parse_time (dp_crypto d1) (header r1 ''X-Service-Timestamp'') = Some ts"
    and "\<forall>(d, t, r) \<in> set steps. dp_now d \<le> dp_now d2"
    and "to_us (dp_now d2) < to_us (ts + maxClockSkew)"
    and "fst (parseServiceAuthorization (Get (rq_headers r2) ''Authorization'')) = sc_KeyID scope"
    and "header r2 ''X-Service-Nonce'' = header r1 ''X-Service-Nonce''"
  shows "\<exists>answer. fst (requireServiceAuth cfg d2 hs2 r2 c2 (serve cfg steps p1)) = Inl answer
     \<and> rs_status answer \<in> {400, 401}"
proof -
  obtain ts1 nonce1 where
    s1: "signed_request (dp_crypto d1) (lookupServiceSecret cfg) (dp_now d1) r1 body
          (cg_TenantID cfg) (cg_Environment cfg) = Some (scope, nonce1, ts1)" and
    u1: "UseServiceNonce (dp_flt d1) (sc_KeyID scope) nonce1 (dp_now d1) (ts1 + maxClockSkew) p = (None, p1)"
    using requireServiceAuth_Inr [OF assms(1)] verify_Inr by metis
  have n1: "nonce1 = header r1 ''X-Service-Nonce''" "ts1 = ts"
    using signed_request_Some [OF s1] assms(2) by auto
  have kept: "nonce_kept (sc_KeyID scope) nonce1 (to_us (ts + maxClockSkew)) (serve cfg steps p1)"
    by (rule serve_nonce_kept [where now = "dp_now d2"])
      (use nonce_kept_used [OF u1] n1 assms(3,4) in auto)
  show ?thesis
  proof (cases "requireServiceAuth cfg d2 hs2 r2 c2 (serve cfg steps p1)")
    case (Pair res p2)
    show ?thesis
    proof (cases res)
      case (Inl answer)
      then show ?thesis using requireServiceAuth_refusal Pair by fastforce
    next
      case (Inr b)
      obtain scope2 body2 where b: "b = (scope2, body2)" by (cases b)
      obtain ts2 nonce2 where
        s2: "signed_request (dp_crypto d2) (lookupServiceSecret cfg) (dp_now d2) r2 body2
              (cg_TenantID cfg) (cg_Environment cfg) = Some (scope2, nonce2, ts2)" and
        u2: "UseServiceNonce (dp_flt d2) (sc_KeyID scope2) nonce2 (dp_now d2) (ts2 + maxClockSkew)
               (serve cfg steps p1) = (None, p2)"
        using requireServiceAuth_Inr Pair Inr b verify_Inr by metis
      have "nonce2 = nonce1" "sc_KeyID scope2 = sc_KeyID scope"
        using signed_request_Some [OF s2] signed_request_key [OF s2] n1 assms(5,6) by auto
      then show ?thesis using nonce_kept_refuses [OF kept assms(4)] u2 by (metis fst_conv)
    qed
  qed
qed

text \<open>A request accepted at time 3, the tables after it, and the refusal of the same request at time 4.\<close>

definition demo_accept :: "(http_response + (ServiceScope \<times> string)) \<times> pg" where
  "demo_accept = requireServiceAuth demo_cfg (demo_deps 3) [] (demo_request ''GET'' ''n'') True demo_pg"

definition demo_scope :: ServiceScope where
  "demo_scope = \<lparr>sc_KeyID = ''k'', sc_TenantID = ''t'', sc_Environment = ''e'', sc_SubjectID = ''u'',
     sc_ConnectionID = ''c'', sc_RequestID = []\<rparr>"

lemma demo_accepts: "fst demo_accept = Inr (demo_scope, [])"
  by code_simp

lemma demo_timestamp:
  "ac_parse_time (dp_crypto (demo_deps 3)) (header (demo_request ''GET'' ''n'') ''X-Service-Timestamp'') = Some 3
 \<and> fst (parseServiceAuthorization (Get (rq_headers (demo_request ''GET'' ''n'')) ''Authorization'')) = sc_KeyID demo_scope
 \<and> to_us (dp_now (demo_deps 4)) < to_us (3 + maxClockSkew)"
  by code_simp

theorem signed_request_not_replayed_witness:
  "\<exists>answer. fst (requireServiceAuth demo_cfg (demo_deps 4) [] (demo_request ''GET'' ''n'') True
       (serve demo_cfg [(demo_deps 4, RGet, demo_request ''GET'' ''m'')] (snd demo_accept))) = Inl answer
     \<and> rs_status answer \<in> {400, 401}"
  by (rule signed_request_not_replayed
        [of demo_cfg "demo_deps 3" "[]" "demo_request ''GET'' ''n''" True demo_pg demo_scope "[]" "snd demo_accept" 3])
    (use demo_accepts demo_timestamp in \<open>simp_all add: demo_accept_def prod_eq_iff\<close>)

text \<open>
  The nonce is reaped at the very instant at which its request's timestamp is still accepted: at
  exactly five minutes the same request is accepted a second time.
\<close>

lemma demo_accept_nonces:
  "pg_nonces (snd demo_accept) = [\<lparr>nc_Key = ''k'', nc_Nonce = ''n'', nc_ExpiresAt = 300000000000\<rparr>]"
  by code_simp

lemma demo_edge_signed:
  "signed_request demo_crypto (lookupServiceSecret demo_cfg) 300000000003 (demo_request ''GET'' ''n'') [] ''t'' ''e''
     = Some (demo_scope, ''n'', 3)"
  by code_simp

lemma replay_at_the_edge:
  "fst (requireServiceAuth demo_cfg (demo_deps 300000000003) [] (demo_request ''GET'' ''n'') True (snd demo_accept))
     = Inr (demo_scope, [])"
  by (simp add: requireServiceAuth_def demo_deps_def demo_request_def verifyServiceRequest_def
      demo_edge_signed [unfolded demo_request_def] demo_cfg_def [THEN arg_cong, of cg_TenantID]
      demo_cfg_def [THEN arg_cong, of cg_Environment] UseServiceNonce_def reapExpiredServiceNonces_def
      demo_accept_nonces Let_def to_us_def demo_scope_def)

end
