(* ===== verification/AuthTokens.thy ===== *)
theory AuthTokens
  imports AuthSafety
begin

text \<open>
  Connect tokens and record versions: what a redemption needs and does, that a token is redeemed
  once, and that of two changes of one version of a connection only one is made.
\<close>

section \<open>What a redemption needs\<close>

lemma redeem_token_Inr:
  assumes "redeem_token input p = Inr t"
  shows "t \<in> set (pg_tokens p)" "tk_MAC t = ri_ConnectTokenMAC input" "tk_UsedAt t = None"
    "ri_Now input < tk_ExpiresAt t" "tk_Tenant t = ri_TenantID input" "tk_Env t = ri_Environment input"
    "tk_SecretMAC t = ri_RedeemSecretMAC input" "tk_Metadata t = ri_Metadata input"
  using assms by (auto simp: redeem_token_def connectTokenExpired_def equalMetadata_def find_Some_iff
      split: option.splits if_splits)

lemma redeem_credential_Inr:
  assumes "redeem_credential input = Inr cred"
  shows "snd (ri_Validate input (ri_APIKey input)) = None" "ri_Encrypt input (ri_APIKey input) = Inr cred"
  using assms by (auto simp: redeem_credential_def split: prod.splits option.splits sum.splits)

lemma RedeemConnectToken_Inr:
  assumes "RedeemConnectToken flt newID input p = (Inr conn, p')"
  obtains t cred conns a where "redeem_token input p = Inr t" and "redeem_credential input = Inr cred"
    and "store_connection flt newID input (tk_Subject t) cred (pg_conns p) = Inr (conn, conns)"
    and "p' = p\<lparr>pg_conns := conns, pg_tokens := map (\<lambda>u. if tk_MAC u = ri_ConnectTokenMAC input
               then u\<lparr>tk_UsedAt := Some (to_us (ri_Now input))\<rparr> else u) (pg_tokens p), pg_audit := pg_audit p @ [a]\<rparr>"
  using assms by (auto simp: RedeemConnectToken_def split: option.splits sum.splits prod.splits)

lemma RedeemConnectToken_Inl: "RedeemConnectToken flt newID input p = (Inl err, p') \<Longrightarrow> p' = p"
  by (auto simp: RedeemConnectToken_def split: option.splits sum.splits prod.splits)

text \<open>The row that is stored for the subject holds the new credential.\<close>

lemma store_connection_row:
  assumes "store_connection flt newID input subject cred conns = Inr (conn, conns')"
  shows "cn_SubjectID conn = subject \<and> cn_TenantID conn = ri_TenantID input \<and> cn_Environment conn = ri_Environment input
     \<and> cn_Status conn = ''active''
     \<and> \<lparr>cw_View = conn, cw_Ciphertext = fst cred, cw_KeyVersion = fst (snd cred), cw_Backend = snd (snd cred)\<rparr> \<in> set conns'"
proof (cases "find (\<lambda>r. same_subject (ri_TenantID input) (ri_Environment input) subject (cw_View r)) conns")
  case None
  then show ?thesis using assms
    by (auto simp: store_connection_def Let_def new_connection_def split: option.splits if_splits)
next
  case (Some old)
  then have old: "old \<in> set conns" "same_subject (ri_TenantID input) (ri_Environment input) subject (cw_View old)"
    by (auto simp: find_Some_iff)
  have c: "conn = renewed_connection input (cw_View old)"
    and m: "conns' = map (\<lambda>r. if same_connection (ri_TenantID input) (ri_Environment input) subject
           (cn_ConnectionID (cw_View old)) (cw_View r)
         then \<lparr>cw_View = conn, cw_Ciphertext = fst cred, cw_KeyVersion = fst (snd cred), cw_Backend = snd (snd cred)\<rparr>
         else r) conns"
    using assms Some by (auto simp: store_connection_def Let_def split: option.splits)
  have "\<lparr>cw_View = conn, cw_Ciphertext = fst cred, cw_KeyVersion = fst (snd cred), cw_Backend = snd (snd cred)\<rparr> \<in> set conns'"
    unfolding m set_map by (rule image_eqI [where x = old]) (use old in \<open>simp_all add: same_connection_def\<close>)
  then show ?thesis using old(2) unfolding c by (simp add: renewed_connection_def same_subject_def)
qed

text \<open>
  A redemption succeeds only with an unused, unexpired token of this tenant and environment whose
  redeem secret and approved metadata are the submitted ones and a key that DoltHub accepts; then the
  credential is stored for the subject the token was minted for, and the token is used.
\<close>

theorem redeem_needs_the_token:
  assumes "RedeemConnectToken flt newID input p = (Inr conn, p')"
  shows "\<exists>t cred. t \<in> set (pg_tokens p) \<and> tk_MAC t = ri_ConnectTokenMAC input \<and> tk_UsedAt t = None
     \<and> ri_Now input < tk_ExpiresAt t \<and> tk_Tenant t = ri_TenantID input \<and> tk_Env t = ri_Environment input
     \<and> tk_SecretMAC t = ri_RedeemSecretMAC input \<and> tk_Metadata t = ri_Metadata input
     \<and> snd (ri_Validate input (ri_APIKey input)) = None \<and> ri_Encrypt input (ri_APIKey input) = Inr cred
     \<and> cn_SubjectID conn = tk_Subject t \<and> cn_Status conn = ''active''
     \<and> \<lparr>cw_View = conn, cw_Ciphertext = fst cred, cw_KeyVersion = fst (snd cred), cw_Backend = snd (snd cred)\<rparr>
          \<in> set (pg_conns p')
     \<and> filter (\<lambda>u. tk_MAC u = tk_MAC t \<and> tk_UsedAt u = None) (pg_tokens p') = []"
proof -
  obtain t cred conns a where t: "redeem_token input p = Inr t" and c: "redeem_credential input = Inr cred"
    and s: "store_connection flt newID input (tk_Subject t) cred (pg_conns p) = Inr (conn, conns)"
    and p': "p' = p\<lparr>pg_conns := conns, pg_tokens := map (\<lambda>u. if tk_MAC u = ri_ConnectTokenMAC input
               then u\<lparr>tk_UsedAt := Some (to_us (ri_Now input))\<rparr> else u) (pg_tokens p), pg_audit := pg_audit p @ [a]\<rparr>"
    using assms by (rule RedeemConnectToken_Inr)
  have "filter (\<lambda>u. tk_MAC u = tk_MAC t \<and> tk_UsedAt u = None) (pg_tokens p') = []"
    unfolding p' using redeem_token_Inr(2) [OF t] by (auto simp: filter_empty_conv)
  then show ?thesis
    using redeem_token_Inr [OF t] redeem_credential_Inr [OF c] store_connection_row [OF s] p' by auto
qed

section \<open>A token is redeemed once\<close>

definition spent :: "string \<Rightarrow> pg \<Rightarrow> bool" where
  "spent mac p \<longleftrightarrow> list_all (\<lambda>t. tk_MAC t = mac \<longrightarrow> tk_UsedAt t \<noteq> None) (pg_tokens p)"

lemma spent_after:
  "RedeemConnectToken flt newID input p = (Inr conn, p') \<Longrightarrow> spent (ri_ConnectTokenMAC input) p'"
  by (erule RedeemConnectToken_Inr) (auto simp: spent_def list_all_iff)

lemma spent_refuses:
  assumes "spent (ri_ConnectTokenMAC input) p"
  shows "redeem_token input p = Inl ErrInvalidConnectToken"
  using assms by (auto simp: spent_def list_all_iff redeem_token_def find_Some_iff split: option.splits)

lemma spent_frame:
  assumes "\<And>b. dp_random1 d = Inr b \<Longrightarrow> macSHA256 (dp_crypto d) (cg_TokenPepper cfg) (hex_text b) \<noteq> mac"
  shows "auth_frame cfg d r (spent mac)"
proof unfold_locales
  fix p meta b secret subject seconds
  assume "spent mac p" "dp_random1 d = Inr b"
  then show "spent mac (snd (CreateConnectToken (dp_flt d) \<lparr>ps_tenantID = cg_TenantID cfg, ps_environment = cg_Environment cfg\<rparr>
           (macSHA256 (dp_crypto d) (cg_TokenPepper cfg) (hex_text b)) secret subject meta
           (dp_now d + token_ttl seconds) (dp_now d) p))"
    using assms [of b] by (auto simp: spent_def list_all_iff CreateConnectToken_def reapExpiredConnectTokens_def Let_def
        split: option.splits)
qed (auto simp: spent_def list_all_iff UseServiceNonce_def reapExpiredServiceNonces_def patchMetadataTx_def
      RedeemConnectToken_def Let_def split: option.splits sum.splits prod.splits)

text \<open>
  C9: After a successful redemption the token's every further redemption fails and changes nothing,
  whatever is served in between, as long as the same token is not minted again.
\<close>

theorem connect_token_redeemed_once:
  assumes "RedeemConnectToken flt1 id1 in1 p = (Inr conn, p1)"
    and "\<forall>(d, t, r) \<in> set steps. \<forall>b. dp_random1 d = Inr b \<longrightarrow>
           macSHA256 (dp_crypto d) (cg_TokenPepper cfg) (hex_text b) \<noteq> ri_ConnectTokenMAC in1"
    and "ri_ConnectTokenMAC in2 = ri_ConnectTokenMAC in1" and "flt2 ''redeem'' = None"
  shows "RedeemConnectToken flt2 id2 in2 (serve cfg steps p1) = (Inl ErrInvalidConnectToken, serve cfg steps p1)"
proof -
  have "spent (ri_ConnectTokenMAC in1) (serve cfg steps p1)"
  proof (rule serve_induct)
    show "spent (ri_ConnectTokenMAC in1) p1" by (rule spent_after [OF assms(1)])
    fix d t r q assume "(d, t, r) \<in> set steps" "spent (ri_ConnectTokenMAC in1) q"
    then show "spent (ri_ConnectTokenMAC in1) (snd (snd (withCORS cfg d t r q)))"
      using auth_frame.frame_request [OF spent_frame] assms(2) by fastforce
  qed
  then show ?thesis using spent_refuses [of in2] assms(3,4) by (simp add: RedeemConnectToken_def)
qed

definition demo_input :: "int \<Rightarrow> RedeemInput" where
  "demo_input now = \<lparr>ri_TenantID = ''t'', ri_Environment = ''e'', ri_ConnectTokenMAC = ''pT'', ri_RedeemSecretMAC = ''qS'',
     ri_Metadata = demo_metadata, ri_APIKey = ''key'', ri_Now = now, ri_Encrypt = dp_encrypt (demo_deps now),
     ri_Validate = dp_validate (demo_deps now)\<rparr>"

definition demo_renewed :: Connection where
  "demo_renewed = renewed_connection (demo_input 5) demo_view"

lemma demo_redeems:
  "fst (RedeemConnectToken (\<lambda>_. None) ''n'' (demo_input 5) demo_pg) = Inr demo_renewed"
  by code_simp

lemma demo_redeemed:
  "RedeemConnectToken (\<lambda>_. None) ''n'' (demo_input 5) demo_pg =
     (Inr demo_renewed, snd (RedeemConnectToken (\<lambda>_. None) ''n'' (demo_input 5) demo_pg))"
  using demo_redeems by (simp add: prod_eq_iff)

theorem redeem_needs_the_token_witness:
  "\<exists>t cred. t \<in> set (pg_tokens demo_pg) \<and> tk_UsedAt t = None \<and> ri_Encrypt (demo_input 5) ''key'' = Inr cred
     \<and> cn_SubjectID demo_renewed = tk_Subject t"
  using redeem_needs_the_token [OF demo_redeemed]
  by (elim exE conjE) (intro exI conjI, assumption+, simp add: demo_input_def)

theorem connect_token_redeemed_once_witness:
  "fst (RedeemConnectToken (\<lambda>_. None) ''m'' (demo_input 6)
     (serve demo_cfg [(demo_deps 6, RGet, demo_request ''GET'' ''n'')]
        (snd (RedeemConnectToken (\<lambda>_. None) ''n'' (demo_input 5) demo_pg)))) = Inl ErrInvalidConnectToken"
proof -
  have mac: "\<forall>b. dp_random1 (demo_deps 6) = Inr b \<longrightarrow>
      macSHA256 (dp_crypto (demo_deps 6)) (cg_TokenPepper demo_cfg) (hex_text b) \<noteq> ri_ConnectTokenMAC (demo_input 5)"
    by (auto simp: demo_deps_def demo_crypto_def demo_cfg_def demo_input_def macSHA256_def hex_text_def hex_ch_def)
  show ?thesis
    by (subst connect_token_redeemed_once [OF demo_redeemed]) (use mac in \<open>simp_all add: demo_input_def\<close>)
qed

section \<open>No change of a connection is lost\<close>

text \<open>The connection exists and its version is beyond \<open>v\<close>.\<close>

definition version_beyond :: "string \<Rightarrow> string \<Rightarrow> string \<Rightarrow> string \<Rightarrow> int \<Rightarrow> pg \<Rightarrow> bool" where
  "version_beyond tn ev sj ci v p \<longleftrightarrow>
     list_ex (\<lambda>q. same_connection tn ev sj ci (cw_View q)) (pg_conns p) \<and>
     list_all (\<lambda>q. same_connection tn ev sj ci (cw_View q) \<longrightarrow> v < cn_RecordVersion (cw_View q)) (pg_conns p)"

lemma version_beyond_map:
  assumes ex: "q \<in> set (pg_conns p)" "same_connection tn ev sj ci (cw_View q)"
    and same: "\<And>r. r \<in> set (pg_conns p) \<Longrightarrow>
       same_connection tn ev sj ci (cw_View (f r)) = same_connection tn ev sj ci (cw_View r)"
    and ver: "\<And>r. r \<in> set (pg_conns p) \<Longrightarrow> same_connection tn ev sj ci (cw_View r) \<Longrightarrow>
       v < cn_RecordVersion (cw_View (f r))"
  shows "version_beyond tn ev sj ci v (p\<lparr>pg_conns := map f (pg_conns p)\<rparr>)"
proof -
  have "f q \<in> set (map f (pg_conns p))" "same_connection tn ev sj ci (cw_View (f q))" using ex same by simp_all
  then have "list_ex (\<lambda>q. same_connection tn ev sj ci (cw_View q)) (map f (pg_conns p))"
    unfolding list_ex_iff by blast
  moreover have "list_all (\<lambda>q. same_connection tn ev sj ci (cw_View q) \<longrightarrow> v < cn_RecordVersion (cw_View q))
      (map f (pg_conns p))"
    using same ver by (simp add: list_all_iff)
  ultimately show ?thesis by (simp add: version_beyond_def)
qed

lemma version_beyond_has:
  assumes "version_beyond tn ev sj ci v p"
  obtains q where "q \<in> set (pg_conns p)" "same_connection tn ev sj ci (cw_View q)"
  using assms by (auto simp: version_beyond_def list_ex_iff)

lemma version_beyond_all:
  "version_beyond tn ev sj ci v p \<Longrightarrow> q \<in> set (pg_conns p) \<Longrightarrow> same_connection tn ev sj ci (cw_View q) \<Longrightarrow>
   v < cn_RecordVersion (cw_View q)"
  by (simp add: version_beyond_def list_all_iff)

lemma patched_same [simp]:
  "same_connection tn ev sj ci (patched meta now c) = same_connection tn ev sj ci c"
  "cn_RecordVersion (patched meta now c) = cn_RecordVersion c + 1"
  by (simp_all add: patched_def same_connection_def same_subject_def)

lemma version_beyond_made:
  assumes "q \<in> set (pg_conns p)" and "same_connection tn ev sj ci (cw_View q)"
    and "\<And>r. r \<in> set (pg_conns p) \<Longrightarrow> same_connection tn ev sj ci (cw_View r) \<Longrightarrow> v \<le> cn_RecordVersion (cw_View r)"
  shows "version_beyond tn ev sj ci v (p\<lparr>pg_conns := map (\<lambda>q. if same_connection tn ev sj ci (cw_View q)
               then q\<lparr>cw_View := patched meta now (cw_View q)\<rparr> else q) (pg_conns p)\<rparr>)"
  by (rule version_beyond_map [OF assms(1,2)]) (use assms(3) in \<open>simp_all add: zle_add1_eq_le\<close>)

lemma version_beyond_patch:
  assumes "version_beyond tn ev sj ci v p"
  shows "version_beyond tn ev sj ci v (snd (patchMetadataTx flt tn' ev' sj' ci' version now change p))"
  using patchMetadataTx_cases [of flt tn' ev' sj' ci' version now change p]
proof (elim disjE exE conjE)
  fix meta
  let ?f = "\<lambda>q. if same_connection tn' ev' sj' ci' (cw_View q)
               then q\<lparr>cw_View := patched meta now (cw_View q)\<rparr> else q"
  assume eq: "snd (patchMetadataTx flt tn' ev' sj' ci' version now change p) = p\<lparr>pg_conns := map ?f (pg_conns p)\<rparr>"
  obtain q where "q \<in> set (pg_conns p)" "same_connection tn ev sj ci (cw_View q)"
    using assms by (rule version_beyond_has)
  then have "version_beyond tn ev sj ci v (p\<lparr>pg_conns := map ?f (pg_conns p)\<rparr>)"
  proof (rule version_beyond_map)
    fix r assume "r \<in> set (pg_conns p)" "same_connection tn ev sj ci (cw_View r)"
    then have "v < cn_RecordVersion (cw_View r)" by (rule version_beyond_all [OF assms])
    then show "v < cn_RecordVersion (cw_View (?f r))" by simp
  qed simp
  then show ?thesis using eq by simp
qed (simp add: assms)

lemma store_connection_cases:
  assumes "store_connection flt newID input subject cred conns = Inr (conn, conns')"
  obtains (new) row where "conns' = conns @ [row]" "cw_View row = new_connection newID input subject"
      "\<forall>q \<in> set conns. \<not> same_subject (ri_TenantID input) (ri_Environment input) subject (cw_View q)"
    | (old) old where "old \<in> set conns" "same_subject (ri_TenantID input) (ri_Environment input) subject (cw_View old)"
      "conns' = map (\<lambda>r. if same_connection (ri_TenantID input) (ri_Environment input) subject
           (cn_ConnectionID (cw_View old)) (cw_View r)
         then \<lparr>cw_View = renewed_connection input (cw_View old), cw_Ciphertext = fst cred, cw_KeyVersion = fst (snd cred),
               cw_Backend = snd (snd cred)\<rparr>
         else r) conns"
proof (cases "find (\<lambda>r. same_subject (ri_TenantID input) (ri_Environment input) subject (cw_View r)) conns")
  case None
  then have "\<forall>q \<in> set conns. \<not> same_subject (ri_TenantID input) (ri_Environment input) subject (cw_View q)"
    by (simp add: find_None_iff)
  then show ?thesis using assms None new
    by (auto simp: store_connection_def Let_def split: option.splits if_splits)
next
  case (Some o1)
  then have "o1 \<in> set conns" "same_subject (ri_TenantID input) (ri_Environment input) subject (cw_View o1)"
    by (auto simp: find_Some_iff)
  then show ?thesis using assms Some old [of o1] by (auto simp: store_connection_def Let_def split: option.splits)
qed

lemma version_beyond_redeem:
  assumes "version_beyond tn ev sj ci v p"
  shows "version_beyond tn ev sj ci v (snd (RedeemConnectToken flt newID input p))"
proof (cases "RedeemConnectToken flt newID input p")
  case (Pair res p')
  show ?thesis
  proof (cases res)
    case (Inl err)
    then have "p' = p" using RedeemConnectToken_Inl Pair by simp
    then show ?thesis using Pair assms by simp
  next
    case (Inr conn)
    have "RedeemConnectToken flt newID input p = (Inr conn, p')" using Pair Inr by simp
    then obtain t cred conns a where "redeem_token input p = Inr t" "redeem_credential input = Inr cred"
      and s: "store_connection flt newID input (tk_Subject t) cred (pg_conns p) = Inr (conn, conns)"
      and p': "p' = p\<lparr>pg_conns := conns, pg_tokens := map (\<lambda>u. if tk_MAC u = ri_ConnectTokenMAC input
               then u\<lparr>tk_UsedAt := Some (to_us (ri_Now input))\<rparr> else u) (pg_tokens p), pg_audit := pg_audit p @ [a]\<rparr>"
      by (rule RedeemConnectToken_Inr)
    have "version_beyond tn ev sj ci v (p\<lparr>pg_conns := conns\<rparr>)"
      using s
    proof (cases rule: store_connection_cases)
      case (new row)
      have "\<not> same_connection tn ev sj ci (cw_View row)"
        using assms new(2,3) by (auto simp: version_beyond_def list_ex_iff same_connection_def same_subject_def
            new_connection_def)
      then show ?thesis using assms new(1) by (simp add: version_beyond_def)
    next
      case (old o1)
      obtain q where "q \<in> set (pg_conns p)" "same_connection tn ev sj ci (cw_View q)"
        using assms by (rule version_beyond_has)
      then show ?thesis unfolding old(3)
      proof (rule version_beyond_map)
        fix r assume r: "r \<in> set (pg_conns p)" "same_connection tn ev sj ci (cw_View r)"
        have "v < cn_RecordVersion (cw_View o1)"
          if "same_connection (ri_TenantID input) (ri_Environment input) (tk_Subject t) (cn_ConnectionID (cw_View o1)) (cw_View r)"
          using version_beyond_all [OF assms old(1)] r(2) that old(2)
          by (auto simp: same_connection_def same_subject_def)
        then show "v < cn_RecordVersion (cw_View (if same_connection (ri_TenantID input) (ri_Environment input) (tk_Subject t)
              (cn_ConnectionID (cw_View o1)) (cw_View r)
            then \<lparr>cw_View = renewed_connection input (cw_View o1), cw_Ciphertext = fst cred,
                  cw_KeyVersion = fst (snd cred), cw_Backend = snd (snd cred)\<rparr> else r))"
          using version_beyond_all [OF assms r] by (auto simp: renewed_connection_def)
      qed (use old(2) in \<open>auto simp: renewed_connection_def same_connection_def same_subject_def\<close>)
    qed
    then show ?thesis using Pair p' by (simp add: version_beyond_def)
  qed
qed

lemma nonce_conns [simp]: "pg_conns (snd (UseServiceNonce flt key nonce now e p)) = pg_conns p"
  by (simp add: UseServiceNonce_def reapExpiredServiceNonces_def Let_def split: option.splits)

lemma create_conns [simp]: "pg_conns (snd (CreateConnectToken flt st mac secret sub meta e now p)) = pg_conns p"
  by (simp add: CreateConnectToken_def reapExpiredConnectTokens_def Let_def split: option.splits)

lemma version_beyond_conns:
  "version_beyond tn ev sj ci v p \<Longrightarrow> pg_conns q = pg_conns p \<Longrightarrow> version_beyond tn ev sj ci v q"
  by (simp add: version_beyond_def)

interpretation beyond: auth_frame cfg d r "version_beyond tn ev sj ci v" for cfg d r tn ev sj ci v
proof unfold_locales
qed (simp_all add: version_beyond_patch version_beyond_redeem version_beyond_conns)

lemma patchMetadataTx_Inr:
  assumes "patchMetadataTx flt tn ev sj ci version now change p = (Inr conn, p')"
  obtains q meta where "find (\<lambda>r. same_connection tn ev sj ci (cw_View r)) (pg_conns p) = Some q"
    "cn_RecordVersion (cw_View q) = version" "change (cn_Metadata (cw_View q)) = Inr meta"
    "validateMetadata meta = None" "conn = patched meta now (cw_View q)"
    "p' = p\<lparr>pg_conns := map (\<lambda>q. if same_connection tn ev sj ci (cw_View q)
               then q\<lparr>cw_View := patched meta now (cw_View q)\<rparr> else q) (pg_conns p)\<rparr>"
  using assms by (auto simp: patchMetadataTx_def Let_def split: option.splits if_splits sum.splits)

text \<open>
  Of two changes of the same version of a connection only one is made: once a change is made, a
  later one that expects the version before it is a conflict and changes nothing, whatever requests
  are served in between.
\<close>

theorem stale_change_conflicts:
  assumes "auth_ok p"
    and "patchMetadataTx flt1 tn ev sj ci version now1 change1 p = (Inr conn, p1)"
    and "flt2 ''lock connection'' = None"
  shows "patchMetadataTx flt2 tn ev sj ci version now2 change2 (serve cfg steps p1)
     = (Inl ErrConflict, serve cfg steps p1)"
proof -
  obtain q meta where q: "find (\<lambda>r. same_connection tn ev sj ci (cw_View r)) (pg_conns p) = Some q"
    "cn_RecordVersion (cw_View q) = version"
    and p1: "p1 = p\<lparr>pg_conns := map (\<lambda>q. if same_connection tn ev sj ci (cw_View q)
               then q\<lparr>cw_View := patched meta now1 (cw_View q)\<rparr> else q) (pg_conns p)\<rparr>"
    using assms(2) by (rule patchMetadataTx_Inr)
  have m: "q \<in> set (pg_conns p)" "same_connection tn ev sj ci (cw_View q)" using q(1) by (auto simp: find_Some_iff)
  have inj: "inj_on (\<lambda>r. cn_ConnectionID (cw_View r)) (set (pg_conns p))"
    using assms(1) by (simp add: auth_ok_def distinct_map)
  have one: "version \<le> cn_RecordVersion (cw_View r)"
    if "r \<in> set (pg_conns p)" "same_connection tn ev sj ci (cw_View r)" for r
  proof -
    have "r = q" by (rule inj_onD [OF inj]) (use m that in \<open>simp_all add: same_connection_def\<close>)
    then show ?thesis using q(2) by simp
  qed
  have made: "version_beyond tn ev sj ci version p1"
    unfolding p1 by (rule version_beyond_made [OF m one])
  have b: "version_beyond tn ev sj ci version (serve cfg steps p1)"
  proof (rule serve_induct)
    show "version_beyond tn ev sj ci version p1" by (rule made)
    fix d t r x assume "version_beyond tn ev sj ci version x"
    then show "version_beyond tn ev sj ci version (snd (snd (withCORS cfg d t r x)))" by (rule beyond.frame_request)
  qed
  then obtain q2 where "find (\<lambda>r. same_connection tn ev sj ci (cw_View r)) (pg_conns (serve cfg steps p1)) = Some q2"
    by (cases "find (\<lambda>r. same_connection tn ev sj ci (cw_View r)) (pg_conns (serve cfg steps p1))")
      (auto simp: version_beyond_def list_ex_iff find_None_iff)
  moreover from this have "version < cn_RecordVersion (cw_View q2)"
    using b by (auto simp: version_beyond_def list_all_iff find_Some_iff)
  ultimately show ?thesis using assms(3) by (simp add: patchMetadataTx_def)
qed

definition demo_change :: "(auth_error + Connection) \<times> pg" where
  "demo_change = patchMetadataTx (\<lambda>_. None) ''t'' ''e'' ''u'' ''c'' 1 7 (\<lambda>meta. Inr (meta\<lparr>um_RigHandle := ''r2''\<rparr>)) demo_pg"

lemma demo_changes:
  "fst demo_change = Inr (patched (demo_metadata\<lparr>um_RigHandle := ''r2''\<rparr>) 7 demo_view)"
  by code_simp

theorem stale_change_conflicts_witness:
  "fst (patchMetadataTx (\<lambda>_. None) ''t'' ''e'' ''u'' ''c'' 1 8 Inr
     (serve demo_cfg [(demo_deps 6, RGet, demo_request ''GET'' ''n'')] (snd demo_change))) = Inl ErrConflict"
  by (subst stale_change_conflicts [OF demo_ok, where ?p1.0 = "snd demo_change"
        and conn = "patched (demo_metadata\<lparr>um_RigHandle := ''r2''\<rparr>) 7 demo_view"
        and ?change1.0 = "\<lambda>meta. Inr (meta\<lparr>um_RigHandle := ''r2''\<rparr>)" and ?now1.0 = 7 and ?flt1.0 = "\<lambda>_. None"])
    (use demo_changes in \<open>simp_all add: demo_change_def prod_eq_iff\<close>)

end
