(* ===== verification/AuthScope.thy ===== *)
theory AuthScope
  imports AuthTokens
begin

text \<open>
  What one request to the auth service can reach: nothing when it is not signed, its own connection
  when it is, and DoltHub only with that connection's key.
\<close>

section \<open>Headers\<close>

lemma Set_keys: "fst ` set (Set hs name v) = insert (CanonicalHeaderKey name) (fst ` set hs)"
  by (induction hs name v rule: Set.induct) auto

lemma Add_keys: "fst ` set (Add hs name v) = insert (CanonicalHeaderKey name) (fst ` set hs)"
  by (induction hs name v rule: Add.induct) auto

lemma Add_all_keys:
  "fst ` set (foldl (\<lambda>acc v. Add acc name v) hs vs) \<subseteq> insert (CanonicalHeaderKey name) (fst ` set hs)"
proof (induction vs arbitrary: hs)
  case (Cons v vs)
  then show ?case using Cons.IH [of "Add hs name v"] by (auto simp: Add_keys)
qed auto

definition service_headers :: "string list" where
  "service_headers = map CanonicalHeaderKey [''X-Service-Timestamp'', ''X-Service-Nonce'', ''X-Service-Body-SHA256'',
     ''X-Auth-Tenant-Id'', ''X-Auth-Environment'', ''X-Auth-Subject-Id'', ''X-Auth-Connection-Id'']"

definition hop_headers :: "string list" where
  "hop_headers = [''Authorization'', ''Connection'', ''Proxy-Connection'', ''Keep-Alive'', ''Te'', ''Trailer'',
     ''Transfer-Encoding'', ''Upgrade'', ''Host'']"

lemma copyProxyHeaders_Cons:
  "copyProxyHeaders dst ((key, vs) # src) =
     copyProxyHeaders (if CanonicalHeaderKey key \<in> set (hop_headers @ service_headers) then dst
                       else foldl (\<lambda>acc v. Add acc key v) dst vs) src"
  unfolding copyProxyHeaders_def service_headers_def hop_headers_def by (simp only: foldl_Cons prod.case)

lemma copyProxyHeaders_keys:
  assumes "h \<in> set (hop_headers @ service_headers)" and "h \<notin> fst ` set dst"
  shows "h \<notin> fst ` set (copyProxyHeaders dst src)"
  using assms(2)
proof (induction src arbitrary: dst)
  case (Cons x src)
  obtain key vs where x: "x = (key, vs)" by (cases x)
  show ?case
  proof (cases "CanonicalHeaderKey key \<in> set (hop_headers @ service_headers)")
    case True
    from Cons.IH [OF Cons.prems] show ?thesis unfolding x copyProxyHeaders_Cons if_P [OF True] .
  next
    case False
    then have "CanonicalHeaderKey key \<noteq> h" using assms(1) by metis
    then have "h \<notin> insert (CanonicalHeaderKey key) (fst ` set dst)" using Cons.prems by simp
    then have "h \<notin> fst ` set (foldl (\<lambda>acc v. Add acc key v) dst vs)"
      using Add_all_keys by (rule contra_subsetD [rotated])
    from Cons.IH [OF this] show ?thesis unfolding x copyProxyHeaders_Cons if_not_P [OF False] .
  qed
qed (simp add: copyProxyHeaders_def)

section \<open>Without a signature\<close>

definition unsigned :: "auth_config \<Rightarrow> auth_deps \<Rightarrow> http_request \<Rightarrow> bool" where
  "unsigned cfg d r \<longleftrightarrow>
     (case rq_body r of
        Inl _ \<Rightarrow> True
      | Inr body \<Rightarrow> signed_request (dp_crypto d) (lookupServiceSecret cfg) (dp_now d) r body
          (cg_TenantID cfg) (cg_Environment cfg) = None)"

lemma unsigned_refused:
  "unsigned cfg d r \<Longrightarrow> \<exists>answer. requireServiceAuth cfg d hs r c p = (Inl answer, p)"
  by (auto simp: unsigned_def requireServiceAuth_def verifyServiceRequest_def split: sum.splits)

lemma unsigned_with_connection:
  "unsigned cfg d r \<Longrightarrow> snd (with_connection cfg d hs r f p) = ([], p)"
  using unsigned_refused [of cfg d r hs True p] by (auto simp: with_connection_def)

lemma unsigned_handle: "unsigned cfg d r \<Longrightarrow> t \<noteq> RRedeem \<Longrightarrow> snd (handle cfg d hs t r p) = ([], p)"
  using unsigned_refused [of cfg d r hs True p] unsigned_refused [of cfg d r hs False p]
  by (cases t) (auto simp: handleCreateConnectToken_def handleProxyAPI_def handleProxyGraphQL_def handleProxy_def
      handleGetConnection_def handlePatchRigHandle_def handleUpsertWasteland_def handleDeleteWasteland_def
      handlePatchWastelandSettings_def unsigned_with_connection)

text \<open>
  A request without a valid signature of this service changes no table, not even the nonces, and
  sends nothing to DoltHub, on every route but the redemption.
\<close>

theorem unsigned_request_has_no_effect:
  assumes "unsigned cfg d r" and "t \<noteq> RRedeem"
  shows "snd (withCORS cfg d t r p) = ([], p)"
  using unsigned_handle [OF assms] by (simp add: withCORS_def Let_def)

theorem unsigned_request_has_no_effect_witness:
  "snd (withCORS demo_cfg (demo_deps 400000000000) RRig (demo_request ''PATCH'' ''n'') demo_pg) = ([], demo_pg)"
proof (rule unsigned_request_has_no_effect)
  show "unsigned demo_cfg (demo_deps 400000000000) (demo_request ''PATCH'' ''n'')" by code_simp
qed simp

section \<open>With a signature\<close>

text \<open>The credentials and whose they are; and the rows of other connections.\<close>

definition credentials :: "pg \<Rightarrow> (string \<times> (string \<times> string \<times> string) \<times> string \<times> string \<times> string) list" where
  "credentials p = map (\<lambda>q. (cn_ConnectionID (cw_View q), conn_key q, cw_Ciphertext q, cw_KeyVersion q, cw_Backend q))
     (pg_conns p)"

definition other_rows :: "http_request \<Rightarrow> pg \<Rightarrow> conn_row list" where
  "other_rows r p = filter (\<lambda>q. \<not> same_connection (header r ''X-Auth-Tenant-Id'') (header r ''X-Auth-Environment'')
     (header r ''X-Auth-Subject-Id'') (header r ''X-Auth-Connection-Id'') (cw_View q)) (pg_conns p)"

lemma filter_not_map: "(\<And>x. P (f x) = P x) \<Longrightarrow>
   filter (\<lambda>x. \<not> P x) (map (\<lambda>x. if P x then f x else x) xs) = filter (\<lambda>x. \<not> P x) xs"
  by (induction xs) auto

lemma scope_patch:
  "credentials (snd (patchMetadataTx flt tn ev sj ci version now change p)) = credentials p
 \<and> filter (\<lambda>q. \<not> same_connection tn ev sj ci (cw_View q)) (pg_conns (snd (patchMetadataTx flt tn ev sj ci version now change p)))
     = filter (\<lambda>q. \<not> same_connection tn ev sj ci (cw_View q)) (pg_conns p)"
  using patchMetadataTx_cases [of flt tn ev sj ci version now change p]
proof (elim disjE exE conjE)
  fix meta
  let ?f = "\<lambda>q. q\<lparr>cw_View := patched meta now (cw_View q)\<rparr>"
  let ?p = "p\<lparr>pg_conns := map (\<lambda>q. if same_connection tn ev sj ci (cw_View q) then ?f q else q) (pg_conns p)\<rparr>"
  assume eq: "snd (patchMetadataTx flt tn ev sj ci version now change p) = ?p"
  have "credentials ?p = credentials p"
    by (simp add: credentials_def conn_key_def patched_def)
  moreover have "filter (\<lambda>q. \<not> same_connection tn ev sj ci (cw_View q))
        (map (\<lambda>q. if same_connection tn ev sj ci (cw_View q) then ?f q else q) (pg_conns p))
      = filter (\<lambda>q. \<not> same_connection tn ev sj ci (cw_View q)) (pg_conns p)"
    by (rule filter_not_map) simp
  ultimately show ?thesis unfolding eq by simp
qed simp

interpretation scope: signed_frame cfg d r "\<lambda>p. credentials p = cs \<and> other_rows r p = rows" for cfg d r cs rows
proof unfold_locales
qed (simp_all add: scope_patch other_rows_def, simp_all add: credentials_def)

text \<open>
  C8: A signed request leaves every other connection's row as it was, and no request but a
  redemption changes a stored credential, adds a connection or removes one.
\<close>

theorem request_stays_in_scope:
  assumes "t \<noteq> RRedeem"
  shows "credentials (snd (snd (withCORS cfg d t r p))) = credentials p
     \<and> other_rows r (snd (snd (withCORS cfg d t r p))) = other_rows r p"
  by (rule scope.frame_signed_request) (use assms in simp_all)

definition demo_patch :: http_request where
  "demo_patch = (let body = ''{'' @ [CHR 0x22] @ ''rig_handle'' @ [CHR 0x22] @ '':'' @ [CHR 0x22] @ ''r2'' @ [CHR 0x22] @ '','' @
        [CHR 0x22] @ ''record_version'' @ [CHR 0x22] @ '':1}''
     in \<lparr>rq_method = ''PATCH'', rq_path = ''/c'', rq_query = [],
      rq_headers = sign_headers demo_crypto demo_client False 3 ''n'' ''PATCH'' ''/c'' body ''u'' ''c'' [],
      rq_value = (\<lambda>_. ''c''), rq_body = Inr body\<rparr>)"

definition demo_patched :: pg where
  "demo_patched = snd (snd (withCORS demo_cfg (demo_deps 3) RRig demo_patch demo_pg))"

lemma demo_patched_version: "map (\<lambda>q. cn_RecordVersion (cw_View q)) (pg_conns demo_patched) = [2]"
  by code_simp

theorem request_stays_in_scope_witness:
  "map (\<lambda>q. cn_RecordVersion (cw_View q)) (pg_conns demo_patched) = [2] \<and> credentials demo_patched = credentials demo_pg
 \<and> other_rows demo_patch demo_patched = other_rows demo_patch demo_pg"
  using demo_patched_version request_stays_in_scope [of RRig demo_cfg "demo_deps 3" demo_patch demo_pg]
  by (simp add: demo_patched_def)

section \<open>What is sent to DoltHub\<close>

lemma with_connection_sends_nothing: "fst (snd (with_connection cfg d hs r f p)) = []"
  by (simp add: with_connection_def Let_def split: prod.splits sum.splits)

lemma handle_sends:
  assumes "fst (snd (handle cfg d hs t r p)) \<noteq> []"
  obtains target where "target = proxy_api_target r \<or> target = ''https://www.dolthub.com/graphql''"
    "handle cfg d hs t r p = handleProxy cfg d hs r target p"
proof (cases t)
  case RGraphQL
  then show ?thesis by (intro that [OF disjI2 [OF refl]]) (simp add: handleProxyGraphQL_def)
next
  case RAPI
  then show ?thesis by (intro that [OF disjI1 [OF refl]]) (simp add: handleProxyAPI_def)
next
  case RCreate
  then show ?thesis using assms
    by (auto simp: handleCreateConnectToken_def Let_def split: prod.splits sum.splits option.splits if_splits)
next
  case RRedeem
  then show ?thesis using assms
    by (auto simp: handleRedeemConnectToken_def Let_def split: prod.splits sum.splits option.splits if_splits)
qed (use assms in \<open>simp_all add: handleGetConnection_def handlePatchRigHandle_def handleUpsertWasteland_def
      handleDeleteWasteland_def handlePatchWastelandSettings_def with_connection_sends_nothing\<close>)

lemma handleProxy_sends:
  assumes "req \<in> set (fst (snd (handleProxy cfg d hs r target p)))"
  obtains scope body p1 conn apiKey where "requireServiceAuth cfg d hs r True p = (Inr (scope, body), p1)"
    and "GetConnectionCredential (dp_flt d) (dp_decrypt d) (sc_TenantID scope) (sc_Environment scope)
           (sc_SubjectID scope) (sc_ConnectionID scope) p1 = Inr (conn, apiKey)"
    and "req = \<lparr>px_method = rq_method r, px_target = target,
           px_headers = Set (copyProxyHeaders [] (rq_headers r)) ''Authorization'' (''token '' @ apiKey), px_body = body\<rparr>"
  using assms by (auto simp: handleProxy_def Let_def split: prod.splits sum.splits if_splits)

definition dolthub_target :: "string \<Rightarrow> bool" where
  "dolthub_target url \<longleftrightarrow> url = ''https://www.dolthub.com/graphql''
     \<or> (\<exists>rest. url = ''https://www.dolthub.com/api/v1alpha1'' @ rest \<and> (rest = [] \<or> hd rest \<in> {CHR ''/'', CHR ''?''}))"

lemma proxy_api_target_dolthub: "dolthub_target (proxy_api_target r)"
proof -
  let ?path = "TrimPrefix (TrimPrefix (rq_path r) ''/v1/proxy/api'') ''/''"
  let ?rest = "(if ?path \<noteq> [] then ''/'' @ ?path else []) @ (if rq_query r \<noteq> [] then ''?'' @ rq_query r else [])"
  have "proxy_api_target r = ''https://www.dolthub.com/api/v1alpha1'' @ ?rest"
    by (simp add: proxy_api_target_def Let_def)
  moreover have "?rest = [] \<or> hd ?rest \<in> {CHR ''/'', CHR ''?''}" by simp
  ultimately show ?thesis unfolding dolthub_target_def by blast
qed

lemma canonical_service_headers:
  "CanonicalHeaderKey ''Authorization'' = ''Authorization'' \<and> ''Authorization'' \<notin> set service_headers"
  by code_simp

text \<open>
  C26: What is sent to DoltHub for a request goes to its API or its GraphQL endpoint with the key of
  the connection the request is signed for, and without any of the headers that signed it.
\<close>

theorem forwarded_request_confined:
  assumes "req \<in> set (fst (snd (withCORS cfg d t r p)))"
  shows "dolthub_target (px_target req) \<and> \<not> unsigned cfg d r
     \<and> (\<exists>p1 conn apiKey. GetConnectionCredential (dp_flt d) (dp_decrypt d) (header r ''X-Auth-Tenant-Id'')
           (header r ''X-Auth-Environment'') (header r ''X-Auth-Subject-Id'') (header r ''X-Auth-Connection-Id'') p1
             = Inr (conn, apiKey)
         \<and> credentials p1 = credentials p
         \<and> Get (px_headers req) ''Authorization'' = ''token '' @ apiKey)
     \<and> set service_headers \<inter> fst ` set (px_headers req) = {}"
proof -
  obtain hs where "req \<in> set (fst (snd (handle cfg d hs t r p)))"
    using assms by (auto simp: withCORS_def Let_def split: if_splits)
  moreover from this have "fst (snd (handle cfg d hs t r p)) \<noteq> []" by auto
  ultimately obtain target where t: "target = proxy_api_target r \<or> target = ''https://www.dolthub.com/graphql''"
    and req: "req \<in> set (fst (snd (handleProxy cfg d hs r target p)))" using handle_sends by metis
  obtain scope body p1 conn apiKey where auth: "requireServiceAuth cfg d hs r True p = (Inr (scope, body), p1)"
    and cred: "GetConnectionCredential (dp_flt d) (dp_decrypt d) (sc_TenantID scope) (sc_Environment scope)
           (sc_SubjectID scope) (sc_ConnectionID scope) p1 = Inr (conn, apiKey)"
    and eq: "req = \<lparr>px_method = rq_method r, px_target = target,
           px_headers = Set (copyProxyHeaders [] (rq_headers r)) ''Authorization'' (''token '' @ apiKey), px_body = body\<rparr>"
    using req by (rule handleProxy_sends)
  obtain key where scope: "scope = request_scope key r" using scope.auth_scope [OF auth] .
  have "\<not> unsigned cfg d r" using unsigned_refused [of cfg d r hs True p] auth by auto
  moreover have "credentials p1 = credentials p"
    using scope.frame_auth [of p _ r "other_rows r p" cfg d hs True] auth by fastforce
  moreover have "dolthub_target target" using t proxy_api_target_dolthub by (auto simp: dolthub_target_def)
  moreover have "set service_headers \<inter> fst ` set (px_headers req) = {}"
    using copyProxyHeaders_keys [of _ "[]" "rq_headers r"] canonical_service_headers
    by (auto simp: eq Set_keys)
  ultimately show ?thesis using cred scope
    by (auto simp: eq Get_Set request_scope_def)
qed

definition demo_sent :: proxy_request where
  "demo_sent = \<lparr>px_method = ''GET'', px_target = ''https://www.dolthub.com/graphql'',
     px_headers = [(''Authorization'', [''token key''])], px_body = []\<rparr>"

lemma demo_forwards:
  "fst (snd (withCORS demo_cfg (demo_deps 3) RGraphQL (demo_request ''GET'' ''n'') demo_pg)) = [demo_sent]"
  by code_simp

theorem forwarded_request_confined_witness:
  "dolthub_target (px_target demo_sent) \<and> \<not> unsigned demo_cfg (demo_deps 3) (demo_request ''GET'' ''n'')
 \<and> set service_headers \<inter> fst ` set (px_headers demo_sent) = {}"
proof -
  have "demo_sent \<in> set (fst (snd (withCORS demo_cfg (demo_deps 3) RGraphQL (demo_request ''GET'' ''n'') demo_pg)))"
    unfolding demo_forwards by simp
  from forwarded_request_confined [OF this] show ?thesis by (elim conjE) (intro conjI)
qed

end
