(* ===== verification/AuthSign.thy ===== *)
theory AuthSign
  imports AuthScope
begin

text \<open>
  What the client signs the service accepts; and how long a connect token lives.
\<close>

section \<open>The client's signature\<close>

definition hex_digits :: string where
  "hex_digits = ''0123456789abcdef''"

lemma hex_ch_cases: "d < 16 \<Longrightarrow> hex_ch d \<in> set hex_digits"
proof -
  have "list_all (\<lambda>d. hex_ch d \<in> set hex_digits) [0..<16]" by code_simp
  then show "d < 16 \<Longrightarrow> ?thesis" by (simp only: list_all_iff set_upt) simp
qed

lemma hex_text_set: "set (hex_text s) \<subseteq> set hex_digits"
proof (induction s)
  case (Cons c s)
  have "code_of c < 256" by (simp add: code_of_def)
  then have "hex_ch (code_of c div 16) \<in> set hex_digits" "hex_ch (code_of c mod 16) \<in> set hex_digits"
    by (simp_all add: hex_ch_cases)
  then show ?case using Cons by (simp add: hex_text_def)
qed (simp add: hex_text_def)

lemma hex_no_space:
  "list_all (\<lambda>c. list_all (\<lambda>r. r \<noteq> [] \<and> hd r \<noteq> c) space_runes \<and> list_all (\<lambda>r. r \<noteq> [] \<and> hd r \<noteq> c) (map rev space_runes))
     hex_digits"
  by code_simp

lemma TrimSpace_Nil: "TrimSpace [] = []"
  by (simp add: TrimSpace_def trim_front.simps)

lemma TrimSpace_hex: "TrimSpace (hex_text s) = hex_text s"
proof (cases "hex_text s = []")
  case False
  then have "hd (hex_text s) \<in> set hex_digits" "last (hex_text s) \<in> set hex_digits"
    using hex_text_set by (meson hd_in_set last_in_set subsetD)+
  then have "list_all (\<lambda>r. r \<noteq> [] \<and> hd r \<noteq> hd (hex_text s)) space_runes"
    "list_all (\<lambda>r. r \<noteq> [] \<and> hd r \<noteq> last (hex_text s)) (map rev space_runes)"
    using hex_no_space unfolding list_all_iff [of _ hex_digits] by blast+
  then show ?thesis using False by (intro TrimSpace_ends)
qed (simp add: TrimSpace_Nil)

lemma hex_text_Nil: "hex_text s = [] \<longleftrightarrow> s = []"
  by (cases s) (simp_all add: hex_text_def)

lemma canonical_names:
  "CanonicalHeaderKey ''Authorization'' = ''Authorization''"
  "CanonicalHeaderKey ''X-Service-Timestamp'' = ''X-Service-Timestamp''"
  "CanonicalHeaderKey ''X-Service-Nonce'' = ''X-Service-Nonce''"
  "CanonicalHeaderKey ''X-Service-Body-SHA256'' = ''X-Service-Body-Sha256''"
  "CanonicalHeaderKey ''X-Auth-Tenant-Id'' = ''X-Auth-Tenant-Id''"
  "CanonicalHeaderKey ''X-Auth-Environment'' = ''X-Auth-Environment''"
  "CanonicalHeaderKey ''X-Auth-Subject-Id'' = ''X-Auth-Subject-Id''"
  "CanonicalHeaderKey ''X-Auth-Connection-Id'' = ''X-Auth-Connection-Id''"
  "CanonicalHeaderKey ''X-Request-Id'' = ''X-Request-Id''"
  by code_simp+

text \<open>What the client sends is unchanged by the trimming of a header.\<close>

definition tidy :: "string \<Rightarrow> bool" where
  "tidy s \<longleftrightarrow> TrimSpace s = s"

lemma parse_own_authorization:
  assumes "keyID \<noteq> []" and "CHR '':'' \<notin> set keyID" and "signature \<noteq> []"
  shows "parseServiceAuthorization (serviceAuthPrefix @ keyID @ '':'' @ signature) = (keyID, signature, True)"
  using assms by (simp add: parseServiceAuthorization_def Cut_def takeWhile_append dropWhile_append)

lemma sign_headers_verify:
  assumes "keys (cl_keyID c) = Some (cl_sharedSecret c)" and "cl_keyID c \<noteq> []" and "CHR '':'' \<notin> set (cl_keyID c)"
    and "\<And>text. ac_hmac k (cl_sharedSecret c) text \<noteq> []" and "ac_parse_time k (ac_format_time k at) = Some ts"
    and "\<bar>now - ts\<bar> \<le> maxClockSkew" and "nonce \<noteq> []"
    and "list_all tidy [ac_format_time k at, nonce, cl_tenantID c, cl_environment c, subjectID, connectionID]"
    and "rq_headers r = sign_headers k c always at nonce (rq_method r)
           (serviceAuthRequestTarget (rq_path r) (rq_query r)) body subjectID connectionID hs"
    and "Get hs ''X-Auth-Connection-Id'' = []"
  shows "signed_request k keys now r body (cl_tenantID c) (cl_environment c) =
     Some (\<lparr>sc_KeyID = cl_keyID c, sc_TenantID = cl_tenantID c, sc_Environment = cl_environment c,
            sc_SubjectID = subjectID, sc_ConnectionID = connectionID, sc_RequestID = header r ''X-Request-Id''\<rparr>,
           nonce, ts)"
proof -
  let ?target = "serviceAuthRequestTarget (rq_path r) (rq_query r)"
  let ?sig = "hex_text (ac_hmac k (cl_sharedSecret c) (serviceAuthBaseString (cl_keyID c) (ac_format_time k at) nonce
      (rq_method r) ?target (bodySHA256 k body) (cl_tenantID c) (cl_environment c) subjectID connectionID))"
  note heads = assms(9) sign_headers_def signServiceRequest_def Let_def Get_Set canonical_names
  have "Get (rq_headers r) ''Authorization'' = serviceAuthPrefix @ cl_keyID c @ '':'' @ ?sig"
    by (simp add: heads)
  then have parse: "parseServiceAuthorization (Get (rq_headers r) ''Authorization'') = (cl_keyID c, ?sig, True)"
    by (metis parse_own_authorization assms(2,3,4) hex_text_Nil)
  have h: "header r ''X-Service-Timestamp'' = ac_format_time k at" "header r ''X-Service-Nonce'' = nonce"
    "header r ''X-Service-Body-SHA256'' = bodySHA256 k body" "header r ''X-Auth-Tenant-Id'' = cl_tenantID c"
    "header r ''X-Auth-Environment'' = cl_environment c" "header r ''X-Auth-Subject-Id'' = subjectID"
    using assms(8) by (simp_all add: header_def heads tidy_def bodySHA256_def TrimSpace_hex)
  have hc: "header r ''X-Auth-Connection-Id'' = connectionID"
    using assms(8,10) by (simp add: header_def heads tidy_def TrimSpace_Nil)
  show ?thesis
    using assms(1,5,6,7) by (simp add: signed_request_def parse h hc request_scope_def request_base_def Let_def abs_le_iff)
qed

text \<open>
  C32: What the client signs the service accepts: a request whose headers the client signed with a
  secret the service shares passes the authentication, with the scope the client named, within the
  clock skew, as long as its nonce was not used and the ids it sends have no space around them.
\<close>

theorem signed_headers_accepted:
  assumes "lookupServiceSecret cfg (cl_keyID c) = Some (cl_sharedSecret c)" and "cl_keyID c \<noteq> []"
    and "CHR '':'' \<notin> set (cl_keyID c)"
    and "\<And>text. ac_hmac (dp_crypto d) (cl_sharedSecret c) text \<noteq> []"
    and "ac_parse_time (dp_crypto d) (ac_format_time (dp_crypto d) at) = Some ts"
    and "\<bar>dp_now d - ts\<bar> \<le> maxClockSkew" and "nonce \<noteq> []"
    and "list_all tidy [ac_format_time (dp_crypto d) at, nonce, cl_tenantID c, cl_environment c, subjectID, connectionID]"
    and "rq_headers r = sign_headers (dp_crypto d) c always at nonce (rq_method r)
           (serviceAuthRequestTarget (rq_path r) (rq_query r)) body subjectID connectionID hs"
    and "Get hs ''X-Auth-Connection-Id'' = []" and "rq_body r = Inr body"
    and "cl_tenantID c = cg_TenantID cfg" and "cl_environment c = cg_Environment cfg"
    and "subjectID \<noteq> []" and "connectionID \<noteq> []" and "dp_flt d = (\<lambda>_. None)"
    and "\<forall>n \<in> set (pg_nonces p). \<not> (nc_Key n = cl_keyID c \<and> nc_Nonce n = nonce)"
  shows "fst (requireServiceAuth cfg d hs' r True p) =
     Inr (\<lparr>sc_KeyID = cl_keyID c, sc_TenantID = cg_TenantID cfg, sc_Environment = cg_Environment cfg,
            sc_SubjectID = subjectID, sc_ConnectionID = connectionID, sc_RequestID = header r ''X-Request-Id''\<rparr>, body)"
proof -
  note s = sign_headers_verify [of "lookupServiceSecret cfg" c "dp_crypto d" at ts "dp_now d", OF assms(1-10), unfolded assms(12,13)]
  have "\<not> list_ex (\<lambda>n. nc_Key n = cl_keyID c \<and> nc_Nonce n = nonce) (pg_nonces (reapExpiredServiceNonces (dp_now d) p))"
    using assms(17) by (auto simp: list_ex_iff reapExpiredServiceNonces_def)
  then show ?thesis using assms(11,14,15,16)
    by (simp add: requireServiceAuth_def verifyServiceRequest_def s UseServiceNonce_def Let_def)
qed

definition demo_scope_of :: "http_request \<Rightarrow> ServiceScope" where
  "demo_scope_of r = \<lparr>sc_KeyID = ''k'', sc_TenantID = ''t'', sc_Environment = ''e'', sc_SubjectID = ''u'',
     sc_ConnectionID = ''c'', sc_RequestID = header r ''X-Request-Id''\<rparr>"

lemma demo_tidy: "list_all tidy [ac_format_time demo_crypto 3, ''n'', ''t'', ''e'', ''u'', ''c'', []]"
  by code_simp

lemma demo_target: "serviceAuthRequestTarget ''/c'' [] = ''/c''"
  by code_simp

theorem signed_headers_accepted_witness:
  "fst (requireServiceAuth demo_cfg (demo_deps 9) [] (demo_request ''GET'' ''n'') True demo_pg)
     = Inr (demo_scope_of (demo_request ''GET'' ''n''), [])"
  using signed_headers_accepted [of demo_cfg demo_client "demo_deps 9" 3 3 "''n''" "''u''" "''c''"
      "demo_request ''GET'' ''n''" False "[]" "[]" demo_pg "[]"] demo_tidy demo_target
  by (simp add: demo_client_def demo_cfg_def lookupServiceSecret_def demo_request_def demo_scope_of_def maxClockSkew_def
      Get_def demo_deps_def demo_pg_def) (simp add: demo_crypto_def)

section \<open>The life of a connect token\<close>

lemma token_ttl_le: "token_ttl s \<le> 300000000000"
  by (simp add: token_ttl_def)

lemma token_ttl_exact: "0 < s \<Longrightarrow> s \<le> 300 \<Longrightarrow> token_ttl s = s * 1000000000"
  by (simp add: token_ttl_def wrap64_def)

lemma nonce_tokens [simp]: "pg_tokens (snd (UseServiceNonce flt key nonce now e p)) = pg_tokens p"
  by (simp add: UseServiceNonce_def reapExpiredServiceNonces_def Let_def split: option.splits)

lemma requireServiceAuth_tokens: "pg_tokens (snd (requireServiceAuth cfg d hs r c p)) = pg_tokens p"
proof (cases "rq_body r")
  case (Inr body)
  have "pg_tokens (snd (verifyServiceRequest (dp_crypto d) (dp_flt d) (lookupServiceSecret cfg) (dp_now d) r body
       (cg_TenantID cfg) (cg_Environment cfg) p)) = pg_tokens p" (is "pg_tokens (snd ?v) = _")
    by (rule verify_nonce [where Q = "\<lambda>q. pg_tokens q = pg_tokens p"]) simp_all
  then show ?thesis using Inr by (cases ?v) (auto simp: requireServiceAuth_def split: sum.splits)
qed (simp add: requireServiceAuth_def)

lemma CreateConnectToken_new:
  assumes "t \<in> set (pg_tokens (snd (CreateConnectToken flt st mac secret subject meta expires now p)))"
    and "t \<notin> set (pg_tokens p)"
  shows "t = \<lparr>tk_MAC = mac, tk_SecretMAC = secret, tk_Tenant = ps_tenantID st, tk_Env = ps_environment st,
     tk_Subject = subject, tk_Metadata = meta, tk_ExpiresAt = to_us expires, tk_UsedAt = None, tk_CreatedAt = to_us now\<rparr>"
  using assms by (auto simp: CreateConnectToken_def reapExpiredConnectTokens_def Let_def split: option.splits if_splits)

text \<open>
  A token that is minted lives at most five minutes, whatever lifetime was asked for, is unused,
  belongs to the subject that signed the request and approves metadata that validates.
\<close>

theorem minted_token_bounded:
  assumes "t \<in> set (pg_tokens (snd (snd (handleCreateConnectToken cfg d hs r p))))" and "t \<notin> set (pg_tokens p)"
  shows "tk_ExpiresAt t \<le> dp_now d + 300000000000 \<and> tk_UsedAt t = None
     \<and> tk_Subject t = header r ''X-Auth-Subject-Id'' \<and> validateMetadata (tk_Metadata t) = None
     \<and> tk_Tenant t = cg_TenantID cfg \<and> tk_Env t = cg_Environment cfg"
proof -
  obtain res p1 where auth: "requireServiceAuth cfg d hs r False p = (res, p1)" by (metis surj_pair)
  have p1: "pg_tokens p1 = pg_tokens p" using requireServiceAuth_tokens [of cfg d hs r False p] auth by simp
  obtain scope body where res: "res = Inr (scope, body)"
    using assms p1 by (cases res) (auto simp: handleCreateConnectToken_def auth)
  obtain req where req: "decode_create body = Some req"
    using assms p1 by (cases "decode_create body") (auto simp: handleCreateConnectToken_def auth res)
  have sub: "sc_SubjectID scope = cc_SubjectID req" and m: "validateMetadata (cc_Metadata req) = None"
    using assms p1 by (auto simp: handleCreateConnectToken_def auth res req split: if_splits option.splits)
  obtain b1 b2 where b: "dp_random1 d = Inr b1" "dp_random2 d = Inr b2"
    using assms p1 by (cases "dp_random1 d"; cases "dp_random2 d")
      (auto simp: handleCreateConnectToken_def auth res req m split: if_splits)
  have t: "t \<in> set (pg_tokens (snd (CreateConnectToken (dp_flt d)
        \<lparr>ps_tenantID = cg_TenantID cfg, ps_environment = cg_Environment cfg\<rparr>
        (macSHA256 (dp_crypto d) (cg_TokenPepper cfg) (hex_text b1)) (macSHA256 (dp_crypto d) (cg_RedeemPepper cfg) (hex_text b2))
        (cc_SubjectID req) (cc_Metadata req) (dp_now d + token_ttl (cc_TTLSeconds req)) (dp_now d) p1)))"
    using assms p1 by (auto simp: handleCreateConnectToken_def auth res req m b Let_def split: prod.splits if_splits)
  obtain key where "scope = request_scope key r" using scope.auth_scope auth res by metis
  moreover have "to_us (dp_now d + token_ttl (cc_TTLSeconds req)) \<le> dp_now d + 300000000000"
    using token_ttl_le [of "cc_TTLSeconds req"] by (simp add: to_us_def)
  ultimately show ?thesis
    using CreateConnectToken_new [OF t] assms(2) p1 m sub by (simp add: request_scope_def)
qed

text \<open>A token is minted at time 3 for a request signed over its body.\<close>

definition demo_body :: string where
  "demo_body = (let q = (\<lambda>s. dquote_ch # s @ [dquote_ch])
     in ''{'' @ q ''subject_id'' @ '':'' @ q ''u'' @ '','' @ q ''ttl_seconds'' @ '':9000,'' @ q ''metadata'' @ '':{'' @
        q ''rig_handle'' @ '':'' @ q ''rig'' @ '','' @ q ''wastelands'' @ '':[{'' @ q ''upstream'' @ '':'' @ q ''o/d'' @ '','' @
        q ''fork_org'' @ '':'' @ q ''f'' @ '','' @ q ''fork_db'' @ '':'' @ q ''d'' @ '','' @ q ''mode'' @ '':'' @ q ''pr'' @ ''}]}}'')"

definition demo_create :: http_request where
  "demo_create = \<lparr>rq_method = ''POST'', rq_path = ''/c'', rq_query = [],
      rq_headers = sign_headers demo_crypto demo_client False 3 ''n'' ''POST'' ''/c'' demo_body ''u'' [] [],
      rq_value = (\<lambda>_. []), rq_body = Inr demo_body\<rparr>"

definition demo_minted :: token_row where
  "demo_minted = \<lparr>tk_MAC = ''p31'', tk_SecretMAC = ''q32'', tk_Tenant = ''t'', tk_Env = ''e'', tk_Subject = ''u'',
     tk_Metadata = demo_metadata, tk_ExpiresAt = 300000000000, tk_UsedAt = None, tk_CreatedAt = 0\<rparr>"

lemma demo_decoded:
  "decode_create demo_body = Some \<lparr>cc_SubjectID = ''u'', cc_Metadata = demo_metadata, cc_TTLSeconds = 9000\<rparr>"
  by code_simp

lemma demo_create_signed:
  "signed_request demo_crypto (lookupServiceSecret demo_cfg) 3 demo_create demo_body ''t'' ''e''
     = Some (\<lparr>sc_KeyID = ''k'', sc_TenantID = ''t'', sc_Environment = ''e'', sc_SubjectID = ''u'', sc_ConnectionID = [],
         sc_RequestID = header demo_create ''X-Request-Id''\<rparr>, ''n'', 3)"
  using sign_headers_verify [of "lookupServiceSecret demo_cfg" demo_client demo_crypto 3 3 3 "''n''" "''u''" "[]"
      demo_create False demo_body "[]"] demo_tidy demo_target
  by (simp add: demo_client_def demo_cfg_def lookupServiceSecret_def demo_create_def maxClockSkew_def Get_def)
    (simp add: demo_crypto_def)

lemma demo_valid: "validateMetadata demo_metadata = None"
  by code_simp

lemma demo_macs:
  "macSHA256 demo_crypto ''p'' (hex_text ''1'') = ''p31'' \<and> macSHA256 demo_crypto ''q'' (hex_text ''2'') = ''q32''"
  by code_simp

lemma demo_mints:
  "demo_minted \<in> set (pg_tokens (snd (snd (handleCreateConnectToken demo_cfg (demo_deps 3) [] demo_create demo_pg))))"
proof -
  have "rq_body demo_create = Inr demo_body" by (simp add: demo_create_def)
  then show ?thesis
    using demo_create_signed demo_decoded demo_valid demo_macs
    by (simp add: handleCreateConnectToken_def requireServiceAuth_def verifyServiceRequest_def UseServiceNonce_def
        reapExpiredServiceNonces_def CreateConnectToken_def reapExpiredConnectTokens_def demo_deps_def demo_cfg_def
        demo_pg_def Let_def demo_minted_def to_us_def token_ttl_def wrap64_def)
qed

theorem minted_token_bounded_witness:
  "tk_ExpiresAt demo_minted \<le> dp_now (demo_deps 3) + 300000000000"
proof -
  have "demo_minted \<notin> set (pg_tokens demo_pg)" by (simp add: demo_minted_def demo_pg_def)
  then show ?thesis using minted_token_bounded [OF demo_mints] by blast
qed

end
