(* ===== verification/RateLimit.thy ===== *)
theory RateLimit
  imports ServiceAuth "HOL-Library.Signed_Division"
begin

text \<open>
  \<^verbatim>\<open>internal/api/ratelimit.go\<close>: token buckets per client address.  Times are in nanoseconds.
\<close>

record bucket =
  bk_tokens :: int
  bk_lastFill :: int

record RateLimiter =
  rl_buckets :: "string \<Rightarrow> bucket option"
  rl_rate :: int
  rl_burst :: int
  rl_interval :: int

definition NewRateLimiter :: "int \<Rightarrow> int \<Rightarrow> int \<Rightarrow> RateLimiter" where
  "NewRateLimiter rate burst interval =
     \<lparr>rl_buckets = (\<lambda>_. None), rl_rate = rate, rl_burst = burst, rl_interval = interval\<rparr>"

definition refilled :: "int \<Rightarrow> RateLimiter \<Rightarrow> bucket \<Rightarrow> bucket" where
  "refilled now rl b =
     (let elapsed = sat64 (now - bk_lastFill b);
          intervals = elapsed sdiv rl_interval rl;
          refill = wrap64 (intervals * rl_rate rl)
      in if 0 < refill
         then \<lparr>bk_tokens = (let t = wrap64 (bk_tokens b + refill) in if rl_burst rl < t then rl_burst rl else t),
               bk_lastFill = bk_lastFill b + wrap64 (intervals * rl_interval rl)\<rparr>
         else b)"

text \<open>\<open>None\<close> is the panic of a division by an interval of zero.\<close>

definition Allow :: "int \<Rightarrow> string \<Rightarrow> RateLimiter \<Rightarrow> (bool \<times> RateLimiter) option" where
  "Allow now key rl =
     (case rl_buckets rl key of
        None \<Rightarrow>
          Some (True, rl\<lparr>rl_buckets := (rl_buckets rl)(key \<mapsto> \<lparr>bk_tokens = wrap64 (rl_burst rl - 1), bk_lastFill = now\<rparr>)\<rparr>)
      | Some b0 \<Rightarrow>
          if rl_interval rl = 0 then None
          else
            (let b = refilled now rl b0
             in if bk_tokens b \<le> 0 then Some (False, rl\<lparr>rl_buckets := (rl_buckets rl)(key \<mapsto> b)\<rparr>)
                else Some (True, rl\<lparr>rl_buckets := (rl_buckets rl)(key \<mapsto> b\<lparr>bk_tokens := bk_tokens b - 1\<rparr>)\<rparr>)))"

text \<open>One tick of \<^verbatim>\<open>cleanup\<close>: buckets not filled for ten minutes are dropped.\<close>

definition cleanup :: "int \<Rightarrow> RateLimiter \<Rightarrow> RateLimiter" where
  "cleanup now rl =
     rl\<lparr>rl_buckets := (\<lambda>key. case rl_buckets rl key of
            Some b \<Rightarrow> if bk_lastFill b < now - 600000000000 then None else Some b
          | None \<Rightarrow> None)\<rparr>"

section \<open>The client's address\<close>

text \<open>\<^verbatim>\<open>net.SplitHostPort\<close>, its host; \<open>None\<close> for its errors.\<close>

definition SplitHostPort :: "string \<Rightarrow> string option" where
  "SplitHostPort s =
     (if CHR '':'' \<notin> set s then None
      else
        (let host = rev (tl (dropWhile (\<lambda>c. c \<noteq> CHR '':'') (rev s)));
             port = rev (takeWhile (\<lambda>c. c \<noteq> CHR '':'') (rev s))
         in if hd s = CHR ''[''
            then
              (if CHR '']'' \<notin> set s then None
               else
                 (let inner = takeWhile (\<lambda>c. c \<noteq> CHR '']'') (tl s);
                      rest = tl (dropWhile (\<lambda>c. c \<noteq> CHR '']'') s)
                  in if rest \<noteq> CHR '':'' # port then None
                     else if CHR ''['' \<in> set (tl s) \<or> CHR '']'' \<in> set rest then None
                     else Some inner))
            else if CHR '':'' \<in> set host \<or> CHR ''['' \<in> set s \<or> CHR '']'' \<in> set s then None
            else Some host))"

definition clientIP :: "http_request \<Rightarrow> string \<Rightarrow> string" where
  "clientIP r remoteAddr =
     (let xff = Get (rq_headers r) ''X-Forwarded-For''
      in if xff \<noteq> []
         then (let (ip, _, ok) = Cut xff (CHR '','') in if ok then TrimSpace ip else TrimSpace xff)
         else (case SplitHostPort remoteAddr of Some host \<Rightarrow> host | None \<Rightarrow> remoteAddr))"

text \<open>
  The middleware: \<open>Inl\<close> is the answer 429, \<open>Inr\<close> the next handler's turn, \<open>None\<close> the panic of \<open>Allow\<close>.
\<close>

definition RateLimit :: "int \<Rightarrow> http_request \<Rightarrow> string \<Rightarrow> RateLimiter \<Rightarrow> (((int \<times> string) + unit) \<times> RateLimiter) option" where
  "RateLimit now r remoteAddr rl =
     map_option (\<lambda>(ok, rl'). (if ok then Inr () else Inl (429, ''rate limit exceeded''), rl'))
       (Allow now (clientIP r remoteAddr) rl)"

section \<open>A client's share\<close>

datatype rl_event = EAllow int string | ECleanup int

fun event_time :: "rl_event \<Rightarrow> int" where
  "event_time (EAllow now key) = now"
| "event_time (ECleanup now) = now"

text \<open>How many requests of the key are allowed, and the limiter after the events.\<close>

fun rl_events :: "string \<Rightarrow> rl_event list \<Rightarrow> RateLimiter \<Rightarrow> int \<times> RateLimiter" where
  "rl_events key [] rl = (0, rl)"
| "rl_events key (EAllow now k # es) rl =
     (case Allow now k rl of
        Some (ok, rl') \<Rightarrow>
          (let (n, rl'') = rl_events key es rl' in (if ok \<and> k = key then n + 1 else n, rl''))
      | None \<Rightarrow> (0, rl))"
| "rl_events key (ECleanup now # es) rl = rl_events key es (cleanup now rl)"

text \<open>
  The bounds under which nothing wraps around and a dropped bucket would have been full: they hold of
  the limiters the server makes.
\<close>

definition rl_config_ok :: "RateLimiter \<Rightarrow> bool" where
  "rl_config_ok rl \<longleftrightarrow> 0 < rl_rate rl \<and> rl_rate rl \<le> rl_interval rl \<and> 0 < rl_burst rl \<and> rl_burst rl < 4611686018427387904
     \<and> rl_burst rl \<le> rl_rate rl * (600000000000 div rl_interval rl)"

lemma server_limiters_ok: "rl_config_ok (NewRateLimiter 120 120 60000000000) \<and> rl_config_ok (NewRateLimiter 10 10 60000000000)"
  by (simp add: rl_config_ok_def NewRateLimiter_def)

definition bucket_ok :: "int \<Rightarrow> RateLimiter \<Rightarrow> bucket \<Rightarrow> bool" where
  "bucket_ok now rl b \<longleftrightarrow> 0 \<le> bk_tokens b \<and> bk_tokens b \<le> rl_burst rl \<and> 0 \<le> bk_lastFill b \<and> bk_lastFill b \<le> now"

text \<open>The refill of a well-formed bucket, without wrap-around.\<close>

lemma refilled_eq:
  assumes ok: "rl_config_ok rl" and b: "bucket_ok now rl b" and now: "now < 4611686018427387904"
  defines "k \<equiv> (now - bk_lastFill b) div rl_interval rl"
  shows "refilled now rl b = \<lparr>bk_tokens = min (rl_burst rl) (bk_tokens b + k * rl_rate rl),
      bk_lastFill = bk_lastFill b + k * rl_interval rl\<rparr>"
    and "0 \<le> k" and "now < bk_lastFill b + (k + 1) * rl_interval rl" and "bk_lastFill b + k * rl_interval rl \<le> now"
proof -
  let ?e = "now - bk_lastFill b"
  have e: "0 \<le> ?e" "?e < 4611686018427387904" using b now by (auto simp: bucket_ok_def)
  have i: "0 < rl_interval rl" "0 < rl_rate rl" "rl_rate rl \<le> rl_interval rl" using ok by (auto simp: rl_config_ok_def)
  have k: "0 \<le> k" unfolding k_def using e i by (simp add: pos_imp_zdiv_nonneg_iff)
  have ki: "k * rl_interval rl \<le> ?e" unfolding k_def using i by (simp add: minus_mod_eq_div_mult [symmetric])
  have kr: "k * rl_rate rl \<le> k * rl_interval rl" using k i by (simp add: mult_left_mono)
  have kr0: "0 \<le> k * rl_rate rl" using k i by simp
  have sd: "sat64 ?e sdiv rl_interval rl = k"
    using e i by (cases "?e = 0") (simp_all add: sat64_id signed_divide_int_def k_def)
  have t: "bk_tokens b \<le> rl_burst rl" "0 \<le> bk_tokens b" "rl_burst rl < 4611686018427387904"
    using b ok by (auto simp: bucket_ok_def rl_config_ok_def)
  show "refilled now rl b = \<lparr>bk_tokens = min (rl_burst rl) (bk_tokens b + k * rl_rate rl),
      bk_lastFill = bk_lastFill b + k * rl_interval rl\<rparr>"
  proof (cases "k = 0")
    case True
    then show ?thesis using t by (simp add: refilled_def sd wrap64_id)
  next
    case False
    then have "0 < k * rl_rate rl" using k i by simp
    moreover have "wrap64 (k * rl_rate rl) = k * rl_rate rl" "wrap64 (k * rl_interval rl) = k * rl_interval rl"
      "wrap64 (bk_tokens b + k * rl_rate rl) = bk_tokens b + k * rl_rate rl"
      using e ki kr kr0 t by (intro wrap64_id; linarith)+
    ultimately show ?thesis by (simp add: refilled_def sd Let_def min_def)
  qed
  show "0 \<le> k" by (rule k)
  show "bk_lastFill b + k * rl_interval rl \<le> now" using ki by simp
  have "?e mod rl_interval rl < rl_interval rl" using i by simp
  then show "now < bk_lastFill b + (k + 1) * rl_interval rl"
    unfolding k_def by (simp add: algebra_simps minus_div_mult_eq_mod [symmetric])
qed

text \<open>
  What \<open>n\<close> allowed requests since \<open>s + interval\<close> leave of the bucket: none were allowed, or those and
  the tokens left are what the bucket got since \<open>s\<close>.
\<close>

definition share :: "RateLimiter \<Rightarrow> int \<Rightarrow> int \<Rightarrow> int \<Rightarrow> bucket option \<Rightarrow> bool" where
  "share rl s now n b \<longleftrightarrow> 0 \<le> n \<and>
     (n = 0 \<or>
      (case b of
         None \<Rightarrow> n \<le> rl_rate rl * ((now - s) div rl_interval rl)
       | Some b \<Rightarrow> s < bk_lastFill b
           \<and> n + bk_tokens b \<le> rl_burst rl + rl_rate rl * ((bk_lastFill b - s) div rl_interval rl)))"

lemma div_super: "0 < (i::int) \<Longrightarrow> x div i + y div i \<le> (x + y) div i"
  by (smt (verit) div_add1_eq div_nonneg_neg_le0 pos_imp_zdiv_nonneg_iff pos_mod_sign)

lemma share_bound:
  assumes ok: "rl_config_ok rl" and "share rl s now n b" and "s \<le> now" and "\<And>x. b = Some x \<Longrightarrow> bucket_ok now rl x"
  shows "n \<le> rl_burst rl + rl_rate rl * ((now - s) div rl_interval rl)"
proof -
  have i: "0 < rl_interval rl" "0 < rl_rate rl" "0 < rl_burst rl" using ok by (auto simp: rl_config_ok_def)
  have nn: "0 \<le> rl_rate rl * ((now - s) div rl_interval rl)" using i assms(3) by (simp add: pos_imp_zdiv_nonneg_iff)
  show ?thesis
  proof (cases "n = 0 \<or> b = None")
    case True
    then show ?thesis using assms(2) i nn by (auto simp: share_def)
  next
    case False
    then obtain x where x: "b = Some x" "n \<noteq> 0" by auto
    have "rl_rate rl * ((bk_lastFill x - s) div rl_interval rl) \<le> rl_rate rl * ((now - s) div rl_interval rl)"
      using assms(4) [OF x(1)] i by (intro mult_left_mono zdiv_mono1) (auto simp: bucket_ok_def)
    moreover have "n + bk_tokens x \<le> rl_burst rl + rl_rate rl * ((bk_lastFill x - s) div rl_interval rl)"
      using assms(2) x by (auto simp: share_def)
    moreover have "0 \<le> bk_tokens x" using assms(4) [OF x(1)] by (simp add: bucket_ok_def)
    ultimately show ?thesis by linarith
  qed
qed

text \<open>An allowed request: the bucket has a token left, or the request is the bucket's first.\<close>

lemma Allow_ok:
  assumes ok: "rl_config_ok rl" and b: "\<And>x. rl_buckets rl key = Some x \<Longrightarrow> bucket_ok now rl x"
    and now: "0 \<le> now" "now < 4611686018427387904"
    and s: "share rl s now n (rl_buckets rl key)" "s + rl_interval rl \<le> now"
  shows "\<exists>allowed b'. Allow now key rl = Some (allowed, rl\<lparr>rl_buckets := (rl_buckets rl)(key \<mapsto> b')\<rparr>)
     \<and> bucket_ok now rl b' \<and> share rl s now (if allowed then n + 1 else n) (Some b')"
proof -
  have i: "0 < rl_interval rl" "0 < rl_rate rl" "0 < rl_burst rl" "rl_burst rl < 4611686018427387904"
    using ok by (auto simp: rl_config_ok_def)
  have q: "1 \<le> (now - s) div rl_interval rl" using zdiv_mono1 [of "rl_interval rl" "now - s" "rl_interval rl"] s(2) i by simp
  show ?thesis
  proof (cases "rl_buckets rl key")
    case None
    let ?b = "\<lparr>bk_tokens = rl_burst rl - 1, bk_lastFill = now\<rparr>"
    have "n \<le> rl_rate rl * ((now - s) div rl_interval rl)"
      using s(1) None i q by (auto simp: share_def intro: mult_nonneg_nonneg)
    then have "share rl s now (n + 1) (Some ?b)" using s i by (auto simp: share_def None)
    moreover have "bucket_ok now rl ?b" using now i by (simp add: bucket_ok_def)
    ultimately show ?thesis using None i by (intro exI [of _ True] exI [of _ ?b]) (simp add: Allow_def wrap64_id)
  next
    case (Some b0)
    define k where "k = (now - bk_lastFill b0) div rl_interval rl"
    note r = refilled_eq [OF ok b [OF Some] now(2), folded k_def]
    let ?r = "refilled now rl b0"
    have b0: "0 \<le> bk_tokens b0" "bk_tokens b0 \<le> rl_burst rl" "0 \<le> bk_lastFill b0" "bk_lastFill b0 \<le> now"
      using b [OF Some] by (auto simp: bucket_ok_def)
    have kr: "0 \<le> k * rl_rate rl" "0 \<le> k * rl_interval rl" using r(2) i by simp_all
    have rok: "bucket_ok now rl ?r" using b0 kr i r(4) by (auto simp: bucket_ok_def r(1))
    have late: "s < bk_lastFill ?r" using r(3) s(2) by (simp add: r(1) algebra_simps)
    have sh: "n + bk_tokens ?r \<le> rl_burst rl + rl_rate rl * ((bk_lastFill ?r - s) div rl_interval rl)"
    proof (cases "n = 0")
      case True
      have "0 \<le> rl_rate rl * ((bk_lastFill ?r - s) div rl_interval rl)" using late i by (simp add: pos_imp_zdiv_nonneg_iff)
      moreover have "bk_tokens ?r \<le> rl_burst rl" using rok by (simp add: bucket_ok_def)
      ultimately show ?thesis using True by simp
    next
      case False
      then have "n + bk_tokens b0 \<le> rl_burst rl + rl_rate rl * ((bk_lastFill b0 - s) div rl_interval rl)"
        using s(1) Some by (auto simp: share_def)
      moreover have "(bk_lastFill ?r - s) div rl_interval rl = (bk_lastFill b0 - s) div rl_interval rl + k"
        using i by (simp add: r(1) diff_add_eq [symmetric])
      moreover have "bk_tokens ?r \<le> bk_tokens b0 + k * rl_rate rl" by (simp add: r(1))
      ultimately show ?thesis by (simp add: algebra_simps)
    qed
    have n: "0 \<le> n" using s(1) by (simp add: share_def)
    show ?thesis
    proof (cases "bk_tokens ?r \<le> 0")
      case True
      then show ?thesis using Some i rok sh late n
        by (intro exI [of _ False] exI [of _ ?r]) (simp add: Allow_def share_def)
    next
      case False
      then have "bucket_ok now rl (?r\<lparr>bk_tokens := bk_tokens ?r - 1\<rparr>)" using rok by (simp add: bucket_ok_def)
      then show ?thesis using False Some i sh late n
        by (intro exI [of _ True] exI [of _ "?r\<lparr>bk_tokens := bk_tokens ?r - 1\<rparr>"]) (simp add: Allow_def share_def Let_def)
    qed
  qed
qed

lemma share_mono:
  assumes "rl_config_ok rl" and "share rl s now n b" and "now \<le> now'"
  shows "share rl s now' n b"
proof -
  have "rl_rate rl * ((now - s) div rl_interval rl) \<le> rl_rate rl * ((now' - s) div rl_interval rl)"
    using assms by (intro mult_left_mono zdiv_mono1) (auto simp: rl_config_ok_def)
  then show ?thesis using assms(2) by (auto simp: share_def split: option.splits)
qed

lemma share_dropped:
  assumes ok: "rl_config_ok rl" and "share rl s now n (Some b)" and "bucket_ok now rl b"
    and "bk_lastFill b < now - 600000000000"
  shows "share rl s now n None"
proof (cases "n = 0")
  case False
  let ?i = "rl_interval rl" and ?r = "rl_rate rl"
  have i: "0 < ?i" "0 < ?r" using ok by (auto simp: rl_config_ok_def)
  have "rl_burst rl \<le> ?r * (600000000000 div ?i)" using ok by (simp add: rl_config_ok_def)
  also have "\<dots> \<le> ?r * ((now - bk_lastFill b) div ?i)" using i assms(4) by (intro mult_left_mono zdiv_mono1) auto
  finally have "rl_burst rl + ?r * ((bk_lastFill b - s) div ?i)
      \<le> ?r * ((now - bk_lastFill b) div ?i + (bk_lastFill b - s) div ?i)" by (simp add: algebra_simps)
  also have "\<dots> \<le> ?r * ((now - s) div ?i)"
    using i div_super [of ?i "now - bk_lastFill b" "bk_lastFill b - s"] by (intro mult_left_mono) auto
  finally show ?thesis using assms(2,3) False by (auto simp: share_def bucket_ok_def)
qed (simp add: share_def)

lemma rl_events_share:
  assumes "rl_config_ok rl" and "\<And>k x. rl_buckets rl k = Some x \<Longrightarrow> bucket_ok now rl x"
    and "share rl s now n (rl_buckets rl key)" and "s + rl_interval rl \<le> now" and "0 \<le> now"
    and "sorted (map event_time es)" and "\<And>e. e \<in> set es \<Longrightarrow> now \<le> event_time e \<and> event_time e \<le> final"
    and "now \<le> final" and "final < 4611686018427387904"
  shows "n + fst (rl_events key es rl) \<le> rl_burst rl + rl_rate rl * ((final - s) div rl_interval rl)"
  using assms
proof (induction es arbitrary: rl now n)
  case Nil
  have "s \<le> now" using Nil.prems(1,4) by (auto simp: rl_config_ok_def)
  then have "n \<le> rl_burst rl + rl_rate rl * ((final - s) div rl_interval rl)"
    using share_bound [OF Nil.prems(1) share_mono [OF Nil.prems(1,3,8)]] Nil.prems(2,8)
    by (fastforce simp: bucket_ok_def)
  then show ?case by simp
next
  case (Cons e es)
  let ?t = "event_time e"
  have t: "now \<le> ?t" "?t \<le> final" using Cons.prems(7) by auto
  have late: "\<And>e'. e' \<in> set es \<Longrightarrow> ?t \<le> event_time e' \<and> event_time e' \<le> final" using Cons.prems(6,7) by auto
  have sorted: "sorted (map event_time es)" using Cons.prems(6) by simp
  have wf: "\<And>k x. rl_buckets rl k = Some x \<Longrightarrow> bucket_ok ?t rl x" using Cons.prems(2) t(1) by (fastforce simp: bucket_ok_def)
  have sh: "share rl s ?t n (rl_buckets rl key)" by (rule share_mono [OF Cons.prems(1,3) t(1)])
  show ?case
  proof (cases e)
    case (ECleanup c)
    let ?rl = "cleanup c rl"
    have cfg: "rl_config_ok ?rl" "rl_rate ?rl = rl_rate rl" "rl_burst ?rl = rl_burst rl" "rl_interval ?rl = rl_interval rl"
      using Cons.prems(1) by (simp_all add: cleanup_def rl_config_ok_def)
    have same: "share ?rl s a m b = share rl s a m b" "bucket_ok c ?rl x = bucket_ok c rl x" for a m b x
      by (simp_all only: share_def bucket_ok_def cfg)
    have "bucket_ok c ?rl x" if "rl_buckets ?rl k = Some x" for k x
      using that wf ECleanup by (auto simp: cleanup_def same bucket_ok_def split: option.splits if_splits)
    moreover have "share ?rl s c n (rl_buckets ?rl key)"
      unfolding same using sh ECleanup share_dropped [OF Cons.prems(1)] wf
      by (auto simp: cleanup_def split: option.splits)
    ultimately have "n + fst (rl_events key es ?rl) \<le> rl_burst ?rl + rl_rate ?rl * ((final - s) div rl_interval ?rl)"
      using Cons.IH [OF cfg(1), of c n] ECleanup Cons.prems(4,5,9) t late sorted by (simp add: cfg(2-4))
    then show ?thesis using ECleanup by (simp add: cfg(2-4))
  next
    case (EAllow c k)
    have c: "0 \<le> c" "c < 4611686018427387904" "s + rl_interval rl \<le> c" "c \<le> final" using EAllow t Cons.prems(4,5,9) by auto
    let ?m = "if k = key then n else 0"
    have "share rl s c ?m (rl_buckets rl k)" using sh EAllow by (simp add: share_def)
    moreover have "\<And>x. rl_buckets rl k = Some x \<Longrightarrow> bucket_ok c rl x" using wf EAllow by simp
    ultimately obtain allowed b' where a: "Allow c k rl = Some (allowed, rl\<lparr>rl_buckets := (rl_buckets rl)(k \<mapsto> b')\<rparr>)"
      and b': "bucket_ok c rl b'" "share rl s c (if allowed then ?m + 1 else ?m) (Some b')"
      using Allow_ok [OF Cons.prems(1) _ c(1,2) _ c(3)] by metis
    let ?rl = "rl\<lparr>rl_buckets := (rl_buckets rl)(k \<mapsto> b')\<rparr>"
    have cfg: "rl_config_ok ?rl" using Cons.prems(1) by (simp add: rl_config_ok_def)
    have same: "share ?rl s a m b = share rl s a m b" "bucket_ok c ?rl x = bucket_ok c rl x" for a m b x
      by (cases b; simp add: share_def bucket_ok_def)+
    let ?n = "if allowed \<and> k = key then n + 1 else n"
    have "bucket_ok c ?rl x" if "rl_buckets ?rl j = Some x" for j x
      using that wf EAllow b'(1) by (auto simp: same split: if_splits)
    moreover have "share ?rl s c ?n (rl_buckets ?rl key)" using b'(2) sh EAllow by (auto simp: same)
    ultimately have "?n + fst (rl_events key es ?rl) \<le> rl_burst ?rl + rl_rate ?rl * ((final - s) div rl_interval ?rl)"
      using Cons.IH [OF cfg, of c ?n] c late sorted Cons.prems(9) EAllow by simp
    then show ?thesis using EAllow a by (auto simp: Let_def split: prod.splits if_splits)
  qed
qed

text \<open>
  C31: In any window of time a client is allowed at most its burst and the rate for every interval
  begun in the window, whatever other clients ask and whenever idle buckets are dropped.
\<close>

theorem client_share_bounded:
  assumes "rl_config_ok rl" and "\<And>k x. rl_buckets rl k = Some x \<Longrightarrow> bucket_ok start rl x" and "0 \<le> start"
    and "sorted (map event_time es)" and "\<forall>e \<in> set es. start \<le> event_time e \<and> event_time e \<le> final"
    and "start \<le> final" and "final < 4611686018427387904"
  shows "fst (rl_events key es rl) \<le> rl_burst rl + rl_rate rl * ((final - start) div rl_interval rl + 1)"
proof -
  have i: "0 < rl_interval rl" using assms(1) by (auto simp: rl_config_ok_def)
  have "0 + fst (rl_events key es rl) \<le> rl_burst rl + rl_rate rl * ((final - (start - rl_interval rl)) div rl_interval rl)"
    by (rule rl_events_share [of rl start]) (use assms in \<open>auto simp: share_def\<close>)
  moreover have "(final - (start - rl_interval rl)) div rl_interval rl = (final - start) div rl_interval rl + 1"
    using i div_add_self2 [of "rl_interval rl" "final - start"] by (simp add: algebra_simps)
  ultimately show ?thesis by simp
qed

definition demo_events :: "rl_event list" where
  "demo_events = replicate 11 (EAllow 1 ''a'') @ [ECleanup 2, EAllow 6000000001 ''a'']"

theorem client_share_bounded_witness:
  "fst (rl_events ''a'' demo_events (NewRateLimiter 10 10 60000000000)) = 10
 \<and> fst (rl_events ''a'' demo_events (NewRateLimiter 10 10 60000000000)) \<le> 20"
proof
  show "fst (rl_events ''a'' demo_events (NewRateLimiter 10 10 60000000000)) = 10" by code_simp
  have "sorted (map event_time demo_events)" by code_simp
  then show "fst (rl_events ''a'' demo_events (NewRateLimiter 10 10 60000000000)) \<le> 20"
    using client_share_bounded [of "NewRateLimiter 10 10 60000000000" 0 demo_events 6000000001 "''a''"] server_limiters_ok
    by (auto simp: NewRateLimiter_def demo_events_def)
qed

end
