(* ===== verification/ReadCache.thy ===== *)
theory ReadCache
  imports Prelude "HOL-Library.AList" "HOL-Library.Multiset" "HOL-Library.Word"
begin

text \<open>
  \<^verbatim>\<open>internal/api/read_cache.go\<close>: the read-through cache of the HTTP API, with its mutex sections as
  atomic operations and its goroutines as the steps of a relation.
\<close>

section \<open>State\<close>

record cacheEntry =
  ce_data :: string
  ce_storedAt :: int

text \<open>A \<^verbatim>\<open>call\<close>; \<open>cl_done\<close> is whether its channel is closed.\<close>

record rc_call =
  cl_val :: string
  cl_err :: "go_error option"
  cl_generation :: "64 word"
  cl_invalidated :: bool
  cl_done :: bool

text \<open>
  Calls are shared between the cache, the goroutine that fetches and the callers that wait, so they
  stand in a store under their addresses, with the goroutine's key and where it is: fetching, past
  its locked section, or ended.
\<close>

datatype stage = Fetching | Closing | Ended

record fetcher =
  ft_key :: string
  ft_stage :: stage
  ft_call :: rc_call

record ReadCache =
  rc_entries :: "(string \<times> cacheEntry) list"
  rc_inflight :: "(string \<times> nat) list"
  rc_generation :: "string \<Rightarrow> 64 word"
  rc_maxAge :: int
  rc_maxEntries :: nat
  rc_calls :: "nat \<Rightarrow> fetcher option"
  rc_next :: nat

definition NewReadCache :: "int \<Rightarrow> nat \<Rightarrow> ReadCache" where
  "NewReadCache maxAge maxEntries =
     \<lparr>rc_entries = [], rc_inflight = [], rc_generation = (\<lambda>_. 0), rc_maxAge = maxAge, rc_maxEntries = maxEntries,
      rc_calls = (\<lambda>_. None), rc_next = 0\<rparr>"

section \<open>Reading\<close>

definition cache_Get :: "int \<Rightarrow> string \<Rightarrow> ReadCache \<Rightarrow> string option" where
  "cache_Get now key c =
     (case map_of (rc_entries c) key of
        None \<Rightarrow> None
      | Some e \<Rightarrow> if rc_maxAge c < now - ce_storedAt e then None else Some (ce_data e))"

definition GetStale :: "string \<Rightarrow> ReadCache \<Rightarrow> string option" where
  "GetStale key c = map_option ce_data (map_of (rc_entries c) key)"

text \<open>
  The locked section of \<^verbatim>\<open>GetOrFetchContext\<close>: a hit, a call to wait for, or a new call, whose
  goroutine is started.
\<close>

datatype turn = Hit string | Join nat | Begin nat

definition start_call :: "string \<Rightarrow> ReadCache \<Rightarrow> turn \<times> ReadCache" where
  "start_call key c =
     (let cl = \<lparr>cl_val = [], cl_err = None, cl_generation = rc_generation c key, cl_invalidated = False, cl_done = False\<rparr>
      in (Begin (rc_next c),
          c\<lparr>rc_inflight := AList.update key (rc_next c) (rc_inflight c),
            rc_calls := (rc_calls c)(rc_next c \<mapsto> \<lparr>ft_key = key, ft_stage = Fetching, ft_call = cl\<rparr>),
            rc_next := Suc (rc_next c)\<rparr>))"

definition get_or_join :: "int \<Rightarrow> string \<Rightarrow> ReadCache \<Rightarrow> turn \<times> ReadCache" where
  "get_or_join now key c =
     (let absent = (case map_of (rc_inflight c) key of Some i \<Rightarrow> (Join i, c) | None \<Rightarrow> start_call key c)
      in case map_of (rc_entries c) key of
           Some e \<Rightarrow> if now - ce_storedAt e \<le> rc_maxAge c then (Hit (ce_data e), c) else absent
         | None \<Rightarrow> absent)"

text \<open>
  \<^verbatim>\<open>waitForCall\<close>: \<open>None\<close> while it blocks, \<open>Inl None\<close> for \<^verbatim>\<open>errReadCacheInvalidated\<close>.  A call that
  is done goes before a context that is cancelled.
\<close>

definition waitForCall :: "go_error option \<Rightarrow> rc_call \<Rightarrow> (go_error option + (string \<times> go_error option)) option" where
  "waitForCall ctx cl =
     (if cl_done cl then Some (if cl_invalidated cl then Inl None else Inr (cl_val cl, cl_err cl))
      else (case ctx of Some err \<Rightarrow> Some (Inl (Some err)) | None \<Rightarrow> None))"

section \<open>Storing\<close>

text \<open>
  \<open>items\<close> are the entries as \<^verbatim>\<open>sort.Slice\<close> leaves them: by time, in any order among equals.
\<close>

definition evictLocked :: "(string \<times> cacheEntry) list \<Rightarrow> ReadCache \<Rightarrow> ReadCache" where
  "evictLocked items c =
     (if length (rc_entries c) \<le> rc_maxEntries c then c
      else c\<lparr>rc_entries := foldl (\<lambda>es item. AList.delete (fst item) es) (rc_entries c)
             (take (length (rc_entries c) - rc_maxEntries c) items)\<rparr>)"

text \<open>What \<^verbatim>\<open>fn\<close> does: it returns, or it panics with a value that prints as the text.\<close>

datatype fetch_result = FReturn string "go_error option" | FPanic string

definition with_result :: "fetch_result \<Rightarrow> rc_call \<Rightarrow> rc_call" where
  "with_result res cl =
     (case res of
        FReturn v err \<Rightarrow> cl\<lparr>cl_val := v, cl_err := err\<rparr>
      | FPanic text \<Rightarrow> cl\<lparr>cl_err := Some (Err (''read_cache: fetch panicked: '' @ text))\<rparr>)"

definition finish_inflight :: "nat \<Rightarrow> string \<Rightarrow> ReadCache \<Rightarrow> ReadCache" where
  "finish_inflight i key c =
     (if map_of (rc_inflight c) key = Some i then c\<lparr>rc_inflight := AList.delete key (rc_inflight c)\<rparr> else c)"

definition set_call :: "nat \<Rightarrow> fetcher \<Rightarrow> ReadCache \<Rightarrow> ReadCache" where
  "set_call i f c = c\<lparr>rc_calls := (rc_calls c)(i \<mapsto> f)\<rparr>"

text \<open>\<^verbatim>\<open>runFetch\<close> up to the end of its locked section; and the closing of the channel after it.\<close>

definition runFetch ::
  "nat \<Rightarrow> fetch_result \<Rightarrow> int \<Rightarrow> (string \<times> cacheEntry) list \<Rightarrow> ReadCache \<Rightarrow> ReadCache" where
  "runFetch i res now items c =
     (case rc_calls c i of
        None \<Rightarrow> c
      | Some f \<Rightarrow>
          (let key = ft_key f; cl = with_result res (ft_call f);
               c1 = finish_inflight i key (set_call i (f\<lparr>ft_stage := Closing, ft_call := cl\<rparr>) c)
           in if cl_err cl = None \<and> rc_generation c1 key = cl_generation cl
              then evictLocked items
                     (c1\<lparr>rc_entries := AList.update key \<lparr>ce_data = cl_val cl, ce_storedAt = now\<rparr> (rc_entries c1)\<rparr>)
              else c1))"

definition close_done :: "nat \<Rightarrow> ReadCache \<Rightarrow> ReadCache" where
  "close_done i c =
     (case rc_calls c i of
        None \<Rightarrow> c
      | Some f \<Rightarrow> set_call i (f\<lparr>ft_stage := Ended, ft_call := (ft_call f)\<lparr>cl_done := True\<rparr>\<rparr>) c)"

section \<open>Invalidating\<close>

definition mark_invalidated :: "nat \<Rightarrow> ReadCache \<Rightarrow> ReadCache" where
  "mark_invalidated i c =
     (case rc_calls c i of
        None \<Rightarrow> c
      | Some f \<Rightarrow> set_call i (f\<lparr>ft_call := (ft_call f)\<lparr>cl_invalidated := True\<rparr>\<rparr>) c)"

definition invalidateKeyLocked :: "string \<Rightarrow> ReadCache \<Rightarrow> ReadCache" where
  "invalidateKeyLocked key c =
     (let c1 = c\<lparr>rc_entries := AList.delete key (rc_entries c)\<rparr>;
          c2 = (case map_of (rc_inflight c1) key of Some i \<Rightarrow> mark_invalidated i c1 | None \<Rightarrow> c1)
      in c2\<lparr>rc_inflight := AList.delete key (rc_inflight c2),
           rc_generation := (rc_generation c2)(key := rc_generation c2 key + 1)\<rparr>)"

definition InvalidateMatching :: "(string \<Rightarrow> bool) \<Rightarrow> ReadCache \<Rightarrow> ReadCache" where
  "InvalidateMatching match c =
     fold invalidateKeyLocked
       (remdups (filter match (map fst (rc_entries c)) @ filter match (map fst (rc_inflight c)))) c"

definition Invalidate :: "ReadCache \<Rightarrow> ReadCache" where
  "Invalidate c =
     (fold invalidateKeyLocked (remdups (map fst (rc_entries c) @ map fst (rc_inflight c))) c)
       \<lparr>rc_entries := [], rc_inflight := []\<rparr>"

definition InvalidateKey :: "string \<Rightarrow> ReadCache \<Rightarrow> ReadCache" where
  "InvalidateKey key c = invalidateKeyLocked key c"

section \<open>The steps\<close>

text \<open>
  A caller of \<^verbatim>\<open>GetOrFetchContext\<close>: at the head of its loop, past the unlocked read, waiting for a
  call, or returned.  Every caller has its key and, once it is cancelled, its context's error.
\<close>

datatype pc = AtLoop | AtLock | Waiting nat | Returned string "go_error option"

record caller =
  cr_key :: string
  cr_ctx :: "go_error option"
  cr_pc :: pc

record cache_sys =
  sy_cache :: ReadCache
  sy_callers :: "nat \<Rightarrow> caller option"

definition set_pc :: "nat \<Rightarrow> pc \<Rightarrow> cache_sys \<Rightarrow> cache_sys" where
  "set_pc j q s = s\<lparr>sy_callers := (sy_callers s)(j := map_option (\<lambda>r. r\<lparr>cr_pc := q\<rparr>) (sy_callers s j))\<rparr>"

text \<open>Where a caller goes after a wait.\<close>

definition after_wait :: "go_error option \<Rightarrow> go_error option + (string \<times> go_error option) \<Rightarrow> pc" where
  "after_wait ctx answer =
     (case answer of
        Inl None \<Rightarrow> (case ctx of Some err \<Rightarrow> Returned [] (Some err) | None \<Rightarrow> AtLoop)
      | Inl (Some err) \<Rightarrow> Returned [] (Some err)
      | Inr (data, err) \<Rightarrow> Returned data err)"

inductive cache_step :: "cache_sys \<Rightarrow> cache_sys \<Rightarrow> bool" where
  new_caller:
    "sy_callers s j = None \<Longrightarrow>
     cache_step s (s\<lparr>sy_callers := (sy_callers s)(j \<mapsto> \<lparr>cr_key = key, cr_ctx = None, cr_pc = AtLoop\<rparr>)\<rparr>)"
| cancel:
    "sy_callers s j = Some r \<Longrightarrow> cache_step s (s\<lparr>sy_callers := (sy_callers s)(j \<mapsto> r\<lparr>cr_ctx := Some err\<rparr>)\<rparr>)"
| fast_path:
    "sy_callers s j = Some r \<Longrightarrow> cr_pc r = AtLoop \<Longrightarrow>
     cache_step s (set_pc j (case cache_Get now (cr_key r) (sy_cache s) of
         Some data \<Rightarrow> Returned data None | None \<Rightarrow> AtLock) s)"
| locked:
    "sy_callers s j = Some r \<Longrightarrow> cr_pc r = AtLock \<Longrightarrow> get_or_join now (cr_key r) (sy_cache s) = (t, c) \<Longrightarrow>
     cache_step s (set_pc j (case t of Hit data \<Rightarrow> Returned data None | Join i \<Rightarrow> Waiting i | Begin i \<Rightarrow> Waiting i)
       (s\<lparr>sy_cache := c\<rparr>))"
| woken:
    "sy_callers s j = Some r \<Longrightarrow> cr_pc r = Waiting i \<Longrightarrow> rc_calls (sy_cache s) i = Some f \<Longrightarrow>
     waitForCall (cr_ctx r) (ft_call f) = Some answer \<Longrightarrow>
     cache_step s (set_pc j (after_wait (cr_ctx r) answer) s)"
| fetched:
    "rc_calls (sy_cache s) i = Some f \<Longrightarrow> ft_stage f = Fetching \<Longrightarrow>
     mset items = mset (AList.update (ft_key f) \<lparr>ce_data = cl_val (with_result res (ft_call f)), ce_storedAt = now\<rparr>
                          (rc_entries (sy_cache s))) \<Longrightarrow>
     sorted (map (\<lambda>item. ce_storedAt (snd item)) items) \<Longrightarrow>
     cache_step s (s\<lparr>sy_cache := runFetch i res now items (sy_cache s)\<rparr>)"
| closed:
    "rc_calls (sy_cache s) i = Some f \<Longrightarrow> ft_stage f = Closing \<Longrightarrow>
     cache_step s (s\<lparr>sy_cache := close_done i (sy_cache s)\<rparr>)"
| invalidate: "cache_step s (s\<lparr>sy_cache := Invalidate (sy_cache s)\<rparr>)"
| invalidate_key: "cache_step s (s\<lparr>sy_cache := InvalidateKey key (sy_cache s)\<rparr>)"
| invalidate_matching: "cache_step s (s\<lparr>sy_cache := InvalidateMatching match (sy_cache s)\<rparr>)"

text \<open>Runs of a number of steps.\<close>

inductive cache_run :: "nat \<Rightarrow> cache_sys \<Rightarrow> cache_sys \<Rightarrow> bool" where
  none: "cache_run 0 s s"
| more: "cache_run n s t \<Longrightarrow> cache_step t u \<Longrightarrow> cache_run (Suc n) s u"

end
