(* ===== verification/CacheProps.thy ===== *)
theory CacheProps
  imports ReadCache
begin

text \<open>
  What the read cache promises whatever its callers, its fetches and the invalidations interleave:
  it stays within its size, and after a key is invalidated nothing fetched before is served for it.
\<close>

section \<open>Fields after each operation\<close>

lemma map_of_filter_keys:
  "map_of (filter (\<lambda>x. fst x \<notin> K) xs) k = (if k \<in> K then None else map_of xs k)"
  by (induction xs) auto

lemma delete_filter: "AList.delete k xs = filter (\<lambda>x. fst x \<noteq> k) xs"
  by (simp add: AList.delete_eq case_prod_beta' eq_commute)

definition mark :: "fetcher \<Rightarrow> fetcher" where
  "mark f = f\<lparr>ft_call := (ft_call f)\<lparr>cl_invalidated := True\<rparr>\<rparr>"

lemma mark_fields [simp]:
  "ft_key (mark f) = ft_key f" "ft_stage (mark f) = ft_stage f" "cl_val (ft_call (mark f)) = cl_val (ft_call f)"
  "cl_err (ft_call (mark f)) = cl_err (ft_call f)" "cl_generation (ft_call (mark f)) = cl_generation (ft_call f)"
  "cl_done (ft_call (mark f)) = cl_done (ft_call f)" "cl_invalidated (ft_call (mark f))"
  by (simp_all add: mark_def)

lemma invalidateKeyLocked_fields:
  "rc_entries (invalidateKeyLocked key c) = filter (\<lambda>x. fst x \<noteq> key) (rc_entries c)"
  "rc_inflight (invalidateKeyLocked key c) = filter (\<lambda>x. fst x \<noteq> key) (rc_inflight c)"
  "rc_generation (invalidateKeyLocked key c) = (rc_generation c)(key := rc_generation c key + 1)"
  "rc_next (invalidateKeyLocked key c) = rc_next c" "rc_maxEntries (invalidateKeyLocked key c) = rc_maxEntries c"
  "rc_maxAge (invalidateKeyLocked key c) = rc_maxAge c"
  "rc_calls (invalidateKeyLocked key c) =
     (\<lambda>i. if map_of (rc_inflight c) key = Some i then map_option mark (rc_calls c i) else rc_calls c i)"
  by (auto simp: invalidateKeyLocked_def mark_invalidated_def set_call_def mark_def delete_filter Let_def fun_eq_iff
      split: option.splits)

text \<open>The keys of a fold are invalidated once each.\<close>

lemma fold_invalidate:
  assumes "distinct ks"
  shows "rc_entries (fold invalidateKeyLocked ks c) = filter (\<lambda>x. fst x \<notin> set ks) (rc_entries c)
     \<and> rc_inflight (fold invalidateKeyLocked ks c) = filter (\<lambda>x. fst x \<notin> set ks) (rc_inflight c)
     \<and> rc_generation (fold invalidateKeyLocked ks c) =
         (\<lambda>k. if k \<in> set ks then rc_generation c k + 1 else rc_generation c k)
     \<and> rc_next (fold invalidateKeyLocked ks c) = rc_next c
     \<and> rc_maxEntries (fold invalidateKeyLocked ks c) = rc_maxEntries c
     \<and> rc_calls (fold invalidateKeyLocked ks c) =
         (\<lambda>i. if \<exists>k \<in> set ks. map_of (rc_inflight c) k = Some i then map_option mark (rc_calls c i) else rc_calls c i)"
  using assms
proof (induction ks arbitrary: c)
  case (Cons k ks)
  have k: "k \<notin> set ks" "distinct ks" using Cons.prems by auto
  let ?c = "invalidateKeyLocked k c"
  note ih = Cons.IH [OF k(2), of ?c, unfolded invalidateKeyLocked_fields]
  have ff: "filter (\<lambda>x. fst x \<notin> set ks) (filter (\<lambda>x. fst x \<noteq> k) xs) = filter (\<lambda>x. fst x \<notin> set (k # ks)) xs"
    for xs :: "(string \<times> 'b) list" by (simp add: conj_commute)
  have ex: "(\<exists>k' \<in> set ks. map_of (filter (\<lambda>x. fst x \<noteq> k) (rc_inflight c)) k' = Some i)
      \<longleftrightarrow> (\<exists>k' \<in> set ks. map_of (rc_inflight c) k' = Some i)" for i
    using k map_of_filter_keys [of "{k}" "rc_inflight c"] by (intro bex_cong) auto
  have idem: "map_option mark (map_option mark x) = map_option mark x" for x
    by (cases x) (simp_all add: mark_def)
  have calls: "(\<lambda>i. if \<exists>k' \<in> set ks. map_of (rc_inflight c) k' = Some i
        then map_option mark (if map_of (rc_inflight c) k = Some i then map_option mark (rc_calls c i) else rc_calls c i)
        else if map_of (rc_inflight c) k = Some i then map_option mark (rc_calls c i) else rc_calls c i)
      = (\<lambda>i. if \<exists>k' \<in> set (k # ks). map_of (rc_inflight c) k' = Some i then map_option mark (rc_calls c i) else rc_calls c i)"
    by (rule ext) (simp add: idem)
  have gens: "(\<lambda>k'. if k' \<in> set ks then ((rc_generation c)(k := rc_generation c k + 1)) k' + 1
        else ((rc_generation c)(k := rc_generation c k + 1)) k')
      = (\<lambda>k'. if k' \<in> set (k # ks) then rc_generation c k' + 1 else rc_generation c k')"
    using k(1) by (intro ext) simp
  show ?case unfolding fold_Cons comp_apply using ih unfolding ff ex calls gens by blast
qed simp

lemma Invalidate_fold:
  "Invalidate c = fold invalidateKeyLocked (remdups (map fst (rc_entries c) @ map fst (rc_inflight c))) c"
proof -
  let ?ks = "remdups (map fst (rc_entries c) @ map fst (rc_inflight c))"
  have "filter (\<lambda>x. fst x \<notin> set ?ks) (rc_entries c) = []" "filter (\<lambda>x. fst x \<notin> set ?ks) (rc_inflight c) = []"
    by (auto simp: filter_empty_conv)
  then show ?thesis using fold_invalidate [of ?ks c] by (simp add: Invalidate_def)
qed

lemma InvalidateKey_fold: "InvalidateKey key c = fold invalidateKeyLocked [key] c"
  by (simp add: InvalidateKey_def)

text \<open>Every invalidation is a fold over distinct keys.\<close>

lemmas invalidations = Invalidate_fold InvalidateKey_fold InvalidateMatching_def

lemma evictLocked_fields [simp]:
  "rc_inflight (evictLocked items c) = rc_inflight c" "rc_generation (evictLocked items c) = rc_generation c"
  "rc_calls (evictLocked items c) = rc_calls c" "rc_next (evictLocked items c) = rc_next c"
  "rc_maxEntries (evictLocked items c) = rc_maxEntries c"
  by (simp_all add: evictLocked_def)

lemma fold_delete: "foldl (\<lambda>es item. AList.delete (fst item) es) es xs = filter (\<lambda>x. fst x \<notin> fst ` set xs) es"
  by (induction xs arbitrary: es) (auto simp: delete_filter intro: filter_cong)

lemma evictLocked_entries:
  "\<exists>P. rc_entries (evictLocked items c) = filter P (rc_entries c)"
  by (auto simp: evictLocked_def fold_delete intro: exI [of _ "\<lambda>_. True"])

lemma evictLocked_bound:
  assumes "distinct (map fst (rc_entries c))" and "mset items = mset (rc_entries c)"
  shows "length (rc_entries (evictLocked items c)) \<le> rc_maxEntries c"
proof (cases "length (rc_entries c) \<le> rc_maxEntries c")
  case False
  let ?n = "length (rc_entries c) - rc_maxEntries c" and ?es = "rc_entries c"
  have "mset (map fst items) = mset (map fst ?es)" using assms(2) by simp
  then have d: "distinct (map fst items)" using assms(1) mset_eq_imp_distinct_iff by blast
  have len: "length items = length ?es" by (rule mset_eq_length [OF assms(2)])
  let ?old = "fst ` set (take ?n items)"
  have dt: "distinct (map fst (take ?n items))" using distinct_take [OF d, of ?n] by (simp add: take_map)
  have "card ?old = ?n" using distinct_card [OF dt] len by simp
  moreover have "?old \<subseteq> set (map fst ?es)"
    using set_take_subset [of ?n items] mset_eq_setD [OF assms(2)] by auto
  moreover have "length (filter (\<lambda>x. fst x \<notin> ?old) ?es) = card (set (map fst ?es) - ?old)"
  proof -
    have "distinct (map fst (filter (\<lambda>x. fst x \<notin> ?old) ?es))" using assms(1) by (rule distinct_map_filter)
    moreover have "set (map fst (filter (\<lambda>x. fst x \<notin> ?old) ?es)) = set (map fst ?es) - ?old" by auto
    ultimately show ?thesis by (metis distinct_card length_map)
  qed
  moreover have "card (set (map fst ?es)) = length ?es" using distinct_card [OF assms(1)] by simp
  ultimately have "length (filter (\<lambda>x. fst x \<notin> ?old) ?es) = length ?es - ?n"
    by (simp add: card_Diff_subset)
  then show ?thesis using False by (simp add: evictLocked_def fold_delete)
qed (simp add: evictLocked_def)

section \<open>The invariant\<close>

text \<open>
  Keys are stored once and within the size; a call in flight is the running fetch of the key's
  generation; a running fetch that is not in flight is marked and one to \<open>m\<close> generations behind.
\<close>

definition in_flight :: "ReadCache \<Rightarrow> nat \<Rightarrow> fetcher \<Rightarrow> bool" where
  "in_flight c i f \<longleftrightarrow> map_of (rc_inflight c) (ft_key f) = Some i"

definition cache_inv :: "nat \<Rightarrow> ReadCache \<Rightarrow> bool" where
  "cache_inv m c \<longleftrightarrow>
     distinct (map fst (rc_entries c)) \<and> length (rc_entries c) \<le> rc_maxEntries c
   \<and> (\<forall>key i. map_of (rc_inflight c) key = Some i \<longrightarrow>
        (\<exists>f. rc_calls c i = Some f \<and> ft_key f = key \<and> ft_stage f = Fetching
           \<and> cl_generation (ft_call f) = rc_generation c key))
   \<and> (\<forall>i f. rc_calls c i = Some f \<longrightarrow> i < rc_next c
        \<and> (cl_done (ft_call f) \<longrightarrow> ft_stage f = Ended)
        \<and> (ft_stage f = Fetching \<longrightarrow> \<not> in_flight c i f \<longrightarrow>
             cl_invalidated (ft_call f)
           \<and> (\<exists>k. 1 \<le> k \<and> k \<le> m \<and> rc_generation c (ft_key f) = cl_generation (ft_call f) + of_nat k)))"

lemma cache_invD:
  assumes "cache_inv m c"
  shows "distinct (map fst (rc_entries c))" "length (rc_entries c) \<le> rc_maxEntries c"
    "map_of (rc_inflight c) key = Some i \<Longrightarrow> \<exists>f. rc_calls c i = Some f \<and> ft_key f = key \<and> ft_stage f = Fetching
           \<and> cl_generation (ft_call f) = rc_generation c key"
    "rc_calls c i = Some f \<Longrightarrow> i < rc_next c"
    "rc_calls c i = Some f \<Longrightarrow> cl_done (ft_call f) \<Longrightarrow> ft_stage f = Ended"
    "rc_calls c i = Some f \<Longrightarrow> ft_stage f = Fetching \<Longrightarrow> \<not> in_flight c i f \<Longrightarrow> cl_invalidated (ft_call f)"
    "rc_calls c i = Some f \<Longrightarrow> ft_stage f = Fetching \<Longrightarrow> \<not> in_flight c i f \<Longrightarrow>
       \<exists>k. 1 \<le> k \<and> k \<le> m \<and> rc_generation c (ft_key f) = cl_generation (ft_call f) + of_nat k"
  using assms unfolding cache_inv_def by blast+

lemma cache_invI:
  assumes "distinct (map fst (rc_entries c))" "length (rc_entries c) \<le> rc_maxEntries c"
    "\<And>key i. map_of (rc_inflight c) key = Some i \<Longrightarrow> \<exists>f. rc_calls c i = Some f \<and> ft_key f = key \<and> ft_stage f = Fetching
           \<and> cl_generation (ft_call f) = rc_generation c key"
    "\<And>i f. rc_calls c i = Some f \<Longrightarrow> i < rc_next c"
    "\<And>i f. rc_calls c i = Some f \<Longrightarrow> cl_done (ft_call f) \<Longrightarrow> ft_stage f = Ended"
    "\<And>i f. rc_calls c i = Some f \<Longrightarrow> ft_stage f = Fetching \<Longrightarrow> \<not> in_flight c i f \<Longrightarrow> cl_invalidated (ft_call f)
       \<and> (\<exists>k. 1 \<le> k \<and> k \<le> m \<and> rc_generation c (ft_key f) = cl_generation (ft_call f) + of_nat k)"
  shows "cache_inv m c"
  using assms unfolding cache_inv_def by blast

lemma inv_mono: "cache_inv m c \<Longrightarrow> m \<le> n \<Longrightarrow> cache_inv n c"
  unfolding cache_inv_def by (meson order_trans)

lemma inv_invalidate:
  assumes "cache_inv m c" and "distinct ks"
  shows "cache_inv (Suc m) (fold invalidateKeyLocked ks c)" (is "cache_inv _ ?c")
proof -
  note f = fold_invalidate [OF assms(2), of c]
  note inv = cache_invD [OF assms(1)]
  have entries: "rc_entries ?c = filter (\<lambda>x. fst x \<notin> set ks) (rc_entries c)" and max: "rc_maxEntries ?c = rc_maxEntries c"
    and nxt: "rc_next ?c = rc_next c"
    and gen: "rc_generation ?c k = (if k \<in> set ks then rc_generation c k + 1 else rc_generation c k)"
    and infl: "map_of (rc_inflight ?c) k = (if k \<in> set ks then None else map_of (rc_inflight c) k)" for k
    using f by (simp_all add: map_of_filter_keys)
  have calls: "rc_calls ?c i = (if \<exists>k \<in> set ks. map_of (rc_inflight c) k = Some i then map_option mark (rc_calls c i) else rc_calls c i)" for i
    using f by simp
  show ?thesis
  proof (rule cache_invI)
    show "distinct (map fst (rc_entries ?c))" unfolding entries by (rule distinct_map_filter [OF inv(1)])
    show "length (rc_entries ?c) \<le> rc_maxEntries ?c"
      unfolding entries max using inv(2) length_filter_le order_trans by blast
  next
    fix key i assume "map_of (rc_inflight ?c) key = Some i"
    then have k: "key \<notin> set ks" "map_of (rc_inflight c) key = Some i" by (simp_all add: infl split: if_splits)
    obtain g where g: "rc_calls c i = Some g" "ft_key g = key" "ft_stage g = Fetching"
      "cl_generation (ft_call g) = rc_generation c key" using inv(3) [OF k(2)] by blast
    then show "\<exists>f. rc_calls ?c i = Some f \<and> ft_key f = key \<and> ft_stage f = Fetching
           \<and> cl_generation (ft_call f) = rc_generation ?c key"
      using k(1) by (auto simp: calls gen)
  next
    fix i f assume r: "rc_calls ?c i = Some f"
    then obtain g where g: "rc_calls c i = Some g" "f = g \<or> f = mark g" by (auto simp: calls split: if_splits)
    then show "i < rc_next ?c" using inv(4) nxt by simp
    show "cl_done (ft_call f) \<Longrightarrow> ft_stage f = Ended" using g inv(5) by auto
    assume st: "ft_stage f = Fetching" and nf: "\<not> in_flight ?c i f"
    have same: "ft_key f = ft_key g" "ft_stage g = Fetching" "cl_generation (ft_call f) = cl_generation (ft_call g)"
      using g(2) st by auto
    show "cl_invalidated (ft_call f)
       \<and> (\<exists>k. 1 \<le> k \<and> k \<le> Suc m \<and> rc_generation ?c (ft_key f) = cl_generation (ft_call f) + of_nat k)"
    proof (cases "in_flight c i g")
      case True
      then have k: "ft_key g \<in> set ks" using nf same(1) by (auto simp: in_flight_def infl split: if_splits)
      then have "f = mark g" using r g(1) True by (auto simp: calls in_flight_def split: if_splits)
      moreover have "cl_generation (ft_call g) = rc_generation c (ft_key g)"
        using inv(3) True g(1) unfolding in_flight_def by fastforce
      ultimately show ?thesis using k by (auto simp: gen intro!: exI [of _ 1])
    next
      case False
      obtain k where k: "1 \<le> k" "k \<le> m" "rc_generation c (ft_key g) = cl_generation (ft_call g) + of_nat k"
        using inv(7) [OF g(1) same(2) False] by blast
      have "cl_invalidated (ft_call f)" using inv(6) [OF g(1) same(2) False] g(2) by auto
      moreover have "\<exists>k. 1 \<le> k \<and> k \<le> Suc m \<and> rc_generation ?c (ft_key f) = cl_generation (ft_call f) + of_nat k"
      proof (cases "ft_key g \<in> set ks")
        case True
        then show ?thesis using k same by (intro exI [of _ "Suc k"]) (simp add: gen)
      next
        case False
        then show ?thesis using k same by (intro exI [of _ k]) (simp add: gen)
      qed
      ultimately show ?thesis by blast
    qed
  qed
qed

lemma inv_start_call:
  assumes "cache_inv m c" and "map_of (rc_inflight c) key = None"
  shows "cache_inv m (snd (start_call key c))" (is "cache_inv m ?c")
proof -
  note inv = cache_invD [OF assms(1)]
  have infl: "map_of (rc_inflight ?c) k = (if k = key then Some (rc_next c) else map_of (rc_inflight c) k)" for k
    by (simp add: start_call_def Let_def update_conv')
  have calls: "rc_calls ?c i = (if i = rc_next c then Some \<lparr>ft_key = key, ft_stage = Fetching, ft_call =
        \<lparr>cl_val = [], cl_err = None, cl_generation = rc_generation c key, cl_invalidated = False, cl_done = False\<rparr>\<rparr>
      else rc_calls c i)" for i by (simp add: start_call_def Let_def)
  have same: "rc_entries ?c = rc_entries c" "rc_maxEntries ?c = rc_maxEntries c" "rc_generation ?c = rc_generation c"
    "rc_next ?c = Suc (rc_next c)" by (simp_all add: start_call_def Let_def)
  have fresh: "rc_calls c i = Some f \<Longrightarrow> i \<noteq> rc_next c" for i f using inv(4) by blast
  show ?thesis
  proof (rule cache_invI)
    show "distinct (map fst (rc_entries ?c))" "length (rc_entries ?c) \<le> rc_maxEntries ?c" using inv(1,2) by (simp_all add: same)
  next
    fix k i assume "map_of (rc_inflight ?c) k = Some i"
    then show "\<exists>f. rc_calls ?c i = Some f \<and> ft_key f = k \<and> ft_stage f = Fetching
           \<and> cl_generation (ft_call f) = rc_generation ?c k"
      using inv(3) [of k i] fresh by (auto simp: infl calls same split: if_splits)
  next
    fix i f assume r: "rc_calls ?c i = Some f"
    then show "i < rc_next ?c" using inv(4) by (auto simp: calls same less_SucI split: if_splits)
    show "cl_done (ft_call f) \<Longrightarrow> ft_stage f = Ended" using r inv(5) by (auto simp: calls split: if_splits)
    assume st: "ft_stage f = Fetching" and nf: "\<not> in_flight ?c i f"
    have "rc_calls c i = Some f" using r nf by (auto simp: calls in_flight_def infl split: if_splits)
    moreover have "\<not> in_flight c i f" using nf assms(2) by (auto simp: in_flight_def infl split: if_splits)
    ultimately show "cl_invalidated (ft_call f)
       \<and> (\<exists>k. 1 \<le> k \<and> k \<le> m \<and> rc_generation ?c (ft_key f) = cl_generation (ft_call f) + of_nat k)"
      unfolding same using inv(6,7) st by blast
  qed
qed

lemma get_or_join_cases:
  "snd (get_or_join now key c) = c \<or> map_of (rc_inflight c) key = None \<and> get_or_join now key c = start_call key c"
  by (auto simp: get_or_join_def Let_def split: option.splits)

lemma inv_get_or_join: "cache_inv m c \<Longrightarrow> cache_inv m (snd (get_or_join now key c))"
  using get_or_join_cases [of now key c] inv_start_call by metis

text \<open>What a finished fetch changes.\<close>

lemma runFetch_fields:
  assumes "rc_calls c i = Some f"
  shows "rc_calls (runFetch i res now items c) =
      (rc_calls c)(i \<mapsto> f\<lparr>ft_stage := Closing, ft_call := with_result res (ft_call f)\<rparr>)"
    "rc_inflight (runFetch i res now items c) =
      (if in_flight c i f then AList.delete (ft_key f) (rc_inflight c) else rc_inflight c)"
    "rc_generation (runFetch i res now items c) = rc_generation c" "rc_next (runFetch i res now items c) = rc_next c"
    "rc_maxEntries (runFetch i res now items c) = rc_maxEntries c"
  using assms by (auto simp: runFetch_def finish_inflight_def set_call_def in_flight_def Let_def)

definition stored_entries :: "fetcher \<Rightarrow> fetch_result \<Rightarrow> int \<Rightarrow> ReadCache \<Rightarrow> (string \<times> cacheEntry) list" where
  "stored_entries f res now c = AList.update (ft_key f) \<lparr>ce_data = cl_val (with_result res (ft_call f)), ce_storedAt = now\<rparr>
     (rc_entries c)"

lemma runFetch_entries:
  assumes "rc_calls c i = Some f"
  shows "rc_entries (runFetch i res now items c) = rc_entries c
 \<or> cl_err (with_result res (ft_call f)) = None \<and> rc_generation c (ft_key f) = cl_generation (with_result res (ft_call f))
   \<and> rc_entries (runFetch i res now items c) = rc_entries (evictLocked items (c\<lparr>rc_entries := stored_entries f res now c\<rparr>))"
  using assms by (auto simp: runFetch_def finish_inflight_def set_call_def stored_entries_def evictLocked_def Let_def)

lemma with_result_fields [simp]:
  "cl_generation (with_result res cl) = cl_generation cl" "cl_invalidated (with_result res cl) = cl_invalidated cl"
  "cl_done (with_result res cl) = cl_done cl"
  by (simp_all add: with_result_def split: fetch_result.splits)

lemma inv_runFetch:
  assumes "cache_inv m c" and f: "rc_calls c i = Some f" "ft_stage f = Fetching"
    and items: "mset items = mset (stored_entries f res now c)"
  shows "cache_inv m (runFetch i res now items c)" (is "cache_inv m ?c")
proof -
  note inv = cache_invD [OF assms(1)]
  note fields = runFetch_fields [OF f(1), of res now items]
  have infl: "map_of (rc_inflight ?c) k = (if in_flight c i f \<and> k = ft_key f then None else map_of (rc_inflight c) k)" for k
    by (simp add: fields delete_conv')
  let ?c1 = "c\<lparr>rc_entries := stored_entries f res now c\<rparr>"
  have d: "distinct (map fst (rc_entries ?c1))"
    using distinct_update [OF inv(1)] by (simp add: stored_entries_def)
  have "distinct (map fst (rc_entries ?c)) \<and> length (rc_entries ?c) \<le> rc_maxEntries ?c"
    using runFetch_entries [OF f(1), of res now items]
  proof (elim disjE conjE)
    assume e: "rc_entries ?c = rc_entries (evictLocked items ?c1)"
    obtain P where "rc_entries (evictLocked items ?c1) = filter P (rc_entries ?c1)" using evictLocked_entries by blast
    then have "distinct (map fst (rc_entries (evictLocked items ?c1)))" using distinct_map_filter [OF d] by metis
    moreover have "length (rc_entries (evictLocked items ?c1)) \<le> rc_maxEntries ?c1"
      by (rule evictLocked_bound [OF d]) (simp add: items)
    ultimately show ?thesis by (simp add: e fields)
  qed (use inv(1,2) in \<open>simp add: fields\<close>)
  then show ?thesis
  proof (intro cache_invI)
    fix k j assume "map_of (rc_inflight ?c) k = Some j"
    then have k: "map_of (rc_inflight c) k = Some j" "\<not> (in_flight c i f \<and> k = ft_key f)" by (auto simp: infl split: if_splits)
    obtain g where g: "rc_calls c j = Some g" "ft_key g = k" "ft_stage g = Fetching" "cl_generation (ft_call g) = rc_generation c k"
      using inv(3) [OF k(1)] by blast
    have "j \<noteq> i" using g(1,2) k f(1) by (auto simp: in_flight_def)
    then show "\<exists>f. rc_calls ?c j = Some f \<and> ft_key f = k \<and> ft_stage f = Fetching
           \<and> cl_generation (ft_call f) = rc_generation ?c k" using g by (simp add: fields)
  next
    fix j g assume r: "rc_calls ?c j = Some g"
    then show "j < rc_next ?c" using inv(4) f by (auto simp: fields split: if_splits)
    show "cl_done (ft_call g) \<Longrightarrow> ft_stage g = Ended" using r inv(5) f by (fastforce simp: fields split: if_splits)
    assume st: "ft_stage g = Fetching" and nf: "\<not> in_flight ?c j g"
    have ne: "j \<noteq> i" and g: "rc_calls c j = Some g" using r st by (auto simp: fields split: if_splits)
    have "\<not> in_flight c j g" using nf ne by (auto simp: in_flight_def infl split: if_splits)
    then show "cl_invalidated (ft_call g)
       \<and> (\<exists>k. 1 \<le> k \<and> k \<le> m \<and> rc_generation ?c (ft_key g) = cl_generation (ft_call g) + of_nat k)"
      unfolding fields using inv(6,7) [OF g st] by blast
  qed simp_all
qed

lemma inv_close_done:
  assumes "cache_inv m c" and f: "rc_calls c i = Some f" "ft_stage f = Closing"
  shows "cache_inv m (close_done i c)" (is "cache_inv m ?c")
proof -
  note inv = cache_invD [OF assms(1)]
  have calls: "rc_calls ?c j = (if j = i then Some (f\<lparr>ft_stage := Ended, ft_call := (ft_call f)\<lparr>cl_done := True\<rparr>\<rparr>) else rc_calls c j)" for j
    using f by (simp add: close_done_def set_call_def)
  have same: "rc_entries ?c = rc_entries c" "rc_maxEntries ?c = rc_maxEntries c" "rc_generation ?c = rc_generation c"
    "rc_next ?c = rc_next c" "rc_inflight ?c = rc_inflight c" using f by (simp_all add: close_done_def set_call_def)
  show ?thesis
  proof (rule cache_invI)
    fix k j assume "map_of (rc_inflight ?c) k = Some j"
    then obtain g where "rc_calls c j = Some g" "ft_key g = k" "ft_stage g = Fetching" "cl_generation (ft_call g) = rc_generation c k"
      using inv(3) unfolding same by blast
    then show "\<exists>f. rc_calls ?c j = Some f \<and> ft_key f = k \<and> ft_stage f = Fetching
           \<and> cl_generation (ft_call f) = rc_generation ?c k" using f by (auto simp: calls same)
  next
    fix j g assume r: "rc_calls ?c j = Some g"
    then show "j < rc_next ?c" using inv(4) f by (auto simp: calls same split: if_splits)
    show "cl_done (ft_call g) \<Longrightarrow> ft_stage g = Ended" using r inv(5) by (auto simp: calls split: if_splits)
    assume st: "ft_stage g = Fetching" and nf: "\<not> in_flight ?c j g"
    have g: "rc_calls c j = Some g" using r st by (auto simp: calls split: if_splits)
    show "cl_invalidated (ft_call g)
       \<and> (\<exists>k. 1 \<le> k \<and> k \<le> m \<and> rc_generation ?c (ft_key g) = cl_generation (ft_call g) + of_nat k)"
      using inv(6,7) [OF g st] nf unfolding same in_flight_def by blast
  qed (use inv(1,2) same in simp_all)
qed

end
