(* ===== verification/CacheFresh.thy ===== *)
theory CacheFresh
  imports CacheProps
begin

text \<open>
  After a key of the read cache is invalidated, its callers are served what was fetched since.
\<close>

section \<open>Calls only move on\<close>

definition later :: "ReadCache \<Rightarrow> ReadCache \<Rightarrow> bool" where
  "later c c' \<longleftrightarrow> rc_next c \<le> rc_next c' \<and> rc_maxEntries c' = rc_maxEntries c \<and>
     (\<forall>i f. rc_calls c i = Some f \<longrightarrow>
        (\<exists>f'. rc_calls c' i = Some f' \<and> ft_key f' = ft_key f
            \<and> (cl_invalidated (ft_call f) \<longrightarrow> cl_invalidated (ft_call f'))
            \<and> (ft_stage f \<noteq> Fetching \<longrightarrow> ft_stage f' \<noteq> Fetching
                 \<and> cl_val (ft_call f') = cl_val (ft_call f) \<and> cl_err (ft_call f') = cl_err (ft_call f))))"

lemma later_refl [simp]: "later c c"
  by (auto simp: later_def)

lemma later_trans:
  assumes "later a b" and "later b c"
  shows "later a c"
  unfolding later_def
proof (intro conjI allI impI)
  show "rc_next a \<le> rc_next c" "rc_maxEntries c = rc_maxEntries a" using assms by (auto simp: later_def)
  fix i f assume "rc_calls a i = Some f"
  then obtain g where g: "rc_calls b i = Some g" "ft_key g = ft_key f"
    "cl_invalidated (ft_call f) \<longrightarrow> cl_invalidated (ft_call g)"
    "ft_stage f \<noteq> Fetching \<longrightarrow> ft_stage g \<noteq> Fetching
       \<and> cl_val (ft_call g) = cl_val (ft_call f) \<and> cl_err (ft_call g) = cl_err (ft_call f)"
    using assms(1) unfolding later_def by blast
  obtain h where h: "rc_calls c i = Some h" "ft_key h = ft_key g"
    "cl_invalidated (ft_call g) \<longrightarrow> cl_invalidated (ft_call h)"
    "ft_stage g \<noteq> Fetching \<longrightarrow> ft_stage h \<noteq> Fetching
       \<and> cl_val (ft_call h) = cl_val (ft_call g) \<and> cl_err (ft_call h) = cl_err (ft_call g)"
    using assms(2) g(1) unfolding later_def by blast
  show "\<exists>f'. rc_calls c i = Some f' \<and> ft_key f' = ft_key f \<and> (cl_invalidated (ft_call f) \<longrightarrow> cl_invalidated (ft_call f'))
      \<and> (ft_stage f \<noteq> Fetching \<longrightarrow> ft_stage f' \<noteq> Fetching
           \<and> cl_val (ft_call f') = cl_val (ft_call f) \<and> cl_err (ft_call f') = cl_err (ft_call f))"
    using g h by (intro exI [of _ h]) auto
qed

lemma later_start_call: "cache_inv m c \<Longrightarrow> later c (snd (start_call key c))"
  using cache_invD(4) by (fastforce simp: later_def start_call_def Let_def)

lemma later_get_or_join: "cache_inv m c \<Longrightarrow> later c (snd (get_or_join now key c))"
  using get_or_join_cases [of now key c] later_start_call by (metis later_refl)

lemma later_runFetch:
  "rc_calls c i = Some f \<Longrightarrow> ft_stage f = Fetching \<Longrightarrow> later c (runFetch i res now items c)"
  by (auto simp: later_def runFetch_fields)

lemma later_close_done: "rc_calls c i = Some f \<Longrightarrow> ft_stage f = Closing \<Longrightarrow> later c (close_done i c)"
  by (auto simp: later_def close_done_def set_call_def)

lemma later_invalidate: "distinct ks \<Longrightarrow> later c (fold invalidateKeyLocked ks c)"
  using fold_invalidate [of ks c] by (simp add: later_def)

section \<open>Freshness\<close>

text \<open>The data of a fetch that began as the \<open>n\<close>th call or after, and ended without an error.\<close>

definition fetched_since :: "nat \<Rightarrow> string \<Rightarrow> ReadCache \<Rightarrow> string \<Rightarrow> bool" where
  "fetched_since n key c data \<longleftrightarrow>
     (\<exists>i f. n \<le> i \<and> rc_calls c i = Some f \<and> ft_key f = key \<and> ft_stage f \<noteq> Fetching
        \<and> cl_err (ft_call f) = None \<and> cl_val (ft_call f) = data)"

definition fresh :: "nat \<Rightarrow> string \<Rightarrow> ReadCache \<Rightarrow> bool" where
  "fresh n key c \<longleftrightarrow> n \<le> rc_next c
   \<and> (\<forall>e. map_of (rc_entries c) key = Some e \<longrightarrow> fetched_since n key c (ce_data e))
   \<and> (\<forall>i. map_of (rc_inflight c) key = Some i \<longrightarrow> n \<le> i)"

definition fresh_pc :: "nat \<Rightarrow> string \<Rightarrow> ReadCache \<Rightarrow> pc \<Rightarrow> bool" where
  "fresh_pc n key c q \<longleftrightarrow>
     (case q of
        AtLoop \<Rightarrow> True
      | AtLock \<Rightarrow> True
      | Waiting i \<Rightarrow> \<exists>f. rc_calls c i = Some f \<and> ft_key f = key \<and> (n \<le> i \<or> cl_invalidated (ft_call f))
      | Returned data err \<Rightarrow> err = None \<longrightarrow> fetched_since n key c data)"

lemma fetched_later: "fetched_since n key c data \<Longrightarrow> later c c' \<Longrightarrow> fetched_since n key c' data"
  unfolding fetched_since_def later_def by metis

lemma fresh_pc_later: "fresh_pc n key c q \<Longrightarrow> later c c' \<Longrightarrow> fresh_pc n key c' q"
  unfolding fresh_pc_def using fetched_later by (fastforce simp: later_def split: pc.splits)

lemma freshI:
  assumes "fresh n key c" and "later c c'"
    and "\<And>e. map_of (rc_entries c') key = Some e \<Longrightarrow>
           map_of (rc_entries c) key = Some e \<or> fetched_since n key c' (ce_data e)"
    and "\<And>i. map_of (rc_inflight c') key = Some i \<Longrightarrow> map_of (rc_inflight c) key = Some i \<or> n \<le> i"
  shows "fresh n key c'"
proof -
  have "n \<le> rc_next c'" using assms(1,2) by (auto simp: fresh_def later_def)
  then show ?thesis using assms fetched_later unfolding fresh_def by blast
qed

lemma fresh_invalidate: "fresh n key c \<Longrightarrow> distinct ks \<Longrightarrow> fresh n key (fold invalidateKeyLocked ks c)"
  using fold_invalidate [of ks c]
  by (intro freshI [OF _ later_invalidate]) (auto simp: map_of_filter_keys split: if_splits)

lemma fresh_start_call:
  assumes "fresh n key c" and "cache_inv m c"
  shows "fresh n key (snd (start_call k c))"
  using assms(1) later_start_call [OF assms(2)]
proof (rule freshI)
  have "n \<le> rc_next c" using assms(1) by (simp add: fresh_def)
  then show "map_of (rc_inflight (snd (start_call k c))) key = Some i \<Longrightarrow> map_of (rc_inflight c) key = Some i \<or> n \<le> i" for i
    by (auto simp: start_call_def Let_def update_conv' split: if_splits)
qed (simp add: start_call_def Let_def)

lemma fresh_get_or_join: "fresh n key c \<Longrightarrow> cache_inv m c \<Longrightarrow> fresh n key (snd (get_or_join now k c))"
  using get_or_join_cases [of now k c] fresh_start_call by metis

lemma fresh_close_done:
  "fresh n key c \<Longrightarrow> rc_calls c i = Some f \<Longrightarrow> ft_stage f = Closing \<Longrightarrow> fresh n key (close_done i c)"
  by (rule freshI [OF _ later_close_done]) (auto simp: close_done_def set_call_def)

text \<open>
  A fetch that is not in flight any more does not store: its generation is behind, by less than the
  counter wraps.
\<close>

lemma stale_fetch_stores_nothing:
  assumes "cache_inv m c" and "m < 2 ^ 64" and "rc_calls c i = Some f" and "ft_stage f = Fetching" and "\<not> in_flight c i f"
  shows "rc_generation c (ft_key f) \<noteq> cl_generation (ft_call f)"
proof -
  obtain k where k: "1 \<le> k" "k \<le> m" "rc_generation c (ft_key f) = cl_generation (ft_call f) + of_nat k"
    using cache_invD(7) [OF assms(1,3,4,5)] by blast
  have "unat (of_nat k :: 64 word) = k" using k(2) assms(2) by (simp add: unat_of_nat)
  then have "(of_nat k :: 64 word) \<noteq> 0" using k(1) by (metis not_one_le_zero unat_0)
  then show ?thesis using k(3) by simp
qed

lemma fresh_runFetch:
  assumes "fresh n key c" and inv: "cache_inv m c" "m < 2 ^ 64" and f: "rc_calls c i = Some f" "ft_stage f = Fetching"
  shows "fresh n key (runFetch i res now items c)" (is "fresh n key ?c")
  using assms(1) later_runFetch [OF f]
proof (rule freshI)
  fix j assume "map_of (rc_inflight ?c) key = Some j"
  then show "map_of (rc_inflight c) key = Some j \<or> n \<le> j"
    using f by (auto simp: runFetch_fields delete_conv' split: if_splits)
next
  fix e assume e: "map_of (rc_entries ?c) key = Some e"
  show "map_of (rc_entries c) key = Some e \<or> fetched_since n key ?c (ce_data e)"
    using runFetch_entries [OF f(1), of res now items]
  proof (elim disjE conjE)
    assume err: "cl_err (with_result res (ft_call f)) = None"
      and gen: "rc_generation c (ft_key f) = cl_generation (with_result res (ft_call f))"
      and es: "rc_entries ?c = rc_entries (evictLocked items (c\<lparr>rc_entries := stored_entries f res now c\<rparr>))"
    obtain P where "rc_entries ?c = filter P (stored_entries f res now c)"
      using evictLocked_entries [of items "c\<lparr>rc_entries := stored_entries f res now c\<rparr>"] es by auto
    then have "(key, e) \<in> set (stored_entries f res now c)" using e by (auto dest: map_of_SomeD)
    moreover have "distinct (map fst (stored_entries f res now c))"
      using distinct_update [OF cache_invD(1) [OF inv(1)]] by (simp add: stored_entries_def)
    ultimately have "map_of (stored_entries f res now c) key = Some e" by simp
    then have "key \<noteq> ft_key f \<and> map_of (rc_entries c) key = Some e
        \<or> key = ft_key f \<and> ce_data e = cl_val (with_result res (ft_call f))"
      by (auto simp: stored_entries_def update_conv' split: if_splits)
    moreover have "in_flight c i f" using stale_fetch_stores_nothing [OF inv f] gen by auto
    ultimately show ?thesis
      using assms(1) f err by (auto simp: fresh_def in_flight_def fetched_since_def runFetch_fields)
  qed (use e in simp)
qed

section \<open>The whole system\<close>

definition new_sys :: "int \<Rightarrow> nat \<Rightarrow> cache_sys" where
  "new_sys maxAge maxEntries = \<lparr>sy_cache = NewReadCache maxAge maxEntries, sy_callers = (\<lambda>_. None)\<rparr>"

text \<open>A waiting caller waits for a call of its key.\<close>

definition waits_ok :: "ReadCache \<Rightarrow> caller \<Rightarrow> bool" where
  "waits_ok c r \<longleftrightarrow>
     (\<forall>i. cr_pc r = Waiting i \<longrightarrow> (\<exists>f. rc_calls c i = Some f \<and> ft_key f = cr_key r))"

definition sys_inv :: "nat \<Rightarrow> cache_sys \<Rightarrow> bool" where
  "sys_inv m s \<longleftrightarrow> cache_inv m (sy_cache s) \<and> (\<forall>j r. sy_callers s j = Some r \<longrightarrow> waits_ok (sy_cache s) r)"

lemma set_pc_fields [simp]:
  "sy_cache (set_pc j q s) = sy_cache s"
  "sy_callers (set_pc j q s) j' = (if j' = j then map_option (\<lambda>r. r\<lparr>cr_pc := q\<rparr>) (sy_callers s j) else sy_callers s j')"
  by (simp_all add: set_pc_def)

lemma waits_ok_later: "waits_ok c r \<Longrightarrow> later c c' \<Longrightarrow> waits_ok c' r"
  unfolding waits_ok_def later_def by metis

text \<open>What a step does to the cache.\<close>

lemma invalidations_later:
  "later c (Invalidate c)" "later c (InvalidateKey key c)" "later c (InvalidateMatching match c)"
  unfolding invalidations by (rule later_invalidate; simp)+

lemma invalidations_inv:
  "cache_inv m c \<Longrightarrow> cache_inv (Suc m) (Invalidate c)" "cache_inv m c \<Longrightarrow> cache_inv (Suc m) (InvalidateKey key c)"
  "cache_inv m c \<Longrightarrow> cache_inv (Suc m) (InvalidateMatching match c)"
  unfolding invalidations by (rule inv_invalidate; simp)+

lemma invalidations_fresh:
  "fresh n key c \<Longrightarrow> fresh n key (Invalidate c)" "fresh n key c \<Longrightarrow> fresh n key (InvalidateKey k c)"
  "fresh n key c \<Longrightarrow> fresh n key (InvalidateMatching match c)"
  unfolding invalidations by (rule fresh_invalidate; simp)+

lemma step_cache:
  assumes "cache_step s t" and "cache_inv m (sy_cache s)"
  shows "cache_inv (Suc m) (sy_cache t) \<and> later (sy_cache s) (sy_cache t)
     \<and> (m < 2 ^ 64 \<longrightarrow> fresh n key (sy_cache s) \<longrightarrow> fresh n key (sy_cache t))"
  using assms(1)
proof cases
  case (locked j r now tn c)
  then have "c = snd (get_or_join now (cr_key r) (sy_cache s))" by simp
  then show ?thesis using locked(1) assms(2) inv_mono [OF inv_get_or_join] later_get_or_join fresh_get_or_join by simp
next
  case (fetched i f items res now)
  then have c: "sy_cache t = runFetch i res now items (sy_cache s)" by simp
  have "mset items = mset (stored_entries f res now (sy_cache s))" using fetched(4) by (simp add: stored_entries_def)
  then have "cache_inv (Suc m) (sy_cache t)"
    unfolding c using inv_mono [OF inv_runFetch [OF assms(2) fetched(2,3)]] by simp
  moreover have "later (sy_cache s) (sy_cache t)" unfolding c by (rule later_runFetch [OF fetched(2,3)])
  moreover have "m < 2 ^ 64 \<longrightarrow> fresh n key (sy_cache s) \<longrightarrow> fresh n key (sy_cache t)"
    unfolding c using fresh_runFetch [OF _ assms(2) _ fetched(2,3)] by blast
  ultimately show ?thesis by blast
next
  case (closed i f)
  then show ?thesis using inv_mono [OF inv_close_done [OF assms(2)]] later_close_done fresh_close_done by simp
qed (use inv_mono [OF assms(2)] assms(2) invalidations_inv invalidations_later invalidations_fresh in simp_all)

definition fresh_caller :: "nat \<Rightarrow> string \<Rightarrow> nat \<Rightarrow> cache_sys \<Rightarrow> bool" where
  "fresh_caller n key j s \<longleftrightarrow>
     (\<forall>r. sy_callers s j = Some r \<longrightarrow> cr_key r = key \<longrightarrow> fresh_pc n key (sy_cache s) (cr_pc r))"

lemma cache_Get_Some: "cache_Get now key c = Some data \<Longrightarrow> \<exists>e. map_of (rc_entries c) key = Some e \<and> data = ce_data e"
  by (auto simp: cache_Get_def split: option.splits if_splits)

lemma get_or_join_source:
  assumes "cache_inv m c" and "get_or_join now key c = (t, c')"
  shows "case t of
       Hit data \<Rightarrow> \<exists>e. map_of (rc_entries c) key = Some e \<and> data = ce_data e
     | Join i \<Rightarrow> map_of (rc_inflight c) key = Some i \<and> (\<exists>f. rc_calls c' i = Some f \<and> ft_key f = key)
     | Begin i \<Rightarrow> i = rc_next c \<and> (\<exists>f. rc_calls c' i = Some f \<and> ft_key f = key)"
  using assms(2) cache_invD(3) [OF assms(1), of key]
  by (auto simp: get_or_join_def start_call_def Let_def split: option.splits if_splits)

lemma fresh_hit: "fresh n key c \<Longrightarrow> map_of (rc_entries c) key = Some e \<Longrightarrow> fetched_since n key c (ce_data e)"
  by (simp add: fresh_def)

text \<open>Where a step leaves its caller, when the cache is fresh before it.\<close>

lemma fresh_fast_path:
  "fresh n key c \<Longrightarrow> fresh_pc n key c (case cache_Get now key c of Some data \<Rightarrow> Returned data None | None \<Rightarrow> AtLock)"
  by (auto simp: fresh_pc_def dest: cache_Get_Some fresh_hit split: option.splits)

lemma fresh_locked:
  assumes "fresh n key c" and "cache_inv m c" and "get_or_join now key c = (t, c')"
  shows "fresh_pc n key c' (case t of Hit data \<Rightarrow> Returned data None | Join i \<Rightarrow> Waiting i | Begin i \<Rightarrow> Waiting i)"
proof (cases t)
  case (Hit data)
  then have "c' = c" using assms(3) by (auto simp: get_or_join_def start_call_def Let_def split: option.splits if_splits)
  then show ?thesis using get_or_join_source [OF assms(2,3)] Hit fresh_hit [OF assms(1)] by (auto simp: fresh_pc_def)
next
  case (Join i)
  then show ?thesis using get_or_join_source [OF assms(2,3)] assms(1) by (auto simp: fresh_pc_def fresh_def)
next
  case (Begin i)
  then show ?thesis using get_or_join_source [OF assms(2,3)] assms(1) by (auto simp: fresh_pc_def fresh_def)
qed

lemma fresh_woken:
  assumes "fresh_pc n key c (Waiting i)" and "cache_inv m c" and "rc_calls c i = Some f"
    and "waitForCall ctx (ft_call f) = Some answer"
  shows "fresh_pc n key c (after_wait ctx answer)"
proof (cases "cl_done (ft_call f) \<and> \<not> cl_invalidated (ft_call f)")
  case True
  then have "n \<le> i" "ft_key f = key" using assms(1,3) by (auto simp: fresh_pc_def)
  moreover have "ft_stage f = Ended" using cache_invD(5) [OF assms(2,3)] True by blast
  ultimately show ?thesis using assms(3,4) True
    by (auto simp: waitForCall_def after_wait_def fresh_pc_def fetched_since_def intro!: exI [of _ i])
next
  case False
  then show ?thesis using assms(4)
    by (auto simp: waitForCall_def after_wait_def fresh_pc_def split: if_splits option.splits)
qed

lemma step_caller:
  assumes "cache_step s t" and "cache_inv m (sy_cache s)" and "m < 2 ^ 64" and "fresh n key (sy_cache s)"
    and "fresh_caller n key j s"
  shows "fresh_caller n key j t"
proof -
  have "later (sy_cache s) (sy_cache t)" using step_cache [OF assms(1,2)] by blast
  then have kept: "fresh_caller n key j t" if "sy_callers t j = sy_callers s j"
    using assms(5) that fresh_pc_later by (auto simp: fresh_caller_def)
  show ?thesis
    using assms(1)
  proof cases
    case (new_caller j')
    then show ?thesis using kept by (cases "j' = j") (auto simp: fresh_caller_def fresh_pc_def)
  next
    case (cancel j' r)
    then show ?thesis using kept assms(5) by (cases "j' = j") (auto simp: fresh_caller_def)
  next
    case (fast_path j' r now)
    then show ?thesis using kept fresh_fast_path [OF assms(4)] by (cases "j' = j") (auto simp: fresh_caller_def)
  next
    case (locked j' r now tn c)
    then show ?thesis using kept fresh_locked [OF assms(4,2)] by (cases "j' = j") (auto simp: fresh_caller_def)
  next
    case (woken j' r i f answer)
    then show ?thesis using kept assms(5) fresh_woken [OF _ assms(2)] by (cases "j' = j") (auto simp: fresh_caller_def)
  qed (rule kept; simp)+
qed

section \<open>Runs\<close>

lemma step_sys_inv:
  assumes "cache_step s t" and "sys_inv m s"
  shows "sys_inv (Suc m) t"
proof -
  have inv: "cache_inv m (sy_cache s)" using assms(2) by (simp add: sys_inv_def)
  have step: "cache_inv (Suc m) (sy_cache t)" "later (sy_cache s) (sy_cache t)" using step_cache [OF assms(1) inv] by blast+
  have kept: "waits_ok (sy_cache t) r" if "sy_callers s j = Some r" for j r
  proof -
    have "waits_ok (sy_cache s) r" using that assms(2) by (simp add: sys_inv_def)
    then show ?thesis using step(2) by (rule waits_ok_later)
  qed
  have "waits_ok (sy_cache t) r" if r: "sy_callers t j = Some r" for j r
    using assms(1)
  proof cases
    case (locked j' q now tn c)
    have "case tn of Hit d \<Rightarrow> True | Join i \<Rightarrow> \<exists>f. rc_calls c i = Some f \<and> ft_key f = cr_key q
        | Begin i \<Rightarrow> \<exists>f. rc_calls c i = Some f \<and> ft_key f = cr_key q"
      using get_or_join_source [OF inv locked(4)] by (auto split: turn.splits)
    then show ?thesis using kept r locked by (auto simp: waits_ok_def split: if_splits turn.splits)
  qed (use kept r in \<open>auto simp: waits_ok_def after_wait_def split: if_splits option.splits sum.splits\<close>)
  then show ?thesis using step(1) by (simp add: sys_inv_def)
qed

lemma run_sys_inv: "cache_run n s t \<Longrightarrow> sys_inv m s \<Longrightarrow> sys_inv (m + n) t \<and> later (sy_cache s) (sy_cache t)"
proof (induction rule: cache_run.induct)
  case (more n s t u)
  then have inv: "sys_inv (m + n) t" "later (sy_cache s) (sy_cache t)" by blast+
  have "later (sy_cache t) (sy_cache u)"
    using step_cache [OF more.hyps(2)] inv(1) by (auto simp: sys_inv_def)
  then show ?case using step_sys_inv [OF more.hyps(2) inv(1)] later_trans [OF inv(2)] by simp
qed simp

lemma new_sys_inv: "sys_inv 0 (new_sys maxAge maxEntries)"
  by (simp add: sys_inv_def cache_inv_def new_sys_def NewReadCache_def)

lemma run_fresh:
  assumes "cache_run n s t" and "sys_inv m s" and "m + n < 2 ^ 64" and "fresh k key (sy_cache s)" and "fresh_caller k key j s"
  shows "fresh k key (sy_cache t) \<and> fresh_caller k key j t"
  using assms
proof (induction rule: cache_run.induct)
  case (more n s t u)
  then have t: "fresh k key (sy_cache t)" "fresh_caller k key j t" by auto
  have inv: "cache_inv (m + n) (sy_cache t)" using run_sys_inv more.hyps(1) more.prems(1) by (auto simp: sys_inv_def)
  have "m + n < 2 ^ 64" using more.prems(2) by simp
  then show ?case
    using step_cache [OF more.hyps(2) inv] step_caller [OF more.hyps(2) inv _ t] t(1) by blast
qed simp

text \<open>An invalidation of the key, by any of the three operations.\<close>

definition invalidated_to :: "string \<Rightarrow> cache_sys \<Rightarrow> cache_sys \<Rightarrow> bool" where
  "invalidated_to key s t \<longleftrightarrow>
     t = s\<lparr>sy_cache := Invalidate (sy_cache s)\<rparr> \<or> t = s\<lparr>sy_cache := InvalidateKey key (sy_cache s)\<rparr>
   \<or> (\<exists>match. match key \<and> t = s\<lparr>sy_cache := InvalidateMatching match (sy_cache s)\<rparr>)"

text \<open>The caller has not been answered yet, nor waits for a fetch that has ended.\<close>

definition undecided :: "cache_sys \<Rightarrow> nat \<Rightarrow> bool" where
  "undecided s j \<longleftrightarrow>
     (case sy_callers s j of
        None \<Rightarrow> True
      | Some r \<Rightarrow>
          (case cr_pc r of
             AtLoop \<Rightarrow> True
           | AtLock \<Rightarrow> True
           | Waiting i \<Rightarrow> (case rc_calls (sy_cache s) i of Some f \<Rightarrow> ft_stage f = Fetching | None \<Rightarrow> False)
           | Returned _ _ \<Rightarrow> False))"

lemma fold_invalidate_fresh:
  assumes "cache_inv m c" and "distinct ks"
    and seen: "key \<in> set ks \<or> map_of (rc_entries c) key = None \<and> map_of (rc_inflight c) key = None"
  shows "fresh (rc_next c) key (fold invalidateKeyLocked ks c)"
    and "rc_calls (fold invalidateKeyLocked ks c) i = Some f \<Longrightarrow> ft_key f = key \<Longrightarrow> ft_stage f = Fetching \<Longrightarrow>
           cl_invalidated (ft_call f)"
proof -
  note fi = fold_invalidate [OF assms(2), of c]
  show "fresh (rc_next c) key (fold invalidateKeyLocked ks c)"
    using fi seen by (auto simp: fresh_def map_of_filter_keys)
  assume f: "rc_calls (fold invalidateKeyLocked ks c) i = Some f" "ft_key f = key" "ft_stage f = Fetching"
  show "cl_invalidated (ft_call f)"
  proof (cases "\<exists>k \<in> set ks. map_of (rc_inflight c) k = Some i")
    case True
    then show ?thesis using f(1) fi by auto
  next
    case False
    then have "rc_calls c i = Some f" "\<not> in_flight c i f" using f fi seen by (auto simp: in_flight_def)
    then show ?thesis using cache_invD(6) [OF assms(1)] f(3) by blast
  qed
qed

lemma invalidated_to_fold:
  assumes "invalidated_to key s t"
  obtains ks where "distinct ks" and "t = s\<lparr>sy_cache := fold invalidateKeyLocked ks (sy_cache s)\<rparr>"
    and "key \<in> set ks \<or> map_of (rc_entries (sy_cache s)) key = None \<and> map_of (rc_inflight (sy_cache s)) key = None"
  using assms unfolding invalidated_to_def
proof (elim disjE exE conjE)
  let ?c = "sy_cache s"
  assume t: "t = s\<lparr>sy_cache := Invalidate ?c\<rparr>"
  show thesis by (rule that [OF _ t [unfolded Invalidate_fold]]) (auto simp: map_of_eq_None_iff)
next
  assume t: "t = s\<lparr>sy_cache := InvalidateKey key (sy_cache s)\<rparr>"
  show thesis by (rule that [OF _ t [unfolded InvalidateKey_fold]]) auto
next
  fix match assume m: "match key" and t: "t = s\<lparr>sy_cache := InvalidateMatching match (sy_cache s)\<rparr>"
  show thesis by (rule that [OF _ t [unfolded InvalidateMatching_def]]) (use m in \<open>auto simp: map_of_eq_None_iff\<close>)
qed

lemma sys_inv_mark:
  assumes "sys_inv m s" and "invalidated_to key s t"
  shows "fresh (rc_next (sy_cache s)) key (sy_cache t)"
    and "undecided s j \<Longrightarrow> fresh_caller (rc_next (sy_cache s)) key j t"
proof -
  have inv: "cache_inv m (sy_cache s)" using assms(1) by (simp add: sys_inv_def)
  obtain ks where ks: "distinct ks" and t: "t = s\<lparr>sy_cache := fold invalidateKeyLocked ks (sy_cache s)\<rparr>"
    and seen: "key \<in> set ks \<or> map_of (rc_entries (sy_cache s)) key = None \<and> map_of (rc_inflight (sy_cache s)) key = None"
    using assms(2) by (rule invalidated_to_fold)
  show "fresh (rc_next (sy_cache s)) key (sy_cache t)" using fold_invalidate_fresh(1) [OF inv ks seen] t by simp
  assume u: "undecided s j"
  show "fresh_caller (rc_next (sy_cache s)) key j t"
    unfolding fresh_caller_def
  proof (intro allI impI)
    fix r assume r: "sy_callers t j = Some r" "cr_key r = key"
    show "fresh_pc (rc_next (sy_cache s)) key (sy_cache t) (cr_pc r)"
    proof (cases "cr_pc r")
      case (Waiting i)
      obtain f where f: "rc_calls (sy_cache s) i = Some f" "ft_stage f = Fetching" "ft_key f = key"
        using u r Waiting assms(1) t by (fastforce simp: undecided_def sys_inv_def waits_ok_def split: option.splits)
      have "rc_calls (sy_cache t) i = Some f \<or> rc_calls (sy_cache t) i = Some (mark f)"
        using fold_invalidate [OF ks, of "sy_cache s"] t f(1) by simp
      then obtain g where g: "rc_calls (sy_cache t) i = Some g" "ft_key g = key" "ft_stage g = Fetching"
        using f(2,3) by auto
      then have "cl_invalidated (ft_call g)" using fold_invalidate_fresh(2) [OF inv ks seen] t by simp
      then show ?thesis using g Waiting by (simp add: fresh_pc_def)
    qed (use u r t in \<open>simp_all add: fresh_pc_def undecided_def\<close>)
  qed
qed

text \<open>
  Whatever callers, fetches and invalidations interleave, the cache never exceeds its size, holds
  a key once, and has at most one running fetch of a key that no invalidation has overtaken.
\<close>

theorem cache_stays_bounded:
  assumes "cache_run n (new_sys maxAge maxEntries) s"
  shows "length (rc_entries (sy_cache s)) \<le> maxEntries \<and> distinct (map fst (rc_entries (sy_cache s)))
     \<and> (\<forall>i j f g. rc_calls (sy_cache s) i = Some f \<longrightarrow> rc_calls (sy_cache s) j = Some g \<longrightarrow> ft_key f = ft_key g \<longrightarrow>
          ft_stage f = Fetching \<longrightarrow> ft_stage g = Fetching \<longrightarrow>
          \<not> cl_invalidated (ft_call f) \<longrightarrow> \<not> cl_invalidated (ft_call g) \<longrightarrow> i = j)"
proof -
  have "sys_inv n s" "rc_maxEntries (sy_cache s) = maxEntries"
    using run_sys_inv [OF assms new_sys_inv] by (simp_all add: later_def new_sys_def NewReadCache_def)
  then have inv: "cache_inv n (sy_cache s)" by (simp add: sys_inv_def)
  have "i = j" if "rc_calls (sy_cache s) i = Some f" "rc_calls (sy_cache s) j = Some g" "ft_key f = ft_key g"
      "ft_stage f = Fetching" "ft_stage g = Fetching" "\<not> cl_invalidated (ft_call f)" "\<not> cl_invalidated (ft_call g)" for i j f g
  proof -
    have "in_flight (sy_cache s) i f" using cache_invD(6) [OF inv that(1,4)] that(6) by blast
    moreover have "in_flight (sy_cache s) j g" using cache_invD(6) [OF inv that(2,5)] that(7) by blast
    ultimately show ?thesis using that(3) by (simp add: in_flight_def)
  qed
  then show ?thesis using cache_invD(1,2) [OF inv] \<open>rc_maxEntries (sy_cache s) = maxEntries\<close> by blast
qed

text \<open>
  C21: After a key is invalidated no caller is answered with data fetched before: whoever had not been
  answered, and did not wait for a fetch that had ended, gets without an error only data of a fetch of
  the key that began after the invalidation, and so does every later read, up to the wrap-around of
  the generation counter.
\<close>

theorem reads_after_invalidation_fresh:
  assumes "cache_run m (new_sys maxAge maxEntries) s" and "invalidated_to key s t" and "cache_run n t u"
    and "Suc m + n < 2 ^ 64" and "undecided s j"
    and "sy_callers u j = Some \<lparr>cr_key = key, cr_ctx = ctx, cr_pc = Returned data None\<rparr>"
  shows "fetched_since (rc_next (sy_cache s)) key (sy_cache u) data
     \<and> (\<forall>old. GetStale key (sy_cache u) = Some old \<longrightarrow> fetched_since (rc_next (sy_cache s)) key (sy_cache u) old)"
proof -
  have s: "sys_inv m s" using run_sys_inv [OF assms(1) new_sys_inv] by simp
  have "cache_step s t" using assms(2) unfolding invalidated_to_def by (auto intro: cache_step.intros)
  then have t: "sys_inv (Suc m) t" using s by (rule step_sys_inv)
  have "fresh (rc_next (sy_cache s)) key (sy_cache u) \<and> fresh_caller (rc_next (sy_cache s)) key j u"
    by (rule run_fresh [OF assms(3) t assms(4)]) (use sys_inv_mark [OF s assms(2)] assms(5) in blast)+
  then show ?thesis using assms(6)
    by (auto simp: fresh_def fresh_caller_def fresh_pc_def GetStale_def)
qed

section \<open>A run\<close>

text \<open>A key is invalidated, and a caller that comes after fetches it.\<close>

definition demo_0 :: cache_sys where "demo_0 = new_sys 10 2"

definition demo_1 :: cache_sys where "demo_1 = demo_0\<lparr>sy_cache := InvalidateKey ''k'' (sy_cache demo_0)\<rparr>"

definition demo_2 :: cache_sys where
  "demo_2 = demo_1\<lparr>sy_callers := (sy_callers demo_1)(0 \<mapsto> \<lparr>cr_key = ''k'', cr_ctx = None, cr_pc = AtLoop\<rparr>)\<rparr>"

definition demo_3 :: cache_sys where "demo_3 = set_pc 0 AtLock demo_2"

definition demo_4 :: cache_sys where
  "demo_4 = set_pc 0 (Waiting 0) (demo_3\<lparr>sy_cache := snd (get_or_join 0 ''k'' (sy_cache demo_3))\<rparr>)"

definition demo_items :: "(string \<times> cacheEntry) list" where
  "demo_items = [(''k'', \<lparr>ce_data = ''d'', ce_storedAt = 1\<rparr>)]"

definition demo_5 :: cache_sys where
  "demo_5 = demo_4\<lparr>sy_cache := runFetch 0 (FReturn ''d'' None) 1 demo_items (sy_cache demo_4)\<rparr>"

definition demo_6 :: cache_sys where "demo_6 = demo_5\<lparr>sy_cache := close_done 0 (sy_cache demo_5)\<rparr>"

definition demo_7 :: cache_sys where "demo_7 = set_pc 0 (Returned ''d'' None) demo_6"

definition demo_fetcher :: "stage \<Rightarrow> bool \<Rightarrow> string \<Rightarrow> fetcher" where
  "demo_fetcher st done data = \<lparr>ft_key = ''k'', ft_stage = st, ft_call =
     \<lparr>cl_val = data, cl_err = None, cl_generation = 1, cl_invalidated = False, cl_done = done\<rparr>\<rparr>"

lemma demo_facts:
  "sy_callers demo_1 0 = None"
  "sy_callers demo_2 0 = Some \<lparr>cr_key = ''k'', cr_ctx = None, cr_pc = AtLoop\<rparr>"
  "cache_Get 0 ''k'' (sy_cache demo_2) = None"
  "sy_callers demo_3 0 = Some \<lparr>cr_key = ''k'', cr_ctx = None, cr_pc = AtLock\<rparr>"
  "fst (get_or_join 0 ''k'' (sy_cache demo_3)) = Begin 0"
  "rc_calls (sy_cache demo_4) 0 = Some (demo_fetcher Fetching False [])"
  "rc_entries (sy_cache demo_4) = []"
  "rc_calls (sy_cache demo_5) 0 = Some (demo_fetcher Closing False ''d'')"
  "rc_calls (sy_cache demo_6) 0 = Some (demo_fetcher Ended True ''d'')"
  "sy_callers demo_6 0 = Some \<lparr>cr_key = ''k'', cr_ctx = None, cr_pc = Waiting 0\<rparr>"
  "sy_callers demo_7 0 = Some \<lparr>cr_key = ''k'', cr_ctx = None, cr_pc = Returned ''d'' None\<rparr>"
  "rc_entries (sy_cache demo_7) = demo_items"
  by code_simp+

lemma demo_run: "cache_run 6 demo_1 demo_7"
proof -
  have 1: "cache_step demo_1 demo_2" unfolding demo_2_def by (rule new_caller [OF demo_facts(1)])
  have 2: "cache_step demo_2 demo_3"
    using fast_path [OF demo_facts(2), of 0] by (simp add: demo_facts(3) demo_3_def)
  have 3: "cache_step demo_3 demo_4"
    using locked [OF demo_facts(4), of 0 "Begin 0" "snd (get_or_join 0 ''k'' (sy_cache demo_3))"] demo_facts(5)
    by (simp add: demo_4_def prod_eq_iff)
  have 4: "cache_step demo_4 demo_5"
    using fetched [OF demo_facts(6), of demo_items "FReturn ''d'' None" 1]
    by (simp add: demo_5_def demo_fetcher_def demo_facts(7) demo_items_def with_result_def)
  have 5: "cache_step demo_5 demo_6"
    using closed [OF demo_facts(8)] by (simp add: demo_6_def demo_fetcher_def)
  have 6: "cache_step demo_6 demo_7"
    using woken [OF demo_facts(10), of 0 "demo_fetcher Ended True ''d''" "Inr (''d'', None)"] demo_facts(9)
    by (simp add: demo_7_def demo_fetcher_def waitForCall_def after_wait_def)
  have "cache_run (Suc (Suc (Suc (Suc (Suc (Suc 0)))))) demo_1 demo_7"
    by (rule more [OF more [OF more [OF more [OF more [OF more [OF none 1] 2] 3] 4] 5] 6])
  then show ?thesis by (simp add: numeral_eq_Suc)
qed

lemma demo_invalidated: "invalidated_to ''k'' demo_0 demo_1"
  by (simp add: invalidated_to_def demo_1_def)

theorem cache_stays_bounded_witness:
  "cache_run 7 (new_sys 10 2) demo_7 \<and> length (rc_entries (sy_cache demo_7)) \<le> 2"
proof -
  have first: "cache_run 1 (new_sys 10 2) demo_1"
    using more [OF none invalidate_key] by (simp add: demo_1_def demo_0_def)
  have join: "cache_run n demo_1 u \<Longrightarrow> cache_run (n + 1) (new_sys 10 2) u" for n u
    by (induction n demo_1 u rule: cache_run.induct) (use first in \<open>auto intro: more\<close>)
  have "cache_run 7 (new_sys 10 2) demo_7" using join [OF demo_run] by simp
  then show ?thesis using cache_stays_bounded by blast
qed

theorem reads_after_invalidation_fresh_witness:
  "fetched_since 0 ''k'' (sy_cache demo_7) ''d'' \<and> rc_entries (sy_cache demo_7) = demo_items"
proof -
  have start: "cache_run 0 (new_sys 10 2) demo_0" unfolding demo_0_def by (rule none)
  have "undecided demo_0 0" by (simp add: undecided_def demo_0_def new_sys_def)
  from reads_after_invalidation_fresh [OF start demo_invalidated demo_run _ this demo_facts(11)]
  show ?thesis using demo_facts(12) by (simp add: demo_0_def new_sys_def NewReadCache_def)
qed

end
