(* ===== verification/CacheLive.thy ===== *)
theory CacheLive
  imports CacheFresh
begin

text \<open>
  No caller of the read cache is stuck: from wherever the system has got to, its fetch can end and the
  caller return, within a few steps and without a cancellation.
\<close>

section \<open>Calls that are done, calls that are in flight\<close>

definition live :: "ReadCache \<Rightarrow> bool" where
  "live c \<longleftrightarrow>
     (\<forall>i f. rc_calls c i = Some f \<longrightarrow>
        (ft_stage f = Ended \<longrightarrow> cl_done (ft_call f)) \<and> (in_flight c i f \<longrightarrow> \<not> cl_invalidated (ft_call f)))"

lemma liveD:
  assumes "live c" and "rc_calls c i = Some f"
  shows "ft_stage f = Ended \<Longrightarrow> cl_done (ft_call f)" "in_flight c i f \<Longrightarrow> \<not> cl_invalidated (ft_call f)"
  using assms unfolding live_def by blast+

lemma live_start_call: "live c \<Longrightarrow> live (snd (start_call key c))"
  by (auto simp: live_def start_call_def Let_def in_flight_def update_conv' split: if_splits)

lemma live_get_or_join: "live c \<Longrightarrow> live (snd (get_or_join now key c))"
  using get_or_join_cases [of now key c] live_start_call by metis

lemma live_runFetch:
  assumes "live c" and "rc_calls c i = Some f" and "ft_stage f = Fetching"
  shows "live (runFetch i res now items c)"
  using assms by (auto simp: live_def runFetch_fields in_flight_def delete_conv' split: if_splits)

lemma live_close_done:
  assumes "live c" and "rc_calls c i = Some f" and "ft_stage f = Closing"
  shows "live (close_done i c)"
  using assms by (auto simp: live_def close_done_def set_call_def in_flight_def)

lemma live_invalidate:
  assumes "live c" and "cache_inv m c" and "distinct ks"
  shows "live (fold invalidateKeyLocked ks c)" (is "live ?c")
proof -
  note f = fold_invalidate [OF assms(3), of c]
  show ?thesis
    unfolding live_def
  proof (intro allI impI conjI)
    fix i g assume g: "rc_calls ?c i = Some g"
    then obtain h where h: "rc_calls c i = Some h" "g = h \<or> g = mark h" using f by (auto split: if_splits)
    show "ft_stage g = Ended \<Longrightarrow> cl_done (ft_call g)" using liveD(1) [OF assms(1) h(1)] h(2) by auto
    assume "in_flight ?c i g"
    then have "ft_key h \<notin> set ks" and fl: "in_flight c i h"
      using f h(2) by (auto simp: in_flight_def map_of_filter_keys split: if_splits)
    then have "\<not> (\<exists>k \<in> set ks. map_of (rc_inflight c) k = Some i)"
      using cache_invD(3) [OF assms(2)] h(1) by fastforce
    then have "g = h" using f g h(1) by simp
    then show "\<not> cl_invalidated (ft_call g)" using liveD(2) [OF assms(1) h(1) fl] by simp
  qed
qed

lemma live_invalidations:
  assumes "live c" and "cache_inv m c"
  shows "live (Invalidate c)" "live (InvalidateKey key c)" "live (InvalidateMatching match c)"
  unfolding invalidations by (rule live_invalidate [OF assms]; simp)+

lemma step_live:
  assumes "cache_step s t" and "sys_inv m s" and "live (sy_cache s)"
  shows "live (sy_cache t)"
  using assms(1)
proof cases
  case (locked j r now tn c)
  then have "c = snd (get_or_join now (cr_key r) (sy_cache s))" by simp
  then show ?thesis using locked(1) live_get_or_join [OF assms(3)] by simp
qed (use assms(2,3) live_runFetch live_close_done live_invalidations in \<open>auto simp: sys_inv_def\<close>)

definition well :: "cache_sys \<Rightarrow> bool" where
  "well s \<longleftrightarrow> (\<exists>m. sys_inv m s) \<and> live (sy_cache s)"

lemma step_well: "cache_step s t \<Longrightarrow> well s \<Longrightarrow> well t"
  unfolding well_def using step_sys_inv step_live by blast

lemma run_well: "cache_run n s t \<Longrightarrow> well s \<Longrightarrow> well t"
  by (induction rule: cache_run.induct) (auto intro: step_well)

lemma new_sys_well: "well (new_sys maxAge maxEntries)"
  using new_sys_inv [of maxAge maxEntries] by (auto simp: well_def live_def new_sys_def NewReadCache_def)

section \<open>To the end of a wait\<close>

lemma cache_run_trans: "cache_run n t u \<Longrightarrow> cache_run m s t \<Longrightarrow> cache_run (m + n) s u"
  by (induction rule: cache_run.induct) (auto intro: cache_run.intros)

text \<open>A run in which no caller's context is cancelled or otherwise changed, and no caller comes or goes.\<close>

definition same_ctx :: "cache_sys \<Rightarrow> cache_sys \<Rightarrow> bool" where
  "same_ctx s t \<longleftrightarrow> (\<forall>k. map_option cr_ctx (sy_callers t k) = map_option cr_ctx (sy_callers s k))"

definition goes :: "nat \<Rightarrow> cache_sys \<Rightarrow> cache_sys \<Rightarrow> bool" where
  "goes n s t \<longleftrightarrow> cache_run n s t \<and> same_ctx s t"

lemma goes_trans: "goes n t u \<Longrightarrow> goes m s t \<Longrightarrow> goes (m + n) s u"
  by (auto simp: goes_def same_ctx_def intro: cache_run_trans)

lemma goes_none: "goes 0 s s"
  by (simp add: goes_def same_ctx_def cache_run.none)

lemma one_step: "cache_step s t \<Longrightarrow> cache_run 1 s t"
  using cache_run.more [OF cache_run.none] by simp

lemma goes_step: "cache_step s t \<Longrightarrow> same_ctx s t \<Longrightarrow> goes 1 s t"
  by (simp only: goes_def one_step simp_thms)

lemma same_ctx_pc: "sy_callers s j = Some r \<Longrightarrow> same_ctx s (set_pc j q (s\<lparr>sy_cache := c\<rparr>))"
  "sy_callers s j = Some r \<Longrightarrow> same_ctx s (set_pc j q s)" "same_ctx s (s\<lparr>sy_cache := c\<rparr>)"
  by (auto simp: same_ctx_def set_pc_def)

lemma goes_well: "goes n s t \<Longrightarrow> well s \<Longrightarrow> well t"
  unfolding goes_def using run_well by blast

text \<open>The caller has returned, or is about to look again because its call was invalidated.\<close>

definition answered :: "cache_sys \<Rightarrow> nat \<Rightarrow> bool" where
  "answered s j \<longleftrightarrow> (\<exists>r data err. sy_callers s j = Some r \<and> cr_pc r = Returned data err)"

definition waited :: "bool \<Rightarrow> cache_sys \<Rightarrow> nat \<Rightarrow> bool" where
  "waited invalidated s j \<longleftrightarrow> answered s j \<or> invalidated \<and> (\<exists>r. sy_callers s j = Some r \<and> cr_pc r = AtLoop)"

lemma wake:
  assumes "sy_callers s j = Some r" and "cr_pc r = Waiting i"
    and "rc_calls (sy_cache s) i = Some f" and "cl_done (ft_call f)"
  shows "\<exists>t. goes 1 s t \<and> waited (cl_invalidated (ft_call f)) t j"
proof -
  let ?ans = "if cl_invalidated (ft_call f) then Inl None else Inr (cl_val (ft_call f), cl_err (ft_call f))"
  have "waitForCall (cr_ctx r) (ft_call f) = Some ?ans" using assms(4) by (simp add: waitForCall_def)
  note step = cache_step.woken [OF assms(1-3) this]
  show ?thesis
    by (rule exI, rule conjI, rule goes_step [OF step same_ctx_pc(2) [OF assms(1)]])
      (use assms(1) in \<open>auto simp: waited_def answered_def after_wait_def split: option.splits\<close>)
qed

lemma close_and_wake:
  assumes "sy_callers s j = Some r" and "cr_pc r = Waiting i"
    and "rc_calls (sy_cache s) i = Some f" and "ft_stage f = Closing"
  shows "\<exists>t. goes 2 s t \<and> waited (cl_invalidated (ft_call f)) t j"
proof -
  let ?t = "s\<lparr>sy_cache := close_done i (sy_cache s)\<rparr>"
  have "rc_calls (sy_cache ?t) i = Some (f\<lparr>ft_stage := Ended, ft_call := (ft_call f)\<lparr>cl_done := True\<rparr>\<rparr>)"
    using assms(3) by (simp add: close_done_def set_call_def)
  from wake [OF _ assms(2) this] obtain u where u: "goes 1 ?t u" "waited (cl_invalidated (ft_call f)) u j"
    using assms(1) by auto
  have "goes (1 + 1) s u" by (rule goes_trans [OF u(1) goes_step [OF cache_step.closed [OF assms(3,4)] same_ctx_pc(3)]])
  then have "goes 2 s u" by (simp only: one_add_one)
  then show ?thesis using u(2) by blast
qed

lemma fetch_and_wake:
  assumes "sy_callers s j = Some r" and "cr_pc r = Waiting i"
    and "rc_calls (sy_cache s) i = Some f" and "ft_stage f = Fetching"
  shows "\<exists>t. goes 3 s t \<and> waited (cl_invalidated (ft_call f)) t j"
proof -
  let ?res = "FReturn [] None"
  let ?X = "AList.update (ft_key f) \<lparr>ce_data = cl_val (with_result ?res (ft_call f)), ce_storedAt = 0\<rparr> (rc_entries (sy_cache s))"
  let ?items = "sort_key (\<lambda>item. ce_storedAt (snd item)) ?X"
  let ?t = "s\<lparr>sy_cache := runFetch i ?res 0 ?items (sy_cache s)\<rparr>"
  have step: "cache_step s ?t" by (rule cache_step.fetched [OF assms(3,4)]) simp_all
  have "rc_calls (sy_cache ?t) i = Some (f\<lparr>ft_stage := Closing, ft_call := with_result ?res (ft_call f)\<rparr>)"
    by (simp add: runFetch_fields [OF assms(3)])
  from close_and_wake [OF _ assms(2) this] obtain u where u: "goes 2 ?t u" "waited (cl_invalidated (ft_call f)) u j"
    using assms(1) by auto
  have "goes (1 + 2) s u" by (rule goes_trans [OF u(1) goes_step [OF step same_ctx_pc(3)]])
  then have "goes 3 s u" by (simp only: one_plus_numeral semiring_norm)
  then show ?thesis using u(2) by blast
qed

lemma wait_ends:
  assumes "well s" and "sy_callers s j = Some r" and "cr_pc r = Waiting i" and "rc_calls (sy_cache s) i = Some f"
  shows "\<exists>n t. n \<le> 3 \<and> goes n s t \<and> waited (cl_invalidated (ft_call f)) t j"
proof (cases "ft_stage f")
  case Fetching
  then show ?thesis using fetch_and_wake [OF assms(2-4)] by blast
next
  case Closing
  then obtain t where "goes 2 s t \<and> waited (cl_invalidated (ft_call f)) t j"
    using close_and_wake [OF assms(2-4)] by blast
  then show ?thesis by (intro exI [of _ 2] exI [of _ t]) simp
next
  case Ended
  then have "cl_done (ft_call f)" using assms(1,4) liveD(1) by (auto simp: well_def)
  then obtain t where "goes 1 s t \<and> waited (cl_invalidated (ft_call f)) t j" using wake [OF assms(2-4)] by blast
  then show ?thesis by (intro exI [of _ 1] exI [of _ t]) simp
qed

section \<open>To the end of a call\<close>

lemma ends_by: "\<exists>n t. n \<le> k \<and> P n t \<Longrightarrow> k \<le> l \<Longrightarrow> \<exists>n t. n \<le> (l :: nat) \<and> P n t"
  by (blast intro: le_trans)

lemma locked_ends:
  assumes "well s" and "sy_callers s j = Some r" and "cr_pc r = AtLock"
  shows "\<exists>n t. n \<le> 4 \<and> goes n s t \<and> answered t j"
proof -
  obtain tn c where g: "get_or_join 0 (cr_key r) (sy_cache s) = (tn, c)" by fastforce
  let ?q = "case tn of Hit data \<Rightarrow> Returned data None | Join i \<Rightarrow> Waiting i | Begin i \<Rightarrow> Waiting i"
  let ?t = "set_pc j ?q (s\<lparr>sy_cache := c\<rparr>)"
  have step: "cache_step s ?t" by (rule cache_step.locked [OF assms(2,3) g])
  have go: "goes 1 s ?t" by (rule goes_step [OF step same_ctx_pc(1) [OF assms(2)]])
  have t: "sy_callers ?t j = Some (r\<lparr>cr_pc := ?q\<rparr>)" "sy_cache ?t = c" by (simp_all add: assms(2))
  show ?thesis
  proof (cases "\<exists>i. ?q = Waiting i")
    case True
    then obtain i where i: "?q = Waiting i" by blast
    obtain m where inv: "cache_inv m (sy_cache s)" using assms(1) by (auto simp: well_def sys_inv_def)
    have "map_of (rc_inflight c) (cr_key r) = Some i"
      using i g by (auto simp: get_or_join_def start_call_def Let_def update_conv' split: turn.splits option.splits if_splits)
    moreover have "cache_inv m c" using inv_get_or_join [OF inv, of 0 "cr_key r"] g by simp
    ultimately obtain f where f: "rc_calls c i = Some f" "in_flight c i f"
      using cache_invD(3) by (fastforce simp: in_flight_def)
    have w: "well ?t" by (rule step_well [OF step assms(1)])
    then have "live c" using t(2) by (simp add: well_def)
    then have "\<not> cl_invalidated (ft_call f)" using liveD(2) [OF _ f] by blast
    then obtain n u where u: "n \<le> 3" "goes n ?t u" "answered u j"
      using wait_ends [OF w t(1), of i f] i f(1) unfolding t(2) waited_def by auto
    show ?thesis
      using goes_trans [OF u(2) go] u(1,3) by (intro exI [of _ "1 + n"] exI [of _ u]) simp
  next
    case False
    then have "answered ?t j" unfolding answered_def t(1) by (cases tn) simp_all
    then show ?thesis using go by (intro exI [of _ 1] exI [of _ ?t]) simp
  qed
qed

lemma loop_ends:
  assumes "well s" and "sy_callers s j = Some r" and "cr_pc r = AtLoop"
  shows "\<exists>n t. n \<le> 5 \<and> goes n s t \<and> answered t j"
proof -
  let ?q = "case cache_Get 0 (cr_key r) (sy_cache s) of Some data \<Rightarrow> Returned data None | None \<Rightarrow> AtLock"
  let ?t = "set_pc j ?q s"
  have step: "cache_step s ?t" by (rule cache_step.fast_path [OF assms(2,3)])
  have go: "goes 1 s ?t" by (rule goes_step [OF step same_ctx_pc(2) [OF assms(2)]])
  have t: "sy_callers ?t j = Some (r\<lparr>cr_pc := ?q\<rparr>)" by (simp add: assms(2))
  show ?thesis
  proof (cases "cache_Get 0 (cr_key r) (sy_cache s)")
    case None
    obtain n u where u: "n \<le> 4" "goes n ?t u" "answered u j"
      using locked_ends [OF step_well [OF step assms(1)] t] None by auto
    show ?thesis
      using goes_trans [OF u(2) go] u(1,3) by (intro exI [of _ "1 + n"] exI [of _ u]) simp
  next
    case (Some data)
    then have "answered ?t j" unfolding answered_def t by simp
    then show ?thesis using go by (intro exI [of _ 1] exI [of _ ?t]) simp
  qed
qed

text \<open>
  C30: No caller of the cache is ever stuck: whatever callers, fetches, cancellations and invalidations
  have interleaved, the system can go on so that the caller returns, within eight steps and without any
  caller's context being cancelled.
\<close>

theorem caller_can_return:
  assumes "cache_run m (new_sys maxAge maxEntries) s" and "sy_callers s j = Some r"
  shows "\<exists>n t. n \<le> 8 \<and> cache_run n s t \<and> answered t j
    \<and> (\<forall>k. map_option cr_ctx (sy_callers t k) = map_option cr_ctx (sy_callers s k))"
proof -
  have w: "well s" by (rule run_well [OF assms(1) new_sys_well])
  have "\<exists>n t. n \<le> 8 \<and> goes n s t \<and> answered t j"
  proof (cases "cr_pc r")
    case AtLoop
    show ?thesis by (rule ends_by [OF loop_ends [OF w assms(2) AtLoop]]) simp
  next
    case AtLock
    show ?thesis by (rule ends_by [OF locked_ends [OF w assms(2) AtLock]]) simp
  next
    case (Waiting i)
    then obtain f where "rc_calls (sy_cache s) i = Some f"
      using w assms(2) by (fastforce simp: well_def sys_inv_def waits_ok_def)
    from wait_ends [OF w assms(2) Waiting this] obtain n t where n: "n \<le> 3" "goes n s t"
      "answered t j \<or> (\<exists>r. sy_callers t j = Some r \<and> cr_pc r = AtLoop)" by (auto simp: waited_def)
    from n(3) show ?thesis
    proof (elim disjE exE conjE)
      assume "answered t j"
      then show ?thesis using n(1,2) by (intro exI [of _ n] exI [of _ t]) simp
    next
      fix r assume "sy_callers t j = Some r" and "cr_pc r = AtLoop"
      from loop_ends [OF goes_well [OF n(2) w] this] obtain k u where u: "k \<le> 5" "goes k t u" "answered u j" by blast
      show ?thesis using goes_trans [OF u(2) n(2)] n(1) u by (intro exI [of _ "n + k"] exI [of _ u]) simp
    qed
  next
    case (Returned data err)
    then have "answered s j" using assms(2) by (simp add: answered_def)
    then show ?thesis using goes_none by (intro exI [of _ 0] exI [of _ s]) simp
  qed
  then show ?thesis unfolding goes_def same_ctx_def by blast
qed

text \<open>A caller of a new cache, whose context is not done.\<close>

theorem caller_can_return_witness:
  "\<exists>n t. n \<le> 8 \<and> cache_run n demo_2 t \<and> answered t 0
    \<and> map_option cr_ctx (sy_callers t 0) = map_option cr_ctx (sy_callers demo_2 0)"
proof -
  have "cache_step demo_0 demo_1" unfolding demo_1_def by (rule cache_step.invalidate_key)
  moreover have "cache_step demo_1 demo_2"
    unfolding demo_2_def by (rule cache_step.new_caller) (simp add: demo_1_def demo_0_def new_sys_def)
  ultimately have run: "cache_run (Suc 1) (new_sys 10 2) demo_2"
    unfolding demo_0_def using cache_run.more [OF one_step] by blast
  have "\<exists>r. sy_callers demo_2 0 = Some r" by (simp add: demo_2_def)
  then show ?thesis using caller_can_return [OF run] by blast
qed

end
