(* ===== verification/ApiKeys.thy ===== *)
theory ApiKeys
  imports ApiJson RateLimit ReadCache
begin

text \<open>
  \<^verbatim>\<open>internal/api/cache_scope.go\<close>, the query parameters of \<^verbatim>\<open>helpers.go\<close> and \<^verbatim>\<open>canonicalBrowseKey\<close>:
  under which keys the HTTP API caches its answers.
\<close>

section \<open>Requests\<close>

record ResolvedReadIdentity =
  id_Upstream :: string
  id_Viewer :: string
  id_Public :: bool

text \<open>A request with the read identity that its context carries.\<close>

record api_request = http_request +
  rq_identity :: "ResolvedReadIdentity option"

definition canonicalHostedCacheUpstream :: "string \<Rightarrow> string" where
  "canonicalHostedCacheUpstream upstream =
     (let u = TrimSpace upstream in if u = ''hop/wl-commons'' then ''wasteland/wl-commons'' else u)"

definition canonicalHostedCacheViewer :: "string \<Rightarrow> string" where
  "canonicalHostedCacheViewer viewer = (let v = TrimSpace viewer in if v = [] then ''anon'' else ''user:'' @ v)"

definition WithResolvedReadIdentity :: "ResolvedReadIdentity \<Rightarrow> api_request \<Rightarrow> api_request" where
  "WithResolvedReadIdentity identity r =
     r\<lparr>rq_identity := Some (identity\<lparr>id_Upstream := canonicalHostedCacheUpstream (id_Upstream identity),
                                    id_Viewer := TrimSpace (id_Viewer identity)\<rparr>)\<rparr>"

section \<open>Query parameters\<close>

text \<open>\<^verbatim>\<open>r.URL.Query()\<close> keeps the pairs that parse; \<^verbatim>\<open>Get\<close> is the first value of a key.\<close>

definition Query :: "api_request \<Rightarrow> (string \<times> string) list" where
  "Query r = List.map_filter parse_pair (filter (\<lambda>piece. piece \<noteq> []) (Split (rq_query r) (CHR ''&'')))"

definition query_get :: "api_request \<Rightarrow> string \<Rightarrow> string" where
  "query_get r key = (case map_of (Query r) key of Some v \<Rightarrow> v | None \<Rightarrow> [])"

definition parseIntParam :: "api_request \<Rightarrow> string \<Rightarrow> int \<Rightarrow> int" where
  "parseIntParam r key defaultVal =
     (let s = query_get r key
      in if s = [] then defaultVal else (case Atoi s of (v, err) \<Rightarrow> if err then defaultVal else v))"

definition parseQueryFilter :: "api_request \<Rightarrow> BrowseFilter" where
  "parseQueryFilter r =
     \<lparr>bf_Status = query_get r ''status'', bf_Project = query_get r ''project'', bf_Type = query_get r ''type'',
      bf_Priority = parseIntParam r ''priority'' (-1), bf_Limit = parseIntParam r ''limit'' 50, bf_PostedBy = [],
      bf_ClaimedBy = [], bf_Search = query_get r ''search'', bf_MyItems = [],
      bf_Sort = (if query_get r ''sort'' = ''newest'' then SortNewest
                 else if query_get r ''sort'' = ''alpha'' then SortAlpha else SortPriority),
      bf_View = query_get r ''view'', bf_Long = (query_get r ''long'' = ''true'')\<rparr>"

definition browse_params :: "string list" where
  "browse_params = [''status'', ''type'', ''priority'', ''project'', ''search'', ''sort'', ''limit'', ''view'', ''long'']"

definition canonicalBrowseKey :: "api_request \<Rightarrow> string" where
  "canonicalBrowseKey r =
     encode_values (map (\<lambda>k. (k, query_get r k)) (filter (\<lambda>k. query_get r k \<noteq> []) browse_params))"

section \<open>Scopes and keys\<close>

record readCacheScope =
  sp_upstream :: string
  sp_viewer :: string
  sp_mode :: string
  sp_impersonate :: string
  sp_cacheable :: bool

definition normalizeReadCacheScope :: "readCacheScope \<Rightarrow> bool \<Rightarrow> readCacheScope" where
  "normalizeReadCacheScope scope hosted =
     (let s1 = (if sp_upstream scope = [] then scope\<lparr>sp_upstream := ''local''\<rparr> else scope)
      in if hosted then s1\<lparr>sp_viewer := canonicalHostedCacheViewer (sp_viewer s1)\<rparr> else s1)"

definition server_readCacheScope :: "bool \<Rightarrow> api_request \<Rightarrow> 's Client \<Rightarrow> readCacheScope" where
  "server_readCacheScope hosted r client =
     (let scope = \<lparr>sp_upstream = [], sp_viewer = [], sp_mode = TrimSpace (c_mode client),
                   sp_impersonate = TrimSpace (Get (rq_headers r) ''X-Impersonate''), sp_cacheable = True\<rparr>
      in if \<not> hosted
         then normalizeReadCacheScope (scope\<lparr>sp_upstream := TrimSpace (c_upstream client),
                                            sp_viewer := TrimSpace (c_rigHandle client)\<rparr>) False
         else
           (case rq_identity r of
              Some identity \<Rightarrow>
                if id_Public identity
                then (if id_Upstream identity = [] then normalizeReadCacheScope (scope\<lparr>sp_cacheable := False\<rparr>) True
                      else normalizeReadCacheScope (scope\<lparr>sp_upstream := id_Upstream identity\<rparr>) True)
                else if id_Upstream identity = [] \<or> id_Viewer identity = []
                then normalizeReadCacheScope (scope\<lparr>sp_cacheable := False\<rparr>) True
                else normalizeReadCacheScope
                       (scope\<lparr>sp_upstream := id_Upstream identity, sp_viewer := id_Viewer identity\<rparr>) True
            | None \<Rightarrow> normalizeReadCacheScope (scope\<lparr>sp_cacheable := False\<rparr>) True))"

definition cacheKeyPart :: "string \<Rightarrow> string" where
  "cacheKeyPart value = QueryEscape (TrimSpace value)"

definition browseCacheKey :: "readCacheScope \<Rightarrow> api_request \<Rightarrow> string" where
  "browseCacheKey scope r =
     Prelude.Join [''browse'', cacheKeyPart (sp_upstream scope), cacheKeyPart (sp_viewer scope), cacheKeyPart (sp_mode scope),
           cacheKeyPart (sp_impersonate scope), cacheKeyPart (canonicalBrowseKey r)] '':''"

definition browseCachePrefix :: "string \<Rightarrow> string" where
  "browseCachePrefix upstream = Prelude.Join [''browse'', cacheKeyPart upstream] '':'' @ '':''"

definition detailCacheKey :: "readCacheScope \<Rightarrow> string \<Rightarrow> string" where
  "detailCacheKey scope wantedID =
     Prelude.Join [''detail'', cacheKeyPart (sp_upstream scope), cacheKeyPart (sp_viewer scope), cacheKeyPart (sp_mode scope),
           cacheKeyPart (sp_impersonate scope), cacheKeyPart wantedID] '':''"

definition detailCachePrefix :: "string \<Rightarrow> string" where
  "detailCachePrefix upstream = Prelude.Join [''detail'', cacheKeyPart upstream] '':'' @ '':''"

definition detailCacheSuffix :: "string \<Rightarrow> string" where
  "detailCacheSuffix wantedID = '':'' @ cacheKeyPart wantedID"

definition HasSuffix :: "string \<Rightarrow> string \<Rightarrow> bool" where
  "HasSuffix s t = HasPrefix (rev s) (rev t)"

end
