(* ===== verification/Api.thy ===== *)
theory Api
  imports ApiKeys SdkTypes
begin

text \<open>
  \<^verbatim>\<open>internal/api/handlers.go\<close>, \<^verbatim>\<open>helpers.go\<close> and the state of \<^verbatim>\<open>server.go\<close>: the handlers of the HTTP
  API over the client of package sdk.  A handler maps a request, the server and the world \<open>s\<close> of the
  client's database to an answer and the two after it.  Handlers run one after the other here; how the
  read caches behave when they overlap is the subject of \<open>ReadCache\<close>.  Tracing, logs and Sentry are
  left out.
\<close>

section \<open>State\<close>

text \<open>
  The clients are shared objects, so they stand in a store; \<open>sv_clientFunc\<close> gives the address of a
  request's client, \<open>sv_mutationInvalidator\<close> acts on the world beneath.
\<close>

record 's ApiServer =
  sv_clients :: "nat \<Rightarrow> 's Client"
  sv_clientFunc :: "api_request \<Rightarrow> go_error + nat"
  sv_workspaceFunc :: "(api_request \<Rightarrow> go_error + Workspace option) option"
  sv_mutationInvalidator :: "(api_request \<Rightarrow> 's \<Rightarrow> 's) option"
  sv_publicClient :: "nat option"
  sv_browseCache :: ReadCache
  sv_detailCache :: ReadCache
  sv_environment :: string
  sv_hosted :: bool

text \<open>
  What a request meets: the clock and randomness of its mutation, the folding of non-ASCII letters,
  the decoder's messages, the time for the caches, the order in which entries of one time are
  evicted, the \<^verbatim>\<open>WL_ENVIRONMENT\<close> of the process, and what a fetch that another request has begun
  will return.
\<close>

record api_env =
  ae_clock :: clock
  ae_uni :: "string \<Rightarrow> string"
  ae_json :: go_json
  ae_now :: int
  ae_order :: "(string \<times> cacheEntry) list \<Rightarrow> (string \<times> cacheEntry) list"
  ae_environ :: string
  ae_wait :: "nat \<Rightarrow> string \<times> go_error option"

record api_response =
  as_status :: int
  as_headers :: headers
  as_body :: string

type_synonym 's api_result = "api_response \<times> 's ApiServer \<times> 's"

text \<open>The constructors, over the store of clients; and the setters that the hosted service calls.\<close>

definition NewWithClientFunc :: "(nat \<Rightarrow> 's Client) \<Rightarrow> (api_request \<Rightarrow> go_error + nat) \<Rightarrow> 's ApiServer" where
  "NewWithClientFunc clients fn =
     \<lparr>sv_clients = clients, sv_clientFunc = fn, sv_workspaceFunc = None, sv_mutationInvalidator = None,
      sv_publicClient = None, sv_browseCache = NewReadCache 30000000000 64,
      sv_detailCache = NewReadCache 30000000000 256, sv_environment = [], sv_hosted = False\<rparr>"

definition NewHosted :: "(nat \<Rightarrow> 's Client) \<Rightarrow> (api_request \<Rightarrow> go_error + nat) \<Rightarrow> 's ApiServer" where
  "NewHosted clients fn =
     \<lparr>sv_clients = clients, sv_clientFunc = fn, sv_workspaceFunc = None, sv_mutationInvalidator = None,
      sv_publicClient = None, sv_browseCache = NewReadCache 30000000000 64,
      sv_detailCache = NewReadCache 30000000000 256, sv_environment = [], sv_hosted = True\<rparr>"

definition NewHostedWorkspace ::
  "(nat \<Rightarrow> 's Client) \<Rightarrow> (api_request \<Rightarrow> go_error + nat) \<Rightarrow> (api_request \<Rightarrow> go_error + Workspace option)
     \<Rightarrow> 's ApiServer" where
  "NewHostedWorkspace clients clientFn workspaceFn =
     \<lparr>sv_clients = clients, sv_clientFunc = clientFn, sv_workspaceFunc = Some workspaceFn, sv_mutationInvalidator = None,
      sv_publicClient = None, sv_browseCache = NewReadCache 30000000000 64,
      sv_detailCache = NewReadCache 30000000000 256, sv_environment = [], sv_hosted = True\<rparr>"

text \<open>\<^verbatim>\<open>New\<close>: one client for every request.\<close>

definition api_New :: "'s Client \<Rightarrow> 's ApiServer" where
  "api_New client = NewWithClientFunc (\<lambda>_. client) (\<lambda>_. Inr 0)"

definition SetPublicClient :: "nat \<Rightarrow> 's ApiServer \<Rightarrow> 's ApiServer" where
  "SetPublicClient c sv = sv\<lparr>sv_publicClient := Some c\<rparr>"

definition SetEnvironment :: "string \<Rightarrow> 's ApiServer \<Rightarrow> 's ApiServer" where
  "SetEnvironment environment sv = sv\<lparr>sv_environment := environment\<rparr>"

definition SetMutationInvalidator :: "(api_request \<Rightarrow> 's \<Rightarrow> 's) \<Rightarrow> 's ApiServer \<Rightarrow> 's ApiServer" where
  "SetMutationInvalidator fn sv = sv\<lparr>sv_mutationInvalidator := Some fn\<rparr>"

section \<open>Answers\<close>

text \<open>The encoder ends a value with a line end.\<close>

definition api_writeJSON :: "int \<Rightarrow> json \<Rightarrow> api_response" where
  "api_writeJSON status v =
     \<lparr>as_status = status,
      as_headers = Set (Set [] ''Content-Type'' ''application/json'') ''Cache-Control'' ''no-store'',
      as_body = json_text v @ [nl_ch]\<rparr>"

definition api_writeError :: "int \<Rightarrow> string \<Rightarrow> api_response" where
  "api_writeError status msg = api_writeJSON status (error_json msg)"

definition status_json :: "string \<Rightarrow> json" where
  "status_json s = JObj (str_mem ''status'' s)"

definition isUpstreamAuthError :: "go_error \<Rightarrow> bool" where
  "isUpstreamAuthError err \<longleftrightarrow> Contains (Error err) ''invalid authorization''"

definition isTokenPermissionError :: "go_error \<Rightarrow> bool" where
  "isTokenPermissionError err \<longleftrightarrow> Contains (Error err) ''API token is not allowed to operate on this resource''"

definition reconnect_msg :: string where
  "reconnect_msg = ''DoltHub credentials expired'' @ em_dash @ ''please reconnect.''"

definition outage_msg :: "go_error \<Rightarrow> string" where
  "outage_msg err =
     (if isTokenPermissionError err
      then ''DoltHub API token lacks SQL permissions'' @ em_dash @ ''check token configuration.''
      else ''Upstream database is temporarily unavailable'' @ em_dash @ ''please try again in a moment.'')"

definition writeUpstreamError :: "go_error \<Rightarrow> api_response" where
  "writeUpstreamError err =
     (if isUpstreamAuthError err then api_writeError 401 reconnect_msg else api_writeError 503 (outage_msg err))"

text \<open>\<^verbatim>\<open>errors.As(err, &conflict)\<close>.\<close>

fun as_conflict :: "go_error \<Rightarrow> string option" where
  "as_conflict (ConflictError m) = Some m"
| "as_conflict (Wrap p e) = as_conflict e"
| "as_conflict e = None"

definition writeMutationError :: "go_error \<Rightarrow> api_response" where
  "writeMutationError err =
     (case as_conflict err of
        Some message \<Rightarrow> api_writeError 409 message
      | None \<Rightarrow> api_writeError 400 (Error err))"

section \<open>Resolving the client\<close>

definition effectiveEnvironment :: "api_env \<Rightarrow> 's ApiServer \<Rightarrow> string" where
  "effectiveEnvironment e sv =
     (let environment = TrimSpace (sv_environment sv)
      in if environment \<noteq> [] then environment else TrimSpace (ae_environ e))"

definition allowStagingImpersonation :: "api_env \<Rightarrow> 's ApiServer \<Rightarrow> bool" where
  "allowStagingImpersonation e sv \<longleftrightarrow> effectiveEnvironment e sv = ''staging''"

text \<open>An impersonating client is a copy, which has no address: what is set on it is lost.\<close>

definition maybeImpersonateClient ::
  "api_env \<Rightarrow> 's ApiServer \<Rightarrow> api_request \<Rightarrow> nat \<Rightarrow> 's Client \<times> nat option" where
  "maybeImpersonateClient e sv r i =
     (let impersonate = TrimSpace (Get (rq_headers r) ''X-Impersonate'')
      in if allowStagingImpersonation e sv \<and> impersonate \<noteq> []
         then (WithRigHandle impersonate (sv_clients sv i), None)
         else (sv_clients sv i, Some i))"

text \<open>The client and the request as the public fallback has annotated it.\<close>

definition resolveClient ::
  "api_env \<Rightarrow> 's ApiServer \<Rightarrow> api_request \<Rightarrow> api_response + ('s Client \<times> nat option \<times> api_request)" where
  "resolveClient e sv r =
     (case sv_clientFunc sv r of
        Inr i \<Rightarrow> (let (c, a) = maybeImpersonateClient e sv r i in Inr (c, a, r))
      | Inl _ \<Rightarrow>
          (case sv_publicClient sv of
             Some i \<Rightarrow>
               if rq_method r = ''GET''
               then (let (c, a) = maybeImpersonateClient e sv r i
                     in Inr (c, a, if sv_hosted sv
                                   then WithResolvedReadIdentity
                                          \<lparr>id_Upstream = c_upstream (sv_clients sv i), id_Viewer = [], id_Public = True\<rparr> r
                                   else r))
               else Inl (api_writeError 401 ''not authenticated'')
           | None \<Rightarrow> Inl (api_writeError 401 ''not authenticated'')))"

definition with_client ::
  "api_env \<Rightarrow> api_request \<Rightarrow> 's ApiServer \<Rightarrow> 's
     \<Rightarrow> ('s Client \<Rightarrow> nat option \<Rightarrow> api_request \<Rightarrow> 's api_result) \<Rightarrow> 's api_result" where
  "with_client e r sv s f =
     (case resolveClient e sv r of Inl answer \<Rightarrow> (answer, sv, s) | Inr (c, a, r') \<Rightarrow> f c a r')"

section \<open>The caches\<close>

text \<open>
  \<^verbatim>\<open>GetOrFetchContext\<close> of one request: a hit, a fetch of its own, or the outcome of a fetch that is
  under way.
\<close>

definition GetOrFetch ::
  "api_env \<Rightarrow> string \<Rightarrow> go_error + string \<Rightarrow> ReadCache \<Rightarrow> (string \<times> go_error option) \<times> ReadCache" where
  "GetOrFetch e key fetched c =
     (case cache_Get (ae_now e) key c of
        Some data \<Rightarrow> ((data, None), c)
      | None \<Rightarrow>
          (case get_or_join (ae_now e) key c of
             (Hit data, c1) \<Rightarrow> ((data, None), c1)
           | (Join i, c1) \<Rightarrow> (ae_wait e i, c1)
           | (Begin i, c1) \<Rightarrow>
               (let res = (case fetched of Inr v \<Rightarrow> FReturn v None | Inl err \<Rightarrow> FReturn [] (Some err));
                    c2 = runFetch i res (ae_now e)
                           (ae_order e (AList.update key \<lparr>ce_data = (case fetched of Inr v \<Rightarrow> v | Inl _ \<Rightarrow> []),
                                                         ce_storedAt = ae_now e\<rparr> (rc_entries c1))) c1
                in ((case fetched of Inr v \<Rightarrow> (v, None) | Inl err \<Rightarrow> ([], Some err)), close_done i c2))))"

definition hasCanonicalHostedReadIdentity :: "'s ApiServer \<Rightarrow> api_request \<Rightarrow> bool" where
  "hasCanonicalHostedReadIdentity sv r \<longleftrightarrow>
     \<not> sv_hosted sv \<or> (case rq_identity r of
                          Some identity \<Rightarrow> id_Upstream identity \<noteq> [] \<and> id_Viewer identity \<noteq> []
                        | None \<Rightarrow> False)"

definition invalidateAllCaches :: "'s ApiServer \<Rightarrow> 's ApiServer" where
  "invalidateAllCaches sv =
     sv\<lparr>sv_browseCache := Invalidate (sv_browseCache sv), sv_detailCache := Invalidate (sv_detailCache sv)\<rparr>"

definition invalidateBrowseCaches :: "string \<Rightarrow> 's ApiServer \<Rightarrow> 's ApiServer" where
  "invalidateBrowseCaches upstream sv =
     sv\<lparr>sv_browseCache := InvalidateMatching (\<lambda>key. HasPrefix key (browseCachePrefix upstream)) (sv_browseCache sv)\<rparr>"

definition invalidateDetailCaches :: "string \<Rightarrow> string \<Rightarrow> 's ApiServer \<Rightarrow> 's ApiServer" where
  "invalidateDetailCaches upstream wantedID sv =
     sv\<lparr>sv_detailCache := InvalidateMatching
           (\<lambda>key. HasPrefix key (detailCachePrefix upstream) \<and> HasSuffix key (detailCacheSuffix wantedID))
           (sv_detailCache sv)\<rparr>"

definition run_invalidator :: "'s ApiServer \<Rightarrow> api_request \<Rightarrow> 's \<Rightarrow> 's" where
  "run_invalidator sv r s = (case sv_mutationInvalidator sv of Some f \<Rightarrow> f r s | None \<Rightarrow> s)"

definition invalidateReadCaches :: "api_request \<Rightarrow> 's Client \<Rightarrow> string \<Rightarrow> 's ApiServer \<Rightarrow> 's ApiServer" where
  "invalidateReadCaches r client wantedID sv =
     (if \<not> hasCanonicalHostedReadIdentity sv r then invalidateAllCaches sv
      else (let scope = server_readCacheScope (sv_hosted sv) r client
            in invalidateDetailCaches (sp_upstream scope) wantedID (invalidateBrowseCaches (sp_upstream scope) sv)))"

definition invalidateBrowseReadCaches :: "api_request \<Rightarrow> 's Client \<Rightarrow> 's ApiServer \<Rightarrow> 's ApiServer" where
  "invalidateBrowseReadCaches r client sv =
     (if \<not> hasCanonicalHostedReadIdentity sv r then invalidateAllCaches sv
      else invalidateBrowseCaches (sp_upstream (server_readCacheScope (sv_hosted sv) r client)) sv)"

definition invalidateUpstreamReadCaches :: "api_request \<Rightarrow> 's Client \<Rightarrow> 's ApiServer \<Rightarrow> 's ApiServer" where
  "invalidateUpstreamReadCaches r client sv =
     (if \<not> hasCanonicalHostedReadIdentity sv r then invalidateAllCaches sv
      else (let scope = server_readCacheScope (sv_hosted sv) r client;
                sv1 = invalidateBrowseCaches (sp_upstream scope) sv
            in sv1\<lparr>sv_detailCache :=
                     InvalidateMatching (\<lambda>key. HasPrefix key (detailCachePrefix (sp_upstream scope))) (sv_detailCache sv1)\<rparr>))"

end
