(* ===== verification/ApiHandlers.thy ===== *)
theory ApiHandlers
  imports Api
begin

text \<open>The handlers of \<^verbatim>\<open>internal/api/handlers.go\<close>, one definition each.\<close>

section \<open>Reads\<close>

definition cacheControl :: "'s ApiServer \<Rightarrow> string" where
  "cacheControl sv =
     (if sv_hosted sv then ''private, max-age=15, stale-while-revalidate=30''
      else ''public, max-age=15, stale-while-revalidate=30'')"

definition data_answer :: "string \<Rightarrow> string \<Rightarrow> api_response" where
  "data_answer cache_control data =
     \<lparr>as_status = 200,
      as_headers = Set (Set [] ''Content-Type'' ''application/json'') ''Cache-Control'' cache_control,
      as_body = data\<rparr>"

definition stale_warning :: string where
  "stale_warning = ''Upstream database is temporarily unavailable. Showing cached data.''"

text \<open>A stale board with a warning in it; should it not decode, it is served as it is.\<close>

definition stale_browse :: "string \<Rightarrow> string" where
  "stale_browse stale =
     (case decode_browse stale of
        Some resp \<Rightarrow> json_text (BrowseResponse_json (resp\<lparr>bj_Warning := stale_warning\<rparr>))
      | None \<Rightarrow> stale)"

text \<open>How both reads answer an error that is not the item's absence.\<close>

definition read_failure :: "bool \<Rightarrow> (string \<Rightarrow> string) \<Rightarrow> string option \<Rightarrow> go_error \<Rightarrow> api_response" where
  "read_failure cacheable patch stale err =
     (if isUpstreamAuthError err then api_writeError 401 reconnect_msg
      else (case stale of
              Some data \<Rightarrow> if cacheable then data_answer ''no-store'' (patch data)
                            else api_writeError 503 (outage_msg err)
            | None \<Rightarrow> api_writeError 503 (outage_msg err)))"

definition browse_fetch :: "api_env \<Rightarrow> 's Client \<Rightarrow> BrowseFilter \<Rightarrow> 's \<Rightarrow> go_error + string" where
  "browse_fetch e client f s =
     (case BrowseContext (ae_uni e) client False f s of
        Inl err \<Rightarrow> Inl err
      | Inr result \<Rightarrow> Inr (json_text (BrowseResponse_json (toBrowseResponse result))))"

definition handleBrowse :: "api_env \<Rightarrow> api_request \<Rightarrow> 's ApiServer \<Rightarrow> 's \<Rightarrow> 's api_result" where
  "handleBrowse e r sv s =
     with_client e r sv s (\<lambda>client _ r1.
       (let scope = server_readCacheScope (sv_hosted sv) r1 client;
            fetched = browse_fetch e client (parseQueryFilter r1) s;
            key = browseCacheKey scope r1;
            ((data, err), cache) =
              (if sp_cacheable scope then GetOrFetch e key fetched (sv_browseCache sv)
               else ((case fetched of Inr v \<Rightarrow> (v, None) | Inl err \<Rightarrow> ([], Some err)), sv_browseCache sv))
        in (case err of
              None \<Rightarrow> data_answer (cacheControl sv) data
            | Some err \<Rightarrow> read_failure (sp_cacheable scope) stale_browse (GetStale key cache) err,
            sv\<lparr>sv_browseCache := cache\<rparr>, s)))"

definition detail_fetch :: "'s Client \<Rightarrow> bool \<Rightarrow> string \<Rightarrow> 's \<Rightarrow> go_error + string" where
  "detail_fetch client cacheable wantedID s =
     (case DetailContext client cacheable wantedID s of
        Inl err \<Rightarrow> Inl err
      | Inr result \<Rightarrow>
          if cacheable \<and> dr_PendingReadIncomplete result then Inl (Err ''pending read incomplete'')
          else Inr (json_text (DetailResponse_json (toDetailResponse result (c_mode client)))))"

definition handleDetail :: "api_env \<Rightarrow> api_request \<Rightarrow> 's ApiServer \<Rightarrow> 's \<Rightarrow> 's api_result" where
  "handleDetail e r sv s =
     with_client e r sv s (\<lambda>client _ r1.
       (let wantedID = rq_value r1 ''id'';
            scope = server_readCacheScope (sv_hosted sv) r1 client;
            fetched = detail_fetch client (sp_cacheable scope) wantedID s;
            key = detailCacheKey scope wantedID;
            ((data, err), cache) =
              (if sp_cacheable scope then GetOrFetch e key fetched (sv_detailCache sv)
               else ((case fetched of Inr v \<Rightarrow> (v, None) | Inl err \<Rightarrow> ([], Some err)), sv_detailCache sv))
        in (case err of
              None \<Rightarrow> data_answer (cacheControl sv) data
            | Some err \<Rightarrow>
                if Contains (Error err) ''not found'' then api_writeError 404 (Error err)
                else read_failure (sp_cacheable scope) (\<lambda>d. d) (GetStale key cache) err,
            sv\<lparr>sv_detailCache := cache\<rparr>, s)))"

definition handleDashboard :: "api_env \<Rightarrow> api_request \<Rightarrow> 's ApiServer \<Rightarrow> 's \<Rightarrow> 's api_result" where
  "handleDashboard e r sv s =
     with_client e r sv s (\<lambda>client _ r1.
       (case DashboardContext client s of
          Inl err \<Rightarrow> writeUpstreamError err
        | Inr data \<Rightarrow> api_writeJSON 200 (DashboardResponse_json (toDashboardResponse data)), sv, s))"

definition handleBootstrap :: "api_env \<Rightarrow> api_request \<Rightarrow> 's ApiServer \<Rightarrow> 's \<Rightarrow> 's api_result" where
  "handleBootstrap e r sv s =
     (let client = (case sv_clientFunc sv r of
                      Inr i \<Rightarrow> Some (fst (maybeImpersonateClient e sv r i))
                    | Inl _ \<Rightarrow> map_option (\<lambda>i. fst (maybeImpersonateClient e sv r i)) (sv_publicClient sv))
      in (api_writeJSON 200 (BootstrapResponse_json
            \<lparr>oj_Connected = (client \<noteq> None), oj_Hosted = sv_hosted sv,
             oj_RigHandle = (case client of Some c \<Rightarrow> c_rigHandle c | None \<Rightarrow> []),
             oj_Environment = effectiveEnvironment e sv,
             oj_ActiveUpstream = Get (rq_headers r) ''X-Wasteland'',
             oj_Mode = (case client of Some c \<Rightarrow> c_mode c | None \<Rightarrow> [])\<rparr>), sv, s))"

definition toUpstreamInfoJSON :: "UpstreamInfo \<Rightarrow> UpstreamInfoJSON" where
  "toUpstreamInfoJSON info =
     \<lparr>nj_Upstream = ui_Upstream info, nj_ForkOrg = ui_ForkOrg info, nj_ForkDB = ui_ForkDB info,
      nj_Mode = ui_Mode info\<rparr>"

definition handleConfig :: "api_env \<Rightarrow> api_request \<Rightarrow> 's ApiServer \<Rightarrow> 's \<Rightarrow> 's api_result" where
  "handleConfig e r sv s =
     with_client e r sv s (\<lambda>client _ r1.
       (let upstreams = (case sv_workspaceFunc sv of
                           Some f \<Rightarrow> (case f r1 of Inr (Some w) \<Rightarrow> map toUpstreamInfoJSON (Upstreams w) | _ \<Rightarrow> [])
                         | None \<Rightarrow> [])
        in (api_writeJSON 200 (ConfigResponse_json
              \<lparr>gj_RigHandle = c_rigHandle client, gj_Mode = c_mode client, gj_Hosted = sv_hosted sv,
               gj_Connected = sv_hosted sv, gj_Upstream = Get (rq_headers r1) ''X-Wasteland'',
               gj_Upstreams = upstreams\<rparr>), sv, s)))"

section \<open>Mutations\<close>

text \<open>
  The end of every mutation handler: an error is answered, a success invalidates what it may have
  changed; \<open>status\<close> is the answer's.
\<close>

definition mutation_answer ::
  "int \<Rightarrow> api_request \<Rightarrow> 's Client \<Rightarrow> ('s ApiServer \<Rightarrow> 's ApiServer) \<Rightarrow> 's ApiServer \<Rightarrow> 's outcome \<Rightarrow> 's api_result" where
  "mutation_answer status r client invalidate sv out =
     (case out of
        (Inl err, s1) \<Rightarrow> (writeMutationError err, sv, s1)
      | (Inr result, s1) \<Rightarrow>
          (api_writeJSON status (MutationResponse_json (toMutationResponse result (c_mode client))),
           invalidate sv, run_invalidator sv r s1))"

text \<open>\<^verbatim>\<open>decodeJSON\<close> into what \<open>decode\<close> reads.\<close>

definition with_body ::
  "api_env \<Rightarrow> api_request \<Rightarrow> (string \<Rightarrow> 'a option) \<Rightarrow> 's ApiServer \<Rightarrow> 's \<Rightarrow> ('a \<Rightarrow> 's api_result) \<Rightarrow> 's api_result" where
  "with_body e r decode sv s f =
     (case rq_body r of
        Inl err \<Rightarrow> (api_writeError 400 (''invalid JSON: '' @ Error err), sv, s)
      | Inr body \<Rightarrow>
          (case decode body of
             None \<Rightarrow> (api_writeError 400 (''invalid JSON: '' @ json_error (ae_json e) body), sv, s)
           | Some req \<Rightarrow> f req))"

definition bad_request :: "string \<Rightarrow> 's ApiServer \<Rightarrow> 's \<Rightarrow> 's api_result" where
  "bad_request msg sv s = (api_writeError 400 msg, sv, s)"

definition handlePost :: "api_env \<Rightarrow> api_request \<Rightarrow> 's ApiServer \<Rightarrow> 's \<Rightarrow> 's api_result" where
  "handlePost e r sv s =
     with_client e r sv s (\<lambda>client _ r1.
       with_body e r1 decode_post sv s (\<lambda>req.
         if pq_Title req = [] then bad_request ''title is required'' sv s
         else mutation_answer 201 r1 client (invalidateBrowseReadCaches r1 client) sv
                (Post (ae_clock e) client
                   \<lparr>po_Title = pq_Title req, po_Description = pq_Description req, po_Project = pq_Project req,
                    po_Type = pq_Type req, po_Priority = pq_Priority req, po_EffortLevel = pq_EffortLevel req,
                    po_Tags = pq_Tags req\<rparr> s)))"

definition handleUpdate :: "api_env \<Rightarrow> api_request \<Rightarrow> 's ApiServer \<Rightarrow> 's \<Rightarrow> 's api_result" where
  "handleUpdate e r sv s =
     with_client e r sv s (\<lambda>client _ r1.
       (let wantedID = rq_value r1 ''id''
        in with_body e r1 decode_update sv s (\<lambda>req.
             mutation_answer 200 r1 client (invalidateReadCaches r1 client wantedID) sv
               (Update client wantedID
                  \<lparr>wu_Title = uq_Title req, wu_Description = uq_Description req, wu_Project = uq_Project req,
                   wu_Type = uq_Type req, wu_Priority = (case uq_Priority req of Some p \<Rightarrow> p | None \<Rightarrow> -1),
                   wu_EffortLevel = uq_EffortLevel req, wu_Tags = uq_Tags req, wu_TagsSet = uq_TagsSet req\<rparr> s))))"

text \<open>The handlers without a body: delete, claim, unclaim and close.\<close>

definition item_mutation ::
  "('s Client \<Rightarrow> string \<Rightarrow> 's \<Rightarrow> 's outcome) \<Rightarrow> api_env \<Rightarrow> api_request \<Rightarrow> 's ApiServer \<Rightarrow> 's \<Rightarrow> 's api_result" where
  "item_mutation f e r sv s =
     with_client e r sv s (\<lambda>client _ r1.
       (let wantedID = rq_value r1 ''id''
        in mutation_answer 200 r1 client (invalidateReadCaches r1 client wantedID) sv (f client wantedID s)))"

definition handleDelete :: "api_env \<Rightarrow> api_request \<Rightarrow> 's ApiServer \<Rightarrow> 's \<Rightarrow> 's api_result" where
  "handleDelete e r sv s = item_mutation Delete e r sv s"

definition handleClaim :: "api_env \<Rightarrow> api_request \<Rightarrow> 's ApiServer \<Rightarrow> 's \<Rightarrow> 's api_result" where
  "handleClaim e r sv s = item_mutation Claim e r sv s"

definition handleUnclaim :: "api_env \<Rightarrow> api_request \<Rightarrow> 's ApiServer \<Rightarrow> 's \<Rightarrow> 's api_result" where
  "handleUnclaim e r sv s = item_mutation Unclaim e r sv s"

definition handleClose :: "api_env \<Rightarrow> api_request \<Rightarrow> 's ApiServer \<Rightarrow> 's \<Rightarrow> 's api_result" where
  "handleClose e r sv s = item_mutation Close e r sv s"

definition handleDone :: "api_env \<Rightarrow> api_request \<Rightarrow> 's ApiServer \<Rightarrow> 's \<Rightarrow> 's api_result" where
  "handleDone e r sv s =
     with_client e r sv s (\<lambda>client _ r1.
       (let wantedID = rq_value r1 ''id''
        in with_body e r1 (decode_one ''evidence'') sv s (\<lambda>evidence.
             if evidence = [] then bad_request ''evidence is required'' sv s
             else mutation_answer 200 r1 client (invalidateReadCaches r1 client wantedID) sv
                    (Done (ae_clock e) client wantedID evidence s))))"

definition handleReject :: "api_env \<Rightarrow> api_request \<Rightarrow> 's ApiServer \<Rightarrow> 's \<Rightarrow> 's api_result" where
  "handleReject e r sv s =
     with_client e r sv s (\<lambda>client _ r1.
       (let wantedID = rq_value r1 ''id''
        in with_body e r1 (decode_one ''reason'') sv s (\<lambda>reason.
             mutation_answer 200 r1 client (invalidateReadCaches r1 client wantedID) sv
               (Reject client wantedID reason s))))"

text \<open>What both accepts make of the ratings.\<close>

definition accept_input :: "AcceptRequest \<Rightarrow> AcceptInput" where
  "accept_input req =
     \<lparr>ai_Quality = aq_Quality req,
      ai_Reliability = (if aq_Reliability req = 0 then aq_Quality req else aq_Reliability req),
      ai_Severity = (if aq_Severity req = [] then ''leaf'' else aq_Severity req),
      ai_SkillTags = aq_SkillTags req, ai_Message = aq_Message req\<rparr>"

definition quality_ok :: "AcceptRequest \<Rightarrow> bool" where
  "quality_ok req \<longleftrightarrow> 1 \<le> aq_Quality req \<and> aq_Quality req \<le> 5"

definition handleAccept :: "api_env \<Rightarrow> api_request \<Rightarrow> 's ApiServer \<Rightarrow> 's \<Rightarrow> 's api_result" where
  "handleAccept e r sv s =
     with_client e r sv s (\<lambda>client _ r1.
       (let wantedID = rq_value r1 ''id''
        in with_body e r1 decode_accept sv s (\<lambda>req.
             if \<not> quality_ok req then bad_request ''quality must be 1-5'' sv s
             else mutation_answer 200 r1 client (invalidateReadCaches r1 client wantedID) sv
                    (Accept (ae_clock e) client wantedID (accept_input req) s))))"

definition selector_of :: "UpstreamRequest \<Rightarrow> UpstreamSubmissionSelector" where
  "selector_of req = \<lparr>us_RigHandle = xq_RigHandle req, us_PRURL = xq_PRURL req\<rparr>"

definition handleAcceptUpstream :: "api_env \<Rightarrow> api_request \<Rightarrow> 's ApiServer \<Rightarrow> 's \<Rightarrow> 's api_result" where
  "handleAcceptUpstream e r sv s =
     with_client e r sv s (\<lambda>client _ r1.
       (let wantedID = rq_value r1 ''id''
        in with_body e r1 decode_accept_upstream sv s (\<lambda>(up, req).
             if xq_RigHandle up = [] then bad_request ''rig_handle is required'' sv s
             else if \<not> quality_ok req then bad_request ''quality must be 1-5'' sv s
             else mutation_answer 200 r1 client (invalidateReadCaches r1 client wantedID) sv
                    (AcceptUpstreamSelected (ae_clock e) client wantedID (selector_of up) (accept_input req) s))))"

definition handleRejectUpstream :: "api_env \<Rightarrow> api_request \<Rightarrow> 's ApiServer \<Rightarrow> 's \<Rightarrow> 's api_result" where
  "handleRejectUpstream e r sv s =
     with_client e r sv s (\<lambda>client _ r1.
       (let wantedID = rq_value r1 ''id''
        in with_body e r1 decode_upstream sv s (\<lambda>up.
             if xq_RigHandle up = [] then bad_request ''rig_handle is required'' sv s
             else (case RejectUpstreamSelected client wantedID (selector_of up) s of
                     (Some err, s1) \<Rightarrow> (writeMutationError err, sv, s1)
                   | (None, s1) \<Rightarrow> (api_writeJSON 200 (status_json ''rejected''),
                                     invalidateReadCaches r1 client wantedID sv, run_invalidator sv r1 s1)))))"

definition handleCloseUpstream :: "api_env \<Rightarrow> api_request \<Rightarrow> 's ApiServer \<Rightarrow> 's \<Rightarrow> 's api_result" where
  "handleCloseUpstream e r sv s =
     with_client e r sv s (\<lambda>client _ r1.
       (let wantedID = rq_value r1 ''id''
        in with_body e r1 decode_upstream sv s (\<lambda>up.
             if xq_RigHandle up = [] then bad_request ''rig_handle is required'' sv s
             else mutation_answer 200 r1 client (invalidateReadCaches r1 client wantedID) sv
                    (CloseUpstreamSelected (ae_clock e) client wantedID (selector_of up) s))))"

section \<open>Branches and settings\<close>

text \<open>A branch operation that invalidates the upstream when it succeeds.\<close>

definition branch_answer ::
  "int \<Rightarrow> string \<Rightarrow> api_request \<Rightarrow> 's Client \<Rightarrow> 's ApiServer \<Rightarrow> go_error option \<times> 's \<Rightarrow> 's api_result" where
  "branch_answer failure status r client sv out =
     (case out of
        (Some err, s1) \<Rightarrow> (api_writeError failure (Error err), sv, s1)
      | (None, s1) \<Rightarrow> (api_writeJSON 200 (status_json status), invalidateUpstreamReadCaches r client sv,
                       run_invalidator sv r s1))"

definition handleApplyBranch :: "api_env \<Rightarrow> api_request \<Rightarrow> 's ApiServer \<Rightarrow> 's \<Rightarrow> 's api_result" where
  "handleApplyBranch e r sv s =
     with_client e r sv s (\<lambda>client _ r1.
       branch_answer 400 ''applied'' r1 client sv (ApplyBranch client (rq_value r1 ''branch'') s))"

definition handleDiscardBranch :: "api_env \<Rightarrow> api_request \<Rightarrow> 's ApiServer \<Rightarrow> 's \<Rightarrow> 's api_result" where
  "handleDiscardBranch e r sv s =
     with_client e r sv s (\<lambda>client _ r1.
       branch_answer 400 ''discarded'' r1 client sv (DiscardBranch client (rq_value r1 ''branch'') s))"

definition handleSubmitPR :: "api_env \<Rightarrow> api_request \<Rightarrow> 's ApiServer \<Rightarrow> 's \<Rightarrow> 's api_result" where
  "handleSubmitPR e r sv s =
     with_client e r sv s (\<lambda>client _ r1.
       (case SubmitPR client (rq_value r1 ''branch'') s of
          (Inl err, s1) \<Rightarrow> (api_writeError 400 (Error err), sv, s1)
        | (Inr url, s1) \<Rightarrow> (api_writeJSON 200 (JObj (str_mem ''url'' url)), sv, s1)))"

definition handleBranchDiff :: "api_env \<Rightarrow> api_request \<Rightarrow> 's ApiServer \<Rightarrow> 's \<Rightarrow> 's api_result" where
  "handleBranchDiff e r sv s =
     with_client e r sv s (\<lambda>client _ r1.
       (case BranchDiff client (rq_value r1 ''branch'') s of
          Inl err \<Rightarrow> api_writeError 400 (Error err)
        | Inr diff \<Rightarrow> api_writeJSON 200 (JObj (str_mem ''diff'' diff)), sv, s))"

text \<open>Settings go into the shared client; on an impersonating copy they are lost with it.\<close>

definition set_client :: "nat option \<Rightarrow> 's Client \<Rightarrow> 's ApiServer \<Rightarrow> 's ApiServer" where
  "set_client a client sv =
     (case a of Some i \<Rightarrow> sv\<lparr>sv_clients := (sv_clients sv)(i := client)\<rparr> | None \<Rightarrow> sv)"

definition handleSaveSettings :: "api_env \<Rightarrow> api_request \<Rightarrow> 's ApiServer \<Rightarrow> 's \<Rightarrow> 's api_result" where
  "handleSaveSettings e r sv s =
     with_client e r sv s (\<lambda>client a r1.
       with_body e r1 decode_api_settings sv s (\<lambda>req.
         if sq_Mode req \<noteq> ''wild-west'' \<and> sq_Mode req \<noteq> ''pr''
         then bad_request ''mode must be \"wild-west\" or \"pr\"'' sv s
         else (case SaveSettings client (sq_Mode req) (sq_Signing req) s of
                 (Some err, client1, s1) \<Rightarrow> (api_writeError 400 (Error err), sv, s1)
               | (None, client1, s1) \<Rightarrow> (api_writeJSON 200 (status_json ''saved''), set_client a client1 sv, s1))))"

definition handleSync :: "api_env \<Rightarrow> api_request \<Rightarrow> 's ApiServer \<Rightarrow> 's \<Rightarrow> 's api_result" where
  "handleSync e r sv s =
     with_client e r sv s (\<lambda>client _ r1. branch_answer 500 ''synced'' r1 client sv (Sync client s))"

section \<open>Routes\<close>

datatype api_route =
    ABootstrap | ABrowse | ADetail | ADashboard | AConfig | APost | AUpdate | ADelete | AClaim | AUnclaim | ADone
  | AAccept | AAcceptUpstream | ARejectUpstream | ACloseUpstream | AReject | AClose | AApplyBranch | ADiscardBranch
  | ASubmitPR | ABranchDiff | ASaveSettings | ASync

fun api_handle :: "api_env \<Rightarrow> api_route \<Rightarrow> api_request \<Rightarrow> 's ApiServer \<Rightarrow> 's \<Rightarrow> 's api_result" where
  "api_handle e ABootstrap r sv s = handleBootstrap e r sv s"
| "api_handle e ABrowse r sv s = handleBrowse e r sv s"
| "api_handle e ADetail r sv s = handleDetail e r sv s"
| "api_handle e ADashboard r sv s = handleDashboard e r sv s"
| "api_handle e AConfig r sv s = handleConfig e r sv s"
| "api_handle e APost r sv s = handlePost e r sv s"
| "api_handle e AUpdate r sv s = handleUpdate e r sv s"
| "api_handle e ADelete r sv s = handleDelete e r sv s"
| "api_handle e AClaim r sv s = handleClaim e r sv s"
| "api_handle e AUnclaim r sv s = handleUnclaim e r sv s"
| "api_handle e ADone r sv s = handleDone e r sv s"
| "api_handle e AAccept r sv s = handleAccept e r sv s"
| "api_handle e AAcceptUpstream r sv s = handleAcceptUpstream e r sv s"
| "api_handle e ARejectUpstream r sv s = handleRejectUpstream e r sv s"
| "api_handle e ACloseUpstream r sv s = handleCloseUpstream e r sv s"
| "api_handle e AReject r sv s = handleReject e r sv s"
| "api_handle e AClose r sv s = handleClose e r sv s"
| "api_handle e AApplyBranch r sv s = handleApplyBranch e r sv s"
| "api_handle e ADiscardBranch r sv s = handleDiscardBranch e r sv s"
| "api_handle e ASubmitPR r sv s = handleSubmitPR e r sv s"
| "api_handle e ABranchDiff r sv s = handleBranchDiff e r sv s"
| "api_handle e ASaveSettings r sv s = handleSaveSettings e r sv s"
| "api_handle e ASync r sv s = handleSync e r sv s"

text \<open>
  Cache keys keep requests apart: what can be read back from a key, and which keys an invalidation
  reaches.
\<close>

section \<open>Escaping\<close>

definition url_bytes :: string where
  "url_bytes = ''ABCDEFGHIJKLMNOPQRSTUVWXYZabcdefghijklmnopqrstuvwxyz0123456789-_.~+%''"

lemma url_plain_bytes: "url_plain c \<Longrightarrow> c \<in> set url_bytes \<and> c \<noteq> CHR ''%'' \<and> c \<noteq> CHR ''+''"
  by (auto simp: url_plain_def url_bytes_def)

lemma hex_upper_bytes: "d < 16 \<Longrightarrow> hex_upper d \<in> set url_bytes"
proof -
  have "list_all (\<lambda>d. hex_upper d \<in> set url_bytes) [0..<16]" by code_simp
  then show "d < 16 \<Longrightarrow> ?thesis" by (simp only: list_all_iff set_upt) simp
qed

lemma hex_val_upper: "d < 16 \<Longrightarrow> hex_val (hex_upper d) = Some d"
  by (auto simp: hex_val_def hex_upper_def in_range_def code_of_def)

lemma code_lt: "code_of c < 256"
  by (simp add: code_of_def)

lemma QueryUnescape_percent: "QueryUnescape (percent c @ r) = map_option ((#) c) (QueryUnescape r)"
proof -
  have "code_of c div 16 < 16" "code_of c mod 16 < 16" using code_lt [of c] by auto
  then have "hex_val (hex_upper (code_of c div 16)) = Some (code_of c div 16)"
    "hex_val (hex_upper (code_of c mod 16)) = Some (code_of c mod 16)"
    by (simp_all only: hex_val_upper)
  then show ?thesis by (simp add: percent_def)
qed

lemma QueryEscape_Cons:
  "QueryEscape (c # s) =
     (if url_plain c then [c] else if c = space_ch then ''+'' else percent c) @ QueryEscape s"
  by (simp add: QueryEscape_def)

lemma QueryUnescape_Escape: "QueryUnescape (QueryEscape s) = Some s"
proof (induction s)
  case Nil
  show ?case by (simp add: QueryEscape_def)
next
  case (Cons c s)
  consider "url_plain c" | "\<not> url_plain c" "c = space_ch" | "\<not> url_plain c" "c \<noteq> space_ch" by blast
  then show ?case
  proof cases
    case 1
    then show ?thesis using Cons url_plain_bytes [of c] by (simp add: QueryEscape_Cons)
  next
    case 2
    then show ?thesis using Cons by (simp add: QueryEscape_Cons)
  next
    case 3
    then show ?thesis using Cons by (simp add: QueryEscape_Cons QueryUnescape_percent)
  qed
qed

lemma QueryEscape_inj: "QueryEscape s = QueryEscape t \<longleftrightarrow> s = t"
  by (metis QueryUnescape_Escape option.inject)

lemma percent_bytes: "set (percent c) \<subseteq> set url_bytes"
proof -
  have "code_of c div 16 < 16" "code_of c mod 16 < 16" using code_lt [of c] by auto
  then show ?thesis by (simp add: percent_def hex_upper_bytes) (simp add: url_bytes_def)
qed

lemma QueryEscape_bytes: "set (QueryEscape s) \<subseteq> set url_bytes"
proof (induction s)
  case Nil
  show ?case by (simp add: QueryEscape_def)
next
  case (Cons c s)
  have "CHR ''+'' \<in> set url_bytes" by (simp add: url_bytes_def)
  with Cons show ?case using percent_bytes [of c] url_plain_bytes [of c] by (auto simp: QueryEscape_Cons)
qed

lemma url_bytes_seps: "CHR '':'' \<notin> set url_bytes" "CHR ''&'' \<notin> set url_bytes" "CHR ''='' \<notin> set url_bytes"
    "CHR '';'' \<notin> set url_bytes"
  by (simp_all add: url_bytes_def)

lemma QueryEscape_seps:
  "CHR '':'' \<notin> set (QueryEscape s)" "CHR ''&'' \<notin> set (QueryEscape s)" "CHR ''='' \<notin> set (QueryEscape s)"
  "CHR '';'' \<notin> set (QueryEscape s)"
  using QueryEscape_bytes [of s] url_bytes_seps by blast+

section \<open>Lists of parts\<close>

lemma Split_Join: "xs \<noteq> [] \<Longrightarrow> list_all (\<lambda>x. c \<notin> set x) xs \<Longrightarrow> Split (Prelude.Join xs [c]) c = xs"
proof (induction xs)
  case (Cons x xs)
  then show ?case by (cases xs) (auto simp: Join_Cons Split_single Split_append)
qed simp

lemma Join_inj:
  assumes "xs \<noteq> []" "ys \<noteq> []" "list_all (\<lambda>x. c \<notin> set x) xs" "list_all (\<lambda>x. c \<notin> set x) ys"
    and "Prelude.Join xs [c] = Prelude.Join ys [c]"
  shows "xs = ys"
  using assms by (metis Split_Join)

section \<open>Encoded values\<close>

definition pair_text :: "string \<times> string \<Rightarrow> string" where
  "pair_text p = QueryEscape (fst p) @ ''='' @ QueryEscape (snd p)"

lemma pair_text_no_amp: "CHR ''&'' \<notin> set (pair_text p)"
  by (simp add: pair_text_def QueryEscape_seps)

lemma parse_pair_text: "parse_pair (pair_text p) = Some p"
proof -
  have "Cut (pair_text p) (CHR ''='') = (QueryEscape (fst p), QueryEscape (snd p), True)"
    using QueryEscape_seps(3) [of "fst p"] by (simp add: Cut_def pair_text_def takeWhile_append dropWhile_append)
  then show ?thesis
    using QueryEscape_seps(4) [of "fst p"] QueryEscape_seps(4) [of "snd p"]
    by (simp add: parse_pair_def pair_text_def QueryUnescape_Escape)
qed

lemma encode_values_eq: "encode_values ps = Prelude.Join (map pair_text (foldr insert_key ps [])) ''&''"
  by (simp add: encode_values_def pair_text_def [abs_def])

lemma pair_text_inj: "map pair_text ps = map pair_text qs \<Longrightarrow> ps = qs"
  by (rule map_injective) (auto intro: inj_on_inverseI [where g = "the \<circ> parse_pair"] simp: parse_pair_text)

lemma set_insert_keys: "set (foldr insert_key ps []) = set ps"
proof -
  have "set (insert_key p qs) = insert p (set qs)" for p qs by (induction qs) auto
  then show ?thesis by (induction ps) auto
qed

lemma encode_values_inj:
  assumes "encode_values ps = encode_values qs"
  shows "set ps = set qs"
proof -
  let ?x = "foldr insert_key ps []" and ?y = "foldr insert_key qs []"
  have eq: "Prelude.Join (map pair_text ?x) ''&'' = Prelude.Join (map pair_text ?y) ''&''"
    using assms by (simp add: encode_values_eq)
  have ne: "Prelude.Join (map pair_text (p # zs)) ''&'' \<noteq> []" for p zs
    by (simp add: Join_Cons pair_text_def)
  have "?x = ?y"
  proof (cases "?x = [] \<or> ?y = []")
    case True
    then show ?thesis using eq ne by (metis list.exhaust list.simps(8) Prelude.Join.simps(1))
  next
    case False
    then have "map pair_text ?x = map pair_text ?y"
      using eq by (intro Join_inj [where c = "CHR ''&''"]) (auto simp: list_all_iff pair_text_no_amp)
    then show ?thesis by (rule pair_text_inj)
  qed
  then show ?thesis by (metis set_insert_keys)
qed

text \<open>Encoded values have no space at their ends, so that trimming leaves them.\<close>

lemma encode_values_bytes: "set (encode_values ps) \<subseteq> set (url_bytes @ ''&='')"
proof -
  have "set (pair_text p) \<subseteq> set (url_bytes @ ''&='')" for p
    using QueryEscape_bytes [of "fst p"] QueryEscape_bytes [of "snd p"] by (auto simp: pair_text_def)
  then have "set (Prelude.Join (map pair_text qs) ''&'') \<subseteq> set (url_bytes @ ''&='')" for qs
    by (induction qs) (auto simp: Join_Cons)
  then show ?thesis by (simp only: encode_values_eq)
qed

lemma visible_bytes:
  "list_all (\<lambda>c. list_all (\<lambda>r. r \<noteq> [] \<and> hd r \<noteq> c) space_runes \<and> list_all (\<lambda>r. r \<noteq> [] \<and> hd r \<noteq> c) (map rev space_runes))
     (url_bytes @ ''&='')"
  by code_simp

lemma TrimSpace_visible:
  assumes "set s \<subseteq> set (url_bytes @ ''&='')"
  shows "TrimSpace s = s"
proof (cases "s = []")
  case True
  then show ?thesis by (simp add: TrimSpace_def trim_front.simps)
next
  case False
  then have "hd s \<in> set (url_bytes @ ''&='')" "last s \<in> set (url_bytes @ ''&='')"
    using assms by (meson hd_in_set last_in_set subsetD)+
  then have "list_all (\<lambda>r. r \<noteq> [] \<and> hd r \<noteq> hd s) space_runes"
    "list_all (\<lambda>r. r \<noteq> [] \<and> hd r \<noteq> last s) (map rev space_runes)"
    using visible_bytes unfolding list_all_iff [of _ "url_bytes @ ''&=''"] by blast+
  then show ?thesis using False by (intro TrimSpace_ends)
qed

section \<open>Keys\<close>

text \<open>What of a scope is in a key.\<close>

definition scope_key :: "readCacheScope \<Rightarrow> string \<times> string \<times> string \<times> string" where
  "scope_key sc =
     (TrimSpace (sp_upstream sc), TrimSpace (sp_viewer sc), TrimSpace (sp_mode sc), TrimSpace (sp_impersonate sc))"

lemma cacheKeyPart_inj: "cacheKeyPart a = cacheKeyPart b \<longleftrightarrow> TrimSpace a = TrimSpace b"
  by (simp add: cacheKeyPart_def QueryEscape_inj)

lemma cacheKeyPart_sep: "CHR '':'' \<notin> set (cacheKeyPart a)"
  by (simp add: cacheKeyPart_def QueryEscape_seps)

lemma five_parts:
  assumes "Prelude.Join (w # map cacheKeyPart xs) '':'' = Prelude.Join (w # map cacheKeyPart ys) '':''"
    and "CHR '':'' \<notin> set w"
  shows "map TrimSpace xs = map TrimSpace ys"
proof -
  have "w # map cacheKeyPart xs = w # map cacheKeyPart ys"
    using assms by (intro Join_inj [where c = "CHR '':''"]) (auto simp: list_all_iff cacheKeyPart_sep)
  then have "map (QueryEscape \<circ> TrimSpace) xs = map (QueryEscape \<circ> TrimSpace) ys"
    by (simp add: cacheKeyPart_def [abs_def] comp_def)
  then have "map QueryEscape (map TrimSpace xs) = map QueryEscape (map TrimSpace ys)" by simp
  then show ?thesis by (rule map_injective) (simp add: inj_def QueryEscape_inj)
qed

lemma browse_key_params:
  assumes "canonicalBrowseKey r = canonicalBrowseKey r'" and "k \<in> set browse_params"
  shows "query_get r k = query_get r' k"
proof -
  let ?ps = "\<lambda>r. map (\<lambda>k. (k, query_get r k)) (filter (\<lambda>k. query_get r k \<noteq> []) browse_params)"
  have sets: "set (?ps r) = set (?ps r')"
    using assms(1) by (intro encode_values_inj) (simp only: canonicalBrowseKey_def)
  have "query_get r k \<noteq> [] \<Longrightarrow> (k, query_get r k) \<in> set (?ps r')"
    and "query_get r' k \<noteq> [] \<Longrightarrow> (k, query_get r' k) \<in> set (?ps r)"
    unfolding sets [symmetric] using assms(2) sets by auto
  then show ?thesis by (cases "query_get r k = []"; cases "query_get r' k = []") auto
qed

lemma browse_key_fields:
  assumes "browseCacheKey sc r = browseCacheKey sc' r'"
  shows "scope_key sc = scope_key sc' \<and> parseQueryFilter r = parseQueryFilter r'"
proof -
  let ?f = "\<lambda>sc r. [sp_upstream sc, sp_viewer sc, sp_mode sc, sp_impersonate sc, canonicalBrowseKey r]"
  have "map TrimSpace (?f sc r) = map TrimSpace (?f sc' r')"
    using assms by (intro five_parts [where w = "''browse''"]) (simp_all add: browseCacheKey_def)
  moreover have "TrimSpace (canonicalBrowseKey q) = canonicalBrowseKey q" for q
    unfolding canonicalBrowseKey_def by (rule TrimSpace_visible [OF encode_values_bytes])
  ultimately have scope: "scope_key sc = scope_key sc'" and "canonicalBrowseKey r = canonicalBrowseKey r'"
    by (simp_all add: scope_key_def)
  then have "query_get r k = query_get r' k" if "k \<in> set browse_params" for k
    using that by (intro browse_key_params)
  then show ?thesis using scope by (simp add: browse_params_def parseQueryFilter_def parseIntParam_def)
qed

lemma detail_key_fields:
  assumes "detailCacheKey sc i = detailCacheKey sc' i'"
  shows "scope_key sc = scope_key sc' \<and> TrimSpace i = TrimSpace i'"
proof -
  let ?f = "\<lambda>sc i. [sp_upstream sc, sp_viewer sc, sp_mode sc, sp_impersonate sc, i]"
  have "map TrimSpace (?f sc i) = map TrimSpace (?f sc' i')"
    using assms by (intro five_parts [where w = "''detail''"]) (simp_all add: detailCacheKey_def)
  then show ?thesis by (simp add: scope_key_def)
qed

section \<open>Invalidations\<close>

lemma split_at_sep: "c \<notin> set a \<Longrightarrow> c \<notin> set b \<Longrightarrow> a @ c # x = b @ c # y \<longleftrightarrow> a = b \<and> x = y"
proof (induction a arbitrary: b)
  case Nil
  then show ?case by (cases b) auto
next
  case (Cons d a)
  then show ?case by (cases b) auto
qed

lemma prefix_part:
  "HasPrefix (Prelude.Join (w # cacheKeyPart u # rest) '':'') (Prelude.Join [w, cacheKeyPart v] '':'' @ '':'')
     \<longleftrightarrow> TrimSpace u = TrimSpace v" if "rest \<noteq> []"
proof -
  have "HasPrefix (Prelude.Join (w # cacheKeyPart u # rest) '':'') (Prelude.Join [w, cacheKeyPart v] '':'' @ '':'')
    \<longleftrightarrow> (\<exists>y. cacheKeyPart u @ CHR '':'' # Prelude.Join rest '':'' = cacheKeyPart v @ CHR '':'' # y)"
    using that by (auto simp: HasPrefix_iff Join_Cons)
  also have "\<dots> \<longleftrightarrow> cacheKeyPart u = cacheKeyPart v" by (auto simp: split_at_sep cacheKeyPart_sep)
  finally show ?thesis by (simp only: cacheKeyPart_inj)
qed

lemma browse_prefix_key:
  "HasPrefix (browseCacheKey sc r) (browseCachePrefix u) \<longleftrightarrow> TrimSpace (sp_upstream sc) = TrimSpace u"
  by (simp only: browseCacheKey_def browseCachePrefix_def) (rule prefix_part, simp)

lemma detail_prefix_key:
  "HasPrefix (detailCacheKey sc i) (detailCachePrefix u) \<longleftrightarrow> TrimSpace (sp_upstream sc) = TrimSpace u"
  by (simp only: detailCacheKey_def detailCachePrefix_def) (rule prefix_part, simp)

lemma detail_suffix_key: "HasSuffix (detailCacheKey sc i) (detailCacheSuffix j) \<longleftrightarrow> TrimSpace i = TrimSpace j"
proof -
  obtain a where "detailCacheKey sc i = a @ CHR '':'' # cacheKeyPart i"
    by (simp add: detailCacheKey_def Join_Cons)
  then have "HasSuffix (detailCacheKey sc i) (detailCacheSuffix j)
    \<longleftrightarrow> (\<exists>y. rev (cacheKeyPart i) @ CHR '':'' # rev a = rev (cacheKeyPart j) @ CHR '':'' # y)"
    by (simp add: HasSuffix_def detailCacheSuffix_def HasPrefix_iff)
  also have "\<dots> \<longleftrightarrow> cacheKeyPart i = cacheKeyPart j"
    using cacheKeyPart_sep [of i] cacheKeyPart_sep [of j] by (auto simp: split_at_sep)
  finally show ?thesis by (simp only: cacheKeyPart_inj)
qed

end
