(* ===== verification/ApiRuns.thy ===== *)
theory ApiRuns
  imports ApiHandlers CacheProps
begin

text \<open>
  Sequences of requests to the HTTP API: what each handler does to the caches, and where an entry of a
  cache comes from.
\<close>

section \<open>Requests in a row\<close>

record api_event =
  ev_env :: api_env
  ev_route :: api_route
  ev_req :: api_request

type_synonym 's api_state = "'s ApiServer \<times> 's"

definition api_answer :: "api_event \<Rightarrow> 's api_state \<Rightarrow> api_response" where
  "api_answer ev st = fst (api_handle (ev_env ev) (ev_route ev) (ev_req ev) (fst st) (snd st))"

definition api_step :: "api_event \<Rightarrow> 's api_state \<Rightarrow> 's api_state" where
  "api_step ev st = snd (api_handle (ev_env ev) (ev_route ev) (ev_req ev) (fst st) (snd st))"

definition api_run :: "api_event list \<Rightarrow> 's api_state \<Rightarrow> 's api_state" where
  "api_run evs st = fold api_step evs st"

lemma api_run_Nil [simp]: "api_run [] st = st"
  by (simp add: api_run_def)

lemma api_run_snoc [simp]: "api_run (evs @ [ev]) st = api_step ev (api_run evs st)"
  by (simp add: api_run_def)

text \<open>No request of a sequence does something.\<close>

fun untouched :: "(api_event \<Rightarrow> 's api_state \<Rightarrow> bool) \<Rightarrow> api_event list \<Rightarrow> 's api_state \<Rightarrow> bool" where
  "untouched P [] st = True"
| "untouched P (ev # evs) st = (\<not> P ev st \<and> untouched P evs (api_step ev st))"

lemma untouched_snoc: "untouched P (evs @ [ev]) st \<longleftrightarrow> untouched P evs st \<and> \<not> P ev (api_run evs st)"
  by (induction evs arbitrary: st) (auto simp: api_run_def)

section \<open>Where entries come from\<close>

text \<open>
  A read-through cache of the server: \<open>stores\<close> is what a request may put into it, \<open>busts\<close> which keys
  a request removes.
\<close>

locale read_through =
  fixes cache :: "'s ApiServer \<Rightarrow> ReadCache"
    and stores :: "api_event \<Rightarrow> 's api_state \<Rightarrow> string \<Rightarrow> string \<Rightarrow> bool"
    and busts :: "api_event \<Rightarrow> 's api_state \<Rightarrow> string \<Rightarrow> bool"
  assumes quiet: "rc_inflight (cache (fst st)) = [] \<Longrightarrow> rc_inflight (cache (fst (api_step ev st))) = []"
    and kept: "rc_inflight (cache (fst st)) = [] \<Longrightarrow>
      map_of (rc_entries (cache (fst (api_step ev st)))) key = Some x \<Longrightarrow>
      map_of (rc_entries (cache (fst st))) key = Some x \<and> \<not> busts ev st key
      \<or> stores ev st key (ce_data x) \<and> ce_storedAt x = ae_now (ev_env ev)"
    and age: "rc_maxAge (cache (fst (api_step ev st))) = rc_maxAge (cache (fst st))"
begin

lemma run_quiet: "rc_inflight (cache (fst st)) = [] \<Longrightarrow> rc_inflight (cache (fst (api_run evs st))) = []"
  by (induction evs rule: rev_induct) (auto intro: quiet)

lemma run_age: "rc_maxAge (cache (fst (api_run evs st))) = rc_maxAge (cache (fst st))"
  by (induction evs rule: rev_induct) (auto simp: age)

lemma entry_origin:
  assumes "rc_inflight (cache (fst st)) = []" and "rc_entries (cache (fst st)) = []"
    and "map_of (rc_entries (cache (fst (api_run evs st)))) key = Some x"
  shows "\<exists>before ev after. evs = before @ ev # after \<and> stores ev (api_run before st) key (ce_data x)
    \<and> ce_storedAt x = ae_now (ev_env ev)
    \<and> untouched (\<lambda>g t. busts g t key) after (api_run (before @ [ev]) st)"
  using assms(3)
proof (induction evs rule: rev_induct)
  case Nil
  then show ?case using assms(2) by simp
next
  case (snoc g evs)
  note q = run_quiet [OF assms(1), of evs]
  have "map_of (rc_entries (cache (fst (api_step g (api_run evs st))))) key = Some x"
    using snoc.prems by simp
  from kept [OF q this] show ?case
  proof
    assume old: "map_of (rc_entries (cache (fst (api_run evs st)))) key = Some x \<and> \<not> busts g (api_run evs st) key"
    then obtain before ev after where o: "evs = before @ ev # after" "stores ev (api_run before st) key (ce_data x)"
      "ce_storedAt x = ae_now (ev_env ev)" "untouched (\<lambda>g t. busts g t key) after (api_run (before @ [ev]) st)"
      using snoc.IH by blast
    have "api_run after (api_run (before @ [ev]) st) = api_run evs st" by (simp add: o(1) api_run_def)
    then have "untouched (\<lambda>g t. busts g t key) (after @ [g]) (api_run (before @ [ev]) st)"
      using o(4) old by (simp add: untouched_snoc)
    then show ?thesis
      by (intro exI [of _ before] exI [of _ ev] exI [of _ "after @ [g]"]) (simp add: o)
  next
    assume new: "stores g (api_run evs st) key (ce_data x) \<and> ce_storedAt x = ae_now (ev_env g)"
    then show ?thesis by (intro exI [of _ evs] exI [of _ g] exI [of _ "[]"]) simp
  qed
qed

end

section \<open>What a successful request changes\<close>

datatype change =
    NoChange
  | Everything
  | BoardOf string
  | ItemOf string string
  | UpstreamOf string

fun writes :: "api_route \<Rightarrow> bool" where
  "writes t \<longleftrightarrow> t \<in> {APost, AUpdate, ADelete, AClaim, AUnclaim, ADone, AAccept, AAcceptUpstream, ARejectUpstream,
     ACloseUpstream, AReject, AClose, AApplyBranch, ADiscardBranch, ASync}"

text \<open>
  The change a request makes when it is answered with success: to the board and one item of its
  upstream, to all of its upstream, or to an upstream that cannot be told.
\<close>

definition change_of :: "bool \<Rightarrow> api_route \<Rightarrow> readCacheScope \<Rightarrow> string \<Rightarrow> change" where
  "change_of canonical t scope wantedID =
     (if \<not> canonical then Everything
      else if t = APost then BoardOf (sp_upstream scope)
      else if t \<in> {AApplyBranch, ADiscardBranch, ASync} then UpstreamOf (sp_upstream scope)
      else ItemOf (sp_upstream scope) wantedID)"

definition change :: "api_event \<Rightarrow> 's api_state \<Rightarrow> change" where
  "change ev st =
     (if writes (ev_route ev) \<and> as_status (api_answer ev st) < 300
      then (case resolveClient (ev_env ev) (fst st) (ev_req ev) of
              Inl _ \<Rightarrow> NoChange
            | Inr (c, a, r1) \<Rightarrow>
                change_of (hasCanonicalHostedReadIdentity (fst st) r1) (ev_route ev)
                  (server_readCacheScope (sv_hosted (fst st)) r1 c) (rq_value r1 ''id''))
      else NoChange)"

fun affects_board :: "string \<Rightarrow> change \<Rightarrow> bool" where
  "affects_board u NoChange = False"
| "affects_board u Everything = True"
| "affects_board u (BoardOf v) = (TrimSpace v = u)"
| "affects_board u (ItemOf v i) = (TrimSpace v = u)"
| "affects_board u (UpstreamOf v) = (TrimSpace v = u)"

fun affects_item :: "string \<Rightarrow> string \<Rightarrow> change \<Rightarrow> bool" where
  "affects_item u i NoChange = False"
| "affects_item u i Everything = True"
| "affects_item u i (BoardOf v) = False"
| "affects_item u i (ItemOf v j) = (TrimSpace v = u \<and> TrimSpace j = i)"
| "affects_item u i (UpstreamOf v) = (TrimSpace v = u)"

text \<open>The invalidations that go with it.\<close>

fun bust :: "change \<Rightarrow> 's ApiServer \<Rightarrow> 's ApiServer" where
  "bust NoChange sv = sv"
| "bust Everything sv = invalidateAllCaches sv"
| "bust (BoardOf u) sv = invalidateBrowseCaches u sv"
| "bust (ItemOf u i) sv = invalidateDetailCaches u i (invalidateBrowseCaches u sv)"
| "bust (UpstreamOf u) sv =
     (invalidateBrowseCaches u sv)\<lparr>sv_detailCache :=
        InvalidateMatching (\<lambda>key. HasPrefix key (detailCachePrefix u)) (sv_detailCache sv)\<rparr>"

lemma invalidate_bust:
  "invalidateReadCaches r c i sv =
     bust (change_of (hasCanonicalHostedReadIdentity sv r) AClaim (server_readCacheScope (sv_hosted sv) r c) i) sv"
  "invalidateBrowseReadCaches r c sv =
     bust (change_of (hasCanonicalHostedReadIdentity sv r) APost (server_readCacheScope (sv_hosted sv) r c) i) sv"
  "invalidateUpstreamReadCaches r c sv =
     bust (change_of (hasCanonicalHostedReadIdentity sv r) ASync (server_readCacheScope (sv_hosted sv) r c) i) sv"
  by (simp_all add: invalidateReadCaches_def invalidateBrowseReadCaches_def invalidateUpstreamReadCaches_def
      change_of_def Let_def invalidateBrowseCaches_def)

section \<open>Refused or done\<close>

text \<open>A result: refused, with the server as it was, or done, with the caches invalidated.\<close>

definition refused_or :: "('s ApiServer \<Rightarrow> 's ApiServer) \<Rightarrow> 's ApiServer \<Rightarrow> 's api_result \<Rightarrow> bool" where
  "refused_or wipe sv res \<longleftrightarrow>
     (if as_status (fst res) < 300 then fst (snd res) = wipe sv else 400 \<le> as_status (fst res) \<and> fst (snd res) = sv)"

lemma api_status [simp]:
  "as_status (api_writeJSON n v) = n" "as_status (api_writeError n m) = n" "as_status (data_answer c d) = 200"
  by (simp_all add: api_writeJSON_def api_writeError_def data_answer_def)

lemma writeMutationError_status [simp]:
  "as_status (writeMutationError err) < 300 \<longleftrightarrow> False" "400 \<le> as_status (writeMutationError err)"
  by (simp_all add: writeMutationError_def split: option.splits)

lemma refused_mutation: "refused_or wipe sv (mutation_answer 200 r c wipe sv out)"
    "refused_or wipe sv (mutation_answer 201 r c wipe sv out)"
  by (auto simp: refused_or_def mutation_answer_def split: prod.splits sum.splits)

lemma refused_bad_request: "refused_or wipe sv (bad_request msg sv s)"
  by (simp add: refused_or_def bad_request_def)

lemma refused_body:
  assumes "\<And>req. refused_or wipe sv (f req)"
  shows "refused_or wipe sv (with_body e r decode sv s f)"
  using assms by (auto simp: with_body_def refused_or_def split: sum.splits option.splits)

lemma refused_branch: "n = 400 \<or> n = 500 \<Longrightarrow>
    refused_or (invalidateUpstreamReadCaches r c) sv (branch_answer n status r c sv out)"
  by (auto simp: refused_or_def branch_answer_def split: prod.splits option.splits)

lemma refused_reject_upstream:
  "refused_or wipe sv (case out of (Some err, s1) \<Rightarrow> (writeMutationError err, sv, s1)
     | (None, s1) \<Rightarrow> (api_writeJSON 200 v, wipe sv, g s1))"
  by (auto simp: refused_or_def split: prod.splits option.splits)

lemma resolve_status: "resolveClient e sv r = Inl answer \<Longrightarrow> as_status answer = 401"
  by (auto simp: resolveClient_def Let_def split: sum.splits option.splits if_splits prod.splits)

lemma unresolved_write: "writes t \<Longrightarrow> resolveClient e sv r = Inl answer \<Longrightarrow> api_handle e t r sv s = (answer, sv, s)"
  by (cases t) (simp_all add: handlePost_def handleUpdate_def handleDelete_def handleClaim_def handleUnclaim_def
      handleClose_def item_mutation_def handleDone_def handleReject_def handleAccept_def handleAcceptUpstream_def
      handleRejectUpstream_def handleCloseUpstream_def handleApplyBranch_def handleDiscardBranch_def handleSync_def
      with_client_def)

text \<open>Every writing handler is refused or done.\<close>

lemma change_of_item: "t \<notin> {APost, AApplyBranch, ADiscardBranch, ASync} \<Longrightarrow>
    change_of canonical t scope i = change_of canonical AClaim scope i"
  by (simp add: change_of_def)

lemmas refused_intros = refused_body refused_mutation refused_bad_request refused_branch refused_reject_upstream

definition item_routes :: "api_route set" where
  "item_routes = {AUpdate, ADelete, AClaim, AUnclaim, ADone, AAccept, AAcceptUpstream, ARejectUpstream,
     ACloseUpstream, AReject, AClose}"

lemma refused_item_mutation:
  "resolveClient e sv r = Inr (c, a, r1) \<Longrightarrow>
   refused_or (invalidateReadCaches r1 c (rq_value r1 ''id'')) sv (item_mutation f e r sv s)"
  by (simp add: item_mutation_def with_client_def Let_def refused_mutation)

lemma refused_item:
  assumes "resolveClient e sv r = Inr (c, a, r1)" and "t \<in> item_routes"
  shows "refused_or (invalidateReadCaches r1 c (rq_value r1 ''id'')) sv (api_handle e t r sv s)"
proof -
  note open_client = with_client_def Let_def assms(1) and item = refused_item_mutation [OF assms(1)]
  have "refused_or (invalidateReadCaches r1 c (rq_value r1 ''id'')) sv (handleUpdate e r sv s)"
    by (simp add: handleUpdate_def open_client) (intro refused_body refused_mutation)
  moreover have "refused_or (invalidateReadCaches r1 c (rq_value r1 ''id'')) sv (handleDone e r sv s)"
    by (auto simp: handleDone_def open_client intro!: refused_intros)
  moreover have "refused_or (invalidateReadCaches r1 c (rq_value r1 ''id'')) sv (handleAccept e r sv s)"
    by (auto simp: handleAccept_def open_client intro!: refused_intros)
  moreover have "refused_or (invalidateReadCaches r1 c (rq_value r1 ''id'')) sv (handleAcceptUpstream e r sv s)"
    by (auto simp: handleAcceptUpstream_def open_client split: prod.splits intro!: refused_intros)
  moreover have "refused_or (invalidateReadCaches r1 c (rq_value r1 ''id'')) sv (handleRejectUpstream e r sv s)"
    by (auto simp: handleRejectUpstream_def open_client intro!: refused_intros)
  moreover have "refused_or (invalidateReadCaches r1 c (rq_value r1 ''id'')) sv (handleCloseUpstream e r sv s)"
    by (auto simp: handleCloseUpstream_def open_client intro!: refused_intros)
  moreover have "refused_or (invalidateReadCaches r1 c (rq_value r1 ''id'')) sv (handleReject e r sv s)"
    by (auto simp: handleReject_def open_client intro!: refused_intros)
  ultimately show ?thesis
    using assms(2) by (auto simp: item_routes_def handleDelete_def handleClaim_def handleUnclaim_def handleClose_def
        intro: item)
qed

lemma refused_post:
  "resolveClient e sv r = Inr (c, a, r1) \<Longrightarrow>
   refused_or (invalidateBrowseReadCaches r1 c) sv (handlePost e r sv s)"
  by (auto simp: handlePost_def with_client_def intro!: refused_intros)

lemma refused_upstream:
  "resolveClient e sv r = Inr (c, a, r1) \<Longrightarrow> t \<in> {AApplyBranch, ADiscardBranch, ASync} \<Longrightarrow>
   refused_or (invalidateUpstreamReadCaches r1 c) sv (api_handle e t r sv s)"
  by (auto simp: handleApplyBranch_def handleDiscardBranch_def handleSync_def with_client_def intro!: refused_branch)

lemma write_refused_or:
  assumes "writes t" and res: "resolveClient e sv r = Inr (c, a, r1)"
  shows "refused_or (bust (change_of (hasCanonicalHostedReadIdentity sv r1) t
      (server_readCacheScope (sv_hosted sv) r1 c) (rq_value r1 ''id''))) sv (api_handle e t r sv s)"
proof -
  consider "t \<in> item_routes" | "t = APost" | "t \<in> {AApplyBranch, ADiscardBranch, ASync}"
    using assms(1) by (auto simp: item_routes_def)
  then show ?thesis
  proof cases
    case 1
    then have "t \<notin> {APost, AApplyBranch, ADiscardBranch, ASync}" by (auto simp: item_routes_def)
    then have "change_of canonical t scope i = change_of canonical AClaim scope i" for canonical scope i
      by (rule change_of_item)
    then show ?thesis
      using refused_item [OF res 1, of s] by (simp add: refused_or_def invalidate_bust)
  next
    case 2
    then show ?thesis
      using refused_post [OF res, of s]
      by (simp add: refused_or_def invalidate_bust [where i = "rq_value r1 ''id''"])
  next
    case 3
    then have "change_of canonical t scope i = change_of canonical ASync scope i" for canonical scope i
      by (auto simp: change_of_def)
    then show ?thesis
      using refused_upstream [OF res 3, of s]
      by (simp add: refused_or_def invalidate_bust [where i = "rq_value r1 ''id''"])
  qed
qed

text \<open>The reads: only \<^verbatim>\<open>handleBrowse\<close> and \<^verbatim>\<open>handleDetail\<close> touch a cache.\<close>

lemma read_caches:
  assumes "\<not> writes t" and "t \<noteq> ABrowse" and "t \<noteq> ADetail"
  shows "sv_browseCache (fst (snd (api_handle e t r sv s))) = sv_browseCache sv
    \<and> sv_detailCache (fst (snd (api_handle e t r sv s))) = sv_detailCache sv"
  using assms
  by (cases t) (auto simp: handleBootstrap_def handleDashboard_def handleConfig_def handleSubmitPR_def handleBranchDiff_def
      handleSaveSettings_def with_client_def with_body_def bad_request_def set_client_def Let_def
      split: sum.splits option.splits prod.splits)

lemma NoChange_unless: "\<not> writes (ev_route ev) \<Longrightarrow> change ev st = NoChange"
  by (simp add: change_def)

lemma step_bust:
  assumes "ev_route ev \<noteq> ABrowse" and "ev_route ev \<noteq> ADetail"
  shows "sv_browseCache (fst (api_step ev st)) = sv_browseCache (bust (change ev st) (fst st))
    \<and> sv_detailCache (fst (api_step ev st)) = sv_detailCache (bust (change ev st) (fst st))"
proof (cases "writes (ev_route ev)")
  case False
  then show ?thesis using read_caches assms by (simp add: NoChange_unless api_step_def)
next
  case w: True
  show ?thesis
  proof (cases "resolveClient (ev_env ev) (fst st) (ev_req ev)")
    case (Inl answer)
    then show ?thesis
      using unresolved_write [OF w Inl] by (simp add: api_step_def change_def)
  next
    case (Inr x)
    then obtain c a r1 where x: "resolveClient (ev_env ev) (fst st) (ev_req ev) = Inr (c, a, r1)" by (cases x) auto
    show ?thesis
      using write_refused_or [OF w x, of "snd st"] w x
      by (simp add: refused_or_def api_step_def api_answer_def change_def del: writes.simps split: if_splits)
  qed
qed

end
