(* ===== verification/ApiCaches.thy ===== *)
theory ApiCaches
  imports ApiRuns SdkOps
begin

text \<open>
  The two read caches of the HTTP API as instances of \<open>read_through\<close>: what one request and one
  invalidation do to a cache, and which keys they reach.
\<close>

section \<open>One request at a cache\<close>

text \<open>A cache whose fetches are all over serves an entry that is young enough, or fetches.\<close>

lemma evicted_entry:
  "map_of (rc_entries (evictLocked items c)) k = Some x \<Longrightarrow> map_of (rc_entries c) k = Some x"
  by (auto simp: evictLocked_def fold_delete map_of_filter_keys split: if_splits)

lemma close_done_fields [simp]:
  "rc_entries (close_done i c) = rc_entries c" "rc_inflight (close_done i c) = rc_inflight c"
  "rc_maxAge (close_done i c) = rc_maxAge c"
  by (simp_all add: close_done_def set_call_def split: option.splits)

lemma runFetch_age [simp]: "rc_maxAge (runFetch i res now items c) = rc_maxAge c"
  by (simp add: runFetch_def Let_def evictLocked_def finish_inflight_def set_call_def split: option.splits)

lemma get_or_join_age: "rc_maxAge (snd (get_or_join now key c)) = rc_maxAge c"
  by (simp add: get_or_join_def start_call_def Let_def split: option.splits)

lemma quiet_turn:
  assumes "rc_inflight c = []" and "cache_Get now key c = None"
  shows "get_or_join now key c = start_call key c"
  using assms by (auto simp: get_or_join_def cache_Get_def split: option.splits if_splits)

lemma GetOrFetch_age [simp]: "rc_maxAge (snd (GetOrFetch e key fetched c)) = rc_maxAge c"
  by (cases "get_or_join (ae_now e) key c", cases "fst (get_or_join (ae_now e) key c)")
    (use get_or_join_age [of "ae_now e" key c] in \<open>auto simp: GetOrFetch_def Let_def split: option.splits\<close>)

lemma own_fetch:
  assumes "start_call key c = (Begin i, c1)" and "rc_inflight c = []"
  shows "rc_inflight (runFetch i res now items c1) = []
    \<and> (map_of (rc_entries (runFetch i res now items c1)) k = Some x \<longrightarrow>
       map_of (rc_entries c) k = Some x
       \<or> k = key \<and> (\<exists>v. res = FReturn v None \<and> x = \<lparr>ce_data = v, ce_storedAt = now\<rparr>))"
proof -
  have c1: "rc_entries c1 = rc_entries c" "rc_inflight c1 = [(key, i)]" "rc_calls c1 i \<noteq> None"
    "ft_key (the (rc_calls c1 i)) = key"
    using assms by (auto simp: start_call_def Let_def)
  then obtain f where f: "rc_calls c1 i = Some f" "ft_key f = key" by auto
  show ?thesis
    using f c1
    by (cases res) (auto simp: runFetch_def Let_def finish_inflight_def set_call_def with_result_def update_conv'
        dest!: evicted_entry split: if_splits)
qed

lemma GetOrFetch_quiet:
  assumes "rc_inflight c = []"
  shows "rc_inflight (snd (GetOrFetch e key fetched c)) = []"
proof (cases "cache_Get (ae_now e) key c")
  case None
  obtain i c1 where s: "start_call key c = (Begin i, c1)" by (simp add: start_call_def Let_def)
  show ?thesis
    using own_fetch [OF s assms] by (simp add: GetOrFetch_def None quiet_turn [OF assms None] s Let_def)
qed (simp add: GetOrFetch_def assms)

lemma GetOrFetch_entry:
  assumes "rc_inflight c = []" and "map_of (rc_entries (snd (GetOrFetch e key fetched c))) k = Some x"
  shows "map_of (rc_entries c) k = Some x \<or> k = key \<and> fetched = Inr (ce_data x) \<and> ce_storedAt x = ae_now e"
proof (cases "cache_Get (ae_now e) key c")
  case None
  obtain i c1 where s: "start_call key c = (Begin i, c1)" by (simp add: start_call_def Let_def)
  show ?thesis
    using assms(2) own_fetch [OF s assms(1), where k = k and x = x]
    by (cases fetched) (fastforce simp: GetOrFetch_def None quiet_turn [OF assms(1) None] s Let_def)+
next
  case (Some data)
  then show ?thesis using assms(2) by (simp add: GetOrFetch_def)
qed

lemma GetOrFetch_data:
  assumes "rc_inflight c = []" and "fst (GetOrFetch e key fetched c) = (data, None)"
  shows "fetched = Inr data
    \<or> (\<exists>x. map_of (rc_entries c) key = Some x \<and> ce_data x = data \<and> ae_now e - ce_storedAt x \<le> rc_maxAge c)"
proof (cases "cache_Get (ae_now e) key c")
  case None
  obtain i c1 where s: "start_call key c = (Begin i, c1)" by (simp add: start_call_def Let_def)
  show ?thesis
    using assms(2) by (cases fetched) (auto simp: GetOrFetch_def None quiet_turn [OF assms(1) None] s Let_def)
next
  case (Some d)
  then show ?thesis using assms(2)
    by (auto simp: GetOrFetch_def cache_Get_def not_less split: option.splits if_splits)
qed

section \<open>One change at a cache\<close>

lemma invalidate_age: "rc_maxAge (fold invalidateKeyLocked ks c) = rc_maxAge c"
  by (induction ks arbitrary: c) (simp_all add: invalidateKeyLocked_fields)

lemma InvalidateMatching_fields:
  "rc_maxAge (InvalidateMatching m c) = rc_maxAge c"
  "rc_inflight c = [] \<Longrightarrow> rc_inflight (InvalidateMatching m c) = []"
  "map_of (rc_entries (InvalidateMatching m c)) k = Some x \<Longrightarrow> map_of (rc_entries c) k = Some x \<and> \<not> m k"
proof -
  let ?ks = "remdups (filter m (map fst (rc_entries c)) @ filter m (map fst (rc_inflight c)))"
  note f = fold_invalidate [of ?ks c, folded InvalidateMatching_def]
  show "rc_maxAge (InvalidateMatching m c) = rc_maxAge c"
    by (simp add: InvalidateMatching_def invalidate_age)
  show "rc_inflight c = [] \<Longrightarrow> rc_inflight (InvalidateMatching m c) = []" using f by simp
  assume k: "map_of (rc_entries (InvalidateMatching m c)) k = Some x"
  then have "k \<notin> set ?ks" and c: "map_of (rc_entries c) k = Some x"
    using f by (simp_all add: map_of_filter_keys del: set_remdups split: if_splits)
  moreover have "k \<in> fst ` set (rc_entries c)" using c by (force dest: map_of_SomeD)
  ultimately show "map_of (rc_entries c) k = Some x \<and> \<not> m k" by auto
qed

lemma Invalidate_fields [simp]:
  "rc_maxAge (Invalidate c) = rc_maxAge c" "rc_inflight (Invalidate c) = []" "rc_entries (Invalidate c) = []"
  by (simp_all add: Invalidate_def invalidate_age)

fun busts_board :: "change \<Rightarrow> string \<Rightarrow> bool" where
  "busts_board NoChange key = False"
| "busts_board Everything key = True"
| "busts_board (BoardOf u) key = HasPrefix key (browseCachePrefix u)"
| "busts_board (ItemOf u i) key = HasPrefix key (browseCachePrefix u)"
| "busts_board (UpstreamOf u) key = HasPrefix key (browseCachePrefix u)"

fun busts_item :: "change \<Rightarrow> string \<Rightarrow> bool" where
  "busts_item NoChange key = False"
| "busts_item Everything key = True"
| "busts_item (BoardOf u) key = False"
| "busts_item (ItemOf u i) key = (HasPrefix key (detailCachePrefix u) \<and> HasSuffix key (detailCacheSuffix i))"
| "busts_item (UpstreamOf u) key = HasPrefix key (detailCachePrefix u)"

lemma busts_board_key: "busts_board ch (browseCacheKey sc r) \<longleftrightarrow> affects_board (TrimSpace (sp_upstream sc)) ch"
  by (cases ch) (auto simp: browse_prefix_key)

lemma busts_item_key: "busts_item ch (detailCacheKey sc i) \<longleftrightarrow> affects_item (TrimSpace (sp_upstream sc)) (TrimSpace i) ch"
  by (cases ch) (auto simp: detail_prefix_key detail_suffix_key)

lemma bust_board:
  "rc_maxAge (sv_browseCache (bust ch sv)) = rc_maxAge (sv_browseCache sv)"
  "rc_inflight (sv_browseCache sv) = [] \<Longrightarrow> rc_inflight (sv_browseCache (bust ch sv)) = []"
  "map_of (rc_entries (sv_browseCache (bust ch sv))) k = Some x \<Longrightarrow>
     map_of (rc_entries (sv_browseCache sv)) k = Some x \<and> \<not> busts_board ch k"
  by (cases ch; auto simp: invalidateAllCaches_def invalidateBrowseCaches_def invalidateDetailCaches_def
      InvalidateMatching_fields(1,2) dest!: InvalidateMatching_fields(3))+

lemma bust_item:
  "rc_maxAge (sv_detailCache (bust ch sv)) = rc_maxAge (sv_detailCache sv)"
  "rc_inflight (sv_detailCache sv) = [] \<Longrightarrow> rc_inflight (sv_detailCache (bust ch sv)) = []"
  "map_of (rc_entries (sv_detailCache (bust ch sv))) k = Some x \<Longrightarrow>
     map_of (rc_entries (sv_detailCache sv)) k = Some x \<and> \<not> busts_item ch k"
  by (cases ch; auto simp: invalidateAllCaches_def invalidateBrowseCaches_def invalidateDetailCaches_def
      InvalidateMatching_fields(1,2) dest!: InvalidateMatching_fields(3))+

section \<open>The two caches of the server\<close>

text \<open>What a request for the board, or for an item, stores.\<close>

definition stores_board :: "api_event \<Rightarrow> 's api_state \<Rightarrow> string \<Rightarrow> string \<Rightarrow> bool" where
  "stores_board ev st key data \<longleftrightarrow>
     ev_route ev = ABrowse \<and>
     (case resolveClient (ev_env ev) (fst st) (ev_req ev) of
        Inl _ \<Rightarrow> False
      | Inr (c, a, r) \<Rightarrow>
          (let scope = server_readCacheScope (sv_hosted (fst st)) r c
           in sp_cacheable scope \<and> key = browseCacheKey scope r
              \<and> browse_fetch (ev_env ev) c (parseQueryFilter r) (snd st) = Inr data))"

definition stores_item :: "api_event \<Rightarrow> 's api_state \<Rightarrow> string \<Rightarrow> string \<Rightarrow> bool" where
  "stores_item ev st key data \<longleftrightarrow>
     ev_route ev = ADetail \<and>
     (case resolveClient (ev_env ev) (fst st) (ev_req ev) of
        Inl _ \<Rightarrow> False
      | Inr (c, a, r) \<Rightarrow>
          (let scope = server_readCacheScope (sv_hosted (fst st)) r c
           in sp_cacheable scope \<and> key = detailCacheKey scope (rq_value r ''id'')
              \<and> detail_fetch c True (rq_value r ''id'') (snd st) = Inr data))"

lemma browse_step:
  assumes "ev_route ev = ABrowse"
  shows "sv_detailCache (fst (api_step ev st)) = sv_detailCache (fst st)"
    and "sv_browseCache (fst (api_step ev st)) =
      (case resolveClient (ev_env ev) (fst st) (ev_req ev) of
         Inl _ \<Rightarrow> sv_browseCache (fst st)
       | Inr (c, a, r) \<Rightarrow>
           (let scope = server_readCacheScope (sv_hosted (fst st)) r c
            in if sp_cacheable scope
               then snd (GetOrFetch (ev_env ev) (browseCacheKey scope r)
                      (browse_fetch (ev_env ev) c (parseQueryFilter r) (snd st)) (sv_browseCache (fst st)))
               else sv_browseCache (fst st)))"
  using assms
  by (simp_all add: api_step_def handleBrowse_def with_client_def Let_def case_prod_beta' split: sum.splits prod.splits)

lemma detail_step:
  assumes "ev_route ev = ADetail"
  shows "sv_browseCache (fst (api_step ev st)) = sv_browseCache (fst st)"
    and "sv_detailCache (fst (api_step ev st)) =
      (case resolveClient (ev_env ev) (fst st) (ev_req ev) of
         Inl _ \<Rightarrow> sv_detailCache (fst st)
       | Inr (c, a, r) \<Rightarrow>
           (let scope = server_readCacheScope (sv_hosted (fst st)) r c
            in if sp_cacheable scope
               then snd (GetOrFetch (ev_env ev) (detailCacheKey scope (rq_value r ''id''))
                      (detail_fetch c True (rq_value r ''id'') (snd st)) (sv_detailCache (fst st)))
               else sv_detailCache (fst st)))"
  using assms
  by (simp_all add: api_step_def handleDetail_def with_client_def Let_def case_prod_beta' split: sum.splits prod.splits)

lemma reads_change [simp]: "ev_route ev = ABrowse \<Longrightarrow> change ev st = NoChange"
    "ev_route ev = ADetail \<Longrightarrow> change ev st = NoChange"
  by (simp_all add: change_def)

lemma board_kept:
  assumes "rc_inflight (sv_browseCache (fst st)) = []"
    and "map_of (rc_entries (sv_browseCache (fst (api_step ev st)))) key = Some x"
  shows "map_of (rc_entries (sv_browseCache (fst st))) key = Some x \<and> \<not> busts_board (change ev st) key
    \<or> stores_board ev st key (ce_data x) \<and> ce_storedAt x = ae_now (ev_env ev)"
proof -
  consider "ev_route ev = ABrowse" | "ev_route ev = ADetail" | "ev_route ev \<noteq> ABrowse" "ev_route ev \<noteq> ADetail"
    by blast
  then show ?thesis
  proof cases
    case 1
    then show ?thesis
      using assms(2)
      by (auto simp: browse_step stores_board_def Let_def dest!: GetOrFetch_entry [OF assms(1)]
          split: sum.splits prod.splits if_splits)
  next
    case 2
    then show ?thesis using assms(2) by (simp add: detail_step)
  next
    case 3
    then show ?thesis using assms(2) by (auto simp: step_bust dest!: bust_board(3))
  qed
qed

lemma item_kept:
  assumes "rc_inflight (sv_detailCache (fst st)) = []"
    and "map_of (rc_entries (sv_detailCache (fst (api_step ev st)))) key = Some x"
  shows "map_of (rc_entries (sv_detailCache (fst st))) key = Some x \<and> \<not> busts_item (change ev st) key
    \<or> stores_item ev st key (ce_data x) \<and> ce_storedAt x = ae_now (ev_env ev)"
proof -
  consider "ev_route ev = ADetail" | "ev_route ev = ABrowse" | "ev_route ev \<noteq> ABrowse" "ev_route ev \<noteq> ADetail"
    by blast
  then show ?thesis
  proof cases
    case 1
    then show ?thesis
      using assms(2)
      by (auto simp: detail_step stores_item_def Let_def dest!: GetOrFetch_entry [OF assms(1)]
          split: sum.splits prod.splits if_splits)
  next
    case 2
    then show ?thesis using assms(2) by (simp add: browse_step)
  next
    case 3
    then show ?thesis using assms(2) by (auto simp: step_bust dest!: bust_item(3))
  qed
qed

lemma quiet_step:
  "rc_inflight (sv_browseCache (fst st)) = [] \<Longrightarrow> rc_inflight (sv_browseCache (fst (api_step ev st))) = []"
  "rc_inflight (sv_detailCache (fst st)) = [] \<Longrightarrow> rc_inflight (sv_detailCache (fst (api_step ev st))) = []"
  by (cases "ev_route ev = ABrowse"; cases "ev_route ev = ADetail";
      simp add: browse_step detail_step step_bust bust_board bust_item GetOrFetch_quiet Let_def
      split: sum.splits prod.splits)+

lemma age_step:
  "rc_maxAge (sv_browseCache (fst (api_step ev st))) = rc_maxAge (sv_browseCache (fst st))"
  "rc_maxAge (sv_detailCache (fst (api_step ev st))) = rc_maxAge (sv_detailCache (fst st))"
  by (cases "ev_route ev = ABrowse"; cases "ev_route ev = ADetail";
      simp add: browse_step detail_step step_bust bust_board bust_item Let_def split: sum.splits prod.splits)+

interpretation board: read_through sv_browseCache stores_board "\<lambda>ev st. busts_board (change ev st)"
  by unfold_locales (simp_all add: quiet_step age_step board_kept)

interpretation items: read_through sv_detailCache stores_item "\<lambda>ev st. busts_item (change ev st)"
  by unfold_locales (simp_all add: quiet_step age_step item_kept)

section \<open>New servers\<close>

definition new_caches :: "'s ApiServer \<Rightarrow> bool" where
  "new_caches sv \<longleftrightarrow>
     sv_browseCache sv = NewReadCache 30000000000 64 \<and> sv_detailCache sv = NewReadCache 30000000000 256"

lemma constructors_new:
  "new_caches (NewHosted clients fn)" "new_caches (NewWithClientFunc clients fn)" "new_caches (api_New client)"
  "new_caches (NewHostedWorkspace clients fn wfn)"
  "new_caches sv \<Longrightarrow> new_caches (SetPublicClient i sv)"
  "new_caches sv \<Longrightarrow> new_caches (SetEnvironment env sv)"
  "new_caches sv \<Longrightarrow> new_caches (SetMutationInvalidator f sv)"
  by (simp_all add: new_caches_def NewHosted_def NewWithClientFunc_def api_New_def NewHostedWorkspace_def
      SetPublicClient_def SetEnvironment_def SetMutationInvalidator_def)

lemma new_caches_empty:
  assumes "new_caches sv"
  shows "rc_inflight (sv_browseCache sv) = []" "rc_entries (sv_browseCache sv) = []"
    "rc_maxAge (sv_browseCache sv) = 30000000000"
    "rc_inflight (sv_detailCache sv) = []" "rc_entries (sv_detailCache sv) = []"
    "rc_maxAge (sv_detailCache sv) = 30000000000"
  using assms by (simp_all add: new_caches_def NewReadCache_def)

text \<open>A small server of the HTTP API and requests to it, for the examples.\<close>

section \<open>A server\<close>

text \<open>A self-hosted server with one client in wild-west mode; its world is the status of its one item.\<close>

definition demo_db :: "string DB" where
  "demo_db =
     \<lparr>db_Query = (\<lambda>q ref s. Inr (example_csv s [])),
      db_Exec = (\<lambda>b m g t s. (None, ''claimed'')),
      db_Branches = (\<lambda>p s. Inr []),
      db_DeleteBranch = (\<lambda>b s. (None, s)), db_PushBranch = (\<lambda>b s. (None, [], s)),
      db_PushMain = (\<lambda>s. (None, s)), db_Sync = (\<lambda>s. (None, s)),
      db_MergeBranch = (\<lambda>b s. (None, s)), db_DeleteRemoteBranch = (\<lambda>b s. (None, s)),
      db_PushWithSync = (\<lambda>s. (None, s)), db_CanWildWest = (\<lambda>s. None)\<rparr>"

definition demo_server :: "string ApiServer" where
  "demo_server = api_New (plain_client demo_db ''ada'' ''wild-west'')"

definition demo_event :: "api_route \<Rightarrow> int \<Rightarrow> api_event" where
  "demo_event t now =
     \<lparr>ev_env = \<lparr>ae_clock = example_clock, ae_uni = (\<lambda>s. s), ae_json = \<lparr>fmt_float = (\<lambda>t. t), fmt_json = json_text, json_error = (\<lambda>_. [])\<rparr>,
                ae_now = now, ae_order = (\<lambda>items. items), ae_environ = [], ae_wait = (\<lambda>_. ([], None))\<rparr>,
      ev_route = t,
      ev_req = \<lparr>rq_method = ''GET'', rq_path = ''/api/wanted'', rq_query = [], rq_headers = [],
                rq_value = (\<lambda>_. ''w-1''), rq_body = Inr [], rq_identity = None\<rparr>\<rparr>"

lemma demo_resolve:
  "sv_clientFunc sv = sv_clientFunc demo_server \<Longrightarrow> sv_clients sv = sv_clients demo_server \<Longrightarrow>
   sv_environment sv = [] \<Longrightarrow>
   resolveClient (ev_env (demo_event t now)) sv (ev_req (demo_event t now)) =
     Inr (plain_client demo_db ''ada'' ''wild-west'', Some 0, ev_req (demo_event t now))"
  by (simp add: demo_server_def api_New_def NewWithClientFunc_def resolveClient_def demo_event_def maybeImpersonateClient_def
      Get_def allowStagingImpersonation_def effectiveEnvironment_def Let_def TrimSpace_def trim_front.simps)

lemma demo_cacheable:
  "sp_cacheable (server_readCacheScope (sv_hosted demo_server) r c)"
  by (simp add: demo_server_def api_New_def NewWithClientFunc_def server_readCacheScope_def normalizeReadCacheScope_def
      Let_def)

end
