(* ===== verification/JsonBack.thy ===== *)
theory JsonBack
  imports GoJsonOut
begin

text \<open>
  The decoder reads back what the encoder of \<open>GoJsonOut\<close> writes, for every value: its strings come back
  with invalid bytes replaced, everything else as it was.
\<close>

section \<open>Strings\<close>

text \<open>What is left of a Go string in JSON: a byte that belongs to no rune is replaced.\<close>

function valid_text :: "string \<Rightarrow> string" where
  "valid_text s =
     (case s of
        [] \<Rightarrow> []
      | c # r \<Rightarrow>
          if code_of c < 128 then c # valid_text r
          else if rune_width s = 0 then replacement_rune @ valid_text r
          else take (rune_width s) s @ valid_text (drop (rune_width s) s))"
  by pat_completeness auto
termination
  by (relation "measure length") auto

declare valid_text.simps [simp del]

lemma json_str_replaced:
  "json_str (bslash_ch # ''ufffd'' @ r) = map_option (apfst ((@) replacement_rune)) (json_str r)"
  by (subst json_str.simps, simp add: unicode_escape_def hex4_def hex_val_def in_range_def code_of_def encode_rune_def
      char_of_def bit_Suc bit_0 replacement_rune_def)

lemma json_str_back: "json_str (str_out s @ dquote_ch # r) = Some (valid_text s, r)"
proof (induction s rule: str_out.induct)
  case (1 s)
  show ?case
  proof (cases s)
    case Nil
    then show ?thesis by (simp add: str_out.simps json_str.simps valid_text.simps)
  next
    case (Cons c t)
    consider "code_of c < 128" | "\<not> code_of c < 128" "rune_width s = 0" | "\<not> code_of c < 128" "rune_width s \<noteq> 0" by blast
    then show ?thesis
    proof cases
      case 1
      then have "str_out s = ascii_out c @ str_out t" "valid_text s = c # valid_text t"
        using Cons by (simp_all add: str_out.simps valid_text.simps)
      then show ?thesis using "1.IH"(1) [OF Cons 1] 1 by (simp add: json_str_ascii)
    next
      case 2
      have "str_out s = bslash_ch # ''ufffd'' @ str_out t" "valid_text s = replacement_rune @ valid_text t"
        using 2 by (subst str_out.simps valid_text.simps, simp add: Cons)+
      then show ?thesis using "1.IH"(2) [OF Cons 2] by (simp add: json_str_replaced [simplified])
    next
      case 3
      have "str_out s = rune_out (take (rune_width s) s) @ str_out (drop (rune_width s) s)"
        "valid_text s = take (rune_width s) s @ valid_text (drop (rune_width s) s)"
        using 3 by (subst str_out.simps valid_text.simps, simp add: Cons)+
      then show ?thesis using "1.IH"(3) [OF Cons 3] 3(2) by (simp add: json_str_rune)
    qed
  qed
qed

section \<open>Numbers\<close>

definition num_text :: "string \<Rightarrow> bool" where
  "num_text t \<longleftrightarrow>
     (let ds = (if t \<noteq> [] \<and> hd t = CHR ''-'' then tl t else t)
      in ds \<noteq> [] \<and> list_all is_digit ds \<and> (hd ds \<noteq> CHR ''0'' \<or> tl ds = []))"

lemma nat_digits_head: "nat_digits n \<noteq> [] \<and> list_all is_digit (nat_digits n) \<and> (0 < n \<longrightarrow> hd (nat_digits n) \<noteq> CHR ''0'')
    \<and> (n < 10 \<longrightarrow> tl (nat_digits n) = [])"
proof (induction n rule: nat_digits.induct)
  case (1 n)
  have d: "is_digit (digit_ch m)" "0 < m \<Longrightarrow> digit_ch m \<noteq> CHR ''0''" if "m < 10" for m
  proof -
    have "m \<in> {0, 1, 2, 3, 4, 5, 6, 7, 8, 9}" using that by auto
    then show "is_digit (digit_ch m)" "0 < m \<Longrightarrow> digit_ch m \<noteq> CHR ''0''"
      by (auto simp: digit_ch_def is_digit_def code_of_def)
  qed
  show ?case
  proof (cases "n < 10")
    case True
    then show ?thesis using d by (simp add: nat_digits.simps [of n])
  next
    case False
    then have "0 < n div 10" by auto
    then show ?thesis using 1 [OF False] d(1) [of "n mod 10"] False by (simp add: nat_digits.simps [of n])
  qed
qed

lemma num_text_Itoa: "num_text (Itoa n)"
proof -
  have "num_text (nat_digits m)" for m
    using nat_digits_head [of m] by (cases "nat_digits m") (auto simp: num_text_def is_digit_def code_of_def)
  moreover have "num_text (CHR ''-'' # nat_digits m)" if "0 < m" for m
    using nat_digits_head [of m] that by (simp add: num_text_def)
  ultimately show ?thesis by (simp add: Itoa_def)
qed

text \<open>What may follow a number.\<close>

definition num_end :: "string \<Rightarrow> bool" where
  "num_end r \<longleftrightarrow> r = [] \<or> \<not> is_digit (hd r) \<and> hd r \<notin> {CHR ''.'', CHR ''e'', CHR ''E''}"

lemma json_num_digits:
  assumes ds: "ds \<noteq> []" "list_all is_digit ds" "hd ds \<noteq> CHR ''0'' \<or> tl ds = []" and "num_end r"
    and sg: "(case t of c # r \<Rightarrow> if c = CHR ''-'' then ([c], r) else ([], t) | [] \<Rightarrow> ([], t)) = (sg, ds @ r)"
  shows "json_num t = Some (sg @ ds, r)"
proof -
  have "takeWhile is_digit (ds @ r) = ds @ takeWhile is_digit r"
    using ds(2) by (intro takeWhile_append2) (simp add: list_all_iff)
  then have tw: "takeWhile is_digit (ds @ r) = ds" using assms(4) by (cases r) (auto simp: num_end_def)
  have ip: "(if ds \<noteq> [] \<and> hd ds = CHR ''0'' then ([hd ds], drop 1 (ds @ r)) else (ds, drop (length ds) (ds @ r))) = (ds, r)"
    using ds by (cases ds) auto
  show ?thesis
    unfolding json_num_def sg Let_def prod.case tw ip
    using assms(4) ds(1) by (cases r) (simp_all add: num_end_def)
qed

lemma json_num_back:
  assumes "num_text t" and "num_end r"
  shows "json_num (t @ r) = Some (t, r)"
proof (cases "t \<noteq> [] \<and> hd t = CHR ''-''")
  case True
  then obtain ds where t: "t = CHR ''-'' # ds" by (cases t) auto
  then have "ds \<noteq> [] \<and> list_all is_digit ds \<and> (hd ds \<noteq> CHR ''0'' \<or> tl ds = [])"
    using assms(1) by (simp add: num_text_def)
  then show ?thesis using json_num_digits [of ds r "t @ r" "''-''"] assms(2) by (simp add: t)
next
  case False
  then have "t \<noteq> [] \<and> list_all is_digit t \<and> (hd t \<noteq> CHR ''0'' \<or> tl t = [])"
    using assms(1) by (auto simp: num_text_def Let_def split: if_splits)
  then show ?thesis
    using json_num_digits [of t r "t @ r" "[]"] assms(2) False by (cases t) simp_all
qed

section \<open>Values\<close>

fun nums_ok :: "json \<Rightarrow> bool" where
  "nums_ok (JNum t) = num_text t"
| "nums_ok (JArr vs) = list_all nums_ok vs"
| "nums_ok (JObj ms) = list_all (\<lambda>(n, v). nums_ok v) ms"
| "nums_ok v = True"

fun valid_json :: "json \<Rightarrow> json" where
  "valid_json (JStr s) = JStr (valid_text s)"
| "valid_json (JArr vs) = JArr (map valid_json vs)"
| "valid_json (JObj ms) = JObj (map (\<lambda>(n, v). (valid_text n, valid_json v)) ms)"
| "valid_json v = v"

text \<open>The fuel a value takes, and that its text is long enough to provide it.\<close>

fun fuel :: "json \<Rightarrow> nat" where
  "fuel (JArr vs) = Suc (sum_list (map (\<lambda>v. Suc (fuel v)) vs))"
| "fuel (JObj ms) = Suc (sum_list (map (\<lambda>(n, v). Suc (fuel v)) ms))"
| "fuel v = 1"

lemma length_Join: "sum_list (map length xs) + length xs \<le> length (Join xs [c]) + 1"
  by (induction xs rule: induct_list012) auto

lemma fuel_text: "nums_ok v \<Longrightarrow> fuel v \<le> 2 * length (json_text v)"
proof (induction v rule: json_text.induct)
  case (3 t)
  then show ?case by (cases t) (auto simp: num_text_def)
next
  case (5 vs)
  have "sum_list (map (\<lambda>v. Suc (fuel v)) vs) \<le> sum_list (map (\<lambda>v. Suc (2 * length (json_text v))) vs)"
    by (rule sum_list_mono) (use 5 in \<open>auto simp: list_all_iff\<close>)
  also have "\<dots> = length vs + 2 * sum_list (map length (map json_text vs))"
    by (simp add: sum_list_Suc sum_list_const_mult comp_def)
  also have "\<dots> \<le> 2 * length (Join (map json_text vs) '','') + 2"
    using length_Join [of "map json_text vs" "CHR '',''"] by simp
  finally show ?case by simp
next
  case (6 ms)
  let ?t = "\<lambda>(n, v). json_quote n @ '':'' @ json_text v"
  have "sum_list (map (\<lambda>(n, v). Suc (fuel v)) ms) \<le> sum_list (map (\<lambda>m. Suc (2 * length (?t m))) ms)"
    by (rule sum_list_mono) (use 6 in \<open>force simp: list_all_iff\<close>)
  also have "\<dots> = length ms + 2 * sum_list (map length (map ?t ms))"
    by (simp add: sum_list_Suc sum_list_const_mult comp_def)
  also have "\<dots> \<le> 2 * length (Join (map ?t ms) '','') + 2"
    using length_Join [of "map ?t ms" "CHR '',''"] by simp
  finally show ?case by simp
qed (simp_all add: json_quote_def)

text \<open>No value's text begins with space or with a bracket that closes.\<close>

lemma text_head: "nums_ok v \<Longrightarrow> \<exists>c t. json_text v = c # t \<and> \<not> json_space c \<and> c \<noteq> CHR '']'' \<and> c \<noteq> CHR ''}''"
proof (cases v)
  case (JNum t)
  assume "nums_ok v"
  then have "num_text t" by (simp add: JNum)
  then obtain c ds where "t = c # ds" "is_digit c \<or> c = CHR ''-''"
    by (cases t; cases "tl t") (auto simp: num_text_def Let_def split: if_splits)
  then show ?thesis by (auto simp: JNum json_space_def is_digit_def code_of_def)
qed (auto simp: json_space_def json_quote_def)

definition reads :: "json \<Rightarrow> bool" where
  "reads v \<longleftrightarrow>
     (\<forall>n r. nums_ok v \<longrightarrow> fuel v \<le> n \<longrightarrow> num_end r \<longrightarrow> json_val n (json_text v @ r) = Some (valid_json v, r))"

lemma readsD:
  "reads v \<Longrightarrow> nums_ok v \<Longrightarrow> fuel v \<le> n \<Longrightarrow> num_end r \<Longrightarrow> json_val n (json_text v @ r) = Some (valid_json v, r)"
  by (simp add: reads_def)

lemma elems_back:
  assumes "\<forall>v \<in> set vs. reads v" and "list_all nums_ok vs" and "vs \<noteq> []"
    and "sum_list (map (\<lambda>v. Suc (fuel v)) vs) \<le> n"
  shows "json_elems n (Join (map json_text vs) '','' @ CHR '']'' # r) = Some (map valid_json vs, r)"
  using assms
proof (induction vs arbitrary: n)
  case (Cons v vs)
  then obtain m where n: "n = Suc m" "fuel v \<le> m" by (cases n) auto
  let ?rest = "if vs = [] then CHR '']'' # r else CHR '','' # Join (map json_text vs) '','' @ CHR '']'' # r"
  have "json_val m (json_text v @ ?rest) = Some (valid_json v, ?rest)"
    using Cons.prems n(2) by (intro readsD) (auto simp: num_end_def is_digit_def code_of_def)
  moreover have "json_elems m (Join (map json_text vs) '','' @ CHR '']'' # r) = Some (map valid_json vs, r)" if "vs \<noteq> []"
    using Cons n that by (intro Cons.IH) auto
  ultimately show ?case
    by (auto simp: n Join_Cons json_space_def)
qed simp

lemma members_back:
  assumes "\<forall>m \<in> set ms. reads (snd m)" and "list_all (\<lambda>(n, v). nums_ok v) ms" and "ms \<noteq> []"
    and "sum_list (map (\<lambda>(n, v). Suc (fuel v)) ms) \<le> n"
  shows "json_members n (Join (map (\<lambda>(n, v). json_quote n @ '':'' @ json_text v) ms) '','' @ CHR ''}'' # r) =
    Some (map (\<lambda>(n, v). (valid_text n, valid_json v)) ms, r)"
  using assms
proof (induction ms arbitrary: n)
  case (Cons x ms)
  obtain k v where x: "x = (k, v)" by (cases x)
  with Cons.prems obtain m where n: "n = Suc m" "fuel v \<le> m" by (cases n) auto
  let ?ts = "map (\<lambda>(n, v). json_quote n @ '':'' @ json_text v) ms"
  let ?rest = "if ms = [] then CHR ''}'' # r else CHR '','' # Join ?ts '','' @ CHR ''}'' # r"
  have "json_val m (json_text v @ ?rest) = Some (valid_json v, ?rest)"
    using Cons.prems n(2) by (intro readsD) (auto simp: x num_end_def is_digit_def code_of_def)
  moreover have "json_members m (Join ?ts '','' @ CHR ''}'' # r) =
      Some (map (\<lambda>(n, v). (valid_text n, valid_json v)) ms, r)" if "ms \<noteq> []"
    using Cons n that by (intro Cons.IH) (auto simp: x)
  ultimately show ?case
    using json_str_back [of k "CHR '':'' # json_text v @ ?rest"]
    by (auto simp: n x Join_Cons json_space_def json_quote_def)
qed simp

lemma value_back: "reads v"
proof (induction v rule: json_text.induct)
  case (3 t)
  have "json_val n (t @ r) = Some (JNum t, r)" if t: "num_text t" "num_end r" "1 \<le> n" for n r
  proof -
    obtain m where n: "n = Suc m" using t(3) by (cases n) auto
    obtain c ds where c: "t = c # ds" "is_digit c \<or> c = CHR ''-''"
      using t(1) by (cases t; cases "tl t") (auto simp: num_text_def Let_def split: if_splits)
    then have "\<not> json_space c" "c \<notin> {dquote_ch, CHR ''['', CHR ''{'', CHR ''n'', CHR ''t'', CHR ''f''}"
      by (auto simp: json_space_def is_digit_def code_of_def)
    then show ?thesis using json_num_back [OF t(1,2)] by (simp add: n c)
  qed
  then show ?case by (simp add: reads_def)
next
  case (5 vs)
  have "json_val n (json_text (JArr vs) @ r) = Some (valid_json (JArr vs), r)"
    if ok: "list_all nums_ok vs" and n: "fuel (JArr vs) \<le> n" for n r
  proof (cases "vs = []")
    case True
    then show ?thesis using n by (cases n) (auto simp: json_space_def)
  next
    case False
    obtain m where m: "n = Suc m" "sum_list (map (\<lambda>v. Suc (fuel v)) vs) \<le> m" using n by (cases n) auto
    have e: "json_elems m (Join (map json_text vs) '','' @ CHR '']'' # r) = Some (map valid_json vs, r)"
      using 5 ok False m(2) by (intro elems_back) auto
    obtain c t where "Join (map json_text vs) '','' = c # t" "\<not> json_space c" "c \<noteq> CHR '']''"
      using False ok text_head [of "hd vs"] by (cases vs) (auto simp: Join_Cons)
    then show ?thesis using e by (simp add: m json_space_def)
  qed
  then show ?case by (simp add: reads_def)
next
  case (6 ms)
  have "json_val n (json_text (JObj ms) @ r) = Some (valid_json (JObj ms), r)"
    if ok: "list_all (\<lambda>(n, v). nums_ok v) ms" and n: "fuel (JObj ms) \<le> n" for n r
  proof (cases "ms = []")
    case True
    then show ?thesis using n by (cases n) (auto simp: json_space_def)
  next
    case False
    let ?ts = "map (\<lambda>(n, v). json_quote n @ '':'' @ json_text v) ms"
    obtain m where m: "n = Suc m" "sum_list (map (\<lambda>(n, v). Suc (fuel v)) ms) \<le> m" using n by (cases n) auto
    have e: "json_members m (Join ?ts '','' @ CHR ''}'' # r) = Some (map (\<lambda>(n, v). (valid_text n, valid_json v)) ms, r)"
      using 6 ok False m(2) by (intro members_back) force+
    obtain t where "Join ?ts '','' = dquote_ch # t"
      using False by (cases ms) (auto simp: Join_Cons json_quote_def)
    then show ?thesis using e by (simp add: m json_space_def)
  qed
  then show ?case by (simp add: reads_def)
next
  case (4 s)
  have "json_val n (json_text (JStr s) @ r) = Some (valid_json (JStr s), r)" if "1 \<le> n" for n r
    using that json_str_back [of s r] by (cases n) (simp_all add: json_quote_def json_space_def)
  then show ?case by (simp add: reads_def)
qed (auto simp: reads_def json_space_def dest!: Suc_le_D)

text \<open>A text that the encoder wrote, with space after it.\<close>

lemma parse_back:
  assumes "nums_ok v" and "list_all json_space ws"
  shows "json_parse (json_text v @ ws) = Some (valid_json v)"
proof -
  have "fuel v \<le> 2 * length (json_text v @ ws) + 2" using fuel_text [OF assms(1)] by simp
  moreover have "num_end ws"
    using assms(2) by (cases ws) (auto simp: num_end_def json_space_def is_digit_def code_of_def)
  moreover have "skip ws = []" using assms(2) by (auto simp: dropWhile_eq_Nil_conv list_all_iff)
  ultimately show ?thesis by (simp only: json_parse_def readsD [OF value_back assms(1)] option.case prod.case refl if_True)
qed

text \<open>
  \<^verbatim>\<open>json.MarshalIndent\<close> with two spaces, and that the decoder reads its texts back.
\<close>

definition newline :: "nat \<Rightarrow> string" where
  "newline depth = nl_ch # replicate (2 * depth) space_ch"

fun indent_text :: "nat \<Rightarrow> json \<Rightarrow> string" where
  "indent_text depth (JArr vs) =
     (if vs = [] then ''[]''
      else ''['' @ newline (depth + 1) @ Prelude.Join (map (indent_text (depth + 1)) vs) ('','' @ newline (depth + 1)) @ newline depth @ '']'')"
| "indent_text depth (JObj ms) =
     (if ms = [] then ''{}''
      else ''{'' @ newline (depth + 1) @
           Prelude.Join (map (\<lambda>(n, v). json_quote n @ '': '' @ indent_text (depth + 1) v) ms) ('','' @ newline (depth + 1)) @
           newline depth @ ''}'')"
| "indent_text depth v = json_text v"

lemma skip_newline [simp]: "skip (newline depth @ s) = skip s"
proof -
  have "skip (replicate n space_ch @ s) = skip s" for n by (induction n) (simp_all add: json_space_def)
  then show ?thesis by (simp add: newline_def json_space_def)
qed

lemma json_val_skip: "skip s = skip t \<Longrightarrow> json_val n s = json_val n t"
  by (cases n) simp_all

lemma json_members_skip: "skip s = skip t \<Longrightarrow> json_members n s = json_members n t"
  by (cases n) simp_all

lemma json_elems_skip: "skip s = skip t \<Longrightarrow> json_elems n s = json_elems n t"
proof (cases n)
  case (Suc m)
  assume "skip s = skip t"
  then have "json_val m s = json_val m t" by (rule json_val_skip)
  then show ?thesis by (simp only: Suc json_elems.simps)
qed simp

definition reads_indented :: "json \<Rightarrow> bool" where
  "reads_indented v \<longleftrightarrow>
     (\<forall>n r depth. nums_ok v \<longrightarrow> fuel v \<le> n \<longrightarrow> num_end r \<longrightarrow> json_val n (indent_text depth v @ r) = Some (valid_json v, r))"

lemma reads_indentedD:
  "reads_indented v \<Longrightarrow> nums_ok v \<Longrightarrow> fuel v \<le> n \<Longrightarrow> num_end r \<Longrightarrow> json_val n (indent_text depth v @ r) = Some (valid_json v, r)"
  by (simp add: reads_indented_def)

lemma num_end_newline [simp]: "num_end (newline depth @ r)" "num_end (CHR '','' # r)"
  by (simp_all add: num_end_def newline_def is_digit_def code_of_def)

lemma elems_indented:
  assumes "\<forall>v \<in> set vs. reads_indented v" and "list_all nums_ok vs" and "vs \<noteq> []"
    and "sum_list (map (\<lambda>v. Suc (fuel v)) vs) \<le> n"
  shows "json_elems n (Prelude.Join (map (indent_text d) vs) ('','' @ newline d) @ newline d' @ CHR '']'' # r) = Some (map valid_json vs, r)"
  using assms
proof (induction vs arbitrary: n)
  case (Cons v vs)
  then obtain m where n: "n = Suc m" "fuel v \<le> m" by (cases n) auto
  let ?rest = "if vs = [] then newline d' @ CHR '']'' # r
    else CHR '','' # newline d @ Prelude.Join (map (indent_text d) vs) ('','' @ newline d) @ newline d' @ CHR '']'' # r"
  have val: "json_val m (indent_text d v @ ?rest) = Some (valid_json v, ?rest)"
    using Cons.prems n(2) by (intro reads_indentedD) auto
  have "json_elems m (newline d @ Prelude.Join (map (indent_text d) vs) ('','' @ newline d) @ newline d' @ CHR '']'' # r) =
      Some (map valid_json vs, r)" if "vs \<noteq> []"
    by (subst json_elems_skip [OF skip_newline], rule Cons.IH) (use Cons n that in auto)
  then show ?case using val
    by (auto simp: n Join_Cons json_space_def)
qed simp

lemma members_indented_deep:
  assumes "\<forall>m \<in> set ms. reads_indented (snd m)" and "list_all (\<lambda>(n, v). nums_ok v) ms" and "ms \<noteq> []"
    and "sum_list (map (\<lambda>(n, v). Suc (fuel v)) ms) \<le> n"
  shows "json_members n (Prelude.Join (map (\<lambda>(n, v). json_quote n @ '': '' @ indent_text d v) ms) ('','' @ newline d) @ newline d' @ CHR ''}'' # r) =
    Some (map (\<lambda>(n, v). (valid_text n, valid_json v)) ms, r)"
  using assms
proof (induction ms arbitrary: n)
  case (Cons x ms)
  obtain k v where x: "x = (k, v)" by (cases x)
  with Cons.prems obtain m where n: "n = Suc m" "fuel v \<le> m" by (cases n) auto
  let ?ts = "map (\<lambda>(n, v). json_quote n @ '': '' @ indent_text d v) ms"
  let ?rest = "if ms = [] then newline d' @ CHR ''}'' # r
    else CHR '','' # newline d @ Prelude.Join ?ts ('','' @ newline d) @ newline d' @ CHR ''}'' # r"
  have "json_val m (indent_text d v @ ?rest) = Some (valid_json v, ?rest)"
    using Cons.prems n(2) by (intro reads_indentedD) (auto simp: x)
  then have val: "json_val m (space_ch # indent_text d v @ ?rest) = Some (valid_json v, ?rest)"
    using json_val_skip [of "space_ch # indent_text d v @ ?rest" "indent_text d v @ ?rest" m] by (simp add: json_space_def)
  have more_ok: "json_members m (newline d @ Prelude.Join ?ts ('','' @ newline d) @ newline d' @ CHR ''}'' # r) =
      Some (map (\<lambda>(n, v). (valid_text n, valid_json v)) ms, r)" if "ms \<noteq> []"
    by (subst json_members_skip [OF skip_newline], rule Cons.IH) (use Cons n that x in auto)
  show ?case
    using json_str_back [of k "CHR '':'' # space_ch # indent_text d v @ ?rest"] val more_ok
    by (auto simp: n x Join_Cons json_space_def json_quote_def)
qed simp

lemma leaf_indented: "\<forall>d. indent_text d v = json_text v \<Longrightarrow> reads_indented v"
  unfolding reads_indented_def using readsD [OF value_back] by simp

lemma value_indented: "reads_indented v"
proof (induction v rule: json_text.induct)
  case (5 vs)
  have "json_val n (indent_text depth (JArr vs) @ r) = Some (valid_json (JArr vs), r)"
    if ok: "list_all nums_ok vs" and n: "fuel (JArr vs) \<le> n" for n r depth
  proof (cases "vs = []")
    case True
    then show ?thesis using n by (cases n) (auto simp: json_space_def)
  next
    case False
    obtain m where m: "n = Suc m" "sum_list (map (\<lambda>v. Suc (fuel v)) vs) \<le> m" using n by (cases n) auto
    let ?body = "Prelude.Join (map (indent_text (depth + 1)) vs) ('','' @ newline (depth + 1)) @ newline depth @ CHR '']'' # r"
    have e: "json_elems m (newline (depth + 1) @ ?body) = Some (map valid_json vs, r)"
      by (subst json_elems_skip [OF skip_newline], rule elems_indented) (use 5 ok False m(2) in auto)
    have "json_val k (indent_text (depth + 1) (hd vs) @ []) \<noteq> None" if "fuel (hd vs) \<le> k" for k
      using reads_indentedD [of "hd vs" k "[]" "depth + 1"] 5 ok False that by (cases vs) (auto simp: num_end_def)
    obtain c t where "skip ?body = c # t" "c \<noteq> CHR '']''"
    proof -
      obtain c t where "indent_text (depth + 1) (hd vs) = c # t" "\<not> json_space c" "c \<noteq> CHR '']''"
      proof (cases "hd vs")
        case (JArr ws)
        then show ?thesis using that [of "CHR ''[''"] by (cases "ws = []") (auto simp: json_space_def)
      next
        case (JObj ms)
        then show ?thesis using that [of "CHR ''{''"] by (cases "ms = []") (auto simp: json_space_def)
      qed (use text_head [of "hd vs"] ok False that in \<open>cases vs; auto\<close>)+
      then show ?thesis using False that by (cases vs) (auto simp: Join_Cons)
    qed
    then show ?thesis using e False by (auto simp: m json_space_def)
  qed
  then show ?case by (simp add: reads_indented_def)
next
  case (6 ms)
  have "json_val n (indent_text depth (JObj ms) @ r) = Some (valid_json (JObj ms), r)"
    if ok: "list_all (\<lambda>(n, v). nums_ok v) ms" and n: "fuel (JObj ms) \<le> n" for n r depth
  proof (cases "ms = []")
    case True
    then show ?thesis using n by (cases n) (auto simp: json_space_def)
  next
    case False
    obtain m where m: "n = Suc m" "sum_list (map (\<lambda>(n, v). Suc (fuel v)) ms) \<le> m" using n by (cases n) auto
    let ?ts = "map (\<lambda>(n, v). json_quote n @ '': '' @ indent_text (depth + 1) v) ms"
    let ?body = "Prelude.Join ?ts ('','' @ newline (depth + 1)) @ newline depth @ CHR ''}'' # r"
    have e: "json_members m (newline (depth + 1) @ ?body) = Some (map (\<lambda>(n, v). (valid_text n, valid_json v)) ms, r)"
      by (subst json_members_skip [OF skip_newline], rule members_indented_deep) (use 6 ok False m(2) in force)+
    obtain t where "?body = dquote_ch # t"
      using False by (cases ms) (auto simp: Join_Cons json_quote_def)
    then have "skip (newline (depth + 1) @ ?body) = dquote_ch # t" by (simp add: json_space_def)
    then show ?thesis using e False by (auto simp: m json_space_def)
  qed
  then show ?case by (simp add: reads_indented_def)
qed (rule leaf_indented, simp)+

lemma Join_longer: "(\<And>x. x \<in> set xs \<Longrightarrow> length (f x) \<le> length (g x)) \<Longrightarrow> length sep \<le> length sep' \<Longrightarrow>
    length (Prelude.Join (map f xs) sep) \<le> length (Prelude.Join (map g xs) sep')"
  by (induction xs) (auto simp: Join_Cons add_mono)

lemma indent_longer: "length (json_text v) \<le> length (indent_text depth v)"
proof (induction v arbitrary: depth rule: json_text.induct)
  case (5 vs)
  then have "length (Prelude.Join (map json_text vs) '','') \<le> length (Prelude.Join (map (indent_text (depth + 1)) vs) ('','' @ newline (depth + 1)))"
    by (intro Join_longer) auto
  then show ?case by simp
next
  case (6 ms)
  have "length (Prelude.Join (map (\<lambda>(n, v). json_quote n @ '':'' @ json_text v) ms) '','') \<le>
      length (Prelude.Join (map (\<lambda>(n, v). json_quote n @ '': '' @ indent_text (depth + 1) v) ms) ('','' @ newline (depth + 1)))"
    using 6 by (intro Join_longer) (fastforce simp: le_SucI)+
  then show ?case by simp
qed simp_all

text \<open>A text of a value with a line end after it.\<close>

lemma indent_back:
  assumes "nums_ok v" and "list_all json_space ws"
  shows "json_parse (indent_text 0 v @ ws) = Some (valid_json v)"
proof -
  have "fuel v \<le> 2 * length (indent_text 0 v @ ws) + 2"
    using fuel_text [OF assms(1)] indent_longer [of v 0] by simp
  moreover have "num_end ws"
    using assms(2) by (cases ws) (auto simp: num_end_def json_space_def is_digit_def code_of_def)
  moreover have "skip ws = []" using assms(2) by (auto simp: dropWhile_eq_Nil_conv list_all_iff)
  ultimately show ?thesis
    by (simp only: json_parse_def reads_indentedD [OF value_indented assms(1)] option.case prod.case refl if_True)
qed

end
