(* ===== verification/ApiTyped.thy ===== *)
theory ApiTyped
  imports ApiCaches JsonBack
begin

text \<open>
  What the answers of the HTTP API's routes for boards, items, branches and settings look like, whatever
  came before: one of its statuses, and a body that a JSON decoder reads as an object.
\<close>

section \<open>Answers\<close>

definition api_statuses :: "int list" where
  "api_statuses = [200, 201, 400, 401, 404, 409, 500, 503]"

definition json_object :: "string \<Rightarrow> bool" where
  "json_object t \<longleftrightarrow> (case json_parse t of Some (JObj ms) \<Rightarrow> True | _ \<Rightarrow> False)"

definition api_ok :: "api_response \<Rightarrow> bool" where
  "api_ok res \<longleftrightarrow>
     as_status res \<in> set api_statuses \<and> Get (as_headers res) ''Content-Type'' = ''application/json''
     \<and> json_object (as_body res)"

lemma json_object_text: "nums_ok (JObj ms) \<Longrightarrow> list_all json_space ws \<Longrightarrow> json_object (json_text (JObj ms) @ ws)"
  unfolding json_object_def by (subst parse_back) auto

lemma content_type [simp]:
  "Get (as_headers (api_writeJSON n v)) ''Content-Type'' = ''application/json''"
  "Get (as_headers (data_answer cc d)) ''Content-Type'' = ''application/json''"
proof -
  have "CanonicalHeaderKey ''Content-Type'' \<noteq> CanonicalHeaderKey ''Cache-Control''" by code_simp
  then show "Get (as_headers (api_writeJSON n v)) ''Content-Type'' = ''application/json''"
    "Get (as_headers (data_answer cc d)) ''Content-Type'' = ''application/json''"
    by (simp_all add: api_writeJSON_def data_answer_def Get_Set del: Set.simps)
qed

lemma ok_JSON: "nums_ok (JObj ms) \<Longrightarrow> n \<in> set api_statuses \<Longrightarrow> api_ok (api_writeJSON n (JObj ms))"
  using json_object_text [of ms "[nl_ch]"]
  unfolding api_ok_def content_type by (simp add: api_writeJSON_def json_space_def del: json_text.simps nums_ok.simps)

section \<open>Numbers\<close>

text \<open>The only numbers of the answers are integers.\<close>

definition mems_ok :: "(string \<times> json) list \<Rightarrow> bool" where
  "mems_ok ms \<longleftrightarrow> list_all (\<lambda>(n, v). nums_ok v) ms"

lemma mems_simps [simp]:
  "mems_ok []" "mems_ok (m # ms) \<longleftrightarrow> nums_ok (snd m) \<and> mems_ok ms" "mems_ok (xs @ ys) \<longleftrightarrow> mems_ok xs \<and> mems_ok ys"
  "mems_ok (str_mem n t)" "mems_ok (opt_str n t)" "mems_ok (opt_int n i)" "mems_ok (opt_bool n b)"
  "mems_ok (opt_list n vs) \<longleftrightarrow> list_all nums_ok vs"
  "mems_ok (opt_ptr n f p) \<longleftrightarrow> (case p of None \<Rightarrow> True | Some x \<Rightarrow> nums_ok (f x))"
  "nums_ok (JInt i)"
  by (auto simp: mems_ok_def str_mem_def opt_str_def opt_int_def opt_bool_def opt_list_def opt_ptr_def JInt_def num_text_Itoa
      split: option.splits)

lemma nums_JObj: "nums_ok (JObj ms) = mems_ok ms"
  by (simp add: mems_ok_def)

lemma strings_ok [simp]: "list_all nums_ok (json_strings ss)"
  by (simp add: json_strings_def list_all_iff)

lemma json_oks [simp]:
  "nums_ok (PendingItem_json p)" "nums_ok (WantedItem_json i)" "nums_ok (Completion_json c)" "nums_ok (Stamp_json t)"
  "nums_ok (UpstreamPR_json u)" "nums_ok (UpstreamInfo_json n)" "nums_ok (error_json msg)" "nums_ok (status_json msg)"
  "nums_ok (BootstrapResponse_json b)"
  by (simp_all add: PendingItem_json_def WantedItem_json_def Completion_json_def Stamp_json_def UpstreamPR_json_def
      UpstreamInfo_json_def error_json_def status_json_def BootstrapResponse_json_def nums_JObj del: nums_ok.simps(3))

lemma answer_oks [simp]:
  "nums_ok (WantedSummary_json w)" "nums_ok (ConfigResponse_json g)" "nums_ok (DetailResponse_json d)"
  by (simp_all add: WantedSummary_json_def ConfigResponse_json_def DetailResponse_json_def nums_JObj list.pred_map comp_def list.pred_True
      del: nums_ok.simps(3) split: option.splits)

lemma list_answer_oks [simp]:
  "nums_ok (BrowseResponse_json r)" "nums_ok (DashboardResponse_json h)" "nums_ok (MutationResponse_json m)"
  by (simp_all add: BrowseResponse_json_def DashboardResponse_json_def MutationResponse_json_def nums_JObj list.pred_map comp_def list.pred_True
      del: nums_ok.simps(3) split: option.splits)

section \<open>Handlers\<close>

lemma ok_error [simp]: "n \<in> set api_statuses \<Longrightarrow> api_ok (api_writeError n msg)"
  unfolding api_writeError_def error_json_def by (rule ok_JSON) (simp_all only: nums_JObj mems_simps)

lemma ok_answers [simp]:
  "n \<in> set api_statuses \<Longrightarrow> api_ok (api_writeJSON n (MutationResponse_json m))"
  "api_ok (api_writeJSON 200 (DashboardResponse_json h))" "api_ok (api_writeJSON 200 (ConfigResponse_json g))"
  "api_ok (api_writeJSON 200 (BootstrapResponse_json b))" "api_ok (api_writeJSON 200 (status_json msg))"
  "api_ok (api_writeJSON 200 (JObj (str_mem name t)))"
  using list_answer_oks answer_oks json_oks
  by (auto simp: MutationResponse_json_def DashboardResponse_json_def ConfigResponse_json_def BootstrapResponse_json_def
      status_json_def api_statuses_def nums_JObj simp del: nums_ok.simps(3) intro!: ok_JSON)

lemma ok_errors [simp]: "api_ok (writeMutationError err)" "api_ok (writeUpstreamError err)"
  by (auto simp: writeMutationError_def writeUpstreamError_def api_statuses_def split: option.splits)

lemma ok_resolve: "resolveClient e sv r = Inl answer \<Longrightarrow> api_ok answer"
  by (auto simp: resolveClient_def Let_def api_statuses_def split: sum.splits option.splits if_splits prod.splits)

lemma ok_client: "(\<And>c a r1. api_ok (fst (f c a r1))) \<Longrightarrow> api_ok (fst (with_client e r sv s f))"
  by (auto simp: with_client_def dest: ok_resolve split: sum.splits)

lemma ok_body: "(\<And>req. api_ok (fst (f req))) \<Longrightarrow> api_ok (fst (with_body e r decode sv s f))"
  by (auto simp: with_body_def api_statuses_def split: sum.splits option.splits)

lemma ok_steps [simp]:
  "api_ok (fst (bad_request msg sv s))" "api_ok (fst (mutation_answer 200 r c wipe sv out))"
  "api_ok (fst (mutation_answer 201 r c wipe sv out))" "api_ok (fst (branch_answer 400 msg r c sv res))"
  "api_ok (fst (branch_answer 500 msg r c sv res))"
  by (auto simp: bad_request_def mutation_answer_def branch_answer_def api_statuses_def
      split: prod.splits sum.splits option.splits)

lemmas handler_defs = handlePost_def handleUpdate_def handleDelete_def handleClaim_def handleUnclaim_def handleClose_def
  item_mutation_def handleDone_def handleReject_def handleAccept_def handleAcceptUpstream_def handleRejectUpstream_def
  handleCloseUpstream_def handleApplyBranch_def handleDiscardBranch_def handleSync_def handleDashboard_def handleConfig_def
  handleBootstrap_def handleSubmitPR_def handleBranchDiff_def handleSaveSettings_def

lemma ok_handle:
  assumes "t \<noteq> ABrowse" and "t \<noteq> ADetail"
  shows "api_ok (fst (api_handle e t r sv s))"
  using assms
  by (cases t) (auto simp: handler_defs Let_def api_statuses_def intro!: ok_client ok_body
      split: prod.splits sum.splits option.splits)

text \<open>Data of a read, and what a failing read serves.\<close>

lemma ok_data: "json_object d \<Longrightarrow> api_ok (data_answer cc d)"
  unfolding api_ok_def content_type by (simp add: data_answer_def api_statuses_def)

lemma ok_failure:
  assumes "\<And>d. b \<Longrightarrow> stale = Some d \<Longrightarrow> json_object (patch d)"
  shows "api_ok (read_failure b patch stale err)"
  using assms by (auto simp: read_failure_def api_statuses_def intro: ok_data split: option.splits)

lemma object_of: "nums_ok v \<Longrightarrow> v = JObj ms \<Longrightarrow> json_object (json_text v)"
  using json_object_text [of ms "[]"] by (simp del: json_text.simps nums_ok.simps)

lemma object_response: "json_object (json_text (BrowseResponse_json r))" "json_object (json_text (DetailResponse_json d))"
  by (rule object_of [OF list_answer_oks(1) BrowseResponse_json_def], rule object_of [OF answer_oks(3) DetailResponse_json_def])

lemma object_browse: "browse_fetch e c f s = Inr d \<Longrightarrow> json_object d"
  by (auto simp: browse_fetch_def object_response split: sum.splits)

lemma object_detail: "detail_fetch c b i s = Inr d \<Longrightarrow> json_object d"
  by (auto simp: detail_fetch_def object_response split: sum.splits if_splits)

lemma object_stale: "json_object d \<Longrightarrow> json_object (stale_browse d)"
  by (auto simp: stale_browse_def object_response split: option.splits)

section \<open>Reads from a cache\<close>

lemma stored_object: "stores_board ev st key d \<Longrightarrow> json_object d" "stores_item ev st key d \<Longrightarrow> json_object d"
  by (auto simp: stores_board_def stores_item_def Let_def dest: object_browse object_detail split: sum.splits)

lemma cached_object:
  assumes "new_caches sv"
  shows "map_of (rc_entries (sv_browseCache (fst (api_run evs (sv, s))))) key = Some x \<Longrightarrow> json_object (ce_data x)"
    and "map_of (rc_entries (sv_detailCache (fst (api_run evs (sv, s))))) key = Some x \<Longrightarrow> json_object (ce_data x)"
proof -
  note new = new_caches_empty [OF assms]
  show "json_object (ce_data x)" if "map_of (rc_entries (sv_browseCache (fst (api_run evs (sv, s))))) key = Some x"
    using board.entry_origin [OF _ _ that] new stored_object(1) by (metis fst_conv)
  show "json_object (ce_data x)" if "map_of (rc_entries (sv_detailCache (fst (api_run evs (sv, s))))) key = Some x"
    using items.entry_origin [OF _ _ that] new stored_object(2) by (metis fst_conv)
qed

lemma read_object:
  assumes "rc_inflight c = []" and "\<And>x. map_of (rc_entries c) key = Some x \<Longrightarrow> json_object (ce_data x)"
    and "\<And>v. fetched = Inr v \<Longrightarrow> json_object v"
    and "(if cacheable then GetOrFetch e key fetched c
       else ((case fetched of Inr v \<Rightarrow> (v, None) | Inl err \<Rightarrow> ([], Some err)), c)) = ((d, err), c')"
  shows "err = None \<Longrightarrow> json_object d" and "cacheable \<Longrightarrow> GetStale key c' = Some old \<Longrightarrow> json_object old"
  using GetOrFetch_data [OF assms(1), of e key fetched d] GetOrFetch_entry [OF assms(1), of e key fetched key] assms(2-4)
  by (auto simp: GetStale_def split: if_splits sum.splits)

lemma browse_ok:
  assumes new: "new_caches sv" and ev: "ev_route ev = ABrowse"
  shows "api_ok (api_answer ev (api_run evs (sv, s)))"
proof -
  let ?st = "api_run evs (sv, s)"
  have quiet: "rc_inflight (sv_browseCache (fst ?st)) = []"
    by (rule board.run_quiet) (simp add: new_caches_empty [OF new])
  show ?thesis
    unfolding api_answer_def ev api_handle.simps handleBrowse_def Let_def
  proof (rule ok_client, split prod.split, intro allI impI, split prod.split, intro allI impI)
    fix c a r1 x cache d err
    assume g: "(if sp_cacheable (server_readCacheScope (sv_hosted (fst ?st)) r1 c)
        then GetOrFetch (ev_env ev) (browseCacheKey (server_readCacheScope (sv_hosted (fst ?st)) r1 c) r1)
               (browse_fetch (ev_env ev) c (parseQueryFilter r1) (snd ?st)) (sv_browseCache (fst ?st))
        else (case browse_fetch (ev_env ev) c (parseQueryFilter r1) (snd ?st) of Inl err \<Rightarrow> ([], Some err)
               | Inr v \<Rightarrow> (v, None), sv_browseCache (fst ?st))) = (x, cache)" and x: "x = (d, err)"
    have read: "err = None \<Longrightarrow> json_object d"
        "sp_cacheable (server_readCacheScope (sv_hosted (fst ?st)) r1 c) \<Longrightarrow> GetStale (browseCacheKey (server_readCacheScope (sv_hosted (fst ?st)) r1 c) r1) cache = Some old \<Longrightarrow>
         json_object old" for old
      by (rule read_object [OF quiet _ _ g [unfolded x]], erule cached_object(1) [OF new], erule object_browse, assumption+)+
    show "api_ok (fst (case err of None \<Rightarrow> data_answer (cacheControl (fst ?st)) d
        | Some err \<Rightarrow> read_failure (sp_cacheable (server_readCacheScope (sv_hosted (fst ?st)) r1 c)) stale_browse
            (GetStale (browseCacheKey (server_readCacheScope (sv_hosted (fst ?st)) r1 c) r1) cache) err,
        (fst ?st)\<lparr>sv_browseCache := cache\<rparr>, snd ?st))"
      using read by (auto intro!: ok_data ok_failure object_stale split: option.splits)
  qed
qed

lemma detail_ok:
  assumes new: "new_caches sv" and ev: "ev_route ev = ADetail"
  shows "api_ok (api_answer ev (api_run evs (sv, s)))"
proof -
  let ?st = "api_run evs (sv, s)"
  have quiet: "rc_inflight (sv_detailCache (fst ?st)) = []"
    by (rule items.run_quiet) (simp add: new_caches_empty [OF new])
  show ?thesis
    unfolding api_answer_def ev api_handle.simps handleDetail_def Let_def
  proof (rule ok_client, split prod.split, intro allI impI, split prod.split, intro allI impI)
    fix c a r1 x cache d err
    assume g: "(if sp_cacheable (server_readCacheScope (sv_hosted (fst ?st)) r1 c)
        then GetOrFetch (ev_env ev) (detailCacheKey (server_readCacheScope (sv_hosted (fst ?st)) r1 c) (rq_value r1 ''id''))
               (detail_fetch c (sp_cacheable (server_readCacheScope (sv_hosted (fst ?st)) r1 c)) (rq_value r1 ''id'') (snd ?st))
               (sv_detailCache (fst ?st))
        else (case detail_fetch c (sp_cacheable (server_readCacheScope (sv_hosted (fst ?st)) r1 c)) (rq_value r1 ''id'') (snd ?st)
               of Inl err \<Rightarrow> ([], Some err) | Inr v \<Rightarrow> (v, None), sv_detailCache (fst ?st))) = (x, cache)"
      and x: "x = (d, err)"
    have read: "err = None \<Longrightarrow> json_object d"
        "sp_cacheable (server_readCacheScope (sv_hosted (fst ?st)) r1 c) \<Longrightarrow> GetStale (detailCacheKey (server_readCacheScope (sv_hosted (fst ?st)) r1 c) (rq_value r1 ''id'')) cache = Some old \<Longrightarrow>
         json_object old" for old
      by (rule read_object [OF quiet _ _ g [unfolded x]], erule cached_object(2) [OF new], erule object_detail, assumption+)+
    show "api_ok (fst (case err of None \<Rightarrow> data_answer (cacheControl (fst ?st)) d
        | Some err \<Rightarrow> if Contains (Error err) ''not found'' then api_writeError 404 (Error err)
            else read_failure (sp_cacheable (server_readCacheScope (sv_hosted (fst ?st)) r1 c)) (\<lambda>d. d)
              (GetStale (detailCacheKey (server_readCacheScope (sv_hosted (fst ?st)) r1 c) (rq_value r1 ''id'')) cache) err,
        (fst ?st)\<lparr>sv_detailCache := cache\<rparr>, snd ?st))"
      using read
      by (auto simp: api_statuses_def intro!: ok_data ok_failure split: option.splits)
  qed
qed

text \<open>
  C10: Whatever requests to the 23 routes of \<open>api_route\<close> (the reads of the board, of an item, of the
  dashboard and of the configuration, the changes of items and branches, settings, sync) a new server has
  served, in whatever state they have left its caches and its database, the answer to the next request to
  one of these routes has one of the API's statuses and a body that a JSON decoder reads as an object; a
  request that fails, or is served stale data, is no exception.  The other endpoints of the server (the
  scoreboard with its preflight, the profiles, telemetry) are not among these routes.
\<close>

theorem every_answer_is_json:
  assumes "new_caches sv"
  shows "api_ok (api_answer ev (api_run evs (sv, s)))"
proof -
  consider "ev_route ev = ABrowse" | "ev_route ev = ADetail" | "ev_route ev \<noteq> ABrowse" "ev_route ev \<noteq> ADetail" by blast
  then show ?thesis
  proof cases
    case 3
    then show ?thesis unfolding api_answer_def by (rule ok_handle)
  qed (simp_all add: browse_ok [OF assms] detail_ok [OF assms])
qed

theorem every_answer_is_json_witness:
  "api_ok (api_answer (demo_event AClaim 20) (api_run [demo_event ABrowse 10, demo_event ADetail 15] (demo_server, ''open'')))"
  by (rule every_answer_is_json) (simp add: demo_server_def constructors_new)

end
