(* ===== verification/ApiProps.thy ===== *)
theory ApiProps
  imports ApiCaches
begin

text \<open>
  What the HTTP API promises: a board or an item out of a cache is recent and nothing that was changed
  through the server since is missing from it; a request that is refused changes nothing.
\<close>

section \<open>Where an answer comes from\<close>

lemma cache_control [simp]: "Get (as_headers (data_answer cc d)) ''Cache-Control'' = cc"
  by (simp add: data_answer_def Get_def CanonicalHeaderKey_def)

lemma cacheable_control [simp]: "cacheControl sv \<noteq> ''no-store''"
  by (simp add: cacheControl_def)

lemma failure_control:
  "as_status (read_failure b patch stale err) = 200 \<Longrightarrow>
   Get (as_headers (read_failure b patch stale err)) ''Cache-Control'' = ''no-store''"
  by (auto simp: read_failure_def split: option.splits if_splits)

text \<open>What a request for the board, or for an item, is for, and what the database answers it.\<close>

definition board_read ::
  "api_event \<Rightarrow> 's api_state \<Rightarrow> ((string \<times> string \<times> string \<times> string) \<times> BrowseFilter \<times> (go_error + string)) option" where
  "board_read ev st =
     (case resolveClient (ev_env ev) (fst st) (ev_req ev) of
        Inl _ \<Rightarrow> None
      | Inr (c, a, r) \<Rightarrow>
          Some (scope_key (server_readCacheScope (sv_hosted (fst st)) r c), parseQueryFilter r,
                browse_fetch (ev_env ev) c (parseQueryFilter r) (snd st)))"

definition item_read ::
  "api_event \<Rightarrow> 's api_state \<Rightarrow> ((string \<times> string \<times> string \<times> string) \<times> string \<times> (go_error + string)) option" where
  "item_read ev st =
     (case resolveClient (ev_env ev) (fst st) (ev_req ev) of
        Inl _ \<Rightarrow> None
      | Inr (c, a, r) \<Rightarrow>
          (let scope = server_readCacheScope (sv_hosted (fst st)) r c
           in Some (scope_key scope, TrimSpace (rq_value r ''id''),
                    detail_fetch c (sp_cacheable scope) (rq_value r ''id'') (snd st))))"

lemma board_answer:
  assumes "ev_route ev = ABrowse" and "as_status (api_answer ev st) = 200"
    and "Get (as_headers (api_answer ev st)) ''Cache-Control'' \<noteq> ''no-store''"
    and "rc_inflight (sv_browseCache (fst st)) = []"
  obtains c a r where "resolveClient (ev_env ev) (fst st) (ev_req ev) = Inr (c, a, r)"
    and "browse_fetch (ev_env ev) c (parseQueryFilter r) (snd st) = Inr (as_body (api_answer ev st))
      \<or> (\<exists>x. map_of (rc_entries (sv_browseCache (fst st)))
               (browseCacheKey (server_readCacheScope (sv_hosted (fst st)) r c) r) = Some x
            \<and> ce_data x = as_body (api_answer ev st)
            \<and> ae_now (ev_env ev) - ce_storedAt x \<le> rc_maxAge (sv_browseCache (fst st)))"
proof -
  obtain c a r where res: "resolveClient (ev_env ev) (fst st) (ev_req ev) = Inr (c, a, r)"
  proof (cases "resolveClient (ev_env ev) (fst st) (ev_req ev)")
    case (Inl answer)
    then show ?thesis
      using assms(1,2) resolve_status [OF Inl] by (simp add: api_answer_def handleBrowse_def with_client_def)
  qed auto
  let ?scope = "server_readCacheScope (sv_hosted (fst st)) r c"
  let ?fetched = "browse_fetch (ev_env ev) c (parseQueryFilter r) (snd st)"
  let ?got = "if sp_cacheable ?scope
      then GetOrFetch (ev_env ev) (browseCacheKey ?scope r) ?fetched (sv_browseCache (fst st))
      else ((case ?fetched of Inr v \<Rightarrow> (v, None) | Inl err \<Rightarrow> ([], Some err)), sv_browseCache (fst st))"
  obtain d err c' where got: "?got = ((d, err), c')" by (metis prod.exhaust)
  then have answer: "api_answer ev st = (case err of
         None \<Rightarrow> data_answer (cacheControl (fst st)) d
       | Some e \<Rightarrow> read_failure (sp_cacheable ?scope) stale_browse (GetStale (browseCacheKey ?scope r) c') e)"
    using assms(1) by (simp add: api_answer_def handleBrowse_def with_client_def res Let_def)
  have "err = None" using assms(2,3) failure_control by (auto simp: answer split: option.splits)
  moreover from this have "as_body (api_answer ev st) = d" by (simp add: answer data_answer_def)
  ultimately show ?thesis
    using that [OF res] got GetOrFetch_data [OF assms(4)]
    by (auto split: if_splits sum.splits)
qed

text \<open>An answer marked \<^verbatim>\<open>no-store\<close> is what the cache still has, when the database fails.\<close>

lemma GetOrFetch_error:
  assumes "rc_inflight c = []" and "fst (GetOrFetch e key fetched c) = (data, Some err)"
  shows "fetched = Inl err"
proof (cases "cache_Get (ae_now e) key c")
  case None
  obtain i c1 where s: "start_call key c = (Begin i, c1)" by (simp add: start_call_def Let_def)
  show ?thesis
    using assms(2) by (cases fetched) (simp_all add: GetOrFetch_def None quiet_turn [OF assms(1) None] s Let_def)
qed (use assms(2) in \<open>simp add: GetOrFetch_def\<close>)

lemma board_stale:
  assumes "ev_route ev = ABrowse" and "as_status (api_answer ev st) = 200"
    and "Get (as_headers (api_answer ev st)) ''Cache-Control'' = ''no-store''"
    and "rc_inflight (sv_browseCache (fst st)) = []"
  obtains c a r err x where "resolveClient (ev_env ev) (fst st) (ev_req ev) = Inr (c, a, r)"
    and "browse_fetch (ev_env ev) c (parseQueryFilter r) (snd st) = Inl err" and "\<not> isUpstreamAuthError err"
    and "map_of (rc_entries (sv_browseCache (fst st)))
           (browseCacheKey (server_readCacheScope (sv_hosted (fst st)) r c) r) = Some x"
    and "as_body (api_answer ev st) = stale_browse (ce_data x)"
proof -
  obtain c a r where res: "resolveClient (ev_env ev) (fst st) (ev_req ev) = Inr (c, a, r)"
  proof (cases "resolveClient (ev_env ev) (fst st) (ev_req ev)")
    case (Inl answer)
    then show ?thesis
      using assms(1,2) resolve_status [OF Inl] by (simp add: api_answer_def handleBrowse_def with_client_def)
  qed auto
  let ?scope = "server_readCacheScope (sv_hosted (fst st)) r c"
  let ?key = "browseCacheKey ?scope r"
  let ?fetched = "browse_fetch (ev_env ev) c (parseQueryFilter r) (snd st)"
  let ?got = "if sp_cacheable ?scope
      then GetOrFetch (ev_env ev) ?key ?fetched (sv_browseCache (fst st))
      else ((case ?fetched of Inr v \<Rightarrow> (v, None) | Inl err \<Rightarrow> ([], Some err)), sv_browseCache (fst st))"
  obtain d err c' where got: "?got = ((d, err), c')" by (metis prod.exhaust)
  then have answer: "api_answer ev st = (case err of
         None \<Rightarrow> data_answer (cacheControl (fst st)) d
       | Some e \<Rightarrow> read_failure (sp_cacheable ?scope) stale_browse (GetStale ?key c') e)"
    using assms(1) by (simp add: api_answer_def handleBrowse_def with_client_def res Let_def)
  obtain e where e: "err = Some e" using assms(3) by (cases err) (simp_all add: answer)
  obtain data where stale: "sp_cacheable ?scope" "\<not> isUpstreamAuthError e" "GetStale ?key c' = Some data"
    "as_body (api_answer ev st) = stale_browse data"
    using assms(2) unfolding answer e by (auto simp: read_failure_def data_answer_def split: option.splits if_splits)
  have g: "GetOrFetch (ev_env ev) ?key ?fetched (sv_browseCache (fst st)) = ((d, Some e), c')" using got stale(1) e by simp
  have fetched: "?fetched = Inl e" using GetOrFetch_error [OF assms(4), of "ev_env ev" ?key ?fetched d e] g by simp
  obtain x where x: "map_of (rc_entries c') ?key = Some x" "ce_data x = data" using stale(3) by (auto simp: GetStale_def)
  have "map_of (rc_entries (sv_browseCache (fst st))) ?key = Some x"
    using GetOrFetch_entry [OF assms(4), of "ev_env ev" ?key ?fetched ?key x] g x(1) fetched by simp
  then show ?thesis using that [OF res fetched stale(2)] stale(4) x(2) by simp
qed

lemma item_answer:
  assumes "ev_route ev = ADetail" and "as_status (api_answer ev st) = 200"
    and "Get (as_headers (api_answer ev st)) ''Cache-Control'' \<noteq> ''no-store''"
    and "rc_inflight (sv_detailCache (fst st)) = []"
  obtains c a r where "resolveClient (ev_env ev) (fst st) (ev_req ev) = Inr (c, a, r)"
    and "detail_fetch c (sp_cacheable (server_readCacheScope (sv_hosted (fst st)) r c)) (rq_value r ''id'') (snd st)
        = Inr (as_body (api_answer ev st))
      \<or> (\<exists>x. map_of (rc_entries (sv_detailCache (fst st)))
               (detailCacheKey (server_readCacheScope (sv_hosted (fst st)) r c) (rq_value r ''id'')) = Some x
            \<and> ce_data x = as_body (api_answer ev st)
            \<and> ae_now (ev_env ev) - ce_storedAt x \<le> rc_maxAge (sv_detailCache (fst st)))"
proof -
  obtain c a r where res: "resolveClient (ev_env ev) (fst st) (ev_req ev) = Inr (c, a, r)"
  proof (cases "resolveClient (ev_env ev) (fst st) (ev_req ev)")
    case (Inl answer)
    then show ?thesis
      using assms(1,2) resolve_status [OF Inl] by (simp add: api_answer_def handleDetail_def with_client_def)
  qed auto
  let ?scope = "server_readCacheScope (sv_hosted (fst st)) r c" and ?i = "rq_value r ''id''"
  let ?fetched = "detail_fetch c (sp_cacheable ?scope) ?i (snd st)"
  let ?got = "if sp_cacheable ?scope
      then GetOrFetch (ev_env ev) (detailCacheKey ?scope ?i) ?fetched (sv_detailCache (fst st))
      else ((case ?fetched of Inr v \<Rightarrow> (v, None) | Inl err \<Rightarrow> ([], Some err)), sv_detailCache (fst st))"
  obtain d err c' where got: "?got = ((d, err), c')" by (metis prod.exhaust)
  then have answer: "api_answer ev st = (case err of
         None \<Rightarrow> data_answer (cacheControl (fst st)) d
       | Some e \<Rightarrow> if Contains (Error e) ''not found'' then api_writeError 404 (Error e)
           else read_failure (sp_cacheable ?scope) (\<lambda>d. d) (GetStale (detailCacheKey ?scope ?i) c') e)"
    using assms(1) by (simp add: api_answer_def handleDetail_def with_client_def res Let_def)
  have "err = None" using assms(2,3) failure_control by (auto simp: answer split: option.splits if_splits)
  moreover from this have "as_body (api_answer ev st) = d" by (simp add: answer data_answer_def)
  ultimately show ?thesis
    using that [OF res] got GetOrFetch_data [OF assms(4)]
    by (auto split: if_splits sum.splits)
qed

section \<open>Recent answers\<close>

text \<open>An entry of a cache is what the database said to an earlier request that asked the same.\<close>

definition recent_read ::
  "(api_event \<Rightarrow> 's api_state \<Rightarrow> ('k \<times> 'f \<times> (go_error + string)) option) \<Rightarrow> api_route \<Rightarrow> 'k \<Rightarrow> 'f \<Rightarrow>
     (api_event \<Rightarrow> 's api_state \<Rightarrow> bool) \<Rightarrow> int \<Rightarrow> api_event list \<Rightarrow> 's api_state \<Rightarrow> string \<Rightarrow> bool" where
  "recent_read reads t k f spoils now evs st data \<longleftrightarrow>
     (\<exists>before old after. evs = before @ old # after \<and> ev_route old = t
        \<and> reads old (api_run before st) = Some (k, f, Inr data)
        \<and> now - ae_now (ev_env old) \<le> 30000000000
        \<and> untouched spoils after (api_run (before @ [old]) st))"

text \<open>The same, however long ago.\<close>

definition earlier_read ::
  "(api_event \<Rightarrow> 's api_state \<Rightarrow> ('k \<times> 'f \<times> (go_error + string)) option) \<Rightarrow> api_route \<Rightarrow> 'k \<Rightarrow> 'f \<Rightarrow>
     (api_event \<Rightarrow> 's api_state \<Rightarrow> bool) \<Rightarrow> api_event list \<Rightarrow> 's api_state \<Rightarrow> string \<Rightarrow> bool" where
  "earlier_read reads t k f spoils evs st data \<longleftrightarrow>
     (\<exists>before old after. evs = before @ old # after \<and> ev_route old = t
        \<and> reads old (api_run before st) = Some (k, f, Inr data)
        \<and> untouched spoils after (api_run (before @ [old]) st))"

lemma board_origin:
  assumes "new_caches sv"
    and "map_of (rc_entries (sv_browseCache (fst (api_run evs (sv, s))))) (browseCacheKey scope r) = Some x"
  obtains before old after where "evs = before @ old # after" "ev_route old = ABrowse"
    "board_read old (api_run before (sv, s)) = Some (scope_key scope, parseQueryFilter r, Inr (ce_data x))"
    "ce_storedAt x = ae_now (ev_env old)"
    "untouched (\<lambda>g t. affects_board (fst (scope_key scope)) (change g t)) after (api_run (before @ [old]) (sv, s))"
proof -
  obtain before old after where o: "evs = before @ old # after"
    "stores_board old (api_run before (sv, s)) (browseCacheKey scope r) (ce_data x)"
    "ce_storedAt x = ae_now (ev_env old)"
    "untouched (\<lambda>g t. busts_board (change g t) (browseCacheKey scope r)) after (api_run (before @ [old]) (sv, s))"
    using board.entry_origin [OF _ _ assms(2)] new_caches_empty [OF assms(1)] by fastforce
  then have "ev_route old = ABrowse
      \<and> board_read old (api_run before (sv, s)) = Some (scope_key scope, parseQueryFilter r, Inr (ce_data x))"
    by (auto simp: stores_board_def board_read_def Let_def dest: browse_key_fields split: sum.splits)
  moreover have "untouched (\<lambda>g t. affects_board (fst (scope_key scope)) (change g t)) after
        (api_run (before @ [old]) (sv, s))"
    using o(4) by (simp add: busts_board_key scope_key_def)
  ultimately show ?thesis using that o(1,3) by blast
qed

lemma board_entry:
  assumes "new_caches sv"
    and "map_of (rc_entries (sv_browseCache (fst (api_run evs (sv, s))))) (browseCacheKey scope r) = Some x"
    and "now - ce_storedAt x \<le> rc_maxAge (sv_browseCache (fst (api_run evs (sv, s))))"
    and "ce_data x = data"
  shows "recent_read board_read ABrowse (scope_key scope) (parseQueryFilter r)
      (\<lambda>g t. affects_board (fst (scope_key scope)) (change g t)) now evs (sv, s) data"
proof -
  have "now - ce_storedAt x \<le> 30000000000"
    using assms(3) board.run_age [of evs "(sv, s)"] by (simp add: new_caches_empty [OF assms(1)])
  then show ?thesis
    using board_origin [OF assms(1,2)] unfolding recent_read_def assms(4) [symmetric] by metis
qed

lemma item_entry:
  assumes "new_caches sv"
    and "map_of (rc_entries (sv_detailCache (fst (api_run evs (sv, s))))) (detailCacheKey scope i) = Some x"
    and "now - ce_storedAt x \<le> rc_maxAge (sv_detailCache (fst (api_run evs (sv, s))))"
    and "ce_data x = data"
  shows "recent_read item_read ADetail (scope_key scope) (TrimSpace i)
      (\<lambda>g t. affects_item (fst (scope_key scope)) (TrimSpace i) (change g t)) now evs (sv, s) data"
proof -
  note new = new_caches_empty [OF assms(1)]
  obtain before old after where o: "evs = before @ old # after"
    "stores_item old (api_run before (sv, s)) (detailCacheKey scope i) (ce_data x)"
    "ce_storedAt x = ae_now (ev_env old)"
    "untouched (\<lambda>g t. busts_item (change g t) (detailCacheKey scope i)) after (api_run (before @ [old]) (sv, s))"
    using items.entry_origin [OF _ _ assms(2)] new by fastforce
  then have "ev_route old = ADetail
      \<and> item_read old (api_run before (sv, s)) = Some (scope_key scope, TrimSpace i, Inr (ce_data x))"
    by (auto simp: stores_item_def item_read_def Let_def dest: detail_key_fields split: sum.splits)
  moreover have "now - ae_now (ev_env old) \<le> 30000000000"
    using assms(3) o(3) items.run_age [of evs "(sv, s)"] by (simp add: new)
  moreover have "untouched (\<lambda>g t. affects_item (fst (scope_key scope)) (TrimSpace i) (change g t)) after
        (api_run (before @ [old]) (sv, s))"
    using o(4) by (simp add: busts_item_key scope_key_def)
  ultimately show ?thesis unfolding recent_read_def assms(4) [symmetric] using o(1) by blast
qed

text \<open>
  C7: A board that is answered is what the database says now, or what it said at most 30 seconds ago
  to a request of the same scope (upstream, viewer, mode, impersonation) with the same filter, since
  when no request that was answered with success has changed that upstream's board.  The one exception
  is marked \<^verbatim>\<open>no-store\<close>: when the database fails with an error that is not one of the credentials, the
  answer is, with the warning that it is stale, what the database said at any time to such a request, and
  again no successful request has changed that board since.
\<close>

theorem board_answer_recent:
  assumes "new_caches sv" and "ev_route ev = ABrowse"
    and "as_status (api_answer ev (api_run evs (sv, s))) = 200"
  shows "case board_read ev (api_run evs (sv, s)) of
      None \<Rightarrow> False
    | Some (k, f, fetched) \<Rightarrow>
        if Get (as_headers (api_answer ev (api_run evs (sv, s)))) ''Cache-Control'' = ''no-store''
        then (\<exists>err data. fetched = Inl err \<and> \<not> isUpstreamAuthError err
            \<and> as_body (api_answer ev (api_run evs (sv, s))) = stale_browse data
            \<and> earlier_read board_read ABrowse k f (\<lambda>g t. affects_board (fst k) (change g t)) evs (sv, s) data)
        else fetched = Inr (as_body (api_answer ev (api_run evs (sv, s))))
          \<or> recent_read board_read ABrowse k f (\<lambda>g t. affects_board (fst k) (change g t)) (ae_now (ev_env ev)) evs (sv, s)
              (as_body (api_answer ev (api_run evs (sv, s))))"
proof -
  let ?st = "api_run evs (sv, s)"
  have quiet: "rc_inflight (sv_browseCache (fst ?st)) = []"
    by (rule board.run_quiet) (simp add: new_caches_empty [OF assms(1)])
  show ?thesis
  proof (cases "Get (as_headers (api_answer ev ?st)) ''Cache-Control'' = ''no-store''")
    case True
    from board_stale [OF assms(2,3) True quiet] show ?thesis
    proof cases
      case (1 c a r err x)
      have "earlier_read board_read ABrowse (scope_key (server_readCacheScope (sv_hosted (fst ?st)) r c)) (parseQueryFilter r)
          (\<lambda>g t. affects_board (fst (scope_key (server_readCacheScope (sv_hosted (fst ?st)) r c))) (change g t)) evs (sv, s)
          (ce_data x)"
        using board_origin [OF assms(1) 1(4)] unfolding earlier_read_def by metis
      then show ?thesis using 1 True by (auto simp: board_read_def)
    qed
  next
    case False
    from board_answer [OF assms(2,3) False quiet] show ?thesis
    proof cases
      case (1 c a r)
      then show ?thesis
        using False by (auto simp: board_read_def intro: board_entry [OF assms(1)])
    qed
  qed
qed

text \<open>
  The same for an item: its answer is what the database says now, or what it said at most 30 seconds
  ago to a request of the same scope for the same item, since when no request that was answered with
  success has changed that item or all of its upstream.
\<close>

theorem item_answer_recent:
  assumes "new_caches sv" and "ev_route ev = ADetail"
    and "as_status (api_answer ev (api_run evs (sv, s))) = 200"
    and "Get (as_headers (api_answer ev (api_run evs (sv, s)))) ''Cache-Control'' \<noteq> ''no-store''"
  shows "case item_read ev (api_run evs (sv, s)) of
      None \<Rightarrow> False
    | Some (k, i, fetched) \<Rightarrow>
        fetched = Inr (as_body (api_answer ev (api_run evs (sv, s))))
        \<or> recent_read item_read ADetail k i (\<lambda>g t. affects_item (fst k) i (change g t)) (ae_now (ev_env ev)) evs (sv, s)
            (as_body (api_answer ev (api_run evs (sv, s))))"
proof -
  let ?st = "api_run evs (sv, s)"
  have "rc_inflight (sv_detailCache (fst ?st)) = []"
    by (rule items.run_quiet) (simp add: new_caches_empty [OF assms(1)])
  from item_answer [OF assms(2-4) this] show ?thesis
  proof cases
    case (1 c a r)
    then show ?thesis
      by (auto simp: item_read_def Let_def intro: item_entry [OF assms(1)])
  qed
qed

text \<open>A read whose database answers is answered.\<close>

lemma GetOrFetch_answers:
  assumes "rc_inflight c = []"
  shows "snd (fst (GetOrFetch e key (Inr v) c)) = None"
proof (cases "cache_Get (ae_now e) key c")
  case None
  obtain i c1 where s: "start_call key c = (Begin i, c1)" by (simp add: start_call_def Let_def)
  show ?thesis by (simp add: GetOrFetch_def None quiet_turn [OF assms None] s Let_def)
qed (simp add: GetOrFetch_def)

lemma board_answered:
  assumes "ev_route ev = ABrowse" and "rc_inflight (sv_browseCache (fst st)) = []"
    and "resolveClient (ev_env ev) (fst st) (ev_req ev) = Inr (c, a, r)"
    and "browse_fetch (ev_env ev) c (parseQueryFilter r) (snd st) = Inr v"
  shows "as_status (api_answer ev st) = 200 \<and> Get (as_headers (api_answer ev st)) ''Cache-Control'' \<noteq> ''no-store''"
  using assms(1,3,4) GetOrFetch_answers [OF assms(2), where v = v]
  by (auto simp: api_answer_def handleBrowse_def with_client_def Let_def case_prod_beta')

lemma item_answered:
  assumes "ev_route ev = ADetail" and "rc_inflight (sv_detailCache (fst st)) = []"
    and "resolveClient (ev_env ev) (fst st) (ev_req ev) = Inr (c, a, r)"
    and "detail_fetch c (sp_cacheable (server_readCacheScope (sv_hosted (fst st)) r c)) (rq_value r ''id'') (snd st) = Inr v"
  shows "as_status (api_answer ev st) = 200 \<and> Get (as_headers (api_answer ev st)) ''Cache-Control'' \<noteq> ''no-store''"
  using assms(1,3,4) GetOrFetch_answers [OF assms(2), where v = v]
  by (auto simp: api_answer_def handleDetail_def with_client_def Let_def case_prod_beta')

lemma read_state:
  "ev_route ev = ABrowse \<Longrightarrow> \<exists>cache. api_step ev st = ((fst st)\<lparr>sv_browseCache := cache\<rparr>, snd st)"
  "ev_route ev = ADetail \<Longrightarrow> \<exists>cache. api_step ev st = ((fst st)\<lparr>sv_detailCache := cache\<rparr>, snd st)"
  by (auto simp: api_step_def handleBrowse_def handleDetail_def with_client_def Let_def case_prod_beta'
      intro: exI [of _ "sv_browseCache (fst st)"] exI [of _ "sv_detailCache (fst st)"] split: sum.splits)

section \<open>On a server\<close>

theorem board_answer_recent_witness:
  "case board_read (demo_event ABrowse 20) (api_run [demo_event ABrowse 10] (demo_server, ''open'')) of
      None \<Rightarrow> False
    | Some (k, f, fetched) \<Rightarrow>
        fetched = Inr (as_body (api_answer (demo_event ABrowse 20) (api_run [demo_event ABrowse 10] (demo_server, ''open''))))
        \<or> recent_read board_read ABrowse k f (\<lambda>g t. affects_board (fst k) (change g t)) 20 [demo_event ABrowse 10]
            (demo_server, ''open'')
            (as_body (api_answer (demo_event ABrowse 20) (api_run [demo_event ABrowse 10] (demo_server, ''open''))))"
proof -
  let ?st = "api_run [demo_event ABrowse 10] (demo_server, ''open'')" and ?ev = "demo_event ABrowse 20"
  have new: "new_caches demo_server" by (simp add: demo_server_def constructors_new)
  have route: "ev_route ?ev = ABrowse" "ae_now (ev_env ?ev) = 20" by (simp_all add: demo_event_def)
  have "rc_inflight (sv_browseCache (fst ?st)) = []"
    by (rule board.run_quiet) (simp add: new_caches_empty [OF new])
  moreover obtain cache where st: "?st = (demo_server\<lparr>sv_browseCache := cache\<rparr>, ''open'')"
    using read_state(1) [of "demo_event ABrowse 10" "(demo_server, ''open'')"] by (auto simp: api_run_def demo_event_def)
  have "resolveClient (ev_env ?ev) (fst ?st) (ev_req ?ev) =
      Inr (plain_client demo_db ''ada'' ''wild-west'', Some 0, ev_req ?ev)"
    unfolding st by (rule demo_resolve) (simp_all add: demo_server_def api_New_def NewWithClientFunc_def)
  moreover have "case browse_fetch (ev_env ?ev) (plain_client demo_db ''ada'' ''wild-west'')
      (parseQueryFilter (ev_req ?ev)) ''open'' of Inr v \<Rightarrow> True | Inl e \<Rightarrow> False" by code_simp
  then obtain v where "browse_fetch (ev_env ?ev) (plain_client demo_db ''ada'' ''wild-west'')
      (parseQueryFilter (ev_req ?ev)) (snd ?st) = Inr v" by (auto simp: st split: sum.splits)
  ultimately have "as_status (api_answer ?ev ?st) = 200 \<and>
      Get (as_headers (api_answer ?ev ?st)) ''Cache-Control'' \<noteq> ''no-store''"
    using board_answered [OF route(1)] by blast
  then have a: "as_status (api_answer ?ev ?st) = 200" "Get (as_headers (api_answer ?ev ?st)) ''Cache-Control'' \<noteq> ''no-store''"
    by blast+
  show ?thesis
    using board_answer_recent [OF new route(1) a(1)] a(2) unfolding route by (simp only: if_False split: option.splits prod.splits)
qed

theorem item_answer_recent_witness:
  "case item_read (demo_event ADetail 20) (api_run [demo_event ADetail 10] (demo_server, ''open'')) of
      None \<Rightarrow> False
    | Some (k, i, fetched) \<Rightarrow>
        fetched = Inr (as_body (api_answer (demo_event ADetail 20) (api_run [demo_event ADetail 10] (demo_server, ''open''))))
        \<or> recent_read item_read ADetail k i (\<lambda>g t. affects_item (fst k) i (change g t)) 20 [demo_event ADetail 10]
            (demo_server, ''open'')
            (as_body (api_answer (demo_event ADetail 20) (api_run [demo_event ADetail 10] (demo_server, ''open''))))"
proof -
  let ?st = "api_run [demo_event ADetail 10] (demo_server, ''open'')" and ?ev = "demo_event ADetail 20"
  have new: "new_caches demo_server" by (simp add: demo_server_def constructors_new)
  have route: "ev_route ?ev = ADetail" "ae_now (ev_env ?ev) = 20" by (simp_all add: demo_event_def)
  have "rc_inflight (sv_detailCache (fst ?st)) = []"
    by (rule items.run_quiet) (simp add: new_caches_empty [OF new])
  moreover obtain cache where st: "?st = (demo_server\<lparr>sv_detailCache := cache\<rparr>, ''open'')"
    using read_state(2) [of "demo_event ADetail 10" "(demo_server, ''open'')"] by (auto simp: api_run_def demo_event_def)
  have "resolveClient (ev_env ?ev) (fst ?st) (ev_req ?ev) =
      Inr (plain_client demo_db ''ada'' ''wild-west'', Some 0, ev_req ?ev)"
    unfolding st by (rule demo_resolve) (simp_all add: demo_server_def api_New_def NewWithClientFunc_def)
  moreover have "case detail_fetch (plain_client demo_db ''ada'' ''wild-west'')
      True (rq_value (ev_req ?ev) ''id'') ''open'' of Inr v \<Rightarrow> True | Inl e \<Rightarrow> False" by code_simp
  then obtain v where "detail_fetch (plain_client demo_db ''ada'' ''wild-west'')
      (sp_cacheable (server_readCacheScope (sv_hosted (fst ?st)) (ev_req ?ev) (plain_client demo_db ''ada'' ''wild-west'')))
      (rq_value (ev_req ?ev) ''id'') (snd ?st) = Inr v" by (auto simp: st demo_cacheable split: sum.splits)
  ultimately have "as_status (api_answer ?ev ?st) = 200 \<and>
      Get (as_headers (api_answer ?ev ?st)) ''Cache-Control'' \<noteq> ''no-store''"
    using item_answered [OF route(1)] by blast
  then show ?thesis
    using item_answer_recent [OF new route(1), of "[demo_event ADetail 10]" "''open''"] unfolding route by blast
qed

section \<open>What the handlers leave out\<close>

text \<open>The reliability of a stamp is taken as it comes, and a submitted pull request stays in no cache's way.\<close>

lemma reliability_unchecked:
  "quality_ok req \<Longrightarrow> aq_Reliability req \<noteq> 0 \<Longrightarrow> ai_Reliability (accept_input req) = aq_Reliability req"
  by (simp add: accept_input_def)

lemma submit_pr_keeps_caches:
  "sv_detailCache (fst (snd (api_handle e ASubmitPR r sv s))) = sv_detailCache sv"
  by (rule conjunct2 [OF read_caches]) simp_all

end
