(* ===== verification/Pending.thy ===== *)
theory Pending
  imports Dolthub "HOL-Library.List_Lexorder" "HOL-Library.Char_ord"
begin

text \<open>
  \<^verbatim>\<open>ListPendingWantedIDs\<close> of \<^verbatim>\<open>internal/remote/dolthub.go\<close>: which items have submissions that wait in
  open pull requests, found by comparing the branches with the upstream.
\<close>

section \<open>Data\<close>

record PendingWantedState =
  pw_RigHandle :: string
  pw_Status :: string
  pw_ClaimedBy :: string
  pw_Branch :: string
  pw_BranchURL :: string
  pw_PRURL :: string
  pw_ForkOwner :: string
  pw_CompletedBy :: string
  pw_Evidence :: string

record pendingBranchSource =
  pb_owner :: string
  pb_branch :: string

record pendingBranchRow =
  pr_wantedID :: string
  pr_status :: string
  pr_claimedBy :: string
  pr_isAdded :: bool

type_synonym branch_result = "pendingBranchSource \<times> (go_error + pendingBranchRow list)"

definition validStatus :: "string \<Rightarrow> bool" where
  "validStatus st \<longleftrightarrow> st \<in> {''open'', ''claimed'', ''in_review'', ''completed''}"

text \<open>A snapshot: status and claimer by item.\<close>

type_synonym snapshot = "(string \<times> (string \<times> string)) list"

text \<open>\<^verbatim>\<open>queryResponse\<close>.\<close>

definition rows_of :: "string \<Rightarrow> (string \<times> string) list list option" where
  "rows_of body = Option.bind (struct_members body) (structs_field text_map ''rows'')"

definition snapshot_of :: "(string \<times> string) list list \<Rightarrow> snapshot" where
  "snapshot_of rows = rev (map (\<lambda>row. (cell row ''id'', (cell row ''status'', cell row ''claimed_by''))) rows)"

definition query_url :: "string \<Rightarrow> string \<Rightarrow> string \<Rightarrow> string \<Rightarrow> string" where
  "query_url owner db branch q =
     Sprintf ''%s/%s/%s/%s?q=%s'' [FS dolthubAPIBase, FS owner, FS db, FS branch, FS (QueryEscape q)]"

definition snapshotQuery :: string where
  "snapshotQuery = sq ''SELECT id, status, COALESCE(claimed_by, ``) as claimed_by FROM wanted''"

definition diffQuery :: string where
  "diffQuery = sq (''SELECT COALESCE(to_id, from_id) as id, COALESCE(to_status, ``) as status, '' @
     ''COALESCE(to_claimed_by, ``) as claimed_by, diff_type FROM dolt_diff(`main`, `%s`, `wanted`) '' @
     ''WHERE diff_type <> `modified` OR COALESCE(to_status,``) <> COALESCE(from_status,``) '' @
     ''OR COALESCE(to_claimed_by,``) <> COALESCE(from_claimed_by,``)'')"

section \<open>What each branch has\<close>

definition source_of :: "string \<Rightarrow> prInfo \<Rightarrow> pendingBranchSource" where
  "source_of upstreamOrg pr =
     \<lparr>pb_owner = (if pi_fromBranchOwner pr = [] then upstreamOrg else pi_fromBranchOwner pr),
      pb_branch = pi_fromBranch pr\<rparr>"

text \<open>\<^verbatim>\<open>branchPRs\<close>: the pull requests of a source, in their order.\<close>

definition branchPRs :: "string \<Rightarrow> prInfo list \<Rightarrow> pendingBranchSource \<Rightarrow> prInfo list" where
  "branchPRs upstreamOrg prs source = filter (\<lambda>pr. source_of upstreamOrg pr = source) prs"

definition pull_label :: "pendingBranchSource \<Rightarrow> prInfo list \<Rightarrow> string" where
  "pull_label source pulls =
     (case pulls of
        p # _ \<Rightarrow> if pi_pullID p \<noteq> [] then pi_pullID p else pb_branch source
      | [] \<Rightarrow> pb_branch source)"

text \<open>Rows of a fork's main that the upstream does not have like this.\<close>

definition snapshot_rows :: "snapshot \<Rightarrow> (string \<times> string) list list \<Rightarrow> pendingBranchRow list" where
  "snapshot_rows upstream rows =
     List.map_filter (\<lambda>row.
       (let i = cell row ''id''; st = cell row ''status''; cb = cell row ''claimed_by''
        in if map_of upstream i = Some (st, cb) then None
           else Some \<lparr>pr_wantedID = i, pr_status = st, pr_claimedBy = cb, pr_isAdded = (map_of upstream i = None)\<rparr>)) rows"

text \<open>Rows of a branch's diff, without the deleted ones.\<close>

definition diff_rows :: "(string \<times> string) list list \<Rightarrow> pendingBranchRow list" where
  "diff_rows rows =
     List.map_filter (\<lambda>row.
       if cell row ''id'' = [] \<or> cell row ''diff_type'' = ''removed'' then None
       else Some \<lparr>pr_wantedID = cell row ''id'', pr_status = cell row ''status'', pr_claimedBy = cell row ''claimed_by'',
                  pr_isAdded = (cell row ''diff_type'' = ''added'')\<rparr>) rows"

text \<open>One read of a source, with errors named after what was read; a fork that is gone has no rows.\<close>

definition read_rows ::
  "'s net \<Rightarrow> string \<Rightarrow> string \<Rightarrow> string \<Rightarrow> string \<Rightarrow> ((string \<times> string) list list \<Rightarrow> pendingBranchRow list) \<Rightarrow> 's
     \<Rightarrow> (go_error + pendingBranchRow list) \<times> 's" where
  "read_rows n token what label url f s =
     (case dolthubGet n token url s of
        (Inl err, s1) \<Rightarrow>
          (if isNoSuchRepositoryError n err then Inr []
           else Inl (Wrap (Sprintf ''reading fork %s for PR %s: '' [FS what, FS label]) err), s1)
      | (Inr body, s1) \<Rightarrow>
          (case rows_of body of
             None \<Rightarrow> Inl (Err (Sprintf ''decoding fork %s for PR %s: %s'' [FS what, FS label, FS (nt_json_error n body)]))
           | Some rows \<Rightarrow> Inr (f rows), s1))"

definition branch_rows ::
  "'s net \<Rightarrow> string \<Rightarrow> string \<Rightarrow> string \<Rightarrow> snapshot \<Rightarrow> prInfo list \<Rightarrow> pendingBranchSource \<Rightarrow> 's \<Rightarrow> branch_result \<times> 's" where
  "branch_rows n token upstreamOrg db upstream prs source s =
     (let label = pull_label source (branchPRs upstreamOrg prs source);
          (rows, s1) =
            (if pb_branch source = ''main''
             then read_rows n token ''snapshot'' label (query_url (pb_owner source) db ''main'' snapshotQuery)
                    (snapshot_rows upstream) s
             else read_rows n token ''diff'' label
                    (query_url (pb_owner source) db (PathEscape (pb_branch source))
                       (Sprintf diffQuery [FS (ReplaceAll (pb_branch source) [quote_ch] [quote_ch, quote_ch])]))
                    diff_rows s)
      in ((source, rows), s1))"

section \<open>Which of them count\<close>

definition quoted_ids :: "string list \<Rightarrow> string" where
  "quoted_ids wantedIDs =
     Join (map (\<lambda>i. Sprintf (sq ''`%s`'') [FS (ReplaceAll i [quote_ch] [quote_ch, quote_ch])]) wantedIDs) '',''"

text \<open>The items of the branches' diffs, sorted.\<close>

definition compare_ids :: "(pendingBranchSource \<times> pendingBranchRow list) list \<Rightarrow> string list" where
  "compare_ids results =
     sort (remdups (filter (\<lambda>i. i \<noteq> [])
       (concat (map (\<lambda>(source, rows). if pb_branch source = ''main'' then [] else map pr_wantedID rows) results))))"

text \<open>What the upstream says of them; nothing when it cannot be read.\<close>

definition compare_snapshot :: "'s net \<Rightarrow> string \<Rightarrow> string \<Rightarrow> string \<Rightarrow> string list \<Rightarrow> 's \<Rightarrow> snapshot \<times> 's" where
  "compare_snapshot n token upstreamOrg db wantedIDs s =
     (let q = Sprintf (sq ''SELECT id, status, COALESCE(claimed_by, ``) as claimed_by FROM wanted WHERE id IN (%s)'')
                [FS (quoted_ids wantedIDs)]
      in case dolthubGet n token (query_url upstreamOrg db ''main'' q) s of
           (Inl err, s1) \<Rightarrow> ([], s1)
         | (Inr body, s1) \<Rightarrow> (case rows_of body of Some rows \<Rightarrow> snapshot_of rows | None \<Rightarrow> [], s1))"

definition pending_state :: "string \<Rightarrow> string \<Rightarrow> pendingBranchSource \<Rightarrow> pendingBranchRow \<Rightarrow> prInfo \<Rightarrow> PendingWantedState" where
  "pending_state upstreamOrg db source row pr =
     \<lparr>pw_RigHandle = (if pr_claimedBy row = [] then pi_author pr else pr_claimedBy row),
      pw_Status = pr_status row, pw_ClaimedBy = pr_claimedBy row, pw_Branch = pi_fromBranch pr,
      pw_BranchURL = Sprintf ''%s/%s/%s/data/%s''
        [FS dolthubRepoBase, FS (pb_owner source), FS db, FS (PathEscape (pi_fromBranch pr))],
      pw_PRURL = pull_url upstreamOrg db (pi_pullID pr), pw_ForkOwner = pb_owner source,
      pw_CompletedBy = [], pw_Evidence = []\<rparr>"

text \<open>A status of the lifecycle, and not a stale copy: neither an untouched item nor somebody else's claim.\<close>

definition intentional :: "pendingBranchRow \<Rightarrow> prInfo \<Rightarrow> bool" where
  "intentional row pr \<longleftrightarrow>
     validStatus (pr_status row)
     \<and> \<not> (pr_status row = ''open'' \<and> \<not> pr_isAdded row)
     \<and> \<not> (pr_status row = ''claimed'' \<and> pr_claimedBy row \<noteq> [] \<and> pr_claimedBy row \<noteq> pi_author pr)"

definition upstream_has :: "snapshot \<Rightarrow> pendingBranchSource \<Rightarrow> pendingBranchRow \<Rightarrow> bool" where
  "upstream_has upstream source row \<longleftrightarrow>
     pb_branch source \<noteq> ''main'' \<and> map_of upstream (pr_wantedID row) = Some (pr_status row, pr_claimedBy row)"

type_synonym pending_states = "(string \<times> PendingWantedState list) list"

definition states_of :: "pending_states \<Rightarrow> string \<Rightarrow> PendingWantedState list" where
  "states_of ids i = (case map_of ids i of Some sts \<Rightarrow> sts | None \<Rightarrow> [])"

definition add_states :: "string \<Rightarrow> PendingWantedState list \<Rightarrow> pending_states \<Rightarrow> pending_states" where
  "add_states i sts ids = (if sts = [] then ids else AList.update i (states_of ids i @ sts) ids)"

fun collect_rows ::
  "string \<Rightarrow> string \<Rightarrow> prInfo list \<Rightarrow> snapshot \<Rightarrow> pendingBranchSource \<Rightarrow> pendingBranchRow list \<Rightarrow> pending_states
     \<Rightarrow> pending_states" where
  "collect_rows upstreamOrg db prs upstream source [] ids = ids"
| "collect_rows upstreamOrg db prs upstream source (row # rows) ids =
     collect_rows upstreamOrg db prs upstream source rows
       (if upstream_has upstream source row then ids
        else add_states (pr_wantedID row)
               (map (pending_state upstreamOrg db source row)
                 (filter (intentional row) (branchPRs upstreamOrg prs source))) ids)"

fun collect_states ::
  "string \<Rightarrow> string \<Rightarrow> prInfo list \<Rightarrow> snapshot \<Rightarrow> (pendingBranchSource \<times> pendingBranchRow list) list \<Rightarrow> pending_states
     \<Rightarrow> pending_states" where
  "collect_states upstreamOrg db prs upstream [] ids = ids"
| "collect_states upstreamOrg db prs upstream ((source, rows) # results) ids =
     collect_states upstreamOrg db prs upstream results (collect_rows upstreamOrg db prs upstream source rows ids)"

section \<open>Evidence\<close>

definition past_claim :: "PendingWantedState \<Rightarrow> bool" where
  "past_claim st \<longleftrightarrow> pw_Status st \<noteq> ''open'' \<and> pw_Status st \<noteq> ''claimed''"

definition fork_of :: "PendingWantedState \<Rightarrow> pendingBranchSource" where
  "fork_of st = \<lparr>pb_owner = pw_ForkOwner st, pb_branch = pw_Branch st\<rparr>"

text \<open>A state whose completion is asked for at a branch.\<close>

definition target :: "pendingBranchSource \<Rightarrow> PendingWantedState \<Rightarrow> bool" where
  "target key st \<longleftrightarrow> past_claim st \<and> fork_of st = key \<and> pb_owner key \<noteq> [] \<and> pb_branch key \<noteq> []"

definition targets :: "pending_states \<Rightarrow> pendingBranchSource list" where
  "targets ids =
     remdups (concat (map (\<lambda>(i, sts).
       map fork_of (filter (\<lambda>st. past_claim st \<and> pw_ForkOwner st \<noteq> [] \<and> pw_Branch st \<noteq> []) sts)) ids))"

definition target_ids :: "pendingBranchSource \<Rightarrow> pending_states \<Rightarrow> string list" where
  "target_ids key ids = sort (map fst (filter (\<lambda>(i, sts). list_ex (target key) sts) ids))"

definition completions_of :: "string list \<Rightarrow> (string \<times> string) list list \<Rightarrow> (string \<times> (string \<times> string)) list" where
  "completions_of wantedIDs rows =
     rev (List.map_filter (\<lambda>row.
       (let i0 = cell row ''wanted_id''; i = (if i0 = [] \<and> length wantedIDs = 1 then hd wantedIDs else i0)
        in if i = [] then None else Some (i, (cell row ''completed_by'', cell row ''evidence'')))) rows)"

definition fill_completions ::
  "pendingBranchSource \<Rightarrow> (string \<times> (string \<times> string)) list \<Rightarrow> pending_states \<Rightarrow> pending_states" where
  "fill_completions key values ids =
     map (\<lambda>(i, sts). (i, map (\<lambda>st.
       case map_of values i of
         Some (by, ev) \<Rightarrow> if target key st then st\<lparr>pw_CompletedBy := by, pw_Evidence := ev\<rparr> else st
       | None \<Rightarrow> st) sts)) ids"

fun add_evidence ::
  "'s net \<Rightarrow> string \<Rightarrow> string \<Rightarrow> pendingBranchSource list \<Rightarrow> pending_states \<Rightarrow> 's \<Rightarrow> pending_states \<times> 's" where
  "add_evidence n token db [] ids s = (ids, s)"
| "add_evidence n token db (key # keys) ids s =
     (let wantedIDs = target_ids key ids;
          q = Sprintf (sq ''SELECT wanted_id, completed_by, COALESCE(evidence,``) as evidence FROM completions WHERE wanted_id IN (%s)'')
                [FS (quoted_ids wantedIDs)];
          (resp, s1) = dolthubGet n token (query_url (pb_owner key) db (PathEscape (pb_branch key)) q) s
      in add_evidence n token db keys
           (case resp of
              Inl err \<Rightarrow> ids
            | Inr body \<Rightarrow> (case rows_of body of
                             None \<Rightarrow> ids
                           | Some rows \<Rightarrow> fill_completions key (completions_of wantedIDs rows) ids)) s1)"

section \<open>The listing\<close>

text \<open>The snapshot of the upstream is read first when a pull request comes from a fork's main.\<close>

definition upstream_snapshot ::
  "'s net \<Rightarrow> string \<Rightarrow> string \<Rightarrow> string \<Rightarrow> prInfo list \<Rightarrow> 's \<Rightarrow> (go_error + snapshot option) \<times> 's" where
  "upstream_snapshot n token upstreamOrg db prs s =
     (if \<not> list_ex (\<lambda>pr. pi_fromBranch pr = ''main'') prs then (Inr None, s)
      else (case dolthubGet n token (query_url upstreamOrg db ''main'' snapshotQuery) s of
              (Inl err, s1) \<Rightarrow> (Inl (Wrap ''reading upstream snapshot: '' err), s1)
            | (Inr body, s1) \<Rightarrow>
                (case rows_of body of
                   None \<Rightarrow> Inl (Err (''decoding upstream snapshot: '' @ nt_json_error n body))
                 | Some rows \<Rightarrow> Inr (Some (snapshot_of rows)), s1)))"

text \<open>
  The rows of every branch, and what the upstream says of their items.  \<open>order\<close> is how the branches'
  results arrive and, later, the order in which the map of the branches with completions is gone through.
\<close>

definition read_branches ::
  "'s net \<Rightarrow> string \<Rightarrow> (pendingBranchSource list \<Rightarrow> pendingBranchSource list) \<Rightarrow> string \<Rightarrow> string \<Rightarrow> prInfo list \<Rightarrow> 's
     \<Rightarrow> (go_error + ((pendingBranchSource \<times> pendingBranchRow list) list \<times> snapshot)) \<times> 's" where
  "read_branches n token order upstreamOrg db prs s =
     (case upstream_snapshot n token upstreamOrg db prs s of
        (Inl err, s1) \<Rightarrow> (Inl err, s1)
      | (Inr full, s1) \<Rightarrow>
          (let upstream0 = (case full of Some snap \<Rightarrow> snap | None \<Rightarrow> []);
               (results, s2) = traverse (branch_rows n token upstreamOrg db upstream0 prs)
                                 (order (remdups (map (source_of upstreamOrg) prs))) s1
           in case first_failure (map snd results) of
                Some err \<Rightarrow> (Inl err, s2)
              | None \<Rightarrow>
                  (let good = map (\<lambda>(source, rows). (source, case rows of Inr xs \<Rightarrow> xs | Inl _ \<Rightarrow> [])) results;
                       ids = compare_ids good
                   in if ids \<noteq> [] \<and> full = None
                      then (let (upstream, s3) = compare_snapshot n token upstreamOrg db ids s2
                            in (Inr (good, upstream), s3))
                      else (Inr (good, upstream0), s2))))"

definition list_pending ::
  "'s net \<Rightarrow> string \<Rightarrow> (pendingBranchSource list \<Rightarrow> pendingBranchSource list) \<Rightarrow> string \<Rightarrow> string \<Rightarrow> prInfo list \<Rightarrow> 's
     \<Rightarrow> (go_error + pending_states) \<times> 's" where
  "list_pending n token order upstreamOrg db prs s =
     (case read_branches n token order upstreamOrg db prs s of
        (Inl err, s1) \<Rightarrow> (Inl err, s1)
      | (Inr (good, upstream), s1) \<Rightarrow>
          (let states = collect_states upstreamOrg db prs upstream good [];
               (filled, s2) = add_evidence n token db (order (targets states)) states s1
           in (Inr filled, s2)))"

definition ListPendingWantedIDs ::
  "'s net \<Rightarrow> string \<Rightarrow> (pendingBranchSource list \<Rightarrow> pendingBranchSource list) \<Rightarrow> string \<Rightarrow> string
     \<Rightarrow> doltHubProviderCache \<Rightarrow> 's \<Rightarrow> ((go_error + pending_states) \<times> doltHubProviderCache \<times> 's) option" where
  "ListPendingWantedIDs n token order upstreamOrg db c s =
     (case listOpenPRDetails n token upstreamOrg db False True c s of
        None \<Rightarrow> None
      | Some (Inl err, c1, s1) \<Rightarrow> Some (Inl (Wrap ''listing PRs: '' err), c1, s1)
      | Some (Inr prs, c1, s1) \<Rightarrow>
          (let (res, s2) = list_pending n token order upstreamOrg db prs s1 in Some (res, c1, s2)))"

end
