(* ===== verification/PendingProps.thy ===== *)
theory PendingProps
  imports Pending
begin

text \<open>
  Which submissions are listed as pending: exactly the submissions that
  the open pull requests' branches are answered to have and the upstream is not.
\<close>

section \<open>Listed states\<close>

definition without_evidence :: "PendingWantedState \<Rightarrow> PendingWantedState" where
  "without_evidence st = st\<lparr>pw_CompletedBy := [], pw_Evidence := []\<rparr>"

lemma without_evidence_idem [simp]:
  "without_evidence (st\<lparr>pw_CompletedBy := by, pw_Evidence := ev\<rparr>) = without_evidence st"
  "without_evidence (pending_state upstreamOrg db source row pr) = pending_state upstreamOrg db source row pr"
  by (simp_all add: without_evidence_def pending_state_def)

lemma states_of_add [simp]:
  "states_of (add_states i sts ids) j = (if j = i then states_of ids i @ sts else states_of ids j)"
  by (simp add: add_states_def states_of_def update_conv')

lemma fill_completions_states:
  "map without_evidence (states_of (fill_completions key values ids) i) = map without_evidence (states_of ids i)"
proof -
  have "states_of (fill_completions key values ids) i = map (\<lambda>st.
       case map_of values i of
         Some (by, ev) \<Rightarrow> if target key st then st\<lparr>pw_CompletedBy := by, pw_Evidence := ev\<rparr> else st
       | None \<Rightarrow> st) (states_of ids i)"
    by (induction ids) (auto simp: fill_completions_def states_of_def)
  then show ?thesis by (auto split: option.splits)
qed

lemma add_evidence_states:
  "map without_evidence (states_of (fst (add_evidence n token db keys ids s)) i) = map without_evidence (states_of ids i)"
  by (induction keys arbitrary: ids s)
    (auto simp: Let_def fill_completions_states split: prod.splits sum.splits option.splits)

text \<open>The rows of a branch that wait for an item, with the pull requests they come from.\<close>

definition waiting_rows ::
  "string \<Rightarrow> string \<Rightarrow> prInfo list \<Rightarrow> snapshot \<Rightarrow> pendingBranchSource \<Rightarrow> pendingBranchRow list \<Rightarrow> string \<Rightarrow> PendingWantedState list" where
  "waiting_rows upstreamOrg db prs upstream source rows i =
     concat (map (\<lambda>row. map (pending_state upstreamOrg db source row)
               (filter (intentional row) (branchPRs upstreamOrg prs source)))
       (filter (\<lambda>row. pr_wantedID row = i \<and> \<not> upstream_has upstream source row) rows))"

definition waiting ::
  "string \<Rightarrow> string \<Rightarrow> prInfo list \<Rightarrow> snapshot \<Rightarrow> (pendingBranchSource \<times> pendingBranchRow list) list \<Rightarrow> string
     \<Rightarrow> PendingWantedState list" where
  "waiting upstreamOrg db prs upstream results i =
     concat (map (\<lambda>(source, rows). waiting_rows upstreamOrg db prs upstream source rows i) results)"

lemma collect_rows_states:
  "states_of (collect_rows upstreamOrg db prs upstream source rows ids) i =
     states_of ids i @ waiting_rows upstreamOrg db prs upstream source rows i"
  by (induction rows arbitrary: ids) (auto simp: waiting_rows_def)

lemma collect_states_waiting:
  "states_of (collect_states upstreamOrg db prs upstream results ids) i =
     states_of ids i @ waiting upstreamOrg db prs upstream results i"
  by (induction results arbitrary: ids) (auto simp: collect_rows_states waiting_def)

lemma waiting_plain: "map without_evidence (waiting upstreamOrg db prs upstream results i) = waiting upstreamOrg db prs upstream results i"
  by (auto simp: waiting_def waiting_rows_def map_concat comp_def intro!: arg_cong [where f = concat])

lemma list_pending_states:
  assumes "list_pending n token order upstreamOrg db prs s = (Inr ids, s')"
    and "read_branches n token order upstreamOrg db prs s = (Inr (results, upstream), s1)"
  shows "map without_evidence (states_of ids i) = waiting upstreamOrg db prs upstream results i"
proof -
  let ?states = "collect_states upstreamOrg db prs upstream results []"
  have "ids = fst (add_evidence n token db (order (targets ?states)) ?states s1)"
    using assms by (simp add: list_pending_def Let_def case_prod_beta')
  then show ?thesis
    by (simp add: add_evidence_states collect_states_waiting waiting_plain) (simp add: states_of_def)
qed

section \<open>What a listing should have\<close>

text \<open>
  A specification of the listing in the terms of what DoltHub and the forks are asked and answer.  Rows
  are those of a body; a missing repository or an unreadable body has none.
\<close>

definition asked :: "'s net \<Rightarrow> string \<Rightarrow> string \<Rightarrow> 's \<Rightarrow> (string \<times> string) list list \<times> 's" where
  "asked n token url s =
     (let (resp, s1) = dolthubGet n token url s
      in (case resp of Inl err \<Rightarrow> [] | Inr body \<Rightarrow> (case rows_of body of Some rows \<Rightarrow> rows | None \<Rightarrow> []), s1))"

text \<open>An answer that is one: rows, or that the fork is not there.\<close>

definition answered_rows :: "go_error + string \<Rightarrow> bool" where
  "answered_rows resp \<longleftrightarrow> (case resp of Inl err \<Rightarrow> False | Inr body \<Rightarrow> rows_of body \<noteq> None)"

definition answered_or_gone :: "'s net \<Rightarrow> go_error + string \<Rightarrow> bool" where
  "answered_or_gone n resp \<longleftrightarrow> (case resp of Inl err \<Rightarrow> isNoSuchRepositoryError n err | Inr body \<Rightarrow> rows_of body \<noteq> None)"

definition sql_url :: "string \<Rightarrow> string \<Rightarrow> string \<Rightarrow> string \<Rightarrow> string" where
  "sql_url owner db branch q =
     ''https://www.dolthub.com/api/v1alpha1/'' @ owner @ ''/'' @ db @ ''/'' @ branch @ ''?q='' @ QueryEscape q"

definition all_items :: string where
  "all_items = sq ''SELECT id, status, COALESCE(claimed_by, ``) as claimed_by FROM wanted''"

text \<open>The changes of a branch, whose name is quoted for SQL.\<close>

definition changed_items :: "string \<Rightarrow> string" where
  "changed_items branch =
     sq (''SELECT COALESCE(to_id, from_id) as id, COALESCE(to_status, ``) as status, '' @
         ''COALESCE(to_claimed_by, ``) as claimed_by, diff_type FROM dolt_diff(`main`, `'')
     @ ReplaceAll branch [quote_ch] [quote_ch, quote_ch]
     @ sq (''`, `wanted`) WHERE diff_type <> `modified` OR COALESCE(to_status,``) <> COALESCE(from_status,``) '' @
           ''OR COALESCE(to_claimed_by,``) <> COALESCE(from_claimed_by,``)'')"

text \<open>The branch a pull request comes from, as owner and name.\<close>

definition origin :: "string \<Rightarrow> prInfo \<Rightarrow> pendingBranchSource" where
  "origin upstreamOrg pr =
     \<lparr>pb_owner = (case pi_fromBranchOwner pr of [] \<Rightarrow> upstreamOrg | c # cs \<Rightarrow> c # cs), pb_branch = pi_fromBranch pr\<rparr>"

definition origin_url :: "string \<Rightarrow> pendingBranchSource \<Rightarrow> string" where
  "origin_url db b =
     (if pb_branch b = ''main'' then sql_url (pb_owner b) db ''main'' all_items
      else sql_url (pb_owner b) db (PathEscape (pb_branch b)) (changed_items (pb_branch b)))"

text \<open>What the upstream says of an item: status and claimer in the last row that has it.\<close>

definition upstream_says :: "(string \<times> string) list list \<Rightarrow> string \<Rightarrow> (string \<times> string) option" where
  "upstream_says rows i =
     (case filter (\<lambda>row. cell row ''id'' = i) rows of
        [] \<Rightarrow> None
      | rs \<Rightarrow> Some (cell (last rs) ''status'', cell (last rs) ''claimed_by''))"

text \<open>
  A row of a branch that is a submission of the author of a pull request.  A fork's main holds whole
  rows, any other branch holds changes.
\<close>

definition submission :: "(string \<times> string) list list \<Rightarrow> pendingBranchSource \<Rightarrow> (string \<times> string) list \<Rightarrow> string \<Rightarrow> bool" where
  "submission upstream b row author \<longleftrightarrow>
     (let i = cell row ''id''; st = cell row ''status''; cb = cell row ''claimed_by''
      in st \<in> {''open'', ''claimed'', ''in_review'', ''completed''}
       \<and> upstream_says upstream i \<noteq> Some (st, cb)
       \<and> (if pb_branch b = ''main'' then st = ''open'' \<longrightarrow> upstream_says upstream i = None
          else i \<noteq> [] \<and> cell row ''diff_type'' \<noteq> ''removed'' \<and> (st = ''open'' \<longrightarrow> cell row ''diff_type'' = ''added''))
       \<and> (st = ''claimed'' \<longrightarrow> cb = [] \<or> cb = author))"

definition shown_as :: "string \<Rightarrow> string \<Rightarrow> pendingBranchSource \<Rightarrow> (string \<times> string) list \<Rightarrow> prInfo \<Rightarrow> PendingWantedState" where
  "shown_as upstreamOrg db b row pr =
     \<lparr>pw_RigHandle = (if cell row ''claimed_by'' = [] then pi_author pr else cell row ''claimed_by''),
      pw_Status = cell row ''status'', pw_ClaimedBy = cell row ''claimed_by'', pw_Branch = pi_fromBranch pr,
      pw_BranchURL = ''https://www.dolthub.com/repositories/'' @ pb_owner b @ ''/'' @ db @ ''/data/'' @ PathEscape (pi_fromBranch pr),
      pw_PRURL = ''https://www.dolthub.com/repositories/'' @ upstreamOrg @ ''/'' @ db @ ''/pulls/'' @ pi_pullID pr,
      pw_ForkOwner = pb_owner b, pw_CompletedBy = [], pw_Evidence = []\<rparr>"

definition submissions ::
  "string \<Rightarrow> string \<Rightarrow> prInfo list \<Rightarrow> (string \<times> string) list list \<Rightarrow> pendingBranchSource \<Rightarrow> (string \<times> string) list list \<Rightarrow> string
     \<Rightarrow> PendingWantedState list" where
  "submissions upstreamOrg db prs upstream b rows i =
     concat (map (\<lambda>row. map (shown_as upstreamOrg db b row)
         (filter (\<lambda>pr. cell row ''id'' = i \<and> origin upstreamOrg pr = b \<and> submission upstream b row (pi_author pr)) prs))
       rows)"

text \<open>
  The branches are asked one after the other, the upstream before them when one of them is a fork's main
  and else after them, for the items they change.
\<close>

definition changed_ids :: "pendingBranchSource list \<Rightarrow> (string \<times> string) list list list \<Rightarrow> string list" where
  "changed_ids bs answers =
     sort (remdups (concat (map (\<lambda>(b, rows). if pb_branch b = ''main'' then []
       else map (\<lambda>row. cell row ''id'') (filter (\<lambda>row. cell row ''id'' \<noteq> [] \<and> cell row ''diff_type'' \<noteq> ''removed'') rows))
       (zip bs answers))))"

definition pending_spec ::
  "'s net \<Rightarrow> string \<Rightarrow> (pendingBranchSource list \<Rightarrow> pendingBranchSource list) \<Rightarrow> string \<Rightarrow> string \<Rightarrow> prInfo list \<Rightarrow> 's \<Rightarrow> string
     \<Rightarrow> PendingWantedState list" where
  "pending_spec n token order upstreamOrg db prs s i =
     (let from_main = (\<exists>pr \<in> set prs. pi_fromBranch pr = ''main'');
          bs = order (remdups (map (origin upstreamOrg) prs));
          (all, s1) = (if from_main then asked n token (sql_url upstreamOrg db ''main'' all_items) s else ([], s));
          (answers, s2) = traverse (\<lambda>b. asked n token (origin_url db b)) bs s1;
          ids = changed_ids bs answers;
          upstream = (if from_main then all else if ids = [] then []
            else fst (asked n token (sql_url upstreamOrg db ''main''
                   (all_items @ '' WHERE id IN ('' @ quoted_ids ids @ '')'')) s2))
      in concat (map (\<lambda>(b, rows). submissions upstreamOrg db prs upstream b rows i) (zip bs answers)))"

text \<open>Nothing that was asked before the comparison has failed.\<close>

definition all_answered ::
  "'s net \<Rightarrow> string \<Rightarrow> (pendingBranchSource list \<Rightarrow> pendingBranchSource list) \<Rightarrow> string \<Rightarrow> string \<Rightarrow> prInfo list \<Rightarrow> 's \<Rightarrow> bool" where
  "all_answered n token order upstreamOrg db prs s \<longleftrightarrow>
     (let from_main = (\<exists>pr \<in> set prs. pi_fromBranch pr = ''main'');
          first = dolthubGet n token (sql_url upstreamOrg db ''main'' all_items) s;
          bs = order (remdups (map (origin upstreamOrg) prs))
      in (from_main \<longrightarrow> answered_rows (fst first))
       \<and> list_all (answered_or_gone n)
           (fst (traverse (\<lambda>b. dolthubGet n token (origin_url db b)) bs (if from_main then snd first else s))))"

subsection \<open>The listing has it\<close>

lemma origin_source: "source_of upstreamOrg pr = origin upstreamOrg pr"
  by (simp add: source_of_def origin_def split: list.split)

lemma shown_as_state:
  assumes "pr_status r = cell row ''status''" and "pr_claimedBy r = cell row ''claimed_by''"
  shows "pending_state upstreamOrg db b r pr = shown_as upstreamOrg db b row pr"
  using assms by (simp add: pending_state_def shown_as_def dolthubRepoBase_def pull_url_def)

lemma query_url_sql: "query_url owner db branch q = sql_url owner db branch q"
  by (simp add: query_url_def sql_url_def dolthubAPIBase_def)

lemma query_texts: "snapshotQuery = all_items"
  "Sprintf (sq ''SELECT id, status, COALESCE(claimed_by, ``) as claimed_by FROM wanted WHERE id IN (%s)'') [FS l]
     = all_items @ '' WHERE id IN ('' @ l @ '')''"
  by (simp_all add: snapshotQuery_def all_items_def sq_def)

lemma diff_text: "Sprintf diffQuery [FS (ReplaceAll branch [quote_ch] [quote_ch, quote_ch])] = changed_items branch"
  by (simp add: diffQuery_def changed_items_def sq_def)

lemma snapshot_says: "map_of (snapshot_of rows) i = upstream_says rows i"
proof (induction rows)
  case (Cons row rows)
  then show ?case by (auto simp: snapshot_of_def upstream_says_def map_add_def split: list.splits option.splits)
qed (simp add: snapshot_of_def upstream_says_def)

text \<open>The rows of a branch that the code keeps, of the rows it is answered.\<close>

definition kept_rows :: "(string \<times> string) list list \<Rightarrow> pendingBranchSource \<Rightarrow> (string \<times> string) list list \<Rightarrow> pendingBranchRow list" where
  "kept_rows upstream b rows = (if pb_branch b = ''main'' then snapshot_rows (snapshot_of upstream) rows else diff_rows rows)"

lemma branch_rows_asked:
  "fst (fst (branch_rows n token upstreamOrg db (snapshot_of up) prs b s)) = b"
  "snd (branch_rows n token upstreamOrg db (snapshot_of up) prs b s) = snd (asked n token (origin_url db b) s)"
  "snd (fst (branch_rows n token upstreamOrg db (snapshot_of up) prs b s)) = Inr xs
     \<Longrightarrow> xs = kept_rows up b (fst (asked n token (origin_url db b) s))
       \<and> answered_or_gone n (fst (dolthubGet n token (origin_url db b) s))"
  by (auto simp: branch_rows_def read_rows_def asked_def origin_url_def query_url_sql query_texts diff_text kept_rows_def
      snapshot_rows_def diff_rows_def answered_or_gone_def Let_def split: prod.splits sum.splits option.splits if_splits)

lemma asked_world: "snd (asked n token url s) = snd (dolthubGet n token url s)"
  by (simp add: asked_def case_prod_beta' Let_def)

lemma first_failure_Cons: "first_failure (r # rs) = None \<longleftrightarrow> (\<exists>x. r = Inr x) \<and> first_failure rs = None"
  by (cases r) (auto simp: first_failure_def)

lemma traverse_asked:
  assumes "traverse (branch_rows n token upstreamOrg db (snapshot_of up) prs) bs s = (results, s2)"
    and "first_failure (map snd results) = None"
  obtains answers where "traverse (\<lambda>b. asked n token (origin_url db b)) bs s = (answers, s2)"
    and "map (\<lambda>(b, rows). (b, case rows of Inr xs \<Rightarrow> xs | Inl err \<Rightarrow> [])) results
         = map (\<lambda>(b, rows). (b, kept_rows up b rows)) (zip bs answers)"
    and "list_all (answered_or_gone n) (fst (traverse (\<lambda>b. dolthubGet n token (origin_url db b)) bs s))"
  using assms
proof (induction bs arbitrary: s results thesis)
  case (Cons b bs)
  let ?one = "branch_rows n token upstreamOrg db (snapshot_of up) prs b s"
  obtain rest where r: "results = fst ?one # rest"
    "traverse (branch_rows n token upstreamOrg db (snapshot_of up) prs) bs (snd ?one) = (rest, s2)"
    using Cons.prems(2) by (auto simp: Let_def case_prod_beta')
  obtain xs where xs: "snd (fst ?one) = Inr xs" and ff: "first_failure (map snd rest) = None"
    using Cons.prems(3) by (auto simp: r(1) first_failure_Cons)
  from Cons.IH [OF _ r(2) ff] obtain answers where
    "traverse (\<lambda>b. asked n token (origin_url db b)) bs (snd ?one) = (answers, s2)"
    "map (\<lambda>(b, rows). (b, case rows of Inr xs \<Rightarrow> xs | Inl err \<Rightarrow> [])) rest
       = map (\<lambda>(b, rows). (b, kept_rows up b rows)) (zip bs answers)"
    "list_all (answered_or_gone n) (fst (traverse (\<lambda>b. dolthubGet n token (origin_url db b)) bs (snd ?one)))" by blast
  then show ?case
    using branch_rows_asked(1,2) [of n token upstreamOrg db up prs b s] branch_rows_asked(3) [OF xs] xs
    by (intro Cons.prems(1) [of "fst (asked n token (origin_url db b) s) # answers"])
      (simp_all add: r(1) case_prod_beta' asked_world Let_def)
qed (simp add: first_failure_def)

lemma kept_ids:
  "pb_branch b \<noteq> ''main'' \<Longrightarrow> filter (\<lambda>i. i \<noteq> []) (map pr_wantedID (kept_rows up b rows))
     = map (\<lambda>row. cell row ''id'') (filter (\<lambda>row. cell row ''id'' \<noteq> [] \<and> cell row ''diff_type'' \<noteq> ''removed'') rows)"
  by (induction rows) (auto simp: kept_rows_def diff_rows_def map_filter_simps)

lemma compare_changed: "compare_ids (map (\<lambda>(b, rows). (b, kept_rows up b rows)) (zip bs answers)) = changed_ids bs answers"
proof -
  have "filter (\<lambda>i. i \<noteq> []) (if pb_branch b = ''main'' then [] else map pr_wantedID (kept_rows up b rows)) =
      (if pb_branch b = ''main'' then [] else map (\<lambda>row. cell row ''id'')
         (filter (\<lambda>row. cell row ''id'' \<noteq> [] \<and> cell row ''diff_type'' \<noteq> ''removed'') rows))" for b rows
    using kept_ids by simp
  note one = this
  show ?thesis
    unfolding compare_ids_def changed_ids_def filter_concat map_map comp_def case_prod_beta' fst_conv snd_conv one by (rule refl)
qed

text \<open>A row that the code keeps is shown for the same pull requests, and in the same way.\<close>

lemma kept_submission:
  assumes "pr_wantedID r = cell row ''id''" and "pr_status r = cell row ''status''" and "pr_claimedBy r = cell row ''claimed_by''"
    and "if pb_branch b = ''main''
      then upstream_says up (cell row ''id'') \<noteq> Some (cell row ''status'', cell row ''claimed_by'')
        \<and> pr_isAdded r = (upstream_says up (cell row ''id'') = None)
      else cell row ''id'' \<noteq> [] \<and> cell row ''diff_type'' \<noteq> ''removed'' \<and> pr_isAdded r = (cell row ''diff_type'' = ''added'')"
  shows "submission up b row (pi_author pr) \<longleftrightarrow> intentional r pr \<and> \<not> upstream_has (snapshot_of up) b r"
proof -
  have "intentional r pr \<longleftrightarrow> cell row ''status'' \<in> {''open'', ''claimed'', ''in_review'', ''completed''}
      \<and> (cell row ''status'' = ''open'' \<longrightarrow> pr_isAdded r)
      \<and> (cell row ''status'' = ''claimed'' \<longrightarrow> cell row ''claimed_by'' = [] \<or> cell row ''claimed_by'' = pi_author pr)"
    unfolding intentional_def validStatus_def assms(1-3) by blast
  then show ?thesis
    using assms(4) unfolding submission_def upstream_has_def Let_def snapshot_says assms(1-3) by argo
qed

lemma kept_shown:
  assumes "pr_wantedID r = cell row ''id''" and "pr_status r = cell row ''status''" and "pr_claimedBy r = cell row ''claimed_by''"
    and "\<And>pr. submission up b row (pi_author pr) \<longleftrightarrow> intentional r pr \<and> \<not> upstream_has (snapshot_of up) b r"
  shows "waiting_rows upstreamOrg db prs (snapshot_of up) b [r] i = submissions upstreamOrg db prs up b [row] i"
proof -
  have "pending_state upstreamOrg db b r = shown_as upstreamOrg db b row" by (rule ext) (rule shown_as_state [OF assms(2,3)])
  moreover have "filter (intentional r) (branchPRs upstreamOrg prs b)
      = filter (\<lambda>pr. origin upstreamOrg pr = b \<and> intentional r pr) prs"
    by (simp add: branchPRs_def origin_source conj_commute)
  ultimately show ?thesis
    by (cases "cell row ''id'' = i"; cases "upstream_has (snapshot_of up) b r")
      (simp_all add: waiting_rows_def submissions_def assms(1,4))
qed

lemma dropped_shown:
  assumes "\<And>pr :: prInfo. \<not> submission up b row (pi_author pr)"
  shows "submissions upstreamOrg db prs up b [row] i = []"
  by (simp add: submissions_def assms)

lemma rows_apart:
  "waiting_rows upstreamOrg db prs snap b (rs @ ss) i = waiting_rows upstreamOrg db prs snap b rs i @ waiting_rows upstreamOrg db prs snap b ss i"
  "submissions upstreamOrg db prs up b (row # rows) i = submissions upstreamOrg db prs up b [row] i @ submissions upstreamOrg db prs up b rows i"
  by (simp_all add: waiting_rows_def submissions_def)

lemma kept_rows_Cons: "kept_rows up b (row # rows) = kept_rows up b [row] @ kept_rows up b rows"
  by (simp add: kept_rows_def snapshot_rows_def diff_rows_def map_filter_def)

lemma one_row:
  "waiting_rows upstreamOrg db prs (snapshot_of up) b (kept_rows up b [row]) i = submissions upstreamOrg db prs up b [row] i"
proof (cases "pb_branch b = ''main''")
  case True
  show ?thesis
  proof (cases "upstream_says up (cell row ''id'') = Some (cell row ''status'', cell row ''claimed_by'')")
    case has: True
    then have "kept_rows up b [row] = []"
      using True by (simp add: kept_rows_def snapshot_rows_def map_filter_simps snapshot_says Let_def)
    moreover have "\<not> submission up b row (pi_author pr)" for pr :: prInfo using has by (simp add: submission_def Let_def)
    ultimately show ?thesis by (simp add: dropped_shown) (simp add: waiting_rows_def)
  next
    case hasnt: False
    define r where "r = \<lparr>pr_wantedID = cell row ''id'', pr_status = cell row ''status'', pr_claimedBy = cell row ''claimed_by'',
      pr_isAdded = (upstream_says up (cell row ''id'') = None)\<rparr>"
    have "kept_rows up b [row] = [r]"
      using True hasnt by (simp add: kept_rows_def snapshot_rows_def map_filter_simps snapshot_says Let_def r_def)
    moreover have "submission up b row (pi_author pr) \<longleftrightarrow> intentional r pr \<and> \<not> upstream_has (snapshot_of up) b r" for pr
      by (rule kept_submission) (use True hasnt in \<open>simp_all add: r_def\<close>)
    ultimately show ?thesis using kept_shown [of r row up b] by (simp add: r_def)
  qed
next
  case False
  show ?thesis
  proof (cases "cell row ''id'' = [] \<or> cell row ''diff_type'' = ''removed''")
    case gone: True
    then have "kept_rows up b [row] = []" using False by (simp add: kept_rows_def diff_rows_def map_filter_simps)
    moreover have "\<not> submission up b row (pi_author pr)" for pr :: prInfo using gone False unfolding submission_def Let_def by argo
    ultimately show ?thesis by (simp add: dropped_shown) (simp add: waiting_rows_def)
  next
    case there: False
    define r where "r = \<lparr>pr_wantedID = cell row ''id'', pr_status = cell row ''status'', pr_claimedBy = cell row ''claimed_by'',
      pr_isAdded = (cell row ''diff_type'' = ''added'')\<rparr>"
    have "kept_rows up b [row] = [r]"
      using False there by (simp add: kept_rows_def diff_rows_def map_filter_simps r_def)
    moreover have "submission up b row (pi_author pr) \<longleftrightarrow> intentional r pr \<and> \<not> upstream_has (snapshot_of up) b r" for pr
      by (rule kept_submission) (use False there in \<open>simp_all add: r_def\<close>)
    ultimately show ?thesis using kept_shown [of r row up b] by (simp add: r_def)
  qed
qed

lemma waiting_submissions:
  assumes "pb_branch b = ''main'' \<Longrightarrow> up0 = up"
  shows "waiting_rows upstreamOrg db prs (snapshot_of up) b (kept_rows up0 b rows) i = submissions upstreamOrg db prs up b rows i"
proof -
  have "kept_rows up0 b rows = kept_rows up b rows" using assms by (auto simp: kept_rows_def)
  moreover have "waiting_rows upstreamOrg db prs (snapshot_of up) b (kept_rows up b rows) i = submissions upstreamOrg db prs up b rows i"
  proof (induction rows)
    case (Cons row rows)
    then show ?case unfolding kept_rows_Cons [of up b row rows] rows_apart(1) rows_apart(2) [of _ _ _ _ _ row rows] one_row by simp
  qed (simp add: waiting_rows_def submissions_def kept_rows_def snapshot_rows_def diff_rows_def map_filter_simps)
  ultimately show ?thesis by simp
qed

lemma snapshot_of_Nil: "snapshot_of [] = []"
  by (simp add: snapshot_of_def)

lemma compare_asked:
  "compare_snapshot n token upstreamOrg db ids s =
     (let (rows, s1) = asked n token (sql_url upstreamOrg db ''main'' (all_items @ '' WHERE id IN ('' @ quoted_ids ids @ '')'')) s
      in (snapshot_of rows, s1))"
  by (simp add: compare_snapshot_def query_texts query_url_sql asked_def Let_def snapshot_of_Nil split: prod.split sum.split option.split)

lemma read_branches_asked:
  assumes "read_branches n token order upstreamOrg db prs s = (Inr (results, upstream), s')"
  shows "concat (map (\<lambda>(b, rows). waiting_rows upstreamOrg db prs upstream b rows i) results)
    = pending_spec n token order upstreamOrg db prs s i" and "all_answered n token order upstreamOrg db prs s"
proof -
  let ?from_main = "\<exists>pr \<in> set prs. pi_fromBranch pr = ''main''"
  let ?bs = "order (remdups (map (origin upstreamOrg) prs))"
  obtain full s1 where full: "upstream_snapshot n token upstreamOrg db prs s = (Inr full, s1)"
    using assms by (auto simp: read_branches_def split: prod.splits sum.splits)
  obtain all where all: "(if ?from_main then asked n token (sql_url upstreamOrg db ''main'' all_items) s else ([], s)) = (all, s1)"
    "full = (if ?from_main then Some (snapshot_of all) else None)"
    "(case full of Some snap \<Rightarrow> snap | None \<Rightarrow> []) = snapshot_of all"
    "?from_main \<longrightarrow> answered_rows (fst (dolthubGet n token (sql_url upstreamOrg db ''main'' all_items) s))"
    "s1 = (if ?from_main then snd (dolthubGet n token (sql_url upstreamOrg db ''main'' all_items) s) else s)"
    using full by (auto simp: upstream_snapshot_def asked_def answered_rows_def query_url_sql query_texts list_ex_iff snapshot_of_Nil
        split: if_splits prod.splits sum.splits option.splits)
  obtain res s2 where res: "traverse (branch_rows n token upstreamOrg db (snapshot_of all) prs) ?bs s1 = (res, s2)"
    by (rule prod.exhaust)
  let ?good = "map (\<lambda>(b, rows). (b, case rows of Inr xs \<Rightarrow> xs | Inl err \<Rightarrow> [])) res"
  have so: "source_of upstreamOrg = origin upstreamOrg" by (rule ext) (rule origin_source)
  have ff: "first_failure (map snd res) = None"
    using assms by (auto simp: read_branches_def full all(3) so res Let_def split: option.splits)
  obtain answers where ans: "traverse (\<lambda>b. asked n token (origin_url db b)) ?bs s1 = (answers, s2)"
    "?good = map (\<lambda>(b, rows). (b, kept_rows all b rows)) (zip ?bs answers)"
    "list_all (answered_or_gone n) (fst (traverse (\<lambda>b. dolthubGet n token (origin_url db b)) ?bs s1))"
    by (rule traverse_asked [OF res ff])
  let ?ids = "changed_ids ?bs answers"
  define up where "up = (if ?from_main then all else if ?ids = [] then []
    else fst (asked n token (sql_url upstreamOrg db ''main'' (all_items @ '' WHERE id IN ('' @ quoted_ids ?ids @ '')'')) s2))"
  have ids: "compare_ids ?good = ?ids" unfolding ans(2) by (rule compare_changed)
  have r0: "(if ?ids \<noteq> [] \<and> full = None
      then (let (up, s3) = compare_snapshot n token upstreamOrg db ?ids s2 in (Inr (?good, up), s3))
      else (Inr (?good, snapshot_of all), s2)) = (Inr (results, upstream) :: go_error + _, s')"
    using assms unfolding read_branches_def full prod.case sum.case all(3) so res Let_def ff option.case ids by simp
  have r: "results = ?good" "upstream = snapshot_of up"
    using r0 all(1,2) unfolding up_def
    by (auto simp: compare_asked case_prod_beta' Let_def split: if_splits)
  have main: "waiting_rows upstreamOrg db prs (snapshot_of up) b (kept_rows all b rows) i = submissions upstreamOrg db prs up b rows i"
    for b rows
  proof (cases "pb_branch b = ''main'' \<and> \<not> ?from_main")
    case True
    then have no: "filter (\<lambda>pr. source_of upstreamOrg pr = b) prs = []"
      by (auto simp: filter_empty_conv source_of_def)
    then have "filter (\<lambda>pr. cell row ''id'' = i \<and> origin upstreamOrg pr = b \<and> submission up b row (pi_author pr)) prs = []" for row
      by (auto simp: filter_empty_conv origin_source)
    then show ?thesis by (simp add: waiting_rows_def submissions_def branchPRs_def no map_replicate_const concat_replicate_trivial)
  next
    case False
    then show ?thesis by (intro waiting_submissions) (auto simp: up_def)
  qed
  show "all_answered n token order upstreamOrg db prs s"
    using all(4) ans(3) unfolding all_answered_def Let_def all(5) [symmetric] by (rule conjI)
  show "concat (map (\<lambda>(b, rows). waiting_rows upstreamOrg db prs upstream b rows i) results)
    = pending_spec n token order upstreamOrg db prs s i"
    unfolding r ans(2) pending_spec_def Let_def all(1) prod.case ans(1) up_def [symmetric]
    by (simp add: comp_def case_prod_beta' main)
qed

text \<open>
  C5: The pending submissions listed for an item are, but for the evidence added to them, exactly the
  rows that the branches of the given pull requests are answered to have for it, one for every pull
  request of the branch, in their order: with one of the four statuses of the lifecycle, not as the
  upstream is answered to have the item, an open item only when the branch has added it, a claim only when
  it is the pull request's author's, and none that is removed or without an id.  A listing is only given
  when every branch was answered, but for forks that are gone, and so was the upstream where it comes first.
\<close>

theorem pending_listing_exact:
  assumes "list_pending n token order upstreamOrg db prs s = (Inr ids, s')"
  shows "map without_evidence (states_of ids i) = pending_spec n token order upstreamOrg db prs s i
    \<and> all_answered n token order upstreamOrg db prs s"
proof -
  obtain results upstream s1 where r: "read_branches n token order upstreamOrg db prs s = (Inr (results, upstream), s1)"
    using assms by (auto simp: list_pending_def split: prod.splits sum.splits)
  have "map without_evidence (states_of ids i) = waiting upstreamOrg db prs upstream results i"
    by (rule list_pending_states [OF assms r])
  then show ?thesis using read_branches_asked [OF r] by (simp add: waiting_def)
qed

section \<open>The pull requests behind them\<close>

text \<open>What the body of an answer about a pull request says, and a state that comes from one.\<close>

definition pull_says :: "string \<Rightarrow> prInfo \<Rightarrow> bool" where
  "pull_says body pr \<longleftrightarrow>
     (\<exists>ms. struct_members body = Some ms \<and> str_field ''from_branch'' ms = (pi_fromBranch pr, True)
        \<and> str_field ''from_branch_owner'' ms = (pi_fromBranchOwner pr, True) \<and> str_field ''author'' ms = (pi_author pr, True))"

definition from_pull :: "string \<Rightarrow> string \<Rightarrow> prInfo \<Rightarrow> PendingWantedState \<Rightarrow> bool" where
  "from_pull upstreamOrg db pr st \<longleftrightarrow>
     pw_PRURL st = ''https://www.dolthub.com/repositories/'' @ upstreamOrg @ ''/'' @ db @ ''/pulls/'' @ pi_pullID pr
     \<and> pw_Branch st = pi_fromBranch pr
     \<and> pw_ForkOwner st = (if pi_fromBranchOwner pr = [] then upstreamOrg else pi_fromBranchOwner pr)
     \<and> pw_Status st \<in> {''open'', ''claimed'', ''in_review'', ''completed''}
     \<and> pw_RigHandle st = (if pw_Status st = ''claimed'' \<or> pw_ClaimedBy st = [] then pi_author pr else pw_ClaimedBy st)"

lemma from_pull_plain [simp]: "from_pull upstreamOrg db pr (without_evidence st) = from_pull upstreamOrg db pr st"
  by (simp add: from_pull_def without_evidence_def)

lemma waiting_from_pull:
  assumes "st \<in> set (waiting upstreamOrg db prs upstream results i)"
  shows "\<exists>pr \<in> set prs. from_pull upstreamOrg db pr st"
proof -
  obtain source rows row pr where "pr \<in> set (branchPRs upstreamOrg prs source)" "intentional row pr"
    "st = pending_state upstreamOrg db source row pr"
    using assms by (auto simp: waiting_def waiting_rows_def)
  then show ?thesis
    by (intro bexI [of _ pr])
      (auto simp: from_pull_def pending_state_def intentional_def branchPRs_def validStatus_def source_of_def pull_url_def
        dolthubRepoBase_def)
qed

lemma list_pending_from_pull:
  assumes "list_pending n token order upstreamOrg db prs s = (Inr ids, s')" and "st \<in> set (states_of ids i)"
  shows "\<exists>pr \<in> set prs. from_pull upstreamOrg db pr st"
proof -
  obtain results upstream s1 where r: "read_branches n token order upstreamOrg db prs s = (Inr (results, upstream), s1)"
    using assms(1) by (auto simp: list_pending_def split: prod.splits sum.splits)
  have "without_evidence st \<in> set (map without_evidence (states_of ids i))" using assms(2) by simp
  then have "without_evidence st \<in> set (waiting upstreamOrg db prs upstream results i)"
    by (simp only: list_pending_states [OF assms(1) r])
  from waiting_from_pull [OF this] show ?thesis by simp
qed

text \<open>The pull requests that are looked at are open ones of the upstream's list, as their details are answered.\<close>

lemma details_asked:
  assumes "Inr pr \<in> set (fst (traverse (\<lambda>p. pr_detail n token upstreamOrg db (ps_PullID p)) ps s))"
  shows "\<exists>k body. k < length ps \<and> pi_pullID pr = ps_PullID (ps ! k)
    \<and> fst (traverse (\<lambda>p. dolthubGet n token (pulls_url upstreamOrg db @ ''/'' @ ps_PullID p)) ps s) ! k = Inr body
    \<and> pull_says body pr"
  using assms
proof (induction ps arbitrary: s)
  case (Cons p ps)
  let ?get = "dolthubGet n token (pulls_url upstreamOrg db @ ''/'' @ ps_PullID p) s"
  let ?one = "pr_detail n token upstreamOrg db (ps_PullID p) s"
  have w: "snd ?one = snd ?get" by (auto simp: pr_detail_def Let_def case_prod_beta' split: sum.splits option.splits)
  from Cons.prems consider "fst ?one = Inr pr"
    | "Inr pr \<in> set (fst (traverse (\<lambda>p. pr_detail n token upstreamOrg db (ps_PullID p)) ps (snd ?get)))"
    by (auto simp: Let_def case_prod_beta' w)
  then show ?case
  proof cases
    case 1
    then obtain body where "fst ?get = Inr body" "pi_pullID pr = ps_PullID p" "pull_says body pr"
      by (auto simp: pr_detail_def pull_says_def Let_def case_prod_beta' prod_eq_iff split: sum.splits option.splits prod.splits if_splits)
    then show ?thesis by (intro exI [of _ 0] exI [of _ body]) (simp add: Let_def case_prod_beta')
  next
    case 2
    from Cons.IH [OF this] obtain k body where "k < length ps" "pi_pullID pr = ps_PullID (ps ! k)"
      "fst (traverse (\<lambda>p. dolthubGet n token (pulls_url upstreamOrg db @ ''/'' @ ps_PullID p)) ps (snd ?get)) ! k = Inr body"
      "pull_says body pr" by blast
    then show ?thesis by (intro exI [of _ "Suc k"] exI [of _ body]) (simp add: Let_def case_prod_beta')
  qed
qed simp

lemma listOpenPRDetails_open:
  assumes "listOpenPRDetails n token upstreamOrg db False failing c s = Some (Inr prs, c1, s1)" and "pr \<in> set prs"
  shows "\<exists>pulls s0. listPulls n token upstreamOrg db s = Some (Inr pulls, s0)
    \<and> Inr pr \<in> set (fst (traverse (\<lambda>p. pr_detail n token upstreamOrg db (ps_PullID p)) (open_pulls pulls) s0))"
proof -
  obtain pulls s0 where pulls: "listPulls n token upstreamOrg db s = Some (Inr pulls, s0)"
    using assms(1) by (auto simp: listOpenPRDetails_def split: option.splits prod.splits sum.splits)
  let ?found = "\<lambda>details. map (\<lambda>info. (pi_pullID info, info)) (successes details)"
  let ?details = "fst (traverse (\<lambda>p. pr_detail n token upstreamOrg db (ps_PullID p)) (open_pulls pulls) s0)"
  have "prs = List.map_filter (\<lambda>p. map_of (rev (?found ?details)) (ps_PullID p)) (open_pulls pulls)"
    using assms(1) by (simp add: listOpenPRDetails_def pulls Let_def case_prod_beta' split: option.splits if_splits)
  then obtain p where "p \<in> set (open_pulls pulls)" "map_of (rev (?found ?details)) (ps_PullID p) = Some pr"
    using assms(2) by (auto simp: map_filter_def)
  then have "(ps_PullID p, pr) \<in> set (rev (?found ?details))" by (blast dest: map_of_SomeD)
  then have "pr \<in> set (successes ?details)" by auto
  then have "Inr pr \<in> set ?details" by (auto simp: successes_def map_filter_def split: sum.splits)
  then show ?thesis using pulls by blast
qed

text \<open>
  C13: Whatever DoltHub and the forks answer, a submission that is listed as pending is one of an open
  pull request of the upstream's own list, as the answer about that very pull request describes it: with
  its URL, its branch and the owner of its branch, a status of the lifecycle, and, when it is a claim or
  names no claimer, under the name of the pull request's author.
\<close>

theorem pending_state_has_pull_request:
  assumes "ListPendingWantedIDs n token order upstreamOrg db c s = Some (Inr ids, c', s')"
    and "st \<in> set (states_of ids i)"
  shows "\<exists>pulls s0. listPulls n token upstreamOrg db s = Some (Inr pulls, s0)
    \<and> (let opened = filter (\<lambda>p. fold_eq (ps_State p) ''open'') pulls;
           answers = fst (traverse (\<lambda>p. dolthubGet n token (pulls_url upstreamOrg db @ ''/'' @ ps_PullID p)) opened s0)
       in \<exists>k body pr. k < length opened \<and> answers ! k = Inr body \<and> pull_says body pr
          \<and> pi_pullID pr = ps_PullID (opened ! k) \<and> from_pull upstreamOrg db pr st)"
proof -
  obtain prs c1 s1 where prs: "listOpenPRDetails n token upstreamOrg db False True c s = Some (Inr prs, c1, s1)"
    "list_pending n token order upstreamOrg db prs s1 = (Inr ids, s')"
    using assms(1) by (auto simp: ListPendingWantedIDs_def split: option.splits prod.splits sum.splits)
  from list_pending_from_pull [OF prs(2) assms(2)] obtain pr where pr: "pr \<in> set prs" "from_pull upstreamOrg db pr st" by blast
  from listOpenPRDetails_open [OF prs(1) pr(1)] obtain pulls s0 where pulls: "listPulls n token upstreamOrg db s = Some (Inr pulls, s0)"
    "Inr pr \<in> set (fst (traverse (\<lambda>p. pr_detail n token upstreamOrg db (ps_PullID p)) (open_pulls pulls) s0))" by blast
  from details_asked [OF pulls(2)] show ?thesis
    using pulls(1) pr(2) unfolding open_pulls_def Let_def by blast
qed

text \<open>
  Only a row with status \<^verbatim>\<open>claimed\<close> is held against the pull request's author: a branch that says
  that its item is in review, or completed, by somebody else is listed, under that somebody's name.
\<close>

lemma review_under_any_name:
  assumes "pr_status row = ''in_review'' \<or> pr_status row = ''completed''" and "pr_claimedBy row \<noteq> []"
  shows "intentional row pr" "pw_RigHandle (pending_state upstreamOrg db source row pr) = pr_claimedBy row"
  using assms by (auto simp: intentional_def validStatus_def pending_state_def)

section \<open>A listing\<close>

text \<open>A world that answers its requests one after the other.\<close>

definition demo_answers :: "string list" where
  "demo_answers =
     [''{\"pulls\":[{\"pull_id\":\"7\",\"state\":\"open\"}]}'',
      ''{\"from_branch\":\"wl/alice/w1\",\"from_branch_owner\":\"alice\",\"author\":\"alice\"}'',
      ''{\"rows\":[{\"id\":\"w1\",\"status\":\"claimed\",\"claimed_by\":\"alice\",\"diff_type\":\"modified\"}]}'',
      ''{\"rows\":[{\"id\":\"w1\",\"status\":\"open\",\"claimed_by\":\"\"}]}'']"

definition demo_net :: "nat net" where
  "demo_net =
     \<lparr>nt_url = (\<lambda>url. Inr ([], [])), nt_random = (\<lambda>k s. (Inr [], s)),
      nt_do = (\<lambda>req k. (Inr (200, Inr (demo_answers ! k)), Suc k)), nt_sleep = (\<lambda>ms k. k), nt_now = (\<lambda>k. 0),
      nt_done = (\<lambda>k. None), nt_lower = id, nt_json_error = (\<lambda>body. []), nt_env = (\<lambda>name. [])\<rparr>"

definition demo_pull :: prInfo where
  "demo_pull = \<lparr>pi_pullID = ''7'', pi_fromBranch = ''wl/alice/w1'', pi_fromBranchOwner = ''alice'', pi_author = ''alice''\<rparr>"

definition demo_row :: pendingBranchRow where
  "demo_row = \<lparr>pr_wantedID = ''w1'', pr_status = ''claimed'', pr_claimedBy = ''alice'', pr_isAdded = False\<rparr>"

definition demo_source :: pendingBranchSource where
  "demo_source = \<lparr>pb_owner = ''alice'', pb_branch = ''wl/alice/w1''\<rparr>"

lemma demo_get [simp]: "dolthubGet demo_net token url k = (Inr (demo_answers ! k), Suc k)"
  by (simp add: dolthubGet_def dolthubGetOnce_def nt_url_error_def demo_net_def)

lemma demo_pages: "page_of (demo_answers ! 0) = Some ([\<lparr>ps_PullID = ''7'', ps_State = ''open''\<rparr>], [])"
  by code_simp

lemma demo_detail:
  "Option.bind (struct_members (demo_answers ! Suc 0)) (\<lambda>ms.
     Some (str_field ''from_branch'' ms, str_field ''from_branch_owner'' ms, str_field ''author'' ms)) =
   Some ((''wl/alice/w1'', True), (''alice'', True), (''alice'', True))"
  by code_simp

lemma demo_diff:
  "map_option diff_rows (rows_of (demo_answers ! Suc (Suc 0))) = Some [demo_row]"
  by code_simp

lemma demo_upstream:
  "map_option snapshot_of (rows_of (demo_answers ! Suc (Suc (Suc 0)))) = Some [(''w1'', (''open'', []))]"
  by code_simp

lemma demo_listPulls:
  "listPulls demo_net token org db 0 = Some (Inr [\<lparr>ps_PullID = ''7'', ps_State = ''open''\<rparr>], Suc 0)"
  by (simp add: listPulls_def list_pages.simps demo_pages)

lemma demo_pr_detail:
  "pr_detail demo_net token org db ''7'' (Suc 0) = (Inr demo_pull, Suc (Suc 0))"
proof -
  obtain ms where "struct_members (demo_answers ! Suc 0) = Some ms"
    "str_field ''from_branch'' ms = (''wl/alice/w1'', True)" "str_field ''from_branch_owner'' ms = (''alice'', True)"
    "str_field ''author'' ms = (''alice'', True)"
    using demo_detail by (auto simp: bind_eq_Some_conv)
  then show ?thesis by (simp add: pr_detail_def Let_def demo_pull_def)
qed

lemma demo_fold: "fold_eq ''open'' ''open''"
  by code_simp

lemma demo_open: "open_pulls [\<lparr>ps_PullID = ''7'', ps_State = ''open''\<rparr>] = [\<lparr>ps_PullID = ''7'', ps_State = ''open''\<rparr>]"
  by code_simp

lemma demo_listOpenPRDetails:
  "\<exists>c'. listOpenPRDetails demo_net token org db False True c 0 = Some (Inr [demo_pull], c', Suc (Suc 0))"
  by (simp add: listOpenPRDetails_def demo_listPulls demo_pr_detail demo_open first_failure_def successes_def map_filter_def
      Let_def demo_pull_def)

lemma demo_read_branches:
  "read_branches demo_net token (\<lambda>ks. ks) ''org'' ''db'' [demo_pull] (Suc (Suc 0)) =
     (Inr ([(demo_source, [demo_row])], [(''w1'', (''open'', []))]), Suc (Suc (Suc (Suc 0))))"
proof -
  have source: "source_of ''org'' demo_pull = demo_source" by (simp add: source_of_def demo_pull_def demo_source_def)
  have diff: "map_option diff_rows (rows_of (demo_answers ! Suc (Suc 0))) = Some [demo_row]"
    by (rule demo_diff)
  then have rows: "read_rows demo_net token what label url diff_rows (Suc (Suc 0)) = (Inr [demo_row], Suc (Suc (Suc 0)))"
    for what label url
    by (auto simp: read_rows_def)
  have branch: "branch_rows demo_net token ''org'' ''db'' upstream [demo_pull] demo_source (Suc (Suc 0)) =
      ((demo_source, Inr [demo_row]), Suc (Suc (Suc 0)))" for upstream
    by (simp add: branch_rows_def Let_def rows) (simp add: demo_source_def)
  have compare: "compare_snapshot demo_net token ''org'' ''db'' ids (Suc (Suc (Suc 0))) =
      ([(''w1'', (''open'', []))], Suc (Suc (Suc (Suc 0))))" for ids
    using demo_upstream by (auto simp: compare_snapshot_def Let_def)
  have ids: "compare_ids [(demo_source, [demo_row])] = [''w1'']"
    by (simp add: compare_ids_def demo_source_def demo_row_def)
  have "upstream_snapshot demo_net token ''org'' ''db'' [demo_pull] (Suc (Suc 0)) = (Inr None, Suc (Suc 0))"
    by (simp add: upstream_snapshot_def demo_pull_def)
  then show ?thesis
    by (simp add: read_branches_def source branch Let_def first_failure_def ids compare)
qed

definition demo_state :: PendingWantedState where
  "demo_state = pending_state ''org'' ''db'' demo_source demo_row demo_pull"

lemma demo_waiting:
  "waiting ''org'' ''db'' [demo_pull] [(''w1'', (''open'', []))] [(demo_source, [demo_row])] ''w1'' = [demo_state]"
  "collect_states ''org'' ''db'' [demo_pull] [(''w1'', (''open'', []))] [(demo_source, [demo_row])] [] = [(''w1'', [demo_state])]"
proof -
  have rows: "\<not> upstream_has [(''w1'', (''open'', []))] demo_source demo_row" "branchPRs ''org'' [demo_pull] demo_source = [demo_pull]"
    "intentional demo_row demo_pull" "pr_wantedID demo_row = ''w1''"
    by code_simp+
  then show "waiting ''org'' ''db'' [demo_pull] [(''w1'', (''open'', []))] [(demo_source, [demo_row])] ''w1'' = [demo_state]"
    by (simp add: waiting_def waiting_rows_def demo_state_def)
  show "collect_states ''org'' ''db'' [demo_pull] [(''w1'', (''open'', []))] [(demo_source, [demo_row])] [] = [(''w1'', [demo_state])]"
    using rows by (simp add: add_states_def states_of_def demo_state_def)
qed

lemma demo_list_pending:
  "list_pending demo_net token (\<lambda>ks. ks) ''org'' ''db'' [demo_pull] (Suc (Suc 0)) =
     (Inr [(''w1'', [demo_state])], Suc (Suc (Suc (Suc 0))))"
proof -
  have "targets [(''w1'', [demo_state])] = []"
    by (simp add: targets_def past_claim_def demo_state_def pending_state_def demo_row_def)
  then show ?thesis
    by (simp add: list_pending_def demo_read_branches demo_waiting(2) del: collect_states.simps)
qed

text \<open>The one submission of the demonstration, in full.\<close>

theorem pending_listing_exact_witness:
  "pending_spec demo_net [] (\<lambda>ks. ks) ''org'' ''db'' [demo_pull] 2 ''w1'' = [demo_state]"
  using pending_listing_exact [OF demo_list_pending [of "[]"], of "''w1''"]
  by (simp add: demo_state_def states_of_def numeral_2_eq_2)

theorem pending_state_has_pull_request_witness:
  "\<exists>body pr. dolthubGet demo_net [] (pulls_url ''org'' ''db'' @ ''/7'') (Suc 0) = (Inr body, Suc (Suc 0))
    \<and> pull_says body pr \<and> pi_pullID pr = ''7'' \<and> from_pull ''org'' ''db'' pr demo_state"
proof -
  obtain c' where "listOpenPRDetails demo_net [] ''org'' ''db'' False True newDoltHubProviderCache 0 =
      Some (Inr [demo_pull], c', Suc (Suc 0))"
    using demo_listOpenPRDetails by blast
  then have "ListPendingWantedIDs demo_net [] (\<lambda>ks. ks) ''org'' ''db'' newDoltHubProviderCache 0 =
      Some (Inr [(''w1'', [demo_state])], c', Suc (Suc (Suc (Suc 0))))"
    by (simp add: ListPendingWantedIDs_def demo_list_pending)
  from pending_state_has_pull_request [OF this, of demo_state "''w1''"]
  obtain k body pr where "k < length [\<lparr>ps_PullID = ''7'', ps_State = ''open''\<rparr>]"
    "[Inr (demo_answers ! Suc 0)] ! k = (Inr body :: go_error + string)" "pull_says body pr"
    "pi_pullID pr = ps_PullID ([\<lparr>ps_PullID = ''7'', ps_State = ''open''\<rparr>] ! k)" "from_pull ''org'' ''db'' pr demo_state"
    by (auto simp: states_of_def demo_listPulls demo_fold Let_def)
  then show ?thesis by (intro exI [of _ body] exI [of _ pr]) simp
qed

end
