(* ===== verification/DolthubFork.thy ===== *)
theory DolthubFork
  imports Dolthub
begin

text \<open>
  Forking a database on DoltHub (\<^verbatim>\<open>Fork\<close> of \<^verbatim>\<open>internal/remote/dolthub.go\<close>): through the
  browser session's GraphQL, or through the REST API with a poll for the end of the operation.
\<close>

definition dolthubRemoteBase :: string where
  "dolthubRemoteBase = ''https://doltremoteapi.dolthub.com''"

record ForkRequiredError =
  fr_UpstreamOrg :: string
  fr_UpstreamDB :: string
  fr_ForkOrg :: string

definition fork_required_text :: "ForkRequiredError \<Rightarrow> string" where
  "fork_required_text e =
     Sprintf ''fork %s/%s not found under %s on DoltHub'' [FS (fr_UpstreamOrg e), FS (fr_UpstreamDB e), FS (fr_ForkOrg e)]"

definition ForkURL :: "ForkRequiredError \<Rightarrow> string" where
  "ForkURL e = Sprintf ''%s/%s/%s'' [FS dolthubRepoBase, FS (fr_UpstreamOrg e), FS (fr_UpstreamDB e)]"

definition DatabaseURL :: "string \<Rightarrow> string \<Rightarrow> string" where
  "DatabaseURL org db = Sprintf ''%s/%s/%s'' [FS dolthubRemoteBase, FS org, FS db]"

text \<open>What \<^verbatim>\<open>Fork\<close> returns.\<close>

datatype fork_result = Forked | Fork_required ForkRequiredError | Fork_failed go_error

definition databaseExists :: "'s net \<Rightarrow> string \<Rightarrow> string \<Rightarrow> string \<Rightarrow> 's \<Rightarrow> bool \<times> 's" where
  "databaseExists n token org db s =
     (let url = Sprintf ''%s/%s/%s/main'' [FS dolthubAPIBase, FS org, FS db]
      in if nt_url_error n url \<noteq> None then (False, s)
         else (let (resp, s1) = nt_do n \<lparr>ho_method = ''GET'', ho_url = url, ho_headers = bearer token, ho_body = []\<rparr> s
               in (case resp of Inr (code, _) \<Rightarrow> code = 200 | Inl _ \<Rightarrow> False, s1)))"

definition forkRESTFallback :: "'s net \<Rightarrow> string \<Rightarrow> string \<Rightarrow> string \<Rightarrow> string \<Rightarrow> 's \<Rightarrow> fork_result \<times> 's" where
  "forkRESTFallback n token fromOrg fromDB toOrg s =
     (case databaseExists n token toOrg fromDB s of
        (True, s1) \<Rightarrow> (Forked, s1)
      | (False, s1) \<Rightarrow>
          (Fork_required \<lparr>fr_UpstreamOrg = fromOrg, fr_UpstreamDB = fromDB, fr_ForkOrg = toOrg\<rparr>, s1))"

section \<open>Polling\<close>

text \<open>Times in milliseconds.\<close>

definition forkPollInitialBackoff :: nat where
  "forkPollInitialBackoff = 500"

definition forkPollMaxBackoff :: nat where
  "forkPollMaxBackoff = 8000"

definition forkPollTimeout :: nat where
  "forkPollTimeout = 120000"

definition next_backoff :: "nat \<Rightarrow> nat" where
  "next_backoff backoff = (if backoff < forkPollMaxBackoff then 2 * backoff else backoff)"

text \<open>Does a poll's answer say that the fork is there?\<close>

definition poll_done :: "'s net \<Rightarrow> string \<Rightarrow> bool" where
  "poll_done n body =
     (case struct_members body of
        None \<Rightarrow> False
      | Some ms \<Rightarrow>
          (let (st, ok1) = str_field ''status'' ms; (ow, ok2) = str_field ''owner_name'' ms;
               (d, ok3) = str_field ''database_name'' ms
           in ok1 \<and> ok2 \<and> ok3 \<and>
              (ow \<noteq> [] \<and> d \<noteq> [] \<or> ToLower (nt_lower n) st \<in> {''success'', ''done'', ''completed''})))"

definition fork_poll_url :: "string \<Rightarrow> string" where
  "fork_poll_url operationName = Sprintf ''%s/fork?operationName=%s'' [FS dolthubAPIBase, FS operationName]"

text \<open>
  One round at the end of a wait: is the fork there?  An error answer is checked against the database
  itself.
\<close>

definition poll_once :: "'s net \<Rightarrow> string \<Rightarrow> string \<Rightarrow> string \<Rightarrow> string \<Rightarrow> 's \<Rightarrow> bool \<times> 's" where
  "poll_once n token operationName forkOrg forkDB s =
     (case nt_do n \<lparr>ho_method = ''GET'', ho_url = fork_poll_url operationName, ho_headers = bearer token, ho_body = []\<rparr> s of
        (Inl err, s1) \<Rightarrow> (False, s1)
      | (Inr (code, Inl err), s1) \<Rightarrow> (False, s1)
      | (Inr (code, Inr body), s1) \<Rightarrow>
          if code < 200 \<or> 300 \<le> code then databaseExists n token forkOrg forkDB s1
          else (poll_done n body, s1))"

text \<open>
  The loop, until the deadline (in nanoseconds).  Go waits for the timer and the context at once; here
  the context is looked at when the time has passed.
\<close>

partial_function (option) poll_loop ::
  "'s net \<Rightarrow> string \<Rightarrow> string \<Rightarrow> string \<Rightarrow> string \<Rightarrow> int \<Rightarrow> nat \<Rightarrow> 's \<Rightarrow> (fork_result \<times> 's) option" where
  "poll_loop n token operationName forkOrg forkDB deadline backoff s =
     (if deadline \<le> nt_now n s
      then (let (there, s1) = databaseExists n token forkOrg forkDB s
            in Some (if there then Forked
                     else Fork_failed (Err (Sprintf ''timed out waiting for fork operation %s to complete''
                                              [FS (Quote operationName)])), s1))
      else (let s1 = nt_sleep n backoff s
            in case nt_done n s1 of
                 Some ctx \<Rightarrow> Some (Fork_failed ctx, s1)
               | None \<Rightarrow>
                   (case nt_url_error n (fork_poll_url operationName) of
                      Some err \<Rightarrow> Some (Fork_failed (Wrap ''creating fork poll request: '' err), s1)
                    | None \<Rightarrow>
                        (case poll_once n token operationName forkOrg forkDB s1 of
                           (there, s2) \<Rightarrow>
                             if there then Some (Forked, s2)
                             else poll_loop n token operationName forkOrg forkDB deadline (next_backoff backoff) s2))))"

definition pollForkOperation ::
  "'s net \<Rightarrow> string \<Rightarrow> string \<Rightarrow> string \<Rightarrow> string \<Rightarrow> 's \<Rightarrow> (fork_result \<times> 's) option" where
  "pollForkOperation n token operationName forkOrg forkDB s =
     poll_loop n token operationName forkOrg forkDB (nt_now n s + int forkPollTimeout * 1000000) forkPollInitialBackoff s"

section \<open>Forking\<close>

definition forkREST :: "'s net \<Rightarrow> string \<Rightarrow> string \<Rightarrow> string \<Rightarrow> string \<Rightarrow> 's \<Rightarrow> (fork_result \<times> 's) option" where
  "forkREST n token fromOrg fromDB toOrg s =
     (case nt_do n \<lparr>ho_method = ''POST'', ho_url = dolthubAPIBase @ ''/fork'',
                    ho_headers = Set (Set [] ''Content-Type'' ''application/json'') ''authorization'' (''token '' @ token),
                    ho_body = text_object [(''ownerName'', toOrg), (''parentDatabaseName'', fromDB),
                                           (''parentOwnerName'', fromOrg)]\<rparr> s of
        (Inl err, s1) \<Rightarrow> Some (forkRESTFallback n token fromOrg fromDB toOrg s1)
      | (Inr (code, Inl err), s1) \<Rightarrow> Some (Fork_failed (Wrap ''reading REST fork response: '' err), s1)
      | (Inr (code, Inr body), s1) \<Rightarrow>
          if code = 401 \<or> code = 403 then Some (forkRESTFallback n token fromOrg fromDB toOrg s1)
          else if code < 200 \<or> 300 \<le> code
          then (if Contains (ToLower (nt_lower n) body) ''already exists'' then Some (Forked, s1)
                else Some (forkRESTFallback n token fromOrg fromDB toOrg s1))
          else (let (operationName, ok) =
                      (case struct_members body of
                         None \<Rightarrow> ([], False)
                       | Some ms \<Rightarrow> (fst (str_field ''operation_name'' ms),
                                     snd (str_field ''operation_name'' ms) \<and> snd (str_field ''status'' ms)))
                in if \<not> ok then Some (Fork_failed (Err (''parsing REST fork response: '' @ nt_json_error n body)), s1)
                   else if operationName = [] then Some (Forked, s1)
                   else pollForkOperation n token operationName toOrg fromDB s1))"

definition createFork_query :: string where
  "createFork_query =
     ''mutation CreateFork($ownerName: String!, $parentOwnerName: String!, $parentRepoName: String!) {'' @ [nl_ch] @
     ''  createFork(ownerName: $ownerName, parentOwnerName: $parentOwnerName, parentRepoName: $parentRepoName) {'' @ [nl_ch] @
     ''    forkOperationName'' @ [nl_ch] @ ''  }'' @ [nl_ch] @ ''}''"

text \<open>\<^verbatim>\<open>graphqlRequest\<close>, with the variables of the fork.\<close>

definition graphqlRequest :: "string \<Rightarrow> (string \<times> string) list \<Rightarrow> string" where
  "graphqlRequest query variables =
     json_text (JObj ([(''query'', JStr query)] @
       (if variables = [] then [] else [(''variables'', JObj (map (\<lambda>(k, v). (k, JStr v)) variables))])))"

text \<open>The messages of \<^verbatim>\<open>graphqlResponse\<close>; its data may be any value.\<close>

definition graphqlResponse :: "string \<Rightarrow> string list option" where
  "graphqlResponse body =
     Option.bind (struct_members body)
       (structs_field (\<lambda>j. Option.bind (struct_of j) (\<lambda>ms.
          (let (m, ok) = str_field ''message'' ms in if ok then Some m else None))) ''errors'')"

definition forkGraphQL ::
  "'s net \<Rightarrow> string \<Rightarrow> string \<Rightarrow> string \<Rightarrow> string \<Rightarrow> 's \<Rightarrow> fork_result \<times> 's" where
  "forkGraphQL n fromOrg fromDB toOrg sessionToken s =
     (case nt_do n \<lparr>ho_method = ''POST'', ho_url = dolthubGraphQLURL,
                    ho_headers = Set (Set [] ''Content-Type'' ''application/json'') ''Cookie'' (''dolthubToken='' @ sessionToken),
                    ho_body = graphqlRequest createFork_query
                      [(''ownerName'', toOrg), (''parentOwnerName'', fromOrg), (''parentRepoName'', fromDB)]\<rparr> s of
        (Inl err, s1) \<Rightarrow> (Fork_failed (Wrap ''DoltHub GraphQL fork request failed: '' err), s1)
      | (Inr (code, Inl err), s1) \<Rightarrow> (Fork_failed (Wrap ''reading DoltHub GraphQL response: '' err), s1)
      | (Inr (code, Inr body), s1) \<Rightarrow>
          if code < 200 \<or> 300 \<le> code then (Fork_failed (http_error ''DoltHub GraphQL error'' code body), s1)
          else (case graphqlResponse body of
                  None \<Rightarrow> (Fork_failed (Err (''parsing DoltHub GraphQL response: '' @ nt_json_error n body)), s1)
                | Some [] \<Rightarrow> (Forked, s1)
                | Some (msg # _) \<Rightarrow>
                    let low = ToLower (nt_lower n) msg
                    in (if Contains low ''already exists'' \<or> Contains low ''already been forked'' then Forked
                        else Fork_failed (Err (''DoltHub GraphQL fork error: '' @ msg)), s1)))"

definition Fork :: "'s net \<Rightarrow> string \<Rightarrow> string \<Rightarrow> string \<Rightarrow> string \<Rightarrow> 's \<Rightarrow> (fork_result \<times> 's) option" where
  "Fork n token fromOrg fromDB toOrg s =
     (case databaseExists n token toOrg fromDB s of
        (True, s1) \<Rightarrow> Some (Forked, s1)
      | (False, s1) \<Rightarrow>
          (let sessionToken = nt_env n ''DOLTHUB_SESSION_TOKEN''
           in if sessionToken \<noteq> [] then Some (forkGraphQL n fromOrg fromDB toOrg sessionToken s1)
              else forkREST n token fromOrg fromDB toOrg s1))"

section \<open>Forking ends\<close>

text \<open>A clock that no request sets back and that every wait moves on.\<close>

definition clock_runs :: "'s net \<Rightarrow> bool" where
  "clock_runs n \<longleftrightarrow>
     (\<forall>req s. nt_now n s \<le> nt_now n (snd (nt_do n req s)))
     \<and> (\<forall>ms s. nt_now n s + int ms * 1000000 \<le> nt_now n (nt_sleep n ms s))"

lemma clock_databaseExists: "clock_runs n \<Longrightarrow> nt_now n s \<le> nt_now n (snd (databaseExists n token org db s))"
  by (simp add: clock_runs_def databaseExists_def Let_def case_prod_beta')

lemma clock_poll_once:
  assumes "clock_runs n"
  shows "nt_now n s \<le> nt_now n (snd (poll_once n token operationName forkOrg forkDB s))"
proof -
  let ?req = "\<lparr>ho_method = ''GET'', ho_url = fork_poll_url operationName, ho_headers = bearer token, ho_body = []\<rparr>"
  obtain resp s1 where r: "nt_do n ?req s = (resp, s1)" by (meson surj_pair)
  have "nt_now n s \<le> nt_now n (snd (nt_do n ?req s))" using assms unfolding clock_runs_def by blast
  then have le: "nt_now n s \<le> nt_now n s1" by (simp only: r snd_conv)
  then show ?thesis
    using order_trans [OF le clock_databaseExists [OF assms, of s1 token forkOrg forkDB]]
    by (auto simp: poll_once_def r simp del: Sprintf.simps split: sum.splits prod.splits)
qed

lemma poll_loop_ends:
  assumes clock: "clock_runs n" and "0 < backoff"
  shows "\<exists>r. poll_loop n token operationName forkOrg forkDB deadline backoff s = Some r"
  using assms(2)
proof (induction "nat (deadline - nt_now n s)" arbitrary: s backoff rule: less_induct)
  case less
  show ?case
  proof (cases "deadline \<le> nt_now n s \<or> nt_done n (nt_sleep n backoff s) \<noteq> None
      \<or> nt_url_error n (fork_poll_url operationName) \<noteq> None \<or> fst (poll_once n token operationName forkOrg forkDB (nt_sleep n backoff s))")
    case True
    then show ?thesis
      by (subst poll_loop.simps) (auto simp: Let_def split: prod.splits option.splits bool.splits)
  next
    case False
    let ?s1 = "nt_sleep n backoff s"
    obtain s2 where s2: "poll_once n token operationName forkOrg forkDB ?s1 = (False, s2)"
      using False by (cases "poll_once n token operationName forkOrg forkDB ?s1") auto
    have "nt_now n s + int backoff * 1000000 \<le> nt_now n ?s1" using clock by (simp add: clock_runs_def)
    moreover have "nt_now n ?s1 \<le> nt_now n s2"
      using clock_poll_once [OF clock, of ?s1 token operationName forkOrg forkDB] by (simp add: s2)
    ultimately have "nat (deadline - nt_now n s2) < nat (deadline - nt_now n s)" using False less.prems by simp
    from less.hyps [OF this, of "next_backoff backoff"] less.prems False show ?thesis
      by (subst poll_loop.simps) (auto simp: Let_def s2 next_backoff_def)
  qed
qed

text \<open>
  C14: Forking a database always ends, with a fork, an error or the demand to fork by hand, whatever the
  servers answer to the polls: waiting moves the clock on, and the polling stops at its deadline.
\<close>

theorem Fork_ends:
  assumes "clock_runs n"
  shows "\<exists>result s'. Fork n token fromOrg fromDB toOrg s = Some (result, s')"
proof -
  have "\<exists>result s'. pollForkOperation n token operationName toOrg fromDB s1 = Some (result, s')" for operationName s1
    using poll_loop_ends [OF assms, of forkPollInitialBackoff token operationName toOrg fromDB _ s1]
    by (simp add: pollForkOperation_def forkPollInitialBackoff_def)
  then show ?thesis
    by (auto simp: Fork_def forkREST_def Let_def split: prod.splits sum.splits option.splits bool.splits)
qed

text \<open>A server that takes the fork and never answers again.\<close>

definition silent_net :: "int net" where
  "silent_net =
     \<lparr>nt_url = (\<lambda>url. Inr ([], [])), nt_random = (\<lambda>k s. (Inr [], s)),
      nt_do = (\<lambda>req now. (if ho_method req = ''POST'' then Inr (200, Inr ''{\"operation_name\":\"op\"}'')
                            else Inl DeadlineExceeded, now)),
      nt_sleep = (\<lambda>ms now. now + int ms * 1000000), nt_now = (\<lambda>now. now), nt_done = (\<lambda>now. None), nt_lower = id,
      nt_json_error = (\<lambda>body. []), nt_env = (\<lambda>name. [])\<rparr>"

theorem Fork_ends_witness:
  "\<exists>result s'. Fork silent_net ''token'' ''org'' ''db'' ''me'' 0 = Some (result, s')"
  by (rule Fork_ends) (simp add: clock_runs_def silent_net_def)

end
