(* ===== verification/AuthCalls.thy ===== *)
theory AuthCalls
  imports ApiJson AuthServer JsonBack
begin

text \<open>
  \<^verbatim>\<open>internal/dolthubauth/client.go\<close>: the calls of the hosted service to the auth service, and the
  transport that sends DoltHub requests through it.  Signing is in \<^verbatim>\<open>ServiceAuth\<close>.
\<close>

section \<open>Texts\<close>

definition WastelandConfig_json :: "WastelandConfig \<Rightarrow> json" where
  "WastelandConfig_json w =
     JObj [(''upstream'', JStr (wl_Upstream w)), (''fork_org'', JStr (wl_ForkOrg w)), (''fork_db'', JStr (wl_ForkDB w)),
           (''mode'', JStr (wl_Mode w)), (''signing'', JBool (wl_Signing w))]"

text \<open>A nil slice is printed as \<^verbatim>\<open>null\<close>.\<close>

definition UserMetadata_json :: "UserMetadata \<Rightarrow> json" where
  "UserMetadata_json m =
     JObj [(''rig_handle'', JStr (um_RigHandle m)),
           (''wastelands'', if um_Wastelands m = [] then JNull else JArr (map WastelandConfig_json (um_Wastelands m)))]"

definition create_text :: "CreateConnectTokenRequest \<Rightarrow> string" where
  "create_text r =
     json_text (JObj ([(''subject_id'', JStr (cc_SubjectID r)), (''metadata'', UserMetadata_json (cc_Metadata r))] @
                      opt_int ''ttl_seconds'' (cc_TTLSeconds r)))"

definition rig_handle_text :: "RigHandlePatchRequest \<Rightarrow> string" where
  "rig_handle_text r =
     json_text (JObj [(''record_version'', JInt (rp_RecordVersion r)), (''rig_handle'', JStr (rp_RigHandle r))])"

definition upsert_text :: "WastelandUpsertRequest \<Rightarrow> string" where
  "upsert_text r =
     json_text (JObj [(''record_version'', JInt (wu_RecordVersion r)),
                      (''wasteland'', WastelandConfig_json (wu_Wasteland r))])"

definition version_text :: "int \<Rightarrow> string" where
  "version_text v = json_text (JObj [(''record_version'', JInt v)])"

definition settings_text :: "WastelandSettingsPatchRequest \<Rightarrow> string" where
  "settings_text r =
     json_text (JObj [(''record_version'', JInt (ws_RecordVersion r)), (''mode'', JStr (ws_Mode r)),
                      (''signing'', JBool (ws_Signing r))])"

section \<open>Answers\<close>

text \<open>A \<^verbatim>\<open>time.Time\<close> and a pointer to one; \<^verbatim>\<open>null\<close> leaves the time and clears the pointer.\<close>

definition time_member :: "auth_crypto \<Rightarrow> string \<Rightarrow> (string \<times> json) \<Rightarrow> int \<times> bool \<Rightarrow> int \<times> bool" where
  "time_member k name m acc =
     (if fold_eq (fst m) name
      then (case snd m of
              JNull \<Rightarrow> acc
            | JStr t \<Rightarrow> (case ac_parse_time k t of Some at \<Rightarrow> (at, snd acc) | None \<Rightarrow> (fst acc, False))
            | _ \<Rightarrow> (fst acc, False))
      else acc)"

definition time_field :: "auth_crypto \<Rightarrow> string \<Rightarrow> (string \<times> json) list \<Rightarrow> int \<times> bool" where
  "time_field k name ms = fold (time_member k name) ms (0, True)"

definition timep_member :: "auth_crypto \<Rightarrow> string \<Rightarrow> (string \<times> json) \<Rightarrow> int option \<times> bool \<Rightarrow> int option \<times> bool" where
  "timep_member k name m acc =
     (if fold_eq (fst m) name
      then (case snd m of
              JNull \<Rightarrow> (None, snd acc)
            | JStr t \<Rightarrow> (case ac_parse_time k t of Some at \<Rightarrow> (Some at, snd acc) | None \<Rightarrow> (fst acc, False))
            | _ \<Rightarrow> (fst acc, False))
      else acc)"

definition timep_field :: "auth_crypto \<Rightarrow> string \<Rightarrow> (string \<times> json) list \<Rightarrow> int option \<times> bool" where
  "timep_field k name ms = fold (timep_member k name) ms (None, True)"

definition decode_connection :: "auth_crypto \<Rightarrow> (string \<times> json) list \<Rightarrow> ConnectionResponse option" where
  "decode_connection k ms =
     (let (i, ok1) = str_field ''connection_id'' ms; (sub, ok2) = str_field ''subject_id'' ms;
          (rig, ok3) = str_field ''rig_handle'' ms; (ws, ok4) = fold wastelands_member ms ([], True);
          (st, ok5) = str_field ''status'' ms; (lv, ok6) = timep_field k ''last_validated_at'' ms;
          (ec, ok7) = str_field ''last_validation_error_code'' ms; (ca, ok8) = time_field k ''created_at'' ms;
          (ua, ok9) = time_field k ''updated_at'' ms; (v, ok10) = num_field ''record_version'' ms
      in if ok1 \<and> ok2 \<and> ok3 \<and> ok4 \<and> ok5 \<and> ok6 \<and> ok7 \<and> ok8 \<and> ok9 \<and> ok10
         then Some \<lparr>cs_ConnectionID = i, cs_SubjectID = sub, cs_RigHandle = rig, cs_Wastelands = ws, cs_Status = st,
                    cs_LastValidatedAt = lv, cs_LastValidationErrorCode = ec, cs_CreatedAt = ca, cs_UpdatedAt = ua,
                    cs_RecordVersion = v\<rparr>
         else None)"

record CreateConnectTokenResponse =
  ct_ConnectToken :: string
  ct_RedeemSecret :: string
  ct_Metadata :: UserMetadata
  ct_ExpiresAt :: int

definition decode_token :: "auth_crypto \<Rightarrow> (string \<times> json) list \<Rightarrow> CreateConnectTokenResponse option" where
  "decode_token k ms =
     (let (tok, ok1) = str_field ''connect_token'' ms; (secret, ok2) = str_field ''redeem_secret'' ms;
          (mms, ok3) = obj_field ''metadata'' ms; (meta, ok4) = decode_metadata mms;
          (ex, ok5) = time_field k ''expires_at'' ms
      in if ok1 \<and> ok2 \<and> ok3 \<and> ok4 \<and> ok5
         then Some \<lparr>ct_ConnectToken = tok, ct_RedeemSecret = secret, ct_Metadata = meta, ct_ExpiresAt = ex\<rparr> else None)"

text \<open>An answer that is no success, or any other failure.\<close>

datatype request_error = RequestError int string string bool | Request_failed go_error

definition request_error_text :: "request_error \<Rightarrow> string" where
  "request_error_text e =
     (case e of
        RequestError status code message retryable \<Rightarrow>
          if message \<noteq> [] then message
          else if code \<noteq> [] then code
          else Sprintf ''auth service returned HTTP %d'' [FD status]
      | Request_failed err \<Rightarrow> Error err)"

definition answer_error :: "int \<Rightarrow> string \<Rightarrow> request_error" where
  "answer_error status body =
     (let ms = (case struct_members body of Some xs \<Rightarrow> xs | None \<Rightarrow> [])
      in RequestError status (fst (str_field ''error_code'' ms)) (fst (str_field ''user_message'' ms))
           (fst (bool_field ''retryable'' ms)))"

section \<open>Calls\<close>

text \<open>Sixteen random bytes in hexadecimal.\<close>

definition randomHex :: "'s net \<Rightarrow> nat \<Rightarrow> 's \<Rightarrow> (go_error + string) \<times> 's" where
  "randomHex n len s =
     (case nt_random n len s of
        (Inl err, s1) \<Rightarrow> (Inl err, s1)
      | (Inr bytes, s1) \<Rightarrow> (Inr (hex_text bytes), s1))"

definition NewClient :: "string \<Rightarrow> string \<Rightarrow> string \<Rightarrow> string \<Rightarrow> string \<Rightarrow> AuthClient" where
  "NewClient baseURL tenantID environment keyID secret =
     \<lparr>cl_baseURL = TrimRight baseURL ''/'', cl_tenantID = tenantID, cl_environment = environment, cl_keyID = keyID,
      cl_sharedSecret = secret\<rparr>"

text \<open>\<open>dec\<close> decodes the members of the answer; \<open>zero\<close> is what an empty answer leaves.\<close>

definition doServiceJSON ::
  "'s net \<Rightarrow> auth_crypto \<Rightarrow> AuthClient \<Rightarrow> string \<Rightarrow> string \<Rightarrow> string option \<Rightarrow> string \<Rightarrow> string \<Rightarrow> 'a
     \<Rightarrow> ((string \<times> json) list \<Rightarrow> 'a option) \<Rightarrow> 's \<Rightarrow> (request_error + 'a) \<times> 's" where
  "doServiceJSON n k c meth path body subjectID connectionID zero dec s =
     (let url = cl_baseURL c @ path; text = (case body of Some b \<Rightarrow> b | None \<Rightarrow> [])
      in case nt_url n url of
           Inl err \<Rightarrow> (Inl (Request_failed (Wrap ''create auth-service request: '' err)), s)
         | Inr (escaped, query) \<Rightarrow>
             (let h0 = (if body = None then [] else Set [] ''Content-Type'' ''application/json'')
              in case randomHex n 16 s of
                   (Inl err, s1) \<Rightarrow> (Inl (Request_failed err), s1)
                 | (Inr nonce, s1) \<Rightarrow>
                     (let hs = sign_headers k c False (nt_now n s1) nonce meth (serviceAuthRequestTarget escaped query) text
                                 subjectID connectionID h0
                      in case nt_do n \<lparr>ho_method = meth, ho_url = url, ho_headers = hs, ho_body = text\<rparr> s1 of
                           (Inl err, s2) \<Rightarrow> (Inl (Request_failed (Wrap ''auth-service request failed: '' err)), s2)
                         | (Inr (code, Inl err), s2) \<Rightarrow> (Inl (Request_failed (Wrap ''read auth-service response: '' err)), s2)
                         | (Inr (code, Inr resp), s2) \<Rightarrow>
                             (if code < 200 \<or> 300 \<le> code then Inl (answer_error code resp)
                              else if resp = [] then Inr zero
                              else (case Option.bind (struct_members resp) dec of
                                      None \<Rightarrow> Inl (Request_failed (Err (''decode auth-service response: '' @ nt_json_error n resp)))
                                    | Some x \<Rightarrow> Inr x), s2))))"

definition zero_connection :: ConnectionResponse where
  "zero_connection =
     \<lparr>cs_ConnectionID = [], cs_SubjectID = [], cs_RigHandle = [], cs_Wastelands = [], cs_Status = [],
      cs_LastValidatedAt = None, cs_LastValidationErrorCode = [], cs_CreatedAt = 0, cs_UpdatedAt = 0, cs_RecordVersion = 0\<rparr>"

definition auth_CreateConnectToken ::
  "'s net \<Rightarrow> auth_crypto \<Rightarrow> AuthClient \<Rightarrow> string \<Rightarrow> UserMetadata \<Rightarrow> int \<Rightarrow> 's
     \<Rightarrow> (request_error + CreateConnectTokenResponse) \<times> 's" where
  "auth_CreateConnectToken n k c subjectID meta ttl s =
     doServiceJSON n k c ''POST'' ''/v1/connect-tokens''
       (Some (create_text \<lparr>cc_SubjectID = subjectID, cc_Metadata = meta, cc_TTLSeconds = ttl div 1000000000\<rparr>)) subjectID []
       \<lparr>ct_ConnectToken = [], ct_RedeemSecret = [], ct_Metadata = \<lparr>um_RigHandle = [], um_Wastelands = []\<rparr>, ct_ExpiresAt = 0\<rparr>
       (decode_token k) s"

definition auth_GetConnection ::
  "'s net \<Rightarrow> auth_crypto \<Rightarrow> AuthClient \<Rightarrow> string \<Rightarrow> string \<Rightarrow> 's \<Rightarrow> (request_error + ConnectionResponse) \<times> 's" where
  "auth_GetConnection n k c subjectID connectionID s =
     doServiceJSON n k c ''GET'' (Sprintf ''/v1/connections/%s'' [FS connectionID]) None subjectID connectionID
       zero_connection (decode_connection k) s"

definition auth_PatchRigHandle ::
  "'s net \<Rightarrow> auth_crypto \<Rightarrow> AuthClient \<Rightarrow> string \<Rightarrow> string \<Rightarrow> string \<Rightarrow> int \<Rightarrow> 's
     \<Rightarrow> (request_error + ConnectionResponse) \<times> 's" where
  "auth_PatchRigHandle n k c subjectID connectionID rigHandle recordVersion s =
     doServiceJSON n k c ''PATCH'' (Sprintf ''/v1/connections/%s/rig-handle'' [FS connectionID])
       (Some (rig_handle_text \<lparr>rp_RecordVersion = recordVersion, rp_RigHandle = rigHandle\<rparr>)) subjectID connectionID
       zero_connection (decode_connection k) s"

definition auth_UpsertWasteland ::
  "'s net \<Rightarrow> auth_crypto \<Rightarrow> AuthClient \<Rightarrow> string \<Rightarrow> string \<Rightarrow> int \<Rightarrow> WastelandConfig \<Rightarrow> 's
     \<Rightarrow> (request_error + ConnectionResponse) \<times> 's" where
  "auth_UpsertWasteland n k c subjectID connectionID recordVersion wl s =
     doServiceJSON n k c ''PUT'' (Sprintf ''/v1/connections/%s/wastelands/%s'' [FS connectionID, FS (wl_Upstream wl)])
       (Some (upsert_text \<lparr>wu_RecordVersion = recordVersion, wu_Wasteland = wl\<rparr>)) subjectID connectionID
       zero_connection (decode_connection k) s"

definition auth_DeleteWasteland ::
  "'s net \<Rightarrow> auth_crypto \<Rightarrow> AuthClient \<Rightarrow> string \<Rightarrow> string \<Rightarrow> string \<Rightarrow> int \<Rightarrow> 's
     \<Rightarrow> (request_error + ConnectionResponse) \<times> 's" where
  "auth_DeleteWasteland n k c subjectID connectionID upstream recordVersion s =
     doServiceJSON n k c ''DELETE'' (Sprintf ''/v1/connections/%s/wastelands/%s'' [FS connectionID, FS upstream])
       (Some (version_text recordVersion)) subjectID connectionID zero_connection (decode_connection k) s"

definition auth_PatchWastelandSettings ::
  "'s net \<Rightarrow> auth_crypto \<Rightarrow> AuthClient \<Rightarrow> string \<Rightarrow> string \<Rightarrow> string \<Rightarrow> int \<Rightarrow> string \<Rightarrow> bool \<Rightarrow> 's
     \<Rightarrow> (request_error + ConnectionResponse) \<times> 's" where
  "auth_PatchWastelandSettings n k c subjectID connectionID upstream recordVersion mode signing s =
     doServiceJSON n k c ''PATCH'' (Sprintf ''/v1/connections/%s/wasteland-settings/%s'' [FS connectionID, FS upstream])
       (Some (settings_text \<lparr>ws_RecordVersion = recordVersion, ws_Mode = mode, ws_Signing = signing\<rparr>)) subjectID connectionID
       zero_connection (decode_connection k) s"

section \<open>The proxy transport\<close>

definition Del :: "headers \<Rightarrow> string \<Rightarrow> headers" where
  "Del hs name = filter (\<lambda>(n, vs). n \<noteq> CanonicalHeaderKey name) hs"

type_synonym 's transport = "http_out \<Rightarrow> 's \<Rightarrow> (go_error + (int \<times> (go_error + string))) \<times> 's"

text \<open>\<open>inner\<close> is the transport below; the request's body is at hand.\<close>

definition RoundTrip ::
  "'s net \<Rightarrow> auth_crypto \<Rightarrow> AuthClient \<Rightarrow> string \<Rightarrow> string \<Rightarrow> 's transport \<Rightarrow> 's transport" where
  "RoundTrip n k c subjectID connectionID inner req s =
     (case proxyTargetURL (cl_baseURL c) (ho_url req) of
        None \<Rightarrow> (Inl (Err (''unsupported proxy target: '' @ ho_url req)), s)
      | Some targetURL \<Rightarrow>
          (case nt_url n targetURL of
             Inl err \<Rightarrow> (Inl err, s)
           | Inr (escaped, query) \<Rightarrow>
               (let hs = Del (Del (copyProxyHeaders [] (ho_headers req)) ''Authorization'') ''Host''
                in case randomHex n 16 s of
                     (Inl err, s1) \<Rightarrow> (Inl (Wrap ''generate proxy nonce: '' err), s1)
                   | (Inr nonce, s1) \<Rightarrow>
                       inner \<lparr>ho_method = ho_method req, ho_url = targetURL,
                              ho_headers = sign_headers k c True (nt_now n s1) nonce (ho_method req)
                                (serviceAuthRequestTarget escaped query) (ho_body req) subjectID connectionID hs,
                              ho_body = ho_body req\<rparr> s1)))"

text \<open>\<open>client\<close> is how an HTTP client sends a request over a transport.\<close>

definition NewProxyHTTPClient ::
  "'s net \<Rightarrow> auth_crypto \<Rightarrow> AuthClient \<Rightarrow> ('s transport \<Rightarrow> 's transport) \<Rightarrow> 's transport \<Rightarrow> string \<Rightarrow> string \<Rightarrow> 's net" where
  "NewProxyHTTPClient n k c client inner subjectID connectionID =
     n\<lparr>nt_do := client (RoundTrip n k c subjectID connectionID inner)\<rparr>"

text \<open>
  What the hosted service asks for is what the auth service reads: the request texts of the client decode
  to the requests they were made of.
\<close>

section \<open>Texts and numbers\<close>

lemma valid_text_utf8: "utf8_ok s \<Longrightarrow> valid_text s = s"
proof (induction s rule: valid_text.induct)
  case (1 s)
  show ?case
  proof (cases s)
    case (Cons c r)
    have "if code_of c < 128 then utf8_ok r else rune_width s \<noteq> 0 \<and> utf8_ok (drop (rune_width s) s)"
      using "1.prems" by (subst (asm) utf8_ok.simps) (simp add: Cons split: if_splits)
    then show ?thesis
      using "1.IH"(1,3) [OF Cons] by (subst valid_text.simps) (simp add: Cons split: if_splits)
  qed (simp add: valid_text.simps)
qed

lemma digits_val_snoc: "digits_val (s @ [c]) = 10 * digits_val s + (int (code_of c) - 48)"
  by (simp add: digits_val_def)

lemma digit_ch_code: "d < 10 \<Longrightarrow> int (code_of (digit_ch d)) - 48 = int d"
proof -
  assume "d < 10"
  then have "d \<in> {0, 1, 2, 3, 4, 5, 6, 7, 8, 9}" by auto
  then show ?thesis by (auto simp: digit_ch_def code_of_def)
qed

lemma digits_val_nat: "digits_val (nat_digits m) = int m"
proof (induction m rule: nat_digits.induct)
  case (1 n)
  show ?case
  proof (cases "n < 10")
    case True
    then show ?thesis using digit_ch_code [OF True] by (simp add: nat_digits.simps [of n] digits_val_def)
  next
    case False
    then show ?thesis
      using 1 [OF False] digit_ch_code [of "n mod 10"]
      by (subst nat_digits.simps) (simp add: digits_val_snoc zdiv_int zmod_int)
  qed
qed

definition int64 :: "int \<Rightarrow> bool" where
  "int64 v \<longleftrightarrow> min_int64 \<le> v \<and> v \<le> max_int64"

lemma Atoi_Itoa: "int64 v \<Longrightarrow> Atoi (Itoa v) = (v, False)"
proof -
  assume v: "int64 v"
  have d: "nat_digits m \<noteq> []" "list_all is_digit (nat_digits m)" for m using nat_digits_head [of m] by auto
  then have "is_digit (hd (nat_digits m))" for m by (metis hd_in_set list_all_iff)
  moreover have "\<not> is_digit (CHR ''-'')" "\<not> is_digit (CHR ''+'')" by code_simp+
  ultimately have h: "hd (nat_digits m) \<noteq> CHR ''-'' \<and> hd (nat_digits m) \<noteq> CHR ''+''" for m by metis
  show ?thesis
    using v d h by (simp add: Atoi_def Itoa_def Let_def digits_val_nat int64_def)
qed

lemma json_int_JInt [simp]: "int64 v \<Longrightarrow> json_int (JInt v) = Some v"
  by (simp add: json_int_def JInt_def Atoi_Itoa)

section \<open>Requests\<close>

definition wasteland_utf8 :: "WastelandConfig \<Rightarrow> bool" where
  "wasteland_utf8 w \<longleftrightarrow> list_all utf8_ok [wl_Upstream w, wl_ForkOrg w, wl_ForkDB w, wl_Mode w]"

definition metadata_utf8 :: "UserMetadata \<Rightarrow> bool" where
  "metadata_utf8 m \<longleftrightarrow> utf8_ok (um_RigHandle m) \<and> list_all wasteland_utf8 (um_Wastelands m)"

lemma valid_text_names:
  "valid_text ''upstream'' = ''upstream''" "valid_text ''fork_org'' = ''fork_org''" "valid_text ''fork_db'' = ''fork_db''"
  "valid_text ''mode'' = ''mode''" "valid_text ''signing'' = ''signing''" "valid_text ''rig_handle'' = ''rig_handle''"
  "valid_text ''wastelands'' = ''wastelands''" "valid_text ''subject_id'' = ''subject_id''"
  "valid_text ''metadata'' = ''metadata''" "valid_text ''ttl_seconds'' = ''ttl_seconds''"
  "valid_text ''record_version'' = ''record_version''" "valid_text ''wasteland'' = ''wasteland''"
  by code_simp+

lemma valid_JInt [simp]: "valid_json (JInt v) = JInt v" "nums_ok (JInt v)"
  by (simp_all add: JInt_def num_text_Itoa)

lemma valid_WastelandConfig [simp]:
  "wasteland_utf8 w \<Longrightarrow> valid_json (WastelandConfig_json w) = WastelandConfig_json w" "nums_ok (WastelandConfig_json w)"
  by (simp_all add: WastelandConfig_json_def wasteland_utf8_def valid_text_names valid_text_utf8)

lemma valid_UserMetadata [simp]:
  "metadata_utf8 m \<Longrightarrow> valid_json (UserMetadata_json m) = UserMetadata_json m" "nums_ok (UserMetadata_json m)"
  by (auto simp: UserMetadata_json_def metadata_utf8_def valid_text_names valid_text_utf8 list_all_iff)

lemma obj_members: "nums_ok (JObj ms) \<Longrightarrow> valid_json (JObj ms) = JObj ms \<Longrightarrow> struct_members (json_text (JObj ms)) = Some ms"
  using parse_back [of "JObj ms" "[]"] by (simp add: struct_members_def)

lemma lower_letters:
  "lower_byte CHR ''a'' = CHR ''a''" "lower_byte CHR ''b'' = CHR ''b''" "lower_byte CHR ''c'' = CHR ''c''"
  "lower_byte CHR ''d'' = CHR ''d''" "lower_byte CHR ''e'' = CHR ''e''" "lower_byte CHR ''f'' = CHR ''f''"
  "lower_byte CHR ''g'' = CHR ''g''" "lower_byte CHR ''h'' = CHR ''h''" "lower_byte CHR ''i'' = CHR ''i''"
  "lower_byte CHR ''j'' = CHR ''j''" "lower_byte CHR ''k'' = CHR ''k''" "lower_byte CHR ''l'' = CHR ''l''"
  "lower_byte CHR ''m'' = CHR ''m''" "lower_byte CHR ''n'' = CHR ''n''" "lower_byte CHR ''o'' = CHR ''o''"
  "lower_byte CHR ''p'' = CHR ''p''" "lower_byte CHR ''r'' = CHR ''r''" "lower_byte CHR ''s'' = CHR ''s''"
  "lower_byte CHR ''t'' = CHR ''t''" "lower_byte CHR ''u'' = CHR ''u''" "lower_byte CHR ''v'' = CHR ''v''"
  "lower_byte CHR ''w'' = CHR ''w''" "lower_byte CHR ''_'' = CHR ''_''"
  by code_simp+

lemma int_members [simp]:
  "fold_eq n name \<Longrightarrow> int64 v \<Longrightarrow> int_member name (n, JInt v) acc = (v, snd acc)"
  "\<not> fold_eq n name \<Longrightarrow> int_member name (n, j) acc = acc"
  using json_int_JInt [of v] by (simp_all add: int_member_def JInt_def del: json_int_JInt)

lemmas fields = str_field_def str_member_def bool_field_def bool_member_def num_field_def obj_field_def
  obj_member_def fold_eq_def lower_letters

lemma decode_WastelandConfig:
  "WastelandConfig_json w = JObj ms \<Longrightarrow> decode_wasteland ms = (w, True)"
  by (cases w) (auto simp: WastelandConfig_json_def decode_wasteland_def fields)

lemma decode_UserMetadata:
  "UserMetadata_json m = JObj ms \<Longrightarrow> decode_metadata ms = (m, True)"
proof -
  assume m: "UserMetadata_json m = JObj ms"
  have w: "wasteland_elem (WastelandConfig_json w) = (w, True)" for w
    using decode_WastelandConfig [of w] by (simp add: wasteland_elem_def WastelandConfig_json_def)
  show ?thesis
    using m by (cases m) (auto simp: UserMetadata_json_def decode_metadata_def wastelands_member_def fields w comp_def list_all_iff)
qed

text \<open>
  The auth service reads every request of its client as the request it is: the bodies that the client
  sends to mint a token and to change a connection decode to what they were made of.
\<close>

theorem requests_read_back:
  assumes "metadata_utf8 (cc_Metadata r)" and "utf8_ok (cc_SubjectID r)" and "int64 (cc_TTLSeconds r)"
    and "int64 (wu_RecordVersion u)" and "wasteland_utf8 (wu_Wasteland u)"
    and "int64 (ws_RecordVersion t)" and "utf8_ok (ws_Mode t)"
    and "int64 (rp_RecordVersion h)" and "utf8_ok (rp_RigHandle h)" and "int64 v"
  shows "decode_create (create_text r) = Some r \<and> decode_upsert (upsert_text u) = Some u
     \<and> decode_settings (settings_text t) = Some t \<and> decode_rig_handle (rig_handle_text h) = Some h
     \<and> decode_version (version_text v) = Some v"
proof (intro conjI)
  obtain mms where m: "UserMetadata_json (cc_Metadata r) = JObj mms" by (simp add: UserMetadata_json_def)
  have "struct_members (create_text r) = Some ([(''subject_id'', JStr (cc_SubjectID r)),
      (''metadata'', UserMetadata_json (cc_Metadata r))] @ opt_int ''ttl_seconds'' (cc_TTLSeconds r))"
    unfolding create_text_def
    by (rule obj_members) (use assms in \<open>auto simp: opt_int_def valid_text_names valid_text_utf8\<close>)
  then show "decode_create (create_text r) = Some r"
    using assms(3) decode_UserMetadata [OF m]
    by (simp add: decode_create_def m opt_int_def fields)
  obtain wms where w: "WastelandConfig_json (wu_Wasteland u) = JObj wms" by (simp add: WastelandConfig_json_def)
  have "struct_members (upsert_text u) = Some [(''record_version'', JInt (wu_RecordVersion u)),
      (''wasteland'', WastelandConfig_json (wu_Wasteland u))]"
    unfolding upsert_text_def by (rule obj_members) (use assms in \<open>simp_all add: valid_text_names\<close>)
  then show "decode_upsert (upsert_text u) = Some u"
    using assms(4) decode_WastelandConfig [OF w] by (simp add: decode_upsert_def w fields)
  have "struct_members (settings_text t) = Some [(''record_version'', JInt (ws_RecordVersion t)), (''mode'', JStr (ws_Mode t)),
      (''signing'', JBool (ws_Signing t))]"
    unfolding settings_text_def by (rule obj_members) (use assms in \<open>simp_all add: valid_text_names valid_text_utf8\<close>)
  then show "decode_settings (settings_text t) = Some t"
    using assms(6) by (simp add: decode_settings_def fields)
  have "struct_members (rig_handle_text h) = Some [(''record_version'', JInt (rp_RecordVersion h)),
      (''rig_handle'', JStr (rp_RigHandle h))]"
    unfolding rig_handle_text_def by (rule obj_members) (use assms in \<open>simp_all add: valid_text_names valid_text_utf8\<close>)
  then show "decode_rig_handle (rig_handle_text h) = Some h"
    using assms(8) by (simp add: decode_rig_handle_def fields)
  have "struct_members (version_text v) = Some [(''record_version'', JInt v)]"
    unfolding version_text_def by (rule obj_members) (use assms in \<open>simp_all add: valid_text_names\<close>)
  then show "decode_version (version_text v) = Some v"
    using assms(10) by (simp add: decode_version_def fields)
qed

definition sample_wasteland :: WastelandConfig where
  "sample_wasteland = \<lparr>wl_Upstream = ''org/db'', wl_ForkOrg = ''me'', wl_ForkDB = ''db'', wl_Mode = ''pr'', wl_Signing = True\<rparr>"

definition sample_create :: CreateConnectTokenRequest where
  "sample_create = \<lparr>cc_SubjectID = ''s'', cc_Metadata = \<lparr>um_RigHandle = ''rig'', um_Wastelands = [sample_wasteland]\<rparr>,
     cc_TTLSeconds = 300\<rparr>"

lemma sample_texts:
  "metadata_utf8 (cc_Metadata sample_create)" "utf8_ok (cc_SubjectID sample_create)" "int64 (cc_TTLSeconds sample_create)"
  "wasteland_utf8 sample_wasteland" "int64 7" "utf8_ok ''pr''" "utf8_ok ''rig''"
  by code_simp+

theorem requests_read_back_witness:
  "decode_create (create_text sample_create) = Some sample_create
   \<and> decode_upsert (upsert_text \<lparr>wu_RecordVersion = 7, wu_Wasteland = sample_wasteland\<rparr>)
       = Some \<lparr>wu_RecordVersion = 7, wu_Wasteland = sample_wasteland\<rparr>"
  using requests_read_back [of sample_create "\<lparr>wu_RecordVersion = 7, wu_Wasteland = sample_wasteland\<rparr>"
      "\<lparr>ws_RecordVersion = 7, ws_Mode = ''pr'', ws_Signing = True\<rparr>" "\<lparr>rp_RecordVersion = 7, rp_RigHandle = ''rig''\<rparr>" 7]
    sample_texts
  by simp

end
