(* ===== verification/HostedSession.thy ===== *)
theory HostedSession
  imports AuthCalls "HOL-Library.AList"
begin

text \<open>
  \<^verbatim>\<open>internal/hosted/session.go\<close>, \<^verbatim>\<open>types.go\<close> and \<^verbatim>\<open>validate.go\<close>: browser sessions, their signed
  cookies, and the validation of what a browser sends.  Times are in nanoseconds, an HMAC is the argument
  \<open>k\<close> as in \<^verbatim>\<open>ServiceAuth\<close>.
\<close>

section \<open>Sessions\<close>

record UserSession =
  ss_ID :: string
  ss_SubjectID :: string
  ss_ConnectionID :: string
  ss_ActiveUpstream :: string
  ss_CreatedAt :: int

type_synonym SessionStore = "(string \<times> UserSession) list"

definition NewSessionStore :: SessionStore where
  "NewSessionStore = []"

text \<open>A day and a year.\<close>

definition sessionTTL :: int where
  "sessionTTL = 86400000000000"

definition subjectCookieTTL :: int where
  "subjectCookieTTL = 365 * 86400000000000"

definition session_expired :: "int \<Rightarrow> UserSession \<Rightarrow> bool" where
  "session_expired now sess \<longleftrightarrow> sessionTTL < now - ss_CreatedAt sess"

text \<open>One tick of the clean-up goroutine.\<close>

definition cleanup_sessions :: "int \<Rightarrow> SessionStore \<Rightarrow> SessionStore" where
  "cleanup_sessions now st = filter (\<lambda>(i, sess). \<not> session_expired now sess) st"

definition generateSessionID :: "'s net \<Rightarrow> 's \<Rightarrow> (go_error + string) \<times> 's" where
  "generateSessionID n s =
     (case nt_random n 32 s of
        (Inl err, s1) \<Rightarrow> (Inl (Wrap ''crypto/rand failed: '' err), s1)
      | (Inr bytes, s1) \<Rightarrow> (Inr (hex_text bytes), s1))"

definition CreateWithSubject ::
  "'s net \<Rightarrow> string \<Rightarrow> string \<Rightarrow> SessionStore \<Rightarrow> 's \<Rightarrow> (go_error + string) \<times> SessionStore \<times> 's" where
  "CreateWithSubject n connectionID subjectID st s =
     (case generateSessionID n s of
        (Inl err, s1) \<Rightarrow> (Inl err, st, s1)
      | (Inr i, s1) \<Rightarrow>
          (Inr i, AList.update i \<lparr>ss_ID = i, ss_SubjectID = subjectID, ss_ConnectionID = connectionID,
                                  ss_ActiveUpstream = [], ss_CreatedAt = nt_now n s1\<rparr> st, s1))"

definition session_Create :: "'s net \<Rightarrow> string \<Rightarrow> SessionStore \<Rightarrow> 's \<Rightarrow> (go_error + string) \<times> SessionStore \<times> 's" where
  "session_Create n connectionID st s = CreateWithSubject n connectionID [] st s"

text \<open>An expired session is removed when it is looked up.\<close>

definition session_Get :: "int \<Rightarrow> string \<Rightarrow> SessionStore \<Rightarrow> UserSession option \<times> SessionStore" where
  "session_Get now i st =
     (case map_of st i of
        None \<Rightarrow> (None, st)
      | Some sess \<Rightarrow> if session_expired now sess then (None, AList.delete i st) else (Some sess, st))"

definition session_Delete :: "string \<Rightarrow> SessionStore \<Rightarrow> SessionStore" where
  "session_Delete i st = AList.delete i st"

definition RememberActiveUpstream :: "string \<Rightarrow> string \<Rightarrow> SessionStore \<Rightarrow> SessionStore" where
  "RememberActiveUpstream i upstream st =
     (case map_of st i of
        Some sess \<Rightarrow> AList.update i (sess\<lparr>ss_ActiveUpstream := upstream\<rparr>) st
      | None \<Rightarrow> st)"

definition ActiveUpstream :: "string \<Rightarrow> SessionStore \<Rightarrow> string" where
  "ActiveUpstream i st = (case map_of st i of Some sess \<Rightarrow> ss_ActiveUpstream sess | None \<Rightarrow> [])"

definition RestoreWithSubject :: "int \<Rightarrow> string \<Rightarrow> string \<Rightarrow> string \<Rightarrow> SessionStore \<Rightarrow> SessionStore" where
  "RestoreWithSubject now sessionID connectionID subjectID st =
     AList.update sessionID \<lparr>ss_ID = sessionID, ss_SubjectID = subjectID, ss_ConnectionID = connectionID,
                             ss_ActiveUpstream = [], ss_CreatedAt = now - sessionTTL div 2\<rparr> st"

definition session_Restore :: "int \<Rightarrow> string \<Rightarrow> string \<Rightarrow> SessionStore \<Rightarrow> SessionStore" where
  "session_Restore now sessionID connectionID st = RestoreWithSubject now sessionID connectionID [] st"

section \<open>Signed values\<close>

text \<open>The text before the last dot and the one after it.\<close>

definition cut_last :: "string \<Rightarrow> (string \<times> string) option" where
  "cut_last s = (case Cut (rev s) (CHR ''.'') of (a, b, ok) \<Rightarrow> if ok then Some (rev b, rev a) else None)"

definition cookie_mac :: "auth_crypto \<Rightarrow> string \<Rightarrow> string \<Rightarrow> string" where
  "cookie_mac k secret payload = hex_text (ac_hmac k secret payload)"

definition SignSessionID :: "auth_crypto \<Rightarrow> string \<Rightarrow> string \<Rightarrow> string" where
  "SignSessionID k i secret = i @ ''.'' @ cookie_mac k secret i"

definition VerifySessionID :: "auth_crypto \<Rightarrow> string \<Rightarrow> string \<Rightarrow> string option" where
  "VerifySessionID k signed secret =
     (case cut_last signed of
        None \<Rightarrow> None
      | Some (i, sig) \<Rightarrow> if i = [] \<or> sig = [] \<or> sig \<noteq> cookie_mac k secret i then None else Some i)"

definition SignSessionCookie :: "auth_crypto \<Rightarrow> string \<Rightarrow> string \<Rightarrow> string \<Rightarrow> string" where
  "SignSessionCookie k sessionID connectionID secret =
     (let payload = sessionID @ ''.'' @ connectionID in payload @ ''.'' @ cookie_mac k secret payload)"

definition VerifySessionCookie :: "auth_crypto \<Rightarrow> string \<Rightarrow> string \<Rightarrow> (string \<times> string) option" where
  "VerifySessionCookie k signed secret =
     (case cut_last signed of
        None \<Rightarrow> None
      | Some (payload, sig) \<Rightarrow>
          if payload = [] \<or> sig = [] \<or> sig \<noteq> cookie_mac k secret payload then None
          else (let (sessionID, connectionID, ok) = Cut payload (CHR ''.'')
                in if \<not> ok \<or> sessionID = [] \<or> connectionID = [] then None else Some (sessionID, connectionID)))"

definition SignSubjectID :: "auth_crypto \<Rightarrow> string \<Rightarrow> string \<Rightarrow> string" where
  "SignSubjectID k subjectID secret = SignSessionID k subjectID secret"

definition VerifySubjectID :: "auth_crypto \<Rightarrow> string \<Rightarrow> string \<Rightarrow> string option" where
  "VerifySubjectID k signed secret = VerifySessionID k signed secret"

section \<open>Cookies\<close>

definition cookieName :: string where
  "cookieName = ''wl_session''"

definition subjectCookieName :: string where
  "subjectCookieName = ''wl_subject''"

text \<open>
  A cookie that is set: for the path \<^verbatim>\<open>/\<close>, HTTP only, secure and same-site always; \<open>ck_MaxAge\<close> is
  \<open>0\<close> for a browser session and negative to remove the cookie.
\<close>

record set_cookie =
  ck_Name :: string
  ck_Value :: string
  ck_MaxAge :: int
  ck_Expires :: "int option"

definition SetSessionCookie :: "auth_crypto \<Rightarrow> string \<Rightarrow> string \<Rightarrow> string \<Rightarrow> set_cookie" where
  "SetSessionCookie k sessionID connectionID secret =
     \<lparr>ck_Name = cookieName, ck_Value = SignSessionCookie k sessionID connectionID secret, ck_MaxAge = 0, ck_Expires = None\<rparr>"

definition ClearSessionCookie :: set_cookie where
  "ClearSessionCookie = \<lparr>ck_Name = cookieName, ck_Value = [], ck_MaxAge = -1, ck_Expires = None\<rparr>"

definition SetSubjectCookie :: "auth_crypto \<Rightarrow> int \<Rightarrow> string \<Rightarrow> string \<Rightarrow> set_cookie" where
  "SetSubjectCookie k now subjectID secret =
     \<lparr>ck_Name = subjectCookieName, ck_Value = SignSubjectID k subjectID secret,
      ck_MaxAge = subjectCookieTTL div 1000000000, ck_Expires = Some (now + subjectCookieTTL)\<rparr>"

text \<open>\<open>cookies\<close> is \<^verbatim>\<open>r.Cookie\<close>.  A value of the old format has no connection.\<close>

definition ReadSessionCookie :: "auth_crypto \<Rightarrow> (string \<Rightarrow> string option) \<Rightarrow> string \<Rightarrow> (string \<times> string) option" where
  "ReadSessionCookie k cookies secret =
     (case cookies cookieName of
        None \<Rightarrow> None
      | Some value \<Rightarrow>
          (case VerifySessionCookie k value secret of
             Some parts \<Rightarrow> Some parts
           | None \<Rightarrow> map_option (\<lambda>sessionID. (sessionID, [])) (VerifySessionID k value secret)))"

definition ReadSubjectCookie :: "auth_crypto \<Rightarrow> (string \<Rightarrow> string option) \<Rightarrow> string \<Rightarrow> string option" where
  "ReadSubjectCookie k cookies secret =
     (case cookies subjectCookieName of None \<Rightarrow> None | Some value \<Rightarrow> VerifySubjectID k value secret)"

section \<open>Validation\<close>

definition hosted_validateSlug :: "string \<Rightarrow> string \<Rightarrow> go_error option" where
  "hosted_validateSlug field value =
     (if \<not> is_slug value
      then Some (Err (Sprintf ''%s must be 1-64 alphanumeric characters, hyphens, or underscores'' [FS field]))
      else None)"

definition hosted_validateUpstream :: "string \<Rightarrow> go_error option" where
  "hosted_validateUpstream value =
     (let (org, db, ok) = Cut value (CHR ''/'')
      in if \<not> ok \<or> org = [] \<or> db = [] then Some (Err ''upstream must be in org/db format'')
         else (case hosted_validateSlug ''upstream org'' org of
                 Some err \<Rightarrow> Some err
               | None \<Rightarrow> hosted_validateSlug ''upstream db'' db))"

definition validateJoinFields :: "string \<Rightarrow> string \<Rightarrow> string \<Rightarrow> go_error option" where
  "validateJoinFields forkOrg forkDB upstream =
     (case hosted_validateSlug ''fork_org'' forkOrg of
        Some err \<Rightarrow> Some err
      | None \<Rightarrow>
          (case hosted_validateSlug ''fork_db'' forkDB of
             Some err \<Rightarrow> Some err
           | None \<Rightarrow> hosted_validateUpstream upstream))"

definition validateConnectFields :: "string \<Rightarrow> string \<Rightarrow> string \<Rightarrow> string \<Rightarrow> go_error option" where
  "validateConnectFields rigHandle forkOrg forkDB upstream =
     (case hosted_validateSlug ''rig_handle'' rigHandle of
        Some err \<Rightarrow> Some err
      | None \<Rightarrow>
          (case hosted_validateSlug ''fork_org'' forkOrg of
             Some err \<Rightarrow> Some err
           | None \<Rightarrow>
               (case hosted_validateSlug ''fork_db'' forkDB of
                  Some err \<Rightarrow> Some err
                | None \<Rightarrow> hosted_validateUpstream upstream)))"

section \<open>Facts about cookies\<close>

lemma Cut_append: "c \<notin> set a \<Longrightarrow> Cut (a @ c # b) c = (a, b, True)"
  by (induction a) (auto simp: Cut_def)

lemma Cut_True: "Cut s c = (a, b, True) \<Longrightarrow> s = a @ c # b"
proof (induction s arbitrary: a)
  case (Cons d s)
  then show ?case by (cases "d = c") (auto simp: Cut_def split: if_splits)
qed (simp add: Cut_def)

lemma cut_last_append: "CHR ''.'' \<notin> set sig \<Longrightarrow> cut_last (payload @ CHR ''.'' # sig) = Some (payload, sig)"
  by (simp add: cut_last_def Cut_append)

lemma cut_last_Some: "cut_last s = Some (payload, sig) \<Longrightarrow> s = payload @ CHR ''.'' # sig"
proof -
  assume "cut_last s = Some (payload, sig)"
  then have "Cut (rev s) (CHR ''.'') = (rev sig, rev payload, True)"
    by (auto simp: cut_last_def split: prod.splits if_splits)
  then have "rev (rev s) = rev (rev sig @ CHR ''.'' # rev payload)" using Cut_True by fastforce
  then show ?thesis by simp
qed

lemma hex_no_dot: "CHR ''.'' \<notin> set (hex_text s)"
proof -
  have "list_all (\<lambda>d. CHR ''.'' \<noteq> hex_ch d) [0..<16]" by code_simp
  then have d: "CHR ''.'' \<noteq> hex_ch d" if "d < 16" for d using that by (auto simp: list_all_iff)
  have "CHR ''.'' \<noteq> hex_ch (code_of c div 16) \<and> CHR ''.'' \<noteq> hex_ch (code_of c mod 16)" for c
  proof -
    have "code_of c < 256" by (simp add: code_of_def)
    then show ?thesis using d by simp
  qed
  then show ?thesis by (simp add: hex_text_def)
qed

lemma cookie_mac_no_dot: "CHR ''.'' \<notin> set (cookie_mac k secret payload)"
  by (simp add: cookie_mac_def hex_no_dot)

text \<open>
  C24: A session cookie is accepted exactly when it is the one the service signed: a value is read as a
  session and a connection if and only if it is the signed text of these two.
\<close>

theorem session_cookie_exact:
  assumes "ac_hmac k secret (sessionID @ ''.'' @ connectionID) \<noteq> []" and "sessionID \<noteq> []" and "connectionID \<noteq> []"
    and "CHR ''.'' \<notin> set sessionID"
  shows "VerifySessionCookie k value secret = Some (sessionID, connectionID)
     \<longleftrightarrow> value = SignSessionCookie k sessionID connectionID secret"
proof
  assume v: "VerifySessionCookie k value secret = Some (sessionID, connectionID)"
  then obtain payload sig where c: "cut_last value = Some (payload, sig)" "sig = cookie_mac k secret payload"
    "Cut payload (CHR ''.'') = (sessionID, connectionID, True)"
    by (auto simp: VerifySessionCookie_def split: option.splits if_splits prod.splits)
  have "payload = sessionID @ CHR ''.'' # connectionID" by (rule Cut_True [OF c(3)])
  then show "value = SignSessionCookie k sessionID connectionID secret"
    using cut_last_Some [OF c(1)] c(2) by (simp add: SignSessionCookie_def)
next
  let ?payload = "sessionID @ CHR ''.'' # connectionID"
  assume "value = SignSessionCookie k sessionID connectionID secret"
  then have "cut_last value = Some (?payload, cookie_mac k secret ?payload)"
    using cut_last_append [OF cookie_mac_no_dot, of ?payload k secret ?payload] by (simp add: SignSessionCookie_def)
  moreover have "Cut ?payload (CHR ''.'') = (sessionID, connectionID, True)"
    by (rule Cut_append [OF assms(4)])
  moreover have "cookie_mac k secret ?payload \<noteq> []"
    using assms(1) by (cases "ac_hmac k secret ?payload") (simp_all add: cookie_mac_def hex_text_def)
  ultimately show "VerifySessionCookie k value secret = Some (sessionID, connectionID)"
    using assms(2,3) by (simp add: VerifySessionCookie_def)
qed

definition one_mac :: auth_crypto where
  "one_mac = \<lparr>ac_sha = id, ac_hmac = (\<lambda>secret text. secret), ac_parse_time = (\<lambda>t. None), ac_format_time = (\<lambda>t. [])\<rparr>"

theorem session_cookie_exact_witness:
  "VerifySessionCookie one_mac (SignSessionCookie one_mac ''s'' ''c'' ''key'') ''key'' = Some (''s'', ''c'')"
proof -
  have a: "ac_hmac one_mac ''key'' (''s'' @ ''.'' @ ''c'') \<noteq> []" by (simp add: one_mac_def)
  have b: "''s'' \<noteq> []" "''c'' \<noteq> []" "CHR ''.'' \<notin> set ''s''" by simp_all
  show ?thesis using session_cookie_exact [OF a b] by simp
qed

end
