(* ===== verification/PendingCache.thy ===== *)
theory PendingCache
  imports Pending SdkTypes
begin

text \<open>
  The pending submissions of an upstream as the hosted service caches them
  (\<^verbatim>\<open>pendingUpstreamCache\<close> of \<^verbatim>\<open>internal/hosted/shared_cache.go\<close>): one refresh at a time, which
  requests that find the items stale wait for.  A refresh is given by its address; to list the
  submissions, to store them and to clear the refresh in flight is one step.
\<close>

section \<open>State\<close>

text \<open>A refresh: its goroutine runs, has a result that is not announced yet, or has closed \<^verbatim>\<open>done\<close>.\<close>

datatype pendingRefresh =
    Refreshing
  | Refreshed "go_error + pending_map"
  | Announced "go_error + pending_map"

record pendingUpstreamCache =
  pu_cached :: "pending_map option"
  pu_refreshedAt :: int
  pu_provider :: bool
  pu_interval :: int
  pu_inflight :: "nat option"
  pu_stopped :: bool
  pu_refreshes :: "pendingRefresh list"

text \<open>The nil map has no items.\<close>

definition cached_items :: "pendingUpstreamCache \<Rightarrow> pending_map" where
  "cached_items c = (case pu_cached c of Some m \<Rightarrow> m | None \<Rightarrow> [])"

definition pending_item :: "PendingWantedState \<Rightarrow> PendingItem" where
  "pending_item p =
     \<lparr>pi_RigHandle = pw_RigHandle p, pi_Status = pw_Status p, pi_ClaimedBy = pw_ClaimedBy p, pi_Branch = pw_Branch p,
      pi_BranchURL = pw_BranchURL p, pi_PRURL = pw_PRURL p, pi_ForkOwner = pw_ForkOwner p,
      pi_CompletedBy = pw_CompletedBy p, pi_Evidence = pw_Evidence p\<rparr>"

definition pending_items :: "pending_states \<Rightarrow> pending_map" where
  "pending_items states = map (\<lambda>(i, sts). (i, map pending_item sts)) states"

section \<open>Operations\<close>

definition add_refresh :: "pendingRefresh \<Rightarrow> pendingUpstreamCache \<Rightarrow> nat \<times> pendingUpstreamCache" where
  "add_refresh r c = (length (pu_refreshes c), c\<lparr>pu_refreshes := pu_refreshes c @ [r]\<rparr>)"

definition startRefresh :: "pendingUpstreamCache \<Rightarrow> nat \<times> pendingUpstreamCache" where
  "startRefresh c =
     (if \<not> pu_provider c then add_refresh (Announced (Inr (cached_items c))) c
      else (case pu_inflight c of
              Some r \<Rightarrow> (r, c)
            | None \<Rightarrow>
                if pu_stopped c then add_refresh (Announced (Inr (cached_items c))) c
                else (let (r, c1) = add_refresh Refreshing c in (r, c1\<lparr>pu_inflight := Some r\<rparr>))))"

definition scheduleRefresh :: "pendingUpstreamCache \<Rightarrow> pendingUpstreamCache" where
  "scheduleRefresh c = snd (startRefresh c)"

definition newPendingUpstreamCache :: "int \<Rightarrow> pendingUpstreamCache" where
  "newPendingUpstreamCache interval =
     scheduleRefresh \<lparr>pu_cached = None, pu_refreshedAt = 0, pu_provider = True, pu_interval = interval, pu_inflight = None,
                      pu_stopped = False, pu_refreshes = []\<rparr>"

definition pending_Stop :: "pendingUpstreamCache \<Rightarrow> pendingUpstreamCache" where
  "pending_Stop c = c\<lparr>pu_stopped := True\<rparr>"

text \<open>\<^verbatim>\<open>refreshNow\<close> and the end of \<^verbatim>\<open>runRefresh\<close>, for what the provider answers.\<close>

definition refreshNow :: "int \<Rightarrow> go_error + pending_states \<Rightarrow> pendingUpstreamCache \<Rightarrow> (go_error + pending_map) \<times> pendingUpstreamCache" where
  "refreshNow now answer c =
     (if \<not> pu_provider c then (Inr (cached_items c), c)
      else (case answer of
              Inl err \<Rightarrow> (Inl err, c)
            | Inr states \<Rightarrow> (Inr (pending_items states), c\<lparr>pu_cached := Some (pending_items states), pu_refreshedAt := now\<rparr>)))"

definition runRefresh :: "int \<Rightarrow> go_error + pending_states \<Rightarrow> nat \<Rightarrow> pendingUpstreamCache \<Rightarrow> pendingUpstreamCache" where
  "runRefresh now answer r c =
     (let (res, c1) = refreshNow now answer c;
          c2 = (if pu_inflight c1 = Some r then c1\<lparr>pu_inflight := None\<rparr> else c1)
      in c2\<lparr>pu_refreshes := (pu_refreshes c2)[r := Refreshed res]\<rparr>)"

definition pending_Get :: "int \<Rightarrow> pendingUpstreamCache \<Rightarrow> pending_map \<times> pendingUpstreamCache" where
  "pending_Get now c =
     (let stale = (pu_provider c \<and> pu_cached c \<noteq> None \<and> pu_interval c \<le> now - pu_refreshedAt c)
      in (cached_items c, if stale \<and> pu_inflight c = None then scheduleRefresh c else c))"

definition pending_stale :: "int \<Rightarrow> pendingUpstreamCache \<Rightarrow> bool" where
  "pending_stale now c \<longleftrightarrow> pu_provider c \<and> (pu_cached c = None \<or> pu_interval c \<le> now - pu_refreshedAt c)"

section \<open>Interleavings\<close>

text \<open>
  The cache, the time, and its readers: a reader of \<^verbatim>\<open>GetContext\<close> has returned, or waits for a refresh;
  both know when they came.  \<open>listing\<close> is what the provider answers at a time.
\<close>

datatype reader = Waits nat int | Returned "go_error + pending_map" int

type_synonym pending_system = "pendingUpstreamCache \<times> int \<times> reader list"

definition GetContext :: "int \<Rightarrow> pendingUpstreamCache \<Rightarrow> reader \<times> pendingUpstreamCache" where
  "GetContext now c =
     (if \<not> pending_stale now c then (Returned (Inr (cached_items c)) now, c)
      else (let (r, c1) = startRefresh c in (Waits r now, c1)))"

inductive pending_step :: "(int \<Rightarrow> go_error + pending_states) \<Rightarrow> pending_system \<Rightarrow> pending_system \<Rightarrow> bool"
  for listing :: "int \<Rightarrow> go_error + pending_states" where
  time_passes: "now \<le> later \<Longrightarrow> pending_step listing (c, now, rs) (c, later, rs)"
| reader_comes: "GetContext now c = (rd, c1) \<Longrightarrow> pending_step listing (c, now, rs) (c1, now, rs @ [rd])"
| old_reader: "pending_Get now c = (items, c1) \<Longrightarrow> pending_step listing (c, now, rs) (c1, now, rs)"
| refresh_runs:
    "r < length (pu_refreshes c) \<Longrightarrow> pu_refreshes c ! r = Refreshing \<Longrightarrow>
     pending_step listing (c, now, rs) (runRefresh now (listing now) r c, now, rs)"
| refresh_announced:
    "r < length (pu_refreshes c) \<Longrightarrow> pu_refreshes c ! r = Refreshed res \<Longrightarrow>
     pending_step listing (c, now, rs) (c\<lparr>pu_refreshes := (pu_refreshes c)[r := Announced res]\<rparr>, now, rs)"
| reader_returns:
    "i < length rs \<Longrightarrow> rs ! i = Waits r t \<Longrightarrow> r < length (pu_refreshes c) \<Longrightarrow> pu_refreshes c ! r = Announced res \<Longrightarrow>
     pending_step listing (c, now, rs) (c, now, rs[i := Returned res t])"
| reader_cancelled:
    "i < length rs \<Longrightarrow> rs ! i = Waits r t \<Longrightarrow>
     pending_step listing (c, now, rs) (c, now, rs[i := Returned (Inl err) t])"
| cache_stopped: "pending_step listing (c, now, rs) (pending_Stop c, now, rs)"

definition pending_run :: "(int \<Rightarrow> go_error + pending_states) \<Rightarrow> int \<Rightarrow> int \<Rightarrow> pending_system \<Rightarrow> bool" where
  "pending_run listing interval start st \<longleftrightarrow>
     (pending_step listing)\<^sup>*\<^sup>* (newPendingUpstreamCache interval, start, []) st"

section \<open>Invariant\<close>

text \<open>Items that the provider listed at a time within two bounds, the later one included.\<close>

definition listed :: "(int \<Rightarrow> go_error + pending_states) \<Rightarrow> int \<Rightarrow> int \<Rightarrow> pending_map \<Rightarrow> bool" where
  "listed listing earliest latest items \<longleftrightarrow>
     (\<exists>u states. listing u = Inr states \<and> items = pending_items states \<and> earliest < u \<and> u \<le> latest)"

text \<open>
  What every interleaving keeps while the cache is not stopped: the cached items were listed when they say;
  the refresh in flight is the running one, and a refresh that a reader waits for ends after the reader came.
\<close>

fun refresh_ok :: "(int \<Rightarrow> go_error + pending_states) \<Rightarrow> int \<Rightarrow> int \<Rightarrow> pendingRefresh \<Rightarrow> bool" where
  "refresh_ok listing earliest latest Refreshing = True"
| "refresh_ok listing earliest latest (Refreshed res) = (case res of Inl e \<Rightarrow> True | Inr m \<Rightarrow> listed listing earliest latest m)"
| "refresh_ok listing earliest latest (Announced res) = (case res of Inl e \<Rightarrow> True | Inr m \<Rightarrow> listed listing earliest latest m)"

fun reader_ok :: "(int \<Rightarrow> go_error + pending_states) \<Rightarrow> pendingUpstreamCache \<Rightarrow> int \<Rightarrow> reader \<Rightarrow> bool" where
  "reader_ok listing c now (Waits r t) =
     (r < length (pu_refreshes c) \<and> t \<le> now \<and> refresh_ok listing (t - pu_interval c) now (pu_refreshes c ! r))"
| "reader_ok listing c now (Returned res t) =
     (case res of Inl e \<Rightarrow> True | Inr m \<Rightarrow> listed listing (t - pu_interval c) now m)"

definition cache_ok :: "(int \<Rightarrow> go_error + pending_states) \<Rightarrow> int \<Rightarrow> pendingUpstreamCache \<Rightarrow> bool" where
  "cache_ok listing now c \<longleftrightarrow>
     pu_provider c \<and> 0 < pu_interval c
   \<and> (\<forall>m. pu_cached c = Some m \<longrightarrow> pu_refreshedAt c \<le> now
        \<and> (\<exists>states. listing (pu_refreshedAt c) = Inr states \<and> m = pending_items states))
   \<and> (\<forall>r. pu_inflight c = Some r \<longrightarrow> r < length (pu_refreshes c) \<and> pu_refreshes c ! r = Refreshing)"

definition pending_ok :: "(int \<Rightarrow> go_error + pending_states) \<Rightarrow> pending_system \<Rightarrow> bool" where
  "pending_ok listing st \<longleftrightarrow>
     (case st of (c, now, rs) \<Rightarrow>
        pu_stopped c \<or> cache_ok listing now c \<and> list_all (reader_ok listing c now) rs)"

lemma listed_later: "listed listing a b m \<Longrightarrow> b \<le> b' \<Longrightarrow> listed listing a b' m"
  by (force simp: listed_def)

lemma refresh_ok_later: "refresh_ok listing a b r \<Longrightarrow> b \<le> b' \<Longrightarrow> refresh_ok listing a b' r"
  by (cases r) (auto intro: listed_later split: sum.splits)

lemma reader_ok_later: "reader_ok listing c now rd \<Longrightarrow> now \<le> later \<Longrightarrow> reader_ok listing c later rd"
  by (cases rd) (auto intro: listed_later refresh_ok_later split: sum.splits)

text \<open>A reader looks at its own refresh only: more refreshes, or a change of a running one, do no harm.\<close>

lemma reader_ok_cong:
  assumes "reader_ok listing c now rd" and "pu_interval c' = pu_interval c"
    and "length (pu_refreshes c) \<le> length (pu_refreshes c')"
    and "\<And>r a. r < length (pu_refreshes c) \<Longrightarrow> a < now \<Longrightarrow> refresh_ok listing a now (pu_refreshes c ! r)
           \<Longrightarrow> refresh_ok listing a now (pu_refreshes c' ! r)"
    and "0 < pu_interval c"
  shows "reader_ok listing c' now rd"
  using assms by (cases rd) (auto split: sum.splits)

lemma startRefresh_ok:
  assumes "cache_ok listing now c" and "\<not> pu_stopped c" and "startRefresh c = (r, c1)"
  shows "cache_ok listing now c1" "\<not> pu_stopped c1" "pu_interval c1 = pu_interval c"
    "r < length (pu_refreshes c1)" "pu_refreshes c1 ! r = Refreshing"
    "length (pu_refreshes c) \<le> length (pu_refreshes c1)"
    "\<And>i. i < length (pu_refreshes c) \<Longrightarrow> pu_refreshes c1 ! i = pu_refreshes c ! i"
  using assms
  by (auto simp: startRefresh_def cache_ok_def add_refresh_def Let_def nth_append split: option.splits)

lemma readers_startRefresh:
  assumes "cache_ok listing now c" and "\<not> pu_stopped c" and "startRefresh c = (r, c1)"
    and "list_all (reader_ok listing c now) rs"
  shows "list_all (reader_ok listing c1 now) rs"
  unfolding list_all_iff
proof
  fix rd assume "rd \<in> set rs"
  then have "reader_ok listing c now rd" using assms(4) by (simp add: list_all_iff)
  then show "reader_ok listing c1 now rd"
    by (rule reader_ok_cong)
      (use startRefresh_ok [OF assms(1-3)] assms(1) in \<open>auto simp: cache_ok_def\<close>)
qed

lemma pending_ok_start: "0 < interval \<Longrightarrow> pending_ok listing (newPendingUpstreamCache interval, start, [])"
  by (auto simp: pending_ok_def newPendingUpstreamCache_def scheduleRefresh_def startRefresh_def add_refresh_def cache_ok_def)

lemma cache_ok_later: "cache_ok listing now c \<Longrightarrow> now \<le> later \<Longrightarrow> cache_ok listing later c"
  by (auto simp: cache_ok_def)

lemma fresh_items_listed:
  assumes "cache_ok listing now c" and "\<not> pending_stale now c"
  shows "listed listing (now - pu_interval c) now (cached_items c)"
proof -
  obtain m where "pu_cached c = Some m" "now - pu_refreshedAt c < pu_interval c"
    using assms by (auto simp: cache_ok_def pending_stale_def)
  then show ?thesis
    using assms(1) by (auto simp: cache_ok_def cached_items_def listed_def intro!: exI [of _ "pu_refreshedAt c"])
qed

lemma runRefresh_ok:
  assumes "cache_ok listing now c" and "r < length (pu_refreshes c)" and "pu_refreshes c ! r = Refreshing"
  shows "cache_ok listing now (runRefresh now (listing now) r c)"
    "pu_interval (runRefresh now (listing now) r c) = pu_interval c"
    "pu_stopped (runRefresh now (listing now) r c) = pu_stopped c"
    "length (pu_refreshes (runRefresh now (listing now) r c)) = length (pu_refreshes c)"
    "i \<noteq> r \<Longrightarrow> pu_refreshes (runRefresh now (listing now) r c) ! i = pu_refreshes c ! i"
    "a < now \<Longrightarrow> refresh_ok listing a now (pu_refreshes (runRefresh now (listing now) r c) ! r)"
  using assms
  by (auto simp: runRefresh_def refreshNow_def cache_ok_def Let_def listed_def nth_list_update split: sum.splits)

lemma announce_ok:
  assumes "cache_ok listing now c" and "r < length (pu_refreshes c)" and "pu_refreshes c ! r = Refreshed res"
  shows "cache_ok listing now (c\<lparr>pu_refreshes := (pu_refreshes c)[r := Announced res]\<rparr>)"
  using assms by (auto simp: cache_ok_def nth_list_update)

lemma readers_cong:
  assumes "list_all (reader_ok listing c now) rs" and "pu_interval c' = pu_interval c"
    and "length (pu_refreshes c) \<le> length (pu_refreshes c')" and "0 < pu_interval c"
    and "\<And>r a. r < length (pu_refreshes c) \<Longrightarrow> a < now \<Longrightarrow> refresh_ok listing a now (pu_refreshes c ! r)
           \<Longrightarrow> refresh_ok listing a now (pu_refreshes c' ! r)"
  shows "list_all (reader_ok listing c' now) rs"
  using assms(1) reader_ok_cong [OF _ assms(2,3,5,4)] by (simp add: list_all_iff)

lemma list_all_update: "list_all P xs \<Longrightarrow> P x \<Longrightarrow> list_all P (xs[i := x])"
  using set_update_subset_insert [of xs i x] by (auto simp: list_all_iff)

lemma pending_step_ok: "pending_step listing st st' \<Longrightarrow> pending_ok listing st \<Longrightarrow> pending_ok listing st'"
proof (induction rule: pending_step.induct)
  case (time_passes now later c rs)
  then show ?case
    by (auto simp: pending_ok_def list_all_iff intro: cache_ok_later reader_ok_later)
next
  case (reader_comes now c rd c1 rs)
  show ?case
  proof (cases "pending_stale now c")
    case False
    then show ?thesis
      using reader_comes fresh_items_listed [OF _ False] by (auto simp: pending_ok_def GetContext_def)
  next
    case True
    then obtain r where r: "startRefresh c = (r, c1)" "rd = Waits r now"
      using reader_comes by (auto simp: GetContext_def split: prod.splits)
    show ?thesis
    proof (cases "pu_stopped c")
      case True
      then have "pu_stopped c1" using r by (auto simp: startRefresh_def add_refresh_def Let_def split: option.splits if_splits)
      then show ?thesis by (simp add: pending_ok_def)
    next
      case False
      then have ok: "cache_ok listing now c" "list_all (reader_ok listing c now) rs"
        using reader_comes by (auto simp: pending_ok_def)
      show ?thesis
        using startRefresh_ok [OF ok(1) False r(1)] readers_startRefresh [OF ok(1) False r(1) ok(2)] r(2)
        by (simp add: pending_ok_def)
    qed
  qed
next
  case (old_reader now c items c1 rs)
  show ?case
  proof (cases "pu_stopped c \<or> c1 = c")
    case True
    then show ?thesis
      using old_reader
      by (auto simp: pending_ok_def pending_Get_def scheduleRefresh_def startRefresh_def add_refresh_def Let_def
          split: option.splits if_splits)
  next
    case False
    then obtain r where r: "startRefresh c = (r, c1)"
      using old_reader by (cases "startRefresh c") (auto simp: pending_Get_def scheduleRefresh_def Let_def split: if_splits)
    have ok: "cache_ok listing now c" "list_all (reader_ok listing c now) rs" "\<not> pu_stopped c"
      using old_reader False by (auto simp: pending_ok_def)
    show ?thesis
      using startRefresh_ok [OF ok(1,3) r] readers_startRefresh [OF ok(1,3) r ok(2)] by (simp add: pending_ok_def)
  qed
next
  case (refresh_runs r c now rs)
  let ?c = "runRefresh now (listing now) r c"
  show ?case
  proof (cases "pu_stopped c")
    case True
    then show ?thesis
      by (auto simp: pending_ok_def runRefresh_def refreshNow_def Let_def split: sum.splits)
  next
    case False
    then have ok: "cache_ok listing now c" "list_all (reader_ok listing c now) rs"
      using refresh_runs by (auto simp: pending_ok_def)
    note run = runRefresh_ok [OF ok(1) refresh_runs(1,2)]
    have "list_all (reader_ok listing ?c now) rs"
      by (rule readers_cong [OF ok(2) run(2)]) (use ok(1) run(4,5,6) in \<open>auto simp: cache_ok_def\<close>, metis)
    then show ?thesis using run(1) by (simp add: pending_ok_def)
  qed
next
  case (refresh_announced r c res now rs)
  let ?c = "c\<lparr>pu_refreshes := (pu_refreshes c)[r := Announced res]\<rparr>"
  have "list_all (reader_ok listing ?c now) rs" if "cache_ok listing now c" "list_all (reader_ok listing c now) rs"
    by (rule readers_cong [OF that(2)])
      (use that(1) refresh_announced(1,2) in \<open>auto simp: cache_ok_def nth_list_update\<close>)
  then show ?case
    using refresh_announced announce_ok by (auto simp: pending_ok_def)
next
  case (reader_returns i rs r t c res now)
  show ?case
  proof (cases "pu_stopped c")
    case False
    then have ok: "list_all (reader_ok listing c now) rs" using reader_returns by (auto simp: pending_ok_def)
    then have "reader_ok listing c now (rs ! i)" using reader_returns(1) by (auto simp: list_all_iff)
    then have "reader_ok listing c now (Returned res t)" using reader_returns(2,4) by simp
    then show ?thesis using reader_returns list_all_update [OF ok] by (auto simp: pending_ok_def)
  qed (simp add: pending_ok_def)
next
  case (reader_cancelled i rs r t c now err)
  then show ?case using list_all_update [of _ rs "Returned (Inl err) t" i] by (auto simp: pending_ok_def)
qed (simp add: pending_ok_def pending_Stop_def)

lemma pending_run_ok:
  assumes "pending_run listing interval start st" and "0 < interval"
  shows "pending_ok listing st"
proof -
  have "(pending_step listing)\<^sup>*\<^sup>* (newPendingUpstreamCache interval, start, []) st"
    using assms(1) by (simp add: pending_run_def)
  then show ?thesis
  proof (induction rule: rtranclp_induct)
    case base
    show ?case by (rule pending_ok_start [OF assms(2)])
  next
    case (step y z)
    then show ?case using pending_step_ok by blast
  qed
qed

lemma pending_interval_step: "pending_step listing st st' \<Longrightarrow> pu_interval (fst st') = pu_interval (fst st)"
  by (induction rule: pending_step.induct)
    (auto simp: GetContext_def pending_Get_def scheduleRefresh_def startRefresh_def add_refresh_def runRefresh_def
      refreshNow_def pending_Stop_def Let_def split: if_splits option.splits prod.splits sum.splits)

lemma pending_run_interval: "pending_run listing interval start st \<Longrightarrow> pu_interval (fst st) = interval"
proof -
  assume "pending_run listing interval start st"
  then have "(pending_step listing)\<^sup>*\<^sup>* (newPendingUpstreamCache interval, start, []) st" by (simp add: pending_run_def)
  then show ?thesis
    by (induction rule: rtranclp_induct)
      (auto simp: pending_interval_step newPendingUpstreamCache_def scheduleRefresh_def startRefresh_def add_refresh_def)
qed

text \<open>
  C23: However readers, refreshes and their failures interleave, the pending submissions that a request
  gets from a cache that is not stopped are what DoltHub listed after the request came, or at most the
  interval before.
\<close>

theorem pending_items_fresh:
  assumes "pending_run listing interval start (c, now, rs)" and "0 < interval" and "\<not> pu_stopped c"
    and "Returned (Inr items) t \<in> set rs"
  shows "\<exists>u states. listing u = Inr states \<and> items = pending_items states \<and> t - interval < u \<and> u \<le> now"
proof -
  have "list_all (reader_ok listing c now) rs"
    using pending_run_ok [OF assms(1,2)] assms(3) by (simp add: pending_ok_def)
  then have "reader_ok listing c now (Returned (Inr items) t)" using assms(4) by (auto simp: list_all_iff)
  then show ?thesis using pending_run_interval [OF assms(1)] by (simp add: listed_def)
qed

text \<open>The first reader waits for the refresh that the cache begins with.\<close>

theorem pending_items_fresh_witness:
  "\<exists>u states. (\<lambda>u. Inr []) u = Inr states \<and> [] = pending_items states \<and> (0::int) - 120 < u \<and> u \<le> 0"
proof -
  let ?listing = "\<lambda>u. Inr [] :: go_error + pending_states"
  let ?c = "newPendingUpstreamCache 120"
  let ?c1 = "runRefresh 0 (?listing 0) 0 ?c"
  let ?c2 = "?c1\<lparr>pu_refreshes := (pu_refreshes ?c1)[0 := Announced (Inr [])]\<rparr>"
  have "pending_step ?listing (?c, 0, []) (?c, 0, [] @ [Waits 0 0])"
    by (rule pending_step.reader_comes)
      (simp add: GetContext_def newPendingUpstreamCache_def scheduleRefresh_def startRefresh_def add_refresh_def pending_stale_def)
  moreover have "pending_step ?listing (?c, 0, [] @ [Waits 0 0]) (?c1, 0, [] @ [Waits 0 0])"
    by (rule pending_step.refresh_runs [where listing = ?listing])
      (simp_all add: newPendingUpstreamCache_def scheduleRefresh_def startRefresh_def add_refresh_def)
  moreover have "pending_step ?listing (?c1, 0, [] @ [Waits 0 0]) (?c2, 0, [] @ [Waits 0 0])"
    by (rule pending_step.refresh_announced)
      (simp_all add: newPendingUpstreamCache_def scheduleRefresh_def startRefresh_def add_refresh_def runRefresh_def
        refreshNow_def pending_items_def)
  moreover have "pending_step ?listing (?c2, 0, [] @ [Waits 0 0]) (?c2, 0, ([] @ [Waits 0 0])[0 := Returned (Inr []) 0])"
    by (rule pending_step.reader_returns [where r = 0])
      (simp_all add: newPendingUpstreamCache_def scheduleRefresh_def startRefresh_def add_refresh_def runRefresh_def
        refreshNow_def pending_items_def)
  ultimately have "pending_run ?listing 120 0 (?c2, 0, ([] @ [Waits 0 0])[0 := Returned (Inr []) 0])"
    unfolding pending_run_def by (meson rtranclp.rtrancl_into_rtrancl rtranclp.rtrancl_refl)
  from pending_items_fresh [OF this, of "[]" 0] show ?thesis
    by (simp add: newPendingUpstreamCache_def scheduleRefresh_def startRefresh_def add_refresh_def runRefresh_def
        refreshNow_def)
qed

text \<open>
  A cache that is stopped before anything was listed answers with no items and no error, though: so does
  the cache of a workspace whose connection was invalidated while a request uses it.
\<close>

lemma stopped_cache_answers_nothing:
  assumes "pu_provider c" and "pu_stopped c" and "pu_cached c = None" and "pu_inflight c = None"
  shows "\<exists>r c1. GetContext now c = (Waits r now, c1) \<and> pu_refreshes c1 ! r = Announced (Inr [])"
  using assms
  by (simp add: GetContext_def pending_stale_def startRefresh_def add_refresh_def cached_items_def)

end
