(* ===== verification/HostedResolver.thy ===== *)
theory HostedResolver
  imports HostedSession PendingCache SdkTypes ApiKeys
begin

text \<open>
  \<^verbatim>\<open>internal/hosted/authservice_resolver.go\<close>: the workspaces of the browser sessions, resolved through
  the auth service and cached for a minute.  A client and a pending cache are shared objects, given by
  their addresses; a client is what its callbacks close over.  Two resolutions of one connection do not
  overlap here, and the goroutine of \<^verbatim>\<open>WarmSession\<close> is a job that runs at a later time.
\<close>

section \<open>State\<close>

definition cacheTTL :: int where
  "cacheTTL = 60000000000"

record HostedClient =
  hc_subjectID :: string
  hc_connectionID :: string
  hc_rigHandle :: string
  hc_upstream :: string
  hc_upOrg :: string
  hc_upDB :: string
  hc_forkOrg :: string
  hc_forkDB :: string
  hc_mode :: string
  hc_signing :: bool
  hc_pendingCache :: nat

record cachedWorkspace =
  cw_workspace :: Workspace
  cw_expiresAt :: int

record hosted_state =
  hs_sessions :: SessionStore
  hs_clients :: "HostedClient list"
  hs_pendings :: "pendingUpstreamCache list"
  hs_cache :: "(string \<times> cachedWorkspace) list"
  hs_pendingCache :: "(string \<times> nat) list"
  hs_jobs :: "(UserSession \<times> ConnectionResponse) list"

definition NewAuthServiceWorkspaceResolver :: "SessionStore \<Rightarrow> hosted_state" where
  "NewAuthServiceWorkspaceResolver st =
     \<lparr>hs_sessions = st, hs_clients = [], hs_pendings = [], hs_cache = [], hs_pendingCache = [], hs_jobs = []\<rparr>"

section \<open>Caches\<close>

definition stop_pending :: "nat list \<Rightarrow> hosted_state \<Rightarrow> hosted_state" where
  "stop_pending addrs h =
     h\<lparr>hs_pendings := foldl (\<lambda>ps a. if a < length ps then ps[a := pending_Stop (ps ! a)] else ps) (hs_pendings h) addrs\<rparr>"

definition resolver_Stop :: "hosted_state \<Rightarrow> hosted_state" where
  "resolver_Stop h = stop_pending (map snd (hs_pendingCache h)) h"

definition ResetCaches :: "hosted_state \<Rightarrow> hosted_state" where
  "ResetCaches h = stop_pending (map snd (hs_pendingCache h)) (h\<lparr>hs_cache := [], hs_pendingCache := []\<rparr>)"

definition InvalidateConnection :: "string \<Rightarrow> hosted_state \<Rightarrow> hosted_state" where
  "InvalidateConnection connectionID h =
     (let own = (\<lambda>e :: string \<times> nat. HasPrefix (fst e) (connectionID @ '':''))
      in stop_pending (map snd (filter own (hs_pendingCache h)))
           (h\<lparr>hs_cache := AList.delete connectionID (hs_cache h),
              hs_pendingCache := filter (\<lambda>e. \<not> own e) (hs_pendingCache h)\<rparr>))"

definition cached_workspace :: "int \<Rightarrow> string \<Rightarrow> hosted_state \<Rightarrow> Workspace option \<times> hosted_state" where
  "cached_workspace now connectionID h =
     (case map_of (hs_cache h) connectionID of
        None \<Rightarrow> (None, h)
      | Some cached \<Rightarrow>
          if cw_expiresAt cached < now then (None, h\<lparr>hs_cache := AList.delete connectionID (hs_cache h)\<rparr>)
          else (Some (cw_workspace cached), h))"

definition cacheWorkspace :: "int \<Rightarrow> string \<Rightarrow> Workspace \<Rightarrow> hosted_state \<Rightarrow> hosted_state" where
  "cacheWorkspace now connectionID ws h =
     h\<lparr>hs_cache := AList.update connectionID \<lparr>cw_workspace = ws, cw_expiresAt = now + cacheTTL\<rparr> (hs_cache h)\<rparr>"

definition getOrCreatePendingCache :: "string \<Rightarrow> string \<Rightarrow> string \<Rightarrow> hosted_state \<Rightarrow> nat \<times> hosted_state" where
  "getOrCreatePendingCache connectionID upOrg upDB h =
     (let key = connectionID @ '':'' @ upOrg @ ''/'' @ upDB
      in case map_of (hs_pendingCache h) key of
           Some a \<Rightarrow> (a, h)
         | None \<Rightarrow>
             (length (hs_pendings h),
              h\<lparr>hs_pendings := hs_pendings h @ [newPendingUpstreamCache 120000000000],
                hs_pendingCache := AList.update key (length (hs_pendings h)) (hs_pendingCache h)\<rparr>))"

section \<open>Clients\<close>

definition ParseUpstream :: "string \<Rightarrow> go_error + (string \<times> string)" where
  "ParseUpstream upstream =
     (let (org, db, ok) = Cut upstream (CHR ''/'')
      in if \<not> ok \<or> org = [] \<or> db = []
         then Inl (Err (''invalid upstream path '' @ Quote upstream @ sq '': expected format `org/database`''))
         else Inr (org, db))"

definition buildClient ::
  "UserSession \<Rightarrow> ConnectionResponse \<Rightarrow> WastelandConfig \<Rightarrow> hosted_state \<Rightarrow> (go_error + nat) \<times> hosted_state" where
  "buildClient session conn wl h =
     (case ParseUpstream (wl_Upstream wl) of
        Inl err \<Rightarrow> (Inl (Wrap (''parsing upstream '' @ Quote (wl_Upstream wl) @ '': '') err), h)
      | Inr (upOrg, upDB) \<Rightarrow>
          (let (pending, h1) = getOrCreatePendingCache (ss_ConnectionID session) upOrg upDB h;
               client = \<lparr>hc_subjectID = ss_SubjectID session, hc_connectionID = ss_ConnectionID session,
                         hc_rigHandle = cs_RigHandle conn, hc_upstream = wl_Upstream wl, hc_upOrg = upOrg, hc_upDB = upDB,
                         hc_forkOrg = wl_ForkOrg wl, hc_forkDB = wl_ForkDB wl,
                         hc_mode = (if wl_Mode wl = [] then ''pr'' else wl_Mode wl), hc_signing = wl_Signing wl,
                         hc_pendingCache = pending\<rparr>
           in (Inr (length (hs_clients h1)), h1\<lparr>hs_clients := hs_clients h1 @ [client]\<rparr>)))"

fun add_clients ::
  "UserSession \<Rightarrow> ConnectionResponse \<Rightarrow> WastelandConfig list \<Rightarrow> Workspace \<Rightarrow> hosted_state
     \<Rightarrow> (go_error + Workspace) \<times> hosted_state" where
  "add_clients session conn [] ws h = (Inr ws, h)"
| "add_clients session conn (wl # wls) ws h =
     (case buildClient session conn wl h of
        (Inl err, h1) \<Rightarrow> (Inl (Wrap (Sprintf ''building client for %s: '' [FS (wl_Upstream wl)]) err), h1)
      | (Inr a, h1) \<Rightarrow>
          add_clients session conn wls
            (workspace_Add \<lparr>ui_Upstream = wl_Upstream wl, ui_ForkOrg = wl_ForkOrg wl, ui_ForkDB = wl_ForkDB wl,
                            ui_Mode = wl_Mode wl\<rparr> a ws) h1)"

definition resolveFromConnection ::
  "int \<Rightarrow> UserSession \<Rightarrow> ConnectionResponse \<Rightarrow> hosted_state \<Rightarrow> (go_error + Workspace) \<times> hosted_state" where
  "resolveFromConnection now session conn h =
     (if cs_Wastelands conn = []
      then (Inl (Err (Sprintf ''no wasteland config found for connection %s'' [FS (ss_ConnectionID session)])), h)
      else (case add_clients session conn (cs_Wastelands conn) (NewWorkspace (cs_RigHandle conn)) h of
              (Inl err, h1) \<Rightarrow> (Inl err, h1)
            | (Inr ws, h1) \<Rightarrow> (Inr ws, cacheWorkspace now (ss_ConnectionID session) ws h1)))"

section \<open>Resolving\<close>

definition resolveMiss ::
  "'s net \<Rightarrow> auth_crypto \<Rightarrow> AuthClient \<Rightarrow> UserSession \<Rightarrow> hosted_state \<Rightarrow> 's
     \<Rightarrow> (go_error + Workspace) \<times> hosted_state \<times> 's" where
  "resolveMiss n k c session h s =
     (if ss_SubjectID session = [] then (Inl (Err ''session missing subject ID''), h, s)
      else (case auth_GetConnection n k c (ss_SubjectID session) (ss_ConnectionID session) s of
              (Inl err, s1) \<Rightarrow> (Inl (Wrap ''resolving connection: '' (Err (request_error_text err))), h, s1)
            | (Inr conn, s1) \<Rightarrow>
                (let (res, h1) = resolveFromConnection (nt_now n s1) session conn h in (res, h1, s1))))"

definition ResolveContext ::
  "'s net \<Rightarrow> auth_crypto \<Rightarrow> AuthClient \<Rightarrow> UserSession \<Rightarrow> hosted_state \<Rightarrow> 's
     \<Rightarrow> (go_error + Workspace) \<times> hosted_state \<times> 's" where
  "ResolveContext n k c session h s =
     (case cached_workspace (nt_now n s) (ss_ConnectionID session) h of
        (Some ws, h1) \<Rightarrow> (Inr ws, h1, s)
      | (None, h1) \<Rightarrow> resolveMiss n k c session h1 s)"

definition WarmSession :: "UserSession \<Rightarrow> ConnectionResponse \<Rightarrow> hosted_state \<Rightarrow> hosted_state" where
  "WarmSession session conn h =
     (if ss_ConnectionID session = [] \<or> cs_Wastelands conn = [] then h
      else h\<lparr>hs_jobs := hs_jobs h @ [(session, conn)]\<rparr>)"

text \<open>The goroutine of a warm-up, whenever it runs.\<close>

definition run_warm :: "int \<Rightarrow> nat \<Rightarrow> hosted_state \<Rightarrow> hosted_state" where
  "run_warm now i h =
     (if length (hs_jobs h) \<le> i then h
      else (let (session, conn) = hs_jobs h ! i;
                h1 = h\<lparr>hs_jobs := take i (hs_jobs h) @ drop (Suc i) (hs_jobs h)\<rparr>
            in case cached_workspace now (ss_ConnectionID session) h1 of
                 (Some ws, h2) \<Rightarrow> h2
               | (None, h2) \<Rightarrow> snd (resolveFromConnection now session conn h2)))"

section \<open>Callbacks\<close>

text \<open>\<^verbatim>\<open>SplitN(branch, "/", 3)\<close> starts with \<^verbatim>\<open>wl\<close> and has three parts.\<close>

definition extractWantedIDFromBranch :: "string \<Rightarrow> string" where
  "extractWantedIDFromBranch branch =
     (let (a, rest, ok1) = Cut branch (CHR ''/''); (b, c, ok2) = Cut rest (CHR ''/'')
      in if ok1 \<and> ok2 \<and> a = ''wl'' then c else branch)"

text \<open>What follows the last \<^verbatim>\<open>/pulls/\<close>, the empty text without one.\<close>

fun after_last :: "string \<Rightarrow> string \<Rightarrow> string option" where
  "after_last sep [] = (if sep = [] then Some [] else None)"
| "after_last sep (c # s) =
     (case after_last sep s of
        Some r \<Rightarrow> Some r
      | None \<Rightarrow> if HasPrefix (c # s) sep then Some (drop (length sep) (c # s)) else None)"

definition extractPRID :: "string \<Rightarrow> string" where
  "extractPRID prURL = (case after_last ''/pulls/'' prURL of Some r \<Rightarrow> r | None \<Rightarrow> [])"

definition branch_url :: "HostedClient \<Rightarrow> string \<Rightarrow> string" where
  "branch_url hc branch =
     Sprintf ''https://www.dolthub.com/repositories/%s/%s/data/%s''
       [FS (hc_forkOrg hc), FS (hc_forkDB hc), FS (concat (map (\<lambda>c. if c = CHR ''/'' then ''%2F'' else [c]) branch))]"

text \<open>
  The pull request of a branch: created, or, when DoltHub says it exists, found and updated.  \<open>title\<close> is
  the item's title when it can be read, \<open>diff\<close> the text of the diff; \<open>n\<close> sends through the proxy.
\<close>

definition hosted_CreatePR ::
  "'s net \<Rightarrow> HostedClient \<Rightarrow> (string \<Rightarrow> string \<Rightarrow> 's \<Rightarrow> string option) \<Rightarrow> (string \<Rightarrow> 's \<Rightarrow> go_error + string) \<Rightarrow> string
     \<Rightarrow> doltHubProviderCache \<Rightarrow> 's \<Rightarrow> ((go_error + string) \<times> doltHubProviderCache \<times> 's) option" where
  "hosted_CreatePR n hc title diff branch c s =
     (let wantedID = extractWantedIDFromBranch branch;
          prTitle = Sprintf ''[wl] %s'' [FS (case title wantedID branch s of Some t \<Rightarrow> t | None \<Rightarrow> wantedID)];
          prBody = (case diff branch s of Inr d \<Rightarrow> d | Inl _ \<Rightarrow> [])
      in case CreatePR n [] (hc_forkOrg hc) (hc_upOrg hc) (hc_upDB hc) branch prTitle prBody c s of
           (Inr url, c1, s1) \<Rightarrow> Some (Inr url, c1, s1)
         | (Inl err, c1, s1) \<Rightarrow>
             if \<not> Contains (Error err) ''already exists'' then Some (Inl err, c1, s1)
             else (case FindPR n [] (hc_upOrg hc) (hc_upDB hc) (hc_forkOrg hc) branch c1 s1 of
                     None \<Rightarrow> None
                   | Some ((existingURL, existingID), c2, s2) \<Rightarrow>
                       if existingID = [] then Some (Inl err, c2, s2)
                       else (case UpdatePR n [] (hc_upOrg hc) (hc_upDB hc) existingID prTitle prBody c2 s2 of
                               (Some uerr, c3, s3) \<Rightarrow> Some (Inl uerr, c3, s3)
                             | (None, c3, s3) \<Rightarrow> Some (Inr existingURL, c3, s3))))"

definition hosted_CheckPR ::
  "'s net \<Rightarrow> HostedClient \<Rightarrow> string \<Rightarrow> doltHubProviderCache \<Rightarrow> 's \<Rightarrow> (string \<times> doltHubProviderCache \<times> 's) option" where
  "hosted_CheckPR n hc branch c s =
     map_option (\<lambda>((url, i), c1, s1). (url, c1, s1)) (FindPR n [] (hc_upOrg hc) (hc_upDB hc) (hc_forkOrg hc) branch c s)"

definition hosted_ClosePR ::
  "'s net \<Rightarrow> HostedClient \<Rightarrow> string \<Rightarrow> doltHubProviderCache \<Rightarrow> 's \<Rightarrow> (go_error option \<times> doltHubProviderCache \<times> 's) option" where
  "hosted_ClosePR n hc branch c s =
     (case FindPR n [] (hc_upOrg hc) (hc_upDB hc) (hc_forkOrg hc) branch c s of
        None \<Rightarrow> None
      | Some ((url, prID), c1, s1) \<Rightarrow>
          Some (if prID = [] then (None, c1, s1) else ClosePR n [] (hc_upOrg hc) (hc_upDB hc) prID c1 s1))"

definition hosted_CloseUpstreamPR ::
  "'s net \<Rightarrow> HostedClient \<Rightarrow> string \<Rightarrow> doltHubProviderCache \<Rightarrow> 's \<Rightarrow> go_error option \<times> doltHubProviderCache \<times> 's" where
  "hosted_CloseUpstreamPR n hc prURL c s =
     (let prID = extractPRID prURL
      in if prID = [] then (Some (Err (Sprintf ''cannot extract PR ID from URL: %s'' [FS prURL])), c, s)
         else ClosePR n [] (hc_upOrg hc) (hc_upDB hc) prID c s)"

definition hosted_SaveConfig ::
  "'s net \<Rightarrow> auth_crypto \<Rightarrow> AuthClient \<Rightarrow> HostedClient \<Rightarrow> string \<Rightarrow> bool \<Rightarrow> hosted_state \<Rightarrow> 's
     \<Rightarrow> request_error option \<times> hosted_state \<times> 's" where
  "hosted_SaveConfig n k c hc mode signing h s =
     (case auth_GetConnection n k c (hc_subjectID hc) (hc_connectionID hc) s of
        (Inl err, s1) \<Rightarrow> (Some err, h, s1)
      | (Inr current, s1) \<Rightarrow>
          (case auth_PatchWastelandSettings n k c (hc_subjectID hc) (hc_connectionID hc) (hc_upstream hc)
                  (cs_RecordVersion current) mode signing s1 of
             (Inl err, s2) \<Rightarrow> (Some err, h, s2)
           | (Inr _, s2) \<Rightarrow> (None, InvalidateConnection (hc_connectionID hc) h, s2)))"

text \<open>The database of a submission's fork, for \<^verbatim>\<open>LoadPendingItem\<close> and \<^verbatim>\<open>LoadPendingDetail\<close>.\<close>

definition pending_fork ::
  "HostedClient \<Rightarrow> string \<Rightarrow> PendingItem \<Rightarrow> go_error + RemoteDB" where
  "pending_fork hc wantedID pending =
     (if pi_ForkOwner pending = [] \<or> pi_Branch pending = []
      then Inl (Err (''pending item '' @ Quote wantedID @ '' is missing fork owner or branch''))
      else Inr (NewRemoteDB (hc_upOrg hc) (hc_upDB hc) (pi_ForkOwner pending) (hc_upDB hc) (hc_mode hc)))"

section \<open>A stale warm-up\<close>

text \<open>
  The warm-up does not notice that its connection was invalidated after the connection was read: it then
  caches a workspace made of the old metadata, for a minute.
\<close>

lemma stale_warm_after_invalidation:
  assumes "hs_jobs h = [(session, conn)]" and "resolveFromConnection now session conn
      (InvalidateConnection (ss_ConnectionID session) h\<lparr>hs_jobs := []\<rparr>) = (Inr ws, h1)"
  shows "fst (cached_workspace now (ss_ConnectionID session)
      (run_warm now 0 (InvalidateConnection (ss_ConnectionID session) h))) = Some ws"
proof -
  let ?h = "InvalidateConnection (ss_ConnectionID session) h"
  have j: "hs_jobs ?h = [(session, conn)]" using assms(1) by (simp add: InvalidateConnection_def stop_pending_def Let_def)
  have c: "map_of (hs_cache ?h) (ss_ConnectionID session) = None"
    by (simp add: InvalidateConnection_def stop_pending_def Let_def delete_conv')
  have "snd (resolveFromConnection now session conn (?h\<lparr>hs_jobs := []\<rparr>)) = h1" by (simp add: assms(2))
  then have r: "run_warm now 0 ?h = h1"
    by (simp add: run_warm_def j cached_workspace_def c)
  obtain h2 where "h1 = cacheWorkspace now (ss_ConnectionID session) ws h2"
    using assms(2) by (auto simp: resolveFromConnection_def split: if_splits prod.splits sum.splits)
  then show ?thesis by (simp add: r cached_workspace_def cacheWorkspace_def cacheTTL_def update_conv')
qed

end
