(* ===== verification/HostedServer.thy ===== *)
theory HostedServer
  imports HostedResolver DolthubFork
begin

text \<open>
  \<^verbatim>\<open>internal/hosted/authservice_server.go\<close>: the handlers of the hosted service and the middleware in
  front of the HTTP API.  A handler maps a request, the state and the world to an answer and the two after
  it; handlers run one after the other.  Logs and tracing are left out.
\<close>

section \<open>Configuration, requests, answers\<close>

text \<open>
  \<open>hg_registrar\<close> is the fork registrar over the proxy of a subject and a connection, \<open>None\<close> when there is
  none; \<open>hg_time_text\<close> prints a time in JSON.
\<close>

record 's AuthServiceServer =
  hg_auth :: AuthClient
  hg_crypto :: auth_crypto
  hg_sessionSecret :: string
  hg_subjectSecret :: string
  hg_environment :: string
  hg_registrar :: "(string \<Rightarrow> string \<Rightarrow> string list \<Rightarrow> 's \<Rightarrow> string \<times> 's) option"
  hg_time_text :: "int \<Rightarrow> string"

text \<open>Without a secret of its own the subject cookie is signed with the session's.\<close>

definition NewAuthServiceServer ::
  "AuthClient \<Rightarrow> auth_crypto \<Rightarrow> string \<Rightarrow> string \<Rightarrow> string
     \<Rightarrow> (string \<Rightarrow> string \<Rightarrow> string list \<Rightarrow> 's \<Rightarrow> string \<times> 's) \<Rightarrow> (int \<Rightarrow> string) \<Rightarrow> 's AuthServiceServer" where
  "NewAuthServiceServer auth k sessionSecret subjectSecret environment registrar time_text =
     \<lparr>hg_auth = auth, hg_crypto = k, hg_sessionSecret = sessionSecret,
      hg_subjectSecret = (if subjectSecret = [] then sessionSecret else subjectSecret), hg_environment = environment,
      hg_registrar = Some registrar, hg_time_text = time_text\<rparr>"

text \<open>A request with its cookies, and what the middleware puts into its context.\<close>

record hosted_request = api_request +
  rq_cookie :: "string \<Rightarrow> string option"
  rq_connectionID :: string
  rq_workspace :: "Workspace option"
  rq_client :: "nat option"

record hosted_response =
  hr_status :: int
  hr_headers :: headers
  hr_cookies :: "set_cookie list"
  hr_body :: string

definition hosted_writeJSON :: "headers \<Rightarrow> set_cookie list \<Rightarrow> int \<Rightarrow> json \<Rightarrow> hosted_response" where
  "hosted_writeJSON hs cookies status v =
     \<lparr>hr_status = status, hr_headers = Set hs ''Content-Type'' ''application/json'', hr_cookies = cookies,
      hr_body = json_text v @ [nl_ch]\<rparr>"

definition hosted_error :: "set_cookie list \<Rightarrow> int \<Rightarrow> string \<Rightarrow> hosted_response" where
  "hosted_error cookies status msg = hosted_writeJSON [] cookies status (JObj [(''error'', JStr msg)])"

type_synonym 's hosted_result = "hosted_response \<times> hosted_state \<times> 's"

section \<open>Subjects and sessions\<close>

definition ensureSubjectID ::
  "'s AuthServiceServer \<Rightarrow> 's net \<Rightarrow> hosted_request \<Rightarrow> 's \<Rightarrow> (go_error + (string \<times> set_cookie list)) \<times> 's" where
  "ensureSubjectID g n r s =
     (case ReadSubjectCookie (hg_crypto g) (rq_cookie r) (hg_subjectSecret g) of
        Some subjectID \<Rightarrow> (Inr (subjectID, []), s)
      | None \<Rightarrow>
          (case generateSessionID n s of
             (Inl err, s1) \<Rightarrow> (Inl err, s1)
           | (Inr subjectID, s1) \<Rightarrow>
               (Inr (subjectID, [SetSubjectCookie (hg_crypto g) (nt_now n s1) subjectID (hg_subjectSecret g)]), s1)))"

definition restoreSession ::
  "'s AuthServiceServer \<Rightarrow> 's net \<Rightarrow> hosted_request \<Rightarrow> hosted_state \<Rightarrow> 's
     \<Rightarrow> (string \<times> UserSession) option \<times> hosted_state \<times> 's" where
  "restoreSession g n r h s =
     (case ReadSessionCookie (hg_crypto g) (rq_cookie r) (hg_sessionSecret g) of
        None \<Rightarrow> (None, h, s)
      | Some (sessionID, connectionID) \<Rightarrow>
          (case ReadSubjectCookie (hg_crypto g) (rq_cookie r) (hg_subjectSecret g) of
             None \<Rightarrow> (None, h, s)
           | Some subjectID \<Rightarrow>
               (case session_Get (nt_now n s) sessionID (hs_sessions h) of
                  (Some session, st) \<Rightarrow>
                    (if ss_SubjectID session = [] \<or> ss_SubjectID session \<noteq> subjectID then None
                     else Some (sessionID, session), h\<lparr>hs_sessions := st\<rparr>, s)
                | (None, st) \<Rightarrow>
                    if connectionID = [] then (None, h\<lparr>hs_sessions := st\<rparr>, s)
                    else (case auth_GetConnection n (hg_crypto g) (hg_auth g) subjectID connectionID s of
                            (Inl err, s1) \<Rightarrow> (None, h\<lparr>hs_sessions := st\<rparr>, s1)
                          | (Inr conn, s1) \<Rightarrow>
                              (let restored = RestoreWithSubject (nt_now n s1) sessionID connectionID subjectID st
                               in case session_Get (nt_now n s1) sessionID restored of
                                    (None, st2) \<Rightarrow> (None, h\<lparr>hs_sessions := st2\<rparr>, s1)
                                  | (Some session, st2) \<Rightarrow> (Some (sessionID, session), h\<lparr>hs_sessions := st2\<rparr>, s1))))))"

section \<open>Connecting\<close>

record beginConnectRequest =
  bc_RigHandle :: string
  bc_ForkOrg :: string
  bc_ForkDB :: string
  bc_Upstream :: string
  bc_Mode :: string
  bc_Signing :: bool

definition decode_begin :: "string \<Rightarrow> beginConnectRequest option" where
  "decode_begin body =
     Option.bind (stream_members body) (\<lambda>ms.
       (let (rig, ok1) = str_field ''rig_handle'' ms; (fo, ok2) = str_field ''fork_org'' ms;
            (fd, ok3) = str_field ''fork_db'' ms; (u, ok4) = str_field ''upstream'' ms; (m, ok5) = str_field ''mode'' ms;
            (sg, ok6) = bool_field ''signing'' ms; (dn, ok7) = str_field ''display_name'' ms; (em, ok8) = str_field ''email'' ms
        in if ok1 \<and> ok2 \<and> ok3 \<and> ok4 \<and> ok5 \<and> ok6 \<and> ok7 \<and> ok8
           then Some \<lparr>bc_RigHandle = rig, bc_ForkOrg = fo, bc_ForkDB = fd, bc_Upstream = u, bc_Mode = m, bc_Signing = sg\<rparr>
           else None))"

record finalizeConnectRequest =
  fc_ConnectionID :: string
  fc_Upstream :: string
  fc_DisplayName :: string
  fc_Email :: string

definition decode_finalize :: "string \<Rightarrow> finalizeConnectRequest option" where
  "decode_finalize body =
     Option.bind (stream_members body) (\<lambda>ms.
       (let (i, ok1) = str_field ''connection_id'' ms; (u, ok2) = str_field ''upstream'' ms;
            (dn, ok3) = str_field ''display_name'' ms; (em, ok4) = str_field ''email'' ms
        in if ok1 \<and> ok2 \<and> ok3 \<and> ok4
           then Some \<lparr>fc_ConnectionID = i, fc_Upstream = u, fc_DisplayName = dn, fc_Email = em\<rparr> else None))"

definition hosted_invalid_json :: hosted_response where
  "hosted_invalid_json = hosted_error [] 400 ''invalid JSON''"

definition handleConnectSession ::
  "'s AuthServiceServer \<Rightarrow> 's net \<Rightarrow> hosted_request \<Rightarrow> hosted_state \<Rightarrow> 's \<Rightarrow> 's hosted_result" where
  "handleConnectSession g n r h s =
     (case (case rq_body r of Inr body \<Rightarrow> decode_begin body | Inl _ \<Rightarrow> None) of
        None \<Rightarrow> (hosted_invalid_json, h, s)
      | Some req \<Rightarrow>
          if bc_RigHandle req = [] \<or> bc_ForkOrg req = [] \<or> bc_ForkDB req = [] \<or> bc_Upstream req = []
          then (hosted_error [] 400 ''rig_handle, fork_org, fork_db, and upstream are required'', h, s)
          else (case validateConnectFields (bc_RigHandle req) (bc_ForkOrg req) (bc_ForkDB req) (bc_Upstream req) of
                  Some err \<Rightarrow> (hosted_error [] 400 (Error err), h, s)
                | None \<Rightarrow>
                    (case ensureSubjectID g n r s of
                       (Inl err, s1) \<Rightarrow> (hosted_error [] 500 ''failed to establish browser subject'', h, s1)
                     | (Inr (subjectID, cookies), s1) \<Rightarrow>
                         (case auth_CreateConnectToken n (hg_crypto g) (hg_auth g) subjectID
                                 \<lparr>um_RigHandle = bc_RigHandle req,
                                  um_Wastelands = [\<lparr>wl_Upstream = bc_Upstream req, wl_ForkOrg = bc_ForkOrg req,
                                                     wl_ForkDB = bc_ForkDB req,
                                                     wl_Mode = (if bc_Mode req = [] then ''pr'' else bc_Mode req),
                                                     wl_Signing = bc_Signing req\<rparr>]\<rparr> 300000000000 s1 of
                            (Inl err, s2) \<Rightarrow> (hosted_error cookies 500 ''failed to create connect token'', h, s2)
                          | (Inr tok, s2) \<Rightarrow>
                              (hosted_writeJSON [] cookies 200
                                 (JObj [(''auth_service_base_url'', JStr (cl_baseURL (hg_auth g))),
                                        (''connect_token'', JStr (ct_ConnectToken tok)),
                                        (''redeem_secret'', JStr (ct_RedeemSecret tok)),
                                        (''expires_at'', JStr (hg_time_text g (ct_ExpiresAt tok)))]), h, s2)))))"

text \<open>The wasteland a connection is finished for: the named one, or the first.\<close>

definition selected_wasteland :: "string \<Rightarrow> WastelandConfig list \<Rightarrow> WastelandConfig option" where
  "selected_wasteland upstream wls =
     (if upstream = [] then (case wls of wl # _ \<Rightarrow> Some wl | [] \<Rightarrow> None)
      else List.find (\<lambda>wl. wl_Upstream wl = upstream) wls)"

text \<open>The registrar's warning, if there is a registrar.\<close>

definition register_fork ::
  "'s AuthServiceServer \<Rightarrow> string \<Rightarrow> string \<Rightarrow> string list \<Rightarrow> 's \<Rightarrow> string \<times> 's" where
  "register_fork g subjectID connectionID args s =
     (case hg_registrar g of None \<Rightarrow> ([], s) | Some f \<Rightarrow> f subjectID connectionID args s)"

text \<open>A map of strings is printed in the order of its keys: \<^verbatim>\<open>setup_warning\<close> comes before \<^verbatim>\<open>status\<close>.\<close>

definition status_answer :: "string \<Rightarrow> string \<Rightarrow> json" where
  "status_answer status warning =
     JObj ((if warning = [] then [] else [(''setup_warning'', JStr warning)]) @ [(''status'', JStr status)])"

definition handleConnect ::
  "'s AuthServiceServer \<Rightarrow> 's net \<Rightarrow> hosted_request \<Rightarrow> hosted_state \<Rightarrow> 's \<Rightarrow> 's hosted_result" where
  "handleConnect g n r h s =
     (case ReadSubjectCookie (hg_crypto g) (rq_cookie r) (hg_subjectSecret g) of
        None \<Rightarrow> (hosted_error [] 401 ''browser subject missing'', h, s)
      | Some subjectID \<Rightarrow>
          (case (case rq_body r of Inr body \<Rightarrow> decode_finalize body | Inl _ \<Rightarrow> None) of
             None \<Rightarrow> (hosted_invalid_json, h, s)
           | Some req \<Rightarrow>
               if fc_ConnectionID req = [] then (hosted_error [] 400 ''connection_id is required'', h, s)
               else (case auth_GetConnection n (hg_crypto g) (hg_auth g) subjectID (fc_ConnectionID req) s of
                       (Inl err, s1) \<Rightarrow> (hosted_error [] 401 ''connection not found for subject'', h, s1)
                     | (Inr conn, s1) \<Rightarrow>
                         if cs_Wastelands conn = [] then (hosted_error [] 412 ''connection has no wastelands'', h, s1)
                         else (case selected_wasteland (fc_Upstream req) (cs_Wastelands conn) of
                                 None \<Rightarrow> (hosted_error [] 400 ''requested upstream is not part of the connection'', h, s1)
                               | Some wl \<Rightarrow>
                                   (let (warning, s2) = register_fork g subjectID (fc_ConnectionID req)
                                          [wl_Upstream wl, wl_ForkOrg wl, wl_ForkDB wl, cs_RigHandle conn,
                                           if fc_DisplayName req = [] then cs_RigHandle conn else fc_DisplayName req,
                                           fc_Email req] s1
                                    in case CreateWithSubject n (fc_ConnectionID req) subjectID (hs_sessions h) s2 of
                                         (Inl err, st, s3) \<Rightarrow>
                                           (hosted_error [] 500 ''failed to create session'', h\<lparr>hs_sessions := st\<rparr>, s3)
                                       | (Inr sessionID, st, s3) \<Rightarrow>
                                           (let h1 = InvalidateConnection (fc_ConnectionID req) (h\<lparr>hs_sessions := st\<rparr>);
                                                cookie = SetSessionCookie (hg_crypto g) sessionID (fc_ConnectionID req)
                                                           (hg_sessionSecret g);
                                                h2 = h1\<lparr>hs_sessions := RememberActiveUpstream sessionID (wl_Upstream wl)
                                                                          (hs_sessions h1)\<rparr>;
                                                (found, st2) = session_Get (nt_now n s3) sessionID (hs_sessions h2);
                                                h3 = h2\<lparr>hs_sessions := st2\<rparr>;
                                                h4 = (case found of Some session \<Rightarrow> WarmSession session conn h3 | None \<Rightarrow> h3)
                                            in (hosted_writeJSON [] [cookie] 200 (status_answer ''connected'' warning), h4, s3)))))))"

section \<open>Status, bootstrap, logout\<close>

definition hosted_wasteland_json :: "WastelandConfig \<Rightarrow> json" where
  "hosted_wasteland_json wl =
     JObj [(''upstream'', JStr (wl_Upstream wl)), (''fork_org'', JStr (wl_ForkOrg wl)), (''fork_db'', JStr (wl_ForkDB wl)),
           (''mode'', JStr (wl_Mode wl)), (''signing'', JBool (wl_Signing wl))]"

definition authStatus_json :: "bool \<Rightarrow> bool \<Rightarrow> string \<Rightarrow> WastelandConfig list \<Rightarrow> string \<Rightarrow> json" where
  "authStatus_json authenticated connected rig wls environment =
     JObj ([(''authenticated'', JBool authenticated), (''connected'', JBool connected)] @ opt_str ''rig_handle'' rig @
           opt_list ''wastelands'' (map hosted_wasteland_json wls) @ opt_str ''environment'' environment)"

definition handleAuthStatus ::
  "'s AuthServiceServer \<Rightarrow> 's net \<Rightarrow> hosted_request \<Rightarrow> hosted_state \<Rightarrow> 's \<Rightarrow> 's hosted_result" where
  "handleAuthStatus g n r h s =
     (let answer = (\<lambda>a c rig wls. hosted_writeJSON [] [] 200 (authStatus_json a c rig wls (hg_environment g)))
      in case restoreSession g n r h s of
           (None, h1, s1) \<Rightarrow> (answer False False [] [], h1, s1)
         | (Some (sessionID, session), h1, s1) \<Rightarrow>
             if ss_ConnectionID session = [] then (answer True False [] [], h1, s1)
             else (case auth_GetConnection n (hg_crypto g) (hg_auth g) (ss_SubjectID session) (ss_ConnectionID session) s1 of
                     (Inl err, s2) \<Rightarrow> (answer True False [] [], h1, s2)
                   | (Inr conn, s2) \<Rightarrow> (answer True True (cs_RigHandle conn) (cs_Wastelands conn), h1, s2)))"

text \<open>The mode of an upstream, the empty text for one that is not there; an entry without a mode is passed over.\<close>

definition findMode :: "WastelandConfig list \<Rightarrow> string \<Rightarrow> string" where
  "findMode wls upstream = (case List.find (\<lambda>wl. wl_Upstream wl = upstream) wls of Some wl \<Rightarrow> wl_Mode wl | None \<Rightarrow> [])"

definition activeBootstrapUpstream :: "string \<Rightarrow> string \<Rightarrow> WastelandConfig list \<Rightarrow> string \<times> string" where
  "activeBootstrapUpstream headerUpstream remembered wls =
     (if headerUpstream \<noteq> [] \<and> findMode wls headerUpstream \<noteq> [] then (headerUpstream, findMode wls headerUpstream)
      else if remembered \<noteq> [] \<and> findMode wls remembered \<noteq> [] then (remembered, findMode wls remembered)
      else (case wls of wl # _ \<Rightarrow> (wl_Upstream wl, wl_Mode wl) | [] \<Rightarrow> ([], [])))"

definition bootstrap_json :: "bool \<Rightarrow> bool \<Rightarrow> string \<Rightarrow> WastelandConfig list \<Rightarrow> string \<Rightarrow> string \<Rightarrow> string \<Rightarrow> json" where
  "bootstrap_json authenticated connected rig wls environment active mode =
     JObj ([(''authenticated'', JBool authenticated), (''connected'', JBool connected), (''hosted'', JBool True)] @
           opt_str ''rig_handle'' rig @ opt_list ''wastelands'' (map hosted_wasteland_json wls) @
           opt_str ''environment'' environment @ opt_str ''active_upstream'' active @ opt_str ''mode'' mode)"

definition hosted_handleBootstrap ::
  "'s AuthServiceServer \<Rightarrow> 's net \<Rightarrow> hosted_request \<Rightarrow> hosted_state \<Rightarrow> 's \<Rightarrow> 's hosted_result" where
  "hosted_handleBootstrap g n r h s =
     (let answer = (\<lambda>a c rig wls active mode. hosted_writeJSON (Set [] ''Cache-Control'' ''no-store'') [] 200
                      (bootstrap_json a c rig wls (hg_environment g) active mode))
      in case restoreSession g n r h s of
           (None, h1, s1) \<Rightarrow> (answer False False [] [] [] [], h1, s1)
         | (Some (sessionID, session), h1, s1) \<Rightarrow>
             if ss_ConnectionID session = [] then (answer True False [] [] [] [], h1, s1)
             else (case auth_GetConnection n (hg_crypto g) (hg_auth g) (ss_SubjectID session) (ss_ConnectionID session) s1 of
                     (Inl err, s2) \<Rightarrow> (answer True False [] [] [] [], h1, s2)
                   | (Inr conn, s2) \<Rightarrow>
                       (let (active, mode) = activeBootstrapUpstream (Get (rq_headers r) ''X-Wasteland'')
                              (ActiveUpstream sessionID (hs_sessions h1)) (cs_Wastelands conn);
                            h2 = (if active = [] then h1
                                  else WarmSession session conn
                                         (h1\<lparr>hs_sessions := RememberActiveUpstream sessionID active (hs_sessions h1)\<rparr>))
                        in (answer True True (cs_RigHandle conn) (cs_Wastelands conn) active mode, h2, s2))))"

definition handleLogout ::
  "'s AuthServiceServer \<Rightarrow> 's net \<Rightarrow> hosted_request \<Rightarrow> hosted_state \<Rightarrow> 's \<Rightarrow> 's hosted_result" where
  "handleLogout g n r h s =
     (let h1 = (case ReadSessionCookie (hg_crypto g) (rq_cookie r) (hg_sessionSecret g) of
                  Some (sessionID, _) \<Rightarrow> h\<lparr>hs_sessions := session_Delete sessionID (hs_sessions h)\<rparr>
                | None \<Rightarrow> h)
      in (hosted_writeJSON [] [ClearSessionCookie] 200 (JObj [(''status'', JStr ''logged out'')]), h1, s))"

end
