(* ===== verification/HostedApp.thy ===== *)
theory HostedApp
  imports HostedServer
begin

text \<open>
  The rest of \<^verbatim>\<open>authservice_server.go\<close>: joining and leaving, the middleware and the routes; the fork
  registrar (\<^verbatim>\<open>authservice_fork_register.go\<close>), the probe and what the API reads from the context
  (\<^verbatim>\<open>runtime_helpers.go\<close>, \<^verbatim>\<open>context_helpers.go\<close>, \<^verbatim>\<open>public_upstream.go\<close>).
\<close>

section \<open>Joining and leaving\<close>

record authServiceJoinRequest =
  jr_ForkOrg :: string
  jr_ForkDB :: string
  jr_Upstream :: string
  jr_Mode :: string
  jr_Signing :: "bool option"
  jr_DisplayName :: string
  jr_Email :: string

text \<open>Into \<^verbatim>\<open>*bool\<close>: \<^verbatim>\<open>null\<close> is the nil pointer.\<close>

definition boolp_member :: "string \<Rightarrow> (string \<times> json) \<Rightarrow> bool option \<times> bool \<Rightarrow> bool option \<times> bool" where
  "boolp_member name m acc =
     (if fold_eq (fst m) name
      then (case snd m of JBool b \<Rightarrow> (Some b, snd acc) | JNull \<Rightarrow> (None, snd acc) | _ \<Rightarrow> (fst acc, False))
      else acc)"

definition decode_join :: "string \<Rightarrow> authServiceJoinRequest option" where
  "decode_join body =
     Option.bind (stream_members body) (\<lambda>ms.
       (let (fo, ok1) = str_field ''fork_org'' ms; (fd, ok2) = str_field ''fork_db'' ms;
            (u, ok3) = str_field ''upstream'' ms; (m, ok4) = str_field ''mode'' ms;
            (sg, ok5) = fold (boolp_member ''signing'') ms (None, True);
            (dn, ok6) = str_field ''display_name'' ms; (em, ok7) = str_field ''email'' ms
        in if ok1 \<and> ok2 \<and> ok3 \<and> ok4 \<and> ok5 \<and> ok6 \<and> ok7
           then Some \<lparr>jr_ForkOrg = fo, jr_ForkDB = fd, jr_Upstream = u, jr_Mode = m, jr_Signing = sg, jr_DisplayName = dn,
                      jr_Email = em\<rparr>
           else None))"

text \<open>The session of a request with a connection, or the answer to a request without.\<close>

definition connected_session ::
  "'s AuthServiceServer \<Rightarrow> 's net \<Rightarrow> hosted_request \<Rightarrow> hosted_state \<Rightarrow> 's
     \<Rightarrow> (hosted_response + (string \<times> UserSession)) \<times> hosted_state \<times> 's" where
  "connected_session g n r h s =
     (case restoreSession g n r h s of
        (None, h1, s1) \<Rightarrow> (Inl (hosted_error [] 401 ''not authenticated''), h1, s1)
      | (Some (sessionID, session), h1, s1) \<Rightarrow>
          (if ss_ConnectionID session = [] then Inl (hosted_error [] 412 ''DoltHub not connected'')
           else Inr (sessionID, session), h1, s1))"

definition join_wasteland :: "authServiceJoinRequest \<Rightarrow> WastelandConfig" where
  "join_wasteland req =
     \<lparr>wl_Upstream = jr_Upstream req, wl_ForkOrg = jr_ForkOrg req, wl_ForkDB = jr_ForkDB req,
      wl_Mode = (if jr_Mode req = [] then ''pr'' else jr_Mode req),
      wl_Signing = (case jr_Signing req of Some b \<Rightarrow> b | None \<Rightarrow> True)\<rparr>"

definition join_session ::
  "'s AuthServiceServer \<Rightarrow> 's net \<Rightarrow> string \<Rightarrow> UserSession \<Rightarrow> authServiceJoinRequest \<Rightarrow> hosted_state \<Rightarrow> 's
     \<Rightarrow> 's hosted_result" where
  "join_session g n sessionID session req h s =
     (case auth_GetConnection n (hg_crypto g) (hg_auth g) (ss_SubjectID session) (ss_ConnectionID session) s of
        (Inl err, s1) \<Rightarrow> (hosted_error [] 401 ''connection not found'', h, s1)
      | (Inr current, s1) \<Rightarrow>
          (case auth_UpsertWasteland n (hg_crypto g) (hg_auth g) (ss_SubjectID session) (ss_ConnectionID session)
                  (cs_RecordVersion current) (join_wasteland req) s1 of
             (Inl err, s2) \<Rightarrow> (hosted_error [] 500 ''failed to save metadata'', h, s2)
           | (Inr updated, s2) \<Rightarrow>
               (let (warning, s3) = register_fork g (ss_SubjectID session) (ss_ConnectionID session)
                      [jr_Upstream req, jr_ForkOrg req, jr_ForkDB req, cs_RigHandle updated, jr_DisplayName req,
                       jr_Email req] s2;
                    h1 = InvalidateConnection (ss_ConnectionID session) h
                in (hosted_writeJSON [] [] 200 (status_answer ''joined'' warning),
                    h1\<lparr>hs_sessions := RememberActiveUpstream sessionID (jr_Upstream req) (hs_sessions h1)\<rparr>, s3))))"

definition handleJoin ::
  "'s AuthServiceServer \<Rightarrow> 's net \<Rightarrow> hosted_request \<Rightarrow> hosted_state \<Rightarrow> 's \<Rightarrow> 's hosted_result" where
  "handleJoin g n r h s =
     (case connected_session g n r h s of
        (Inl answer, h1, s1) \<Rightarrow> (answer, h1, s1)
      | (Inr (sessionID, session), h1, s1) \<Rightarrow>
          (case (case rq_body r of Inr body \<Rightarrow> decode_join body | Inl _ \<Rightarrow> None) of
             None \<Rightarrow> (hosted_invalid_json, h1, s1)
           | Some req \<Rightarrow>
               if jr_ForkOrg req = [] \<or> jr_ForkDB req = [] \<or> jr_Upstream req = []
               then (hosted_error [] 400 ''fork_org, fork_db, and upstream are required'', h1, s1)
               else (case validateJoinFields (jr_ForkOrg req) (jr_ForkDB req) (jr_Upstream req) of
                       Some err \<Rightarrow> (hosted_error [] 400 (Error err), h1, s1)
                     | None \<Rightarrow> join_session g n sessionID session req h1 s1)))"

definition handleLeaveWasteland ::
  "'s AuthServiceServer \<Rightarrow> 's net \<Rightarrow> hosted_request \<Rightarrow> hosted_state \<Rightarrow> 's \<Rightarrow> 's hosted_result" where
  "handleLeaveWasteland g n r h s =
     (case connected_session g n r h s of
        (Inl answer, h1, s1) \<Rightarrow> (answer, h1, s1)
      | (Inr (sessionID, session), h1, s1) \<Rightarrow>
          (let upstream = rq_value r ''upstream''
           in if upstream = [] then (hosted_error [] 400 ''upstream is required'', h1, s1)
              else (case auth_GetConnection n (hg_crypto g) (hg_auth g) (ss_SubjectID session) (ss_ConnectionID session) s1 of
                      (Inl err, s2) \<Rightarrow> (hosted_error [] 401 ''connection not found'', h1, s2)
                    | (Inr current, s2) \<Rightarrow>
                        (case auth_DeleteWasteland n (hg_crypto g) (hg_auth g) (ss_SubjectID session) (ss_ConnectionID session)
                                upstream (cs_RecordVersion current) s2 of
                           (Inl err, s3) \<Rightarrow> (hosted_error [] 500 ''failed to remove wasteland'', h1, s3)
                         | (Inr _, s3) \<Rightarrow>
                             (hosted_writeJSON [] [] 200 (JObj [(''status'', JStr ''removed'')]),
                              InvalidateConnection (ss_ConnectionID session) h1, s3)))))"

section \<open>The middleware\<close>

definition isValidUpstream :: "string \<Rightarrow> bool" where
  "isValidUpstream value \<longleftrightarrow>
     (case Cut value (CHR ''/'') of
        (org, db, ok) \<Rightarrow>
          ok \<and> org \<noteq> [] \<and> db \<noteq> []
        \<and> list_all (\<lambda>c. c \<notin> {space_ch, tab_ch, nl_ch, cr_ch}) org
        \<and> list_all (\<lambda>c. c \<notin> {space_ch, tab_ch, nl_ch, cr_ch, CHR ''/''}) db)"

text \<open>What the middleware does with a request: it hands one on to the API, or answers.\<close>

datatype passage = Next hosted_request | Block hosted_response

definition passOrBlock :: "hosted_request \<Rightarrow> int \<Rightarrow> string \<Rightarrow> passage" where
  "passOrBlock r status msg = (if rq_method r = ''GET'' then Next r else Block (hosted_error [] status msg))"

definition withWorkspaceAndClient :: "Workspace \<Rightarrow> nat \<Rightarrow> hosted_request \<Rightarrow> hosted_request" where
  "withWorkspaceAndClient workspace client r = r\<lparr>rq_workspace := Some workspace, rq_client := Some client\<rparr>"

definition withConnectionID :: "string \<Rightarrow> hosted_request \<Rightarrow> hosted_request" where
  "withConnectionID connectionID r = r\<lparr>rq_connectionID := connectionID\<rparr>"

definition with_identity :: "ResolvedReadIdentity \<Rightarrow> hosted_request \<Rightarrow> hosted_request" where
  "with_identity i r = r\<lparr>rq_identity := rq_identity (WithResolvedReadIdentity i (api_request.truncate r))\<rparr>"

text \<open>The upstream of a request: its header, for reads also the remembered or the first one.\<close>

definition wanted_upstream :: "hosted_request \<Rightarrow> string \<Rightarrow> UpstreamInfo list \<Rightarrow> string" where
  "wanted_upstream r remembered upstreams =
     (let named = Get (rq_headers r) ''X-Wasteland''
      in if named = [] \<and> rq_method r = ''GET''
         then (if remembered \<noteq> [] then remembered else case upstreams of u # _ \<Rightarrow> ui_Upstream u | [] \<Rightarrow> [])
         else named)"

text \<open>A copy of a client with another rig handle, for an impersonation on staging.\<close>

definition impersonated :: "string \<Rightarrow> hosted_request \<Rightarrow> nat \<Rightarrow> hosted_state \<Rightarrow> nat \<times> hosted_state" where
  "impersonated environment r client h =
     (let other = Get (rq_headers r) ''X-Impersonate''
      in if other \<noteq> [] \<and> environment = ''staging'' \<and> client < length (hs_clients h)
         then (length (hs_clients h), h\<lparr>hs_clients := hs_clients h @ [(hs_clients h ! client)\<lparr>hc_rigHandle := other\<rparr>]\<rparr>)
         else (client, h))"

definition with_workspace ::
  "'s AuthServiceServer \<Rightarrow> hosted_request \<Rightarrow> string \<Rightarrow> UserSession \<Rightarrow> Workspace \<Rightarrow> hosted_state \<Rightarrow> passage \<times> hosted_state" where
  "with_workspace g r sessionID session workspace h =
     (let upstream = wanted_upstream r (ActiveUpstream sessionID (hs_sessions h)) (Upstreams workspace)
      in if upstream = [] then (passOrBlock r 400 ''X-Wasteland header required'', h)
         else if \<not> isValidUpstream upstream
         then (passOrBlock r 400 ''invalid X-Wasteland format, expected org/db'', h)
         else (case workspace_Client upstream workspace of
                 Inl err \<Rightarrow> (passOrBlock r 400 (''unknown upstream: '' @ upstream), h)
               | Inr client \<Rightarrow>
                   (let h1 = h\<lparr>hs_sessions := RememberActiveUpstream sessionID upstream (hs_sessions h)\<rparr>;
                        r1 = r\<lparr>rq_headers := Set (rq_headers r) ''X-Wasteland'' upstream\<rparr>;
                        (client1, h2) = impersonated (hg_environment g) r1 client h1
                    in (Next (withWorkspaceAndClient workspace client1
                          (withConnectionID (ss_ConnectionID session)
                            (with_identity \<lparr>id_Upstream = upstream, id_Viewer = wk_rigHandle workspace, id_Public = False\<rparr>
                               r1))), h2))))"

definition AuthMiddleware ::
  "'s AuthServiceServer \<Rightarrow> 's net \<Rightarrow> hosted_request \<Rightarrow> hosted_state \<Rightarrow> 's \<Rightarrow> passage \<times> hosted_state \<times> 's" where
  "AuthMiddleware g n r h s =
     (if HasPrefix (rq_path r) ''/api/auth/'' then (Next r, h, s)
      else if \<not> HasPrefix (rq_path r) ''/api/'' then (Next r, h, s)
      else (case restoreSession g n r h s of
              (None, h1, s1) \<Rightarrow> (passOrBlock r 401 ''not authenticated'', h1, s1)
            | (Some (sessionID, session), h1, s1) \<Rightarrow>
                if ss_ConnectionID session = [] then (passOrBlock r 412 ''DoltHub not connected'', h1, s1)
                else (case ResolveContext n (hg_crypto g) (hg_auth g) session h1 s1 of
                        (Inl err, h2, s2) \<Rightarrow>
                          (passOrBlock r 401 (''failed to resolve workspace: '' @ Error err), h2, s2)
                      | (Inr workspace, h2, s2) \<Rightarrow>
                          (let (p, h3) = with_workspace g r sessionID session workspace h2 in (p, h3, s2)))))"

text \<open>What the API reads from the context.\<close>

definition errNotAuthenticated :: go_error where
  "errNotAuthenticated = Err ''not authenticated''"

definition NewClientFunc :: "hosted_request \<Rightarrow> go_error + nat" where
  "NewClientFunc r = (case rq_client r of Some c \<Rightarrow> Inr c | None \<Rightarrow> Inl errNotAuthenticated)"

definition NewWorkspaceFunc :: "hosted_request \<Rightarrow> go_error + Workspace" where
  "NewWorkspaceFunc r = (case rq_workspace r of Some ws \<Rightarrow> Inr ws | None \<Rightarrow> Inl errNotAuthenticated)"

definition ConnectionIDFromContext :: "hosted_request \<Rightarrow> string \<times> bool" where
  "ConnectionIDFromContext r = (rq_connectionID r, rq_connectionID r \<noteq> [])"

section \<open>The probe\<close>

definition PublicDoltHubQueryURL :: "string \<Rightarrow> string" where
  "PublicDoltHubQueryURL query =
     Sprintf ''https://www.dolthub.com/api/v1alpha1/%s/%s/main?q=%s''
       [FS ''hop'', FS ''wl-commons'',
        FS (concat (map (\<lambda>c. if c = CHR ''+'' then ''%20'' else [c]) (QueryEscape query)))]"

definition healthHandler :: "'s net \<Rightarrow> 's \<Rightarrow> hosted_response \<times> 's" where
  "healthHandler n s =
     (let (resp, s1) = nt_do n \<lparr>ho_method = ''GET'', ho_url = PublicDoltHubQueryURL ''SELECT 1'', ho_headers = [],
                                ho_body = []\<rparr> s;
          dolthub = (case resp of Inl err \<Rightarrow> ''unreachable'' | Inr (code, _) \<Rightarrow> if 500 \<le> code then ''degraded'' else ''ok'')
      in (hosted_writeJSON [] [] 200 (JObj [(''dolthub'', JStr dolthub), (''status'', JStr ''ok'')]), s1))"

section \<open>The registrar\<close>

definition BuildRegistrationSQL :: "string \<Rightarrow> string \<Rightarrow> string \<Rightarrow> string \<Rightarrow> string \<Rightarrow> string" where
  "BuildRegistrationSQL rig dolthubOrg displayName ownerEmail version =
     (let hopURI = Sprintf ''hop://%s/%s/'' [FS ownerEmail, FS rig]
      in Sprintf (sq (''INSERT INTO rigs (handle, display_name, dolthub_org, hop_uri, owner_email, gt_version, '' @
           ''trust_level, registered_at, last_seen) VALUES (`%s`, `%s`, `%s`, `%s`, `%s`, `%s`, 1, NOW(), NOW()) '' @
           ''ON DUPLICATE KEY UPDATE display_name = `%s`, dolthub_org = `%s`, hop_uri = `%s`, owner_email = `%s`, '' @
           ''gt_version = `%s`, last_seen = NOW()''))
           (map (\<lambda>v. FS (EscapeSQL v))
             [rig, displayName, dolthubOrg, hopURI, ownerEmail, version, displayName, dolthubOrg, hopURI, ownerEmail,
              version]))"

text \<open>
  Five attempts to register; only a fork that is not there yet is waited for.  \<open>exec\<close> runs the statement on
  the registration branch.
\<close>

fun register_attempts ::
  "'s net \<Rightarrow> ('s \<Rightarrow> go_error option \<times> 's) \<Rightarrow> nat \<Rightarrow> nat \<Rightarrow> go_error option \<Rightarrow> 's \<Rightarrow> go_error option \<times> 's" where
  "register_attempts n exec attempt 0 latest s = (latest, s)"
| "register_attempts n exec attempt (Suc left) latest s =
     (let s1 = (if 0 < attempt then nt_sleep n (attempt * 3000) s else s)
      in case exec s1 of
           (None, s2) \<Rightarrow> (None, s2)
         | (Some err, s2) \<Rightarrow>
             if \<not> Contains (Error err) ''no such repository'' then (Some err, s2)
             else register_attempts n exec (Suc attempt) left (Some err) s2)"

definition fork_error_text :: "fork_result \<Rightarrow> string" where
  "fork_error_text res =
     (case res of Forked \<Rightarrow> [] | Fork_required e \<Rightarrow> fork_required_text e | Fork_failed err \<Rightarrow> Error err)"

text \<open>\<open>n\<close> sends through the proxy; \<open>exec\<close> is \<^verbatim>\<open>Exec\<close> of the remote database of a read and a write side.\<close>

definition EnsureForkAndRegister ::
  "'s net \<Rightarrow> (RemoteDB \<Rightarrow> string \<Rightarrow> string list \<Rightarrow> 's \<Rightarrow> go_error option \<times> 's) \<Rightarrow> string \<Rightarrow> string \<Rightarrow> string \<Rightarrow> string
     \<Rightarrow> string \<Rightarrow> 's \<Rightarrow> (string \<times> 's) option" where
  "EnsureForkAndRegister n exec upstream forkOrg rigHandle displayName email s =
     (case ParseUpstream upstream of
        Inl err \<Rightarrow> Some (''invalid upstream '' @ Quote upstream @ '': '' @ Error err, s)
      | Inr (upstreamOrg, upstreamDB) \<Rightarrow>
          (case Fork n [] upstreamOrg upstreamDB forkOrg s of
             None \<Rightarrow> None
           | Some (res, s1) \<Rightarrow>
               if res \<noteq> Forked then Some (''fork failed: '' @ fork_error_text res, s1)
               else (let db = NewRemoteDB upstreamOrg upstreamDB forkOrg upstreamDB ''pr'';
                         branch = Sprintf ''wl/register/%s'' [FS rigHandle];
                         regSQL = BuildRegistrationSQL rigHandle forkOrg displayName email ''hosted''
                     in case register_attempts n (exec db branch [regSQL]) 0 5 None s1 of
                          (Some err, s2) \<Rightarrow> Some (''rig registration failed: '' @ Error err, s2)
                        | (None, s2) \<Rightarrow>
                            (case CreatePR n [] forkOrg upstreamOrg upstreamDB branch
                                    (Sprintf ''Register rig: %s'' [FS rigHandle])
                                    (Sprintf ''Register rig **%s** (%s) in the commons.'' [FS rigHandle, FS displayName])
                                    newDoltHubProviderCache s2 of
                               (_, _, s3) \<Rightarrow> Some ([], s3)))))"

section \<open>Routes\<close>

text \<open>The routes of the mux; the rate limiters in front of them are in \<^verbatim>\<open>RateLimit\<close>.\<close>

datatype hosted_route =
    Route_healthz | Route_connect | Route_status | Route_bootstrap | Route_logout | Route_connect_session | Route_join
  | Route_leave | Route_other

fun hosted_Handler ::
  "'s AuthServiceServer \<Rightarrow> 's net \<Rightarrow> hosted_route \<Rightarrow> hosted_request \<Rightarrow> hosted_state \<Rightarrow> 's
     \<Rightarrow> passage \<times> hosted_state \<times> 's" where
  "hosted_Handler g n Route_healthz r h s = (let (a, s1) = healthHandler n s in (Block a, h, s1))"
| "hosted_Handler g n Route_connect r h s = apfst Block (handleConnect g n r h s)"
| "hosted_Handler g n Route_status r h s = apfst Block (handleAuthStatus g n r h s)"
| "hosted_Handler g n Route_bootstrap r h s = apfst Block (hosted_handleBootstrap g n r h s)"
| "hosted_Handler g n Route_logout r h s = apfst Block (handleLogout g n r h s)"
| "hosted_Handler g n Route_connect_session r h s = apfst Block (handleConnectSession g n r h s)"
| "hosted_Handler g n Route_join r h s = apfst Block (handleJoin g n r h s)"
| "hosted_Handler g n Route_leave r h s = apfst Block (handleLeaveWasteland g n r h s)"
| "hosted_Handler g n Route_other r h s = AuthMiddleware g n r h s"

end
