(* ===== verification/HostedInv.thy ===== *)
theory HostedInv
  imports HostedApp
begin

text \<open>
  What the hosted service keeps over every run: a session, a client and a cached workspace belong to a
  connection that the auth service has confirmed, and the middleware hands a request on only with those of
  the browser that sent it.
\<close>

section \<open>Confirmed connections\<close>

definition confirms :: "'s AuthServiceServer \<Rightarrow> 's net \<Rightarrow> string \<Rightarrow> string \<Rightarrow> bool" where
  "confirms g n subjectID connectionID \<longleftrightarrow>
     (\<exists>s conn s1. auth_GetConnection n (hg_crypto g) (hg_auth g) subjectID connectionID s = (Inr conn, s1))"

lemma confirmsI: "auth_GetConnection n (hg_crypto g) (hg_auth g) subjectID connectionID s = (Inr conn, s1)
    \<Longrightarrow> confirms g n subjectID connectionID"
  by (auto simp: confirms_def)

definition session_of :: "'s AuthServiceServer \<Rightarrow> 's net \<Rightarrow> UserSession \<Rightarrow> bool" where
  "session_of g n x \<longleftrightarrow> confirms g n (ss_SubjectID x) (ss_ConnectionID x)"

definition client_of :: "'s AuthServiceServer \<Rightarrow> 's net \<Rightarrow> HostedClient \<Rightarrow> bool" where
  "client_of g n c \<longleftrightarrow> confirms g n (hc_subjectID c) (hc_connectionID c)"

text \<open>A workspace of a connection: the client of an upstream is one of this connection and upstream.\<close>

definition workspace_of :: "HostedClient list \<Rightarrow> string \<Rightarrow> Workspace \<Rightarrow> bool" where
  "workspace_of cs connectionID ws \<longleftrightarrow>
     (\<forall>(u, a) \<in> set (wk_clients ws). a < length cs \<and> hc_connectionID (cs ! a) = connectionID \<and> hc_upstream (cs ! a) = u)"

definition sessions_ok :: "'s AuthServiceServer \<Rightarrow> 's net \<Rightarrow> SessionStore \<Rightarrow> bool" where
  "sessions_ok g n st \<longleftrightarrow> list_all (\<lambda>(i, x). session_of g n x) st"

definition hosted_ok :: "'s AuthServiceServer \<Rightarrow> 's net \<Rightarrow> hosted_state \<Rightarrow> bool" where
  "hosted_ok g n h \<longleftrightarrow>
     sessions_ok g n (hs_sessions h) \<and> list_all (client_of g n) (hs_clients h)
   \<and> list_all (\<lambda>(k, cw). workspace_of (hs_clients h) k (cw_workspace cw)) (hs_cache h)
   \<and> list_all (\<lambda>(x, conn). session_of g n x) (hs_jobs h)"

section \<open>Sessions\<close>

lemma delete_all: "list_all P xs \<Longrightarrow> list_all P (AList.delete k xs)"
  by (auto simp: list_all_iff AList.delete_eq)

lemma update_all: "list_all P xs \<Longrightarrow> P (k, v) \<Longrightarrow> list_all P (AList.update k v xs)"
  by (auto simp: list_all_iff dest!: update_names)

lemma map_of_all: "list_all (\<lambda>(i, x). P i x) xs \<Longrightarrow> map_of xs i = Some x \<Longrightarrow> P i x"
  by (auto simp: list_all_iff dest: map_of_SomeD)

lemma cleanup_sessions_ok: "sessions_ok g n st \<Longrightarrow> sessions_ok g n (cleanup_sessions now st)"
  by (auto simp: sessions_ok_def cleanup_sessions_def list_all_iff)

lemma session_Delete_ok: "sessions_ok g n st \<Longrightarrow> sessions_ok g n (session_Delete i st)"
  by (simp add: sessions_ok_def session_Delete_def delete_all)

lemma RememberActiveUpstream_ok:
  assumes "sessions_ok g n st"
  shows "sessions_ok g n (RememberActiveUpstream i u st)"
proof (cases "map_of st i")
  case (Some x)
  then have "session_of g n x" using assms map_of_all [of "\<lambda>i. session_of g n"] by (simp add: sessions_ok_def)
  then have "session_of g n (x\<lparr>ss_ActiveUpstream := u\<rparr>)" by (simp add: session_of_def)
  then show ?thesis using assms Some by (simp add: RememberActiveUpstream_def sessions_ok_def update_all)
qed (simp add: RememberActiveUpstream_def assms)

lemma session_Get_ok:
  assumes "sessions_ok g n st" and "session_Get now i st = (found, st1)"
  shows "sessions_ok g n st1" "found = Some x \<Longrightarrow> session_of g n x"
  using assms map_of_all [of "\<lambda>i. session_of g n" st i]
  by (auto simp: sessions_ok_def session_Get_def delete_all split: option.splits if_splits)

lemma RestoreWithSubject_ok:
  "sessions_ok g n st \<Longrightarrow> confirms g n subj conn \<Longrightarrow> sessions_ok g n (RestoreWithSubject now i conn subj st)"
  by (simp add: sessions_ok_def RestoreWithSubject_def update_all session_of_def)

lemma CreateWithSubject_ok:
  assumes "sessions_ok g n st" and "confirms g n subj conn" and "CreateWithSubject m conn subj st s = (res, st1, s1)"
  shows "sessions_ok g n st1"
  using assms by (auto simp: CreateWithSubject_def sessions_ok_def session_of_def intro!: update_all
      split: prod.splits sum.splits)

section \<open>Caches, clients, workspaces\<close>

lemma workspace_of_more: "workspace_of cs k ws \<Longrightarrow> workspace_of (cs @ cs1) k ws"
  by (fastforce simp: workspace_of_def nth_append)

lemma hosted_ok_sessions: "hosted_ok g n h \<Longrightarrow> sessions_ok g n st \<Longrightarrow> hosted_ok g n (h\<lparr>hs_sessions := st\<rparr>)"
  by (simp add: hosted_ok_def)

lemma hosted_ok_jobs: "hosted_ok g n h \<Longrightarrow> list_all (\<lambda>(x, conn). session_of g n x) js \<Longrightarrow> hosted_ok g n (h\<lparr>hs_jobs := js\<rparr>)"
  by (simp add: hosted_ok_def)

lemma hosted_ok_pendings: "hosted_ok g n (h\<lparr>hs_pendings := ps\<rparr>) = hosted_ok g n h"
  "hosted_ok g n (h\<lparr>hs_pendings := ps, hs_pendingCache := pc\<rparr>) = hosted_ok g n h"
  "hosted_ok g n (h\<lparr>hs_pendingCache := pc\<rparr>) = hosted_ok g n h"
  by (simp_all add: hosted_ok_def)

lemma stop_pending_ok [simp]: "hosted_ok g n (stop_pending as h) = hosted_ok g n h"
  by (simp add: stop_pending_def hosted_ok_pendings)

lemma stop_pending_fields [simp]: "hs_sessions (stop_pending as h) = hs_sessions h"
  "hs_clients (stop_pending as h) = hs_clients h" "hs_cache (stop_pending as h) = hs_cache h"
  "hs_jobs (stop_pending as h) = hs_jobs h"
  by (simp_all add: stop_pending_def)

lemma resolver_Stop_ok: "hosted_ok g n h \<Longrightarrow> hosted_ok g n (resolver_Stop h)"
  by (simp add: resolver_Stop_def)

lemma ResetCaches_ok: "hosted_ok g n h \<Longrightarrow> hosted_ok g n (ResetCaches h)"
  by (simp add: ResetCaches_def hosted_ok_def)

lemma InvalidateConnection_ok: "hosted_ok g n h \<Longrightarrow> hosted_ok g n (InvalidateConnection i h)"
  by (simp add: InvalidateConnection_def Let_def hosted_ok_def delete_all)

lemma InvalidateConnection_sessions [simp]: "hs_sessions (InvalidateConnection i h) = hs_sessions h"
  by (simp add: InvalidateConnection_def Let_def stop_pending_def)

lemma hosted_ok_client:
  assumes "hosted_ok g n h" and "client_of g n c"
  shows "hosted_ok g n (h\<lparr>hs_clients := hs_clients h @ [c]\<rparr>)"
proof -
  have "list_all (\<lambda>(k, cw). workspace_of (hs_clients h @ [c]) k (cw_workspace cw)) (hs_cache h)"
    using assms(1) by (auto simp: hosted_ok_def list_all_iff intro: workspace_of_more)
  then show ?thesis using assms by (simp add: hosted_ok_def)
qed

lemma cached_workspace_ok:
  assumes "hosted_ok g n h" and "cached_workspace now k h = (found, h1)"
  shows "hosted_ok g n h1" "hs_clients h1 = hs_clients h" "found = Some ws \<Longrightarrow> workspace_of (hs_clients h) k ws"
  using assms map_of_all [of "\<lambda>k cw. workspace_of (hs_clients h) k (cw_workspace cw)" "hs_cache h" k]
  by (auto simp: hosted_ok_def cached_workspace_def delete_all split: option.splits if_splits)

lemma cacheWorkspace_ok: "hosted_ok g n h \<Longrightarrow> workspace_of (hs_clients h) k ws \<Longrightarrow> hosted_ok g n (cacheWorkspace now k ws h)"
  by (simp add: hosted_ok_def cacheWorkspace_def update_all)

lemma getOrCreatePendingCache_ok:
  assumes "getOrCreatePendingCache k o' d h = (a, h1)"
  shows "hosted_ok g n h1 = hosted_ok g n h" "hs_clients h1 = hs_clients h"
  using assms by (auto simp: getOrCreatePendingCache_def Let_def hosted_ok_pendings split: option.splits)

lemma buildClient_ok:
  assumes "hosted_ok g n h" and "session_of g n x" and "buildClient x conn wl h = (res, h1)"
  shows "hosted_ok g n h1 \<and> (\<exists>cs1. hs_clients h1 = hs_clients h @ cs1)
     \<and> (\<forall>a. res = Inr a \<longrightarrow> a < length (hs_clients h1) \<and> hc_connectionID (hs_clients h1 ! a) = ss_ConnectionID x
            \<and> hc_upstream (hs_clients h1 ! a) = wl_Upstream wl)"
proof (cases "ParseUpstream (wl_Upstream wl)")
  case (Inr od)
  obtain up db where od: "od = (up, db)" by fastforce
  obtain p h2 where p: "getOrCreatePendingCache (ss_ConnectionID x) up db h = (p, h2)" by fastforce
  note ok = getOrCreatePendingCache_ok [OF p]
  obtain c where c: "h1 = h2\<lparr>hs_clients := hs_clients h2 @ [c]\<rparr>" "res = Inr (length (hs_clients h2))"
    "hc_subjectID c = ss_SubjectID x" "hc_connectionID c = ss_ConnectionID x" "hc_upstream c = wl_Upstream wl"
    using assms(3) Inr od p by (auto simp: buildClient_def Let_def)
  have "hosted_ok g n h2" using assms(1) by (simp add: ok(1))
  moreover have "client_of g n c" using assms(2) c by (simp add: client_of_def session_of_def)
  ultimately have "hosted_ok g n h1" unfolding c(1) by (rule hosted_ok_client)
  then show ?thesis using c by (simp add: ok(2))
qed (use assms in \<open>auto simp: buildClient_def\<close>)

lemma workspace_Add_of:
  assumes "workspace_of cs k ws" and "a < length cs" "hc_connectionID (cs ! a) = k" "hc_upstream (cs ! a) = ui_Upstream i"
  shows "workspace_of cs k (workspace_Add i a ws)"
  using assms by (fastforce simp: workspace_of_def workspace_Add_def dest!: update_names)

lemma add_clients_ok:
  assumes "hosted_ok g n h" and "session_of g n x" and "workspace_of (hs_clients h) (ss_ConnectionID x) ws"
    and "add_clients x conn wls ws h = (res, h1)"
  shows "hosted_ok g n h1 \<and> (\<forall>ws1. res = Inr ws1 \<longrightarrow> workspace_of (hs_clients h1) (ss_ConnectionID x) ws1)"
  using assms
proof (induction wls arbitrary: ws h)
  case (Cons wl wls)
  obtain r h2 where b: "buildClient x conn wl h = (r, h2)" by fastforce
  note ok = buildClient_ok [OF Cons.prems(1,2) b]
  show ?case
  proof (cases r)
    case (Inr a)
    let ?ws = "workspace_Add \<lparr>ui_Upstream = wl_Upstream wl, ui_ForkOrg = wl_ForkOrg wl, ui_ForkDB = wl_ForkDB wl,
                 ui_Mode = wl_Mode wl\<rparr> a ws"
    have "workspace_of (hs_clients h2) (ss_ConnectionID x) ws"
      using ok Cons.prems(3) workspace_of_more by auto
    then have "workspace_of (hs_clients h2) (ss_ConnectionID x) ?ws"
      using ok Inr by (intro workspace_Add_of) simp_all
    moreover have "add_clients x conn wls ?ws h2 = (res, h1)" using Cons.prems(4) b Inr by simp
    ultimately show ?thesis using Cons.IH ok Cons.prems(2) by blast
  qed (use Cons.prems(4) ok b in auto)
qed auto

lemma NewWorkspace_of: "workspace_of cs k (NewWorkspace rig)"
  by (simp add: workspace_of_def NewWorkspace_def)

lemma resolveFromConnection_ok:
  assumes "hosted_ok g n h" and "session_of g n x" and "resolveFromConnection now x conn h = (res, h1)"
  shows "hosted_ok g n h1 \<and> (\<forall>ws. res = Inr ws \<longrightarrow> workspace_of (hs_clients h1) (ss_ConnectionID x) ws)"
proof -
  obtain r h2 where r: "add_clients x conn (cs_Wastelands conn) (NewWorkspace (cs_RigHandle conn)) h = (r, h2)" by fastforce
  note ok = add_clients_ok [OF assms(1,2) NewWorkspace_of r]
  show ?thesis
  proof (cases "cs_Wastelands conn = []")
    case False
    then show ?thesis using assms(3) ok r
      by (cases r) (auto simp: resolveFromConnection_def cacheWorkspace_ok, simp add: cacheWorkspace_def)
  qed (use assms in \<open>auto simp: resolveFromConnection_def\<close>)
qed

lemma ResolveContext_ok:
  assumes "hosted_ok g n h" and "session_of g n x"
    and "ResolveContext n (hg_crypto g) (hg_auth g) x h s = (res, h1, s1)"
  shows "hosted_ok g n h1 \<and> (\<forall>ws. res = Inr ws \<longrightarrow> workspace_of (hs_clients h1) (ss_ConnectionID x) ws)"
proof -
  obtain f h2 where c: "cached_workspace (nt_now n s) (ss_ConnectionID x) h = (f, h2)" by fastforce
  note ok = cached_workspace_ok [OF assms(1) c]
  show ?thesis
  proof (cases f)
    case None
    have "resolveMiss n (hg_crypto g) (hg_auth g) x h2 s = (res, h1, s1)" using assms(3) c None
      by (simp add: ResolveContext_def)
    then show ?thesis using ok(1) resolveFromConnection_ok [OF ok(1) assms(2)]
      by (auto simp: resolveMiss_def Let_def split: if_splits prod.splits sum.splits)
  qed (use assms(3) ok c in \<open>auto simp: ResolveContext_def\<close>)
qed

lemma WarmSession_ok: "hosted_ok g n h \<Longrightarrow> session_of g n x \<Longrightarrow> hosted_ok g n (WarmSession x conn h)"
  by (simp add: WarmSession_def hosted_ok_def)

lemma run_warm_ok:
  assumes "hosted_ok g n h"
  shows "hosted_ok g n (run_warm now i h)"
proof (cases "i < length (hs_jobs h)")
  case True
  obtain x conn where j: "hs_jobs h ! i = (x, conn)" by fastforce
  let ?h = "h\<lparr>hs_jobs := take i (hs_jobs h) @ drop (Suc i) (hs_jobs h)\<rparr>"
  have all: "list_all (\<lambda>(x, conn). session_of g n x) (hs_jobs h)" using assms by (simp add: hosted_ok_def)
  then have x: "session_of g n x" using True j by (force simp: list_all_length)
  have h: "hosted_ok g n ?h"
    using assms all by (intro hosted_ok_jobs) (auto simp: list_all_iff dest: in_set_takeD in_set_dropD)
  obtain f h2 where c: "cached_workspace now (ss_ConnectionID x) ?h = (f, h2)" by fastforce
  obtain res h3 where r: "resolveFromConnection now x conn h2 = (res, h3)" by fastforce
  have "hosted_ok g n h2" by (rule cached_workspace_ok(1) [OF h c])
  moreover have "hosted_ok g n h3" using resolveFromConnection_ok [OF calculation x r] by simp
  ultimately show ?thesis using True by (simp add: run_warm_def j c r split: option.split)
qed (simp add: run_warm_def assms)

end
