(* ===== verification/HostedProps.thy ===== *)
theory HostedProps
  imports HostedInv
begin

text \<open>
  Every step of the hosted service keeps the invariant of \<^verbatim>\<open>HostedInv\<close>; the middleware hands a request
  to the API only with a client of the connection of the browser that sent it.
\<close>

section \<open>Handlers\<close>

lemma restoreSession_ok:
  assumes "hosted_ok g n h" and "restoreSession g n r h s = (res, h1, s1)"
  shows "hosted_ok g n h1
    \<and> (\<forall>i x. res = Some (i, x) \<longrightarrow> session_of g n x
         \<and> ReadSubjectCookie (hg_crypto g) (rq_cookie r) (hg_subjectSecret g) = Some (ss_SubjectID x)
         \<and> ReadSessionCookie (hg_crypto g) (rq_cookie r) (hg_sessionSecret g) \<noteq> None)"
proof -
  have st: "sessions_ok g n (hs_sessions h)" using assms(1) by (simp add: hosted_ok_def)
  show ?thesis
  proof (cases "ReadSessionCookie (hg_crypto g) (rq_cookie r) (hg_sessionSecret g)")
    case sc: (Some ic)
    obtain i conn where ic: "ic = (i, conn)" by fastforce
    show ?thesis
    proof (cases "ReadSubjectCookie (hg_crypto g) (rq_cookie r) (hg_subjectSecret g)")
      case sj: (Some subj)
      obtain f st1 where g1: "session_Get (nt_now n s) i (hs_sessions h) = (f, st1)" by fastforce
      note ok = session_Get_ok [OF st g1]
      show ?thesis
      proof (cases f)
        case (Some x)
        then show ?thesis using assms ok g1 sc sj ic by (auto simp: restoreSession_def intro: hosted_ok_sessions split: if_splits)
      next
        case None
        obtain gc s2 where gc: "auth_GetConnection n (hg_crypto g) (hg_auth g) subj conn s = (gc, s2)" by fastforce
        show ?thesis
        proof (cases "conn = [] \<or> (\<exists>e. gc = Inl e)")
          case True
          then show ?thesis using assms ok(1) g1 sc sj ic None gc
            by (auto simp: restoreSession_def intro: hosted_ok_sessions split: if_splits)
        next
          case False
          then obtain d where d: "gc = Inr d" "conn \<noteq> []" by (cases gc) auto
          have c: "confirms g n subj conn" using gc d by (intro confirmsI) simp
          let ?st = "RestoreWithSubject (nt_now n s2) i conn subj st1"
          obtain f2 st2 where g2: "session_Get (nt_now n s2) i ?st = (f2, st2)" by fastforce
          note ok2 = session_Get_ok [OF RestoreWithSubject_ok [OF ok(1) c] g2]
          have "f2 = Some x \<Longrightarrow> ss_SubjectID x = subj" for x
            using g2 by (auto simp: session_Get_def RestoreWithSubject_def update_conv' split: if_splits)
          then show ?thesis using assms ok2 g1 g2 sc sj ic None gc d
            by (auto simp: restoreSession_def Let_def intro: hosted_ok_sessions split: option.splits)
        qed
      qed
    qed (use assms sc ic in \<open>auto simp: restoreSession_def\<close>)
  qed (use assms in \<open>auto simp: restoreSession_def\<close>)
qed

text \<open>A session is the sender's own.\<close>

lemma connected_session_ok:
  assumes "hosted_ok g n h" and "connected_session g n r h s = (res, h1, s1)"
  shows "hosted_ok g n h1" "res = Inr (i, x) \<Longrightarrow> session_of g n x"
  using assms restoreSession_ok [OF assms(1), of r s]
  by (auto simp: connected_session_def split: option.splits prod.splits if_splits)

lemma handleConnectSession_ok:
  "hosted_ok g n h \<Longrightarrow> handleConnectSession g n r h s = (a, h1, s1) \<Longrightarrow> hosted_ok g n h1"
  by (auto simp: handleConnectSession_def Let_def split: option.splits sum.splits prod.splits if_splits)

lemma hosted_ok_remember: "hosted_ok g n h \<Longrightarrow> hosted_ok g n (h\<lparr>hs_sessions := RememberActiveUpstream i u (hs_sessions h)\<rparr>)"
  by (simp add: hosted_ok_def RememberActiveUpstream_ok)

lemma hosted_ok_looked_up:
  assumes "hosted_ok g n h" and "session_Get now i (hs_sessions h) = (found, st)"
  shows "hosted_ok g n (case found of Some x \<Rightarrow> WarmSession x conn (h\<lparr>hs_sessions := st\<rparr>) | None \<Rightarrow> h\<lparr>hs_sessions := st\<rparr>)"
proof -
  have st: "sessions_ok g n (hs_sessions h)" using assms(1) by (simp add: hosted_ok_def)
  note ok = session_Get_ok [OF st assms(2)]
  show ?thesis using ok hosted_ok_sessions [OF assms(1) ok(1)] by (auto intro: WarmSession_ok split: option.split)
qed

lemma handleConnect_ok:
  assumes "hosted_ok g n h" and "handleConnect g n r h s = (a, h1, s1)"
  shows "hosted_ok g n h1"
proof (rule ccontr)
  assume bad: "\<not> hosted_ok g n h1"
  have st: "sessions_ok g n (hs_sessions h)" using assms(1) by (simp add: hosted_ok_def)
  obtain subj where sj: "ReadSubjectCookie (hg_crypto g) (rq_cookie r) (hg_subjectSecret g) = Some subj"
    using assms bad by (cases "ReadSubjectCookie (hg_crypto g) (rq_cookie r) (hg_subjectSecret g)") (auto simp: handleConnect_def)
  obtain req where req: "(case rq_body r of Inr body \<Rightarrow> decode_finalize body | Inl _ \<Rightarrow> None) = Some req"
    using assms bad sj by (cases "case rq_body r of Inr body \<Rightarrow> decode_finalize body | Inl _ \<Rightarrow> None") (auto simp: handleConnect_def)
  have id: "fc_ConnectionID req \<noteq> []" using assms bad sj req by (auto simp: handleConnect_def)
  obtain conn s2 where gc: "auth_GetConnection n (hg_crypto g) (hg_auth g) subj (fc_ConnectionID req) s = (Inr conn, s2)"
    using assms bad sj req id by (cases "auth_GetConnection n (hg_crypto g) (hg_auth g) subj (fc_ConnectionID req) s")
      (auto simp: handleConnect_def split: sum.splits)
  obtain wl where wl: "cs_Wastelands conn \<noteq> []" "selected_wasteland (fc_Upstream req) (cs_Wastelands conn) = Some wl"
    using assms bad sj req id gc by (cases "selected_wasteland (fc_Upstream req) (cs_Wastelands conn)")
      (auto simp: handleConnect_def split: if_splits)
  obtain w s3 where w: "register_fork g subj (fc_ConnectionID req) [wl_Upstream wl, wl_ForkOrg wl, wl_ForkDB wl, cs_RigHandle conn,
        if fc_DisplayName req = [] then cs_RigHandle conn else fc_DisplayName req, fc_Email req] s2 = (w, s3)" by fastforce
  obtain cr st1 s4 where cr: "CreateWithSubject n (fc_ConnectionID req) subj (hs_sessions h) s3 = (cr, st1, s4)"
    by (cases "CreateWithSubject n (fc_ConnectionID req) subj (hs_sessions h) s3") auto
  have "sessions_ok g n st1" by (rule CreateWithSubject_ok [OF st confirmsI [OF gc] cr])
  then have h2: "hosted_ok g n (h\<lparr>hs_sessions := st1\<rparr>)" by (rule hosted_ok_sessions [OF assms(1)])
  show False
  proof (cases cr)
    case (Inr i)
    let ?h = "InvalidateConnection (fc_ConnectionID req) (h\<lparr>hs_sessions := st1\<rparr>)"
    let ?h2 = "?h\<lparr>hs_sessions := RememberActiveUpstream i (wl_Upstream wl) (hs_sessions ?h)\<rparr>"
    have ok: "hosted_ok g n ?h2" by (rule hosted_ok_remember [OF InvalidateConnection_ok [OF h2]])
    obtain f st2 where f: "session_Get (nt_now n s4) i (hs_sessions ?h2) = (f, st2)" by fastforce
    have "h1 = (case f of Some x \<Rightarrow> WarmSession x conn (?h2\<lparr>hs_sessions := st2\<rparr>) | None \<Rightarrow> ?h2\<lparr>hs_sessions := st2\<rparr>)"
      using assms(2) sj req id gc wl w cr Inr f by (simp add: handleConnect_def Let_def)
    then show False using hosted_ok_looked_up [OF ok f] bad by simp
  qed (use assms(2) bad sj req id gc wl w cr h2 in \<open>auto simp: handleConnect_def\<close>)
qed

lemma handleAuthStatus_ok:
  assumes "hosted_ok g n h" and "handleAuthStatus g n r h s = (a, h1, s1)"
  shows "hosted_ok g n h1"
  using assms restoreSession_ok [OF assms(1), of r s]
  by (auto simp: handleAuthStatus_def Let_def split: option.splits sum.splits prod.splits if_splits)

lemma hosted_handleBootstrap_ok:
  assumes "hosted_ok g n h" and "hosted_handleBootstrap g n r h s = (a, h1, s1)"
  shows "hosted_ok g n h1"
  using assms restoreSession_ok [OF assms(1), of r s]
  by (auto simp: hosted_handleBootstrap_def Let_def intro: WarmSession_ok hosted_ok_remember
      split: option.splits sum.splits prod.splits if_splits)

lemma handleLogout_ok: "hosted_ok g n h \<Longrightarrow> handleLogout g n r h s = (a, h1, s1) \<Longrightarrow> hosted_ok g n h1"
  by (auto simp: handleLogout_def Let_def hosted_ok_def session_Delete_ok split: option.splits)

lemma join_session_ok:
  assumes "hosted_ok g n h" and "join_session g n i x req h s = (a, h1, s1)"
  shows "hosted_ok g n h1"
  using assms hosted_ok_remember [OF InvalidateConnection_ok [OF assms(1), of "ss_ConnectionID x"]]
  by (auto simp: join_session_def Let_def split: sum.splits prod.splits)

lemma handleJoin_ok:
  assumes "hosted_ok g n h" and "handleJoin g n r h s = (a, h1, s1)"
  shows "hosted_ok g n h1"
proof -
  obtain c h2 s2 where c: "connected_session g n r h s = (c, h2, s2)" by (cases "connected_session g n r h s") auto
  have "hosted_ok g n h2" by (rule connected_session_ok(1) [OF assms(1) c])
  then show ?thesis using assms(2) c join_session_ok
    by (auto simp: handleJoin_def split: sum.splits prod.splits option.splits if_splits)
qed

lemma handleLeaveWasteland_ok:
  assumes "hosted_ok g n h" and "handleLeaveWasteland g n r h s = (a, h1, s1)"
  shows "hosted_ok g n h1"
proof -
  obtain c h2 s2 where c: "connected_session g n r h s = (c, h2, s2)" by (cases "connected_session g n r h s") auto
  have "hosted_ok g n h2" by (rule connected_session_ok(1) [OF assms(1) c])
  then show ?thesis using assms(2) c InvalidateConnection_ok
    by (auto simp: handleLeaveWasteland_def Let_def split: sum.splits prod.splits if_splits)
qed

section \<open>The middleware\<close>

text \<open>What is known of a request that is handed on: its client is one of its connection and upstream.\<close>

definition own_client :: "hosted_state \<Rightarrow> hosted_request \<Rightarrow> nat \<Rightarrow> bool" where
  "own_client h r a \<longleftrightarrow>
     a < length (hs_clients h) \<and> hc_connectionID (hs_clients h ! a) = rq_connectionID r
   \<and> hc_upstream (hs_clients h ! a) = Get (rq_headers r) ''X-Wasteland''"

lemma impersonated_ok:
  assumes "hosted_ok g n h" and "impersonated env r a h = (b, h1)" and "a < length (hs_clients h)"
  shows "hosted_ok g n h1" "b < length (hs_clients h1)"
    "hc_connectionID (hs_clients h1 ! b) = hc_connectionID (hs_clients h ! a)"
    "hc_upstream (hs_clients h1 ! b) = hc_upstream (hs_clients h ! a)"
proof -
  have "client_of g n (hs_clients h ! a)" using assms(1,3) by (simp add: hosted_ok_def list_all_length)
  then have "client_of g n ((hs_clients h ! a)\<lparr>hc_rigHandle := v\<rparr>)" for v by (simp add: client_of_def)
  then show "hosted_ok g n h1" using assms(1,2) by (auto simp: impersonated_def Let_def hosted_ok_client split: if_splits)
qed (use assms in \<open>auto simp: impersonated_def Let_def split: if_splits\<close>)

lemma with_workspace_ok:
  assumes "hosted_ok g n h" and "workspace_of (hs_clients h) (ss_ConnectionID x) ws" and "with_workspace g r i x ws h = (p, h1)"
    and "rq_client r = None"
  shows "hosted_ok g n h1 \<and> (\<forall>r1. p = Next r1 \<longrightarrow> (case rq_client r1 of
     None \<Rightarrow> rq_method r = ''GET'' | Some a \<Rightarrow> rq_connectionID r1 = ss_ConnectionID x \<and> own_client h1 r1 a))"
proof -
  let ?u = "wanted_upstream r (ActiveUpstream i (hs_sessions h)) (Upstreams ws)"
  show ?thesis
  proof (cases "?u = [] \<or> \<not> isValidUpstream ?u \<or> (\<exists>e. workspace_Client ?u ws = Inl e)")
    case True
    then show ?thesis using assms(1,3,4) by (auto simp: with_workspace_def passOrBlock_def Let_def split: if_splits)
  next
    case False
    then obtain a where a: "workspace_Client ?u ws = Inr a" by (cases "workspace_Client ?u ws") auto
    then have m: "(?u, a) \<in> set (wk_clients ws)"
      by (auto simp: workspace_Client_def dest: map_of_SomeD split: option.splits)
    then have len: "a < length (hs_clients h)" and own: "hc_connectionID (hs_clients h ! a) = ss_ConnectionID x"
      "hc_upstream (hs_clients h ! a) = ?u" using assms(2) by (auto simp: workspace_of_def)
    let ?h = "h\<lparr>hs_sessions := RememberActiveUpstream i ?u (hs_sessions h)\<rparr>"
    let ?r = "r\<lparr>rq_headers := Set (rq_headers r) ''X-Wasteland'' ?u\<rparr>"
    obtain b h2 where b: "impersonated (hg_environment g) ?r a ?h = (b, h2)" by fastforce
    note ok = impersonated_ok [OF hosted_ok_remember [OF assms(1)] b]
    have e: "h1 = h2" "p = Next (withWorkspaceAndClient ws b (withConnectionID (ss_ConnectionID x)
        (with_identity \<lparr>id_Upstream = ?u, id_Viewer = wk_rigHandle ws, id_Public = False\<rparr> ?r)))"
      using assms(3) False a b by (simp_all add: with_workspace_def Let_def)
    show ?thesis using ok len own
      by (simp add: e own_client_def withWorkspaceAndClient_def withConnectionID_def with_identity_def Get_Set)
  qed
qed

lemma AuthMiddleware_ok:
  assumes "hosted_ok g n h" and "AuthMiddleware g n r h s = (p, h1, s1)" and "rq_client r = None"
  shows "hosted_ok g n h1 \<and> (\<forall>r1. p = Next r1 \<longrightarrow> (case rq_client r1 of
     None \<Rightarrow> rq_method r = ''GET'' \<or> HasPrefix (rq_path r) ''/api/auth/'' \<or> \<not> HasPrefix (rq_path r) ''/api/''
   | Some a \<Rightarrow> \<exists>subj. ReadSubjectCookie (hg_crypto g) (rq_cookie r) (hg_subjectSecret g) = Some subj
         \<and> ReadSessionCookie (hg_crypto g) (rq_cookie r) (hg_sessionSecret g) \<noteq> None
         \<and> confirms g n subj (rq_connectionID r1) \<and> own_client h1 r1 a))"
proof (cases "HasPrefix (rq_path r) ''/api/auth/'' \<or> \<not> HasPrefix (rq_path r) ''/api/''")
  case True
  then show ?thesis using assms by (auto simp: AuthMiddleware_def split: if_splits)
next
  case False
  obtain res h2 s2 where re: "restoreSession g n r h s = (res, h2, s2)" by (cases "restoreSession g n r h s") auto
  note ok = restoreSession_ok [OF assms(1) re]
  show ?thesis
  proof (cases res)
    case None
    then show ?thesis using assms False re ok by (auto simp: AuthMiddleware_def passOrBlock_def split: if_splits)
  next
    case (Some ix)
    obtain i x where ix: "ix = (i, x)" by fastforce
    have x: "session_of g n x" "hosted_ok g n h2" using ok Some ix by auto
    obtain w h3 s3 where w: "ResolveContext n (hg_crypto g) (hg_auth g) x h2 s2 = (w, h3, s3)"
      by (cases "ResolveContext n (hg_crypto g) (hg_auth g) x h2 s2") auto
    note wok = ResolveContext_ok [OF x(2,1) w]
    show ?thesis
    proof (cases "ss_ConnectionID x = [] \<or> (\<exists>e. w = Inl e)")
      case True
      then show ?thesis using assms False re Some ix w wok ok
        by (auto simp: AuthMiddleware_def passOrBlock_def split: if_splits)
    next
      case there: False
      then obtain ws where ws: "w = Inr ws" by (cases w) auto
      obtain q h4 where q: "with_workspace g r i x ws h3 = (q, h4)" by fastforce
      have e: "p = q" "h1 = h4" using assms(2) False re Some ix w ws there q by (simp_all add: AuthMiddleware_def)
      have wo: "workspace_of (hs_clients h3) (ss_ConnectionID x) ws" using wok ws by simp
      have s: "confirms g n (ss_SubjectID x) (ss_ConnectionID x)" using x(1) by (simp add: session_of_def)
      show ?thesis using with_workspace_ok [OF conjunct1 [OF wok] wo q assms(3)] ok Some ix s e
        by (auto split: option.splits)
    qed
  qed
qed

section \<open>Runs\<close>

text \<open>
  A step: any request on any route in any world, the clean-up of sessions, a warm-up, anything in the pending
  caches, a change of a client's settings, and the resets of the resolver.  A request from outside has no
  context of the service's own.
\<close>

inductive hosted_step :: "'s AuthServiceServer \<Rightarrow> 's net \<Rightarrow> hosted_state \<Rightarrow> hosted_state \<Rightarrow> bool"
  for g :: "'s AuthServiceServer" and n :: "'s net" where
  answers: "hosted_Handler g n route r h s = (p, h1, s1) \<Longrightarrow> rq_client r = None \<Longrightarrow> hosted_step g n h h1"
| cleans_up: "hosted_step g n h (h\<lparr>hs_sessions := cleanup_sessions now (hs_sessions h)\<rparr>)"
| warms_up: "hosted_step g n h (run_warm now i h)"
| refreshes: "hosted_step g n h (h\<lparr>hs_pendings := ps\<rparr>)"
| saves: "c \<in> set (hs_clients h) \<Longrightarrow> hosted_SaveConfig n (hg_crypto g) (hg_auth g) c mode signing h s = (e, h1, s1)
    \<Longrightarrow> hosted_step g n h h1"
| resets: "hosted_step g n h (ResetCaches h)"
| stops: "hosted_step g n h (resolver_Stop h)"

definition hosted_run :: "'s AuthServiceServer \<Rightarrow> 's net \<Rightarrow> hosted_state \<Rightarrow> bool" where
  "hosted_run g n h \<longleftrightarrow> (hosted_step g n)\<^sup>*\<^sup>* (NewAuthServiceWorkspaceResolver NewSessionStore) h"

lemma hosted_Handler_ok:
  assumes "hosted_ok g n h" and "hosted_Handler g n route r h s = (p, h1, s1)" and "rq_client r = None"
  shows "hosted_ok g n h1"
proof (cases route)
  case Route_other
  then show ?thesis using AuthMiddleware_ok [OF assms(1) _ assms(3)] assms(2) by auto
qed (use assms in \<open>auto simp: apfst_def map_prod_def split: prod.splits
  intro: handleConnect_ok handleAuthStatus_ok hosted_handleBootstrap_ok handleLogout_ok handleConnectSession_ok
    handleJoin_ok handleLeaveWasteland_ok\<close>)

lemma hosted_step_ok: "hosted_step g n h h1 \<Longrightarrow> hosted_ok g n h \<Longrightarrow> hosted_ok g n h1"
proof (induction rule: hosted_step.induct)
  case (cleans_up h now)
  then show ?case by (simp add: hosted_ok_def cleanup_sessions_ok)
next
  case (saves c h mode signing s e h1 s1)
  then show ?case by (auto simp: hosted_SaveConfig_def InvalidateConnection_ok split: prod.splits sum.splits)
qed (simp_all add: hosted_Handler_ok run_warm_ok hosted_ok_pendings ResetCaches_ok resolver_Stop_ok)

lemma hosted_run_ok: "hosted_run g n h \<Longrightarrow> hosted_ok g n h"
proof -
  assume "hosted_run g n h"
  then have "(hosted_step g n)\<^sup>*\<^sup>* (NewAuthServiceWorkspaceResolver NewSessionStore) h" by (simp add: hosted_run_def)
  then show ?thesis
    by (induction rule: rtranclp_induct)
      (simp_all add: hosted_ok_def sessions_ok_def NewAuthServiceWorkspaceResolver_def NewSessionStore_def hosted_step_ok
        [unfolded hosted_ok_def sessions_ok_def])
qed

text \<open>
  C6: In every state the hosted service can reach, the middleware hands an API request on with a client
  only if both cookies of the browser verify and the auth service has confirmed the connection for the
  browser's subject, and the client is one of this connection and of the upstream the request names;
  without a client only reads are handed on.
\<close>

theorem middleware_hands_on_own_clients:
  assumes "hosted_run g n h" and "AuthMiddleware g n r h s = (Next r1, h1, s1)" and "rq_client r = None"
    and "HasPrefix (rq_path r) ''/api/''" and "\<not> HasPrefix (rq_path r) ''/api/auth/''"
  shows "case rq_client r1 of
     None \<Rightarrow> rq_method r = ''GET''
   | Some a \<Rightarrow> (\<exists>subj. ReadSubjectCookie (hg_crypto g) (rq_cookie r) (hg_subjectSecret g) = Some subj
         \<and> confirms g n subj (rq_connectionID r1))
       \<and> ReadSessionCookie (hg_crypto g) (rq_cookie r) (hg_sessionSecret g) \<noteq> None
       \<and> a < length (hs_clients h1) \<and> hc_connectionID (hs_clients h1 ! a) = rq_connectionID r1
       \<and> hc_upstream (hs_clients h1 ! a) = Get (rq_headers r1) ''X-Wasteland''"
  using AuthMiddleware_ok [OF hosted_run_ok [OF assms(1)] assms(2,3)] assms(4,5)
  by (auto simp: own_client_def split: option.splits)

text \<open>A browser with both cookies that has lost its session reads from an upstream of its connection.\<close>

definition sample_crypto :: auth_crypto where
  "sample_crypto = \<lparr>ac_sha = (\<lambda>_. []), ac_hmac = (\<lambda>_ _. ''A''), ac_parse_time = (\<lambda>_. None), ac_format_time = (\<lambda>_. [])\<rparr>"

definition sample_answer :: string where
  "sample_answer = ''{\"wastelands\":[{\"upstream\":\"o/d\"}]}''"

definition sample_net :: "unit net" where
  "sample_net = \<lparr>nt_url = (\<lambda>_. Inr ([], [])), nt_random = (\<lambda>_ s. (Inr ''r'', s)), nt_do = (\<lambda>_ s. (Inr (200, Inr sample_answer), s)),
     nt_sleep = (\<lambda>_ s. s), nt_now = (\<lambda>_. 0), nt_done = (\<lambda>_. None), nt_lower = id, nt_json_error = id, nt_env = id\<rparr>"

definition sample_server :: "unit AuthServiceServer" where
  "sample_server = \<lparr>hg_auth = NewClient [] [] [] [] [], hg_crypto = sample_crypto, hg_sessionSecret = [],
     hg_subjectSecret = [], hg_environment = [], hg_registrar = None, hg_time_text = (\<lambda>_. [])\<rparr>"

definition sample_request :: hosted_request where
  "sample_request = \<lparr>rq_method = ''GET'', rq_path = ''/api/wanted'', rq_query = [], rq_headers = [], rq_value = (\<lambda>_. []), rq_body = Inr [],
     rq_identity = None,
     rq_cookie = (\<lambda>name. if name = cookieName then Some ''s.c.41'' else Some ''u.41''), rq_connectionID = [],
     rq_workspace = None, rq_client = None\<rparr>"

lemma sample_members: "struct_members sample_answer = Some [(''wastelands'', JArr [JObj [(''upstream'', JStr ''o/d'')]])]"
  by code_simp

definition sample_conn :: ConnectionResponse where
  "sample_conn = zero_connection\<lparr>cs_Wastelands :=
     [\<lparr>wl_Upstream = ''o/d'', wl_ForkOrg = [], wl_ForkDB = [], wl_Mode = [], wl_Signing = False\<rparr>]\<rparr>"

lemma sample_decode: "decode_connection k [(''wastelands'', JArr [JObj [(''upstream'', JStr ''o/d'')]])] = Some sample_conn"
  by code_simp

lemma sample_connection: "auth_GetConnection sample_net (hg_crypto sample_server) c subj conn s = (Inr sample_conn, s)"
proof -
  have "sample_answer \<noteq> []" by (simp add: sample_answer_def)
  then show ?thesis
    by (simp add: auth_GetConnection_def doServiceJSON_def sample_net_def Let_def randomHex_def sample_decode sample_members
        sample_server_def del: Sprintf.simps)
qed

lemma sample_cookies:
  "ReadSessionCookie sample_crypto (rq_cookie sample_request) [] = Some (''s'', ''c'')"
  "ReadSubjectCookie sample_crypto (rq_cookie sample_request) [] = Some ''u''"
proof -
  have h: "hex_text ''A'' = ''41''" by code_simp
  have m: "cookie_mac sample_crypto x y = ''41''" for x y
    by (simp add: cookie_mac_def sample_crypto_def h)
  show "ReadSessionCookie sample_crypto (rq_cookie sample_request) [] = Some (''s'', ''c'')"
    by (simp add: ReadSessionCookie_def sample_request_def VerifySessionCookie_def cut_last_def Cut_def m)
  show "ReadSubjectCookie sample_crypto (rq_cookie sample_request) [] = Some ''u''"
    by (simp add: ReadSubjectCookie_def sample_request_def subjectCookieName_def cookieName_def VerifySubjectID_def
        VerifySessionID_def cut_last_def Cut_def m)
qed

lemma sample_upstream: "ParseUpstream ''o/d'' = Inr (''o'', ''d'')" "isValidUpstream ''o/d''"
  by (simp add: ParseUpstream_def Cut_def, code_simp)

lemma sample_now: "nt_now sample_net s = 0"
  by (simp add: sample_net_def)

definition sample_state :: hosted_state where
  "sample_state = NewAuthServiceWorkspaceResolver NewSessionStore"

lemma sample_restored: "restoreSession sample_server sample_net sample_request sample_state ()
   = (Some (''s'', \<lparr>ss_ID = ''s'', ss_SubjectID = ''u'', ss_ConnectionID = ''c'', ss_ActiveUpstream = [],
        ss_CreatedAt = - (sessionTTL div 2)\<rparr>),
      sample_state\<lparr>hs_sessions := [(''s'', \<lparr>ss_ID = ''s'', ss_SubjectID = ''u'', ss_ConnectionID = ''c'', ss_ActiveUpstream = [],
        ss_CreatedAt = - (sessionTTL div 2)\<rparr>)]\<rparr>, ())"
proof -
  have k: "hg_crypto sample_server = sample_crypto" "hg_sessionSecret sample_server = []" "hg_subjectSecret sample_server = []"
    by (simp_all add: sample_server_def)
  have e: "hs_sessions sample_state = []"
    by (simp add: sample_state_def NewAuthServiceWorkspaceResolver_def NewSessionStore_def)
  show ?thesis
    by (simp add: restoreSession_def k sample_cookies e session_Get_def sample_connection [unfolded k] RestoreWithSubject_def
        sample_now session_expired_def sessionTTL_def)
qed


lemma sample_passes: "\<exists>h r. AuthMiddleware sample_server sample_net sample_request sample_state () = (Next r, h, ())
   \<and> rq_client r = Some 0"
proof -
  have u: "HasPrefix (rq_path sample_request) ''/api/''" "\<not> HasPrefix (rq_path sample_request) ''/api/auth/''"
    by (simp_all add: sample_request_def)
  have c: "cs_Wastelands sample_conn = [\<lparr>wl_Upstream = ''o/d'', wl_ForkOrg = [], wl_ForkDB = [], wl_Mode = [], wl_Signing = False\<rparr>]"
    by (simp add: sample_conn_def)
  have st: "hs_cache sample_state = []" "hs_clients sample_state = []" "hs_pendingCache sample_state = []"
    "hs_pendings sample_state = []"
    by (simp_all add: sample_state_def NewAuthServiceWorkspaceResolver_def)
  have r: "rq_method sample_request = ''GET''" "rq_headers sample_request = []"
    by (simp_all add: sample_request_def)
  have e: "hg_environment sample_server = []" by (simp add: sample_server_def)
  show ?thesis
    by (simp add: AuthMiddleware_def u sample_restored ResolveContext_def cached_workspace_def resolveMiss_def
        st sample_connection resolveFromConnection_def c Let_def
        buildClient_def sample_upstream getOrCreatePendingCache_def workspace_Add_def NewWorkspace_def cacheWorkspace_def
        with_workspace_def wanted_upstream_def r ActiveUpstream_def Upstreams_def Get_def workspace_Client_def
        impersonated_def withWorkspaceAndClient_def e)
qed

theorem middleware_hands_on_own_clients_witness:
  "\<exists>h r. AuthMiddleware sample_server sample_net sample_request sample_state () = (Next r, h, ())
     \<and> rq_client r = Some 0 \<and> hc_connectionID (hs_clients h ! 0) = rq_connectionID r
     \<and> (\<exists>subj. confirms sample_server sample_net subj (rq_connectionID r))"
proof -
  obtain h r where p: "AuthMiddleware sample_server sample_net sample_request sample_state () = (Next r, h, ())"
    "rq_client r = Some 0" using sample_passes by blast
  have run: "hosted_run sample_server sample_net sample_state" by (simp add: hosted_run_def sample_state_def)
  have q: "rq_client sample_request = None" "HasPrefix (rq_path sample_request) ''/api/''"
    "\<not> HasPrefix (rq_path sample_request) ''/api/auth/''" by (simp_all add: sample_request_def)
  show ?thesis using middleware_hands_on_own_clients [OF run p(1) q] p by auto
qed

section \<open>Logging out\<close>

text \<open>
  A logout removes the session from memory and asks the browser to drop the cookie; the cookie itself stays
  good: whoever still has both cookies gets the session back.  The same holds for a session that has expired.
\<close>

lemma session_survives_logout:
  assumes "ReadSessionCookie (hg_crypto g) (rq_cookie r) (hg_sessionSecret g) = Some (i, conn)" and "conn \<noteq> []"
    and "ReadSubjectCookie (hg_crypto g) (rq_cookie r) (hg_subjectSecret g) = Some subj"
    and "handleLogout g n r h s = (a, h1, s1)"
    and "auth_GetConnection n (hg_crypto g) (hg_auth g) subj conn s2 = (Inr d, s3)"
  shows "\<exists>x. fst (restoreSession g n r h1 s2) = Some (i, x) \<and> ss_SubjectID x = subj \<and> ss_ConnectionID x = conn"
proof -
  have h1: "hs_sessions h1 = session_Delete i (hs_sessions h)" using assms(1,4) by (auto simp: handleLogout_def Let_def)
  have "session_Get (nt_now n s2) i (hs_sessions h1) = (None, hs_sessions h1)"
    by (simp add: session_Get_def h1 session_Delete_def delete_conv')
  then show ?thesis
    using assms(1,2,3,5)
    by (simp add: restoreSession_def session_Get_def RestoreWithSubject_def update_conv' session_expired_def sessionTTL_def)
qed

section \<open>Impersonating\<close>

text \<open>The identity that reads are cached for is the rig of the workspace, whatever \<^verbatim>\<open>X-Impersonate\<close> says.\<close>

lemma impersonation_keeps_identity:
  assumes "with_workspace g r i x ws h = (Next r1, h1)" and "rq_client r = None" and "rq_client r1 = Some b"
  shows "rq_identity r1 = rq_identity (WithResolvedReadIdentity
    \<lparr>id_Upstream = wanted_upstream r (ActiveUpstream i (hs_sessions h)) (Upstreams ws), id_Viewer = wk_rigHandle ws,
     id_Public = False\<rparr> (api_request.truncate r))"
  using assms
  by (auto simp: with_workspace_def passOrBlock_def Let_def withWorkspaceAndClient_def withConnectionID_def with_identity_def
      WithResolvedReadIdentity_def split: if_splits sum.splits prod.splits)

lemma impersonation_changes_rig:
  assumes "Get (rq_headers r) ''X-Impersonate'' = rig" and "rig \<noteq> []" and "a < length (hs_clients h)"
    and "impersonated ''staging'' r a h = (b, h1)"
  shows "hc_rigHandle (hs_clients h1 ! b) = rig"
  using assms by (auto simp: impersonated_def Let_def)

end
