(* ===== verification/Scoreboard.thy ===== *)
theory Scoreboard
  imports CommonsOps "HOL-Library.AList" "HOL-Library.List_Lexorder" "HOL-Library.Char_ord" "HOL-Library.Product_Lexorder"
begin

text \<open>
  \<^verbatim>\<open>internal/commons/leaderboard.go\<close> and \<^verbatim>\<open>scoreboard.go\<close>: the ranked rigs with their
  averages, completions, most frequent skills and names.  A \<^verbatim>\<open>float64\<close> is a value of the type \<open>'f\<close>,
  which \<open>pf\<close> (\<^verbatim>\<open>strconv.ParseFloat\<close>) reads; \<open>uni\<close> folds letters outside ASCII.  A Go map is
  an association list, whose order stands for the order of an iteration.
\<close>

section \<open>Numbers of a row\<close>

text \<open>\<^verbatim>\<open>strconv.Atoi\<close> with its error.\<close>

definition Atoi_err :: "string \<Rightarrow> go_error + int" where
  "Atoi_err s =
     (let (v, bad) = Atoi s
      in if \<not> bad then Inr v
         else Inl (Err (''strconv.Atoi: parsing '' @ Quote s @ '': '' @ (if v = 0 then ''invalid syntax'' else ''value out of range''))))"

text \<open>A field of a row, or the error that names it and the row.\<close>

definition row_int :: "csv_row \<Rightarrow> string \<Rightarrow> string \<Rightarrow> string \<Rightarrow> go_error + int" where
  "row_int row col what who =
     (case Atoi_err (row_get row col) of
        Inr v \<Rightarrow> Inr v
      | Inl err \<Rightarrow> Inl (Wrap (''parsing '' @ what @ '' for '' @ Quote who @ '': '') err))"

definition row_float :: "(string \<Rightarrow> go_error + 'f) \<Rightarrow> csv_row \<Rightarrow> string \<Rightarrow> string \<Rightarrow> go_error + 'f" where
  "row_float pf row col who =
     (case pf (row_get row col) of
        Inr v \<Rightarrow> Inr v
      | Inl err \<Rightarrow> Inl (Wrap (''parsing '' @ col @ '' for '' @ Quote who @ '': '') err))"

text \<open>\<^verbatim>\<open>for _, row := range rows\<close> with a return at the first error.\<close>

fun parse_rows :: "(csv_row \<Rightarrow> go_error + 'a) \<Rightarrow> csv_row list \<Rightarrow> go_error + 'a list" where
  "parse_rows p [] = Inr []"
| "parse_rows p (row # rows) =
     (case p row of
        Inl err \<Rightarrow> Inl err
      | Inr x \<Rightarrow> (case parse_rows p rows of Inl err \<Rightarrow> Inl err | Inr xs \<Rightarrow> Inr (x # xs)))"

definition board_limit :: "int \<Rightarrow> int" where
  "board_limit limit = (let l = (if limit \<le> 0 then 20 else limit) in if 100 < l then 100 else l)"

definition quoted_list :: "string list \<Rightarrow> string" where
  "quoted_list hs = Join (map (\<lambda>h. Sprintf (sq ''`%s`'') [FS (EscapeSQL h)]) hs) '',''"

section \<open>Skills\<close>

type_synonym freq = "(string \<times> nat) list"

definition bump :: "string \<Rightarrow> freq \<Rightarrow> freq" where
  "bump tag f = AList.update tag (case map_of f tag of Some k \<Rightarrow> Suc k | None \<Rightarrow> 1) f"

definition add_tags :: "(string \<Rightarrow> string) \<Rightarrow> string \<Rightarrow> csv_row \<Rightarrow> (string \<rightharpoonup> freq) \<Rightarrow> (string \<rightharpoonup> freq)" where
  "add_tags uni col row perRig =
     (let rig = row_get row col; tags = parseTagsJSON (row_get row ''skill_tags'')
      in if tags = [] then perRig
         else perRig(rig \<mapsto> fold (\<lambda>tag. bump (ToLower uni tag)) tags (case perRig rig of Some f \<Rightarrow> f | None \<Rightarrow> [])))"

text \<open>Selection sort of the first \<open>n\<close> places: more counts first, then the smaller key.\<close>

definition ranks_before :: "string \<times> nat \<Rightarrow> string \<times> nat \<Rightarrow> bool" where
  "ranks_before a b \<longleftrightarrow> snd b < snd a \<or> snd a = snd b \<and> fst a < fst b"

definition best_from :: "freq \<Rightarrow> nat \<Rightarrow> nat" where
  "best_from xs i = foldl (\<lambda>best j. if ranks_before (xs ! j) (xs ! best) then j else best) i [Suc i..<length xs]"

definition select_at :: "freq \<Rightarrow> nat \<Rightarrow> freq" where
  "select_at xs i = (let best = best_from xs i in xs[i := xs ! best, best := xs ! i])"

definition topNKeys :: "freq \<Rightarrow> nat \<Rightarrow> string list" where
  "topNKeys freq n =
     (let sorted = foldl select_at freq [0..<min (length freq) n] in map fst (take n sorted))"

section \<open>Leaderboard\<close>

record 'f LeaderboardEntry =
  lb_RigHandle :: string
  lb_Completions :: int
  lb_AvgQuality :: 'f
  lb_AvgReliab :: 'f
  lb_AvgCreativity :: 'f
  lb_TopSkills :: "string list"

definition leaderboard_query :: "int \<Rightarrow> string" where
  "leaderboard_query limit =
     Sprintf (sq (Join
       [''SELECT'',
        ''  c.completed_by,'',
        ''  COUNT(*) AS completions,'',
        ''  COALESCE(AVG(JSON_EXTRACT(s.valence, `$.quality`)), 0) AS avg_quality,'',
        ''  COALESCE(AVG(JSON_EXTRACT(s.valence, `$.reliability`)), 0) AS avg_reliability,'',
        ''  COALESCE(AVG(JSON_EXTRACT(s.valence, `$.creativity`)), 0) AS avg_creativity'',
        ''FROM completions c'',
        ''JOIN stamps s ON c.stamp_id = s.id'',
        ''GROUP BY c.completed_by'',
        ''ORDER BY completions DESC, avg_quality DESC, c.completed_by ASC'',
        ''LIMIT %d''] [nl_ch])) [FD limit]"

definition leaderboard_row :: "(string \<Rightarrow> go_error + 'f) \<Rightarrow> csv_row \<Rightarrow> go_error + 'f LeaderboardEntry" where
  "leaderboard_row pf row =
     (let who = row_get row ''completed_by''
      in case row_int row ''completions'' ''completions'' who of
           Inl err \<Rightarrow> Inl err
         | Inr completions \<Rightarrow>
             (case row_float pf row ''avg_quality'' who of
                Inl err \<Rightarrow> Inl err
              | Inr q \<Rightarrow>
                  (case row_float pf row ''avg_reliability'' who of
                     Inl err \<Rightarrow> Inl err
                   | Inr r \<Rightarrow>
                       (case row_float pf row ''avg_creativity'' who of
                          Inl err \<Rightarrow> Inl err
                        | Inr c \<Rightarrow>
                            Inr \<lparr>lb_RigHandle = who, lb_Completions = completions, lb_AvgQuality = q, lb_AvgReliab = r,
                                 lb_AvgCreativity = c, lb_TopSkills = []\<rparr>))))"

definition top_skills_query :: "string list \<Rightarrow> string" where
  "top_skills_query handles =
     Sprintf (sq (Join
       [''SELECT c.completed_by, s.skill_tags'',
        ''FROM completions c'',
        ''JOIN stamps s ON c.stamp_id = s.id'',
        ''WHERE c.completed_by IN (%s) AND s.skill_tags IS NOT NULL AND s.skill_tags != ``'',
        ''ORDER BY c.completed_by''] [nl_ch])) [FS (quoted_list handles)]"

text \<open>The skills of a rig in the rows of an answer.\<close>

definition top_skills :: "(string \<Rightarrow> string) \<Rightarrow> string \<Rightarrow> csv_row list \<Rightarrow> string \<Rightarrow> string list" where
  "top_skills uni col rows rig =
     (let perRig = fold (add_tags uni col) rows Map.empty
      in topNKeys (case perRig rig of Some f \<Rightarrow> f | None \<Rightarrow> []) 5)"

definition populateTopSkills ::
  "(string \<Rightarrow> string) \<Rightarrow> 's DB \<Rightarrow> 'f LeaderboardEntry list \<Rightarrow> 's \<Rightarrow> go_error + 'f LeaderboardEntry list" where
  "populateTopSkills uni db entries s =
     (if entries = [] then Inr entries
      else (case db_Query db (top_skills_query (map lb_RigHandle entries)) [] s of
              Inl err \<Rightarrow> Inl err
            | Inr output \<Rightarrow>
                Inr (map (\<lambda>e. e\<lparr>lb_TopSkills := top_skills uni ''completed_by'' (parseSimpleCSV output) (lb_RigHandle e)\<rparr>) entries)))"

definition QueryLeaderboard ::
  "(string \<Rightarrow> go_error + 'f) \<Rightarrow> (string \<Rightarrow> string) \<Rightarrow> 's DB \<Rightarrow> int \<Rightarrow> 's \<Rightarrow> go_error + 'f LeaderboardEntry list" where
  "QueryLeaderboard pf uni db limit s =
     (case db_Query db (leaderboard_query (board_limit limit)) [] s of
        Inl err \<Rightarrow> Inl (Wrap ''querying leaderboard: '' err)
      | Inr output \<Rightarrow>
          (case parse_rows (leaderboard_row pf) (parseSimpleCSV output) of
             Inl err \<Rightarrow> Inl err
           | Inr entries \<Rightarrow>
               (case populateTopSkills uni db entries s of
                  Inl err \<Rightarrow> Inl (Wrap ''querying top skills: '' err)
                | Inr es \<Rightarrow> Inr es)))"

section \<open>Scoreboard\<close>

record 'f ScoreboardEntry =
  sb_RigHandle :: string
  sb_DisplayName :: string
  sb_StampCount :: int
  sb_WeightedScore :: int
  sb_UniqueTowns :: int
  sb_Completions :: int
  sb_AvgQuality :: 'f
  sb_AvgReliab :: 'f
  sb_AvgCreativity :: 'f
  sb_TopSkills :: "string list"
  sb_TrustTier :: string

definition DeriveTrustTier :: "int \<Rightarrow> string" where
  "DeriveTrustTier weightedScore =
     (if 50 \<le> weightedScore then ''maintainer''
      else if 25 \<le> weightedScore then ''trusted''
      else if 10 \<le> weightedScore then ''contributor''
      else if 3 \<le> weightedScore then ''newcomer''
      else ''outsider'')"

definition scoreboard_query :: "int \<Rightarrow> string" where
  "scoreboard_query limit =
     Sprintf (sq (Join
       [''SELECT'',
        ''  s.subject,'',
        ''  COUNT(*) AS stamp_count,'',
        ''  SUM(CASE s.severity WHEN `root` THEN 5 WHEN `branch` THEN 3 WHEN `leaf` THEN 1 ELSE 0 END) AS weighted_score,'',
        ''  COUNT(DISTINCT s.author) AS unique_towns,'',
        ''  COALESCE(AVG(JSON_EXTRACT(s.valence, `$.quality`)), 0) AS avg_quality,'',
        ''  COALESCE(AVG(JSON_EXTRACT(s.valence, `$.reliability`)), 0) AS avg_reliability,'',
        ''  COALESCE(AVG(JSON_EXTRACT(s.valence, `$.creativity`)), 0) AS avg_creativity'',
        ''FROM stamps s'',
        ''GROUP BY s.subject'',
        ''ORDER BY weighted_score DESC, stamp_count DESC, s.subject ASC'',
        ''LIMIT %d''] [nl_ch])) [FD limit]"

definition scoreboard_row :: "(string \<Rightarrow> go_error + 'f) \<Rightarrow> csv_row \<Rightarrow> go_error + 'f ScoreboardEntry" where
  "scoreboard_row pf row =
     (let who = row_get row ''subject''
      in case row_int row ''stamp_count'' ''stamp_count'' who of
           Inl err \<Rightarrow> Inl err
         | Inr stampCount \<Rightarrow>
             (case row_int row ''weighted_score'' ''weighted_score'' who of
                Inl err \<Rightarrow> Inl err
              | Inr weighted \<Rightarrow>
                  (case row_int row ''unique_towns'' ''unique_towns'' who of
                     Inl err \<Rightarrow> Inl err
                   | Inr towns \<Rightarrow>
                       (case row_float pf row ''avg_quality'' who of
                          Inl err \<Rightarrow> Inl err
                        | Inr q \<Rightarrow>
                            (case row_float pf row ''avg_reliability'' who of
                               Inl err \<Rightarrow> Inl err
                             | Inr r \<Rightarrow>
                                 (case row_float pf row ''avg_creativity'' who of
                                    Inl err \<Rightarrow> Inl err
                                  | Inr c \<Rightarrow>
                                      Inr \<lparr>sb_RigHandle = who, sb_DisplayName = [], sb_StampCount = stampCount,
                                           sb_WeightedScore = weighted, sb_UniqueTowns = towns, sb_Completions = 0,
                                           sb_AvgQuality = q, sb_AvgReliab = r, sb_AvgCreativity = c, sb_TopSkills = [],
                                           sb_TrustTier = DeriveTrustTier weighted\<rparr>))))))"

text \<open>A map made of the rows: a later row of a key replaces an earlier one.\<close>

definition rows_map :: "(csv_row \<Rightarrow> string) \<Rightarrow> (csv_row \<Rightarrow> 'a) \<Rightarrow> csv_row list \<Rightarrow> (string \<rightharpoonup> 'a)" where
  "rows_map key val rows = fold (\<lambda>row m. m(key row \<mapsto> val row)) rows Map.empty"

definition completions_query :: "string list \<Rightarrow> string" where
  "completions_query handles =
     Sprintf (sq (Join
       [''SELECT completed_by, COUNT(*) AS completions'',
        ''FROM completions'',
        ''WHERE stamp_id IS NOT NULL AND completed_by IN (%s)'',
        ''GROUP BY completed_by''] [nl_ch])) [FS (quoted_list handles)]"

definition populateScoreboardCompletions ::
  "'s DB \<Rightarrow> 'f ScoreboardEntry list \<Rightarrow> 's \<Rightarrow> go_error + 'f ScoreboardEntry list" where
  "populateScoreboardCompletions db entries s =
     (if entries = [] then Inr entries
      else (case db_Query db (completions_query (map sb_RigHandle entries)) [] s of
              Inl err \<Rightarrow> Inl err
            | Inr output \<Rightarrow>
                (case parse_rows (\<lambda>row. case row_int row ''completions'' ''completion count'' (row_get row ''completed_by'') of
                          Inl err \<Rightarrow> Inl err | Inr c \<Rightarrow> Inr (row_get row ''completed_by'', c)) (parseSimpleCSV output) of
                   Inl err \<Rightarrow> Inl err
                 | Inr counts \<Rightarrow>
                     Inr (map (\<lambda>e. e\<lparr>sb_Completions := (case map_of (rev counts) (sb_RigHandle e) of Some c \<Rightarrow> c | None \<Rightarrow> 0)\<rparr>)
                            entries))))"

definition skills_query :: "string list \<Rightarrow> string" where
  "skills_query handles =
     Sprintf (sq (Join
       [''SELECT s.subject, s.skill_tags'',
        ''FROM stamps s'',
        ''WHERE s.subject IN (%s) AND s.skill_tags IS NOT NULL AND s.skill_tags != ``'',
        ''ORDER BY s.subject''] [nl_ch])) [FS (quoted_list handles)]"

definition populateScoreboardSkills ::
  "(string \<Rightarrow> string) \<Rightarrow> 's DB \<Rightarrow> 'f ScoreboardEntry list \<Rightarrow> 's \<Rightarrow> go_error + 'f ScoreboardEntry list" where
  "populateScoreboardSkills uni db entries s =
     (if entries = [] then Inr entries
      else (case db_Query db (skills_query (map sb_RigHandle entries)) [] s of
              Inl err \<Rightarrow> Inl err
            | Inr output \<Rightarrow>
                Inr (map (\<lambda>e. e\<lparr>sb_TopSkills := top_skills uni ''subject'' (parseSimpleCSV output) (sb_RigHandle e)\<rparr>) entries)))"

definition names_query :: "string list \<Rightarrow> string" where
  "names_query handles =
     Sprintf (sq (Join
       [''SELECT handle, COALESCE(display_name, ``) AS display_name'',
        ''FROM rigs'',
        ''WHERE handle IN (%s)''] [nl_ch])) [FS (quoted_list handles)]"

definition populateScoreboardDisplayNames ::
  "'s DB \<Rightarrow> 'f ScoreboardEntry list \<Rightarrow> 's \<Rightarrow> go_error + 'f ScoreboardEntry list" where
  "populateScoreboardDisplayNames db entries s =
     (if entries = [] then Inr entries
      else (case db_Query db (names_query (map sb_RigHandle entries)) [] s of
              Inl err \<Rightarrow> Inl err
            | Inr output \<Rightarrow>
                (let names = rows_map (\<lambda>row. row_get row ''handle'') (\<lambda>row. row_get row ''display_name'') (parseSimpleCSV output)
                 in Inr (map (\<lambda>e. e\<lparr>sb_DisplayName := (case names (sb_RigHandle e) of Some nm \<Rightarrow> nm | None \<Rightarrow> [])\<rparr>) entries))))"

text \<open>A step of a sequence of queries, whose error names it.\<close>

definition then_populate :: "string \<Rightarrow> ('a \<Rightarrow> go_error + 'b) \<Rightarrow> go_error + 'a \<Rightarrow> go_error + 'b" where
  "then_populate what f r =
     (case r of
        Inl err \<Rightarrow> Inl err
      | Inr x \<Rightarrow> (case f x of Inl err \<Rightarrow> Inl (Wrap (''querying '' @ what @ '': '') err) | Inr y \<Rightarrow> Inr y))"

definition QueryScoreboard ::
  "(string \<Rightarrow> go_error + 'f) \<Rightarrow> (string \<Rightarrow> string) \<Rightarrow> 's DB \<Rightarrow> int \<Rightarrow> 's \<Rightarrow> go_error + 'f ScoreboardEntry list" where
  "QueryScoreboard pf uni db limit s =
     (case db_Query db (scoreboard_query (board_limit limit)) [] s of
        Inl err \<Rightarrow> Inl (Wrap ''querying scoreboard stamps: '' err)
      | Inr output \<Rightarrow>
          then_populate ''scoreboard display names'' (\<lambda>es. populateScoreboardDisplayNames db es s)
            (then_populate ''scoreboard skills'' (\<lambda>es. populateScoreboardSkills uni db es s)
              (then_populate ''scoreboard completions'' (\<lambda>es. populateScoreboardCompletions db es s)
                (parse_rows (scoreboard_row pf) (parseSimpleCSV output)))))"

end
