(* ===== verification/ScoreDetail.thy ===== *)
theory ScoreDetail
  imports Scoreboard ApiTypes Api
begin

text \<open>
  \<^verbatim>\<open>internal/commons/scoreboard_detail.go\<close> and \<^verbatim>\<open>scoreboard_dump.go\<close>: the scoreboard with
  the stamps, completions and badges of its rigs, and the public tables as flat lists.  Times are the
  texts of the database.
\<close>

section \<open>Details\<close>

record 'f StampDetail =
  sd_Author :: string
  sd_Severity :: string
  sd_Quality :: 'f
  sd_Reliability :: 'f
  sd_SkillTags :: "string list"
  sd_Message :: string
  sd_CreatedAt :: string

record CompletionDetail =
  cd_WantedID :: string
  cd_WantedTitle :: string
  cd_CompletedAt :: string
  cd_ValidatedAt :: string

record BadgeDetail =
  bd_BadgeType :: string
  bd_AwardedAt :: string

record 'f ScoreboardDetailEntry =
  de_Entry :: "'f ScoreboardEntry"
  de_RegisteredAt :: string
  de_RigType :: string
  de_RootStamps :: int
  de_BranchStamps :: int
  de_LeafStamps :: int
  de_Stamps :: "'f StampDetail list"
  de_CompletionHistory :: "CompletionDetail list"
  de_Badges :: "BadgeDetail list"

definition de_rig :: "'f ScoreboardDetailEntry \<Rightarrow> string" where
  "de_rig e = sb_RigHandle (de_Entry e)"

definition new_detail :: "'f ScoreboardEntry \<Rightarrow> 'f ScoreboardDetailEntry" where
  "new_detail b =
     \<lparr>de_Entry = b, de_RegisteredAt = [], de_RigType = [], de_RootStamps = 0, de_BranchStamps = 0, de_LeafStamps = 0,
      de_Stamps = [], de_CompletionHistory = [], de_Badges = []\<rparr>"

definition populateDetailRigMeta ::
  "'s DB \<Rightarrow> string \<Rightarrow> 's \<Rightarrow> 'f ScoreboardDetailEntry list \<Rightarrow> go_error + 'f ScoreboardDetailEntry list" where
  "populateDetailRigMeta db inClause s entries =
     (case db_Query db (Sprintf (sq (Prelude.Join
         [''SELECT handle, COALESCE(registered_at, ``) AS registered_at, COALESCE(rig_type, ``) AS rig_type'',
          ''FROM rigs'',
          ''WHERE handle IN (%s)''] [nl_ch])) [FS inClause]) [] s of
        Inl err \<Rightarrow> Inl err
      | Inr output \<Rightarrow>
          (let meta = rows_map (\<lambda>row. row_get row ''handle'') (\<lambda>row. (row_get row ''registered_at'', row_get row ''rig_type''))
                        (parseSimpleCSV output)
           in Inr (map (\<lambda>e. case meta (de_rig e) of
                              Some (at, ty) \<Rightarrow> e\<lparr>de_RegisteredAt := at, de_RigType := ty\<rparr> | None \<Rightarrow> e) entries)))"

text \<open>The three counts of a rig; a row of another severity only makes the rig known.\<close>

definition set_count :: "string \<Rightarrow> int \<Rightarrow> int \<times> int \<times> int \<Rightarrow> int \<times> int \<times> int" where
  "set_count severity cnt c =
     (case c of (rt, br, lf) \<Rightarrow>
        if severity = ''root'' then (cnt, br, lf)
        else if severity = ''branch'' then (rt, cnt, lf)
        else if severity = ''leaf'' then (rt, br, cnt)
        else c)"

definition add_severity :: "string \<times> string \<times> int \<Rightarrow> (string \<rightharpoonup> int \<times> int \<times> int) \<Rightarrow> (string \<rightharpoonup> int \<times> int \<times> int)" where
  "add_severity x m =
     (case x of (rig, severity, cnt) \<Rightarrow>
        m(rig \<mapsto> set_count severity cnt (case m rig of Some c \<Rightarrow> c | None \<Rightarrow> (0, 0, 0))))"

definition severity_row :: "csv_row \<Rightarrow> go_error + (string \<times> string \<times> int)" where
  "severity_row row =
     (case row_int row ''cnt'' ''severity count'' (row_get row ''subject'') of
        Inl err \<Rightarrow> Inl err
      | Inr cnt \<Rightarrow> Inr (row_get row ''subject'', row_get row ''severity'', cnt))"

definition populateDetailSeverityCounts ::
  "'s DB \<Rightarrow> string \<Rightarrow> 's \<Rightarrow> 'f ScoreboardDetailEntry list \<Rightarrow> go_error + 'f ScoreboardDetailEntry list" where
  "populateDetailSeverityCounts db inClause s entries =
     (case db_Query db (Sprintf (sq (Prelude.Join
         [''SELECT subject, severity, COUNT(*) AS cnt'',
          ''FROM stamps'',
          ''WHERE subject IN (%s)'',
          ''GROUP BY subject, severity''] [nl_ch])) [FS inClause]) [] s of
        Inl err \<Rightarrow> Inl err
      | Inr output \<Rightarrow>
          (case parse_rows severity_row (parseSimpleCSV output) of
             Inl err \<Rightarrow> Inl err
           | Inr counts \<Rightarrow>
               (let perRig = fold add_severity counts Map.empty
                in Inr (map (\<lambda>e. case perRig (de_rig e) of
                                   Some (rt, br, lf) \<Rightarrow> e\<lparr>de_RootStamps := rt, de_BranchStamps := br, de_LeafStamps := lf\<rparr>
                                 | None \<Rightarrow> e) entries))))"

text \<open>
  The rows of each rig, at most \<open>most\<close> of them; a row beyond is passed over before its fields are read, and
  an unreadable row ends the loop.
\<close>

fun rows_per_rig ::
  "string \<Rightarrow> nat option \<Rightarrow> (csv_row \<Rightarrow> go_error + 'a) \<Rightarrow> csv_row list \<Rightarrow> (string \<rightharpoonup> 'a list) \<Rightarrow> go_error + (string \<rightharpoonup> 'a list)" where
  "rows_per_rig col most p [] perRig = Inr perRig"
| "rows_per_rig col most p (row # rows) perRig =
     (let rig = row_get row col; own = (case perRig rig of Some xs \<Rightarrow> xs | None \<Rightarrow> [])
      in if (case most of Some k \<Rightarrow> k \<le> length own | None \<Rightarrow> False) then rows_per_rig col most p rows perRig
         else (case p row of
                 Inl err \<Rightarrow> Inl err
               | Inr x \<Rightarrow> rows_per_rig col most p rows (perRig(rig \<mapsto> own @ [x]))))"

definition of_rig :: "(string \<rightharpoonup> 'a list) \<Rightarrow> string \<Rightarrow> 'a list" where
  "of_rig perRig rig = (case perRig rig of Some xs \<Rightarrow> xs | None \<Rightarrow> [])"

definition stamp_row :: "(string \<Rightarrow> go_error + 'f) \<Rightarrow> csv_row \<Rightarrow> go_error + 'f StampDetail" where
  "stamp_row pf row =
     (let rig = row_get row ''subject''
      in case row_float pf row ''quality'' rig of
           Inl err \<Rightarrow> Inl err
         | Inr q \<Rightarrow>
             (case row_float pf row ''reliability'' rig of
                Inl err \<Rightarrow> Inl err
              | Inr r \<Rightarrow>
                  Inr \<lparr>sd_Author = row_get row ''author'', sd_Severity = row_get row ''severity'', sd_Quality = q,
                       sd_Reliability = r, sd_SkillTags = parseTagsJSON (row_get row ''skill_tags''),
                       sd_Message = row_get row ''message'', sd_CreatedAt = row_get row ''created_at''\<rparr>))"

definition populateDetailStamps ::
  "(string \<Rightarrow> go_error + 'f) \<Rightarrow> 's DB \<Rightarrow> string \<Rightarrow> 's \<Rightarrow> 'f ScoreboardDetailEntry list \<Rightarrow> go_error + 'f ScoreboardDetailEntry list" where
  "populateDetailStamps pf db inClause s entries =
     (case db_Query db (Sprintf (sq (Prelude.Join
         [''SELECT subject, author, severity,'',
          ''  COALESCE(JSON_EXTRACT(valence, `$.quality`), 0) AS quality,'',
          ''  COALESCE(JSON_EXTRACT(valence, `$.reliability`), 0) AS reliability,'',
          ''  COALESCE(skill_tags, ``) AS skill_tags,'',
          ''  COALESCE(message, ``) AS message,'',
          ''  COALESCE(created_at, ``) AS created_at'',
          ''FROM stamps'',
          ''WHERE subject IN (%s)'',
          ''ORDER BY subject, created_at DESC''] [nl_ch])) [FS inClause]) [] s of
        Inl err \<Rightarrow> Inl err
      | Inr output \<Rightarrow>
          (case rows_per_rig ''subject'' (Some 50) (stamp_row pf) (parseSimpleCSV output) Map.empty of
             Inl err \<Rightarrow> Inl err
           | Inr perRig \<Rightarrow> Inr (map (\<lambda>e. e\<lparr>de_Stamps := of_rig perRig (de_rig e)\<rparr>) entries)))"

definition detail_completion_row :: "csv_row \<Rightarrow> go_error + CompletionDetail" where
  "detail_completion_row row =
     Inr \<lparr>cd_WantedID = row_get row ''wanted_id'', cd_WantedTitle = row_get row ''wanted_title'',
          cd_CompletedAt = row_get row ''completed_at'', cd_ValidatedAt = row_get row ''validated_at''\<rparr>"

definition populateDetailCompletions ::
  "'s DB \<Rightarrow> string \<Rightarrow> 's \<Rightarrow> 'f ScoreboardDetailEntry list \<Rightarrow> go_error + 'f ScoreboardDetailEntry list" where
  "populateDetailCompletions db inClause s entries =
     (case db_Query db (Sprintf (sq (Prelude.Join
         [''SELECT c.completed_by, c.wanted_id,'',
          ''  COALESCE(w.title, ``) AS wanted_title,'',
          ''  COALESCE(c.completed_at, ``) AS completed_at,'',
          ''  COALESCE(c.validated_at, ``) AS validated_at'',
          ''FROM completions c'',
          ''LEFT JOIN wanted w ON c.wanted_id = w.id'',
          ''WHERE c.completed_by IN (%s)'',
          ''ORDER BY c.completed_by, c.completed_at DESC''] [nl_ch])) [FS inClause]) [] s of
        Inl err \<Rightarrow> Inl err
      | Inr output \<Rightarrow>
          (case rows_per_rig ''completed_by'' (Some 50) detail_completion_row (parseSimpleCSV output) Map.empty of
             Inl err \<Rightarrow> Inl err
           | Inr perRig \<Rightarrow> Inr (map (\<lambda>e. e\<lparr>de_CompletionHistory := of_rig perRig (de_rig e)\<rparr>) entries)))"

definition badge_row :: "csv_row \<Rightarrow> go_error + BadgeDetail" where
  "badge_row row = Inr \<lparr>bd_BadgeType = row_get row ''badge_type'', bd_AwardedAt = row_get row ''awarded_at''\<rparr>"

definition populateDetailBadges ::
  "'s DB \<Rightarrow> string \<Rightarrow> 's \<Rightarrow> 'f ScoreboardDetailEntry list \<Rightarrow> go_error + 'f ScoreboardDetailEntry list" where
  "populateDetailBadges db inClause s entries =
     (case db_Query db (Sprintf (sq (Prelude.Join
         [''SELECT rig_handle, badge_type, COALESCE(awarded_at, ``) AS awarded_at'',
          ''FROM badges'',
          ''WHERE rig_handle IN (%s)'',
          ''ORDER BY rig_handle, awarded_at DESC''] [nl_ch])) [FS inClause]) [] s of
        Inl err \<Rightarrow> Inl err
      | Inr output \<Rightarrow>
          (case rows_per_rig ''rig_handle'' None badge_row (parseSimpleCSV output) Map.empty of
             Inl err \<Rightarrow> Inl err
           | Inr perRig \<Rightarrow> Inr (map (\<lambda>e. e\<lparr>de_Badges := of_rig perRig (de_rig e)\<rparr>) entries)))"

definition QueryScoreboardDetail ::
  "(string \<Rightarrow> go_error + 'f) \<Rightarrow> (string \<Rightarrow> string) \<Rightarrow> 's DB \<Rightarrow> int \<Rightarrow> 's \<Rightarrow> go_error + 'f ScoreboardDetailEntry list" where
  "QueryScoreboardDetail pf uni db limit s =
     (case QueryScoreboard pf uni db limit s of
        Inl err \<Rightarrow> Inl (Wrap ''querying scoreboard base: '' err)
      | Inr base \<Rightarrow>
          (let inClause = quoted_list (map sb_RigHandle base)
           in if base = [] then Inr []
              else then_populate ''detail badges'' (populateDetailBadges db inClause s)
                     (then_populate ''detail completions'' (populateDetailCompletions db inClause s)
                       (then_populate ''detail stamps'' (populateDetailStamps pf db inClause s)
                         (then_populate ''severity counts'' (populateDetailSeverityCounts db inClause s)
                           (then_populate ''rig metadata'' (populateDetailRigMeta db inClause s)
                             (Inr (map new_detail base))))))))"

section \<open>Dump\<close>

record RigRow =
  rr_Handle :: string
  rr_DisplayName :: string
  rr_DolthubOrg :: string
  rr_TrustLevel :: int
  rr_RegisteredAt :: string
  rr_LastSeen :: string
  rr_RigType :: string
  rr_ParentRig :: string

record 'f StampRow =
  sr_ID :: string
  sr_Author :: string
  sr_Subject :: string
  sr_Valence :: string
  sr_Confidence :: 'f
  sr_Severity :: string
  sr_ContextID :: string
  sr_ContextType :: string
  sr_SkillTags :: string
  sr_Message :: string
  sr_CreatedAt :: string

record CompletionRow =
  cw_ID :: string
  cw_WantedID :: string
  cw_CompletedBy :: string
  cw_Evidence :: string
  cw_ValidatedBy :: string
  cw_StampID :: string
  cw_CompletedAt :: string
  cw_ValidatedAt :: string

record WantedRow =
  wr_ID :: string
  wr_Title :: string
  wr_Description :: string
  wr_Project :: string
  wr_Type :: string
  wr_Priority :: int
  wr_Tags :: string
  wr_PostedBy :: string
  wr_ClaimedBy :: string
  wr_Status :: string
  wr_EffortLevel :: string
  wr_CreatedAt :: string
  wr_UpdatedAt :: string

record BadgeRow =
  br_ID :: string
  br_RigHandle :: string
  br_BadgeType :: string
  br_AwardedAt :: string
  br_Evidence :: string

record 'f ScoreboardDump =
  dm_Rigs :: "RigRow list"
  dm_Stamps :: "'f StampRow list"
  dm_Completions :: "CompletionRow list"
  dm_Wanted :: "WantedRow list"
  dm_Badges :: "BadgeRow list"

text \<open>A number that may be missing: the empty text counts as 0.\<close>

definition dump_int :: "csv_row \<Rightarrow> string \<Rightarrow> string \<Rightarrow> string \<Rightarrow> go_error + int" where
  "dump_int row col what who =
     (case Atoi_err (row_get row col) of
        Inr v \<Rightarrow> Inr v
      | Inl err \<Rightarrow>
          if row_get row col \<noteq> [] \<and> row_get row col \<noteq> ''0''
          then Inl (Wrap (''parsing '' @ what @ '' '' @ Quote who @ '': '') err) else Inr 0)"

definition queryDumpRigs :: "'s DB \<Rightarrow> 's \<Rightarrow> go_error + RigRow list" where
  "queryDumpRigs db s =
     (case db_Query db (sq (Prelude.Join
         [''SELECT handle, COALESCE(display_name,``) AS display_name, COALESCE(dolthub_org,``) AS dolthub_org,'',
          ''  COALESCE(trust_level,0) AS trust_level, COALESCE(registered_at,``) AS registered_at,'',
          ''  COALESCE(last_seen,``) AS last_seen, COALESCE(rig_type,``) AS rig_type, COALESCE(parent_rig,``) AS parent_rig'',
          ''FROM rigs ORDER BY handle''] [nl_ch])) [] s of
        Inl err \<Rightarrow> Inl err
      | Inr output \<Rightarrow>
          parse_rows (\<lambda>r. case dump_int r ''trust_level'' ''trust_level for'' (row_get r ''handle'') of
              Inl err \<Rightarrow> Inl err
            | Inr tl' \<Rightarrow>
                Inr \<lparr>rr_Handle = row_get r ''handle'', rr_DisplayName = row_get r ''display_name'',
                     rr_DolthubOrg = row_get r ''dolthub_org'', rr_TrustLevel = tl',
                     rr_RegisteredAt = row_get r ''registered_at'', rr_LastSeen = row_get r ''last_seen'',
                     rr_RigType = row_get r ''rig_type'', rr_ParentRig = row_get r ''parent_rig''\<rparr>) (parseSimpleCSV output))"

text \<open>\<open>zero\<close> is what \<^verbatim>\<open>ParseFloat\<close> returns for the empty text beside its error.\<close>

definition queryDumpStamps :: "(string \<Rightarrow> go_error + 'f) \<Rightarrow> 'f \<Rightarrow> 's DB \<Rightarrow> 's \<Rightarrow> go_error + 'f StampRow list" where
  "queryDumpStamps pf zero db s =
     (case db_Query db (sq (Prelude.Join
         [''SELECT id, author, subject, COALESCE(valence,`{}`) AS valence, COALESCE(confidence,1) AS confidence,'',
          ''  COALESCE(severity,`leaf`) AS severity, COALESCE(context_id,``) AS context_id,'',
          ''  COALESCE(context_type,``) AS context_type, COALESCE(skill_tags,``) AS skill_tags,'',
          ''  COALESCE(message,``) AS message, COALESCE(created_at,``) AS created_at'',
          ''FROM stamps ORDER BY created_at DESC''] [nl_ch])) [] s of
        Inl err \<Rightarrow> Inl err
      | Inr output \<Rightarrow>
          parse_rows (\<lambda>r. case (if row_get r ''confidence'' = [] then Inr (case pf [] of Inr v \<Rightarrow> v | Inl _ \<Rightarrow> zero)
                                 else pf (row_get r ''confidence'')) of
              Inl err \<Rightarrow> Inl (Wrap (''parsing confidence for stamp '' @ Quote (row_get r ''id'') @ '': '') err)
            | Inr conf \<Rightarrow>
                Inr \<lparr>sr_ID = row_get r ''id'', sr_Author = row_get r ''author'', sr_Subject = row_get r ''subject'',
                     sr_Valence = row_get r ''valence'', sr_Confidence = conf, sr_Severity = row_get r ''severity'',
                     sr_ContextID = row_get r ''context_id'', sr_ContextType = row_get r ''context_type'',
                     sr_SkillTags = row_get r ''skill_tags'', sr_Message = row_get r ''message'',
                     sr_CreatedAt = row_get r ''created_at''\<rparr>) (parseSimpleCSV output))"

definition queryDumpCompletions :: "'s DB \<Rightarrow> 's \<Rightarrow> go_error + CompletionRow list" where
  "queryDumpCompletions db s =
     (case db_Query db (sq (Prelude.Join
         [''SELECT id, COALESCE(wanted_id,``) AS wanted_id, COALESCE(completed_by,``) AS completed_by,'',
          ''  COALESCE(evidence,``) AS evidence, COALESCE(validated_by,``) AS validated_by,'',
          ''  COALESCE(stamp_id,``) AS stamp_id, COALESCE(completed_at,``) AS completed_at,'',
          ''  COALESCE(validated_at,``) AS validated_at'',
          ''FROM completions ORDER BY completed_at DESC''] [nl_ch])) [] s of
        Inl err \<Rightarrow> Inl err
      | Inr output \<Rightarrow>
          Inr (map (\<lambda>r. \<lparr>cw_ID = row_get r ''id'', cw_WantedID = row_get r ''wanted_id'',
                 cw_CompletedBy = row_get r ''completed_by'', cw_Evidence = row_get r ''evidence'',
                 cw_ValidatedBy = row_get r ''validated_by'', cw_StampID = row_get r ''stamp_id'',
                 cw_CompletedAt = row_get r ''completed_at'', cw_ValidatedAt = row_get r ''validated_at''\<rparr>) (parseSimpleCSV output)))"

definition queryDumpWanted :: "'s DB \<Rightarrow> 's \<Rightarrow> go_error + WantedRow list" where
  "queryDumpWanted db s =
     (case db_Query db (sq (Prelude.Join
         [''SELECT id, COALESCE(title,``) AS title, COALESCE(description,``) AS description,'',
          ''  COALESCE(project,``) AS project, COALESCE(type,``) AS type, COALESCE(priority,2) AS priority,'',
          ''  COALESCE(tags,``) AS tags, COALESCE(posted_by,``) AS posted_by, COALESCE(claimed_by,``) AS claimed_by,'',
          ''  COALESCE(status,`open`) AS status, COALESCE(effort_level,`medium`) AS effort_level,'',
          ''  COALESCE(created_at,``) AS created_at, COALESCE(updated_at,``) AS updated_at'',
          ''FROM wanted ORDER BY created_at DESC''] [nl_ch])) [] s of
        Inl err \<Rightarrow> Inl err
      | Inr output \<Rightarrow>
          parse_rows (\<lambda>r. case dump_int r ''priority'' ''priority for wanted'' (row_get r ''id'') of
              Inl err \<Rightarrow> Inl err
            | Inr p \<Rightarrow>
                Inr \<lparr>wr_ID = row_get r ''id'', wr_Title = row_get r ''title'', wr_Description = row_get r ''description'',
                     wr_Project = row_get r ''project'', wr_Type = row_get r ''type'', wr_Priority = p,
                     wr_Tags = row_get r ''tags'', wr_PostedBy = row_get r ''posted_by'',
                     wr_ClaimedBy = row_get r ''claimed_by'', wr_Status = row_get r ''status'',
                     wr_EffortLevel = row_get r ''effort_level'', wr_CreatedAt = row_get r ''created_at'',
                     wr_UpdatedAt = row_get r ''updated_at''\<rparr>) (parseSimpleCSV output))"

definition queryDumpBadges :: "'s DB \<Rightarrow> 's \<Rightarrow> go_error + BadgeRow list" where
  "queryDumpBadges db s =
     (case db_Query db (sq (Prelude.Join
         [''SELECT id, COALESCE(rig_handle,``) AS rig_handle, COALESCE(badge_type,``) AS badge_type,'',
          ''  COALESCE(awarded_at,``) AS awarded_at, COALESCE(evidence,``) AS evidence'',
          ''FROM badges ORDER BY awarded_at DESC''] [nl_ch])) [] s of
        Inl err \<Rightarrow> Inl err
      | Inr output \<Rightarrow>
          Inr (map (\<lambda>r. \<lparr>br_ID = row_get r ''id'', br_RigHandle = row_get r ''rig_handle'',
                 br_BadgeType = row_get r ''badge_type'', br_AwardedAt = row_get r ''awarded_at'',
                 br_Evidence = row_get r ''evidence''\<rparr>) (parseSimpleCSV output)))"

definition QueryScoreboardDump :: "(string \<Rightarrow> go_error + 'f) \<Rightarrow> 'f \<Rightarrow> 's DB \<Rightarrow> 's \<Rightarrow> go_error + 'f ScoreboardDump" where
  "QueryScoreboardDump pf zero db s =
     (case queryDumpRigs db s of
        Inl err \<Rightarrow> Inl (Wrap ''dumping rigs: '' err)
      | Inr rigs \<Rightarrow>
          (case queryDumpStamps pf zero db s of
             Inl err \<Rightarrow> Inl (Wrap ''dumping stamps: '' err)
           | Inr stamps \<Rightarrow>
               (case queryDumpCompletions db s of
                  Inl err \<Rightarrow> Inl (Wrap ''dumping completions: '' err)
                | Inr completions \<Rightarrow>
                    (case queryDumpWanted db s of
                       Inl err \<Rightarrow> Inl (Wrap ''dumping wanted: '' err)
                     | Inr wanted \<Rightarrow>
                         (case queryDumpBadges db s of
                            Inl err \<Rightarrow> Inl (Wrap ''dumping badges: '' err)
                          | Inr badges \<Rightarrow>
                              Inr \<lparr>dm_Rigs = rigs, dm_Stamps = stamps, dm_Completions = completions, dm_Wanted = wanted,
                                   dm_Badges = badges\<rparr>)))))"

text \<open>
  \<^verbatim>\<open>internal/api/scoreboard.go\<close>: the endpoint with a cached text that is refreshed from time to
  time, and the scoreboard it answers.  \<open>ft\<close> prints a \<^verbatim>\<open>float64\<close>, \<open>now\<close> is the time as
  RFC 3339 text.
\<close>

section \<open>The endpoint\<close>

record 's CachedEndpoint =
  ce_cached :: "string option"
  ce_refreshFn :: "'s \<Rightarrow> go_error + string"
  ce_interval :: int
  ce_done :: bool

definition NewCachedEndpoint :: "('s \<Rightarrow> go_error + string) \<Rightarrow> int \<Rightarrow> 's CachedEndpoint" where
  "NewCachedEndpoint refreshFn interval =
     \<lparr>ce_cached = None, ce_refreshFn = refreshFn, ce_interval = interval, ce_done = False\<rparr>"

definition ce_refresh :: "'s \<Rightarrow> 's CachedEndpoint \<Rightarrow> 's CachedEndpoint" where
  "ce_refresh s ce = (case ce_refreshFn ce s of Inl err \<Rightarrow> ce | Inr text \<Rightarrow> ce\<lparr>ce_cached := Some text\<rparr>)"

definition ce_Stop :: "'s CachedEndpoint \<Rightarrow> 's CachedEndpoint" where
  "ce_Stop ce = ce\<lparr>ce_done := True\<rparr>"

definition ce_Get :: "'s \<Rightarrow> 's CachedEndpoint \<Rightarrow> string option \<times> 's CachedEndpoint" where
  "ce_Get s ce =
     (case ce_cached ce of
        Some text \<Rightarrow> (Some text, ce)
      | None \<Rightarrow> (let ce1 = ce_refresh s ce in (ce_cached ce1, ce1)))"

text \<open>The goroutine: it refreshes when it starts and at every tick until the endpoint is stopped.\<close>

fun ce_run :: "'s list \<Rightarrow> 's CachedEndpoint \<Rightarrow> 's CachedEndpoint" where
  "ce_run [] ce = ce"
| "ce_run (s # ticks) ce = (if ce_done ce then ce else ce_run ticks (ce_refresh s ce))"

definition ce_Start :: "'s \<Rightarrow> 's list \<Rightarrow> 's CachedEndpoint \<Rightarrow> 's CachedEndpoint" where
  "ce_Start s ticks ce = ce_run ticks (ce_refresh s ce)"

section \<open>The answer\<close>

definition entry_json :: "('f \<Rightarrow> string) \<Rightarrow> 'f ScoreboardEntry \<Rightarrow> json" where
  "entry_json ft e =
     JObj (str_mem ''rig_handle'' (sb_RigHandle e) @ opt_str ''display_name'' (sb_DisplayName e) @
           str_mem ''trust_tier'' (sb_TrustTier e) @
           [(''stamp_count'', JInt (sb_StampCount e)), (''weighted_score'', JInt (sb_WeightedScore e)),
            (''unique_towns'', JInt (sb_UniqueTowns e)), (''completions'', JInt (sb_Completions e)),
            (''avg_quality'', JNum (ft (sb_AvgQuality e))), (''avg_reliability'', JNum (ft (sb_AvgReliab e))),
            (''avg_creativity'', JNum (ft (sb_AvgCreativity e)))] @
           opt_list ''top_skills'' (map JStr (sb_TopSkills e)))"

definition toScoreboardResponse :: "('f \<Rightarrow> string) \<Rightarrow> string \<Rightarrow> 'f ScoreboardEntry list \<Rightarrow> json" where
  "toScoreboardResponse ft now entries =
     JObj [(''entries'', JArr (map (entry_json ft) entries)), (''updated_at'', JStr now)]"

definition NewScoreboardCache ::
  "(string \<Rightarrow> go_error + 'f) \<Rightarrow> (string \<Rightarrow> string) \<Rightarrow> ('f \<Rightarrow> string) \<Rightarrow> ('s \<Rightarrow> string) \<Rightarrow> 's DB \<Rightarrow> int \<Rightarrow> 's CachedEndpoint" where
  "NewScoreboardCache pf uni ft now db interval =
     NewCachedEndpoint (\<lambda>s. case QueryScoreboard pf uni db 100 s of
         Inl err \<Rightarrow> Inl err
       | Inr entries \<Rightarrow> Inr (json_text (toScoreboardResponse ft (now s) entries))) interval"

definition cors_headers :: headers where
  "cors_headers =
     Set (Set (Set [] ''Access-Control-Allow-Origin'' ''*'') ''Access-Control-Allow-Methods'' ''GET, OPTIONS'')
       ''Access-Control-Allow-Headers'' ''Content-Type''"

text \<open>An error keeps the headers that are already set.\<close>

definition cors_error :: "string \<Rightarrow> api_response" where
  "cors_error msg =
     \<lparr>as_status = 503,
      as_headers = Set (Set cors_headers ''Content-Type'' ''application/json'') ''Cache-Control'' ''no-store'',
      as_body = json_text (error_json msg) @ [nl_ch]\<rparr>"

text \<open>\<open>None\<close> is a server without a scoreboard.\<close>

definition handleScoreboard ::
  "'s CachedEndpoint option \<Rightarrow> api_request \<Rightarrow> 's \<Rightarrow> api_response \<times> 's CachedEndpoint option" where
  "handleScoreboard sb r s =
     (if rq_method r = ''OPTIONS'' then (\<lparr>as_status = 204, as_headers = cors_headers, as_body = []\<rparr>, sb)
      else (case sb of
              None \<Rightarrow> (cors_error ''scoreboard not configured'', sb)
            | Some ce \<Rightarrow>
                (case ce_Get s ce of
                   (None, ce1) \<Rightarrow> (cors_error ''scoreboard data unavailable'', Some ce1)
                 | (Some text, ce1) \<Rightarrow>
                     (\<lparr>as_status = 200,
                       as_headers = Set (Set cors_headers ''Content-Type'' ''application/json'') ''Cache-Control''
                                      ''public, max-age=300'',
                       as_body = text\<rparr>, Some ce1))))"

end
