(* ===== verification/ScoreboardProps.thy ===== *)
theory ScoreboardProps
  imports ScoreDetail "HOL-Library.Multiset"
begin

text \<open>
  The selection sort of the skills against a sorted list, whatever the order of the map's iteration, and the
  scoreboard as a function of the answers to its queries.
\<close>

section \<open>Selection sort\<close>

definition rank :: "string \<times> nat \<Rightarrow> int \<times> string" where
  "rank p = (- int (snd p), fst p)"

lemma ranks_before_rank: "ranks_before a b \<longleftrightarrow> rank a < rank b"
  by (cases a; cases b) (auto simp: ranks_before_def rank_def less_prod_def)

lemma best_fold:
  assumes "\<forall>j \<in> set js. j < length xs" and "b < length xs"
  shows "(let r = foldl (\<lambda>best j. if ranks_before (xs ! j) (xs ! best) then j else best) b js
     in (r = b \<or> r \<in> set js) \<and> rank (xs ! r) \<le> rank (xs ! b) \<and> (\<forall>j \<in> set js. rank (xs ! r) \<le> rank (xs ! j)))"
  using assms
proof (induction js arbitrary: b)
  case (Cons j js)
  let ?b = "if ranks_before (xs ! j) (xs ! b) then j else b"
  have "?b < length xs" using Cons.prems by simp
  then have ih: "(let r = foldl (\<lambda>best j. if ranks_before (xs ! j) (xs ! best) then j else best) ?b js
     in (r = ?b \<or> r \<in> set js) \<and> rank (xs ! r) \<le> rank (xs ! ?b) \<and> (\<forall>j \<in> set js. rank (xs ! r) \<le> rank (xs ! j)))"
    using Cons.IH Cons.prems by simp
  have "rank (xs ! ?b) \<le> rank (xs ! j)" "rank (xs ! ?b) \<le> rank (xs ! b)" by (auto simp: ranks_before_rank)
  then show ?case using ih by (auto simp: Let_def intro: order_trans split: if_splits)
qed simp

lemma best_from_least:
  assumes "i < length xs"
  shows "i \<le> best_from xs i" "best_from xs i < length xs"
    "\<And>j. i \<le> j \<Longrightarrow> j < length xs \<Longrightarrow> rank (xs ! best_from xs i) \<le> rank (xs ! j)"
proof -
  have "\<forall>j \<in> set [Suc i..<length xs]. j < length xs" by simp
  from best_fold [OF this assms]
  have f: "best_from xs i = i \<or> best_from xs i \<in> set [Suc i..<length xs]"
    "rank (xs ! best_from xs i) \<le> rank (xs ! i)"
    "\<forall>j \<in> set [Suc i..<length xs]. rank (xs ! best_from xs i) \<le> rank (xs ! j)"
    by (simp_all add: best_from_def Let_def)
  show "i \<le> best_from xs i" "best_from xs i < length xs" using f(1) assms by auto
  show "rank (xs ! best_from xs i) \<le> rank (xs ! j)" if "i \<le> j" "j < length xs" for j
    using f(2,3) that by (cases "j = i") auto
qed

lemma mset_swap_best: "i < length xs \<Longrightarrow> mset (select_at xs i) = mset xs"
  using best_from_least(2) [of i xs] by (simp add: select_at_def Let_def mset_swap)

text \<open>After some places are filled they are in order, and nothing behind them ranks before them.\<close>

definition filled :: "freq \<Rightarrow> nat \<Rightarrow> freq \<Rightarrow> bool" where
  "filled freq m xs \<longleftrightarrow>
     mset xs = mset freq \<and> sorted (map rank (take m xs)) \<and> (\<forall>i < m. \<forall>j. m \<le> j \<longrightarrow> j < length xs \<longrightarrow> rank (xs ! i) \<le> rank (xs ! j))"

lemma filled_step:
  assumes "filled freq m xs" and "m < length xs"
  shows "filled freq (Suc m) (select_at xs m)"
proof -
  define b where "b = best_from xs m"
  define ys where "ys = select_at xs m"
  have b: "m \<le> b" "b < length xs" and least: "\<And>j. m \<le> j \<Longrightarrow> j < length xs \<Longrightarrow> rank (xs ! b) \<le> rank (xs ! j)"
    using best_from_least [OF assms(2)] by (simp_all add: b_def)
  have len: "length ys = length xs" by (simp add: ys_def select_at_def Let_def)
  have nth: "ys ! j = (if j = b then xs ! m else if j = m then xs ! b else xs ! j)" if "j < length xs" for j
    using that b assms(2) by (simp add: ys_def select_at_def Let_def b_def nth_list_update)
  have tk: "take m ys = take m xs"
    by (rule nth_equalityI) (use len b nth assms(2) in auto)
  have at: "ys ! m = xs ! b" using nth assms(2) by (cases "m = b") auto
  have srt: "sorted (map rank (take m xs))" and before: "\<And>i j. i < m \<Longrightarrow> m \<le> j \<Longrightarrow> j < length xs \<Longrightarrow> rank (xs ! i) \<le> rank (xs ! j)"
    using assms(1) by (auto simp: filled_def)
  have front: "\<forall>x \<in> set (map rank (take m xs)). x \<le> rank (xs ! b)"
  proof
    fix x assume "x \<in> set (map rank (take m xs))"
    then obtain i where "i < m" "x = rank (xs ! i)" by (auto simp: in_set_conv_nth)
    then show "x \<le> rank (xs ! b)" using before b by blast
  qed
  have "take (Suc m) ys = take m xs @ [xs ! b]" using assms(2) len tk at by (simp add: take_Suc_conv_app_nth)
  then have s: "sorted (map rank (take (Suc m) ys))" using srt front by (simp add: sorted_append)
  have rest: "rank (ys ! i) \<le> rank (ys ! j)" if i: "i < Suc m" and j: "Suc m \<le> j" "j < length ys" for i j
  proof -
    define j' where "j' = (if j = b then m else j)"
    have j': "m \<le> j'" "j' < length xs" "ys ! j = xs ! j'" using nth j len assms(2) by (auto simp: j'_def)
    show ?thesis
    proof (cases "i = m")
      case True
      then show ?thesis using at least j' by simp
    next
      case False
      then have "ys ! i = xs ! i" using i tk assms(2) nth b by simp
      then show ?thesis using before [of i j'] False i j' by simp
    qed
  qed
  show ?thesis using mset_swap_best [OF assms(2)] assms(1) s rest
    unfolding filled_def ys_def [symmetric] by auto
qed

lemma filled_places: "m \<le> length freq \<Longrightarrow> filled freq m (foldl select_at freq [0..<m])"
proof (induction m)
  case (Suc m)
  then have f: "filled freq m (foldl select_at freq [0..<m])" by simp
  then have "length (foldl select_at freq [0..<m]) = length freq" by (auto simp: filled_def dest: mset_eq_length)
  then show ?case using filled_step [OF f] Suc.prems by simp
qed (simp add: filled_def)

lemma sorted_prefix:
  assumes "filled freq m xs" and "m \<le> length xs" and "inj_on rank (set freq)"
  shows "take m xs = take m (sort_key rank freq)"
proof -
  let ?s = "take m xs @ sort_key rank (drop m xs)"
  have "mset xs = mset freq" using assms(1) by (simp add: filled_def)
  then have "mset (take m xs) + mset (drop m xs) = mset freq" by (metis append_take_drop_id mset_append)
  then have ms: "mset ?s = mset freq" by simp
  have tail: "rank x \<le> rank y" if x: "x \<in> set (take m xs)" and y: "y \<in> set (drop m xs)" for x y
  proof -
    obtain i where i: "i < length (take m xs)" "take m xs ! i = x" using x by (meson in_set_conv_nth)
    obtain j where j: "j < length (drop m xs)" "drop m xs ! j = y" using y by (meson in_set_conv_nth)
    have "i < m" "x = xs ! i" "m + j < length xs" "y = xs ! (m + j)" using i j assms(2) by auto
    then show ?thesis using assms(1) unfolding filled_def by simp
  qed
  have "sorted (map rank ?s)" using assms(1) tail by (auto simp: filled_def sorted_append)
  then have "?s = sort_key rank freq"
    using sort_key_inj_key_eq [OF ms [symmetric] assms(3)] by simp
  then show ?thesis using assms(2) by (metis append_eq_conv_conj length_take min.absorb2)
qed

lemma topNKeys_sorts:
  assumes "distinct (map fst freq)"
  shows "topNKeys freq n = map fst (take n (sort_key rank freq))"
proof -
  let ?m = "min (length freq) n"
  have inj: "inj_on rank (set freq)"
    using assms by (auto simp: inj_on_def rank_def distinct_map)
  define xs where "xs = foldl select_at freq [0..<?m]"
  have f: "filled freq ?m xs" unfolding xs_def by (rule filled_places) simp
  have len: "length xs = length freq" using f by (auto simp: filled_def dest: mset_eq_length)
  have "take ?m xs = take ?m (sort_key rank freq)" by (rule sorted_prefix [OF f _ inj]) (simp add: len)
  then have "take n xs = take n (sort_key rank freq)" using len by (simp add: min_def split: if_splits)
  then show ?thesis by (simp add: topNKeys_def Let_def xs_def)
qed

text \<open>
  C27: The skills of a rig are its most frequent ones, the more frequent first and the smaller name among
  equals, as many as there are places: the selection over the map gives what sorting it gives, in
  whatever order the map is iterated.
\<close>

theorem topNKeys_exact:
  assumes "distinct (map fst freq)"
  shows "topNKeys freq n = map fst (take n (sort_key (\<lambda>(tag, count). (- int count, tag)) freq))"
proof -
  have "rank = (\<lambda>(tag, count). (- int count, tag))" by (auto simp: rank_def)
  then show ?thesis using topNKeys_sorts [OF assms] by simp
qed

theorem topNKeys_exact_witness: "topNKeys [(''go'', 1), (''sql'', 3), (''c'', 1)] 2 = [''sql'', ''c'']"
proof -
  have d: "distinct (map fst [(''go'', 1), (''sql'', 3), (''c'', 1::nat)])" by simp
  show ?thesis unfolding topNKeys_exact [OF d] by (simp add: less_prod_def)
qed

section \<open>Counting tags\<close>

text \<open>A map of counts is the tally of a list of tags.\<close>

definition tally :: "freq \<Rightarrow> string list \<Rightarrow> bool" where
  "tally f tags \<longleftrightarrow>
     distinct (map fst f) \<and> (\<forall>t. map_of f t = (if t \<in> set tags then Some (count_list tags t) else None))"

lemma tally_bump: "tally f tags \<Longrightarrow> tally (bump t f) (tags @ [t])"
  by (auto simp: tally_def bump_def update_conv' distinct_update count_list_append count_list_0_iff)

lemma tally_bumps: "tally f tags \<Longrightarrow> tally (fold (\<lambda>tag. bump (g tag)) us f) (tags @ map g us)"
proof (induction us arbitrary: f tags)
  case (Cons u us)
  from Cons.IH [OF tally_bump [OF Cons.prems, of "g u"]] show ?case by simp
qed simp

definition freq_of :: "(string \<rightharpoonup> freq) \<Rightarrow> string \<Rightarrow> freq" where
  "freq_of m rig = (case m rig of Some f \<Rightarrow> f | None \<Rightarrow> [])"

text \<open>The tags of a rig in the rows of an answer, in lower case.\<close>

definition tags_of :: "(string \<Rightarrow> string) \<Rightarrow> string \<Rightarrow> csv_row list \<Rightarrow> string \<Rightarrow> string list" where
  "tags_of uni col rows rig =
     concat (map (\<lambda>row. map (ToLower uni) (parseTagsJSON (row_get row ''skill_tags'')))
       (filter (\<lambda>row. row_get row col = rig) rows))"

lemma tally_rows:
  assumes "\<And>rig. tally (freq_of m rig) (T rig)"
  shows "tally (freq_of (fold (add_tags uni col) rows m) rig) (T rig @ tags_of uni col rows rig)"
  using assms
proof (induction rows arbitrary: m T)
  case (Cons row rows)
  let ?us = "parseTagsJSON (row_get row ''skill_tags'')"
  define U where "U r = T r @ (if row_get row col = r then map (ToLower uni) ?us else [])" for r
  have "tally (freq_of (add_tags uni col row m) r) (U r)" for r
    using tally_bumps [OF Cons.prems [of r], of "ToLower uni" ?us] Cons.prems [of r]
    by (auto simp: add_tags_def U_def Let_def freq_of_def)
  from Cons.IH [of "add_tags uni col row m" U, OF this] show ?case
    by (cases "row_get row col = rig") (simp_all add: U_def tags_of_def)
qed (simp add: tags_of_def)

lemma sorted_tally:
  assumes "tally f tags"
  shows "map fst (sort_key rank f) = sort_key (\<lambda>t. (- int (count_list tags t), t)) (remdups tags)"
proof -
  let ?key = "\<lambda>t. (- int (count_list tags t), t)"
  let ?ys = "map fst (sort_key rank f)"
  have d: "distinct (map fst f)" and m: "\<And>t. map_of f t = (if t \<in> set tags then Some (count_list tags t) else None)"
    using assms by (auto simp: tally_def)
  have "set (map fst f) = set (remdups tags)"
  proof
    show "set (map fst f) \<subseteq> set (remdups tags)"
      using m d by (auto dest!: map_of_is_SomeI [rotated] split: if_splits)
    show "set (remdups tags) \<subseteq> set (map fst f)"
    proof
      fix t assume "t \<in> set (remdups tags)"
      then have "map_of f t = Some (count_list tags t)" using m by simp
      then show "t \<in> set (map fst f)" using map_of_SomeD by force
    qed
  qed
  then have "mset (map fst f) = mset (remdups tags)" by (rule iffD1 [OF set_eq_iff_mset_eq_distinct [OF d distinct_remdups]])
  then have ms: "mset (remdups tags) = mset ?ys" by simp
  have "rank p = ?key (fst p)" if "p \<in> set f" for p
  proof -
    have "map_of f (fst p) = Some (snd p)" using that d by (metis map_of_is_SomeI prod.collapse)
    then show ?thesis using m [of "fst p"] by (simp add: rank_def split: if_splits)
  qed
  then have "map ?key ?ys = map rank (sort_key rank f)" by simp
  then have "sorted (map ?key ?ys)" by (metis sorted_sort_key)
  then have "sort_key ?key (remdups tags) = ?ys"
    using sort_key_inj_key_eq [OF ms, of ?key] by (simp add: inj_on_def)
  then show ?thesis by simp
qed

lemma top_skills_sorted:
  "top_skills uni col rows rig =
     take 5 (sort_key (\<lambda>t. (- int (count_list (tags_of uni col rows rig) t), t)) (remdups (tags_of uni col rows rig)))"
proof -
  let ?f = "freq_of (fold (add_tags uni col) rows Map.empty) rig"
  have t: "tally ?f (tags_of uni col rows rig)"
    using tally_rows [of Map.empty "\<lambda>r. []" uni col rows rig] by (simp add: freq_of_def tally_def)
  have "top_skills uni col rows rig = topNKeys ?f 5" by (simp add: top_skills_def Let_def freq_of_def)
  also have "\<dots> = take 5 (map fst (sort_key rank ?f))" using t topNKeys_sorts by (simp add: tally_def take_map)
  finally show ?thesis by (simp add: sorted_tally [OF t])
qed

section \<open>The scoreboard\<close>

text \<open>The last row of a rig in an answer.\<close>

definition last_row :: "string \<Rightarrow> csv_row list \<Rightarrow> string \<Rightarrow> csv_row option" where
  "last_row col rows rig =
     (case filter (\<lambda>row. row_get row col = rig) rows of [] \<Rightarrow> None | rs \<Rightarrow> Some (last rs))"

text \<open>
  What an entry of the scoreboard says: its row of the stamps, and what the answers on completions, skills
  and names have about the rig.
\<close>

definition board_line ::
  "(string \<Rightarrow> go_error + 'f) \<Rightarrow> (string \<Rightarrow> string) \<Rightarrow> csv_row list \<Rightarrow> csv_row list \<Rightarrow> csv_row list
   \<Rightarrow> csv_row \<Rightarrow> 'f ScoreboardEntry \<Rightarrow> bool" where
  "board_line pf uni completions skills names row e \<longleftrightarrow>
     (let rig = row_get row ''subject''; tags = tags_of uni ''subject'' skills rig
      in sb_RigHandle e = rig
       \<and> Atoi (row_get row ''stamp_count'') = (sb_StampCount e, False)
       \<and> Atoi (row_get row ''weighted_score'') = (sb_WeightedScore e, False)
       \<and> Atoi (row_get row ''unique_towns'') = (sb_UniqueTowns e, False)
       \<and> pf (row_get row ''avg_quality'') = Inr (sb_AvgQuality e)
       \<and> pf (row_get row ''avg_reliability'') = Inr (sb_AvgReliab e)
       \<and> pf (row_get row ''avg_creativity'') = Inr (sb_AvgCreativity e)
       \<and> sb_TrustTier e = (if sb_WeightedScore e < 3 then ''outsider'' else if sb_WeightedScore e < 10 then ''newcomer''
            else if sb_WeightedScore e < 25 then ''contributor'' else if sb_WeightedScore e < 50 then ''trusted''
            else ''maintainer'')
       \<and> (case last_row ''completed_by'' completions rig of
            Some c \<Rightarrow> Atoi (row_get c ''completions'') = (sb_Completions e, False) | None \<Rightarrow> sb_Completions e = 0)
       \<and> sb_TopSkills e = take 5 (sort_key (\<lambda>t. (- int (count_list tags t), t)) (remdups tags))
       \<and> sb_DisplayName e = (case last_row ''handle'' names rig of Some r \<Rightarrow> row_get r ''display_name'' | None \<Rightarrow> []))"

lemma parse_rows_Inr: "parse_rows p rows = Inr xs \<Longrightarrow> list_all2 (\<lambda>row x. p row = Inr x) rows xs"
  by (induction rows arbitrary: xs) (auto split: sum.splits)

lemma then_populate_Inr: "then_populate what f r = Inr y \<longleftrightarrow> (\<exists>x. r = Inr x \<and> f x = Inr y)"
  by (auto simp: then_populate_def split: sum.splits)

lemma list_all2_map_own: "list_all2 P xs (map f xs) \<longleftrightarrow> (\<forall>x \<in> set xs. P x (f x))"
  by (induction xs) auto

lemma row_int_Inr: "row_int row col what who = Inr v \<longleftrightarrow> Atoi (row_get row col) = (v, False)"
  by (cases "Atoi (row_get row col)") (auto simp: row_int_def Atoi_err_def)

lemma row_float_Inr: "row_float pf row col who = Inr v \<longleftrightarrow> pf (row_get row col) = Inr v"
  by (auto simp: row_float_def split: sum.splits)

lemma scoreboard_row_Inr:
  assumes "scoreboard_row pf row = Inr e"
  shows "sb_RigHandle e = row_get row ''subject''"
    "row_int row ''stamp_count'' ''stamp_count'' (row_get row ''subject'') = Inr (sb_StampCount e)"
    "row_int row ''weighted_score'' ''weighted_score'' (row_get row ''subject'') = Inr (sb_WeightedScore e)"
    "row_int row ''unique_towns'' ''unique_towns'' (row_get row ''subject'') = Inr (sb_UniqueTowns e)"
    "row_float pf row ''avg_quality'' (row_get row ''subject'') = Inr (sb_AvgQuality e)"
    "row_float pf row ''avg_reliability'' (row_get row ''subject'') = Inr (sb_AvgReliab e)"
    "row_float pf row ''avg_creativity'' (row_get row ''subject'') = Inr (sb_AvgCreativity e)"
    "sb_TrustTier e = DeriveTrustTier (sb_WeightedScore e)"
  using assms by (auto simp: scoreboard_row_def Let_def split: sum.splits)

lemma rows_map_last:
  "fold (\<lambda>row m. m(row_get row col \<mapsto> val row)) rows m rig =
     (case last_row col rows rig of Some row \<Rightarrow> Some (val row) | None \<Rightarrow> m rig)"
  by (induction rows arbitrary: m) (auto simp: last_row_def split: list.splits)

lemma last_count:
  assumes "list_all2 (\<lambda>row x. fst x = row_get row col \<and> P row (snd x)) rows xs"
  shows "case last_row col rows rig of
      Some row \<Rightarrow> \<exists>c. map_of (rev xs) rig = Some c \<and> P row c | None \<Rightarrow> map_of (rev xs) rig = None"
  using assms
proof (induction rows xs rule: list_all2_induct)
  case (Cons row rows x xs)
  then show ?case by (cases x) (auto simp: last_row_def map_add_def split: list.splits if_splits option.splits)
qed (simp add: last_row_def)

text \<open>What each of the later queries adds to the entries.\<close>

lemma completions_added:
  assumes "populateScoreboardCompletions db es s = Inr es1"
    and "db_Query db (completions_query (map sb_RigHandle es)) [] s = Inr output"
  obtains C where "es1 = map (\<lambda>e. e\<lparr>sb_Completions := C (sb_RigHandle e)\<rparr>) es"
    and "es \<noteq> [] \<Longrightarrow> \<forall>rig. (case last_row ''completed_by'' (parseSimpleCSV output) rig of
        Some c \<Rightarrow> Atoi (row_get c ''completions'') = (C rig, False) | None \<Rightarrow> C rig = 0)"
proof (cases "es = []")
  case True
  then show ?thesis using assms(1) that [of "\<lambda>rig. 0"] by (simp add: populateScoreboardCompletions_def)
next
  case False
  let ?p = "\<lambda>row. case row_int row ''completions'' ''completion count'' (row_get row ''completed_by'') of
      Inl err \<Rightarrow> Inl err | Inr c \<Rightarrow> Inr (row_get row ''completed_by'', c)"
  obtain counts where c: "parse_rows ?p (parseSimpleCSV output) = Inr counts"
    and es1: "es1 = map (\<lambda>e. e\<lparr>sb_Completions := (case map_of (rev counts) (sb_RigHandle e) of Some c \<Rightarrow> c | None \<Rightarrow> 0)\<rparr>) es"
    using assms False by (auto simp: populateScoreboardCompletions_def split: sum.splits)
  have "list_all2 (\<lambda>row x. fst x = row_get row ''completed_by'' \<and> Atoi (row_get row ''completions'') = (snd x, False))
      (parseSimpleCSV output) counts"
    by (rule list_all2_mono [OF parse_rows_Inr [OF c]]) (auto simp: row_int_Inr split: sum.splits)
  note last = last_count [OF this]
  show ?thesis
  proof (rule that [OF es1], rule allI)
    fix rig
    show "case last_row ''completed_by'' (parseSimpleCSV output) rig of
        Some c \<Rightarrow> Atoi (row_get c ''completions'') = ((case map_of (rev counts) rig of Some c \<Rightarrow> c | None \<Rightarrow> 0), False)
      | None \<Rightarrow> (case map_of (rev counts) rig of Some c \<Rightarrow> c | None \<Rightarrow> 0) = 0"
      using last [of rig] by (auto split: option.splits)
  qed
qed

lemma skills_added:
  assumes "populateScoreboardSkills uni db es s = Inr es1"
    and "db_Query db (skills_query (map sb_RigHandle es)) [] s = Inr output"
  shows "es1 = map (\<lambda>e. e\<lparr>sb_TopSkills := top_skills uni ''subject'' (parseSimpleCSV output) (sb_RigHandle e)\<rparr>) es"
  using assms by (simp add: populateScoreboardSkills_def split: if_splits)

lemma names_added:
  assumes "populateScoreboardDisplayNames db es s = Inr es1"
    and "db_Query db (names_query (map sb_RigHandle es)) [] s = Inr output"
  shows "es1 = map (\<lambda>e. e\<lparr>sb_DisplayName := (case last_row ''handle'' (parseSimpleCSV output) (sb_RigHandle e) of
      Some r \<Rightarrow> row_get r ''display_name'' | None \<Rightarrow> [])\<rparr>) es"
  using assms
  by (auto simp: populateScoreboardDisplayNames_def Let_def rows_map_def rows_map_last split: if_splits option.splits)

text \<open>
  C28: A scoreboard that is answered has one entry for each row of the stamp query, in its order: the rig
  and the numbers are those of the columns of that row, the trust tier is that of its score, the
  completions and the name are those of the last row of the rig in the answers about them, and the skills
  are its five most frequent tags, the smaller among equally frequent ones first.
\<close>

theorem scoreboard_exact:
  assumes "QueryScoreboard pf uni db limit s = Inr es"
    and "db_Query db (scoreboard_query (if limit \<le> 0 then 20 else min limit 100)) [] s = Inr stamps"
    and "rigs = map (\<lambda>row. row_get row ''subject'') (parseSimpleCSV stamps)"
    and "db_Query db (completions_query rigs) [] s = Inr completions"
    and "db_Query db (skills_query rigs) [] s = Inr skills"
    and "db_Query db (names_query rigs) [] s = Inr names"
  shows "list_all2 (board_line pf uni (parseSimpleCSV completions) (parseSimpleCSV skills) (parseSimpleCSV names))
     (parseSimpleCSV stamps) es"
proof -
  have limit: "board_limit limit = (if limit \<le> 0 then 20 else min limit 100)"
    by (simp add: board_limit_def Let_def min_def)
  obtain e1 e2 e3 where e: "parse_rows (scoreboard_row pf) (parseSimpleCSV stamps) = Inr e1"
    "populateScoreboardCompletions db e1 s = Inr e2" "populateScoreboardSkills uni db e2 s = Inr e3"
    "populateScoreboardDisplayNames db e3 s = Inr es"
    using assms(1,2) unfolding QueryScoreboard_def limit by (auto simp: then_populate_Inr)
  note rows = parse_rows_Inr [OF e(1)]
  have "map sb_RigHandle e1 = rigs"
    using rows unfolding assms(3) by (induction rule: list_all2_induct) (auto dest: scoreboard_row_Inr(1))
  then have h1: "db_Query db (completions_query (map sb_RigHandle e1)) [] s = Inr completions"
    "db_Query db (skills_query (map sb_RigHandle e1)) [] s = Inr skills"
    "db_Query db (names_query (map sb_RigHandle e1)) [] s = Inr names" using assms(4-6) by simp_all
  obtain C where e2: "e2 = map (\<lambda>e. e\<lparr>sb_Completions := C (sb_RigHandle e)\<rparr>) e1"
    and C: "e1 \<noteq> [] \<Longrightarrow> \<forall>rig. (case last_row ''completed_by'' (parseSimpleCSV completions) rig of
        Some c \<Rightarrow> Atoi (row_get c ''completions'') = (C rig, False) | None \<Rightarrow> C rig = 0)"
    using completions_added [OF e(2) h1(1)] by blast
  have h2: "map sb_RigHandle e2 = map sb_RigHandle e1" by (simp add: e2)
  note e3 = skills_added [OF e(3), unfolded h2, OF h1(2)]
  have h3: "map sb_RigHandle e3 = map sb_RigHandle e1" by (simp add: e3 e2)
  note e4 = names_added [OF e(4), unfolded h3, OF h1(3)]
  have "list_all2 (\<lambda>row e. board_line pf uni (parseSimpleCSV completions) (parseSimpleCSV skills) (parseSimpleCSV names) row
      (e\<lparr>sb_Completions := C (sb_RigHandle e),
         sb_TopSkills := top_skills uni ''subject'' (parseSimpleCSV skills) (sb_RigHandle e),
         sb_DisplayName := (case last_row ''handle'' (parseSimpleCSV names) (sb_RigHandle e) of
           Some r \<Rightarrow> row_get r ''display_name'' | None \<Rightarrow> [])\<rparr>)) (parseSimpleCSV stamps) e1"
  proof (rule list.rel_mono_strong [OF rows])
    fix row e assume r: "e \<in> set e1" "scoreboard_row pf row = Inr e"
    then have "e1 \<noteq> []" by auto
    note c = spec [OF C [OF this], of "sb_RigHandle e"]
    show "board_line pf uni (parseSimpleCSV completions) (parseSimpleCSV skills) (parseSimpleCSV names) row
      (e\<lparr>sb_Completions := C (sb_RigHandle e),
         sb_TopSkills := top_skills uni ''subject'' (parseSimpleCSV skills) (sb_RigHandle e),
         sb_DisplayName := (case last_row ''handle'' (parseSimpleCSV names) (sb_RigHandle e) of
           Some r \<Rightarrow> row_get r ''display_name'' | None \<Rightarrow> [])\<rparr>)"
      using scoreboard_row_Inr [OF r(2)] c
      by (cases "last_row ''completed_by'' (parseSimpleCSV completions) (row_get row ''subject'')")
        (simp_all add: board_line_def Let_def row_int_Inr row_float_Inr top_skills_sorted DeriveTrustTier_def)
  qed
  then show ?thesis unfolding e4 e3 e2 by (simp add: list.rel_map)
qed

definition sample_csv :: string where
  "sample_csv = ''subject,stamp_count,weighted_score,unique_towns,avg_quality,avg_reliability,avg_creativity,completed_by,completions,skill_tags,handle,display_name'' @ [nl_ch] @ ''ann,2,28,1,4,4,4,ann,1,go,ann,Ann''"

definition sample_header :: "string list" where
  "sample_header = [''subject'', ''stamp_count'', ''weighted_score'', ''unique_towns'', ''avg_quality'', ''avg_reliability'',
     ''avg_creativity'', ''completed_by'', ''completions'', ''skill_tags'', ''handle'', ''display_name'']"

definition sample_fields :: "string list" where
  "sample_fields = [''ann'', ''2'', ''28'', ''1'', ''4'', ''4'', ''4'', ''ann'', ''1'', ''go'', ''ann'', ''Ann'']"

definition sample_db :: "unit DB" where
  "sample_db = \<lparr>db_Query = (\<lambda>q r s. Inr sample_csv), db_Exec = (\<lambda>b m f qs s. (None, s)), db_Branches = (\<lambda>p s. Inr []),
     db_DeleteBranch = (\<lambda>b s. (None, s)), db_PushBranch = (\<lambda>b s. (None, [], s)), db_PushMain = (\<lambda>s. (None, s)),
     db_Sync = (\<lambda>s. (None, s)), db_MergeBranch = (\<lambda>b s. (None, s)), db_DeleteRemoteBranch = (\<lambda>b s. (None, s)),
     db_PushWithSync = (\<lambda>s. (None, s)), db_CanWildWest = (\<lambda>s. None)\<rparr>"

definition sample_row :: csv_row where
  "sample_row = fill_row Map.empty sample_header sample_fields"

lemma sample_records: "csv_ReadAll (TrimSpace sample_csv) = Some [sample_header, sample_fields]" "TrimSpace sample_csv \<noteq> []"
  "list_ex (\<lambda>f. TrimSpace f \<noteq> []) sample_fields"
  by code_simp+

lemma sample_rows: "parseSimpleCSV sample_csv = [sample_row]"
proof -
  have "\<not> blank_record sample_fields" using sample_records(3) by (auto simp: blank_record_def list_all_iff list_ex_iff)
  then show ?thesis using sample_records(1,2) by (auto simp: parseSimpleCSV_def sample_row_def sample_fields_def)
qed

lemma sample_cells:
  "map (row_get sample_row) [''subject'', ''stamp_count'', ''weighted_score'', ''unique_towns'', ''completed_by'', ''completions'', ''handle'']
   = [''ann'', ''2'', ''28'', ''1'', ''ann'', ''1'', ''ann'']"
  by code_simp

lemma sample_numbers: "Atoi ''2'' = (2, False)" "Atoi ''28'' = (28, False)" "Atoi ''1'' = (1, False)"
  by code_simp+

lemma sample_scoreboard: "\<exists>e. QueryScoreboard Inr id sample_db 20 () = Inr [e] \<and> sb_RigHandle e = ''ann'' \<and> sb_WeightedScore e = 28"
  using sample_cells sample_numbers
  by (simp add: QueryScoreboard_def sample_db_def sample_rows scoreboard_row_def row_int_def row_float_def Atoi_err_def
      then_populate_def populateScoreboardCompletions_def populateScoreboardSkills_def populateScoreboardDisplayNames_def Let_def)

theorem scoreboard_exact_witness:
  "\<exists>e. QueryScoreboard Inr id sample_db 20 () = Inr [e] \<and> sb_RigHandle e = ''ann'' \<and> sb_StampCount e = 2
     \<and> sb_UniqueTowns e = 1 \<and> sb_TrustTier e = ''trusted''"
proof -
  obtain e where e: "QueryScoreboard Inr id sample_db 20 () = Inr [e]" "sb_WeightedScore e = 28" using sample_scoreboard by blast
  have q: "db_Query sample_db q [] () = Inr sample_csv" for q by (simp add: sample_db_def)
  show ?thesis
    using scoreboard_exact [OF e(1) q refl q q q] sample_cells sample_numbers e
    by (auto simp: sample_rows board_line_def Let_def)
qed

section \<open>Details\<close>

lemma rows_per_rig_exact:
  assumes "rows_per_rig col (Some k) p rows m = Inr m1" and "\<And>r. length (of_rig m r) \<le> k"
  shows "map Inr (of_rig m1 rig) = map Inr (of_rig m rig)
     @ map p (take (k - length (of_rig m rig)) (filter (\<lambda>row. row_get row col = rig) rows))"
  using assms
proof (induction rows arbitrary: m)
  case (Cons row rows)
  let ?r = "row_get row col"
  show ?case
  proof (cases "k \<le> length (of_rig m ?r)")
    case True
    then have "rows_per_rig col (Some k) p rows m = Inr m1" using Cons.prems(1) by (simp add: Let_def of_rig_def split: option.splits)
    from Cons.IH [OF this Cons.prems(2)] show ?thesis using True Cons.prems(2) [of ?r] by auto
  next
    case False
    then obtain x where x: "p row = Inr x" "rows_per_rig col (Some k) p rows (m(?r \<mapsto> of_rig m ?r @ [x])) = Inr m1"
      using Cons.prems(1) by (auto simp: Let_def of_rig_def split: sum.splits option.splits)
    have b: "length (of_rig (m(?r \<mapsto> of_rig m ?r @ [x])) r) \<le> k" for r
      using False Cons.prems(2) [of r] by (simp add: of_rig_def)
    show ?thesis
    proof (cases "?r = rig")
      case True
      have "take (k - length (of_rig m rig)) (row # filter (\<lambda>row. row_get row col = rig) rows)
          = row # take (k - Suc (length (of_rig m rig))) (filter (\<lambda>row. row_get row col = rig) rows)"
        using False True by (metis Suc_diff_Suc linorder_not_le take_Suc_Cons)
      then show ?thesis using Cons.IH [OF x(2) b] True x(1) by (simp add: of_rig_def)
    next
      case other: False
      then show ?thesis using Cons.IH [OF x(2) b] by (simp add: of_rig_def)
    qed
  qed
qed simp

text \<open>The text of the query of the stamps, and what one of its rows says.\<close>

definition stamps_of_rigs :: "string \<Rightarrow> string" where
  "stamps_of_rigs rigs =
     Sprintf (sq (Prelude.Join
       [''SELECT subject, author, severity,'',
        ''  COALESCE(JSON_EXTRACT(valence, `$.quality`), 0) AS quality,'',
        ''  COALESCE(JSON_EXTRACT(valence, `$.reliability`), 0) AS reliability,'',
        ''  COALESCE(skill_tags, ``) AS skill_tags,'',
        ''  COALESCE(message, ``) AS message,'',
        ''  COALESCE(created_at, ``) AS created_at'',
        ''FROM stamps'',
        ''WHERE subject IN (%s)'',
        ''ORDER BY subject, created_at DESC''] [nl_ch])) [FS rigs]"

definition stamp_line :: "(string \<Rightarrow> go_error + 'f) \<Rightarrow> csv_row \<Rightarrow> 'f StampDetail \<Rightarrow> bool" where
  "stamp_line pf row d \<longleftrightarrow>
     sd_Author d = row_get row ''author'' \<and> sd_Severity d = row_get row ''severity''
   \<and> pf (row_get row ''quality'') = Inr (sd_Quality d) \<and> pf (row_get row ''reliability'') = Inr (sd_Reliability d)
   \<and> sd_SkillTags d = parseTagsJSON (row_get row ''skill_tags'') \<and> sd_Message d = row_get row ''message''
   \<and> sd_CreatedAt d = row_get row ''created_at''"

lemma stamp_row_line: "stamp_row pf row = Inr d \<Longrightarrow> stamp_line pf row d"
  by (auto simp: stamp_row_def stamp_line_def Let_def row_float_Inr split: sum.splits)

lemma map_Inr_list_all2: "map Inr xs = map f ys \<longleftrightarrow> list_all2 (\<lambda>y x. f y = Inr x) ys xs"
  by (auto simp: list_eq_iff_nth_eq list_all2_conv_all_nth)

text \<open>
  C29: The stamps shown for a rig are the first fifty of its rows in the database's answer to the query of
  the stamps, in their order, each with the author, severity, marks, tags, message and time of the columns
  of its row; a rig without rows has none, and nothing else of an entry changes.
\<close>

theorem detail_stamps_exact:
  assumes "db_Query db (stamps_of_rigs inClause) [] s = Inr output"
    and "populateDetailStamps pf db inClause s entries = Inr es"
  shows "list_all2 (\<lambda>e e1. e1 = e\<lparr>de_Stamps := de_Stamps e1\<rparr>
     \<and> list_all2 (stamp_line pf)
         (take 50 (filter (\<lambda>row. row_get row ''subject'' = sb_RigHandle (de_Entry e)) (parseSimpleCSV output))) (de_Stamps e1))
     entries es"
proof -
  obtain perRig where r: "rows_per_rig ''subject'' (Some 50) (stamp_row pf) (parseSimpleCSV output) Map.empty = Inr perRig"
    "es = map (\<lambda>e. e\<lparr>de_Stamps := of_rig perRig (de_rig e)\<rparr>) entries"
    using assms unfolding populateDetailStamps_def stamps_of_rigs_def by (auto split: sum.splits)
  have "list_all2 (stamp_line pf) (take 50 (filter (\<lambda>row. row_get row ''subject'' = rig) (parseSimpleCSV output)))
      (of_rig perRig rig)" for rig
  proof -
    have "map Inr (of_rig perRig rig)
        = map (stamp_row pf) (take 50 (filter (\<lambda>row. row_get row ''subject'' = rig) (parseSimpleCSV output)))"
      using rows_per_rig_exact [OF r(1), of rig] by (simp add: of_rig_def)
    then show ?thesis unfolding map_Inr_list_all2 by (rule list_all2_mono) (rule stamp_row_line)
  qed
  then show ?thesis by (simp add: r(2) list_all2_map_own de_rig_def)
qed

text \<open>The stamps of \<^verbatim>\<open>ann\<close> in the sample answer: its one row.\<close>

theorem detail_stamps_exact_witness:
  "\<exists>d e. de_rig d = ''ann'' \<and> populateDetailStamps Inr sample_db [] () [d] = Inr [e]
     \<and> list_all2 (stamp_line Inr) [sample_row] (de_Stamps e)"
proof -
  obtain e :: "string ScoreboardEntry" where "sb_RigHandle e = ''ann''" using sample_scoreboard by blast
  then have d: "de_rig (new_detail e) = ''ann''" by (simp add: de_rig_def new_detail_def)
  have "\<exists>e1. populateDetailStamps Inr sample_db [] () [new_detail e] = Inr [e1]"
    by (simp add: populateDetailStamps_def sample_db_def sample_rows stamp_row_def row_float_def Let_def)
  then obtain e1 where e1: "populateDetailStamps Inr sample_db [] () [new_detail e] = Inr [e1]" by blast
  have "db_Query sample_db (stamps_of_rigs []) [] () = Inr sample_csv" by (simp add: sample_db_def)
  from detail_stamps_exact [OF this e1] have "list_all2 (stamp_line Inr) [sample_row] (de_Stamps e1)"
    using d sample_cells by (simp add: sample_rows de_rig_def)
  then show ?thesis using e1 d by blast
qed

end
