(* ===== verification/DoltCli.thy ===== *)
theory DoltCli
  imports CommonsOps
begin

text \<open>
  The dolt processes of \<^verbatim>\<open>internal/commons/dolt.go\<close>: branches, merges, pushes and pulls of a local
  clone.  The operating system is the record \<open>sys\<close>; a process is its arguments, and what it prints on both
  streams is one text.
\<close>

section \<open>Processes\<close>

text \<open>
  \<open>sy_run\<close> runs a process in a directory with a limit in seconds; \<open>sy_query\<close> runs one that reads only, for the
  given attempt.  \<open>sy_temp\<close> creates a file of a name that fits a pattern, \<open>sy_write\<close> fills it.
\<close>

datatype query_answer = Query_ok string | Query_failed go_error string | Query_timeout go_error

record 's sys =
  sy_run :: "nat \<Rightarrow> string \<Rightarrow> string list \<Rightarrow> 's \<Rightarrow> (go_error option \<times> string) \<times> 's"
  sy_query :: "nat \<Rightarrow> string \<Rightarrow> string list \<Rightarrow> 's \<Rightarrow> query_answer"
  sy_sleep :: "nat \<Rightarrow> 's \<Rightarrow> 's"
  sy_temp :: "string \<Rightarrow> 's \<Rightarrow> (go_error + string) \<times> 's"
  sy_write :: "string \<Rightarrow> string \<Rightarrow> 's \<Rightarrow> go_error option \<times> 's"
  sy_remove :: "string \<Rightarrow> 's \<Rightarrow> 's"
  sy_uni :: "string \<Rightarrow> string"

text \<open>Three attempts, a second and two seconds apart.\<close>

fun retry :: "'s sys \<Rightarrow> nat \<Rightarrow> nat \<Rightarrow> go_error option \<Rightarrow> ('s \<Rightarrow> go_error option \<times> 's) \<Rightarrow> 's \<Rightarrow> go_error option \<times> 's" where
  "retry y i 0 err f s = (err, s)"
| "retry y i (Suc left) err f s =
     (case f (if 0 < i then sy_sleep y i s else s) of
        (None, s1) \<Rightarrow> (None, s1)
      | (Some e, s1) \<Rightarrow> retry y (Suc i) left (Some e) f s1)"

definition doltRetry :: "'s sys \<Rightarrow> ('s \<Rightarrow> go_error option \<times> 's) \<Rightarrow> 's \<Rightarrow> go_error option \<times> 's" where
  "doltRetry y f s = retry y 0 3 None f s"

text \<open>
  With a context: \<open>ctx k\<close> is its error at the \<open>k\<close>-th time it is asked in an attempt, which is before it, while
  it waits, and after a failure.
\<close>

type_synonym go_ctx = "nat \<Rightarrow> nat \<Rightarrow> go_error option"

definition background :: go_ctx where
  "background i k = None"

fun retry_ctx :: "go_ctx \<Rightarrow> nat \<Rightarrow> nat \<Rightarrow> go_error \<Rightarrow> (nat \<Rightarrow> go_error + string) \<Rightarrow> go_error + string" where
  "retry_ctx ctx i 0 err f = Inl err"
| "retry_ctx ctx i (Suc left) err f =
     (case ctx i 0 of
        Some e \<Rightarrow> Inl e
      | None \<Rightarrow>
          (case (if 0 < i then ctx i 1 else None) of
             Some e \<Rightarrow> Inl e
           | None \<Rightarrow>
               (case f i of
                  Inr out \<Rightarrow> Inr out
                | Inl e \<Rightarrow> (case ctx i 2 of Some e1 \<Rightarrow> Inl e1 | None \<Rightarrow> retry_ctx ctx (Suc i) left e f))))"

text \<open>The error of a process: what it was, the error and the output.\<close>

definition process_error :: "string \<Rightarrow> go_error \<Rightarrow> string \<Rightarrow> go_error" where
  "process_error what err output = Err (what @ '': '' @ Error err @ '' ('' @ TrimSpace output @ '')'')"

definition run_once :: "'s sys \<Rightarrow> nat \<Rightarrow> string \<Rightarrow> string \<Rightarrow> string list \<Rightarrow> 's \<Rightarrow> go_error option \<times> 's" where
  "run_once y limit dir what args s =
     (case sy_run y limit dir args s of
        ((None, output), s1) \<Rightarrow> (None, s1)
      | ((Some err, output), s1) \<Rightarrow> (Some (process_error what err output), s1))"

definition run_retried :: "'s sys \<Rightarrow> nat \<Rightarrow> string \<Rightarrow> string \<Rightarrow> string list \<Rightarrow> 's \<Rightarrow> go_error option \<times> 's" where
  "run_retried y limit dir what args s = doltRetry y (run_once y limit dir what args) s"

definition doltExec :: "'s sys \<Rightarrow> string \<Rightarrow> string list \<Rightarrow> 's \<Rightarrow> go_error option \<times> 's" where
  "doltExec y dir args s = run_retried y 30 dir (''dolt '' @ Join args '' '') (''dolt'' # args) s"

section \<open>Queries\<close>

definition query_once :: "'s sys \<Rightarrow> string \<Rightarrow> string \<Rightarrow> 's \<Rightarrow> nat \<Rightarrow> go_error + string" where
  "query_once y dir query s i =
     (case sy_query y i dir [''dolt'', ''sql'', ''-r'', ''csv'', ''-q'', query] s of
        Query_ok output \<Rightarrow> Inr output
      | Query_timeout e \<Rightarrow> Inl e
      | Query_failed e output \<Rightarrow> Inl (process_error ''dolt sql query failed'' e output))"

definition DoltSQLQueryContext :: "'s sys \<Rightarrow> go_ctx \<Rightarrow> string \<Rightarrow> string \<Rightarrow> 's \<Rightarrow> go_error + string" where
  "DoltSQLQueryContext y ctx dir query s = retry_ctx ctx 0 3 (Err []) (query_once y dir query s)"

definition DoltSQLQuery :: "'s sys \<Rightarrow> string \<Rightarrow> string \<Rightarrow> 's \<Rightarrow> go_error + string" where
  "DoltSQLQuery y dir query s = DoltSQLQueryContext y background dir query s"

definition DoltSQLScript :: "'s sys \<Rightarrow> string \<Rightarrow> string \<Rightarrow> 's \<Rightarrow> go_error option \<times> 's" where
  "DoltSQLScript y dir script s =
     (case sy_temp y ''dolt-script-*.sql'' s of
        (Inl err, s1) \<Rightarrow> (Some (Wrap ''creating temp SQL file: '' err), s1)
      | (Inr name, s1) \<Rightarrow>
          (case sy_write y name script s1 of
             (Some err, s2) \<Rightarrow> (Some (Wrap ''writing SQL script: '' err), sy_remove y name s2)
           | (None, s2) \<Rightarrow>
               (case doltRetry y (\<lambda>t. case sy_run y 30 dir [''dolt'', ''sql'', ''--file'', name] t of
                        ((None, output), t1) \<Rightarrow> (None, t1)
                      | ((Some err, output), t1) \<Rightarrow>
                          (Some (Err (Error err @ '' (output: '' @ TrimSpace output @ '')'')), t1)) s2 of
                  (res, s3) \<Rightarrow> (res, sy_remove y name s3))))"

section \<open>Remotes\<close>

definition pushRemote :: "'s sys \<Rightarrow> string \<Rightarrow> string \<Rightarrow> 's \<Rightarrow> go_error option \<times> 's" where
  "pushRemote y dir rem s =
     run_retried y 60 dir (Sprintf ''dolt push %s main'' [FS rem]) [''dolt'', ''push'', rem, ''main''] s"

definition pullRemote :: "'s sys \<Rightarrow> string \<Rightarrow> string \<Rightarrow> 's \<Rightarrow> go_error option \<times> 's" where
  "pullRemote y dir rem s =
     run_retried y 60 dir (Sprintf ''dolt pull %s main'' [FS rem]) [''dolt'', ''pull'', rem, ''main''] s"

text \<open>One remote of \<^verbatim>\<open>PushWithSync\<close>: whether it failed, and what is written.\<close>

definition push_sync :: "'s sys \<Rightarrow> string \<Rightarrow> string \<Rightarrow> 's \<Rightarrow> bool \<times> string \<times> 's" where
  "push_sync y dir rem s =
     (let done_text = Sprintf ''  Pushed to %s'' [FS rem] @ [nl_ch];
          sync_text = Sprintf ''  Syncing with %s...'' [FS rem] @ [nl_ch]
      in case pushRemote y dir rem s of
           (None, s1) \<Rightarrow> (False, done_text, s1)
         | (Some err, s1) \<Rightarrow>
             (case pullRemote y dir rem s1 of
                (Some perr, s2) \<Rightarrow>
                  (True, sync_text @ Sprintf ''  warning: sync from %s failed: %s'' [FS rem, FS (Error perr)] @ [nl_ch], s2)
              | (None, s2) \<Rightarrow>
                  (case pushRemote y dir rem s2 of
                     (Some err2, s3) \<Rightarrow>
                       (True, sync_text @ Sprintf ''  warning: push to %s failed after sync: %s'' [FS rem, FS (Error err2)] @ [nl_ch], s3)
                   | (None, s3) \<Rightarrow> (False, sync_text @ done_text, s3))))"

definition PushWithSync :: "'s sys \<Rightarrow> string \<Rightarrow> 's \<Rightarrow> go_error option \<times> string \<times> 's" where
  "PushWithSync y dir s =
     (let (bad1, t1, s1) = push_sync y dir ''upstream'' s; (bad2, t2, s2) = push_sync y dir ''origin'' s1;
          failures = (if bad1 then [''upstream''] else []) @ (if bad2 then [''origin''] else [])
      in (if failures = [] then None else Some (Err (''push failed for remotes: '' @ Join failures '', '')), t1 @ t2, s2))"

definition PullUpstream :: "'s sys \<Rightarrow> string \<Rightarrow> 's \<Rightarrow> go_error option \<times> 's" where
  "PullUpstream y dir s = pullRemote y dir ''upstream'' s"

definition FetchRemote :: "'s sys \<Rightarrow> string \<Rightarrow> string \<Rightarrow> 's \<Rightarrow> go_error option \<times> 's" where
  "FetchRemote y dir rem s =
     run_retried y 60 dir (Sprintf ''dolt fetch %s'' [FS rem]) [''dolt'', ''fetch'', rem] s"

definition ResetMainToUpstream :: "'s sys \<Rightarrow> string \<Rightarrow> 's \<Rightarrow> go_error option \<times> 's" where
  "ResetMainToUpstream y dir s =
     (case FetchRemote y dir ''upstream'' s of
        (Some err, s1) \<Rightarrow> (Some err, s1)
      | (None, s1) \<Rightarrow> doltExec y dir [''reset'', ''--hard'', ''upstream/main''] s1)"

definition dolt_DeleteRemoteBranch :: "'s sys \<Rightarrow> string \<Rightarrow> string \<Rightarrow> string \<Rightarrow> 's \<Rightarrow> go_error option \<times> 's" where
  "dolt_DeleteRemoteBranch y dir rem branch s =
     run_retried y 60 dir (Sprintf ''dolt push %s :%s'' [FS rem, FS branch])
       [''dolt'', ''push'', rem, CHR '':'' # branch] s"

definition dolt_PushBranch :: "'s sys \<Rightarrow> string \<Rightarrow> string \<Rightarrow> 's \<Rightarrow> go_error option \<times> string \<times> 's" where
  "dolt_PushBranch y dir branch s =
     (case run_retried y 60 dir (Sprintf ''push branch %s'' [FS branch]) [''dolt'', ''push'', ''--force'', ''origin'', branch] s of
        (Some err, s1) \<Rightarrow> (Some err, ''  warning: '' @ Error err @ [nl_ch], s1)
      | (None, s1) \<Rightarrow> (None, Sprintf ''  Pushed branch %s to origin'' [FS branch] @ [nl_ch], s1))"

definition PushBranchToRemoteForce ::
  "'s sys \<Rightarrow> string \<Rightarrow> string \<Rightarrow> string \<Rightarrow> bool \<Rightarrow> 's \<Rightarrow> go_error option \<times> string \<times> 's" where
  "PushBranchToRemoteForce y dir rem branch force s =
     (case run_retried y 60 dir (Sprintf ''dolt push %s %s'' [FS rem, FS branch])
             ([''dolt'', ''push''] @ (if force then [''--force''] else []) @ [rem, branch]) s of
        (Some err, s1) \<Rightarrow> (Some err, [], s1)
      | (None, s1) \<Rightarrow> (None, Sprintf ''  Pushed branch %s to %s'' [FS branch, FS rem] @ [nl_ch], s1))"

definition PushBranchToRemote :: "'s sys \<Rightarrow> string \<Rightarrow> string \<Rightarrow> string \<Rightarrow> 's \<Rightarrow> go_error option \<times> string \<times> 's" where
  "PushBranchToRemote y dir rem branch s = PushBranchToRemoteForce y dir rem branch False s"

text \<open>\<^verbatim>\<open>dolt remote -v\<close> lists the remotes; a line that begins with the name is taken for it.\<close>

definition remote_listed :: "string \<Rightarrow> string \<Rightarrow> bool" where
  "remote_listed name output \<longleftrightarrow> list_ex (\<lambda>line. HasPrefix (TrimSpace line) name) (Split output nl_ch)"

definition ensure_remote :: "'s sys \<Rightarrow> string \<Rightarrow> string \<Rightarrow> string \<Rightarrow> 's \<Rightarrow> go_error option \<times> 's" where
  "ensure_remote y dir name url s =
     (case sy_run y 15 dir [''dolt'', ''remote'', ''-v''] s of
        ((err, output), s1) \<Rightarrow>
          if err = None \<and> remote_listed name output then (None, s1)
          else (case sy_run y 15 dir [''dolt'', ''remote'', ''add'', name, url] s1 of
                  ((None, out2), s2) \<Rightarrow> (None, s2)
                | ((Some e, out2), s2) \<Rightarrow>
                    if Contains (ToLower (sy_uni y) (TrimSpace out2)) ''already exists'' then (None, s2)
                    else (Some (process_error (''dolt remote add '' @ name) e out2), s2)))"

definition EnsureGitHubRemote :: "'s sys \<Rightarrow> string \<Rightarrow> string \<Rightarrow> string \<Rightarrow> 's \<Rightarrow> go_error option \<times> 's" where
  "EnsureGitHubRemote y dir forkOrg forkDB s =
     ensure_remote y dir ''github'' (Sprintf ''https://github.com/%s/%s.git'' [FS forkOrg, FS forkDB]) s"

section \<open>Branches\<close>

definition quote_doubled :: "string \<Rightarrow> string" where
  "quote_doubled s = ReplaceAll s [quote_ch] [quote_ch, quote_ch]"

definition BranchExists :: "'s sys \<Rightarrow> string \<Rightarrow> string \<Rightarrow> 's \<Rightarrow> go_error + bool" where
  "BranchExists y dir branch s =
     (case DoltSQLQuery y dir (Sprintf (sq ''SELECT COUNT(*) AS cnt FROM dolt_branches WHERE name = `%s`'')
             [FS (quote_doubled branch)]) s of
        Inl err \<Rightarrow> Inl err
      | Inr out \<Rightarrow>
          (let lines = Split (TrimSpace out) nl_ch
           in if length lines < 2 then Inl (Err (''unexpected dolt_branches output: '' @ out))
              else Inr (TrimSpace (lines ! 1) \<noteq> ''0'')))"

definition RemoteBranchExists :: "'s sys \<Rightarrow> string \<Rightarrow> string \<Rightarrow> 's \<Rightarrow> go_error + bool" where
  "RemoteBranchExists y dir remoteBranch s =
     (case DoltSQLQuery y dir (Sprintf (sq ''SELECT COUNT(*) AS cnt FROM dolt_remote_branches WHERE name = `%s`'')
             [FS (quote_doubled remoteBranch)]) s of
        Inl err \<Rightarrow> Inl err
      | Inr out \<Rightarrow>
          (let lines = Split (TrimSpace out) nl_ch
           in if length lines < 2 then Inr False else Inr (TrimSpace (lines ! 1) \<noteq> ''0'')))"

definition CheckoutBranch :: "'s sys \<Rightarrow> string \<Rightarrow> string \<Rightarrow> 's \<Rightarrow> go_error option \<times> 's" where
  "CheckoutBranch y dir branch s =
     (case BranchExists y dir branch s of
        Inl err \<Rightarrow> (Some (Wrap (Sprintf ''checking branch %s: '' [FS branch]) err), s)
      | Inr True \<Rightarrow> doltExec y dir [''checkout'', branch] s
      | Inr False \<Rightarrow>
          (let remoteBranch = ''remotes/origin/'' @ branch;
               tracked = (RemoteBranchExists y dir remoteBranch s = Inr True)
           in case doltExec y dir (if tracked then [''branch'', branch, remoteBranch] else [''branch'', branch]) s of
                (Some err, s1) \<Rightarrow>
                  (Some (Wrap (if tracked then Sprintf ''creating branch %s from %s: '' [FS branch, FS remoteBranch]
                               else Sprintf ''creating branch %s: '' [FS branch]) err), s1)
              | (None, s1) \<Rightarrow> doltExec y dir [''checkout'', branch] s1))"

definition MergeRemoteTracking :: "'s sys \<Rightarrow> string \<Rightarrow> string \<Rightarrow> 's \<Rightarrow> go_error option \<times> 's" where
  "MergeRemoteTracking y dir branch s =
     (if RemoteBranchExists y dir (''remotes/origin/'' @ branch) s = Inr True
      then doltExec y dir [''merge'', ''remotes/origin/'' @ branch] s else (None, s))"

definition CheckoutBranchFrom :: "'s sys \<Rightarrow> string \<Rightarrow> string \<Rightarrow> string \<Rightarrow> 's \<Rightarrow> go_error option \<times> 's" where
  "CheckoutBranchFrom y dir branch startPoint s =
     (case BranchExists y dir branch s of
        Inl err \<Rightarrow> (Some (Wrap (Sprintf ''checking branch %s: '' [FS branch]) err), s)
      | Inr True \<Rightarrow> doltExec y dir [''checkout'', branch] s
      | Inr False \<Rightarrow>
          (case doltExec y dir [''branch'', branch, startPoint] s of
             (Some err, s1) \<Rightarrow> (Some (Wrap (Sprintf ''creating branch %s from %s: '' [FS branch, FS startPoint]) err), s1)
           | (None, s1) \<Rightarrow> doltExec y dir [''checkout'', branch] s1))"

definition CheckoutMain :: "'s sys \<Rightarrow> string \<Rightarrow> 's \<Rightarrow> go_error option \<times> 's" where
  "CheckoutMain y dir s = doltExec y dir [''checkout'', ''main''] s"

text \<open>The non-empty lines after the first.\<close>

definition name_lines :: "string \<Rightarrow> string list" where
  "name_lines out = filter (\<lambda>n. n \<noteq> []) (map TrimSpace (drop 1 (Split (TrimSpace out) nl_ch)))"

definition ListBranchesContext :: "'s sys \<Rightarrow> go_ctx \<Rightarrow> string \<Rightarrow> string \<Rightarrow> 's \<Rightarrow> go_error + string list" where
  "ListBranchesContext y ctx dir prefix s =
     (case DoltSQLQueryContext y ctx dir (Sprintf (sq ''SELECT name FROM dolt_branches WHERE name LIKE `%s%%` ORDER BY name'')
             [FS (EscapeLIKE prefix)]) s of
        Inl err \<Rightarrow> Inl err
      | Inr out \<Rightarrow> Inr (name_lines out))"

definition ListBranches :: "'s sys \<Rightarrow> string \<Rightarrow> string \<Rightarrow> 's \<Rightarrow> go_error + string list" where
  "ListBranches y dir prefix s = ListBranchesContext y background dir prefix s"

definition dolt_DeleteBranch :: "'s sys \<Rightarrow> string \<Rightarrow> string \<Rightarrow> 's \<Rightarrow> go_error option \<times> 's" where
  "dolt_DeleteBranch y dir branch s =
     DoltSQLScript y dir (Sprintf (sq ''CALL DOLT_BRANCH(`-D`, `%s`);'') [FS (quote_doubled branch)]) s"

text \<open>The missing tracking branches are created with whatever result, one process each.\<close>

definition track_branch :: "'s sys \<Rightarrow> string \<Rightarrow> string list \<Rightarrow> string \<Rightarrow> 's \<Rightarrow> 's" where
  "track_branch y dir localBranches rem s =
     (let own = TrimPrefix rem ''remotes/origin/''
      in if own \<in> set localBranches then s else snd (sy_run y 0 dir [''dolt'', ''branch'', own, rem] s))"

definition prune_branch :: "'s sys \<Rightarrow> string \<Rightarrow> string \<Rightarrow> string list \<Rightarrow> string \<Rightarrow> 's \<Rightarrow> 's" where
  "prune_branch y dir prefix remotes own s =
     (if \<not> HasPrefix own prefix \<or> own \<in> set (map (\<lambda>r. TrimPrefix r ''remotes/origin/'') remotes) then s
      else snd (dolt_DeleteBranch y dir own s))"

definition TrackOriginBranches :: "'s sys \<Rightarrow> string \<Rightarrow> string \<Rightarrow> 's \<Rightarrow> 's" where
  "TrackOriginBranches y dir prefix s =
     (case DoltSQLQuery y dir (Sprintf (sq ''SELECT name FROM dolt_remote_branches WHERE name LIKE `%s%%` ORDER BY name'')
             [FS (EscapeLIKE (''remotes/origin/'' @ prefix))]) s of
        Inl err \<Rightarrow> s
      | Inr out \<Rightarrow>
          (let remotes = name_lines out;
               localBranches = (case ListBranches y dir prefix s of Inr bs \<Rightarrow> bs | Inl _ \<Rightarrow> [])
           in if remotes = [] then s
              else fold (prune_branch y dir prefix remotes) localBranches
                     (fold (track_branch y dir localBranches) remotes s)))"

definition dolt_MergeBranch :: "'s sys \<Rightarrow> string \<Rightarrow> string \<Rightarrow> 's \<Rightarrow> go_error option \<times> 's" where
  "dolt_MergeBranch y dir branch s =
     (case DoltSQLScript y dir (sq ''CALL DOLT_CHECKOUT(`main`);'' @ [nl_ch] @
             Sprintf (sq ''CALL DOLT_MERGE(`%s`);'') [FS (quote_doubled branch)]) s of
        (None, s1) \<Rightarrow> (None, s1)
      | (Some err, s1) \<Rightarrow>
          if Contains (ToLower (sy_uni y) (Error err)) ''conflict''
          then (Some (Err (Sprintf ''merge conflict on branch %s: resolve manually or delete the branch'' [FS branch])),
                snd (DoltSQLScript y dir (sq ''CALL DOLT_MERGE(`--abort`);'') s1))
          else (Some (Wrap (Sprintf ''merging branch %s: '' [FS branch]) err), s1))"

end
