(* ===== verification/LocalDb.thy ===== *)
theory LocalDb
  imports DoltCli JsonBack SdkOps
begin

text \<open>
  \<^verbatim>\<open>internal/backend/local.go\<close>: the database interface over a local dolt clone.
\<close>

section \<open>Rewriting a query\<close>

text \<open>The first word; an invalid byte would be replaced.\<close>

definition extractTableName :: "string \<Rightarrow> string" where
  "extractTableName s =
     valid_text (takeWhile (\<lambda>c. c \<notin> {space_ch, CHR '';'', nl_ch, cr_ch, tab_ch}) (TrimSpace s))"

definition blanks :: string where
  "blanks = [space_ch, tab_ch, nl_ch, cr_ch]"

definition injectAsOf :: "(string \<Rightarrow> string) \<Rightarrow> string \<Rightarrow> string \<Rightarrow> string" where
  "injectAsOf uni sql ref =
     (case Index (ToUpper uni sql) '' FROM '' of
        None \<Rightarrow> sql
      | Some i \<Rightarrow>
          (let afterFrom = drop (i + 6) sql;
               trimmed = TrimLeft afterFrom blanks;
               tableName = extractTableName trimmed
           in if tableName = [] then sql
              else take (i + 6) sql @ tableName @ Sprintf (sq '' AS OF `%s`'') [FS (EscapeSQL ref)] @
                   drop (length afterFrom - length trimmed + length tableName) afterFrom))"

section \<open>The database\<close>

record LocalDB =
  ld_dir :: string
  ld_mode :: string
  ld_ctx :: "go_ctx option"

definition NewLocalDB :: "string \<Rightarrow> string \<Rightarrow> LocalDB" where
  "NewLocalDB dir mode = \<lparr>ld_dir = dir, ld_mode = mode, ld_ctx = None\<rparr>"

definition local_WithContext :: "go_ctx \<Rightarrow> LocalDB \<Rightarrow> LocalDB" where
  "local_WithContext ctx l = l\<lparr>ld_ctx := Some ctx\<rparr>"

definition queryContext :: "LocalDB \<Rightarrow> go_ctx" where
  "queryContext l = (case ld_ctx l of Some ctx \<Rightarrow> ctx | None \<Rightarrow> background)"

definition local_Query :: "'s sys \<Rightarrow> (string \<Rightarrow> string) \<Rightarrow> LocalDB \<Rightarrow> string \<Rightarrow> string \<Rightarrow> 's \<Rightarrow> go_error + string" where
  "local_Query y upper l sql ref s =
     DoltSQLQueryContext y (queryContext l) (ld_dir l) (if ref \<noteq> [] then injectAsOf upper sql ref else sql) s"

definition exec_script :: "string \<Rightarrow> bool \<Rightarrow> string list \<Rightarrow> string" where
  "exec_script commitMsg signed stmts =
     Join (map (\<lambda>st. TrimRight st [CHR '';'', space_ch, tab_ch, nl_ch] @ '';'') stmts) [nl_ch] @ [nl_ch] @
     sq ''CALL DOLT_ADD(`-A`);'' @ [nl_ch] @ CommitSQL commitMsg signed"

text \<open>Whatever the script did, the clone goes back to main when it was on a branch.\<close>

definition local_Exec :: "'s sys \<Rightarrow> LocalDB \<Rightarrow> string \<Rightarrow> string \<Rightarrow> bool \<Rightarrow> string list \<Rightarrow> 's \<Rightarrow> go_error option \<times> 's" where
  "local_Exec y l branch commitMsg signed stmts s =
     (case (if branch \<noteq> [] then CheckoutBranchFrom y (ld_dir l) branch ''main'' s else (None, s)) of
        (Some err, s1) \<Rightarrow> (Some (Wrap (Sprintf ''checkout branch %s: '' [FS branch]) err), s1)
      | (None, s1) \<Rightarrow>
          (case DoltSQLScript y (ld_dir l) (exec_script commitMsg signed stmts) s1 of
             (err, s2) \<Rightarrow>
               if branch = [] then (err, s2)
               else (case CheckoutMain y (ld_dir l) s2 of
                       (None, s3) \<Rightarrow> (err, s3)
                     | (Some cerr, s3) \<Rightarrow>
                         (Some (case err of
                                  Some e \<Rightarrow> Err (Error e @ [nl_ch] @ ''checkout cleanup: '' @ Error cerr)
                                | None \<Rightarrow> Wrap ''checkout main after branch exec: '' cerr), s3))))"

definition local_Sync :: "'s sys \<Rightarrow> LocalDB \<Rightarrow> 's \<Rightarrow> go_error option \<times> 's" where
  "local_Sync y l s =
     (if ld_mode l = ''pr''
      then (case ResetMainToUpstream y (ld_dir l) s of
              (Some err, s1) \<Rightarrow> (Some err, s1)
            | (None, s1) \<Rightarrow>
                (None, TrackOriginBranches y (ld_dir l) ''wl/'' (snd (FetchRemote y (ld_dir l) ''origin'' s1))))
      else PullUpstream y (ld_dir l) s)"

definition PushOriginMain :: "'s sys \<Rightarrow> string \<Rightarrow> 's \<Rightarrow> go_error option \<times> string \<times> 's" where
  "PushOriginMain y dir s = PushBranchToRemoteForce y dir ''origin'' ''main'' True s"

text \<open>What is written is dropped where the interface has no place for it.\<close>

definition without_text :: "go_error option \<times> string \<times> 's \<Rightarrow> go_error option \<times> 's" where
  "without_text r = (case r of (err, text, s) \<Rightarrow> (err, s))"

definition local_db :: "'s sys \<Rightarrow> (string \<Rightarrow> string) \<Rightarrow> LocalDB \<Rightarrow> 's DB" where
  "local_db y upper l =
     \<lparr>db_Query = local_Query y upper l,
      db_Exec = local_Exec y l,
      db_Branches = (\<lambda>prefix s. ListBranchesContext y (queryContext l) (ld_dir l) prefix s),
      db_DeleteBranch = dolt_DeleteBranch y (ld_dir l),
      db_PushBranch = dolt_PushBranch y (ld_dir l),
      db_PushMain = (\<lambda>s. without_text (PushOriginMain y (ld_dir l) s)),
      db_Sync = local_Sync y l,
      db_MergeBranch = dolt_MergeBranch y (ld_dir l),
      db_DeleteRemoteBranch = dolt_DeleteRemoteBranch y (ld_dir l) ''origin'',
      db_PushWithSync = (\<lambda>s. without_text (PushWithSync y (ld_dir l) s)),
      db_CanWildWest = (\<lambda>s. None)\<rparr>"

text \<open>
  What a local clone runs: the processes of a write in order, and that a client in PR mode pushes
  nothing but its item's own branch.
\<close>

section \<open>Recording processes\<close>

text \<open>
  A system with the arguments of its processes, and the files they read, in front of its state, whatever that is
  and however it answers.
\<close>

definition written :: "string \<Rightarrow> string \<Rightarrow> string list" where
  "written name content = [''>'', name, content]"

definition recorded :: "'s sys \<Rightarrow> (string list list \<times> 's) sys" where
  "recorded y =
     \<lparr>sy_run = (\<lambda>limit dir args (ran, s). (case sy_run y limit dir args s of (out, s1) \<Rightarrow> (out, ran @ [args], s1))),
      sy_query = (\<lambda>i dir args (ran, s). sy_query y i dir args s),
      sy_sleep = (\<lambda>secs (ran, s). (ran, sy_sleep y secs s)),
      sy_temp = (\<lambda>pat (ran, s). (case sy_temp y pat s of (out, s1) \<Rightarrow> (out, ran, s1))),
      sy_write = (\<lambda>name content (ran, s).
        (case sy_write y name content s of (out, s1) \<Rightarrow> (out, ran @ [written name content], s1))),
      sy_remove = (\<lambda>name (ran, s). (ran, sy_remove y name s)),
      sy_uni = sy_uni y\<rparr>"

text \<open>
  The contract the lemmas rest on: a process and a file that is written are added to the record, nothing else is.
\<close>

locale process_log =
  fixes y :: "'s sys" and rec :: "'s \<Rightarrow> string list list"
  assumes run: "rec (snd (sy_run y limit dir args s)) = rec s @ [args]"
    and wrote: "rec (snd (sy_write y name content s)) = rec s @ [written name content]"
    and sleep: "rec (sy_sleep y secs s) = rec s"
    and temp: "rec (snd (sy_temp y pat s)) = rec s"
    and remove: "rec (sy_remove y name s) = rec s"
begin

text \<open>A process is run once or again after a failure, three times at most.\<close>

lemma retry_runs:
  assumes step: "\<And>s. rec (snd (f s)) = rec s @ [args]" and "0 < left"
  shows "\<exists>k. 0 < k \<and> k \<le> left \<and> rec (snd (retry y i left err f s)) = rec s @ replicate k args"
  using assms(2)
proof (induction left arbitrary: i err s)
  case (Suc left)
  let ?s0 = "if 0 < i then sy_sleep y i s else s"
  obtain r s1 where f: "f ?s0 = (r, s1)" by fastforce
  have s1: "rec s1 = rec s @ replicate 1 args"
    using step [of ?s0] f by (simp add: sleep split: if_splits)
  show ?case
  proof (cases "r = None \<or> left = 0")
    case True
    then show ?thesis using f s1 by (intro exI [of _ 1]) (auto split: option.splits)
  next
    case False
    then obtain e where r: "r = Some e" by auto
    obtain k where "0 < k" "k \<le> left" "rec (snd (retry y (Suc i) left (Some e) f s1)) = rec s1 @ replicate k args"
      using Suc.IH False by blast
    then show ?thesis using f s1 r by (intro exI [of _ "Suc k"]) simp
  qed
qed simp

definition runs :: "string list \<Rightarrow> 's \<Rightarrow> 's \<Rightarrow> bool" where
  "runs args s t \<longleftrightarrow> (\<exists>k. 0 < k \<and> k \<le> 3 \<and> rec t = rec s @ replicate k args)"

lemma run_once_rec: "rec (snd (run_once y limit dir what args s)) = rec s @ [args]"
  using run [of limit dir args s] by (auto simp: run_once_def split: prod.splits option.splits)

lemma runs_retried: "runs args s (snd (run_retried y limit dir what args s))"
  unfolding runs_def run_retried_def doltRetry_def by (rule retry_runs) (simp_all add: run_once_rec)

lemma runs_exec: "runs (''dolt'' # args) s (snd (doltExec y dir args s))"
  by (simp add: doltExec_def runs_retried)

text \<open>A script is written to a file, which is run; when it succeeded it was.\<close>

lemma script_runs:
  "\<exists>name w k. rec (snd (DoltSQLScript y dir script s)) =
       rec s @ replicate w (written name script) @ replicate k [''dolt'', ''sql'', ''--file'', name]
     \<and> w \<le> 1 \<and> k \<le> 3 \<and> (0 < k \<longrightarrow> w = 1) \<and> (fst (DoltSQLScript y dir script s) = None \<longrightarrow> 0 < k)"
proof -
  obtain r s1 where t: "sy_temp y ''dolt-script-*.sql'' s = (r, s1)" by fastforce
  have s1: "rec s1 = rec s" using temp [of "''dolt-script-*.sql''" s] t by simp
  show ?thesis
  proof (cases r)
    case (Inl err)
    then show ?thesis using t s1
      by (intro exI [of _ "[]"] exI [of _ 0]) (simp add: DoltSQLScript_def)
  next
    case (Inr name)
    obtain w s2 where w: "sy_write y name script s1 = (w, s2)" by fastforce
    have s2: "rec s2 = rec s @ [written name script]" using wrote [of name script s1] w s1 by simp
    let ?f = "\<lambda>t. case sy_run y 30 dir [''dolt'', ''sql'', ''--file'', name] t of
        ((None, output), t1) \<Rightarrow> (None, t1)
      | ((Some err, output), t1) \<Rightarrow> (Some (Err (Error err @ '' (output: '' @ TrimSpace output @ '')'')), t1)"
    have f: "rec (snd (?f u)) = rec u @ [[''dolt'', ''sql'', ''--file'', name]]" for u
      using run [of 30 dir "[''dolt'', ''sql'', ''--file'', name]" u] by (auto split: prod.splits option.splits)
    obtain k where k: "0 < k" "k \<le> 3" "rec (snd (doltRetry y ?f s2)) = rec s2 @ replicate k [''dolt'', ''sql'', ''--file'', name]"
      using retry_runs [of ?f "[''dolt'', ''sql'', ''--file'', name]" 3 0 None s2] f unfolding doltRetry_def by auto
    show ?thesis
    proof (cases w)
      case (Some err)
      then show ?thesis using t w s2 Inr
        by (intro exI [of _ name] exI [of _ 1] exI [of _ 0]) (simp add: DoltSQLScript_def remove)
    next
      case None
      then show ?thesis using t w s2 Inr k
        by (intro exI [of _ name] exI [of _ 1] exI [of _ k])
          (auto simp: DoltSQLScript_def remove split: prod.splits)
    qed
  qed
qed

end

text \<open>The recording of any system keeps this contract.\<close>

interpretation rec_sys: process_log "recorded y" fst for y
  by unfold_locales (auto simp: recorded_def split: prod.splits)

section \<open>A write on a branch\<close>

lemma checkout_from_runs:
  "\<exists>i j. fst (snd (CheckoutBranchFrom (recorded y) dir branch start s)) =
       fst s @ replicate i [''dolt'', ''branch'', branch, start] @ replicate j [''dolt'', ''checkout'', branch]
     \<and> i \<le> 3 \<and> j \<le> 3 \<and> (fst (CheckoutBranchFrom (recorded y) dir branch start s) = None \<longrightarrow> 0 < j)"
proof -
  have ex: "\<exists>k. 0 < k \<and> k \<le> 3 \<and> fst (snd (doltExec (recorded y) dir args t)) = fst t @ replicate k (''dolt'' # args)" for args t
    using rec_sys.runs_exec [where y = y and dir = dir and args = args and s = t] by (simp add: rec_sys.runs_def)
  show ?thesis
  proof (cases "BranchExists (recorded y) dir branch s")
    case (Inl err)
    then show ?thesis by (intro exI [of _ 0]) (simp add: CheckoutBranchFrom_def)
  next
    case (Inr known)
    show ?thesis
    proof (cases known)
      case True
      obtain k where "0 < k" "k \<le> 3" "fst (snd (doltExec (recorded y) dir [''checkout'', branch] s)) =
          fst s @ replicate k [''dolt'', ''checkout'', branch]" using ex by blast
      then show ?thesis using Inr True
        by (intro exI [of _ 0] exI [of _ k]) (simp add: CheckoutBranchFrom_def)
    next
      case False
      obtain r t where r: "doltExec (recorded y) dir [''branch'', branch, start] s = (r, t)" by (rule prod.exhaust)
      obtain i where i: "i \<le> 3" "fst t = fst s @ replicate i [''dolt'', ''branch'', branch, start]"
        using ex [of "[''branch'', branch, start]" s] r by auto
      obtain j where j: "0 < j" "j \<le> 3" "fst (snd (doltExec (recorded y) dir [''checkout'', branch] t)) =
          fst t @ replicate j [''dolt'', ''checkout'', branch]" using ex by blast
      show ?thesis
      proof (cases r)
        case None
        then show ?thesis using Inr False r i j
          by (intro exI [of _ i] exI [of _ j]) (simp add: CheckoutBranchFrom_def)
      next
        case (Some err)
        then show ?thesis using Inr False r i
          by (intro exI [of _ i] exI [of _ 0]) (simp add: CheckoutBranchFrom_def)
      qed
    qed
  qed
qed

lemma local_exec_runs:
  assumes "branch \<noteq> []" and "local_Exec (recorded y) l branch msg sg stmts (log, s) = (res, log', s')"
  shows "\<exists>i j w k m name.
     log' = log @ replicate i [''dolt'', ''branch'', branch, ''main''] @ replicate j [''dolt'', ''checkout'', branch]
       @ replicate w (written name (exec_script msg sg stmts)) @ replicate k [''dolt'', ''sql'', ''--file'', name]
       @ replicate m [''dolt'', ''checkout'', ''main'']
   \<and> i \<le> 3 \<and> j \<le> 3 \<and> w \<le> 1 \<and> k \<le> 3 \<and> m \<le> 3
   \<and> (0 < k \<longrightarrow> w = 1 \<and> 0 < j \<and> 0 < m)
   \<and> (fst (CheckoutBranchFrom (recorded y) (ld_dir l) branch ''main'' (log, s)) = None \<longrightarrow> 0 < m)
   \<and> (res = None \<longrightarrow> 0 < k \<and> 0 < m)"
proof -
  let ?y = "recorded y" and ?dir = "ld_dir l"
  obtain r1 t1 where c: "CheckoutBranchFrom ?y ?dir branch ''main'' (log, s) = (r1, t1)" by (rule prod.exhaust)
  obtain i j where ij: "fst t1 = log @ replicate i [''dolt'', ''branch'', branch, ''main''] @ replicate j [''dolt'', ''checkout'', branch]"
      "i \<le> 3" "j \<le> 3" "r1 = None \<longrightarrow> 0 < j"
    using checkout_from_runs [of y ?dir branch "''main''" "(log, s)"] c by auto
  show ?thesis
  proof (cases r1)
    case (Some err)
    then have "log' = fst t1" "res \<noteq> None" using assms c by (auto simp: local_Exec_def)
    then show ?thesis using ij(1-3) c Some
      by (intro exI [of _ i] exI [of _ j] exI [of _ 0]) simp
  next
    case None
    obtain r2 t2 where d: "DoltSQLScript ?y ?dir (exec_script msg sg stmts) t1 = (r2, t2)" by (rule prod.exhaust)
    obtain name w k where wk: "fst t2 = fst t1 @ replicate w (written name (exec_script msg sg stmts))
          @ replicate k [''dolt'', ''sql'', ''--file'', name]" "w \<le> 1" "k \<le> 3" "0 < k \<longrightarrow> w = 1" "r2 = None \<longrightarrow> 0 < k"
      using rec_sys.script_runs [where y = y and dir = ?dir and script = "exec_script msg sg stmts" and s = t1] d by auto
    obtain r3 t3 where e: "CheckoutMain ?y ?dir t2 = (r3, t3)" by (rule prod.exhaust)
    obtain m where m: "0 < m" "m \<le> 3" "fst t3 = fst t2 @ replicate m [''dolt'', ''checkout'', ''main'']"
      using rec_sys.runs_exec [where args = "[''checkout'', ''main'']" and s = t2 and y = y and dir = ?dir] e
      by (auto simp: CheckoutMain_def rec_sys.runs_def)
    have "log' = fst t3" and ok: "res = None \<longrightarrow> 0 < k \<and> 0 < m"
      using assms c d e None wk(5) m(1) by (auto simp: local_Exec_def split: option.splits)
    then have eq: "log' = log @ replicate i [''dolt'', ''branch'', branch, ''main''] @ replicate j [''dolt'', ''checkout'', branch]
       @ replicate w (written name (exec_script msg sg stmts)) @ replicate k [''dolt'', ''sql'', ''--file'', name]
       @ replicate m [''dolt'', ''checkout'', ''main'']"
      by (simp only: ij(1) wk(1) m(3) append.assoc)
    have "0 < k \<longrightarrow> w = 1 \<and> 0 < j \<and> 0 < m" using ij(4) wk(4) m(1) None by simp
    then show ?thesis using eq ok ij(2,3) wk(2,3) m(1,2) by blast
  qed
qed

text \<open>
  C16: A write to a branch of a local clone creates the branch from main when it has to, checks it out,
  runs the file of its statements, staging and commit, and then goes back to main, each of them at most three
  times and nothing else: the script only runs on the branch, main is checked out again whenever the
  branch was, whatever the script did, and no error means that all of it ran.
\<close>

theorem local_exec_returns_to_main:
  assumes "branch \<noteq> []" and "local_Exec (recorded y) l branch msg sg stmts (log, s) = (res, log', s')"
  shows "\<exists>i j w k m name.
     log' = log @ replicate i [''dolt'', ''branch'', branch, ''main''] @ replicate j [''dolt'', ''checkout'', branch]
       @ replicate w (written name (exec_script msg sg stmts)) @ replicate k [''dolt'', ''sql'', ''--file'', name]
       @ replicate m [''dolt'', ''checkout'', ''main'']
   \<and> i \<le> 3 \<and> j \<le> 3 \<and> w \<le> 1 \<and> k \<le> 3 \<and> m \<le> 3
   \<and> (0 < k \<longrightarrow> w = 1 \<and> 0 < j \<and> 0 < m)
   \<and> (fst (CheckoutBranchFrom (recorded y) (ld_dir l) branch ''main'' (log, s)) = None \<longrightarrow> 0 < m)
   \<and> (res = None \<longrightarrow> 0 < k \<and> 0 < m)"
  by (rule local_exec_runs [OF assms])

text \<open>A machine on which everything works and every branch is there.\<close>

definition quiet_sys :: "unit sys" where
  "quiet_sys =
     \<lparr>sy_run = (\<lambda>limit dir args s. ((None, []), s)), sy_query = (\<lambda>i dir args s. Query_ok (''cnt'' @ [nl_ch] @ ''1'')),
      sy_sleep = (\<lambda>secs s. s), sy_temp = (\<lambda>pat s. (Inr ''/tmp/dolt-script-1.sql'', s)),
      sy_write = (\<lambda>name content s. (None, s)), sy_remove = (\<lambda>name s. s), sy_uni = (\<lambda>t. t)\<rparr>"

lemma quiet_query: "DoltSQLQuery (recorded quiet_sys) dir q s = Inr (''cnt'' @ [nl_ch] @ ''1'')"
  by (simp add: DoltSQLQuery_def DoltSQLQueryContext_def numeral_3_eq_3 background_def query_once_def recorded_def
      quiet_sys_def split: prod.splits)

lemma quiet_branch: "BranchExists (recorded quiet_sys) dir branch s = Inr True"
proof -
  have "length (Split (TrimSpace (''cnt'' @ [nl_ch] @ ''1'')) nl_ch) = 2"
    and "TrimSpace (Split (TrimSpace (''cnt'' @ [nl_ch] @ ''1'')) nl_ch ! 1) = ''1''" by code_simp+
  then show ?thesis by (simp add: BranchExists_def quiet_query Let_def)
qed

lemma quiet_exec: "doltExec (recorded quiet_sys) dir args (log, s) = (None, log @ [''dolt'' # args], s)"
  by (simp add: doltExec_def run_retried_def doltRetry_def numeral_3_eq_3 run_once_def recorded_def quiet_sys_def)

theorem local_exec_returns_to_main_witness:
  "\<exists>i j w k m name.
     fst (snd (local_Exec (recorded quiet_sys) (NewLocalDB ''/wl'' ''pr'') ''wl/ada/w-1'' ''claim'' False [''SELECT 1''] ([], ())))
       = [] @ replicate i [''dolt'', ''branch'', ''wl/ada/w-1'', ''main''] @ replicate j [''dolt'', ''checkout'', ''wl/ada/w-1'']
         @ replicate w (written name (exec_script ''claim'' False [''SELECT 1'']))
         @ replicate k [''dolt'', ''sql'', ''--file'', name] @ replicate m [''dolt'', ''checkout'', ''main'']
     \<and> 0 < m"
proof -
  let ?l = "NewLocalDB ''/wl'' ''pr''" and ?b = "''wl/ada/w-1''"
  obtain res log' s' where x: "local_Exec (recorded quiet_sys) ?l ?b ''claim'' False [''SELECT 1''] ([], ()) = (res, log', s')"
    by (rule prod_cases3)
  have "fst (CheckoutBranchFrom (recorded quiet_sys) (ld_dir ?l) ?b ''main'' ([], ())) = None"
    unfolding CheckoutBranchFrom_def quiet_branch quiet_exec by simp
  then show ?thesis
    using local_exec_returns_to_main [OF _ x] x by (simp only: fst_conv snd_conv) blast
qed

section \<open>What a client pushes\<close>

text \<open>
  The processes a client in PR mode may run for its branch: to create it, to go to it and back, to run a file,
  and to push it to, or delete it from, the rig's fork.
\<close>

definition own_process :: "string \<Rightarrow> string list \<Rightarrow> bool" where
  "own_process branch args \<longleftrightarrow>
     args \<in> {[''dolt'', ''branch'', branch, ''main''], [''dolt'', ''checkout'', branch], [''dolt'', ''checkout'', ''main''],
             [''dolt'', ''push'', ''--force'', ''origin'', branch], [''dolt'', ''push'', ''origin'', CHR '':'' # branch]}
     \<or> length args = 3 \<and> args ! 0 = ''>''
     \<or> length args = 4 \<and> take 3 args = [''dolt'', ''sql'', ''--file'']"

lemma own_processes [simp]:
  "own_process b [''dolt'', ''branch'', b, ''main'']"
  "own_process b [''dolt'', ''checkout'', b]"
  "own_process b [''dolt'', ''checkout'', ''main'']"
  "own_process b [''dolt'', ''push'', ''--force'', ''origin'', b]"
  "own_process b [''dolt'', ''push'', ''origin'', CHR '':'' # b]"
  "own_process b [''dolt'', ''sql'', ''--file'', name]"
  "own_process b (written name content)"
  by (simp_all add: own_process_def written_def)

lemma list_all_replicate: "p x \<Longrightarrow> list_all p (replicate k x)"
  by (induction k) simp_all

text \<open>Whatever else is in the record: \<open>q\<close> is for what the callbacks start.\<close>

definition owned :: "(string list \<Rightarrow> bool) \<Rightarrow> string \<Rightarrow> string list list \<times> 's \<Rightarrow> bool" where
  "owned q b s \<longleftrightarrow> list_all (\<lambda>args. own_process b args \<or> q args) (fst s)"

lemma owned_runs: "rec_sys.runs args s t \<Longrightarrow> own_process b args \<Longrightarrow> owned q b s \<Longrightarrow> owned q b t"
  by (auto simp: owned_def rec_sys.runs_def list_all_replicate)

lemma owned_script: "owned q b s \<Longrightarrow> owned q b (snd (DoltSQLScript (recorded y) dir script s))"
  using rec_sys.script_runs [where y = y and dir = dir and script = script and s = s]
  by (elim exE conjE) (simp add: owned_def list_all_replicate)

lemma owned_Exec:
  assumes "branch \<noteq> []" and "owned q branch s"
  shows "owned q branch (snd (local_Exec (recorded y) l branch msg sg stmts s))"
proof -
  obtain log s0 where s: "s = (log, s0)" by (rule prod.exhaust)
  obtain res log' s' where x: "local_Exec (recorded y) l branch msg sg stmts (log, s0) = (res, log', s')" by (rule prod_cases3)
  from local_exec_runs [OF assms(1) x] show ?thesis using assms(2)
    by (elim exE conjE) (simp add: owned_def s x list_all_replicate)
qed

lemma owned_PushBranch:
  assumes "owned q b s"
  shows "owned q b (snd (snd (dolt_PushBranch (recorded y) dir b s)))"
proof -
  obtain r t where x: "run_retried (recorded y) 60 dir (Sprintf ''push branch %s'' [FS b])
      [''dolt'', ''push'', ''--force'', ''origin'', b] s = (r, t)" by (rule prod.exhaust)
  then have "rec_sys.runs [''dolt'', ''push'', ''--force'', ''origin'', b] s t"
    by (metis rec_sys.runs_retried snd_conv)
  then have "owned q b t" using owned_runs assms own_processes(4) by blast
  then show ?thesis unfolding dolt_PushBranch_def x by (cases r) (simp_all only: prod.case option.case snd_conv)
qed

lemma owned_DeleteBranch: "owned q b s \<Longrightarrow> owned q b (snd (dolt_DeleteBranch (recorded y) dir branch s))"
  by (simp add: dolt_DeleteBranch_def owned_script)

lemma owned_DeleteRemoteBranch: "owned q b s \<Longrightarrow> owned q b (snd (dolt_DeleteRemoteBranch (recorded y) dir ''origin'' b s))"
  unfolding dolt_DeleteRemoteBranch_def by (rule owned_runs [OF rec_sys.runs_retried]) simp_all

text \<open>The local client of a rig in PR mode, with whatever callbacks, keeps to its branch.\<close>

lemma local_frame:
  assumes "c_db c = local_db (recorded y) upper l" and "callbacks_add fst q c branch" and "branch \<noteq> []"
  shows "branch_frame c branch (owned q branch)"
  unfolding owned_def [abs_def]
  by (rule log_frame [OF assms(2)])
    (simp_all add: assms(1) local_db_def owned_def [symmetric] owned_Exec [OF assms(3)] owned_PushBranch owned_DeleteBranch
      owned_DeleteRemoteBranch)

definition local_client :: "'s sys \<Rightarrow> (string \<Rightarrow> string) \<Rightarrow> LocalDB \<Rightarrow> string \<Rightarrow> (string list list \<times> 's) Client" where
  "local_client y upper l rig = plain_client (local_db (recorded y) upper l) rig ''pr''"

interpretation local_clone: branch_frame "local_client y upper l rig" "BranchName rig w" "owned q (BranchName rig w)"
  for y upper l rig w q
  by (rule local_frame) (simp_all add: local_client_def plain_client_def callbacks_add_def BranchName_def)




end
