(* ===== verification/FileSys.thy ===== *)
theory FileSys
  imports ApiKeys "HOL-Library.AList" "HOL-Library.List_Lexorder" "HOL-Library.Char_ord"
begin

text \<open>
  Files and directories, as \<^verbatim>\<open>os\<close> and \<^verbatim>\<open>path/filepath\<close> of Go give them to
  \<^verbatim>\<open>internal/federation\<close>: paths are absolute and cleaned, any call may fail, and a write that fails
  may have written a part.
\<close>

section \<open>Paths\<close>

type_synonym path = "string list"

text \<open>\<open>filepath.Join\<close> below an absolute directory: empty parts and dots vanish, two dots go up.\<close>

fun clean_parts :: "path \<Rightarrow> string list \<Rightarrow> path" where
  "clean_parts p [] = p"
| "clean_parts p (x # xs) =
     (if x = [] \<or> x = ''.'' then clean_parts p xs
      else if x = ''..'' then clean_parts (butlast p) xs
      else clean_parts (p @ [x]) xs)"

definition join_path :: "path \<Rightarrow> string list \<Rightarrow> path" where
  "join_path dir elems = clean_parts dir (concat (map (\<lambda>e. Split e (CHR ''/'')) elems))"

definition path_text :: "path \<Rightarrow> string" where
  "path_text p = CHR ''/'' # Prelude.Join p ''/''"

section \<open>The disk\<close>

datatype node = Dir | File string

record disk =
  dk_nodes :: "(path \<times> node) list"
  dk_step :: nat

datatype io_error = Absent go_error | Failed go_error

fun io_go :: "io_error \<Rightarrow> go_error" where
  "io_go (Absent e) = e"
| "io_go (Failed e) = e"

text \<open>
  The world: whether the call at a step fails, how much of a failing write reaches the disk, and the names that are tried for
  a temporary file.
\<close>

record io =
  io_fault :: "nat \<Rightarrow> go_error option"
  io_cut :: "nat \<Rightarrow> nat"
  io_name :: "nat \<Rightarrow> nat \<Rightarrow> string"

definition path_error :: "string \<Rightarrow> path \<Rightarrow> string \<Rightarrow> go_error" where
  "path_error op p what = Err (op @ '' '' @ path_text p @ '': '' @ what)"

definition node_at :: "disk \<Rightarrow> path \<Rightarrow> node option" where
  "node_at d p = (if p = [] then Some Dir else map_of (dk_nodes d) p)"

text \<open>What a path leads to; a file on the way is an error of its own.\<close>

definition find_node :: "disk \<Rightarrow> string \<Rightarrow> path \<Rightarrow> io_error + node" where
  "find_node d op p =
     (if list_ex (\<lambda>k. case node_at d (take k p) of Some (File _) \<Rightarrow> True | _ \<Rightarrow> False) [1..<length p]
      then Inl (Failed (path_error op p ''not a directory''))
      else (case node_at d p of
              None \<Rightarrow> Inl (Absent (path_error op p ''no such file or directory''))
            | Some x \<Rightarrow> Inr x))"

definition tick :: "disk \<Rightarrow> disk" where
  "tick d = d\<lparr>dk_step := dk_step d + 1\<rparr>"

definition put_node :: "path \<Rightarrow> node \<Rightarrow> disk \<Rightarrow> disk" where
  "put_node p x d = d\<lparr>dk_nodes := AList.update p x (dk_nodes d)\<rparr>"

definition del_node :: "path \<Rightarrow> disk \<Rightarrow> disk" where
  "del_node p d = d\<lparr>dk_nodes := AList.delete p (dk_nodes d)\<rparr>"

section \<open>Calls\<close>

definition os_Stat :: "io \<Rightarrow> path \<Rightarrow> disk \<Rightarrow> (io_error + node) \<times> disk" where
  "os_Stat e p d =
     (case io_fault e (dk_step d) of
        Some err \<Rightarrow> (Inl (Failed err), tick d)
      | None \<Rightarrow> (find_node d ''stat'' p, tick d))"

definition os_ReadFile :: "io \<Rightarrow> path \<Rightarrow> disk \<Rightarrow> (io_error + string) \<times> disk" where
  "os_ReadFile e p d =
     (case io_fault e (dk_step d) of
        Some err \<Rightarrow> (Inl (Failed err), tick d)
      | None \<Rightarrow>
          (case find_node d ''open'' p of
             Inl err \<Rightarrow> Inl err
           | Inr Dir \<Rightarrow> Inl (Failed (path_error ''read'' p ''is a directory''))
           | Inr (File content) \<Rightarrow> Inr content, tick d))"

text \<open>The directories on the way to a path that are missing are made one after the other.\<close>

fun make_dirs :: "io \<Rightarrow> path list \<Rightarrow> disk \<Rightarrow> io_error option \<times> disk" where
  "make_dirs e [] d = (None, d)"
| "make_dirs e (p # ps) d =
     (case node_at d p of
        Some Dir \<Rightarrow> make_dirs e ps d
      | Some (File _) \<Rightarrow> (Some (Failed (path_error ''mkdir'' p ''not a directory'')), d)
      | None \<Rightarrow>
          (case io_fault e (dk_step d) of
             Some err \<Rightarrow> (Some (Failed err), tick d)
           | None \<Rightarrow> make_dirs e ps (put_node p Dir (tick d))))"

definition os_MkdirAll :: "io \<Rightarrow> path \<Rightarrow> disk \<Rightarrow> io_error option \<times> disk" where
  "os_MkdirAll e p d = make_dirs e (map (\<lambda>k. take k p) [1..<Suc (length p)]) d"

text \<open>A name that no file has, of ten thousand that are tried.\<close>

definition temp_tries :: nat where
  "temp_tries = 10000"

fun free_name :: "io \<Rightarrow> path \<Rightarrow> string \<Rightarrow> string \<Rightarrow> nat \<Rightarrow> nat \<Rightarrow> disk \<Rightarrow> string option" where
  "free_name e dir pre post k 0 d = None"
| "free_name e dir pre post k (Suc left) d =
     (let name = pre @ io_name e (dk_step d) k @ post
      in if node_at d (dir @ [name]) = None then Some name else free_name e dir pre post (Suc k) left d)"

definition os_CreateTemp :: "io \<Rightarrow> path \<Rightarrow> string \<Rightarrow> string \<Rightarrow> disk \<Rightarrow> (io_error + path) \<times> disk" where
  "os_CreateTemp e dir pre post d =
     (case io_fault e (dk_step d) of
        Some err \<Rightarrow> (Inl (Failed err), tick d)
      | None \<Rightarrow>
          (case find_node d ''open'' dir of
             Inl err \<Rightarrow> (Inl err, tick d)
           | Inr (File _) \<Rightarrow> (Inl (Failed (path_error ''open'' dir ''not a directory'')), tick d)
           | Inr Dir \<Rightarrow>
               (case free_name e dir pre post 0 temp_tries d of
                  None \<Rightarrow> (Inl (Failed (path_error ''createtemp'' dir ''file exists'')), tick d)
                | Some name \<Rightarrow> (Inr (dir @ [name]), put_node (dir @ [name]) (File []) (tick d)))))"

text \<open>Writing and closing a file that is open and was empty.\<close>

definition os_Write :: "io \<Rightarrow> path \<Rightarrow> string \<Rightarrow> disk \<Rightarrow> io_error option \<times> disk" where
  "os_Write e p content d =
     (case io_fault e (dk_step d) of
        Some err \<Rightarrow> (Some (Failed err), put_node p (File (take (io_cut e (dk_step d)) content)) (tick d))
      | None \<Rightarrow> (None, put_node p (File content) (tick d)))"

definition os_Close :: "io \<Rightarrow> disk \<Rightarrow> io_error option \<times> disk" where
  "os_Close e d = (map_option Failed (io_fault e (dk_step d)), tick d)"

text \<open>Renaming a file; what is there under the new name, if it is not a directory, is replaced.\<close>

definition os_Rename :: "io \<Rightarrow> path \<Rightarrow> path \<Rightarrow> disk \<Rightarrow> io_error option \<times> disk" where
  "os_Rename e p q d =
     (case io_fault e (dk_step d) of
        Some err \<Rightarrow> (Some (Failed err), tick d)
      | None \<Rightarrow>
          (case (find_node d ''rename'' p, find_node d ''rename'' (butlast q), node_at d q) of
             (Inl err, _, _) \<Rightarrow> (Some err, tick d)
           | (_, Inl err, _) \<Rightarrow> (Some err, tick d)
           | (Inr _, Inr (File _), _) \<Rightarrow> (Some (Failed (path_error ''rename'' q ''not a directory'')), tick d)
           | (Inr _, Inr Dir, Some Dir) \<Rightarrow> (Some (Failed (path_error ''rename'' q ''file exists'')), tick d)
           | (Inr x, Inr Dir, _) \<Rightarrow> (None, put_node q x (del_node p (tick d)))))"

text \<open>The entries of a directory in the order of their names.\<close>

definition entries :: "disk \<Rightarrow> path \<Rightarrow> (string \<times> bool) list" where
  "entries d p =
     map (\<lambda>n. (n, node_at d (p @ [n]) = Some Dir))
       (sort (remdups (map last (filter (\<lambda>q. q \<noteq> [] \<and> butlast q = p) (map fst (dk_nodes d))))))"

definition os_Remove :: "io \<Rightarrow> path \<Rightarrow> disk \<Rightarrow> io_error option \<times> disk" where
  "os_Remove e p d =
     (case io_fault e (dk_step d) of
        Some err \<Rightarrow> (Some (Failed err), tick d)
      | None \<Rightarrow>
          (case find_node d ''remove'' p of
             Inl err \<Rightarrow> (Some err, tick d)
           | Inr (File _) \<Rightarrow> (None, del_node p (tick d))
           | Inr Dir \<Rightarrow>
               if entries d p \<noteq> [] then (Some (Failed (path_error ''remove'' p ''directory not empty'')), tick d)
               else (None, del_node p (tick d))))"

definition os_ReadDir :: "io \<Rightarrow> path \<Rightarrow> disk \<Rightarrow> (io_error + (string \<times> bool) list) \<times> disk" where
  "os_ReadDir e p d =
     (case io_fault e (dk_step d) of
        Some err \<Rightarrow> (Inl (Failed err), tick d)
      | None \<Rightarrow>
          (case find_node d ''open'' p of
             Inl err \<Rightarrow> Inl err
           | Inr (File _) \<Rightarrow> Inl (Failed (path_error ''readdirent'' p ''not a directory''))
           | Inr Dir \<Rightarrow> Inr (entries d p), tick d))"

section \<open>Replacing a file\<close>

text \<open>The temporary file that holds the new text takes the place of the old one; \<open>what\<close> names it in errors.\<close>

definition replace_file :: "io \<Rightarrow> string \<Rightarrow> path \<Rightarrow> path \<Rightarrow> string \<Rightarrow> disk \<Rightarrow> go_error option \<times> disk" where
  "replace_file e what tmp p content d =
     (case os_Write e tmp content d of
        (Some err, d1) \<Rightarrow> (Some (Wrap (''writing '' @ what @ '': '') (io_go err)), snd (os_Remove e tmp (snd (os_Close e d1))))
      | (None, d1) \<Rightarrow>
          (case os_Close e d1 of
             (Some err, d2) \<Rightarrow> (Some (Wrap ''closing temp file: '' (io_go err)), snd (os_Remove e tmp d2))
           | (None, d2) \<Rightarrow>
               (case os_Rename e tmp p d2 of
                  (Some err, d3) \<Rightarrow> (Some (Wrap (''renaming '' @ what @ '': '') (io_go err)), snd (os_Remove e tmp d3))
                | (None, d3) \<Rightarrow> (None, d3))))"

text \<open>
  What the calls of the file system change, whatever of them fail, and that the replacement of a file is all or nothing.
\<close>

section \<open>Nodes\<close>

lemma node_at_tick [simp]: "node_at (tick d) q = node_at d q"
  by (simp add: node_at_def tick_def)

lemma node_at_put [simp]: "node_at (put_node p x d) q = (if q = [] then Some Dir else if q = p then Some x else node_at d q)"
  by (auto simp: node_at_def put_node_def update_conv')

lemma node_at_del [simp]: "node_at (del_node p d) q = (if q = [] then Some Dir else if q = p then None else node_at d q)"
  by (auto simp: node_at_def del_node_def delete_conv')

lemma node_at_root [simp]: "node_at d [] = Some Dir"
  by (simp add: node_at_def)

lemma step_tick [simp]: "dk_step (tick d) = Suc (dk_step d)" "dk_step (put_node p x d) = dk_step d"
    "dk_step (del_node p d) = dk_step d"
  by (simp_all add: tick_def put_node_def del_node_def)

definition file_at :: "disk \<Rightarrow> path \<Rightarrow> string option" where
  "file_at d q = (case node_at d q of Some (File content) \<Rightarrow> Some content | _ \<Rightarrow> None)"

lemma find_node_Inr: "find_node d op p = Inr x \<Longrightarrow> node_at d p = Some x"
  by (auto simp: find_node_def split: if_splits option.splits)

lemma make_dirs_file: "file_at (snd (make_dirs e ps d)) q = file_at d q"
proof (induction ps arbitrary: d)
  case (Cons p ps)
  have "file_at (put_node p Dir (tick d)) q = file_at d q" if "node_at d p = None"
    using that by (auto simp: file_at_def)
  moreover have "file_at (tick d) q = file_at d q" by (simp add: file_at_def)
  ultimately show ?case using Cons.IH by (auto split: option.splits node.splits)
qed simp

lemma make_dirs_keeps: "node_at d q = Some x \<Longrightarrow> node_at (snd (make_dirs e ps d)) q = Some x"
proof (induction ps arbitrary: d)
  case (Cons p ps)
  then show ?case by (cases "q = []") (auto intro!: Cons.IH split: option.splits node.splits)
qed simp

lemma make_dirs_made:
  "make_dirs e ps d = (None, d') \<Longrightarrow> p \<in> set ps \<Longrightarrow> node_at d' p = Some Dir"
proof (induction ps arbitrary: d)
  case (Cons q ps)
  show ?case
  proof (cases "p \<in> set ps")
    case True
    then show ?thesis using Cons by (auto split: option.splits node.splits)
  next
    case False
    then have "p = q" using Cons.prems(2) by simp
    moreover obtain d1 where "node_at d1 q = Some Dir" "make_dirs e ps d1 = (None, d')"
    proof (cases "node_at d q")
      case None
      then show ?thesis using Cons.prems(1) that [of "put_node q Dir (tick d)"] by (auto split: option.splits)
    next
      case (Some x)
      then show ?thesis using Cons.prems(1) that [of d] by (auto split: node.splits)
    qed
    ultimately show ?thesis using make_dirs_keeps by (metis snd_conv)
  qed
qed simp

section \<open>Calls\<close>

lemma file_at_tick [simp]: "file_at (tick d) q = file_at d q"
  by (simp add: file_at_def)

lemma file_at_put: "q \<noteq> p \<Longrightarrow> file_at (put_node p x d) q = file_at d q"
  by (simp add: file_at_def)

lemma file_at_del: "q \<noteq> p \<Longrightarrow> file_at (del_node p d) q = file_at d q"
  by (simp add: file_at_def)

lemma os_Remove_other: "q \<noteq> p \<Longrightarrow> file_at (snd (os_Remove e p d)) q = file_at d q"
  by (auto simp: os_Remove_def file_at_del split: option.splits sum.splits node.splits)

lemma os_Close_nodes [simp]: "file_at (snd (os_Close e d)) q = file_at d q" "node_at (snd (os_Close e d)) q = node_at d q"
  by (simp_all add: os_Close_def)

lemma os_Write_other: "q \<noteq> p \<Longrightarrow> file_at (snd (os_Write e p content d)) q = file_at d q"
  by (auto simp: os_Write_def file_at_put split: option.splits)

lemma os_Rename_other: "q \<noteq> p \<Longrightarrow> q \<noteq> p' \<Longrightarrow> file_at (snd (os_Rename e p p' d)) q = file_at d q"
  by (auto simp: os_Rename_def file_at_del file_at_put split: option.splits sum.splits node.splits)

lemma os_Rename_failed: "os_Rename e p p' d = (Some err, d') \<Longrightarrow> file_at d' q = file_at d q"
  by (auto simp: os_Rename_def split: option.splits sum.splits node.splits)

lemma os_Rename_done:
  assumes "os_Rename e p p' d = (None, d')" and "p' \<noteq> []"
  shows "\<exists>x. node_at d p = Some x \<and> node_at d' p' = Some x \<and> node_at d (butlast p') = Some Dir"
  using assms by (auto simp: os_Rename_def dest!: find_node_Inr split: option.splits sum.splits node.splits)

lemma HasSuffix_append [simp]: "HasSuffix (x @ y) y" "HasSuffix (x @ y @ z) z"
  by (simp_all add: HasSuffix_def HasPrefix_iff)

text \<open>A temporary file has a name of its own.\<close>

definition is_temp :: "path \<Rightarrow> bool" where
  "is_temp q \<longleftrightarrow> q \<noteq> [] \<and> HasSuffix (last q) ''.tmp''"

lemma temp_name: "free_name e dir pre ''.tmp'' k left d = Some name \<Longrightarrow> is_temp (dir @ [name])"
  by (induction left arbitrary: k) (auto simp: Let_def is_temp_def split: if_splits)

lemma os_CreateTemp_result:
  assumes "os_CreateTemp e dir pre ''.tmp'' d = (r, d')"
  shows "\<not> is_temp q \<longrightarrow> file_at d' q = file_at d q" and "r = Inr tmp \<longrightarrow> is_temp tmp \<and> tmp \<noteq> [] \<and> butlast tmp = dir"
proof -
  consider (bad) "\<nexists>t. r = Inr t" "d' = tick d"
    | (made) name where "free_name e dir pre ''.tmp'' 0 temp_tries d = Some name" "r = Inr (dir @ [name])"
        "d' = put_node (dir @ [name]) (File []) (tick d)"
    using assms by (auto simp: os_CreateTemp_def split: option.splits sum.splits node.splits)
  then have "(\<not> is_temp q \<longrightarrow> file_at d' q = file_at d q) \<and> (r = Inr tmp \<longrightarrow> is_temp tmp \<and> tmp \<noteq> [] \<and> butlast tmp = dir)"
  proof cases
    case made
    have "is_temp (dir @ [name])" using temp_name made(1) by blast
    then show ?thesis using made(2,3) file_at_put [of q "dir @ [name]" "File []" "tick d"] by auto
  qed auto
  then show "\<not> is_temp q \<longrightarrow> file_at d' q = file_at d q" "r = Inr tmp \<longrightarrow> is_temp tmp \<and> tmp \<noteq> [] \<and> butlast tmp = dir" by auto
qed

text \<open>The file is what it was or, when no error is reported, the new text.\<close>

lemma replace_file_exact:
  assumes "replace_file e what tmp p content d = (res, d')" and "p \<noteq> []" and "tmp \<noteq> []" and "tmp \<noteq> p" and "q \<noteq> tmp"
  shows "file_at d' q = (if res = None \<and> q = p then Some content else file_at d q)"
proof -
  obtain r1 d1 where w: "os_Write e tmp content d = (r1, d1)" by (rule prod.exhaust)
  have f1: "file_at d1 q = file_at d q" using os_Write_other [OF assms(5), of e content d] w by simp
  obtain r2 d2 where c: "os_Close e d1 = (r2, d2)" by (rule prod.exhaust)
  have f2: "file_at d2 q = file_at d q" "node_at d2 tmp = node_at d1 tmp"
    using os_Close_nodes [of e d1] c f1 by (metis snd_conv)+
  obtain r3 d3 where n: "os_Rename e tmp p d2 = (r3, d3)" by (rule prod.exhaust)
  consider (bad_write) err where "r1 = Some err" | (bad_close) err where "r1 = None" "r2 = Some err"
    | (bad_rename) err where "r1 = None" "r2 = None" "r3 = Some err" | (all_done) "r1 = None" "r2 = None" "r3 = None"
    by (cases r1; cases r2; cases r3) auto
  then show ?thesis
  proof cases
    case bad_write
    then show ?thesis using assms(1) w c f2 os_Remove_other [OF assms(5)] by (auto simp: replace_file_def)
  next
    case bad_close
    then show ?thesis using assms(1) w c f2 os_Remove_other [OF assms(5)] by (auto simp: replace_file_def)
  next
    case bad_rename
    then show ?thesis
      using assms(1) w c n f2 os_Remove_other [OF assms(5)] os_Rename_failed by (fastforce simp: replace_file_def)
  next
    case all_done
    then have r: "res = None" "d' = d3" using assms(1) w c n by (auto simp: replace_file_def)
    have "node_at d1 tmp = Some (File content)"
      using w all_done(1) assms(3) by (auto simp: os_Write_def split: option.splits)
    then have "node_at d3 p = Some (File content)"
      using os_Rename_done [of e tmp p d2 d3] n all_done(3) f2 assms(2) by auto
    then show ?thesis
      using r n f2 assms(4,5) os_Rename_other [of q tmp p e d2] by (auto simp: file_at_def)
  qed
qed

section \<open>The way to a file\<close>

text \<open>No file is on the way to a path.\<close>

definition way_clear :: "disk \<Rightarrow> path \<Rightarrow> bool" where
  "way_clear d p \<longleftrightarrow> (\<forall>i < length p. node_at d (take i p) = Some Dir)"

lemma find_node_clear: "way_clear d p \<Longrightarrow> node_at d p = Some x \<Longrightarrow> find_node d op p = Inr x"
  by (auto simp: find_node_def way_clear_def list_ex_iff split: option.splits node.splits)

lemma os_MkdirAll_made:
  assumes "os_MkdirAll e dir d = (None, d')" and "i \<le> length dir"
  shows "node_at d' (take i dir) = Some Dir"
proof (cases i)
  case (Suc j)
  then have "take i dir \<in> set (map (\<lambda>k. take k dir) [1..<Suc (length dir)])" using assms(2) by force
  then show ?thesis using assms(1) make_dirs_made unfolding os_MkdirAll_def by blast
qed simp

lemma dir_put: "node_at d q = Some Dir \<Longrightarrow> q \<noteq> p \<Longrightarrow> node_at (put_node p x d) q = Some Dir"
  by simp

lemma temp_node:
  assumes "os_CreateTemp e dir pre post d = (Inr tmp, d')" and "node_at d q = Some Dir"
  shows "node_at d' q = Some Dir" and "length tmp = Suc (length dir)"
proof -
  have free: "free_name e dir pre post k left d = Some name \<Longrightarrow> node_at d (dir @ [name]) = None" for k left name
    by (induction left arbitrary: k) (auto simp: Let_def split: if_splits)
  then show "node_at d' q = Some Dir" "length tmp = Suc (length dir)"
    using assms by (auto simp: os_CreateTemp_def split: option.splits sum.splits node.splits)
qed

lemma dirs_kept:
  "node_at d q = Some Dir \<Longrightarrow> q \<noteq> p \<Longrightarrow> node_at (snd (os_Write e p content d)) q = Some Dir"
  "node_at d q = Some Dir \<Longrightarrow> q \<noteq> p \<Longrightarrow> q \<noteq> p' \<Longrightarrow> node_at (snd (os_Rename e p p' d)) q = Some Dir"
  by (auto simp: os_Write_def os_Rename_def split: option.splits sum.splits node.splits)

lemma replace_file_dirs:
  assumes "replace_file e what tmp p content d = (None, d')" and "node_at d q = Some Dir" and "q \<noteq> p" and "q \<noteq> tmp"
  shows "node_at d' q = Some Dir"
proof -
  have "d' = snd (os_Rename e tmp p (snd (os_Close e (snd (os_Write e tmp content d)))))"
    using assms(1) by (auto simp: replace_file_def split: prod.splits option.splits)
  then show ?thesis using assms dirs_kept by simp
qed

lemma first_name:
  assumes "node_at d (dir @ [pre @ io_name e (dk_step d) 0 @ post]) = None"
  shows "free_name e dir pre post 0 temp_tries d = Some (pre @ io_name e (dk_step d) 0 @ post)"
proof -
  have "\<exists>n. temp_tries = Suc n" by (rule exI [of _ 9999]) (simp add: temp_tries_def)
  then obtain n where n: "temp_tries = Suc n" by (rule exE)
  show ?thesis unfolding n free_name.simps Let_def by (subst if_P) (rule assms refl)+
qed

end
