(* ===== verification/FedConfig.thy ===== *)
theory FedConfig
  imports FileSys HostedResolver JsonBack AuthCalls
begin

text \<open>
  The configuration of \<^verbatim>\<open>internal/federation/federation.go\<close>: one JSON file for every wasteland a rig has
  joined, its store and the choice of the active one.
\<close>

section \<open>Configuration\<close>

record Config =
  fc_Upstream :: string
  fc_ProviderType :: string
  fc_UpstreamURL :: string
  fc_ForkOrg :: string
  fc_ForkDB :: string
  fc_LocalDir :: string
  fc_RigHandle :: string
  fc_HopURI :: string
  fc_JoinedAt :: int
  fc_Mode :: string
  fc_Backend :: string
  fc_Signing :: bool
  fc_LastSyncAt :: "int option"
  fc_GitHubRepo :: string

definition ResolveMode :: "Config \<Rightarrow> string" where
  "ResolveMode c = (if fc_Mode c = [] \<or> fc_Mode c = ''pr'' then ''pr'' else fc_Mode c)"

definition ResolveBackend :: "Config \<Rightarrow> string" where
  "ResolveBackend c =
     (if fc_Backend c = ''local'' then ''local''
      else if fc_Backend c = ''remote'' then ''remote''
      else if fc_LocalDir c \<noteq> [] then ''local'' else ''remote'')"

definition ResolveProviderType :: "Config \<Rightarrow> string" where
  "ResolveProviderType c = (if fc_ProviderType c \<noteq> [] then fc_ProviderType c else ''dolthub'')"

definition IsGitHub :: "Config \<Rightarrow> bool" where
  "IsGitHub c \<longleftrightarrow> ResolveProviderType c = ''github''"

text \<open>
  What is around the store: the file system, the directories for configuration and data, and how times are
  printed and read.
\<close>

record fed_env =
  fe_io :: io
  fe_config_dir :: path
  fe_data_dir :: path
  fe_time_text :: "int \<Rightarrow> string option"
  fe_parse_time :: "string \<Rightarrow> int option"

definition LocalCloneDir :: "fed_env \<Rightarrow> string \<Rightarrow> string \<Rightarrow> path" where
  "LocalCloneDir k upstreamOrg upstreamDB = join_path (fe_data_dir k) [upstreamOrg, upstreamDB]"

definition escapeSQLString :: "string \<Rightarrow> string" where
  "escapeSQLString s = ReplaceAll (ReplaceAll s [bslash_ch] [bslash_ch, bslash_ch]) [quote_ch] [quote_ch, quote_ch]"

section \<open>The text of a configuration\<close>

definition Config_members :: "Config \<Rightarrow> string \<Rightarrow> string option \<Rightarrow> (string \<times> json) list" where
  "Config_members c joined synced =
     str_mem ''upstream'' (fc_Upstream c) @ opt_str ''provider_type'' (fc_ProviderType c) @
     opt_str ''upstream_url'' (fc_UpstreamURL c) @ str_mem ''fork_org'' (fc_ForkOrg c) @
     str_mem ''fork_db'' (fc_ForkDB c) @ str_mem ''local_dir'' (fc_LocalDir c) @
     str_mem ''rig_handle'' (fc_RigHandle c) @ opt_str ''hop_uri'' (fc_HopURI c) @
     str_mem ''joined_at'' joined @ opt_str ''mode'' (fc_Mode c) @ opt_str ''backend'' (fc_Backend c) @
     opt_bool ''signing'' (fc_Signing c) @ opt_ptr ''last_sync_at'' JStr synced @
     opt_str ''github_repo'' (fc_GitHubRepo c)"

definition config_data :: "fed_env \<Rightarrow> Config \<Rightarrow> string option" where
  "config_data k c =
     (case (fe_time_text k (fc_JoinedAt c),
            case fc_LastSyncAt c of None \<Rightarrow> Some None | Some t \<Rightarrow> map_option Some (fe_time_text k t)) of
        (Some joined, Some synced) \<Rightarrow> Some (indent_text 0 (JObj (Config_members c joined synced)) @ [nl_ch])
      | _ \<Rightarrow> None)"

definition clock_member :: "fed_env \<Rightarrow> string \<Rightarrow> (string \<times> json) \<Rightarrow> int \<times> bool \<Rightarrow> int \<times> bool" where
  "clock_member k name m acc =
     (if fold_eq (fst m) name
      then (case snd m of
              JNull \<Rightarrow> acc
            | JStr t \<Rightarrow> (case fe_parse_time k t of Some at \<Rightarrow> (at, snd acc) | None \<Rightarrow> (fst acc, False))
            | _ \<Rightarrow> (fst acc, False))
      else acc)"

definition clockp_member :: "fed_env \<Rightarrow> string \<Rightarrow> (string \<times> json) \<Rightarrow> int option \<times> bool \<Rightarrow> int option \<times> bool" where
  "clockp_member k name m acc =
     (if fold_eq (fst m) name
      then (case snd m of
              JNull \<Rightarrow> (None, snd acc)
            | JStr t \<Rightarrow> (case fe_parse_time k t of Some at \<Rightarrow> (Some at, snd acc) | None \<Rightarrow> (fst acc, False))
            | _ \<Rightarrow> (fst acc, False))
      else acc)"

text \<open>The zero time is the parameter of a missing member.\<close>

definition decode_config :: "fed_env \<Rightarrow> int \<Rightarrow> (string \<times> json) list \<Rightarrow> Config option" where
  "decode_config k zero ms =
     (let s = (\<lambda>name. fst (str_field name ms));
          joined = fold (clock_member k ''joined_at'') ms (zero, True);
          synced = fold (clockp_member k ''last_sync_at'') ms (None, True);
          names = [''upstream'', ''provider_type'', ''upstream_url'', ''fork_org'', ''fork_db'', ''local_dir'',
                   ''rig_handle'', ''hop_uri'', ''mode'', ''backend'', ''github_repo'']
      in if list_all (\<lambda>n. snd (str_field n ms)) names \<and> snd joined \<and> snd synced \<and> snd (bool_field ''signing'' ms)
         then Some \<lparr>fc_Upstream = s ''upstream'', fc_ProviderType = s ''provider_type'', fc_UpstreamURL = s ''upstream_url'',
                    fc_ForkOrg = s ''fork_org'', fc_ForkDB = s ''fork_db'', fc_LocalDir = s ''local_dir'',
                    fc_RigHandle = s ''rig_handle'', fc_HopURI = s ''hop_uri'', fc_JoinedAt = fst joined,
                    fc_Mode = s ''mode'', fc_Backend = s ''backend'', fc_Signing = fst (bool_field ''signing'' ms),
                    fc_LastSyncAt = fst synced, fc_GitHubRepo = s ''github_repo''\<rparr>
         else None)"

section \<open>Errors\<close>

text \<open>Two errors callers ask for, with their text; any other.\<close>

datatype fed_error = NotJoined string | Ambiguous string | Fed go_error

fun fed_text :: "fed_error \<Rightarrow> string" where
  "fed_text (NotJoined m) = m"
| "fed_text (Ambiguous m) = m"
| "fed_text (Fed e) = Error e"

fun fed_wrap :: "string \<Rightarrow> fed_error \<Rightarrow> fed_error" where
  "fed_wrap pre (NotJoined m) = NotJoined (pre @ m)"
| "fed_wrap pre (Ambiguous m) = Ambiguous (pre @ m)"
| "fed_wrap pre (Fed e) = Fed (Wrap pre e)"

definition not_joined :: string where
  "not_joined = ''rig has not joined a wasteland''"

definition io_wrap :: "string \<Rightarrow> io_error \<Rightarrow> fed_error" where
  "io_wrap pre e = Fed (Wrap pre (io_go e))"

section \<open>The store\<close>

definition configPath :: "fed_env \<Rightarrow> string \<Rightarrow> go_error + path" where
  "configPath k upstream =
     (case ParseUpstream upstream of
        Inl err \<Rightarrow> Inl err
      | Inr (org, db) \<Rightarrow> Inr (join_path (fe_config_dir k) [''wastelands'', org, db @ ''.json'']))"

definition zero_time :: int where
  "zero_time = - 62135596800000000000"

definition file_Load :: "fed_env \<Rightarrow> string \<Rightarrow> disk \<Rightarrow> (fed_error + Config) \<times> disk" where
  "file_Load k upstream d =
     (case configPath k upstream of
        Inl err \<Rightarrow> (Inl (Fed err), d)
      | Inr p \<Rightarrow>
          (case os_ReadFile (fe_io k) p d of
             (Inl (Absent _), d1) \<Rightarrow> (Inl (NotJoined not_joined), d1)
           | (Inl (Failed err), d1) \<Rightarrow> (Inl (Fed (Wrap ''reading wasteland config: '' err)), d1)
           | (Inr content, d1) \<Rightarrow>
               (case Option.bind (struct_members content) (decode_config k zero_time) of
                  None \<Rightarrow> (Inl (Fed (Err ''parsing wasteland config: '')), d1)
                | Some c \<Rightarrow> (Inr c, d1))))"

definition file_Save :: "fed_env \<Rightarrow> Config \<Rightarrow> disk \<Rightarrow> fed_error option \<times> disk" where
  "file_Save k c d =
     (case configPath k (fc_Upstream c) of
        Inl err \<Rightarrow> (Some (Fed err), d)
      | Inr p \<Rightarrow>
          (case os_MkdirAll (fe_io k) (butlast p) d of
             (Some err, d1) \<Rightarrow> (Some (io_wrap ''creating config directory: '' err), d1)
           | (None, d1) \<Rightarrow>
               (case config_data k c of
                  None \<Rightarrow> (Some (Fed (Err ''marshaling wasteland config: '')), d1)
                | Some content \<Rightarrow>
                    (case os_CreateTemp (fe_io k) (butlast p) ''.wl-'' ''.tmp'' d1 of
                       (Inl err, d2) \<Rightarrow> (Some (io_wrap ''creating temp file: '' err), d2)
                     | (Inr tmp, d2) \<Rightarrow>
                         (case replace_file (fe_io k) ''config'' tmp p content d2 of (err, d3) \<Rightarrow> (map_option Fed err, d3))))))"

definition file_Delete :: "fed_env \<Rightarrow> string \<Rightarrow> disk \<Rightarrow> fed_error option \<times> disk" where
  "file_Delete k upstream d =
     (case configPath k upstream of
        Inl err \<Rightarrow> (Some (Fed err), d)
      | Inr p \<Rightarrow>
          (case os_Remove (fe_io k) p d of
             (Some (Absent _), d1) \<Rightarrow> (Some (NotJoined (not_joined @ '': '' @ upstream)), d1)
           | (Some (Failed err), d1) \<Rightarrow> (Some (Fed (Wrap ''deleting wasteland config: '' err)), d1)
           | (None, d1) \<Rightarrow>
               (case os_ReadDir (fe_io k) (butlast p) d1 of
                  (Inr [], d2) \<Rightarrow> (None, snd (os_Remove (fe_io k) (butlast p) d2))
                | (_, d2) \<Rightarrow> (None, d2))))"

text \<open>The directories of organisations one after the other; one that cannot be read is skipped.\<close>

fun list_orgs :: "io \<Rightarrow> path \<Rightarrow> (string \<times> bool) list \<Rightarrow> disk \<Rightarrow> string list \<times> disk" where
  "list_orgs e dir [] d = ([], d)"
| "list_orgs e dir ((org, isDir) # es) d =
     (if \<not> isDir then list_orgs e dir es d
      else (case os_ReadDir e (dir @ [org]) d of
              (Inl _, d1) \<Rightarrow> list_orgs e dir es d1
            | (Inr dbs, d1) \<Rightarrow>
                (case list_orgs e dir es d1 of
                   (us, d2) \<Rightarrow>
                     (map (\<lambda>(name, _). org @ ''/'' @ take (length name - 5) name)
                        (filter (\<lambda>(name, _). HasSuffix name ''.json'') dbs) @ us, d2))))"

definition file_List :: "fed_env \<Rightarrow> disk \<Rightarrow> (fed_error + string list) \<times> disk" where
  "file_List k d =
     (let dir = join_path (fe_config_dir k) [''wastelands'']
      in case os_Stat (fe_io k) dir d of
           (Inl (Absent _), d1) \<Rightarrow> (Inr [], d1)
         | (_, d1) \<Rightarrow>
             (case os_ReadDir (fe_io k) dir d1 of
                (Inl err, d2) \<Rightarrow> (Inl (io_wrap ''reading wastelands directory: '' err), d2)
              | (Inr es, d2) \<Rightarrow> (case list_orgs (fe_io k) dir es d2 of (us, d3) \<Rightarrow> (Inr us, d3))))"

section \<open>The active wasteland\<close>

record 's ConfigStore =
  cs_Load :: "string \<Rightarrow> 's \<Rightarrow> (fed_error + Config) \<times> 's"
  cs_Save :: "Config \<Rightarrow> 's \<Rightarrow> fed_error option \<times> 's"
  cs_Delete :: "string \<Rightarrow> 's \<Rightarrow> fed_error option \<times> 's"
  cs_List :: "'s \<Rightarrow> (fed_error + string list) \<times> 's"

definition NewConfigStore :: "fed_env \<Rightarrow> disk ConfigStore" where
  "NewConfigStore k = \<lparr>cs_Load = file_Load k, cs_Save = file_Save k, cs_Delete = file_Delete k, cs_List = file_List k\<rparr>"

definition load_named :: "'s ConfigStore \<Rightarrow> string \<Rightarrow> 's \<Rightarrow> (fed_error + Config) \<times> 's" where
  "load_named st upstream s =
     (case cs_Load st upstream s of
        (Inl err, s1) \<Rightarrow> (Inl (fed_wrap (''loading config for '' @ upstream @ '': '') err), s1)
      | (Inr c, s1) \<Rightarrow> (Inr c, s1))"

definition ResolveConfig :: "'s ConfigStore \<Rightarrow> string \<Rightarrow> 's \<Rightarrow> (fed_error + Config) \<times> 's" where
  "ResolveConfig st explicit s =
     (if explicit \<noteq> [] then load_named st explicit s
      else (case cs_List st s of
              (Inl err, s1) \<Rightarrow> (Inl (fed_wrap ''listing wastelands: '' err), s1)
            | (Inr [], s1) \<Rightarrow> (Inl (NotJoined (not_joined @ sq '' (run `wl join <upstream>`)'')), s1)
            | (Inr [u], s1) \<Rightarrow> load_named st u s1
            | (Inr us, s1) \<Rightarrow>
                (Inl (Ambiguous (''multiple wastelands joined; use --wasteland to select one:'' @ [nl_ch] @
                   concat (map (\<lambda>u. ''  - '' @ u @ [nl_ch]) us))), s1)))"

text \<open>
  The text of a configuration reads back as the configuration.
\<close>

section \<open>The members of a configuration\<close>

definition config_utf8 :: "Config \<Rightarrow> bool" where
  "config_utf8 c \<longleftrightarrow>
     list_all utf8_ok [fc_Upstream c, fc_ProviderType c, fc_UpstreamURL c, fc_ForkOrg c, fc_ForkDB c, fc_LocalDir c,
       fc_RigHandle c, fc_HopURI c, fc_Mode c, fc_Backend c, fc_GitHubRepo c]"

text \<open>What the code relies on of the printing of times: the text reads back.\<close>

definition times_read_back :: "fed_env \<Rightarrow> bool" where
  "times_read_back k \<longleftrightarrow> (\<forall>at t. fe_time_text k at = Some t \<longrightarrow> fe_parse_time k t = Some at \<and> utf8_ok t)"

definition member_ok :: "string \<times> json \<Rightarrow> bool" where
  "member_ok m \<longleftrightarrow> valid_text (fst m) = fst m \<and> valid_json (snd m) = snd m \<and> nums_ok (snd m)"

lemma members_ok:
  "valid_text n = n \<Longrightarrow> utf8_ok s \<Longrightarrow> list_all member_ok (str_mem n s)"
  "valid_text n = n \<Longrightarrow> utf8_ok s \<Longrightarrow> list_all member_ok (opt_str n s)"
  "valid_text n = n \<Longrightarrow> list_all member_ok (opt_bool n b)"
  "valid_text n = n \<Longrightarrow> (\<forall>s. p = Some s \<longrightarrow> utf8_ok s) \<Longrightarrow> list_all member_ok (opt_ptr n JStr p)"
  by (auto simp: member_ok_def str_mem_def opt_str_def opt_bool_def opt_ptr_def valid_text_utf8 split: option.splits)

lemma config_names:
  "valid_text ''provider_type'' = ''provider_type''" "valid_text ''upstream_url'' = ''upstream_url''"
  "valid_text ''local_dir'' = ''local_dir''" "valid_text ''hop_uri'' = ''hop_uri''" "valid_text ''joined_at'' = ''joined_at''"
  "valid_text ''backend'' = ''backend''" "valid_text ''last_sync_at'' = ''last_sync_at''"
  "valid_text ''github_repo'' = ''github_repo''"
  by code_simp+

lemma config_members_ok:
  assumes "config_utf8 c" and "utf8_ok joined" and "\<forall>s. synced = Some s \<longrightarrow> utf8_ok s"
  shows "list_all member_ok (Config_members c joined synced)"
  using assms
  by (simp add: Config_members_def config_utf8_def members_ok config_names valid_text_names)

text \<open>A member that is not named leaves a field, one that is sets it; a field left out is empty anyway.\<close>

lemma fold_members:
  "\<not> fold_eq m n \<Longrightarrow> fold (str_member n) (str_mem m s) acc = acc"
  "\<not> fold_eq m n \<Longrightarrow> fold (str_member n) (opt_str m s) acc = acc"
  "\<not> fold_eq m n \<Longrightarrow> fold (str_member n) (opt_bool m b) acc = acc"
  "\<not> fold_eq m n \<Longrightarrow> fold (str_member n) (opt_ptr m f p) acc = acc"
  "fold_eq m n \<Longrightarrow> fold (str_member n) (str_mem m s) acc = (s, snd acc)"
  "fold_eq m n \<Longrightarrow> fold (str_member n) (opt_str m s) ([], ok) = (s, ok)"
  by (auto simp: str_mem_def opt_str_def opt_bool_def opt_ptr_def str_member_def split: option.splits)

lemma fold_bool_members:
  "\<not> fold_eq m n \<Longrightarrow> fold (bool_member n) (str_mem m s) acc = acc"
  "\<not> fold_eq m n \<Longrightarrow> fold (bool_member n) (opt_str m s) acc = acc"
  "\<not> fold_eq m n \<Longrightarrow> fold (bool_member n) (opt_ptr m f p) acc = acc"
  "fold_eq m n \<Longrightarrow> fold (bool_member n) (opt_bool m b) (False, ok) = (b, ok)"
  by (auto simp: str_mem_def opt_str_def opt_bool_def opt_ptr_def bool_member_def split: option.splits)

lemma fold_clock_members:
  "\<not> fold_eq m n \<Longrightarrow> fold (clock_member k n) (str_mem m s) t = t"
  "\<not> fold_eq m n \<Longrightarrow> fold (clock_member k n) (opt_str m s) t = t"
  "\<not> fold_eq m n \<Longrightarrow> fold (clock_member k n) (opt_bool m b) t = t"
  "\<not> fold_eq m n \<Longrightarrow> fold (clock_member k n) (opt_ptr m f p) t = t"
  "fold_eq m n \<Longrightarrow> fe_parse_time k s = Some at \<Longrightarrow> fold (clock_member k n) (str_mem m s) t = (at, snd t)"
  by (auto simp: str_mem_def opt_str_def opt_bool_def opt_ptr_def clock_member_def split: option.splits)

lemma fold_clockp_members:
  "\<not> fold_eq m n \<Longrightarrow> fold (clockp_member k n) (str_mem m s) t = t"
  "\<not> fold_eq m n \<Longrightarrow> fold (clockp_member k n) (opt_str m s) t = t"
  "\<not> fold_eq m n \<Longrightarrow> fold (clockp_member k n) (opt_bool m b) t = t"
  "fold_eq m n \<Longrightarrow> (case p of None \<Rightarrow> q = None | Some s \<Rightarrow> fe_parse_time k s = q \<and> q \<noteq> None) \<Longrightarrow>
     fold (clockp_member k n) (opt_ptr m JStr p) (None, ok) = (q, ok)"
  by (auto simp: str_mem_def opt_str_def opt_bool_def opt_ptr_def clockp_member_def split: option.splits)

lemma config_fold_eq:
  "fold_eq m n \<longleftrightarrow> m = n"
  if "m \<in> {''upstream'', ''provider_type'', ''upstream_url'', ''fork_org'', ''fork_db'', ''local_dir'', ''rig_handle'', ''hop_uri'',
        ''joined_at'', ''mode'', ''backend'', ''signing'', ''last_sync_at'', ''github_repo''}"
    and "n \<in> {''upstream'', ''provider_type'', ''upstream_url'', ''fork_org'', ''fork_db'', ''local_dir'', ''rig_handle'', ''hop_uri'',
        ''joined_at'', ''mode'', ''backend'', ''signing'', ''last_sync_at'', ''github_repo''}"
proof -
  let ?names = "[''upstream'', ''provider_type'', ''upstream_url'', ''fork_org'', ''fork_db'', ''local_dir'', ''rig_handle'', ''hop_uri'',
        ''joined_at'', ''mode'', ''backend'', ''signing'', ''last_sync_at'', ''github_repo'']"
  have "list_all (\<lambda>m. list_all (\<lambda>n. fold_eq m n = (m = n)) ?names) ?names" by code_simp
  then show ?thesis using that by (simp only: list_all_iff set_simps)
qed

lemma decode_Config_members:
  assumes "fe_parse_time k joined = Some (fc_JoinedAt c)"
    and "case synced of None \<Rightarrow> fc_LastSyncAt c = None | Some s \<Rightarrow> fe_parse_time k s = fc_LastSyncAt c \<and> fc_LastSyncAt c \<noteq> None"
  shows "decode_config k zero (Config_members c joined synced) = Some c"
proof -
  let ?ms = "Config_members c joined synced"
  note defs = Config_members_def str_field_def bool_field_def fold_append comp_def config_fold_eq
  have "str_field ''upstream'' ?ms = (fc_Upstream c, True)" "str_field ''provider_type'' ?ms = (fc_ProviderType c, True)"
    "str_field ''upstream_url'' ?ms = (fc_UpstreamURL c, True)" "str_field ''fork_org'' ?ms = (fc_ForkOrg c, True)"
    "str_field ''fork_db'' ?ms = (fc_ForkDB c, True)" "str_field ''local_dir'' ?ms = (fc_LocalDir c, True)"
    "str_field ''rig_handle'' ?ms = (fc_RigHandle c, True)" "str_field ''hop_uri'' ?ms = (fc_HopURI c, True)"
    "str_field ''mode'' ?ms = (fc_Mode c, True)" "str_field ''backend'' ?ms = (fc_Backend c, True)"
    "str_field ''github_repo'' ?ms = (fc_GitHubRepo c, True)"
    by (simp_all add: defs fold_members)
  moreover have "bool_field ''signing'' ?ms = (fc_Signing c, True)"
    by (simp add: defs fold_bool_members)
  moreover have "fold (clock_member k ''joined_at'') ?ms (zero, True) = (fc_JoinedAt c, True)"
    by (simp add: defs fold_clock_members assms(1))
  moreover have "fold (clockp_member k ''last_sync_at'') ?ms (None, True) = (fc_LastSyncAt c, True)"
    by (simp add: defs fold_clockp_members assms(2))
  ultimately show ?thesis by (simp add: decode_config_def)
qed

text \<open>The text of a configuration, read as \<^verbatim>\<open>Load\<close> reads it.\<close>

lemma config_data_back:
  assumes "config_data k c = Some content" and "config_utf8 c" and "times_read_back k"
  shows "Option.bind (struct_members content) (decode_config k zero) = Some c"
proof -
  obtain joined synced where t: "fe_time_text k (fc_JoinedAt c) = Some joined"
      "(case fc_LastSyncAt c of None \<Rightarrow> Some None | Some t \<Rightarrow> map_option Some (fe_time_text k t)) = Some synced"
    and content: "content = indent_text 0 (JObj (Config_members c joined synced)) @ [nl_ch]"
    using assms(1) by (auto simp: config_data_def split: option.splits)
  let ?ms = "Config_members c joined synced"
  have "list_all member_ok ?ms"
    using assms(2,3) t by (intro config_members_ok) (auto simp: times_read_back_def split: option.splits)
  then have ok: "list_all (\<lambda>(n, v). nums_ok v) ?ms" "valid_json (JObj ?ms) = JObj ?ms"
    by (auto simp: member_ok_def list_all_iff split_beta map_idI)
  have "json_parse content = Some (JObj ?ms)"
    using indent_back [of "JObj ?ms" "[nl_ch]"] ok by (simp add: content json_space_def del: indent_text.simps)
  then have "struct_members content = Some ?ms" by (simp add: struct_members_def)
  moreover have "decode_config k zero ?ms = Some c"
    using assms(3) t by (intro decode_Config_members) (auto simp: times_read_back_def split: option.splits)
  ultimately show ?thesis by simp
qed

end
