(* ===== verification/FedJoin.thy ===== *)
theory FedJoin
  imports FedConfig DoltCli
begin

text \<open>
  Joining and creating a wasteland (\<^verbatim>\<open>internal/federation/federation.go\<close>): the dolt processes, the clone of a
  fork that is not there yet, and the two workflows.
\<close>

section \<open>The dolt command\<close>

record 's DoltCLI =
  cli_Clone :: "string \<Rightarrow> path \<Rightarrow> 's \<Rightarrow> go_error option \<times> 's"
  cli_Init :: "path \<Rightarrow> 's \<Rightarrow> go_error option \<times> 's"
  cli_SQLExec :: "path \<Rightarrow> string \<Rightarrow> 's \<Rightarrow> go_error option \<times> 's"
  cli_StageAndCommit :: "path \<Rightarrow> string \<Rightarrow> bool \<Rightarrow> 's \<Rightarrow> go_error option \<times> 's"
  cli_AddRemote :: "path \<Rightarrow> string \<Rightarrow> string \<Rightarrow> 's \<Rightarrow> go_error option \<times> 's"
  cli_RegisterRig :: "path \<Rightarrow> string \<Rightarrow> string \<Rightarrow> string \<Rightarrow> string \<Rightarrow> string \<Rightarrow> bool \<Rightarrow> 's \<Rightarrow> go_error option \<times> 's"
  cli_Push :: "path \<Rightarrow> 's \<Rightarrow> go_error option \<times> 's"
  cli_PushBranch :: "path \<Rightarrow> string \<Rightarrow> bool \<Rightarrow> 's \<Rightarrow> go_error option \<times> 's"
  cli_CheckoutBranch :: "path \<Rightarrow> string \<Rightarrow> 's \<Rightarrow> go_error option \<times> 's"
  cli_CheckoutMain :: "path \<Rightarrow> 's \<Rightarrow> go_error option \<times> 's"
  cli_AddUpstreamRemote :: "path \<Rightarrow> string \<Rightarrow> 's \<Rightarrow> go_error option \<times> 's"

text \<open>The system with its directories.\<close>

record 's cli_sys = "'s sys" +
  cl_mkdir :: "path \<Rightarrow> 's \<Rightarrow> io_error option \<times> 's"
  cl_exists :: "path \<Rightarrow> 's \<Rightarrow> bool"

definition exec_Clone :: "'s cli_sys \<Rightarrow> string \<Rightarrow> path \<Rightarrow> 's \<Rightarrow> go_error option \<times> 's" where
  "exec_Clone y remoteURL targetDir s =
     (case cl_mkdir y (butlast targetDir) s of
        (Some err, s1) \<Rightarrow> (Some (Wrap ''creating parent directory: '' (io_go err)), s1)
      | (None, s1) \<Rightarrow>
          if cl_exists y (targetDir @ [''.dolt'']) s1 then (None, s1)
          else run_once (sys.truncate y) 600 [] (''dolt clone '' @ remoteURL) [''dolt'', ''clone'', remoteURL, path_text targetDir] s1)"

definition exec_Init :: "'s cli_sys \<Rightarrow> path \<Rightarrow> 's \<Rightarrow> go_error option \<times> 's" where
  "exec_Init y localDir s =
     (case cl_mkdir y localDir s of
        (Some err, s1) \<Rightarrow> (Some (Wrap ''creating directory: '' (io_go err)), s1)
      | (None, s1) \<Rightarrow> run_once (sys.truncate y) 30 (path_text localDir) ''dolt init'' [''dolt'', ''init''] s1)"

definition exec_SQLExec :: "'s cli_sys \<Rightarrow> path \<Rightarrow> string \<Rightarrow> 's \<Rightarrow> go_error option \<times> 's" where
  "exec_SQLExec y localDir query s =
     run_once (sys.truncate y) 30 (path_text localDir) ''dolt sql'' [''dolt'', ''sql'', ''-q'', query] s"

definition commit_args :: "bool \<Rightarrow> string \<Rightarrow> string list" where
  "commit_args sg message = [''dolt'', ''commit''] @ (if sg then [''-S''] else []) @ [''-m'', message]"

definition nothing_to_commit :: "string \<Rightarrow> bool" where
  "nothing_to_commit lower \<longleftrightarrow> Contains lower ''nothing to commit'' \<or> Contains lower ''no changes added''"

definition signing_help :: string where
  "signing_help =
     ''GPG signing failed: no signing key configured'' @ [nl_ch, nl_ch] @ ''Set your GPG key for dolt:'' @ [nl_ch] @
     ''  gpg --list-secret-keys --keyid-format long    # find your key ID (hex after algorithm)'' @ [nl_ch] @
     ''  dolt config --global --add sqlserver.global.signingkey <your-gpg-key-id>''"

text \<open>A commit of nothing is a success; a missing key is explained where the caller asks for it.\<close>

definition commit_once :: "'s cli_sys \<Rightarrow> bool \<Rightarrow> path \<Rightarrow> string \<Rightarrow> bool \<Rightarrow> 's \<Rightarrow> go_error option \<times> 's" where
  "commit_once y explain localDir message sg s =
     (case sy_run y 30 (path_text localDir) (commit_args sg message) s of
        ((None, output), s1) \<Rightarrow> (None, s1)
      | ((Some err, output), s1) \<Rightarrow>
          (let msg = TrimSpace output; lower = ToLower (sy_uni y) msg
           in if nothing_to_commit lower then (None, s1)
              else if explain \<and> sg \<and> Contains lower ''invalid user id'' then (Some (Err signing_help), s1)
              else (Some (process_error ''dolt commit'' err output), s1)))"

definition exec_StageAndCommit :: "'s cli_sys \<Rightarrow> path \<Rightarrow> string \<Rightarrow> bool \<Rightarrow> 's \<Rightarrow> go_error option \<times> 's" where
  "exec_StageAndCommit y localDir message sg s =
     (case run_once (sys.truncate y) 30 (path_text localDir) ''dolt add'' [''dolt'', ''add'', ''-A''] s of
        (Some err, s1) \<Rightarrow> (Some err, s1)
      | (None, s1) \<Rightarrow> commit_once y False localDir message sg s1)"

definition already_exists :: "'s cli_sys \<Rightarrow> string \<Rightarrow> bool" where
  "already_exists y output \<longleftrightarrow> Contains (ToLower (sy_uni y) (TrimSpace output)) ''already exists''"

definition exec_AddRemote :: "'s cli_sys \<Rightarrow> path \<Rightarrow> string \<Rightarrow> string \<Rightarrow> 's \<Rightarrow> go_error option \<times> 's" where
  "exec_AddRemote y localDir name remoteURL s =
     (case sy_run y 15 (path_text localDir) [''dolt'', ''remote'', ''add'', name, remoteURL] s of
        ((None, output), s1) \<Rightarrow> (None, s1)
      | ((Some err, output), s1) \<Rightarrow>
          if already_exists y output then (None, s1)
          else (Some (process_error (''dolt remote add '' @ name) err output), s1))"

definition register_sql :: "string \<Rightarrow> string \<Rightarrow> string \<Rightarrow> string \<Rightarrow> string \<Rightarrow> string" where
  "register_sql rig dolthubOrg displayName ownerEmail version =
     (let hopURI = Sprintf ''hop://%s/%s/'' [FS ownerEmail, FS rig]; e = (\<lambda>t. FS (escapeSQLString t))
      in Sprintf (sq ''INSERT INTO rigs (handle, display_name, dolthub_org, hop_uri, owner_email, gt_version, trust_level, registered_at, last_seen) VALUES (`%s`, `%s`, `%s`, `%s`, `%s`, `%s`, 1, NOW(), NOW()) ON DUPLICATE KEY UPDATE display_name = `%s`, dolthub_org = `%s`, hop_uri = `%s`, owner_email = `%s`, gt_version = `%s`, last_seen = NOW()'')
           [e rig, e displayName, e dolthubOrg, e hopURI, e ownerEmail, e version,
            e displayName, e dolthubOrg, e hopURI, e ownerEmail, e version])"

definition exec_RegisterRig ::
  "'s cli_sys \<Rightarrow> path \<Rightarrow> string \<Rightarrow> string \<Rightarrow> string \<Rightarrow> string \<Rightarrow> string \<Rightarrow> bool \<Rightarrow> 's \<Rightarrow> go_error option \<times> 's" where
  "exec_RegisterRig y localDir rig dolthubOrg displayName ownerEmail version sg s =
     (case run_once (sys.truncate y) 30 (path_text localDir) ''inserting rig registration''
             [''dolt'', ''sql'', ''-q'', register_sql rig dolthubOrg displayName ownerEmail version] s of
        (Some err, s1) \<Rightarrow> (Some err, s1)
      | (None, s1) \<Rightarrow>
          (case run_once (sys.truncate y) 30 (path_text localDir) ''dolt add'' [''dolt'', ''add'', ''.''] s1 of
             (Some err, s2) \<Rightarrow> (Some err, s2)
           | (None, s2) \<Rightarrow> commit_once y True localDir (''Register rig: '' @ rig) sg s2))"

definition exec_Push :: "'s cli_sys \<Rightarrow> path \<Rightarrow> 's \<Rightarrow> go_error option \<times> 's" where
  "exec_Push y localDir s =
     run_once (sys.truncate y) 60 (path_text localDir) ''dolt push'' [''dolt'', ''push'', ''origin'', ''main''] s"

definition exec_PushBranch :: "'s cli_sys \<Rightarrow> path \<Rightarrow> string \<Rightarrow> bool \<Rightarrow> 's \<Rightarrow> go_error option \<times> 's" where
  "exec_PushBranch y localDir branch force s =
     run_once (sys.truncate y) 60 (path_text localDir) (''dolt push branch '' @ branch)
       ([''dolt'', ''push''] @ (if force then [''--force''] else []) @ [''origin'', branch]) s"

definition exec_CheckoutBranch :: "'s cli_sys \<Rightarrow> path \<Rightarrow> string \<Rightarrow> 's \<Rightarrow> go_error option \<times> 's" where
  "exec_CheckoutBranch y localDir branch s =
     (let checkout = run_once (sys.truncate y) 30 (path_text localDir) (''dolt checkout '' @ branch) [''dolt'', ''checkout'', branch]
      in case sy_run y 30 (path_text localDir) [''dolt'', ''branch'', branch] s of
           ((None, output), s1) \<Rightarrow> checkout s1
         | ((Some err, output), s1) \<Rightarrow>
             if already_exists y output then checkout s1
             else (Some (Err (''dolt branch '' @ branch @ '': '' @ Error err @ '' ('' @
                          ToLower (sy_uni y) (TrimSpace output) @ '')'')), s1))"

definition exec_CheckoutMain :: "'s cli_sys \<Rightarrow> path \<Rightarrow> 's \<Rightarrow> go_error option \<times> 's" where
  "exec_CheckoutMain y localDir s =
     run_once (sys.truncate y) 30 (path_text localDir) ''dolt checkout main'' [''dolt'', ''checkout'', ''main''] s"

definition exec_AddUpstreamRemote :: "'s cli_sys \<Rightarrow> path \<Rightarrow> string \<Rightarrow> 's \<Rightarrow> go_error option \<times> 's" where
  "exec_AddUpstreamRemote y localDir remoteURL s =
     ensure_remote (sys.truncate y) (path_text localDir) ''upstream'' remoteURL s"

definition execDoltCLI :: "'s cli_sys \<Rightarrow> 's DoltCLI" where
  "execDoltCLI y =
     \<lparr>cli_Clone = exec_Clone y, cli_Init = exec_Init y, cli_SQLExec = exec_SQLExec y,
      cli_StageAndCommit = exec_StageAndCommit y, cli_AddRemote = exec_AddRemote y,
      cli_RegisterRig = exec_RegisterRig y, cli_Push = exec_Push y, cli_PushBranch = exec_PushBranch y,
      cli_CheckoutBranch = exec_CheckoutBranch y, cli_CheckoutMain = exec_CheckoutMain y,
      cli_AddUpstreamRemote = exec_AddUpstreamRemote y\<rparr>"

section \<open>A clone of a new fork\<close>

text \<open>
  What the workflows use around the store and the command: the provider of databases, the clock, and who is told of the progress.
  \<open>sv_delay\<close> is the time in milliseconds that the clone before took.
\<close>

record 's Provider =
  pv_DatabaseURL :: "string \<Rightarrow> string \<Rightarrow> string"
  pv_Fork :: "string \<Rightarrow> string \<Rightarrow> string \<Rightarrow> 's \<Rightarrow> go_error option \<times> 's"
  pv_CreatePR :: "string \<Rightarrow> string \<Rightarrow> string \<Rightarrow> string \<Rightarrow> string \<Rightarrow> string \<Rightarrow> 's \<Rightarrow> (go_error + string) \<times> 's"
  pv_Type :: string

record 's Service =
  fs_Remote :: "'s Provider"
  fs_CLI :: "'s DoltCLI"
  fs_Config :: "'s ConfigStore"
  fs_OnProgress :: "(string \<Rightarrow> 's \<Rightarrow> 's) option"
  fs_env :: fed_env
  fs_uni :: "string \<Rightarrow> string"
  fs_now :: "'s \<Rightarrow> int"
  fs_delay :: "'s \<Rightarrow> nat"
  fs_sleep :: "nat \<Rightarrow> 's \<Rightarrow> 's"

definition progress :: "'s Service \<Rightarrow> string \<Rightarrow> 's \<Rightarrow> 's" where
  "progress sv step s = (case fs_OnProgress sv of None \<Rightarrow> s | Some f \<Rightarrow> f step s)"

definition clone_deadline :: nat where
  "clone_deadline = 120000"

text \<open>Two seconds, doubled up to sixteen.\<close>

definition clone_backoff :: "nat \<Rightarrow> nat" where
  "clone_backoff k = 2000 * 2 ^ min k 3"

definition not_yet :: "(string \<Rightarrow> string) \<Rightarrow> go_error \<Rightarrow> bool" where
  "not_yet uni err \<longleftrightarrow>
     (let msg = ToLower uni (Error err)
      in Contains msg ''permission'' \<or> Contains msg ''could not access'' \<or> Contains msg ''not found'')"

definition retry_text :: "nat \<Rightarrow> string" where
  "retry_text k = ''  Fork not yet available, retrying in '' @ Itoa (int (clone_backoff k div 1000)) @ ''s...''"

lemma clone_backoff_pos: "0 < clone_backoff k"
  by (simp add: clone_backoff_def)

function clone_again ::
  "'s Service \<Rightarrow> string \<Rightarrow> path \<Rightarrow> nat \<Rightarrow> nat \<Rightarrow> go_error option \<times> 's \<Rightarrow> go_error option \<times> 's" where
  "clone_again sv url dir elapsed k (err, s) =
     (let now = elapsed + fs_delay sv s
      in case err of
           None \<Rightarrow> (None, s)
         | Some e \<Rightarrow>
             if clone_deadline \<le> now \<or> \<not> not_yet (fs_uni sv) e then (Some e, s)
             else clone_again sv url dir (now + clone_backoff k) (k + 1)
                    (cli_Clone (fs_CLI sv) url dir
                       (fs_sleep sv (clone_backoff k)
                          (progress sv (retry_text k) s))))"
  by pat_completeness auto

termination
  by (relation "measure (\<lambda>(sv, url, dir, elapsed, k, r). clone_deadline - elapsed)")
    (use clone_backoff_pos in \<open>auto simp: diff_less_mono2 trans_less_add1\<close>)

declare clone_again.simps [simp del]

definition cloneWithRetry :: "'s Service \<Rightarrow> string \<Rightarrow> path \<Rightarrow> 's \<Rightarrow> go_error option \<times> 's" where
  "cloneWithRetry sv url dir s = clone_again sv url dir 0 0 (cli_Clone (fs_CLI sv) url dir s)"

section \<open>Join\<close>

record JoinResult =
  jr_Config :: Config
  jr_PRURL :: string

text \<open>A step that is announced, and whose failure ends the workflow.\<close>

definition attempt ::
  "'s Service \<Rightarrow> string \<Rightarrow> string \<Rightarrow> ('s \<Rightarrow> go_error option \<times> 's) \<Rightarrow> ('s \<Rightarrow> (fed_error + 'b) \<times> 's) \<Rightarrow> 's \<Rightarrow> (fed_error + 'b) \<times> 's" where
  "attempt sv announced what f cont s =
     (case f (if announced = [] then s else progress sv announced s) of
        (Some err, s1) \<Rightarrow> (Inl (Fed (Wrap what err)), s1)
      | (None, s1) \<Rightarrow> cont s1)"

definition hop_uri :: "string \<Rightarrow> string \<Rightarrow> string" where
  "hop_uri ownerEmail rig = Sprintf ''hop://%s/%s/'' [FS ownerEmail, FS rig]"

definition save_config :: "'s Service \<Rightarrow> Config \<Rightarrow> 's \<Rightarrow> (fed_error + Config) \<times> 's" where
  "save_config sv c s =
     (case cs_Save (fs_Config sv) c s of
        (Some err, s1) \<Rightarrow> (Inl (fed_wrap ''saving wasteland config: '' err), s1)
      | (None, s1) \<Rightarrow> (Inr c, s1))"

definition joined_config :: "'s Service \<Rightarrow> string \<Rightarrow> string \<Rightarrow> string \<Rightarrow> path \<Rightarrow> string \<Rightarrow> string \<Rightarrow> string \<Rightarrow> string \<Rightarrow> int \<Rightarrow> Config" where
  "joined_config sv upstream forkOrg db localDir rig ownerEmail provider url at =
     \<lparr>fc_Upstream = upstream, fc_ProviderType = provider, fc_UpstreamURL = url, fc_ForkOrg = forkOrg, fc_ForkDB = db,
      fc_LocalDir = path_text localDir, fc_RigHandle = rig, fc_HopURI = hop_uri ownerEmail rig, fc_JoinedAt = at,
      fc_Mode = ''pr'', fc_Backend = ''local'', fc_Signing = False, fc_LastSyncAt = None, fc_GitHubRepo = []\<rparr>"

text \<open>A pull request that cannot be opened is a warning.\<close>

definition open_pr :: "'s Service \<Rightarrow> string \<Rightarrow> string \<Rightarrow> string \<Rightarrow> string \<Rightarrow> string \<Rightarrow> string \<Rightarrow> 's \<Rightarrow> string \<times> 's" where
  "open_pr sv forkOrg org db branch rig displayName s =
     (case pv_CreatePR (fs_Remote sv) forkOrg org db branch (''Register rig: '' @ rig)
             (Sprintf ''Register rig **%s** (%s) in the commons.'' [FS rig, FS displayName])
             (progress sv ''Opening pull request...'' s) of
        (Inl err, s1) \<Rightarrow> ([], progress sv (''warning: could not create PR: '' @ Error err) s1)
      | (Inr url, s1) \<Rightarrow> (url, s1))"

definition join_finish :: "'s Service \<Rightarrow> (int \<Rightarrow> Config) \<Rightarrow> string \<Rightarrow> 's \<Rightarrow> (fed_error + JoinResult) \<times> 's" where
  "join_finish sv cfg url s =
     (case save_config sv (cfg (fs_now sv s)) s of
        (Inl err, s1) \<Rightarrow> (Inl err, s1)
      | (Inr c, s1) \<Rightarrow> (Inr \<lparr>jr_Config = c, jr_PRURL = url\<rparr>, s1))"

definition join_direct ::
  "'s Service \<Rightarrow> path \<Rightarrow> string \<Rightarrow> ('s \<Rightarrow> go_error option \<times> 's) \<Rightarrow> (int \<Rightarrow> Config) \<Rightarrow> 's \<Rightarrow> (fed_error + JoinResult) \<times> 's" where
  "join_direct sv dir upstreamURL register cfg s =
     attempt sv ''Cloning upstream directly...'' ''cloning upstream: '' (cli_Clone (fs_CLI sv) upstreamURL dir)
       (attempt sv ''Registering rig...'' ''registering rig: '' register
         (attempt sv ''Pushing to upstream...'' ''pushing: '' (cli_Push (fs_CLI sv) dir)
           (join_finish sv cfg []))) s"

definition join_fork ::
  "'s Service \<Rightarrow> path \<Rightarrow> string \<Rightarrow> string \<Rightarrow> string \<Rightarrow> string \<Rightarrow> string \<Rightarrow> string \<Rightarrow> ('s \<Rightarrow> go_error option \<times> 's) \<Rightarrow> (int \<Rightarrow> Config) \<Rightarrow>
   's \<Rightarrow> (fed_error + JoinResult) \<times> 's" where
  "join_fork sv dir upstreamURL org db forkOrg rig displayName register cfg s =
     (let cli = fs_CLI sv; branch = ''wl/register/'' @ rig
      in attempt sv ''Forking commons...'' ''forking commons: '' (pv_Fork (fs_Remote sv) org db forkOrg)
           (attempt sv ''Cloning fork locally...'' ''cloning fork: '' (cloneWithRetry sv (pv_DatabaseURL (fs_Remote sv) forkOrg db) dir)
             (attempt sv ''Adding upstream remote...'' ''adding upstream remote: '' (cli_AddUpstreamRemote cli dir upstreamURL)
               (attempt sv (''Creating branch '' @ branch @ ''...'') ''creating registration branch: '' (cli_CheckoutBranch cli dir branch)
                 (attempt sv ''Registering rig...'' ''registering rig: '' register
                   (attempt sv ''Pushing branch to fork...'' ''pushing branch: '' (cli_PushBranch cli dir branch True)
                     (attempt sv [] ''returning to main: '' (cli_CheckoutMain cli dir)
                       (\<lambda>s1. case open_pr sv forkOrg org db branch rig displayName s1 of
                          (url, s2) \<Rightarrow> join_finish sv cfg url s2))))))) s)"

definition service_Join ::
  "'s Service \<Rightarrow> string \<Rightarrow> string \<Rightarrow> string \<Rightarrow> string \<Rightarrow> string \<Rightarrow> string \<Rightarrow> bool \<Rightarrow> bool \<Rightarrow> 's \<Rightarrow> (fed_error + JoinResult) \<times> 's" where
  "service_Join sv upstream forkOrg rig displayName ownerEmail version sg direct s =
     (case ParseUpstream upstream of
        Inl err \<Rightarrow> (Inl (Fed err), s)
      | Inr (org, db) \<Rightarrow>
          (case cs_Load (fs_Config sv) upstream s of
             (Inr existing, s1) \<Rightarrow> (Inr \<lparr>jr_Config = existing, jr_PRURL = []\<rparr>, s1)
           | (Inl _, s1) \<Rightarrow>
               (let dir = LocalCloneDir (fs_env sv) org db; url = pv_DatabaseURL (fs_Remote sv) org db;
                    register = cli_RegisterRig (fs_CLI sv) dir rig forkOrg displayName ownerEmail version sg;
                    cfg = joined_config sv upstream forkOrg db dir rig ownerEmail (pv_Type (fs_Remote sv)) url
                in if direct then join_direct sv dir url register cfg s1
                   else join_fork sv dir url org db forkOrg rig displayName register cfg s1)))"

section \<open>Create\<close>

record CreateOptions =
  co_Upstream :: string
  co_Handle :: string
  co_DisplayName :: string
  co_OwnerEmail :: string
  co_Version :: string
  co_SchemaSQL :: string
  co_Name :: string
  co_LocalOnly :: bool
  co_Signed :: bool

definition create_script :: "CreateOptions \<Rightarrow> string" where
  "create_script opts =
     co_SchemaSQL opts @
     (if co_Name opts = [] then []
      else [nl_ch] @ ''INSERT IGNORE INTO _meta (`key`, value) VALUES ('' @ [quote_ch] @ ''wasteland_name'' @ [quote_ch] @ '', '' @
           [quote_ch] @ escapeSQLString (co_Name opts) @ [quote_ch] @ '');'' @ [nl_ch])"

definition create_finish :: "'s Service \<Rightarrow> CreateOptions \<Rightarrow> string \<Rightarrow> string \<Rightarrow> path \<Rightarrow> string \<Rightarrow> 's \<Rightarrow> (fed_error + Config) \<times> 's" where
  "create_finish sv opts org db dir url s =
     save_config sv
       (joined_config sv (co_Upstream opts) org db dir (co_Handle opts) (co_OwnerEmail opts)
          (if co_LocalOnly opts then [] else pv_Type (fs_Remote sv)) (if co_LocalOnly opts then [] else url) (fs_now sv s))
       (progress sv ''Saving config...'' s)"

definition service_Create :: "'s Service \<Rightarrow> CreateOptions \<Rightarrow> 's \<Rightarrow> (fed_error + Config) \<times> 's" where
  "service_Create sv opts s =
     (case ParseUpstream (co_Upstream opts) of
        Inl err \<Rightarrow> (Inl (Fed err), s)
      | Inr (org, db) \<Rightarrow>
          (case cs_Load (fs_Config sv) (co_Upstream opts) s of
             (Inr existing, s1) \<Rightarrow> (Inr existing, s1)
           | (Inl _, s1) \<Rightarrow>
               (let cli = fs_CLI sv; dir = LocalCloneDir (fs_env sv) org db; url = pv_DatabaseURL (fs_Remote sv) org db;
                    finish = create_finish sv opts org db dir url
                in attempt sv ''Initializing dolt database...'' ''initializing database: '' (cli_Init cli dir)
                     (attempt sv ''Applying commons schema...'' ''applying schema: '' (cli_SQLExec cli dir (create_script opts))
                       (attempt sv ''Committing initial schema...'' ''committing schema: ''
                          (cli_StageAndCommit cli dir ''Initialize commons schema v1.0'' (co_Signed opts))
                         (attempt sv ''Registering rig...'' ''registering rig: ''
                            (cli_RegisterRig cli dir (co_Handle opts) org (co_DisplayName opts) (co_OwnerEmail opts)
                               (co_Version opts) (co_Signed opts))
                           (if co_LocalOnly opts then finish
                            else attempt sv ''Adding origin remote...'' ''adding origin remote: '' (cli_AddRemote cli dir ''origin'' url)
                                   (attempt sv ''Pushing to remote...'' ''pushing: '' (cli_Push cli dir) finish))))) s1)))"

definition NewServiceWith :: "'s Provider \<Rightarrow> 's cli_sys \<Rightarrow> 's ConfigStore \<Rightarrow> fed_env \<Rightarrow> ('s \<Rightarrow> int) \<Rightarrow> ('s \<Rightarrow> nat) \<Rightarrow> 's Service" where
  "NewServiceWith provider y store k now delay =
     \<lparr>fs_Remote = provider, fs_CLI = execDoltCLI y, fs_Config = store, fs_OnProgress = None, fs_env = k,
      fs_uni = sy_uni y, fs_now = now, fs_delay = delay, fs_sleep = (\<lambda>ms. sy_sleep y (ms div 1000))\<rparr>"

end
