(* ===== verification/FedProps.thy ===== *)
theory FedProps
  imports FedJoin FedConfig FileSys
begin

text \<open>
  The configuration store against a map from upstreams to configurations, whatever calls of the system fail, and
  the workflows on top of it.
\<close>

section \<open>Paths of configurations\<close>

definition is_config :: "path \<Rightarrow> bool" where
  "is_config q \<longleftrightarrow> q \<noteq> [] \<and> HasSuffix (last q) ''.json''"

definition plain_part :: "string \<Rightarrow> bool" where
  "plain_part x \<longleftrightarrow> x \<noteq> [] \<and> x \<noteq> ''.'' \<and> x \<noteq> ''..'' \<and> CHR ''/'' \<notin> set x"

lemma clean_parts_append: "clean_parts p (xs @ ys) = clean_parts (clean_parts p xs) ys"
  by (induction p xs rule: clean_parts.induct) auto

lemma Split_onto:
  "c \<notin> set t \<Longrightarrow> Split (s @ t) c = butlast (Split s c) @ [last (Split s c) @ t]"
proof (induction s)
  case (Cons a s)
  then show ?case by (cases "Split s c") (auto split: list.splits)
qed (simp add: Split_single)

lemma configPath_is_config:
  assumes "configPath k upstream = Inr q"
  shows "is_config q"
proof -
  obtain org db where q: "q = join_path (fe_config_dir k) [''wastelands'', org, db @ ''.json'']"
    using assms by (auto simp: configPath_def split: sum.splits)
  obtain xs x where "Split (db @ ''.json'') (CHR ''/'') = xs @ [x @ ''.json'']"
    using Split_onto [of "CHR ''/''" "''.json''" db] by simp
  then have "q = clean_parts (fe_config_dir k) (Split ''wastelands'' (CHR ''/'') @ Split org (CHR ''/'') @ xs @ [x @ ''.json''])"
    by (simp add: q join_path_def)
  then have "q = clean_parts (clean_parts (fe_config_dir k) (Split ''wastelands'' (CHR ''/'') @ Split org (CHR ''/'') @ xs)) [x @ ''.json'']"
    by (simp only: clean_parts_append append.assoc)
  moreover have "x @ ''.json'' \<noteq> ''.''" "x @ ''.json'' \<noteq> ''..''" by (cases x; simp)+
  ultimately show ?thesis by (simp add: is_config_def)
qed

section \<open>Saving\<close>

lemma config_no_temp: "is_config q \<Longrightarrow> \<not> is_temp q"
  by (auto simp: is_config_def is_temp_def HasSuffix_def HasPrefix_iff)

lemma file_Save_exact:
  assumes "file_Save k c d = (res, d')" and "is_config q"
  shows "if res = None \<and> configPath k (fc_Upstream c) = Inr q
     then config_data k c \<noteq> None \<and> file_at d' q = config_data k c else file_at d' q = file_at d q"
proof (cases "configPath k (fc_Upstream c)")
  case (Inl err)
  then show ?thesis using assms(1) by (auto simp: file_Save_def)
next
  case (Inr p)
  obtain r1 d1 where m: "os_MkdirAll (fe_io k) (butlast p) d = (r1, d1)" by (rule prod.exhaust)
  have f1: "file_at d1 q = file_at d q"
    using make_dirs_file [of "fe_io k" _ d q] m unfolding os_MkdirAll_def by (metis snd_conv)
  obtain r2 d2 where t: "os_CreateTemp (fe_io k) (butlast p) ''.wl-'' ''.tmp'' d1 = (r2, d2)" by (rule prod.exhaust)
  have f2: "file_at d2 q = file_at d q" using os_CreateTemp_result(1) [OF t, of q] config_no_temp [OF assms(2)] f1 by simp
  show ?thesis
  proof (cases "r1 = None \<and> (\<exists>content. config_data k c = Some content) \<and> (\<exists>tmp. r2 = Inr tmp)")
    case True
    then obtain content tmp where x: "r1 = None" "config_data k c = Some content" "r2 = Inr tmp" by auto
    obtain r3 where r3: "replace_file (fe_io k) ''config'' tmp p content d2 = (r3, d')" "res = map_option Fed r3"
      using assms(1) Inr m t x by (auto simp: file_Save_def split: prod.splits)
    have t1: "is_temp tmp" "tmp \<noteq> []" using os_CreateTemp_result(2) [OF t, of tmp] x(3) by simp_all
    have "is_config p" using configPath_is_config [OF Inr] .
    then have "p \<noteq> []" "tmp \<noteq> p" "q \<noteq> tmp"
      using t1(1) assms(2) config_no_temp by (auto simp: is_config_def [of p])
    then have "file_at d' q = (if r3 = None \<and> q = p then Some content else file_at d2 q)"
      by (intro replace_file_exact [OF r3(1)] t1(2))
    then have "file_at d' q = (if res = None \<and> q = p then Some content else file_at d2 q)" using r3(2) by simp
    then show ?thesis using Inr x f2 by simp
  next
    case False
    then have "res \<noteq> None \<and> file_at d' q = file_at d q"
      using assms(1) Inr m t f1 f2 by (auto simp: file_Save_def split: option.splits sum.splits)
    then have "\<not> (res = None \<and> configPath k (fc_Upstream c) = Inr q)" "file_at d' q = file_at d q" by auto
    then show ?thesis by (simp only: if_False)
  qed
qed

text \<open>
  C17: Saving a configuration is all or nothing: whatever call of the system fails, and however much of a failing
  write reaches the disk, afterwards the file of that wasteland holds the whole new text if no error is reported
  and what it held before if one is, and the file of no other wasteland has changed.
\<close>

theorem save_is_all_or_nothing:
  assumes "file_Save k c d = (res, d')" and "configPath k upstream = Inr q"
  shows "if res = None \<and> configPath k (fc_Upstream c) = Inr q
     then config_data k c \<noteq> None \<and> file_at d' q = config_data k c else file_at d' q = file_at d q"
  by (rule file_Save_exact [OF assms(1) configPath_is_config [OF assms(2)]])

section \<open>Reading back\<close>

definition calm :: "fed_env \<Rightarrow> disk \<Rightarrow> bool" where
  "calm k d \<longleftrightarrow> (\<forall>n. dk_step d \<le> n \<longrightarrow> io_fault (fe_io k) n = None)"

lemma saved_way_clear:
  assumes "file_Save k c d = (None, d')" and "configPath k (fc_Upstream c) = Inr p"
  shows "way_clear d' p"
proof -
  obtain d1 where m: "os_MkdirAll (fe_io k) (butlast p) d = (None, d1)"
    using assms by (auto simp: file_Save_def split: prod.splits option.splits)
  obtain content where content: "config_data k c = Some content"
    using assms m by (auto simp: file_Save_def split: prod.splits option.splits)
  obtain tmp d2 where t: "os_CreateTemp (fe_io k) (butlast p) ''.wl-'' ''.tmp'' d1 = (Inr tmp, d2)"
    using assms m content by (auto simp: file_Save_def split: prod.splits option.splits sum.splits)
  have r: "replace_file (fe_io k) ''config'' tmp p content d2 = (None, d')"
    using assms m content t by (auto simp: file_Save_def split: prod.splits)
  show ?thesis
    unfolding way_clear_def
  proof (intro allI impI)
    fix i assume i: "i < length p"
    then have "take i (butlast p) = take i p" by (simp add: butlast_conv_take)
    then have "node_at d1 (take i p) = Some Dir" using os_MkdirAll_made [OF m, of i] i by simp
    then have "node_at d2 (take i p) = Some Dir" "length tmp = length p" using temp_node [OF t] i by auto
    moreover have "take i p \<noteq> p" "take i p \<noteq> tmp"
      using i \<open>length tmp = length p\<close> by (metis length_take min.absorb4 nat_neq_iff)+
    ultimately show "node_at d' (take i p) = Some Dir" using replace_file_dirs [OF r] by blast
  qed
qed

lemma file_Load_back:
  assumes "configPath k upstream = Inr p" and "way_clear d p" and "file_at d p = config_data k c" and "config_data k c \<noteq> None"
    and "io_fault (fe_io k) (dk_step d) = None" and "config_utf8 c" and "times_read_back k"
  shows "fst (file_Load k upstream d) = Inr c"
proof -
  obtain content where content: "config_data k c = Some content" using assms(4) by auto
  then have "node_at d p = Some (File content)"
    using assms(3) by (auto simp: file_at_def split: option.splits node.splits)
  then have "os_ReadFile (fe_io k) p d = (Inr content, tick d)"
    using find_node_clear [OF assms(2)] assms(5) by (simp add: os_ReadFile_def)
  then show ?thesis
    using assms(1) config_data_back [OF content assms(6,7)] by (simp add: file_Load_def)
qed

lemma saved_loads:
  assumes "file_Save k c d = (None, d')" and "io_fault (fe_io k) (dk_step d') = None"
    and "config_utf8 c" and "times_read_back k"
  shows "fst (file_Load k (fc_Upstream c) d') = Inr c"
proof -
  obtain p where p: "configPath k (fc_Upstream c) = Inr p"
    using assms(1) by (cases "configPath k (fc_Upstream c)") (auto simp: file_Save_def)
  then have "config_data k c \<noteq> None \<and> file_at d' p = config_data k c"
    using file_Save_exact [OF assms(1) configPath_is_config [OF p]] by simp
  then show ?thesis using file_Load_back [OF p saved_way_clear [OF assms(1) p]] assms by blast
qed

text \<open>
  C19: What was saved is loaded: after a save that reports no error, loading that upstream gives exactly the
  configuration that was saved, provided its texts are UTF-8, the read itself does not fail and times read back
  as they were printed.
\<close>

theorem saved_config_loads:
  assumes "file_Save k c d = (None, d')" and "io_fault (fe_io k) (dk_step d') = None"
    and "config_utf8 c" and "times_read_back k"
  shows "fst (file_Load k (fc_Upstream c) d') = Inr c"
  by (rule saved_loads [OF assms])

section \<open>Listing\<close>

lemma file_at_node: "file_at d q \<noteq> None \<Longrightarrow> node_at d q \<noteq> None"
  by (cases "node_at d q") (simp_all add: file_at_def)

lemma set_entries: "p @ [n] \<noteq> [] \<Longrightarrow> (n, b) \<in> set (entries d p) \<longleftrightarrow> node_at d (p @ [n]) \<noteq> None \<and> b = (node_at d (p @ [n]) = Some Dir)"
proof -
  have "n \<in> last ` {q \<in> fst ` set (dk_nodes d). q \<noteq> [] \<and> butlast q = p} \<longleftrightarrow> p @ [n] \<in> fst ` set (dk_nodes d)"
    by (force intro: append_butlast_last_id [symmetric])
  then show ?thesis by (auto simp: entries_def node_at_def map_of_eq_None_iff image_iff)
qed

lemma entries_tick [simp]: "entries (tick d) p = entries d p"
  by (simp add: entries_def node_at_def tick_def)

lemma calm_tick: "calm k d \<Longrightarrow> calm k (tick d)"
  by (simp add: calm_def)

lemma way_clear_tick [simp]: "way_clear (tick d) p = way_clear d p"
  by (simp add: way_clear_def)

lemma os_ReadDir_calm:
  "calm k d \<Longrightarrow> way_clear d p \<Longrightarrow> node_at d p = Some Dir \<Longrightarrow> os_ReadDir (fe_io k) p d = (Inr (entries d p), tick d)"
  by (simp add: os_ReadDir_def calm_def find_node_clear)

lemma way_clear_snoc: "way_clear d p \<Longrightarrow> node_at d p = Some Dir \<Longrightarrow> way_clear d (p @ [n])"
  by (auto simp: way_clear_def less_Suc_eq)

lemma way_clear_prefix: "way_clear d (p @ q) \<Longrightarrow> way_clear d p"
  unfolding way_clear_def
proof (intro allI impI)
  fix i assume a: "\<forall>i<length (p @ q). node_at d (take i (p @ q)) = Some Dir" "i < length p"
  then have "node_at d (take i (p @ q)) = Some Dir" by (metis length_append trans_less_add1)
  then show "node_at d (take i p) = Some Dir" using a(2) by simp
qed

lemma json_name: "HasSuffix name ''.json'' \<Longrightarrow> name = take (length name - 5) name @ ''.json''"
proof -
  assume "HasSuffix name ''.json''"
  then obtain t where "rev name = rev ''.json'' @ t" by (auto simp: HasSuffix_def HasPrefix_iff)
  then have "name = rev t @ ''.json''" by (metis rev_append rev_rev_ident)
  then show ?thesis by simp
qed

lemma listed_dbs:
  "org @ ''/'' @ db \<in> set (map (\<lambda>(name, _). org @ ''/'' @ take (length name - 5) name)
     (filter (\<lambda>(name, _). HasSuffix name ''.json'') (entries d (dir @ [org])))) \<longleftrightarrow> node_at d (dir @ [org, db @ ''.json'']) \<noteq> None"
proof -
  have e: "(n, b) \<in> set (entries d (dir @ [org])) \<longleftrightarrow>
      node_at d (dir @ [org, n]) \<noteq> None \<and> b = (node_at d (dir @ [org, n]) = Some Dir)" for n b
    using set_entries [of "dir @ [org]" n b d] by simp
  show ?thesis
  proof
    assume "node_at d (dir @ [org, db @ ''.json'']) \<noteq> None"
    then have "(db @ ''.json'', node_at d (dir @ [org, db @ ''.json'']) = Some Dir) \<in> set (entries d (dir @ [org]))"
      by (simp add: e)
    then show "org @ ''/'' @ db \<in> set (map (\<lambda>(name, _). org @ ''/'' @ take (length name - 5) name)
     (filter (\<lambda>(name, _). HasSuffix name ''.json'') (entries d (dir @ [org]))))"
      by (force simp: image_iff)
  next
    assume "org @ ''/'' @ db \<in> set (map (\<lambda>(name, _). org @ ''/'' @ take (length name - 5) name)
     (filter (\<lambda>(name, _). HasSuffix name ''.json'') (entries d (dir @ [org]))))"
    then obtain name b where n: "(name, b) \<in> set (entries d (dir @ [org]))" "HasSuffix name ''.json''" "db = take (length name - 5) name"
      by auto
    then have "name = db @ ''.json''" using json_name by metis
    then show "node_at d (dir @ [org, db @ ''.json'']) \<noteq> None" using n(1) e by blast
  qed
qed

lemma list_orgs_calm:
  assumes "calm k d" and "way_clear d dir" and "node_at d dir = Some Dir"
    and "\<forall>org. (org, True) \<in> set es \<longrightarrow> node_at d (dir @ [org]) = Some Dir"
  shows "u \<in> set (fst (list_orgs (fe_io k) dir es d)) \<longleftrightarrow>
     (\<exists>org db. (org, True) \<in> set es \<and> u = org @ ''/'' @ db \<and> node_at d (dir @ [org, db @ ''.json'']) \<noteq> None)"
  using assms
proof (induction es arbitrary: d)
  case (Cons x es)
  obtain org b where x: "x = (org, b)" by (cases x)
  show ?case
  proof (cases b)
    case False
    then show ?thesis using Cons x by simp
  next
    case True
    let ?dbs = "map (\<lambda>(name, _). org @ ''/'' @ take (length name - 5) name)
        (filter (\<lambda>(name, _). HasSuffix name ''.json'') (entries d (dir @ [org])))"
    have o: "node_at d (dir @ [org]) = Some Dir" using Cons.prems(4) x True by simp
    have r: "os_ReadDir (fe_io k) (dir @ [org]) d = (Inr (entries d (dir @ [org])), tick d)"
      by (rule os_ReadDir_calm [OF Cons.prems(1) way_clear_snoc [OF Cons.prems(2,3)] o])
    have here: "u \<in> set ?dbs \<longleftrightarrow> (\<exists>db. u = org @ ''/'' @ db \<and> node_at d (dir @ [org, db @ ''.json'']) \<noteq> None)"
    proof -
      have "u \<in> set ?dbs \<Longrightarrow> \<exists>db. u = org @ ''/'' @ db" by auto
      then show ?thesis using listed_dbs [of org _ d dir] by blast
    qed
    have there: "u \<in> set (fst (list_orgs (fe_io k) dir es (tick d))) \<longleftrightarrow>
        (\<exists>org db. (org, True) \<in> set es \<and> u = org @ ''/'' @ db \<and> node_at (tick d) (dir @ [org, db @ ''.json'']) \<noteq> None)"
      using Cons.prems by (intro Cons.IH) (auto simp: calm_tick)
    have "fst (list_orgs (fe_io k) dir (x # es) d) = ?dbs @ fst (list_orgs (fe_io k) dir es (tick d))"
      by (simp add: x True r split: prod.splits)
    then show ?thesis using here there x True by (auto simp del: set_map set_filter)
  qed
qed simp

lemma file_List_calm:
  assumes "calm k d" and "way_clear d dir" and "node_at d dir = Some Dir" and "dir = join_path (fe_config_dir k) [''wastelands'']"
  shows "\<exists>us. fst (file_List k d) = Inr us
     \<and> (\<forall>u. u \<in> set us \<longleftrightarrow> (\<exists>org db. u = org @ ''/'' @ db \<and> node_at d (dir @ [org]) = Some Dir \<and> node_at d (dir @ [org, db @ ''.json'']) \<noteq> None))"
proof -
  have s: "os_Stat (fe_io k) dir d = (Inr Dir, tick d)"
    using assms by (simp add: os_Stat_def calm_def find_node_clear)
  have r: "os_ReadDir (fe_io k) dir (tick d) = (Inr (entries (tick d) dir), tick (tick d))"
    using assms by (intro os_ReadDir_calm) (simp_all add: calm_tick)
  have es: "(org, True) \<in> set (entries d dir) \<longleftrightarrow> node_at d (dir @ [org]) = Some Dir" for org
    using set_entries [of dir org True d] by auto
  let ?out = "list_orgs (fe_io k) dir (entries d dir) (tick (tick d))"
  have "fst (file_List k d) = Inr (fst ?out)"
    using assms(4) s r by (simp add: file_List_def Let_def split: prod.splits)
  moreover have "u \<in> set (fst ?out) \<longleftrightarrow> (\<exists>org db. (org, True) \<in> set (entries d dir) \<and> u = org @ ''/'' @ db \<and>
      node_at (tick (tick d)) (dir @ [org, db @ ''.json'']) \<noteq> None)" for u
    using assms(1-3) es by (intro list_orgs_calm) (auto simp: calm_tick)
  ultimately show ?thesis using es by auto
qed

lemma plain_config_path:
  assumes "plain_part org" and "db \<noteq> []" and "CHR ''/'' \<notin> set db"
  shows "configPath k (org @ ''/'' @ db) = Inr (join_path (fe_config_dir k) [''wastelands''] @ [org, db @ ''.json''])"
proof -
  have "ParseUpstream (org @ ''/'' @ db) = Inr (org, db)"
    using assms Cut_append [of "CHR ''/''" org db] by (simp add: ParseUpstream_def plain_part_def)
  moreover have "db @ ''.json'' \<noteq> ''.''" "db @ ''.json'' \<noteq> ''..''" by (cases db; simp)+
  moreover have "Split (db @ ''.json'') (CHR ''/'') = [db @ ''.json'']" using assms(3) by (intro Split_single) simp
  ultimately show ?thesis
    using assms(1) by (simp add: configPath_def join_path_def Split_single plain_part_def del: Split.simps)
qed

text \<open>
  The wastelands that are listed after a save are exactly those that have a configuration file, under their
  organisation and database, and the one that was saved is among them, if its name has just these two parts.
\<close>

theorem saved_config_listed:
  assumes "file_Save k c d = (None, d')" and "calm k d'" and "fc_Upstream c = org @ ''/'' @ db"
    and "plain_part org" and "db \<noteq> []" and "CHR ''/'' \<notin> set db"
  shows "\<exists>us. fst (file_List k d') = Inr us \<and> fc_Upstream c \<in> set us
     \<and> set us = {o' @ ''/'' @ b | o' b. node_at d' (join_path (fe_config_dir k) [''wastelands''] @ [o']) = Some Dir
           \<and> node_at d' (join_path (fe_config_dir k) [''wastelands''] @ [o', b @ ''.json'']) \<noteq> None}"
proof -
  let ?dir = "join_path (fe_config_dir k) [''wastelands'']" and ?p = "join_path (fe_config_dir k) [''wastelands''] @ [org, db @ ''.json'']"
  have p: "configPath k (fc_Upstream c) = Inr ?p" using plain_config_path assms by simp
  have clear: "way_clear d' ?p" by (rule saved_way_clear [OF assms(1) p])
  have "node_at d' (take i ?p) = Some Dir" if "i < length ?p" for i using clear that unfolding way_clear_def by blast
  from this [of "length ?dir"] this [of "Suc (length ?dir)"]
  have dirs: "node_at d' ?dir = Some Dir" "node_at d' (?dir @ [org]) = Some Dir" by simp_all
  have "way_clear d' ?dir" using clear by (rule way_clear_prefix)
  then obtain us where us: "fst (file_List k d') = Inr us"
    "\<forall>u. u \<in> set us \<longleftrightarrow> (\<exists>o' b. u = o' @ ''/'' @ b \<and> node_at d' (?dir @ [o']) = Some Dir \<and> node_at d' (?dir @ [o', b @ ''.json'']) \<noteq> None)"
    using file_List_calm [OF assms(2) _ dirs(1)] by blast
  have "config_data k c \<noteq> None \<and> file_at d' ?p = config_data k c"
    using file_Save_exact [OF assms(1) configPath_is_config [OF p]] p by simp
  then have "node_at d' ?p \<noteq> None" using file_at_node [of d' ?p] by simp
  then have "fc_Upstream c \<in> set us" using us(2) dirs(2) assms(3) by blast
  then show ?thesis using us by (intro exI [of _ us]) auto
qed

section \<open>A save that works, and one that does not\<close>

text \<open>A directory for configurations with one wasteland in it, and a system on which the call at a step may fail.\<close>

definition example_fed :: "nat option \<Rightarrow> fed_env" where
  "example_fed bad =
     \<lparr>fe_io = \<lparr>io_fault = (\<lambda>n. if bad = Some n then Some (Err ''no space left on device'') else None), io_cut = (\<lambda>n. 3),
               io_name = (\<lambda>n k. ''42'')\<rparr>,
      fe_config_dir = [''c''], fe_data_dir = [''d''],
      fe_time_text = (\<lambda>t. if t = 0 then Some ''1970-01-01T00:00:00Z'' else None),
      fe_parse_time = (\<lambda>t. Some 0)\<rparr>"

definition example_disk :: disk where
  "example_disk =
     \<lparr>dk_nodes = [([''c''], Dir), ([''c'', ''wastelands''], Dir), ([''c'', ''wastelands'', ''hop''], Dir),
                  ([''c'', ''wastelands'', ''hop'', ''wl.json''], File ''old'')],
      dk_step = 0\<rparr>"

definition example_config :: Config where
  "example_config =
     \<lparr>fc_Upstream = ''hop/wl'', fc_ProviderType = ''file'', fc_UpstreamURL = [], fc_ForkOrg = ''ada'', fc_ForkDB = ''wl'',
      fc_LocalDir = ''/d/hop/wl'', fc_RigHandle = ''ada'', fc_HopURI = [], fc_JoinedAt = 0, fc_Mode = ''pr'',
      fc_Backend = ''local'', fc_Signing = True, fc_LastSyncAt = None, fc_GitHubRepo = []\<rparr>"

lemma example_path: "configPath (example_fed bad) ''hop/wl'' = Inr [''c'', ''wastelands'', ''hop'', ''wl.json'']"
proof -
  have "''hop/wl'' = ''hop'' @ ''/'' @ ''wl''" by simp
  moreover have "plain_part ''hop''" by (simp add: plain_part_def)
  moreover have "join_path (fe_config_dir (example_fed bad)) [''wastelands''] = [''c'', ''wastelands'']"
    by (simp add: join_path_def example_fed_def)
  ultimately show ?thesis using plain_config_path [of "''hop''" "''wl''" "example_fed bad"] by simp
qed

lemma example_data: "\<exists>content. config_data (example_fed bad) example_config = Some content"
  by (simp add: config_data_def example_fed_def example_config_def)

lemma example_saves:
  "fst (file_Save (example_fed None) example_config example_disk) = None"
  "fst (file_Save (example_fed (Some (Suc 0))) example_config example_disk) \<noteq> None"
proof -
  obtain c1 where c1: "config_data (example_fed None) example_config = Some c1" using example_data by blast
  obtain c2 where c2: "config_data (example_fed (Some (Suc 0))) example_config = Some c2" using example_data by blast
  have "fc_Upstream example_config = ''hop/wl''" by (simp add: example_config_def)
  note facts = this file_Save_def example_path os_MkdirAll_def example_disk_def node_at_def os_CreateTemp_def find_node_def
    first_name replace_file_def os_Write_def os_Close_def os_Rename_def put_node_def del_node_def tick_def upt_rec
  show "fst (file_Save (example_fed None) example_config example_disk) = None"
    by (simp add: facts c1 example_fed_def [of None, THEN arg_cong [where f = fe_io]])
  show "fst (file_Save (example_fed (Some (Suc 0))) example_config example_disk) \<noteq> None"
    by (simp add: facts c2 example_fed_def [of "Some (Suc 0)", THEN arg_cong [where f = fe_io]])
qed

theorem save_is_all_or_nothing_witness:
  "file_at (snd (file_Save (example_fed (Some (Suc 0))) example_config example_disk)) [''c'', ''wastelands'', ''hop'', ''wl.json''] = Some ''old''
 \<and> file_at (snd (file_Save (example_fed None) example_config example_disk)) [''c'', ''wastelands'', ''hop'', ''wl.json''] =
     config_data (example_fed None) example_config"
proof -
  let ?q = "[''c'', ''wastelands'', ''hop'', ''wl.json'']"
  have u: "fc_Upstream example_config = ''hop/wl''" by (simp add: example_config_def)
  have old: "file_at example_disk ?q = Some ''old''" by (simp add: file_at_def node_at_def example_disk_def)
  have "file_at (snd (file_Save (example_fed (Some (Suc 0))) example_config example_disk)) ?q = file_at example_disk ?q"
    using save_is_all_or_nothing [OF surjective_pairing example_path, of "Some (Suc 0)" example_config example_disk] example_saves(2)
    by (simp only: simp_thms if_False)
  moreover have "file_at (snd (file_Save (example_fed None) example_config example_disk)) ?q = config_data (example_fed None) example_config"
    using save_is_all_or_nothing [OF surjective_pairing example_path, of None example_config example_disk] example_saves(1)
    by (simp only: example_path u simp_thms if_True)
  ultimately show ?thesis using old by simp
qed

lemma example_calm: "calm (example_fed None) d" "times_read_back (example_fed bad)" "config_utf8 example_config"
proof -
  show "calm (example_fed None) d" by (simp add: calm_def example_fed_def)
  have "utf8_ok ''1970-01-01T00:00:00Z''" by code_simp
  then show "times_read_back (example_fed bad)" by (auto simp: times_read_back_def example_fed_def split: if_splits)
  have "list_all utf8_ok [''hop/wl'', ''file'', [], ''ada'', ''wl'', ''/d/hop/wl'', ''ada'', [], ''pr'', ''local'', []]" by code_simp
  then show "config_utf8 example_config" by (simp only: config_utf8_def example_config_def Config.simps)
qed

lemma example_saved: "file_Save (example_fed None) example_config example_disk =
    (None, snd (file_Save (example_fed None) example_config example_disk))"
  using example_saves(1) by (metis prod.collapse)

theorem saved_config_loads_witness:
  "fst (file_Load (example_fed None) ''hop/wl'' (snd (file_Save (example_fed None) example_config example_disk))) = Inr example_config"
proof -
  have "fc_Upstream example_config = ''hop/wl''" by (simp add: example_config_def)
  moreover have "io_fault (fe_io (example_fed None)) n = None" for n by (simp add: example_fed_def)
  ultimately show ?thesis using saved_config_loads [OF example_saved] example_calm(2,3) by metis
qed

theorem saved_config_listed_witness:
  "\<exists>us. fst (file_List (example_fed None) (snd (file_Save (example_fed None) example_config example_disk))) = Inr us \<and> ''hop/wl'' \<in> set us"
proof -
  have "fc_Upstream example_config = ''hop'' @ ''/'' @ ''wl''" by (simp add: example_config_def)
  moreover have "plain_part ''hop''" by (simp add: plain_part_def)
  ultimately show ?thesis
    using saved_config_listed [OF example_saved example_calm(1), of "''hop''" "''wl''"] by (simp only: append.simps) auto
qed

text \<open>
  A name of three parts is saved two directories deep, where no listing looks; one that begins with two dots is
  saved outside the directory of the wastelands.
\<close>

lemma nested_upstream_hidden:
  "configPath (example_fed bad) ''hop/a/b'' = Inr [''c'', ''wastelands'', ''hop'', ''a'', ''b.json'']"
  "configPath (example_fed bad) ''../wl'' = Inr [''c'', ''wl.json'']"
proof -
  have "ParseUpstream ''hop/a/b'' = Inr (''hop'', ''a/b'')" "ParseUpstream ''../wl'' = Inr (''..'', ''wl'')" by code_simp+
  then show "configPath (example_fed bad) ''hop/a/b'' = Inr [''c'', ''wastelands'', ''hop'', ''a'', ''b.json'']"
    "configPath (example_fed bad) ''../wl'' = Inr [''c'', ''wl.json'']"
    by (simp_all add: configPath_def join_path_def example_fed_def)
qed

end
