(* ===== verification/FedFlow.thy ===== *)
theory FedFlow
  imports FedProps
begin

text \<open>
  Joining and creating: what a failure leaves, what a success means, and how often a fork is cloned.
\<close>

section \<open>Until the configuration is saved\<close>

text \<open>
  \<open>P\<close> is kept by the dolt command, the provider, the reading of the store and a save that fails; nothing is assumed of a
  save that succeeds.
\<close>

locale workflow =
  fixes sv :: "'s Service" and P :: "'s \<Rightarrow> bool"
  assumes clone: "P s \<Longrightarrow> P (snd (cli_Clone (fs_CLI sv) url dir s))"
    and init: "P s \<Longrightarrow> P (snd (cli_Init (fs_CLI sv) dir s))"
    and sql: "P s \<Longrightarrow> P (snd (cli_SQLExec (fs_CLI sv) dir query s))"
    and stage: "P s \<Longrightarrow> P (snd (cli_StageAndCommit (fs_CLI sv) dir msg sg s))"
    and add_remote: "P s \<Longrightarrow> P (snd (cli_AddRemote (fs_CLI sv) dir name url s))"
    and register: "P s \<Longrightarrow> P (snd (cli_RegisterRig (fs_CLI sv) dir rig org name mail version sg s))"
    and push: "P s \<Longrightarrow> P (snd (cli_Push (fs_CLI sv) dir s))"
    and push_branch: "P s \<Longrightarrow> P (snd (cli_PushBranch (fs_CLI sv) dir branch force s))"
    and checkout: "P s \<Longrightarrow> P (snd (cli_CheckoutBranch (fs_CLI sv) dir branch s))"
    and checkout_main: "P s \<Longrightarrow> P (snd (cli_CheckoutMain (fs_CLI sv) dir s))"
    and upstream: "P s \<Longrightarrow> P (snd (cli_AddUpstreamRemote (fs_CLI sv) dir url s))"
    and fork: "P s \<Longrightarrow> P (snd (pv_Fork (fs_Remote sv) org db to s))"
    and create_pr: "P s \<Longrightarrow> P (snd (pv_CreatePR (fs_Remote sv) a b name branch title body s))"
    and announce: "fs_OnProgress sv = Some f \<Longrightarrow> P s \<Longrightarrow> P (f step s)"
    and wait: "P s \<Longrightarrow> P (fs_sleep sv ms s)"
    and load: "P s \<Longrightarrow> P (snd (cs_Load (fs_Config sv) up s))"
    and save_failed: "cs_Save (fs_Config sv) c s = (Some err, t) \<Longrightarrow> P s \<Longrightarrow> P t"
begin

lemma kept_progress: "P s \<Longrightarrow> P (progress sv step s)"
  by (auto simp: progress_def intro: announce split: option.splits)

lemma kept_clone_again: "P (snd r) \<Longrightarrow> P (snd (clone_again sv url dir elapsed k r))"
proof (induction "clone_deadline - elapsed" arbitrary: elapsed k r rule: less_induct)
  case less
  obtain err s where r: "r = (err, s)" by (cases r)
  show ?case
  proof (cases "err = None \<or> clone_deadline \<le> elapsed + fs_delay sv s \<or> \<not> not_yet (fs_uni sv) (the err)")
    case True
    then show ?thesis using less.prems by (subst r, subst clone_again.simps) (auto simp: r Let_def split: option.splits)
  next
    case False
    then obtain e where e: "err = Some e" "elapsed + fs_delay sv s < clone_deadline" "not_yet (fs_uni sv) e" by auto
    let ?next = "elapsed + fs_delay sv s + clone_backoff k"
    let ?r = "cli_Clone (fs_CLI sv) url dir (fs_sleep sv (clone_backoff k)
        (progress sv (retry_text k) s))"
    have "P (snd ?r)" using less.prems by (intro clone wait kept_progress) (simp add: r)
    moreover have "clone_deadline - ?next < clone_deadline - elapsed" using e(2) clone_backoff_pos [of k] by simp
    ultimately have "P (snd (clone_again sv url dir ?next (k + 1) ?r))" using less.hyps by blast
    moreover have "clone_again sv url dir elapsed k r = clone_again sv url dir ?next (k + 1) ?r"
      using e by (subst r, subst clone_again.simps) (simp add: Let_def)
    ultimately show ?thesis by simp
  qed
qed

lemma kept_clone: "P s \<Longrightarrow> P (snd (cloneWithRetry sv url dir s))"
  by (simp add: cloneWithRetry_def kept_clone_again clone)

lemma kept_attempt:
  "attempt sv a what f cont s = (Inl err, t) \<Longrightarrow> P s \<Longrightarrow> (\<And>s. P s \<Longrightarrow> P (snd (f s))) \<Longrightarrow>
     (\<And>s. cont s = (Inl err, t) \<Longrightarrow> P s \<Longrightarrow> P t) \<Longrightarrow> P t"
  using kept_progress [of s a]
  by (auto simp: attempt_def split: prod.splits option.splits if_splits) (metis snd_conv)+

lemma kept_save: "save_config sv c s = (Inl err, t) \<Longrightarrow> P s \<Longrightarrow> P t"
  by (auto simp: save_config_def intro: save_failed split: prod.splits option.splits)

lemma kept_finish: "join_finish sv cfg url s = (Inl err, t) \<Longrightarrow> P s \<Longrightarrow> P t"
  by (auto simp: join_finish_def intro: kept_save split: prod.splits sum.splits)

lemma kept_pr: "P s \<Longrightarrow> P (snd (open_pr sv forkOrg org db branch rig name s))"
  using create_pr [OF kept_progress, of s forkOrg org db branch "''Register rig: '' @ rig"
      "Sprintf ''Register rig **%s** (%s) in the commons.'' [FS rig, FS name]" "''Opening pull request...''"]
  by (auto simp: open_pr_def intro: kept_progress split: prod.splits sum.splits)

lemma failed_direct:
  assumes "join_direct sv dir url reg cfg s = (Inl err, t)" and "P s" and "\<And>s. P s \<Longrightarrow> P (snd (reg s))"
  shows "P t"
  using assms(1) unfolding join_direct_def
  by (elim kept_attempt) (assumption | rule assms(2,3) clone push | erule kept_finish)+

lemma failed_fork:
  assumes "join_fork sv dir url org db forkOrg rig name reg cfg s = (Inl err, t)" and "P s" and "\<And>s. P s \<Longrightarrow> P (snd (reg s))"
  shows "P t"
proof -
  have last: "P t" if "(case open_pr sv forkOrg org db branch rig name s1 of (url, s2) \<Rightarrow> join_finish sv cfg url s2) = (Inl err, t)" "P s1"
    for branch s1
    using kept_pr [OF that(2), of forkOrg org db branch rig name] that(1)
    by (auto intro: kept_finish split: prod.splits)
  show ?thesis
    using assms(1) unfolding join_fork_def Let_def
    by (elim kept_attempt)
      (assumption | rule assms(2,3) fork kept_clone upstream checkout push_branch checkout_main | erule last)+
qed

lemma failed_Join:
  assumes "service_Join sv up forkOrg rig name mail version sg direct s = (Inl err, t)" and "P s"
  shows "P t"
proof -
  have reg: "\<And>s. P s \<Longrightarrow> P (snd (cli_RegisterRig (fs_CLI sv) dir rig forkOrg name mail version sg s))" for dir
    by (rule register)
  obtain l s1 where l: "cs_Load (fs_Config sv) up s = (l, s1)" by (rule prod.exhaust)
  then have "P s1" using load [OF assms(2), of up] by simp
  then show ?thesis
    using assms l
    by (auto simp: service_Join_def Let_def split: sum.splits if_splits)
      (erule failed_direct failed_fork, assumption, erule register)+
qed

lemma failed_Create:
  assumes "service_Create sv opts s = (Inl err, t)" and "P s"
  shows "P t"
proof -
  have fin: "create_finish sv opts org db dir url s1 = (Inl err, t) \<Longrightarrow> P s1 \<Longrightarrow> P t" for org db dir url s1
    by (auto simp: create_finish_def elim!: kept_save intro: kept_progress)
  have rest: "(if co_LocalOnly opts then create_finish sv opts org db dir url
      else attempt sv ''Adding origin remote...'' ''adding origin remote: '' (cli_AddRemote (fs_CLI sv) dir ''origin'' url)
        (attempt sv ''Pushing to remote...'' ''pushing: '' (cli_Push (fs_CLI sv) dir) (create_finish sv opts org db dir url))) s1
        = (Inl err, t) \<Longrightarrow> P s1 \<Longrightarrow> P t" for org db dir url s1
    by (cases "co_LocalOnly opts", simp_all add: fin, elim kept_attempt) (assumption | rule add_remote push | erule fin)+
  obtain l s1 where l: "cs_Load (fs_Config sv) (co_Upstream opts) s = (l, s1)" by (rule prod.exhaust)
  then have "P s1" using load [OF assms(2), of "co_Upstream opts"] by simp
  then show ?thesis
    using assms l unfolding service_Create_def Let_def
    by (auto split: sum.splits simp del: if_split elim!: kept_attempt)
      (assumption | rule init sql stage register | erule rest)+
qed

end

section \<open>A success was saved\<close>

lemma attempt_Inr: "attempt sv a what f cont s = (Inr r, t) \<Longrightarrow> \<exists>s1. cont s1 = (Inr r, t)"
  by (auto simp: attempt_def split: prod.splits option.splits if_splits)

lemma save_config_Inr: "save_config sv c s = (Inr c', t) \<Longrightarrow> c' = c \<and> cs_Save (fs_Config sv) c s = (None, t)"
  by (auto simp: save_config_def split: prod.splits option.splits)

lemma join_finish_Inr:
  "join_finish sv (joined_config sv up org db dir rig mail provider url) pr s = (Inr r, t) \<Longrightarrow>
     cs_Save (fs_Config sv) (jr_Config r) s = (None, t) \<and> fc_Upstream (jr_Config r) = up"
  by (auto simp: join_finish_def joined_config_def dest!: save_config_Inr split: prod.splits sum.splits)

lemma joined_saved:
  assumes "service_Join sv up forkOrg rig name mail version sg direct s = (Inr r, t)"
  shows "cs_Load (fs_Config sv) up s = (Inr (jr_Config r), t)
     \<or> (\<exists>s1. cs_Save (fs_Config sv) (jr_Config r) s1 = (None, t) \<and> fc_Upstream (jr_Config r) = up)"
proof -
  obtain l s1 where l: "cs_Load (fs_Config sv) up s = (l, s1)" by (rule prod.exhaust)
  show ?thesis
  proof (cases l)
    case (Inr c)
    then show ?thesis using assms l by (auto simp: service_Join_def split: sum.splits)
  next
    case (Inl e)
    then obtain org db where "(if direct then join_direct sv (LocalCloneDir (fs_env sv) org db) (pv_DatabaseURL (fs_Remote sv) org db)
          (cli_RegisterRig (fs_CLI sv) (LocalCloneDir (fs_env sv) org db) rig forkOrg name mail version sg)
          (joined_config sv up forkOrg db (LocalCloneDir (fs_env sv) org db) rig mail (pv_Type (fs_Remote sv)) (pv_DatabaseURL (fs_Remote sv) org db)) s1
        else join_fork sv (LocalCloneDir (fs_env sv) org db) (pv_DatabaseURL (fs_Remote sv) org db) org db forkOrg rig name
          (cli_RegisterRig (fs_CLI sv) (LocalCloneDir (fs_env sv) org db) rig forkOrg name mail version sg)
          (joined_config sv up forkOrg db (LocalCloneDir (fs_env sv) org db) rig mail (pv_Type (fs_Remote sv)) (pv_DatabaseURL (fs_Remote sv) org db)) s1)
        = (Inr r, t)"
      using assms l by (auto simp: service_Join_def Let_def split: sum.splits)
    then show ?thesis
      by (auto simp: join_direct_def join_fork_def Let_def dest!: attempt_Inr join_finish_Inr split: if_splits prod.splits)
  qed
qed

section \<open>The service over files\<close>

text \<open>
  The state is what dolt and the provider act on, and the disk with the configurations; a clone of dolt is no part of
  the latter.
\<close>

definition beside :: "('w \<Rightarrow> 'a \<times> 'w) \<Rightarrow> 'w \<times> disk \<Rightarrow> 'a \<times> ('w \<times> disk)" where
  "beside f s = (case f (fst s) of (out, w) \<Rightarrow> (out, (w, snd s)))"

definition on_disk :: "(disk \<Rightarrow> 'a \<times> disk) \<Rightarrow> 'w \<times> disk \<Rightarrow> 'a \<times> ('w \<times> disk)" where
  "on_disk f s = (case f (snd s) of (out, d) \<Rightarrow> (out, (fst s, d)))"

lemma beside_disk [simp]: "snd (snd (beside f s)) = snd s"
  by (simp add: beside_def split: prod.splits)

lemma on_disk_parts [simp]: "fst (on_disk f s) = fst (f (snd s))" "snd (snd (on_disk f s)) = snd (f (snd s))"
  by (simp_all add: on_disk_def split: prod.splits)

definition file_sys :: "fed_env \<Rightarrow> 'w sys \<Rightarrow> ('w \<times> disk) cli_sys" where
  "file_sys k y =
     \<lparr>sy_run = (\<lambda>limit dir args. beside (sy_run y limit dir args)),
      sy_query = (\<lambda>i dir args s. sy_query y i dir args (fst s)),
      sy_sleep = (\<lambda>secs s. (sy_sleep y secs (fst s), snd s)),
      sy_temp = (\<lambda>pat. beside (sy_temp y pat)),
      sy_write = (\<lambda>name content. beside (sy_write y name content)),
      sy_remove = (\<lambda>name s. (sy_remove y name (fst s), snd s)),
      sy_uni = sy_uni y,
      cl_mkdir = (\<lambda>p. on_disk (os_MkdirAll (fe_io k) p)),
      cl_exists = (\<lambda>p s. case fst (os_Stat (fe_io k) p (snd s)) of Inr _ \<Rightarrow> True | Inl _ \<Rightarrow> False)\<rparr>"

definition file_store :: "fed_env \<Rightarrow> ('w \<times> disk) ConfigStore" where
  "file_store k =
     \<lparr>cs_Load = (\<lambda>u. on_disk (cs_Load (NewConfigStore k) u)), cs_Save = (\<lambda>c. on_disk (cs_Save (NewConfigStore k) c)),
      cs_Delete = (\<lambda>u. on_disk (cs_Delete (NewConfigStore k) u)), cs_List = on_disk (cs_List (NewConfigStore k))\<rparr>"

definition file_provider :: "'w Provider \<Rightarrow> ('w \<times> disk) Provider" where
  "file_provider pv =
     \<lparr>pv_DatabaseURL = pv_DatabaseURL pv, pv_Fork = (\<lambda>org db to. beside (pv_Fork pv org db to)),
      pv_CreatePR = (\<lambda>a b name branch title body. beside (pv_CreatePR pv a b name branch title body)), pv_Type = pv_Type pv\<rparr>"

definition file_service ::
  "'w Provider \<Rightarrow> 'w sys \<Rightarrow> fed_env \<Rightarrow> ('w \<times> disk \<Rightarrow> int) \<Rightarrow> ('w \<times> disk \<Rightarrow> nat) \<Rightarrow> ('w \<times> disk) Service" where
  "file_service pv y k now delay = NewServiceWith (file_provider pv) (file_sys k y) (file_store k) k now delay"

text \<open>The configurations are the files of a fixed content.\<close>

definition configs_are :: "(path \<Rightarrow> string option) \<Rightarrow> 'w \<times> disk \<Rightarrow> bool" where
  "configs_are X s \<longleftrightarrow> (\<forall>q. is_config q \<longrightarrow> file_at (snd s) q = X q)"

lemma configs_disk: "snd t = snd s \<Longrightarrow> configs_are X s \<Longrightarrow> configs_are X t"
  by (simp add: configs_are_def)

lemma configs_pair: "configs_are X s \<Longrightarrow> configs_are X (w, snd s)"
  by (simp add: configs_are_def)

lemma run_disk [simp]: "snd (snd (run_once (sys.truncate (file_sys k y)) limit dir what args s)) = snd s"
  using beside_disk [of "sy_run y limit dir args" s]
  by (auto simp: run_once_def file_sys_def sys.truncate_def simp del: beside_disk split: prod.splits option.splits)

lemma run_sys [simp]: "snd (snd (sy_run (file_sys k y) limit dir args s)) = snd s"
  by (simp add: file_sys_def)

lemma run_trunc [simp]: "snd (snd (sy_run (sys.truncate (file_sys k y)) limit dir args s)) = snd s"
  by (simp add: file_sys_def sys.truncate_def)

lemma commit_disk [simp]: "snd (snd (commit_once (file_sys k y) explain dir msg sg s)) = snd s"
  using run_sys [of k y 30 "path_text dir" "commit_args sg msg" s]
  by (auto simp: commit_once_def Let_def simp del: run_sys split: prod.splits option.splits)

lemma ensure_disk [simp]: "snd (snd (ensure_remote (sys.truncate (file_sys k y)) dir name url s)) = snd s"
proof -
  obtain e1 o1 s1 where r1: "sy_run (sys.truncate (file_sys k y)) 15 dir [''dolt'', ''remote'', ''-v''] s = ((e1, o1), s1)"
    by (metis prod.collapse)
  obtain e2 o2 s2 where r2: "sy_run (sys.truncate (file_sys k y)) 15 dir [''dolt'', ''remote'', ''add'', name, url] s1 = ((e2, o2), s2)"
    by (metis prod.collapse)
  have "snd s1 = snd s" "snd s2 = snd s1" using run_trunc r1 r2 by (metis snd_conv)+
  then show ?thesis by (simp add: ensure_remote_def r1 r2 split: option.splits)
qed

lemma mkdir_configs: "configs_are X s \<Longrightarrow> configs_are X (snd (cl_mkdir (file_sys k y) p s))"
  by (simp add: configs_are_def file_sys_def os_MkdirAll_def make_dirs_file)

lemma cli_disk:
  "configs_are X s \<Longrightarrow> configs_are X (snd (exec_Clone (file_sys k y) url dir s))"
  "configs_are X s \<Longrightarrow> configs_are X (snd (exec_Init (file_sys k y) dir s))"
  "configs_are X s \<Longrightarrow> configs_are X (snd (exec_StageAndCommit (file_sys k y) dir msg sg s))"
  "configs_are X s \<Longrightarrow> configs_are X (snd (exec_AddRemote (file_sys k y) dir name url s))"
  "configs_are X s \<Longrightarrow> configs_are X (snd (exec_RegisterRig (file_sys k y) dir rig org name mail version sg s))"
  "configs_are X s \<Longrightarrow> configs_are X (snd (exec_CheckoutBranch (file_sys k y) dir branch s))"
proof -
  assume s: "configs_are X s"
  note step = configs_disk [OF run_disk] configs_disk [OF commit_disk] configs_disk [OF run_sys]
  show "configs_are X (snd (exec_Clone (file_sys k y) url dir s))"
    using mkdir_configs [OF s, of k y "butlast dir"]
    by (auto simp: exec_Clone_def intro: step split: prod.splits option.splits)
  show "configs_are X (snd (exec_Init (file_sys k y) dir s))"
    using mkdir_configs [OF s, of k y dir]
    by (auto simp: exec_Init_def intro: step split: prod.splits option.splits)
  show "configs_are X (snd (exec_StageAndCommit (file_sys k y) dir msg sg s))"
    using step(1) [OF s, of k y 30 "path_text dir" "''dolt add''" "[''dolt'', ''add'', ''-A'']"]
    by (auto simp: exec_StageAndCommit_def intro: step split: prod.splits option.splits)
  show "configs_are X (snd (exec_AddRemote (file_sys k y) dir name url s))"
    using step(3) [OF s, of k y 15 "path_text dir" "[''dolt'', ''remote'', ''add'', name, url]"]
    by (auto simp: exec_AddRemote_def split: prod.splits option.splits)
  show "configs_are X (snd (exec_RegisterRig (file_sys k y) dir rig org name mail version sg s))"
  proof -
    obtain r1 s1 where r1: "run_once (sys.truncate (file_sys k y)) 30 (path_text dir) ''inserting rig registration''
        [''dolt'', ''sql'', ''-q'', register_sql rig org name mail version] s = (r1, s1)" by (rule prod.exhaust)
    obtain r2 s2 where r2: "run_once (sys.truncate (file_sys k y)) 30 (path_text dir) ''dolt add'' [''dolt'', ''add'', ''.''] s1 = (r2, s2)"
      by (rule prod.exhaust)
    have "configs_are X s1" using step(1) [OF s] r1 by (metis snd_conv)
    moreover from this have "configs_are X s2" using step(1) r2 by (metis snd_conv)
    ultimately show ?thesis unfolding exec_RegisterRig_def r1 r2 prod.case
      by (cases r1; cases r2) (simp_all add: step(2))
  qed
  show "configs_are X (snd (exec_CheckoutBranch (file_sys k y) dir branch s))"
  proof -
    obtain e1 o1 s1 where r1: "sy_run (file_sys k y) 30 (path_text dir) [''dolt'', ''branch'', branch] s = ((e1, o1), s1)"
      by (metis prod.collapse)
    have "configs_are X s1" using step(3) [OF s] r1 by (metis snd_conv)
    then show ?thesis unfolding exec_CheckoutBranch_def r1 prod.case Let_def
      by (cases e1) (simp_all add: step(1))
  qed
qed

lemma store_Load_disk: "configs_are X s \<Longrightarrow> configs_are X (snd (cs_Load (file_store k) up s))"
proof -
  have "snd (os_ReadFile e p d) = tick d" for e p d by (auto simp: os_ReadFile_def split: option.splits)
  then have "file_at (snd (file_Load k up d)) q = file_at d q" for d q
    by (auto simp: file_Load_def split: sum.splits prod.splits io_error.splits option.splits) (metis snd_conv file_at_tick)+
  then show "configs_are X s \<Longrightarrow> configs_are X (snd (cs_Load (file_store k) up s))"
    by (simp add: configs_are_def file_store_def NewConfigStore_def)
qed

lemma store_Save_disk: "cs_Save (file_store k) c s = (Some err, t) \<Longrightarrow> configs_are X s \<Longrightarrow> configs_are X t"
proof -
  assume a: "cs_Save (file_store k) c s = (Some err, t)" and s: "configs_are X s"
  have "file_Save k c (snd s) = (Some err, snd t)"
    using a by (auto simp: file_store_def NewConfigStore_def on_disk_def split: prod.splits)
  then show "configs_are X t" using s file_Save_exact unfolding configs_are_def by fastforce
qed

interpretation joining: workflow "file_service pv y k now delay" "configs_are X" for pv y k now delay X
  by unfold_locales
    (simp_all add: file_service_def NewServiceWith_def execDoltCLI_def cli_disk store_Load_disk store_Save_disk
      exec_SQLExec_def exec_Push_def exec_PushBranch_def exec_CheckoutMain_def exec_AddUpstreamRemote_def
      file_provider_def file_sys_def [THEN arg_cong [where f = sy_sleep]] configs_disk [OF run_disk] configs_disk [OF ensure_disk]
      configs_disk [OF beside_disk] configs_pair)

section \<open>Joining\<close>

lemma file_Load_again:
  assumes "file_Load k up d = (Inr c, d')" and "io_fault (fe_io k) (dk_step d') = None"
  shows "fst (file_Load k up d') = Inr c"
proof -
  obtain p content where p: "configPath k up = Inr p" "os_ReadFile (fe_io k) p d = (Inr content, d')"
    "Option.bind (struct_members content) (decode_config k zero_time) = Some c"
    using assms(1) by (auto simp: file_Load_def split: sum.splits prod.splits io_error.splits option.splits)
  then have "d' = tick d" "find_node d ''open'' p = Inr (File content)"
    by (auto simp: os_ReadFile_def split: option.splits sum.splits node.splits)
  moreover have "find_node (tick d) op q = find_node d op q" for op q by (simp add: find_node_def)
  ultimately show ?thesis using assms(2) p by (simp add: file_Load_def os_ReadFile_def)
qed

text \<open>
  C18: Joining is all or nothing for the configurations: whatever dolt, the provider and the file system do, when
  it fails every configuration file is what it was, so that it can be tried again; when it succeeds, loading the
  upstream gives the configuration that was reported.
\<close>

theorem join_saves_or_leaves:
  assumes "service_Join (file_service pv y k now delay) up forkOrg rig name mail version sg direct (w, d) = (res, (w', d'))"
    and "io_fault (fe_io k) (dk_step d') = None" and "times_read_back k" and "is_config q"
  shows "case res of
       Inl err \<Rightarrow> file_at d' q = file_at d q
     | Inr r \<Rightarrow> config_utf8 (jr_Config r) \<longrightarrow> fst (file_Load k up d') = Inr (jr_Config r)"
proof (cases res)
  case (Inl err)
  have "configs_are (file_at d) (w, d)" by (simp add: configs_are_def)
  then have "configs_are (file_at d) (w', d')" using joining.failed_Join assms(1) Inl by blast
  then show ?thesis using Inl assms(4) by (simp add: configs_are_def)
next
  case (Inr r)
  let ?sv = "file_service pv y k now delay"
  have st: "fs_Config ?sv = file_store k" by (simp add: file_service_def NewServiceWith_def)
  consider (known) "cs_Load (file_store k) up (w, d) = (Inr (jr_Config r), (w', d'))"
    | (saved) s1 where "cs_Save (file_store k) (jr_Config r) s1 = (None, (w', d'))" "fc_Upstream (jr_Config r) = up"
    using joined_saved [of ?sv up forkOrg rig name mail version sg direct "(w, d)" r "(w', d')"] assms(1) Inr st by auto
  then have "config_utf8 (jr_Config r) \<longrightarrow> fst (file_Load k up d') = Inr (jr_Config r)"
  proof cases
    case known
    then have "file_Load k up d = (Inr (jr_Config r), d')"
      by (auto simp: file_store_def NewConfigStore_def on_disk_def split: prod.splits)
    then show ?thesis using file_Load_again assms(2) by blast
  next
    case saved
    then have "file_Save k (jr_Config r) (snd s1) = (None, d')"
      by (auto simp: file_store_def NewConfigStore_def on_disk_def split: prod.splits)
    then show ?thesis using saved_loads assms(2,3) saved(2) by blast
  qed
  then show ?thesis using Inr by simp
qed

text \<open>The same of creating a wasteland that fails.\<close>

lemma failed_create_leaves:
  assumes "service_Create (file_service pv y k now delay) opts (w, d) = (Inl err, (w', d'))" and "is_config q"
  shows "file_at d' q = file_at d q"
proof -
  have "configs_are (file_at d) (w, d)" by (simp add: configs_are_def)
  then have "configs_are (file_at d) (w', d')" using joining.failed_Create assms(1) by blast
  then show ?thesis using assms(2) by (simp add: configs_are_def)
qed

text \<open>A direct join, whose clone has no upstream remote, is in PR mode, in which a sync fetches upstream.\<close>

lemma direct_join_in_pr_mode:
  assumes "join_direct sv dir url reg (joined_config sv up org db dir rig mail provider url) s = (Inr r, t)"
  shows "ResolveMode (jr_Config r) = ''pr'' \<and> ResolveBackend (jr_Config r) = ''local''"
  using assms
  by (auto simp: join_direct_def join_finish_def joined_config_def ResolveMode_def ResolveBackend_def
      dest!: attempt_Inr save_config_Inr split: prod.splits sum.splits)

section \<open>Cloning a new fork\<close>

definition waited :: "nat \<Rightarrow> nat" where
  "waited k = sum_list (map clone_backoff [0..<k])"

lemma waited_Suc: "waited (Suc k) = waited k + clone_backoff k"
  by (simp add: waited_def)

lemma waited_linear: "waited (k + 3) = 14000 + 16000 * k"
proof (induction k)
  case 0
  show ?case by (simp add: waited_def clone_backoff_def upt_rec)
next
  case (Suc k)
  then show ?case using waited_Suc [of "k + 3"] by (simp add: clone_backoff_def)
qed

lemma waited_bound: "waited k < clone_deadline \<Longrightarrow> k \<le> 9"
  using waited_linear [of "k - 3"] by (cases "k < 3") (auto simp: clone_deadline_def)

lemma clone_again_bounded:
  assumes clone: "\<And>s. n (snd (cli_Clone (fs_CLI sv) url dir s)) = Suc (n s)"
    and sleep: "\<And>ms s. n (fs_sleep sv ms s) = n s" and told: "\<And>step s. n (progress sv step s) = n s"
  shows "waited k \<le> elapsed \<Longrightarrow> n (snd (clone_again sv url dir elapsed k (err, s))) \<le> n s + (10 - k)"
proof (induction "10 - k" arbitrary: k elapsed err s rule: less_induct)
  case less
  show ?case
  proof (cases "err = None \<or> clone_deadline \<le> elapsed + fs_delay sv s \<or> \<not> not_yet (fs_uni sv) (the err)")
    case True
    then show ?thesis by (subst clone_again.simps) (auto simp: Let_def split: option.splits)
  next
    case False
    then obtain e where e: "err = Some e" "elapsed + fs_delay sv s < clone_deadline" "not_yet (fs_uni sv) e" by auto
    then have k: "k \<le> 9" using waited_bound less.prems by simp
    obtain err2 s2 where r: "cli_Clone (fs_CLI sv) url dir (fs_sleep sv (clone_backoff k)
        (progress sv (retry_text k) s)) = (err2, s2)"
      by (rule prod.exhaust)
    have n2: "n s2 = Suc (n s)"
      using clone [of "fs_sleep sv (clone_backoff k)
        (progress sv (retry_text k) s)"]
      by (simp only: r snd_conv sleep told)
    have "n (snd (clone_again sv url dir (elapsed + fs_delay sv s + clone_backoff k) (k + 1) (err2, s2))) \<le> n s2 + (10 - (k + 1))"
      using k less.prems waited_Suc [of k] by (intro less.hyps) auto
    moreover have "clone_again sv url dir elapsed k (err, s) =
        clone_again sv url dir (elapsed + fs_delay sv s + clone_backoff k) (k + 1) (err2, s2)"
      using e by (subst clone_again.simps) (simp add: Let_def r)
    ultimately show ?thesis using k n2 by simp
  qed
qed

text \<open>
  The clone of a fork that does not become available ends: whatever the errors say and however long a clone
  takes, it is tried at most eleven times.
\<close>

theorem clone_attempts_bounded:
  assumes "\<And>s. n (snd (cli_Clone (fs_CLI sv) url dir s)) = Suc (n s)"
    and "\<And>ms s. n (fs_sleep sv ms s) = n s" and "\<And>step s. n (progress sv step s) = n s"
  shows "n (snd (cloneWithRetry sv url dir s)) \<le> n s + 11"
proof -
  obtain err s1 where r: "cli_Clone (fs_CLI sv) url dir s = (err, s1)" by (rule prod.exhaust)
  have "n s1 = Suc (n s)" using assms(1) [of s] r by simp
  moreover have "n (snd (clone_again sv url dir 0 0 (err, s1))) \<le> n s1 + (10 - 0)"
    by (rule clone_again_bounded [OF assms]) (simp add: waited_def)
  ultimately show ?thesis by (simp add: cloneWithRetry_def r)
qed

section \<open>Services in the small\<close>

definition absent_fork :: "nat DoltCLI" where
  "absent_fork =
     \<lparr>cli_Clone = (\<lambda>url dir n. (Some (Err ''repository not found''), Suc n)), cli_Init = (\<lambda>dir n. (None, n)),
      cli_SQLExec = (\<lambda>dir query n. (None, n)), cli_StageAndCommit = (\<lambda>dir msg sg n. (None, n)),
      cli_AddRemote = (\<lambda>dir name url n. (None, n)), cli_RegisterRig = (\<lambda>dir rig org name mail version sg n. (None, n)),
      cli_Push = (\<lambda>dir n. (None, n)), cli_PushBranch = (\<lambda>dir branch force n. (None, n)),
      cli_CheckoutBranch = (\<lambda>dir branch n. (None, n)), cli_CheckoutMain = (\<lambda>dir n. (None, n)),
      cli_AddUpstreamRemote = (\<lambda>dir url n. (None, n))\<rparr>"

definition quiet_provider :: "'w Provider" where
  "quiet_provider =
     \<lparr>pv_DatabaseURL = (\<lambda>org db. org @ ''/'' @ db), pv_Fork = (\<lambda>org db to w. (None, w)),
      pv_CreatePR = (\<lambda>a b name branch title body w. (Inr [], w)), pv_Type = ''file''\<rparr>"

definition absent_service :: "nat Service" where
  "absent_service =
     \<lparr>fs_Remote = quiet_provider, fs_CLI = absent_fork,
      fs_Config = \<lparr>cs_Load = (\<lambda>u n. (Inl (NotJoined not_joined), n)), cs_Save = (\<lambda>c n. (None, n)),
                   cs_Delete = (\<lambda>u n. (None, n)), cs_List = (\<lambda>n. (Inr [], n))\<rparr>,
      fs_OnProgress = None, fs_env = example_fed None, fs_uni = (\<lambda>t. t), fs_now = (\<lambda>n. 0), fs_delay = (\<lambda>n. 0),
      fs_sleep = (\<lambda>ms n. n)\<rparr>"

theorem clone_attempts_bounded_witness: "snd (cloneWithRetry absent_service ''hop/wl'' [''d''] 0) \<le> 11"
  using clone_attempts_bounded [where n = "\<lambda>n. n" and sv = absent_service and url = "''hop/wl''" and dir = "[''d'']" and s = 0]
  by (simp add: absent_service_def absent_fork_def progress_def)

definition quiet_machine :: "unit sys" where
  "quiet_machine =
     \<lparr>sy_run = (\<lambda>limit dir args s. ((None, []), s)), sy_query = (\<lambda>i dir args s. Query_ok []), sy_sleep = (\<lambda>secs s. s),
      sy_temp = (\<lambda>pat s. (Inr ''t'', s)), sy_write = (\<lambda>name content s. (None, s)), sy_remove = (\<lambda>name s. s), sy_uni = (\<lambda>t. t)\<rparr>"

definition example_service :: "nat option \<Rightarrow> (unit \<times> disk) Service" where
  "example_service bad = file_service quiet_provider quiet_machine (example_fed bad) (\<lambda>s. 0) (\<lambda>s. 0)"

text \<open>Who has joined is told so; on a disk that fails nobody joins.\<close>

theorem join_saves_or_leaves_witness:
  "fst (file_Load (example_fed None) ''hop/wl'' (snd (snd (service_Join (example_service None) ''hop/wl'' ''ada'' ''ada'' ''Ada'' ''a@b''
     ''1'' False False ((), snd (file_Save (example_fed None) example_config example_disk)))))) = Inr example_config"
proof -
  let ?d = "snd (file_Save (example_fed None) example_config example_disk)"
  let ?j = "service_Join (example_service None) ''hop/wl'' ''ada'' ''ada'' ''Ada'' ''a@b'' ''1'' False False ((), ?d)"
  have calm: "io_fault (fe_io (example_fed None)) n = None" for n by (simp add: example_fed_def)
  have up: "fc_Upstream example_config = ''hop/wl''" by (simp add: example_config_def)
  have load: "fst (file_Load (example_fed None) ''hop/wl'' ?d) = Inr example_config"
    using saved_loads [OF example_saved calm example_calm(3,2)] up by simp
  have p: "ParseUpstream ''hop/wl'' = Inr (''hop'', ''wl'')" by code_simp
  have "fs_Config (example_service None) = file_store (example_fed None)"
    by (simp add: example_service_def file_service_def NewServiceWith_def)
  then have "fst (cs_Load (fs_Config (example_service None)) ''hop/wl'' ((), ?d)) = Inr example_config"
    using load by (simp add: file_store_def NewConfigStore_def)
  then obtain s1 where "cs_Load (fs_Config (example_service None)) ''hop/wl'' ((), ?d) = (Inr example_config, s1)"
    by (metis prod.collapse)
  then have r: "fst ?j = Inr \<lparr>jr_Config = example_config, jr_PRURL = []\<rparr>"
    by (simp add: service_Join_def p)
  obtain w' d' where j: "?j = (Inr \<lparr>jr_Config = example_config, jr_PRURL = []\<rparr>, (w', d'))"
    using r by (metis prod.collapse)
  have "fst (file_Load (example_fed None) ''hop/wl'' d') = Inr example_config"
    using join_saves_or_leaves [OF j [unfolded example_service_def] calm example_calm(2) configPath_is_config [OF example_path]]
      example_calm(3) by simp
  then show ?thesis by (simp only: j snd_conv)
qed

end
