(* ===== verification/Providers.thy ===== *)
theory Providers
  imports FedJoin
begin

text \<open>
  The providers of databases that need no HTTP: files, bare git repositories and GitHub
  (\<^verbatim>\<open>internal/remote/file.go\<close>, \<^verbatim>\<open>git.go\<close>, \<^verbatim>\<open>github.go\<close>).
\<close>

section \<open>Directories\<close>

record 's dir_sys = "'s cli_sys" +
  ds_isdir :: "path \<Rightarrow> 's \<Rightarrow> bool"
  ds_tempdir :: "string \<Rightarrow> 's \<Rightarrow> (io_error + path) \<times> 's"
  ds_removeall :: "path \<Rightarrow> 's \<Rightarrow> 's"

text \<open>A process without a limit, in a directory.\<close>

definition run_plain :: "'s dir_sys \<Rightarrow> string \<Rightarrow> string \<Rightarrow> string list \<Rightarrow> 's \<Rightarrow> go_error option \<times> 's" where
  "run_plain y dir what args s = run_once (sys.truncate y) 0 dir what args s"

text \<open>Steps, of which the first that fails ends the run.\<close>

fun in_order :: "('s \<Rightarrow> go_error option \<times> 's) list \<Rightarrow> 's \<Rightarrow> go_error option \<times> 's" where
  "in_order [] s = (None, s)"
| "in_order (f # fs) s = (case f s of (Some err, s1) \<Rightarrow> (Some err, s1) | (None, s1) \<Rightarrow> in_order fs s1)"

text \<open>With a temporary directory that is gone afterwards.\<close>

definition with_tempdir ::
  "'s dir_sys \<Rightarrow> string \<Rightarrow> string \<Rightarrow> (path \<Rightarrow> 's \<Rightarrow> go_error option \<times> 's) \<Rightarrow> 's \<Rightarrow> go_error option \<times> 's" where
  "with_tempdir y pat what f s =
     (case ds_tempdir y pat s of
        (Inl err, s1) \<Rightarrow> (Some (Wrap what (io_go err)), s1)
      | (Inr tmp, s1) \<Rightarrow> (case f tmp s1 of (res, s2) \<Rightarrow> (res, ds_removeall y tmp s2)))"

definition make_dir :: "'s dir_sys \<Rightarrow> string \<Rightarrow> path \<Rightarrow> 's \<Rightarrow> go_error option \<times> 's" where
  "make_dir y what p s =
     (case cl_mkdir y p s of (Some err, s1) \<Rightarrow> (Some (Wrap what (io_go err)), s1) | (None, s1) \<Rightarrow> (None, s1))"

section \<open>Files\<close>

definition file_DatabaseURL :: "path \<Rightarrow> string \<Rightarrow> string \<Rightarrow> string" where
  "file_DatabaseURL base org db = ''file://'' @ path_text (join_path base [org, db])"

definition file_Fork :: "'s dir_sys \<Rightarrow> path \<Rightarrow> string \<Rightarrow> string \<Rightarrow> string \<Rightarrow> 's \<Rightarrow> go_error option \<times> 's" where
  "file_Fork y base fromOrg fromDB toOrg s =
     (let dest = join_path base [toOrg, fromDB]
      in if ds_isdir y dest s then (None, s)
         else with_tempdir y ''dolt-fork-*'' ''creating temp dir for fork: ''
                (\<lambda>tmp. let work = path_text (tmp @ [''work'']) in in_order
                   [run_plain y [] ''cloning source for fork'' [''dolt'', ''clone'', file_DatabaseURL base fromOrg fromDB, work],
                    make_dir y ''creating fork remote store: '' dest,
                    run_plain y work ''adding fork dest remote''
                      [''dolt'', ''remote'', ''add'', ''fork-dest'', file_DatabaseURL base toOrg fromDB],
                    run_plain y work ''pushing to fork dest'' [''dolt'', ''push'', ''fork-dest'', ''main'']]) s)"

definition no_pr :: "string \<Rightarrow> string \<Rightarrow> string \<Rightarrow> string \<Rightarrow> string \<Rightarrow> string \<Rightarrow> 's \<Rightarrow> (go_error + string) \<times> 's" where
  "no_pr a b db branch title body s = (Inr [], s)"

definition FileProvider :: "'s dir_sys \<Rightarrow> path \<Rightarrow> 's Provider" where
  "FileProvider y base =
     \<lparr>pv_DatabaseURL = file_DatabaseURL base, pv_Fork = file_Fork y base, pv_CreatePR = no_pr, pv_Type = ''file''\<rparr>"

section \<open>Bare repositories\<close>

definition git_DatabaseURL :: "path \<Rightarrow> string \<Rightarrow> string \<Rightarrow> string" where
  "git_DatabaseURL base org db = ''file://'' @ path_text (join_path base [org, db @ ''.git''])"

definition seedBareGitRepo :: "'s dir_sys \<Rightarrow> path \<Rightarrow> 's \<Rightarrow> go_error option \<times> 's" where
  "seedBareGitRepo y bare s =
     with_tempdir y ''git-seed-*'' ''creating temp dir: ''
       (\<lambda>tmp. let t = path_text tmp in in_order
          [run_plain y [] ''git init'' [''git'', ''init'', ''-b'', ''main'', t],
           run_plain y [] ''git commit''
             [''git'', ''-C'', t, ''-c'', ''user.name=init'', ''-c'', ''user.email=init@init'', ''commit'', ''--allow-empty'', ''-m'', ''init''],
           run_plain y [] ''git push'' [''git'', ''-C'', t, ''push'', ''file://'' @ path_text bare, ''main'']]) s"

definition seed_step :: "'s dir_sys \<Rightarrow> path \<Rightarrow> 's \<Rightarrow> go_error option \<times> 's" where
  "seed_step y bare s = (case seedBareGitRepo y bare s of (Some err, s1) \<Rightarrow> (Some (Wrap ''seeding bare repo: '' err), s1) | (None, s1) \<Rightarrow> (None, s1))"

definition git_Fork :: "'s dir_sys \<Rightarrow> path \<Rightarrow> string \<Rightarrow> string \<Rightarrow> string \<Rightarrow> 's \<Rightarrow> go_error option \<times> 's" where
  "git_Fork y base fromOrg fromDB toOrg s =
     (let dest = join_path base [toOrg, fromDB @ ''.git'']
      in if ds_isdir y dest s then (None, s)
         else with_tempdir y ''dolt-git-fork-*'' ''creating temp dir for fork: ''
                (\<lambda>tmp. let work = path_text (tmp @ [''work'']) in in_order
                   [run_plain y [] ''cloning source for fork'' [''dolt'', ''clone'', git_DatabaseURL base fromOrg fromDB, work],
                    make_dir y ''creating fork git repo dir: '' dest,
                    run_plain y [] (''git init --bare '' @ path_text dest) [''git'', ''init'', ''--bare'', path_text dest],
                    seed_step y dest,
                    run_plain y work ''adding fork dest remote''
                      [''dolt'', ''remote'', ''add'', ''fork-dest'', git_DatabaseURL base toOrg fromDB],
                    run_plain y work ''pushing to fork dest'' [''dolt'', ''push'', ''fork-dest'', ''main'']]) s)"

definition GitProvider :: "'s dir_sys \<Rightarrow> path \<Rightarrow> 's Provider" where
  "GitProvider y base =
     \<lparr>pv_DatabaseURL = git_DatabaseURL base, pv_Fork = git_Fork y base, pv_CreatePR = no_pr, pv_Type = ''git''\<rparr>"

section \<open>GitHub\<close>

definition github_DatabaseURL :: "string \<Rightarrow> string \<Rightarrow> string" where
  "github_DatabaseURL org db = Sprintf ''https://github.com/%s/%s.git'' [FS org, FS db]"

definition github_Fork :: "'s dir_sys \<Rightarrow> string \<Rightarrow> string \<Rightarrow> string \<Rightarrow> 's \<Rightarrow> go_error option \<times> 's" where
  "github_Fork y fromOrg fromDB toOrg s =
     (let repo = fromOrg @ ''/'' @ fromDB
      in case sy_run y 0 [] [''gh'', ''repo'', ''fork'', repo, ''--org'', toOrg, ''--clone=false''] s of
           ((None, output), s1) \<Rightarrow> (None, s1)
         | ((Some err, output), s1) \<Rightarrow>
             if Contains (ToLower (sy_uni y) (TrimSpace output)) ''already exists'' then (None, s1)
             else (Some (process_error (Sprintf ''gh repo fork %s --org %s'' [FS repo, FS toOrg]) err output), s1))"

text \<open>The first line of the output that is an address.\<close>

definition first_url :: "string \<Rightarrow> string" where
  "first_url msg =
     (case find (\<lambda>line. HasPrefix line ''https://'') (map TrimSpace (Split msg nl_ch)) of Some line \<Rightarrow> line | None \<Rightarrow> [])"

definition github_CreatePR ::
  "'s dir_sys \<Rightarrow> string \<Rightarrow> string \<Rightarrow> string \<Rightarrow> string \<Rightarrow> string \<Rightarrow> string \<Rightarrow> 's \<Rightarrow> (go_error + string) \<times> 's" where
  "github_CreatePR y forkOrg upstreamOrg db fromBranch title body s =
     (case sy_run y 0 [] [''gh'', ''pr'', ''create'', ''--repo'', upstreamOrg @ ''/'' @ db, ''--head'', forkOrg @ '':'' @ fromBranch,
             ''--base'', ''main'', ''--title'', title, ''--body'', body] s of
        ((None, output), s1) \<Rightarrow> (Inr (TrimSpace output), s1)
      | ((Some err, output), s1) \<Rightarrow>
          if Contains (ToLower (sy_uni y) (TrimSpace output)) ''already exists'' then (Inr (first_url (TrimSpace output)), s1)
          else (Inl (process_error ''gh pr create'' err output), s1))"

definition GitHubProvider :: "'s dir_sys \<Rightarrow> 's Provider" where
  "GitHubProvider y =
     \<lparr>pv_DatabaseURL = github_DatabaseURL, pv_Fork = github_Fork y, pv_CreatePR = github_CreatePR y, pv_Type = ''github''\<rparr>"

section \<open>A fork that failed half-way\<close>

lemma in_order_append:
  "in_order (fs @ gs) s = (case in_order fs s of (Some err, s1) \<Rightarrow> (Some err, s1) | (None, s1) \<Rightarrow> in_order gs s1)"
  by (induction fs arbitrary: s) (auto split: prod.splits option.splits)

text \<open>
  The directory of a fork that could not be filled stays, and is what the next attempt takes for the fork: if the clone and
  the directory are made and any step after that fails, the next fork reports success and does nothing.
\<close>

lemma failed_fork_looks_done:
  assumes "ds_tempdir y ''dolt-fork-*'' s = (Inr tmp, s1)" and "\<not> ds_isdir y (join_path base [toOrg, db]) s"
    and "run_plain y [] ''cloning source for fork''
           [''dolt'', ''clone'', file_DatabaseURL base fromOrg db, path_text (tmp @ [''work''])] s1 = (None, s2)"
    and "cl_mkdir y (join_path base [toOrg, db]) s2 = (None, s3)"
    and kept: "\<And>s t. ds_isdir y (join_path base [toOrg, db]) s \<Longrightarrow> ds_isdir y (join_path base [toOrg, db]) (ds_removeall y tmp s)"
      "\<And>dir what args s. ds_isdir y (join_path base [toOrg, db]) s \<Longrightarrow> ds_isdir y (join_path base [toOrg, db]) (snd (run_plain y dir what args s))"
    and "ds_isdir y (join_path base [toOrg, db]) s3"
    and "file_Fork y base fromOrg db toOrg s = (Some err, t)"
  shows "file_Fork y base fromOrg db toOrg t = (None, t)"
proof -
  let ?rest = "[run_plain y (path_text (tmp @ [''work''])) ''adding fork dest remote''
        [''dolt'', ''remote'', ''add'', ''fork-dest'', file_DatabaseURL base toOrg db],
      run_plain y (path_text (tmp @ [''work''])) ''pushing to fork dest'' [''dolt'', ''push'', ''fork-dest'', ''main'']]"
  have "t = ds_removeall y tmp (snd (in_order ?rest s3))"
    using assms(8) by (auto simp: file_Fork_def Let_def assms(1-4) with_tempdir_def make_dir_def split: prod.splits)
  moreover have "ds_isdir y (join_path base [toOrg, db]) (snd (in_order ?rest s3))"
    using kept(2) [OF assms(7)] kept(2) by (auto split: prod.splits option.splits) (metis snd_conv)+
  ultimately have "ds_isdir y (join_path base [toOrg, db]) t" using kept(1) by simp
  then show ?thesis by (simp add: file_Fork_def Let_def)
qed

end
