(* ===== verification/HandleCache.thy ===== *)
theory HandleCache
  imports FedConfig Sdk Remote
begin

text \<open>
  \<^verbatim>\<open>internal/githubcache\<close>: the file that maps rig handles to GitHub names, as a map that every call reads
  from the disk again, and the look-up of a pull request's author.  Also \<^verbatim>\<open>internal/xdg\<close>, the directories
  for configuration and data.  Logs are left out; the mutex makes \<^verbatim>\<open>Put\<close> one step.
\<close>

section \<open>Directories\<close>

text \<open>The environment, the home directory if there is one, and the directory for temporary files.\<close>

record xdg_env =
  xe_env :: "string \<Rightarrow> string"
  xe_home :: "string option"
  xe_temp :: string

definition file_path :: "string list \<Rightarrow> string" where
  "file_path elems = path_text (join_path [] elems)"

definition ConfigHome :: "xdg_env \<Rightarrow> string" where
  "ConfigHome k =
     (if xe_env k ''XDG_CONFIG_HOME'' \<noteq> [] then xe_env k ''XDG_CONFIG_HOME''
      else case xe_home k of
        None \<Rightarrow> file_path [xe_temp k, ''wasteland'']
      | Some home \<Rightarrow> file_path [home, ''.config''])"

definition DataHome :: "xdg_env \<Rightarrow> string" where
  "DataHome k =
     (if xe_env k ''XDG_DATA_HOME'' \<noteq> [] then xe_env k ''XDG_DATA_HOME''
      else case xe_home k of
        None \<Rightarrow> file_path [xe_temp k, ''wasteland-data'']
      | Some home \<Rightarrow> file_path [home, ''.local'', ''share''])"

definition ConfigDir :: "xdg_env \<Rightarrow> path" where
  "ConfigDir k = join_path [] [ConfigHome k, ''wasteland'']"

definition DataDir :: "xdg_env \<Rightarrow> path" where
  "DataDir k = join_path [] [DataHome k, ''wasteland'']"

definition DefaultPath :: "xdg_env \<Rightarrow> path" where
  "DefaultPath k = join_path [] [DataHome k, ''wasteland'', ''github-handles.json'']"

section \<open>The text of the map\<close>

type_synonym handle_map = "(string \<times> cache_entry) list"

definition cache_entry_members :: "cache_entry \<Rightarrow> (string \<times> json) list" where
  "cache_entry_members e =
     str_mem ''github'' (ce_GitHub e) @ opt_str ''source_pr'' (ce_SourcePR e) @ opt_str ''resolved_at'' (ce_ResolvedAt e)"

text \<open>A map is printed in the order of its keys.\<close>

definition handles_text :: "handle_map \<Rightarrow> string" where
  "handles_text m = indent_text 0 (JObj (map (\<lambda>(h, e). (h, JObj (cache_entry_members e))) (sort_key fst m))) @ [nl_ch]"

definition decode_cache_entry :: "json \<Rightarrow> cache_entry option" where
  "decode_cache_entry j =
     (case j of
        JNull \<Rightarrow> Some \<lparr>ce_GitHub = [], ce_SourcePR = [], ce_ResolvedAt = []\<rparr>
      | JObj ms \<Rightarrow>
          if list_all (\<lambda>n. snd (str_field n ms)) [''github'', ''source_pr'', ''resolved_at'']
          then Some \<lparr>ce_GitHub = fst (str_field ''github'' ms), ce_SourcePR = fst (str_field ''source_pr'' ms),
                     ce_ResolvedAt = fst (str_field ''resolved_at'' ms)\<rparr>
          else None
      | _ \<Rightarrow> None)"

text \<open>The last of equal keys counts; a null map is empty.\<close>

definition decode_handles :: "json \<Rightarrow> handle_map option" where
  "decode_handles j =
     (case j of
        JNull \<Rightarrow> Some []
      | JObj ms \<Rightarrow>
          map_option (\<lambda>kes. fold (\<lambda>(h, e). AList.update h e) kes [])
            (those (map (\<lambda>(h, v). map_option (Pair h) (decode_cache_entry v)) ms))
      | _ \<Rightarrow> None)"

section \<open>The cache\<close>

record handle_file =
  hf_io :: io
  hf_path :: path

definition parse_handles :: "string \<Rightarrow> handle_map option" where
  "parse_handles content = (if content = [] then Some [] else Option.bind (json_parse content) decode_handles)"

definition handles_readAll :: "handle_file \<Rightarrow> disk \<Rightarrow> (handle_map \<times> go_error option) \<times> disk" where
  "handles_readAll f d =
     (case os_ReadFile (hf_io f) (hf_path f) d of
        (Inl (Absent _), d1) \<Rightarrow> (([], None), d1)
      | (Inl (Failed err), d1) \<Rightarrow> (([], Some (Wrap ''reading cache: '' err)), d1)
      | (Inr content, d1) \<Rightarrow>
          (case parse_handles content of
             None \<Rightarrow> (([], Some (Err ''parsing cache: '')), d1)
           | Some m \<Rightarrow> ((m, None), d1)))"

text \<open>The probing read when the cache is opened changes nothing.\<close>

definition loadFromPath :: "io \<Rightarrow> path \<Rightarrow> disk \<Rightarrow> handle_file \<times> disk" where
  "loadFromPath e p d = (let f = \<lparr>hf_io = e, hf_path = p\<rparr> in (f, snd (handles_readAll f d)))"

definition loadDefault :: "xdg_env \<Rightarrow> io \<Rightarrow> disk \<Rightarrow> handle_file \<times> disk" where
  "loadDefault k e d = loadFromPath e (DefaultPath k) d"

definition handles_Get :: "handle_file \<Rightarrow> string \<Rightarrow> disk \<Rightarrow> cache_entry option \<times> disk" where
  "handles_Get f h d = (case handles_readAll f d of ((m, _), d1) \<Rightarrow> (map_of m h, d1))"

definition handles_All :: "handle_file \<Rightarrow> disk \<Rightarrow> handle_map \<times> disk" where
  "handles_All f d = (case handles_readAll f d of ((m, _), d1) \<Rightarrow> (m, d1))"

definition handles_persist :: "handle_file \<Rightarrow> handle_map \<Rightarrow> disk \<Rightarrow> go_error option \<times> disk" where
  "handles_persist f m d =
     (case os_MkdirAll (hf_io f) (butlast (hf_path f)) d of
        (Some err, d1) \<Rightarrow> (Some (Wrap ''creating cache directory: '' (io_go err)), d1)
      | (None, d1) \<Rightarrow>
          (case os_CreateTemp (hf_io f) (butlast (hf_path f)) ''.github-handles-'' ''.tmp'' d1 of
             (Inl err, d2) \<Rightarrow> (Some (Wrap ''creating temp file: '' (io_go err)), d2)
           | (Inr tmp, d2) \<Rightarrow> replace_file (hf_io f) ''cache'' tmp (hf_path f) (handles_text m) d2))"

definition handles_Put :: "handle_file \<Rightarrow> string \<Rightarrow> cache_entry \<Rightarrow> disk \<Rightarrow> go_error option \<times> disk" where
  "handles_Put f h e d =
     (case handles_readAll f d of
        ((_, Some err), d1) \<Rightarrow>
          (Some (Wrap (''refusing to overwrite corrupt cache at '' @ path_text (hf_path f) @ '': '') err), d1)
      | ((m, None), d1) \<Rightarrow> handles_persist f (AList.update h e m) d1)"

section \<open>The author of a pull request\<close>

text \<open>\<^verbatim>\<open>githubPRRegex\<close>: the owner, the repository and the number.\<close>

definition pr_url_parts :: "string \<Rightarrow> (string \<times> string \<times> string) option" where
  "pr_url_parts s =
     (let after = (if HasPrefix s ''https://github.com/'' then Some (TrimPrefix s ''https://github.com/'')
                   else if HasPrefix s ''http://github.com/'' then Some (TrimPrefix s ''http://github.com/'')
                   else None)
      in case after of
           None \<Rightarrow> None
         | Some r \<Rightarrow>
             (let (owner, r1) = url_seg r;
                  (repo, r2) = url_seg (tl r1);
                  r3 = TrimPrefix r2 ''/pull/'';
                  number = takeWhile is_digit r3;
                  rest = dropWhile is_digit r3
              in if owner \<noteq> [] \<and> HasPrefix r1 ''/'' \<and> repo \<noteq> [] \<and> HasPrefix r2 ''/pull/'' \<and> number \<noteq> [] \<and>
                    (rest = [] \<or> hd rest \<in> set ''/?#'')
                 then Some (owner, repo, number) else None))"

text \<open>The member \<^verbatim>\<open>user.login\<close>.\<close>

definition decode_login :: "string \<Rightarrow> string option" where
  "decode_login body =
     (case struct_members body of
        None \<Rightarrow> None
      | Some ms \<Rightarrow>
          (case obj_field ''user'' ms of (user, ok) \<Rightarrow>
             if ok \<and> snd (str_field ''login'' user) then Some (fst (str_field ''login'' user)) else None))"

definition body_limit :: nat where
  "body_limit = 1048576"

definition ResolvePRAuthor :: "'s net \<Rightarrow> string \<Rightarrow> string \<Rightarrow> 's \<Rightarrow> (go_error + string) \<times> 's" where
  "ResolvePRAuthor n baseURL prURL s =
     (let token = nt_env n ''GITHUB_TOKEN''
      in if token = [] then (Inl (Err ''GITHUB_TOKEN not set''), s)
         else (case pr_url_parts prURL of
                 None \<Rightarrow> (Inl (Err (''not a GitHub PR URL: '' @ prURL)), s)
               | Some (owner, repo, number) \<Rightarrow>
                   let apiURL = baseURL @ ''/repos/'' @ PathEscape owner @ ''/'' @ PathEscape repo @ ''/pulls/'' @ number
                   in case nt_url_error n apiURL of
                        Some err \<Rightarrow> (Inl (Wrap ''building request: '' err), s)
                      | None \<Rightarrow>
                          (case nt_do n \<lparr>ho_method = ''GET'', ho_url = apiURL,
                                  ho_headers = [(''Authorization'', [''Bearer '' @ token]), (''Accept'', [''application/vnd.github+json'']),
                                    (''X-Github-Api-Version'', [''2022-11-28'']), (''User-Agent'', [''wasteland-github-cache/1''])],
                                  ho_body = []\<rparr> s of
                             (Inl err, s1) \<Rightarrow> (Inl (Wrap ''calling GitHub API: '' err), s1)
                           | (Inr (code, Inl err), s1) \<Rightarrow> (Inl (Wrap ''reading GitHub API response: '' err), s1)
                           | (Inr (code, Inr whole), s1) \<Rightarrow>
                               let body = take body_limit whole
                               in if code < 200 \<or> 300 \<le> code
                                  then (Inl (Err (Sprintf ''github API %d: %s'' [FD code, FS (take 200 body)])), s1)
                                  else (case decode_login body of
                                          None \<Rightarrow> (Inl (Err (''parsing GitHub API response: '' @ nt_json_error n body)), s1)
                                        | Some [] \<Rightarrow> (Inl (Err ''response missing user.login''), s1)
                                        | Some login \<Rightarrow> (Inr login, s1)))))"

section \<open>The text reads back\<close>

lemma pr_url_parts_is_pr_url: "pr_url_parts s \<noteq> None \<longleftrightarrow> is_pr_url s"
  unfolding pr_url_parts_def is_pr_url_def Let_def by (simp split: option.splits prod.splits)

definition handles_utf8 :: "handle_map \<Rightarrow> bool" where
  "handles_utf8 m \<longleftrightarrow>
     list_all (\<lambda>(h, e). utf8_ok h \<and> utf8_ok (ce_GitHub e) \<and> utf8_ok (ce_SourcePR e) \<and> utf8_ok (ce_ResolvedAt e)) m"

lemma entry_names:
  "valid_text ''github'' = ''github''" "valid_text ''source_pr'' = ''source_pr''" "valid_text ''resolved_at'' = ''resolved_at''"
  by code_simp+

lemma entry_fold_eq:
  "fold_eq ''github'' ''github''" "fold_eq ''source_pr'' ''source_pr''" "fold_eq ''resolved_at'' ''resolved_at''"
  "\<not> fold_eq ''github'' ''source_pr''" "\<not> fold_eq ''github'' ''resolved_at''" "\<not> fold_eq ''source_pr'' ''github''"
  "\<not> fold_eq ''source_pr'' ''resolved_at''" "\<not> fold_eq ''resolved_at'' ''github''" "\<not> fold_eq ''resolved_at'' ''source_pr''"
  by code_simp+

lemma entry_back: "decode_cache_entry (JObj (cache_entry_members e)) = Some e"
proof -
  have "str_field ''github'' (cache_entry_members e) = (ce_GitHub e, True)"
    "str_field ''source_pr'' (cache_entry_members e) = (ce_SourcePR e, True)"
    "str_field ''resolved_at'' (cache_entry_members e) = (ce_ResolvedAt e, True)"
    by (simp_all add: str_field_def cache_entry_members_def fold_append fold_members entry_fold_eq)
  then show ?thesis by (simp add: decode_cache_entry_def)
qed

lemma entry_members_ok:
  assumes "utf8_ok (ce_GitHub e)" and "utf8_ok (ce_SourcePR e)" and "utf8_ok (ce_ResolvedAt e)"
  shows "valid_json (JObj (cache_entry_members e)) = JObj (cache_entry_members e) \<and> nums_ok (JObj (cache_entry_members e))"
proof -
  have "list_all member_ok (cache_entry_members e)"
    using assms by (simp add: cache_entry_members_def members_ok entry_names)
  then show ?thesis by (auto simp: member_ok_def list_all_iff split_beta map_idI)
qed

lemma updates_map: "map_of (fold (\<lambda>(h, e). AList.update h e) kes acc) = map_of acc ++ map_of (rev kes)"
  by (induction kes arbitrary: acc) (auto simp: update_conv' map_add_def fun_eq_iff split: option.splits)

lemma updates_distinct: "distinct (map fst acc) \<Longrightarrow> distinct (map fst (fold (\<lambda>(h, e). AList.update h e) kes acc))"
  by (induction kes arbitrary: acc) (auto simp: distinct_update)

lemma parse_handles_distinct: "parse_handles content = Some m \<Longrightarrow> distinct (map fst m)"
  by (auto simp: parse_handles_def decode_handles_def updates_distinct split: if_splits json.splits Option.bind_splits)

lemma handles_back:
  assumes "distinct (map fst m)" and "handles_utf8 m"
  shows "\<exists>m'. parse_handles (handles_text m) = Some m' \<and> map_of m' = map_of m"
proof -
  let ?ks = "sort_key fst m"
  let ?ms = "map (\<lambda>(h, e). (h, JObj (cache_entry_members e))) ?ks"
  have ok: "valid_text h = h" "valid_json (JObj (cache_entry_members e)) = JObj (cache_entry_members e)"
      "nums_ok (JObj (cache_entry_members e))" if "(h, e) \<in> set m" for h e
  proof -
    have "utf8_ok h" "utf8_ok (ce_GitHub e)" "utf8_ok (ce_SourcePR e)" "utf8_ok (ce_ResolvedAt e)"
      using assms(2) that by (auto simp: handles_utf8_def list_all_iff)
    then show "valid_text h = h" "valid_json (JObj (cache_entry_members e)) = JObj (cache_entry_members e)"
      "nums_ok (JObj (cache_entry_members e))" using entry_members_ok [of e] by (simp_all only: valid_text_utf8 simp_thms)
  qed
  define g where "g e = JObj (cache_entry_members e)" for e
  have "nums_ok (JObj (map (\<lambda>(h, e). (h, g e)) ?ks))" "valid_json (JObj (map (\<lambda>(h, e). (h, g e)) ?ks)) = JObj (map (\<lambda>(h, e). (h, g e)) ?ks)"
    using ok unfolding g_def [symmetric] by (auto simp: list_all_iff)
  then have "nums_ok (JObj ?ms)" "valid_json (JObj ?ms) = JObj ?ms" by (simp_all only: g_def)
  then have parse: "json_parse (handles_text m) = Some (JObj ?ms)"
    using indent_back [of "JObj ?ms" "[nl_ch]"] by (simp add: handles_text_def json_space_def del: indent_text.simps)
  have those: "those (map (\<lambda>(h, v). map_option (Pair h) (decode_cache_entry v)) (map (\<lambda>(h, e). (h, JObj (cache_entry_members e))) ks)) = Some ks" for ks
    by (induction ks) (auto simp: entry_back)
  have "handles_text m \<noteq> []" by (simp add: handles_text_def)
  then have "parse_handles (handles_text m) = Some (fold (\<lambda>(h, e). AList.update h e) ?ks [])"
    by (simp only: parse_handles_def decode_handles_def if_False bind.bind_lunit json.case option.map parse those)
  moreover have "map_of (fold (\<lambda>(h, e). AList.update h e) ?ks []) = map_of m"
  proof -
    have "distinct (map fst (rev ?ks))" using assms(1) by (simp add: distinct_map rev_map [symmetric])
    then have "map_of (rev ?ks) = map_of m" using assms(1) by (simp add: map_of_inject_set)
    then show ?thesis by (simp add: updates_map)
  qed
  ultimately show ?thesis by blast
qed

section \<open>Writing\<close>

text \<open>The map that a file holds; none if the text cannot be read.\<close>

definition handles_at :: "handle_file \<Rightarrow> disk \<Rightarrow> handle_map option" where
  "handles_at f d = (case file_at d (hf_path f) of None \<Rightarrow> Some [] | Some content \<Rightarrow> parse_handles content)"

lemma find_node_Absent: "find_node d what p = Inl (Absent err) \<Longrightarrow> node_at d p = None"
  by (simp add: find_node_def split: if_splits option.splits)

lemma os_ReadFile_result:
  assumes "os_ReadFile e p d = (r, d')"
  shows "file_at d' q = file_at d q"
    and "r = Inr content \<Longrightarrow> file_at d p = Some content"
    and "r = Inl (Absent err) \<Longrightarrow> file_at d p = None"
proof -
  obtain x where x: "x = find_node d ''open'' p" by simp
  have s: "(r, d') = (case io_fault e (dk_step d) of Some err \<Rightarrow> (Inl (Failed err), tick d)
      | None \<Rightarrow> (case x of Inl err \<Rightarrow> Inl err | Inr Dir \<Rightarrow> Inl (Failed (path_error ''read'' p ''is a directory''))
                  | Inr (File content) \<Rightarrow> Inr content, tick d))"
    using assms by (simp only: os_ReadFile_def x)
  show "file_at d' q = file_at d q" using s by (simp split: option.splits)
  show "file_at d p = Some content" if "r = Inr content"
    using s that find_node_Inr [of d "''open''" p] x by (simp add: file_at_def split: option.splits sum.splits node.splits)
  show "file_at d p = None" if "r = Inl (Absent err)"
    using s that find_node_Absent [of d "''open''" p err] x by (simp add: file_at_def split: option.splits sum.splits node.splits)
qed

lemma readAll_result:
  assumes "handles_readAll f d = ((m, err), d1)"
  shows "file_at d1 q = file_at d q" and "err = None \<Longrightarrow> handles_at f d = Some m"
proof -
  obtain r d2 where r: "os_ReadFile (hf_io f) (hf_path f) d = (r, d2)" by (rule prod.exhaust)
  note res = os_ReadFile_result [OF r]
  have "d1 = d2" using assms r by (simp add: handles_readAll_def split: sum.splits io_error.splits option.splits)
  then show "file_at d1 q = file_at d q" using res(1) by simp
  show "handles_at f d = Some m" if "err = None"
    using assms r that res(2,3)
    by (simp add: handles_readAll_def handles_at_def split: sum.splits io_error.splits option.splits)
qed

lemma persist_exact:
  assumes "handles_persist f m d = (err, d')" and "\<not> is_temp (hf_path f)" and "hf_path f \<noteq> []" and "\<not> is_temp q"
  shows "file_at d' q = (if err = None \<and> q = hf_path f then Some (handles_text m) else file_at d q)"
proof -
  let ?dir = "butlast (hf_path f)"
  obtain r1 d1 where mk: "os_MkdirAll (hf_io f) ?dir d = (r1, d1)" by (rule prod.exhaust)
  have f1: "file_at d1 q = file_at d q"
    using make_dirs_file [of "hf_io f" _ d q] mk unfolding os_MkdirAll_def by (metis snd_conv)
  obtain r2 d2 where t: "os_CreateTemp (hf_io f) ?dir ''.github-handles-'' ''.tmp'' d1 = (r2, d2)" by (rule prod.exhaust)
  have f2: "file_at d2 q = file_at d q" using os_CreateTemp_result(1) [OF t, of q] assms(4) f1 by simp
  show ?thesis
  proof (cases "r1 = None \<and> (\<exists>tmp. r2 = Inr tmp)")
    case True
    then obtain tmp where x: "r1 = None" "r2 = Inr tmp" by auto
    have r: "replace_file (hf_io f) ''cache'' tmp (hf_path f) (handles_text m) d2 = (err, d')"
      using assms(1) mk t x by (simp add: handles_persist_def)
    have "is_temp tmp" "tmp \<noteq> []" using os_CreateTemp_result(2) [OF t, of tmp] x(2) by simp_all
    then have "file_at d' q = (if err = None \<and> q = hf_path f then Some (handles_text m) else file_at d2 q)"
      using assms(2,3,4) by (intro replace_file_exact [OF r]) auto
    then show ?thesis using f2 by simp
  next
    case False
    then have "err \<noteq> None \<and> file_at d' q = file_at d q"
      using assms(1) mk t f1 f2 by (auto simp: handles_persist_def split: option.splits sum.splits)
    then show ?thesis by (cases err) simp_all
  qed
qed

text \<open>
  C20: The handle cache is a map on disk: a \<^verbatim>\<open>Put\<close> that reports no error has set that one handle and kept
  every other entry; one that reports an error, whatever call of the system failed, has left the file as it was; and
  no other file has changed but temporary ones.
\<close>

theorem handle_put_exact:
  assumes "handles_Put f h e d = (err, d')" and "\<not> is_temp (hf_path f)" and "hf_path f \<noteq> []"
    and "handles_at f d = Some m" and "handles_utf8 ((h, e) # m)" and "\<not> is_temp q"
  shows "if err = None \<and> q = hf_path f then map_option map_of (handles_at f d') = Some ((map_of m)(h \<mapsto> e))
     else file_at d' q = file_at d q"
proof -
  obtain m1 err1 d1 where r: "handles_readAll f d = ((m1, err1), d1)" by (metis prod.exhaust)
  note read = readAll_result [OF r]
  show ?thesis
  proof (cases err1)
    case (Some x)
    then have "err \<noteq> None" "d' = d1" using assms(1) r by (auto simp: handles_Put_def)
    then show ?thesis using read(1) [of q] by (cases err) simp_all
  next
    case None
    then have m: "m1 = m" using read(2) assms(4) by simp
    let ?m = "AList.update h e m"
    have "handles_persist f ?m d1 = (err, d')" using assms(1) r None m by (simp add: handles_Put_def)
    then have w: "file_at d' q = (if err = None \<and> q = hf_path f then Some (handles_text ?m) else file_at d1 q)" if "\<not> is_temp q" for q
      using persist_exact assms(2,3) that by blast
    show ?thesis
    proof (cases "err = None \<and> q = hf_path f")
      case True
      have "distinct (map fst m)"
        using assms(4) parse_handles_distinct by (auto simp: handles_at_def split: option.splits)
      then have "distinct (map fst ?m)" by (simp add: distinct_update)
      moreover have "set ?m \<subseteq> set ((h, e) # m)" by (induction m) auto
      then have "handles_utf8 ?m" using assms(5) by (auto simp: handles_utf8_def list_all_iff)
      ultimately obtain m' where "parse_handles (handles_text ?m) = Some m'" "map_of m' = map_of ?m"
        using handles_back by blast
      then show ?thesis using w [OF assms(6)] True by (simp add: handles_at_def update_conv')
    next
      case False
      then show ?thesis using w [OF assms(6)] read(1) [of q] by (simp only: False if_False)
    qed
  qed
qed

text \<open>A cache with one handle; the call at a step may fail.\<close>

definition example_handles :: "nat option \<Rightarrow> handle_file" where
  "example_handles bad =
     \<lparr>hf_io = \<lparr>io_fault = (\<lambda>n. if bad = Some n then Some (Err ''no space left on device'') else None), io_cut = (\<lambda>n. 3),
               io_name = (\<lambda>n k. ''42'')\<rparr>,
      hf_path = [''d'', ''github-handles.json'']\<rparr>"

definition example_entry :: "string \<Rightarrow> cache_entry" where
  "example_entry login = \<lparr>ce_GitHub = login, ce_SourcePR = ''https://github.com/a/b/pull/7'', ce_ResolvedAt = []\<rparr>"

definition handles_disk :: disk where
  "handles_disk =
     \<lparr>dk_nodes = [([''d''], Dir), ([''d'', ''github-handles.json''], File (handles_text [(''bob'', example_entry ''bob7'')]))], dk_step = 0\<rparr>"

lemma example_handles_at: "handles_at (example_handles bad) handles_disk = Some [(''bob'', example_entry ''bob7'')]"
proof -
  have "parse_handles (handles_text [(''bob'', example_entry ''bob7'')]) = Some [(''bob'', example_entry ''bob7'')]" by code_simp
  then show ?thesis by (simp add: handles_at_def file_at_def node_at_def handles_disk_def example_handles_def)
qed

lemma example_put:
  "fst (handles_Put (example_handles None) ''ada'' (example_entry ''ada1'') handles_disk) = None"
  "fst (handles_Put (example_handles (Some 2)) ''ada'' (example_entry ''ada1'') handles_disk) \<noteq> None"
proof -
  have "parse_handles (handles_text [(''bob'', example_entry ''bob7'')]) = Some [(''bob'', example_entry ''bob7'')]" by code_simp
  note facts = this handles_Put_def handles_readAll_def handles_persist_def os_ReadFile_def os_MkdirAll_def handles_disk_def node_at_def
    os_CreateTemp_def find_node_def first_name replace_file_def os_Write_def os_Close_def os_Rename_def put_node_def del_node_def
    tick_def upt_rec example_handles_def
  show "fst (handles_Put (example_handles None) ''ada'' (example_entry ''ada1'') handles_disk) = None" by (simp add: facts)
  show "fst (handles_Put (example_handles (Some 2)) ''ada'' (example_entry ''ada1'') handles_disk) \<noteq> None" by (simp add: facts)
qed

theorem handle_put_exact_witness:
  "map_option map_of (handles_at (example_handles None) (snd (handles_Put (example_handles None) ''ada'' (example_entry ''ada1'') handles_disk))) =
     Some ((map_of [(''bob'', example_entry ''bob7'')])(''ada'' \<mapsto> example_entry ''ada1''))
 \<and> file_at (snd (handles_Put (example_handles (Some 2)) ''ada'' (example_entry ''ada1'') handles_disk)) [''d'', ''github-handles.json''] =
     file_at handles_disk [''d'', ''github-handles.json'']"
proof -
  let ?q = "[''d'', ''github-handles.json'']"
  have p: "hf_path (example_handles bad) = ?q" for bad by (simp add: example_handles_def)
  have t: "\<not> is_temp ?q" by code_simp
  have u: "handles_utf8 [(''ada'', example_entry ''ada1''), (''bob'', example_entry ''bob7'')]" by code_simp
  have put: "if fst (handles_Put (example_handles bad) ''ada'' (example_entry ''ada1'') handles_disk) = None \<and> ?q = ?q
      then map_option map_of (handles_at (example_handles bad) (snd (handles_Put (example_handles bad) ''ada'' (example_entry ''ada1'') handles_disk))) =
        Some ((map_of [(''bob'', example_entry ''bob7'')])(''ada'' \<mapsto> example_entry ''ada1''))
      else file_at (snd (handles_Put (example_handles bad) ''ada'' (example_entry ''ada1'') handles_disk)) ?q = file_at handles_disk ?q" for bad
    using handle_put_exact [OF surjective_pairing _ _ example_handles_at u t, unfolded p, OF t] by blast
  show ?thesis using put [of None] put [of "Some 2"] example_put by (simp only: simp_thms if_True if_False list.distinct)
qed

end
