(* ===== verification/AuthCipher.thy ===== *)
theory AuthCipher
  imports AuthCalls "HOL-Library.AList"
begin

text \<open>
  How the auth service keeps keys: its configuration (\<^verbatim>\<open>internal/dolthubauth/config.go\<close>), the ciphers and the
  choice between them (\<^verbatim>\<open>crypto.go\<close>), and the envelope around a key service (\<^verbatim>\<open>kms.go\<close>) with its cache of
  unwrapped keys.  AES-GCM, SHA-256, the random bytes, the clock and the key service are the argument \<open>k\<close>;
  clearing the memory of a key is left out.
\<close>

section \<open>Configuration\<close>

record EnvConfig =
  ec_ListenAddr :: string
  ec_DatabaseURL :: string
  ec_TenantID :: string
  ec_Environment :: string
  ec_EncryptionBackend :: string
  ec_KMSKeyName :: string
  ec_GCPCredentialsJSON :: string
  ec_CurrentKeyID :: string
  ec_CurrentSharedSecret :: string
  ec_NextKeyID :: string
  ec_NextSharedSecret :: string
  ec_TokenPepper :: string
  ec_RedeemPepper :: string
  ec_MasterKey :: string
  ec_AllowLocalMasterKeyInProduction :: bool
  ec_AllowedOrigins :: "string list"

definition localEncryptionBackend :: string where
  "localEncryptionBackend = ''local-master-key''"

definition kmsEnvelopeEncryptionBackend :: string where
  "kmsEnvelopeEncryptionBackend = ''gcp-kms-envelope''"

definition effectiveEncryptionBackend :: "EnvConfig \<Rightarrow> string" where
  "effectiveEncryptionBackend cfg =
     (let backend = TrimSpace (ec_EncryptionBackend cfg)
      in if backend \<noteq> [] then backend
         else if TrimSpace (ec_KMSKeyName cfg) \<noteq> [] then kmsEnvelopeEncryptionBackend
         else localEncryptionBackend)"

definition splitAndTrimCSV :: "string \<Rightarrow> string list" where
  "splitAndTrimCSV raw = filter (\<lambda>v. v \<noteq> []) (map TrimSpace (Split raw (CHR '','')))"

definition isProductionEnvironment :: "(string \<Rightarrow> string) \<Rightarrow> string \<Rightarrow> bool" where
  "isProductionEnvironment uni environment \<longleftrightarrow> ToLower uni (TrimSpace environment) \<in> set [''prod'', ''production'']"

definition parseBoolEnv :: "(string \<Rightarrow> string) \<Rightarrow> string \<Rightarrow> bool" where
  "parseBoolEnv uni raw \<longleftrightarrow> ToLower uni (TrimSpace raw) \<in> set [''1'', ''t'', ''true'', ''y'', ''yes'', ''on'']"

definition required_values :: "EnvConfig \<Rightarrow> (string \<times> string) list" where
  "required_values cfg =
     [(''DOLTHUB_AUTH_LISTEN_ADDR'', ec_ListenAddr cfg), (''DOLTHUB_AUTH_DATABASE_URL'', ec_DatabaseURL cfg),
      (''DOLTHUB_AUTH_TENANT_ID'', ec_TenantID cfg), (''DOLTHUB_AUTH_ENVIRONMENT'', ec_Environment cfg),
      (''DOLTHUB_AUTH_CURRENT_KEY_ID'', ec_CurrentKeyID cfg),
      (''DOLTHUB_AUTH_CURRENT_SHARED_SECRET'', ec_CurrentSharedSecret cfg),
      (''DOLTHUB_AUTH_TOKEN_PEPPER'', ec_TokenPepper cfg), (''DOLTHUB_AUTH_REDEEM_PEPPER'', ec_RedeemPepper cfg)]"

definition config_Validate :: "(string \<Rightarrow> string) \<Rightarrow> EnvConfig \<Rightarrow> go_error option" where
  "config_Validate uni cfg =
     (let backend = effectiveEncryptionBackend cfg
      in case find (\<lambda>(key, v). TrimSpace v = []) (required_values cfg) of
           Some (key, v) \<Rightarrow> Some (Err (key @ '' is required''))
         | None \<Rightarrow>
             if ec_AllowedOrigins cfg = [] then Some (Err ''DOLTHUB_AUTH_ALLOWED_ORIGINS is required'')
             else if (ec_NextKeyID cfg = []) \<noteq> (ec_NextSharedSecret cfg = [])
             then Some (Err ''DOLTHUB_AUTH_NEXT_KEY_ID and DOLTHUB_AUTH_NEXT_SHARED_SECRET must be set together'')
             else if backend = localEncryptionBackend
             then (if TrimSpace (ec_MasterKey cfg) = [] then Some (Err ''DOLTHUB_AUTH_MASTER_KEY is required'')
                   else if isProductionEnvironment uni (ec_Environment cfg) \<and> \<not> ec_AllowLocalMasterKeyInProduction cfg
                   then Some (Err ''production auth-service startup requires a KMS-backed encryption backend or DOLTHUB_AUTH_ALLOW_LOCAL_MASTER_KEY_IN_PRODUCTION=true'')
                   else None)
             else if backend = kmsEnvelopeEncryptionBackend
             then (if TrimSpace (ec_KMSKeyName cfg) = [] then Some (Err ''DOLTHUB_AUTH_KMS_KEY_NAME is required'') else None)
             else Some (Err (''unsupported DOLTHUB_AUTH_ENCRYPTION_BACKEND '' @ Quote (ec_EncryptionBackend cfg))))"

definition LoadConfigFromEnv :: "(string \<Rightarrow> string) \<Rightarrow> (string \<Rightarrow> string) \<Rightarrow> go_error + EnvConfig" where
  "LoadConfigFromEnv uni env =
     (let v = (\<lambda>name. TrimSpace (env (''DOLTHUB_AUTH_'' @ name)));
          cfg = \<lparr>ec_ListenAddr = v ''LISTEN_ADDR'', ec_DatabaseURL = v ''DATABASE_URL'', ec_TenantID = v ''TENANT_ID'',
                 ec_Environment = v ''ENVIRONMENT'', ec_EncryptionBackend = v ''ENCRYPTION_BACKEND'',
                 ec_KMSKeyName = v ''KMS_KEY_NAME'', ec_GCPCredentialsJSON = v ''GCP_CREDENTIALS_JSON'',
                 ec_CurrentKeyID = v ''CURRENT_KEY_ID'', ec_CurrentSharedSecret = v ''CURRENT_SHARED_SECRET'',
                 ec_NextKeyID = v ''NEXT_KEY_ID'', ec_NextSharedSecret = v ''NEXT_SHARED_SECRET'',
                 ec_TokenPepper = v ''TOKEN_PEPPER'', ec_RedeemPepper = v ''REDEEM_PEPPER'', ec_MasterKey = v ''MASTER_KEY'',
                 ec_AllowLocalMasterKeyInProduction =
                   parseBoolEnv uni (env ''DOLTHUB_AUTH_ALLOW_LOCAL_MASTER_KEY_IN_PRODUCTION''),
                 ec_AllowedOrigins = splitAndTrimCSV (env ''DOLTHUB_AUTH_ALLOWED_ORIGINS'')\<rparr>
      in case config_Validate uni cfg of Some err \<Rightarrow> Inl err | None \<Rightarrow> Inr cfg)"

section \<open>Base64\<close>

text \<open>\<^verbatim>\<open>base64.StdEncoding\<close>, in which \<^verbatim>\<open>encoding/json\<close> writes byte slices.\<close>

definition b64_ch :: "nat \<Rightarrow> char" where
  "b64_ch n = char_of (if n < 26 then 65 + n else if n < 52 then 71 + n else if n < 62 then n - 4 else if n = 62 then 43 else 47)"

definition b64_val :: "char \<Rightarrow> nat option" where
  "b64_val ch =
     (let c = code_of ch
      in if 65 \<le> c \<and> c \<le> 90 then Some (c - 65)
         else if 97 \<le> c \<and> c \<le> 122 then Some (c - 71)
         else if 48 \<le> c \<and> c \<le> 57 then Some (c + 4)
         else if c = 43 then Some 62 else if c = 47 then Some 63 else None)"

fun b64_encode :: "string \<Rightarrow> string" where
  "b64_encode [] = []"
| "b64_encode [a] = [b64_ch (code_of a div 4), b64_ch (code_of a mod 4 * 16), CHR ''='', CHR ''='']"
| "b64_encode [a, b] =
     [b64_ch (code_of a div 4), b64_ch (code_of a mod 4 * 16 + code_of b div 16), b64_ch (code_of b mod 16 * 4), CHR ''='']"
| "b64_encode (a # b # c # s) =
     b64_ch (code_of a div 4) # b64_ch (code_of a mod 4 * 16 + code_of b div 16) #
     b64_ch (code_of b mod 16 * 4 + code_of c div 64) # b64_ch (code_of c mod 64) # b64_encode s"

text \<open>Four characters make three bytes; at the end one or two bytes are padded, whose spare bits are not looked at.\<close>

fun b64_quads :: "string \<Rightarrow> string option" where
  "b64_quads [] = Some []"
| "b64_quads (w # x # y # z # s) =
     (case (b64_val w, b64_val x) of
        (Some p, Some q) \<Rightarrow>
          (case (b64_val y, b64_val z) of
             (Some r, Some t) \<Rightarrow>
               map_option (\<lambda>bs. char_of (p * 4 + q div 16) # char_of (q mod 16 * 16 + r div 4) # char_of (r mod 4 * 64 + t) # bs)
                 (b64_quads s)
           | (Some r, None) \<Rightarrow>
               if z = CHR ''='' \<and> s = [] then Some [char_of (p * 4 + q div 16), char_of (q mod 16 * 16 + r div 4)] else None
           | (None, _) \<Rightarrow> if y = CHR ''='' \<and> z = CHR ''='' \<and> s = [] then Some [char_of (p * 4 + q div 16)] else None)
      | _ \<Rightarrow> None)"
| "b64_quads _ = None"

definition b64_decode :: "string \<Rightarrow> string option" where
  "b64_decode s = b64_quads (filter (\<lambda>c. c \<noteq> nl_ch \<and> c \<noteq> cr_ch) s)"

section \<open>Primitives\<close>

text \<open>
  \<open>kz_Encrypt\<close> and \<open>kz_Decrypt\<close> are the calls of the key service: the first answers the name of the key
  version and the wrapped key.  \<open>kz_seal\<close> and \<open>kz_open\<close> are AES-GCM with a key, a nonce and additional data.
\<close>

record 's cipher_env =
  kz_Encrypt :: "string \<Rightarrow> string \<Rightarrow> 's \<Rightarrow> (go_error + string \<times> string) \<times> 's"
  kz_Decrypt :: "string \<Rightarrow> string \<Rightarrow> 's \<Rightarrow> (go_error + string) \<times> 's"
  kz_GetCryptoKey :: "string \<Rightarrow> 's \<Rightarrow> go_error option \<times> 's"
  kz_Close :: "'s \<Rightarrow> go_error option \<times> 's"
  kz_client :: "string \<Rightarrow> go_error option"
  kz_random :: "nat \<Rightarrow> 's \<Rightarrow> (go_error + string) \<times> 's"
  kz_now :: "'s \<Rightarrow> int"
  kz_seal :: "string \<Rightarrow> string \<Rightarrow> string \<Rightarrow> string \<Rightarrow> string"
  kz_open :: "string \<Rightarrow> string \<Rightarrow> string \<Rightarrow> string \<Rightarrow> go_error + string"
  kz_sha :: "string \<Rightarrow> string"

definition nonce_size :: nat where
  "nonce_size = 12"

text \<open>What \<^verbatim>\<open>aes.NewCipher\<close> asks of a key.\<close>

definition aes_key_error :: "string \<Rightarrow> go_error option" where
  "aes_key_error key =
     (if length key \<in> {16, 24, 32} then None
      else Some (Err (Sprintf ''crypto/aes: invalid key size %d'' [FD (int (length key))])))"

text \<open>
  Sealed text, the key version and the backend; an opened text, where \<open>None\<close> is the panic of
  \<^verbatim>\<open>Open\<close> for a nonce of the wrong length.
\<close>

type_synonym sealed = "go_error + string \<times> string \<times> string"
type_synonym opened = "(go_error + string) option"

section \<open>The local master key\<close>

definition NewLocalMasterKey :: "string \<Rightarrow> go_error + string" where
  "NewLocalMasterKey raw =
     (if TrimSpace raw = [] then Inl (Err ''DOLTHUB_AUTH_MASTER_KEY is required'') else Inr (TrimSpace raw))"

definition local_Check :: "string \<Rightarrow> go_error option" where
  "local_Check key = (if TrimSpace key = [] then Some (Err ''local master key is not configured'') else None)"

definition derivedKey :: "'s cipher_env \<Rightarrow> string \<Rightarrow> string" where
  "derivedKey k key = kz_sha k key"

definition local_Encrypt :: "'s cipher_env \<Rightarrow> string \<Rightarrow> string \<Rightarrow> 's \<Rightarrow> sealed \<times> 's" where
  "local_Encrypt k key plain s =
     (case aes_key_error (derivedKey k key) of
        Some err \<Rightarrow> (Inl (Wrap ''construct cipher: '' err), s)
      | None \<Rightarrow>
          (case kz_random k nonce_size s of
             (Inl err, s1) \<Rightarrow> (Inl (Wrap ''generate nonce: '' err), s1)
           | (Inr nonce, s1) \<Rightarrow>
               (Inr (nonce @ kz_seal k (derivedKey k key) nonce [] plain, localEncryptionBackend, localEncryptionBackend), s1)))"

definition local_Decrypt :: "'s cipher_env \<Rightarrow> string \<Rightarrow> string \<Rightarrow> string \<Rightarrow> string \<Rightarrow> go_error + string" where
  "local_Decrypt k key ciphertext keyVersion backend =
     (if backend \<noteq> localEncryptionBackend then Inl (Err (''unsupported encryption backend '' @ Quote backend))
      else if keyVersion \<noteq> localEncryptionBackend then Inl (Err (''unsupported key version '' @ Quote keyVersion))
      else case aes_key_error (derivedKey k key) of
             Some err \<Rightarrow> Inl (Wrap ''construct cipher: '' err)
           | None \<Rightarrow>
               if length ciphertext < nonce_size then Inl (Err ''ciphertext too short'')
               else (case kz_open k (derivedKey k key) (take nonce_size ciphertext) [] (drop nonce_size ciphertext) of
                       Inl err \<Rightarrow> Inl (Wrap ''decrypt credential: '' err)
                     | Inr plain \<Rightarrow> Inr plain))"

section \<open>The cache of unwrapped keys\<close>

record dek_entry =
  de_dek :: string
  de_expiresAt :: int
  de_usedAt :: int

record dek_cache =
  dc_ttl :: int
  dc_maxEntries :: nat
  dc_entries :: "(string \<times> dek_entry) list"

definition newKMSDEKCache :: "int \<Rightarrow> int \<Rightarrow> dek_cache option" where
  "newKMSDEKCache ttl maxEntries =
     (if ttl \<le> 0 \<or> maxEntries \<le> 0 then None
      else Some \<lparr>dc_ttl = ttl, dc_maxEntries = nat maxEntries, dc_entries = []\<rparr>)"

definition dek_Get :: "int \<Rightarrow> string \<Rightarrow> dek_cache option \<Rightarrow> string option \<times> dek_cache option" where
  "dek_Get now key cache =
     (case cache of
        None \<Rightarrow> (None, None)
      | Some c \<Rightarrow>
          (case map_of (dc_entries c) key of
             None \<Rightarrow> (None, cache)
           | Some e \<Rightarrow>
               if de_expiresAt e < now then (None, Some (c\<lparr>dc_entries := AList.delete key (dc_entries c)\<rparr>))
               else (Some (de_dek e), Some (c\<lparr>dc_entries := AList.update key (e\<lparr>de_usedAt := now\<rparr>) (dc_entries c)\<rparr>))))"

text \<open>
  The entry that was used the longest time ago; of two, the one that the iteration over the map, whose order
  is that of the list, comes to first.
\<close>

definition oldest_entry :: "(string \<times> dek_entry) list \<Rightarrow> string \<times> int" where
  "oldest_entry es =
     fold (\<lambda>(key, e) (oldestKey, oldestAt).
        if oldestKey = [] \<or> de_usedAt e < oldestAt then (key, de_usedAt e) else (oldestKey, oldestAt)) es ([], 0)"

fun evict_down :: "nat \<Rightarrow> nat \<Rightarrow> (string \<times> dek_entry) list \<Rightarrow> (string \<times> dek_entry) list" where
  "evict_down most 0 es = es"
| "evict_down most (Suc n) es =
     (if most < length es then evict_down most n (AList.delete (fst (oldest_entry es)) es) else es)"

definition dek_evictLocked :: "int \<Rightarrow> dek_cache \<Rightarrow> dek_cache" where
  "dek_evictLocked now c =
     (let live = filter (\<lambda>(key, e). \<not> de_expiresAt e < now) (dc_entries c)
      in c\<lparr>dc_entries := evict_down (dc_maxEntries c) (length live) live\<rparr>)"

definition dek_Set :: "int \<Rightarrow> string \<Rightarrow> string \<Rightarrow> dek_cache option \<Rightarrow> dek_cache option" where
  "dek_Set now key dek cache =
     (case cache of
        None \<Rightarrow> None
      | Some c \<Rightarrow>
          if key = [] \<or> dek = [] then cache
          else Some (dek_evictLocked now (c\<lparr>dc_entries :=
                 AList.update key \<lparr>de_dek = dek, de_expiresAt = now + dc_ttl c, de_usedAt = now\<rparr> (dc_entries c)\<rparr>)))"

section \<open>The envelope\<close>

definition LastIndex :: "string \<Rightarrow> string \<Rightarrow> nat option" where
  "LastIndex s t =
     (let at = filter (\<lambda>i. HasPrefix (drop i s) t) [0..<Suc (length s)] in if at = [] then None else Some (last at))"

definition kmsEnvelopeCryptoKeyName :: "string \<Rightarrow> string \<Rightarrow> string" where
  "kmsEnvelopeCryptoKeyName keyVersion fallback =
     (let v = TrimSpace keyVersion
      in case LastIndex v ''/cryptoKeyVersions/'' of
           Some i \<Rightarrow> if 0 < i then take i v else fallback
         | None \<Rightarrow> fallback)"

definition kmsEnvelopeAAD :: "string \<Rightarrow> string" where
  "kmsEnvelopeAAD keyVersion = ''wasteland:dolthub-auth:gcp-kms-envelope:'' @ TrimSpace keyVersion"

definition kmsEnvelopeDEKCacheKey :: "'s cipher_env \<Rightarrow> string \<Rightarrow> string \<Rightarrow> string" where
  "kmsEnvelopeDEKCacheKey k keyVersion wrapped = TrimSpace keyVersion @ '':'' @ hex_text (kz_sha k wrapped)"

record envelope_payload =
  kp_Version :: int
  kp_WrappedDEK :: string
  kp_Nonce :: string
  kp_Ciphertext :: string

text \<open>An empty byte slice is nil here, which is written as \<^verbatim>\<open>null\<close>.\<close>

definition bytes_json :: "string \<Rightarrow> json" where
  "bytes_json b = (if b = [] then JNull else JStr (b64_encode b))"

definition payload_text :: "envelope_payload \<Rightarrow> string" where
  "payload_text p =
     json_text (JObj [(''version'', JInt (kp_Version p)), (''wrapped_dek'', bytes_json (kp_WrappedDEK p)),
       (''nonce'', bytes_json (kp_Nonce p)), (''ciphertext'', bytes_json (kp_Ciphertext p))])"

text \<open>
  Into a byte slice: a string in Base64, an array of numbers below 256, or \<^verbatim>\<open>null\<close>, which makes it nil.
  Of an array, a \<^verbatim>\<open>null\<close> keeps the byte that was there.
\<close>

definition byte_elem :: "string \<Rightarrow> nat \<times> json \<Rightarrow> char option" where
  "byte_elem old e =
     (case e of (i, v) \<Rightarrow>
        (case v of
           JNull \<Rightarrow> Some (if i < length old then old ! i else char_of (0::nat))
         | _ \<Rightarrow> (case json_int v of Some n \<Rightarrow> if 0 \<le> n \<and> n < 256 then Some (char_of (nat n)) else None | None \<Rightarrow> None)))"

definition bytes_member :: "string \<Rightarrow> (string \<times> json) \<Rightarrow> string \<times> bool \<Rightarrow> string \<times> bool" where
  "bytes_member name m acc =
     (if fold_eq (fst m) name
      then (case snd m of
              JNull \<Rightarrow> ([], snd acc)
            | JStr t \<Rightarrow> (case b64_decode t of Some b \<Rightarrow> (b, snd acc) | None \<Rightarrow> (fst acc, False))
            | JArr vs \<Rightarrow>
                (case those (map (byte_elem (fst acc)) (zip [0..<length vs] vs)) of
                   Some b \<Rightarrow> (b, snd acc)
                 | None \<Rightarrow> (fst acc, False))
            | _ \<Rightarrow> (fst acc, False))
      else acc)"

definition bytes_field :: "string \<Rightarrow> (string \<times> json) list \<Rightarrow> string \<times> bool" where
  "bytes_field name ms = fold (bytes_member name) ms ([], True)"

definition decode_payload :: "string \<Rightarrow> envelope_payload option" where
  "decode_payload text =
     (case struct_members text of
        None \<Rightarrow> None
      | Some ms \<Rightarrow>
          if snd (num_field ''version'' ms) \<and> list_all (\<lambda>n. snd (bytes_field n ms)) [''wrapped_dek'', ''nonce'', ''ciphertext'']
          then Some \<lparr>kp_Version = fst (num_field ''version'' ms), kp_WrappedDEK = fst (bytes_field ''wrapped_dek'' ms),
                     kp_Nonce = fst (bytes_field ''nonce'' ms), kp_Ciphertext = fst (bytes_field ''ciphertext'' ms)\<rparr>
          else None)"

record kms_cipher =
  kc_keyName :: string
  kc_dekCache :: "dek_cache option"

definition newGCPKMSEnvelopeCipherWithClient :: "string \<Rightarrow> go_error + kms_cipher" where
  "newGCPKMSEnvelopeCipherWithClient keyName =
     (if TrimSpace keyName = [] then Inl (Err ''DOLTHUB_AUTH_KMS_KEY_NAME is required'')
      else Inr \<lparr>kc_keyName = TrimSpace keyName, kc_dekCache = newKMSDEKCache 300000000000 1024\<rparr>)"

definition NewGCPKMSEnvelopeCipher :: "'s cipher_env \<Rightarrow> string \<Rightarrow> string \<Rightarrow> go_error + kms_cipher" where
  "NewGCPKMSEnvelopeCipher k keyName credentialsJSON =
     (if TrimSpace keyName = [] then Inl (Err ''DOLTHUB_AUTH_KMS_KEY_NAME is required'')
      else case kz_client k (if TrimSpace credentialsJSON \<noteq> [] then credentialsJSON else []) of
             Some err \<Rightarrow> Inl (Wrap ''open gcp kms client: '' err)
           | None \<Rightarrow> newGCPKMSEnvelopeCipherWithClient (TrimSpace keyName))"

definition kms_Check :: "'s cipher_env \<Rightarrow> kms_cipher \<Rightarrow> 's \<Rightarrow> go_error option \<times> 's" where
  "kms_Check k c s =
     (case kz_GetCryptoKey k (kc_keyName c) s of
        (Some err, s1) \<Rightarrow> (Some (Wrap ''get crypto key: '' err), s1)
      | (None, s1) \<Rightarrow> (None, s1))"

definition kms_Encrypt :: "'s cipher_env \<Rightarrow> kms_cipher \<Rightarrow> string \<Rightarrow> 's \<Rightarrow> sealed \<times> 's" where
  "kms_Encrypt k c plain s =
     (case kz_random k 32 s of
        (Inl err, s1) \<Rightarrow> (Inl (Wrap ''generate dek: '' err), s1)
      | (Inr dek, s1) \<Rightarrow>
          (case aes_key_error dek of
             Some err \<Rightarrow> (Inl (Wrap ''construct cipher: '' err), s1)
           | None \<Rightarrow>
               (case kz_Encrypt k (kc_keyName c) dek s1 of
                  (Inl err, s2) \<Rightarrow> (Inl (Wrap ''wrap dek: '' err), s2)
                | (Inr (name, wrapped), s2) \<Rightarrow>
                    let keyVersion = (if TrimSpace name = [] then kc_keyName c else TrimSpace name)
                    in case kz_random k nonce_size s2 of
                         (Inl err, s3) \<Rightarrow> (Inl (Wrap ''generate nonce: '' err), s3)
                       | (Inr nonce, s3) \<Rightarrow>
                           (Inr (payload_text \<lparr>kp_Version = 1, kp_WrappedDEK = wrapped, kp_Nonce = nonce,
                                   kp_Ciphertext = kz_seal k dek nonce (kmsEnvelopeAAD keyVersion) plain\<rparr>,
                                 keyVersion, kmsEnvelopeEncryptionBackend), s3))))"

text \<open>Opening a payload with its key.\<close>

definition open_payload :: "'s cipher_env \<Rightarrow> string \<Rightarrow> envelope_payload \<Rightarrow> string \<Rightarrow> opened" where
  "open_payload k dek p keyVersion =
     (case aes_key_error dek of
        Some err \<Rightarrow> Some (Inl (Wrap ''construct cipher: '' err))
      | None \<Rightarrow>
          if length (kp_Nonce p) \<noteq> nonce_size then None
          else (case kz_open k dek (kp_Nonce p) (kmsEnvelopeAAD keyVersion) (kp_Ciphertext p) of
                  Inl err \<Rightarrow> Some (Inl (Wrap ''decrypt credential: '' err))
                | Inr plain \<Rightarrow> Some (Inr plain)))"

text \<open>The key of a payload, out of the cache or from the key service.\<close>

definition unwrap_dek ::
  "'s cipher_env \<Rightarrow> kms_cipher \<Rightarrow> string \<Rightarrow> string \<Rightarrow> 's \<Rightarrow> (go_error + string) \<times> kms_cipher \<times> 's" where
  "unwrap_dek k c keyVersion wrapped s =
     (let key = kmsEnvelopeDEKCacheKey k keyVersion wrapped
      in case dek_Get (kz_now k s) key (kc_dekCache c) of
           (Some dek, cache) \<Rightarrow> (Inr dek, c\<lparr>kc_dekCache := cache\<rparr>, s)
         | (None, cache) \<Rightarrow>
             (case kz_Decrypt k (kmsEnvelopeCryptoKeyName keyVersion (kc_keyName c)) wrapped s of
                (Inl err, s1) \<Rightarrow> (Inl (Wrap ''unwrap dek: '' err), c\<lparr>kc_dekCache := cache\<rparr>, s1)
              | (Inr dek, s1) \<Rightarrow> (Inr dek, c\<lparr>kc_dekCache := dek_Set (kz_now k s1) key dek cache\<rparr>, s1)))"

definition kms_Decrypt ::
  "'s cipher_env \<Rightarrow> kms_cipher \<Rightarrow> string \<Rightarrow> string \<Rightarrow> string \<Rightarrow> 's \<Rightarrow> opened \<times> kms_cipher \<times> 's" where
  "kms_Decrypt k c ciphertext keyVersion0 backend s =
     (if backend \<noteq> kmsEnvelopeEncryptionBackend
      then (Some (Inl (Err (''unsupported encryption backend '' @ Quote backend))), c, s)
      else case decode_payload ciphertext of
             None \<Rightarrow> (Some (Inl (Err ''decode envelope payload: '')), c, s)
           | Some p \<Rightarrow>
               if kp_Version p \<noteq> 1
               then (Some (Inl (Err (Sprintf ''unsupported envelope payload version %d'' [FD (kp_Version p)]))), c, s)
               else let keyVersion = (if TrimSpace keyVersion0 = [] then kc_keyName c else TrimSpace keyVersion0)
                    in case unwrap_dek k c keyVersion (kp_WrappedDEK p) s of
                         (Inl err, c1, s1) \<Rightarrow> (Some (Inl err), c1, s1)
                       | (Inr dek, c1, s1) \<Rightarrow> (open_payload k dek p keyVersion, c1, s1))"

section \<open>Several ciphers\<close>

text \<open>A cipher is a shared object, given by its address.\<close>

datatype leaf_cipher = LocalMaster string | Envelope kms_cipher

record MultiCipher =
  mc_primary :: nat
  mc_handlers :: "(string \<times> nat) list"

datatype CredentialCipher = Leaf nat | Multi MultiCipher

type_synonym ciphers = "nat \<Rightarrow> leaf_cipher"

definition NewMultiCipher :: "ciphers \<Rightarrow> nat option \<Rightarrow> (string \<times> nat option) list \<Rightarrow> go_error + MultiCipher" where
  "NewMultiCipher cs primary fallbacks =
     (case primary of
        None \<Rightarrow> Inl (Err ''primary credential cipher is required'')
      | Some a \<Rightarrow>
          let given = [(b, the x). (b, x) \<leftarrow> fallbacks, x \<noteq> None];
              own = (case cs a of Envelope _ \<Rightarrow> kmsEnvelopeEncryptionBackend | LocalMaster _ \<Rightarrow> localEncryptionBackend)
          in Inr \<lparr>mc_primary = a, mc_handlers = AList.update own a given\<rparr>)"

definition leaf_Check :: "'s cipher_env \<Rightarrow> ciphers \<Rightarrow> nat \<Rightarrow> 's \<Rightarrow> go_error option \<times> 's" where
  "leaf_Check k cs a s = (case cs a of LocalMaster key \<Rightarrow> (local_Check key, s) | Envelope c \<Rightarrow> kms_Check k c s)"

text \<open>The checks of the other ciphers, in the order in which the map is gone through.\<close>

fun check_others :: "'s cipher_env \<Rightarrow> ciphers \<Rightarrow> nat \<Rightarrow> (string \<times> nat) list \<Rightarrow> 's \<Rightarrow> go_error option \<times> 's" where
  "check_others k cs primary [] s = (None, s)"
| "check_others k cs primary ((b, a) # hs) s =
     (if a = primary then check_others k cs primary hs s
      else case leaf_Check k cs a s of
             (Some err, s1) \<Rightarrow> (Some err, s1)
           | (None, s1) \<Rightarrow> check_others k cs primary hs s1)"

definition cipher_Check :: "'s cipher_env \<Rightarrow> ciphers \<Rightarrow> CredentialCipher \<Rightarrow> 's \<Rightarrow> go_error option \<times> 's" where
  "cipher_Check k cs x s =
     (case x of
        Leaf a \<Rightarrow> leaf_Check k cs a s
      | Multi m \<Rightarrow>
          (case leaf_Check k cs (mc_primary m) s of
             (Some err, s1) \<Rightarrow> (Some err, s1)
           | (None, s1) \<Rightarrow> check_others k cs (mc_primary m) (mc_handlers m) s1))"

definition cipher_Encrypt :: "'s cipher_env \<Rightarrow> ciphers \<Rightarrow> CredentialCipher \<Rightarrow> string \<Rightarrow> 's \<Rightarrow> sealed \<times> 's" where
  "cipher_Encrypt k cs x plain s =
     (case cs (case x of Leaf a \<Rightarrow> a | Multi m \<Rightarrow> mc_primary m) of
        LocalMaster key \<Rightarrow> local_Encrypt k key plain s
      | Envelope c \<Rightarrow> kms_Encrypt k c plain s)"

definition leaf_Decrypt ::
  "'s cipher_env \<Rightarrow> nat \<Rightarrow> string \<Rightarrow> string \<Rightarrow> string \<Rightarrow> ciphers \<Rightarrow> 's \<Rightarrow> opened \<times> ciphers \<times> 's" where
  "leaf_Decrypt k a ciphertext keyVersion backend cs s =
     (case cs a of
        LocalMaster key \<Rightarrow> (Some (local_Decrypt k key ciphertext keyVersion backend), cs, s)
      | Envelope c \<Rightarrow>
          (case kms_Decrypt k c ciphertext keyVersion backend s of (res, c1, s1) \<Rightarrow> (res, cs(a := Envelope c1), s1)))"

definition cipher_Decrypt ::
  "'s cipher_env \<Rightarrow> CredentialCipher \<Rightarrow> string \<Rightarrow> string \<Rightarrow> string \<Rightarrow> ciphers \<Rightarrow> 's \<Rightarrow> opened \<times> ciphers \<times> 's" where
  "cipher_Decrypt k x ciphertext keyVersion backend cs s =
     (case x of
        Leaf a \<Rightarrow> leaf_Decrypt k a ciphertext keyVersion backend cs s
      | Multi m \<Rightarrow>
          (case map_of (mc_handlers m) backend of
             None \<Rightarrow> (Some (Inl (Err (''unsupported encryption backend '' @ Quote backend))), cs, s)
           | Some a \<Rightarrow> leaf_Decrypt k a ciphertext keyVersion backend cs s))"

text \<open>Closing: a local key has nothing to close; the first error is reported, but all are closed.\<close>

definition leaf_Close :: "'s cipher_env \<Rightarrow> ciphers \<Rightarrow> nat \<Rightarrow> 's \<Rightarrow> go_error option \<times> 's" where
  "leaf_Close k cs a s = (case cs a of LocalMaster _ \<Rightarrow> (None, s) | Envelope _ \<Rightarrow> kz_Close k s)"

fun close_others ::
  "'s cipher_env \<Rightarrow> ciphers \<Rightarrow> nat \<Rightarrow> (string \<times> nat) list \<Rightarrow> go_error option \<times> 's \<Rightarrow> go_error option \<times> 's" where
  "close_others k cs primary [] (err, s) = (err, s)"
| "close_others k cs primary ((b, a) # hs) (err, s) =
     (if a = primary then close_others k cs primary hs (err, s)
      else case leaf_Close k cs a s of
             (e, s1) \<Rightarrow> close_others k cs primary hs (if err = None then e else err, s1))"

definition multi_Close :: "'s cipher_env \<Rightarrow> ciphers \<Rightarrow> MultiCipher \<Rightarrow> 's \<Rightarrow> go_error option \<times> 's" where
  "multi_Close k cs m s = close_others k cs (mc_primary m) (mc_handlers m) (leaf_Close k cs (mc_primary m) s)"

text \<open>The new ciphers get the addresses \<open>a\<close> and \<open>a + 1\<close>.\<close>

definition NewCredentialCipher ::
  "'s cipher_env \<Rightarrow> EnvConfig \<Rightarrow> nat \<Rightarrow> ciphers \<Rightarrow> 's \<Rightarrow> (go_error + CredentialCipher) \<times> ciphers \<times> 's" where
  "NewCredentialCipher k cfg a cs s =
     (let backend = effectiveEncryptionBackend cfg
      in if backend = localEncryptionBackend
         then (case NewLocalMasterKey (ec_MasterKey cfg) of
                 Inl err \<Rightarrow> (Inl err, cs, s)
               | Inr key \<Rightarrow> (Inr (Leaf a), cs(a := LocalMaster key), s))
         else if backend = kmsEnvelopeEncryptionBackend
         then (case NewGCPKMSEnvelopeCipher k (ec_KMSKeyName cfg) (ec_GCPCredentialsJSON cfg) of
                 Inl err \<Rightarrow> (Inl err, cs, s)
               | Inr c \<Rightarrow>
                   let cs1 = cs(a := Envelope c); own = (kmsEnvelopeEncryptionBackend, Some a)
                   in if TrimSpace (ec_MasterKey cfg) = []
                      then (case NewMultiCipher cs1 (Some a) [own] of
                              Inl err \<Rightarrow> (Inl err, cs1, snd (kz_Close k s))
                            | Inr m \<Rightarrow> (Inr (Multi m), cs1, s))
                      else (case NewLocalMasterKey (ec_MasterKey cfg) of
                              Inl err \<Rightarrow> (Inl err, cs1, snd (kz_Close k s))
                            | Inr key \<Rightarrow>
                                let cs2 = cs1(a + 1 := LocalMaster key)
                                in case NewMultiCipher cs2 (Some a) [own, (localEncryptionBackend, Some (a + 1))] of
                                     Inl err \<Rightarrow> (Inl err, cs2, snd (kz_Close k s))
                                   | Inr m \<Rightarrow> (Inr (Multi m), cs2, s)))
         else (Inl (Err (''unsupported encryption backend '' @ Quote (ec_EncryptionBackend cfg))), cs, s))"

end
