(* ===== verification/CipherProps.thy ===== *)
theory CipherProps
  imports AuthCipher AuthSign
begin

text \<open>
  What is sealed is opened again, whatever the cache of unwrapped keys holds, and the cache changes nothing
  but the number of calls to the key service.
\<close>

section \<open>Base64 reads back\<close>

lemma code_of_char_of: "n < 256 \<Longrightarrow> code_of (char_of n) = n"
  by (simp add: code_of_def)

lemma b64_digit:
  assumes "n < 64"
  shows "b64_val (b64_ch n) = Some n" and "code_of (b64_ch n) \<noteq> 10" and "code_of (b64_ch n) \<noteq> 13" and "code_of (b64_ch n) < 128"
proof -
  let ?m = "if n < 26 then 65 + n else if n < 52 then 71 + n else if n < 62 then n - 4 else if n = 62 then 43 else 47 :: nat"
  have m: "?m < 128" "?m \<noteq> 10" "?m \<noteq> 13" using assms by auto
  then have c: "code_of (b64_ch n) = ?m" by (simp only: b64_ch_def code_of_char_of)
  show "b64_val (b64_ch n) = Some n" unfolding b64_val_def c Let_def using assms by (cases "n < 52") (auto split: if_splits)
  show "code_of (b64_ch n) \<noteq> 10" "code_of (b64_ch n) \<noteq> 13" "code_of (b64_ch n) < 128" using m c by simp_all
qed

lemma code_of_less: "code_of c < 256"
  by (simp add: code_of_def)

lemma char_of_code_of [simp]: "char_of (code_of c) = c"
  by (simp add: code_of_def)

text \<open>Three bytes cut into four digits and put together again.\<close>

lemma small_digits:
  fixes x y :: nat
  shows "y < 16 \<Longrightarrow> (x * 16 + y) div 16 = x" "y < 16 \<Longrightarrow> (x * 16 + y) mod 16 = y"
    "y < 4 \<Longrightarrow> (x * 4 + y) div 4 = x" "y < 4 \<Longrightarrow> (x * 4 + y) mod 4 = y"
  by simp_all

lemma b64_digits:
  fixes a b c :: nat
  assumes "a < 256" "b < 256" "c < 256"
  shows "a div 4 < 64" "a mod 4 * 16 + b div 16 < 64" "b mod 16 * 4 + c div 64 < 64" "c mod 64 < 64"
    "a mod 4 * 16 < 64" "b mod 16 * 4 < 64"
    "a div 4 * 4 + (a mod 4 * 16 + b div 16) div 16 = a"
    "(a mod 4 * 16 + b div 16) mod 16 * 16 + (b mod 16 * 4 + c div 64) div 4 = b"
    "(b mod 16 * 4 + c div 64) mod 4 * 64 + c mod 64 = c"
    "a div 4 * 4 + a mod 4 * 16 div 16 = a"
    "(a mod 4 * 16 + b div 16) mod 16 * 16 + b mod 16 * 4 div 4 = b"
proof -
  have d: "a div 4 < 64" "b div 16 < 16" "c div 64 < 4" using assms by (simp_all add: less_mult_imp_div_less)
  have m: "a mod 4 < 4" "b mod 16 < 16" "c mod 64 < 64" by simp_all
  show "a div 4 < 64" "a mod 4 * 16 + b div 16 < 64" "b mod 16 * 4 + c div 64 < 64" "c mod 64 < 64"
    "a mod 4 * 16 < 64" "b mod 16 * 4 < 64" using d m by linarith+
  show "a div 4 * 4 + (a mod 4 * 16 + b div 16) div 16 = a"
    "(a mod 4 * 16 + b div 16) mod 16 * 16 + (b mod 16 * 4 + c div 64) div 4 = b"
    "(b mod 16 * 4 + c div 64) mod 4 * 64 + c mod 64 = c"
    "a div 4 * 4 + a mod 4 * 16 div 16 = a"
    "(a mod 4 * 16 + b div 16) mod 16 * 16 + b mod 16 * 4 div 4 = b"
    by (simp_all only: small_digits(1,2) [OF d(2)] small_digits(3,4) [OF d(3)] div_mult_mod_eq nonzero_mult_div_cancel_right
        zero_neq_numeral not_False_eq_True)
qed

lemma b64_val_pad [simp]: "b64_val CHR ''='' = None"
  by code_simp

lemma b64_quads_back: "b64_quads (b64_encode s) = Some s"
proof (induction s rule: b64_encode.induct)
  case (2 a)
  note d = b64_digits [OF code_of_less [of a] code_of_less [of a] code_of_less [of a]]
  show ?case by (simp only: b64_encode.simps b64_quads.simps b64_digit(1) [OF d(1)] b64_digit(1) [OF d(5)]
    option.case prod.case b64_val_pad d(10) char_of_code_of simp_thms if_True)
next
  case (3 a b)
  note d = b64_digits [OF code_of_less [of a] code_of_less [of b] code_of_less [of b]]
  show ?case by (simp only: b64_encode.simps b64_quads.simps b64_digit(1) [OF d(1)] b64_digit(1) [OF d(2)] b64_digit(1) [OF d(6)]
    option.case prod.case b64_val_pad d(7,11) char_of_code_of simp_thms if_True)
next
  case (4 a b c s)
  note d = b64_digits [OF code_of_less [of a] code_of_less [of b] code_of_less [of c]]
  show ?case
    by (simp only: b64_encode.simps b64_quads.simps b64_digit(1) [OF d(1)] b64_digit(1) [OF d(2)] b64_digit(1) [OF d(3)]
      b64_digit(1) [OF d(4)] option.case prod.case d(7,8,9) 4 char_of_code_of option.map)
qed simp

definition b64_text_ch :: "char \<Rightarrow> bool" where
  "b64_text_ch c \<longleftrightarrow> code_of c \<noteq> 10 \<and> code_of c \<noteq> 13 \<and> code_of c < 128"

lemma b64_digit_ch: "n < 64 \<Longrightarrow> b64_text_ch (b64_ch n)"
  using b64_digit [of n] by (simp only: b64_text_ch_def simp_thms)

lemma b64_pad_ch [simp]: "b64_text_ch CHR ''=''"
  by code_simp

lemma b64_encode_chars: "list_all b64_text_ch (b64_encode s)"
proof (induction s rule: b64_encode.induct)
  case (2 a)
  note d = b64_digits [OF code_of_less [of a] code_of_less [of a] code_of_less [of a]]
  show ?case by (simp add: b64_digit_ch [OF d(1)] b64_digit_ch [OF d(5)])
next
  case (3 a b)
  note d = b64_digits [OF code_of_less [of a] code_of_less [of b] code_of_less [of b]]
  show ?case by (simp add: b64_digit_ch [OF d(1)] b64_digit_ch [OF d(2)] b64_digit_ch [OF d(6)])
next
  case (4 a b c s)
  note d = b64_digits [OF code_of_less [of a] code_of_less [of b] code_of_less [of c]]
  show ?case by (simp add: b64_digit_ch [OF d(1)] b64_digit_ch [OF d(2)] b64_digit_ch [OF d(3)] b64_digit_ch [OF d(4)] 4)
qed simp

lemma line_end_codes: "code_of nl_ch = 10" "code_of cr_ch = 13"
  by (simp_all add: code_of_def)

lemma b64_back: "b64_decode (b64_encode s) = Some s"
proof -
  have "filter (\<lambda>c. c \<noteq> nl_ch \<and> c \<noteq> cr_ch) (b64_encode s) = b64_encode s"
    using b64_encode_chars [of s] line_end_codes by (intro filter_True) (auto simp: list_all_iff b64_text_ch_def)
  then show ?thesis by (simp only: b64_decode_def b64_quads_back)
qed

lemma valid_text_ascii: "(\<And>c. c \<in> set s \<Longrightarrow> code_of c < 128) \<Longrightarrow> valid_text s = s"
  by (induction s) (simp_all add: valid_text.simps)

section \<open>Payloads read back\<close>

lemma bytes_json_ok: "valid_json (bytes_json b) = bytes_json b" "nums_ok (bytes_json b)"
  using valid_text_ascii [of "b64_encode b"] b64_encode_chars [of b] by (auto simp: bytes_json_def list_all_iff b64_text_ch_def)

lemma payload_names:
  "valid_text ''version'' = ''version''" "valid_text ''wrapped_dek'' = ''wrapped_dek''" "valid_text ''nonce'' = ''nonce''"
  "valid_text ''ciphertext'' = ''ciphertext''"
  by code_simp+

lemma payload_fold_eq:
  "fold_eq ''version'' ''version''" "fold_eq ''wrapped_dek'' ''wrapped_dek''" "fold_eq ''nonce'' ''nonce''"
  "fold_eq ''ciphertext'' ''ciphertext''"
  "\<not> fold_eq ''version'' ''wrapped_dek''" "\<not> fold_eq ''version'' ''nonce''" "\<not> fold_eq ''version'' ''ciphertext''"
  "\<not> fold_eq ''wrapped_dek'' ''version''" "\<not> fold_eq ''wrapped_dek'' ''nonce''" "\<not> fold_eq ''wrapped_dek'' ''ciphertext''"
  "\<not> fold_eq ''nonce'' ''version''" "\<not> fold_eq ''nonce'' ''wrapped_dek''" "\<not> fold_eq ''nonce'' ''ciphertext''"
  "\<not> fold_eq ''ciphertext'' ''version''" "\<not> fold_eq ''ciphertext'' ''wrapped_dek''" "\<not> fold_eq ''ciphertext'' ''nonce''"
  by code_simp+

lemma bytes_members:
  "fold_eq n name \<Longrightarrow> bytes_member name (n, bytes_json b) acc = (b, snd acc)"
  "\<not> fold_eq n name \<Longrightarrow> bytes_member name (n, j) acc = acc"
  by (simp_all add: bytes_member_def bytes_json_def b64_back)

lemma payload_back:
  assumes "int64 (kp_Version p)"
  shows "decode_payload (payload_text p) = Some p"
proof -
  let ?ms = "[(''version'', JInt (kp_Version p)), (''wrapped_dek'', bytes_json (kp_WrappedDEK p)),
       (''nonce'', bytes_json (kp_Nonce p)), (''ciphertext'', bytes_json (kp_Ciphertext p))]"
  have "struct_members (payload_text p) = Some ?ms"
    unfolding payload_text_def by (rule obj_members) (simp_all add: bytes_json_ok payload_names)
  moreover have "num_field ''version'' ?ms = (kp_Version p, True)"
    using assms by (simp add: num_field_def payload_fold_eq)
  moreover have "bytes_field ''wrapped_dek'' ?ms = (kp_WrappedDEK p, True)" "bytes_field ''nonce'' ?ms = (kp_Nonce p, True)"
    "bytes_field ''ciphertext'' ?ms = (kp_Ciphertext p, True)"
    by (simp_all add: bytes_field_def bytes_members payload_fold_eq)
  ultimately show ?thesis by (simp add: decode_payload_def)
qed

section \<open>The cache of unwrapped keys\<close>

text \<open>
  What the key service is relied on for: under a key's name a wrapped key is always unwrapped to the same key \<open>K\<close>.
\<close>

definition unwraps :: "'s cipher_env \<Rightarrow> (string \<Rightarrow> string \<Rightarrow> string) \<Rightarrow> bool" where
  "unwraps k K \<longleftrightarrow> (\<forall>name wrapped s dek s1. kz_Decrypt k name wrapped s = (Inr dek, s1) \<longrightarrow> dek = K name wrapped)"

text \<open>Every key in the cache is the one the key service would give for a wrapped key of \<open>W\<close>.\<close>

definition cache_true :: "'s cipher_env \<Rightarrow> (string \<Rightarrow> string \<Rightarrow> string) \<Rightarrow> string set \<Rightarrow> kms_cipher \<Rightarrow> bool" where
  "cache_true k K W c \<longleftrightarrow>
     (\<forall>cache. kc_dekCache c = Some cache \<longrightarrow>
        (\<forall>(key, e) \<in> set (dc_entries cache).
           \<exists>v w. w \<in> W \<and> key = kmsEnvelopeDEKCacheKey k v w \<and> de_dek e = K (kmsEnvelopeCryptoKeyName v (kc_keyName c)) w))"

text \<open>No two of these wrapped keys have the same hash.\<close>

definition hashes_apart :: "'s cipher_env \<Rightarrow> string set \<Rightarrow> bool" where
  "hashes_apart k W \<longleftrightarrow> inj_on (\<lambda>w. hex_text (kz_sha k w)) W"

lemma last_part_eq: "x \<notin> set u \<Longrightarrow> x \<notin> set v \<Longrightarrow> a @ x # u = b @ x # v \<Longrightarrow> a = b \<and> u = v"
proof (induction a arbitrary: b)
  case Nil
  then show ?case by (cases b) auto
next
  case (Cons y a)
  then show ?case by (cases b) auto
qed

lemma cache_key_inj:
  assumes "kmsEnvelopeDEKCacheKey k v w = kmsEnvelopeDEKCacheKey k v' w'" and "hashes_apart k W" and "w \<in> W" and "w' \<in> W"
  shows "TrimSpace v = TrimSpace v' \<and> w = w'"
proof -
  have no_colon: "CHR '':'' \<notin> set (hex_text x)" for x
  proof -
    have "CHR '':'' \<notin> set hex_digits" by code_simp
    then show ?thesis using hex_text_set [of x] by blast
  qed
  have "TrimSpace v @ CHR '':'' # hex_text (kz_sha k w) = TrimSpace v' @ CHR '':'' # hex_text (kz_sha k w')"
    using assms(1) by (simp add: kmsEnvelopeDEKCacheKey_def)
  note parts = last_part_eq [OF no_colon no_colon this]
  have "TrimSpace v = TrimSpace v'" by (rule conjunct1 [OF parts])
  moreover have "hex_text (kz_sha k w) = hex_text (kz_sha k w')" by (rule conjunct2 [OF parts])
  ultimately show ?thesis using assms(2-4) unfolding hashes_apart_def by (blast dest: inj_onD)
qed

lemma crypto_name_trimmed: "TrimSpace v = TrimSpace v' \<Longrightarrow> kmsEnvelopeCryptoKeyName v f = kmsEnvelopeCryptoKeyName v' f"
  by (simp add: kmsEnvelopeCryptoKeyName_def)

lemma set_delete: "set (AList.delete key es) \<subseteq> set es"
  by (auto simp: AList.delete_eq)

lemma set_update: "set (AList.update key e es) \<subseteq> insert (key, e) (set es)"
  by (induction es) auto

lemma set_evict: "set (evict_down most n es) \<subseteq> set es"
proof (induction n arbitrary: es)
  case (Suc n)
  show ?case using order.trans [OF Suc set_delete] by simp
qed simp

lemma dek_Get_entries:
  assumes "dek_Get now key (Some c) = (r, cache)"
  shows "\<exists>c1. cache = Some c1 \<and> (\<forall>(x, e) \<in> set (dc_entries c1). \<exists>e0. (x, e0) \<in> set (dc_entries c) \<and> de_dek e = de_dek e0)"
    and "r = Some dek \<Longrightarrow> \<exists>e. (key, e) \<in> set (dc_entries c) \<and> de_dek e = dek \<and> now \<le> de_expiresAt e"
proof -
  consider (none) "map_of (dc_entries c) key = None" "r = None" "cache = Some c"
    | (expired) e where "map_of (dc_entries c) key = Some e" "r = None" "cache = Some (c\<lparr>dc_entries := AList.delete key (dc_entries c)\<rparr>)"
    | (hit) e where "map_of (dc_entries c) key = Some e" "r = Some (de_dek e)" "now \<le> de_expiresAt e"
        "cache = Some (c\<lparr>dc_entries := AList.update key (e\<lparr>de_usedAt := now\<rparr>) (dc_entries c)\<rparr>)"
    using assms by (auto simp: dek_Get_def split: option.splits if_splits)
  then have "(\<exists>c1. cache = Some c1 \<and> (\<forall>(x, e) \<in> set (dc_entries c1). \<exists>e0. (x, e0) \<in> set (dc_entries c) \<and> de_dek e = de_dek e0))
    \<and> (r = Some dek \<longrightarrow> (\<exists>e. (key, e) \<in> set (dc_entries c) \<and> de_dek e = dek \<and> now \<le> de_expiresAt e))"
  proof cases
    case none
    then show ?thesis by auto
  next
    case expired
    then show ?thesis using set_delete [of key "dc_entries c"] by fastforce
  next
    case hit
    then have "(key, e) \<in> set (dc_entries c)" by (simp add: map_of_SomeD)
    then show ?thesis using hit set_update [of key "e\<lparr>de_usedAt := now\<rparr>" "dc_entries c"] by fastforce
  qed
  then show "\<exists>c1. cache = Some c1 \<and> (\<forall>(x, e) \<in> set (dc_entries c1). \<exists>e0. (x, e0) \<in> set (dc_entries c) \<and> de_dek e = de_dek e0)"
    and "r = Some dek \<Longrightarrow> \<exists>e. (key, e) \<in> set (dc_entries c) \<and> de_dek e = dek \<and> now \<le> de_expiresAt e" by blast+
qed

lemma dek_Set_entries:
  assumes "dek_Set now key dek (Some c) = Some c1"
  shows "\<forall>(x, e) \<in> set (dc_entries c1). (x = key \<and> de_dek e = dek) \<or> (x, e) \<in> set (dc_entries c)"
proof -
  let ?e = "\<lparr>de_dek = dek, de_expiresAt = now + dc_ttl c, de_usedAt = now\<rparr>"
  have "set (dc_entries (dek_evictLocked now (c\<lparr>dc_entries := es\<rparr>))) \<subseteq> set es" for es
    using set_evict by (fastforce simp: dek_evictLocked_def Let_def)
  then show ?thesis
    using assms set_update [of key ?e "dc_entries c"] by (fastforce simp: dek_Set_def split: if_splits)
qed

lemma cache_true_part:
  assumes "cache_true k K W c" and "kc_keyName c1 = kc_keyName c"
    and "\<And>cache1 x e. kc_dekCache c1 = Some cache1 \<Longrightarrow> (x, e) \<in> set (dc_entries cache1) \<Longrightarrow>
      (\<exists>cache e0. kc_dekCache c = Some cache \<and> (x, e0) \<in> set (dc_entries cache) \<and> de_dek e = de_dek e0) \<or>
      (\<exists>v w. w \<in> W \<and> x = kmsEnvelopeDEKCacheKey k v w \<and> de_dek e = K (kmsEnvelopeCryptoKeyName v (kc_keyName c)) w)"
  shows "cache_true k K W c1"
  unfolding cache_true_def
proof (intro allI impI ballI, clarify)
  fix cache1 x e
  assume "kc_dekCache c1 = Some cache1" "(x, e) \<in> set (dc_entries cache1)"
  from assms(3) [OF this]
  show "\<exists>v w. w \<in> W \<and> x = kmsEnvelopeDEKCacheKey k v w \<and> de_dek e = K (kmsEnvelopeCryptoKeyName v (kc_keyName c1)) w"
    using assms(1,2) by (fastforce simp: cache_true_def)
qed

lemma unwrap_true:
  assumes "unwrap_dek k c v w s = (r, c1, s1)" and "cache_true k K W c" and "hashes_apart k W" and "unwraps k K" and "w \<in> W"
  shows "cache_true k K W c1" and "kc_keyName c1 = kc_keyName c"
    and "r = Inr dek \<Longrightarrow> dek = K (kmsEnvelopeCryptoKeyName v (kc_keyName c)) w"
    and "r = Inl err \<Longrightarrow> \<exists>e. err = Wrap ''unwrap dek: '' e"
proof -
  let ?key = "kmsEnvelopeDEKCacheKey k v w" and ?name = "kmsEnvelopeCryptoKeyName v (kc_keyName c)"
  obtain hit cache where g: "dek_Get (kz_now k s) ?key (kc_dekCache c) = (hit, cache)" by (rule prod.exhaust)
  have old: "(\<exists>cache e0. kc_dekCache c = Some cache \<and> (x, e0) \<in> set (dc_entries cache) \<and> de_dek e = de_dek e0)"
    if "cache = Some cache1" "(x, e) \<in> set (dc_entries cache1)" for cache1 x e
  proof (cases "kc_dekCache c")
    case None
    then show ?thesis using g that by (simp add: dek_Get_def)
  next
    case (Some c0)
    then show ?thesis using dek_Get_entries(1) [OF g [unfolded Some]] that by fastforce
  qed
  have "cache_true k K W c1 \<and> kc_keyName c1 = kc_keyName c \<and> (r = Inr dek \<longrightarrow> dek = K ?name w) \<and>
    (r = Inl err \<longrightarrow> (\<exists>e. err = Wrap ''unwrap dek: '' e))"
  proof (cases hit)
    case (Some d)
    then have c1: "r = Inr d" "c1 = c\<lparr>kc_dekCache := cache\<rparr>" using assms(1) g by (simp_all add: unwrap_dek_def)
    obtain c0 where c0: "kc_dekCache c = Some c0" using g Some by (cases "kc_dekCache c") (auto simp: dek_Get_def)
    obtain e where e: "(?key, e) \<in> set (dc_entries c0)" "de_dek e = d"
      using dek_Get_entries(2) [OF g [unfolded c0], of d] Some by blast
    then obtain v' w' where vw: "w' \<in> W" "?key = kmsEnvelopeDEKCacheKey k v' w'" "d = K (kmsEnvelopeCryptoKeyName v' (kc_keyName c)) w'"
      using assms(2) c0 unfolding cache_true_def by fastforce
    then have "TrimSpace v = TrimSpace v' \<and> w = w'" using cache_key_inj assms(3,5) by blast
    then have "d = K ?name w" using vw(3) crypto_name_trimmed [of v v'] by simp
    moreover have "cache_true k K W c1" using old c1(2) by (intro cache_true_part [OF assms(2)]) auto
    ultimately show ?thesis using c1 by simp
  next
    case None
    obtain u s2 where u: "kz_Decrypt k ?name w s = (u, s2)" by (rule prod.exhaust)
    show ?thesis
    proof (cases u)
      case (Inl e)
      then have c1: "r = Inl (Wrap ''unwrap dek: '' e)" "c1 = c\<lparr>kc_dekCache := cache\<rparr>"
        using assms(1) g None u by (simp_all add: unwrap_dek_def)
      moreover have "cache_true k K W c1" using old c1(2) by (intro cache_true_part [OF assms(2)]) auto
      ultimately show ?thesis by (intro conjI impI exI [of _ e]) simp_all
    next
      case (Inr d)
      then have c1: "r = Inr d" "c1 = c\<lparr>kc_dekCache := dek_Set (kz_now k s2) ?key d cache\<rparr>"
        using assms(1) g None u by (auto simp: unwrap_dek_def)
      have d: "d = K ?name w" using assms(4) u Inr unfolding unwraps_def by blast
      have "cache_true k K W c1"
      proof (rule cache_true_part [OF assms(2)])
        show "kc_keyName c1 = kc_keyName c" using c1(2) by simp
        fix cache1 x e
        assume a: "kc_dekCache c1 = Some cache1" "(x, e) \<in> set (dc_entries cache1)"
        then have set: "dek_Set (kz_now k s2) ?key d cache = Some cache1" using c1(2) by simp
        then obtain c2 where c2: "cache = Some c2" by (cases cache) (auto simp: dek_Set_def)
        have "(x = ?key \<and> de_dek e = d) \<or> (x, e) \<in> set (dc_entries c2)"
          using dek_Set_entries [OF set [unfolded c2]] a(2) by blast
        then show "(\<exists>cache e0. kc_dekCache c = Some cache \<and> (x, e0) \<in> set (dc_entries cache) \<and> de_dek e = de_dek e0) \<or>
            (\<exists>v w. w \<in> W \<and> x = kmsEnvelopeDEKCacheKey k v w \<and> de_dek e = K (kmsEnvelopeCryptoKeyName v (kc_keyName c)) w)"
          using old [OF c2] d assms(5) by blast
      qed
      then show ?thesis using c1 d by simp
    qed
  qed
  then show "cache_true k K W c1" "kc_keyName c1 = kc_keyName c"
    "r = Inr dek \<Longrightarrow> dek = K ?name w" "r = Inl err \<Longrightarrow> \<exists>e. err = Wrap ''unwrap dek: '' e" by blast+
qed

section \<open>Opening\<close>

text \<open>What opening means without a cache: a payload is opened with the key that its wrapped key stands for.\<close>

definition envelope_spec :: "'s cipher_env \<Rightarrow> (string \<Rightarrow> string \<Rightarrow> string) \<Rightarrow> string \<Rightarrow> string \<Rightarrow> string \<Rightarrow> string \<Rightarrow> opened" where
  "envelope_spec k K keyName ciphertext keyVersion0 backend =
     (if backend \<noteq> kmsEnvelopeEncryptionBackend then Some (Inl (Err (''unsupported encryption backend '' @ Quote backend)))
      else case decode_payload ciphertext of
             None \<Rightarrow> Some (Inl (Err ''decode envelope payload: ''))
           | Some p \<Rightarrow>
               if kp_Version p \<noteq> 1 then Some (Inl (Err (Sprintf ''unsupported envelope payload version %d'' [FD (kp_Version p)])))
               else let v = (if TrimSpace keyVersion0 = [] then keyName else TrimSpace keyVersion0)
                    in open_payload k (K (kmsEnvelopeCryptoKeyName v keyName) (kp_WrappedDEK p)) p v)"

text \<open>Earlier calls, each in a world of its own.\<close>

fun decrypt_all :: "'s cipher_env \<Rightarrow> (string \<times> string \<times> string \<times> 's) list \<Rightarrow> kms_cipher \<Rightarrow> kms_cipher" where
  "decrypt_all k [] c = c"
| "decrypt_all k ((ciphertext, keyVersion, backend, s) # calls) c =
     decrypt_all k calls (fst (snd (kms_Decrypt k c ciphertext keyVersion backend s)))"

definition wrapped_keys :: "string list \<Rightarrow> string list" where
  "wrapped_keys texts = map kp_WrappedDEK (List.map_filter decode_payload texts)"

lemma kms_Decrypt_true:
  assumes "kms_Decrypt k c ciphertext keyVersion backend s = (ans, c1, s1)" and "cache_true k K W c" and "hashes_apart k W"
    and "unwraps k K" and "set (wrapped_keys [ciphertext]) \<subseteq> W"
  shows "cache_true k K W c1" and "kc_keyName c1 = kc_keyName c"
    and "ans = envelope_spec k K (kc_keyName c) ciphertext keyVersion backend \<or> (\<exists>e. ans = Some (Inl (Wrap ''unwrap dek: '' e)))"
proof -
  let ?spec = "envelope_spec k K (kc_keyName c) ciphertext keyVersion backend"
  have "cache_true k K W c1 \<and> kc_keyName c1 = kc_keyName c \<and> (ans = ?spec \<or> (\<exists>e. ans = Some (Inl (Wrap ''unwrap dek: '' e))))"
  proof (cases "backend = kmsEnvelopeEncryptionBackend \<and> (\<exists>p. decode_payload ciphertext = Some p \<and> kp_Version p = 1)")
    case False
    then have "ans = ?spec" "c1 = c"
      using assms(1) by (auto simp: kms_Decrypt_def envelope_spec_def split: option.splits if_splits)
    then show ?thesis using assms(2) by simp
  next
    case True
    then obtain p where p: "decode_payload ciphertext = Some p" "kp_Version p = 1" by blast
    let ?v = "if TrimSpace keyVersion = [] then kc_keyName c else TrimSpace keyVersion"
    obtain r c2 s2 where u: "unwrap_dek k c ?v (kp_WrappedDEK p) s = (r, c2, s2)" by (metis prod.exhaust)
    have "kp_WrappedDEK p \<in> W" using assms(5) p(1) by (simp add: wrapped_keys_def map_filter_simps)
    note t = unwrap_true [OF u assms(2,3,4) this]
    have spec: "?spec = open_payload k (K (kmsEnvelopeCryptoKeyName ?v (kc_keyName c)) (kp_WrappedDEK p)) p ?v"
      using True p by (simp add: envelope_spec_def Let_def)
    have step: "(ans, c1, s1) = (case (r, c2, s2) of (Inl err, c1, s1) \<Rightarrow> (Some (Inl err), c1, s1)
        | (Inr dek, c1, s1) \<Rightarrow> (open_payload k dek p ?v, c1, s1))"
      using assms(1) True p u by (simp add: kms_Decrypt_def Let_def)
    then have "c1 = c2" by (cases r) simp_all
    moreover have "ans = ?spec \<or> (\<exists>e. ans = Some (Inl (Wrap ''unwrap dek: '' e)))"
    proof (cases r)
      case (Inl err)
      then show ?thesis using t(4) [OF Inl] step by auto
    next
      case (Inr dek)
      then show ?thesis using t(3) [OF Inr] step spec by simp
    qed
    ultimately show ?thesis using t(1,2) by simp
  qed
  then show "cache_true k K W c1" "kc_keyName c1 = kc_keyName c"
    "ans = ?spec \<or> (\<exists>e. ans = Some (Inl (Wrap ''unwrap dek: '' e)))" by blast+
qed

lemma decrypt_all_true:
  assumes "cache_true k K W c" and "hashes_apart k W" and "unwraps k K" and "set (wrapped_keys (map fst calls)) \<subseteq> W"
  shows "cache_true k K W (decrypt_all k calls c) \<and> kc_keyName (decrypt_all k calls c) = kc_keyName c"
  using assms
proof (induction calls arbitrary: c)
  case (Cons call calls)
  obtain ciphertext keyVersion backend s where call: "call = (ciphertext, keyVersion, backend, s)" by (metis prod.exhaust)
  obtain ans c1 s1 where d: "kms_Decrypt k c ciphertext keyVersion backend s = (ans, c1, s1)" by (metis prod.exhaust)
  have "set (wrapped_keys [ciphertext]) \<subseteq> W" "set (wrapped_keys (map fst calls)) \<subseteq> W"
    using Cons.prems(4) by (auto simp: call wrapped_keys_def map_filter_simps split: option.splits)
  then show ?case
    using Cons.IH [of c1] kms_Decrypt_true(1,2) [OF d Cons.prems(1-3)] Cons.prems(2,3) by (simp add: call d)
qed simp

lemma fresh_cipher_true:
  "newGCPKMSEnvelopeCipherWithClient keyName = Inr c \<Longrightarrow> cache_true k K W c \<and> kc_keyName c = TrimSpace keyName"
  by (auto simp: newGCPKMSEnvelopeCipherWithClient_def newKMSDEKCache_def cache_true_def split: if_splits)

lemma opened_exactly:
  assumes "unwraps k K" and "newGCPKMSEnvelopeCipherWithClient keyName = Inr c"
    and "hashes_apart k (set (wrapped_keys (ciphertext # map fst calls)))"
    and "kms_Decrypt k (decrypt_all k calls c) ciphertext keyVersion backend s = (ans, c1, s1)"
  shows "ans = envelope_spec k K (TrimSpace keyName) ciphertext keyVersion backend \<or>
    (\<exists>e. ans = Some (Inl (Wrap ''unwrap dek: '' e)))"
proof -
  let ?W = "set (wrapped_keys (ciphertext # map fst calls))"
  have sub: "set (wrapped_keys [ciphertext]) \<subseteq> ?W" "set (wrapped_keys (map fst calls)) \<subseteq> ?W"
    by (auto simp: wrapped_keys_def map_filter_simps split: option.splits)
  have fresh: "cache_true k K ?W c" "kc_keyName c = TrimSpace keyName" using fresh_cipher_true [OF assms(2)] by blast+
  note t = decrypt_all_true [OF fresh(1) assms(3,1) sub(2)]
  show ?thesis
    using kms_Decrypt_true(3) [OF assms(4) conjunct1 [OF t] assms(3,1) sub(1)] conjunct2 [OF t] fresh(2) by simp
qed

text \<open>
  C12: The cache of unwrapped keys changes no answer: after whatever calls, at whatever times, a stored credential
  opens to exactly what it opens to with the key service alone, unless the service does not answer, provided it
  unwraps a wrapped key to one key and no two of the wrapped keys seen have the same hash.
\<close>

theorem cached_keys_change_nothing:
  assumes "unwraps k K" and "newGCPKMSEnvelopeCipherWithClient keyName = Inr c"
    and "hashes_apart k (set (wrapped_keys (ciphertext # map fst calls)))"
    and "kms_Decrypt k (decrypt_all k calls c) ciphertext keyVersion backend s = (ans, c1, s1)"
  shows "ans = envelope_spec k K (TrimSpace keyName) ciphertext keyVersion backend \<or>
    (\<exists>e. ans = Some (Inl (Wrap ''unwrap dek: '' e)))"
  by (rule opened_exactly [OF assms])

section \<open>Sealing and opening\<close>

text \<open>
  What the primitives are relied on for: AES-GCM opens what it sealed, so many random bytes are drawn as were asked
  for, and a wrapped key comes with the name of a version of the key and is unwrapped under the key's own name.
\<close>

definition primitives_ok :: "'s cipher_env \<Rightarrow> (string \<Rightarrow> string \<Rightarrow> string) \<Rightarrow> bool" where
  "primitives_ok k K \<longleftrightarrow>
     (\<forall>key nonce aad plain. kz_open k key nonce aad (kz_seal k key nonce aad plain) = Inr plain) \<and>
     (\<forall>n s r s1. kz_random k n s = (Inr r, s1) \<longrightarrow> length r = n) \<and>
     (\<forall>name dek s v w s1. kz_Encrypt k name dek s = (Inr (v, w), s1) \<longrightarrow>
        K name w = dek \<and> TrimSpace v = v \<and> v \<noteq> [] \<and> (\<forall>other. kmsEnvelopeCryptoKeyName v other = name))"

lemma sealed_spec:
  assumes "kms_Encrypt k c plain s = (Inr (ciphertext, keyVersion, backend), s1)" and "primitives_ok k K"
  shows "envelope_spec k K other ciphertext keyVersion backend = Some (Inr plain)"
proof -
  obtain dek s2 v w s3 nonce s4 where
    e: "kz_random k 32 s = (Inr dek, s2)" "aes_key_error dek = None" "kz_Encrypt k (kc_keyName c) dek s2 = (Inr (v, w), s3)"
      "kz_random k nonce_size s3 = (Inr nonce, s4)"
    and out: "keyVersion = (if TrimSpace v = [] then kc_keyName c else TrimSpace v)" "backend = kmsEnvelopeEncryptionBackend"
      "ciphertext = payload_text \<lparr>kp_Version = 1, kp_WrappedDEK = w, kp_Nonce = nonce,
         kp_Ciphertext = kz_seal k dek nonce (kmsEnvelopeAAD keyVersion) plain\<rparr>"
    using assms(1) by (auto simp: kms_Encrypt_def Let_def split: prod.splits sum.splits option.splits)
  have laws: "K (kc_keyName c) w = dek" "TrimSpace v = v" "v \<noteq> []" "\<And>other. kmsEnvelopeCryptoKeyName v other = kc_keyName c"
    using assms(2) e(3) unfolding primitives_ok_def by blast+
  have "length nonce = nonce_size" "\<And>key n aad x. kz_open k key n aad (kz_seal k key n aad x) = Inr x"
    using assms(2) e(4) unfolding primitives_ok_def by blast+
  moreover have "keyVersion = v" using out(1) laws(2,3) by simp
  moreover have "decode_payload ciphertext = Some \<lparr>kp_Version = 1, kp_WrappedDEK = w, kp_Nonce = nonce,
      kp_Ciphertext = kz_seal k dek nonce (kmsEnvelopeAAD keyVersion) plain\<rparr>"
    unfolding out(3) by (rule payload_back) (simp add: int64_def min_int64_def max_int64_def)
  ultimately show ?thesis
    using laws e(2) out(2) by (simp add: envelope_spec_def open_payload_def)
qed

text \<open>
  C11: A credential that was sealed is opened to what it was, by any instance of the service, whatever key name that
  one is configured with and whatever its cache went through, unless the key service does not answer: the stored key
  version says which key it is.
\<close>

theorem sealed_credential_opens:
  assumes "kms_Encrypt k sealer plain s0 = (Inr (ciphertext, keyVersion, backend), s1)" and "primitives_ok k K" and "unwraps k K"
    and "newGCPKMSEnvelopeCipherWithClient keyName = Inr c" and "hashes_apart k (set (wrapped_keys (ciphertext # map fst calls)))"
    and "kms_Decrypt k (decrypt_all k calls c) ciphertext keyVersion backend s = (ans, c1, s2)"
  shows "ans = Some (Inr plain) \<or> (\<exists>e. ans = Some (Inl (Wrap ''unwrap dek: '' e)))"
  using opened_exactly [OF assms(3-6)] sealed_spec [OF assms(1,2)] by simp

text \<open>A local key opens what it sealed, also behind a cipher that seals with the key service now.\<close>

lemma local_sealed_opens:
  assumes "local_Encrypt k key plain s = (Inr (ciphertext, keyVersion, backend), s1)" and "primitives_ok k K"
  shows "local_Decrypt k key ciphertext keyVersion backend = Inr plain"
proof -
  obtain nonce where n: "aes_key_error (derivedKey k key) = None" "kz_random k nonce_size s = (Inr nonce, s1)"
      "ciphertext = nonce @ kz_seal k (derivedKey k key) nonce [] plain" "keyVersion = localEncryptionBackend" "backend = localEncryptionBackend"
    using assms(1) by (auto simp: local_Encrypt_def split: prod.splits sum.splits option.splits)
  have "length nonce = nonce_size" "\<And>key n aad x. kz_open k key n aad (kz_seal k key n aad x) = Inr x"
    using assms(2) n(2) unfolding primitives_ok_def by blast+
  then show ?thesis using n by (simp add: local_Decrypt_def)
qed

lemma backends_differ: "localEncryptionBackend \<noteq> kmsEnvelopeEncryptionBackend"
  by (simp add: localEncryptionBackend_def kmsEnvelopeEncryptionBackend_def)

lemma legacy_still_opened:
  assumes "NewCredentialCipher k cfg a cs s = (Inr x, cs1, s1)" and "effectiveEncryptionBackend cfg = kmsEnvelopeEncryptionBackend"
    and "TrimSpace (ec_MasterKey cfg) \<noteq> []"
  shows "cipher_Decrypt k x ciphertext keyVersion localEncryptionBackend cs1 s1 =
    (Some (local_Decrypt k (TrimSpace (ec_MasterKey cfg)) ciphertext keyVersion localEncryptionBackend), cs1, s1)"
  using assms backends_differ
  by (auto simp: NewCredentialCipher_def NewLocalMasterKey_def NewMultiCipher_def cipher_Decrypt_def leaf_Decrypt_def Let_def
      split: sum.splits if_splits)

section \<open>The size of the cache\<close>

text \<open>The loop that evicts ends because what it chooses is in the map, if no key is empty.\<close>

lemma oldest_in:
  assumes "es \<noteq> []" and "\<forall>(key, e) \<in> set es. key \<noteq> []"
  shows "fst (oldest_entry es) \<in> fst ` set es"
proof -
  let ?f = "\<lambda>(key, e) (oldestKey, oldestAt). if oldestKey = [] \<or> de_usedAt e < oldestAt then (key, de_usedAt e) else (oldestKey, oldestAt)"
  have step: "fst (fold ?f es acc) \<in> insert (fst acc) (fst ` set es)" for acc and es :: "(string \<times> dek_entry) list"
  proof (induction es arbitrary: acc)
    case (Cons x es)
    obtain key e where x: "x = (key, e)" by (rule prod.exhaust)
    obtain k0 t0 where acc: "acc = (k0, t0)" by (rule prod.exhaust)
    show ?case using Cons [of "?f x acc"] by (auto simp: x acc split: if_splits)
  qed simp
  obtain key e rest where es: "es = (key, e) # rest" using assms(1) by (metis list.exhaust prod.exhaust)
  have "fst (oldest_entry es) \<in> insert key (fst ` set rest)"
    using step [of rest "(key, de_usedAt e)"] by (simp add: oldest_entry_def es)
  then show ?thesis by (auto simp: es)
qed

lemma delete_shorter: "key \<in> fst ` set es \<Longrightarrow> length (AList.delete key es) < length es"
proof (induction es)
  case (Cons x es)
  show ?case
  proof (cases "fst x = key")
    case True
    then show ?thesis using length_delete_le [of key es] by (cases x) (simp add: less_Suc_eq_le)
  next
    case False
    then have "length (AList.delete key es) < length es" using Cons by auto
    then show ?thesis using False by (cases x) simp
  qed
qed simp

lemma evict_down_most: "\<forall>(key, e) \<in> set es. key \<noteq> [] \<Longrightarrow> length es \<le> most + n \<Longrightarrow> length (evict_down most n es) \<le> most"
proof (induction n arbitrary: es)
  case (Suc n)
  show ?case
  proof (cases "most < length es")
    case True
    let ?es = "AList.delete (fst (oldest_entry es)) es"
    have "length ?es < length es" using True Suc.prems(1) by (intro delete_shorter oldest_in) auto
    then have "length (evict_down most n ?es) \<le> most"
      using Suc.prems set_delete [of "fst (oldest_entry es)" es] by (intro Suc.IH) auto
    then show ?thesis using True by simp
  qed simp
qed simp

lemma dek_cache_bounded:
  assumes "dek_Set now key dek (Some c) = Some c1" and "\<forall>(key, e) \<in> set (dc_entries c). key \<noteq> []"
    and "length (dc_entries c) \<le> dc_maxEntries c"
  shows "length (dc_entries c1) \<le> dc_maxEntries c1" and "dc_maxEntries c1 = dc_maxEntries c"
proof -
  let ?e = "\<lparr>de_dek = dek, de_expiresAt = now + dc_ttl c, de_usedAt = now\<rparr>"
  let ?es = "AList.update key ?e (dc_entries c)"
  have "length (evict_down (dc_maxEntries c) (length (filter P ?es)) (filter P ?es)) \<le> dc_maxEntries c" if "key \<noteq> []" for P
    using that assms(2) set_update [of key ?e "dc_entries c"] by (intro evict_down_most) fastforce+
  then show "length (dc_entries c1) \<le> dc_maxEntries c1" "dc_maxEntries c1 = dc_maxEntries c"
    using assms by (auto simp: dek_Set_def dek_evictLocked_def Let_def split: if_splits)
qed

section \<open>An example\<close>

text \<open>A key service with one key, \<^verbatim>\<open>k\<close>, that turns keys round; the world is the time.\<close>

definition toy_cipher_env :: "int cipher_env" where
  "toy_cipher_env =
     \<lparr>kz_Encrypt = (\<lambda>name dek s. (if name = ''k'' then Inr (''k/cryptoKeyVersions/1'', rev dek) else Inl (Err ''no such key''), s)),
      kz_Decrypt = (\<lambda>name wrapped s. (Inr (rev wrapped), s)), kz_GetCryptoKey = (\<lambda>name s. (None, s)), kz_Close = (\<lambda>s. (None, s)),
      kz_client = (\<lambda>_. None), kz_random = (\<lambda>n s. (Inr (replicate n (CHR ''r'')), s)), kz_now = id,
      kz_seal = (\<lambda>key nonce aad plain. rev plain), kz_open = (\<lambda>key nonce aad sealed. Inr (rev sealed)), kz_sha = id\<rparr>"

lemma toy_primitives: "primitives_ok toy_cipher_env (\<lambda>name wrapped. rev wrapped)" "unwraps toy_cipher_env (\<lambda>name wrapped. rev wrapped)"
proof -
  have "kmsEnvelopeCryptoKeyName ''k/cryptoKeyVersions/1'' other = ''k''" for other
  proof -
    have "TrimSpace ''k/cryptoKeyVersions/1'' = ''k/cryptoKeyVersions/1''"
      "LastIndex ''k/cryptoKeyVersions/1'' ''/cryptoKeyVersions/'' = Some 1" by code_simp+
    then show ?thesis by (simp add: kmsEnvelopeCryptoKeyName_def)
  qed
  moreover have "TrimSpace ''k/cryptoKeyVersions/1'' = ''k/cryptoKeyVersions/1''" by code_simp
  ultimately show "primitives_ok toy_cipher_env (\<lambda>name wrapped. rev wrapped)"
    by (auto simp: primitives_ok_def toy_cipher_env_def split: if_splits)
  show "unwraps toy_cipher_env (\<lambda>name wrapped. rev wrapped)"
    by (simp add: unwraps_def toy_cipher_env_def)
qed

definition toy_cipher :: "string \<Rightarrow> kms_cipher" where
  "toy_cipher keyName = \<lparr>kc_keyName = keyName, kc_dekCache = newKMSDEKCache 300000000000 1024\<rparr>"

lemma toy_new: "newGCPKMSEnvelopeCipherWithClient ''k'' = Inr (toy_cipher ''k'')" "newGCPKMSEnvelopeCipherWithClient ''k2'' = Inr (toy_cipher ''k2'')"
proof -
  have "TrimSpace ''k'' = ''k''" "TrimSpace ''k2'' = ''k2''" by code_simp+
  then show "newGCPKMSEnvelopeCipherWithClient ''k'' = Inr (toy_cipher ''k'')" "newGCPKMSEnvelopeCipherWithClient ''k2'' = Inr (toy_cipher ''k2'')"
    by (simp_all add: newGCPKMSEnvelopeCipherWithClient_def toy_cipher_def)
qed

definition toy_text :: string where
  "toy_text = payload_text \<lparr>kp_Version = 1, kp_WrappedDEK = replicate 32 (CHR ''r''), kp_Nonce = replicate 12 (CHR ''r''), kp_Ciphertext = ''terces''\<rparr>"

lemma toy_sealed: "kms_Encrypt toy_cipher_env (toy_cipher ''k'') ''secret'' 0 = (Inr (toy_text, ''k/cryptoKeyVersions/1'', kmsEnvelopeEncryptionBackend), 0)"
proof -
  have "TrimSpace ''k/cryptoKeyVersions/1'' = ''k/cryptoKeyVersions/1''" by code_simp
  then show ?thesis
    by (simp add: kms_Encrypt_def toy_cipher_env_def toy_cipher_def toy_text_def aes_key_error_def nonce_size_def Let_def)
qed

lemma toy_payload: "decode_payload toy_text = Some \<lparr>kp_Version = 1, kp_WrappedDEK = replicate 32 (CHR ''r''), kp_Nonce = replicate 12 (CHR ''r''), kp_Ciphertext = ''terces''\<rparr>"
  unfolding toy_text_def by (rule payload_back) (simp add: int64_def min_int64_def max_int64_def)

lemma toy_keys: "wrapped_keys [toy_text, toy_text] = [replicate 32 (CHR ''r''), replicate 32 (CHR ''r'')]"
  by (simp add: wrapped_keys_def map_filter_simps toy_payload)

text \<open>A second call, out of the cache, on an instance with another key name.\<close>

definition toy_call :: "string \<times> string \<times> string \<times> int" where
  "toy_call = (toy_text, ''k/cryptoKeyVersions/1'', kmsEnvelopeEncryptionBackend, 0)"

definition toy_answer :: "opened \<times> kms_cipher \<times> int" where
  "toy_answer = kms_Decrypt toy_cipher_env (decrypt_all toy_cipher_env [toy_call] (toy_cipher ''k2'')) toy_text
     ''k/cryptoKeyVersions/1'' kmsEnvelopeEncryptionBackend 7"

lemma toy_apart: "hashes_apart toy_cipher_env (set (wrapped_keys (toy_text # map fst [toy_call])))"
  using toy_keys by (simp add: hashes_apart_def toy_call_def)

lemma open_payload_no_unwrap: "open_payload k dek p v \<noteq> Some (Inl (Wrap ''unwrap dek: '' e))"
  by (simp add: open_payload_def split: option.splits sum.splits)

lemma toy_Decrypt [simp]: "kz_Decrypt toy_cipher_env name wrapped s = (Inr (rev wrapped), s)"
  by (simp add: toy_cipher_env_def)

lemma toy_unwrap: "\<exists>dek c1 s1. unwrap_dek toy_cipher_env c v w s = (Inr dek, c1, s1)"
  by (simp add: unwrap_dek_def Let_def split: prod.splits option.splits)

lemma toy_answered: "fst toy_answer \<noteq> Some (Inl (Wrap ''unwrap dek: '' e))"
proof -
  let ?c = "decrypt_all toy_cipher_env [toy_call] (toy_cipher ''k2'')"
  have "TrimSpace ''k/cryptoKeyVersions/1'' \<noteq> []" by code_simp
  moreover obtain dek c1 s1 where
    "unwrap_dek toy_cipher_env ?c (TrimSpace ''k/cryptoKeyVersions/1'') (replicate 32 (CHR ''r'')) 7 = (Inr dek, c1, s1)"
    using toy_unwrap by blast
  ultimately have "\<exists>p v. fst toy_answer = open_payload toy_cipher_env dek p v"
    by (simp only: toy_answer_def kms_Decrypt_def toy_payload Let_def) auto
  then show ?thesis using open_payload_no_unwrap by metis
qed

theorem cached_keys_change_nothing_witness:
  "fst toy_answer = envelope_spec toy_cipher_env (\<lambda>name wrapped. rev wrapped) ''k2'' toy_text ''k/cryptoKeyVersions/1'' kmsEnvelopeEncryptionBackend"
proof -
  have "TrimSpace ''k2'' = ''k2''" by code_simp
  moreover obtain ans c1 s1 where a: "toy_answer = (ans, c1, s1)" by (metis prod.exhaust)
  ultimately show ?thesis
    using cached_keys_change_nothing [OF toy_primitives(2) toy_new(2) toy_apart a [unfolded toy_answer_def]] toy_answered a
    by (metis fst_conv)
qed

theorem sealed_credential_opens_witness: "fst toy_answer = Some (Inr ''secret'')"
proof -
  obtain ans c1 s1 where a: "toy_answer = (ans, c1, s1)" by (metis prod.exhaust)
  show ?thesis
    using sealed_credential_opens [OF toy_sealed toy_primitives toy_new(2) toy_apart a [unfolded toy_answer_def]] toy_answered a
    by (metis fst_conv)
qed

end
