(* ===== verification/Spec2Isabelle.thy ===== *)
theory Spec2Isabelle
  imports BoardInv Search Tags SdkProps RemoteProps AuthSign RateLimit CacheLive ApiTyped ApiProps PendingProps
    DolthubFork AuthCalls HostedProps ScoreboardProps LocalDb FedFlow Providers HandleCache CipherProps
begin

text \<open>
  A verification library for the wasteland: a board of wanted items that rigs share through Dolt
  databases on DoltHub.  It is a shallow embedding of the Go packages under
  \<^verbatim>\<open>internal/\<close>.  Every theory opens with the source files it models, and every definition has the name of
  the function or type it translates, with the receiver in front where two clash.

  \<^bold>\<open>The program.\<close>  An item is posted, claimed, completed, accepted, rejected or closed.  Each of these is an
  SQL text (package \<^verbatim>\<open>commons\<close>) that a database interface (package \<^verbatim>\<open>backend\<close>) runs on a local clone or on
  DoltHub, on the main branch or on a branch \<^verbatim>\<open>wl/<rig>/<item>\<close> that is sent as a pull request.
  Package \<^verbatim>\<open>sdk\<close> is the client that puts this together: it picks the branch, runs the text, and overlays
  what it reads with the states on branches and with the submissions that wait upstream.  Package
  \<^verbatim>\<open>api\<close> is an HTTP API over clients, with two read caches.  Package \<^verbatim>\<open>hosted\<close> runs it for many
  browsers, each with a session; the DoltHub keys of the users are in a separate service, package
  \<^verbatim>\<open>dolthubauth\<close>, which the hosted service calls with signed requests and which signs the requests to
  DoltHub.  Package \<^verbatim>\<open>remote\<close> talks to DoltHub about forks and pull requests, package \<^verbatim>\<open>federation\<close> keeps
  the configuration of the wastelands a rig has joined.

  \<^bold>\<open>Go itself.\<close>  \<^verbatim>\<open>Prelude\<close>: strings as lists of bytes, \<^verbatim>\<open>strings\<close>, \<^verbatim>\<open>strconv\<close>, \<^verbatim>\<open>fmt\<close>, Go's order and
  trimming.  \<^verbatim>\<open>GoJson\<close>, \<^verbatim>\<open>GoJsonOut\<close>, \<^verbatim>\<open>JsonBack\<close>: the decoder and encoder of
  \<^verbatim>\<open>encoding/json\<close>, with the theorem that the one reads what the other writes.  \<^verbatim>\<open>GoCsv\<close>: the reader of
  \<^verbatim>\<open>encoding/csv\<close>.  \<^verbatim>\<open>ApiJson\<close> has HTTP requests on a world that answers them.  \<^verbatim>\<open>FileSys\<close>: files and
  directories with calls that may fail, and the replacement of a file through a temporary one.

  \<^bold>\<open>The board\<close> (\<^verbatim>\<open>internal/commons\<close>).  \<^verbatim>\<open>SqlText\<close> and \<^verbatim>\<open>Commons\<close>: literals and the mutation texts.
  \<^verbatim>\<open>SqlSpec\<close>, \<^verbatim>\<open>DmlParse\<close>, \<^verbatim>\<open>DmlRead\<close>, \<^verbatim>\<open>DmlUpdate\<close>: what the database engine reads in such a text, a lexer and
  a parser with the effect on tables; this is the specification, the program only builds texts.
  \<^verbatim>\<open>Lifecycle\<close>: the transitions and who may make them.  \<^verbatim>\<open>Board\<close>: each text moves exactly the rows
  \<^verbatim>\<open>ValidateTransition\<close> allows.  \<^verbatim>\<open>BoardInv\<close>: whatever the user gives, a text is one statement of the kind
  intended, and the mutations keep the board consistent.  \<^verbatim>\<open>Queries\<close>, \<^verbatim>\<open>Overlay\<close>: browsing with the
  states on branches, what is shown and that nothing is left out.  \<^verbatim>\<open>Search\<close>, \<^verbatim>\<open>Tags\<close>: search patterns and
  lists of tags on their way through the database.  \<^verbatim>\<open>CommonsTypes\<close>, \<^verbatim>\<open>CommonsOps\<close>: the store.
  \<^verbatim>\<open>Scoreboard\<close>, \<^verbatim>\<open>ScoreDetail\<close>, \<^verbatim>\<open>ScoreboardProps\<close>: the ranking of rigs and its endpoint, and
  what each entry says, column by column.
  \<^verbatim>\<open>DoltCli\<close>: the processes of \<^verbatim>\<open>dolt.go\<close>.

  \<^bold>\<open>Databases\<close> (\<^verbatim>\<open>internal/backend\<close>, \<^verbatim>\<open>internal/remote\<close>).  \<^verbatim>\<open>Remote\<close>, \<^verbatim>\<open>RemoteProps\<close>: DoltHub's write API, which is
  polled; \<^verbatim>\<open>ApiCsv\<close>: its answers as CSV.  \<^verbatim>\<open>LocalDb\<close>: the local clone, as a log of
  processes.  \<^verbatim>\<open>Dolthub\<close>, \<^verbatim>\<open>Pending\<close>, \<^verbatim>\<open>DolthubFork\<close>, \<^verbatim>\<open>PendingProps\<close>: pull requests and their cache, the
  listing of pending submissions, with a specification of it in terms of what DoltHub and the forks answer, forks.  \<^verbatim>\<open>Providers\<close>: databases in files, in git and on GitHub.

  \<^bold>\<open>The client\<close> (\<^verbatim>\<open>internal/sdk\<close>).  \<^verbatim>\<open>SdkTypes\<close>, \<^verbatim>\<open>SdkReads\<close>, \<^verbatim>\<open>Sdk\<close>; \<^verbatim>\<open>SdkOps\<close> and \<^verbatim>\<open>SdkProps\<close> show what
  holds of every operation: which branch it works on (whatever its callbacks for pull requests do is kept apart), that a repetition does nothing, what it reports.

  \<^bold>\<open>The HTTP API\<close> (\<^verbatim>\<open>internal/api\<close>).  \<^verbatim>\<open>ReadCache\<close> models the cache as the steps of its callers and goroutines;
  \<^verbatim>\<open>CacheProps\<close>, \<^verbatim>\<open>CacheFresh\<close>, \<^verbatim>\<open>CacheLive\<close> show that it coalesces, that no caller is served what an
  invalidation removed, that it is bounded, and that a caller can always return without being cancelled.  \<^verbatim>\<open>ApiKeys\<close>:
  the keys.  \<^verbatim>\<open>Api\<close>, \<^verbatim>\<open>ApiTypes\<close>, \<^verbatim>\<open>ApiJson\<close>, \<^verbatim>\<open>ApiHandlers\<close>, \<^verbatim>\<open>ApiCaches\<close>, \<^verbatim>\<open>ApiRuns\<close>: the handlers and what they do to the
  caches; \<^verbatim>\<open>ApiProps\<close>, \<^verbatim>\<open>ApiTyped\<close>: a board or item out of a cache is recent, or marked as stale, and the answers of these routes are JSON.  \<^verbatim>\<open>RateLimit\<close>: token
  buckets.

  \<^bold>\<open>The auth service\<close> (\<^verbatim>\<open>internal/dolthubauth\<close>).  \<^verbatim>\<open>AuthTypes\<close>, \<^verbatim>\<open>AuthStore\<close>, \<^verbatim>\<open>ServiceAuth\<close>, \<^verbatim>\<open>AuthServer\<close>: its data,
  tables, signatures and handlers.  \<^verbatim>\<open>AuthProps\<close>, \<^verbatim>\<open>AuthTokens\<close>, \<^verbatim>\<open>AuthScope\<close>, \<^verbatim>\<open>AuthSafety\<close>: a request changes its own
  connection only, a nonce and a connect token count once, no update is lost, the tables stay
  consistent.  \<^verbatim>\<open>AuthSign\<close>, \<^verbatim>\<open>AuthCalls\<close>: the client's side.
  \<^verbatim>\<open>AuthCipher\<close>, \<^verbatim>\<open>CipherProps\<close>: the configuration, the ciphers for the stored keys and the envelope around a key service:
  what is sealed opens again, and the cache of unwrapped keys changes no answer.

  \<^bold>\<open>The hosted service\<close> (\<^verbatim>\<open>internal/hosted\<close>).  \<^verbatim>\<open>HostedSession\<close>, \<^verbatim>\<open>PendingCache\<close>, \<^verbatim>\<open>HostedResolver\<close>, \<^verbatim>\<open>HostedServer\<close>,
  \<^verbatim>\<open>HostedApp\<close>; \<^verbatim>\<open>HostedInv\<close>, \<^verbatim>\<open>HostedProps\<close> show that a browser is only ever given the clients of its own
  connection, over every run of requests and failures.

  \<^bold>\<open>The federation\<close> (\<^verbatim>\<open>internal/federation\<close>).  \<^verbatim>\<open>FedConfig\<close>, \<^verbatim>\<open>FedJoin\<close>: the store of configurations, joining and
  creating.  \<^verbatim>\<open>FedProps\<close>, \<^verbatim>\<open>FedFlow\<close>: a configuration reads back as it was saved, a save is all or
  nothing whatever calls fail, and a workflow that fails leaves every configuration as it was.  \<^verbatim>\<open>HandleCache\<close>
  (\<^verbatim>\<open>internal/githubcache\<close>): the map from handles to GitHub names that is kept in a file.

  \<^bold>\<open>Interfaces.\<close>  A locale states each contract that several parts share, and an interpretation on the model's own
  definitions discharges it: for example \<^verbatim>\<open>read_through\<close> for the caches, \<^verbatim>\<open>process_log\<close> for the processes
  of a clone, \<^verbatim>\<open>branch_frame\<close> for the branch a client may touch, \<^verbatim>\<open>workflow\<close> for joining.  Properties are stated
  outside of them, over the definitions.

  \<^bold>\<open>Parameters.\<close>  What is not in the repository is an argument of the definitions that use it: the world \<open>'s\<close>
  with the functions that act on it (\<^verbatim>\<open>http\<close>, \<^verbatim>\<open>sys\<close> for processes, \<^verbatim>\<open>io\<close> for failures of the file system, \<^verbatim>\<open>net\<close>), the
  clock and random bytes, SHA-256, HMAC, AES-GCM and the key service (\<^verbatim>\<open>k\<close>), letters outside ASCII (\<^verbatim>\<open>uni\<close>), whether the engine reads
  backslash escapes (\<^verbatim>\<open>esc\<close>), reading and printing of floats (\<^verbatim>\<open>pf\<close>, \<^verbatim>\<open>ft\<close>), failures of Postgres (\<^verbatim>\<open>flt\<close>).
  What a theorem assumes of them is a hypothesis in its statement, and its witness gives concrete ones.

  \<^bold>\<open>Bounds and fuel.\<close>  The JSON decoder runs on fuel twice the length of the text and two more; each
  level of it reads a byte, so that it does not run out.  Loops that wait take their number of rounds from the
  source's deadlines: a write is polled for 120 s with pauses of 500 ms doubled up to 8 s, which is at most 19 of
  them; a fork is awaited for 120 s; a clone is tried again for 120 s with pauses of 2 s doubled up to 16 s,
  which is at most 11 clones; a process is tried again three times; \<^verbatim>\<open>CreateTemp\<close> tries 10000 names.  Loops over
  pages that a server may prolong for ever are partial functions whose value None is that they do not return.
  Integers that stay far from the width of \<^verbatim>\<open>int64\<close>, such as times in nanoseconds, are unbounded; the arithmetic of the
  token buckets wraps at 64 bits and the generations of the read cache are words of 64 bits, and the theorems about them say
  for how long they hold.

  \<^bold>\<open>Not modelled.\<close>  The terminal interface, the command line and the printing around them; the
  set-up of tracing and error reports, which returns nothing to the program; profiles of \<^verbatim>\<open>internal/pile\<close>, which are
  one or two queries each; the backfill tool; the web front end.  \<^verbatim>\<open>Diff\<close> of the DoltHub database prints in the order of a Go
  map and is left out.  In the HTTP API the profile, configuration and tracing endpoints and the static files are left
  out.  Panics of dependencies are not modelled, but for that of AES-GCM on a nonce of the wrong length.  A mutex makes what it guards one step; where goroutines overlap
  outside of one (the read cache, the pending cache) their steps are modelled and interleave freely.
\<close>

end
